(* ===== verification/Prelude.thy ===== *)
theory Prelude
  imports
    Main
    "HOL-Library.Word"
    "HOL-Library.Char_ord"
    "HOL-Library.List_Lexorder"
    "HOL-Library.Product_Lexorder"
begin

text \<open>
  Shared vocabulary of the development: machine integer types, C strings, and the generic
  list and string lemmas that several components use.

  A C string is a \<open>string\<close> (a list of bytes) without NUL bytes; a pointer that may be
  null is a \<open>string option\<close>. Text columns of SQLite use the binary collation, which is
  the lexicographic order on bytes given by the library's orders on characters and lists;
  row values compare lexicographically, as products do.
\<close>

named_theorems table_simps \<open>facts about the key sets of tables\<close>
named_theorems store_simps \<open>effects of the statements of the index writer\<close>

type_synonym u32 = "32 word"
type_synonym u64 = "64 word"

section \<open>C strings\<close>

definition NUL :: char where
  "NUL = CHR 0x00"

definition c_string :: "string \<Rightarrow> bool" where
  "c_string s \<longleftrightarrow> NUL \<notin> set s"

text \<open>The text of a string as a C function sees it.\<close>

definition c_text :: "string \<Rightarrow> string" where
  "c_text s = takeWhile (\<lambda>c. c \<noteq> NUL) s"

text \<open>The test \<open>s && s[0]\<close>.\<close>

definition nonempty :: "string option \<Rightarrow> bool" where
  "nonempty s = (case s of None \<Rightarrow> False | Some t \<Rightarrow> t \<noteq> [])"

text \<open>The expression \<open>s ? s : ""\<close>.\<close>

definition or_empty :: "string option \<Rightarrow> string" where
  "or_empty s = (case s of None \<Rightarrow> [] | Some t \<Rightarrow> t)"

lemma nonempty_simps [simp]:
  "\<not> nonempty None" "nonempty (Some t) \<longleftrightarrow> t \<noteq> []"
  by (simp_all add: nonempty_def)

lemma or_empty_simps [simp]: "or_empty None = []" "or_empty (Some t) = t"
  by (simp_all add: or_empty_def)

text \<open>\<open>strstr (s, sub) != NULL\<close>.\<close>

fun starts_with :: "string \<Rightarrow> string \<Rightarrow> bool" where
  "starts_with [] _ = True"
| "starts_with (_ # _) [] = False"
| "starts_with (p # ps) (c # cs) = (p = c \<and> starts_with ps cs)"

fun contains_sub :: "string \<Rightarrow> string \<Rightarrow> bool" where
  "contains_sub sub [] = (sub = [])"
| "contains_sub sub (c # cs) = (starts_with sub (c # cs) \<or> contains_sub sub cs)"

lemma starts_with_take: "starts_with p s \<longleftrightarrow> take (length p) s = p"
  by (induction p s rule: starts_with.induct) auto

lemma starts_with_append: "starts_with p s \<longleftrightarrow> (\<exists>t. s = p @ t)"
  by (induction p s rule: starts_with.induct) auto

text \<open>\<open>strrchr (s, c)\<close> as an offset.\<close>

fun strrchr :: "string \<Rightarrow> char \<Rightarrow> nat option" where
  "strrchr [] c = None"
| "strrchr (x # xs) c =
     (case strrchr xs c of Some i \<Rightarrow> Some (Suc i) | None \<Rightarrow> if x = c then Some 0 else None)"

lemma strrchr_None: "strrchr s c = None \<longleftrightarrow> c \<notin> set s"
  by (induction s) (auto split: option.splits)

lemma strrchr_Some:
  "strrchr s c = Some i \<longleftrightarrow> i < length s \<and> s ! i = c \<and> c \<notin> set (drop (Suc i) s)"
proof (induction s arbitrary: i)
  case Nil
  then show ?case by simp
next
  case (Cons x xs)
  show ?case
  proof (cases i)
    case 0
    then show ?thesis
      by (auto simp: strrchr_None [symmetric] split: option.splits)
  next
    case (Suc j)
    then show ?thesis
      using Cons.IH [of j] by (auto split: option.splits)
  qed
qed

lemma strrchr_split:
  assumes "strrchr s c = Some i"
  shows "s = take i s @ c # drop (Suc i) s"
  using assms id_take_nth_drop by (auto simp: strrchr_Some)

lemma strrchr_append:
  "c \<notin> set t \<Longrightarrow> strrchr (s @ c # t) c = Some (length s)"
  by (induction s) (auto simp: strrchr_None split: option.splits)

text \<open>\<open>strchr (s, c)\<close> as an offset.\<close>

fun strchr :: "string \<Rightarrow> char \<Rightarrow> nat option" where
  "strchr [] c = None"
| "strchr (x # xs) c = (if x = c then Some 0 else map_option Suc (strchr xs c))"

lemma strchr_None: "strchr s c = None \<longleftrightarrow> c \<notin> set s"
  by (induction s) auto

lemma strchr_Some:
  "strchr s c = Some i \<longleftrightarrow> i < length s \<and> s ! i = c \<and> c \<notin> set (take i s)"
proof (induction s arbitrary: i)
  case Nil
  then show ?case by simp
next
  case (Cons x xs)
  show ?case by (cases i) (auto simp: Cons.IH)
qed

section \<open>Loops that may fail\<close>

text \<open>A loop whose body may fail stops at the first failure.\<close>

fun for_each :: "('x \<Rightarrow> 's \<Rightarrow> bool \<times> 's) \<Rightarrow> 'x list \<Rightarrow> 's \<Rightarrow> bool \<times> 's" where
  "for_each f [] s = (True, s)"
| "for_each f (x # xs) s =
     (case f x s of (False, s1) \<Rightarrow> (False, s1) | (True, s1) \<Rightarrow> for_each f xs s1)"

section \<open>Generic list lemmas\<close>

lemma image_set_fold_append:
  "f ` set (xs @ ys) = f ` set xs \<union> f ` set ys"
  by (simp add: image_Un)

lemma fold_invariant:
  assumes "P s" and "\<And>x s. x \<in> set xs \<Longrightarrow> P s \<Longrightarrow> P (f x s)"
  shows "P (fold f xs s)"
  using assms by (induction xs arbitrary: s) auto

lemma distinct_map_unique:
  assumes "distinct (map f xs)" and "x \<in> set xs" and "y \<in> set xs" and "f x = f y"
  shows "x = y"
  using assms by (auto simp: distinct_map inj_on_def)

end
