(* ===== verification/Tables.thy ===== *)
theory Tables
  imports Prelude
begin

text \<open>
  The statements of SQL that both databases are built from, on tables as lists of rows:
  \<open>INSERT OR IGNORE\<close>, \<open>INSERT ... ON CONFLICT (key) DO UPDATE\<close>, \<open>DELETE ... WHERE\<close> and
  \<open>UPDATE ... WHERE\<close>. The primary key of a table is a function on its rows. The order of
  a list stands for no order that the code relies on: every query that depends on order has
  an \<open>ORDER BY\<close>.

  The locale \<open>row_insert\<close> is the contract between a statement that inserts rows and the
  components that stage and merge whole sets of rows with it.
\<close>

definition insert_ignore :: "('r \<Rightarrow> 'k) \<Rightarrow> 'r \<Rightarrow> 'r list \<Rightarrow> 'r list" where
  "insert_ignore key r t = (if key r \<in> key ` set t then t else t @ [r])"

definition upsert :: "('r \<Rightarrow> 'k) \<Rightarrow> ('r \<Rightarrow> 'r \<Rightarrow> 'r) \<Rightarrow> 'r \<Rightarrow> 'r list \<Rightarrow> 'r list" where
  "upsert key merge r t =
     (if key r \<in> key ` set t then map (\<lambda>x. if key x = key r then merge x r else x) t
      else t @ [r])"

definition delete_where :: "('r \<Rightarrow> bool) \<Rightarrow> 'r list \<Rightarrow> 'r list" where
  "delete_where P t = filter (\<lambda>r. \<not> P r) t"

definition update_where :: "('r \<Rightarrow> bool) \<Rightarrow> ('r \<Rightarrow> 'r) \<Rightarrow> 'r list \<Rightarrow> 'r list" where
  "update_where P f t = map (\<lambda>r. if P r then f r else r) t"

section \<open>The contract of an insertion\<close>

locale row_insert =
  fixes key :: "'r \<Rightarrow> 'k"
    and ins :: "'r \<Rightarrow> 'r list \<Rightarrow> 'r list"
  assumes ins_keys: "key ` set (ins r t) = insert (key r) (key ` set t)"
    and ins_distinct: "distinct (map key t) \<Longrightarrow> distinct (map key (ins r t))"
begin

lemma fold_ins_keys: "key ` set (fold ins rs t) = key ` set t \<union> key ` set rs"
  by (induction rs arbitrary: t) (auto simp: ins_keys)

lemma fold_ins_distinct: "distinct (map key t) \<Longrightarrow> distinct (map key (fold ins rs t))"
  by (induction rs arbitrary: t) (auto simp: ins_distinct)

lemma fold_ins_mono: "key ` set t \<subseteq> key ` set (fold ins rs t)"
  by (simp add: fold_ins_keys)

end

lemma insert_ignore_contract: "row_insert key (insert_ignore key)"
  by unfold_locales (auto simp: insert_ignore_def)

lemma map_key_update:
  assumes "\<And>x. key (f x) = key x"
  shows "map key (map (\<lambda>x. if P x then f x else x) t) = map key t"
  using assms by simp

lemma upsert_contract:
  assumes "\<And>x r. key x = key r \<Longrightarrow> key (merge x r) = key r"
  shows "row_insert key (upsert key merge)"
proof unfold_locales
  have same: "map key (map (\<lambda>x. if key x = key r then merge x r else x) t) = map key t" for r t
    using assms by auto
  have same_set: "key ` set (map (\<lambda>x. if key x = key r then merge x r else x) t) = key ` set t"
    for r t
    using arg_cong [OF same, of set r t] by (simp only: set_map)
  show "key ` set (upsert key merge r t) = insert (key r) (key ` set t)" for r t
    unfolding upsert_def by (simp only: same_set split: if_splits) auto
  show "distinct (map key (upsert key merge r t))" if "distinct (map key t)" for r t
    using that unfolding upsert_def by (simp only: same split: if_splits) auto
qed

section \<open>Effects of the single statements\<close>

lemma insert_ignore_present [table_simps]:
  "key r \<in> key ` set t \<Longrightarrow> insert_ignore key r t = t"
  by (simp add: insert_ignore_def)

lemma insert_ignore_mono: "set t \<subseteq> set (insert_ignore key r t)"
  by (auto simp: insert_ignore_def)

lemma fold_insert_ignore_mono: "set t \<subseteq> set (fold (insert_ignore key) rs t)"
  by (induction rs arbitrary: t) (auto dest: subsetD [OF insert_ignore_mono])

lemma fold_insert_ignore_noop:
  "key ` set rs \<subseteq> key ` set t \<Longrightarrow> fold (insert_ignore key) rs t = t"
  by (induction rs) (auto simp: table_simps)

lemma fold_insert_ignore_sub: "set (fold (insert_ignore key) rs t) \<subseteq> set t \<union> set rs"
  by (induction rs arbitrary: t) (fastforce simp: insert_ignore_def split: if_splits)+

lemma set_delete_where [table_simps]: "set (delete_where P t) = {r \<in> set t. \<not> P r}"
  by (auto simp: delete_where_def)

lemma set_update_where [table_simps]:
  "set (update_where P f t) = (\<lambda>r. if P r then f r else r) ` set t"
  by (simp add: update_where_def)

lemma distinct_delete_where:
  "distinct (map key t) \<Longrightarrow> distinct (map key (delete_where P t))"
  by (simp add: delete_where_def distinct_map_filter)

lemma map_update_where:
  "(\<And>r. key (f r) = key r) \<Longrightarrow> map key (update_where P f t) = map key t"
  by (simp add: update_where_def)

end
