(* ===== verification/Semindex_Types.thy ===== *)
theory Semindex_Types
  imports Prelude
begin

text \<open>
  The data model of the public header \<open>include/semindex.h\<close>: enumerations as datatypes with
  their integer codes, structs as records. Flags that the header declares as \<open>int\<close> stay
  integers, identities are 64-bit words, positions and mode masks are 32-bit words.

  The record \<open>index\<close> is the part of an in-memory index that its C accessors expose:
  \<open>semindex_get_symbol\<close>, \<open>semindex_get_use\<close>, \<open>semindex_get_function_signature\<close> and
  \<open>semindex_get_file_fingerprint\<close> read these lists by position.
\<close>

section \<open>Enumerations\<close>

datatype symbol_kind =
    SYMBOL_VAR | SYMBOL_FIELD | SYMBOL_STRUCT | SYMBOL_UNION | SYMBOL_ENUM
  | SYMBOL_ENUM_CONSTANT | SYMBOL_TYPEDEF | SYMBOL_FUNCTION | SYMBOL_MACRO | SYMBOL_FILE
  | SYMBOL_CLASS | SYMBOL_LAMBDA | SYMBOL_TEMPLATE

fun kind_code :: "symbol_kind \<Rightarrow> int" where
  "kind_code SYMBOL_VAR = 0"
| "kind_code SYMBOL_FIELD = 1"
| "kind_code SYMBOL_STRUCT = 2"
| "kind_code SYMBOL_UNION = 3"
| "kind_code SYMBOL_ENUM = 4"
| "kind_code SYMBOL_ENUM_CONSTANT = 5"
| "kind_code SYMBOL_TYPEDEF = 6"
| "kind_code SYMBOL_FUNCTION = 7"
| "kind_code SYMBOL_MACRO = 8"
| "kind_code SYMBOL_FILE = 9"
| "kind_code SYMBOL_CLASS = 10"
| "kind_code SYMBOL_LAMBDA = 11"
| "kind_code SYMBOL_TEMPLATE = 12"

datatype use_kind = USE_READ | USE_WRITE | USE_ADDR | USE_CALL

fun use_code :: "use_kind \<Rightarrow> int" where
  "use_code USE_READ = 0"
| "use_code USE_WRITE = 1"
| "use_code USE_ADDR = 2"
| "use_code USE_CALL = 3"

definition MODE_R_AOF :: u32 where "MODE_R_AOF = 1"
definition MODE_W_AOF :: u32 where "MODE_W_AOF = 2"
definition MODE_R_VAL :: u32 where "MODE_R_VAL = 4"
definition MODE_W_VAL :: u32 where "MODE_W_VAL = 8"
definition MODE_R_PTR :: u32 where "MODE_R_PTR = 16"
definition MODE_W_PTR :: u32 where "MODE_W_PTR = 32"

lemmas mode_defs = MODE_R_AOF_def MODE_W_AOF_def MODE_R_VAL_def MODE_W_VAL_def MODE_R_PTR_def
  MODE_W_PTR_def

datatype scope = SCOPE_FILE | SCOPE_PROJECT | SCOPE_ALL

definition PROPERTY_CONSTRUCTOR :: u64 where "PROPERTY_CONSTRUCTOR = 1"
definition PROPERTY_DESTRUCTOR :: u64 where "PROPERTY_DESTRUCTOR = 2"

datatype index_status = INDEX_CLEAN | INDEX_PARTIAL | INDEX_FAILED

text \<open>The kinds are ordered by their codes, as comparisons of the enumeration are in C.\<close>

instantiation symbol_kind :: linorder
begin

definition less_eq_symbol_kind :: "symbol_kind \<Rightarrow> symbol_kind \<Rightarrow> bool" where
  "less_eq_symbol_kind a b \<longleftrightarrow> kind_code a \<le> kind_code b"

definition less_symbol_kind :: "symbol_kind \<Rightarrow> symbol_kind \<Rightarrow> bool" where
  "less_symbol_kind a b \<longleftrightarrow> kind_code a < kind_code b"

instance
proof
  fix a b c :: symbol_kind
  show "a < b \<longleftrightarrow> a \<le> b \<and> \<not> b \<le> a" "a \<le> a" "a \<le> b \<or> b \<le> a"
    by (auto simp: less_eq_symbol_kind_def less_symbol_kind_def)
  show "a \<le> b \<Longrightarrow> b \<le> c \<Longrightarrow> a \<le> c" by (simp add: less_eq_symbol_kind_def)
  show "a \<le> b \<Longrightarrow> b \<le> a \<Longrightarrow> a = b"
    by (cases a; cases b) (simp_all add: less_eq_symbol_kind_def)
qed

end

lemma kind_code_inject [simp]: "kind_code a = kind_code b \<longleftrightarrow> a = b"
  by (cases a; cases b) simp_all

lemma kind_code_range: "0 \<le> kind_code k \<and> kind_code k \<le> 12"
  by (cases k) simp_all

lemma use_code_inject [simp]: "use_code a = use_code b \<longleftrightarrow> a = b"
  by (cases a; cases b) simp_all

section \<open>Records of an index\<close>

record compile_command =
  cc_directory :: "string option"
  cc_file :: string
  cc_argv :: "string list"

record index_result =
  ir_status :: index_status
  ir_warnings :: u32
  ir_errors :: u32
  ir_fatal :: int

record parameter =
  par_name :: "string option"
  par_type :: "string option"
  par_canonical_type :: "string option"
  par_type_kind :: symbol_kind
  par_type_symbol :: "string option"
  par_type_usr :: "string option"
  par_type_usr_id :: u64

record signature =
  sig_name :: "string option"
  sig_owner :: "string option"
  sig_usr :: "string option"
  sig_usr_id :: u64
  sig_return_type :: "string option"
  sig_canonical_return_type :: "string option"
  sig_parameters :: "parameter list"
  sig_file :: string
  sig_file_index :: nat
  sig_variadic :: int

record symbol =
  sym_kind :: symbol_kind
  sym_name :: "string option"
  sym_owner :: "string option"
  sym_type :: "string option"
  sym_canonical_type :: "string option"
  sym_type_kind :: symbol_kind
  sym_type_symbol :: "string option"
  sym_type_usr :: "string option"
  sym_type_usr_id :: u64
  sym_usr :: "string option"
  sym_usr_id :: u64
  sym_context :: "string option"
  sym_file :: string
  sym_file_index :: nat
  sym_line :: u32
  sym_column :: u32
  sym_local :: int
  sym_definition :: int
  sym_properties :: u64
  sym_order :: u64

record use =
  use_kind_of :: use_kind
  use_symbol_kind :: symbol_kind
  use_mode :: u32
  use_name :: "string option"
  use_owner :: "string option"
  use_type :: "string option"
  use_usr :: "string option"
  use_context :: "string option"
  use_context_usr :: "string option"
  use_usr_id :: u64
  use_context_usr_id :: u64
  use_file :: string
  use_file_index :: nat
  use_line :: u32
  use_column :: u32
  use_local :: int
  use_order :: u64

type_synonym digest = "8 word list"

record file_fingerprint =
  fp_file :: string
  fp_data :: digest
  fp_record_count :: nat

record index =
  ix_symbols :: "symbol list"
  ix_uses :: "use list"
  ix_signatures :: "signature list"
  ix_fingerprints_nonlocal :: "file_fingerprint list"
  ix_fingerprints_all :: "file_fingerprint list"

text \<open>
  \<open>semindex_file_fingerprint_count\<close> and \<open>semindex_get_file_fingerprint\<close>: the count is the
  length of the list for non-local records, the lookup selects the list by
  \<open>include_local\<close> and is null out of range.
\<close>

definition file_fingerprint_count :: "index \<Rightarrow> nat" where
  "file_fingerprint_count ix = length (ix_fingerprints_nonlocal ix)"

definition get_file_fingerprint :: "index \<Rightarrow> nat \<Rightarrow> bool \<Rightarrow> file_fingerprint option" where
  "get_file_fingerprint ix i include_local =
     (let fps = (if include_local then ix_fingerprints_all ix else ix_fingerprints_nonlocal ix)
      in if i < length fps then Some (fps ! i) else None)"

end
