(* ===== verification/Index_Db.thy ===== *)
theory Index_Db
  imports Tables Semindex_Types
begin

text \<open>
  The symbol index database of \<open>lib/semindex_index_db/index_db_writer.c\<close>: the rows of its
  tables, the private staging tables of one writer, and the SQL statements the writer
  executes, as functions on both.

  The four record tables of the database and of the staging area have the same columns but
  for the file: the database refers to a row of \<open>files\<close> by its id, the staging area names
  the path. A row of such a table is therefore a pair of a file reference and the remaining
  columns. Integer columns hold what SQLite stores, a signed 64-bit value as an \<open>int\<close>.
\<close>

section \<open>Columns\<close>

record rec_data =
  r_symbol :: string
  r_record :: int
  r_action :: int
  r_kind :: int
  r_mode :: int
  r_line :: int
  r_column :: int
  r_context :: string
  r_usr_id :: "int option"
  r_context_usr_id :: "int option"
  r_local :: int

record type_data =
  t_symbol :: string
  t_kind :: int
  t_usr_id :: int
  t_declared_type :: string
  t_canonical_type :: string
  t_type_symbol :: string
  t_type_kind :: int
  t_type_usr_id :: int

record ftype_data =
  ft_symbol :: string
  ft_usr_id :: int
  ft_position :: int
  ft_name :: string
  ft_declared_type :: string
  ft_canonical_type :: string
  ft_type_symbol :: string
  ft_type_kind :: int
  ft_type_usr_id :: int
  ft_variadic :: int

record prop_data =
  p_symbol :: string
  p_kind :: int
  p_usr_id :: int
  p_properties :: u64

record file_row =
  f_id :: nat
  f_variant :: string
  f_path :: string
  f_mtime :: int
  f_size :: int

record variant_row =
  v_name :: string
  v_git_commit :: "string option"
  v_repository_root :: "string option"

record staging_file =
  s_path :: string
  s_mtime :: int
  s_size :: int
  s_is_main :: bool
  s_ordinal :: "nat option"
  s_fingerprint :: "digest option"
  s_cached :: bool

text \<open>
  The primary keys, without the file column: the columns of \<open>PRIMARY KEY (...)\<close> in the schema.
\<close>

type_synonym rec_id = "string \<times> int \<times> int \<times> int \<times> int \<times> int \<times> int"
type_synonym ftype_id = "string \<times> int \<times> int \<times> string \<times> string \<times> string \<times> int \<times> int"
type_synonym prop_id = "string \<times> int \<times> int"

definition rec_id :: "rec_data \<Rightarrow> rec_id" where
  "rec_id d = (r_symbol d, r_record d, r_action d, r_kind d, r_mode d, r_line d, r_column d)"

definition ftype_id :: "ftype_data \<Rightarrow> ftype_id" where
  "ftype_id d = (ft_symbol d, ft_usr_id d, ft_position d, ft_declared_type d,
     ft_canonical_type d, ft_type_symbol d, ft_type_kind d, ft_type_usr_id d)"

definition prop_id :: "prop_data \<Rightarrow> prop_id" where
  "prop_id d = (p_symbol d, p_kind d, p_usr_id d)"

definition pk :: "('d \<Rightarrow> 'k) \<Rightarrow> 'f \<times> 'd \<Rightarrow> 'f \<times> 'k" where
  "pk idf r = (fst r, idf (snd r))"

lemma pk_simp [simp]: "pk idf (f, d) = (f, idf d)"
  by (simp add: pk_def)

section \<open>States\<close>

text \<open>
  \<open>db_tables\<close> and \<open>db_indexes\<close> are the names in \<open>sqlite_schema\<close>, \<open>db_version\<close> is
  \<open>PRAGMA user_version\<close>. The temporary tables of a connection are its \<open>staging\<close>.
\<close>

record database =
  db_version :: int
  db_tables :: "string list"
  db_indexes :: "string list"
  db_files :: "file_row list"
  db_records :: "(nat \<times> rec_data) list"
  db_types :: "(nat \<times> type_data) list"
  db_ftypes :: "(nat \<times> ftype_data) list"
  db_props :: "(nat \<times> prop_data) list"
  db_variants :: "variant_row list"
  db_fps :: "(nat \<times> digest) list"

record staging =
  st_tables :: "string list"
  st_files :: "staging_file list"
  st_records :: "(string \<times> rec_data) list"
  st_types :: "(string \<times> type_data) list"
  st_ftypes :: "(string \<times> ftype_data) list"
  st_props :: "(string \<times> prop_data) list"

definition empty_database :: database where
  "empty_database = \<lparr>db_version = 0, db_tables = [], db_indexes = [], db_files = [],
     db_records = [], db_types = [], db_ftypes = [], db_props = [], db_variants = [],
     db_fps = []\<rparr>"

definition empty_staging :: staging where
  "empty_staging = \<lparr>st_tables = [], st_files = [], st_records = [], st_types = [],
     st_ftypes = [], st_props = []\<rparr>"

type_synonym view = "database \<times> staging"

section \<open>The statements of the writer\<close>

text \<open>Inserting a row with a property mask: \<open>properties = properties | excluded.properties\<close>.\<close>

definition merge_prop :: "'f \<times> prop_data \<Rightarrow> 'f \<times> prop_data \<Rightarrow> 'f \<times> prop_data" where
  "merge_prop x r = (fst x, (snd x)\<lparr>p_properties := or (p_properties (snd x)) (p_properties (snd r))\<rparr>)"

definition ins_record :: "'f \<times> rec_data \<Rightarrow> ('f \<times> rec_data) list \<Rightarrow> ('f \<times> rec_data) list" where
  "ins_record = insert_ignore (pk rec_id)"

definition ins_type :: "'f \<times> type_data \<Rightarrow> ('f \<times> type_data) list \<Rightarrow> ('f \<times> type_data) list" where
  "ins_type = insert_ignore (pk id)"

definition ins_ftype :: "'f \<times> ftype_data \<Rightarrow> ('f \<times> ftype_data) list \<Rightarrow> ('f \<times> ftype_data) list" where
  "ins_ftype = insert_ignore (pk ftype_id)"

definition ins_prop :: "'f \<times> prop_data \<Rightarrow> ('f \<times> prop_data) list \<Rightarrow> ('f \<times> prop_data) list" where
  "ins_prop = upsert (pk prop_id) merge_prop"

definition ins_fp :: "nat \<times> digest \<Rightarrow> (nat \<times> digest) list \<Rightarrow> (nat \<times> digest) list" where
  "ins_fp = insert_ignore (pk id)"

text \<open>
  \<open>INSERT INTO staging_files ... ON CONFLICT (path) DO UPDATE\<close>: the two forms of
  \<open>stage_files\<close>, for an included file and for the main file.
\<close>

definition ins_staging_file :: "staging_file \<Rightarrow> staging_file list \<Rightarrow> staging_file list" where
  "ins_staging_file = upsert s_path (\<lambda>x r. x\<lparr>s_mtime := s_mtime r, s_size := s_size r,
     s_is_main := s_is_main r, s_ordinal := s_ordinal r, s_fingerprint := s_fingerprint r\<rparr>)"

definition ins_staging_main :: "staging_file \<Rightarrow> staging_file list \<Rightarrow> staging_file list" where
  "ins_staging_main = upsert s_path (\<lambda>x r. x\<lparr>s_mtime := s_mtime r, s_size := s_size r,
     s_is_main := True, s_fingerprint := None\<rparr>)"

text \<open>A new row of \<open>files\<close> takes the id after the largest one.\<close>

definition next_file_id :: "file_row list \<Rightarrow> nat" where
  "next_file_id fs = Suc (fold max (map f_id fs) 0)"

definition file_key :: "file_row \<Rightarrow> string \<times> string" where
  "file_key f = (f_variant f, f_path f)"

definition ins_file :: "string \<Rightarrow> staging_file \<Rightarrow> file_row list \<Rightarrow> file_row list" where
  "ins_file v s fs =
     (if (v, s_path s) \<in> file_key ` set fs then fs
      else fs @ [\<lparr>f_id = next_file_id fs, f_variant = v, f_path = s_path s,
                  f_mtime = s_mtime s, f_size = s_size s\<rparr>])"

text \<open>The condition under which the rows of a file are deleted before a merge.\<close>

definition stale_by :: "string \<Rightarrow> staging_file list \<Rightarrow> file_row \<Rightarrow> bool" where
  "stale_by v ss f \<longleftrightarrow> f_variant f = v \<and>
     (\<exists>s \<in> set ss. s_path s = f_path f \<and>
        (s_is_main s \<or> f_mtime f \<noteq> s_mtime s \<or> f_size f \<noteq> s_size s))"

definition stale_ids :: "string \<Rightarrow> view \<Rightarrow> nat list" where
  "stale_ids v w = map f_id (filter (stale_by v (st_files (snd w))) (db_files (fst w)))"

definition delete_stale :: "string \<Rightarrow> view \<Rightarrow> (nat \<times> 'd) list \<Rightarrow> (nat \<times> 'd) list" where
  "delete_stale v w t = delete_where (\<lambda>r. fst r \<in> set (stale_ids v w)) t"

text \<open>\<open>UPDATE files SET mtime_ns = ..., size = ...\<close> from the staged row of the same path.\<close>

definition restamp :: "staging_file list \<Rightarrow> file_row \<Rightarrow> file_row" where
  "restamp ss f = (case find (\<lambda>s. s_path s = f_path f) ss of None \<Rightarrow> f
     | Some s \<Rightarrow> f\<lparr>f_mtime := s_mtime s, f_size := s_size s\<rparr>)"

text \<open>\<open>SELECT ... FROM staging_t JOIN files ON files.path = staging_t.path AND files.variant = v\<close>.\<close>

definition join_files :: "string \<Rightarrow> file_row list \<Rightarrow> (string \<times> 'd) list \<Rightarrow> (nat \<times> 'd) list" where
  "join_files v fs rows =
     [(f_id f, d). (p, d) \<leftarrow> rows, f \<leftarrow> filter (\<lambda>f. f_path f = p \<and> f_variant f = v) fs]"

text \<open>
  The subquery of the cache test: the same variant, path, modification time and size, and the
  fingerprint is one of the file's.
\<close>

definition fingerprint_known :: "string \<Rightarrow> database \<Rightarrow> staging_file \<Rightarrow> bool" where
  "fingerprint_known v db s \<longleftrightarrow>
     (\<exists>f \<in> set (db_files db). f_variant f = v \<and> f_path f = s_path s \<and>
        f_mtime f = s_mtime s \<and> f_size f = s_size s \<and>
        (case s_fingerprint s of None \<Rightarrow> False | Some h \<Rightarrow> (f_id f, h) \<in> set (db_fps db)))"

definition cacheable :: "string \<Rightarrow> database \<Rightarrow> staging_file \<Rightarrow> bool" where
  "cacheable v db s \<longleftrightarrow> \<not> s_is_main s \<and> s_mtime s \<noteq> 0 \<and> fingerprint_known v db s"

text \<open>
  \<open>ON CONFLICT (name) DO UPDATE SET git_commit = coalesce (excluded.git_commit, ...)\<close>. Its
  \<open>WHERE\<close> only suppresses updates that change nothing.
\<close>

definition coalesce :: "'a option \<Rightarrow> 'a option \<Rightarrow> 'a option" where
  "coalesce a b = (case a of None \<Rightarrow> b | Some _ \<Rightarrow> a)"

definition ins_variant :: "variant_row \<Rightarrow> variant_row list \<Rightarrow> variant_row list" where
  "ins_variant = upsert v_name (\<lambda>x r.
     if (v_git_commit r \<noteq> None \<and> v_git_commit x \<noteq> v_git_commit r) \<or>
        (v_repository_root r \<noteq> None \<and> v_repository_root x \<noteq> v_repository_root r)
     then x\<lparr>v_git_commit := coalesce (v_git_commit r) (v_git_commit x),
            v_repository_root := coalesce (v_repository_root r) (v_repository_root x)\<rparr>
     else x)"

end
