(* ===== verification/Repository.thy ===== *)
theory Repository
  imports Prelude
begin

text \<open>
  \<open>lib/semindex_support\<close>: parent directory creation (\<open>filesystem.c\<close>), discovery of the
  repository root and conversion of paths to their stored form (\<open>repository.c\<close>).

  The operating system is a parameter: \<open>realpath\<close>, \<open>stat\<close> and \<open>lstat\<close> are the fields of a
  record \<open>fs\<close>, and \<open>mkdir\<close> is a function on an abstract state. What the code relies on is
  the documented result of \<open>realpath\<close>, an absolute path without \<open>.\<close>, \<open>..\<close> or empty
  components (\<open>canonical\<close>).
\<close>

section \<open>The file system interface\<close>

record file_stat =
  stat_is_dir :: bool
  stat_dev :: nat
  stat_ino :: nat
  stat_mtime_sec :: int
  stat_mtime_nsec :: int
  stat_size :: int

record fs =
  fs_realpath :: "string \<Rightarrow> string option"
  fs_stat :: "string \<Rightarrow> file_stat option"
  fs_lstat :: "string \<Rightarrow> bool"

abbreviation slash :: char where
  "slash \<equiv> CHR ''/''"

fun components :: "string \<Rightarrow> string \<Rightarrow> string list" where
  "components acc [] = [acc]"
| "components acc (c # cs) = (if c = slash then acc # components [] cs else components (acc @ [c]) cs)"

definition canonical :: "string \<Rightarrow> bool" where
  "canonical p \<longleftrightarrow> p = ''/'' \<or>
     (\<exists>q. p = slash # q \<and> list_all (\<lambda>c. c \<noteq> [] \<and> c \<noteq> ''.'' \<and> c \<noteq> ''..'') (components [] q))"

section \<open>Creating parent directories\<close>

datatype mkdir_result = Made | Already_Exists | Mkdir_Error

definition mkdir_one :: "(string \<Rightarrow> 's \<Rightarrow> mkdir_result \<times> 's) \<Rightarrow> string \<Rightarrow> 's \<Rightarrow> bool \<times> 's" where
  "mkdir_one mk path s = (case mk path s of (r, s') \<Rightarrow> (r \<noteq> Mkdir_Error, s'))"

text \<open>The loop over the slashes of the copy \<open>dir\<close>: \<open>pre\<close> is what lies before the cursor.\<close>

fun mkdir_prefixes ::
  "(string \<Rightarrow> 's \<Rightarrow> mkdir_result \<times> 's) \<Rightarrow> string \<Rightarrow> string \<Rightarrow> 's \<Rightarrow> bool \<times> 's" where
  "mkdir_prefixes mk pre [] s = (True, s)"
| "mkdir_prefixes mk pre (c # cs) s =
     (if c \<noteq> slash then mkdir_prefixes mk (pre @ [c]) cs s
      else case mkdir_one mk pre s of
        (False, s') \<Rightarrow> (False, s')
      | (True, s') \<Rightarrow> mkdir_prefixes mk (pre @ [c]) cs s')"

definition ensure_parent_directory ::
  "(string \<Rightarrow> 's \<Rightarrow> mkdir_result \<times> 's) \<Rightarrow> string \<Rightarrow> 's \<Rightarrow> bool \<times> 's" where
  "ensure_parent_directory mk path s =
     (case strrchr path slash of
        None \<Rightarrow> (True, s)
      | Some i \<Rightarrow>
          if i = 0 then (True, s)
          else let dir = take i path in
            case mkdir_prefixes mk (take 1 dir) (drop 1 dir) s of
              (False, s') \<Rightarrow> (False, s')
            | (True, s') \<Rightarrow> mkdir_one mk dir s')"

section \<open>The repository root\<close>

definition repository_root_explicit :: "fs \<Rightarrow> string option \<Rightarrow> string option" where
  "repository_root_explicit fs input =
     (case input of None \<Rightarrow> None
      | Some p \<Rightarrow> (case fs_realpath fs p of None \<Rightarrow> None
          | Some path \<Rightarrow> (case fs_stat fs path of None \<Rightarrow> None
              | Some st \<Rightarrow> if stat_is_dir st then Some path else None)))"

text \<open>
  Cutting a path at its last slash, keeping the slash of the root. A path without a slash
  makes the loop of \<open>semindex_repository_root\<close> write through a null pointer
  (\<open>*slash = 0\<close>); that is the value \<open>None\<close>.
\<close>

definition cut_last :: "string \<Rightarrow> string option" where
  "cut_last path = (case strrchr path slash of None \<Rightarrow> None
     | Some i \<Rightarrow> Some (if i = 0 then ''/'' else take i path))"

datatype root_result = Root string | No_Root | Null_Write

definition git_marker :: "string \<Rightarrow> string" where
  "git_marker path = path @ (if path = ''/'' then [] else ''/'') @ ''.git''"

lemma cut_last_shorter:
  assumes "cut_last path = Some p" "path \<noteq> ''/''"
  shows "length p < length path"
proof -
  from assms obtain i where i: "strrchr path slash = Some i" "p = (if i = 0 then ''/'' else take i path)"
    by (auto simp: cut_last_def split: option.splits)
  then have len: "i < length path" and at: "path ! i = slash" by (auto simp: strrchr_Some)
  show ?thesis
  proof (cases "i = 0")
    case True
    with at len assms(2) have "Suc 0 < length path"
      by (cases path) (auto simp: neq_Nil_conv)
    with True i(2) show ?thesis by simp
  next
    case False
    with i(2) len show ?thesis by simp
  qed
qed

function find_root :: "fs \<Rightarrow> string \<Rightarrow> root_result" where
  "find_root fs path =
     (if fs_lstat fs (git_marker path) then Root path
      else if path = ''/'' then No_Root
      else case cut_last path of None \<Rightarrow> Null_Write | Some p \<Rightarrow> find_root fs p)"
  by pat_completeness auto
termination
  by (relation "measure (\<lambda>(fs, path). length path)") (auto dest: cut_last_shorter)

declare find_root.simps [simp del]

definition repository_root :: "fs \<Rightarrow> string option \<Rightarrow> root_result" where
  "repository_root fs input =
     (case input of None \<Rightarrow> No_Root
      | Some p \<Rightarrow> (case fs_realpath fs p of None \<Rightarrow> No_Root
          | Some path \<Rightarrow> (case fs_stat fs path of None \<Rightarrow> No_Root
              | Some st \<Rightarrow>
                  if stat_is_dir st then find_root fs path
                  else (case cut_last path of None \<Rightarrow> No_Root | Some d \<Rightarrow> find_root fs d))))"

text \<open>The root as a nullable string, for the callers.\<close>

definition root_string :: "root_result \<Rightarrow> string option" where
  "root_string r = (case r of Root p \<Rightarrow> Some p | _ \<Rightarrow> None)"

section \<open>Stored paths\<close>

definition repository_path :: "fs \<Rightarrow> string option \<Rightarrow> string option \<Rightarrow> string option" where
  "repository_path fs root path =
     (case path of None \<Rightarrow> None
      | Some p \<Rightarrow> (case root of None \<Rightarrow> Some p
          | Some r \<Rightarrow> (case fs_realpath fs p of None \<Rightarrow> Some p
              | Some resolved \<Rightarrow>
                  let n = length r;
                      outside = take n resolved \<noteq> r;
                      outside' = outside \<or>
                        (r \<noteq> ''/'' \<and> n < length resolved \<and> resolved ! n \<noteq> slash)
                  in if outside' then Some resolved
                     else if length resolved \<le> n then Some ''.''
                     else Some (drop (n + 1) resolved))))"

definition STATE_DIRECTORY :: string where
  "STATE_DIRECTORY = ''.semindex''"

definition SYMBOL_DATABASE :: string where
  "SYMBOL_DATABASE = ''semindex.db''"

definition COMMAND_DATABASE :: string where
  "COMMAND_DATABASE = ''commands.db''"

definition default_database_path :: "fs \<Rightarrow> string option \<Rightarrow> string option \<Rightarrow> string option" where
  "default_database_path fs path name =
     (if \<not> nonempty name then None
      else let allocated = root_string (repository_root fs (Some (case path of None \<Rightarrow> ''.'' | Some p \<Rightarrow> p)));
               root = (case allocated of None \<Rightarrow> ''.'' | Some r \<Rightarrow> r)
           in Some (root @ ''/'' @ STATE_DIRECTORY @ ''/'' @ or_empty name))"

section \<open>Facts about parent directories\<close>

text \<open>
  The contract of \<open>mkdir\<close>: when it does not fail the directory exists afterwards, and
  directories do not disappear.
\<close>

definition mkdir_laws ::
  "(string \<Rightarrow> 's \<Rightarrow> mkdir_result \<times> 's) \<Rightarrow> (string \<Rightarrow> 's \<Rightarrow> bool) \<Rightarrow> bool" where
  "mkdir_laws mk exists_dir \<longleftrightarrow>
     (\<forall>p s r s'. mk p s = (r, s') \<longrightarrow>
        (r \<noteq> Mkdir_Error \<longrightarrow> exists_dir p s') \<and> (\<forall>q. exists_dir q s \<longrightarrow> exists_dir q s'))"

lemma mkdir_one_exists:
  "mkdir_laws mk ex \<Longrightarrow> mkdir_one mk p s = (True, s') \<Longrightarrow> ex p s'"
  unfolding mkdir_laws_def mkdir_one_def by (auto split: prod.splits)

lemma mkdir_one_keeps:
  "mkdir_laws mk ex \<Longrightarrow> mkdir_one mk p s = (b, s') \<Longrightarrow> ex q s \<Longrightarrow> ex q s'"
  unfolding mkdir_laws_def mkdir_one_def by (auto split: prod.splits)

lemma mkdir_prefixes_step:
  assumes "mkdir_prefixes mk pre (c # cs) s = (b, s')"
  obtains (plain) "c \<noteq> slash" "mkdir_prefixes mk (pre @ [c]) cs s = (b, s')"
  | (failed) "c = slash" "mkdir_one mk pre s = (False, s')" "\<not> b"
  | (made) s1 where "c = slash" "mkdir_one mk pre s = (True, s1)"
      "mkdir_prefixes mk (pre @ [c]) cs s1 = (b, s')"
  using assms by (auto split: if_splits prod.splits bool.splits)

lemma mkdir_prefixes_keeps:
  assumes "mkdir_laws mk ex" and "mkdir_prefixes mk pre cs s = (b, s')" and "ex q s"
  shows "ex q s'"
  using assms(2,3)
proof (induction cs arbitrary: pre s)
  case Nil
  then show ?case by simp
next
  case (Cons c cs)
  from Cons.prems(1) show ?case
  proof (cases rule: mkdir_prefixes_step)
    case plain
    with Cons show ?thesis by blast
  next
    case failed
    with assms(1) Cons.prems(2) show ?thesis by (blast intro: mkdir_one_keeps)
  next
    case (made s1)
    with assms(1) Cons show ?thesis by (blast intro: mkdir_one_keeps)
  qed
qed

lemma mkdir_prefixes_exists:
  assumes "mkdir_laws mk ex"
  shows "mkdir_prefixes mk pre cs s = (True, s') \<Longrightarrow> i < length cs \<Longrightarrow> cs ! i = slash \<Longrightarrow>
     ex (pre @ take i cs) s'"
proof (induction cs arbitrary: pre s i)
  case Nil
  then show ?case by simp
next
  case (Cons c cs)
  from Cons.prems(1) show ?case
  proof (cases rule: mkdir_prefixes_step)
    case plain
    with Cons.prems obtain j where "i = Suc j" by (cases i) auto
    with plain Cons.prems Cons.IH [of "pre @ [c]" s j] show ?thesis by simp
  next
    case failed
    then show ?thesis by simp
  next
    case (made s1)
    show ?thesis
    proof (cases i)
      case 0
      have "ex pre s1" using assms made(2) by (rule mkdir_one_exists)
      then have "ex pre s'" by (rule mkdir_prefixes_keeps [OF assms made(3)])
      with 0 show ?thesis by simp
    next
      case (Suc j)
      with made Cons.prems Cons.IH [of "pre @ [c]" s1 j] show ?thesis by simp
    qed
  qed
qed

lemma ensure_parent_exists:
  assumes laws: "mkdir_laws mk ex"
    and run: "ensure_parent_directory mk path s = (True, s')"
    and i: "0 < i" "i < length path" "path ! i = slash"
  shows "ex (take i path) s'"
proof -
  from i(2,3) have "slash \<in> set path" by (metis nth_mem)
  then obtain n where n: "strrchr path slash = Some n" by (metis not_None_eq strrchr_None)
  have "i \<le> n"
  proof (rule ccontr)
    assume "\<not> i \<le> n"
    then have "path ! i \<in> set (drop (Suc n) path)"
      using i(2) by (auto simp: in_set_conv_nth intro!: exI [of _ "i - Suc n"])
    with n i(3) show False by (auto simp: strrchr_Some)
  qed
  from n have n_len: "n < length path" by (simp add: strrchr_Some)
  from run i(1) n \<open>i \<le> n\<close> obtain s1 where
    pre: "mkdir_prefixes mk (take 1 (take n path)) (drop 1 (take n path)) s = (True, s1)" and
    last: "mkdir_one mk (take n path) s1 = (True, s')"
    by (auto simp: ensure_parent_directory_def Let_def split: if_splits prod.splits bool.splits)
  show ?thesis
  proof (cases "i = n")
    case True
    with last laws show ?thesis by (auto intro: mkdir_one_exists)
  next
    case False
    with \<open>i \<le> n\<close> have "i < n" by simp
    then have idx: "i - 1 < length (drop 1 (take n path))" "drop 1 (take n path) ! (i - 1) = slash"
      using i n_len by auto
    from mkdir_prefixes_exists [OF laws pre idx]
    have "ex (take 1 (take n path) @ take (i - 1) (drop 1 (take n path))) s1" .
    moreover have "take 1 (take n path) @ take (i - 1) (drop 1 (take n path)) = take i path"
      using i(1) \<open>i < n\<close> take_add [of 1 "i - 1" "take n path"] by simp
    ultimately have "ex (take i path) s1" by simp
    with laws last show ?thesis by (auto intro: mkdir_one_keeps)
  qed
qed

end
