(* ===== verification/Index_Connection.thy ===== *)
theory Index_Connection
  imports Index_Db Repository
begin

text \<open>
  One writer's connection to the symbol database: the committed state it shares with other
  processes, its temporary tables, its open transaction, and the schema initialisation of
  \<open>init_schema\<close>, \<open>open_writer\<close> and \<open>index_db_create\<close>.

  SQLite is a parameter in two places. \<open>fault n\<close> says that the \<open>n\<close>-th call into SQLite fails
  (an error code other than \<open>SQLITE_BUSY\<close> and \<open>SQLITE_LOCKED\<close>, which the code retries, see
  \<open>exec_sql\<close>); a failed statement changes nothing. \<open>others n\<close> is what the other processes
  commit before the \<open>n\<close>-th call; it applies only while this connection has no transaction,
  since \<open>BEGIN IMMEDIATE\<close> holds the write lock and a read transaction works on its snapshot.
  A transaction that is open when the connection closes is rolled back.

  Calls of the tracing module are recorded as events, in order; the module itself drops them
  when no trace is open.
\<close>

datatype trace_event = Phase string | Counted string nat nat

record world =
  shared :: database
  temp :: staging
  txn :: "view option"
  changes :: nat
  clock :: nat
  events :: "trace_event list"

record env =
  fault :: "nat \<Rightarrow> bool"
  others :: "nat \<Rightarrow> database \<Rightarrow> database"
  env_fs :: fs
  mkdir_ok :: "string \<Rightarrow> bool"

definition trace_end :: "string \<Rightarrow> world \<Rightarrow> world" where
  "trace_end phase w = w\<lparr>events := events w @ [Phase phase]\<rparr>"

definition trace_end_counted :: "string \<Rightarrow> nat \<Rightarrow> nat \<Rightarrow> world \<Rightarrow> world" where
  "trace_end_counted phase n m w = w\<lparr>events := events w @ [Counted phase n m]\<rparr>"

section \<open>Executing statements\<close>

text \<open>
  The retry loop of \<open>exec_sql\<close> and \<open>prepare\<close>: the codes of the successive attempts decide
  when it ends and what it returns. \<open>None\<close> is a loop that never ends.
\<close>

datatype sqlite_code = SQLITE_OK | SQLITE_BUSY | SQLITE_LOCKED | SQLITE_ERROR

partial_function (option) retry_busy :: "(nat \<Rightarrow> sqlite_code) \<Rightarrow> nat \<Rightarrow> (bool \<times> nat) option" where
  "retry_busy codes n =
     (if codes n = SQLITE_BUSY \<or> codes n = SQLITE_LOCKED then retry_busy codes (Suc n)
      else Some (codes n = SQLITE_OK, n))"

text \<open>One call into SQLite: time passes, the others may commit, the call may fail.\<close>

definition tick :: "env \<Rightarrow> world \<Rightarrow> bool \<times> world" where
  "tick e w =
     (let w1 = (if txn w = None then w\<lparr>shared := others e (clock w) (shared w)\<rparr> else w)
      in (\<not> fault e (clock w), w1\<lparr>clock := Suc (clock w)\<rparr>))"

definition current :: "world \<Rightarrow> view" where
  "current w = (case txn w of Some v \<Rightarrow> v | None \<Rightarrow> (shared w, temp w))"

definition write_view :: "view \<Rightarrow> world \<Rightarrow> world" where
  "write_view v w = (case txn w of Some _ \<Rightarrow> w\<lparr>txn := Some v\<rparr>
     | None \<Rightarrow> w\<lparr>shared := fst v, temp := snd v\<rparr>)"

text \<open>\<open>exec_sql\<close> and a stepped statement: \<open>stmt\<close> gives the new view and the changed rows.\<close>

definition exec_sql :: "env \<Rightarrow> (view \<Rightarrow> view \<times> nat) \<Rightarrow> world \<Rightarrow> bool \<times> world" where
  "exec_sql e stmt w =
     (case tick e w of
        (False, w1) \<Rightarrow> (False, w1)
      | (True, w1) \<Rightarrow>
          let r = stmt (current w1) in (True, (write_view (fst r) w1)\<lparr>changes := snd r\<rparr>))"

definition trace_exec_sql ::
  "env \<Rightarrow> (view \<Rightarrow> view \<times> nat) \<Rightarrow> string \<Rightarrow> world \<Rightarrow> bool \<times> world" where
  "trace_exec_sql e stmt phase w =
     (case exec_sql e stmt w of (ok, w1) \<Rightarrow> (ok, trace_end phase w1))"

text \<open>A statement that reads: its value in the current view.\<close>

definition query :: "env \<Rightarrow> (view \<Rightarrow> 'a) \<Rightarrow> world \<Rightarrow> 'a option \<times> world" where
  "query e f w =
     (case tick e w of (False, w1) \<Rightarrow> (None, w1) | (True, w1) \<Rightarrow> (Some (f (current w1)), w1))"

definition begin_txn :: "env \<Rightarrow> world \<Rightarrow> bool \<times> world" where
  "begin_txn e w =
     (case tick e w of
        (False, w1) \<Rightarrow> (False, w1)
      | (True, w1) \<Rightarrow>
          if txn w1 \<noteq> None then (False, w1)
          else (True, w1\<lparr>txn := Some (shared w1, temp w1)\<rparr>))"

definition commit_txn :: "env \<Rightarrow> world \<Rightarrow> bool \<times> world" where
  "commit_txn e w =
     (case tick e w of
        (False, w1) \<Rightarrow> (False, w1)
      | (True, w1) \<Rightarrow> (case txn w1 of
            None \<Rightarrow> (False, w1)
          | Some v \<Rightarrow> (True, w1\<lparr>shared := fst v, temp := snd v, txn := None\<rparr>)))"

definition rollback_txn :: "env \<Rightarrow> world \<Rightarrow> world" where
  "rollback_txn e w =
     (case tick e w of (ok, w1) \<Rightarrow> if ok then w1\<lparr>txn := None\<rparr> else w1)"

definition close_db :: "world \<Rightarrow> world" where
  "close_db w = w\<lparr>txn := None\<rparr>"

definition trace_txn :: "bool \<times> world \<Rightarrow> string \<Rightarrow> bool \<times> world" where
  "trace_txn r phase = (fst r, trace_end phase (snd r))"

section \<open>Schema initialisation\<close>

definition INDEX_SCHEMA_VERSION :: int where
  "INDEX_SCHEMA_VERSION = 18"

definition create_table :: "string \<Rightarrow> view \<Rightarrow> view \<times> nat" where
  "create_table name v = (((fst v)\<lparr>db_tables := db_tables (fst v) @ [name]\<rparr>, snd v), 0)"

definition create_index :: "string \<Rightarrow> view \<Rightarrow> view \<times> nat" where
  "create_index name v = (((fst v)\<lparr>db_indexes := db_indexes (fst v) @ [name]\<rparr>, snd v), 0)"

definition set_user_version :: "int \<Rightarrow> view \<Rightarrow> view \<times> nat" where
  "set_user_version n v = (((fst v)\<lparr>db_version := n\<rparr>, snd v), 0)"

definition schema :: "(view \<Rightarrow> view \<times> nat) list" where
  "schema =
     [create_table ''files'',
      create_table ''records'',
      create_index ''records_file_idx'',
      create_table ''symbol_types'',
      create_index ''symbol_types_file_idx'',
      create_table ''function_types'',
      create_index ''function_types_file_idx'',
      create_table ''symbol_properties'',
      create_index ''symbol_properties_file_idx'',
      create_index ''records_call_context_idx'',
      create_table ''variants'',
      create_table ''file_fingerprints'',
      set_user_version INDEX_SCHEMA_VERSION]"

definition pragma :: "view \<Rightarrow> view \<times> nat" where
  "pragma v = (v, 0)"

definition schema_version :: "view \<Rightarrow> int" where
  "schema_version v = db_version (fst v)"

text \<open>
  \<open>EXISTS (SELECT 1 FROM sqlite_schema WHERE type = 'table' AND name NOT LIKE 'sqlite_%')\<close>.
  \<open>LIKE\<close> ignores the case of ASCII letters and its \<open>_\<close> matches any one character.
\<close>

definition ascii_lower :: "char \<Rightarrow> char" where
  "ascii_lower c =
     (let n = (of_char c :: nat) in if 65 \<le> n \<and> n \<le> 90 then char_of (n + 32) else c)"

definition like_sqlite :: "string \<Rightarrow> bool" where
  "like_sqlite t \<longleftrightarrow> 7 \<le> length t \<and> map ascii_lower (take 6 t) = ''sqlite''"

definition has_user_tables :: "view \<Rightarrow> bool" where
  "has_user_tables v \<longleftrightarrow> (\<exists>t \<in> set (db_tables (fst v)). \<not> like_sqlite t)"

definition schema_commit :: "env \<Rightarrow> world \<Rightarrow> int \<times> world" where
  "schema_commit e w = (case commit_txn e w of (ok, w1) \<Rightarrow> (if ok then 0 else - 1, w1))"

definition init_schema :: "env \<Rightarrow> world \<Rightarrow> int \<times> world" where
  "init_schema e w =
     (case exec_sql e pragma w of
        (False, w1) \<Rightarrow> (- 1, w1)
      | (True, w1) \<Rightarrow>
     (case query e schema_version w1 of
        (None, w2) \<Rightarrow> (- 1, w2)
      | (Some version, w2) \<Rightarrow>
     if version = INDEX_SCHEMA_VERSION then (0, w2)
     else
     (case begin_txn e w2 of
        (False, w3) \<Rightarrow> (- 1, w3)
      | (True, w3) \<Rightarrow>
     (case query e schema_version w3 of
        (None, w4) \<Rightarrow> (- 1, rollback_txn e w4)
      | (Some version, w4) \<Rightarrow>
     if version = INDEX_SCHEMA_VERSION then schema_commit e w4
     else if version \<noteq> 0 then (- 1, rollback_txn e w4)
     else
     (case query e has_user_tables w4 of
        (None, w5) \<Rightarrow> (- 1, rollback_txn e w5)
      | (Some has_tables, w5) \<Rightarrow>
     if has_tables then (- 1, rollback_txn e w5)
     else
     (case for_each (exec_sql e) schema w5 of
        (False, w6) \<Rightarrow> (- 1, rollback_txn e w6)
      | (True, w6) \<Rightarrow> schema_commit e w6))))))"

definition open_writer :: "env \<Rightarrow> string \<Rightarrow> world \<Rightarrow> int \<times> world" where
  "open_writer e path w =
     (let w0 = trace_end ''db.mkdir'' w in
      if \<not> mkdir_ok e path then (- 1, w0)
      else
      (case tick e w0 of
        (False, w1) \<Rightarrow> (- 1, trace_end ''db.open'' w1)
      | (True, w1) \<Rightarrow>
      (case tick e (trace_end ''db.open'' w1) of
        (False, w2) \<Rightarrow> (- 1, w2)
      | (True, w2) \<Rightarrow>
      (case trace_exec_sql e pragma ''db.journal_mode'' w2 of
        (False, w3) \<Rightarrow> (- 1, w3)
      | (True, w3) \<Rightarrow>
      (case trace_exec_sql e pragma ''db.synchronous'' w3 of
        (False, w4) \<Rightarrow> (- 1, w4)
      | (True, w4) \<Rightarrow>
      (case trace_exec_sql e pragma ''db.temp_store'' w4 of
        (False, w5) \<Rightarrow> (- 1, w5)
      | (True, w5) \<Rightarrow>
      (case init_schema e w5 of (r, w6) \<Rightarrow> (if r < 0 then - 1 else 0, trace_end ''db.schema'' w6))))))))"

definition index_db_create :: "env \<Rightarrow> string option \<Rightarrow> world \<Rightarrow> int \<times> world" where
  "index_db_create e path w =
     (case path of None \<Rightarrow> (- 1, w)
      | Some p \<Rightarrow> (case open_writer e p w of (r, w1) \<Rightarrow>
          (case tick e (close_db w1) of (ok, w2) \<Rightarrow> (if r < 0 \<or> \<not> ok then - 1 else 0, w2))))"

end
