(* ===== verification/Index_Staging.thy ===== *)
theory Index_Staging
  imports Index_Connection
begin

text \<open>
  The first half of \<open>index_db_store\<close>: the stored form of the paths of an index
  (\<open>init_stored_paths\<close>), the private staging tables (\<open>create_staging\<close>), the staging of
  files with the cache test (\<open>stage_files\<close>) and of the records (\<open>stage_records\<close>).
\<close>

section \<open>Stored paths\<close>

record stored_paths =
  sp_root :: "string option"
  sp_main_file :: "string option"
  sp_files :: "string list"

definition file_paths :: "fs \<Rightarrow> string option \<Rightarrow> index \<Rightarrow> bool \<Rightarrow> string option list" where
  "file_paths fs root ix il =
     map (\<lambda>i. case get_file_fingerprint ix i il of None \<Rightarrow> None
            | Some fp \<Rightarrow> repository_path fs root (Some (fp_file fp)))
         [0..<file_fingerprint_count ix]"

definition init_stored_paths ::
  "fs \<Rightarrow> index \<Rightarrow> string option \<Rightarrow> string option \<Rightarrow> bool \<Rightarrow> stored_paths option" where
  "init_stored_paths fs ix main_file root_opt il =
     (let root = (case root_opt of Some r \<Rightarrow> Some r
                  | None \<Rightarrow> root_string (repository_root fs main_file));
          main = repository_path fs root main_file;
          files = file_paths fs root ix il
      in if main_file \<noteq> None \<and> main = None then None
         else if None \<in> set files then None
         else Some \<lparr>sp_root = root, sp_main_file = main, sp_files = map the files\<rparr>)"

definition record_path :: "stored_paths \<Rightarrow> nat \<Rightarrow> string \<Rightarrow> string" where
  "record_path paths i fallback = (if i < length (sp_files paths) then sp_files paths ! i else fallback)"

section \<open>Staging tables\<close>

definition create_temp_table :: "string \<Rightarrow> view \<Rightarrow> view \<times> nat" where
  "create_temp_table name v = ((fst v, (snd v)\<lparr>st_tables := st_tables (snd v) @ [name]\<rparr>), 0)"

definition create_staging :: "env \<Rightarrow> world \<Rightarrow> bool \<times> world" where
  "create_staging e = for_each (exec_sql e)
     [create_temp_table ''staging_files'',
      create_temp_table ''staging_records'',
      create_temp_table ''staging_symbol_types'',
      create_temp_table ''staging_function_types'',
      create_temp_table ''staging_symbol_properties'']"

text \<open>The name of a member is qualified by its owner, with the separator the owner uses.\<close>

definition qualified_name :: "string option \<Rightarrow> string option \<Rightarrow> string" where
  "qualified_name owner name =
     (if nonempty owner
      then or_empty owner @ (if contains_sub ''::'' (or_empty owner) then ''::'' else ''.'') @ or_empty name
      else or_empty name)"

text \<open>\<open>(sqlite3_int64) value\<close> of an unsigned identity.\<close>

definition sqlite_int64 :: "u64 \<Rightarrow> int" where
  "sqlite_int64 x = sint x"

definition optional_record_id :: "u64 \<Rightarrow> string option \<Rightarrow> int option" where
  "optional_record_id value usr = (if nonempty usr then Some (sqlite_int64 value) else None)"

definition STORED_RECORD_SYMBOL :: int where "STORED_RECORD_SYMBOL = 0"
definition STORED_RECORD_USE :: int where "STORED_RECORD_USE = 1"

definition symbol_row :: "symbol \<Rightarrow> rec_data" where
  "symbol_row s =
     \<lparr>r_symbol = qualified_name (sym_owner s) (sym_name s),
      r_record = STORED_RECORD_SYMBOL,
      r_action = sym_definition s,
      r_kind = kind_code (sym_kind s),
      r_mode = 0,
      r_line = uint (sym_line s),
      r_column = uint (sym_column s),
      r_context = or_empty (sym_context s),
      r_usr_id = optional_record_id (sym_usr_id s) (sym_usr s),
      r_context_usr_id = None,
      r_local = sym_local s\<rparr>"

definition use_row :: "use \<Rightarrow> rec_data" where
  "use_row u =
     \<lparr>r_symbol = qualified_name (use_owner u) (use_name u),
      r_record = STORED_RECORD_USE,
      r_action = use_code (use_kind_of u),
      r_kind = kind_code (use_symbol_kind u),
      r_mode = uint (use_mode u),
      r_line = uint (use_line u),
      r_column = uint (use_column u),
      r_context = or_empty (use_context u),
      r_usr_id = optional_record_id (use_usr_id u) (use_usr u),
      r_context_usr_id = optional_record_id (use_context_usr_id u) (use_context_usr u),
      r_local = use_local u\<rparr>"

definition symbol_type_row :: "symbol \<Rightarrow> type_data" where
  "symbol_type_row s =
     \<lparr>t_symbol = qualified_name (sym_owner s) (sym_name s),
      t_kind = kind_code (sym_kind s),
      t_usr_id = sqlite_int64 (sym_usr_id s),
      t_declared_type = or_empty (sym_type s),
      t_canonical_type = or_empty (sym_canonical_type s),
      t_type_symbol = or_empty (sym_type_symbol s),
      t_type_kind = (if sym_type_usr_id s \<noteq> 0 then kind_code (sym_type_kind s) else - 1),
      t_type_usr_id = sqlite_int64 (sym_type_usr_id s)\<rparr>"

definition symbol_properties_row :: "symbol \<Rightarrow> prop_data" where
  "symbol_properties_row s =
     \<lparr>p_symbol = qualified_name (sym_owner s) (sym_name s),
      p_kind = kind_code (sym_kind s),
      p_usr_id = sqlite_int64 (sym_usr_id s),
      p_properties = sym_properties s\<rparr>"

definition return_row :: "signature \<Rightarrow> ftype_data" where
  "return_row g =
     \<lparr>ft_symbol = qualified_name (sig_owner g) (sig_name g),
      ft_usr_id = sqlite_int64 (sig_usr_id g),
      ft_position = - 1,
      ft_name = [],
      ft_declared_type = or_empty (sig_return_type g),
      ft_canonical_type = or_empty (sig_canonical_return_type g),
      ft_type_symbol = [],
      ft_type_kind = - 1,
      ft_type_usr_id = 0,
      ft_variadic = sig_variadic g\<rparr>"

definition parameter_row :: "signature \<Rightarrow> nat \<Rightarrow> parameter \<Rightarrow> ftype_data" where
  "parameter_row g i p =
     \<lparr>ft_symbol = qualified_name (sig_owner g) (sig_name g),
      ft_usr_id = sqlite_int64 (sig_usr_id g),
      ft_position = int i,
      ft_name = or_empty (par_name p),
      ft_declared_type = or_empty (par_type p),
      ft_canonical_type = or_empty (par_canonical_type p),
      ft_type_symbol = or_empty (par_type_symbol p),
      ft_type_kind = (if par_type_usr_id p \<noteq> 0 then kind_code (par_type_kind p) else - 1),
      ft_type_usr_id = sqlite_int64 (par_type_usr_id p),
      ft_variadic = 0\<rparr>"

definition signature_rows :: "signature \<Rightarrow> ftype_data list" where
  "signature_rows g =
     return_row g # map (\<lambda>(i, p). parameter_row g i p) (enumerate 0 (sig_parameters g))"

section \<open>Staging the records\<close>

record counts =
  items_in :: nat
  n_records :: nat
  n_symbol_types :: nat
  n_function_types :: nat
  n_symbol_properties :: nat
  n_total :: nat

definition zero_counts :: counts where
  "zero_counts = \<lparr>items_in = 0, n_records = 0, n_symbol_types = 0, n_function_types = 0,
     n_symbol_properties = 0, n_total = 0\<rparr>"

definition inserted :: "'a list \<Rightarrow> 'a list \<Rightarrow> nat" where
  "inserted before after = length after - length before"

definition stage_record :: "string \<times> rec_data \<Rightarrow> view \<Rightarrow> view \<times> nat" where
  "stage_record r v =
     (let t = ins_record r (st_records (snd v))
      in ((fst v, (snd v)\<lparr>st_records := t\<rparr>), inserted (st_records (snd v)) t))"

definition stage_symbol_type :: "string \<times> type_data \<Rightarrow> view \<Rightarrow> view \<times> nat" where
  "stage_symbol_type r v =
     (let t = ins_type r (st_types (snd v))
      in ((fst v, (snd v)\<lparr>st_types := t\<rparr>), inserted (st_types (snd v)) t))"

definition stage_function_type :: "string \<times> ftype_data \<Rightarrow> view \<Rightarrow> view \<times> nat" where
  "stage_function_type r v =
     (let t = ins_ftype r (st_ftypes (snd v))
      in ((fst v, (snd v)\<lparr>st_ftypes := t\<rparr>), inserted (st_ftypes (snd v)) t))"

definition stage_symbol_properties :: "string \<times> prop_data \<Rightarrow> view \<Rightarrow> view \<times> nat" where
  "stage_symbol_properties r v =
     ((fst v, (snd v)\<lparr>st_props := ins_prop r (st_props (snd v))\<rparr>), 1)"

text \<open>
  The state of the staging loops: the counters and the world. \<open>n_total\<close> is
  \<open>sqlite3_total_changes64 () - changes_before\<close>.
\<close>

type_synonym stage_state = "counts \<times> world"

definition counted ::
  "env \<Rightarrow> (view \<Rightarrow> view \<times> nat) \<Rightarrow> (nat \<Rightarrow> counts \<Rightarrow> counts) \<Rightarrow> stage_state \<Rightarrow> bool \<times> stage_state" where
  "counted e stmt add cw =
     (case exec_sql e stmt (snd cw) of
        (False, w1) \<Rightarrow> (False, (fst cw, w1))
      | (True, w1) \<Rightarrow>
          (True, ((add (changes w1) (fst cw))\<lparr>n_total := n_total (fst cw) + changes w1\<rparr>, w1)))"

definition is_cached :: "bool list \<Rightarrow> nat \<Rightarrow> bool" where
  "is_cached cached i \<longleftrightarrow> i < length cached \<and> cached ! i"

definition stage_symbol ::
  "env \<Rightarrow> stored_paths \<Rightarrow> bool \<Rightarrow> bool list \<Rightarrow> symbol \<Rightarrow> stage_state \<Rightarrow> bool \<times> stage_state" where
  "stage_symbol e paths il cached s cw =
     (if sym_local s \<noteq> 0 \<and> \<not> il then (True, cw)
      else
      let cw0 = ((fst cw)\<lparr>items_in := Suc (items_in (fst cw))\<rparr>, snd cw) in
      if is_cached cached (sym_file_index s) then (True, cw0)
      else
      let path = record_path paths (sym_file_index s) (sym_file s) in
      (case counted e (stage_record (path, symbol_row s)) (\<lambda>n c. c) cw0 of
         (False, cw1) \<Rightarrow> (False, cw1)
       | (True, cw1) \<Rightarrow>
       (case (if nonempty (sym_type s) \<and> nonempty (sym_usr s)
              then counted e (stage_symbol_type (path, symbol_type_row s))
                     (\<lambda>n c. c\<lparr>n_symbol_types := n_symbol_types c + n\<rparr>) cw1
              else (True, cw1)) of
          (False, cw2) \<Rightarrow> (False, cw2)
        | (True, cw2) \<Rightarrow>
            if sym_properties s \<noteq> 0 \<and> nonempty (sym_usr s)
            then counted e (stage_symbol_properties (path, symbol_properties_row s))
                   (\<lambda>n c. c\<lparr>n_symbol_properties := n_symbol_properties c + n\<rparr>) cw2
            else (True, cw2))))"

definition stage_use ::
  "env \<Rightarrow> stored_paths \<Rightarrow> bool \<Rightarrow> bool list \<Rightarrow> use \<Rightarrow> stage_state \<Rightarrow> bool \<times> stage_state" where
  "stage_use e paths il cached u cw =
     (if use_local u \<noteq> 0 \<and> \<not> il then (True, cw)
      else
      let cw0 = ((fst cw)\<lparr>items_in := Suc (items_in (fst cw))\<rparr>, snd cw) in
      if is_cached cached (use_file_index u) then (True, cw0)
      else counted e
             (stage_record (record_path paths (use_file_index u) (use_file u), use_row u)) (\<lambda>n c. c) cw0)"

definition stage_signature ::
  "env \<Rightarrow> stored_paths \<Rightarrow> bool list \<Rightarrow> signature \<Rightarrow> stage_state \<Rightarrow> bool \<times> stage_state" where
  "stage_signature e paths cached g cw =
     (if \<not> nonempty (sig_usr g) then (True, cw)
      else if is_cached cached (sig_file_index g) then (True, cw)
      else for_each (\<lambda>d. counted e
             (stage_function_type (record_path paths (sig_file_index g) (sig_file g), d))
             (\<lambda>n c. c\<lparr>n_function_types := n_function_types c + n\<rparr>))
             (signature_rows g) cw)"

text \<open>The label \<open>out\<close>: the number of records is what remains of all changes.\<close>

definition finish_counts :: "counts \<Rightarrow> counts" where
  "finish_counts c = c\<lparr>n_records :=
     n_total c - (n_symbol_types c + n_function_types c + n_symbol_properties c)\<rparr>"

definition prepare_all :: "env \<Rightarrow> nat \<Rightarrow> world \<Rightarrow> bool \<times> world" where
  "prepare_all e n = for_each (\<lambda>_. tick e) [0..<n]"

definition stage_records ::
  "env \<Rightarrow> index \<Rightarrow> stored_paths \<Rightarrow> bool \<Rightarrow> bool list \<Rightarrow> world \<Rightarrow> bool \<times> stage_state" where
  "stage_records e ix paths il cached w =
     (case prepare_all e 4 w of
        (False, w1) \<Rightarrow> (False, (zero_counts, w1))
      | (True, w1) \<Rightarrow>
     (case for_each (stage_symbol e paths il cached) (ix_symbols ix) (zero_counts, w1) of
        (False, cw) \<Rightarrow> (False, (finish_counts (fst cw), snd cw))
      | (True, cw) \<Rightarrow>
     (case for_each (stage_use e paths il cached) (ix_uses ix) cw of
        (False, cw) \<Rightarrow> (False, (finish_counts (fst cw), snd cw))
      | (True, cw) \<Rightarrow>
     (case for_each (stage_signature e paths cached) (ix_signatures ix) cw of
        (ok, cw) \<Rightarrow> (ok, (finish_counts (fst cw), snd cw))))))"

section \<open>Staging the files\<close>

definition stat_mtime_ns :: "file_stat \<Rightarrow> int" where
  "stat_mtime_ns st = stat_mtime_sec st * 1000000000 + stat_mtime_nsec st"

definition same_file :: "file_stat \<Rightarrow> file_stat option \<Rightarrow> bool" where
  "same_file st main_stat =
     (case main_stat of None \<Rightarrow> False
      | Some m \<Rightarrow> stat_dev st = stat_dev m \<and> stat_ino st = stat_ino m)"

text \<open>The row of the \<open>i\<close>-th file of the index, with the values its \<open>stat\<close> gives.\<close>

definition included_row ::
  "fs \<Rightarrow> stored_paths \<Rightarrow> file_stat option \<Rightarrow> nat \<Rightarrow> file_fingerprint \<Rightarrow> staging_file" where
  "included_row fs paths main_stat i fp =
     (let st = fs_stat fs (fp_file fp);
          is_main = (case st of None \<Rightarrow> False | Some s \<Rightarrow> same_file s main_stat)
      in \<lparr>s_path = sp_files paths ! i,
          s_mtime = (case st of None \<Rightarrow> 0 | Some s \<Rightarrow> stat_mtime_ns s),
          s_size = (case st of None \<Rightarrow> 0 | Some s \<Rightarrow> stat_size s),
          s_is_main = is_main,
          s_ordinal = Some i,
          s_fingerprint = (if is_main then None else Some (fp_data fp)),
          s_cached = False\<rparr>)"

definition main_row :: "stored_paths \<Rightarrow> file_stat option \<Rightarrow> staging_file" where
  "main_row paths main_stat =
     \<lparr>s_path = or_empty (sp_main_file paths),
      s_mtime = (case main_stat of None \<Rightarrow> 0 | Some s \<Rightarrow> stat_mtime_ns s),
      s_size = (case main_stat of None \<Rightarrow> 0 | Some s \<Rightarrow> stat_size s),
      s_is_main = True,
      s_ordinal = None,
      s_fingerprint = None,
      s_cached = False\<rparr>"

definition stage_file_row :: "staging_file \<Rightarrow> view \<Rightarrow> view \<times> nat" where
  "stage_file_row r v =
     ((fst v, (snd v)\<lparr>st_files := ins_staging_file r (st_files (snd v))\<rparr>), 1)"

definition stage_main_row :: "staging_file \<Rightarrow> view \<Rightarrow> view \<times> nat" where
  "stage_main_row r v =
     ((fst v, (snd v)\<lparr>st_files := ins_staging_main r (st_files (snd v))\<rparr>), 1)"

definition mark_cached :: "string \<Rightarrow> view \<Rightarrow> view \<times> nat" where
  "mark_cached v w =
     (let hit = cacheable v (fst w)
      in ((fst w, (snd w)\<lparr>st_files := update_where hit (\<lambda>s. s\<lparr>s_cached := True\<rparr>) (st_files (snd w))\<rparr>),
          length (filter hit (st_files (snd w)))))"

text \<open>One turn of the loop over the fingerprints; the state carries \<open>cache_candidates\<close>.\<close>

definition stage_file ::
  "env \<Rightarrow> index \<Rightarrow> stored_paths \<Rightarrow> file_stat option \<Rightarrow> bool \<Rightarrow> nat \<Rightarrow> nat \<times> world
     \<Rightarrow> bool \<times> (nat \<times> world)" where
  "stage_file e ix paths main_stat il i nw =
     (case get_file_fingerprint ix i il of
        None \<Rightarrow> (False, nw)
      | Some fp \<Rightarrow>
          if fp_record_count fp = 0 then (True, nw)
          else
            let row = included_row (env_fs e) paths main_stat i fp;
                n = (if s_is_main row then fst nw else Suc (fst nw))
            in (case exec_sql e (stage_file_row row) (snd nw) of (ok, w1) \<Rightarrow> (ok, (n, w1))))"

fun set_cached :: "bool list \<Rightarrow> nat option list \<Rightarrow> nat \<Rightarrow> bool \<times> bool list \<times> nat" where
  "set_cached cached [] n = (True, cached, n)"
| "set_cached cached (ordinal # os) n =
     (let i = (case ordinal of None \<Rightarrow> 0 | Some j \<Rightarrow> j)
      in if i < length cached then set_cached (cached[i := True]) os (Suc n)
         else (False, cached, n))"

definition cached_ordinals :: "view \<Rightarrow> nat option list" where
  "cached_ordinals v = map s_ordinal (filter s_cached (st_files (snd v)))"

text \<open>
  The result: success, the flags \<open>cached\<close>, \<open>items_in\<close>, \<open>items_out\<close> and the world. A null
  ordinal reads as 0, as \<open>sqlite3_column_int64\<close> does.
\<close>

definition stage_files ::
  "env \<Rightarrow> index \<Rightarrow> stored_paths \<Rightarrow> string option \<Rightarrow> string \<Rightarrow> bool \<Rightarrow> bool list \<Rightarrow> world
     \<Rightarrow> bool \<times> bool list \<times> nat \<times> nat \<times> world" where
  "stage_files e ix paths main_file variant il cached w =
     (let main_stat = (case main_file of None \<Rightarrow> None | Some m \<Rightarrow> fs_stat (env_fs e) m) in
      (case tick e w of
         (False, w1) \<Rightarrow> (False, cached, 0, 0, w1)
       | (True, w1) \<Rightarrow>
      (case for_each (stage_file e ix paths main_stat il) [0..<length cached] (0, w1) of
         (False, nw) \<Rightarrow> (False, cached, 0, 0, snd nw)
       | (True, (candidates, w2)) \<Rightarrow>
      (case (if main_file = None then (True, w2)
             else (case tick e w2 of
                     (False, w3) \<Rightarrow> (False, w3)
                   | (True, w3) \<Rightarrow> exec_sql e (stage_main_row (main_row paths main_stat)) w3)) of
         (False, w3) \<Rightarrow> (False, cached, 0, 0, w3)
       | (True, w3) \<Rightarrow>
      if candidates = 0 then (True, cached, candidates, 0, w3)
      else
      (case exec_sql e (mark_cached variant) w3 of
         (False, w4) \<Rightarrow> (False, cached, candidates, 0, w4)
       | (True, w4) \<Rightarrow>
      (case query e cached_ordinals w4 of
         (None, w5) \<Rightarrow> (False, cached, candidates, 0, w5)
       | (Some os, w5) \<Rightarrow>
           (case set_cached cached os 0 of
              (ok, cached', n) \<Rightarrow> (ok, cached', candidates, n, w5))))))))"

end
