(* ===== verification/Index_Merge.thy ===== *)
theory Index_Merge
  imports Index_Staging
begin

text \<open>
  The second half of \<open>index_db_store\<close>: revalidation of the cache under the write lock
  (\<open>cached_files_valid\<close>), the twelve merge statements with the variant's metadata in one
  transaction (\<open>merge_staging\<close>), and the whole operation with its single retry
  (\<open>index_db_store\<close>).
\<close>

section \<open>The merge statements\<close>

definition merge_files :: "string \<Rightarrow> view \<Rightarrow> view \<times> nat" where
  "merge_files v w =
     (let fs = fold (ins_file v) (st_files (snd w)) (db_files (fst w))
      in (((fst w)\<lparr>db_files := fs\<rparr>, snd w), inserted (db_files (fst w)) fs))"

definition delete_records :: "string \<Rightarrow> view \<Rightarrow> view \<times> nat" where
  "delete_records v w =
     (let t = delete_stale v w (db_records (fst w))
      in (((fst w)\<lparr>db_records := t\<rparr>, snd w), length (db_records (fst w)) - length t))"

definition delete_types :: "string \<Rightarrow> view \<Rightarrow> view \<times> nat" where
  "delete_types v w =
     (let t = delete_stale v w (db_types (fst w))
      in (((fst w)\<lparr>db_types := t\<rparr>, snd w), length (db_types (fst w)) - length t))"

definition delete_ftypes :: "string \<Rightarrow> view \<Rightarrow> view \<times> nat" where
  "delete_ftypes v w =
     (let t = delete_stale v w (db_ftypes (fst w))
      in (((fst w)\<lparr>db_ftypes := t\<rparr>, snd w), length (db_ftypes (fst w)) - length t))"

definition delete_props :: "string \<Rightarrow> view \<Rightarrow> view \<times> nat" where
  "delete_props v w =
     (let t = delete_stale v w (db_props (fst w))
      in (((fst w)\<lparr>db_props := t\<rparr>, snd w), length (db_props (fst w)) - length t))"

definition delete_fps :: "string \<Rightarrow> view \<Rightarrow> view \<times> nat" where
  "delete_fps v w =
     (let t = delete_stale v w (db_fps (fst w))
      in (((fst w)\<lparr>db_fps := t\<rparr>, snd w), length (db_fps (fst w)) - length t))"

definition update_files :: "string \<Rightarrow> view \<Rightarrow> view \<times> nat" where
  "update_files v w =
     (let hit = (\<lambda>f. f_variant f = v \<and> f_path f \<in> s_path ` set (st_files (snd w)))
      in (((fst w)\<lparr>db_files := update_where hit (restamp (st_files (snd w))) (db_files (fst w))\<rparr>, snd w),
          length (filter hit (db_files (fst w)))))"

definition insert_records :: "string \<Rightarrow> view \<Rightarrow> view \<times> nat" where
  "insert_records v w =
     (let t = fold ins_record (join_files v (db_files (fst w)) (st_records (snd w))) (db_records (fst w))
      in (((fst w)\<lparr>db_records := t\<rparr>, snd w), inserted (db_records (fst w)) t))"

definition insert_types :: "string \<Rightarrow> view \<Rightarrow> view \<times> nat" where
  "insert_types v w =
     (let t = fold ins_type (join_files v (db_files (fst w)) (st_types (snd w))) (db_types (fst w))
      in (((fst w)\<lparr>db_types := t\<rparr>, snd w), inserted (db_types (fst w)) t))"

definition insert_ftypes :: "string \<Rightarrow> view \<Rightarrow> view \<times> nat" where
  "insert_ftypes v w =
     (let t = fold ins_ftype (join_files v (db_files (fst w)) (st_ftypes (snd w))) (db_ftypes (fst w))
      in (((fst w)\<lparr>db_ftypes := t\<rparr>, snd w), inserted (db_ftypes (fst w)) t))"

definition insert_props :: "string \<Rightarrow> view \<Rightarrow> view \<times> nat" where
  "insert_props v w =
     (let rows = join_files v (db_files (fst w)) (st_props (snd w))
      in (((fst w)\<lparr>db_props := fold ins_prop rows (db_props (fst w))\<rparr>, snd w), length rows))"

definition staged_fingerprints :: "staging_file list \<Rightarrow> (string \<times> digest) list" where
  "staged_fingerprints ss =
     [(s_path s, h). s \<leftarrow> ss, h \<leftarrow> (case s_fingerprint s of None \<Rightarrow> [] | Some h \<Rightarrow> [h])]"

definition insert_fps :: "string \<Rightarrow> view \<Rightarrow> view \<times> nat" where
  "insert_fps v w =
     (let t = fold ins_fp (join_files v (db_files (fst w)) (staged_fingerprints (st_files (snd w))))
                (db_fps (fst w))
      in (((fst w)\<lparr>db_fps := t\<rparr>, snd w), inserted (db_fps (fst w)) t))"

section \<open>Merging\<close>

definition cached_files_valid :: "string \<Rightarrow> view \<Rightarrow> bool" where
  "cached_files_valid v w \<longleftrightarrow>
     list_all (\<lambda>s. s_cached s \<longrightarrow> fingerprint_known v (fst w) s) (st_files (snd w))"

record provenance =
  pv_repository_root :: "string option"
  pv_git_commit :: "string option"

definition upsert_variant :: "string \<Rightarrow> provenance \<Rightarrow> view \<Rightarrow> view \<times> nat" where
  "upsert_variant v prov w =
     (((fst w)\<lparr>db_variants := ins_variant
          \<lparr>v_name = v, v_git_commit = pv_git_commit prov,
           v_repository_root = pv_repository_root prov\<rparr> (db_variants (fst w))\<rparr>, snd w), 1)"

definition store_variant_metadata :: "env \<Rightarrow> string \<Rightarrow> provenance \<Rightarrow> world \<Rightarrow> bool \<times> world" where
  "store_variant_metadata e v prov w =
     (case tick e w of (False, w1) \<Rightarrow> (False, w1) | (True, w1) \<Rightarrow> exec_sql e (upsert_variant v prov) w1)"

text \<open>The statements \<open>merge[0]\<close> to \<open>merge[6]\<close> with their phases.\<close>

definition plain_merges :: "string \<Rightarrow> ((view \<Rightarrow> view \<times> nat) \<times> string) list" where
  "plain_merges v =
     [(merge_files v, ''db.merge.files_insert''),
      (delete_records v, ''db.merge.records_delete''),
      (delete_types v, ''db.merge.symbol_types_delete''),
      (delete_ftypes v, ''db.merge.function_types_delete''),
      (delete_props v, ''db.merge.symbol_properties_delete''),
      (delete_fps v, ''db.merge.fingerprints_delete''),
      (update_files v, ''db.merge.files_update'')]"

text \<open>The statements \<open>merge[7]\<close> to \<open>merge[11]\<close> with the numbers of attempted rows.\<close>

definition counted_merges ::
  "string \<Rightarrow> counts \<Rightarrow> nat \<Rightarrow> ((view \<Rightarrow> view \<times> nat) \<times> string \<times> nat) list" where
  "counted_merges v c fingerprint_attempts =
     [(insert_records v, ''db.merge.records_insert'', n_records c),
      (insert_types v, ''db.merge.symbol_types_insert'', n_symbol_types c),
      (insert_ftypes v, ''db.merge.function_types_insert'', n_function_types c),
      (insert_props v, ''db.merge.symbol_properties_insert'', n_symbol_properties c),
      (insert_fps v, ''db.merge.fingerprints_insert'', fingerprint_attempts)]"

definition exec_plain :: "env \<Rightarrow> (view \<Rightarrow> view \<times> nat) \<times> string \<Rightarrow> world \<Rightarrow> bool \<times> world" where
  "exec_plain e sp w = trace_exec_sql e (fst sp) (snd sp) w"

definition exec_counted ::
  "env \<Rightarrow> (view \<Rightarrow> view \<times> nat) \<times> string \<times> nat \<Rightarrow> world \<Rightarrow> bool \<times> world" where
  "exec_counted e spn w =
     (case exec_sql e (fst spn) w of
        (ok, w1) \<Rightarrow> (ok, trace_end_counted (fst (snd spn)) (snd (snd spn)) (if ok then changes w1 else 0) w1))"

text \<open>The result is 0 for success, 1 for a stale cache and -1 for an error.\<close>

definition merge_staging ::
  "env \<Rightarrow> string \<Rightarrow> counts \<Rightarrow> nat \<Rightarrow> provenance \<Rightarrow> world \<Rightarrow> int \<times> world" where
  "merge_staging e v c fingerprint_attempts prov w =
     (case trace_txn (begin_txn e w) ''db.merge.begin'' of
        (False, w1) \<Rightarrow> (- 1, w1)
      | (True, w1) \<Rightarrow>
     (case query e (cached_files_valid v) w1 of
        (None, w2) \<Rightarrow> (- 1, rollback_txn e w2)
      | (Some valid, w2) \<Rightarrow>
     if \<not> valid then (1, rollback_txn e w2)
     else
     (case for_each (exec_plain e) (plain_merges v) w2 of
        (False, w3) \<Rightarrow> (- 1, rollback_txn e w3)
      | (True, w3) \<Rightarrow>
     (case for_each (exec_counted e) (counted_merges v c fingerprint_attempts) w3 of
        (False, w4) \<Rightarrow> (- 1, rollback_txn e w4)
      | (True, w4) \<Rightarrow>
     (case store_variant_metadata e v prov w4 of (ok, w5) \<Rightarrow>
     let w6 = trace_end ''db.merge.variant'' w5 in
     if \<not> ok then (- 1, rollback_txn e w6)
     else
     (case trace_txn (commit_txn e w6) ''db.merge.commit'' of
        (ok, w7) \<Rightarrow> (if ok then 0 else - 1, w7)))))))"

section \<open>Storing an index\<close>

record store_request =
  sr_path :: "string option"
  sr_index :: "index option"
  sr_main_file :: "string option"
  sr_variant :: "string option"
  sr_provenance :: provenance
  sr_include_local :: bool

definition reset_cached :: "view \<Rightarrow> view \<times> nat" where
  "reset_cached w =
     ((fst w, (snd w)\<lparr>st_files := map (\<lambda>s. s\<lparr>s_cached := False\<rparr>) (st_files (snd w))\<rparr>),
      length (st_files (snd w)))"

text \<open>The part of the retry that stages everything again and merges a second time.\<close>

definition store_retry ::
  "env \<Rightarrow> index \<Rightarrow> stored_paths \<Rightarrow> string \<Rightarrow> bool \<Rightarrow> provenance \<Rightarrow> nat \<Rightarrow> nat \<Rightarrow> counts \<Rightarrow> world \<Rightarrow> int \<times> world"
  where
  "store_retry e ix paths v il prov cached_count files_in c w =
     (case trace_txn (begin_txn e w) ''db.staging_retry_begin'' of
        (False, w1) \<Rightarrow> (- 1, w1)
      | (True, w1) \<Rightarrow>
     (case exec_sql e reset_cached w1 of
        (False, w2) \<Rightarrow> (- 1, rollback_txn e w2)
      | (True, w2) \<Rightarrow>
     (case stage_records e ix paths il (replicate cached_count False) w2 of (ok, (retry, w3)) \<Rightarrow>
     let w4 = trace_end_counted ''db.stage_records_retry'' (items_in retry) (n_records retry) w3 in
     if \<not> ok then (- 1, rollback_txn e w4)
     else
     let c' = c\<lparr>n_records := n_records c + n_records retry,
                n_symbol_types := n_symbol_types c + n_symbol_types retry,
                n_function_types := n_function_types c + n_function_types retry\<rparr> in
     (case trace_txn (commit_txn e w4) ''db.staging_retry_commit'' of
        (False, w5) \<Rightarrow> (- 1, w5)
      | (True, w5) \<Rightarrow>
     (case merge_staging e v c' files_in prov w5 of
        (r, w6) \<Rightarrow> (if r \<noteq> 0 then - 1 else 0, w6))))))"

text \<open>From the open connection to the result, before the label \<open>out\<close>.\<close>

definition store_open ::
  "env \<Rightarrow> index \<Rightarrow> stored_paths \<Rightarrow> string option \<Rightarrow> string \<Rightarrow> bool \<Rightarrow> provenance \<Rightarrow> world \<Rightarrow> int \<times> world"
  where
  "store_open e ix paths main_file v il prov w =
     (let cached_count = file_fingerprint_count ix in
     (case create_staging e w of (ok, w1) \<Rightarrow>
     let w1 = trace_end ''db.staging_schema'' w1 in
     if \<not> ok then (- 1, w1)
     else
     (case trace_txn (begin_txn e w1) ''db.staging_begin'' of
        (False, w2) \<Rightarrow> (- 1, w2)
      | (True, w2) \<Rightarrow>
     (case stage_files e ix paths main_file v il (replicate cached_count False) w2 of
        (ok, cached, files_in, files_cached, w3) \<Rightarrow>
     let w3 = trace_end_counted ''db.stage_files'' files_in files_cached w3 in
     if \<not> ok then (- 1, rollback_txn e w3)
     else
     (case stage_records e ix paths il cached w3 of (ok, (c, w4)) \<Rightarrow>
     let w4 = trace_end_counted ''db.stage_records'' (items_in c) (n_records c) w4 in
     if \<not> ok then (- 1, rollback_txn e w4)
     else
     (case trace_txn (commit_txn e w4) ''db.staging_commit'' of
        (False, w5) \<Rightarrow> (- 1, w5)
      | (True, w5) \<Rightarrow>
     (case merge_staging e v c files_in prov w5 of (r, w6) \<Rightarrow>
     if r < 0 then (- 1, w6)
     else if r > 0 then store_retry e ix paths v il prov cached_count files_in c w6
     else (0, w6))))))))"

definition index_db_store :: "env \<Rightarrow> store_request \<Rightarrow> world \<Rightarrow> int \<times> world" where
  "index_db_store e req w =
     (case (sr_path req, sr_index req, sr_variant req) of
        (Some path, Some ix, Some v) \<Rightarrow>
          if v = [] then (- 1, w)
          else
          (case init_stored_paths (env_fs e) ix (sr_main_file req)
                  (pv_repository_root (sr_provenance req)) (sr_include_local req) of
             None \<Rightarrow> (- 1, w)
           | Some paths \<Rightarrow>
          (case (case open_writer e path (w\<lparr>temp := empty_staging, txn := None\<rparr>) of (r, w1) \<Rightarrow>
                   if r < 0 then (- 1, w1)
                   else store_open e ix paths (sr_main_file req) v (sr_include_local req)
                          (sr_provenance req) w1) of
             (ret, w2) \<Rightarrow>
               (ret, if mkdir_ok e path then trace_end ''db.close'' (close_db w2) else w2)))
      | _ \<Rightarrow> (- 1, w))"

end
