(* ===== verification/Index_Contents.thy ===== *)
theory Index_Contents
  imports Index_Merge
begin

text \<open>
  The abstraction of the index database: what a consumer can find in the database about one
  path of one variant. A row contributes its \<^emph>\<open>atoms\<close>: a record its primary key, a property
  mask the bits that are set. Row ids, the order of rows and the rows' other columns are
  abstracted from.

  The locale \<open>atom_table\<close> is the contract between the insertions of the writer and these
  abstract contents; it is interpreted for each of the five tables with its own statement.
\<close>

definition table_atoms :: "('d \<Rightarrow> 'a set) \<Rightarrow> ('f \<times> 'd) list \<Rightarrow> ('f \<times> 'a) set" where
  "table_atoms atoms t = {(f, a). \<exists>d. (f, d) \<in> set t \<and> a \<in> atoms d}"

definition contents ::
  "('d \<Rightarrow> 'a set) \<Rightarrow> file_row list \<Rightarrow> (nat \<times> 'd) list \<Rightarrow> string \<Rightarrow> string \<Rightarrow> 'a set" where
  "contents atoms fs t v p =
     {a. \<exists>f \<in> set fs. f_variant f = v \<and> f_path f = p \<and> (f_id f, a) \<in> table_atoms atoms t}"

definition staged_at :: "('d \<Rightarrow> 'a set) \<Rightarrow> (string \<times> 'd) list \<Rightarrow> string \<Rightarrow> 'a set" where
  "staged_at atoms rows p = {a. (p, a) \<in> table_atoms atoms rows}"

definition rec_atoms :: "rec_data \<Rightarrow> rec_id set" where
  "rec_atoms d = {rec_id d}"

definition type_atoms :: "type_data \<Rightarrow> type_data set" where
  "type_atoms d = {d}"

definition ftype_atoms :: "ftype_data \<Rightarrow> ftype_id set" where
  "ftype_atoms d = {ftype_id d}"

definition prop_atoms :: "prop_data \<Rightarrow> (prop_id \<times> nat) set" where
  "prop_atoms d = {(prop_id d, n) | n. bit (p_properties d) n}"

definition fp_atoms :: "digest \<Rightarrow> digest set" where
  "fp_atoms h = {h}"

lemma table_atoms_Nil [simp]: "table_atoms atoms [] = {}"
  by (simp add: table_atoms_def)

lemma table_atoms_append [simp]:
  "table_atoms atoms (s @ t) = table_atoms atoms s \<union> table_atoms atoms t"
  by (auto simp: table_atoms_def)

lemma table_atoms_Cons:
  "table_atoms atoms (r # t) = {fst r} \<times> atoms (snd r) \<union> table_atoms atoms t"
  by (cases r) (auto simp: table_atoms_def)

lemma table_atoms_single [simp]: "table_atoms atoms [r] = {fst r} \<times> atoms (snd r)"
  by (simp add: table_atoms_Cons)

section \<open>The contract of the insertions\<close>

locale atom_table =
  fixes atoms :: "'d \<Rightarrow> 'a set"
    and ins :: "'f \<times> 'd \<Rightarrow> ('f \<times> 'd) list \<Rightarrow> ('f \<times> 'd) list"
  assumes atoms_ins: "table_atoms atoms (ins r t) = table_atoms atoms t \<union> {fst r} \<times> atoms (snd r)"
begin

lemma atoms_fold:
  "table_atoms atoms (fold ins rs t) = table_atoms atoms t \<union> table_atoms atoms rs"
  by (induction rs arbitrary: t) (auto simp: atoms_ins table_atoms_Cons)

lemma atoms_fold_mono: "table_atoms atoms t \<subseteq> table_atoms atoms (fold ins rs t)"
  by (simp add: atoms_fold)

lemma staged_fold:
  "{a. (p, a) \<in> table_atoms atoms (fold ins rs t)} =
     {a. (p, a) \<in> table_atoms atoms t} \<union> {a. (p, a) \<in> table_atoms atoms rs}"
  by (auto simp: atoms_fold)

end

lemma insert_ignore_atoms:
  assumes "\<And>d. atoms d = {idf d}"
  shows "atom_table atoms (insert_ignore (pk idf))"
proof
  fix r t
  show "table_atoms atoms (insert_ignore (pk idf) r t) = table_atoms atoms t \<union> {fst r} \<times> atoms (snd r)"
    unfolding insert_ignore_def
    by (cases r) (auto simp: table_atoms_def assms pk_def)
qed

interpretation rec_table: atom_table rec_atoms ins_record
  unfolding ins_record_def by (rule insert_ignore_atoms) (simp add: rec_atoms_def)

interpretation type_table: atom_table type_atoms ins_type
  unfolding ins_type_def by (rule insert_ignore_atoms) (simp add: type_atoms_def)

interpretation ftype_table: atom_table ftype_atoms ins_ftype
  unfolding ins_ftype_def by (rule insert_ignore_atoms) (simp add: ftype_atoms_def)

interpretation fp_table: atom_table fp_atoms ins_fp
  unfolding ins_fp_def by (rule insert_ignore_atoms) (simp add: fp_atoms_def)

lemma merge_prop_key: "pk prop_id x = pk prop_id r \<Longrightarrow> pk prop_id (merge_prop x r) = pk prop_id r"
  by (simp add: pk_def merge_prop_def prop_id_def)

lemma prop_atoms_merge:
  assumes "pk prop_id x = pk prop_id r"
  shows "fst (merge_prop x r) = fst r"
    and "prop_atoms (snd (merge_prop x r)) = prop_atoms (snd x) \<union> prop_atoms (snd r)"
  using assms by (auto simp: merge_prop_def pk_def prop_id_def prop_atoms_def bit_or_iff)

interpretation prop_table: atom_table prop_atoms ins_prop
proof
  fix r :: "'f \<times> prop_data" and t
  let ?k = "pk prop_id :: 'f \<times> prop_data \<Rightarrow> _"
  let ?m = "map (\<lambda>x. if ?k x = ?k r then merge_prop x r else x) t"
  have atom: "table_atoms prop_atoms [if ?k x = ?k r then merge_prop x r else x] =
      table_atoms prop_atoms [x] \<union> (if ?k x = ?k r then {fst r} \<times> prop_atoms (snd r) else {})" for x
    using prop_atoms_merge [of x r] by (auto simp: pk_def)
  have "table_atoms prop_atoms ?m = table_atoms prop_atoms t \<union>
      (if ?k r \<in> ?k ` set t then {fst r} \<times> prop_atoms (snd r) else {})"
  proof (induction t)
    case Nil
    then show ?case by simp
  next
    case (Cons x t)
    have "table_atoms prop_atoms (map (\<lambda>x. if ?k x = ?k r then merge_prop x r else x) (x # t)) =
        table_atoms prop_atoms [if ?k x = ?k r then merge_prop x r else x] \<union>
        table_atoms prop_atoms (map (\<lambda>x. if ?k x = ?k r then merge_prop x r else x) t)"
      by (simp only: list.map table_atoms_append [symmetric] append_Cons append_Nil)
    also have "\<dots> = table_atoms prop_atoms (x # t) \<union>
        (if ?k r \<in> ?k ` set (x # t) then {fst r} \<times> prop_atoms (snd r) else {})"
      unfolding atom Cons.IH table_atoms_Cons [of prop_atoms x t] by (auto simp: table_atoms_single)
    finally show ?case .
  qed
  then show "table_atoms prop_atoms (ins_prop r t) =
      table_atoms prop_atoms t \<union> {fst r} \<times> prop_atoms (snd r)"
    unfolding ins_prop_def upsert_def by auto
qed

text \<open>The same statements keep the primary keys unique.\<close>

interpretation rec_rows: row_insert "pk rec_id" ins_record
  unfolding ins_record_def by (rule insert_ignore_contract)

interpretation type_rows: row_insert "pk id" ins_type
  unfolding ins_type_def by (rule insert_ignore_contract)

interpretation ftype_rows: row_insert "pk ftype_id" ins_ftype
  unfolding ins_ftype_def by (rule insert_ignore_contract)

interpretation fp_rows: row_insert "pk id" ins_fp
  unfolding ins_fp_def by (rule insert_ignore_contract)

interpretation prop_rows: row_insert "pk prop_id" ins_prop
  unfolding ins_prop_def by (rule upsert_contract) (rule merge_prop_key)

interpretation staging_files: row_insert s_path ins_staging_file
  unfolding ins_staging_file_def by (rule upsert_contract) simp

interpretation staging_main: row_insert s_path ins_staging_main
  unfolding ins_staging_main_def by (rule upsert_contract) simp

interpretation variant_rows: row_insert v_name ins_variant
  unfolding ins_variant_def by (rule upsert_contract) simp

section \<open>Files\<close>

definition wf_files :: "file_row list \<Rightarrow> bool" where
  "wf_files fs \<longleftrightarrow> distinct (map f_id fs) \<and> distinct (map file_key fs)"

lemma fold_max_ge: "(x :: nat) \<in> insert a (set xs) \<Longrightarrow> x \<le> fold max xs a"
proof (induction xs arbitrary: a x)
  case Nil
  then show ?case by simp
next
  case (Cons y ys)
  from Cons.prems consider "x \<le> max y a" | "x \<in> set ys" by auto
  then show ?case
  proof cases
    case 1
    also have "max y a \<le> fold max ys (max y a)" by (rule Cons.IH) simp
    finally show ?thesis by simp
  next
    case 2
    then show ?thesis using Cons.IH [of x "max y a"] by simp
  qed
qed

lemma next_file_id_fresh: "next_file_id fs \<notin> f_id ` set fs"
proof
  assume "next_file_id fs \<in> f_id ` set fs"
  then have "next_file_id fs \<le> fold max (map f_id fs) 0" by (auto intro!: fold_max_ge)
  then show False by (simp add: next_file_id_def)
qed

lemma wf_ins_file: "wf_files fs \<Longrightarrow> wf_files (ins_file v s fs)"
  using next_file_id_fresh [of fs]
  by (auto simp: wf_files_def ins_file_def file_key_def)

lemma wf_fold_ins_file: "wf_files fs \<Longrightarrow> wf_files (fold (ins_file v) ss fs)"
  by (rule fold_invariant) (auto simp: wf_ins_file)

lemma fold_ins_file_old: "f \<in> set fs \<Longrightarrow> f \<in> set (fold (ins_file v) ss fs)"
  by (induction ss arbitrary: fs) (auto simp: ins_file_def)

lemma fold_ins_file_keys:
  "file_key ` set (fold (ins_file v) ss fs) = file_key ` set fs \<union> (\<lambda>s. (v, s_path s)) ` set ss"
  by (induction ss arbitrary: fs) (auto simp: ins_file_def file_key_def)

text \<open>A new row has the stamp of a staged row and a new id.\<close>

lemma fold_ins_file_new:
  assumes "f \<in> set (fold (ins_file v) ss fs)" and "f \<notin> set fs"
  shows "f_id f \<notin> f_id ` set fs \<and> file_key f \<notin> file_key ` set fs \<and>
    (\<exists>s \<in> set ss. f_variant f = v \<and> f_path f = s_path s \<and> f_mtime f = s_mtime s \<and> f_size f = s_size s)"
  using assms
proof (induction ss arbitrary: fs)
  case Nil
  then show ?case by simp
next
  case (Cons s ss)
  show ?case
  proof (cases "f \<in> set (ins_file v s fs)")
    case True
    with Cons.prems(2) next_file_id_fresh [of fs] show ?thesis
      by (auto simp: ins_file_def file_key_def split: if_splits)
  next
    case False
    with Cons.prems Cons.IH [of "ins_file v s fs"]
    have ih: "f_id f \<notin> f_id ` set (ins_file v s fs) \<and> file_key f \<notin> file_key ` set (ins_file v s fs) \<and>
      (\<exists>s \<in> set ss. f_variant f = v \<and> f_path f = s_path s \<and> f_mtime f = s_mtime s \<and> f_size f = s_size s)"
      by simp
    have "set fs \<subseteq> set (ins_file v s fs)" by (auto simp: ins_file_def)
    with ih show ?thesis by auto
  qed
qed

end
