(* ===== verification/Index_Merging.thy ===== *)
theory Index_Merging
  imports Index_Contents
begin

text \<open>
  The effect of the merge transaction on the abstract contents of the database, and the
  invariants of the database that it keeps: unique row ids, unique paths per variant, unique
  primary keys, and no row without its file.
\<close>

section \<open>The merge as one function on a view\<close>

definition run_stmts :: "(view \<Rightarrow> view \<times> nat) list \<Rightarrow> view \<Rightarrow> view" where
  "run_stmts ss w = fold (\<lambda>s w. fst (s w)) ss w"

definition merge_stmts :: "string \<Rightarrow> provenance \<Rightarrow> (view \<Rightarrow> view \<times> nat) list" where
  "merge_stmts v prov =
     [merge_files v, delete_records v, delete_types v, delete_ftypes v, delete_props v,
      delete_fps v, update_files v, insert_records v, insert_types v, insert_ftypes v,
      insert_props v, insert_fps v, upsert_variant v prov]"

definition merged :: "string \<Rightarrow> provenance \<Rightarrow> database \<Rightarrow> staging \<Rightarrow> database" where
  "merged v prov db stg = fst (run_stmts (merge_stmts v prov) (db, stg))"

definition merged_files1 :: "string \<Rightarrow> database \<Rightarrow> staging \<Rightarrow> file_row list" where
  "merged_files1 v db stg = fold (ins_file v) (st_files stg) (db_files db)"

definition stale_set :: "string \<Rightarrow> database \<Rightarrow> staging \<Rightarrow> nat set" where
  "stale_set v db stg = f_id ` {f \<in> set (merged_files1 v db stg). stale_by v (st_files stg) f}"

definition merged_files :: "string \<Rightarrow> database \<Rightarrow> staging \<Rightarrow> file_row list" where
  "merged_files v db stg =
     update_where (\<lambda>f. f_variant f = v \<and> f_path f \<in> s_path ` set (st_files stg))
       (restamp (st_files stg)) (merged_files1 v db stg)"

definition kept :: "string \<Rightarrow> database \<Rightarrow> staging \<Rightarrow> (nat \<times> 'd) list \<Rightarrow> (nat \<times> 'd) list" where
  "kept v db stg t = delete_where (\<lambda>r. fst r \<in> stale_set v db stg) t"

lemma set_stale_ids: "set (stale_ids v (db\<lparr>db_files := merged_files1 v db stg\<rparr>, stg)) = stale_set v db stg"
  by (auto simp: stale_ids_def stale_set_def)

lemmas stmt_defs = merge_files_def delete_records_def delete_types_def delete_ftypes_def
  delete_props_def delete_fps_def update_files_def insert_records_def insert_types_def
  insert_ftypes_def insert_props_def insert_fps_def upsert_variant_def

text \<open>The merge writes every table exactly once more than it deletes from it.\<close>

lemma merged_eq:
  "merged v prov db stg = db\<lparr>
     db_files := merged_files v db stg,
     db_records := fold ins_record (join_files v (merged_files v db stg) (st_records stg))
       (kept v db stg (db_records db)),
     db_types := fold ins_type (join_files v (merged_files v db stg) (st_types stg))
       (kept v db stg (db_types db)),
     db_ftypes := fold ins_ftype (join_files v (merged_files v db stg) (st_ftypes stg))
       (kept v db stg (db_ftypes db)),
     db_props := fold ins_prop (join_files v (merged_files v db stg) (st_props stg))
       (kept v db stg (db_props db)),
     db_variants := ins_variant \<lparr>v_name = v, v_git_commit = pv_git_commit prov,
       v_repository_root = pv_repository_root prov\<rparr> (db_variants db),
     db_fps := fold ins_fp (join_files v (merged_files v db stg) (staged_fingerprints (st_files stg)))
       (kept v db stg (db_fps db))\<rparr>"
proof -
  have stale: "set (stale_ids v (d, stg)) = stale_set v db stg"
    if "db_files d = merged_files1 v db stg" for d
    using that by (auto simp: stale_ids_def stale_set_def)
  have del: "delete_stale v (d, stg) t = kept v db stg t"
    if "db_files d = merged_files1 v db stg" for d and t :: "(nat \<times> 'd) list"
    using stale [OF that] by (simp add: delete_stale_def kept_def)
  show ?thesis
    by (simp add: merged_def run_stmts_def merge_stmts_def stmt_defs Let_def
        merged_files_def delete_stale_def kept_def stale merged_files1_def [symmetric])
qed

section \<open>Contents after a merge\<close>

lemma restamp_key [simp]:
  "f_id (restamp ss f) = f_id f" "f_variant (restamp ss f) = f_variant f"
  "f_path (restamp ss f) = f_path f"
  by (simp_all add: restamp_def split: option.splits)

lemma merged_files_fields:
  "map f_id (merged_files v db stg) = map f_id (merged_files1 v db stg)"
  "map file_key (merged_files v db stg) = map file_key (merged_files1 v db stg)"
  by (simp_all add: merged_files_def map_update_where file_key_def)

lemma wf_merged_files: "wf_files (db_files db) \<Longrightarrow> wf_files (merged_files v db stg)"
  by (simp add: wf_files_def merged_files_fields)
    (metis merged_files1_def wf_files_def wf_fold_ins_file)

lemma wf_files_id:
  assumes "wf_files fs" "f \<in> set fs" "g \<in> set fs" "f_id f = f_id g"
  shows "f = g"
  using assms distinct_map_unique [of f_id fs f g] by (simp add: wf_files_def)

lemma wf_files_key:
  assumes "wf_files fs" "f \<in> set fs" "g \<in> set fs" "file_key f = file_key g"
  shows "f = g"
  using assms distinct_map_unique [of file_key fs f g] by (simp add: wf_files_def)

definition file_at :: "file_row list \<Rightarrow> string \<Rightarrow> string \<Rightarrow> file_row option" where
  "file_at fs v p = find (\<lambda>f. f_variant f = v \<and> f_path f = p) fs"

lemma file_at_Some: "file_at fs v p = Some f \<Longrightarrow> f \<in> set fs \<and> f_variant f = v \<and> f_path f = p"
  by (auto simp: file_at_def find_Some_iff)

lemma file_at_None: "file_at fs v p = None \<longleftrightarrow> (v, p) \<notin> file_key ` set fs"
  by (auto simp: file_at_def find_None_iff file_key_def)

lemma file_at_unique:
  assumes "wf_files fs" "f \<in> set fs" "f_variant f = v" "f_path f = p"
  shows "file_at fs v p = Some f"
proof -
  from assms(2-4) have "(v, p) \<in> file_key ` set fs" by (auto simp: file_key_def)
  then obtain g where g: "file_at fs v p = Some g" using file_at_None by fastforce
  then have "g \<in> set fs" "file_key g = file_key f"
    using file_at_Some [OF g] assms(3,4) by (auto simp: file_key_def)
  with assms(1,2) have "g = f" by (blast intro: wf_files_key)
  with g show ?thesis by simp
qed

lemma contents_file_at:
  assumes "wf_files fs"
  shows "contents atoms fs t v p =
    (case file_at fs v p of None \<Rightarrow> {} | Some f \<Rightarrow> {a. (f_id f, a) \<in> table_atoms atoms t})"
proof (cases "file_at fs v p")
  case None
  then have "(v, p) \<notin> file_key ` set fs" by (simp add: file_at_None)
  then have "contents atoms fs t v p = {}" by (auto simp: contents_def file_key_def)
  with None show ?thesis by simp
next
  case (Some g)
  then have g: "g \<in> set fs" "f_variant g = v" "f_path g = p" using file_at_Some by auto
  have only: "{f \<in> set fs. f_variant f = v \<and> f_path f = p} = {g}"
    using g Some by (auto dest: file_at_unique [OF assms])
  have "contents atoms fs t v p =
      {a. \<exists>f \<in> {f \<in> set fs. f_variant f = v \<and> f_path f = p}. (f_id f, a) \<in> table_atoms atoms t}"
    by (auto simp: contents_def)
  with Some show ?thesis unfolding only by simp
qed

lemma table_atoms_kept:
  "table_atoms atoms (kept v db stg t) = {(i, a) \<in> table_atoms atoms t. i \<notin> stale_set v db stg}"
  by (auto simp: table_atoms_def kept_def table_simps)

lemma in_join_files:
  "(i, d) \<in> set (join_files v fs rows) \<longleftrightarrow>
     (\<exists>f \<in> set fs. f_variant f = v \<and> f_id f = i \<and> (f_path f, d) \<in> set rows)"
proof -
  have "(i, d) \<in> set (join_files v fs rows) \<longleftrightarrow>
      (\<exists>p d' f. (p, d') \<in> set rows \<and> f \<in> set fs \<and> f_path f = p \<and> f_variant f = v \<and> i = f_id f \<and> d = d')"
    by (simp add: join_files_def split_beta) force
  then show ?thesis by blast
qed

lemma table_atoms_join:
  assumes "wf_files fs" "f \<in> set fs"
  shows "(f_id f, a) \<in> table_atoms atoms (join_files v fs rows) \<longleftrightarrow>
    f_variant f = v \<and> a \<in> staged_at atoms rows (f_path f)"
proof -
  have same: "g = f" if "g \<in> set fs" "f_id g = f_id f" for g
    using assms that by (blast intro: wf_files_id)
  have "(f_id f, d) \<in> set (join_files v fs rows) \<longleftrightarrow> f_variant f = v \<and> (f_path f, d) \<in> set rows" for d
    unfolding in_join_files using assms(2) same by metis
  then show ?thesis by (auto simp: table_atoms_def staged_at_def)
qed

text \<open>A file's rows are dropped when it is staged as main file or with another stamp.\<close>

definition replaced :: "string \<Rightarrow> database \<Rightarrow> staging \<Rightarrow> string \<Rightarrow> bool" where
  "replaced v db stg p \<longleftrightarrow> (\<exists>f \<in> set (db_files db). f_path f = p \<and> stale_by v (st_files stg) f)"

definition known_file :: "string \<Rightarrow> database \<Rightarrow> staging \<Rightarrow> string \<Rightarrow> bool" where
  "known_file v db stg p \<longleftrightarrow>
     (v, p) \<in> file_key ` set (db_files db) \<or> p \<in> s_path ` set (st_files stg)"

lemma known_file_merged: "known_file v db stg p \<longleftrightarrow> (v, p) \<in> file_key ` set (merged_files1 v db stg)"
  by (auto simp: known_file_def merged_files1_def fold_ins_file_keys)

lemma merged_file_at:
  assumes "wf_files (db_files db)"
  shows "file_at (merged_files v db stg) v' p =
    map_option (\<lambda>f. if f_variant f = v \<and> f_path f \<in> s_path ` set (st_files stg)
       then restamp (st_files stg) f else f) (file_at (merged_files1 v db stg) v' p)"
  (is "_ = map_option ?u _")
proof -
  have wf1: "wf_files (merged_files1 v db stg)"
    using assms by (simp add: merged_files1_def wf_fold_ins_file)
  show ?thesis
  proof (cases "file_at (merged_files1 v db stg) v' p")
    case None
    then have "(v', p) \<notin> file_key ` set (merged_files1 v db stg)" by (simp add: file_at_None)
    then have "(v', p) \<notin> set (map file_key (merged_files v db stg))"
      by (simp add: merged_files_fields)
    then have "file_at (merged_files v db stg) v' p = None" by (simp add: file_at_None)
    with None show ?thesis by simp
  next
    case (Some f)
    then have f: "f \<in> set (merged_files1 v db stg)" "f_variant f = v'" "f_path f = p"
      using file_at_Some by auto
    then have "?u f \<in> set (merged_files v db stg)" by (auto simp: merged_files_def table_simps)
    moreover have "f_variant (?u f) = v'" "f_path (?u f) = p" using f by auto
    ultimately have "file_at (merged_files v db stg) v' p = Some (?u f)"
      by (intro file_at_unique wf_merged_files assms)
    with Some show ?thesis by simp
  qed
qed

lemma merged_files1_at:
  assumes "wf_files (db_files db)"
  shows "file_at (db_files db) v' p = Some f \<Longrightarrow> file_at (merged_files1 v db stg) v' p = Some f"
    and "file_at (db_files db) v' p = None \<Longrightarrow> file_at (merged_files1 v db stg) v' p = Some f \<Longrightarrow>
      f_id f \<notin> f_id ` set (db_files db)"
proof -
  have wf1: "wf_files (merged_files1 v db stg)"
    using assms by (simp add: merged_files1_def wf_fold_ins_file)
  show "file_at (db_files db) v' p = Some f \<Longrightarrow> file_at (merged_files1 v db stg) v' p = Some f"
    using wf1 by (auto dest!: file_at_Some intro!: file_at_unique simp: merged_files1_def fold_ins_file_old)
  assume none: "file_at (db_files db) v' p = None"
    and some: "file_at (merged_files1 v db stg) v' p = Some f"
  from some have f: "f \<in> set (merged_files1 v db stg)" "file_key f = (v', p)"
    by (auto dest: file_at_Some simp: file_key_def)
  with none have "f \<notin> set (db_files db)" by (force simp: file_at_None)
  with f(1) show "f_id f \<notin> f_id ` set (db_files db)"
    unfolding merged_files1_def by (blast dest: fold_ins_file_new)
qed

lemma contents_merged:
  assumes wf: "wf_files (db_files db)"
    and refs: "fst ` set t \<subseteq> f_id ` set (db_files db)"
    and t': "table_atoms atoms t' = table_atoms atoms (kept v db stg t) \<union>
        table_atoms atoms (join_files v (merged_files v db stg) rows)"
  shows "contents atoms (merged_files v db stg) t' v' p =
    (if v' = v \<and> replaced v db stg p then {} else contents atoms (db_files db) t v' p) \<union>
    (if v' = v \<and> known_file v db stg p then staged_at atoms rows p else {})"
proof -
  let ?F1 = "merged_files1 v db stg" and ?F = "merged_files v db stg" and ?ss = "st_files stg"
  have wf1: "wf_files ?F1" using wf by (simp add: merged_files1_def wf_fold_ins_file)
  have wfF: "wf_files ?F" using wf by (rule wf_merged_files)
  show ?thesis
  proof (cases "file_at ?F1 v' p")
    case None
    then have "file_at (db_files db) v' p = None"
      using merged_files1_at(1) [OF wf, of v' p _ v stg] by (cases "file_at (db_files db) v' p") auto
    moreover have "\<not> (v' = v \<and> known_file v db stg p)"
      using None by (auto simp: file_at_None known_file_merged)
    ultimately show ?thesis
      using None by (auto simp: contents_file_at wf wfF merged_file_at)
  next
    case (Some f)
    then have f: "f \<in> set ?F1" "f_variant f = v'" "f_path f = p" using file_at_Some by auto
    obtain g where g: "file_at ?F v' p = Some g" "f_id g = f_id f"
      using Some by (auto simp: merged_file_at wf)
    then have g_in: "g \<in> set ?F" "f_variant g = v'" "f_path g = p" using file_at_Some by auto
    have join: "(f_id f, a) \<in> table_atoms atoms (join_files v ?F rows) \<longleftrightarrow>
        v' = v \<and> a \<in> staged_at atoms rows p" for a
      using table_atoms_join [OF wfF g_in(1), of a atoms v rows] g_in g(2) by auto
    have known: "v' = v \<Longrightarrow> known_file v db stg p"
      using f by (auto simp: known_file_merged file_key_def)
    have stale: "f_id f \<in> stale_set v db stg \<longleftrightarrow> stale_by v ?ss f"
    proof
      assume "f_id f \<in> stale_set v db stg"
      then obtain h where h: "h \<in> set ?F1" "stale_by v ?ss h" "f_id h = f_id f"
        by (auto simp: stale_set_def)
      then have "h = f" using wf1 f(1) by (blast intro: wf_files_id)
      with h show "stale_by v ?ss f" by simp
    next
      assume "stale_by v ?ss f"
      with f show "f_id f \<in> stale_set v db stg" by (auto simp: stale_set_def)
    qed
    have new: "contents atoms ?F t' v' p =
        {a. (f_id f, a) \<in> table_atoms atoms t \<and> \<not> stale_by v ?ss f} \<union>
        (if v' = v then staged_at atoms rows p else {})"
      using g join stale by (auto simp: contents_file_at wfF t' table_atoms_kept)
    show ?thesis
    proof (cases "file_at (db_files db) v' p")
      case None
      then have "f_id f \<notin> f_id ` set (db_files db)"
        using Some by (rule merged_files1_at(2) [OF wf])
      with refs have "{a. (f_id f, a) \<in> table_atoms atoms t} = {}" by (force simp: table_atoms_def)
      with new None known show ?thesis by (auto simp: contents_file_at wf)
    next
      case (Some h)
      then have "h = f" using merged_files1_at(1) [OF wf Some, of v stg] \<open>file_at ?F1 v' p = Some f\<close> by simp
      with Some have old: "contents atoms (db_files db) t v' p = {a. (f_id f, a) \<in> table_atoms atoms t}"
        by (simp add: contents_file_at wf)
      from Some \<open>h = f\<close> have f_old: "f \<in> set (db_files db)" using file_at_Some by blast
      have "stale_by v ?ss f \<longleftrightarrow> v' = v \<and> replaced v db stg p"
      proof
        assume "stale_by v ?ss f"
        with f f_old show "v' = v \<and> replaced v db stg p" by (auto simp: stale_by_def replaced_def)
      next
        assume r: "v' = v \<and> replaced v db stg p"
        then obtain k where k: "k \<in> set (db_files db)" "f_path k = p" "stale_by v ?ss k"
          by (auto simp: replaced_def)
        then have "f_variant k = v" by (simp add: stale_by_def)
        with k r wf have "file_at (db_files db) v' p = Some k" by (auto intro: file_at_unique)
        with Some \<open>h = f\<close> k show "stale_by v ?ss f" by simp
      qed
      with new old known show ?thesis by auto
    qed
  qed
qed

end
