(* ===== verification/Index_Rows.thy ===== *)
theory Index_Rows
  imports Index_Merging
begin

text \<open>
  What the staging half of \<open>index_db_store\<close> computes, without the calls: the rows an index
  contributes to each table for a selection of its files, and the staged files with their
  cache flags. The lemmas \<open>stage_records_effect\<close> and \<open>stage_files_effect\<close> show that the
  loops of the code, when they succeed, leave exactly these in the staging tables.
\<close>

section \<open>Execution inside a transaction\<close>

definition inside :: "database \<Rightarrow> staging \<Rightarrow> world \<Rightarrow> view \<Rightarrow> bool" where
  "inside S T w v \<longleftrightarrow> txn w = Some v \<and> shared w = S \<and> temp w = T"

text \<open>The transaction is still open, and after a success its view is \<open>v\<close>.\<close>

definition leads :: "database \<Rightarrow> staging \<Rightarrow> world \<Rightarrow> bool \<Rightarrow> view \<Rightarrow> bool" where
  "leads S T w b v \<longleftrightarrow> (\<exists>u. inside S T w u \<and> (b \<longrightarrow> u = v))"

lemma leads_True [simp]: "leads S T w True v \<longleftrightarrow> inside S T w v"
  by (auto simp only: leads_def)

lemma leadsI: "inside S T w (if b then v else u) \<Longrightarrow> leads S T w b v"
  unfolding leads_def by (rule exI [of _ "if b then v else u"]) simp

lemma leads_same: "inside S T w v \<Longrightarrow> leads S T w b v"
  unfolding leads_def by blast

lemma leads_False: "leads S T w False v \<Longrightarrow> leads S T w False v'"
  unfolding leads_def by blast

lemma leads_failed: "inside S T w v \<Longrightarrow> leads S T w False v'"
  unfolding leads_def by blast

lemma leads_inside: "leads S T w b v \<Longrightarrow> \<exists>u. inside S T w u"
  unfolding leads_def by blast

lemma tick_inside: "inside S T w v \<Longrightarrow> tick e w = (b, w') \<Longrightarrow> inside S T w' v"
  by (auto simp: inside_def tick_def Let_def)

lemma exec_sql_inside:
  "inside S T w v \<Longrightarrow> exec_sql e stmt w = (b, w') \<Longrightarrow> inside S T w' (if b then fst (stmt v) else v)"
  by (cases "fault e (clock w)")
    (auto simp: exec_sql_def Let_def inside_def tick_def current_def write_view_def)

lemma exec_sql_leads:
  "inside S T w v \<Longrightarrow> exec_sql e stmt w = (b, w') \<Longrightarrow> leads S T w' b (fst (stmt v))"
  by (auto dest: exec_sql_inside intro: leadsI)

lemma query_inside:
  "inside S T w v \<Longrightarrow> query e f w = (r, w') \<Longrightarrow> inside S T w' v \<and> (r = None \<or> r = Some (f v))"
  by (cases "fault e (clock w)")
    (auto simp: query_def Let_def inside_def tick_def current_def)

lemma trace_inside [simp]:
  "inside S T (trace_end ph w) v = inside S T w v"
  "inside S T (trace_end_counted ph n m w) v = inside S T w v"
  by (simp_all add: inside_def trace_end_def trace_end_counted_def)

lemma trace_leads [simp]:
  "leads S T (trace_end ph w) b v = leads S T w b v"
  "leads S T (trace_end_counted ph n m w) b v = leads S T w b v"
  by (simp_all add: leads_def)

lemma for_each_inside:
  assumes step: "\<And>x s v b s'. x \<in> set xs \<Longrightarrow> inside S T (proj s) v \<Longrightarrow> f x s = (b, s') \<Longrightarrow>
      leads S T (proj s') b (g x v)"
  shows "inside S T (proj s) v \<Longrightarrow> for_each f xs s = (b, s') \<Longrightarrow> leads S T (proj s') b (fold g xs v)"
  using step
proof (induction xs arbitrary: s v)
  case Nil
  then show ?case by (auto intro: leads_same)
next
  case (Cons x xs)
  obtain b1 s1 where x: "f x s = (b1, s1)" by fastforce
  have one: "leads S T (proj s1) b1 (g x v)" by (rule Cons.prems(3) [OF _ Cons.prems(1) x]) simp
  show ?case
  proof (cases b1)
    case True
    with Cons.prems(2) x have "for_each f xs s1 = (b, s')" by simp
    moreover from one True have "inside S T (proj s1) (g x v)" by simp
    ultimately have "leads S T (proj s') b (fold g xs (g x v))"
      using Cons.prems(3) by (intro Cons.IH) auto
    then show ?thesis by simp
  next
    case False
    with Cons.prems(2) x have "b = False" "s' = s1" by auto
    with one False show ?thesis by (auto dest: leads_False)
  qed
qed

lemma prepare_inside:
  assumes "inside S T w v" "prepare_all e n w = (b, w')"
  shows "inside S T w' v"
proof -
  have "for_each (\<lambda>_. tick e) xs w = (b, w') \<Longrightarrow> inside S T w v \<Longrightarrow> inside S T w' v" for xs :: "nat list" and w
  proof (induction xs arbitrary: w)
    case (Cons x xs)
    obtain b1 w1 where "tick e w = (b1, w1)" by fastforce
    with Cons show ?case by (cases b1) (auto dest: tick_inside)
  qed simp
  with assms show ?thesis unfolding prepare_all_def by blast
qed

section \<open>Sets of rows\<close>

record rowset =
  rs_records :: "(string \<times> rec_data) list"
  rs_types :: "(string \<times> type_data) list"
  rs_ftypes :: "(string \<times> ftype_data) list"
  rs_props :: "(string \<times> prop_data) list"

definition no_rows :: rowset where
  "no_rows = \<lparr>rs_records = [], rs_types = [], rs_ftypes = [], rs_props = []\<rparr>"

definition join_rows :: "rowset \<Rightarrow> rowset \<Rightarrow> rowset" where
  "join_rows a b = \<lparr>rs_records = rs_records a @ rs_records b, rs_types = rs_types a @ rs_types b,
     rs_ftypes = rs_ftypes a @ rs_ftypes b, rs_props = rs_props a @ rs_props b\<rparr>"

definition concat_rows :: "rowset list \<Rightarrow> rowset" where
  "concat_rows rs = foldr join_rows rs no_rows"

definition add_rows :: "rowset \<Rightarrow> staging \<Rightarrow> staging" where
  "add_rows a s = s\<lparr>st_records := fold ins_record (rs_records a) (st_records s),
     st_types := fold ins_type (rs_types a) (st_types s),
     st_ftypes := fold ins_ftype (rs_ftypes a) (st_ftypes s),
     st_props := fold ins_prop (rs_props a) (st_props s)\<rparr>"

definition add_view :: "rowset \<Rightarrow> view \<Rightarrow> view" where
  "add_view a v = (fst v, add_rows a (snd v))"

lemma add_no_rows [simp]: "add_view no_rows v = v"
  by (simp add: add_view_def add_rows_def no_rows_def)

lemma add_join_rows: "add_view (join_rows a b) v = add_view b (add_view a v)"
  by (simp add: add_view_def add_rows_def join_rows_def)

lemma fold_add_rows: "fold (\<lambda>x. add_view (h x)) xs v = add_view (concat_rows (map h xs)) v"
  by (induction xs arbitrary: v) (simp_all add: concat_rows_def add_join_rows)

lemma concat_rows_fields:
  "rs_records (concat_rows rs) = concat (map rs_records rs)"
  "rs_types (concat_rows rs) = concat (map rs_types rs)"
  "rs_ftypes (concat_rows rs) = concat (map rs_ftypes rs)"
  "rs_props (concat_rows rs) = concat (map rs_props rs)"
  by (induction rs) (simp_all add: concat_rows_def join_rows_def no_rows_def)

definition shown :: "bool \<Rightarrow> int \<Rightarrow> bool" where
  "shown il l \<longleftrightarrow> \<not> (l \<noteq> 0 \<and> \<not> il)"

definition symbol_rows :: "stored_paths \<Rightarrow> bool \<Rightarrow> (nat \<Rightarrow> bool) \<Rightarrow> symbol \<Rightarrow> rowset" where
  "symbol_rows paths il keep s =
     (if shown il (sym_local s) \<and> keep (sym_file_index s)
      then let p = record_path paths (sym_file_index s) (sym_file s) in
        \<lparr>rs_records = [(p, symbol_row s)],
         rs_types = (if nonempty (sym_type s) \<and> nonempty (sym_usr s) then [(p, symbol_type_row s)] else []),
         rs_ftypes = [],
         rs_props = (if sym_properties s \<noteq> 0 \<and> nonempty (sym_usr s)
                     then [(p, symbol_properties_row s)] else [])\<rparr>
      else no_rows)"

definition use_rows :: "stored_paths \<Rightarrow> bool \<Rightarrow> (nat \<Rightarrow> bool) \<Rightarrow> use \<Rightarrow> rowset" where
  "use_rows paths il keep u =
     (if shown il (use_local u) \<and> keep (use_file_index u)
      then no_rows\<lparr>rs_records := [(record_path paths (use_file_index u) (use_file u), use_row u)]\<rparr>
      else no_rows)"

definition sig_rows :: "stored_paths \<Rightarrow> (nat \<Rightarrow> bool) \<Rightarrow> signature \<Rightarrow> rowset" where
  "sig_rows paths keep g =
     (if nonempty (sig_usr g) \<and> keep (sig_file_index g)
      then no_rows\<lparr>rs_ftypes :=
        map (Pair (record_path paths (sig_file_index g) (sig_file g))) (signature_rows g)\<rparr>
      else no_rows)"

definition index_rows :: "stored_paths \<Rightarrow> bool \<Rightarrow> (nat \<Rightarrow> bool) \<Rightarrow> index \<Rightarrow> rowset" where
  "index_rows paths il keep ix =
     join_rows (concat_rows (map (symbol_rows paths il keep) (ix_symbols ix)))
       (join_rows (concat_rows (map (use_rows paths il keep) (ix_uses ix)))
         (concat_rows (map (sig_rows paths keep) (ix_signatures ix))))"

lemma item_rows_split:
  "set (rs_records (symbol_rows paths il keep s)) = (\<Union>i \<in> {i. keep i}. set (rs_records (symbol_rows paths il ((=) i) s)))"
  "set (rs_types (symbol_rows paths il keep s)) = (\<Union>i \<in> {i. keep i}. set (rs_types (symbol_rows paths il ((=) i) s)))"
  "set (rs_ftypes (symbol_rows paths il keep s)) = (\<Union>i \<in> {i. keep i}. set (rs_ftypes (symbol_rows paths il ((=) i) s)))"
  "set (rs_props (symbol_rows paths il keep s)) = (\<Union>i \<in> {i. keep i}. set (rs_props (symbol_rows paths il ((=) i) s)))"
  "set (rs_records (use_rows paths il keep u)) = (\<Union>i \<in> {i. keep i}. set (rs_records (use_rows paths il ((=) i) u)))"
  "set (rs_types (use_rows paths il keep u)) = (\<Union>i \<in> {i. keep i}. set (rs_types (use_rows paths il ((=) i) u)))"
  "set (rs_ftypes (use_rows paths il keep u)) = (\<Union>i \<in> {i. keep i}. set (rs_ftypes (use_rows paths il ((=) i) u)))"
  "set (rs_props (use_rows paths il keep u)) = (\<Union>i \<in> {i. keep i}. set (rs_props (use_rows paths il ((=) i) u)))"
  "set (rs_records (sig_rows paths keep g)) = (\<Union>i \<in> {i. keep i}. set (rs_records (sig_rows paths ((=) i) g)))"
  "set (rs_types (sig_rows paths keep g)) = (\<Union>i \<in> {i. keep i}. set (rs_types (sig_rows paths ((=) i) g)))"
  "set (rs_ftypes (sig_rows paths keep g)) = (\<Union>i \<in> {i. keep i}. set (rs_ftypes (sig_rows paths ((=) i) g)))"
  "set (rs_props (sig_rows paths keep g)) = (\<Union>i \<in> {i. keep i}. set (rs_props (sig_rows paths ((=) i) g)))"
  by (auto simp: symbol_rows_def use_rows_def sig_rows_def no_rows_def Let_def split: if_splits)

lemma index_rows_sets:
  "set (rs_records (index_rows paths il keep ix)) =
     (\<Union>s \<in> set (ix_symbols ix). set (rs_records (symbol_rows paths il keep s))) \<union>
     ((\<Union>u \<in> set (ix_uses ix). set (rs_records (use_rows paths il keep u))) \<union>
      (\<Union>g \<in> set (ix_signatures ix). set (rs_records (sig_rows paths keep g))))"
  "set (rs_types (index_rows paths il keep ix)) =
     (\<Union>s \<in> set (ix_symbols ix). set (rs_types (symbol_rows paths il keep s))) \<union>
     ((\<Union>u \<in> set (ix_uses ix). set (rs_types (use_rows paths il keep u))) \<union>
      (\<Union>g \<in> set (ix_signatures ix). set (rs_types (sig_rows paths keep g))))"
  "set (rs_ftypes (index_rows paths il keep ix)) =
     (\<Union>s \<in> set (ix_symbols ix). set (rs_ftypes (symbol_rows paths il keep s))) \<union>
     ((\<Union>u \<in> set (ix_uses ix). set (rs_ftypes (use_rows paths il keep u))) \<union>
      (\<Union>g \<in> set (ix_signatures ix). set (rs_ftypes (sig_rows paths keep g))))"
  "set (rs_props (index_rows paths il keep ix)) =
     (\<Union>s \<in> set (ix_symbols ix). set (rs_props (symbol_rows paths il keep s))) \<union>
     ((\<Union>u \<in> set (ix_uses ix). set (rs_props (use_rows paths il keep u))) \<union>
      (\<Union>g \<in> set (ix_signatures ix). set (rs_props (sig_rows paths keep g))))"
  by (simp_all add: index_rows_def join_rows_def concat_rows_fields)

text \<open>Every row of the index comes from one of its files.\<close>

lemma rowset_split:
  "set (rs_records (index_rows paths il keep ix)) =
     (\<Union>i \<in> {i. keep i}. set (rs_records (index_rows paths il ((=) i) ix)))"
  "set (rs_types (index_rows paths il keep ix)) =
     (\<Union>i \<in> {i. keep i}. set (rs_types (index_rows paths il ((=) i) ix)))"
  "set (rs_ftypes (index_rows paths il keep ix)) =
     (\<Union>i \<in> {i. keep i}. set (rs_ftypes (index_rows paths il ((=) i) ix)))"
  "set (rs_props (index_rows paths il keep ix)) =
     (\<Union>i \<in> {i. keep i}. set (rs_props (index_rows paths il ((=) i) ix)))"
  unfolding index_rows_sets item_rows_split(1-8) [where keep = keep and paths = paths and il = il]
    item_rows_split(9-12) [where keep = keep and paths = paths]
  by blast+

section \<open>The staging loops\<close>

lemma counted_inside:
  "inside S T (snd cw) v \<Longrightarrow> counted e stmt add cw = (b, cw') \<Longrightarrow> leads S T (snd cw') b (fst (stmt v))"
  by (auto simp: counted_def split: prod.splits bool.splits dest: exec_sql_inside intro!: leadsI)

lemma stage_stmt_views:
  "fst (stage_record r v) = add_view (no_rows\<lparr>rs_records := [r]\<rparr>) v"
  "fst (stage_symbol_type t v) = add_view (no_rows\<lparr>rs_types := [t]\<rparr>) v"
  "fst (stage_function_type f v) = add_view (no_rows\<lparr>rs_ftypes := [f]\<rparr>) v"
  "fst (stage_symbol_properties p v) = add_view (no_rows\<lparr>rs_props := [p]\<rparr>) v"
  by (simp_all add: stage_record_def stage_symbol_type_def stage_function_type_def
      stage_symbol_properties_def add_view_def add_rows_def no_rows_def Let_def)

lemma stage_use_inside:
  assumes "inside S T (snd cw) v" "stage_use e paths il cached u cw = (b, cw')"
  shows "leads S T (snd cw') b (add_view (use_rows paths il (\<lambda>i. \<not> is_cached cached i) u) v)"
proof (cases "shown il (use_local u) \<and> \<not> is_cached cached (use_file_index u)")
  case False
  then have "use_rows paths il (\<lambda>i. \<not> is_cached cached i) u = no_rows" "snd cw' = snd cw"
    using assms(2) by (auto simp: stage_use_def use_rows_def shown_def Let_def split: if_splits)
  with assms(1) show ?thesis by (simp add: leads_same)
next
  case True
  let ?r = "(record_path paths (use_file_index u) (use_file u), use_row u)"
  from True assms(2) have "counted e (stage_record ?r) (\<lambda>n c. c)
      ((fst cw)\<lparr>items_in := Suc (items_in (fst cw))\<rparr>, snd cw) = (b, cw')"
    by (auto simp: stage_use_def shown_def Let_def)
  from counted_inside [OF _ this] assms(1)
  have "leads S T (snd cw') b (fst (stage_record ?r v))" by simp
  then show ?thesis
    using True by (simp add: stage_stmt_views use_rows_def)
qed

lemma optional_inside:
  assumes "inside S T (snd cw) v"
    and "(if c then counted e stmt add cw else (True, cw)) = (b, cw')"
  shows "leads S T (snd cw') b (if c then fst (stmt v) else v)"
  using assms by (auto split: if_splits dest: counted_inside intro: leads_same)

lemma stage_symbol_inside:
  assumes "inside S T (snd cw) v" "stage_symbol e paths il cached s cw = (b, cw')"
  shows "leads S T (snd cw') b (add_view (symbol_rows paths il (\<lambda>i. \<not> is_cached cached i) s) v)"
proof (cases "shown il (sym_local s) \<and> \<not> is_cached cached (sym_file_index s)")
  case False
  then have "symbol_rows paths il (\<lambda>i. \<not> is_cached cached i) s = no_rows" "snd cw' = snd cw"
    using assms(2) by (auto simp: stage_symbol_def symbol_rows_def shown_def Let_def split: if_splits)
  with assms(1) show ?thesis by (simp add: leads_same)
next
  case True
  let ?p = "record_path paths (sym_file_index s) (sym_file s)"
  let ?cw0 = "((fst cw)\<lparr>items_in := Suc (items_in (fst cw))\<rparr>, snd cw)"
  let ?t = "nonempty (sym_type s) \<and> nonempty (sym_usr s)"
  let ?q = "sym_properties s \<noteq> 0 \<and> nonempty (sym_usr s)"
  let ?types = "stage_symbol_type (?p, symbol_type_row s)"
  let ?props = "stage_symbol_properties (?p, symbol_properties_row s)"
  let ?v1 = "fst (stage_record (?p, symbol_row s) v)"
  let ?v2 = "if ?t then fst (?types ?v1) else ?v1"
  let ?v3 = "if ?q then fst (?props ?v2) else ?v2"
  let ?add2 = "\<lambda>n c. c\<lparr>n_symbol_types := n_symbol_types c + n\<rparr>"
  let ?add3 = "\<lambda>n c. c\<lparr>n_symbol_properties := n_symbol_properties c + n\<rparr>"
  obtain b1 cw1 where r1: "counted e (stage_record (?p, symbol_row s)) (\<lambda>n c. c) ?cw0 = (b1, cw1)"
    by (rule prod.exhaust)
  obtain b2 cw2 where r2: "(if ?t then counted e ?types ?add2 cw1 else (True, cw1)) = (b2, cw2)"
    by (rule prod.exhaust)
  obtain b3 cw3 where r3: "(if ?q then counted e ?props ?add3 cw2 else (True, cw2)) = (b3, cw3)"
    by (rule prod.exhaust)
  have run: "(b, cw') = (if \<not> b1 then (False, cw1) else if \<not> b2 then (False, cw2) else (b3, cw3))"
  proof -
    have c: "\<not> (sym_local s \<noteq> 0 \<and> \<not> il)" "\<not> is_cached cached (sym_file_index s)"
      using True by (simp_all add: shown_def)
    show ?thesis
      unfolding assms(2) [symmetric] stage_symbol_def Let_def if_not_P [OF c(1)] if_not_P [OF c(2)] r1
      by (cases b1; cases b2) (simp_all only: prod.case bool.case r2 r3 if_True if_False not_True_eq_False not_False_eq_True simp_thms)
  qed
  have i1: "leads S T (snd cw1) b1 ?v1"
    using counted_inside [OF _ r1, of S T v] assms(1) by simp
  have i2: "leads S T (snd cw2) b2 ?v2" if "b1"
    using i1 that by (intro optional_inside [OF _ r2]) simp
  have i3: "leads S T (snd cw3) b3 ?v3" if "b1" "b2"
    using i2 that by (intro optional_inside [OF _ r3]) simp
  have "?v3 = add_view (symbol_rows paths il (\<lambda>i. \<not> is_cached cached i) s) v"
    using True by (simp add: stage_stmt_views symbol_rows_def add_view_def add_rows_def no_rows_def Let_def)
  then have i3': "b1 \<Longrightarrow> b2 \<Longrightarrow>
      leads S T (snd cw3) b3 (add_view (symbol_rows paths il (\<lambda>i. \<not> is_cached cached i) s) v)"
    using i3 by simp
  show ?thesis
  proof (cases "b1 \<and> b2")
    case True
    with run i3' show ?thesis by simp
  next
    case False
    then consider "\<not> b1" | "b1" "\<not> b2" by blast
    then show ?thesis
    proof cases
      case 1
      with run i1 show ?thesis by (auto dest: leads_False)
    next
      case 2
      with run have "b = False" "cw' = cw2" by simp_all
      moreover have "b2 = False" using 2(2) by simp
      ultimately show ?thesis using i2 [OF 2(1)] leads_False by (simp only:)
    qed
  qed
qed

lemma stage_signature_inside:
  assumes "inside S T (snd cw) v" "stage_signature e paths cached g cw = (b, cw')"
  shows "leads S T (snd cw') b (add_view (sig_rows paths (\<lambda>i. \<not> is_cached cached i) g) v)"
proof (cases "nonempty (sig_usr g) \<and> \<not> is_cached cached (sig_file_index g)")
  case False
  then have "sig_rows paths (\<lambda>i. \<not> is_cached cached i) g = no_rows" "snd cw' = snd cw"
    using assms(2) by (auto simp: stage_signature_def sig_rows_def split: if_splits)
  with assms(1) show ?thesis by (simp add: leads_same)
next
  case True
  let ?p = "record_path paths (sig_file_index g) (sig_file g)"
  let ?f = "\<lambda>d. counted e (stage_function_type (?p, d)) (\<lambda>n c. c\<lparr>n_function_types := n_function_types c + n\<rparr>)"
  have run: "for_each ?f (signature_rows g) cw = (b, cw')"
    using assms(2) True by (auto simp: stage_signature_def)
  have "leads S T (snd cw') b
      (fold (\<lambda>d. add_view (no_rows\<lparr>rs_ftypes := [(?p, d)]\<rparr>)) (signature_rows g) v)"
    using counted_inside assms(1) run unfolding stage_stmt_views [symmetric]
    by (intro for_each_inside [where proj = snd and f = ?f and s = cw]) auto
  moreover have "fold (\<lambda>d. add_view (no_rows\<lparr>rs_ftypes := [(?p, d)]\<rparr>)) ds v =
      add_view (no_rows\<lparr>rs_ftypes := map (Pair ?p) ds\<rparr>) v" for ds v
    by (induction ds arbitrary: v) (simp_all add: add_view_def add_rows_def no_rows_def)
  ultimately show ?thesis using True by (simp add: sig_rows_def)
qed

lemma stage_records_effect:
  assumes "inside S T w v" "stage_records e ix paths il cached w = (b, (c, w'))"
  shows "leads S T w' b (add_view (index_rows paths il (\<lambda>i. \<not> is_cached cached i) ix) v)"
proof -
  let ?k = "\<lambda>i. \<not> is_cached cached i"
  obtain b0 w1 where p: "prepare_all e 4 w = (b0, w1)" by (cases "prepare_all e 4 w")
  then have w1: "inside S T (snd (zero_counts, w1)) v" using prepare_inside assms(1) by simp
  obtain b1 cw1 where s: "for_each (stage_symbol e paths il cached) (ix_symbols ix) (zero_counts, w1) = (b1, cw1)"
    by (cases "for_each (stage_symbol e paths il cached) (ix_symbols ix) (zero_counts, w1)")
  have v1: "leads S T (snd cw1) b1 (fold (\<lambda>s. add_view (symbol_rows paths il ?k s)) (ix_symbols ix) v)"
    by (rule for_each_inside [where proj = snd, OF _ w1 s]) (rule stage_symbol_inside)
  obtain b2 cw2 where u: "for_each (stage_use e paths il cached) (ix_uses ix) cw1 = (b2, cw2)"
    by (cases "for_each (stage_use e paths il cached) (ix_uses ix) cw1")
  have v2: "inside S T (snd cw1) u \<Longrightarrow>
      leads S T (snd cw2) b2 (fold (\<lambda>s. add_view (use_rows paths il ?k s)) (ix_uses ix) u)" for u
    by (rule for_each_inside [where proj = snd, OF _ _ u]) (rule stage_use_inside)
  obtain b3 cw3 where g: "for_each (stage_signature e paths cached) (ix_signatures ix) cw2 = (b3, cw3)"
    by (cases "for_each (stage_signature e paths cached) (ix_signatures ix) cw2")
  have v3: "inside S T (snd cw2) u \<Longrightarrow>
      leads S T (snd cw3) b3 (fold (\<lambda>s. add_view (sig_rows paths ?k s)) (ix_signatures ix) u)" for u
    by (rule for_each_inside [where proj = snd, OF _ _ g]) (rule stage_signature_inside)
  have run: "(b, w') = (if \<not> b0 then (False, w1) else if \<not> b1 then (False, snd cw1)
      else if \<not> b2 then (False, snd cw2) else (b3, snd cw3))"
    using assms(2) p s u g by (simp add: stage_records_def split: bool.splits)
  show ?thesis
  proof (cases "b0 \<and> b1 \<and> b2")
    case True
    with v1 v2 [of "fold (\<lambda>s. add_view (symbol_rows paths il ?k s)) (ix_symbols ix) v"] v3
    have "leads S T (snd cw3) b3 (fold (\<lambda>s. add_view (sig_rows paths ?k s)) (ix_signatures ix)
        (fold (\<lambda>s. add_view (use_rows paths il ?k s)) (ix_uses ix)
          (fold (\<lambda>s. add_view (symbol_rows paths il ?k s)) (ix_symbols ix) v)))"
      by simp
    with run True show ?thesis by (simp add: fold_add_rows index_rows_def add_join_rows)
  next
    case False
    then consider "\<not> b0" | "b0" "\<not> b1" | "b0" "b1" "\<not> b2" by blast
    then show ?thesis
    proof cases
      case 1
      with run w1 show ?thesis by (simp add: leads_failed)
    next
      case 2
      with run v1 show ?thesis by (auto dest: leads_False)
    next
      case 3
      with run v1 v2 [of "fold (\<lambda>s. add_view (symbol_rows paths il ?k s)) (ix_symbols ix) v"]
      show ?thesis by (auto dest: leads_False)
    qed
  qed
qed

section \<open>The staged files\<close>

definition plan_file :: "fs \<Rightarrow> index \<Rightarrow> stored_paths \<Rightarrow> file_stat option \<Rightarrow> bool \<Rightarrow> nat
    \<Rightarrow> staging_file list \<Rightarrow> staging_file list" where
  "plan_file fs ix paths ms il i t =
     (case get_file_fingerprint ix i il of
        None \<Rightarrow> t
      | Some fp \<Rightarrow> if fp_record_count fp = 0 then t
                   else ins_staging_file (included_row fs paths ms i fp) t)"

definition planned_files :: "fs \<Rightarrow> index \<Rightarrow> stored_paths \<Rightarrow> string option \<Rightarrow> bool \<Rightarrow> staging_file list" where
  "planned_files fs ix paths main_file il =
     (let ms = (case main_file of None \<Rightarrow> None | Some m \<Rightarrow> fs_stat fs m);
          t = fold (plan_file fs ix paths ms il) [0..<file_fingerprint_count ix] []
      in if main_file = None then t else ins_staging_main (main_row paths ms) t)"

definition unmark :: "staging_file \<Rightarrow> staging_file" where
  "unmark s = s\<lparr>s_cached := False\<rparr>"

lemma unmark_fields [simp]:
  "s_path (unmark s) = s_path s" "s_mtime (unmark s) = s_mtime s" "s_size (unmark s) = s_size s"
  "s_is_main (unmark s) = s_is_main s" "s_ordinal (unmark s) = s_ordinal s"
  "s_fingerprint (unmark s) = s_fingerprint s" "\<not> s_cached (unmark s)"
  by (simp_all add: unmark_def)

text \<open>What a staged row says about the file of the index it stands for.\<close>

definition file_ok :: "index \<Rightarrow> stored_paths \<Rightarrow> bool \<Rightarrow> staging_file \<Rightarrow> bool" where
  "file_ok ix paths il s \<longleftrightarrow>
     (if s_is_main s then s_fingerprint s = None
      else (\<exists>i fp. s_ordinal s = Some i \<and> i < file_fingerprint_count ix \<and>
              get_file_fingerprint ix i il = Some fp \<and>
              s_fingerprint s = Some (fp_data fp) \<and> s_path s = sp_files paths ! i))"

definition plan_ok :: "index \<Rightarrow> stored_paths \<Rightarrow> bool \<Rightarrow> staging_file list \<Rightarrow> bool" where
  "plan_ok ix paths il t \<longleftrightarrow> distinct (map s_path t) \<and> (\<forall>s \<in> set t. file_ok ix paths il s \<and> \<not> s_cached s)"

lemma plan_ok_upsert:
  assumes "plan_ok ix paths il t"
    and "row_insert s_path (upsert s_path merge)"
    and "\<And>x. x \<in> set t \<Longrightarrow> s_path x = s_path r \<Longrightarrow> file_ok ix paths il (merge x r) \<and> \<not> s_cached (merge x r)"
    and "file_ok ix paths il r" "\<not> s_cached r"
  shows "plan_ok ix paths il (upsert s_path merge r t)"
  using assms row_insert.ins_distinct [OF assms(2)]
  by (auto simp: plan_ok_def) (auto simp: upsert_def split: if_splits)

lemma plan_ok_file:
  assumes "plan_ok ix paths il t" "i < file_fingerprint_count ix"
  shows "plan_ok ix paths il (plan_file fs ix paths ms il i t)"
proof (cases "get_file_fingerprint ix i il")
  case None
  with assms show ?thesis by (simp add: plan_file_def)
next
  case (Some fp)
  let ?r = "included_row fs paths ms i fp"
  have "plan_ok ix paths il (ins_staging_file ?r t)"
    unfolding ins_staging_file_def
    by (rule plan_ok_upsert [OF assms(1) staging_files.row_insert_axioms [unfolded ins_staging_file_def]])
      (use assms Some in \<open>auto simp: plan_ok_def file_ok_def included_row_def Let_def\<close>)
  with assms(1) Some show ?thesis by (simp add: plan_file_def)
qed

lemma plan_ok_main:
  assumes "plan_ok ix paths il t"
  shows "plan_ok ix paths il (ins_staging_main (main_row paths ms) t)"
  unfolding ins_staging_main_def
  by (rule plan_ok_upsert [OF assms staging_main.row_insert_axioms [unfolded ins_staging_main_def]])
    (use assms in \<open>auto simp: plan_ok_def file_ok_def main_row_def\<close>)

lemma plan_ok_planned: "plan_ok ix paths il (planned_files fs ix paths main_file il)"
proof -
  have "plan_ok ix paths il (fold (plan_file fs ix paths ms il) [0..<file_fingerprint_count ix] [])" for ms
    by (rule fold_invariant) (auto simp: plan_ok_file, simp add: plan_ok_def)
  then show ?thesis by (simp add: planned_files_def Let_def plan_ok_main)
qed

definition on_files :: "(staging_file list \<Rightarrow> staging_file list) \<Rightarrow> view \<Rightarrow> view" where
  "on_files f v = (fst v, (snd v)\<lparr>st_files := f (st_files (snd v))\<rparr>)"

lemma on_files_simps [simp]:
  "on_files (\<lambda>t. t) v = v" "on_files g (on_files f v) = on_files (\<lambda>t. g (f t)) v"
  by (simp_all add: on_files_def)

lemma fold_on_files: "fold (\<lambda>i. on_files (f i)) xs v = on_files (fold f xs) v"
  by (induction xs arbitrary: v) (simp_all add: on_files_def)

lemma stage_file_inside:
  assumes "inside S T (snd nw) v" "stage_file e ix paths ms il i nw = (b, nw')"
  shows "leads S T (snd nw') b (on_files (plan_file (env_fs e) ix paths ms il i) v)"
proof (cases "get_file_fingerprint ix i il")
  case None
  with assms show ?thesis by (auto simp: stage_file_def leads_failed)
next
  case (Some fp)
  show ?thesis
  proof (cases "fp_record_count fp = 0")
    case True
    with Some have "on_files (plan_file (env_fs e) ix paths ms il i) v = v"
      by (simp add: on_files_def plan_file_def)
    with assms Some True show ?thesis by (auto simp: stage_file_def)
  next
    case False
    let ?r = "included_row (env_fs e) paths ms i fp"
    obtain b1 w1 where x: "exec_sql e (stage_file_row ?r) (snd nw) = (b1, w1)" by (rule prod.exhaust)
    with assms(2) Some False have "b = b1" "snd nw' = w1" by (auto simp: stage_file_def Let_def)
    moreover have "fst (stage_file_row ?r v) = on_files (plan_file (env_fs e) ix paths ms il i) v"
      using Some False by (simp add: stage_file_row_def on_files_def plan_file_def)
    ultimately show ?thesis using exec_sql_inside [OF assms(1) x] by (auto intro: leadsI)
  qed
qed

lemma stage_main_inside:
  assumes "inside S T w v"
    and "(if main_file = None then (True, w)
          else (case tick e w of (False, w3) \<Rightarrow> (False, w3)
                | (True, w3) \<Rightarrow> exec_sql e (stage_main_row r) w3)) = (b, w')"
  shows "leads S T w' b (on_files (\<lambda>t. if main_file = None then t else ins_staging_main r t) v)"
proof (cases "main_file = None")
  case True
  with assms show ?thesis by (auto simp: leads_same)
next
  case False
  obtain b1 w1 where t: "tick e w = (b1, w1)" by (rule prod.exhaust)
  with assms(1) have i1: "inside S T w1 v" by (rule tick_inside)
  have "fst (stage_main_row r v) = on_files (\<lambda>t. if main_file = None then t else ins_staging_main r t) v"
    using False by (cases main_file) (simp_all add: stage_main_row_def on_files_def)
  with assms(2) False t i1 exec_sql_leads [OF i1, of e "stage_main_row r"] show ?thesis
    by (cases b1) (auto intro: leads_failed)
qed

lemma mark_cached_view:
  "fst (mark_cached variant (db, stg)) =
     on_files (map (\<lambda>s. if cacheable variant db s then s\<lparr>s_cached := True\<rparr> else s)) (db, stg)"
  by (simp add: mark_cached_def on_files_def update_where_def Let_def)

lemma set_cached_is_cached:
  assumes "set_cached cached os n = (True, cached', n')" "is_cached cached' i"
  shows "is_cached cached i \<or> i \<in> (\<lambda>j. case j of None \<Rightarrow> 0 | Some k \<Rightarrow> k) ` set os"
  using assms
proof (induction os arbitrary: cached n)
  case Nil
  then show ?case by simp
next
  case (Cons j os)
  let ?k = "case j of None \<Rightarrow> 0 | Some k \<Rightarrow> k"
  from Cons.prems(1) have "?k < length cached" "set_cached (cached[?k := True]) os (Suc n) = (True, cached', n')"
    by (auto simp: Let_def split: if_splits)
  then have "is_cached (cached[?k := True]) i \<or> i \<in> (\<lambda>j. case j of None \<Rightarrow> 0 | Some k \<Rightarrow> k) ` set os"
    using Cons.IH Cons.prems(2) by blast
  then show ?case by (auto simp: is_cached_def nth_list_update split: if_splits)
qed

lemma not_cached_replicate [simp]: "\<not> is_cached (replicate n False) i"
  by (simp add: is_cached_def)

lemma unmark_idem: "\<not> s_cached s \<Longrightarrow> unmark s = s"
  by (cases s) (simp add: unmark_def)

lemma unmark_plan:
  assumes "plan_ok ix paths il t"
  shows "map unmark t = t" "map unmark (map (\<lambda>s. if P s then s\<lparr>s_cached := True\<rparr> else s) t) = t"
proof -
  show "map unmark t = t"
    using assms by (auto simp: plan_ok_def unmark_idem intro!: map_idI)
  show "map unmark (map (\<lambda>s. if P s then s\<lparr>s_cached := True\<rparr> else s) t) = t"
    using assms by (auto simp: plan_ok_def unmark_def intro!: map_idI)
qed

lemma cached_ordinals_ok:
  assumes "plan_ok ix paths il t"
    and "i \<in> (\<lambda>j. case j of None \<Rightarrow> 0 | Some k \<Rightarrow> k) ` set (cached_ordinals
      (db, stg\<lparr>st_files := map (\<lambda>s. if cacheable v db s then s\<lparr>s_cached := True\<rparr> else s) t\<rparr>))"
  shows "\<exists>s \<in> set (map (\<lambda>s. if cacheable v db s then s\<lparr>s_cached := True\<rparr> else s) t).
    s_cached s \<and> s_ordinal s = Some i"
proof -
  from assms(2) obtain s where s: "s \<in> set t" "s_cached (if cacheable v db s then s\<lparr>s_cached := True\<rparr> else s)"
    "i = (case s_ordinal s of None \<Rightarrow> 0 | Some k \<Rightarrow> k)"
    by (auto simp: cached_ordinals_def split: if_splits)
  with assms(1) have c: "cacheable v db s" by (auto simp: plan_ok_def split: if_splits)
  from s(1) assms(1) have "file_ok ix paths il s" by (simp add: plan_ok_def)
  moreover from c have "\<not> s_is_main s" by (simp add: cacheable_def)
  ultimately have "\<exists>j. s_ordinal s = Some j" by (auto simp: file_ok_def)
  with s(3) have "s_ordinal s = Some i" by auto
  moreover have "s\<lparr>s_cached := True\<rparr> \<in>
      set (map (\<lambda>s. if cacheable v db s then s\<lparr>s_cached := True\<rparr> else s) t)"
    unfolding set_map by (rule rev_image_eqI [OF s(1)]) (simp add: c)
  ultimately show ?thesis by (intro bexI [of _ "s\<lparr>s_cached := True\<rparr>"]) simp_all
qed

lemma stage_files_effect:
  assumes start: "inside S T w (db, stg)" "st_files stg = []"
    and run: "stage_files e ix paths main_file variant il
        (replicate (file_fingerprint_count ix) False) w = (b, cached, n, m, w')"
  shows "if b then \<exists>fs. inside S T w' (db, stg\<lparr>st_files := fs\<rparr>) \<and>
        map unmark fs = planned_files (env_fs e) ix paths main_file il \<and>
        (\<forall>s \<in> set fs. s_cached s \<longrightarrow> \<not> s_is_main s) \<and>
        (\<forall>i. is_cached cached i \<longrightarrow> (\<exists>s \<in> set fs. s_cached s \<and> s_ordinal s = Some i))
      else \<exists>u. inside S T w' u"
proof -
  let ?ms = "case main_file of None \<Rightarrow> None | Some m \<Rightarrow> fs_stat (env_fs e) m"
  let ?c0 = "replicate (file_fingerprint_count ix) False"
  let ?plan = "planned_files (env_fs e) ix paths main_file il"
  let ?incl = "fold (plan_file (env_fs e) ix paths ?ms il) [0..<file_fingerprint_count ix]"
  let ?main = "\<lambda>t. if main_file = None then t else ins_staging_main (main_row paths ?ms) t"
  obtain b1 w1 where t: "tick e w = (b1, w1)" by (rule prod.exhaust)
  have i1: "inside S T (snd (0 :: nat, w1)) (db, stg)" using tick_inside [OF start(1) t] by simp
  obtain b2 k w2 where f: "for_each (stage_file e ix paths ?ms il) [0..<length ?c0] (0, w1) = (b2, (k, w2))"
    by (rule prod_cases3)
  have "leads S T (snd (k, w2)) b2 (fold (\<lambda>i. on_files (plan_file (env_fs e) ix paths ?ms il i))
      [0..<length ?c0] (db, stg))"
    by (rule for_each_inside [where proj = snd, OF _ i1 f]) (rule stage_file_inside)
  then have i2: "leads S T w2 b2 (on_files ?incl (db, stg))" by (simp add: fold_on_files)
  obtain b3 w3 where mn: "(if main_file = None then (True, w2)
      else (case tick e w2 of (False, w3) \<Rightarrow> (False, w3)
            | (True, w3) \<Rightarrow> exec_sql e (stage_main_row (main_row paths ?ms)) w3)) = (b3, w3)"
    by (rule prod.exhaust)
  have "leads S T w3 b3 (on_files ?main (on_files ?incl (db, stg)))" if "b2"
    using i2 that by (intro stage_main_inside [OF _ mn]) simp
  moreover have "on_files ?main (on_files ?incl (db, stg)) = (db, stg\<lparr>st_files := ?plan\<rparr>)"
    by (simp add: on_files_def planned_files_def Let_def start(2))
  ultimately have i3: "leads S T w3 b3 (db, stg\<lparr>st_files := ?plan\<rparr>)" if "b2" using that by simp
  obtain b4 w4 where mk: "exec_sql e (mark_cached variant) w3 = (b4, w4)" by (rule prod.exhaust)
  obtain r5 w5 where q: "query e cached_ordinals w4 = (r5, w5)" by (rule prod.exhaust)
  let ?marked = "map (\<lambda>s. if cacheable variant db s then s\<lparr>s_cached := True\<rparr> else s) ?plan"
  have i4: "inside S T w4 (db, stg\<lparr>st_files := if b4 then ?marked else ?plan\<rparr>)" if "b2" "b3"
    using exec_sql_inside [OF _ mk, of S T "(db, stg\<lparr>st_files := ?plan\<rparr>)"] i3 that
    by (simp add: mark_cached_view on_files_def split: if_splits)
  have i5: "inside S T w5 (db, stg\<lparr>st_files := if b4 then ?marked else ?plan\<rparr>)" 
    "r5 = None \<or> r5 = Some (cached_ordinals (db, stg\<lparr>st_files := if b4 then ?marked else ?plan\<rparr>))"
    if "b2" "b3"
    using query_inside [OF i4 q] that by blast+
  have res: "(b, cached, n, m, w') =
     (if \<not> b1 then (False, ?c0, 0, 0, w1) else if \<not> b2 then (False, ?c0, 0, 0, w2)
      else if \<not> b3 then (False, ?c0, 0, 0, w3) else if k = 0 then (True, ?c0, k, 0, w3)
      else if \<not> b4 then (False, ?c0, k, 0, w4)
      else (case r5 of None \<Rightarrow> (False, ?c0, k, 0, w5)
            | Some os \<Rightarrow> (case set_cached ?c0 os 0 of (ok, c, j) \<Rightarrow> (ok, c, k, j, w5))))"
    unfolding run [symmetric] stage_files_def Let_def t
    by (cases b1; cases b2; cases b3; cases b4)
      (simp_all only: prod.case bool.case f mn mk q if_True if_False not_True_eq_False not_False_eq_True
        snd_conv option.case split: option.split)
  have ok: "plan_ok ix paths il ?plan" by (rule plan_ok_planned)
  consider "\<not> (b1 \<and> b2 \<and> b3)" | "b1" "b2" "b3" "k = 0" | "b1" "b2" "b3" "k \<noteq> 0" by blast
  then show ?thesis
  proof cases
    case 1
    with res have "\<not> b" "w' = w1 \<or> b1 \<and> w' = w2 \<or> b1 \<and> b2 \<and> w' = w3" by (auto split: if_splits)
    moreover have "\<exists>u. inside S T w1 u" using i1 by auto
    moreover have "\<exists>u. inside S T w2 u" using leads_inside [OF i2] .
    moreover have "b2 \<Longrightarrow> \<exists>u. inside S T w3 u" using leads_inside [OF i3] .
    ultimately show ?thesis by auto
  next
    case 2
    with res have r: "b" "cached = ?c0" "w' = w3" by simp_all
    have "inside S T w3 (db, stg\<lparr>st_files := ?plan\<rparr>)" using i3 2 by simp
    with ok r unmark_plan(1) [OF ok] show ?thesis
      by (auto simp: plan_ok_def intro!: exI [of _ ?plan])
  next
    case 3
    show ?thesis
    proof (cases "b4 \<and> r5 \<noteq> None")
      case False
      with res 3 have "\<not> b" "w' = w4 \<or> w' = w5" by (auto split: if_splits)
      then show ?thesis using i4 i5(1) 3 by auto
    next
      case True
      let ?v = "(db, stg\<lparr>st_files := ?marked\<rparr>)"
      from True 3 i5 have i: "inside S T w5 ?v" "r5 = Some (cached_ordinals ?v)" by auto
      obtain ok' c j where sc: "set_cached ?c0 (cached_ordinals ?v) 0 = (ok', c, j)"
        by (rule prod_cases3)
      with res 3 True i have r: "b = ok'" "cached = c" "w' = w5" by simp_all
      have "\<exists>s \<in> set ?marked. s_cached s \<and> s_ordinal s = Some i'" if "b" "is_cached cached i'" for i'
        using set_cached_is_cached [of ?c0 "cached_ordinals ?v" 0 c j i'] sc r that
        by (intro cached_ordinals_ok [OF ok]) auto
      moreover have "\<forall>s \<in> set ?marked. s_cached s \<longrightarrow> \<not> s_is_main s"
        using ok by (auto simp: plan_ok_def cacheable_def)
      moreover have "inside S T w' ?v" using i(1) r(3) by simp
      ultimately show ?thesis
        using unmark_plan(2) [OF ok, of "cacheable variant db"] unfolding r(2) [symmetric]
        by (cases "b = True") (simp only: if_True, blast, simp only: if_False eq_True, blast)
    qed
  qed
qed

end
