(* ===== verification/Index_Store.thy ===== *)
theory Index_Store
  imports Index_Rows
begin

text \<open>
  The whole store operation, under arbitrary failures of SQLite calls and arbitrary commits of
  other processes between its transactions: what each phase leaves behind, and what the
  committed database is when the operation reports success or failure.
\<close>

section \<open>Between transactions\<close>

definition idle :: "database \<Rightarrow> staging \<Rightarrow> world \<Rightarrow> bool" where
  "idle S T w \<longleftrightarrow> txn w = None \<and> shared w = S \<and> temp w = T"

text \<open>The rows of a database, without the names and the version of its schema.\<close>

definition same_rows :: "database \<Rightarrow> database \<Rightarrow> bool" where
  "same_rows a b \<longleftrightarrow> (\<exists>v t i. b = a\<lparr>db_version := v, db_tables := t, db_indexes := i\<rparr>)"

definition with_schema :: "database \<Rightarrow> database" where
  "with_schema S = S\<lparr>db_version := INDEX_SCHEMA_VERSION,
     db_tables := db_tables S @ [''files'', ''records'', ''symbol_types'', ''function_types'',
       ''symbol_properties'', ''variants'', ''file_fingerprints''],
     db_indexes := db_indexes S @ [''records_file_idx'', ''symbol_types_file_idx'',
       ''function_types_file_idx'', ''symbol_properties_file_idx'', ''records_call_context_idx'']\<rparr>"

lemma same_rows_with_schema: "same_rows S (with_schema S)"
  unfolding same_rows_def with_schema_def by blast

text \<open>
  How the shared database changes under this process's feet: by commits of the others, and by
  the creation of the schema, which touches no row.
\<close>

inductive evolved :: "env \<Rightarrow> database \<Rightarrow> database \<Rightarrow> bool" for e where
  same: "evolved e a a"
| peer: "evolved e a b \<Longrightarrow> evolved e a (others e n b)"
| schema: "evolved e a b \<Longrightarrow> db_version b = 0 \<Longrightarrow> \<not> has_user_tables (b, T) \<Longrightarrow> evolved e a (with_schema b)"

inductive drift :: "env \<Rightarrow> database \<Rightarrow> database \<Rightarrow> bool" for e where
  none: "drift e a a"
| commit: "drift e a b \<Longrightarrow> drift e a (others e n b)"

lemma drift_trans: "drift e b c \<Longrightarrow> drift e a b \<Longrightarrow> drift e a c"
  by (induction rule: drift.induct) (auto intro: drift.intros)

lemma drift_evolved: "drift e a b \<Longrightarrow> evolved e a b"
  by (induction rule: drift.induct) (auto intro: evolved.intros)

lemma drift_alone:
  assumes "drift e a b" "\<And>n db. others e n db = db"
  shows "b = a"
  using assms by (induction rule: drift.induct) auto

lemma evolved_trans: "evolved e b c \<Longrightarrow> evolved e a b \<Longrightarrow> evolved e a c"
  by (induction rule: evolved.induct) (auto intro: evolved.intros)

lemma evolved_inv:
  assumes "evolved e a b" "P a"
    and "\<And>n db. P db \<Longrightarrow> P (others e n db)"
    and "\<And>db db'. P db \<Longrightarrow> same_rows db db' \<Longrightarrow> P db'"
  shows "P b"
  using assms by (induction rule: evolved.induct) (blast intro: same_rows_with_schema)+

lemma same_rows_refl: "same_rows a a"
  unfolding same_rows_def by (rule exI [of _ "db_version a"], rule exI [of _ "db_tables a"],
      rule exI [of _ "db_indexes a"]) simp

lemma same_rows_trans: "same_rows a b \<Longrightarrow> same_rows b c \<Longrightarrow> same_rows a c"
  by (fastforce simp: same_rows_def)

text \<open>With no other process only the schema changes.\<close>

lemma evolved_alone:
  assumes "evolved e a b" "\<And>n db. others e n db = db"
  shows "same_rows a b"
  using assms
  by (induction rule: evolved.induct)
    (auto intro: same_rows_refl same_rows_trans [OF _ same_rows_with_schema])

lemma tick_idle:
  "idle S T w \<Longrightarrow> tick e w = (b, w') \<Longrightarrow> \<exists>S'. drift e S S' \<and> idle S' T w'"
  using drift.commit [OF drift.none, of e "shared w" "clock w"]
  by (auto simp: idle_def tick_def Let_def)

lemma trace_idle [simp]:
  "idle S T (trace_end ph w) = idle S T w"
  "idle S T (trace_end_counted ph n m w) = idle S T w"
  by (simp_all add: idle_def trace_end_def trace_end_counted_def)

lemma query_idle:
  assumes "idle S T w" "query e f w = (r, w')"
  shows "\<exists>S'. drift e S S' \<and> idle S' T w' \<and> (r = None \<or> r = Some (f (S', T)))"
proof -
  obtain b1 w1 where t: "tick e w = (b1, w1)" by (rule prod.exhaust)
  from tick_idle [OF assms(1) t] obtain S' where S': "drift e S S'" "idle S' T w1" by blast
  with assms(2) t have "idle S' T w' \<and> (r = None \<or> r = Some (f (S', T)))"
    by (cases b1) (auto simp: query_def idle_def current_def)
  with S'(1) show ?thesis by blast
qed

text \<open>A statement that leaves the shared database alone.\<close>

lemma exec_sql_idle:
  assumes "idle S T w" "exec_sql e stmt w = (b, w')" "\<And>d t. fst (fst (stmt (d, t))) = d"
  shows "\<exists>S'. drift e S S' \<and> idle S' (if b then snd (fst (stmt (S', T))) else T) w'"
proof -
  obtain b1 w1 where t: "tick e w = (b1, w1)" by (rule prod.exhaust)
  from tick_idle [OF assms(1) t] obtain S' where S': "drift e S S'" "idle S' T w1" by blast
  with assms(2,3) t have "idle S' (if b then snd (fst (stmt (S', T))) else T) w'"
    by (cases b1) (auto simp: exec_sql_def Let_def idle_def current_def write_view_def)
  with S'(1) show ?thesis by blast
qed

lemma begin_idle:
  assumes "idle S T w" "begin_txn e w = (b, w')"
  shows "\<exists>S'. drift e S S' \<and> (if b then inside S' T w' (S', T) else idle S' T w')"
proof -
  obtain b1 w1 where t: "tick e w = (b1, w1)" by (rule prod.exhaust)
  from tick_idle [OF assms(1) t] obtain S' where S': "drift e S S'" "idle S' T w1" by blast
  with assms(2) t have "if b then inside S' T w' (S', T) else idle S' T w'"
    by (cases b1) (auto simp: begin_txn_def idle_def inside_def)
  with S'(1) show ?thesis by blast
qed

lemma commit_inside:
  assumes "inside S T w v" "commit_txn e w = (b, w')"
  shows "if b then idle (fst v) (snd v) w' else inside S T w' v"
proof -
  obtain b1 w1 where t: "tick e w = (b1, w1)" by (rule prod.exhaust)
  from tick_inside [OF assms(1) t] have "inside S T w1 v" .
  with assms(2) t show ?thesis
    by (cases b1) (auto simp: commit_txn_def idle_def inside_def)
qed

lemma commit_leads:
  assumes "leads S T w b (S', T')" "b" "commit_txn e w = (c, w')"
  shows "if c then idle S' T' w' else inside S T w' (S', T')"
  using commit_inside [OF _ assms(3), of S T "(S', T')"] assms(1,2) by (simp split: if_splits)

lemma rollback_inside:
  assumes "inside S T w v"
  shows "idle S T (rollback_txn e w) \<or> inside S T (rollback_txn e w) v"
proof -
  obtain b1 w1 where t: "tick e w = (b1, w1)" by (rule prod.exhaust)
  from tick_inside [OF assms(1) t] have "inside S T w1 v" .
  with t show ?thesis by (cases b1) (auto simp: rollback_txn_def idle_def inside_def)
qed

text \<open>Whatever is open, the shared database and the temporary tables are \<open>S\<close> and \<open>T\<close>.\<close>

definition rests :: "database \<Rightarrow> staging \<Rightarrow> world \<Rightarrow> bool" where
  "rests S T w \<longleftrightarrow> shared w = S \<and> temp w = T"

lemma rests_simps [simp]:
  "rests S T (trace_end ph w) = rests S T w"
  "rests S T (trace_end_counted ph n m w) = rests S T w"
  by (simp_all add: rests_def trace_end_def trace_end_counted_def)

lemma inside_rests: "inside S T w v \<Longrightarrow> rests S T w"
  by (simp add: inside_def rests_def)

lemma idle_rests: "idle S T w \<Longrightarrow> rests S T w"
  by (simp add: idle_def rests_def)

lemma rollback_rests: "inside S T w v \<Longrightarrow> rests S T (rollback_txn e w)"
  using rollback_inside [of S T w v e] by (auto intro: inside_rests idle_rests)

lemma begin_open: "txn w \<noteq> None \<Longrightarrow> begin_txn e w = (b, w') \<Longrightarrow> \<not> b \<and> shared w' = shared w \<and> temp w' = temp w"
  by (auto simp: begin_txn_def tick_def Let_def split: if_splits bool.splits)

section \<open>Merging\<close>

lemma exec_plain_leads:
  "inside S T w v \<Longrightarrow> exec_plain e sp w = (b, w') \<Longrightarrow> leads S T w' b (fst (fst sp v))"
  by (cases "exec_sql e (fst sp) w")
    (auto simp: exec_plain_def trace_exec_sql_def leads_def dest!: exec_sql_leads)

lemma exec_counted_leads:
  "inside S T w v \<Longrightarrow> exec_counted e sp w = (b, w') \<Longrightarrow> leads S T w' b (fst (fst sp v))"
  by (cases "exec_sql e (fst sp) w")
    (auto simp: exec_counted_def leads_def dest!: exec_sql_leads)

lemma variant_leads:
  assumes "inside S T w v" "store_variant_metadata e nm prov w = (b, w')"
  shows "leads S T w' b (fst (upsert_variant nm prov v))"
proof -
  obtain b1 w1 where t: "tick e w = (b1, w1)" by (rule prod.exhaust)
  from tick_inside [OF assms(1) t] have i: "inside S T w1 v" .
  with assms(2) t exec_sql_leads [OF i, of e "upsert_variant nm prov"] show ?thesis
    by (cases b1) (auto simp: store_variant_metadata_def intro: leads_failed)
qed

lemma merge_stmts_eq:
  "fst (upsert_variant v prov
     (fold (\<lambda>sp v. fst (fst sp v)) (counted_merges v c n)
       (fold (\<lambda>sp v. fst (fst sp v)) (plain_merges v) w))) = run_stmts (merge_stmts v prov) w"
  by (simp add: run_stmts_def merge_stmts_def plain_merges_def counted_merges_def)

lemma snd_run_stmts: "snd (run_stmts (merge_stmts v prov) w) = snd w"
  by (simp add: run_stmts_def merge_stmts_def stmt_defs Let_def)

lemma run_stmts_merged: "run_stmts (merge_stmts v prov) (S, T) = (merged v prov S T, T)"
  using snd_run_stmts [of v prov "(S, T)"] by (simp add: merged_def prod_eq_iff)

text \<open>
  A merge commits the merged database, finds the cache stale, or fails; the last two leave
  the database as it was when the write lock was taken.
\<close>

definition merge_outcome :: "env \<Rightarrow> string \<Rightarrow> provenance \<Rightarrow> database \<Rightarrow> staging \<Rightarrow> int \<Rightarrow> world \<Rightarrow> bool" where
  "merge_outcome e v prov S T r w' \<longleftrightarrow>
     (r = 0 \<and> cached_files_valid v (S, T) \<and> idle (merged v prov S T) T w') \<or>
     (r = 1 \<and> \<not> cached_files_valid v (S, T) \<and> rests S T w') \<or>
     (r = - 1 \<and> rests S T w')"

lemma merge_staging_outcome:
  assumes "idle S T w" "merge_staging e v c n prov w = (r, w')"
  shows "\<exists>S'. drift e S S' \<and> merge_outcome e v prov S' T r w'"
proof -
  obtain b1 w1 where bg: "begin_txn e w = (b1, w1)" by (rule prod.exhaust)
  from begin_idle [OF assms(1) bg] obtain S' where S': "drift e S S'"
    "if b1 then inside S' T w1 (S', T) else idle S' T w1" by blast
  let ?w1 = "trace_end ''db.merge.begin'' w1"
  obtain q w2 where q: "query e (cached_files_valid v) ?w1 = (q, w2)" by (rule prod.exhaust)
  obtain b3 w3 where p3: "for_each (exec_plain e) (plain_merges v) w2 = (b3, w3)" by (rule prod.exhaust)
  obtain b4 w4 where p4: "for_each (exec_counted e) (counted_merges v c n) w3 = (b4, w4)" by (rule prod.exhaust)
  obtain b5 w5 where p5: "store_variant_metadata e v prov w4 = (b5, w5)" by (rule prod.exhaust)
  let ?w6 = "trace_end ''db.merge.variant'' w5"
  obtain b7 w7 where p7: "commit_txn e ?w6 = (b7, w7)" by (rule prod.exhaust)
  have run: "(r, w') = (if \<not> b1 then (- 1, ?w1) else (case q of None \<Rightarrow> (- 1, rollback_txn e w2)
      | Some valid \<Rightarrow> if \<not> valid then (1, rollback_txn e w2)
        else if \<not> b3 then (- 1, rollback_txn e w3) else if \<not> b4 then (- 1, rollback_txn e w4)
        else if \<not> b5 then (- 1, rollback_txn e ?w6)
        else (if b7 then 0 else - 1, trace_end ''db.merge.commit'' w7)))"
    unfolding assms(2) [symmetric] merge_staging_def bg trace_txn_def fst_conv snd_conv Let_def
    by (cases b1; cases b3; cases b4; cases b5)
      (simp_all only: prod.case bool.case q p3 p4 p5 p7 if_True if_False not_True_eq_False
        not_False_eq_True fst_conv snd_conv option.case split: option.split)
  have i2: "inside S' T w2 (S', T)" "q = None \<or> q = Some (cached_files_valid v (S', T))" if "b1"
    using query_inside [OF _ q, of S' T "(S', T)"] S'(2) that by auto
  have l3: "leads S' T w3 b3 (fold (\<lambda>sp v. fst (fst sp v)) (plain_merges v) (S', T))" if "b1"
    by (rule for_each_inside [where proj = "\<lambda>w. w", OF _ i2(1) [OF that] p3]) (rule exec_plain_leads)
  have l4: "leads S' T w4 b4 (fold (\<lambda>sp v. fst (fst sp v)) (counted_merges v c n)
      (fold (\<lambda>sp v. fst (fst sp v)) (plain_merges v) (S', T)))" if "b1" "b3"
    by (rule for_each_inside [where proj = "\<lambda>w. w", OF _ _ p4])
      (rule exec_counted_leads, assumption+, use l3 that in simp)
  have l5: "leads S' T w5 b5 (merged v prov S' T, T)" if "b1" "b3" "b4"
  proof -
    from l4 that have "inside S' T w4 (fold (\<lambda>sp v. fst (fst sp v)) (counted_merges v c n)
      (fold (\<lambda>sp v. fst (fst sp v)) (plain_merges v) (S', T)))" by simp
    from variant_leads [OF this p5] show ?thesis by (simp only: merge_stmts_eq run_stmts_merged)
  qed
  have l7: "if b7 then idle (merged v prov S' T) T w7 else inside S' T w7 (merged v prov S' T, T)"
    if "b1" "b3" "b4" "b5"
    using commit_inside [OF _ p7, of S' T "(merged v prov S' T, T)"] l5 that
    by (simp split: if_splits)
  have "merge_outcome e v prov S' T r w'"
  proof (cases "b1 \<and> q = Some True")
    case False
    then show ?thesis
      using run S'(2) i2 unfolding merge_outcome_def
      by (auto split: if_splits option.splits dest: idle_rests rollback_rests)
  next
    case True
    then have valid: "cached_files_valid v (S', T)" using i2(2) by auto
    consider "\<not> b3" | "b3" "\<not> b4" | "b3" "b4" "\<not> b5" | "b3" "b4" "b5" by blast
    then show ?thesis
    proof cases
      case 1
      with run True l3 show ?thesis
        by (auto simp: merge_outcome_def dest!: leads_inside intro: rollback_rests)
    next
      case 2
      with run True l4 show ?thesis
        by (auto simp: merge_outcome_def dest!: leads_inside intro: rollback_rests)
    next
      case 3
      with True l5 obtain u where "inside S' T ?w6 u" by (auto dest: leads_inside)
      with run True 3 show ?thesis by (auto simp: merge_outcome_def intro: rollback_rests)
    next
      case 4
      with run True l7 valid show ?thesis
        by (cases b7) (auto simp: merge_outcome_def dest: inside_rests)
    qed
  qed
  with S'(1) show ?thesis by blast
qed

section \<open>Opening the database\<close>

lemma schema_view: "fold (\<lambda>s v. fst (s v)) schema (S, T) = (with_schema S, T)"
  by (simp add: schema_def create_table_def create_index_def set_user_version_def with_schema_def)

text \<open>
  The schema is found, created on a fresh database, or the operation fails; a database of
  another version, or one with other tables, is left alone.
\<close>

definition schema_outcome :: "database \<Rightarrow> staging \<Rightarrow> int \<Rightarrow> world \<Rightarrow> bool" where
  "schema_outcome S T r w' \<longleftrightarrow>
     (r = 0 \<and> db_version S = INDEX_SCHEMA_VERSION \<and> idle S T w') \<or>
     (r = 0 \<and> db_version S = 0 \<and> \<not> has_user_tables (S, T) \<and> idle (with_schema S) T w') \<or>
     (r = - 1 \<and> rests S T w')"

lemma schema_commit_outcome:
  assumes "inside S T w (S', T)" "schema_commit e w = (r, w')"
  shows "(r = 0 \<and> idle S' T w') \<or> (r = - 1 \<and> rests S T w')"
proof -
  obtain b w1 where c: "commit_txn e w = (b, w1)" by (rule prod.exhaust)
  from commit_inside [OF assms(1) c] c assms(2) show ?thesis
    by (auto simp: schema_commit_def dest: inside_rests split: if_splits)
qed

lemma init_schema_outcome:
  assumes "idle S T w" "init_schema e w = (r, w')"
  shows "\<exists>S'. drift e S S' \<and> schema_outcome S' T r w'"
proof -
  obtain b1 w1 where p1: "exec_sql e pragma w = (b1, w1)" by (rule prod.exhaust)
  obtain S1 where S1: "drift e S S1" "idle S1 T w1"
    using exec_sql_idle [OF assms(1) p1] by (auto simp: pragma_def split: if_splits)
  obtain q2 w2 where p2: "query e schema_version w1 = (q2, w2)" by (rule prod.exhaust)
  obtain S2 where S2: "drift e S S2" "idle S2 T w2" "q2 = None \<or> q2 = Some (schema_version (S2, T))"
    using query_idle [OF S1(2) p2] S1(1) by (blast intro: drift_trans)
  obtain b3 w3 where p3: "begin_txn e w2 = (b3, w3)" by (rule prod.exhaust)
  obtain S3 where S3: "drift e S S3" "if b3 then inside S3 T w3 (S3, T) else idle S3 T w3"
    using begin_idle [OF S2(2) p3] S2(1) by (blast intro: drift_trans)
  obtain q4 w4 where p4: "query e schema_version w3 = (q4, w4)" by (rule prod.exhaust)
  obtain q5 w5 where p5: "query e has_user_tables w4 = (q5, w5)" by (rule prod.exhaust)
  obtain b6 w6 where p6: "for_each (exec_sql e) schema w5 = (b6, w6)" by (rule prod.exhaust)
  have run: "(r, w') = (if \<not> b1 then (- 1, w1) else (case q2 of None \<Rightarrow> (- 1, w2) | Some v2 \<Rightarrow>
      if v2 = INDEX_SCHEMA_VERSION then (0, w2) else if \<not> b3 then (- 1, w3)
      else (case q4 of None \<Rightarrow> (- 1, rollback_txn e w4) | Some v4 \<Rightarrow>
        if v4 = INDEX_SCHEMA_VERSION then schema_commit e w4
        else if v4 \<noteq> 0 then (- 1, rollback_txn e w4)
        else (case q5 of None \<Rightarrow> (- 1, rollback_txn e w5) | Some h \<Rightarrow>
          if h then (- 1, rollback_txn e w5)
          else if \<not> b6 then (- 1, rollback_txn e w6) else schema_commit e w6))))"
    unfolding assms(2) [symmetric] init_schema_def p1
    by (cases b1; cases b3; cases b6)
      (simp_all only: prod.case bool.case p2 p3 p4 p5 p6 if_True if_False not_True_eq_False
        not_False_eq_True option.case split: option.split)
  have i4: "inside S3 T w4 (S3, T)" "q4 = None \<or> q4 = Some (db_version S3)" if "b3"
    using query_inside [OF _ p4, of S3 T "(S3, T)"] S3(2) that by (auto simp: schema_version_def)
  have i5: "inside S3 T w5 (S3, T)" "q5 = None \<or> q5 = Some (has_user_tables (S3, T))" if "b3"
    using query_inside [OF i4(1) [OF that] p5] by auto
  have "leads S3 T w6 b6 (fold (\<lambda>s v. fst (s v)) schema (S3, T))" if "b3"
    by (rule for_each_inside [where proj = "\<lambda>w. w", OF _ i5(1) [OF that] p6]) (rule exec_sql_leads)
  then have i6: "leads S3 T w6 b6 (with_schema S3, T)" if "b3" using that by (simp add: schema_view)
  show ?thesis
  proof (cases "b1 \<and> q2 \<noteq> None \<and> q2 \<noteq> Some INDEX_SCHEMA_VERSION")
    case False
    with run have "schema_outcome S1 T r w' \<or> schema_outcome S2 T r w'"
      using S1(2) S2(2,3)
      by (auto simp: schema_outcome_def schema_version_def dest: idle_rests split: if_splits option.splits)
    with S1(1) S2(1) show ?thesis by blast
  next
    case True
    let ?fails = "\<lambda>w. (r, w') = (- 1, rollback_txn e w)"
    from run True have run3: "(r, w') = (if \<not> b3 then (- 1, w3)
      else (case q4 of None \<Rightarrow> (- 1, rollback_txn e w4) | Some v4 \<Rightarrow>
        if v4 = INDEX_SCHEMA_VERSION then schema_commit e w4
        else if v4 \<noteq> 0 then (- 1, rollback_txn e w4)
        else (case q5 of None \<Rightarrow> (- 1, rollback_txn e w5) | Some h \<Rightarrow>
          if h then (- 1, rollback_txn e w5)
          else if \<not> b6 then (- 1, rollback_txn e w6) else schema_commit e w6)))"
      by auto
    have fails: "schema_outcome S3 T r w'" if "?fails w" "inside S3 T w u" for w u
      using that by (auto simp: schema_outcome_def intro: rollback_rests)
    have "schema_outcome S3 T r w'"
    proof (cases b3)
      case False
      with run3 S3(2) show ?thesis by (simp add: schema_outcome_def idle_rests)
    next
      case b3: True
      consider "?fails w4" | "?fails w5" | "?fails w6" "\<not> b6"
        | "q4 = Some INDEX_SCHEMA_VERSION" "schema_commit e w4 = (r, w')"
        | "q4 = Some 0" "q5 = Some False" "b6" "schema_commit e w6 = (r, w')"
        using run3 b3 by (auto split: option.splits if_splits)
      then show ?thesis
      proof cases
        case 1
        then show ?thesis using i4(1) [OF b3] by (rule fails)
      next
        case 2
        then show ?thesis using i5(1) [OF b3] by (rule fails)
      next
        case 3
        from i6 [OF b3] obtain u where "inside S3 T w6 u" by (auto dest: leads_inside)
        with 3(1) show ?thesis by (rule fails)
      next
        case 4
        then have "db_version S3 = INDEX_SCHEMA_VERSION" using i4(2) [OF b3] by simp
        with schema_commit_outcome [OF i4(1) [OF b3] 4(2)] show ?thesis
          by (auto simp: schema_outcome_def)
      next
        case 5
        then have "inside S3 T w6 (with_schema S3, T)" "db_version S3 = 0" "\<not> has_user_tables (S3, T)"
          using i4(2) i5(2) i6 b3 by auto
        with schema_commit_outcome [OF _ 5(4), of S3 T "with_schema S3"] show ?thesis
          by (auto simp: schema_outcome_def)
      qed
    qed
    with S3(1) show ?thesis by blast
  qed
qed

lemma trace_exec_pragma:
  assumes "idle S T w" "trace_exec_sql e pragma ph w = (b, w')"
  shows "\<exists>S'. drift e S S' \<and> idle S' T w'"
proof -
  obtain b1 w1 where x: "exec_sql e pragma w = (b1, w1)" by (rule prod.exhaust)
  with assms(2) have "w' = trace_end ph w1" by (simp add: trace_exec_sql_def)
  with exec_sql_idle [OF assms(1) x] show ?thesis by (auto simp: pragma_def split: if_splits)
qed

text \<open>
  \<open>open_writer\<close> either stops before it looks at the schema, with nothing changed, or ends as
  \<open>init_schema\<close> does.
\<close>

lemma open_writer_outcome:
  assumes "idle S T w" "open_writer e p w = (r, w')"
  shows "\<exists>S'. drift e S S' \<and> schema_outcome S' T r w'"
proof -
  let ?w0 = "trace_end ''db.mkdir'' w"
  obtain b1 w1 where p1: "tick e ?w0 = (b1, w1)" by (rule prod.exhaust)
  let ?w1 = "trace_end ''db.open'' w1"
  obtain S1 where S1: "drift e S S1" "idle S1 T ?w1"
    using tick_idle [OF _ p1, of S T] assms(1) by auto
  obtain b2 w2 where p2: "tick e ?w1 = (b2, w2)" by (rule prod.exhaust)
  obtain S2 where S2: "drift e S S2" "idle S2 T w2"
    using tick_idle [OF S1(2) p2] S1(1) by (blast intro: drift_trans)
  obtain b3 w3 where p3: "trace_exec_sql e pragma ''db.journal_mode'' w2 = (b3, w3)" by (rule prod.exhaust)
  obtain S3 where S3: "drift e S S3" "idle S3 T w3"
    using trace_exec_pragma [OF S2(2) p3] S2(1) by (blast intro: drift_trans)
  obtain b4 w4 where p4: "trace_exec_sql e pragma ''db.synchronous'' w3 = (b4, w4)" by (rule prod.exhaust)
  obtain S4 where S4: "drift e S S4" "idle S4 T w4"
    using trace_exec_pragma [OF S3(2) p4] S3(1) by (blast intro: drift_trans)
  obtain b5 w5 where p5: "trace_exec_sql e pragma ''db.temp_store'' w4 = (b5, w5)" by (rule prod.exhaust)
  obtain S5 where S5: "drift e S S5" "idle S5 T w5"
    using trace_exec_pragma [OF S4(2) p5] S4(1) by (blast intro: drift_trans)
  obtain r6 w6 where p6: "init_schema e w5 = (r6, w6)" by (rule prod.exhaust)
  obtain S6 where S6: "drift e S S6" "schema_outcome S6 T r6 w6"
    using init_schema_outcome [OF S5(2) p6] S5(1) by (blast intro: drift_trans)
  have run: "(r, w') = (if \<not> mkdir_ok e p then (- 1, ?w0) else if \<not> b1 then (- 1, ?w1)
      else if \<not> b2 then (- 1, w2) else if \<not> b3 then (- 1, w3) else if \<not> b4 then (- 1, w4)
      else if \<not> b5 then (- 1, w5) else (if r6 < 0 then - 1 else 0, trace_end ''db.schema'' w6))"
    unfolding assms(2) [symmetric] open_writer_def Let_def p1
    by (cases "mkdir_ok e p"; cases b1; cases b2; cases b3; cases b4; cases b5)
      (simp_all only: prod.case bool.case p2 p3 p4 p5 p6 if_True if_False not_True_eq_False
        not_False_eq_True)
  have stop: "idle S' T w' \<Longrightarrow> r = - 1 \<Longrightarrow> schema_outcome S' T r w'" for S'
    by (simp add: schema_outcome_def idle_rests)
  show ?thesis
  proof (cases "mkdir_ok e p \<and> b1 \<and> b2 \<and> b3 \<and> b4 \<and> b5")
    case True
    with run S6(2) have "schema_outcome S6 T r w'" by (auto simp: schema_outcome_def)
    with S6(1) show ?thesis by blast
  next
    case False
    with run have "r = - 1" "w' \<in> {?w0, ?w1, w2, w3, w4, w5}" by (auto split: if_splits)
    moreover have "idle S T ?w0" using assms(1) by simp
    ultimately show ?thesis
      using stop S1 S2 S3 S4 S5 drift.none [of e S] by auto
  qed
qed

lemma schema_outcome_evolved:
  assumes "drift e S S'" "schema_outcome S' T r w'"
  shows "\<exists>S''. evolved e S S'' \<and> (if r = 0 then idle S'' T w' else r = - 1 \<and> rests S'' T w')"
proof -
  from assms(1) have ev: "evolved e S S'" by (rule drift_evolved)
  from assms(2) consider "r = 0" "idle S' T w'"
    | "r = 0" "db_version S' = 0" "\<not> has_user_tables (S', T)" "idle (with_schema S') T w'"
    | "r = - 1" "rests S' T w'"
    by (auto simp: schema_outcome_def)
  then show ?thesis
  proof cases
    case 2
    from evolved.schema [OF ev 2(2,3)] 2 show ?thesis by auto
  qed (use ev in auto)
qed

section \<open>Staging\<close>

definition fresh :: "staging \<Rightarrow> bool" where
  "fresh T \<longleftrightarrow> st_files T = [] \<and> st_records T = [] \<and> st_types T = [] \<and> st_ftypes T = [] \<and> st_props T = []"

lemma create_staging_idle:
  assumes "idle S T w" "fresh T" "create_staging e w = (b, w')"
  shows "\<exists>S' T'. drift e S S' \<and> fresh T' \<and> idle S' T' w'"
proof -
  have step: "\<exists>S' T'. drift e S S' \<and> fresh T' \<and> idle S' T' w'"
    if "idle S T w" "fresh T" "for_each (exec_sql e) (map create_temp_table ns) w = (b, w')" for ns S T w
    using that
  proof (induction ns arbitrary: S T w)
    case Nil
    then show ?case using drift.none by fastforce
  next
    case (Cons n ns)
    obtain b1 w1 where x: "exec_sql e (create_temp_table n) w = (b1, w1)" by (rule prod.exhaust)
    obtain S1 where S1: "drift e S S1"
      "idle S1 (if b1 then snd (fst (create_temp_table n (S1, T))) else T) w1"
      using exec_sql_idle [OF Cons.prems(1) x] by (auto simp: create_temp_table_def)
    moreover have "fresh (if b1 then snd (fst (create_temp_table n (S1, T))) else T)"
      using Cons.prems(2) by (simp add: fresh_def create_temp_table_def)
    ultimately obtain T1 where T1: "idle S1 T1 w1" "fresh T1" by blast
    show ?case
    proof (cases b1)
      case True
      with x Cons.prems(3) have "for_each (exec_sql e) (map create_temp_table ns) w1 = (b, w')" by simp
      with Cons.IH [OF T1(1) T1(2)] S1(1) show ?thesis by (blast intro: drift_trans)
    next
      case False
      with x Cons.prems(3) have "w' = w1" by simp
      with S1(1) T1 show ?thesis by blast
    qed
  qed
  show ?thesis
    by (rule step [OF assms(1,2), of "[''staging_files'', ''staging_records'', ''staging_symbol_types'',
        ''staging_function_types'', ''staging_symbol_properties'']"])
      (use assms(3) in \<open>simp add: create_staging_def\<close>)
qed

text \<open>The rows in the staging tables have the same atoms as the given rows.\<close>

definition staged_rows :: "staging \<Rightarrow> rowset \<Rightarrow> bool" where
  "staged_rows T r \<longleftrightarrow>
     table_atoms rec_atoms (st_records T) = table_atoms rec_atoms (rs_records r) \<and>
     table_atoms type_atoms (st_types T) = table_atoms type_atoms (rs_types r) \<and>
     table_atoms ftype_atoms (st_ftypes T) = table_atoms ftype_atoms (rs_ftypes r) \<and>
     table_atoms prop_atoms (st_props T) = table_atoms prop_atoms (rs_props r)"

lemma staged_add_rows: "staged_rows T r \<Longrightarrow> staged_rows (add_rows r' T) (join_rows r r')"
  by (simp add: staged_rows_def add_rows_def join_rows_def rec_table.atoms_fold type_table.atoms_fold
      ftype_table.atoms_fold prop_table.atoms_fold)

lemma staged_fresh: "fresh T \<Longrightarrow> staged_rows T no_rows"
  by (simp add: fresh_def staged_rows_def no_rows_def)

lemma staged_files_only [simp]: "staged_rows (T\<lparr>st_files := fs\<rparr>) r = staged_rows T r"
  by (simp add: staged_rows_def)

lemma join_no_rows [simp]: "join_rows no_rows r = r"
  by (simp add: join_rows_def no_rows_def)

lemma table_atoms_absorb: "set s \<subseteq> set t \<Longrightarrow> table_atoms atoms s \<union> table_atoms atoms t = table_atoms atoms t"
  by (auto simp: table_atoms_def)

lemma staged_absorb:
  assumes "staged_rows T (join_rows (index_rows paths il keep ix) (index_rows paths il (\<lambda>_. True) ix))"
  shows "staged_rows T (index_rows paths il (\<lambda>_. True) ix)"
proof -
  let ?a = "index_rows paths il keep ix" and ?b = "index_rows paths il (\<lambda>_. True) ix"
  have sub: "set (rs_records ?a) \<subseteq> set (rs_records ?b)" "set (rs_types ?a) \<subseteq> set (rs_types ?b)"
    "set (rs_ftypes ?a) \<subseteq> set (rs_ftypes ?b)" "set (rs_props ?a) \<subseteq> set (rs_props ?b)"
    unfolding rowset_split [of paths il keep] rowset_split [of paths il "\<lambda>_. True"] by auto
  show ?thesis
    using assms table_atoms_absorb [OF sub(1), of rec_atoms] table_atoms_absorb [OF sub(2), of type_atoms]
      table_atoms_absorb [OF sub(3), of ftype_atoms] table_atoms_absorb [OF sub(4), of prop_atoms]
    by (simp add: staged_rows_def join_rows_def)
qed

text \<open>
  What the staging area holds when a merge starts: the planned files, some of them marked, and
  the rows of every file of the index that no marked file stands for.
\<close>

definition staged_for :: "env \<Rightarrow> index \<Rightarrow> stored_paths \<Rightarrow> string option \<Rightarrow> bool \<Rightarrow> bool list \<Rightarrow> staging \<Rightarrow> bool" where
  "staged_for e ix paths main_file il cached T \<longleftrightarrow>
     map unmark (st_files T) = planned_files (env_fs e) ix paths main_file il \<and>
     (\<forall>s \<in> set (st_files T). s_cached s \<longrightarrow> \<not> s_is_main s) \<and>
     (\<forall>i. is_cached cached i \<longrightarrow> (\<exists>s \<in> set (st_files T). s_cached s \<and> s_ordinal s = Some i)) \<and>
     staged_rows T (index_rows paths il (\<lambda>i. \<not> is_cached cached i) ix)"

definition store_outcome :: "env \<Rightarrow> index \<Rightarrow> stored_paths \<Rightarrow> string option \<Rightarrow> string \<Rightarrow> bool \<Rightarrow> provenance
    \<Rightarrow> database \<Rightarrow> int \<Rightarrow> world \<Rightarrow> bool" where
  "store_outcome e ix paths main_file v il prov S r w' \<longleftrightarrow>
     (r = 0 \<and> (\<exists>T cached. staged_for e ix paths main_file il cached T \<and>
        cached_files_valid v (S, T) \<and> idle (merged v prov S T) T w')) \<or>
     (r = - 1 \<and> shared w' = S)"

lemma store_failed: "rests S T w' \<Longrightarrow> store_outcome e ix paths main_file v il prov S (- 1) w'"
  by (simp add: store_outcome_def rests_def)

lemma reset_cached_view:
  "fst (reset_cached (S, T)) = (S, T\<lparr>st_files := map unmark (st_files T)\<rparr>)"
  by (simp add: reset_cached_def unmark_def)

lemma add_view_pair [simp]: "add_view r (S, T) = (S, add_rows r T)"
  by (simp add: add_view_def)

lemma add_rows_files [simp]: "st_files (add_rows r T) = st_files T"
  by (simp add: add_rows_def)

lemma rests_open: "rests S T w \<Longrightarrow> txn w = None \<Longrightarrow> idle S T w"
  by (simp add: idle_def rests_def)

text \<open>After the retry no file counts as cached and every row of the index is staged.\<close>

lemma store_retry_outcome:
  assumes "rests S T w" "staged_for e ix paths main_file il cached T"
    and "store_retry e ix paths v il prov k n c w = (r, w')"
  shows "\<exists>S'. drift e S S' \<and> store_outcome e ix paths main_file v il prov S' r w'"
proof -
  obtain b1 w1 where p1: "begin_txn e w = (b1, w1)" by (rule prod.exhaust)
  let ?w1 = "trace_end ''db.staging_retry_begin'' w1"
  obtain b2 w2 where p2: "exec_sql e reset_cached ?w1 = (b2, w2)" by (rule prod.exhaust)
  obtain b3 c3 w3 where p3: "stage_records e ix paths il (replicate k False) w2 = (b3, (c3, w3))"
    by (rule prod_cases3)
  let ?w4 = "trace_end_counted ''db.stage_records_retry'' (items_in c3) (n_records c3) w3"
  obtain b5 w5 where p5: "commit_txn e ?w4 = (b5, w5)" by (rule prod.exhaust)
  let ?w5 = "trace_end ''db.staging_retry_commit'' w5"
  let ?c = "c\<lparr>n_records := n_records c + n_records c3,
    n_symbol_types := n_symbol_types c + n_symbol_types c3,
    n_function_types := n_function_types c + n_function_types c3\<rparr>"
  obtain r6 w6 where p6: "merge_staging e v ?c n prov ?w5 = (r6, w6)" by (rule prod.exhaust)
  have run: "(r, w') = (if \<not> b1 then (- 1, ?w1) else if \<not> b2 then (- 1, rollback_txn e w2)
      else if \<not> b3 then (- 1, rollback_txn e ?w4) else if \<not> b5 then (- 1, ?w5)
      else (if r6 \<noteq> 0 then - 1 else 0, w6))"
    unfolding assms(3) [symmetric] store_retry_def trace_txn_def p1 fst_conv snd_conv Let_def
    by (cases b1; cases b2; cases b3; cases b5)
      (simp_all only: prod.case bool.case p2 p3 p5 p6 if_True if_False not_True_eq_False
        not_False_eq_True fst_conv snd_conv)
  show ?thesis
  proof (cases "txn w = None \<and> b1")
    case False
    have "\<not> b1 \<and> (\<exists>S'. drift e S S' \<and> rests S' T w1)"
    proof (cases "txn w")
      case None
      with False begin_idle [OF rests_open [OF assms(1)] p1] show ?thesis
        by (auto intro: idle_rests)
    next
      case (Some u)
      with begin_open [OF _ p1] assms(1) have "\<not> b1" "rests S T w1" by (auto simp: rests_def)
      then show ?thesis using drift.none by blast
    qed
    then obtain S' where stop: "\<not> b1" and S': "drift e S S'" "rests S' T w1" by blast
    with run stop have "store_outcome e ix paths main_file v il prov S' r w'"
      by (auto intro: store_failed)
    with S'(1) show ?thesis by blast
  next
    case True
    then obtain S1 where S1: "drift e S S1" "inside S1 T ?w1 (S1, T)"
      using begin_idle [OF rests_open [OF assms(1)] p1] by auto
    let ?T0 = "T\<lparr>st_files := map unmark (st_files T)\<rparr>"
    let ?all = "index_rows paths il (\<lambda>_. True) ix"
    let ?T1 = "add_rows ?all ?T0"
    have l2: "leads S1 T w2 b2 (S1, ?T0)"
      using exec_sql_leads [OF S1(2) p2] by (simp add: reset_cached_view)
    have l3: "leads S1 T ?w4 b3 (S1, ?T1)" if "b2"
      using stage_records_effect [OF _ p3, of S1 T "(S1, ?T0)"] l2 that by simp
    have l5: "if b5 then idle S1 ?T1 ?w5 else inside S1 T ?w5 (S1, ?T1)" if "b2" "b3"
      using commit_leads [OF l3 _ p5] that by simp
    have staged: "staged_for e ix paths main_file il [] ?T1"
      using assms(2) staged_absorb [OF staged_add_rows]
        unmark_plan(1) [OF plan_ok_planned] plan_ok_planned [of ix paths il "env_fs e" main_file]
      by (auto simp: staged_for_def is_cached_def plan_ok_def)
    consider "\<not> b2" | "b2" "\<not> b3" | "b2" "b3" "\<not> b5" | "b2" "b3" "b5" by blast
    then show ?thesis
    proof cases
      case 1
      with l2 obtain u where "inside S1 T w2 u" by (auto dest: leads_inside)
      with run True 1 have "store_outcome e ix paths main_file v il prov S1 r w'"
        by (auto intro!: store_failed rollback_rests)
      with S1(1) show ?thesis by blast
    next
      case 2
      with l3 obtain u where "inside S1 T ?w4 u" by (auto dest: leads_inside)
      with run True 2 have "store_outcome e ix paths main_file v il prov S1 r w'"
        by (auto intro!: store_failed rollback_rests)
      with S1(1) show ?thesis by blast
    next
      case 3
      with l5 have "rests S1 T ?w5" by (auto intro: inside_rests)
      with run True 3 have "store_outcome e ix paths main_file v il prov S1 r w'"
        by (auto intro: store_failed)
      with S1(1) show ?thesis by blast
    next
      case 4
      with l5 have "idle S1 ?T1 ?w5" by simp
      from merge_staging_outcome [OF this p6] obtain S2 where S2: "drift e S1 S2"
        "merge_outcome e v prov S2 ?T1 r6 w6" by blast
      then have "store_outcome e ix paths main_file v il prov S2 (if r6 \<noteq> 0 then - 1 else 0) w6"
        using staged by (auto simp: merge_outcome_def store_outcome_def rests_def)
      with run True 4 S1(1) S2(1) show ?thesis by (auto intro: drift_trans)
    qed
  qed
qed

lemma store_open_outcome:
  assumes "idle S T w" "fresh T" "store_open e ix paths main_file v il prov w = (r, w')"
  shows "\<exists>S'. drift e S S' \<and> store_outcome e ix paths main_file v il prov S' r w'"
proof -
  let ?k = "file_fingerprint_count ix"
  obtain b1 w1 where p1: "create_staging e w = (b1, w1)" by (rule prod.exhaust)
  let ?w1 = "trace_end ''db.staging_schema'' w1"
  obtain S1 T1 where S1: "drift e S S1" "fresh T1" "idle S1 T1 ?w1"
    using create_staging_idle [OF assms(1,2) p1] by auto
  obtain b2 w2 where p2: "begin_txn e ?w1 = (b2, w2)" by (rule prod.exhaust)
  let ?w2 = "trace_end ''db.staging_begin'' w2"
  obtain S2 where S2: "drift e S S2" "if b2 then inside S2 T1 w2 (S2, T1) else idle S2 T1 w2"
    using begin_idle [OF S1(3) p2] S1(1) by (blast intro: drift_trans)
  obtain b3 cached n m w3 where
    p3: "stage_files e ix paths main_file v il (replicate ?k False) ?w2 = (b3, cached, n, m, w3)"
    by (rule prod_cases5)
  let ?w3 = "trace_end_counted ''db.stage_files'' n m w3"
  obtain b4 c w4 where p4: "stage_records e ix paths il cached ?w3 = (b4, (c, w4))" by (rule prod_cases3)
  let ?w4 = "trace_end_counted ''db.stage_records'' (items_in c) (n_records c) w4"
  obtain b5 w5 where p5: "commit_txn e ?w4 = (b5, w5)" by (rule prod.exhaust)
  let ?w5 = "trace_end ''db.staging_commit'' w5"
  obtain r6 w6 where p6: "merge_staging e v c n prov ?w5 = (r6, w6)" by (rule prod.exhaust)
  have run: "(r, w') = (if \<not> b1 then (- 1, ?w1) else if \<not> b2 then (- 1, ?w2)
      else if \<not> b3 then (- 1, rollback_txn e ?w3) else if \<not> b4 then (- 1, rollback_txn e ?w4)
      else if \<not> b5 then (- 1, ?w5) else if r6 < 0 then (- 1, w6)
      else if r6 > 0 then store_retry e ix paths v il prov ?k n c w6 else (0, w6))"
    unfolding assms(3) [symmetric] store_open_def trace_txn_def p1 fst_conv snd_conv Let_def
    by (cases b1; cases b2; cases b3; cases b4; cases b5)
      (simp_all only: prod.case bool.case p2 p3 p4 p5 p6 if_True if_False not_True_eq_False
        not_False_eq_True fst_conv snd_conv)
  have stop: "\<exists>S'. drift e S S' \<and> store_outcome e ix paths main_file v il prov S' r w'"
    if "r = - 1" "drift e S S'" "rests S' T' w'" for S' T'
    using that by (auto intro: store_failed)
  show ?thesis
  proof (cases "b1 \<and> b2 \<and> b3")
    case False
    have "r = - 1 \<and> (\<exists>S' T'. drift e S S' \<and> rests S' T' w')"
    proof (cases "b1 \<and> b2")
      case True
      with False have "\<not> b3" by simp
      moreover obtain u where "inside S2 T1 ?w3 u"
        using stage_files_effect [of S2 T1 ?w2 S2 T1, OF _ _ p3] S2(2) S1(2) True \<open>\<not> b3\<close>
        by (auto simp: fresh_def)
      then have "rests S2 T1 (rollback_txn e ?w3)" by (rule rollback_rests)
      ultimately show ?thesis using run True S2(1) by auto
    next
      case False
      with run S1 S2 show ?thesis by (auto intro: idle_rests split: if_splits)
    qed
    with stop show ?thesis by blast
  next
    case True
    then obtain fs where fs: "inside S2 T1 ?w3 (S2, T1\<lparr>st_files := fs\<rparr>)"
      "map unmark fs = planned_files (env_fs e) ix paths main_file il"
      "\<forall>s \<in> set fs. s_cached s \<longrightarrow> \<not> s_is_main s"
      "\<forall>i. is_cached cached i \<longrightarrow> (\<exists>s \<in> set fs. s_cached s \<and> s_ordinal s = Some i)"
      using stage_files_effect [of S2 T1 ?w2 S2 T1, OF _ _ p3] S2(2) S1(2) by (auto simp: fresh_def)
    let ?r = "index_rows paths il (\<lambda>i. \<not> is_cached cached i) ix"
    let ?T = "add_rows ?r (T1\<lparr>st_files := fs\<rparr>)"
    have l4: "leads S2 T1 ?w4 b4 (S2, ?T)"
      using stage_records_effect [OF fs(1) p4] by simp
    have l5: "if b5 then idle S2 ?T ?w5 else inside S2 T1 ?w5 (S2, ?T)" if "b4"
      using commit_leads [OF l4 _ p5] that by simp
    have "staged_rows (T1\<lparr>st_files := fs\<rparr>) no_rows" using staged_fresh [OF S1(2)] by simp
    from staged_add_rows [OF this, of ?r] have staged: "staged_for e ix paths main_file il cached ?T"
      using fs by (simp add: staged_for_def)
    consider "\<not> b4" | "b4" "\<not> b5" | "b4" "b5" by blast
    then show ?thesis
    proof cases
      case 1
      with l4 obtain u where "inside S2 T1 ?w4 u" by (auto dest: leads_inside)
      then have "rests S2 T1 (rollback_txn e ?w4)" by (rule rollback_rests)
      with run True 1 S2(1) show ?thesis by (intro stop) auto
    next
      case 2
      with l5 have "rests S2 T1 ?w5" by (auto intro: inside_rests)
      with run True 2 S2(1) show ?thesis by (intro stop) auto
    next
      case 3
      with l5 have "idle S2 ?T ?w5" by simp
      from merge_staging_outcome [OF this p6] obtain S3 where S3: "drift e S2 S3"
        "merge_outcome e v prov S3 ?T r6 w6" by blast
      have d3: "drift e S S3" using S3(1) S2(1) by (rule drift_trans)
      consider "r6 = 0" | "r6 = 1" | "r6 = - 1" using S3(2) by (auto simp: merge_outcome_def)
      then show ?thesis
      proof cases
        case 1
        with run True 3 S3(2) staged have "store_outcome e ix paths main_file v il prov S3 r w'"
          by (auto simp: merge_outcome_def store_outcome_def)
        with d3 show ?thesis by blast
      next
        case 2
        with S3(2) have "rests S3 ?T w6" by (auto simp: merge_outcome_def)
        moreover have "store_retry e ix paths v il prov ?k n c w6 = (r, w')"
          using run True 3 2 by simp
        ultimately obtain S4 where "drift e S3 S4" "store_outcome e ix paths main_file v il prov S4 r w'"
          using store_retry_outcome staged by blast
        with d3 show ?thesis by (blast intro: drift_trans)
      next
        case 3
        with run True \<open>b4\<close> \<open>b5\<close> S3(2) have "r = - 1" "rests S3 ?T w'"
          by (auto simp: merge_outcome_def)
        with d3 show ?thesis by (intro stop)
      qed
    qed
  qed
qed

section \<open>The whole operation\<close>

definition request_paths :: "env \<Rightarrow> store_request \<Rightarrow> index \<Rightarrow> stored_paths option" where
  "request_paths e req ix = init_stored_paths (env_fs e) ix (sr_main_file req)
     (pv_repository_root (sr_provenance req)) (sr_include_local req)"

lemma fresh_empty: "fresh empty_staging"
  by (simp add: fresh_def empty_staging_def)

lemma shared_close [simp]: "shared (close_db w) = shared w"
  by (simp add: close_db_def)

lemma shared_trace [simp]: "shared (trace_end ph w) = shared w"
  by (simp add: trace_end_def)

text \<open>
  The result is 0 or -1. A failure commits nothing of the request; a success commits one merge
  of the staged request into the database as it was when the write lock was taken.
\<close>

lemma index_db_store_outcome:
  assumes "index_db_store e req w = (r, w')"
  shows "\<exists>S'. evolved e (shared w) S' \<and>
    ((r = - 1 \<and> shared w' = S') \<or>
     (r = 0 \<and> (\<exists>ix v paths T cached. sr_index req = Some ix \<and> sr_variant req = Some v \<and>
        request_paths e req ix = Some paths \<and>
        staged_for e ix paths (sr_main_file req) (sr_include_local req) cached T \<and>
        cached_files_valid v (S', T) \<and> shared w' = merged v (sr_provenance req) S' T)))"
proof (cases "r = - 1 \<and> shared w' = shared w")
  case True
  then show ?thesis using evolved.same by blast
next
  case False
  with assms obtain path ix v where req: "sr_path req = Some path" "sr_index req = Some ix"
    "sr_variant req = Some v" "v \<noteq> []"
    by (auto simp: index_db_store_def split: option.splits if_splits)
  with assms False obtain paths where paths: "request_paths e req ix = Some paths"
    by (auto simp: index_db_store_def request_paths_def split: option.splits)
  let ?w0 = "w\<lparr>temp := empty_staging, txn := None\<rparr>"
  let ?open = "store_open e ix paths (sr_main_file req) v (sr_include_local req) (sr_provenance req)"
  obtain r1 w1 where p1: "open_writer e path ?w0 = (r1, w1)" by (rule prod.exhaust)
  obtain r2 w2 where p2: "?open w1 = (r2, w2)" by (rule prod.exhaust)
  have run: "r = (if r1 < 0 then - 1 else r2)" "shared w' = shared (if r1 < 0 then w1 else w2)"
    using assms req paths p1 p2
    by (auto simp: index_db_store_def request_paths_def
        split: if_splits)
  have "idle (shared w) empty_staging ?w0" by (simp add: idle_def)
  from open_writer_outcome [OF this p1] obtain S1 where S1: "evolved e (shared w) S1"
    "if r1 = 0 then idle S1 empty_staging w1 else r1 = - 1 \<and> rests S1 empty_staging w1"
    using schema_outcome_evolved by blast
  show ?thesis
  proof (cases "r1 = 0")
    case False
    with S1 run show ?thesis by (auto simp: rests_def)
  next
    case True
    with S1(2) store_open_outcome [OF _ fresh_empty p2] obtain S2 where S2: "drift e S1 S2"
      "store_outcome e ix paths (sr_main_file req) v (sr_include_local req) (sr_provenance req) S2 r2 w2"
      by auto
    have "evolved e (shared w) S2" using S2(1) S1(1) by (blast intro: drift_evolved evolved_trans)
    moreover have "r = r2" "shared w' = shared w2" using run True by simp_all
    ultimately show ?thesis
      using S2(2) req paths unfolding store_outcome_def idle_def by (intro exI [of _ S2]) auto
  qed
qed

end
