(* ===== verification/Index_Spec.thy ===== *)
theory Index_Spec
  imports Index_Store
begin

text \<open>
  What a store promises: the abstract database, a function from a variant and a path to the
  facts recorded there, and how a store changes it. The file cache of the writer does not
  appear in it. The locale \<open>stored_table\<close> states what the four record tables have in common;
  it is interpreted for each of them.
\<close>

section \<open>Invariants of the database\<close>

definition db_wf :: "database \<Rightarrow> bool" where
  "db_wf db \<longleftrightarrow> wf_files (db_files db) \<and>
     distinct (map (pk rec_id) (db_records db)) \<and> distinct (map (pk id) (db_types db)) \<and>
     distinct (map (pk ftype_id) (db_ftypes db)) \<and> distinct (map (pk prop_id) (db_props db)) \<and>
     distinct (map (pk id) (db_fps db)) \<and> distinct (map v_name (db_variants db)) \<and>
     fst ` set (db_records db) \<subseteq> f_id ` set (db_files db) \<and>
     fst ` set (db_types db) \<subseteq> f_id ` set (db_files db) \<and>
     fst ` set (db_ftypes db) \<subseteq> f_id ` set (db_files db) \<and>
     fst ` set (db_props db) \<subseteq> f_id ` set (db_files db) \<and>
     fst ` set (db_fps db) \<subseteq> f_id ` set (db_files db)"

lemma db_wf_same_rows: "same_rows a b \<Longrightarrow> db_wf a \<Longrightarrow> db_wf b"
  unfolding same_rows_def by (elim exE) (simp add: db_wf_def)

lemma db_wf_empty: "db_wf empty_database"
  by (simp add: db_wf_def empty_database_def wf_files_def)

lemma kept_sub: "set (kept v db stg t) \<subseteq> set t"
  by (auto simp: kept_def table_simps)

lemma kept_distinct: "distinct (map k t) \<Longrightarrow> distinct (map k (kept v db stg t))"
  by (simp add: kept_def distinct_delete_where)

lemma join_refs: "fst ` set (join_files v fs rows) \<subseteq> f_id ` set fs"
  by (auto simp: in_join_files)

lemma merged_files_ids: "f_id ` set (db_files db) \<subseteq> f_id ` set (merged_files v db stg)"
proof -
  have "f_id ` set (merged_files v db stg) = f_id ` set (merged_files1 v db stg)"
    by (metis merged_files_fields(1) set_map)
  then show ?thesis by (auto simp: merged_files1_def fold_ins_file_old)
qed

lemma merged_table_wf:
  fixes db :: database and stg :: staging and v :: string and rows :: "(string \<times> 'd) list"
  assumes "row_insert (pk idf) ins" "distinct (map (pk idf) t)" "fst ` set t \<subseteq> f_id ` set (db_files db)"
  defines "t' \<equiv> fold ins (join_files v (merged_files v db stg) rows) (kept v db stg t)"
  shows "distinct (map (pk idf) t')" "fst ` set t' \<subseteq> f_id ` set (merged_files v db stg)"
proof -
  show "distinct (map (pk idf) t')"
    unfolding t'_def by (rule row_insert.fold_ins_distinct [OF assms(1) kept_distinct [OF assms(2)]])
  have pk_fst: "fst ` pk idf ` X = fst ` X" for X by (force simp: pk_def image_image)
  have "fst ` set t' = fst ` set (kept v db stg t) \<union> fst ` set (join_files v (merged_files v db stg) rows)"
    using arg_cong [OF row_insert.fold_ins_keys [OF assms(1)], of "image fst"]
    unfolding t'_def by (simp only: pk_fst image_Un)
  also have "\<dots> \<subseteq> f_id ` set (merged_files v db stg)"
    using assms(3) merged_files_ids [of db v stg] kept_sub [of v db stg t]
      join_refs [of v "merged_files v db stg" rows] by blast
  finally show "fst ` set t' \<subseteq> f_id ` set (merged_files v db stg)" .
qed

lemma db_wf_merged: "db_wf db \<Longrightarrow> db_wf (merged v prov db stg)"
  unfolding db_wf_def merged_eq
  using merged_table_wf [OF rec_rows.row_insert_axioms, of "db_records db" db v stg "st_records stg"]
    merged_table_wf [OF type_rows.row_insert_axioms, of "db_types db" db v stg "st_types stg"]
    merged_table_wf [OF ftype_rows.row_insert_axioms, of "db_ftypes db" db v stg "st_ftypes stg"]
    merged_table_wf [OF prop_rows.row_insert_axioms, of "db_props db" db v stg "st_props stg"]
    merged_table_wf [OF fp_rows.row_insert_axioms, of "db_fps db" db v stg
      "staged_fingerprints (st_files stg)"]
    variant_rows.ins_distinct [of "db_variants db"]
  by (simp add: wf_merged_files)

section \<open>Fingerprints\<close>

text \<open>
  What a fingerprint says: the facts of the file it was taken of. \<open>C\<close> is the meaning of the
  digests; a digest whose meaning depends on more than the file's records would make the cache
  wrong, so that the index is \<open>faithful\<close> to \<open>C\<close> is a hypothesis on the fingerprints that the
  parser computes.
\<close>

record file_facts =
  ff_records :: "rec_id set"
  ff_types :: "type_data set"
  ff_ftypes :: "ftype_id set"
  ff_props :: "(prop_id \<times> nat) set"

definition facts_of :: "rowset \<Rightarrow> file_facts" where
  "facts_of r =
     \<lparr>ff_records = \<Union> ((\<lambda>(p, d). rec_atoms d) ` set (rs_records r)),
      ff_types = \<Union> ((\<lambda>(p, d). type_atoms d) ` set (rs_types r)),
      ff_ftypes = \<Union> ((\<lambda>(p, d). ftype_atoms d) ` set (rs_ftypes r)),
      ff_props = \<Union> ((\<lambda>(p, d). prop_atoms d) ` set (rs_props r))\<rparr>"

definition faithful :: "(digest \<Rightarrow> file_facts) \<Rightarrow> index \<Rightarrow> stored_paths \<Rightarrow> bool \<Rightarrow> bool" where
  "faithful C ix paths il \<longleftrightarrow> (\<forall>i fp. get_file_fingerprint ix i il = Some fp \<longrightarrow>
     facts_of (index_rows paths il ((=) i) ix) = C (fp_data fp))"

text \<open>Every fingerprint of a file vouches for rows that are there.\<close>

definition vouched :: "(database \<Rightarrow> (nat \<times> 'd) list) \<Rightarrow> ('d \<Rightarrow> 'a set) \<Rightarrow> (digest \<Rightarrow> 'a set) \<Rightarrow> database \<Rightarrow> bool" where
  "vouched tab atoms facts db \<longleftrightarrow>
     (\<forall>i h. (i, h) \<in> set (db_fps db) \<longrightarrow> {i} \<times> facts h \<subseteq> table_atoms atoms (tab db))"

definition fp_sound :: "(digest \<Rightarrow> file_facts) \<Rightarrow> database \<Rightarrow> bool" where
  "fp_sound C db \<longleftrightarrow>
     vouched db_records rec_atoms (\<lambda>h. ff_records (C h)) db \<and>
     vouched db_types type_atoms (\<lambda>h. ff_types (C h)) db \<and>
     vouched db_ftypes ftype_atoms (\<lambda>h. ff_ftypes (C h)) db \<and>
     vouched db_props prop_atoms (\<lambda>h. ff_props (C h)) db"

definition db_inv :: "(digest \<Rightarrow> file_facts) \<Rightarrow> database \<Rightarrow> bool" where
  "db_inv C db \<longleftrightarrow> db_wf db \<and> fp_sound C db"

lemma db_inv_same_rows: "same_rows a b \<Longrightarrow> db_inv C a \<Longrightarrow> db_inv C b"
  unfolding same_rows_def by (elim exE) (simp add: db_inv_def db_wf_def fp_sound_def vouched_def)

lemma db_inv_empty: "db_inv C empty_database"
  by (simp add: db_inv_def db_wf_empty fp_sound_def vouched_def)
    (simp add: empty_database_def)

section \<open>The staged files against the database\<close>

lemma staged_file_ok:
  assumes "staged_for e ix paths main_file il cached T" "s \<in> set (st_files T)"
  shows "file_ok ix paths il s"
proof -
  from assms have "unmark s \<in> set (planned_files (env_fs e) ix paths main_file il)"
    by (metis imageI set_map staged_for_def)
  then have "file_ok ix paths il (unmark s)" using plan_ok_planned by (auto simp: plan_ok_def)
  then show ?thesis by (simp add: file_ok_def split: if_splits)
qed

lemma staged_paths:
  assumes "staged_for e ix paths main_file il cached T"
  shows "map s_path (st_files T) = map s_path (planned_files (env_fs e) ix paths main_file il)"
proof -
  have "map s_path (st_files T) = map s_path (map unmark (st_files T))" by simp
  with assms show ?thesis unfolding staged_for_def by metis
qed

lemma staged_distinct:
  "staged_for e ix paths main_file il cached T \<Longrightarrow> distinct (map s_path (st_files T))"
  unfolding staged_paths using plan_ok_planned by (auto simp: plan_ok_def)

definition planned_stale :: "string \<Rightarrow> staging_file list \<Rightarrow> database \<Rightarrow> string \<Rightarrow> bool" where
  "planned_stale v ss db p \<longleftrightarrow> (\<exists>f \<in> set (db_files db). f_path f = p \<and> stale_by v ss f)"

lemma stale_by_unmark: "stale_by v (map unmark ss) = stale_by v ss"
  by (auto simp: stale_by_def fun_eq_iff)

lemma staged_stale:
  assumes "staged_for e ix paths main_file il cached T"
  shows "replaced v S T p = planned_stale v (planned_files (env_fs e) ix paths main_file il) S p"
proof -
  from assms have "planned_files (env_fs e) ix paths main_file il = map unmark (st_files T)"
    by (simp add: staged_for_def)
  then show ?thesis by (simp add: replaced_def planned_stale_def stale_by_unmark)
qed

text \<open>
  A file marked as cached is known to the database with the staged stamp and fingerprint, and
  the merge does not replace it.
\<close>

lemma cached_file:
  assumes wf: "wf_files (db_files S)"
    and staged: "staged_for e ix paths main_file il cached T"
    and valid: "cached_files_valid v (S, T)"
    and cached: "is_cached cached i"
  shows "\<exists>f fp. f \<in> set (db_files S) \<and> f_variant f = v \<and> f_path f = sp_files paths ! i \<and>
    i < file_fingerprint_count ix \<and> get_file_fingerprint ix i il = Some fp \<and>
    (f_id f, fp_data fp) \<in> set (db_fps S) \<and> \<not> replaced v S T (f_path f)"
proof -
  from staged cached obtain s where s: "s \<in> set (st_files T)" "s_cached s" "s_ordinal s = Some i"
    unfolding staged_for_def by blast
  have main: "\<not> s_is_main s" using staged s by (simp add: staged_for_def)
  with staged_file_ok [OF staged s(1)] s(3) obtain fp where
    fp: "i < file_fingerprint_count ix" "get_file_fingerprint ix i il = Some fp"
      "s_fingerprint s = Some (fp_data fp)" "s_path s = sp_files paths ! i"
    by (auto simp: file_ok_def)
  from valid s(1,2) have "fingerprint_known v S s" by (simp add: cached_files_valid_def list_all_iff)
  with fp(3) obtain f where f: "f \<in> set (db_files S)" "f_variant f = v" "f_path f = s_path s"
    "f_mtime f = s_mtime s" "f_size f = s_size s" "(f_id f, fp_data fp) \<in> set (db_fps S)"
    by (auto simp: fingerprint_known_def)
  have "\<not> replaced v S T (f_path f)"
  proof
    assume "replaced v S T (f_path f)"
    then obtain g where g: "g \<in> set (db_files S)" "f_path g = f_path f" "stale_by v (st_files T) g"
      by (auto simp: replaced_def)
    then have "g = f"
      using wf f by (intro wf_files_key [of "db_files S"]) (auto simp: file_key_def stale_by_def)
    with g(3) obtain s' where s': "s' \<in> set (st_files T)" "s_path s' = f_path f"
      "s_is_main s' \<or> f_mtime f \<noteq> s_mtime s' \<or> f_size f \<noteq> s_size s'"
      by (auto simp: stale_by_def)
    then have "s' = s"
      using distinct_map_unique [OF staged_distinct [OF staged] _ s(1)] f(3) by simp
    with s' f main show False by simp
  qed
  with f fp show ?thesis by auto
qed

text \<open>The rows of one file of the index carry that file's stored path.\<close>

lemma item_paths:
  assumes "i < length (sp_files paths)"
  shows
    "fst ` set (rs_records (symbol_rows paths il ((=) i) s)) \<subseteq> {sp_files paths ! i}"
    "fst ` set (rs_types (symbol_rows paths il ((=) i) s)) \<subseteq> {sp_files paths ! i}"
    "fst ` set (rs_ftypes (symbol_rows paths il ((=) i) s)) \<subseteq> {sp_files paths ! i}"
    "fst ` set (rs_props (symbol_rows paths il ((=) i) s)) \<subseteq> {sp_files paths ! i}"
    "fst ` set (rs_records (use_rows paths il ((=) i) u)) \<subseteq> {sp_files paths ! i}"
    "fst ` set (rs_types (use_rows paths il ((=) i) u)) \<subseteq> {sp_files paths ! i}"
    "fst ` set (rs_ftypes (use_rows paths il ((=) i) u)) \<subseteq> {sp_files paths ! i}"
    "fst ` set (rs_props (use_rows paths il ((=) i) u)) \<subseteq> {sp_files paths ! i}"
    "fst ` set (rs_records (sig_rows paths ((=) i) g)) \<subseteq> {sp_files paths ! i}"
    "fst ` set (rs_types (sig_rows paths ((=) i) g)) \<subseteq> {sp_files paths ! i}"
    "fst ` set (rs_ftypes (sig_rows paths ((=) i) g)) \<subseteq> {sp_files paths ! i}"
    "fst ` set (rs_props (sig_rows paths ((=) i) g)) \<subseteq> {sp_files paths ! i}"
  using assms
  by (auto simp: symbol_rows_def use_rows_def sig_rows_def no_rows_def record_path_def Let_def)

lemma index_row_paths:
  assumes "i < length (sp_files paths)"
  shows
    "fst ` set (rs_records (index_rows paths il ((=) i) ix)) \<subseteq> {sp_files paths ! i}"
    "fst ` set (rs_types (index_rows paths il ((=) i) ix)) \<subseteq> {sp_files paths ! i}"
    "fst ` set (rs_ftypes (index_rows paths il ((=) i) ix)) \<subseteq> {sp_files paths ! i}"
    "fst ` set (rs_props (index_rows paths il ((=) i) ix)) \<subseteq> {sp_files paths ! i}"
  unfolding index_rows_sets using item_paths [OF assms]
  by (simp_all only: image_Un image_UN Un_least UN_least)

lemma request_paths_length:
  "request_paths e req ix = Some paths \<Longrightarrow> length (sp_files paths) = file_fingerprint_count ix"
  by (auto simp: request_paths_def init_stored_paths_def file_paths_def Let_def split: if_splits)

section \<open>What the record tables have in common\<close>

text \<open>
  \<open>tab\<close> is the table of the database, \<open>stg\<close> its staging table, \<open>rows\<close> the rows of an index
  for it, \<open>facts\<close> what a digest means for it.
\<close>

locale stored_table = atom_table atoms ins
  for atoms :: "'d \<Rightarrow> 'a set" and ins :: "nat \<times> 'd \<Rightarrow> (nat \<times> 'd) list \<Rightarrow> (nat \<times> 'd) list" +
  fixes tab :: "database \<Rightarrow> (nat \<times> 'd) list"
    and stg :: "staging \<Rightarrow> (string \<times> 'd) list"
    and rows :: "rowset \<Rightarrow> (string \<times> 'd) list"
    and facts :: "file_facts \<Rightarrow> 'a set"
  assumes tab_merged: "tab (merged v prov S T) =
      fold ins (join_files v (merged_files v S T) (stg T)) (kept v S T (tab S))"
    and tab_refs: "db_wf S \<Longrightarrow> fst ` set (tab S) \<subseteq> f_id ` set (db_files S)"
    and stg_rows: "staged_rows T r \<Longrightarrow> table_atoms atoms (stg T) = table_atoms atoms (rows r)"
    and rows_split: "set (rows (index_rows paths il keep ix)) =
      (\<Union>i \<in> {i. keep i}. set (rows (index_rows paths il ((=) i) ix)))"
    and rows_path: "i < length (sp_files paths) \<Longrightarrow>
      fst ` set (rows (index_rows paths il ((=) i) ix)) \<subseteq> {sp_files paths ! i}"
    and facts_rows: "facts (facts_of r) = \<Union> ((\<lambda>(p, d). atoms d) ` set (rows r))"
begin

definition found :: "database \<Rightarrow> string \<Rightarrow> string \<Rightarrow> 'a set" where
  "found S v p = contents atoms (db_files S) (tab S) v p"

definition indexed :: "stored_paths \<Rightarrow> bool \<Rightarrow> index \<Rightarrow> string \<Rightarrow> 'a set" where
  "indexed paths il ix p = staged_at atoms (rows (index_rows paths il (\<lambda>_. True) ix)) p"

lemma staged_atoms:
  "staged_at atoms (rows (index_rows paths il keep ix)) p =
     {a. \<exists>i d. keep i \<and> (p, d) \<in> set (rows (index_rows paths il ((=) i) ix)) \<and> a \<in> atoms d}"
  by (auto simp: staged_at_def table_atoms_def rows_split [of paths il keep])

lemma found_merged:
  assumes wf: "db_wf S"
    and sound: "vouched tab atoms (\<lambda>h. facts (C h)) S"
    and faithful: "faithful C ix paths il"
    and len: "length (sp_files paths) = file_fingerprint_count ix"
    and staged: "staged_for e ix paths main_file il cached T"
    and valid: "cached_files_valid v (S, T)"
  shows "found (merged v prov S T) v' p =
    (if v' = v \<and> replaced v S T p then {} else found S v' p) \<union>
    (if v' = v \<and> known_file v S T p then indexed paths il ix p else {})"
proof -
  from wf have wff: "wf_files (db_files S)" by (simp add: db_wf_def)
  let ?keep = "\<lambda>i. \<not> is_cached cached i"
  have at: "staged_at atoms (stg T) p = staged_at atoms (rows (index_rows paths il ?keep ix)) p"
  proof -
    from staged have "staged_rows T (index_rows paths il ?keep ix)" by (simp add: staged_for_def)
    from stg_rows [OF this] show ?thesis by (simp add: staged_at_def)
  qed
  have "found (merged v prov S T) v' p =
      (if v' = v \<and> replaced v S T p then {} else found S v' p) \<union>
      (if v' = v \<and> known_file v S T p then staged_at atoms (stg T) p else {})"
    unfolding found_def tab_merged
    using contents_merged [OF wff tab_refs [OF wf], of atoms _ v T "stg T"]
    by (simp add: atoms_fold merged_eq)
  moreover have "a \<in> found S v p \<and> \<not> replaced v S T p"
    if "a \<in> indexed paths il ix p" "a \<notin> staged_at atoms (stg T) p" for a
  proof -
    from that obtain i d where i: "(p, d) \<in> set (rows (index_rows paths il ((=) i) ix))" "a \<in> atoms d"
      "is_cached cached i"
      unfolding at indexed_def staged_atoms by blast
    from cached_file [OF wff staged valid i(3)] obtain f fp where
      f: "f \<in> set (db_files S)" "f_variant f = v" "f_path f = sp_files paths ! i"
        "i < file_fingerprint_count ix" "get_file_fingerprint ix i il = Some fp"
        "(f_id f, fp_data fp) \<in> set (db_fps S)" "\<not> replaced v S T (f_path f)"
      by blast
    have p: "p = f_path f"
      using rows_path [of i paths il ix] i(1) f(3,4) len by force
    have "C (fp_data fp) = facts_of (index_rows paths il ((=) i) ix)"
      using faithful f(5) by (simp add: faithful_def)
    then have "a \<in> facts (C (fp_data fp))" using i(1,2) by (auto simp: facts_rows)
    then have "(f_id f, a) \<in> table_atoms atoms (tab S)" using sound f(6) by (auto simp: vouched_def)
    with f p show ?thesis by (auto simp: found_def contents_def)
  qed
  moreover have "staged_at atoms (stg T) p \<subseteq> indexed paths il ix p"
    unfolding at indexed_def staged_atoms by blast
  ultimately show ?thesis by auto
qed

lemma vouched_merged:
  assumes wf: "db_wf S"
    and sound: "vouched tab atoms (\<lambda>h. facts (C h)) S"
    and faithful: "faithful C ix paths il"
    and len: "length (sp_files paths) = file_fingerprint_count ix"
    and staged: "staged_for e ix paths main_file il cached T"
    and valid: "cached_files_valid v (S, T)"
  shows "vouched tab atoms (\<lambda>h. facts (C h)) (merged v prov S T)"
  unfolding vouched_def
proof (intro allI impI subsetI, elim SigmaE)
  fix j h x i a
  assume fp: "(j, h) \<in> set (db_fps (merged v prov S T))" and x: "x = (i, a)" "i \<in> {j}" "a \<in> facts (C h)"
  have wfF: "wf_files (merged_files v S T)" using wf by (simp add: db_wf_def wf_merged_files)
  from fp have "(j, h) \<in> table_atoms fp_atoms (db_fps (merged v prov S T))"
    by (auto simp: table_atoms_def fp_atoms_def)
  then consider "(j, h) \<in> set (db_fps S)" "j \<notin> stale_set v S T"
    | "(j, h) \<in> set (join_files v (merged_files v S T) (staged_fingerprints (st_files T)))"
    unfolding merged_eq
    by (auto simp: fp_table.atoms_fold table_atoms_kept) (auto simp: table_atoms_def fp_atoms_def)
  then have "(j, a) \<in> table_atoms atoms (tab (merged v prov S T))"
  proof cases
    case 1
    then have "(j, a) \<in> table_atoms atoms (tab S)" using sound x(3) by (auto simp: vouched_def)
    with 1 show ?thesis by (simp add: tab_merged atoms_fold table_atoms_kept)
  next
    case 2
    then obtain f where f: "f \<in> set (merged_files v S T)" "f_variant f = v" "f_id f = j"
      "(f_path f, h) \<in> set (staged_fingerprints (st_files T))"
      by (auto simp: in_join_files)
    then obtain s where s: "s \<in> set (st_files T)" "s_path s = f_path f" "s_fingerprint s = Some h"
      by (auto simp: staged_fingerprints_def split: option.splits)
    with staged_file_ok [OF staged s(1)] obtain k fp where k: "k < file_fingerprint_count ix"
      "get_file_fingerprint ix k il = Some fp" "h = fp_data fp" "s_path s = sp_files paths ! k"
      by (auto simp: file_ok_def split: if_splits)
    then have "a \<in> facts (facts_of (index_rows paths il ((=) k) ix))"
      using faithful x(3) by (simp add: faithful_def)
    then obtain q d where d: "(q, d) \<in> set (rows (index_rows paths il ((=) k) ix))" "a \<in> atoms d"
      by (auto simp: facts_rows)
    then have "q = f_path f" using rows_path [of k paths il ix] k len s(2) by force
    with d have "a \<in> indexed paths il ix (f_path f)"
      unfolding indexed_def staged_atoms by blast
    moreover have "known_file v S T (f_path f)" using s(1,2) unfolding known_file_def by (metis imageI)
    ultimately have "a \<in> found (merged v prov S T) v (f_path f)"
      using found_merged [OF assms] by simp
    moreover have "file_at (merged_files v S T) v (f_path f) = Some f"
      using f by (intro file_at_unique wfF) auto
    ultimately show ?thesis
      using f(3) wfF by (simp add: found_def contents_file_at merged_eq)
  qed
  with x show "x \<in> table_atoms atoms (tab (merged v prov S T))" by simp
qed

end

interpretation records: stored_table rec_atoms ins_record db_records st_records rs_records ff_records
  by unfold_locales
    (simp add: merged_eq, simp add: db_wf_def, simp add: staged_rows_def,
     rule rowset_split, erule index_row_paths, simp add: facts_of_def)

interpretation types: stored_table type_atoms ins_type db_types st_types rs_types ff_types
  by unfold_locales
    (simp add: merged_eq, simp add: db_wf_def, simp add: staged_rows_def,
     rule rowset_split, erule index_row_paths, simp add: facts_of_def)

interpretation ftypes: stored_table ftype_atoms ins_ftype db_ftypes st_ftypes rs_ftypes ff_ftypes
  by unfold_locales
    (simp add: merged_eq, simp add: db_wf_def, simp add: staged_rows_def,
     rule rowset_split, erule index_row_paths, simp add: facts_of_def)

interpretation props: stored_table prop_atoms ins_prop db_props st_props rs_props ff_props
  by unfold_locales
    (simp add: merged_eq, simp add: db_wf_def, simp add: staged_rows_def,
     rule rowset_split, erule index_row_paths, simp add: facts_of_def)

section \<open>The specification of a store\<close>

definition no_facts :: file_facts where
  "no_facts = \<lparr>ff_records = {}, ff_types = {}, ff_ftypes = {}, ff_props = {}\<rparr>"

definition join_facts :: "file_facts \<Rightarrow> file_facts \<Rightarrow> file_facts" where
  "join_facts a b = \<lparr>ff_records = ff_records a \<union> ff_records b, ff_types = ff_types a \<union> ff_types b,
     ff_ftypes = ff_ftypes a \<union> ff_ftypes b, ff_props = ff_props a \<union> ff_props b\<rparr>"

text \<open>What the database says about a path of a variant.\<close>

definition abs_db :: "database \<Rightarrow> string \<Rightarrow> string \<Rightarrow> file_facts" where
  "abs_db db v p =
     \<lparr>ff_records = contents rec_atoms (db_files db) (db_records db) v p,
      ff_types = contents type_atoms (db_files db) (db_types db) v p,
      ff_ftypes = contents ftype_atoms (db_files db) (db_ftypes db) v p,
      ff_props = contents prop_atoms (db_files db) (db_props db) v p\<rparr>"

text \<open>What an index says about a stored path.\<close>

definition at_path :: "string \<Rightarrow> (string \<times> 'd) list \<Rightarrow> (string \<times> 'd) list" where
  "at_path p rows = filter (\<lambda>r. fst r = p) rows"

definition index_facts :: "stored_paths \<Rightarrow> bool \<Rightarrow> index \<Rightarrow> string \<Rightarrow> file_facts" where
  "index_facts paths il ix p =
     (let r = index_rows paths il (\<lambda>_. True) ix in
      facts_of \<lparr>rs_records = at_path p (rs_records r), rs_types = at_path p (rs_types r),
        rs_ftypes = at_path p (rs_ftypes r), rs_props = at_path p (rs_props r)\<rparr>)"

text \<open>
  The contract of a store: in the stored variant, a path that the request lists with another
  stamp than the database, or as the main file, loses what was known; a path that the request
  lists or the database knows gains what the index says; everything else stays.
\<close>

definition stored_spec ::
  "string \<Rightarrow> staging_file list \<Rightarrow> (string \<Rightarrow> file_facts) \<Rightarrow> database \<Rightarrow> string \<Rightarrow> string \<Rightarrow> file_facts"
  where
  "stored_spec v plan facts S v' p =
     (if v' \<noteq> v then abs_db S v' p
      else join_facts (if planned_stale v plan S p then no_facts else abs_db S v p)
        (if p \<in> s_path ` set plan \<or> (v, p) \<in> file_key ` set (db_files S) then facts p else no_facts))"

lemma facts_at_path:
  "\<Union> ((\<lambda>(q, d). atoms d) ` set (at_path p rows)) = staged_at atoms rows p"
  by (auto simp: at_path_def staged_at_def table_atoms_def)

lemma index_facts_indexed:
  "index_facts paths il ix p =
     \<lparr>ff_records = records.indexed paths il ix p, ff_types = types.indexed paths il ix p,
      ff_ftypes = ftypes.indexed paths il ix p, ff_props = props.indexed paths il ix p\<rparr>"
  by (simp add: index_facts_def facts_of_def Let_def facts_at_path records.indexed_def
      types.indexed_def ftypes.indexed_def props.indexed_def)

lemma abs_db_found:
  "abs_db S v p = \<lparr>ff_records = records.found S v p, ff_types = types.found S v p,
     ff_ftypes = ftypes.found S v p, ff_props = props.found S v p\<rparr>"
  by (simp add: abs_db_def records.found_def types.found_def ftypes.found_def props.found_def)

lemma merged_meets_spec:
  assumes inv: "db_inv C S"
    and faithful: "faithful C ix paths il"
    and len: "length (sp_files paths) = file_fingerprint_count ix"
    and staged: "staged_for e ix paths main_file il cached T"
    and valid: "cached_files_valid v (S, T)"
  shows "abs_db (merged v prov S T) v' p =
      stored_spec v (planned_files (env_fs e) ix paths main_file il) (index_facts paths il ix) S v' p"
    and "db_inv C (merged v prov S T)"
proof -
  let ?plan = "planned_files (env_fs e) ix paths main_file il"
  have wf: "db_wf S" and s: "vouched db_records rec_atoms (\<lambda>h. ff_records (C h)) S"
    "vouched db_types type_atoms (\<lambda>h. ff_types (C h)) S"
    "vouched db_ftypes ftype_atoms (\<lambda>h. ff_ftypes (C h)) S"
    "vouched db_props prop_atoms (\<lambda>h. ff_props (C h)) S"
    using inv by (simp_all add: db_inv_def fp_sound_def)
  have known: "known_file v S T p \<longleftrightarrow> p \<in> s_path ` set ?plan \<or> (v, p) \<in> file_key ` set (db_files S)"
    using arg_cong [OF staged_paths [OF staged], of set] by (auto simp: known_file_def)
  note found = records.found_merged [OF wf s(1) faithful len staged valid]
    types.found_merged [OF wf s(2) faithful len staged valid]
    ftypes.found_merged [OF wf s(3) faithful len staged valid]
    props.found_merged [OF wf s(4) faithful len staged valid]
  show "abs_db (merged v prov S T) v' p = stored_spec v ?plan (index_facts paths il ix) S v' p"
    unfolding stored_spec_def abs_db_found index_facts_indexed found known staged_stale [OF staged]
    by (simp add: join_facts_def no_facts_def)
  show "db_inv C (merged v prov S T)"
    using db_wf_merged [OF wf] records.vouched_merged [OF wf s(1) faithful len staged valid]
      types.vouched_merged [OF wf s(2) faithful len staged valid]
      ftypes.vouched_merged [OF wf s(3) faithful len staged valid]
      props.vouched_merged [OF wf s(4) faithful len staged valid]
    by (simp add: db_inv_def fp_sound_def)
qed

end
