(* ===== verification/Index_Properties.thy ===== *)
theory Index_Properties
  imports Index_Spec
begin

text \<open>
  The properties of the store operation: it meets its contract whatever the cache, the other
  processes and the failures of SQLite do, it is atomic, it keeps the invariants, it succeeds
  when nothing fails, and storing the same index twice is storing it once.
\<close>

section \<open>Contract and atomicity\<close>

lemma db_inv_evolved:
  assumes "db_inv C (shared w)" "\<And>n db. db_inv C db \<Longrightarrow> db_inv C (others e n db)" "evolved e (shared w) S"
  shows "db_inv C S"
  using assms by (auto intro: evolved_inv [of e "shared w" S "db_inv C"] db_inv_same_rows)

lemmas store_result = index_db_store_outcome [OF prod.collapse [symmetric]]

lemma store_success:
  assumes "fst (index_db_store e req w) = 0"
  shows "\<exists>S ix v paths T cached. evolved e (shared w) S \<and> sr_index req = Some ix \<and> sr_variant req = Some v \<and>
    request_paths e req ix = Some paths \<and>
    staged_for e ix paths (sr_main_file req) (sr_include_local req) cached T \<and>
    cached_files_valid v (S, T) \<and>
    shared (snd (index_db_store e req w)) = merged v (sr_provenance req) S T"
  using store_result [where e = e and req = req and w = w] assms by auto

text \<open>
  C1. A store that reports success has changed the database, as it was when the write lock was
  taken, exactly as the contract \<open>stored_spec\<close> says: for every variant and path the recorded
  facts are the old ones, dropped if the path was listed with another stamp or as the main file,
  joined with what the index says. The file cache, its revalidation and the retry are
  invisible, whatever SQLite calls failed and whatever other processes committed meanwhile.
\<close>

theorem store_meets_contract:
  assumes "db_inv C (shared w)"
    and "\<And>n db. db_inv C db \<Longrightarrow> db_inv C (others e n db)"
    and "fst (index_db_store e req w) = 0"
    and "sr_index req = Some ix" and "sr_variant req = Some v"
    and "request_paths e req ix = Some paths"
    and "faithful C ix paths (sr_include_local req)"
  shows "\<exists>S. evolved e (shared w) S \<and>
    (\<forall>v' p. abs_db (shared (snd (index_db_store e req w))) v' p =
       stored_spec v (planned_files (env_fs e) ix paths (sr_main_file req) (sr_include_local req))
         (index_facts paths (sr_include_local req) ix) S v' p)"
proof -
  obtain S T cached where S: "evolved e (shared w) S"
    "staged_for e ix paths (sr_main_file req) (sr_include_local req) cached T"
    "cached_files_valid v (S, T)"
    "shared (snd (index_db_store e req w)) = merged v (sr_provenance req) S T"
    using store_success [OF assms(3)] assms(4,5,6) by auto
  have "db_inv C S" using assms(1,2) S(1) by (rule db_inv_evolved)
  from merged_meets_spec(1) [OF this assms(7) request_paths_length [OF assms(6)] S(2,3)] S(1,4)
  show ?thesis by auto
qed

text \<open>
  C2. A store returns 0 or -1. When it returns -1, nothing of the request is in the database:
  it differs from before only by commits of other processes and the creation of the schema.
\<close>

theorem store_atomic:
  "fst (index_db_store e req w) = 0 \<or>
   (fst (index_db_store e req w) = - 1 \<and> evolved e (shared w) (shared (snd (index_db_store e req w))))"
  using store_result [where e = e and req = req and w = w] by auto

lemma store_inv:
  assumes "db_inv C (shared w)"
    and "\<And>n db. db_inv C db \<Longrightarrow> db_inv C (others e n db)"
    and "\<And>ix paths. sr_index req = Some ix \<Longrightarrow> request_paths e req ix = Some paths \<Longrightarrow>
      faithful C ix paths (sr_include_local req)"
  shows "db_inv C (shared (snd (index_db_store e req w)))"
proof -
  from store_result [where e = e and req = req and w = w]
  obtain S where S: "evolved e (shared w) S"
    "shared (snd (index_db_store e req w)) = S \<or>
      (\<exists>ix v paths T cached. sr_index req = Some ix \<and> request_paths e req ix = Some paths \<and>
        staged_for e ix paths (sr_main_file req) (sr_include_local req) cached T \<and>
        cached_files_valid v (S, T) \<and>
        shared (snd (index_db_store e req w)) = merged v (sr_provenance req) S T)"
    by blast
  have inv: "db_inv C S" using assms(1,2) S(1) by (rule db_inv_evolved)
  with S(2) show ?thesis
    using merged_meets_spec(2) [OF inv assms(3) request_paths_length] by auto
qed

text \<open>
  C3. Every store, successful or not, keeps the invariants of the database: unique file ids and
  paths per variant, unique primary keys in every table, no row without its file, and every
  stored fingerprint vouches for rows that are present.
\<close>

theorem store_keeps_invariants:
  assumes "db_inv C (shared w)"
    and "\<And>n db. db_inv C db \<Longrightarrow> db_inv C (others e n db)"
    and "\<And>ix paths. sr_index req = Some ix \<Longrightarrow> request_paths e req ix = Some paths \<Longrightarrow>
      faithful C ix paths (sr_include_local req)"
  shows "db_inv C (shared (snd (index_db_store e req w)))"
  using assms by (rule store_inv)

section \<open>A single process\<close>

lemma abs_db_same_rows: "same_rows a b \<Longrightarrow> abs_db b = abs_db a"
  unfolding same_rows_def by (elim exE) (simp add: abs_db_def fun_eq_iff)

lemma stored_spec_same_rows: "same_rows a b \<Longrightarrow> stored_spec v plan facts b = stored_spec v plan facts a"
  unfolding same_rows_def
  by (elim exE) (auto simp: stored_spec_def abs_db_def planned_stale_def fun_eq_iff)

text \<open>
  Without other writers the new contents are a function of the old ones and the request.
\<close>

theorem store_alone:
  assumes "db_inv C (shared w)"
    and "\<And>n db. others e n db = db"
    and "fst (index_db_store e req w) = 0"
    and "sr_index req = Some ix" and "sr_variant req = Some v"
    and "request_paths e req ix = Some paths"
    and "faithful C ix paths (sr_include_local req)"
  shows "abs_db (shared (snd (index_db_store e req w))) =
    stored_spec v (planned_files (env_fs e) ix paths (sr_main_file req) (sr_include_local req))
      (index_facts paths (sr_include_local req) ix) (shared w)"
proof -
  obtain S T cached where S: "evolved e (shared w) S"
    "staged_for e ix paths (sr_main_file req) (sr_include_local req) cached T"
    "cached_files_valid v (S, T)"
    "shared (snd (index_db_store e req w)) = merged v (sr_provenance req) S T"
    using store_success [OF assms(3)] assms(4,5,6) by auto
  have "same_rows (shared w) S" using S(1) assms(2) by (rule evolved_alone)
  moreover from this assms(1) have "db_inv C S" by (rule db_inv_same_rows)
  ultimately show ?thesis
    using merged_meets_spec(1) [OF _ assms(7) request_paths_length [OF assms(6)] S(2,3)] S(4)
    by (auto simp: fun_eq_iff stored_spec_same_rows [symmetric])
qed

lemma join_facts_simps [simp]:
  "join_facts no_facts a = a" "join_facts a no_facts = a"
  "join_facts (join_facts a b) b = join_facts a b"
  by (auto simp: join_facts_def no_facts_def)

lemma abs_db_unknown: "(v, p) \<notin> file_key ` set (db_files S) \<Longrightarrow> abs_db S v p = no_facts"
  by (auto simp: abs_db_def no_facts_def contents_def file_key_def)

lemma merged_keys:
  assumes "staged_for e ix paths main_file il cached T"
  shows "(v, p) \<in> file_key ` set (db_files (merged v prov S T)) \<longleftrightarrow>
    p \<in> s_path ` set (planned_files (env_fs e) ix paths main_file il) \<or> (v, p) \<in> file_key ` set (db_files S)"
proof -
  have "file_key ` set (merged_files v S T) = file_key ` set (merged_files1 v S T)"
    by (metis merged_files_fields(2) set_map)
  then show ?thesis
    using arg_cong [OF staged_paths [OF assms], of set]
    by (auto simp: merged_eq merged_files1_def fold_ins_file_keys)
qed

text \<open>After a merge only the main file is still listed for replacement.\<close>

lemma merged_stale:
  assumes staged: "staged_for e ix paths main_file il cached T"
    and stale: "planned_stale v (planned_files (env_fs e) ix paths main_file il) (merged v prov S T) p"
  shows "\<exists>s \<in> set (planned_files (env_fs e) ix paths main_file il). s_path s = p \<and> s_is_main s"
proof -
  have plan: "planned_files (env_fs e) ix paths main_file il = map unmark (st_files T)"
    using staged by (simp add: staged_for_def)
  from stale obtain f where f: "f \<in> set (merged_files v S T)" "f_path f = p"
    "stale_by v (st_files T) f"
    unfolding planned_stale_def plan stale_by_unmark by (auto simp: merged_eq)
  then obtain s where s: "s \<in> set (st_files T)" "s_path s = p"
    "s_is_main s \<or> f_mtime f \<noteq> s_mtime s \<or> f_size f \<noteq> s_size s" "f_variant f = v"
    by (auto simp: stale_by_def)
  have stamp: "f_mtime f = s_mtime s \<and> f_size f = s_size s"
  proof -
    from f(1) obtain g where g0: "f = (if f_variant g = v \<and> f_path g \<in> s_path ` set (st_files T)
        then restamp (st_files T) g else g)"
      unfolding merged_files_def set_update_where by (rule imageE)
    have "f_path f = f_path g" "f_variant f = f_variant g" unfolding g0 by simp_all
    then have gp: "f_path g = p" "f_variant g = v" using f(2) s(4) by simp_all
    have "f_path g \<in> s_path ` set (st_files T)" using gp(1) s(2) by (intro rev_image_eqI [OF s(1)]) simp
    with g0 gp have g: "f = restamp (st_files T) g" "f_path g = p" by simp_all
    have "find (\<lambda>s. s_path s = f_path g) (st_files T) \<noteq> None"
      unfolding find_None_iff using s(1,2) g(2) by metis
    then obtain s' where s': "find (\<lambda>s. s_path s = f_path g) (st_files T) = Some s'"
      by (cases "find (\<lambda>s. s_path s = f_path g) (st_files T)") simp_all
    then have "s' \<in> set (st_files T)" "s_path s' = p" using g(2) by (auto simp: find_Some_iff)
    then have "s' = s" using distinct_map_unique [OF staged_distinct [OF staged] _ s(1)] s(2) by simp
    with g s' show ?thesis by (simp add: restamp_def)
  qed
  from s(1) have "unmark s \<in> set (planned_files (env_fs e) ix paths main_file il)"
    using staged unfolding staged_for_def by (metis imageI set_map)
  moreover have "s_is_main s" using s(3) stamp by simp
  ultimately show ?thesis using s(2) by (intro bexI [of _ "unmark s"]) simp_all
qed

lemma spec_twice:
  assumes staged: "staged_for e ix paths main_file il cached T"
    and first: "abs_db (merged v prov S T) =
      stored_spec v (planned_files (env_fs e) ix paths main_file il) facts S"
  shows "stored_spec v (planned_files (env_fs e) ix paths main_file il) facts (merged v prov S T) =
    abs_db (merged v prov S T)"
proof (intro ext)
  fix v' p
  let ?plan = "planned_files (env_fs e) ix paths main_file il" and ?M = "merged v prov S T"
  show "stored_spec v ?plan facts ?M v' p = abs_db ?M v' p"
  proof (cases "v' = v")
    case False
    then show ?thesis by (simp add: stored_spec_def)
  next
    case True
    have main: "abs_db ?M v p = facts p" if "s \<in> set ?plan" "s_path s = p" "s_is_main s" for s
    proof (cases "(v, p) \<in> file_key ` set (db_files S)")
      case True
      with that have "planned_stale v ?plan S p"
        by (force simp: planned_stale_def stale_by_def file_key_def)
      with that show ?thesis unfolding first by (auto simp: stored_spec_def)
    next
      case False
      then have "abs_db S v p = no_facts" by (rule abs_db_unknown)
      with that show ?thesis unfolding first by (auto simp: stored_spec_def)
    qed
    have known: "(v, p) \<in> file_key ` set (db_files ?M) \<longleftrightarrow>
        p \<in> s_path ` set ?plan \<or> (v, p) \<in> file_key ` set (db_files S)"
      by (rule merged_keys [OF staged])
    have old: "join_facts (abs_db ?M v p) (facts p) = abs_db ?M v p"
      if "p \<in> s_path ` set ?plan \<or> (v, p) \<in> file_key ` set (db_files S)"
      using that unfolding first by (auto simp: stored_spec_def)
    show ?thesis
    proof (cases "planned_stale v ?plan ?M p")
      case True
      with merged_stale [OF staged] main have "abs_db ?M v p = facts p" by blast
      moreover have "p \<in> s_path ` set ?plan" using merged_stale [OF staged True] by auto
      ultimately show ?thesis using True \<open>v' = v\<close> by (simp add: stored_spec_def)
    next
      case False
      then show ?thesis using old \<open>v' = v\<close> by (auto simp: stored_spec_def known)
    qed
  qed
qed

text \<open>
  C4. Indexing is idempotent: a second store of the same request, with the files unchanged,
  leaves the recorded facts as they are (whether or not it finds them cached).
\<close>

theorem store_idempotent:
  assumes "db_inv C (shared w)"
    and "\<And>n db. others e n db = db"
    and "fst (index_db_store e req w) = 0"
    and "fst (index_db_store e req (snd (index_db_store e req w))) = 0"
    and "sr_index req = Some ix" and "sr_variant req = Some v"
    and "request_paths e req ix = Some paths"
    and "faithful C ix paths (sr_include_local req)"
  shows "abs_db (shared (snd (index_db_store e req (snd (index_db_store e req w))))) =
    abs_db (shared (snd (index_db_store e req w)))"
proof -
  let ?w1 = "snd (index_db_store e req w)"
  let ?plan = "planned_files (env_fs e) ix paths (sr_main_file req) (sr_include_local req)"
  let ?facts = "index_facts paths (sr_include_local req) ix"
  obtain S T cached where S: "evolved e (shared w) S"
    "staged_for e ix paths (sr_main_file req) (sr_include_local req) cached T"
    "cached_files_valid v (S, T)" "shared ?w1 = merged v (sr_provenance req) S T"
    using store_success [OF assms(3)] assms(5,6,7) by auto
  have "same_rows (shared w) S" using S(1) assms(2) by (rule evolved_alone)
  then have inv: "db_inv C S" using assms(1) by (rule db_inv_same_rows)
  note meets = merged_meets_spec [OF inv assms(8) request_paths_length [OF assms(7)] S(2,3)]
  from meets(2) S(4) have inv1: "db_inv C (shared ?w1)" by simp
  obtain S2 T2 cached2 where S2: "evolved e (shared ?w1) S2"
    "staged_for e ix paths (sr_main_file req) (sr_include_local req) cached2 T2"
    "cached_files_valid v (S2, T2)"
    "shared (snd (index_db_store e req ?w1)) = merged v (sr_provenance req) S2 T2"
    using store_success [OF assms(4)] assms(5,6,7) by auto
  have same2: "same_rows (shared ?w1) S2" using S2(1) assms(2) by (rule evolved_alone)
  then have inv2: "db_inv C S2" using inv1 by (rule db_inv_same_rows)
  have "abs_db (shared (snd (index_db_store e req ?w1))) = stored_spec v ?plan ?facts S2"
    using merged_meets_spec(1) [OF inv2 assms(8) request_paths_length [OF assms(7)] S2(2,3)] S2(4)
    by (simp add: fun_eq_iff)
  also have "\<dots> = stored_spec v ?plan ?facts (shared ?w1)" using same2 by (rule stored_spec_same_rows)
  also have "\<dots> = abs_db (shared ?w1)"
    unfolding S(4) using meets(1) by (intro spec_twice [OF S(2)]) (simp add: fun_eq_iff)
  finally show ?thesis .
qed

end
