(* ===== verification/Index_Liveness.thy ===== *)
theory Index_Liveness
  imports Index_Properties
begin

text \<open>
  When no call into SQLite fails, the loops and transactions of the writer run to their end:
  a store of a well-formed request into a usable database returns 0, whatever other processes
  commit meanwhile, and whether or not their commits force the retry.
\<close>

definition live :: "env \<Rightarrow> bool" where
  "live e \<longleftrightarrow> (\<forall>n. \<not> fault e n)"

lemma tick_live: "live e \<Longrightarrow> fst (tick e w)"
  by (simp add: live_def tick_def Let_def)

lemma exec_sql_live: "live e \<Longrightarrow> fst (exec_sql e stmt w)"
  using tick_live [of e w] by (auto simp: exec_sql_def Let_def split: prod.splits bool.splits)

lemma query_live: "live e \<Longrightarrow> fst (query e f w) \<noteq> None"
  using tick_live [of e w] by (auto simp: query_def split: prod.splits bool.splits)

lemma begin_live: "live e \<Longrightarrow> idle S T w \<Longrightarrow> fst (begin_txn e w)"
  by (simp add: live_def begin_txn_def tick_def Let_def idle_def)

lemma commit_live: "live e \<Longrightarrow> inside S T w v \<Longrightarrow> fst (commit_txn e w)"
  by (simp add: live_def commit_txn_def tick_def Let_def inside_def)

lemma rollback_live: "live e \<Longrightarrow> inside S T w v \<Longrightarrow> idle S T (rollback_txn e w)"
  by (simp add: live_def rollback_txn_def tick_def Let_def idle_def inside_def)

lemma for_each_live:
  assumes "\<And>x s. x \<in> set xs \<Longrightarrow> fst (f x s)"
  shows "fst (for_each f xs s)"
  using assms
proof (induction xs arbitrary: s)
  case (Cons x xs)
  obtain b s1 where x: "f x s = (b, s1)" by (rule prod.exhaust)
  with Cons.prems [of x s] have "b" by simp
  with x Cons show ?case by simp
qed simp

lemma for_each_liveD:
  "for_each f xs s = (b, s') \<Longrightarrow> (\<And>x s. x \<in> set xs \<Longrightarrow> fst (f x s)) \<Longrightarrow> b"
  using for_each_live [of xs f s] by simp

section \<open>Staging\<close>

lemma counted_live: "live e \<Longrightarrow> fst (counted e stmt add cw)"
  using exec_sql_live [of e stmt "snd cw"] by (auto simp: counted_def split: prod.splits bool.splits)

lemma stage_use_live: "live e \<Longrightarrow> fst (stage_use e paths il cached u cw)"
  by (simp add: stage_use_def Let_def counted_live)

lemma stage_signature_live: "live e \<Longrightarrow> fst (stage_signature e paths cached g cw)"
  by (simp add: stage_signature_def for_each_live counted_live)

lemma optional_counted_live: "live e \<Longrightarrow> fst (if c then counted e stmt add cw else (True, cw))"
  by (simp add: counted_live)

lemma stage_symbol_live:
  assumes "live e"
  shows "fst (stage_symbol e paths il cached s cw)"
proof -
  have step: "fst (case r of (False, c) \<Rightarrow> (False, c) | (True, c) \<Rightarrow> k c)"
    if "fst r" "\<And>c. fst (k c)" for r :: "bool \<times> stage_state" and k :: "stage_state \<Rightarrow> bool \<times> stage_state"
    using that by (auto split: prod.splits bool.splits)
  show ?thesis
    unfolding stage_symbol_def Let_def
    by (simp only: fst_conv if_distrib [of fst] step counted_live [OF assms] optional_counted_live [OF assms]
        simp_thms if_cancel)
qed

lemma stage_records_live:
  assumes "live e"
  shows "fst (stage_records e ix paths il cached w)"
proof -
  have p: "fst (prepare_all e n w)" for n w
    unfolding prepare_all_def by (rule for_each_live) (rule tick_live [OF assms])
  obtain b0 w1 where r0: "prepare_all e 4 w = (b0, w1)" by (rule prod.exhaust)
  obtain b1 cw1 where r1: "for_each (stage_symbol e paths il cached) (ix_symbols ix) (zero_counts, w1) = (b1, cw1)"
    by (rule prod.exhaust)
  obtain b2 cw2 where r2: "for_each (stage_use e paths il cached) (ix_uses ix) cw1 = (b2, cw2)"
    by (rule prod.exhaust)
  obtain b3 cw3 where r3: "for_each (stage_signature e paths cached) (ix_signatures ix) cw2 = (b3, cw3)"
    by (rule prod.exhaust)
  have "b0" "b1" "b2" "b3"
    using p [of 4 w] r0 r1 r2 r3
      for_each_live [of "ix_symbols ix" "stage_symbol e paths il cached" "(zero_counts, w1)"]
      for_each_live [of "ix_uses ix" "stage_use e paths il cached" cw1]
      for_each_live [of "ix_signatures ix" "stage_signature e paths cached" cw2]
      stage_symbol_live [OF assms] stage_use_live [OF assms] stage_signature_live [OF assms]
    by simp_all
  with r0 r1 r2 r3 show ?thesis by (simp add: stage_records_def)
qed

lemma set_cached_live:
  assumes "\<forall>j \<in> set os. (case j of None \<Rightarrow> 0 | Some k \<Rightarrow> k) < length cached"
  shows "fst (set_cached cached os n)"
  using assms by (induction os arbitrary: cached n) (auto simp: Let_def)

text \<open>A fingerprint is there for every file.\<close>

definition fingerprints_ok :: "index \<Rightarrow> bool \<Rightarrow> bool" where
  "fingerprints_ok ix il \<longleftrightarrow> (\<forall>i < file_fingerprint_count ix. get_file_fingerprint ix i il \<noteq> None)"

lemma stage_file_live:
  "live e \<Longrightarrow> get_file_fingerprint ix i il \<noteq> None \<Longrightarrow> fst (stage_file e ix paths ms il i nw)"
  by (auto simp: stage_file_def Let_def split_beta exec_sql_live split: option.splits)

lemma stage_files_live:
  assumes live: "live e" and fps: "fingerprints_ok ix il"
    and start: "inside S T w (db, stg)" "st_files stg = []"
  shows "fst (stage_files e ix paths main_file variant il
    (replicate (file_fingerprint_count ix) False) w)"
proof -
  let ?ms = "case main_file of None \<Rightarrow> None | Some m \<Rightarrow> fs_stat (env_fs e) m"
  let ?c0 = "replicate (file_fingerprint_count ix) False"
  let ?plan = "planned_files (env_fs e) ix paths main_file il"
  let ?incl = "fold (plan_file (env_fs e) ix paths ?ms il) [0..<file_fingerprint_count ix]"
  let ?main = "\<lambda>t. if main_file = None then t else ins_staging_main (main_row paths ?ms) t"
  obtain b1 w1 where t: "tick e w = (b1, w1)" by (rule prod.exhaust)
  have i1: "b1" "inside S T (snd (0 :: nat, w1)) (db, stg)"
    using tick_inside [OF start(1) t] tick_live [OF live, of w] t by simp_all
  obtain b2 k w2 where f: "for_each (stage_file e ix paths ?ms il) [0..<length ?c0] (0, w1) = (b2, (k, w2))"
    by (rule prod_cases3)
  have b2: "b2"
    by (rule for_each_liveD [OF f], rule stage_file_live [OF live])
      (use fps in \<open>simp add: fingerprints_ok_def\<close>)
  have "leads S T (snd (k, w2)) b2 (fold (\<lambda>i. on_files (plan_file (env_fs e) ix paths ?ms il i))
      [0..<length ?c0] (db, stg))"
    by (rule for_each_inside [where proj = snd, OF _ i1(2) f]) (rule stage_file_inside)
  with b2 have i2: "inside S T w2 (on_files ?incl (db, stg))" by (simp add: fold_on_files)
  obtain b3 w3 where mn: "(if main_file = None then (True, w2)
      else (case tick e w2 of (False, w3) \<Rightarrow> (False, w3)
            | (True, w3) \<Rightarrow> exec_sql e (stage_main_row (main_row paths ?ms)) w3)) = (b3, w3)"
    by (rule prod.exhaust)
  have b3: "b3"
  proof -
    obtain c w where "tick e w2 = (c, w)" by (rule prod.exhaust)
    with tick_live [OF live, of w2] have "tick e w2 = (True, w)" by simp
    then have "fst (if main_file = None then (True, w2)
      else (case tick e w2 of (False, w3) \<Rightarrow> (False, w3)
            | (True, w3) \<Rightarrow> exec_sql e (stage_main_row (main_row paths ?ms)) w3))"
      by (simp add: exec_sql_live [OF live])
    with mn show ?thesis by simp
  qed
  have "on_files ?main (on_files ?incl (db, stg)) = (db, stg\<lparr>st_files := ?plan\<rparr>)"
    by (simp add: on_files_def planned_files_def Let_def start(2))
  with stage_main_inside [OF i2 mn] b3 have i3: "inside S T w3 (db, stg\<lparr>st_files := ?plan\<rparr>)" by simp
  obtain b4 w4 where mk: "exec_sql e (mark_cached variant) w3 = (b4, w4)" by (rule prod.exhaust)
  have b4: "b4" using exec_sql_live [OF live, of "mark_cached variant" w3] mk by simp
  obtain r5 w5 where q: "query e cached_ordinals w4 = (r5, w5)" by (rule prod.exhaust)
  let ?marked = "map (\<lambda>s. if cacheable variant db s then s\<lparr>s_cached := True\<rparr> else s) ?plan"
  let ?v = "(db, stg\<lparr>st_files := ?marked\<rparr>)"
  have "inside S T w4 ?v"
    using exec_sql_inside [OF i3 mk] b4 by (simp add: mark_cached_view on_files_def)
  from query_inside [OF this q] query_live [OF live, of cached_ordinals w4] q
  have r5: "r5 = Some (cached_ordinals ?v)" by auto
  have ok: "plan_ok ix paths il ?plan" by (rule plan_ok_planned)
  have "\<forall>j \<in> set (cached_ordinals ?v). (case j of None \<Rightarrow> 0 | Some k \<Rightarrow> k) < length ?c0"
  proof
    fix j assume j: "j \<in> set (cached_ordinals ?v)"
    then obtain s where s: "s \<in> set ?marked" "s_cached s" "s_ordinal s = j"
      by (auto simp: cached_ordinals_def)
    then obtain s0 where s0: "s0 \<in> set ?plan" "s = (if cacheable variant db s0 then s0\<lparr>s_cached := True\<rparr> else s0)"
      by auto
    with ok s(2) have "cacheable variant db s0" "file_ok ix paths il s0"
      by (auto simp: plan_ok_def split: if_splits)
    with s0(2) s(3) show "(case j of None \<Rightarrow> 0 | Some k \<Rightarrow> k) < length ?c0"
      by (auto simp: cacheable_def file_ok_def)
  qed
  then have sc: "fst (set_cached ?c0 (cached_ordinals ?v) 0)" by (rule set_cached_live)
  obtain ok' c j where cs: "set_cached ?c0 (cached_ordinals ?v) 0 = (ok', c, j)" by (rule prod_cases3)
  with sc have "ok' = True" by simp
  moreover have "b1 = True" "b2 = True" "b3 = True" "b4 = True" using i1(1) b2 b3 b4 by simp_all
  ultimately show ?thesis
    unfolding stage_files_def Let_def t
    by (simp only: prod.case bool.case f mn mk q r5 cs option.case fst_conv if_cancel if_distrib [of fst])
qed

section \<open>Merging and storing\<close>

lemma merge_staging_live:
  assumes live: "live e" and start: "idle S T w"
    and run: "merge_staging e v c n prov w = (r, w')"
  shows "r = 0 \<or> (r = 1 \<and> txn w' = None)"
proof -
  obtain b1 w1 where p1: "begin_txn e w = (b1, w1)" by (rule prod.exhaust)
  from begin_live [OF live start] p1 have b1: "b1" by simp
  from begin_idle [OF start p1] b1 obtain S' where i1: "inside S' T (trace_end ''db.merge.begin'' w1) (S', T)"
    by auto
  obtain q w2 where p2: "query e (cached_files_valid v) (trace_end ''db.merge.begin'' w1) = (q, w2)"
    by (rule prod.exhaust)
  have i2: "inside S' T w2 (S', T)" using query_inside [OF i1 p2] by simp
  obtain valid where q: "q = Some valid"
    using query_live [OF live, of "cached_files_valid v" "trace_end ''db.merge.begin'' w1"] p2 by auto
  obtain b3 w3 where p3: "for_each (exec_plain e) (plain_merges v) w2 = (b3, w3)" by (rule prod.exhaust)
  obtain b4 w4 where p4: "for_each (exec_counted e) (counted_merges v c n) w3 = (b4, w4)" by (rule prod.exhaust)
  obtain b5 w5 where p5: "store_variant_metadata e v prov w4 = (b5, w5)" by (rule prod.exhaust)
  obtain b7 w7 where p7: "commit_txn e (trace_end ''db.merge.variant'' w5) = (b7, w7)" by (rule prod.exhaust)
  have b3: "b3"
    by (rule for_each_liveD [OF p3])
      (simp add: exec_plain_def trace_exec_sql_def split_beta exec_sql_live [OF live])
  have b4: "b4"
    by (rule for_each_liveD [OF p4]) (simp add: exec_counted_def split_beta exec_sql_live [OF live])
  have b5: "b5"
    using p5 tick_live [OF live, of w4] exec_sql_live [OF live]
    by (auto simp: store_variant_metadata_def split: prod.splits bool.splits) (metis fst_conv)
  have "leads S' T w3 b3 (fold (\<lambda>sp v. fst (fst sp v)) (plain_merges v) (S', T))"
    by (rule for_each_inside [where proj = "\<lambda>w. w", OF _ i2 p3]) (rule exec_plain_leads)
  with b3 have i3: "inside S' T w3 (fold (\<lambda>sp v. fst (fst sp v)) (plain_merges v) (S', T))" by simp
  have "leads S' T w4 b4 (fold (\<lambda>sp v. fst (fst sp v)) (counted_merges v c n)
      (fold (\<lambda>sp v. fst (fst sp v)) (plain_merges v) (S', T)))"
    by (rule for_each_inside [where proj = "\<lambda>w. w", OF _ i3 p4]) (rule exec_counted_leads)
  with b4 variant_leads [OF _ p5] b5 obtain u where "inside S' T (trace_end ''db.merge.variant'' w5) u"
    by fastforce
  from commit_live [OF live this] p7 have b7: "b7" by simp
  have rb: "txn (rollback_txn e w2) = None" using rollback_live [OF live i2] by (simp add: idle_def)
  show ?thesis
    using run b1 b3 b4 b5 b7 q rb unfolding merge_staging_def trace_txn_def
    by (cases valid) (auto simp: p1 p2 p3 p4 p5 p7 Let_def)
qed

lemma store_retry_live:
  assumes live: "live e" and start: "idle S T w"
    and run: "store_retry e ix paths v il prov k n c w = (r, w')"
  shows "r = 0"
proof -
  obtain b1 w1 where p1: "begin_txn e w = (b1, w1)" by (rule prod.exhaust)
  from begin_live [OF live start] p1 have b1: "b1 = True" by simp
  let ?w1 = "trace_end ''db.staging_retry_begin'' w1"
  from begin_idle [OF start p1] b1 obtain S1 where i1: "inside S1 T ?w1 (S1, T)" by auto
  obtain b2 w2 where p2: "exec_sql e reset_cached ?w1 = (b2, w2)" by (rule prod.exhaust)
  have b2: "b2 = True" using exec_sql_live [OF live, of reset_cached ?w1] p2 by simp
  let ?T0 = "T\<lparr>st_files := map unmark (st_files T)\<rparr>"
  have i2: "inside S1 T w2 (S1, ?T0)" using exec_sql_inside [OF i1 p2] b2 by (simp add: reset_cached_view)
  obtain b3 c3 w3 where p3: "stage_records e ix paths il (replicate k False) w2 = (b3, (c3, w3))"
    by (rule prod_cases3)
  have b3: "b3 = True"
    using stage_records_live [OF live, of ix paths il "replicate k False" w2] p3 by simp
  let ?w4 = "trace_end_counted ''db.stage_records_retry'' (items_in c3) (n_records c3) w3"
  let ?T1 = "add_rows (index_rows paths il (\<lambda>_. True) ix) ?T0"
  have i4: "inside S1 T ?w4 (S1, ?T1)" using stage_records_effect [OF i2 p3] b3 by simp
  obtain b5 w5 where p5: "commit_txn e ?w4 = (b5, w5)" by (rule prod.exhaust)
  have b5: "b5 = True" using commit_live [OF live i4] p5 by simp
  let ?w5 = "trace_end ''db.staging_retry_commit'' w5"
  have i5: "idle S1 ?T1 ?w5" using commit_inside [OF i4 p5] b5 by simp
  let ?c = "c\<lparr>n_records := n_records c + n_records c3,
    n_symbol_types := n_symbol_types c + n_symbol_types c3,
    n_function_types := n_function_types c + n_function_types c3\<rparr>"
  obtain r6 w6 where p6: "merge_staging e v ?c n prov ?w5 = (r6, w6)" by (rule prod.exhaust)
  have "cached_files_valid v (S', ?T1)" for S'
    by (simp add: cached_files_valid_def list_all_iff)
  then have "r6 \<noteq> 1" using merge_staging_outcome [OF i5 p6] by (auto simp: merge_outcome_def)
  with merge_staging_live [OF live i5 p6] have "r6 = 0" by simp
  then show ?thesis
    using run b1 b2 b3 b5 p1 p2 p3 p5 p6 by (simp add: store_retry_def trace_txn_def Let_def)
qed

lemma store_open_live:
  assumes live: "live e" and start: "idle S T w" "fresh T" and fps: "fingerprints_ok ix il"
    and run: "store_open e ix paths main_file v il prov w = (r, w')"
  shows "r = 0"
proof -
  let ?k = "file_fingerprint_count ix"
  obtain b1 w1 where p1: "create_staging e w = (b1, w1)" by (rule prod.exhaust)
  have b1: "b1 = True"
    using for_each_liveD [OF p1 [unfolded create_staging_def]] exec_sql_live [OF live] by simp
  let ?w1 = "trace_end ''db.staging_schema'' w1"
  obtain S1 T1 where S1: "fresh T1" "idle S1 T1 ?w1" using create_staging_idle [OF start p1] by auto
  obtain b2 w2 where p2: "begin_txn e ?w1 = (b2, w2)" by (rule prod.exhaust)
  let ?w2 = "trace_end ''db.staging_begin'' w2"
  have b2: "b2 = True" using begin_live [OF live S1(2)] p2 by simp
  obtain S2 where i2: "inside S2 T1 ?w2 (S2, T1)" using begin_idle [OF S1(2) p2] b2 by auto
  obtain b3 cached n m w3 where
    p3: "stage_files e ix paths main_file v il (replicate ?k False) ?w2 = (b3, cached, n, m, w3)"
    by (rule prod_cases5)
  have no_files: "st_files T1 = []" using S1(1) by (simp add: fresh_def)
  have b3: "b3 = True"
    using stage_files_live [OF live fps i2 no_files, of paths main_file v] p3 by simp
  let ?w3 = "trace_end_counted ''db.stage_files'' n m w3"
  obtain fs where i3: "inside S2 T1 ?w3 (S2, T1\<lparr>st_files := fs\<rparr>)"
    using stage_files_effect [OF i2 no_files p3] b3 by auto
  obtain b4 c w4 where p4: "stage_records e ix paths il cached ?w3 = (b4, (c, w4))" by (rule prod_cases3)
  have b4: "b4 = True" using stage_records_live [OF live, of ix paths il cached ?w3] p4 by simp
  let ?w4 = "trace_end_counted ''db.stage_records'' (items_in c) (n_records c) w4"
  let ?T = "add_rows (index_rows paths il (\<lambda>i. \<not> is_cached cached i) ix) (T1\<lparr>st_files := fs\<rparr>)"
  have i4: "inside S2 T1 ?w4 (S2, ?T)" using stage_records_effect [OF i3 p4] b4 by simp
  obtain b5 w5 where p5: "commit_txn e ?w4 = (b5, w5)" by (rule prod.exhaust)
  have b5: "b5 = True" using commit_live [OF live i4] p5 by simp
  let ?w5 = "trace_end ''db.staging_commit'' w5"
  have i5: "idle S2 ?T ?w5" using commit_inside [OF i4 p5] b5 by simp
  obtain r6 w6 where p6: "merge_staging e v c n prov ?w5 = (r6, w6)" by (rule prod.exhaust)
  have step: "(r, w') = (if r6 < 0 then (- 1, w6)
      else if r6 > 0 then store_retry e ix paths v il prov ?k n c w6 else (0, w6))"
    using run b1 b2 b3 b4 b5 unfolding store_open_def trace_txn_def Let_def p1
    by (simp only: prod.case bool.case p2 p3 p4 p5 p6 fst_conv snd_conv if_False not_True_eq_False)
  from merge_staging_live [OF live i5 p6] show ?thesis
  proof
    assume "r6 = 0"
    with step show ?thesis by simp
  next
    assume r6: "r6 = 1 \<and> txn w6 = None"
    then obtain S3 where "rests S3 ?T w6" using merge_staging_outcome [OF i5 p6]
      by (auto simp: merge_outcome_def)
    with r6 have "idle S3 ?T w6" by (blast intro: rests_open)
    moreover have "store_retry e ix paths v il prov ?k n c w6 = (r, w')" using step r6 by simp
    ultimately show ?thesis by (rule store_retry_live [OF live])
  qed
qed

section \<open>Opening a usable database\<close>

text \<open>A database is usable when it has the schema, or is fresh.\<close>

definition usable :: "database \<Rightarrow> bool" where
  "usable db \<longleftrightarrow> db_version db = INDEX_SCHEMA_VERSION \<or>
     (db_version db = 0 \<and> (\<forall>t \<in> set (db_tables db). like_sqlite t))"

lemma usable_drift:
  assumes "usable S" "\<And>n db. usable db \<Longrightarrow> usable (others e n db)" "drift e S S'"
  shows "usable S'"
  using assms(3,1) by (induction rule: drift.induct) (auto intro: assms(2))

text \<open>
  What \<open>init_schema\<close> decides on the database \<open>S\<close> when no call fails: the current version is accepted as
  it is, a fresh database gets the schema, every other one is refused and left as it is.
\<close>

definition schema_decision :: "database \<Rightarrow> staging \<Rightarrow> int \<Rightarrow> world \<Rightarrow> bool" where
  "schema_decision S T r w' \<longleftrightarrow>
     (if db_version S = INDEX_SCHEMA_VERSION then r = 0 \<and> idle S T w'
      else if db_version S = 0 \<and> \<not> has_user_tables (S, T) then r = 0 \<and> idle (with_schema S) T w'
      else r = - 1 \<and> idle S T w')"

lemma schema_commit_decides:
  "live e \<Longrightarrow> inside S T w (S', T) \<Longrightarrow> fst (schema_commit e w) = 0 \<and> idle S' T (snd (schema_commit e w))"
  using commit_live [of e S T w "(S', T)"] commit_inside [of S T w "(S', T)" e]
  by (cases "commit_txn e w") (auto simp: schema_commit_def)

lemma init_schema_decides:
  assumes live: "live e" and start: "idle S T w"
  shows "\<exists>S'. drift e S S' \<and> schema_decision S' T (fst (init_schema e w)) (snd (init_schema e w))"
proof -
  obtain b1 w1 where p1: "exec_sql e pragma w = (b1, w1)" by (rule prod.exhaust)
  have b1: "b1 = True" using exec_sql_live [OF live, of pragma w] p1 by simp
  obtain S1 where S1: "drift e S S1" "idle S1 T w1"
    using exec_sql_idle [OF start p1] by (auto simp: pragma_def split: if_splits)
  obtain q2 w2 where p2: "query e schema_version w1 = (q2, w2)" by (rule prod.exhaust)
  obtain S2 where S2: "drift e S S2" "idle S2 T w2" "q2 = Some (db_version S2)"
    using query_idle [OF S1(2) p2] query_live [OF live, of schema_version w1] p2 S1(1)
    by (auto simp: schema_version_def intro: drift_trans)
  show ?thesis
  proof (cases "db_version S2 = INDEX_SCHEMA_VERSION")
    case True
    then have "init_schema e w = (0, w2)" by (simp add: init_schema_def p1 p2 b1 S2(3))
    with True S2(1,2) show ?thesis by (intro exI [of _ S2]) (simp add: schema_decision_def)
  next
    case False
    obtain b3 w3 where p3: "begin_txn e w2 = (b3, w3)" by (rule prod.exhaust)
    have b3: "b3 = True" using begin_live [OF live S2(2)] p3 by simp
    obtain S3 where S3: "drift e S S3" "inside S3 T w3 (S3, T)"
      using begin_idle [OF S2(2) p3] S2(1) b3 by (auto intro: drift_trans)
    obtain q4 w4 where p4: "query e schema_version w3 = (q4, w4)" by (rule prod.exhaust)
    have i4: "inside S3 T w4 (S3, T)" "q4 = Some (db_version S3)"
      using query_inside [OF S3(2) p4] query_live [OF live, of schema_version w3] p4 by (auto simp: schema_version_def)
    obtain q5 w5 where p5: "query e has_user_tables w4 = (q5, w5)" by (rule prod.exhaust)
    have i5: "inside S3 T w5 (S3, T)" "q5 = Some (has_user_tables (S3, T))"
      using query_inside [OF i4(1) p5] query_live [OF live, of has_user_tables w4] p5 by auto
    obtain b6 w6 where p6: "for_each (exec_sql e) schema w5 = (b6, w6)" by (rule prod.exhaust)
    have b6: "b6 = True" using for_each_liveD [OF p6] exec_sql_live [OF live] by simp
    have "leads S3 T w6 b6 (fold (\<lambda>s v. fst (s v)) schema (S3, T))"
      by (rule for_each_inside [where proj = "\<lambda>w. w", OF _ i5(1) p6]) (rule exec_sql_leads)
    then have i6: "inside S3 T w6 (with_schema S3, T)" using b6 by (simp add: schema_view)
    have run: "init_schema e w =
        (if db_version S3 = INDEX_SCHEMA_VERSION then schema_commit e w4
         else if db_version S3 \<noteq> 0 then (- 1, rollback_txn e w4)
         else if has_user_tables (S3, T) then (- 1, rollback_txn e w5) else schema_commit e w6)"
      by (simp add: init_schema_def p1 p2 p3 p4 p5 p6 b1 b3 b6 S2(3) i4(2) i5(2) False)
    have "schema_decision S3 T (fst (init_schema e w)) (snd (init_schema e w))"
      using schema_commit_decides [OF live i4(1)] schema_commit_decides [OF live i6]
        rollback_live [OF live i4(1)] rollback_live [OF live i5(1)]
      unfolding run schema_decision_def by (auto simp: INDEX_SCHEMA_VERSION_def)
    with S3(1) show ?thesis by blast
  qed
qed

lemma init_schema_live:
  assumes live: "live e" and start: "idle S T w" "usable S"
    and peers: "\<And>n db. usable db \<Longrightarrow> usable (others e n db)"
  shows "fst (init_schema e w) = 0"
proof -
  obtain S' where S': "drift e S S'" "schema_decision S' T (fst (init_schema e w)) (snd (init_schema e w))"
    using init_schema_decides [OF live start(1)] by blast
  have "usable S'" using start(2) peers S'(1) by (rule usable_drift)
  with S'(2) show ?thesis by (auto simp: usable_def schema_decision_def has_user_tables_def split: if_splits)
qed

lemma open_writer_live:
  assumes live: "live e" and start: "idle S T w" "usable S"
    and peers: "\<And>n db. usable db \<Longrightarrow> usable (others e n db)"
    and mk: "mkdir_ok e p"
  shows "fst (open_writer e p w) = 0"
proof -
  let ?w0 = "trace_end ''db.mkdir'' w"
  obtain b1 w1 where p1: "tick e ?w0 = (b1, w1)" by (rule prod.exhaust)
  let ?w1 = "trace_end ''db.open'' w1"
  obtain S1 where S1: "drift e S S1" "idle S1 T ?w1"
    using tick_idle [OF _ p1, of S T] start(1) by auto
  obtain b2 w2 where p2: "tick e ?w1 = (b2, w2)" by (rule prod.exhaust)
  obtain S2 where S2: "drift e S S2" "idle S2 T w2"
    using tick_idle [OF S1(2) p2] S1(1) by (blast intro: drift_trans)
  obtain b3 w3 where p3: "trace_exec_sql e pragma ''db.journal_mode'' w2 = (b3, w3)" by (rule prod.exhaust)
  obtain S3 where S3: "drift e S S3" "idle S3 T w3"
    using trace_exec_pragma [OF S2(2) p3] S2(1) by (blast intro: drift_trans)
  obtain b4 w4 where p4: "trace_exec_sql e pragma ''db.synchronous'' w3 = (b4, w4)" by (rule prod.exhaust)
  obtain S4 where S4: "drift e S S4" "idle S4 T w4"
    using trace_exec_pragma [OF S3(2) p4] S3(1) by (blast intro: drift_trans)
  obtain b5 w5 where p5: "trace_exec_sql e pragma ''db.temp_store'' w4 = (b5, w5)" by (rule prod.exhaust)
  obtain S5 where S5: "drift e S S5" "idle S5 T w5"
    using trace_exec_pragma [OF S4(2) p5] S4(1) by (blast intro: drift_trans)
  have tr: "fst (trace_exec_sql e pragma ph w)" for ph w
    by (simp add: trace_exec_sql_def split_beta exec_sql_live [OF live])
  have "b1" "b2" "b3" "b4" "b5"
    using tick_live [OF live, of ?w0] tick_live [OF live, of ?w1] p1 p2
      tr [of "''db.journal_mode''" w2] tr [of "''db.synchronous''" w3] tr [of "''db.temp_store''" w4]
      p3 p4 p5 by simp_all
  moreover have "fst (init_schema e w5) = 0"
    using usable_drift [OF start(2) peers S5(1)] by (rule init_schema_live [OF live S5(2) _ peers])
  ultimately show ?thesis
    using mk by (simp add: open_writer_def Let_def p1 p2 p3 p4 p5 split_beta)
qed

lemma store_live:
  assumes "\<forall>n. \<not> fault e n"
    and "usable (shared w)"
    and "\<And>n db. usable db \<Longrightarrow> usable (others e n db)"
    and "sr_path req = Some path" and "mkdir_ok e path"
    and "sr_index req = Some ix" and "fingerprints_ok ix (sr_include_local req)"
    and "sr_variant req = Some v" and "v \<noteq> []"
    and "request_paths e req ix = Some paths"
  shows "fst (index_db_store e req w) = 0"
proof -
  have live: "live e" using assms(1) by (simp add: live_def)
  let ?w0 = "w\<lparr>temp := empty_staging, txn := None\<rparr>"
  let ?open = "store_open e ix paths (sr_main_file req) v (sr_include_local req) (sr_provenance req)"
  obtain r1 w1 where p1: "open_writer e path ?w0 = (r1, w1)" by (rule prod.exhaust)
  obtain r2 w2 where p2: "?open w1 = (r2, w2)" by (rule prod.exhaust)
  have w0: "idle (shared w) empty_staging ?w0" by (simp add: idle_def)
  have r1: "r1 = 0" using open_writer_live [OF live w0 assms(2,3,5)] p1 by simp
  with open_writer_outcome [OF w0 p1] schema_outcome_evolved obtain S1 where "idle S1 empty_staging w1"
    by fastforce
  from store_open_live [OF live this fresh_empty assms(7) p2] have "r2 = 0" .
  with r1 show ?thesis
    using assms(4,6,8,9,10) p1 p2 by (simp add: index_db_store_def request_paths_def)
qed

lemma usable_with_schema: "usable (with_schema db)"
  by (simp add: usable_def with_schema_def)

lemma usable_merged: "usable (merged v prov S T) = usable S"
  by (simp add: merged_eq usable_def)

lemma usable_evolved:
  assumes "usable S" "\<And>n db. usable db \<Longrightarrow> usable (others e n db)" "evolved e S S'"
  shows "usable S'"
  using assms(3,1) by (induction rule: evolved.induct) (auto intro: assms(2) usable_with_schema)

lemma usable_store:
  assumes "usable (shared w)" "\<And>n db. usable db \<Longrightarrow> usable (others e n db)"
  shows "usable (shared (snd (index_db_store e req w)))"
  using store_result [where e = e and req = req and w = w] usable_evolved [OF assms]
  by (auto simp: usable_merged)

text \<open>
  C5. A store with a path, a non-empty variant and an index whose files all have fingerprints
  and stored paths returns 0 when the directory can be made, the database is usable and no call
  into SQLite fails: the locks, the cache test and the retry never make it give up.
\<close>

theorem store_succeeds:
  assumes "\<forall>n. \<not> fault e n"
    and "usable (shared w)"
    and "\<And>n db. usable db \<Longrightarrow> usable (others e n db)"
    and "sr_path req = Some path" and "mkdir_ok e path"
    and "sr_index req = Some ix" and "fingerprints_ok ix (sr_include_local req)"
    and "sr_variant req = Some v" and "v \<noteq> []"
    and "request_paths e req ix = Some paths"
  shows "fst (index_db_store e req w) = 0"
  by (rule store_live [OF assms])

section \<open>Schema, variants and retries\<close>

text \<open>
  C14. Opening: whatever fails, after \<open>init_schema\<close> returns 0 the database has the current schema
  version; it is changed only when its version was 0 and it had no tables of its own; in every other
  case the operation returns -1 and leaves it as it was. When no call fails the outcome is decided by
  the database alone: the current version is accepted unchanged, a fresh database gets the schema, and
  only another version or foreign tables are refused; no transaction is left open.
\<close>

theorem init_schema_guards:
  assumes "txn w = None"
  shows "(\<exists>S. drift e (shared w) S \<and> schema_outcome S (temp w) (fst (init_schema e w)) (snd (init_schema e w))) \<and>
    ((\<forall>n. \<not> fault e n) \<longrightarrow>
      (\<exists>S. drift e (shared w) S \<and> schema_decision S (temp w) (fst (init_schema e w)) (snd (init_schema e w))))"
  using init_schema_outcome [of "shared w" "temp w" w e] init_schema_decides [of e "shared w" "temp w" w] assms
  by (simp add: idle_def live_def)

definition variant_row_of :: "database \<Rightarrow> string \<Rightarrow> variant_row option" where
  "variant_row_of db v = find (\<lambda>r. v_name r = v) (db_variants db)"

lemma find_map_key:
  assumes "\<And>x. v_name (f x) = v_name x"
  shows "find (\<lambda>r. v_name r = v) (map f t) = map_option f (find (\<lambda>r. v_name r = v) t)"
  using assms by (induction t) auto

lemma find_append: "find P (xs @ ys) = (case find P xs of None \<Rightarrow> find P ys | Some x \<Rightarrow> Some x)"
  by (induction xs) auto

lemma variant_ins:
  "find (\<lambda>r. v_name r = v') (ins_variant r t) =
     (if v' = v_name r
      then Some \<lparr>v_name = v',
        v_git_commit = coalesce (v_git_commit r) (Option.bind (find (\<lambda>r. v_name r = v') t) v_git_commit),
        v_repository_root =
          coalesce (v_repository_root r) (Option.bind (find (\<lambda>r. v_name r = v') t) v_repository_root)\<rparr>
      else find (\<lambda>r. v_name r = v') t)"
proof (cases "find (\<lambda>x. v_name x = v_name r) t")
  case None
  then have "v_name r \<notin> v_name ` set t" by (auto simp: find_None_iff)
  with None show ?thesis
    by (cases r) (auto simp: ins_variant_def upsert_def find_append coalesce_def split: option.splits)
next
  case (Some x)
  then have "x \<in> set t" "v_name x = v_name r" by (auto simp: find_Some_iff)
  then have x: "v_name r \<in> v_name ` set t" "v_name x = v_name r" by (metis imageI)+
  obtain g where g: "ins_variant r t = map g t" "\<And>y. v_name (g y) = v_name y"
    "\<And>y. v_name y \<noteq> v_name r \<Longrightarrow> g y = y"
    "\<And>y. v_name y = v_name r \<Longrightarrow> g y = \<lparr>v_name = v_name r,
       v_git_commit = coalesce (v_git_commit r) (v_git_commit y),
       v_repository_root = coalesce (v_repository_root r) (v_repository_root y)\<rparr>"
  proof (rule that [of "\<lambda>y. if v_name y = v_name r then \<lparr>v_name = v_name r,
       v_git_commit = coalesce (v_git_commit r) (v_git_commit y),
       v_repository_root = coalesce (v_repository_root r) (v_repository_root y)\<rparr> else y"])
    show "ins_variant r t = map (\<lambda>y. if v_name y = v_name r then \<lparr>v_name = v_name r,
       v_git_commit = coalesce (v_git_commit r) (v_git_commit y),
       v_repository_root = coalesce (v_repository_root r) (v_repository_root y)\<rparr> else y) t"
      unfolding ins_variant_def upsert_def if_P [OF x(1)]
      by (rule map_cong [OF refl]) (auto simp: coalesce_def split: option.splits)
  qed auto
  show ?thesis
  proof (cases "v' = v_name r")
    case True
    with Some x(2) show ?thesis unfolding g(1) find_map_key [of g, OF g(2)] by (simp add: g(4))
  next
    case False
    then have "find (\<lambda>r. v_name r = v') t = Some y \<Longrightarrow> g y = y" for y
      by (intro g(3)) (auto simp: find_Some_iff)
    with False show ?thesis
      unfolding g(1) find_map_key [of g, OF g(2)] by (cases "find (\<lambda>r. v_name r = v') t") auto
  qed
qed

lemma store_variants:
  assumes "\<And>n db. others e n db = db"
    and "fst (index_db_store e req w) = 0" and "sr_variant req = Some v"
  shows "variant_row_of (shared (snd (index_db_store e req w))) v' =
    (if v' = v
     then Some \<lparr>v_name = v,
       v_git_commit = coalesce (pv_git_commit (sr_provenance req))
         (Option.bind (variant_row_of (shared w) v) v_git_commit),
       v_repository_root = coalesce (pv_repository_root (sr_provenance req))
         (Option.bind (variant_row_of (shared w) v) v_repository_root)\<rparr>
     else variant_row_of (shared w) v')"
proof -
  obtain S T where S: "evolved e (shared w) S"
    "shared (snd (index_db_store e req w)) = merged v (sr_provenance req) S T"
    using store_success [OF assms(2)] assms(3) by auto
  have "same_rows (shared w) S" using S(1) assms(1) by (rule evolved_alone)
  then have "db_variants S = db_variants (shared w)" unfolding same_rows_def by (elim exE) simp
  then show ?thesis
    unfolding variant_row_of_def S(2) merged_eq by (simp add: variant_ins)
qed

text \<open>
  The provenance of a variant: after a successful store its row has the given commit and
  root; a value that is not given keeps the one stored before. Other variants keep theirs.
\<close>

theorem store_variant_provenance:
  assumes "\<And>n db. others e n db = db"
    and "fst (index_db_store e req w) = 0" and "sr_variant req = Some v"
  shows "variant_row_of (shared (snd (index_db_store e req w))) v' =
    (if v' = v
     then Some \<lparr>v_name = v,
       v_git_commit = coalesce (pv_git_commit (sr_provenance req))
         (Option.bind (variant_row_of (shared w) v) v_git_commit),
       v_repository_root = coalesce (pv_repository_root (sr_provenance req))
         (Option.bind (variant_row_of (shared w) v) v_repository_root)\<rparr>
     else variant_row_of (shared w) v')"
  using assms by (rule store_variants)

definition busy :: "sqlite_code \<Rightarrow> bool" where
  "busy c \<longleftrightarrow> c = SQLITE_BUSY \<or> c = SQLITE_LOCKED"

lemma retry_busy_step:
  "retry_busy codes n =
     (if busy (codes n) then retry_busy codes (Suc n) else Some (codes n = SQLITE_OK, n))"
  unfolding busy_def by (rule retry_busy.simps)

lemma retry_busy_result:
  assumes "retry_busy codes n = Some r"
  shows "n \<le> snd r \<and> (\<forall>j. n \<le> j \<and> j < snd r \<longrightarrow> busy (codes j)) \<and>
     \<not> busy (codes (snd r)) \<and> fst r = (codes (snd r) = SQLITE_OK)" (is "?P codes n r")
proof (rule retry_busy.raw_induct [where P = "\<lambda>codes n r. n \<le> snd r \<and>
    (\<forall>j. n \<le> j \<and> j < snd r \<longrightarrow> busy (codes j)) \<and> \<not> busy (codes (snd r)) \<and>
    fst r = (codes (snd r) = SQLITE_OK)", OF _ assms])
  fix retry :: "(nat \<Rightarrow> sqlite_code) \<Rightarrow> nat \<Rightarrow> (bool \<times> nat) option" and codes n r
  assume IH: "\<And>codes n r. retry codes n = Some r \<Longrightarrow> ?P codes n r"
    and step: "(if codes n = SQLITE_BUSY \<or> codes n = SQLITE_LOCKED then retry codes (Suc n)
      else Some (codes n = SQLITE_OK, n)) = Some r"
  show "?P codes n r"
  proof (cases "busy (codes n)")
    case True
    with step have "retry codes (Suc n) = Some r" by (auto simp: busy_def)
    from IH [OF this] True show ?thesis
      by (metis Suc_leD Suc_leI le_neq_implies_less)
  next
    case False
    with step have "r = (codes n = SQLITE_OK, n)" by (auto simp: busy_def)
    with False show ?thesis by auto
  qed
qed

lemma retry_busy_reaches:
  "(\<forall>j. n \<le> j \<and> j < n + k \<longrightarrow> busy (codes j)) \<Longrightarrow> \<not> busy (codes (n + k)) \<Longrightarrow>
     retry_busy codes n = Some (codes (n + k) = SQLITE_OK, n + k)"
proof (induction k arbitrary: n)
  case 0
  then show ?case by (subst retry_busy_step) simp
next
  case (Suc k)
  from Suc.prems(1) have "busy (codes n)" by simp
  moreover have "retry_busy codes (Suc n) = Some (codes (Suc n + k) = SQLITE_OK, Suc n + k)"
    using Suc.prems by (intro Suc.IH) auto
  ultimately show ?case by (subst retry_busy_step) simp
qed

text \<open>
  C15. The retry loop around SQLite's busy codes returns with the outcome of the first attempt
  that is neither busy nor locked; it runs forever exactly when there is no such attempt.
\<close>

theorem retry_busy_first:
  "retry_busy codes n = Some (ok, m) \<longleftrightarrow>
     n \<le> m \<and> list_all (\<lambda>j. busy (codes j)) [n..<m] \<and> \<not> busy (codes m) \<and> ok = (codes m = SQLITE_OK)"
proof
  assume "retry_busy codes n = Some (ok, m)"
  from retry_busy_result [OF this]
  show "n \<le> m \<and> list_all (\<lambda>j. busy (codes j)) [n..<m] \<and> \<not> busy (codes m) \<and> ok = (codes m = SQLITE_OK)"
    by (auto simp: list_all_iff)
next
  assume r: "n \<le> m \<and> list_all (\<lambda>j. busy (codes j)) [n..<m] \<and> \<not> busy (codes m) \<and> ok = (codes m = SQLITE_OK)"
  then obtain k where "m = n + k" by (auto simp: le_iff_add)
  with r retry_busy_reaches [of n k codes] show "retry_busy codes n = Some (ok, m)"
    by (auto simp: list_all_iff)
qed

end
