(* ===== verification/Index_Witnesses.thy ===== *)
theory Index_Witnesses
  imports Index_Liveness
begin

text \<open>
  One concrete request on which the properties of the store apply: a main file and a header with
  a symbol each, stored into a database that another run has filled.
\<close>

definition demo_stat :: "nat \<Rightarrow> file_stat" where
  "demo_stat i = \<lparr>stat_is_dir = False, stat_dev = 1, stat_ino = i, stat_mtime_sec = 5,
     stat_mtime_nsec = 7, stat_size = 100\<rparr>"

definition demo_fs :: fs where
  "demo_fs = \<lparr>fs_realpath = Some,
     fs_stat = (\<lambda>p. if p = ''/r/a.c'' then Some (demo_stat 1)
                    else if p = ''/r/a.h'' then Some (demo_stat 2) else None),
     fs_lstat = (\<lambda>p. p = ''/r/.git'')\<rparr>"

definition demo_env :: env where
  "demo_env = \<lparr>fault = (\<lambda>_. False), others = (\<lambda>_ db. db), env_fs = demo_fs, mkdir_ok = (\<lambda>_. True)\<rparr>"

definition demo_symbol :: "string \<Rightarrow> string \<Rightarrow> nat \<Rightarrow> symbol" where
  "demo_symbol name file i =
     \<lparr>sym_kind = SYMBOL_VAR, sym_name = Some name, sym_owner = None, sym_type = Some ''int'',
      sym_canonical_type = Some ''int'', sym_type_kind = SYMBOL_VAR, sym_type_symbol = None,
      sym_type_usr = None, sym_type_usr_id = 0, sym_usr = Some name, sym_usr_id = 17,
      sym_context = None, sym_file = file, sym_file_index = i, sym_line = 3, sym_column = 5,
      sym_local = 0, sym_definition = 1, sym_properties = 1, sym_order = 0\<rparr>"

definition demo_index :: index where
  "demo_index = \<lparr>ix_symbols = [demo_symbol ''x'' ''/r/a.c'' 0, demo_symbol ''y'' ''/r/a.h'' 1],
     ix_uses = [], ix_signatures = [],
     ix_fingerprints_nonlocal =
       [\<lparr>fp_file = ''/r/a.c'', fp_data = [1], fp_record_count = 1\<rparr>,
        \<lparr>fp_file = ''/r/a.h'', fp_data = [2], fp_record_count = 1\<rparr>],
     ix_fingerprints_all = []\<rparr>"

definition demo_req :: store_request where
  "demo_req = \<lparr>sr_path = Some ''/db'', sr_index = Some demo_index, sr_main_file = Some ''/r/a.c'',
     sr_variant = Some ''v'', sr_provenance = \<lparr>pv_repository_root = Some ''/r'', pv_git_commit = None\<rparr>,
     sr_include_local = False\<rparr>"

definition demo_paths :: stored_paths where
  "demo_paths = \<lparr>sp_root = Some ''/r'', sp_main_file = Some ''a.c'', sp_files = [''a.c'', ''a.h'']\<rparr>"

definition demo_world :: world where
  "demo_world = \<lparr>shared = empty_database, temp = empty_staging, txn = None, changes = 0, clock = 0,
     events = []\<rparr>"

definition demo_meaning :: "digest \<Rightarrow> file_facts" where
  "demo_meaning h = facts_of (index_rows demo_paths False ((=) (if h = [1] then 0 else 1)) demo_index)"

lemma demo_root: "repository_root demo_fs (Some ''/r/a.c'') = Root ''/r''"
  by (simp add: repository_root_def demo_fs_def demo_stat_def cut_last_def find_root.simps git_marker_def)

lemma demo_paths: "request_paths demo_env demo_req demo_index = Some demo_paths"
  by (simp add: request_paths_def init_stored_paths_def demo_env_def demo_req_def demo_index_def
      file_paths_def file_fingerprint_count_def get_file_fingerprint_def repository_path_def demo_fs_def
      demo_paths_def Let_def upt_rec)

lemma demo_usable: "usable (shared demo_world)"
  by (simp add: demo_world_def usable_def empty_database_def)

lemma demo_fingerprint:
  "get_file_fingerprint demo_index i False = Some fp \<Longrightarrow>
     (i = 0 \<and> fp_data fp = [1]) \<or> (i = 1 \<and> fp_data fp = [2])"
  by (cases i) (auto simp: get_file_fingerprint_def demo_index_def Let_def less_Suc_eq split: if_splits)

lemma demo_faithful: "faithful demo_meaning demo_index demo_paths (sr_include_local demo_req)"
  unfolding faithful_def
  by (auto simp: demo_req_def demo_meaning_def dest!: demo_fingerprint)

lemma demo_request:
  "sr_index demo_req = Some demo_index" "sr_variant demo_req = Some ''v''" "sr_path demo_req = Some ''/db''"
  by (simp_all add: demo_req_def)

lemma demo_alone: "others demo_env n db = db" "mkdir_ok demo_env p" "\<forall>n. \<not> fault demo_env n"
  by (simp_all add: demo_env_def)

lemma demo_inv: "db_inv demo_meaning (shared demo_world)"
  by (simp add: demo_world_def db_inv_empty)

lemma demo_ok: "fingerprints_ok demo_index (sr_include_local demo_req)"
  by (simp add: fingerprints_ok_def demo_index_def demo_req_def file_fingerprint_count_def
      get_file_fingerprint_def)

lemma demo_live: "usable (shared w) \<Longrightarrow> fst (index_db_store demo_env demo_req w) = 0"
  by (rule store_live [OF demo_alone(3) _ _ demo_request(3) demo_alone(2) demo_request(1) demo_ok
        demo_request(2) _ demo_paths])
    (simp_all add: demo_alone(1))

lemma demo_stored: "fst (index_db_store demo_env demo_req demo_world) = 0"
  by (rule demo_live [OF demo_usable])

lemma demo_stored_twice:
  "fst (index_db_store demo_env demo_req (snd (index_db_store demo_env demo_req demo_world))) = 0"
  by (rule demo_live, rule usable_store [OF demo_usable]) (simp add: demo_alone(1))

abbreviation demo_after :: world where
  "demo_after \<equiv> snd (index_db_store demo_env demo_req demo_world)"

abbreviation demo_plan :: "staging_file list" where
  "demo_plan \<equiv> planned_files (env_fs demo_env) demo_index demo_paths (sr_main_file demo_req)
     (sr_include_local demo_req)"

abbreviation demo_facts :: "string \<Rightarrow> file_facts" where
  "demo_facts \<equiv> index_facts demo_paths (sr_include_local demo_req) demo_index"

theorem store_meets_contract_witness:
  "\<exists>S. evolved demo_env (shared demo_world) S \<and>
    (\<forall>v' p. abs_db (shared demo_after) v' p = stored_spec ''v'' demo_plan demo_facts S v' p)"
  by (rule store_meets_contract [OF demo_inv _ demo_stored demo_request(1,2) demo_paths demo_faithful])
    (simp add: demo_alone(1))

theorem store_keeps_invariants_witness: "db_inv demo_meaning (shared demo_after)"
proof (rule store_keeps_invariants [OF demo_inv])
  show "db_inv demo_meaning db \<Longrightarrow> db_inv demo_meaning (others demo_env n db)" for n db
    by (simp add: demo_alone(1))
  show "faithful demo_meaning ix paths (sr_include_local demo_req)"
    if "sr_index demo_req = Some ix" "request_paths demo_env demo_req ix = Some paths" for ix paths
    using that demo_faithful demo_paths demo_request(1) by simp
qed

theorem store_alone_witness:
  "abs_db (shared demo_after) = stored_spec ''v'' demo_plan demo_facts empty_database"
  using store_alone [OF demo_inv demo_alone(1) demo_stored demo_request(1,2) demo_paths demo_faithful]
  by (simp add: demo_world_def)

theorem store_idempotent_witness:
  "abs_db (shared (snd (index_db_store demo_env demo_req demo_after))) = abs_db (shared demo_after)"
  by (rule store_idempotent [OF demo_inv demo_alone(1) demo_stored demo_stored_twice demo_request(1,2)
        demo_paths demo_faithful])

theorem store_succeeds_witness: "fst (index_db_store demo_env demo_req demo_world) = 0"
  by (rule store_succeeds [OF demo_alone(3) demo_usable _ demo_request(3) demo_alone(2) demo_request(1)
        demo_ok demo_request(2) _ demo_paths])
    (simp_all add: demo_alone(1))

lemma demo_drift: "drift demo_env S S' \<Longrightarrow> S' = S"
  by (induction rule: drift.induct) (simp_all add: demo_alone(1))

theorem init_schema_guards_witness:
  "fst (init_schema demo_env demo_world) = 0 \<and> shared (snd (init_schema demo_env demo_world)) = with_schema empty_database"
proof -
  obtain S where "drift demo_env (shared demo_world) S"
    "schema_decision S (temp demo_world) (fst (init_schema demo_env demo_world)) (snd (init_schema demo_env demo_world))"
    using init_schema_guards [of demo_world demo_env] demo_alone(3) by (auto simp: demo_world_def)
  moreover from this(1) have "S = empty_database" using demo_drift by (simp add: demo_world_def)
  ultimately show ?thesis
    by (simp add: schema_decision_def empty_database_def INDEX_SCHEMA_VERSION_def has_user_tables_def idle_def)
qed

theorem store_variant_provenance_witness:
  "variant_row_of (shared demo_after) ''v'' =
     Some \<lparr>v_name = ''v'', v_git_commit = None, v_repository_root = Some ''/r''\<rparr>"
  using store_variant_provenance [OF demo_alone(1) demo_stored demo_request(2), of "''v''"]
  by (simp add: demo_world_def empty_database_def variant_row_of_def demo_req_def coalesce_def)

end
