(* ===== verification/Index_Reader.thy ===== *)
theory Index_Reader
  imports Index_Db
begin

text \<open>
  The reader of the symbol database, \<open>lib/semindex_database/index_db_reader.c\<close>: the queries,
  the conversion of columns, the delivery of rows to callbacks, and the cursors.

  A query is built from the rows of the database by \<open>WHERE\<close> (\<open>filter\<close>), \<open>ORDER BY\<close>
  (\<open>sort_key\<close>, rows with equal keys in the order of the table) and \<open>LIMIT\<close> (\<open>take\<close>). SQLite's
  \<open>GLOB\<close> is the parameter \<open>glob\<close>. A statement may fail to prepare or bind, or its stepping may
  end with an error after some rows: that is the parameter \<open>run\<close>. A callback is a function on
  a state of the caller that returns a code; a nonzero code stops the delivery.
\<close>

section \<open>Statements and delivery\<close>

datatype 'r statement = Not_Prepared | Steps "'r list" bool

text \<open>What happens to a prepared statement: it cannot be used, ends, or fails after \<open>k\<close> rows.\<close>

datatype run = Unusable | Completes | Fails_After nat

fun execute :: "run \<Rightarrow> 'r list \<Rightarrow> 'r statement" where
  "execute Unusable rows = Not_Prepared"
| "execute Completes rows = Steps rows True"
| "execute (Fails_After k) rows = Steps (take k rows) False"

fun deliver :: "('s \<Rightarrow> 'a \<Rightarrow> int \<times> 's) \<Rightarrow> 'a list \<Rightarrow> 's \<Rightarrow> int \<times> 's" where
  "deliver cb [] s = (0, s)"
| "deliver cb (x # xs) s =
     (case cb s x of (r, s') \<Rightarrow> if r \<noteq> 0 then (r, s') else deliver cb xs s')"

section \<open>Records\<close>

datatype record_type = DB_DECLARATION | DB_DEFINITION | DB_REFERENCE

fun record_type_code :: "record_type \<Rightarrow> int" where
  "record_type_code DB_DECLARATION = 0"
| "record_type_code DB_DEFINITION = 1"
| "record_type_code DB_REFERENCE = 2"

definition DB_RECORD_ALL :: int where "DB_RECORD_ALL = 0"
definition DB_RECORD_SYMBOL :: int where "DB_RECORD_SYMBOL = 1"
definition DB_RECORD_DECLARATION :: int where "DB_RECORD_DECLARATION = 2"
definition DB_RECORD_DEFINITION :: int where "DB_RECORD_DEFINITION = 3"
definition DB_RECORD_REFERENCE :: int where "DB_RECORD_REFERENCE = 4"

lemmas filter_defs = DB_RECORD_ALL_def DB_RECORD_SYMBOL_def DB_RECORD_DECLARATION_def
  DB_RECORD_DEFINITION_def DB_RECORD_REFERENCE_def

definition RECORD_SYMBOL :: int where "RECORD_SYMBOL = 0"
definition RECORD_USE :: int where "RECORD_USE = 1"

lemmas stored_defs = RECORD_SYMBOL_def RECORD_USE_def

record db_record =
  dr_variant :: string
  dr_path :: string
  dr_symbol :: string
  dr_context :: string
  dr_record :: record_type
  dr_kind :: int
  dr_action :: u32
  dr_mode :: u32
  dr_line :: u32
  dr_column :: u32
  dr_usr_id :: u64
  dr_context_usr_id :: u64
  dr_local :: int

text \<open>\<open>sqlite3_column_int\<close>, and the same assigned to an unsigned int.\<close>

definition column_int :: "int \<Rightarrow> int" where
  "column_int x = sint (word_of_int x :: u32)"

definition column_unsigned :: "int \<Rightarrow> u32" where
  "column_unsigned x = word_of_int (column_int x)"

definition column_int64 :: "int option \<Rightarrow> int" where
  "column_int64 x = (case x of None \<Rightarrow> 0 | Some n \<Rightarrow> n)"

definition record_type :: "int \<Rightarrow> int \<Rightarrow> record_type" where
  "record_type stored action =
     (if stored = RECORD_USE then DB_REFERENCE
      else if action \<noteq> 0 then DB_DEFINITION else DB_DECLARATION)"

definition stored_record_type :: "int \<Rightarrow> int option" where
  "stored_record_type record =
     (if record = record_type_code DB_DECLARATION \<or> record = record_type_code DB_DEFINITION
      then Some RECORD_SYMBOL
      else if record = record_type_code DB_REFERENCE then Some RECORD_USE
      else None)"

text \<open>The struct that \<open>emit_records\<close> fills from a row.\<close>

definition emitted :: "file_row \<times> rec_data \<Rightarrow> db_record" where
  "emitted row =
     (let f = fst row; d = snd row;
          stored_record = column_int (r_record d);
          action = column_unsigned (r_action d)
      in \<lparr>dr_variant = f_variant f,
          dr_path = f_path f,
          dr_symbol = r_symbol d,
          dr_context = r_context d,
          dr_record = record_type stored_record (sint action),
          dr_kind = column_int (r_kind d),
          dr_action = action,
          dr_mode = word_of_int (r_mode d),
          dr_line = column_unsigned (r_line d),
          dr_column = column_unsigned (r_column d),
          dr_usr_id = word_of_int (column_int64 (r_usr_id d)),
          dr_context_usr_id = word_of_int (column_int64 (r_context_usr_id d)),
          dr_local = column_int (r_local d)\<rparr>)"

text \<open>The last component of a qualified name. \<open>found\<close> is an offset, \<open>i\<close> the offset of the cursor.\<close>

fun leaf_scan :: "string \<Rightarrow> nat \<Rightarrow> nat option \<Rightarrow> nat option" where
  "leaf_scan [] i found = found"
| "leaf_scan (c # cs) i found =
     (let last1 = (if c = CHR ''.'' then Some i else found);
          last2 = (if c = CHR '':'' \<and> cs \<noteq> [] \<and> hd cs = CHR '':'' \<and>
                     (case last1 of None \<Rightarrow> True | Some l \<Rightarrow> l \<le> i)
                   then Some (i + 1) else last1)
      in leaf_scan cs (i + 1) last2)"

definition qualified_leaf :: "string \<Rightarrow> string" where
  "qualified_leaf symbol =
     (case leaf_scan symbol 0 None of None \<Rightarrow> symbol | Some l \<Rightarrow> drop (l + 1) symbol)"

text \<open>The filter of \<open>emit_records\<close>: with a position, the name must span it.\<close>

definition at_position :: "u32 \<Rightarrow> db_record \<Rightarrow> bool" where
  "at_position pos r \<longleftrightarrow>
     pos = 0 \<or>
     \<not> (pos < dr_column r \<or> length (qualified_leaf (dr_symbol r)) \<le> unat (pos - dr_column r))"

definition emit_records ::
  "(file_row \<times> rec_data) statement \<Rightarrow> ('s \<Rightarrow> db_record \<Rightarrow> int \<times> 's) \<Rightarrow> u32 \<Rightarrow> 's \<Rightarrow> int \<times> 's" where
  "emit_records stmt cb pos s =
     (case stmt of
        Not_Prepared \<Rightarrow> (- 1, s)
      | Steps rows finished \<Rightarrow>
          (case deliver cb (filter (at_position pos) (map emitted rows)) s of (r, s') \<Rightarrow>
             if r \<noteq> 0 then (r, s') else if \<not> finished then (- 1, s') else (0, s')))"

section \<open>Queries on records\<close>

record db_cursor =
  cu_variant :: "string option"
  cu_path :: "string option"
  cu_symbol :: "string option"
  cu_record :: int
  cu_kind :: int
  cu_action :: u32
  cu_mode :: u32
  cu_line :: u32
  cu_column :: u32

record query_options =
  q_symbol :: "string option"
  q_path :: "string option"
  q_variant :: "string option"
  q_context :: "string option"
  q_after :: "db_cursor option"
  q_limit :: nat
  q_record :: int
  q_mode :: u32
  q_usr_id :: u64
  q_kind :: int
  q_has_mode :: bool
  q_has_usr_id :: bool
  q_has_kind :: bool
  q_has_local :: bool
  q_local :: int

definition default_options :: query_options where
  "default_options = \<lparr>q_symbol = None, q_path = None, q_variant = None, q_context = None,
     q_after = None, q_limit = 0, q_record = DB_RECORD_ALL, q_mode = 0, q_usr_id = 0, q_kind = 0,
     q_has_mode = False, q_has_usr_id = False, q_has_kind = False, q_has_local = False,
     q_local = 0\<rparr>"

definition valid_cursor :: "db_cursor \<Rightarrow> bool" where
  "valid_cursor c \<longleftrightarrow>
     \<not> (\<not> nonempty (cu_variant c) \<or> \<not> nonempty (cu_path c) \<or> \<not> nonempty (cu_symbol c) \<or>
        cu_line c = 0 \<or> cu_column c = 0) \<and>
     stored_record_type (cu_record c) \<noteq> None \<and>
     \<not> (cu_record c = record_type_code DB_DECLARATION \<and> cu_action c \<noteq> 0) \<and>
     \<not> (cu_record c = record_type_code DB_DEFINITION \<and> cu_action c = 0)"

definition pattern_uses_glob :: "string \<Rightarrow> bool" where
  "pattern_uses_glob pattern \<longleftrightarrow> list_ex (\<lambda>c. c \<in> set ''*?[]'') pattern"

definition text_matches :: "(string \<Rightarrow> string \<Rightarrow> bool) \<Rightarrow> string option \<Rightarrow> string \<Rightarrow> bool" where
  "text_matches glob pattern value =
     (case pattern of None \<Rightarrow> True
      | Some p \<Rightarrow> if pattern_uses_glob p then glob p value else value = p)"

text \<open>\<open>FROM records JOIN files ON files.id = records.file_id\<close>, and the same for another table.\<close>

definition joined :: "file_row list \<Rightarrow> (nat \<times> 'd) list \<Rightarrow> (file_row \<times> 'd) list" where
  "joined fs t = [(f, d). (i, d) \<leftarrow> t, f \<leftarrow> filter (\<lambda>f. f_id f = i) fs]"

definition record_matches :: "int \<Rightarrow> rec_data \<Rightarrow> bool" where
  "record_matches flt d =
     (if flt = DB_RECORD_SYMBOL then r_record d = RECORD_SYMBOL
      else if flt = DB_RECORD_DECLARATION then r_record d = RECORD_SYMBOL \<and> r_action d = 0
      else if flt = DB_RECORD_DEFINITION then r_record d = RECORD_SYMBOL \<and> r_action d \<noteq> 0
      else if flt = DB_RECORD_REFERENCE then r_record d = RECORD_USE
      else True)"

definition mode_matches :: "query_options \<Rightarrow> rec_data \<Rightarrow> bool" where
  "mode_matches opts d =
     (if \<not> q_has_mode opts then True
      else if q_mode opts = 0 then r_record d = RECORD_USE \<and> r_mode d = 0
      else r_record d = RECORD_USE \<and> and (r_mode d) (uint (q_mode opts)) \<noteq> 0)"

definition query_where :: "(string \<Rightarrow> string \<Rightarrow> bool) \<Rightarrow> query_options \<Rightarrow> file_row \<times> rec_data \<Rightarrow> bool" where
  "query_where glob opts row \<longleftrightarrow>
     (let f = fst row; d = snd row in
      text_matches glob (q_symbol opts) (r_symbol d) \<and>
      text_matches glob (q_path opts) (f_path f) \<and>
      text_matches glob (q_variant opts) (f_variant f) \<and>
      (case q_context opts of None \<Rightarrow> True | Some c \<Rightarrow> r_context d = c) \<and>
      record_matches (q_record opts) d \<and>
      mode_matches opts d \<and>
      (q_has_kind opts \<longrightarrow> r_kind d = q_kind opts) \<and>
      (q_has_usr_id opts \<longrightarrow> r_usr_id d = Some (sint (q_usr_id opts))) \<and>
      (q_has_local opts \<longrightarrow> r_local d = (if q_local opts \<noteq> 0 then 1 else 0)))"

type_synonym record_key =
  "string \<times> string \<times> int \<times> int \<times> string \<times> int \<times> int \<times> int \<times> int"

text \<open>The row value of the \<open>ORDER BY\<close> clause, and the one that the cursor stands for.\<close>

definition record_key :: "file_row \<times> rec_data \<Rightarrow> record_key" where
  "record_key row =
     (let f = fst row; d = snd row in
      (f_variant f, f_path f, r_line d, r_column d, r_symbol d, r_record d, r_action d, r_kind d,
       r_mode d))"

definition cursor_key :: "db_cursor \<Rightarrow> record_key" where
  "cursor_key c =
     (or_empty (cu_variant c), or_empty (cu_path c), uint (cu_line c), uint (cu_column c),
      or_empty (cu_symbol c),
      (case stored_record_type (cu_record c) of None \<Rightarrow> 0 | Some n \<Rightarrow> n),
      uint (cu_action c), cu_kind c, uint (cu_mode c))"

definition limited :: "nat \<Rightarrow> 'a list \<Rightarrow> 'a list" where
  "limited n xs = (if n = 0 then xs else take n xs)"

definition query_rows ::
  "(string \<Rightarrow> string \<Rightarrow> bool) \<Rightarrow> database \<Rightarrow> query_options \<Rightarrow> (file_row \<times> rec_data) list" where
  "query_rows glob db opts =
     limited (q_limit opts)
       (sort_key record_key
         (filter (\<lambda>row. query_where glob opts row \<and>
             (case q_after opts of None \<Rightarrow> True | Some c \<Rightarrow> cursor_key c < record_key row))
           (joined (db_files db) (db_records db))))"

definition LLONG_MAX :: nat where
  "LLONG_MAX = 2 ^ 63 - 1"

text \<open>\<open>semindex_db_query\<close>. A null \<open>db\<close> or \<open>callback\<close> is refused before anything else.\<close>

definition db_query ::
  "(string \<Rightarrow> string \<Rightarrow> bool) \<Rightarrow> run \<Rightarrow> database \<Rightarrow> query_options option
     \<Rightarrow> ('s \<Rightarrow> db_record \<Rightarrow> int \<times> 's) \<Rightarrow> 's \<Rightarrow> int \<times> 's" where
  "db_query glob run db options cb s =
     (let opts = (case options of None \<Rightarrow> default_options | Some q \<Rightarrow> q) in
      if q_record opts < DB_RECORD_ALL \<or> q_record opts > DB_RECORD_REFERENCE then (- 1, s)
      else if q_limit opts > LLONG_MAX then (- 1, s)
      else if (case q_after opts of None \<Rightarrow> False | Some c \<Rightarrow> \<not> valid_cursor c) then (- 1, s)
      else emit_records (execute run (query_rows glob db opts)) cb 0 s)"

record identity =
  id_variant :: "string option"
  id_symbol :: "string option"
  id_usr_id :: u64
  id_kind :: int

text \<open>\<open>semindex_db_query_identity\<close>.\<close>

definition db_query_identity ::
  "(string \<Rightarrow> string \<Rightarrow> bool) \<Rightarrow> run \<Rightarrow> database \<Rightarrow> identity option \<Rightarrow> db_cursor option \<Rightarrow> nat \<Rightarrow> int
     \<Rightarrow> ('s \<Rightarrow> db_record \<Rightarrow> int \<times> 's) \<Rightarrow> 's \<Rightarrow> int \<times> 's" where
  "db_query_identity glob run db ident after limit flt cb s =
     (case ident of None \<Rightarrow> (- 1, s)
      | Some i \<Rightarrow>
          if \<not> nonempty (id_variant i) \<or> \<not> nonempty (id_symbol i) \<or> id_usr_id i = 0 then (- 1, s)
          else if id_kind i < kind_code SYMBOL_VAR \<or> id_kind i > kind_code SYMBOL_TEMPLATE then (- 1, s)
          else db_query glob run db
            (Some (default_options\<lparr>q_symbol := id_symbol i, q_variant := id_variant i, q_after := after,
               q_limit := limit, q_record := flt, q_usr_id := id_usr_id i, q_kind := id_kind i,
               q_has_usr_id := True, q_has_kind := True\<rparr>)) cb s)"

section \<open>Positions, calls and functions\<close>

text \<open>\<open>semindex_db_find_at\<close>.\<close>

definition find_at_rows ::
  "database \<Rightarrow> string \<Rightarrow> string option \<Rightarrow> u32 \<Rightarrow> u32 \<Rightarrow> (file_row \<times> rec_data) list" where
  "find_at_rows db path variant line column =
     sort_key (\<lambda>row. (- r_column (snd row), r_record (snd row)))
       (filter (\<lambda>row. f_path (fst row) = path \<and>
           (case variant of None \<Rightarrow> True | Some v \<Rightarrow> f_variant (fst row) = v) \<and>
           r_line (snd row) = uint line \<and> r_column (snd row) \<le> uint column)
         (joined (db_files db) (db_records db)))"

definition db_find_at ::
  "run \<Rightarrow> database \<Rightarrow> string option \<Rightarrow> string option \<Rightarrow> u32 \<Rightarrow> u32
     \<Rightarrow> ('s \<Rightarrow> db_record \<Rightarrow> int \<times> 's) \<Rightarrow> 's \<Rightarrow> int \<times> 's" where
  "db_find_at run db path variant line column cb s =
     (if \<not> nonempty path \<or> line = 0 \<or> column = 0 then (- 1, s)
      else emit_records (execute run (find_at_rows db (or_empty path) variant line column)) cb column s)"

datatype call_direction = DB_CALLERS | DB_CALLEES

definition call_row :: "rec_data \<Rightarrow> bool" where
  "call_row d \<longleftrightarrow> r_record d = 1 \<and> r_action d = 3 \<and> r_kind d = 7"

definition call_where ::
  "call_direction \<Rightarrow> string \<Rightarrow> u64 \<Rightarrow> string option \<Rightarrow> file_row \<times> rec_data \<Rightarrow> bool" where
  "call_where dir func usr_id variant row \<longleftrightarrow>
     (let f = fst row; d = snd row in
      (case dir of
         DB_CALLERS \<Rightarrow> r_symbol d = func \<and> r_usr_id d = Some (sint usr_id)
       | DB_CALLEES \<Rightarrow> r_context d = func \<and> r_context_usr_id d = Some (sint usr_id)) \<and>
      (case variant of None \<Rightarrow> True | Some v \<Rightarrow> f_variant f = v) \<and> call_row d)"

text \<open>The other end of a call, by which the rows are ordered within a variant.\<close>

definition call_end :: "call_direction \<Rightarrow> rec_data \<Rightarrow> string" where
  "call_end dir d = (case dir of DB_CALLERS \<Rightarrow> r_context d | DB_CALLEES \<Rightarrow> r_symbol d)"

definition call_rows ::
  "database \<Rightarrow> call_direction \<Rightarrow> string \<Rightarrow> u64 \<Rightarrow> string option \<Rightarrow> (file_row \<times> rec_data) list" where
  "call_rows db dir func usr_id variant =
     (let rows = filter (call_where dir func usr_id variant) (joined (db_files db) (db_records db)) in
      if variant = None
      then sort_key (\<lambda>(f, d). (f_variant f, call_end dir d, f_path f, r_line d, r_column d)) rows
      else sort_key (\<lambda>(f, d). (call_end dir d, f_path f, r_line d, r_column d)) rows)"

text \<open>\<open>semindex_db_query_calls\<close>; the direction is one of the two of its enumeration.\<close>

definition db_query_calls ::
  "run \<Rightarrow> database \<Rightarrow> string option \<Rightarrow> u64 \<Rightarrow> string option \<Rightarrow> call_direction
     \<Rightarrow> ('s \<Rightarrow> db_record \<Rightarrow> int \<times> 's) \<Rightarrow> 's \<Rightarrow> int \<times> 's" where
  "db_query_calls run db func usr_id variant dir cb s =
     (if \<not> nonempty func then (- 1, s)
      else emit_records (execute run (call_rows db dir (or_empty func) usr_id variant)) cb 0 s)"

record db_function =
  fn_variant :: "string option"
  fn_symbol :: "string option"
  fn_usr_id :: u64

definition function_where :: "db_function \<Rightarrow> file_row \<times> rec_data \<Rightarrow> bool" where
  "function_where q row \<longleftrightarrow>
     (let f = fst row; d = snd row in
      r_symbol d = or_empty (fn_symbol q) \<and> r_usr_id d = Some (sint (fn_usr_id q)) \<and>
      f_variant f = or_empty (fn_variant q) \<and> r_record d = 0 \<and> r_kind d = 7)"

definition function_batch_rows :: "database \<Rightarrow> db_function list \<Rightarrow> (file_row \<times> rec_data) list" where
  "function_batch_rows db qs =
     sort_key (\<lambda>(f, d). (f_variant f, r_symbol d, - r_action d, f_path f, r_line d, r_column d))
       [row. q \<leftarrow> qs, row \<leftarrow> filter (function_where q) (joined (db_files db) (db_records db))]"

definition query_function_batch ::
  "run \<Rightarrow> database \<Rightarrow> db_function list \<Rightarrow> ('s \<Rightarrow> db_record \<Rightarrow> int \<times> 's) \<Rightarrow> 's \<Rightarrow> int \<times> 's" where
  "query_function_batch run db qs cb s = emit_records (execute run (function_batch_rows db qs)) cb 0 s"

function batch_loop ::
  "(nat \<Rightarrow> run) \<Rightarrow> database \<Rightarrow> nat \<Rightarrow> nat \<Rightarrow> db_function list
     \<Rightarrow> ('s \<Rightarrow> db_record \<Rightarrow> int \<times> 's) \<Rightarrow> 's \<Rightarrow> int \<times> 's" where
  "batch_loop runs db bsize offset qs cb s =
     (if qs = [] \<or> bsize = 0 then (0, s)
      else case query_function_batch (runs offset) db (take bsize qs) cb s of (r, s') \<Rightarrow>
        if r \<noteq> 0 then (r, s') else batch_loop runs db bsize (offset + bsize) (drop bsize qs) cb s')"
  by pat_completeness auto
termination
  by (relation "measure (\<lambda>(runs, db, bsize, offset, qs, cb, s). length qs)") auto

declare batch_loop.simps [simp del]

text \<open>\<open>semindex_db_query_functions\<close>; \<open>var_limit\<close> is \<open>SQLITE_LIMIT_VARIABLE_NUMBER\<close>.\<close>

definition db_query_functions ::
  "nat \<Rightarrow> (nat \<Rightarrow> run) \<Rightarrow> database \<Rightarrow> db_function list
     \<Rightarrow> ('s \<Rightarrow> db_record \<Rightarrow> int \<times> 's) \<Rightarrow> 's \<Rightarrow> int \<times> 's" where
  "db_query_functions var_limit runs db qs cb s =
     (if qs = [] then (0, s)
      else if list_ex (\<lambda>q. \<not> nonempty (fn_variant q) \<or> \<not> nonempty (fn_symbol q)) qs then (- 1, s)
      else let bsize = var_limit div 3 in
        if bsize = 0 then (- 1, s) else batch_loop runs db bsize 0 qs cb s)"

section \<open>Variants, files and properties\<close>

text \<open>\<open>semindex_db_list_variants\<close>.\<close>

definition db_list_variants ::
  "run \<Rightarrow> database \<Rightarrow> ('s \<Rightarrow> variant_row \<Rightarrow> int \<times> 's) \<Rightarrow> 's \<Rightarrow> int \<times> 's" where
  "db_list_variants run db cb s =
     (case execute run (sort_key v_name (db_variants db)) of
        Not_Prepared \<Rightarrow> (- 1, s)
      | Steps rows finished \<Rightarrow>
          (case deliver cb rows s of (r, s') \<Rightarrow>
             if r \<noteq> 0 then (r, s') else if \<not> finished then (- 1, s') else (0, s')))"

text \<open>\<open>semindex_db_find_file\<close> delivers at most one row; a second one is an error.\<close>

definition db_find_file ::
  "run \<Rightarrow> database \<Rightarrow> string option \<Rightarrow> string option \<Rightarrow> ('s \<Rightarrow> file_row \<Rightarrow> int \<times> 's) \<Rightarrow> 's \<Rightarrow> int \<times> 's"
  where
  "db_find_file run db variant path cb s =
     (if \<not> nonempty variant \<or> \<not> nonempty path then (- 1, s)
      else (case execute run (filter (\<lambda>f. f_variant f = or_empty variant \<and> f_path f = or_empty path)
                    (db_files db)) of
          Not_Prepared \<Rightarrow> (- 1, s)
        | Steps [] finished \<Rightarrow> (if finished then 0 else - 1, s)
        | Steps (f # rest) finished \<Rightarrow>
            (case cb s f of (r, s') \<Rightarrow>
               if r \<noteq> 0 then (r, s')
               else if rest \<noteq> [] \<or> \<not> finished then (- 1, s') else (0, s'))))"

text \<open>\<open>semindex_db_query_properties\<close>: the code and the mask it leaves behind.\<close>

definition property_rows :: "database \<Rightarrow> identity \<Rightarrow> (file_row \<times> prop_data) list" where
  "property_rows db i =
     filter (\<lambda>(f, d). p_symbol d = or_empty (id_symbol i) \<and> p_kind d = id_kind i \<and>
         p_usr_id d = sint (id_usr_id i) \<and> f_variant f = or_empty (id_variant i))
       (joined (db_files db) (db_props db))"

definition db_query_properties :: "run \<Rightarrow> database \<Rightarrow> identity option \<Rightarrow> u64 \<Rightarrow> int \<times> u64" where
  "db_query_properties run db ident mask0 =
     (case ident of None \<Rightarrow> (- 1, mask0)
      | Some i \<Rightarrow>
          if id_variant i = None \<or> id_symbol i = None \<or> id_usr_id i = 0 then (- 1, mask0)
          else (case execute run (property_rows db i) of
              Not_Prepared \<Rightarrow> (- 1, 0)
            | Steps rows finished \<Rightarrow>
                (if finished then 0 else - 1, fold (\<lambda>(f, d) m. or m (p_properties d)) rows 0)))"

section \<open>Types\<close>

record db_symbol_type =
  dt_variant :: string
  dt_path :: string
  dt_symbol :: string
  dt_declared_type :: string
  dt_canonical_type :: string
  dt_type_symbol :: string
  dt_kind :: int
  dt_type_kind :: int
  dt_usr_id :: u64
  dt_type_usr_id :: u64
  dt_has_type_identity :: bool

record symbol_type_cursor =
  tc_declared_type :: "string option"
  tc_canonical_type :: "string option"
  tc_type_symbol :: "string option"
  tc_type_kind :: int
  tc_type_usr_id :: u64
  tc_path :: "string option"

type_synonym type_key = "string \<times> string \<times> string \<times> int \<times> int \<times> string"

definition type_key :: "file_row \<times> type_data \<Rightarrow> type_key" where
  "type_key row =
     (let f = fst row; d = snd row in
      (t_declared_type d, t_canonical_type d, t_type_symbol d, t_type_kind d, t_type_usr_id d, f_path f))"

definition type_cursor_key :: "symbol_type_cursor \<Rightarrow> type_key" where
  "type_cursor_key c =
     (or_empty (tc_declared_type c), or_empty (tc_canonical_type c), or_empty (tc_type_symbol c),
      tc_type_kind c, sint (tc_type_usr_id c), or_empty (tc_path c))"

definition emitted_type :: "file_row \<times> type_data \<Rightarrow> db_symbol_type" where
  "emitted_type row =
     (let f = fst row; d = snd row in
      \<lparr>dt_variant = f_variant f, dt_path = f_path f, dt_symbol = t_symbol d,
       dt_declared_type = t_declared_type d, dt_canonical_type = t_canonical_type d,
       dt_type_symbol = t_type_symbol d, dt_kind = column_int (t_kind d),
       dt_type_kind = column_int (t_type_kind d), dt_usr_id = word_of_int (t_usr_id d),
       dt_type_usr_id = word_of_int (t_type_usr_id d), dt_has_type_identity = (t_type_usr_id d \<noteq> 0)\<rparr>)"

definition symbol_type_rows ::
  "database \<Rightarrow> identity \<Rightarrow> symbol_type_cursor option \<Rightarrow> (file_row \<times> type_data) list" where
  "symbol_type_rows db i after =
     sort_key type_key
       (filter (\<lambda>(f, d). t_symbol d = or_empty (id_symbol i) \<and> t_kind d = id_kind i \<and>
           t_usr_id d = sint (id_usr_id i) \<and> f_variant f = or_empty (id_variant i) \<and>
           (case after of None \<Rightarrow> True | Some c \<Rightarrow> type_cursor_key c < type_key (f, d)))
         (joined (db_files db) (db_types db)))"

text \<open>
  The loop of the two type queries. \<open>ret\<close> is -1 until a callback has returned, and 0 after it
  has; a step that fails leaves it as it is.
\<close>

definition emit_types :: "'a statement \<Rightarrow> nat \<Rightarrow> ('s \<Rightarrow> 'a \<Rightarrow> int \<times> 's) \<Rightarrow> 's \<Rightarrow> int \<times> 's" where
  "emit_types stmt limit cb s =
     (case stmt of
        Not_Prepared \<Rightarrow> (- 1, s)
      | Steps rows finished \<Rightarrow>
          let delivered = limited limit rows in
          (case deliver cb delivered s of (r, s') \<Rightarrow>
             if r \<noteq> 0 then (r, s')
             else if limit \<noteq> 0 \<and> length delivered = limit then (0, s')
             else if \<not> finished then (if delivered = [] then - 1 else 0, s')
             else (0, s')))"

definition db_query_symbol_types ::
  "run \<Rightarrow> database \<Rightarrow> identity option \<Rightarrow> symbol_type_cursor option \<Rightarrow> nat
     \<Rightarrow> ('s \<Rightarrow> db_symbol_type \<Rightarrow> int \<times> 's) \<Rightarrow> 's \<Rightarrow> int \<times> 's" where
  "db_query_symbol_types run db ident after limit cb s =
     (case ident of None \<Rightarrow> (- 1, s)
      | Some i \<Rightarrow>
          if \<not> nonempty (id_variant i) then (- 1, s)
          else if \<not> nonempty (id_symbol i) \<or> id_usr_id i = 0 then (- 1, s)
          else if (case after of None \<Rightarrow> False | Some c \<Rightarrow>
                tc_declared_type c = None \<or> tc_canonical_type c = None \<or> tc_type_symbol c = None \<or>
                tc_path c = None) then (- 1, s)
          else if id_kind i < kind_code SYMBOL_VAR \<or> id_kind i > kind_code SYMBOL_TEMPLATE then (- 1, s)
          else emit_types (execute run (map emitted_type (symbol_type_rows db i after))) limit cb s)"

record db_function_type =
  df_variant :: string
  df_path :: string
  df_symbol :: string
  df_name :: string
  df_declared_type :: string
  df_canonical_type :: string
  df_type_symbol :: string
  df_position :: int
  df_type_kind :: int
  df_usr_id :: u64
  df_type_usr_id :: u64
  df_variadic :: int
  df_has_type_identity :: bool

record function_type_cursor =
  fc_position :: int
  fc_declared_type :: "string option"
  fc_canonical_type :: "string option"
  fc_type_symbol :: "string option"
  fc_type_kind :: int
  fc_type_usr_id :: u64
  fc_path :: "string option"

type_synonym ftype_key = "int \<times> string \<times> string \<times> string \<times> int \<times> int \<times> string"

definition ftype_key :: "file_row \<times> ftype_data \<Rightarrow> ftype_key" where
  "ftype_key row =
     (let f = fst row; d = snd row in
      (ft_position d, ft_declared_type d, ft_canonical_type d, ft_type_symbol d, ft_type_kind d,
       ft_type_usr_id d, f_path f))"

definition ftype_cursor_key :: "function_type_cursor \<Rightarrow> ftype_key" where
  "ftype_cursor_key c =
     (fc_position c, or_empty (fc_declared_type c), or_empty (fc_canonical_type c),
      or_empty (fc_type_symbol c), fc_type_kind c, sint (fc_type_usr_id c), or_empty (fc_path c))"

definition emitted_ftype :: "file_row \<times> ftype_data \<Rightarrow> db_function_type" where
  "emitted_ftype row =
     (let f = fst row; d = snd row in
      \<lparr>df_variant = f_variant f, df_path = f_path f, df_symbol = ft_symbol d, df_name = ft_name d,
       df_declared_type = ft_declared_type d, df_canonical_type = ft_canonical_type d,
       df_type_symbol = ft_type_symbol d, df_position = column_int (ft_position d),
       df_type_kind = column_int (ft_type_kind d), df_usr_id = word_of_int (ft_usr_id d),
       df_type_usr_id = word_of_int (ft_type_usr_id d), df_variadic = column_int (ft_variadic d),
       df_has_type_identity = (ft_type_usr_id d \<noteq> 0)\<rparr>)"

definition function_type_rows ::
  "database \<Rightarrow> identity \<Rightarrow> function_type_cursor option \<Rightarrow> (file_row \<times> ftype_data) list" where
  "function_type_rows db i after =
     sort_key ftype_key
       (filter (\<lambda>(f, d). ft_symbol d = or_empty (id_symbol i) \<and> ft_usr_id d = sint (id_usr_id i) \<and>
           f_variant f = or_empty (id_variant i) \<and>
           (case after of None \<Rightarrow> True | Some c \<Rightarrow> ftype_cursor_key c < ftype_key (f, d)))
         (joined (db_files db) (db_ftypes db)))"

definition db_query_function_types ::
  "run \<Rightarrow> database \<Rightarrow> identity option \<Rightarrow> function_type_cursor option \<Rightarrow> nat
     \<Rightarrow> ('s \<Rightarrow> db_function_type \<Rightarrow> int \<times> 's) \<Rightarrow> 's \<Rightarrow> int \<times> 's" where
  "db_query_function_types run db ident after limit cb s =
     (case ident of None \<Rightarrow> (- 1, s)
      | Some i \<Rightarrow>
          if \<not> nonempty (id_variant i) \<or> \<not> nonempty (id_symbol i) then (- 1, s)
          else if id_usr_id i = 0 \<or> id_kind i \<noteq> kind_code SYMBOL_FUNCTION then (- 1, s)
          else if (case after of None \<Rightarrow> False | Some c \<Rightarrow>
                fc_declared_type c = None \<or> fc_canonical_type c = None \<or> fc_type_symbol c = None \<or>
                fc_path c = None) then (- 1, s)
          else emit_types (execute run (map emitted_ftype (function_type_rows db i after))) limit cb s)"

end
