(* ===== verification/Reader_Properties.thy ===== *)
theory Reader_Properties
  imports Index_Reader Index_Merging "HOL-Library.Multiset"
begin

text \<open>
  The properties of the database reader: limited queries continued by cursors deliver the whole
  result exactly once, failures are reported (and where one is not), the position query finds
  exactly the names that span a position, calls look the same from both ends, and the batches of
  a function query do not show.

  The locale \<open>pager\<close> is the contract of a limited query that is continued from the key of its
  last row.
\<close>

section \<open>Paging\<close>

definition beyond :: "'k :: linorder option \<Rightarrow> 'k \<Rightarrow> bool" where
  "beyond after k = (case after of None \<Rightarrow> True | Some a \<Rightarrow> a < k)"

lemma beyond_simps [simp]: "beyond None k" "beyond (Some a) k = (a < k)"
  by (simp_all add: beyond_def)

lemma set_limited: "set (limited n xs) \<subseteq> set xs"
  by (auto simp: limited_def dest: in_set_takeD)

lemma limited_Nil [simp]: "limited n [] = []"
  by (simp add: limited_def)

lemma limited_0 [simp]: "limited 0 xs = xs"
  by (simp add: limited_def)

locale pager =
  fixes key :: "'r \<Rightarrow> 'k :: linorder"
    and page :: "'k option \<Rightarrow> nat \<Rightarrow> 'r list"
  assumes all_sorted: "sorted (map key (page None 0))"
    and page_after: "page after n = limited n (filter (\<lambda>r. beyond after (key r)) (page None 0))"
begin

fun pages :: "nat \<Rightarrow> 'k option \<Rightarrow> nat \<Rightarrow> 'r list option" where
  "pages 0 after n = None"
| "pages (Suc fuel) after n =
     (let p = page after n in
      if p = [] then Some [] else map_option ((@) p) (pages fuel (Some (key (last p))) n))"

lemma beyond_drop:
  assumes "distinct (map key (page None 0))" "i < length (page None 0)"
  shows "filter (\<lambda>r. key (page None 0 ! i) < key r) (page None 0) = drop (Suc i) (page None 0)"
proof -
  let ?all = "page None 0"
  have strict: "key (?all ! a) < key (?all ! b)" if "a < b" "b < length ?all" for a b
    using all_sorted assms(1) that sorted_nth_mono [OF all_sorted, of a b]
    by (auto simp: distinct_conv_nth order.strict_iff_order)
  have "filter (\<lambda>r. key (?all ! i) < key r) (take (Suc i) ?all) = []"
  proof -
    have "\<not> key (?all ! i) < key r" if r: "r \<in> set (take (Suc i) ?all)" for r
    proof -
      from r obtain j where j: "j < Suc i" "r = ?all ! j"
        using assms(2) by (auto simp: in_set_conv_nth)
      then show ?thesis using strict [of j i] assms(2) by (cases "j = i") (auto simp: not_less_iff_gr_or_eq)
    qed
    then show ?thesis by (simp add: filter_empty_conv)
  qed
  moreover have "filter (\<lambda>r. key (?all ! i) < key r) (drop (Suc i) ?all) = drop (Suc i) ?all"
    using strict by (auto simp: filter_id_conv in_set_conv_nth)
  ultimately have "filter (\<lambda>r. key (?all ! i) < key r) (take (Suc i) ?all @ drop (Suc i) ?all) =
      drop (Suc i) ?all"
    by (simp only: filter_append append_Nil)
  then show ?thesis by simp
qed

lemma pages_from:
  assumes "distinct (map key (page None 0))" "0 < n"
  shows "filter (\<lambda>r. beyond after (key r)) (page None 0) = drop i (page None 0) \<Longrightarrow>
    length (page None 0) - i < fuel \<Longrightarrow> pages fuel after n = Some (drop i (page None 0))"
proof (induction fuel arbitrary: after i)
  case 0
  then show ?case by simp
next
  case (Suc fuel)
  let ?all = "page None 0"
  have p: "page after n = take n (drop i ?all)"
    using page_after [of after n] Suc.prems(1) assms(2) by (simp add: limited_def)
  show ?case
  proof (cases "drop i ?all = []")
    case True
    with p show ?thesis by simp
  next
    case False
    then have i: "i < length ?all" by simp
    define j where "j = min n (length ?all - i) + i - 1"
    have j: "j < length ?all" "i \<le> j" "Suc j = min n (length ?all - i) + i" using i assms(2) by (auto simp: j_def)
    have "page after n \<noteq> []" using p False assms(2) by simp
    moreover have "last (page after n) = ?all ! j"
    proof -
      have len: "length (take n (drop i ?all)) = min n (length ?all - i)" by auto
      have "last (take n (drop i ?all)) = take n (drop i ?all) ! (min n (length ?all - i) - 1)"
        using False assms(2) len by (subst last_conv_nth) auto
      also have "\<dots> = ?all ! j" using i assms(2) by (simp add: j_def min_def) (auto simp: add.commute)
      finally show ?thesis using p by simp
    qed
    moreover have "pages fuel (Some (key (?all ! j))) n = Some (drop (Suc j) ?all)"
      using beyond_drop [OF assms(1) j(1)] j Suc.prems(2) by (intro Suc.IH) auto
    moreover have "take n (drop i ?all) @ drop (Suc j) ?all = drop i ?all"
    proof (cases "n \<le> length ?all - i")
      case True
      then have "Suc j = n + i" using j(3) by simp
      then have "drop (Suc j) ?all = drop n (drop i ?all)" by (simp add: drop_drop)
      then show ?thesis by (simp only: append_take_drop_id)
    next
      case False
      then show ?thesis using j(3) i by simp
    qed
    ultimately show ?thesis using p by (simp add: Let_def)
  qed
qed

lemma pages_complete:
  "distinct (map key (page None 0)) \<Longrightarrow> 0 < n \<Longrightarrow> length (page None 0) < fuel \<Longrightarrow>
    pages fuel None n = Some (page None 0)"
  using pages_from [of n None 0 fuel] by simp

end

text \<open>The pages of the three paged queries.\<close>

definition sorted_page :: "('r \<Rightarrow> 'k :: linorder) \<Rightarrow> 'r list \<Rightarrow> 'k option \<Rightarrow> nat \<Rightarrow> 'r list" where
  "sorted_page key rows after n = limited n (sort_key key (filter (\<lambda>r. beyond after (key r)) rows))"

interpretation keyset: pager key "sorted_page key rows" for key rows
proof
  show "sorted (map key (sorted_page key rows None 0))" by (simp add: sorted_page_def)
  show "sorted_page key rows after n =
      limited n (filter (\<lambda>r. beyond after (key r)) (sorted_page key rows None 0))" for after n
    by (simp add: sorted_page_def filter_sort)
qed

section \<open>Keys of joined rows\<close>

lemma distinct_map_finer:
  assumes "distinct (map k' xs)" "\<And>x y. x \<in> set xs \<Longrightarrow> y \<in> set xs \<Longrightarrow> k x = k y \<Longrightarrow> k' x = k' y"
  shows "distinct (map k xs)"
proof -
  from assms(1) have "distinct xs" "inj_on k' (set xs)" by (simp_all add: distinct_map)
  moreover have "inj_on k (set xs)"
    by (rule inj_onI) (rule inj_onD [OF \<open>inj_on k' (set xs)\<close> assms(2)])
  ultimately show ?thesis by (simp add: distinct_map)
qed

lemma in_joined: "(f, d) \<in> set (joined fs t) \<longleftrightarrow> f \<in> set fs \<and> (f_id f, d) \<in> set t"
proof -
  have "(f, d) \<in> set (joined fs t) \<longleftrightarrow>
      (\<exists>i d' f'. (i, d') \<in> set t \<and> f' \<in> set fs \<and> f_id f' = i \<and> f = f' \<and> d = d')"
    by (simp add: joined_def split_beta) force
  then show ?thesis by blast
qed

lemma filter_id_unique:
  assumes "wf_files fs"
  shows "filter (\<lambda>f. f_id f = i) fs = (case find (\<lambda>f. f_id f = i) fs of None \<Rightarrow> [] | Some f \<Rightarrow> [f])"
proof -
  have "distinct (map f_id fs)" using assms by (simp add: wf_files_def)
  then show ?thesis
  proof (induction fs)
    case Nil
    then show ?case by simp
  next
    case (Cons f fs)
    show ?case
    proof (cases "f_id f = i")
      case True
      with Cons.prems have "filter (\<lambda>f. f_id f = i) fs = []" by (auto simp: filter_empty_conv) (metis imageI)
      with True show ?thesis by simp
    next
      case False
      with Cons show ?thesis by simp
    qed
  qed
qed

lemma joined_Cons:
  assumes "wf_files fs"
  shows "joined fs ((i, d) # t) =
    (case find (\<lambda>f. f_id f = i) fs of None \<Rightarrow> [] | Some f \<Rightarrow> [(f, d)]) @ joined fs t"
  using filter_id_unique [OF assms, of i] by (simp add: joined_def split: option.splits)

lemma joined_distinct:
  assumes "wf_files fs"
  shows "distinct (map (pk idf) t) \<Longrightarrow> distinct (map (\<lambda>(f, d). (file_key f, idf d)) (joined fs t))"
proof (induction t)
  case Nil
  then show ?case by (simp add: joined_def)
next
  case (Cons r t)
  obtain i d where r: "r = (i, d)" by (cases r)
  have "(file_key f, idf d) \<notin> set (map (\<lambda>(f, d). (file_key f, idf d)) (joined fs t))"
    if f: "find (\<lambda>f. f_id f = i) fs = Some f" for f
  proof
    assume "(file_key f, idf d) \<in> set (map (\<lambda>(f, d). (file_key f, idf d)) (joined fs t))"
    then obtain g d' where g: "(g, d') \<in> set (joined fs t)" "file_key g = file_key f" "idf d' = idf d"
      by auto
    have "f \<in> set fs" "f_id f = i" using f by (auto simp: find_Some_iff)
    then have "g = f" using g(1,2) assms by (intro wf_files_key [of fs]) (auto simp: in_joined)
    with g(1,3) \<open>f_id f = i\<close> have "(i, idf d) \<in> pk idf ` set t"
      by (force simp: in_joined)
    with Cons.prems show False by (simp add: r)
  qed
  with Cons show ?case by (auto simp: r joined_Cons [OF assms] split: option.splits)
qed

lemma record_keys_distinct:
  assumes "wf_files (db_files db)" "distinct (map (pk rec_id) (db_records db))"
  shows "distinct (map record_key (filter P (joined (db_files db) (db_records db))))"
proof (rule distinct_map_finer)
  show "distinct (map (\<lambda>(f, d). (file_key f, rec_id d)) (filter P (joined (db_files db) (db_records db))))"
    using joined_distinct [OF assms] by (rule distinct_map_filter)
qed (auto simp: record_key_def rec_id_def file_key_def Let_def)

section \<open>Continuing a limited query\<close>

definition cursor_of :: "db_record \<Rightarrow> db_cursor" where
  "cursor_of r = \<lparr>cu_variant = Some (dr_variant r), cu_path = Some (dr_path r), cu_symbol = Some (dr_symbol r),
     cu_record = record_type_code (dr_record r), cu_kind = dr_kind r, cu_action = dr_action r,
     cu_mode = dr_mode r, cu_line = dr_line r, cu_column = dr_column r\<rparr>"

text \<open>A callback that keeps the records.\<close>

definition collect :: "'a list \<Rightarrow> 'a \<Rightarrow> int \<times> 'a list" where
  "collect xs x = (0, xs @ [x])"

lemma deliver_collect: "deliver collect rows acc = (0, acc @ rows)"
  by (induction rows arbitrary: acc) (simp_all add: collect_def)

text \<open>The client of the public header: query, copy the last record's cursor, query again.\<close>

fun query_pages ::
  "nat \<Rightarrow> (string \<Rightarrow> string \<Rightarrow> bool) \<Rightarrow> database \<Rightarrow> query_options \<Rightarrow> db_record list option" where
  "query_pages 0 glob db opts = None"
| "query_pages (Suc fuel) glob db opts =
     (case db_query glob Completes db (Some opts) collect [] of (r, rs) \<Rightarrow>
        if r \<noteq> 0 then None
        else if rs = [] then Some []
        else map_option ((@) rs)
          (query_pages fuel glob db (opts\<lparr>q_after := Some (cursor_of (last rs))\<rparr>)))"

text \<open>What the writer stores: column values in the range of the fields of a record.\<close>

definition storable :: "file_row \<times> rec_data \<Rightarrow> bool" where
  "storable row \<longleftrightarrow>
     (let f = fst row; d = snd row in
      f_variant f \<noteq> [] \<and> f_path f \<noteq> [] \<and> r_symbol d \<noteq> [] \<and>
      0 < r_line d \<and> r_line d < 2 ^ 32 \<and> 0 < r_column d \<and> r_column d < 2 ^ 32 \<and>
      (r_record d = RECORD_SYMBOL \<or> r_record d = RECORD_USE) \<and>
      0 \<le> r_action d \<and> r_action d < 2 ^ 31 \<and> 0 \<le> r_kind d \<and> r_kind d < 2 ^ 31 \<and>
      0 \<le> r_mode d \<and> r_mode d < 2 ^ 32)"

lemma sint_word_of_int: "sint (word_of_int x :: u32) = signed_take_bit 31 x"
  by transfer simp

lemma column_int_small: "0 \<le> x \<Longrightarrow> x < 2 ^ 31 \<Longrightarrow> column_int x = x"
  by (simp add: column_int_def sint_word_of_int signed_take_bit_int_eq_self)

lemma column_unsigned_eq: "column_unsigned x = word_of_int x"
  by (simp add: column_unsigned_def column_int_def)

lemma uint_of_int: "0 \<le> x \<Longrightarrow> x < 2 ^ 32 \<Longrightarrow> uint (word_of_int x :: u32) = x"
  by (simp add: uint_word_of_int take_bit_int_eq_self)

lemma cursor_key_emitted:
  assumes "storable row"
  shows "valid_cursor (cursor_of (emitted row))" "cursor_key (cursor_of (emitted row)) = record_key row"
proof -
  obtain f d where row: "row = (f, d)" by (cases row)
  have ranges: "0 < r_line d" "r_line d < 2 ^ 32" "0 < r_column d" "r_column d < 2 ^ 32"
    "0 \<le> r_action d" "r_action d < 2 ^ 31" "0 \<le> r_kind d" "r_kind d < 2 ^ 31" "0 \<le> r_mode d" "r_mode d < 2 ^ 32"
    "r_record d = RECORD_SYMBOL \<or> r_record d = RECORD_USE"
    using assms by (auto simp: storable_def row)
  have act: "sint (word_of_int (r_action d) :: u32) = r_action d"
    using column_int_small [of "r_action d"] ranges by (simp add: column_int_def)
  have nz: "(word_of_int x :: u32) \<noteq> 0" if "0 < x" "x < 2 ^ 32" for x
    using uint_of_int [of x] that by auto
  have act0: "(word_of_int (r_action d) :: u32) = 0 \<longleftrightarrow> r_action d = 0"
    using nz [of "r_action d"] ranges by (cases "r_action d = 0") auto
  have rec: "column_int (r_record d) = r_record d"
    using ranges by (intro column_int_small) (auto simp: stored_defs)
  show "valid_cursor (cursor_of (emitted row))"
    using assms ranges nz [of "r_line d"] nz [of "r_column d"] act0
    by (auto simp: valid_cursor_def cursor_of_def emitted_def row rec record_type_def act storable_def
        column_unsigned_eq stored_record_type_def Let_def)
  show "cursor_key (cursor_of (emitted row)) = record_key row"
    using assms ranges
    by (auto simp: cursor_key_def cursor_of_def emitted_def row rec record_type_def act storable_def
        column_unsigned_eq stored_record_type_def Let_def record_key_def column_int_small uint_of_int
        stored_defs)
qed

lemma query_where_after [simp]:
  "query_where glob (opts\<lparr>q_after := a\<rparr>) = query_where glob opts"
  "query_where glob (opts\<lparr>q_limit := n\<rparr>) = query_where glob opts"
  by (simp_all add: query_where_def mode_matches_def fun_eq_iff Let_def)

abbreviation query_base :: "(string \<Rightarrow> string \<Rightarrow> bool) \<Rightarrow> database \<Rightarrow> query_options \<Rightarrow> (file_row \<times> rec_data) list" where
  "query_base glob db opts \<equiv> filter (query_where glob opts) (joined (db_files db) (db_records db))"

lemma query_rows_page:
  "query_rows glob db opts =
     sorted_page record_key (query_base glob db opts) (map_option cursor_key (q_after opts)) (q_limit opts)"
  unfolding query_rows_def sorted_page_def filter_filter
  by (cases "q_after opts") (simp_all add: conj_commute)

lemma set_query_rows: "set (query_rows glob db opts) \<subseteq> set (joined (db_files db) (db_records db))"
  unfolding query_rows_page sorted_page_def using set_limited by fastforce

definition storable_records :: "database \<Rightarrow> bool" where
  "storable_records db \<longleftrightarrow> list_all storable (joined (db_files db) (db_records db))"

definition valid_options :: "query_options \<Rightarrow> bool" where
  "valid_options opts \<longleftrightarrow> DB_RECORD_ALL \<le> q_record opts \<and> q_record opts \<le> DB_RECORD_REFERENCE \<and>
     q_limit opts \<le> LLONG_MAX"

lemma at_position_0 [simp]: "at_position 0 = (\<lambda>_. True)"
  by (simp add: at_position_def fun_eq_iff)

lemma db_query_collect:
  assumes "valid_options opts" "case q_after opts of None \<Rightarrow> True | Some c \<Rightarrow> valid_cursor c"
  shows "db_query glob Completes db (Some opts) collect [] = (0, map emitted (query_rows glob db opts))"
  using assms
  by (auto simp: db_query_def valid_options_def emit_records_def deliver_collect Let_def split: option.splits)

lemma query_pages_pages:
  assumes "storable_records db" "valid_options opts"
  shows "(case q_after opts of None \<Rightarrow> True | Some c \<Rightarrow> valid_cursor c) \<Longrightarrow>
    query_pages fuel glob db opts =
      map_option (map emitted) (keyset.pages record_key (query_base glob db opts) fuel
        (map_option cursor_key (q_after opts)) (q_limit opts))"
  using assms(2)
proof (induction fuel arbitrary: opts)
  case 0
  then show ?case by simp
next
  case (Suc fuel)
  let ?p = "query_rows glob db opts"
  show ?case
  proof (cases "?p = []")
    case True
    then show ?thesis
      using db_query_collect [OF Suc.prems(2,1), of glob db] by (simp add: query_rows_page [symmetric] Let_def)
  next
    case False
    then have "last ?p \<in> set (joined (db_files db) (db_records db))"
      using set_query_rows by (meson last_in_set subsetD)
    then have ok: "storable (last ?p)" using assms(1) by (simp add: storable_records_def list_all_iff)
    let ?c = "cursor_of (emitted (last ?p))"
    have "query_pages fuel glob db (opts\<lparr>q_after := Some ?c\<rparr>) =
      map_option (map emitted) (keyset.pages record_key (query_base glob db opts) fuel
        (Some (record_key (last ?p))) (q_limit opts))"
      using Suc.IH [of "opts\<lparr>q_after := Some ?c\<rparr>"] Suc.prems(2) cursor_key_emitted [OF ok]
      by (simp add: valid_options_def)
    then show ?thesis
      using db_query_collect [OF Suc.prems(2,1), of glob db] False
      by (simp add: query_rows_page [symmetric] Let_def last_map option.map_comp o_def)
  qed
qed

text \<open>
  C16. A client that asks for at most \<open>n\<close> records and continues from the cursor of the last one
  gets the result of the unlimited query, every record once and in order: the cursor that the
  public header describes identifies a record among all that a query can find.
\<close>

theorem query_paging_complete:
  assumes "wf_files (db_files db)" and "distinct (map (pk rec_id) (db_records db))"
    and "storable_records db" and "valid_options opts"
    and "q_limit opts \<noteq> 0" and "q_after opts = None"
  shows "query_pages (Suc (length (query_rows glob db (opts\<lparr>q_limit := 0\<rparr>)))) glob db opts =
    Some (snd (db_query glob Completes db (Some (opts\<lparr>q_limit := 0\<rparr>)) collect []))"
proof -
  let ?all = "query_rows glob db (opts\<lparr>q_limit := 0\<rparr>)"
  have all: "sorted_page record_key (query_base glob db opts) None 0 = ?all"
    using assms(6) by (simp add: query_rows_page)
  have "distinct (map record_key (query_base glob db opts))"
    by (rule record_keys_distinct [OF assms(1,2)])
  then have "distinct (map record_key (sort_key record_key (query_base glob db opts)))"
    by (simp add: distinct_map)
  then have "distinct (map record_key (sorted_page record_key (query_base glob db opts) None 0))"
    by (simp add: sorted_page_def)
  from keyset.pages_complete [OF this, of "q_limit opts" "Suc (length ?all)"]
  have "keyset.pages record_key (query_base glob db opts) (Suc (length ?all)) None (q_limit opts) = Some ?all"
    using assms(5) all by simp
  moreover have "snd (db_query glob Completes db (Some (opts\<lparr>q_limit := 0\<rparr>)) collect []) = map emitted ?all"
    using db_query_collect [of "opts\<lparr>q_limit := 0\<rparr>" glob db] assms(4,6) by (simp add: valid_options_def)
  ultimately show ?thesis
    using query_pages_pages [OF assms(3,4), of "Suc (length ?all)" glob] assms(6) by simp
qed

section \<open>Failures\<close>

lemma emit_failed: "fst (emit_records (execute (Fails_After k) rows) cb pos s) \<noteq> 0"
  by (auto simp: emit_records_def split: prod.splits)

lemma db_query_failed: "fst (db_query glob (Fails_After k) db opts cb s) \<noteq> 0"
  by (auto simp: db_query_def Let_def emit_failed simp del: execute.simps)

text \<open>
  C17. When stepping fails, every query on records, on positions, on calls and on variants says
  so: whatever the callback returns, the code is not 0, however many rows came before.
\<close>

theorem record_queries_report_failure:
  "fst (db_query glob (Fails_After k) db opts cb s) \<noteq> 0 \<and>
   fst (db_query_identity glob (Fails_After k) db ident after limit flt cb s) \<noteq> 0 \<and>
   fst (db_find_at (Fails_After k) db path variant line column cb s) \<noteq> 0 \<and>
   fst (db_query_calls (Fails_After k) db func usr_id variant dir cb s) \<noteq> 0 \<and>
   fst (db_list_variants (Fails_After k) db cb' s') \<noteq> 0"
proof (intro conjI)
  show "fst (db_list_variants (Fails_After k) db cb' s') \<noteq> 0"
    by (auto simp: db_list_variants_def split: prod.splits)
qed (auto simp: db_query_failed db_query_identity_def db_find_at_def db_query_calls_def emit_failed
    split: option.splits simp del: execute.simps)

text \<open>
  The query on symbol types does not: when stepping fails after at least one row, it returns
  0 with the rows it has, as if they were all.
\<close>

theorem symbol_types_hide_failure:
  assumes "nonempty (id_variant i)" and "nonempty (id_symbol i)" and "id_usr_id i \<noteq> 0"
    and "kind_code SYMBOL_VAR \<le> id_kind i" and "id_kind i \<le> kind_code SYMBOL_TEMPLATE"
    and "symbol_type_rows db i None \<noteq> []" and "0 < k"
  shows "db_query_symbol_types (Fails_After k) db (Some i) None 0 collect [] =
    (0, take k (map emitted_type (symbol_type_rows db i None)))"
  using assms by (auto simp: db_query_symbol_types_def emit_types_def deliver_collect Let_def)

section \<open>Names and positions\<close>

definition simple_name :: "string \<Rightarrow> bool" where
  "simple_name name \<longleftrightarrow> CHR ''.'' \<notin> set name \<and> CHR '':'' \<notin> set name"

lemma leaf_scan_simple: "simple_name name \<Longrightarrow> leaf_scan name i found = found"
  by (induction name arbitrary: i) (auto simp: simple_name_def Let_def)

lemma leaf_scan_dot: "simple_name name \<Longrightarrow> leaf_scan (xs @ CHR ''.'' # name) i found = Some (i + length xs)"
proof (induction xs arbitrary: i found)
  case Nil
  then show ?case by (simp add: Let_def leaf_scan_simple)
next
  case (Cons x xs)
  then show ?case by (simp add: Let_def)
qed

lemma leaf_scan_colons:
  assumes "simple_name name"
  shows "(case found of None \<Rightarrow> True | Some l \<Rightarrow> l \<le> i) \<Longrightarrow>
    leaf_scan (xs @ CHR '':'' # CHR '':'' # name) i found = Some (i + length xs + 1)"
proof (induction xs arbitrary: i found)
  case Nil
  have "name = [] \<or> hd name \<noteq> CHR '':''" using assms by (cases name) (auto simp: simple_name_def)
  with Nil show ?case by (auto simp: Let_def leaf_scan_simple [OF assms])
next
  case (Cons x xs)
  show ?case
    using Cons.prems by (simp add: Let_def) (intro impI conjI, auto simp: Cons.IH split: option.splits)
qed

text \<open>
  The reader's \<open>qualified_leaf\<close> undoes the writer's \<open>qualified_name\<close>: it gives back the
  name of a symbol from the name that is stored for it, whatever the owner and its separator.
\<close>

theorem leaf_of_qualified_name:
  assumes "simple_name name"
  shows "qualified_leaf (qualified_name owner (Some name)) = name"
proof (cases "nonempty owner")
  case False
  with assms show ?thesis by (simp add: qualified_name_def qualified_leaf_def leaf_scan_simple)
next
  case True
  show ?thesis
  proof (cases "contains_sub ''::'' (or_empty owner)")
    case True
    with \<open>nonempty owner\<close> leaf_scan_colons [OF assms, where found = None and i = 0 and xs = "or_empty owner"]
    show ?thesis by (simp add: qualified_name_def qualified_leaf_def)
  next
    case False
    with \<open>nonempty owner\<close> leaf_scan_dot [OF assms, where found = None and i = 0 and xs = "or_empty owner"]
    show ?thesis by (simp add: qualified_name_def qualified_leaf_def)
  qed
qed

lemma at_position_spans:
  assumes "storable (f, d)" "r_column d \<le> uint column" "column \<noteq> 0"
  shows "at_position column (emitted (f, d)) \<longleftrightarrow>
    uint column < r_column d + int (length (qualified_leaf (r_symbol d)))"
proof -
  have col: "uint (word_of_int (r_column d) :: u32) = r_column d"
    using assms(1) by (intro uint_of_int) (auto simp: storable_def)
  have le: "(word_of_int (r_column d) :: u32) \<le> column" using assms(2) col by (simp add: word_le_def)
  have "unat (column - word_of_int (r_column d)) = unat column - unat (word_of_int (r_column d) :: u32)"
    using le by (rule unat_sub)
  also have "\<dots> = nat (uint column) - nat (r_column d)" by (simp only: unat_eq_nat_uint col)
  also have "\<dots> = nat (uint column - r_column d)"
    using assms(1) by (simp add: nat_diff_distrib' storable_def)
  finally have "unat (column - word_of_int (r_column d)) = nat (uint column - r_column d)" .
  then have "length (qualified_leaf (r_symbol d)) \<le> unat (column - word_of_int (r_column d)) \<longleftrightarrow>
      r_column d + int (length (qualified_leaf (r_symbol d))) \<le> uint column"
    using assms(2) by (simp add: le_nat_iff) linarith
  then show ?thesis
    using le assms(3)
    by (simp add: at_position_def emitted_def column_unsigned_eq Let_def not_less not_le)
qed

text \<open>
  C18. The position query finds exactly the records of the file and line whose name spans the
  column, those that start closest to it first.
\<close>

theorem find_at_spans:
  assumes "storable_records db" and "path \<noteq> []" and "line \<noteq> 0" and "column \<noteq> 0"
  shows "set (snd (db_find_at Completes db (Some path) variant line column collect [])) =
      emitted ` {(f, d) \<in> set (joined (db_files db) (db_records db)). f_path f = path \<and>
        (case variant of None \<Rightarrow> True | Some v \<Rightarrow> f_variant f = v) \<and> r_line d = uint line \<and>
        r_column d \<le> uint column \<and> uint column < r_column d + int (length (qualified_leaf (r_symbol d)))} \<and>
    sorted (map (\<lambda>row. - r_column (snd row)) (find_at_rows db path variant line column))"
proof
  let ?rows = "find_at_rows db path variant line column"
  have mem: "(f, d) \<in> set ?rows \<longleftrightarrow> (f, d) \<in> set (joined (db_files db) (db_records db)) \<and> f_path f = path \<and>
      (case variant of None \<Rightarrow> True | Some v \<Rightarrow> f_variant f = v) \<and> r_line d = uint line \<and>
      r_column d \<le> uint column" for f d
    by (auto simp: find_at_rows_def split: option.splits)
  have "at_position column (emitted (f, d)) \<longleftrightarrow>
      uint column < r_column d + int (length (qualified_leaf (r_symbol d)))"
    if "(f, d) \<in> set ?rows" for f d
    using that assms(1,4) by (intro at_position_spans) (auto simp: mem storable_records_def list_all_iff)
  then have "set (filter (at_position column) (map emitted ?rows)) =
      emitted ` {(f, d) \<in> set ?rows. uint column < r_column d + int (length (qualified_leaf (r_symbol d)))}"
    by force
  then show "set (snd (db_find_at Completes db (Some path) variant line column collect [])) =
      emitted ` {(f, d) \<in> set (joined (db_files db) (db_records db)). f_path f = path \<and>
        (case variant of None \<Rightarrow> True | Some v \<Rightarrow> f_variant f = v) \<and> r_line d = uint line \<and>
        r_column d \<le> uint column \<and> uint column < r_column d + int (length (qualified_leaf (r_symbol d)))}"
    using assms(2-4) by (simp add: db_find_at_def emit_records_def deliver_collect mem conj_ac)
  have "sorted (map (\<lambda>row. (- r_column (snd row), r_record (snd row))) ?rows)"
    by (simp add: find_at_rows_def)
  then show "sorted (map (\<lambda>row. - r_column (snd row)) ?rows)"
    by (simp add: sorted_map less_eq_prod_def) (metis (mono_tags, lifting) order.order_iff_strict sorted_wrt_mono_rel)
qed

section \<open>Calls and functions\<close>

lemma set_call_rows:
  "set (call_rows db dir func u variant) =
     {row \<in> set (joined (db_files db) (db_records db)). call_where dir func u variant row}"
  by (auto simp: call_rows_def Let_def)

text \<open>
  A call is an edge: a record that connects a context with a callee, both with their
  identities, is delivered to the query for the callers of the callee exactly when it is
  delivered to the query for the callees of the context.
\<close>

theorem call_symmetry:
  assumes "r_usr_id (snd row) = Some (sint u)" and "r_context_usr_id (snd row) = Some (sint cu)"
    and "r_symbol (snd row) \<noteq> []" and "r_context (snd row) \<noteq> []"
  shows "(row \<in> set (call_rows db DB_CALLERS (r_symbol (snd row)) u variant) \<longleftrightarrow>
      row \<in> set (call_rows db DB_CALLEES (r_context (snd row)) cu variant)) \<and>
    db_query_calls Completes db (Some (r_symbol (snd row))) u variant DB_CALLERS collect [] =
      (0, map emitted (call_rows db DB_CALLERS (r_symbol (snd row)) u variant)) \<and>
    db_query_calls Completes db (Some (r_context (snd row))) cu variant DB_CALLEES collect [] =
      (0, map emitted (call_rows db DB_CALLEES (r_context (snd row)) cu variant))"
  using assms
  by (auto simp: db_query_calls_def emit_records_def deliver_collect set_call_rows call_where_def Let_def)

lemma batch_collect:
  assumes "0 < n"
  shows "\<exists>rs. batch_loop (\<lambda>_. Completes) db n k qs collect acc = (0, acc @ rs) \<and>
    mset rs = mset (map emitted [row. q \<leftarrow> qs, row \<leftarrow> filter (function_where q) (joined (db_files db) (db_records db))])"
  using assms
proof (induction qs arbitrary: k acc rule: length_induct)
  case (1 qs)
  show ?case
  proof (cases "qs = []")
    case True
    then show ?thesis by (subst batch_loop.simps) simp
  next
    case False
    let ?rows = "\<lambda>qs. [row. q \<leftarrow> qs, row \<leftarrow> filter (function_where q) (joined (db_files db) (db_records db))]"
    let ?acc = "acc @ map emitted (function_batch_rows db (take n qs))"
    have "length (drop n qs) < length qs" using False "1.prems" by simp
    then obtain rs where rs: "batch_loop (\<lambda>_. Completes) db n (k + n) (drop n qs) collect ?acc = (0, ?acc @ rs)"
      "mset rs = mset (map emitted (?rows (drop n qs)))"
      using "1.IH" "1.prems" by blast
    have "query_function_batch Completes db (take n qs) collect acc = (0, ?acc)"
      by (simp add: query_function_batch_def emit_records_def deliver_collect)
    then have "batch_loop (\<lambda>_. Completes) db n k qs collect acc = (0, ?acc @ rs)"
      using False "1.prems" rs(1) by (subst batch_loop.simps) simp
    moreover have "mset (map emitted (?rows qs)) =
        mset (map emitted (?rows (take n qs))) + mset (map emitted (?rows (drop n qs)))"
      by (metis (no_types, lifting) append_take_drop_id concat_append map_append mset_append)
    moreover have "mset (map emitted (function_batch_rows db (take n qs))) = mset (map emitted (?rows (take n qs)))"
      by (simp add: function_batch_rows_def)
    ultimately show ?thesis using rs(2) by (intro exI [of _ "map emitted (function_batch_rows db (take n qs)) @ rs"]) simp
  qed
qed

text \<open>
  C19. The query for many functions delivers, for every requested function, its declarations and
  definitions, as often as it is requested; how SQLite's limit on variables splits the
  request into statements does not matter, and any limit of at least three is enough.
\<close>

theorem functions_in_batches:
  assumes "\<forall>q \<in> set qs. nonempty (fn_variant q) \<and> nonempty (fn_symbol q)" and "3 \<le> var_limit"
  shows "\<exists>rs. db_query_functions var_limit (\<lambda>_. Completes) db qs collect [] = (0, rs) \<and>
    mset rs = mset (map emitted
      [row. q \<leftarrow> qs, row \<leftarrow> filter (function_where q) (joined (db_files db) (db_records db))])"
proof (cases "qs = []")
  case True
  then show ?thesis by (simp add: db_query_functions_def)
next
  case False
  have "0 < var_limit div 3" using assms(2) by (simp add: div_greater_zero_iff)
  from batch_collect [OF this, of db 0 qs "[]"] show ?thesis
    using assms False by (auto simp: db_query_functions_def Let_def list_ex_iff)
qed

section \<open>Properties and contents\<close>

lemma bit_fold_or:
  "bit (fold (\<lambda>(f, d) m. or m (p_properties d)) rows m0) n \<longleftrightarrow>
     bit m0 n \<or> (\<exists>(f, d) \<in> set rows. bit (p_properties d) n)"
  by (induction rows arbitrary: m0) (auto simp: bit_or_iff)

text \<open>
  The property query joins the masks of a symbol over all files of the variant: it sets a
  bit exactly when the abstract contents of some path record it for the symbol, kind and
  identity.
\<close>

theorem properties_joined:
  assumes "ident = \<lparr>id_variant = Some v, id_symbol = Some name, id_usr_id = u, id_kind = k\<rparr>" and "u \<noteq> 0"
  shows "fst (db_query_properties Completes db (Some ident) m0) = 0 \<and>
    (bit (snd (db_query_properties Completes db (Some ident) m0)) n \<longleftrightarrow>
      (\<exists>p. ((name, k, sint u), n) \<in> contents prop_atoms (db_files db) (db_props db) v p))"
proof -
  have "(\<exists>(f, d) \<in> set (property_rows db ident). bit (p_properties d) n) \<longleftrightarrow>
      (\<exists>f d. f \<in> set (db_files db) \<and> (f_id f, d) \<in> set (db_props db) \<and> f_variant f = v \<and>
        p_symbol d = name \<and> p_kind d = k \<and> p_usr_id d = sint u \<and> bit (p_properties d) n)"
    using assms(1) by (auto simp: property_rows_def in_joined)
  also have "\<dots> \<longleftrightarrow> (\<exists>p. ((name, k, sint u), n) \<in> contents prop_atoms (db_files db) (db_props db) v p)"
    by (fastforce simp: contents_def table_atoms_def prop_atoms_def prop_id_def)
  finally show ?thesis
    using assms by (simp add: db_query_properties_def bit_fold_or)
qed

text \<open>
  C20. What the reader finds is what the abstract database says: a query by a variant and a path
  without characters of \<open>GLOB\<close> delivers records with exactly the keys in the contents of that path.
\<close>

theorem query_reads_contents:
  assumes "\<not> pattern_uses_glob v" and "\<not> pattern_uses_glob p"
  shows "rec_id ` snd ` set (query_rows glob db
      (default_options\<lparr>q_variant := Some v, q_path := Some p\<rparr>)) =
    contents rec_atoms (db_files db) (db_records db) v p"
proof -
  have "set (query_rows glob db (default_options\<lparr>q_variant := Some v, q_path := Some p\<rparr>)) =
      {(f, d). f \<in> set (db_files db) \<and> (f_id f, d) \<in> set (db_records db) \<and> f_variant f = v \<and> f_path f = p}"
    using assms
    by (auto simp: query_rows_def default_options_def query_where_def text_matches_def record_matches_def
        mode_matches_def filter_defs in_joined Let_def)
  then show ?thesis
    by (fastforce simp: contents_def table_atoms_def rec_atoms_def image_iff)
qed

end
