(* ===== verification/Reader_Witnesses.thy ===== *)
theory Reader_Witnesses
  imports Reader_Properties
begin

text \<open>
  A small database on which the properties of the reader apply: one file with a member of a
  structure and a call.
\<close>

definition sample_file :: file_row where
  "sample_file = \<lparr>f_id = 1, f_variant = ''v'', f_path = ''a.c'', f_mtime = 7, f_size = 9\<rparr>"

definition sample_member :: rec_data where
  "sample_member = \<lparr>r_symbol = ''S.x'', r_record = 0, r_action = 1, r_kind = 1, r_mode = 0, r_line = 3,
     r_column = 5, r_context = [], r_usr_id = Some 11, r_context_usr_id = None, r_local = 0\<rparr>"

definition sample_call :: rec_data where
  "sample_call = \<lparr>r_symbol = ''f'', r_record = 1, r_action = 3, r_kind = 7, r_mode = 4, r_line = 4,
     r_column = 2, r_context = ''main'', r_usr_id = Some 12, r_context_usr_id = Some 13, r_local = 0\<rparr>"

definition sample_type :: type_data where
  "sample_type = \<lparr>t_symbol = ''S.x'', t_kind = 1, t_usr_id = 11, t_declared_type = ''int'',
     t_canonical_type = ''int'', t_type_symbol = [], t_type_kind = - 1, t_type_usr_id = 0\<rparr>"

definition sample_db :: database where
  "sample_db = empty_database\<lparr>db_files := [sample_file],
     db_records := [(1, sample_member), (1, sample_call)],
     db_types := [(1, sample_type)],
     db_props := [(1, \<lparr>p_symbol = ''S.x'', p_kind = 1, p_usr_id = 11, p_properties = 2\<rparr>)]\<rparr>"

lemmas sample_defs = sample_db_def sample_file_def sample_member_def sample_call_def sample_type_def
  empty_database_def

lemma sample_joined:
  "joined (db_files sample_db) (db_records sample_db) =
     [(sample_file, sample_member), (sample_file, sample_call)]"
  by (simp add: joined_def sample_defs)

lemma sample_storable: "storable_records sample_db"
  unfolding storable_records_def sample_joined
  by (simp add: storable_def sample_defs stored_defs)

definition sample_options :: query_options where
  "sample_options = default_options\<lparr>q_limit := 1\<rparr>"

theorem query_paging_complete_witness:
  "query_pages (Suc (length (query_rows (\<lambda>_ _. False) sample_db (sample_options\<lparr>q_limit := 0\<rparr>))))
     (\<lambda>_ _. False) sample_db sample_options =
   Some (snd (db_query (\<lambda>_ _. False) Completes sample_db (Some (sample_options\<lparr>q_limit := 0\<rparr>)) collect []))"
proof (rule query_paging_complete)
  show "wf_files (db_files sample_db)" by (simp add: wf_files_def sample_defs)
  show "distinct (map (pk rec_id) (db_records sample_db))" by (simp add: sample_defs rec_id_def)
qed (simp_all add: sample_storable sample_options_def default_options_def valid_options_def filter_defs
    LLONG_MAX_def)

definition sample_identity :: identity where
  "sample_identity = \<lparr>id_variant = Some ''v'', id_symbol = Some ''S.x'', id_usr_id = 11, id_kind = 1\<rparr>"

theorem symbol_types_hide_failure_witness:
  "db_query_symbol_types (Fails_After 1) sample_db (Some sample_identity) None 0 collect [] =
    (0, take 1 (map emitted_type (symbol_type_rows sample_db sample_identity None)))"
  by (rule symbol_types_hide_failure)
    (simp_all add: sample_identity_def symbol_type_rows_def joined_def sample_defs)

theorem leaf_of_qualified_name_witness:
  "qualified_leaf (qualified_name (Some ''N::S'') (Some ''x'')) = ''x''"
  by (rule leaf_of_qualified_name) (simp add: simple_name_def)

theorem find_at_spans_witness:
  "set (snd (db_find_at Completes sample_db (Some ''a.c'') None 3 5 collect [])) =
     emitted ` {(f, d) \<in> set (joined (db_files sample_db) (db_records sample_db)). f_path f = ''a.c'' \<and>
       r_line d = 3 \<and> r_column d \<le> 5 \<and> 5 < r_column d + int (length (qualified_leaf (r_symbol d)))}"
  using find_at_spans [OF sample_storable, of "''a.c''" 3 5 None] by simp

theorem call_symmetry_witness:
  "(sample_file, sample_call) \<in> set (call_rows sample_db DB_CALLERS ''f'' 12 None) \<longleftrightarrow>
   (sample_file, sample_call) \<in> set (call_rows sample_db DB_CALLEES ''main'' 13 None)"
  using call_symmetry [of "(sample_file, sample_call)" 12 13 sample_db None]
  by (simp add: sample_call_def)

definition sample_function :: db_function where
  "sample_function = \<lparr>fn_variant = Some ''v'', fn_symbol = Some ''f'', fn_usr_id = 12\<rparr>"

theorem functions_in_batches_witness:
  "\<exists>rs. db_query_functions 3 (\<lambda>_. Completes) sample_db [sample_function, sample_function] collect [] = (0, rs) \<and>
    mset rs = mset (map emitted [row. q \<leftarrow> [sample_function, sample_function],
      row \<leftarrow> filter (function_where q) (joined (db_files sample_db) (db_records sample_db))])"
  by (rule functions_in_batches) (simp_all add: sample_function_def)

theorem properties_joined_witness:
  "fst (db_query_properties Completes sample_db (Some sample_identity) 0) = 0 \<and>
   (bit (snd (db_query_properties Completes sample_db (Some sample_identity) 0)) 1 \<longleftrightarrow>
     (\<exists>p. ((''S.x'', 1, sint (11 :: u64)), 1) \<in> contents prop_atoms (db_files sample_db) (db_props sample_db) ''v'' p))"
  by (rule properties_joined) (simp_all add: sample_identity_def)

theorem query_reads_contents_witness:
  "rec_id ` snd ` set (query_rows (\<lambda>_ _. False) sample_db
      (default_options\<lparr>q_variant := Some ''v'', q_path := Some ''a.c''\<rparr>)) =
    contents rec_atoms (db_files sample_db) (db_records sample_db) ''v'' ''a.c''"
  by (rule query_reads_contents) (simp_all add: pattern_uses_glob_def)

end
