(* ===== verification/Output.thy ===== *)
theory Output
  imports Prelude
begin

text \<open>
  Streams of the C library and the conversions of \<open>printf\<close> that the program uses.

  An output stream is the text written to it, its error indicator and the number of calls so
  far. Whether the n-th call fails is a parameter: \<open>Some k\<close> is a failure after \<open>k\<close> bytes. A
  function that prints is a list of chunks, one per call, written either without looking at
  the results (\<open>puts\<close>) or up to the first failure (\<open>for_each (fput e)\<close>).
\<close>

section \<open>Streams\<close>

record stream =
  o_text :: string
  o_error :: bool
  o_calls :: nat

type_synonym sink = "nat \<Rightarrow> nat option"

definition fput :: "sink \<Rightarrow> string \<Rightarrow> stream \<Rightarrow> bool \<times> stream" where
  "fput e s out =
     (case e (o_calls out) of
        None \<Rightarrow> (True, out\<lparr>o_text := o_text out @ s, o_calls := Suc (o_calls out)\<rparr>)
      | Some k \<Rightarrow> (False, out\<lparr>o_text := o_text out @ take k s, o_error := True,
                      o_calls := Suc (o_calls out)\<rparr>))"

definition puts :: "sink \<Rightarrow> string list \<Rightarrow> stream \<Rightarrow> stream" where
  "puts e chunks out = fold (\<lambda>s o1. snd (fput e s o1)) chunks out"

lemma puts_simps [simp]:
  "puts e [] out = out" "puts e (c # cs) out = puts e cs (snd (fput e c out))"
  by (simp_all add: puts_def)

lemma puts_append [simp]: "puts e (xs @ ys) out = puts e ys (puts e xs out)"
  by (simp add: puts_def)

lemma fput_ok:
  "fput e s out = (True, out') \<Longrightarrow> o_text out' = o_text out @ s \<and> o_error out' = o_error out"
  by (auto simp: fput_def split: option.splits)

lemma fput_failed: "fput e s out = (False, out') \<Longrightarrow> o_error out'"
  by (auto simp: fput_def split: option.splits)

lemma fput_error_kept: "o_error out \<Longrightarrow> o_error (snd (fput e s out))"
  by (auto simp: fput_def split: option.splits)

lemma puts_error_kept: "o_error out \<Longrightarrow> o_error (puts e cs out)"
  by (induction cs arbitrary: out) (auto simp: fput_error_kept)

text \<open>Unchecked writing: without the error indicator at the end nothing is missing.\<close>

lemma puts_text:
  assumes "\<not> o_error (puts e cs out)"
  shows "o_text (puts e cs out) = o_text out @ concat cs"
  using assms
proof (induction cs arbitrary: out)
  case Nil
  then show ?case by simp
next
  case (Cons c cs)
  obtain b out1 where p: "fput e c out = (b, out1)" by (rule prod.exhaust)
  have "b"
    using Cons.prems p puts_error_kept [of out1 e cs] fput_failed [of e c out out1]
    by (cases b) auto
  with p fput_ok [of e c out out1] Cons show ?case by simp
qed

text \<open>Checked writing: success means that everything was written.\<close>

lemma for_each_fput:
  "for_each (fput e) cs out = (True, out') \<Longrightarrow>
     o_text out' = o_text out @ concat cs \<and> o_error out' = o_error out"
proof (induction cs arbitrary: out)
  case Nil
  then show ?case by simp
next
  case (Cons c cs)
  obtain b out1 where p: "fput e c out = (b, out1)" by (rule prod.exhaust)
  with Cons.prems have "b" "for_each (fput e) cs out1 = (True, out')" by (auto split: bool.splits)
  with Cons.IH [of out1] p fput_ok [of e c out out1] show ?case by simp
qed

lemma fput_works: "(\<And>n. e n = None) \<Longrightarrow> fst (fput e s out)"
  by (simp add: fput_def)

lemma puts_works: "(\<And>n. e n = None) \<Longrightarrow> o_error (puts e cs out) = o_error out"
  by (induction cs arbitrary: out) (auto simp: fput_def)

lemma for_each_fput_works: "(\<And>n. e n = None) \<Longrightarrow> fst (for_each (fput e) cs out)"
  by (induction cs arbitrary: out) (auto simp: fput_def)

section \<open>Pieces of text\<close>

definition newline :: string where
  "newline = [CHR 0x0A]"

fun join_with :: "string \<Rightarrow> string list \<Rightarrow> string" where
  "join_with sep [] = []"
| "join_with sep [s] = s"
| "join_with sep (s # t # rest) = s @ sep @ join_with sep (t # rest)"

section \<open>Digits\<close>

definition digit :: "nat \<Rightarrow> char" where
  "digit n = (if n < 10 then char_of (48 + n) else char_of (87 + n))"

definition digit_value :: "char \<Rightarrow> nat option" where
  "digit_value c =
     (let n = (of_char c :: nat) in
      if 48 \<le> n \<and> n \<le> 57 then Some (n - 48)
      else if 97 \<le> n \<and> n \<le> 102 then Some (n - 87)
      else if 65 \<le> n \<and> n \<le> 70 then Some (n - 55)
      else None)"

lemma digit_value_digit [simp]: "n < 16 \<Longrightarrow> digit_value (digit n) = Some n"
  by (auto simp: digit_def digit_value_def Let_def)

lemma digit_value_less: "digit_value c = Some n \<Longrightarrow> n < 16"
  by (auto simp: digit_value_def Let_def split: if_splits)

text \<open>\<open>isxdigit\<close> in the C locale.\<close>

definition isxdigit :: "char \<Rightarrow> bool" where
  "isxdigit c \<longleftrightarrow> digit_value c \<noteq> None"

lemma isxdigit_digit [simp]: "n < 16 \<Longrightarrow> isxdigit (digit n)"
  by (simp add: isxdigit_def)

text \<open>\<open>%d\<close> and \<open>%u\<close>: the digits of a number to a base of at most 16.\<close>

fun digits :: "nat \<Rightarrow> nat \<Rightarrow> string" where
  "digits b n = (if n < b \<or> b < 2 then [digit (n mod 16)] else digits b (n div b) @ [digit (n mod b)])"

declare digits.simps [simp del]

definition decimal :: "nat \<Rightarrow> string" where
  "decimal n = digits 10 n"

definition decimal_int :: "int \<Rightarrow> string" where
  "decimal_int i = (if i < 0 then ''-'' @ decimal (nat (- i)) else decimal (nat i))"

text \<open>\<open>%0nx\<close> for values of at most \<open>n\<close> digits.\<close>

fun hex_padded :: "nat \<Rightarrow> nat \<Rightarrow> string" where
  "hex_padded 0 n = []"
| "hex_padded (Suc k) n = hex_padded k (n div 16) @ [digit (n mod 16)]"

definition hex16 :: "u64 \<Rightarrow> string" where
  "hex16 w = hex_padded 16 (unat w)"

text \<open>\<open>%ns\<close> and \<open>%-ns\<close>.\<close>

definition pad_left :: "nat \<Rightarrow> string \<Rightarrow> string" where
  "pad_left n s = replicate (n - length s) CHR '' '' @ s"

definition pad_right :: "nat \<Rightarrow> string \<Rightarrow> string" where
  "pad_right n s = s @ replicate (n - length s) CHR '' ''"

text \<open>\<open>strtoull\<close> to base 16 on a string of hexadecimal digits, without overflow.\<close>

fun hex_value :: "nat \<Rightarrow> string \<Rightarrow> nat" where
  "hex_value acc [] = acc"
| "hex_value acc (c # cs) =
     hex_value (acc * 16 + (case digit_value c of None \<Rightarrow> 0 | Some d \<Rightarrow> d)) cs"

lemma hex_value_append: "hex_value acc (xs @ ys) = hex_value (hex_value acc xs) ys"
  by (induction xs arbitrary: acc) auto

lemma length_hex_padded [simp]: "length (hex_padded k n) = k"
  by (induction k arbitrary: n) auto

lemma hex_padded_digits: "c \<in> set (hex_padded k n) \<Longrightarrow> isxdigit c"
  by (induction k arbitrary: n) auto

lemma hex_value_padded: "n < 16 ^ k \<Longrightarrow> hex_value 0 (hex_padded k n) = n"
  by (induction k arbitrary: n) (auto simp: hex_value_append less_mult_imp_div_less mult.commute)

lemma hex_value_bound:
  "hex_value acc s < (acc + 1) * 16 ^ length s"
proof (induction s arbitrary: acc)
  case Nil
  then show ?case by simp
next
  case (Cons c cs)
  define m where "m = acc * 16 + (case digit_value c of None \<Rightarrow> 0 | Some d \<Rightarrow> d)"
  have "m + 1 \<le> (acc + 1) * 16"
    using digit_value_less [of c] by (auto simp: m_def split: option.splits)
  then have "(m + 1) * 16 ^ length cs \<le> (acc + 1) * 16 * 16 ^ length cs"
    by (rule mult_right_mono) simp
  moreover have "hex_value m cs < (m + 1) * 16 ^ length cs" by (rule Cons.IH)
  ultimately have "hex_value m cs < (acc + 1) * 16 * 16 ^ length cs" by (rule order_less_le_trans [rotated])
  then show ?case by (simp add: m_def algebra_simps)
qed

lemma hex16_value [simp]: "hex_value 0 (hex16 w) = unat w"
proof -
  have "unat w < 2 ^ 64" using unsigned_less [of w, where 'a = nat] by simp
  also have "(2 :: nat) ^ 64 = 16 ^ 16" by simp
  finally show ?thesis unfolding hex16_def by (rule hex_value_padded)
qed

end
