(* ===== verification/Json.thy ===== *)
theory Json
  imports Output
begin

text \<open>
  The three places that escape strings for JSON: \<open>print_json_string\<close> (\<open>output_json.c\<close>),
  \<open>write_json_string\<close> (\<open>command_db_export.c\<close>) and \<open>json_escape\<close> (\<open>perf_trace.c\<close>). The locale
  \<open>char_escape\<close> is what a reader of JSON asks of an escape function: the escape of a byte is
  one unit of a string literal and reads back as that byte. Strings are byte strings here;
  \<open>\u00xx\<close> stands for the byte \<open>xx\<close>. The grammar of JSON documents follows.
\<close>

section \<open>Escapes\<close>

abbreviation quote :: char where "quote \<equiv> CHR 0x22"
abbreviation backslash :: char where "backslash \<equiv> CHR 0x5C"

text \<open>The common \<open>switch\<close> of \<open>print_json_string\<close> and \<open>write_json_string\<close>.\<close>

definition escape_char :: "char \<Rightarrow> string" where
  "escape_char c =
     (if c = quote then [backslash, quote]
      else if c = backslash then [backslash, backslash]
      else if c = CHR 0x08 then [backslash, CHR ''b'']
      else if c = CHR 0x0C then [backslash, CHR ''f'']
      else if c = CHR 0x0A then [backslash, CHR ''n'']
      else if c = CHR 0x0D then [backslash, CHR ''r'']
      else if c = CHR 0x09 then [backslash, CHR ''t'']
      else if (of_char c :: nat) < 0x20 then [backslash, CHR ''u''] @ hex_padded 4 (of_char c)
      else [c])"

text \<open>\<open>json_escape\<close> of the trace escapes every byte outside of ASCII as well.\<close>

definition trace_escape_char :: "char \<Rightarrow> string" where
  "trace_escape_char c =
     (if c = quote \<or> c = backslash then [backslash, c]
      else if (of_char c :: nat) < 0x20 \<or> 0x80 \<le> (of_char c :: nat)
      then [backslash, CHR ''u'', CHR ''0'', CHR ''0'', digit (of_char c div 16), digit (of_char c mod 16)]
      else [c])"

definition json_escape :: "string \<Rightarrow> string" where
  "json_escape value = concat (map trace_escape_char value)"

text \<open>The chunks that \<open>print_json_string\<close> writes.\<close>

definition print_json_string :: "string option \<Rightarrow> string list" where
  "print_json_string value =
     (case value of None \<Rightarrow> [''null'']
      | Some s \<Rightarrow> [[quote]] @ map escape_char s @ [[quote]])"

definition write_json_string :: "sink \<Rightarrow> string \<Rightarrow> stream \<Rightarrow> bool \<times> stream" where
  "write_json_string e value = for_each (fput e) ([[quote]] @ map escape_char value @ [[quote]])"

definition json_string :: "string \<Rightarrow> string" where
  "json_string s = [quote] @ concat (map escape_char s) @ [quote]"

lemma print_json_string_text [simp]: "concat (print_json_string (Some s)) = json_string s"
  by (simp add: print_json_string_def json_string_def)

lemma write_json_string_text:
  "write_json_string e s out = (True, out') \<Longrightarrow>
     o_text out' = o_text out @ json_string s \<and> o_error out' = o_error out"
  unfolding write_json_string_def by (drule for_each_fput) (simp add: json_string_def)

section \<open>Reading a string literal\<close>

definition simple_escape :: "char \<Rightarrow> char option" where
  "simple_escape c =
     (if c = quote \<or> c = backslash \<or> c = CHR ''/'' then Some c
      else if c = CHR ''b'' then Some (CHR 0x08)
      else if c = CHR ''f'' then Some (CHR 0x0C)
      else if c = CHR ''n'' then Some (CHR 0x0A)
      else if c = CHR ''r'' then Some (CHR 0x0D)
      else if c = CHR ''t'' then Some (CHR 0x09)
      else None)"

text \<open>One unit of a literal, with the rest; \<open>None\<close> at the closing quote and on bad input.\<close>

definition unescape :: "string \<Rightarrow> (char \<times> string) option" where
  "unescape s =
     (case s of [] \<Rightarrow> None
      | c # r \<Rightarrow>
         if c = quote \<or> (of_char c :: nat) < 0x20 then None
         else if c \<noteq> backslash then Some (c, r)
         else (case r of [] \<Rightarrow> None
           | d # r1 \<Rightarrow>
              if d = CHR ''u''
              then if length r1 < 4 \<or> take 2 r1 \<noteq> ''00'' then None
                else (case (digit_value (r1 ! 2), digit_value (r1 ! 3)) of
                   (Some h, Some l) \<Rightarrow> Some (char_of (16 * h + l), drop 4 r1)
                 | _ \<Rightarrow> None)
              else map_option (\<lambda>x. (x, r1)) (simple_escape d)))"

function read_literal :: "string \<Rightarrow> (string \<times> string) option" where
  "read_literal s =
     (case s of [] \<Rightarrow> None
      | c # r \<Rightarrow>
         if c = quote then Some ([], r)
         else (case unescape s of None \<Rightarrow> None
           | Some (d, r1) \<Rightarrow>
              if length r1 < length s then map_option (\<lambda>(t, r2). (d # t, r2)) (read_literal r1)
              else None))"
  by pat_completeness auto
termination by (relation "measure length") auto

declare read_literal.simps [simp del]

definition read_json_string :: "string \<Rightarrow> (string \<times> string) option" where
  "read_json_string s = (case s of [] \<Rightarrow> None | c # r \<Rightarrow> if c = quote then read_literal r else None)"

section \<open>The contract of an escape\<close>

locale char_escape =
  fixes esc :: "char \<Rightarrow> string"
  assumes unescape_esc: "unescape (esc c @ r) = Some (c, r)"
begin

lemma esc_nonempty: "esc c \<noteq> []"
proof
  assume "esc c = []"
  with unescape_esc [of c "[]"] show False by (simp add: unescape_def)
qed

lemma esc_hd: "esc c = d # ds \<Longrightarrow> d \<noteq> quote"
  using unescape_esc [of c "[]"] by (auto simp: unescape_def)

lemma read_escaped: "read_literal (concat (map esc s) @ quote # r) = Some (s, r)"
proof (induction s)
  case Nil
  then show ?case by (simp add: read_literal.simps)
next
  case (Cons c s)
  obtain d ds where d: "esc c = d # ds" using esc_nonempty [of c] by (cases "esc c") auto
  with unescape_esc [of c "concat (map esc s) @ quote # r"] Cons.IH esc_hd [OF d]
  show ?case by (simp add: read_literal.simps [of "d # _"])
qed

text \<open>The quote that ends the literal is the first one that is not part of an escape.\<close>

lemma read_quoted: "read_json_string (quote # concat (map esc s) @ quote # r) = Some (s, r)"
  by (simp add: read_json_string_def read_escaped)

lemma escaped_inj: "concat (map esc s) = concat (map esc t) \<Longrightarrow> s = t"
  by (metis option.inject prod.inject read_escaped)

end

section \<open>The escapes of the program\<close>

lemma of_char_bound: "(of_char c :: nat) < 256"
  using nat_of_char_less_256 by simp

lemma hex_padded_4:
  "n < 256 \<Longrightarrow> hex_padded 4 n = [CHR ''0'', CHR ''0'', digit (n div 16), digit (n mod 16)]"
proof -
  assume "n < 256"
  then have "n div 16 div 16 = 0" by (simp add: div_mult2_eq [symmetric])
  moreover have "(4 :: nat) = Suc (Suc (Suc (Suc 0)))" by simp
  moreover have "digit 0 = CHR ''0''"
    using char_of_char [of "CHR ''0''", where 'a = nat] by (simp add: digit_def del: char_of_char)
  ultimately show ?thesis by (simp only: hex_padded.simps append.simps) simp
qed

lemma unescape_unicode:
  "(of_char c :: nat) = n \<Longrightarrow>
     unescape (backslash # CHR ''u'' # CHR ''0'' # CHR ''0'' # digit (n div 16) # digit (n mod 16) # r) = Some (c, r)"
  using of_char_bound [of c]
  by (simp add: unescape_def digit_value_digit less_mult_imp_div_less) (auto simp: mult.commute)

interpretation plain_escape: char_escape escape_char
proof
  show "unescape (escape_char c @ r) = Some (c, r)" for c r
  proof (cases "c \<in> {quote, backslash, CHR 0x08, CHR 0x0C, CHR 0x0A, CHR 0x0D, CHR 0x09}")
    case True
    then show ?thesis by (auto simp: escape_char_def unescape_def simple_escape_def)
  next
    case False
    show ?thesis
    proof (cases "(of_char c :: nat) < 0x20")
      case True
      with False hex_padded_4 [of "of_char c"] unescape_unicode [OF refl, of c r]
      show ?thesis by (simp add: escape_char_def)
    next
      case False
      with \<open>c \<notin> _\<close> show ?thesis by (simp add: escape_char_def unescape_def)
    qed
  qed
qed

interpretation ascii_escape: char_escape trace_escape_char
proof
  show "unescape (trace_escape_char c @ r) = Some (c, r)" for c r
  proof (cases "c = quote \<or> c = backslash")
    case True
    then show ?thesis by (auto simp: trace_escape_char_def unescape_def simple_escape_def)
  next
    case False
    with unescape_unicode [OF refl, of c r] show ?thesis
      by (auto simp: trace_escape_char_def unescape_def)
  qed
qed

lemma read_json_string [simp]: "read_json_string (json_string s @ r) = Some (s, r)"
  using plain_escape.read_quoted [of s r] by (simp add: json_string_def)

text \<open>The trace is plain ASCII without control characters: one event stays one line.\<close>

definition printable :: "char \<Rightarrow> bool" where
  "printable c \<longleftrightarrow> 0x20 \<le> (of_char c :: nat) \<and> (of_char c :: nat) < 0x80"

lemma digit_printable: "n < 16 \<Longrightarrow> printable (digit n)"
  by (auto simp: printable_def digit_def)

lemma json_escape_printable: "list_all printable (json_escape s)"
proof -
  have "list_all printable (trace_escape_char c)" for c
  proof -
    have "(of_char c :: nat) div 16 < 16"
      by (rule less_mult_imp_div_less) (use of_char_bound [of c] in simp)
    then have "printable (digit (of_char c div 16))" "printable (digit (of_char c mod 16))"
      by (simp_all add: digit_printable)
    then show ?thesis by (auto simp: trace_escape_char_def printable_def)
  qed
  then show ?thesis by (induction s) (auto simp: json_escape_def)
qed

text \<open>The first pass of \<open>json_escape\<close> computes the size of the buffer that the second one fills.\<close>

fun escaped_length :: "string \<Rightarrow> nat" where
  "escaped_length [] = 0"
| "escaped_length (c # cs) =
     (if c = quote \<or> c = backslash then 2
      else if (of_char c :: nat) < 0x20 \<or> 0x80 \<le> (of_char c :: nat) then 6 else 1) + escaped_length cs"

lemma escaped_length_exact: "escaped_length s = length (json_escape s)"
  by (induction s) (auto simp: json_escape_def trace_escape_char_def)

section \<open>Documents\<close>

text \<open>
  The grammar of JSON documents (RFC 8259) as a relation between values and texts, for the
  properties of the places that write them. Strings are written with the escapes above;
  the numbers the program writes are natural numbers in decimal.
\<close>

datatype json =
    JNull
  | JBool bool
  | JNumber nat
  | JString string
  | JArray "json list"
  | JObject "(string \<times> json) list"

definition blank :: "string \<Rightarrow> bool" where
  "blank s \<longleftrightarrow> list_all (\<lambda>c. c \<in> {CHR '' '', CHR 0x09, CHR 0x0A, CHR 0x0D}) s"

lemma blank_simps [simp]:
  "blank []" "blank newline" "blank (CHR '' '' # s) \<longleftrightarrow> blank s" "blank (a @ b) \<longleftrightarrow> blank a \<and> blank b"
  by (auto simp: blank_def newline_def)

inductive json_text :: "json \<Rightarrow> string \<Rightarrow> bool"
  and json_elements :: "json list \<Rightarrow> string \<Rightarrow> bool"
  and json_members :: "(string \<times> json) list \<Rightarrow> string \<Rightarrow> bool" where
  null: "json_text JNull ''null''"
| true: "json_text (JBool True) ''true''"
| false: "json_text (JBool False) ''false''"
| number: "json_text (JNumber n) (decimal n)"
| str: "json_text (JString s) (json_string s)"
| empty_array: "blank a \<Longrightarrow> json_text (JArray []) (''['' @ a @ '']'')"
| array: "json_elements vs t \<Longrightarrow> json_text (JArray vs) (''['' @ t @ '']'')"
| empty_object: "blank a \<Longrightarrow> json_text (JObject []) (''{'' @ a @ ''}'')"
| object: "json_members ms t \<Longrightarrow> json_text (JObject ms) (''{'' @ t @ ''}'')"
| element: "json_text v t \<Longrightarrow> blank a \<Longrightarrow> blank b \<Longrightarrow> json_elements [v] (a @ t @ b)"
| elements: "json_text v t \<Longrightarrow> blank a \<Longrightarrow> blank b \<Longrightarrow> json_elements vs ts \<Longrightarrow>
    json_elements (v # vs) (a @ t @ b @ '','' @ ts)"
| member: "json_text v t \<Longrightarrow> blank a \<Longrightarrow> blank b \<Longrightarrow> blank c \<Longrightarrow> blank d \<Longrightarrow>
    json_members [(k, v)] (a @ json_string k @ b @ '':'' @ c @ t @ d)"
| members: "json_text v t \<Longrightarrow> blank a \<Longrightarrow> blank b \<Longrightarrow> blank c \<Longrightarrow> blank d \<Longrightarrow> json_members ms ts \<Longrightarrow>
    json_members ((k, v) # ms) (a @ json_string k @ b @ '':'' @ c @ t @ d @ '','' @ ts)"

section \<open>Writing arrays and objects\<close>

text \<open>Elements and members separated by commas, with blanks around each of them.\<close>

lemma json_elements_join:
  assumes "list_all2 json_text vs ts" and "vs \<noteq> []" and "blank a" "blank b" "blank sep"
  shows "json_elements vs (a @ join_with ('','' @ sep) ts @ b)"
  using assms(1,2,3)
proof (induction vs ts arbitrary: a rule: list_all2_induct)
  case Nil
  then show ?case by simp
next
  case (Cons v vs t ts)
  show ?case
  proof (cases ts)
    case Nil
    with Cons(2) have "vs = []" by simp
    with Nil Cons(1) Cons.prems(2) assms(4) show ?thesis by (simp add: element)
  next
    case (Cons t' ts')
    with Cons.hyps(2) have "vs \<noteq> []" by auto
    with Cons.IH assms(5) have "json_elements vs (sep @ join_with ('','' @ sep) ts @ b)" by blast
    from elements [OF Cons.hyps(1) Cons.prems(2) _ this, of "[]"] Cons show ?thesis by simp
  qed
qed

lemma json_array_join:
  assumes "list_all2 json_text vs ts" and "blank a" "blank b" "blank sep"
  shows "json_text (JArray vs) (''['' @ a @ join_with ('','' @ sep) ts @ b @ '']'')"
proof (cases vs)
  case Nil
  with assms(1) have "ts = []" by simp
  with Nil assms(2,3) show ?thesis using empty_array [of "a @ b"] by simp
next
  case (Cons v vs')
  then have "json_elements vs (a @ join_with ('','' @ sep) ts @ b)"
    using assms by (intro json_elements_join) simp_all
  from array [OF this] show ?thesis by simp
qed

fun member_texts :: "(string \<times> string) list \<Rightarrow> string list" where
  "member_texts [] = []"
| "member_texts ((k, t) # ms) = (json_string k @ '':'' @ t) # member_texts ms"

text \<open>A compact object: no blanks at all.\<close>

definition object_text :: "(string \<times> string) list \<Rightarrow> string" where
  "object_text ms = ''{'' @ join_with '','' (member_texts ms) @ ''}''"

lemma json_members_join:
  assumes "list_all2 (\<lambda>(k, v) (k', t). k' = k \<and> json_text v t) ms ts" and "ms \<noteq> []"
  shows "json_members ms (join_with '','' (member_texts ts))"
  using assms
proof (induction ms ts rule: list_all2_induct)
  case Nil
  then show ?case by simp
next
  case (Cons m ms u us)
  obtain k v t where m: "m = (k, v)" "u = (k, t)" and v: "json_text v t"
    using Cons.hyps(1) by (cases m; cases u) auto
  show ?case
  proof (cases us)
    case Nil
    with Cons.hyps(2) have "ms = []" by simp
    with Nil m v show ?thesis using member [OF v, of "[]" "[]" "[]" "[]" k] by simp
  next
    case (Cons u' us')
    with Cons.hyps(2) have "ms \<noteq> []" by auto
    with Cons.IH have "json_members ms (join_with '','' (member_texts us))" by blast
    moreover have "member_texts us = (json_string (fst u') @ '':'' @ snd u') # member_texts us'"
      using Cons by (cases u') simp
    ultimately show ?thesis
      using members [OF v, of "[]" "[]" "[]" "[]" ms _ k] m by simp
  qed
qed

lemma json_object_text:
  assumes "list_all2 (\<lambda>(k, v) (k', t). k' = k \<and> json_text v t) ms ts"
  shows "json_text (JObject ms) (object_text ts)"
proof (cases ms)
  case Nil
  with assms have "ts = []" by simp
  with Nil show ?thesis using empty_object [of "[]"] by (simp add: object_text_def)
next
  case (Cons m ms')
  with assms have "json_members ms (join_with '','' (member_texts ts))" by (intro json_members_join) simp_all
  from object [OF this] show ?thesis by (simp add: object_text_def)
qed

end
