(* ===== verification/Perf_Trace.thy ===== *)
theory Perf_Trace
  imports Json
begin

text \<open>
  \<open>lib/semindex_support/perf_trace.c\<close>: a trace is a file to which every phase appends one line
  of JSON. The first failure latches \<open>failed\<close>; from then on nothing is written and closing
  reports it.

  The operating system is a parameter: the n-th call of \<open>clock_gettime\<close>, of \<open>malloc\<close>, of
  \<open>write\<close>. A write that is interrupted is tried again, so \<open>perf_trace_end\<close> is a partial function:
  \<open>None\<close> is a call that never returns.
\<close>

section \<open>State\<close>

datatype write_result = Interrupted | Write_Error | Wrote nat

record trace_os =
  os_clock :: "nat \<Rightarrow> u64 option"
  os_malloc :: "nat \<Rightarrow> bool"
  os_write :: "nat \<Rightarrow> write_result"
  os_open :: "string \<Rightarrow> bool"
  os_close :: bool
  os_pid :: nat

record trace =
  tr_command :: string
  tr_source :: string
  tr_failed :: bool
  tr_file :: string
  tr_calls :: nat

definition trace_error :: "trace \<Rightarrow> trace" where
  "trace_error t = t\<lparr>tr_failed := True\<rparr>"

definition counted_call :: "trace \<Rightarrow> trace" where
  "counted_call t = t\<lparr>tr_calls := Suc (tr_calls t)\<rparr>"

text \<open>\<open>monotonic_time\<close>; the conversion from seconds and nanoseconds wraps like \<open>uint64_t\<close>.\<close>

definition monotonic_time :: "trace_os \<Rightarrow> trace \<Rightarrow> u64 option \<times> trace" where
  "monotonic_time os t = (os_clock os (tr_calls t), counted_call t)"

definition nanoseconds :: "int \<Rightarrow> int \<Rightarrow> u64" where
  "nanoseconds sec nsec = word_of_int sec * 1000000000 + word_of_int nsec"

section \<open>Opening and timing\<close>

text \<open>
  \<open>semindex_trace_open\<close> allocates the state and the two escaped strings and opens the file for
  appending; \<open>file\<close> is what the file already holds.
\<close>

definition trace_open ::
  "trace_os \<Rightarrow> string \<Rightarrow> string option \<Rightarrow> string option \<Rightarrow> string option \<Rightarrow> trace option" where
  "trace_open os file path command source =
     (case path of None \<Rightarrow> None
      | Some p \<Rightarrow>
          if \<not> os_malloc os 0 then None
          else if \<not> os_malloc os 1 \<or> \<not> os_malloc os 2 then None
          else if \<not> os_open os p then None
          else Some \<lparr>tr_command = json_escape (or_empty command), tr_source = json_escape (or_empty source),
            tr_failed = False, tr_file = file, tr_calls = 3\<rparr>)"

definition trace_begin :: "trace_os \<Rightarrow> trace option \<Rightarrow> u64 \<times> trace option" where
  "trace_begin os t =
     (case t of None \<Rightarrow> (0, None)
      | Some t0 \<Rightarrow>
          if tr_failed t0 then (0, Some t0)
          else (case monotonic_time os t0 of
             (None, t1) \<Rightarrow> (0, Some (trace_error t1))
           | (Some now, t1) \<Rightarrow> (now, Some t1)))"

section \<open>Writing an event\<close>

definition event_line :: "trace_os \<Rightarrow> trace \<Rightarrow> string \<Rightarrow> u64 \<Rightarrow> u64 \<Rightarrow> (u64 \<times> u64) option \<Rightarrow> string" where
  "event_line os t escaped_phase start stop items =
     ''{'' @ json_string ''pid'' @ '':'' @ decimal (os_pid os) @
     '','' @ json_string ''command'' @ '':'' @ [quote] @ tr_command t @ [quote] @
     '','' @ json_string ''source'' @ '':'' @ [quote] @ tr_source t @ [quote] @
     '','' @ json_string ''phase'' @ '':'' @ [quote] @ escaped_phase @ [quote] @
     '','' @ json_string ''start_ns'' @ '':'' @ decimal (unat start) @
     '','' @ json_string ''duration_ns'' @ '':'' @ decimal (unat (stop - start)) @
     (case items of None \<Rightarrow> []
      | Some (items_in, items_out) \<Rightarrow>
          '','' @ json_string ''items_in'' @ '':'' @ decimal (unat items_in) @
          '','' @ json_string ''items_out'' @ '':'' @ decimal (unat items_out)) @
     ''}'' @ [CHR 0x0A]"

text \<open>The loop around \<open>write\<close>: the result that is not \<open>EINTR\<close>, and the number of calls.\<close>

partial_function (option) write_retry :: "(nat \<Rightarrow> write_result) \<Rightarrow> nat \<Rightarrow> (write_result \<times> nat) option" where
  "write_retry results n =
     (if results n = Interrupted then write_retry results (Suc n) else Some (results n, Suc n))"

definition write_line :: "trace_os \<Rightarrow> string \<Rightarrow> trace \<Rightarrow> trace option" where
  "write_line os line t =
     (case write_retry (os_write os) (tr_calls t) of
        None \<Rightarrow> None
      | Some (r, n) \<Rightarrow>
          let t1 = t\<lparr>tr_calls := n\<rparr> in
          (case r of
             Wrote k \<Rightarrow>
               let t2 = t1\<lparr>tr_file := tr_file t1 @ take k line\<rparr>
               in Some (if k = length line then t2 else trace_error t2)
           | _ \<Rightarrow> Some (trace_error t1)))"

definition perf_trace_end ::
  "trace_os \<Rightarrow> string option \<Rightarrow> u64 \<Rightarrow> (u64 \<times> u64) option \<Rightarrow> trace option \<Rightarrow> trace option option" where
  "perf_trace_end os phase start items t =
     (case t of None \<Rightarrow> Some None
      | Some t0 \<Rightarrow>
          if tr_failed t0 then Some (Some t0)
          else (case monotonic_time os t0 of
             (None, t1) \<Rightarrow> Some (Some (trace_error t1))
           | (Some stop, t1) \<Rightarrow>
               if \<not> os_malloc os (tr_calls t1) then Some (Some (trace_error (counted_call t1)))
               else
               let line = event_line os t1 (json_escape (or_empty phase)) start stop items;
                   t2 = counted_call t1
               in if \<not> os_malloc os (tr_calls t2) then Some (Some (trace_error (counted_call t2)))
                  else map_option Some (write_line os line (counted_call t2))))"

definition semindex_trace_end :: "trace_os \<Rightarrow> string \<Rightarrow> u64 \<Rightarrow> trace option \<Rightarrow> trace option option" where
  "semindex_trace_end os phase start t = perf_trace_end os (Some phase) start None t"

definition semindex_trace_end_counted ::
  "trace_os \<Rightarrow> string \<Rightarrow> u64 \<Rightarrow> u64 \<Rightarrow> u64 \<Rightarrow> trace option \<Rightarrow> trace option option" where
  "semindex_trace_end_counted os phase start items_in items_out t =
     perf_trace_end os (Some phase) start (Some (items_in, items_out)) t"

definition trace_close :: "trace_os \<Rightarrow> trace option \<Rightarrow> int" where
  "trace_close os t =
     (case t of None \<Rightarrow> 0
      | Some t0 \<Rightarrow>
          let t1 = (if os_close os then t0 else trace_error t0) in if tr_failed t1 then - 1 else 0)"

section \<open>A run of the program\<close>

text \<open>
  The phases of a run, each timed from a \<open>trace_begin\<close> to its \<open>perf_trace_end\<close>, as the callers do.
\<close>

datatype phase_event = Event string "(u64 \<times> u64) option"

fun trace_phase :: "trace_os \<Rightarrow> phase_event \<Rightarrow> trace option \<Rightarrow> trace option option" where
  "trace_phase os (Event phase items) t =
     (case trace_begin os t of (start, t1) \<Rightarrow> perf_trace_end os (Some phase) start items t1)"

fun trace_run :: "trace_os \<Rightarrow> phase_event list \<Rightarrow> trace option \<Rightarrow> trace option option" where
  "trace_run os [] t = Some t"
| "trace_run os (ev # evs) t =
     (case trace_phase os ev t of None \<Rightarrow> None | Some t1 \<Rightarrow> trace_run os evs t1)"

section \<open>Lines\<close>

lemma digits_printable: "b \<le> 16 \<Longrightarrow> list_all printable (digits b n)"
proof (induction b n rule: digits.induct)
  case (1 b n)
  show ?case
  proof (cases "n < b \<or> b < 2")
    case True
    then show ?thesis by (simp add: digits.simps digit_printable)
  next
    case False
    then have "n mod b < b" by simp
    then have "n mod b < 16" using "1.prems" by simp
    moreover have "list_all printable (digits b (n div b))" using "1.IH" "1.prems" False by simp
    ultimately show ?thesis using False by (simp add: digits.simps [of b n] digit_printable)
  qed
qed

lemma decimal_printable [simp]: "list_all printable (decimal n)"
  by (simp add: decimal_def digits_printable)

text \<open>One event is one line: printable characters, then the newline.\<close>

definition is_line :: "string \<Rightarrow> bool" where
  "is_line s \<longleftrightarrow> (\<exists>body. s = body @ [CHR 0x0A] \<and> list_all printable body)"

definition ascii_trace :: "trace \<Rightarrow> bool" where
  "ascii_trace t \<longleftrightarrow> list_all printable (tr_command t) \<and> list_all printable (tr_source t)"

lemma json_string_name: "list_all printable s \<Longrightarrow> list_all (\<lambda>c. c \<noteq> quote \<and> c \<noteq> backslash) s \<Longrightarrow>
    list_all printable (json_string s)"
proof -
  assume s: "list_all printable s" "list_all (\<lambda>c. c \<noteq> quote \<and> c \<noteq> backslash) s"
  then have "concat (map escape_char s) = s"
    by (induction s) (auto simp: escape_char_def printable_def)
  with s show ?thesis by (simp add: json_string_def) (simp add: printable_def)
qed

lemma event_line_is_line:
  assumes "ascii_trace t" and "list_all printable p"
  shows "is_line (event_line os t p start stop items)"
proof -
  have names: "list_all printable (json_string s)"
    if "s \<in> {''pid'', ''command'', ''source'', ''phase'', ''start_ns'', ''duration_ns'', ''items_in'', ''items_out''}" for s
    using that by (intro json_string_name) (auto simp: printable_def)
  have "list_all printable ''{'' \<and> list_all printable '':'' \<and> list_all printable '','' \<and>
      list_all printable ''}'' \<and> list_all printable [quote]"
    by (simp add: printable_def)
  then have "list_all printable (butlast (event_line os t p start stop items))"
    using assms names
    by (cases items) (auto simp: event_line_def ascii_trace_def butlast_append split: prod.splits)
  moreover have "event_line os t p start stop items =
      butlast (event_line os t p start stop items) @ [CHR 0x0A]"
    by (simp add: event_line_def butlast_append)
  ultimately show ?thesis unfolding is_line_def by blast
qed

section \<open>The file after a run\<close>

text \<open>A line for the event, with some times.\<close>

fun line_of :: "trace_os \<Rightarrow> trace \<Rightarrow> phase_event \<Rightarrow> string \<Rightarrow> bool" where
  "line_of os t (Event phase items) l \<longleftrightarrow>
     (\<exists>start stop. l = event_line os t (json_escape phase) start stop items)"

definition logged :: "trace_os \<Rightarrow> phase_event list \<Rightarrow> trace \<Rightarrow> trace \<Rightarrow> bool" where
  "logged os evs t t1 \<longleftrightarrow>
     tr_command t1 = tr_command t \<and> tr_source t1 = tr_source t \<and>
     (\<exists>k lines tail. tr_file t1 = tr_file t @ concat lines @ tail \<and> k \<le> length evs \<and>
        list_all2 (line_of os t) (take k evs) lines \<and>
        (tail = [] \<or> tr_failed t1 \<and> (\<exists>ev \<in> set evs. \<exists>l. line_of os t ev l \<and> tail = take (length tail) l)) \<and>
        (\<not> tr_failed t1 \<longrightarrow> k = length evs))"

lemma line_of_cong:
  "tr_command t' = tr_command t \<Longrightarrow> tr_source t' = tr_source t \<Longrightarrow> line_of os t' = line_of os t"
proof (intro ext)
  fix ev l
  assume "tr_command t' = tr_command t" "tr_source t' = tr_source t"
  then show "line_of os t' ev l = line_of os t ev l" by (cases ev) (simp add: event_line_def)
qed

lemma logged_line:
  "tr_command t1 = tr_command t \<Longrightarrow> tr_source t1 = tr_source t \<Longrightarrow> tr_file t1 = tr_file t @ line \<Longrightarrow>
     line_of os t ev line \<Longrightarrow> logged os [ev] t t1"
  unfolding logged_def by (intro conjI exI [of _ 1] exI [of _ "[line]"] exI [of _ "[]"]) simp_all

lemma logged_short:
  assumes "tr_command t1 = tr_command t" and "tr_source t1 = tr_source t"
    and "tr_file t1 = tr_file t @ take n line" and "line_of os t ev line" and "tr_failed t1"
  shows "logged os [ev] t t1"
  unfolding logged_def
  using assms by (intro conjI exI [of _ 0] exI [of _ "[]"] exI [of _ "take n line"])
    (auto simp: min_def)

lemma logged_failed: "tr_failed t \<Longrightarrow> logged os evs t t"
  unfolding logged_def by (intro conjI refl exI [of _ 0] exI [of _ "[]"]) simp_all

lemma logged_error:
  "tr_command t1 = tr_command t \<Longrightarrow> tr_source t1 = tr_source t \<Longrightarrow> tr_file t1 = tr_file t \<Longrightarrow>
     tr_failed t1 \<Longrightarrow> logged os evs t t1"
  unfolding logged_def by (intro conjI exI [of _ 0] exI [of _ "[]"]) simp_all

lemma write_retry_returns:
  assumes "results m \<noteq> Interrupted" and "n \<le> m"
  shows "\<exists>k r. write_retry results n = Some (r, k) \<and> r \<noteq> Interrupted"
  using assms(2)
proof (induction "m - n" arbitrary: n)
  case 0
  then have "n = m" by simp
  with assms(1) show ?case by (simp add: write_retry.simps)
next
  case (Suc d)
  show ?case
  proof (cases "results n = Interrupted")
    case True
    then have "write_retry results n = write_retry results (Suc n)" by (simp add: write_retry.simps)
    with Suc.hyps(1) [of "Suc n"] Suc.hyps(2) show ?thesis by simp
  next
    case False
    then show ?thesis by (simp add: write_retry.simps)
  qed
qed

lemma write_line_logged:
  assumes w: "\<And>n. \<exists>m \<ge> n. os_write os m \<noteq> Interrupted"
    and l: "line_of os t ev line" and "\<not> tr_failed t"
  shows "\<exists>t1. write_line os line t = Some t1 \<and> logged os [ev] t t1"
proof -
  obtain m where "m \<ge> tr_calls t" "os_write os m \<noteq> Interrupted" using w by blast
  then obtain k r where r: "write_retry (os_write os) (tr_calls t) = Some (r, k)" "r \<noteq> Interrupted"
    using write_retry_returns by blast
  show ?thesis
  proof (cases r)
    case Interrupted
    with r show ?thesis by simp
  next
    case Write_Error
    with r show ?thesis
      by (simp add: write_line_def trace_error_def Let_def) (rule logged_error; simp)
  next
    case (Wrote n)
    show ?thesis
    proof (cases "n = length line")
      case True
      with r Wrote show ?thesis
        by (simp add: write_line_def Let_def) (rule logged_line [OF _ _ _ l]; simp)
    next
      case False
      with r Wrote show ?thesis
        by (simp add: write_line_def Let_def trace_error_def) (rule logged_short [OF _ _ _ l]; simp)
    qed
  qed
qed

lemma trace_phase_logged:
  assumes w: "\<And>n. \<exists>m \<ge> n. os_write os m \<noteq> Interrupted"
  shows "\<exists>t1. trace_phase os ev (Some t) = Some (Some t1) \<and> logged os [ev] t t1"
proof (cases "tr_failed t")
  case True
  then show ?thesis
    by (cases ev) (simp add: trace_begin_def perf_trace_end_def logged_failed)
next
  case False
  obtain phase items where ev: "ev = Event phase items" by (cases ev)
  show ?thesis
  proof (cases "os_clock os (tr_calls t)")
    case None
    then show ?thesis
      by (simp add: ev False trace_begin_def monotonic_time_def counted_call_def trace_error_def perf_trace_end_def)
        (rule logged_error; simp)
  next
    case (Some start)
    define t2 where "t2 = counted_call (counted_call t)"
    have t2: "tr_command t2 = tr_command t" "tr_source t2 = tr_source t" "tr_file t2 = tr_file t"
        "tr_failed t2 = tr_failed t" by (simp_all add: t2_def counted_call_def)
    show ?thesis
    proof (cases "os_clock os (Suc (tr_calls t))")
      case None
      with Some show ?thesis
        by (simp add: ev False trace_begin_def monotonic_time_def counted_call_def trace_error_def perf_trace_end_def)
          (rule logged_error; simp)
    next
      case (Some stop)
      define line where "line = event_line os t2 (json_escape phase) start stop items"
      define t4 where "t4 = counted_call (counted_call t2)"
      have t4: "tr_command t4 = tr_command t" "tr_source t4 = tr_source t" "tr_file t4 = tr_file t"
          "tr_failed t4 = tr_failed t" by (simp_all add: t4_def t2 counted_call_def)
      have "line_of os t4 ev line"
        by (auto simp: ev line_def event_line_def t4 t2)
      from write_line_logged [OF w this] False t4
      obtain t1 where t1: "write_line os line t4 = Some t1" "logged os [ev] t4 t1" by auto
      have "logged os [ev] t t1"
        using t1(2) unfolding logged_def line_of_cong [OF t4(1,2)] t4 .
      moreover have "trace_phase os ev (Some t) =
          (if \<not> os_malloc os (tr_calls t2) then Some (Some (trace_error (counted_call t2)))
           else if \<not> os_malloc os (tr_calls (counted_call t2)) then Some (Some (trace_error t4))
           else map_option Some (write_line os line t4))"
        using Some \<open>os_clock os (tr_calls t) = _\<close> False
        by (simp add: ev trace_begin_def perf_trace_end_def monotonic_time_def Let_def line_def t4_def t2_def
            counted_call_def)
      moreover have "logged os [ev] t (trace_error (counted_call t2))" "logged os [ev] t (trace_error t4)"
        by (rule logged_error; simp add: trace_error_def counted_call_def t2 t4)+
      ultimately show ?thesis using t1(1) by auto
    qed
  qed
qed

lemma logged_trans:
  assumes "logged os [ev] t t1" and "logged os evs t1 t2" and "tr_failed t1 \<Longrightarrow> t2 = t1"
  shows "logged os (ev # evs) t t2"
proof (cases "tr_failed t1")
  case True
  from assms(1) obtain k lines tail where *: "tr_file t1 = tr_file t @ concat lines @ tail" "k \<le> 1"
      "list_all2 (line_of os t) (take k [ev]) lines"
      "tail = [] \<or> (\<exists>l. line_of os t ev l \<and> tail = take (length tail) l)"
      "tr_command t1 = tr_command t" "tr_source t1 = tr_source t"
    by (auto simp: logged_def)
  have "take k (ev # evs) = take k [ev]" using *(2) by (cases k) auto
  with True * assms(3) show ?thesis
    unfolding logged_def by (intro conjI exI [of _ k] exI [of _ lines] exI [of _ tail]) auto
next
  case False
  with assms(1) obtain lines where 1: "tr_file t1 = tr_file t @ concat lines"
      "list_all2 (line_of os t) [ev] lines" "tr_command t1 = tr_command t" "tr_source t1 = tr_source t"
    by (auto simp: logged_def)
  from assms(2) obtain k lines' tail where 2: "tr_file t2 = tr_file t1 @ concat lines' @ tail" "k \<le> length evs"
      "list_all2 (line_of os t) (take k evs) lines'"
      "tail = [] \<or> tr_failed t2 \<and> (\<exists>ev \<in> set evs. \<exists>l. line_of os t ev l \<and> tail = take (length tail) l)"
      "\<not> tr_failed t2 \<longrightarrow> k = length evs" "tr_command t2 = tr_command t" "tr_source t2 = tr_source t"
    unfolding logged_def line_of_cong [OF 1(3,4)] 1(3,4) by (elim conjE exE) simp
  have "list_all2 (line_of os t) (take (Suc k) (ev # evs)) (lines @ lines')"
    using 1(2) 2(3) by (auto simp: list_all2_Cons1)
  with 1 2 show ?thesis
    unfolding logged_def by (intro conjI exI [of _ "Suc k"] exI [of _ "lines @ lines'"] exI [of _ tail]) auto
qed

lemma trace_phase_failed: "tr_failed t \<Longrightarrow> trace_phase os ev (Some t) = Some (Some t)"
  by (cases ev) (simp add: trace_begin_def perf_trace_end_def)

lemma trace_run_failed: "tr_failed t \<Longrightarrow> trace_run os evs (Some t) = Some (Some t)"
  by (induction evs) (simp_all add: trace_phase_failed)

lemma trace_run_logged:
  assumes w: "\<And>n. \<exists>m \<ge> n. os_write os m \<noteq> Interrupted"
  shows "\<exists>t1. trace_run os evs (Some t) = Some (Some t1) \<and> logged os evs t t1"
proof (induction evs arbitrary: t)
  case Nil
  have "logged os [] t t"
    unfolding logged_def by (intro conjI refl exI [of _ 0] exI [of _ "[]"]) simp_all
  then show ?case by simp
next
  case (Cons ev evs)
  obtain t1 where 1: "trace_phase os ev (Some t) = Some (Some t1)" "logged os [ev] t t1"
    using trace_phase_logged [OF w] by blast
  obtain t2 where 2: "trace_run os evs (Some t1) = Some (Some t2)" "logged os evs t1 t2"
    using Cons.IH by blast
  have "logged os (ev # evs) t t2"
    by (rule logged_trans [OF 1(2) 2(2)]) (use 2(1) trace_run_failed in simp)
  with 1 2 show ?case by simp
qed

text \<open>
  A trace is complete or says that it is not. The calls return whenever \<open>write\<close> is not
  interrupted forever; the file then has the lines it had, one line of ASCII for each of the
  first events in their order, and after a failed write possibly the start of one more; if
  closing reports success every event has its line and nothing else was written.
\<close>

theorem trace_complete_or_failed:
  assumes "trace_open os file path command source = Some t"
    and "\<forall>n. \<exists>m \<ge> n. os_write os m \<noteq> Interrupted"
  shows "\<exists>t1 k lines tail. trace_run os evs (Some t) = Some (Some t1) \<and>
    tr_file t1 = file @ concat lines @ tail \<and>
    list_all2 (line_of os t) (take k evs) lines \<and> list_all is_line lines \<and>
    (trace_close os (Some t1) = 0 \<longrightarrow> length lines = length evs \<and> tail = [])"
proof -
  have w: "\<And>n. \<exists>m \<ge> n. os_write os m \<noteq> Interrupted" using assms(2) by blast
  have t: "ascii_trace t" "tr_file t = file"
    using assms(1) by (auto simp: trace_open_def ascii_trace_def json_escape_printable split: option.splits if_splits)
  obtain t1 where 1: "trace_run os evs (Some t) = Some (Some t1)" "logged os evs t t1"
    using trace_run_logged [OF w] by blast
  from 1(2) t obtain k lines tail where *: "tr_file t1 = file @ concat lines @ tail" "k \<le> length evs"
      "list_all2 (line_of os t) (take k evs) lines" "tail = [] \<or> tr_failed t1"
      "\<not> tr_failed t1 \<longrightarrow> k = length evs"
    by (auto simp: logged_def)
  have "is_line l" if "line_of os t ev l" for ev l
    using that t(1) by (cases ev) (auto intro: event_line_is_line json_escape_printable)
  with *(3) have "list_all is_line lines" by (induction rule: list_all2_induct) auto
  moreover have "trace_close os (Some t1) = 0 \<longrightarrow> length lines = length evs \<and> tail = []"
    using * list_all2_lengthD [OF *(3)] by (auto simp: trace_close_def trace_error_def Let_def split: if_splits)
  ultimately show ?thesis using 1(1) * by blast
qed

definition sample_os :: trace_os where
  "sample_os = \<lparr>os_clock = (\<lambda>n. Some (of_nat n)), os_malloc = (\<lambda>_. True), os_write = (\<lambda>_. Wrote 7),
     os_open = (\<lambda>_. True), os_close = True, os_pid = 1\<rparr>"

definition sample_trace :: trace where
  "sample_trace = \<lparr>tr_command = json_escape ''index'', tr_source = json_escape ''a.c'', tr_failed = False,
     tr_file = [], tr_calls = 3\<rparr>"

theorem trace_complete_or_failed_witness:
  "\<exists>t1 k lines tail. trace_run sample_os [Event ''parse'' None, Event ''total'' None] (Some sample_trace) = Some (Some t1) \<and>
    tr_file t1 = [] @ concat lines @ tail \<and>
    list_all2 (line_of sample_os sample_trace) (take k [Event ''parse'' None, Event ''total'' None]) lines \<and>
    list_all is_line lines \<and>
    (trace_close sample_os (Some t1) = 0 \<longrightarrow>
      length lines = length [Event ''parse'' None, Event ''total'' None] \<and> tail = [])"
proof (rule trace_complete_or_failed)
  show "trace_open sample_os [] (Some ''t.json'') (Some ''index'') (Some ''a.c'') = Some sample_trace"
    by (simp add: trace_open_def sample_os_def sample_trace_def)
  show "\<forall>n. \<exists>m \<ge> n. os_write sample_os m \<noteq> Interrupted"
    by (auto simp: sample_os_def)
qed

end
