(* ===== verification/Command_Db.thy ===== *)
theory Command_Db
  imports Repository Tables Json Semindex_Types
begin

text \<open>
  \<open>lib/semindex_command_db\<close>: the database of compiler commands. A row is the key (variant,
  absolute file), the directory and the arguments, packed into one blob with a NUL byte after
  each. The theory follows the files: \<open>command_db_common.c\<close>, \<open>_writer.c\<close>, \<open>_reader.c\<close> and
  \<open>_export.c\<close>.

  A session is one connection. Between its calls other processes may commit (\<open>de_others\<close>), and
  the n-th call into SQLite may fail (\<open>de_fault\<close>); a statement that SQLite refuses, such as
  creating a table that exists, fails too.
\<close>

section \<open>The database and a session\<close>

record command_row =
  cr_variant :: string
  cr_file :: string
  cr_directory :: string
  cr_arguments :: string

definition command_key :: "command_row \<Rightarrow> string \<times> string" where
  "command_key r = (cr_variant r, cr_file r)"

record command_db =
  cd_version :: int
  cd_tables :: "string list"
  cd_rows :: "command_row list"

record db_env =
  de_fault :: "nat \<Rightarrow> bool"
  de_others :: "nat \<Rightarrow> command_db \<Rightarrow> command_db"
  de_fs :: fs
  de_mkdir_ok :: "string \<Rightarrow> bool"

record session =
  ss_shared :: command_db
  ss_txn :: "command_db option"
  ss_clock :: nat

definition db_tick :: "db_env \<Rightarrow> session \<Rightarrow> bool \<times> session" where
  "db_tick e s =
     (let s1 = (if ss_txn s = None then s\<lparr>ss_shared := de_others e (ss_clock s) (ss_shared s)\<rparr> else s)
      in (\<not> de_fault e (ss_clock s), s1\<lparr>ss_clock := Suc (ss_clock s)\<rparr>))"

definition db_current :: "session \<Rightarrow> command_db" where
  "db_current s = (case ss_txn s of Some d \<Rightarrow> d | None \<Rightarrow> ss_shared s)"

definition db_exec :: "db_env \<Rightarrow> (command_db \<Rightarrow> command_db option) \<Rightarrow> session \<Rightarrow> bool \<times> session" where
  "db_exec e stmt s =
     (case db_tick e s of
        (False, s1) \<Rightarrow> (False, s1)
      | (True, s1) \<Rightarrow>
          (case stmt (db_current s1) of
             None \<Rightarrow> (False, s1)
           | Some d \<Rightarrow> (True, case ss_txn s1 of Some _ \<Rightarrow> s1\<lparr>ss_txn := Some d\<rparr> | None \<Rightarrow> s1\<lparr>ss_shared := d\<rparr>)))"

definition db_select :: "db_env \<Rightarrow> (command_db \<Rightarrow> 'a option) \<Rightarrow> session \<Rightarrow> 'a option \<times> session" where
  "db_select e f s =
     (case db_tick e s of (False, s1) \<Rightarrow> (None, s1) | (True, s1) \<Rightarrow> (f (db_current s1), s1))"

definition db_begin :: "db_env \<Rightarrow> session \<Rightarrow> bool \<times> session" where
  "db_begin e s =
     (case db_tick e s of
        (False, s1) \<Rightarrow> (False, s1)
      | (True, s1) \<Rightarrow> (True, s1\<lparr>ss_txn := Some (ss_shared s1)\<rparr>))"

definition db_commit :: "db_env \<Rightarrow> session \<Rightarrow> bool \<times> session" where
  "db_commit e s =
     (case db_tick e s of
        (False, s1) \<Rightarrow> (False, s1)
      | (True, s1) \<Rightarrow> (case ss_txn s1 of None \<Rightarrow> (False, s1)
          | Some d \<Rightarrow> (True, s1\<lparr>ss_shared := d, ss_txn := None\<rparr>)))"

definition db_rollback :: "db_env \<Rightarrow> session \<Rightarrow> session" where
  "db_rollback e s = (case db_tick e s of (ok, s1) \<Rightarrow> if ok then s1\<lparr>ss_txn := None\<rparr> else s1)"

definition db_close :: "session \<Rightarrow> session" where
  "db_close s = s\<lparr>ss_txn := None\<rparr>"

section \<open>Common operations\<close>

definition COMMAND_DB_SCHEMA_VERSION :: int where
  "COMMAND_DB_SCHEMA_VERSION = 1"

text \<open>\<open>command_db_default_path\<close>: \<open>commands.db\<close> beside the index database.\<close>

definition command_db_default_path :: "string \<Rightarrow> string" where
  "command_db_default_path index_database =
     (case strrchr index_database slash of
        None \<Rightarrow> COMMAND_DATABASE
      | Some i \<Rightarrow> take (i + 1) index_database @ COMMAND_DATABASE)"

definition command_db_schema_version :: "db_env \<Rightarrow> session \<Rightarrow> int option \<times> session" where
  "command_db_schema_version e s = db_select e (\<lambda>d. Some (cd_version d)) s"

definition command_db_open_reader :: "db_env \<Rightarrow> session \<Rightarrow> int \<times> session" where
  "command_db_open_reader e s =
     (case db_tick e s of
        (False, s1) \<Rightarrow> (- 1, s1)
      | (True, s1) \<Rightarrow>
     (case command_db_schema_version e s1 of
        (None, s2) \<Rightarrow> (- 1, s2)
      | (Some version, s2) \<Rightarrow>
          if version \<noteq> COMMAND_DB_SCHEMA_VERSION then (- 1, s2) else (0, s2)))"

definition command_db_absolute_path :: "fs \<Rightarrow> string \<Rightarrow> string \<Rightarrow> string" where
  "command_db_absolute_path fs directory path =
     (let joined = (if path \<noteq> [] \<and> hd path = slash then path else directory @ ''/'' @ path)
      in case fs_realpath fs joined of None \<Rightarrow> joined | Some r \<Rightarrow> r)"

section \<open>Writing\<close>

definition commands_table :: string where
  "commands_table = ''commands''"

definition create_commands :: "command_db \<Rightarrow> command_db option" where
  "create_commands d =
     (if commands_table \<in> set (cd_tables d) then None
      else Some (d\<lparr>cd_tables := cd_tables d @ [commands_table], cd_rows := []\<rparr>))"

definition set_version :: "command_db \<Rightarrow> command_db option" where
  "set_version d = Some (d\<lparr>cd_version := 1\<rparr>)"

definition return_commit :: "db_env \<Rightarrow> session \<Rightarrow> int \<times> session" where
  "return_commit e s = (case db_commit e s of (ok, s1) \<Rightarrow> (if ok then 0 else - 1, s1))"

definition command_init_schema :: "db_env \<Rightarrow> session \<Rightarrow> int \<times> session" where
  "command_init_schema e s =
     (case command_db_schema_version e s of
        (None, s1) \<Rightarrow> (- 1, s1)
      | (Some version, s1) \<Rightarrow>
     if version = COMMAND_DB_SCHEMA_VERSION then (0, s1)
     else if version \<noteq> 0 then (- 1, s1)
     else
     (case db_begin e s1 of
        (False, s2) \<Rightarrow> (- 1, s2)
      | (True, s2) \<Rightarrow>
     (case command_db_schema_version e s2 of
        (None, s3) \<Rightarrow> (- 1, db_rollback e s3)
      | (Some version', s3) \<Rightarrow>
     if version' = COMMAND_DB_SCHEMA_VERSION then return_commit e s3
     else
     (case db_exec e create_commands s3 of
        (False, s4) \<Rightarrow> (- 1, db_rollback e s4)
      | (True, s4) \<Rightarrow>
     (case db_exec e set_version s4 of
        (False, s5) \<Rightarrow> (- 1, db_rollback e s5)
      | (True, s5) \<Rightarrow> return_commit e s5)))))"

definition pragma_statement :: "command_db \<Rightarrow> command_db option" where
  "pragma_statement d = Some d"

text \<open>The parent directory, then open, busy timeout and the two pragmas.\<close>

definition command_open_writer :: "db_env \<Rightarrow> string \<Rightarrow> session \<Rightarrow> int \<times> session" where
  "command_open_writer e path s =
     (if \<not> de_mkdir_ok e path then (- 1, s)
      else
      (case db_tick e s of
         (False, s1) \<Rightarrow> (- 1, s1)
       | (True, s1) \<Rightarrow>
      (case db_exec e pragma_statement s1 of
         (False, s2) \<Rightarrow> (- 1, s2)
       | (True, s2) \<Rightarrow>
      (case db_exec e pragma_statement s2 of
         (False, s3) \<Rightarrow> (- 1, s3)
       | (True, s3) \<Rightarrow> if fst (command_init_schema e s3) < 0 then (- 1, snd (command_init_schema e s3))
           else (0, snd (command_init_schema e s3))))))"

definition SIZE_MAX :: nat where
  "SIZE_MAX = 2 ^ 64 - 1"

text \<open>The first loop of \<open>pack_arguments\<close> computes the size and refuses an overflow.\<close>

fun packed_size :: "nat \<Rightarrow> string list \<Rightarrow> nat option" where
  "packed_size n [] = Some n"
| "packed_size n (a # rest) =
     (if length a + 1 > SIZE_MAX - n then None else packed_size (n + (length a + 1)) rest)"

definition pack_arguments :: "string list \<Rightarrow> string option" where
  "pack_arguments argv =
     (case packed_size 0 argv of None \<Rightarrow> None | Some _ \<Rightarrow> Some (concat (map (\<lambda>a. a @ [NUL]) argv)))"

definition upsert_command :: "command_row \<Rightarrow> command_db \<Rightarrow> command_db option" where
  "upsert_command r d =
     (if commands_table \<notin> set (cd_tables d) then None
      else Some (d\<lparr>cd_rows := upsert command_key
        (\<lambda>x r. x\<lparr>cr_directory := cr_directory r, cr_arguments := cr_arguments r\<rparr>) r (cd_rows d)\<rparr>))"

text \<open>\<open>SELECT\<close> and \<open>INSERT\<close> can only be prepared when the table is there.\<close>

definition prepare_commands :: "command_db \<Rightarrow> unit option" where
  "prepare_commands d = (if commands_table \<in> set (cd_tables d) then Some () else None)"

definition command_db_store ::
  "db_env \<Rightarrow> string option \<Rightarrow> string option \<Rightarrow> string option \<Rightarrow> string option \<Rightarrow> string list option
     \<Rightarrow> session \<Rightarrow> int \<times> session" where
  "command_db_store e path variant directory file argv s =
     (case (path, directory, file, argv) of
        (Some p, Some dir, Some f, Some args) \<Rightarrow>
          if \<not> nonempty variant \<or> args = [] then (- 1, s)
          else
          let abs_directory = (case fs_realpath (de_fs e) dir of None \<Rightarrow> dir | Some r \<Rightarrow> r);
              abs_file = command_db_absolute_path (de_fs e) abs_directory f
          in (case pack_arguments args of
                None \<Rightarrow> (- 1, s)
              | Some blob \<Rightarrow>
             (case command_open_writer e p s of (opened, s1) \<Rightarrow>
              if opened < 0 then (- 1, db_close s1)
              else
             (case db_select e prepare_commands s1 of
                (None, s2) \<Rightarrow> (- 1, db_close s2)
              | (Some _, s2) \<Rightarrow>
             (case db_exec e (upsert_command \<lparr>cr_variant = or_empty variant, cr_file = abs_file,
                    cr_directory = abs_directory, cr_arguments = blob\<rparr>) s2 of
                (ok, s3) \<Rightarrow> (if ok then 0 else - 1, db_close s3)))))
      | _ \<Rightarrow> (- 1, s))"

section \<open>Reading\<close>

record loaded_command =
  lc_directory :: string
  lc_file :: string
  lc_argv :: "string list"

text \<open>The loop that sets the pointers of \<open>argv\<close> to the strings in the copy of the blob.\<close>

fun take_strings :: "nat \<Rightarrow> string \<Rightarrow> string list" where
  "take_strings 0 blob = []"
| "take_strings (Suc argc) blob =
     takeWhile (\<lambda>c. c \<noteq> NUL) blob # take_strings argc (drop 1 (dropWhile (\<lambda>c. c \<noteq> NUL) blob))"

definition unpack_arguments :: "string \<Rightarrow> string list option" where
  "unpack_arguments blob =
     (if blob = [] \<or> List.last blob \<noteq> NUL then None
      else let argc = length (filter (\<lambda>c. c = NUL) blob) in Some (take_strings argc blob))"

definition select_command :: "string \<Rightarrow> string \<Rightarrow> command_db \<Rightarrow> command_row option" where
  "select_command variant file d = find (\<lambda>r. command_key r = (variant, file)) (cd_rows d)"

text \<open>Zero when found, one when absent, minus one on error.\<close>

definition command_db_load ::
  "db_env \<Rightarrow> string option \<Rightarrow> string option \<Rightarrow> string option \<Rightarrow> session
     \<Rightarrow> int \<times> loaded_command option \<times> session" where
  "command_db_load e path variant file s =
     (case (path, file) of
        (Some p, Some f) \<Rightarrow>
          if \<not> nonempty variant then (- 1, None, s)
          else
          let abs_file = command_db_absolute_path (de_fs e) ''.'' f in
          (case command_db_open_reader e s of (opened, s1) \<Rightarrow>
           if opened < 0 then (- 1, None, db_close s1)
           else
          (case db_select e prepare_commands s1 of
             (None, s2) \<Rightarrow> (- 1, None, db_close s2)
           | (Some _, s2) \<Rightarrow>
          (case db_select e (\<lambda>d. Some (select_command (or_empty variant) abs_file d)) s2 of
             (None, s3) \<Rightarrow> (- 1, None, db_close s3)
           | (Some None, s3) \<Rightarrow> (1, None, db_close s3)
           | (Some (Some r), s3) \<Rightarrow>
               (case unpack_arguments (cr_arguments r) of
                  None \<Rightarrow> (- 1, None, db_close s3)
                | Some argv \<Rightarrow> (0, Some \<lparr>lc_directory = cr_directory r, lc_file = cr_file r, lc_argv = argv\<rparr>,
                    db_close s3)))))
      | _ \<Rightarrow> (- 1, None, s))"

section \<open>Export\<close>

text \<open>The loop of \<open>write_arguments\<close>; an argument without its NUL byte is malformed.\<close>

function write_argument_loop :: "sink \<Rightarrow> bool \<Rightarrow> string \<Rightarrow> stream \<Rightarrow> bool \<times> stream" where
  "write_argument_loop sk first blob out =
     (if blob = [] then (True, out)
      else case strchr blob NUL of
        None \<Rightarrow> (False, out)
      | Some i \<Rightarrow>
          (case (if first then (True, out) else fput sk '', '' out) of
             (False, out1) \<Rightarrow> (False, out1)
           | (True, out1) \<Rightarrow>
          (case write_json_string sk (take i blob) out1 of
             (False, out2) \<Rightarrow> (False, out2)
           | (True, out2) \<Rightarrow> write_argument_loop sk False (drop (i + 1) blob) out2)))"
  by pat_completeness auto
termination by (relation "measure (\<lambda>(sk, first, blob, out). length blob)") auto

declare write_argument_loop.simps [simp del]

definition write_arguments :: "sink \<Rightarrow> string \<Rightarrow> stream \<Rightarrow> bool \<times> stream" where
  "write_arguments sk blob out =
     (case fput sk ''['' out of
        (False, out1) \<Rightarrow> (False, out1)
      | (True, out1) \<Rightarrow>
     (case write_argument_loop sk True blob out1 of
        (False, out2) \<Rightarrow> (False, out2)
      | (True, out2) \<Rightarrow> fput sk '']'' out2))"

text \<open>Checked steps one after the other, as the chain of \<open>||\<close> in \<open>command_db_export\<close>.\<close>

definition in_order :: "(stream \<Rightarrow> bool \<times> stream) list \<Rightarrow> stream \<Rightarrow> bool \<times> stream" where
  "in_order steps = for_each (\<lambda>f. f) steps"

definition write_command :: "sink \<Rightarrow> bool \<Rightarrow> command_row \<Rightarrow> stream \<Rightarrow> bool \<times> stream" where
  "write_command sk first r =
     in_order ((if first then [] else [fput sk ('','' @ newline)]) @
       [fput sk (''  {'' @ newline @ ''    '' @ json_string ''directory'' @ '': ''),
        write_json_string sk (cr_directory r),
        fput sk ('','' @ newline @ ''    '' @ json_string ''file'' @ '': ''),
        write_json_string sk (cr_file r),
        fput sk ('','' @ newline @ ''    '' @ json_string ''arguments'' @ '': ''),
        write_arguments sk (cr_arguments r),
        fput sk (newline @ ''  }'')])"

fun write_commands :: "sink \<Rightarrow> bool \<Rightarrow> command_row list \<Rightarrow> stream \<Rightarrow> bool \<times> stream" where
  "write_commands sk first [] out = (True, out)"
| "write_commands sk first (r # rs) out =
     (case write_command sk first r out of
        (False, out1) \<Rightarrow> (False, out1)
      | (True, out1) \<Rightarrow> write_commands sk False rs out1)"

definition export_rows :: "string \<Rightarrow> command_db \<Rightarrow> command_row list" where
  "export_rows variant d = sort_key cr_file (filter (\<lambda>r. cr_variant r = variant) (cd_rows d))"

text \<open>
  \<open>steps\<close> says how many rows the statement delivers before stepping fails, if it does.
\<close>

definition command_db_export ::
  "db_env \<Rightarrow> sink \<Rightarrow> nat option \<Rightarrow> string option \<Rightarrow> string option \<Rightarrow> session \<Rightarrow> stream
     \<Rightarrow> int \<times> session \<times> stream" where
  "command_db_export e sk steps path variant s out =
     (if path = None \<or> \<not> nonempty variant then (- 1, s, out)
      else
      (case command_db_open_reader e s of (opened, s1) \<Rightarrow>
       if opened < 0 then (- 1, db_close s1, out)
       else
      (case db_select e prepare_commands s1 of
         (None, s2) \<Rightarrow> (- 1, db_close s2, out)
       | (Some _, s2) \<Rightarrow>
      (case fput sk (''['' @ newline) out of
         (False, out1) \<Rightarrow> (- 1, db_close s2, out1)
       | (True, out1) \<Rightarrow>
      (case db_select e (\<lambda>d. Some (export_rows (or_empty variant) d)) s2 of
         (None, s3) \<Rightarrow> (- 1, db_close s3, out1)
       | (Some rows, s3) \<Rightarrow>
      (case write_commands sk True (case steps of None \<Rightarrow> rows | Some k \<Rightarrow> take k rows) out1 of
         (False, out2) \<Rightarrow> (- 1, db_close s3, out2)
       | (True, out2) \<Rightarrow>
      if steps \<noteq> None then (- 1, db_close s3, out2)
      else
      (case fput sk (newline @ '']'' @ newline) out2 of
         (ok, out3) \<Rightarrow> (if \<not> ok \<or> o_error out3 then - 1 else 0, db_close s3, out3))))))))"

end
