(* ===== verification/Git.thy ===== *)
theory Git
  imports Repository
begin

text \<open>
  \<open>lib/semindex_git\<close>: the root and commit of the repository of a file (\<open>git_provenance.c\<close>), the
  loader that reaches this backend through \<open>dlopen\<close> (\<open>git_provenance_loader.c\<close>) and the
  stub that replaces both in a build without libgit2.

  libgit2 and the dynamic loader are parameters: a record of the calls, with handles of one
  type. The state counts what has to be balanced: initialisations of libgit2 and loaded
  backends.
\<close>

section \<open>The library\<close>

record 'h git_lib =
  git_open_ext :: "string \<Rightarrow> 'h option"
  git_open :: "string \<Rightarrow> 'h option"
  git_workdir :: "'h \<Rightarrow> string option"
  git_head :: "'h \<Rightarrow> 'h option"
  git_peel_commit :: "'h \<Rightarrow> 'h option"
  git_oid_str :: "'h \<Rightarrow> string option"
  git_oid_fromstr :: "string \<Rightarrow> 'h option"
  git_commit_lookup :: "'h \<Rightarrow> 'h \<Rightarrow> 'h option"
  git_commit_tree :: "'h \<Rightarrow> 'h option"
  git_entry_bypath :: "'h \<Rightarrow> string \<Rightarrow> 'h option"
  git_entry_is_blob :: "'h \<Rightarrow> bool"
  git_blob_lookup :: "'h \<Rightarrow> 'h \<Rightarrow> 'h option"
  git_blob_content :: "'h \<Rightarrow> string"

record git_state =
  gs_inits :: int
  gs_backends :: int

definition git_init :: "git_state \<Rightarrow> git_state" where
  "git_init s = s\<lparr>gs_inits := gs_inits s + 1\<rparr>"

definition git_shutdown :: "git_state \<Rightarrow> git_state" where
  "git_shutdown s = s\<lparr>gs_inits := gs_inits s - 1\<rparr>"

section \<open>Provenance\<close>

definition source_directory :: "fs \<Rightarrow> string \<Rightarrow> string option" where
  "source_directory fs path =
     (case fs_realpath fs path of
        None \<Rightarrow> None
      | Some directory \<Rightarrow>
          if (case fs_stat fs directory of None \<Rightarrow> False | Some st \<Rightarrow> stat_is_dir st) then Some directory
          else (case strrchr directory slash of
             None \<Rightarrow> None
           | Some 0 \<Rightarrow> Some (take 1 directory)
           | Some i \<Rightarrow> Some (take i directory)))"

definition git_repository_root :: "fs \<Rightarrow> 'h git_lib \<Rightarrow> 'h \<Rightarrow> string option" where
  "git_repository_root fs lib repository =
     (case git_workdir lib repository of
        None \<Rightarrow> None
      | Some workdir \<Rightarrow>
          (case fs_realpath fs workdir of
             None \<Rightarrow> None
           | Some root \<Rightarrow>
               if 1 < length root \<and> root ! (length root - 1) = slash
               then Some (take (length root - 1) root) else Some root))"

definition repository_commit :: "'h git_lib \<Rightarrow> 'h \<Rightarrow> string option" where
  "repository_commit lib repository =
     (case git_head lib repository of
        None \<Rightarrow> None
      | Some head \<Rightarrow>
          (case git_peel_commit lib head of None \<Rightarrow> None | Some object \<Rightarrow> git_oid_str lib object))"

record provenance_data =
  pd_repository_root :: "string option"
  pd_commit :: "string option"

definition no_provenance :: provenance_data where
  "no_provenance = \<lparr>pd_repository_root = None, pd_commit = None\<rparr>"

definition backend_provenance ::
  "fs \<Rightarrow> 'h git_lib \<Rightarrow> string \<Rightarrow> git_state \<Rightarrow> int \<times> provenance_data \<times> git_state" where
  "backend_provenance fs lib path s =
     (case source_directory fs path of
        None \<Rightarrow> (- 1, no_provenance, s)
      | Some directory \<Rightarrow>
          let s1 = git_init s in
          (case git_open_ext lib directory of
             None \<Rightarrow> (0, no_provenance, git_shutdown s1)
           | Some repository \<Rightarrow>
               (0, \<lparr>pd_repository_root = git_repository_root fs lib repository,
                    pd_commit = repository_commit lib repository\<rparr>, git_shutdown s1)))"

section \<open>Blobs\<close>

record blob_data =
  bd_content :: "string option"
  bd_object :: bool

definition no_blob :: blob_data where
  "no_blob = \<lparr>bd_content = None, bd_object = False\<rparr>"

text \<open>
  \<open>semindex_git_backend_blob\<close>: 0 with the content, 1 when it is unavailable, -1 on error. The
  library stays initialised only with a result of 0.
\<close>

definition backend_blob_result :: "'h git_lib \<Rightarrow> string \<Rightarrow> string \<Rightarrow> string \<Rightarrow> int \<times> blob_data" where
  "backend_blob_result lib root commit path =
     (case git_open lib root of
        None \<Rightarrow> (1, no_blob)
      | Some repository \<Rightarrow>
     (case git_oid_fromstr lib commit of
        None \<Rightarrow> (- 1, no_blob)
      | Some oid \<Rightarrow>
     (case git_commit_lookup lib repository oid of
        None \<Rightarrow> (1, no_blob)
      | Some commit_object \<Rightarrow>
     (case git_commit_tree lib commit_object of
        None \<Rightarrow> (- 1, no_blob)
      | Some tree \<Rightarrow>
     (case git_entry_bypath lib tree path of
        None \<Rightarrow> (1, no_blob)
      | Some entry \<Rightarrow>
          if \<not> git_entry_is_blob lib entry then (1, no_blob)
          else
          (case git_blob_lookup lib repository entry of
             None \<Rightarrow> (- 1, no_blob)
           | Some object \<Rightarrow> (0, \<lparr>bd_content = Some (git_blob_content lib object), bd_object = True\<rparr>)))))))"

definition backend_blob ::
  "'h git_lib \<Rightarrow> string \<Rightarrow> string \<Rightarrow> string \<Rightarrow> git_state \<Rightarrow> int \<times> blob_data \<times> git_state" where
  "backend_blob lib root commit path s =
     (let s1 = git_init s in
      case backend_blob_result lib root commit path of (ret, blob) \<Rightarrow>
        (ret, blob, if ret \<noteq> 0 then git_shutdown s1 else s1))"

definition backend_blob_destroy :: "blob_data \<Rightarrow> git_state \<Rightarrow> blob_data \<times> git_state" where
  "backend_blob_destroy blob s = (no_blob, git_shutdown s)"

section \<open>The loader\<close>

text \<open>What \<open>dlopen\<close> and \<open>dlsym\<close> find: the backend and its two symbols.\<close>

record loader =
  ld_backend :: bool
  ld_load :: bool
  ld_destroy :: bool

record loaded_provenance =
  lp_data :: provenance_data
  lp_backend :: bool
  lp_destroy :: bool

definition no_loaded :: loaded_provenance where
  "no_loaded = \<lparr>lp_data = no_provenance, lp_backend = False, lp_destroy = False\<rparr>"

definition backend_open :: "git_state \<Rightarrow> git_state" where
  "backend_open s = s\<lparr>gs_backends := gs_backends s + 1\<rparr>"

definition backend_close :: "git_state \<Rightarrow> git_state" where
  "backend_close s = s\<lparr>gs_backends := gs_backends s - 1\<rparr>"

definition git_provenance ::
  "loader \<Rightarrow> fs \<Rightarrow> 'h git_lib \<Rightarrow> string \<Rightarrow> git_state \<Rightarrow> int \<times> loaded_provenance \<times> git_state" where
  "git_provenance ld fs lib path s =
     (if \<not> ld_backend ld then (- 1, no_loaded, s)
      else
      let s1 = backend_open s in
      if \<not> ld_load ld \<or> \<not> ld_destroy ld then (- 1, no_loaded, backend_close s1)
      else (case backend_provenance fs lib path s1 of (ret, data, s2) \<Rightarrow>
        (ret, \<lparr>lp_data = data, lp_backend = True, lp_destroy = True\<rparr>, s2)))"

definition git_provenance_destroy :: "loaded_provenance \<Rightarrow> git_state \<Rightarrow> loaded_provenance \<times> git_state" where
  "git_provenance_destroy p s = (no_loaded, if lp_backend p then backend_close s else s)"

record loaded_blob =
  lb_data :: blob_data
  lb_backend :: bool
  lb_destroy :: bool

definition no_loaded_blob :: loaded_blob where
  "no_loaded_blob = \<lparr>lb_data = no_blob, lb_backend = False, lb_destroy = False\<rparr>"

definition git_blob ::
  "loader \<Rightarrow> 'h git_lib \<Rightarrow> string \<Rightarrow> string \<Rightarrow> string \<Rightarrow> git_state \<Rightarrow> int \<times> loaded_blob \<times> git_state" where
  "git_blob ld lib root commit path s =
     (if \<not> ld_backend ld then (1, no_loaded_blob, s)
      else
      let s1 = backend_open s in
      if \<not> ld_load ld \<or> \<not> ld_destroy ld then (- 1, no_loaded_blob, backend_close s1)
      else (case backend_blob lib root commit path s1 of (ret, data, s2) \<Rightarrow>
        (ret, \<lparr>lb_data = data, lb_backend = True, lb_destroy = True\<rparr>, s2)))"

definition git_blob_destroy :: "loaded_blob \<Rightarrow> git_state \<Rightarrow> loaded_blob \<times> git_state" where
  "git_blob_destroy b s =
     (let s1 = (if lb_destroy b then snd (backend_blob_destroy (lb_data b) s) else s)
      in (no_loaded_blob, if lb_backend b then backend_close s1 else s1))"

text \<open>The stub: no provenance and no blob.\<close>

definition stub_provenance :: "int \<times> loaded_provenance" where
  "stub_provenance = (- 1, no_loaded)"

definition stub_blob :: "int \<times> loaded_blob" where
  "stub_blob = (1, no_loaded_blob)"

section \<open>Balance\<close>

lemma init_shutdown [simp]: "git_shutdown (git_init s) = s"
  by (simp add: git_init_def git_shutdown_def)

lemma open_close [simp]: "backend_close (backend_open s) = s"
  by (simp add: backend_open_def backend_close_def)

lemma shutdown_open [simp]: "backend_close (git_shutdown (git_init (backend_open s))) = s"
  by simp

lemma backend_provenance_state: "snd (snd (backend_provenance fs lib path s)) = s"
  by (simp add: backend_provenance_def Let_def split: option.split)

text \<open>The directory is the path itself or the longest one above it, never a relative name.\<close>

lemma source_directory_prefix:
  "source_directory fs path = Some d \<Longrightarrow> fs_realpath fs path = Some p \<Longrightarrow> starts_with d p"
  by (auto simp: source_directory_def starts_with_append split: option.splits if_splits nat.splits)
    (metis append_take_drop_id)+

text \<open>
  The provenance of a file is looked up and given back in balance: after the lookup and the
  destruction of its result libgit2 is initialised and the backend loaded as often as before,
  and for a blob the same holds when its content is delivered.
\<close>

theorem git_calls_balanced:
  "(case git_provenance ld fs lib path s of (ret, p, s1) \<Rightarrow> snd (git_provenance_destroy p s1) = s) \<and>
   (case git_blob ld lib root commit path s of (ret, b, s1) \<Rightarrow>
      ret = 0 \<longrightarrow> snd (git_blob_destroy b s1) = s)"
proof
  show "case git_provenance ld fs lib path s of (ret, p, s1) \<Rightarrow> snd (git_provenance_destroy p s1) = s"
    using backend_provenance_state [of fs lib path "backend_open s"]
    by (auto simp: git_provenance_def git_provenance_destroy_def no_loaded_def Let_def split: prod.splits)
  show "case git_blob ld lib root commit path s of (ret, b, s1) \<Rightarrow> ret = 0 \<longrightarrow> snd (git_blob_destroy b s1) = s"
    by (auto simp: git_blob_def git_blob_destroy_def backend_blob_def backend_blob_destroy_def Let_def
        split: prod.splits)
qed

definition sample_git :: "nat git_lib" where
  "sample_git = \<lparr>git_open_ext = (\<lambda>_. Some 0), git_open = (\<lambda>_. Some 0), git_workdir = (\<lambda>_. Some ''/r/''),
     git_head = Some, git_peel_commit = Some, git_oid_str = (\<lambda>_. Some ''c0ffee''), git_oid_fromstr = (\<lambda>_. Some 1),
     git_commit_lookup = (\<lambda>_ _. Some 2), git_commit_tree = Some,
     git_entry_bypath = (\<lambda>_ p. if p = ''a.c'' then Some 3 else None), git_entry_is_blob = (\<lambda>_. True),
     git_blob_lookup = (\<lambda>_ _. Some 4), git_blob_content = (\<lambda>_. ''int x;'')\<rparr>"

definition sample_loader :: loader where
  "sample_loader = \<lparr>ld_backend = True, ld_load = True, ld_destroy = True\<rparr>"

theorem git_calls_balanced_witness:
  "fst (git_blob sample_loader sample_git ''/r'' ''c0ffee'' ''a.c'' \<lparr>gs_inits = 0, gs_backends = 0\<rparr>) = 0 \<and>
   (case git_blob sample_loader sample_git ''/r'' ''c0ffee'' ''a.c'' \<lparr>gs_inits = 0, gs_backends = 0\<rparr> of
      (ret, b, s1) \<Rightarrow> snd (git_blob_destroy b s1) = \<lparr>gs_inits = 0, gs_backends = 0\<rparr>)"
proof -
  have "fst (git_blob sample_loader sample_git ''/r'' ''c0ffee'' ''a.c'' \<lparr>gs_inits = 0, gs_backends = 0\<rparr>) = 0"
    by (simp add: git_blob_def backend_blob_def backend_blob_result_def sample_loader_def sample_git_def Let_def)
  then show ?thesis
    using git_calls_balanced [where ld = sample_loader and lib = sample_git and
        s = "\<lparr>gs_inits = 0, gs_backends = 0\<rparr>" and root = "''/r''" and commit = "''c0ffee''" and path = "''a.c''"]
    by (auto split: prod.splits)
qed

text \<open>
  It does not hold for a blob that is unavailable: the loaded backend shuts libgit2 down
  itself before it returns 1, and the destruction of that result, which the caller is to do,
  shuts it down a second time.
\<close>

theorem unavailable_blob_shuts_down_twice:
  assumes "ld_backend ld" and "ld_load ld" and "ld_destroy ld"
    and "git_open lib root = None"
  shows "\<exists>b s1. git_blob ld lib root commit path s = (1, b, s1) \<and>
    gs_inits (snd (git_blob_destroy b s1)) = gs_inits s - 1 \<and>
    gs_backends (snd (git_blob_destroy b s1)) = gs_backends s"
  using assms
  by (simp add: git_blob_def backend_blob_def backend_blob_result_def git_blob_destroy_def
      backend_blob_destroy_def git_init_def git_shutdown_def backend_open_def backend_close_def Let_def)

theorem unavailable_blob_shuts_down_twice_witness:
  "\<exists>b s1. git_blob \<lparr>ld_backend = True, ld_load = True, ld_destroy = True\<rparr>
      \<lparr>git_open_ext = (\<lambda>_. None), git_open = (\<lambda>_. None), git_workdir = (\<lambda>_ :: nat. None), git_head = (\<lambda>_. None),
        git_peel_commit = (\<lambda>_. None), git_oid_str = (\<lambda>_. None), git_oid_fromstr = (\<lambda>_. None),
        git_commit_lookup = (\<lambda>_ _. None), git_commit_tree = (\<lambda>_. None), git_entry_bypath = (\<lambda>_ _. None),
        git_entry_is_blob = (\<lambda>_. False), git_blob_lookup = (\<lambda>_ _. None), git_blob_content = (\<lambda>_. [])\<rparr>
      ''/r'' ''abc'' ''a.c'' \<lparr>gs_inits = 0, gs_backends = 0\<rparr> = (1, b, s1) \<and>
    gs_inits (snd (git_blob_destroy b s1)) = gs_inits \<lparr>gs_inits = 0, gs_backends = 0\<rparr> - 1 \<and>
    gs_backends (snd (git_blob_destroy b s1)) = gs_backends \<lparr>gs_inits = 0, gs_backends = 0\<rparr>"
  by (rule unavailable_blob_shuts_down_twice) simp_all

end
