(* ===== verification/Pipeline.thy ===== *)
theory Pipeline
  imports Index_Merge Command_Db Git
begin

text \<open>
  \<open>lib/semindex_pipeline/index_pipeline.c\<close>: from a compiler command or a source file to the two
  databases. The Clang frontend (\<open>semindex_index_command\<close>, \<open>semindex_index_file\<close>) and the
  fingerprints it builds are parameters, given by what they produce; the store operations of
  both databases and the Git lookup are the ones modelled in this development.
\<close>

section \<open>Requests and results\<close>

datatype pipeline_input = PIPELINE_COMMAND | PIPELINE_COMPILE_COMMANDS
datatype pipeline_storage = OUTPUT_ONLY | STORE_SYMBOLS | STORE_SYMBOLS_AND_COMMAND
datatype pipeline_partial = STORE_PARTIAL | RETURN_PARTIAL
datatype git_commit_mode = GIT_COMMIT_DISABLED | GIT_COMMIT_AUTO | GIT_COMMIT_EXPLICIT
datatype pipeline_stage = STAGE_NONE | STAGE_CREATE | STAGE_REPOSITORY_ROOT | STAGE_FRONTEND
  | STAGE_FINGERPRINT | STAGE_SYMBOL_DATABASE | STAGE_COMMAND_DATABASE

record pipeline_request =
  pr_input :: pipeline_input
  pr_storage :: pipeline_storage
  pr_partial :: pipeline_partial
  pr_command :: "compile_command option"
  pr_compile_commands :: "string option"
  pr_source_file :: "string option"
  pr_symbol_database :: "string option"
  pr_commands_database :: "string option"
  pr_variant :: "string option"
  pr_repository_root :: "string option"
  pr_git_commit :: "string option"
  pr_scope :: scope
  pr_git_commit_mode :: git_commit_mode
  pr_include_local :: bool
  pr_details :: bool

record pipeline_result =
  rs_created :: bool
  rs_frontend :: "index_result option"
  rs_command :: "compile_command option"
  rs_failed_stage :: pipeline_stage
  rs_persisted :: pipeline_storage
  rs_frontend_ret :: int

definition empty_result :: pipeline_result where
  "empty_result = \<lparr>rs_created = False, rs_frontend = None, rs_command = None,
     rs_failed_stage = STAGE_NONE, rs_persisted = OUTPUT_ONLY, rs_frontend_ret = 0\<rparr>"

record points_to_stats =
  indirect_callsites :: nat
  identified_callsites :: nat
  direct_constraints :: nat
  unique_direct_constraints :: nat
  copy_constraints :: nat
  unique_copy_constraints :: nat
  rejected_constraints :: nat
  unsupported_constraints :: nat
  pointer_identities :: nat
  function_identities :: nat

text \<open>What the frontend makes of a request: the handle, its results and the index behind it.\<close>

record frontend =
  fe_created :: bool
  fe_command_ret :: int
  fe_file_ret :: int
  fe_result :: "index_result option"
  fe_stats :: "points_to_stats option"
  fe_compile_command :: "compile_command option"
  fe_fingerprints_ret :: int
  fe_index :: index

text \<open>The two databases, the trace (in \<open>pw_index\<close>) and the state of libgit2.\<close>

record pipeline_world =
  pw_index :: world
  pw_commands :: session
  pw_git :: git_state

record pipeline_env =
  pe_index :: env
  pe_commands :: db_env
  pe_provenance :: "string option \<Rightarrow> git_state \<Rightarrow> int \<times> loaded_provenance \<times> git_state"

section \<open>The stages\<close>

definition run_frontend :: "pipeline_request \<Rightarrow> frontend \<Rightarrow> int" where
  "run_frontend request fe =
     (case pr_input request of PIPELINE_COMMAND \<Rightarrow> fe_command_ret fe | PIPELINE_COMPILE_COMMANDS \<Rightarrow> fe_file_ret fe)"

definition store_command ::
  "db_env \<Rightarrow> pipeline_request \<Rightarrow> compile_command option \<Rightarrow> session \<Rightarrow> int \<times> session" where
  "store_command e request command s =
     (case command of None \<Rightarrow> (- 1, s)
      | Some c \<Rightarrow> command_db_store e (pr_commands_database request) (pr_variant request)
          (cc_directory c) (Some (cc_file c)) (Some (cc_argv c)) s)"

definition trace_points_to :: "points_to_stats option \<Rightarrow> world \<Rightarrow> world" where
  "trace_points_to stats w =
     (case stats of None \<Rightarrow> w
      | Some st \<Rightarrow>
          trace_end_counted ''points_to.identities'' (pointer_identities st) (function_identities st)
         (trace_end_counted ''points_to.unsupported'' (unsupported_constraints st) 0
         (trace_end_counted ''points_to.rejected'' (rejected_constraints st) 0
         (trace_end_counted ''points_to.copies'' (copy_constraints st) (unique_copy_constraints st)
         (trace_end_counted ''points_to.direct'' (direct_constraints st) (unique_direct_constraints st)
         (trace_end_counted ''points_to.callsites'' (indirect_callsites st) (identified_callsites st) w))))))"

definition pipeline_trace :: "string \<Rightarrow> pipeline_world \<Rightarrow> pipeline_world" where
  "pipeline_trace phase pw = pw\<lparr>pw_index := trace_end phase (pw_index pw)\<rparr>"

text \<open>The root and the commit to store with the variant.\<close>

definition choose_root ::
  "fs \<Rightarrow> pipeline_request \<Rightarrow> string option \<Rightarrow> loaded_provenance \<Rightarrow> string option" where
  "choose_root fs request explicit git =
     (let root = (if explicit = None then pd_repository_root (lp_data git) else explicit)
      in if root = None then root_string (repository_root fs (pr_source_file request)) else root)"

definition choose_commit :: "pipeline_request \<Rightarrow> loaded_provenance \<Rightarrow> string option" where
  "choose_commit request git =
     (case pr_git_commit_mode request of
        GIT_COMMIT_EXPLICIT \<Rightarrow> pr_git_commit request
      | GIT_COMMIT_AUTO \<Rightarrow> pd_commit (lp_data git)
      | GIT_COMMIT_DISABLED \<Rightarrow> None)"

definition index_store_request ::
  "pipeline_request \<Rightarrow> frontend \<Rightarrow> string option \<Rightarrow> string option \<Rightarrow> store_request" where
  "index_store_request request fe root commit =
     \<lparr>sr_path = pr_symbol_database request, sr_index = Some (fe_index fe),
      sr_main_file = pr_source_file request, sr_variant = pr_variant request,
      sr_provenance = \<lparr>pv_repository_root = root, pv_git_commit = commit\<rparr>,
      sr_include_local = pr_include_local request\<rparr>"

text \<open>Storing both databases, up to the label \<open>out\<close>.\<close>

definition store_stages ::
  "pipeline_env \<Rightarrow> pipeline_request \<Rightarrow> frontend \<Rightarrow> string option \<Rightarrow> string option \<Rightarrow> pipeline_result
     \<Rightarrow> pipeline_world \<Rightarrow> int \<times> pipeline_result \<times> pipeline_world" where
  "store_stages e request fe root commit res pw =
     (case index_db_store (pe_index e) (index_store_request request fe root commit) (pw_index pw) of
        (stored, w1) \<Rightarrow>
      let pw1 = pipeline_trace ''symbol_database'' (pw\<lparr>pw_index := w1\<rparr>) in
      if stored < 0 then (- 1, res\<lparr>rs_failed_stage := STAGE_SYMBOL_DATABASE\<rparr>, pw1)
      else
      let res1 = res\<lparr>rs_persisted := STORE_SYMBOLS\<rparr> in
      if pr_storage request \<noteq> STORE_SYMBOLS_AND_COMMAND then (0, res1, pw1)
      else
      (case store_command (pe_commands e) request (rs_command res1) (pw_commands pw1) of
         (commanded, s1) \<Rightarrow>
       let pw2 = pipeline_trace ''command_database'' (pw1\<lparr>pw_commands := s1\<rparr>) in
       if commanded < 0 then (- 1, res1\<lparr>rs_failed_stage := STAGE_COMMAND_DATABASE\<rparr>, pw2)
       else (0, res1\<lparr>rs_persisted := STORE_SYMBOLS_AND_COMMAND\<rparr>, pw2)))"

text \<open>Fingerprints, provenance and the store; the provenance is given back at the end.\<close>

definition storage_stages ::
  "pipeline_env \<Rightarrow> pipeline_request \<Rightarrow> frontend \<Rightarrow> pipeline_result \<Rightarrow> pipeline_world
     \<Rightarrow> int \<times> pipeline_result \<times> pipeline_world" where
  "storage_stages e request fe res pw =
     (let pw1 = pipeline_trace ''fingerprint'' pw in
      if fe_fingerprints_ret fe < 0 then (- 1, res\<lparr>rs_failed_stage := STAGE_FINGERPRINT\<rparr>, pw1)
      else
      let fs = env_fs (pe_index e);
          explicit = repository_root_explicit fs (pr_repository_root request) in
      if pr_repository_root request \<noteq> None \<and> explicit = None
      then (- 1, res\<lparr>rs_failed_stage := STAGE_REPOSITORY_ROOT\<rparr>,
        (pipeline_trace ''provenance'' pw1)\<lparr>pw_git := snd (git_provenance_destroy no_loaded (pw_git pw1))\<rparr>)
      else
      (case (if pr_git_commit_mode request = GIT_COMMIT_AUTO
             then (case pe_provenance e (if explicit = None then pr_source_file request else explicit) (pw_git pw1) of
                     (ret, git, g1) \<Rightarrow> (git, g1))
             else (no_loaded, pw_git pw1)) of (git, g1) \<Rightarrow>
       let root = choose_root fs request explicit git;
           commit = choose_commit request git;
           pw2 = pipeline_trace ''provenance'' (pw1\<lparr>pw_git := g1\<rparr>)
       in (case store_stages e request fe root commit res pw2 of (ret, res1, pw3) \<Rightarrow>
             (ret, res1, pw3\<lparr>pw_git := snd (git_provenance_destroy git (pw_git pw3))\<rparr>))))"

definition returns_partial :: "pipeline_request \<Rightarrow> int \<Rightarrow> index_result \<Rightarrow> bool" where
  "returns_partial request ret fr \<longleftrightarrow>
     pr_partial request = RETURN_PARTIAL \<and> (ret \<noteq> 0 \<or> ir_status fr = INDEX_PARTIAL)"

definition pipeline_run ::
  "pipeline_env \<Rightarrow> pipeline_request \<Rightarrow> frontend \<Rightarrow> pipeline_world
     \<Rightarrow> int \<times> pipeline_result \<times> pipeline_world" where
  "pipeline_run e request fe pw =
     (if \<not> fe_created fe then (- 1, empty_result\<lparr>rs_failed_stage := STAGE_CREATE\<rparr>, pw)
      else
      let ret = run_frontend request fe;
          res = empty_result\<lparr>rs_created := True, rs_frontend_ret := ret, rs_frontend := fe_result fe\<rparr>;
          pw1 = pipeline_trace ''parse'' pw;
          pw2 = pw1\<lparr>pw_index := trace_points_to (fe_stats fe) (pw_index pw1)\<rparr>
      in (case fe_result fe of
            None \<Rightarrow> (- 1, res\<lparr>rs_failed_stage := STAGE_FRONTEND\<rparr>, pw2)
          | Some fr \<Rightarrow>
              if ir_status fr = INDEX_FAILED then (- 1, res\<lparr>rs_failed_stage := STAGE_FRONTEND\<rparr>, pw2)
              else
              let res1 = res\<lparr>rs_command := (case pr_input request of
                    PIPELINE_COMMAND \<Rightarrow> pr_command request
                  | PIPELINE_COMPILE_COMMANDS \<Rightarrow> fe_compile_command fe)\<rparr>
              in if returns_partial request ret fr then (0, res1, pw2)
                 else if pr_storage request = OUTPUT_ONLY then (0, res1, pw2)
                 else storage_stages e request fe res1 pw2))"

definition pipeline_result_destroy :: "pipeline_world \<Rightarrow> pipeline_result \<times> pipeline_world" where
  "pipeline_result_destroy pw = (empty_result, pipeline_trace ''cleanup'' pw)"

section \<open>Shapes of a run\<close>

text \<open>The databases of two worlds agree, whatever the trace recorded in between.\<close>

definition same_databases :: "pipeline_world \<Rightarrow> pipeline_world \<Rightarrow> bool" where
  "same_databases a b \<longleftrightarrow>
     shared (pw_index b) = shared (pw_index a) \<and> pw_commands b = pw_commands a"

lemma same_databases_refl [simp]: "same_databases a a"
  by (simp add: same_databases_def)

lemma shared_trace_end [simp]: "shared (trace_end p w) = shared w"
  by (simp add: trace_end_def)

lemma shared_trace_end_counted [simp]: "shared (trace_end_counted p a b w) = shared w"
  by (simp add: trace_end_counted_def)

lemma shared_trace_points_to [simp]: "shared (trace_points_to st w) = shared w"
  by (simp add: trace_points_to_def split: option.split)

lemma pipeline_trace_simps [simp]:
  "shared (pw_index (pipeline_trace p pw)) = shared (pw_index pw)"
  "pw_commands (pipeline_trace p pw) = pw_commands pw"
  "pw_git (pipeline_trace p pw) = pw_git pw"
  by (simp_all add: pipeline_trace_def)

end
