(* ===== verification/Command_Properties.thy ===== *)
theory Command_Properties
  imports Command_Db
begin

text \<open>
  What the database of compiler commands promises: packing and unpacking arguments are inverse,
  the export prints exactly the arguments that loading returns, and a store is an update of the
  map from (variant, file) to commands, atomic under failures and other writers.
\<close>

section \<open>Packed arguments\<close>

definition packed :: "string list \<Rightarrow> string" where
  "packed argv = concat (map (\<lambda>a. a @ [NUL]) argv)"

lemma packed_simps [simp]: "packed [] = []" "packed (a # argv) = a @ NUL # packed argv"
  by (simp_all add: packed_def)

lemma packed_Nil_iff [simp]: "packed argv = [] \<longleftrightarrow> argv = []"
  by (cases argv) simp_all

lemma last_packed: "argv \<noteq> [] \<Longrightarrow> List.last (packed argv) = NUL"
  by (induction argv) auto

lemma count_packed: "list_all c_string argv \<Longrightarrow> length (filter (\<lambda>c. c = NUL) (packed argv)) = length argv"
  by (induction argv) (auto simp: c_string_def filter_empty_conv)

lemma takeWhile_until: "NUL \<notin> set a \<Longrightarrow> takeWhile (\<lambda>c. c \<noteq> NUL) (a @ NUL # r) = a"
  by (induction a) auto

lemma dropWhile_until: "NUL \<notin> set a \<Longrightarrow> dropWhile (\<lambda>c. c \<noteq> NUL) (a @ NUL # r) = NUL # r"
  by (induction a) auto

lemma take_strings_packed: "list_all c_string argv \<Longrightarrow> take_strings (length argv) (packed argv) = argv"
  by (induction argv) (auto simp: c_string_def takeWhile_until dropWhile_until)

lemma unpack_packed:
  "list_all c_string argv \<Longrightarrow> argv \<noteq> [] \<Longrightarrow> unpack_arguments (packed argv) = Some argv"
  by (simp add: unpack_arguments_def last_packed count_packed take_strings_packed)

lemma pack_arguments_packed: "pack_arguments argv = Some blob \<Longrightarrow> blob = packed argv"
  by (auto simp: pack_arguments_def packed_def split: option.splits)

lemma packed_size_sum:
  "packed_size n argv = Some m \<Longrightarrow> n \<le> SIZE_MAX \<Longrightarrow> m = n + length (packed argv) \<and> m \<le> SIZE_MAX"
  by (induction argv arbitrary: n) (fastforce split: if_splits)+

lemma packed_size_fits:
  "n + length (packed argv) \<le> SIZE_MAX \<Longrightarrow> packed_size n argv = Some (n + length (packed argv))"
  by (induction argv arbitrary: n) auto

text \<open>A blob that ends with NUL is the packing of exactly one list of C strings.\<close>

lemma blob_packed:
  assumes "blob \<noteq> []" and "List.last blob = NUL"
  obtains argv where "blob = packed argv" "list_all c_string argv" "argv \<noteq> []"
proof -
  have "\<exists>argv. blob = packed argv \<and> list_all c_string argv \<and> argv \<noteq> []"
    using assms
  proof (induction "length blob" arbitrary: blob rule: less_induct)
    case less
    then have "NUL \<in> set blob" by (metis last_in_set)
    then obtain a r where a: "blob = a @ NUL # r" "NUL \<notin> set a" by (meson split_list_first)
    show ?case
    proof (cases "r = []")
      case True
      with a show ?thesis by (intro exI [of _ "[a]"]) (simp add: c_string_def)
    next
      case False
      with less(1) [of r] less.prems a obtain argv where "r = packed argv" "list_all c_string argv" by auto
      with a show ?thesis by (intro exI [of _ "a # argv"]) (simp add: c_string_def)
    qed
  qed
  with that show ?thesis by blast
qed

lemma unpack_Some_iff:
  "unpack_arguments blob = Some argv \<longleftrightarrow> blob = packed argv \<and> list_all c_string argv \<and> argv \<noteq> []"
proof
  assume u: "unpack_arguments blob = Some argv"
  then have "blob \<noteq> []" "List.last blob = NUL" by (auto simp: unpack_arguments_def split: if_splits)
  then obtain argv' where "blob = packed argv'" "list_all c_string argv'" "argv' \<noteq> []"
    by (rule blob_packed)
  with u show "blob = packed argv \<and> list_all c_string argv \<and> argv \<noteq> []" by (simp add: unpack_packed)
qed (simp add: unpack_packed)

text \<open>
  Packing and unpacking are inverse: any non-empty list of C strings whose packed size fits
  into \<open>size_t\<close> is packed, into a blob of that size, and unpacking the blob gives the list back;
  unpacking succeeds on nothing but such packings.
\<close>

theorem pack_unpack:
  assumes "list_all c_string argv" and "argv \<noteq> []" and "sum_list (map (\<lambda>a. length a + 1) argv) \<le> SIZE_MAX"
  shows "\<exists>blob. pack_arguments argv = Some blob \<and> unpack_arguments blob = Some argv \<and>
    packed_size 0 argv = Some (length blob) \<and>
    (\<forall>blob'. unpack_arguments blob' = Some argv \<longleftrightarrow> blob' = blob)"
proof -
  have "length (packed argv) = sum_list (map (\<lambda>a. length a + 1) argv)"
    by (induction argv) auto
  with assms(3) packed_size_fits [of 0 argv] have "packed_size 0 argv = Some (length (packed argv))"
    by simp
  with assms(1,2) show ?thesis
    by (intro exI [of _ "packed argv"]) (auto simp: pack_arguments_def packed_def [symmetric] unpack_Some_iff)
qed

section \<open>The export\<close>


definition json_array :: "string list \<Rightarrow> string" where
  "json_array argv = ''['' @ join_with '', '' (map json_string argv) @ '']''"

lemma strchr_packed: "NUL \<notin> set a \<Longrightarrow> strchr (a @ NUL # r) NUL = Some (length a)"
  by (induction a) auto

lemma write_json_string_fits:
  "(\<And>n. sk n = None) \<Longrightarrow> fst (write_json_string sk s out)"
  unfolding write_json_string_def by (rule for_each_fput_works)

lemma argument_loop_text:
  assumes "list_all c_string argv" and "write_argument_loop sk first (packed argv) out = (True, out')"
  shows "o_text out' = o_text out @
      (if first \<or> argv = [] then [] else '', '') @ join_with '', '' (map json_string argv) \<and>
    o_error out' = o_error out"
  using assms
proof (induction argv arbitrary: first out)
  case Nil
  then show ?case by (simp add: write_argument_loop.simps)
next
  case (Cons a argv)
  have a: "NUL \<notin> set a" using Cons.prems(1) by (simp add: c_string_def)
  obtain b1 out1 where 1: "(if first then (True, out) else fput sk '', '' out) = (b1, out1)"
    by (rule prod.exhaust)
  obtain b2 out2 where 2: "write_json_string sk a out1 = (b2, out2)" by (rule prod.exhaust)
  from Cons.prems(2) a 1 2 have "b1" "b2" and 3: "write_argument_loop sk False (packed argv) out2 = (True, out')"
    by (simp_all add: write_argument_loop.simps [of sk first "a @ _"] strchr_packed split: bool.splits)
  have t1: "o_text out1 = o_text out @ (if first then [] else '', '') \<and> o_error out1 = o_error out"
    using 1 \<open>b1\<close> fput_ok [of sk "'', ''" out out1] by (cases first) auto
  have t2: "o_text out2 = o_text out1 @ json_string a \<and> o_error out2 = o_error out1"
    using 2 \<open>b2\<close> write_json_string_text by simp
  show ?case
    using Cons.IH [OF _ 3] Cons.prems(1) t1 t2 by (cases argv) simp_all
qed

lemma write_arguments_text:
  assumes "list_all c_string argv" and "write_arguments sk (packed argv) out = (True, out')"
  shows "o_text out' = o_text out @ json_array argv \<and> o_error out' = o_error out"
proof -
  obtain b1 out1 where 1: "fput sk ''['' out = (b1, out1)" by (rule prod.exhaust)
  obtain b2 out2 where 2: "write_argument_loop sk True (packed argv) out1 = (b2, out2)" by (rule prod.exhaust)
  from assms(2) 1 2 have "b1" "b2" "fput sk '']'' out2 = (True, out')"
    by (auto simp: write_arguments_def split: bool.splits)
  with fput_ok [of sk "''[''" out out1] fput_ok [of sk "'']''" out2 out'] 1 2
    argument_loop_text [OF assms(1), of sk True out1 out2]
  show ?thesis by (simp add: json_array_def)
qed

lemma argument_loop_works:
  assumes "\<And>n. sk n = None" and "list_all c_string argv"
  shows "fst (write_argument_loop sk first (packed argv) out)"
  using assms(2)
proof (induction argv arbitrary: first out)
  case Nil
  then show ?case by (simp add: write_argument_loop.simps)
next
  case (Cons a argv)
  then show ?case
    using fput_works [OF assms(1)] write_json_string_fits [OF assms(1)]
    by (auto simp: write_argument_loop.simps [of sk first "a @ _"] strchr_packed c_string_def split_beta
        split: bool.splits prod.splits)
qed

lemma argument_loop_malformed:
  "blob \<noteq> [] \<Longrightarrow> List.last blob \<noteq> NUL \<Longrightarrow> \<not> fst (write_argument_loop sk first blob out)"
proof (induction sk first blob out rule: write_argument_loop.induct)
  case (1 sk first blob out)
  show ?case
  proof (cases "strchr blob NUL")
    case None
    with 1(2) show ?thesis by (simp add: write_argument_loop.simps)
  next
    case (Some i)
    then have i: "i < length blob" "blob ! i = NUL" by (auto simp: strchr_Some)
    have "drop (i + 1) blob \<noteq> []"
    proof
      assume "drop (i + 1) blob = []"
      with i(1) have "i = length blob - 1" by simp
      with i(2) "1.prems" show False by (simp add: last_conv_nth)
    qed
    moreover have "List.last (drop (i + 1) blob) = List.last blob"
      using calculation by (simp add: last_drop)
    ultimately show ?thesis
      using 1 Some
      by (auto simp: write_argument_loop.simps [of sk first blob] split: bool.splits prod.splits)
  qed
qed

text \<open>What a checked step writes when it succeeds.\<close>

definition writes :: "(stream \<Rightarrow> bool \<times> stream) \<Rightarrow> string \<Rightarrow> bool" where
  "writes f t \<longleftrightarrow> (\<forall>out out'. f out = (True, out') \<longrightarrow>
     o_text out' = o_text out @ t \<and> o_error out' = o_error out)"

lemma writes_fput: "writes (fput sk s) s"
  by (auto simp: writes_def dest: fput_ok)

lemma writes_json_string: "writes (write_json_string sk s) (json_string s)"
  by (auto simp: writes_def dest: write_json_string_text)

lemma writes_in_order: "list_all2 writes fs ts \<Longrightarrow> writes (in_order fs) (concat ts)"
proof (induction rule: list_all2_induct)
  case Nil
  then show ?case by (simp add: writes_def in_order_def)
next
  case (Cons f fs t ts)
  show ?case
    unfolding writes_def
  proof (intro allI impI)
    fix out out'
    assume r: "in_order (f # fs) out = (True, out')"
    obtain b out1 where f: "f out = (b, out1)" by (rule prod.exhaust)
    with r have "b" "in_order fs out1 = (True, out')" by (auto simp: in_order_def split: bool.splits)
    with Cons f show "o_text out' = o_text out @ concat (t # ts) \<and> o_error out' = o_error out"
      by (auto simp: writes_def)
  qed
qed

definition command_entry :: "command_row \<Rightarrow> string list \<Rightarrow> string" where
  "command_entry r argv =
     ''  {'' @ newline @ ''    '' @ json_string ''directory'' @ '': '' @ json_string (cr_directory r) @
     '','' @ newline @ ''    '' @ json_string ''file'' @ '': '' @ json_string (cr_file r) @
     '','' @ newline @ ''    '' @ json_string ''arguments'' @ '': '' @ json_array argv @ newline @ ''  }''"

lemma writes_command:
  assumes "unpack_arguments (cr_arguments r) = Some argv"
  shows "writes (write_command sk first r) ((if first then [] else '','' @ newline) @ command_entry r argv)"
proof -
  have args: "writes (write_arguments sk (cr_arguments r)) (json_array argv)"
    using assms write_arguments_text [of argv sk] by (auto simp: writes_def unpack_Some_iff)
  have "list_all2 writes
     ((if first then [] else [fput sk ('','' @ newline)]) @
       [fput sk (''  {'' @ newline @ ''    '' @ json_string ''directory'' @ '': ''),
        write_json_string sk (cr_directory r),
        fput sk ('','' @ newline @ ''    '' @ json_string ''file'' @ '': ''),
        write_json_string sk (cr_file r),
        fput sk ('','' @ newline @ ''    '' @ json_string ''arguments'' @ '': ''),
        write_arguments sk (cr_arguments r),
        fput sk (newline @ ''  }'')])
     ((if first then [] else ['','' @ newline]) @
       [''  {'' @ newline @ ''    '' @ json_string ''directory'' @ '': '', json_string (cr_directory r),
        '','' @ newline @ ''    '' @ json_string ''file'' @ '': '', json_string (cr_file r),
        '','' @ newline @ ''    '' @ json_string ''arguments'' @ '': '', json_array argv, newline @ ''  }''])"
    by (cases first) (simp_all add: writes_fput writes_json_string args)
  from writes_in_order [OF this] show ?thesis
    unfolding write_command_def by (cases first) (simp_all add: command_entry_def)
qed

definition readable_rows :: "command_row list \<Rightarrow> bool" where
  "readable_rows rs \<longleftrightarrow> list_all (\<lambda>r. unpack_arguments (cr_arguments r) \<noteq> None) rs"

definition row_entry :: "command_row \<Rightarrow> string" where
  "row_entry r = command_entry r (the (unpack_arguments (cr_arguments r)))"

lemma writes_commands:
  "readable_rows rs \<Longrightarrow>
     writes (write_commands sk first rs)
       ((if first \<or> rs = [] then [] else '','' @ newline) @ join_with ('','' @ newline) (map row_entry rs))"
proof (induction rs arbitrary: first)
  case Nil
  then show ?case by (simp add: writes_def)
next
  case (Cons r rs)
  from Cons.prems obtain argv where argv: "unpack_arguments (cr_arguments r) = Some argv" and rs: "readable_rows rs"
    by (auto simp: readable_rows_def)
  show ?case
    unfolding writes_def
  proof (intro allI impI)
    fix out out'
    assume w: "write_commands sk first (r # rs) out = (True, out')"
    obtain b out1 where 1: "write_command sk first r out = (b, out1)" by (rule prod.exhaust)
    with w have "b" and 2: "write_commands sk False rs out1 = (True, out')" by (auto split: bool.splits)
    from writes_command [OF argv, of sk first] 1 \<open>b\<close>
    have "o_text out1 = o_text out @ (if first then [] else '','' @ newline) @ row_entry r"
      "o_error out1 = o_error out" by (auto simp: writes_def row_entry_def argv)
    with Cons.IH [OF rs, of False] 2
    show "o_text out' = o_text out @ (if first \<or> r # rs = [] then [] else '','' @ newline) @
        join_with ('','' @ newline) (map row_entry (r # rs)) \<and> o_error out' = o_error out"
      by (cases rs) (auto simp: writes_def)
  qed
qed

definition exported :: "string \<Rightarrow> command_db \<Rightarrow> string" where
  "exported variant d = ''['' @ newline @
     join_with ('','' @ newline) (map row_entry (export_rows variant d)) @ newline @ '']'' @ newline"

section \<open>Sessions\<close>

text \<open>How the shared database moves while a session does not write: others, and the schema.\<close>

definition with_commands :: "command_db \<Rightarrow> command_db" where
  "with_commands d = d\<lparr>cd_tables := cd_tables d @ [commands_table], cd_rows := [], cd_version := 1\<rparr>"

inductive drifted :: "db_env \<Rightarrow> command_db \<Rightarrow> command_db \<Rightarrow> bool" for e d where
  start: "drifted e d d"
| others: "drifted e d d1 \<Longrightarrow> drifted e d (de_others e n d1)"
| schema: "drifted e d d1 \<Longrightarrow> cd_version d1 \<noteq> 1 \<Longrightarrow> commands_table \<notin> set (cd_tables d1) \<Longrightarrow>
    drifted e d (with_commands d1)"

lemma drifted_trans: "drifted e a b \<Longrightarrow> drifted e b c \<Longrightarrow> drifted e a c"
  by (rotate_tac, induction rule: drifted.induct) (auto intro: drifted.intros)

lemma drifted_alone:
  "drifted e d d1 \<Longrightarrow> (\<And>n x. de_others e n x = x) \<Longrightarrow> cd_version d = 1 \<Longrightarrow> d1 = d"
  by (induction rule: drifted.induct) auto

definition resting :: "db_env \<Rightarrow> command_db \<Rightarrow> session \<Rightarrow> bool" where
  "resting e d s \<longleftrightarrow> ss_txn s = None \<and> drifted e d (ss_shared s)"

text \<open>In a transaction, or after one that could not be ended: the view and the shared database.\<close>

definition working :: "command_db \<Rightarrow> command_db \<Rightarrow> session \<Rightarrow> bool" where
  "working S d s \<longleftrightarrow> ss_txn s = Some d \<and> ss_shared s = S"

definition at_rest :: "db_env \<Rightarrow> command_db \<Rightarrow> session \<Rightarrow> bool" where
  "at_rest e d s \<longleftrightarrow> drifted e d (ss_shared s)"

lemma tick_resting: "resting e d s \<Longrightarrow> db_tick e s = (b, s') \<Longrightarrow> resting e d s'"
  by (auto simp: resting_def db_tick_def Let_def intro: drifted.others)

lemma tick_working: "working S d s \<Longrightarrow> db_tick e s = (b, s') \<Longrightarrow> working S d s'"
  by (auto simp: working_def db_tick_def Let_def)

lemma resting_rest: "resting e d s \<Longrightarrow> at_rest e d s"
  by (simp add: resting_def at_rest_def)

lemma query_resting: "resting e d s \<Longrightarrow> db_select e f s = (r, s') \<Longrightarrow> resting e d s' \<and> (\<forall>x. r = Some x \<longrightarrow> f (ss_shared s') = Some x)"
  by (auto simp: db_select_def db_current_def resting_def split: prod.splits bool.splits dest: tick_resting [unfolded resting_def, rotated])

lemma query_working:
  assumes "working S d s" and "db_select e f s = (r, s')"
  shows "working S d s' \<and> (\<forall>x. r = Some x \<longrightarrow> f d = Some x)"
proof -
  obtain b s1 where t: "db_tick e s = (b, s1)" by (rule prod.exhaust)
  from tick_working [OF assms(1) t] assms(2) t show ?thesis
    by (cases b) (auto simp: db_select_def db_current_def working_def)
qed

lemma exec_working:
  assumes "working S d s" and "db_exec e stmt s = (b, s')"
  shows "if b then \<exists>d'. stmt d = Some d' \<and> working S d' s' else working S d s'"
proof -
  obtain b1 s1 where t: "db_tick e s = (b1, s1)" by (rule prod.exhaust)
  from tick_working [OF assms(1) t] assms(2) t show ?thesis
    by (cases b1) (auto simp: db_exec_def db_current_def working_def split: option.splits)
qed

lemma exec_resting:
  assumes "resting e d s" and "db_exec e stmt s = (b, s')"
  shows "if b then \<exists>S. drifted e d S \<and> stmt S = Some (ss_shared s') \<and> ss_txn s' = None else resting e d s'"
proof -
  obtain b1 s1 where t: "db_tick e s = (b1, s1)" by (rule prod.exhaust)
  from tick_resting [OF assms(1) t] assms(2) t show ?thesis
    by (cases b1) (auto simp: db_exec_def db_current_def resting_def split: option.splits)
qed

lemma pragma_resting: "resting e d s \<Longrightarrow> db_exec e pragma_statement s = (b, s') \<Longrightarrow> resting e d s'"
  using exec_resting [of e d s pragma_statement b s'] by (auto simp: pragma_statement_def resting_def split: if_splits)

lemma begin_resting:
  assumes "resting e d s" and "db_begin e s = (b, s')"
  shows "if b then drifted e d (ss_shared s') \<and> working (ss_shared s') (ss_shared s') s' else resting e d s'"
proof -
  obtain b1 s1 where t: "db_tick e s = (b1, s1)" by (rule prod.exhaust)
  from tick_resting [OF assms(1) t] assms(2) t show ?thesis
    by (cases b1) (auto simp: db_begin_def resting_def working_def)
qed

lemma rollback_working: "working S d s \<Longrightarrow> ss_shared (db_rollback e s) = S"
  by (auto simp: db_rollback_def working_def db_tick_def Let_def)

lemma commit_working:
  assumes "working S d s" and "return_commit e s = (r, s')"
  shows "r = 0 \<and> ss_txn s' = None \<and> ss_shared s' = d \<or> r = - 1 \<and> ss_shared s' = S"
proof -
  obtain b1 s1 where t: "db_tick e s = (b1, s1)" by (rule prod.exhaust)
  from tick_working [OF assms(1) t] assms(2) t show ?thesis
    by (cases b1) (auto simp: return_commit_def db_commit_def working_def)
qed

definition schema_ready :: "db_env \<Rightarrow> command_db \<Rightarrow> int \<Rightarrow> session \<Rightarrow> bool" where
  "schema_ready e d r s \<longleftrightarrow> at_rest e d s \<and>
     (r = 0 \<and> ss_txn s = None \<and> cd_version (ss_shared s) = 1 \<or> r = - 1)"

lemma init_schema_in_txn:
  assumes w: "working S S s2" and d: "drifted e d S"
    and r: "(case command_db_schema_version e s2 of
        (None, s3) \<Rightarrow> (- 1, db_rollback e s3)
      | (Some version', s3) \<Rightarrow>
     if version' = COMMAND_DB_SCHEMA_VERSION then return_commit e s3
     else
     (case db_exec e create_commands s3 of
        (False, s4) \<Rightarrow> (- 1, db_rollback e s4)
      | (True, s4) \<Rightarrow>
     (case db_exec e set_version s4 of
        (False, s5) \<Rightarrow> (- 1, db_rollback e s5)
      | (True, s5) \<Rightarrow> return_commit e s5))) = (r, s')"
  shows "schema_ready e d r s'"
proof -
  obtain v s3 where 3: "command_db_schema_version e s2 = (v, s3)" by (rule prod.exhaust)
  from query_working [OF w 3 [unfolded command_db_schema_version_def]]
  have w3: "working S S s3" and v: "\<And>x. v = Some x \<Longrightarrow> x = cd_version S" by auto
  show ?thesis
  proof (cases v)
    case None
    with r 3 rollback_working [OF w3] d show ?thesis by (auto simp: schema_ready_def at_rest_def)
  next
    case (Some x)
    show ?thesis
    proof (cases "x = COMMAND_DB_SCHEMA_VERSION")
      case True
      with r 3 Some have c: "return_commit e s3 = (r, s')" by simp
      from commit_working [OF w3 c] d v [OF Some] True show ?thesis
        by (auto simp: schema_ready_def at_rest_def COMMAND_DB_SCHEMA_VERSION_def)
    next
      case False
      obtain b4 s4 where 4: "db_exec e create_commands s3 = (b4, s4)" by (rule prod.exhaust)
      obtain b5 s5 where 5: "db_exec e set_version s4 = (b5, s5)" by (rule prod.exhaust)
      show ?thesis
      proof (cases b4)
        case False
        from exec_working [OF w3 4] False have "working S S s4" by simp
        from rollback_working [OF this] r 3 Some \<open>x \<noteq> _\<close> 4 False d show ?thesis
          by (auto simp: schema_ready_def at_rest_def)
      next
        case True
        with exec_working [OF w3 4] obtain d4 where c: "create_commands S = Some d4" and w4: "working S d4 s4"
          by auto
        show ?thesis
        proof (cases b5)
          case False
          from exec_working [OF w4 5] False have "working S d4 s5" by simp
          from rollback_working [OF this] r 3 Some \<open>x \<noteq> _\<close> 4 True 5 False d show ?thesis
            by (auto simp: schema_ready_def at_rest_def)
        next
          case True
          with exec_working [OF w4 5] have w5: "working S (d4\<lparr>cd_version := 1\<rparr>) s5"
            by (auto simp: set_version_def)
          have "d4\<lparr>cd_version := 1\<rparr> = with_commands S" "commands_table \<notin> set (cd_tables S)"
            using c by (auto simp: create_commands_def with_commands_def split: if_splits)
          then have d5: "drifted e d (d4\<lparr>cd_version := 1\<rparr>)" "cd_version (d4\<lparr>cd_version := 1\<rparr>) = 1"
            using drifted.schema [OF d] \<open>x \<noteq> _\<close> v [OF Some]
            by (simp_all add: COMMAND_DB_SCHEMA_VERSION_def) (simp add: with_commands_def)
          from r 3 Some \<open>x \<noteq> _\<close> 4 \<open>b4\<close> 5 True have "return_commit e s5 = (r, s')" by simp
          from commit_working [OF w5 this] d d5 show ?thesis
            by (auto simp: schema_ready_def at_rest_def)
        qed
      qed
    qed
  qed
qed

lemma command_init_schema_outcome:
  assumes "resting e d s" and r: "command_init_schema e s = (r, s')"
  shows "schema_ready e d r s'"
proof -
  obtain v s1 where 1: "command_db_schema_version e s = (v, s1)" by (rule prod.exhaust)
  from query_resting [OF assms(1) 1 [unfolded command_db_schema_version_def]]
  have s1: "resting e d s1" and v: "\<And>x. v = Some x \<Longrightarrow> x = cd_version (ss_shared s1)" by auto
  obtain b2 s2 where 2: "db_begin e s1 = (b2, s2)" by (rule prod.exhaust)
  show ?thesis
  proof (cases "v = Some 0 \<and> b2")
    case True
    with r 1 2 begin_resting [OF s1 2] show ?thesis
      by (intro init_schema_in_txn [of "ss_shared s2" s2])
        (simp_all add: command_init_schema_def COMMAND_DB_SCHEMA_VERSION_def)
  next
    case False
    with r 1 2 s1 v begin_resting [OF s1 2] show ?thesis
      by (auto simp: command_init_schema_def schema_ready_def resting_def at_rest_def
          COMMAND_DB_SCHEMA_VERSION_def split: option.splits if_splits)
  qed
qed

lemma command_open_writer_outcome:
  assumes "resting e d s" and r: "command_open_writer e p s = (r, s')"
  shows "schema_ready e d r s'"
proof -
  obtain b1 s1 where 1: "db_tick e s = (b1, s1)" by (rule prod.exhaust)
  obtain b2 s2 where 2: "db_exec e pragma_statement s1 = (b2, s2)" by (rule prod.exhaust)
  obtain b3 s3 where 3: "db_exec e pragma_statement s2 = (b3, s3)" by (rule prod.exhaust)
  obtain r4 s4 where 4: "command_init_schema e s3 = (r4, s4)" by (rule prod.exhaust)
  have s1: "resting e d s1" by (rule tick_resting [OF assms(1) 1])
  have s2: "resting e d s2" by (rule pragma_resting [OF s1 2])
  have s3: "resting e d s3" by (rule pragma_resting [OF s2 3])
  have s4: "schema_ready e d r4 s4" by (rule command_init_schema_outcome [OF s3 4])
  show ?thesis
    using r s1 s2 s3 s4 assms(1) 1 2 3 4
    by (cases b1; cases b2; cases b3; cases "de_mkdir_ok e p")
      (auto simp: command_open_writer_def schema_ready_def at_rest_def resting_def split: if_splits)
qed

lemma query_none_resting: "resting e d s \<Longrightarrow> resting e d (snd (db_select e f s))"
  using query_resting [of e d s f] by (cases "db_select e f s") auto

definition stored_row :: "db_env \<Rightarrow> string \<Rightarrow> string \<Rightarrow> string \<Rightarrow> string list \<Rightarrow> command_row" where
  "stored_row e v dir f args =
     (let abs_directory = (case fs_realpath (de_fs e) dir of None \<Rightarrow> dir | Some r \<Rightarrow> r)
      in \<lparr>cr_variant = v, cr_file = command_db_absolute_path (de_fs e) abs_directory f,
          cr_directory = abs_directory, cr_arguments = packed args\<rparr>)"

lemma command_store_outcome:
  assumes "ss_txn s = None"
    and r: "command_db_store e path variant directory file argv s = (r, s')"
  shows "ss_txn s' = None \<and>
    (r = - 1 \<and> drifted e (ss_shared s) (ss_shared s') \<or>
     r = 0 \<and> (\<exists>S0 S dir f args. drifted e (ss_shared s) S0 \<and> cd_version S0 = 1 \<and> drifted e S0 S \<and> directory = Some dir \<and> file = Some f \<and>
       argv = Some args \<and> args \<noteq> [] \<and>
       upsert_command (stored_row e (or_empty variant) dir f args) S = Some (ss_shared s')))"
proof -
  let ?failed = "ss_txn s' = None \<and> r = - 1 \<and> drifted e (ss_shared s) (ss_shared s')"
  have rest: "resting e (ss_shared s) s" using assms(1) by (simp add: resting_def drifted.start)
  show ?thesis
  proof (cases "\<exists>p dir f args. path = Some p \<and> directory = Some dir \<and> file = Some f \<and> argv = Some args \<and>
      nonempty variant \<and> args \<noteq> [] \<and> pack_arguments args \<noteq> None")
    case False
    with r assms(1) show ?thesis
      by (auto simp: command_db_store_def Let_def drifted.start split: option.splits if_splits)
  next
    case True
    then obtain p dir f args blob where a: "path = Some p" "directory = Some dir" "file = Some f"
        "argv = Some args" "nonempty variant" "args \<noteq> []" "pack_arguments args = Some blob" by auto
    obtain r1 s1 where 1: "command_open_writer e p s = (r1, s1)" by (rule prod.exhaust)
    obtain q s2 where 2: "db_select e prepare_commands s1 = (q, s2)" by (rule prod.exhaust)
    let ?row = "stored_row e (or_empty variant) dir f args"
    obtain b3 s3 where 3: "db_exec e (upsert_command ?row) s2 = (b3, s3)" by (rule prod.exhaust)
    have o1: "schema_ready e (ss_shared s) r1 s1" by (rule command_open_writer_outcome [OF rest 1])
    have row: "\<lparr>cr_variant = or_empty variant,
        cr_file = command_db_absolute_path (de_fs e) (case fs_realpath (de_fs e) dir of None \<Rightarrow> dir | Some r \<Rightarrow> r) f,
        cr_directory = (case fs_realpath (de_fs e) dir of None \<Rightarrow> dir | Some r \<Rightarrow> r), cr_arguments = blob\<rparr> = ?row"
      by (simp add: stored_row_def Let_def pack_arguments_packed [OF a(7)])
    show ?thesis
    proof (cases "r1 < 0")
      case True
      with r a 1 o1 show ?thesis
        by (auto simp: command_db_store_def Let_def schema_ready_def at_rest_def db_close_def)
    next
      case False
      with o1 have v1: "drifted e (ss_shared s) (ss_shared s1)" "cd_version (ss_shared s1) = 1"
        and s1: "resting e (ss_shared s1) s1"
        by (auto simp: schema_ready_def at_rest_def resting_def intro: drifted.start)
      from query_resting [OF s1 2] have s2: "resting e (ss_shared s1) s2" by simp
      show ?thesis
      proof (cases q)
        case None
        with r a 1 2 False s2 drifted_trans [OF v1(1)] show ?thesis
          by (auto simp: command_db_store_def Let_def resting_def db_close_def)
      next
        case (Some u)
        with r a 1 2 3 False have r3: "r = (if b3 then 0 else - 1)" "s' = db_close s3"
          by (auto simp: command_db_store_def Let_def row)
        show ?thesis
        proof (cases b3)
          case True
          with exec_resting [OF s2 3] obtain S where "drifted e (ss_shared s1) S"
            "upsert_command ?row S = Some (ss_shared s3)" by auto
          with r3 True a v1 show ?thesis by (auto simp: db_close_def)
        next
          case False
          with exec_resting [OF s2 3] r3 drifted_trans [OF v1(1)] show ?thesis
            by (auto simp: db_close_def resting_def)
        qed
      qed
    qed
  qed
qed

section \<open>The map of commands\<close>

locale keyed_map =
  fixes get :: "'k \<Rightarrow> 't \<Rightarrow> 'v option"
    and put :: "'k \<Rightarrow> 'v \<Rightarrow> 't \<Rightarrow> 't"
  assumes get_put: "get k' (put k v t) = (if k' = k then Some v else get k' t)"
begin

lemma get_puts: "get k (fold (\<lambda>(k, v). put k v) kvs t) = (case map_of (rev kvs) k of None \<Rightarrow> get k t | Some v \<Rightarrow> Some v)"
  by (induction kvs arbitrary: t) (auto simp: get_put map_add_def split: option.splits)

lemma put_put: "get k' (put k v (put k w t)) = get k' (put k v t)"
  by (simp add: get_put)

end

definition get_command :: "string \<times> string \<Rightarrow> command_row list \<Rightarrow> (string \<times> string) option" where
  "get_command k rows = map_option (\<lambda>r. (cr_directory r, cr_arguments r)) (find (\<lambda>r. command_key r = k) rows)"

definition put_command :: "string \<times> string \<Rightarrow> string \<times> string \<Rightarrow> command_row list \<Rightarrow> command_row list" where
  "put_command k v rows = upsert command_key
     (\<lambda>x r. x\<lparr>cr_directory := cr_directory r, cr_arguments := cr_arguments r\<rparr>)
     \<lparr>cr_variant = fst k, cr_file = snd k, cr_directory = fst v, cr_arguments = snd v\<rparr> rows"

lemma get_command_update:
  "get_command k' (map (\<lambda>x. if command_key x = k then x\<lparr>cr_directory := d, cr_arguments := a\<rparr> else x) rows) =
     (if k' = k \<and> k \<in> command_key ` set rows then Some (d, a) else get_command k' rows)"
  by (induction rows) (auto simp: get_command_def command_key_def)

interpretation commands: keyed_map get_command put_command
proof
  fix k k' v rows
  have key: "command_key \<lparr>cr_variant = fst k, cr_file = snd k, cr_directory = fst v, cr_arguments = snd v\<rparr> = k"
    by (simp add: command_key_def)
  show "get_command k' (put_command k v rows) = (if k' = k then Some v else get_command k' rows)"
  proof (cases "k \<in> command_key ` set rows")
    case True
    then show ?thesis by (simp add: put_command_def upsert_def key get_command_update)
  next
    case False
    then have "find (\<lambda>r. command_key r = k) rows = None" by (auto simp: find_None_iff)
    moreover have "find P (xs @ ys) = (case find P xs of None \<Rightarrow> find P ys | Some x \<Rightarrow> Some x)" for P and xs ys :: "command_row list"
      by (induction xs) auto
    ultimately show ?thesis using False
      by (auto simp: put_command_def upsert_def key get_command_def split: option.splits)
  qed
qed

definition commands_map :: "command_db \<Rightarrow> string \<times> string \<Rightarrow> (string \<times> string) option" where
  "commands_map d k = get_command k (cd_rows d)"

lemma upsert_command_put:
  "upsert_command r S = Some d \<Longrightarrow>
     d = S\<lparr>cd_rows := put_command (command_key r) (cr_directory r, cr_arguments r) (cd_rows S)\<rparr> \<and>
     commands_table \<in> set (cd_tables S)"
  by (cases r) (auto simp: upsert_command_def put_command_def command_key_def split: if_splits)

text \<open>
  C22. A store of a command is one update of the map from (variant, absolute file) to directory
  and arguments, on the database as other processes left it, or it returns -1 and changes
  no command: whatever call fails, no part of it stays behind but a schema that it created.
\<close>

theorem command_store_updates:
  assumes "ss_txn s = None"
    and "command_db_store e path variant directory file argv s = (r, s')"
  shows "r = - 1 \<and> drifted e (ss_shared s) (ss_shared s') \<or>
    r = 0 \<and> (\<exists>S dir f args. drifted e (ss_shared s) S \<and> directory = Some dir \<and> file = Some f \<and> argv = Some args \<and>
      (let row = stored_row e (or_empty variant) dir f args in
       commands_map (ss_shared s') =
         (commands_map S)((or_empty variant, cr_file row) \<mapsto> (cr_directory row, packed args))))"
proof -
  from command_store_outcome [OF assms] show ?thesis
  proof (elim conjE disjE exE)
    fix S0 S dir f args
    assume "r = 0" "drifted e (ss_shared s) S0" "drifted e S0 S" "directory = Some dir" "file = Some f"
      "argv = Some args"
      and u: "upsert_command (stored_row e (or_empty variant) dir f args) S = Some (ss_shared s')"
    moreover have "commands_map (ss_shared s') = (commands_map S)((or_empty variant,
        cr_file (stored_row e (or_empty variant) dir f args)) \<mapsto>
        (cr_directory (stored_row e (or_empty variant) dir f args), packed args))"
      using upsert_command_put [OF u]
      by (auto simp: fun_eq_iff commands_map_def commands.get_put command_key_def stored_row_def Let_def)
    ultimately show ?thesis by (auto simp: Let_def intro: drifted_trans)
  qed simp
qed

section \<open>Loading\<close>

text \<open>A session without failures and without other writers, on a database with the schema.\<close>

definition undisturbed :: "db_env \<Rightarrow> session \<Rightarrow> bool" where
  "undisturbed e s \<longleftrightarrow> (\<forall>n \<ge> ss_clock s. \<not> de_fault e n) \<and> (\<forall>n d. de_others e n d = d) \<and> ss_txn s = None"

lemma undisturbed_tick:
  "undisturbed e s \<Longrightarrow> db_tick e s = (True, s\<lparr>ss_clock := Suc (ss_clock s)\<rparr>)"
  by (simp add: undisturbed_def db_tick_def)

lemma undisturbed_Suc: "undisturbed e s \<Longrightarrow> undisturbed e (s\<lparr>ss_clock := Suc (ss_clock s)\<rparr>)"
  by (simp add: undisturbed_def)

lemma undisturbed_query:
  "undisturbed e s \<Longrightarrow> db_select e f s = (f (ss_shared s), s\<lparr>ss_clock := Suc (ss_clock s)\<rparr>)"
  by (simp add: db_select_def undisturbed_tick) (simp add: db_current_def undisturbed_def)

definition ready :: "command_db \<Rightarrow> bool" where
  "ready d \<longleftrightarrow> cd_version d = 1 \<and> commands_table \<in> set (cd_tables d)"

lemma undisturbed_query_step:
  "undisturbed e s \<Longrightarrow> \<exists>s1. db_select e f s = (f (ss_shared s), s1) \<and> undisturbed e s1 \<and> ss_shared s1 = ss_shared s"
  by (simp add: undisturbed_query undisturbed_Suc)

lemma undisturbed_open:
  "undisturbed e s \<Longrightarrow> cd_version (ss_shared s) = 1 \<Longrightarrow>
     command_db_open_reader e s = (0, s\<lparr>ss_clock := Suc (Suc (ss_clock s))\<rparr>)"
  by (simp add: command_db_open_reader_def undisturbed_tick command_db_schema_version_def
      undisturbed_query [OF undisturbed_Suc] COMMAND_DB_SCHEMA_VERSION_def)

lemma load_undisturbed:
  assumes "undisturbed e s" and "ready (ss_shared s)" and "nonempty variant"
  shows "command_db_load e (Some p) variant (Some f) s =
    (case select_command (or_empty variant) (command_db_absolute_path (de_fs e) ''.'' f) (ss_shared s) of
       None \<Rightarrow> (1, None, s\<lparr>ss_clock := ss_clock s + 4\<rparr>)
     | Some r \<Rightarrow> (case unpack_arguments (cr_arguments r) of
          None \<Rightarrow> (- 1, None, s\<lparr>ss_clock := ss_clock s + 4\<rparr>)
        | Some args \<Rightarrow> (0, Some \<lparr>lc_directory = cr_directory r, lc_file = cr_file r, lc_argv = args\<rparr>,
            s\<lparr>ss_clock := ss_clock s + 4\<rparr>)))"
proof -
  have q: "db_select e f' (s\<lparr>ss_clock := k\<rparr>) = (f' (ss_shared s), s\<lparr>ss_clock := Suc k\<rparr>)"
    if "ss_clock s \<le> k" for f' :: "command_db \<Rightarrow> 'a option" and k
    using undisturbed_query [of e "s\<lparr>ss_clock := k\<rparr>" f'] assms(1) that by (simp add: undisturbed_def)
  have q': "db_select e f' (s\<lparr>ss_clock := k\<rparr>) = (f' (ss_shared s), s\<lparr>ss_clock := Suc k\<rparr>)"
    if "ss_clock s \<le> k" for f' :: "command_db \<Rightarrow> unit option" and k
    using undisturbed_query [of e "s\<lparr>ss_clock := k\<rparr>" f'] assms(1) that by (simp add: undisturbed_def)
  have q'': "db_select e f' (s\<lparr>ss_clock := k\<rparr>) = (f' (ss_shared s), s\<lparr>ss_clock := Suc k\<rparr>)"
    if "ss_clock s \<le> k" for f' :: "command_db \<Rightarrow> command_row option option" and k
    using undisturbed_query [of e "s\<lparr>ss_clock := k\<rparr>" f'] assms(1) that by (simp add: undisturbed_def)
  have close: "db_close (s\<lparr>ss_clock := k\<rparr>) = s\<lparr>ss_clock := k\<rparr>" for k
    using assms(1) by (simp add: db_close_def undisturbed_def)
  have four: "Suc (Suc (Suc (Suc (ss_clock s)))) = ss_clock s + 4" by simp
  show ?thesis
    using assms(2,3)
    by (simp add: command_db_load_def Let_def undisturbed_open [OF assms(1)] ready_def q' q'' prepare_commands_def
        close four split: option.split)
qed

lemma select_command_get:
  "select_command v f d = Some r \<Longrightarrow> cr_variant r = v \<and> cr_file r = f \<and>
     get_command (v, f) (cd_rows d) = Some (cr_directory r, cr_arguments r)"
  by (auto simp: select_command_def get_command_def command_key_def find_Some_iff)

lemma get_command_select:
  "get_command (v, f) (cd_rows d) = Some (dir, a) \<Longrightarrow>
     \<exists>r. select_command v f d = Some r \<and> r = \<lparr>cr_variant = v, cr_file = f, cr_directory = dir, cr_arguments = a\<rparr>"
  by (auto simp: get_command_def select_command_def command_key_def find_Some_iff)

text \<open>
  C23. Loading returns what was stored: after a successful store of a command whose arguments are
  C strings, loading by the same variant and any path that resolves to the same file gives the
  directory, the file and the argument vector, and a command stored under another key is
  loaded as it was before.
\<close>

theorem command_store_load_roundtrip:
  assumes "ss_txn s = None" and "\<And>n d. de_others e n d = d"
    and "command_db_store e path variant (Some dir) (Some f) (Some args) s = (0, s')"
    and "list_all c_string args"
    and "\<forall>n \<ge> ss_clock s'. \<not> de_fault e n"
    and "nonempty variant"
  shows "(command_db_absolute_path (de_fs e) ''.'' g = cr_file (stored_row e (or_empty variant) dir f args) \<longrightarrow>
      (\<exists>s''. command_db_load e (Some p) variant (Some g) s' =
        (0, Some \<lparr>lc_directory = cr_directory (stored_row e (or_empty variant) dir f args),
           lc_file = cr_file (stored_row e (or_empty variant) dir f args), lc_argv = args\<rparr>, s''))) \<and>
    (\<forall>k. k \<noteq> (or_empty variant, cr_file (stored_row e (or_empty variant) dir f args)) \<longrightarrow>
      ready (ss_shared s) \<longrightarrow> commands_map (ss_shared s') k = commands_map (ss_shared s) k)"
proof -
  let ?row = "stored_row e (or_empty variant) dir f args"
  from command_store_outcome [OF assms(1,3)] obtain S0 S where
    S: "ss_txn s' = None" "drifted e (ss_shared s) S0" "cd_version S0 = 1" "drifted e S0 S" "args \<noteq> []"
      "upsert_command ?row S = Some (ss_shared s')" by auto
  have "S = S0" by (rule drifted_alone [OF S(4) assms(2) S(3)])
  with S upsert_command_put [OF S(6)] have rows: "cd_rows (ss_shared s') =
      put_command (or_empty variant, cr_file ?row) (cr_directory ?row, packed args) (cd_rows S)"
    and rd: "ready (ss_shared s')" "cd_version S = 1"
    by (simp_all add: ready_def command_key_def stored_row_def Let_def)
  have u: "undisturbed e s'" using S(1) assms(2,5) by (simp add: undisturbed_def)
  have "get_command (or_empty variant, cr_file ?row) (cd_rows (ss_shared s')) = Some (cr_directory ?row, packed args)"
    by (simp add: rows commands.get_put)
  from get_command_select [OF this] have sel: "select_command (or_empty variant) (cr_file ?row) (ss_shared s') =
      Some \<lparr>cr_variant = or_empty variant, cr_file = cr_file ?row, cr_directory = cr_directory ?row,
        cr_arguments = packed args\<rparr>" by auto
  have "\<exists>s''. command_db_load e (Some p) variant (Some g) s' =
        (0, Some \<lparr>lc_directory = cr_directory ?row, lc_file = cr_file ?row, lc_argv = args\<rparr>, s'')"
    if "command_db_absolute_path (de_fs e) ''.'' g = cr_file ?row"
    using load_undisturbed [OF u rd(1) assms(6), of p g] that sel unpack_packed [OF assms(4) S(5)] by simp
  moreover have "commands_map (ss_shared s') k = commands_map (ss_shared s) k"
    if "k \<noteq> (or_empty variant, cr_file ?row)" "ready (ss_shared s)" for k
  proof -
    have "S0 = ss_shared s" using drifted_alone [OF S(2) assms(2)] that(2) by (simp add: ready_def)
    with \<open>S = S0\<close> that(1) show ?thesis by (simp add: commands_map_def rows commands.get_put)
  qed
  ultimately show ?thesis by blast
qed

definition commands_ok :: "command_db \<Rightarrow> bool" where
  "commands_ok d \<longleftrightarrow> distinct (map command_key (cd_rows d)) \<and> readable_rows (cd_rows d)"

lemma drifted_ok:
  "drifted e d d1 \<Longrightarrow> (\<And>n x. commands_ok x \<Longrightarrow> commands_ok (de_others e n x)) \<Longrightarrow> commands_ok d \<Longrightarrow> commands_ok d1"
  by (induction rule: drifted.induct) (auto simp: commands_ok_def with_commands_def readable_rows_def)

lemma put_command_ok:
  assumes "distinct (map command_key rows)" and "readable_rows rows" and "unpack_arguments (snd v) \<noteq> None"
  shows "distinct (map command_key (put_command k v rows)) \<and> readable_rows (put_command k v rows)"
proof
  have "row_insert command_key (upsert command_key
      (\<lambda>x r. x\<lparr>cr_directory := cr_directory r, cr_arguments := cr_arguments r\<rparr>))"
    by (rule upsert_contract) (auto simp: command_key_def)
  from row_insert.ins_distinct [OF this assms(1)]
  show "distinct (map command_key (put_command k v rows))" by (simp add: put_command_def)
  show "readable_rows (put_command k v rows)"
    using assms(2,3) by (auto simp: put_command_def upsert_def readable_rows_def list_all_iff)
qed

text \<open>
  Stores keep every row readable: whatever fails, keys stay unique and every stored blob
  unpacks, so that loading reports a malformed command only for a database it did not write.
\<close>

theorem command_store_keeps_readable:
  assumes "commands_ok (ss_shared s)" and "\<And>n d. commands_ok d \<Longrightarrow> commands_ok (de_others e n d)"
    and "ss_txn s = None" and "\<And>args. argv = Some args \<Longrightarrow> list_all c_string args"
  shows "commands_ok (ss_shared (snd (command_db_store e path variant directory file argv s)))"
proof -
  obtain r s' where st: "command_db_store e path variant directory file argv s = (r, s')" by (rule prod.exhaust)
  from command_store_outcome [OF assms(3) st] show ?thesis
  proof (elim conjE disjE exE)
    assume "drifted e (ss_shared s) (ss_shared s')"
    from drifted_ok [OF this assms(2,1)] show ?thesis by (simp add: st)
  next
    fix S0 S dir f args
    assume d: "drifted e (ss_shared s) S0" "drifted e S0 S" "argv = Some args" "args \<noteq> []"
      and u: "upsert_command (stored_row e (or_empty variant) dir f args) S = Some (ss_shared s')"
    have "commands_ok S" by (rule drifted_ok [OF drifted_trans [OF d(1,2)] assms(2,1)])
    moreover have "unpack_arguments (packed args) \<noteq> None" using unpack_packed [OF assms(4) d(4)] d(3) by simp
    ultimately show ?thesis
      using upsert_command_put [OF u] put_command_ok [of "cd_rows S"]
      by (simp add: st commands_ok_def stored_row_def Let_def)
  qed
qed

text \<open>
  The export agrees with loading: when it reports success, the text it wrote is the JSON list
  of the variant's commands in the order of their files, each with exactly the arguments that
  unpacking gives, and every string of it reads back.
\<close>

theorem command_export_faithful:
  assumes "undisturbed e s" and "readable_rows (cd_rows (ss_shared s))"
    and "command_db_export e sk None (Some p) (Some v) s out = (0, s', out')"
  shows "o_text out' = o_text out @ exported v (ss_shared s) \<and> \<not> o_error out' \<and>
    sorted (map cr_file (export_rows v (ss_shared s))) \<and>
    set (export_rows v (ss_shared s)) = {r \<in> set (cd_rows (ss_shared s)). cr_variant r = v}"
proof -
  let ?s = "\<lambda>k. s\<lparr>ss_clock := ss_clock s + k\<rparr>"
  let ?rows = "export_rows v (ss_shared s)"
  have u: "undisturbed e (?s k)" for k using assms(1) by (simp add: undisturbed_def)
  have open0: "fst (command_db_open_reader e s) = 0 \<Longrightarrow> command_db_open_reader e s = (0, ?s 2)"
    using undisturbed_open [OF assms(1)] assms(1)
    by (auto simp: command_db_open_reader_def undisturbed_tick command_db_schema_version_def
        undisturbed_query [OF undisturbed_Suc] COMMAND_DB_SCHEMA_VERSION_def split: if_splits)
  have v: "v \<noteq> []" using assms(3) by (auto simp: command_db_export_def split: if_splits)
  have o0: "command_db_open_reader e s = (0, ?s 2)"
  proof (rule open0, rule ccontr)
    assume "fst (command_db_open_reader e s) \<noteq> 0"
    then have "fst (command_db_open_reader e s) = - 1"
      by (auto simp: command_db_open_reader_def split: prod.splits bool.splits option.splits if_splits)
    with assms(3) v show False by (auto simp: command_db_export_def split: prod.splits)
  qed
  obtain s2 where s2: "command_db_open_reader e s = (0, s2)" "undisturbed e s2" "ss_shared s2 = ss_shared s"
    using o0 u [of 2] by simp
  obtain s3 where s3: "db_select e prepare_commands s2 = (prepare_commands (ss_shared s), s3)"
      "undisturbed e s3" "ss_shared s3 = ss_shared s"
    using undisturbed_query_step [OF s2(2)] s2(3) by metis
  obtain s4 where s4: "db_select e (\<lambda>d. Some (export_rows v d)) s3 = (Some ?rows, s4)"
    using undisturbed_query_step [OF s3(2), of "\<lambda>d. Some (export_rows v d)"] s3(3) by auto
  obtain b1 out1 where 1: "fput sk (''['' @ newline) out = (b1, out1)" by (rule prod.exhaust)
  obtain b2 out2 where 2: "write_commands sk True ?rows out1 = (b2, out2)" by (rule prod.exhaust)
  obtain b3 out3 where 3: "fput sk (newline @ '']'' @ newline) out2 = (b3, out3)" by (rule prod.exhaust)
  have r: "b1 \<and> b2 \<and> b3 \<and> \<not> o_error out3 \<and> out3 = out'"
    using assms(3) v
    by (auto simp: command_db_export_def s2(1) s3(1) s4 1 [simplified] 2 3 [simplified] split: option.splits bool.splits if_splits)
  have rows: "readable_rows ?rows"
    using assms(2) by (auto simp: readable_rows_def export_rows_def list_all_iff)
  have "o_text out2 = o_text out1 @ join_with ('','' @ newline) (map row_entry ?rows)"
    using writes_commands [OF rows, of sk True] 2 r by (auto simp: writes_def)
  then have "o_text out' = o_text out @ exported v (ss_shared s)"
    using fput_ok [of sk _ out out1] fput_ok [of sk _ out2 out3] 1 3 r by (simp add: exported_def)
  with r show ?thesis by (auto simp: export_rows_def)
qed

end
