(* ===== verification/Command_Witnesses.thy ===== *)
theory Command_Witnesses
  imports Command_Properties
begin

text \<open>Instances of the properties of the command database on a small database.\<close>

definition quiet_fs :: fs where
  "quiet_fs = \<lparr>fs_realpath = (\<lambda>p. Some (if p = ''.'' then ''/r'' else ''/r/a.c'')), fs_stat = (\<lambda>_. None),
     fs_lstat = (\<lambda>_. False)\<rparr>"

definition quiet_env :: db_env where
  "quiet_env = \<lparr>de_fault = (\<lambda>_. False), de_others = (\<lambda>_ d. d), de_fs = quiet_fs, de_mkdir_ok = (\<lambda>_. True)\<rparr>"

definition sample_commands :: command_db where
  "sample_commands = \<lparr>cd_version = 1, cd_tables = [''commands''],
     cd_rows = [\<lparr>cr_variant = ''v'', cr_file = ''/b.c'', cr_directory = ''/'', cr_arguments = ''cc'' @ [NUL]\<rparr>]\<rparr>"

definition sample_session :: session where
  "sample_session = \<lparr>ss_shared = sample_commands, ss_txn = None, ss_clock = 0\<rparr>"

definition sample_stored :: "int \<times> session" where
  "sample_stored = command_db_store quiet_env (Some ''c.db'') (Some ''v'') (Some ''.'') (Some ''a.c'')
     (Some [''cc'', ''a.c'']) sample_session"

lemmas command_run_defs = command_db_store_def command_open_writer_def command_init_schema_def
  command_db_schema_version_def db_select_def db_exec_def db_tick_def db_current_def db_close_def
  quiet_env_def quiet_fs_def sample_session_def sample_commands_def pack_arguments_def
  COMMAND_DB_SCHEMA_VERSION_def pragma_statement_def prepare_commands_def commands_table_def
  upsert_command_def upsert_def command_db_absolute_path_def command_key_def SIZE_MAX_def

lemma sample_stored_eq:
  "sample_stored = (0, \<lparr>ss_shared = sample_commands\<lparr>cd_rows := cd_rows sample_commands @
       [\<lparr>cr_variant = ''v'', cr_file = ''/r/a.c'', cr_directory = ''/r'',
         cr_arguments = ''cc'' @ [NUL] @ ''a.c'' @ [NUL]\<rparr>]\<rparr>,
     ss_txn = None, ss_clock = 6\<rparr>)"
  unfolding sample_stored_def by (simp add: command_run_defs Let_def)

lemma sample_args: "list_all c_string [''cc'', ''a.c'']"
  by (simp add: c_string_def NUL_def)

theorem pack_unpack_witness:
  "\<exists>blob. pack_arguments [''cc'', ''a.c''] = Some blob \<and> unpack_arguments blob = Some [''cc'', ''a.c''] \<and>
    packed_size 0 [''cc'', ''a.c''] = Some (length blob) \<and>
    (\<forall>blob'. unpack_arguments blob' = Some [''cc'', ''a.c''] \<longleftrightarrow> blob' = blob)"
  by (rule pack_unpack [OF sample_args]) (simp_all add: SIZE_MAX_def)

theorem command_store_updates_witness:
  "fst sample_stored = - 1 \<and> drifted quiet_env (ss_shared sample_session) (ss_shared (snd sample_stored)) \<or>
    fst sample_stored = 0 \<and> (\<exists>S dir f args. drifted quiet_env (ss_shared sample_session) S \<and>
      Some ''.'' = Some dir \<and> Some ''a.c'' = Some f \<and> Some [''cc'', ''a.c''] = Some args \<and>
      (let row = stored_row quiet_env (or_empty (Some ''v'')) dir f args in
       commands_map (ss_shared (snd sample_stored)) =
         (commands_map S)((or_empty (Some ''v''), cr_file row) \<mapsto> (cr_directory row, packed args))))"
  by (rule command_store_updates [where path = "Some ''c.db''"])
    (simp_all add: sample_session_def sample_stored_def)

theorem command_store_load_roundtrip_witness:
  "command_db_absolute_path quiet_fs ''.'' ''a.c'' = ''/r/a.c'' \<and>
   (\<exists>s''. command_db_load quiet_env (Some ''c.db'') (Some ''v'') (Some ''a.c'') (snd sample_stored) =
      (0, Some \<lparr>lc_directory = ''/r'', lc_file = ''/r/a.c'', lc_argv = [''cc'', ''a.c'']\<rparr>, s''))"
proof
  show abs: "command_db_absolute_path quiet_fs ''.'' ''a.c'' = ''/r/a.c''"
    by (simp add: command_db_absolute_path_def quiet_fs_def)
  have row: "cr_file (stored_row quiet_env ''v'' ''.'' ''a.c'' [''cc'', ''a.c'']) = ''/r/a.c''"
      "cr_directory (stored_row quiet_env ''v'' ''.'' ''a.c'' [''cc'', ''a.c'']) = ''/r''"
    by (simp_all add: stored_row_def command_db_absolute_path_def quiet_env_def quiet_fs_def Let_def)
  have st: "command_db_store quiet_env (Some ''c.db'') (Some ''v'') (Some ''.'') (Some ''a.c'')
      (Some [''cc'', ''a.c'']) sample_session = (0, snd sample_stored)"
    using sample_stored_eq by (simp add: sample_stored_def)
  show "\<exists>s''. command_db_load quiet_env (Some ''c.db'') (Some ''v'') (Some ''a.c'') (snd sample_stored) =
      (0, Some \<lparr>lc_directory = ''/r'', lc_file = ''/r/a.c'', lc_argv = [''cc'', ''a.c'']\<rparr>, s'')"
    using command_store_load_roundtrip [OF _ _ st sample_args, of "''a.c''" "''c.db''"] abs row
    by (simp add: sample_session_def quiet_env_def)
qed

theorem command_store_keeps_readable_witness: "commands_ok (ss_shared (snd sample_stored))"
  unfolding sample_stored_def
  by (rule command_store_keeps_readable)
    (auto simp: sample_session_def sample_commands_def commands_ok_def readable_rows_def quiet_env_def
      unpack_arguments_def c_string_def NUL_def)

definition open_sink :: sink where
  "open_sink n = None"

definition empty_stream :: stream where
  "empty_stream = \<lparr>o_text = [], o_error = False, o_calls = 0\<rparr>"

definition sample_exported :: "int \<times> session \<times> stream" where
  "sample_exported = command_db_export quiet_env open_sink None (Some ''c.db'') (Some ''v'') sample_session empty_stream"

lemma sample_exported_ok: "fst sample_exported = 0"
  unfolding sample_exported_def
  by (simp add: command_db_export_def command_db_open_reader_def command_run_defs export_rows_def
      write_command_def in_order_def write_arguments_def write_argument_loop.simps write_json_string_def
      fput_def open_sink_def empty_stream_def NUL_def)

theorem command_export_faithful_witness:
  "o_text (snd (snd sample_exported)) = o_text empty_stream @ exported ''v'' (ss_shared sample_session) \<and>
    \<not> o_error (snd (snd sample_exported)) \<and>
    sorted (map cr_file (export_rows ''v'' (ss_shared sample_session))) \<and>
    set (export_rows ''v'' (ss_shared sample_session)) =
      {r \<in> set (cd_rows (ss_shared sample_session)). cr_variant r = ''v''}"
proof (rule command_export_faithful)
  show "undisturbed quiet_env sample_session"
    by (simp add: undisturbed_def quiet_env_def sample_session_def)
  show "readable_rows (cd_rows (ss_shared sample_session))"
    by (simp add: readable_rows_def sample_session_def sample_commands_def unpack_arguments_def NUL_def)
  show "command_db_export quiet_env open_sink None (Some ''c.db'') (Some ''v'') sample_session empty_stream =
      (0, fst (snd sample_exported), snd (snd sample_exported))"
    using sample_exported_ok by (simp add: sample_exported_def prod_eq_iff)
qed

end
