(* ===== verification/Pipeline_Properties.thy ===== *)
theory Pipeline_Properties
  imports Pipeline Index_Witnesses Command_Witnesses
begin

text \<open>
  What a run of the pipeline does to the two databases: the relation \<open>pipeline_effect\<close> has one
  rule per way a run can end, \<open>pipeline_run\<close> takes one of them, and the properties follow from
  the contracts of the two stores.
\<close>

section \<open>The effects of a run\<close>

text \<open>The root and the commit that a run hands to the store of the symbol database.\<close>

definition explicit_root :: "pipeline_env \<Rightarrow> pipeline_request \<Rightarrow> string option" where
  "explicit_root e request = repository_root_explicit (env_fs (pe_index e)) (pr_repository_root request)"

definition chosen :: "pipeline_env \<Rightarrow> pipeline_request \<Rightarrow> git_state \<Rightarrow> string option \<Rightarrow> string option \<Rightarrow> bool" where
  "chosen e request g root commit \<longleftrightarrow>
     (pr_repository_root request = None \<or> explicit_root e request \<noteq> None) \<and>
     (\<exists>git. root = choose_root (env_fs (pe_index e)) request (explicit_root e request) git \<and>
        commit = choose_commit request git \<and>
        (if pr_git_commit_mode request = GIT_COMMIT_AUTO
         then \<exists>ret g'. pe_provenance e (if explicit_root e request = None then pr_source_file request
                 else explicit_root e request) g = (ret, git, g')
         else git = no_loaded))"

definition symbols_stored ::
  "pipeline_env \<Rightarrow> pipeline_request \<Rightarrow> frontend \<Rightarrow> pipeline_world \<Rightarrow> int \<Rightarrow> pipeline_world \<Rightarrow> bool" where
  "symbols_stored e request fe pw r pw' \<longleftrightarrow>
     (\<exists>root commit w. chosen e request (pw_git pw) root commit \<and> shared w = shared (pw_index pw) \<and>
        r = fst (index_db_store (pe_index e) (index_store_request request fe root commit) w) \<and>
        shared (pw_index pw') = shared (snd (index_db_store (pe_index e) (index_store_request request fe root commit) w)))"

inductive pipeline_effect ::
  "pipeline_env \<Rightarrow> pipeline_request \<Rightarrow> frontend \<Rightarrow> pipeline_world \<Rightarrow> int \<Rightarrow> pipeline_result \<Rightarrow> pipeline_world \<Rightarrow> bool"
  for e request fe pw where
  kept: "same_databases pw pw' \<Longrightarrow> rs_persisted res = OUTPUT_ONLY \<Longrightarrow> rs_failed_stage res = STAGE_NONE \<Longrightarrow>
    pr_storage request = OUTPUT_ONLY \<or> (\<exists>fr. fe_result fe = Some fr \<and> returns_partial request (run_frontend request fe) fr) \<Longrightarrow>
    pipeline_effect e request fe pw 0 res pw'"
| failed: "same_databases pw pw' \<Longrightarrow> rs_persisted res = OUTPUT_ONLY \<Longrightarrow>
    rs_failed_stage res \<in> {STAGE_CREATE, STAGE_FRONTEND, STAGE_FINGERPRINT, STAGE_REPOSITORY_ROOT} \<Longrightarrow>
    pipeline_effect e request fe pw (- 1) res pw'"
| symbols_failed: "symbols_stored e request fe pw r pw' \<Longrightarrow> r < 0 \<Longrightarrow> pw_commands pw' = pw_commands pw \<Longrightarrow>
    rs_persisted res = OUTPUT_ONLY \<Longrightarrow> rs_failed_stage res = STAGE_SYMBOL_DATABASE \<Longrightarrow>
    pr_storage request \<noteq> OUTPUT_ONLY \<Longrightarrow> pipeline_effect e request fe pw (- 1) res pw'"
| symbols: "symbols_stored e request fe pw r pw' \<Longrightarrow> 0 \<le> r \<Longrightarrow> pw_commands pw' = pw_commands pw \<Longrightarrow>
    rs_persisted res = STORE_SYMBOLS \<Longrightarrow> rs_failed_stage res = STAGE_NONE \<Longrightarrow>
    pr_storage request = STORE_SYMBOLS \<Longrightarrow> pipeline_effect e request fe pw 0 res pw'"
| command_failed: "symbols_stored e request fe pw r pw' \<Longrightarrow> 0 \<le> r \<Longrightarrow>
    store_command (pe_commands e) request (rs_command res) (pw_commands pw) = (c, pw_commands pw') \<Longrightarrow> c < 0 \<Longrightarrow>
    rs_persisted res = STORE_SYMBOLS \<Longrightarrow> rs_failed_stage res = STAGE_COMMAND_DATABASE \<Longrightarrow>
    pr_storage request = STORE_SYMBOLS_AND_COMMAND \<Longrightarrow> pipeline_effect e request fe pw (- 1) res pw'"
| both: "symbols_stored e request fe pw r pw' \<Longrightarrow> 0 \<le> r \<Longrightarrow>
    store_command (pe_commands e) request (rs_command res) (pw_commands pw) = (c, pw_commands pw') \<Longrightarrow> 0 \<le> c \<Longrightarrow>
    rs_persisted res = STORE_SYMBOLS_AND_COMMAND \<Longrightarrow> rs_failed_stage res = STAGE_NONE \<Longrightarrow>
    pr_storage request = STORE_SYMBOLS_AND_COMMAND \<Longrightarrow> pipeline_effect e request fe pw 0 res pw'"

lemma store_stages_effect:
  assumes run: "store_stages e request fe root commit res pw1 = (ret, res', pw2)"
    and "chosen e request (pw_git pw) root commit" and "same_databases pw pw1"
    and "rs_persisted res = OUTPUT_ONLY" and "rs_failed_stage res = STAGE_NONE"
    and "pr_storage request \<noteq> OUTPUT_ONLY" and pw': "same_databases pw2 pw'"
  shows "pipeline_effect e request fe pw ret res' pw'"
proof -
  obtain r w1 where st: "index_db_store (pe_index e) (index_store_request request fe root commit) (pw_index pw1) = (r, w1)"
    by (rule prod.exhaust)
  have stored: "symbols_stored e request fe pw r pw'" if "shared (pw_index pw2) = shared w1"
    unfolding symbols_stored_def
    using assms(2,3) st that pw' by (intro exI [of _ root] exI [of _ commit] exI [of _ "pw_index pw1"])
      (simp add: same_databases_def)
  obtain c s1 where cmd: "store_command (pe_commands e) request (rs_command res) (pw_commands pw1) = (c, s1)"
    by (rule prod.exhaust)
  show ?thesis
  proof (cases "r < 0")
    case True
    with run st have "ret = - 1" "res' = res\<lparr>rs_failed_stage := STAGE_SYMBOL_DATABASE\<rparr>"
      "pw2 = pipeline_trace ''symbol_database'' (pw1\<lparr>pw_index := w1\<rparr>)"
      by (simp_all add: store_stages_def Let_def)
    then show ?thesis using True assms
      by (auto simp: same_databases_def intro!: symbols_failed [OF stored])
  next
    case False
    note sym = this
    show ?thesis
    proof (cases "pr_storage request = STORE_SYMBOLS_AND_COMMAND")
      case False
      with assms(6) have "pr_storage request = STORE_SYMBOLS" by (cases "pr_storage request") simp_all
      with run st sym have "ret = 0" "res' = res\<lparr>rs_persisted := STORE_SYMBOLS\<rparr>"
        "pw2 = pipeline_trace ''symbol_database'' (pw1\<lparr>pw_index := w1\<rparr>)"
        by (simp_all add: store_stages_def Let_def)
      then show ?thesis using sym assms \<open>pr_storage request = STORE_SYMBOLS\<close>
        by (auto simp: same_databases_def intro!: symbols [OF stored])
    next
      case True
      show ?thesis
      proof (cases "c < 0")
        case c: True
        with True run st sym cmd have "ret = - 1"
          "res' = res\<lparr>rs_persisted := STORE_SYMBOLS, rs_failed_stage := STAGE_COMMAND_DATABASE\<rparr>"
          "pw2 = pipeline_trace ''command_database''
             ((pipeline_trace ''symbol_database'' (pw1\<lparr>pw_index := w1\<rparr>))\<lparr>pw_commands := s1\<rparr>)"
          by (simp_all add: store_stages_def Let_def)
        then show ?thesis using True c sym cmd assms
          by (auto simp: same_databases_def intro!: command_failed [OF stored])
      next
        case c: False
        with True run st sym cmd have "ret = 0"
          "res' = res\<lparr>rs_persisted := STORE_SYMBOLS_AND_COMMAND\<rparr>"
          "pw2 = pipeline_trace ''command_database''
             ((pipeline_trace ''symbol_database'' (pw1\<lparr>pw_index := w1\<rparr>))\<lparr>pw_commands := s1\<rparr>)"
          by (simp_all add: store_stages_def Let_def)
        then show ?thesis using True c sym cmd assms
          by (auto simp: same_databases_def intro!: both [OF stored])
      qed
    qed
  qed
qed

lemma same_databases_trans: "same_databases a b \<Longrightarrow> same_databases b c \<Longrightarrow> same_databases a c"
  by (simp add: same_databases_def)

lemma same_databases_simps [simp]:
  "same_databases a (b\<lparr>pw_git := g\<rparr>) \<longleftrightarrow> same_databases a b"
  "same_databases a (pipeline_trace p b) \<longleftrightarrow> same_databases a b"
  by (simp_all add: same_databases_def)

lemma storage_stages_effect:
  assumes run: "storage_stages e request fe res pw1 = (ret, res', pw')"
    and same: "same_databases pw pw1" and git: "pw_git pw1 = pw_git pw"
    and res: "rs_persisted res = OUTPUT_ONLY" "rs_failed_stage res = STAGE_NONE"
    and storage: "pr_storage request \<noteq> OUTPUT_ONLY"
  shows "pipeline_effect e request fe pw ret res' pw'"
proof (cases "fe_fingerprints_ret fe < 0")
  case True
  with run have "ret = - 1" "res' = res\<lparr>rs_failed_stage := STAGE_FINGERPRINT\<rparr>"
    "pw' = pipeline_trace ''fingerprint'' pw1"
    by (simp_all add: storage_stages_def)
  with same res show ?thesis by (auto intro: failed)
next
  case fp: False
  show ?thesis
  proof (cases "pr_repository_root request \<noteq> None \<and> explicit_root e request = None")
    case True
    with fp run have "ret = - 1" "res' = res\<lparr>rs_failed_stage := STAGE_REPOSITORY_ROOT\<rparr>"
      "pw' = (pipeline_trace ''provenance'' (pipeline_trace ''fingerprint'' pw1))
         \<lparr>pw_git := snd (git_provenance_destroy no_loaded (pw_git (pipeline_trace ''fingerprint'' pw1)))\<rparr>"
      by (simp_all add: storage_stages_def Let_def explicit_root_def)
    with same res show ?thesis by (auto intro: failed)
  next
    case root: False
    obtain pret pgit pg where p: "pe_provenance e (if explicit_root e request = None then pr_source_file request
        else explicit_root e request) (pw_git pw1) = (pret, pgit, pg)" by (rule prod_cases3)
    define git where "git = (if pr_git_commit_mode request = GIT_COMMIT_AUTO then pgit else no_loaded)"
    define g1 where "g1 = (if pr_git_commit_mode request = GIT_COMMIT_AUTO then pg else pw_git pw1)"
    define pw2 where "pw2 = pipeline_trace ''provenance'' ((pipeline_trace ''fingerprint'' pw1)\<lparr>pw_git := g1\<rparr>)"
    define root where "root = choose_root (env_fs (pe_index e)) request (explicit_root e request) git"
    define commit where "commit = choose_commit request git"
    obtain r2 res2 pw3 where st: "store_stages e request fe root commit res pw2 = (r2, res2, pw3)"
      by (rule prod_cases3)
    have out: "ret = r2" "res' = res2" "pw' = pw3\<lparr>pw_git := snd (git_provenance_destroy git (pw_git pw3))\<rparr>"
      using run fp root p st unfolding git_def g1_def pw2_def root_def commit_def
      by (auto simp: storage_stages_def Let_def explicit_root_def split: if_splits prod.splits)
    have "chosen e request (pw_git pw) root commit"
      unfolding chosen_def root_def commit_def using root p git by (auto simp: git_def)
    moreover have "same_databases pw pw2" using same by (simp add: pw2_def)
    ultimately show ?thesis
      unfolding out(1,2) by (rule store_stages_effect [OF st _ _ res storage]) (simp add: out(3))
  qed
qed

lemma pipeline_run_effect:
  assumes "pipeline_run e request fe pw = (ret, res, pw')"
  shows "pipeline_effect e request fe pw ret res pw'"
proof -
  let ?trace = "\<lambda>w. w\<lparr>pw_index := trace_points_to (fe_stats fe) (pw_index w)\<rparr>"
  let ?pw1 = "?trace (pipeline_trace ''parse'' pw)"
  have same: "same_databases pw ?pw1" by (simp add: same_databases_def)
  have git: "pw_git ?pw1 = pw_git pw" by simp
  show ?thesis
  proof (cases "fe_created fe")
    case False
    with assms show ?thesis by (auto simp: pipeline_run_def empty_result_def intro: failed)
  next
    case created: True
    show ?thesis
    proof (cases "\<exists>fr. fe_result fe = Some fr \<and> ir_status fr \<noteq> INDEX_FAILED")
      case False
      with assms created have "ret = - 1" "rs_failed_stage res = STAGE_FRONTEND" "rs_persisted res = OUTPUT_ONLY"
        "pw' = ?pw1"
        by (auto simp: pipeline_run_def Let_def empty_result_def split: option.splits)
      with same show ?thesis by (auto intro: failed)
    next
      case True
      then obtain fr where fr: "fe_result fe = Some fr" "ir_status fr \<noteq> INDEX_FAILED" by auto
      define res1 where "res1 = empty_result\<lparr>rs_created := True, rs_frontend_ret := run_frontend request fe,
        rs_frontend := fe_result fe, rs_command := (case pr_input request of
          PIPELINE_COMMAND \<Rightarrow> pr_command request | PIPELINE_COMPILE_COMMANDS \<Rightarrow> fe_compile_command fe)\<rparr>"
      have res1: "rs_persisted res1 = OUTPUT_ONLY" "rs_failed_stage res1 = STAGE_NONE"
        by (simp_all add: res1_def empty_result_def)
      let ?keep = "returns_partial request (run_frontend request fe) fr \<or> pr_storage request = OUTPUT_ONLY"
      show ?thesis
      proof (cases ?keep)
        case True
        with assms created fr have "ret = 0" "res = res1" "pw' = ?pw1"
          by (auto simp: pipeline_run_def Let_def res1_def split: if_splits)
        with True same res1 fr show ?thesis by (auto intro: kept)
      next
        case False
        with assms created fr have "storage_stages e request fe res1 ?pw1 = (ret, res, pw')"
          by (auto simp: pipeline_run_def Let_def res1_def split: if_splits)
        from storage_stages_effect [OF this same git res1] False show ?thesis by simp
      qed
    qed
  qed
qed

inductive_cases pipeline_effectE: "pipeline_effect e request fe pw ret res pw'"

lemma index_db_store_codes: "fst (index_db_store e req w) = 0 \<or> fst (index_db_store e req w) = - 1"
  using store_result [where e = e and req = req and w = w] by auto

lemma index_db_store_failed:
  "fst (index_db_store e req w) < 0 \<Longrightarrow> evolved e (shared w) (shared (snd (index_db_store e req w)))"
  using store_result [where e = e and req = req and w = w] by auto

section \<open>Properties\<close>

text \<open>
  C21. The result of a run is truthful: it returns 0 exactly when no stage is reported as failed
  and -1 otherwise. Unless the symbol database is reported as stored or as the stage that
  failed, both databases are untouched; the command database is untouched unless the symbols
  are reported as stored and the request asks for the command too.
\<close>

theorem pipeline_reports_truthfully:
  assumes "pipeline_run e request fe pw = (ret, res, pw')"
  shows "ret = (if rs_failed_stage res = STAGE_NONE then 0 else - 1) \<and>
    (rs_persisted res = OUTPUT_ONLY \<longrightarrow> rs_failed_stage res \<noteq> STAGE_SYMBOL_DATABASE \<longrightarrow> same_databases pw pw') \<and>
    (rs_persisted res = OUTPUT_ONLY \<or> pr_storage request \<noteq> STORE_SYMBOLS_AND_COMMAND \<longrightarrow>
      pw_commands pw' = pw_commands pw) \<and>
    (rs_failed_stage res = STAGE_SYMBOL_DATABASE \<longrightarrow> evolved (pe_index e) (shared (pw_index pw)) (shared (pw_index pw')))"
  using pipeline_run_effect [OF assms]
proof (cases rule: pipeline_effect.cases)
  case (symbols_failed r)
  then have "evolved (pe_index e) (shared (pw_index pw)) (shared (pw_index pw'))"
    by (auto simp: symbols_stored_def dest!: index_db_store_failed)
  with symbols_failed show ?thesis by simp
qed (auto simp: same_databases_def)

text \<open>The databases that a successful run has stored into.\<close>

lemma persisted_symbols:
  assumes "pipeline_run e request fe pw = (ret, res, pw')" and "rs_persisted res \<noteq> OUTPUT_ONLY"
  obtains root commit w where "chosen e request (pw_git pw) root commit" "shared w = shared (pw_index pw)"
    "fst (index_db_store (pe_index e) (index_store_request request fe root commit) w) = 0"
    "shared (pw_index pw') = shared (snd (index_db_store (pe_index e) (index_store_request request fe root commit) w))"
proof -
  have "\<exists>r. symbols_stored e request fe pw r pw' \<and> 0 \<le> r"
    using pipeline_run_effect [OF assms(1)] assms(2) by (cases rule: pipeline_effect.cases) auto
  then show thesis
    using that index_db_store_codes [of "pe_index e"] unfolding symbols_stored_def by fastforce
qed

lemma persisted_command:
  assumes "pipeline_run e request fe pw = (ret, res, pw')" and "rs_persisted res = STORE_SYMBOLS_AND_COMMAND"
  obtains c s where "rs_command res = Some c" "command_db_store (pe_commands e) (pr_commands_database request)
    (pr_variant request) (cc_directory c) (Some (cc_file c)) (Some (cc_argv c)) (pw_commands pw) = (s, pw_commands pw')"
    "0 \<le> s"
proof -
  have "\<exists>s. store_command (pe_commands e) request (rs_command res) (pw_commands pw) = (s, pw_commands pw') \<and> 0 \<le> s"
    using pipeline_run_effect [OF assms(1)] assms(2) by (cases rule: pipeline_effect.cases) auto
  then show thesis using that by (auto simp: store_command_def split: option.splits)
qed

text \<open>
  The provenance that a run leaves with its variant. Without other writers, after a run that
  stored symbols: a repository root that was given is recorded as the directory it resolves to,
  a commit that was given is recorded as given, and without a commit the recorded one stays.
\<close>

theorem pipeline_provenance:
  assumes "pipeline_run e request fe pw = (ret, res, pw')" and "rs_persisted res \<noteq> OUTPUT_ONLY"
    and "\<And>n db. others (pe_index e) n db = db" and "pr_variant request = Some v"
  shows "\<exists>row. variant_row_of (shared (pw_index pw')) v = Some row \<and>
    (pr_repository_root request \<noteq> None \<longrightarrow> (\<exists>d st. repository_root_explicit (env_fs (pe_index e)) (pr_repository_root request) = Some d \<and>
       fs_stat (env_fs (pe_index e)) d = Some st \<and> stat_is_dir st \<and> v_repository_root row = Some d)) \<and>
    (pr_git_commit_mode request = GIT_COMMIT_EXPLICIT \<longrightarrow> pr_git_commit request \<noteq> None \<longrightarrow>
       v_git_commit row = pr_git_commit request) \<and>
    (pr_git_commit_mode request = GIT_COMMIT_DISABLED \<longrightarrow>
       v_git_commit row = Option.bind (variant_row_of (shared (pw_index pw)) v) v_git_commit) \<and>
    (\<forall>v'. v' \<noteq> v \<longrightarrow> variant_row_of (shared (pw_index pw')) v' = variant_row_of (shared (pw_index pw)) v')"
proof -
  obtain root commit w where c: "chosen e request (pw_git pw) root commit" and w: "shared w = shared (pw_index pw)"
    and st: "fst (index_db_store (pe_index e) (index_store_request request fe root commit) w) = 0"
    and pw': "shared (pw_index pw') = shared (snd (index_db_store (pe_index e) (index_store_request request fe root commit) w))"
    using assms(1,2) by (rule persisted_symbols)
  have v: "sr_variant (index_store_request request fe root commit) = Some v"
    using assms(4) by (simp add: index_store_request_def)
  note row = store_variants [OF assms(3) st v, unfolded pw' [symmetric] w]
  have root: "\<exists>d st. repository_root_explicit (env_fs (pe_index e)) (pr_repository_root request) = Some d \<and>
      fs_stat (env_fs (pe_index e)) d = Some st \<and> stat_is_dir st \<and> root = Some d"
    if "pr_repository_root request \<noteq> None"
    using c that by (auto simp: chosen_def explicit_root_def choose_root_def repository_root_explicit_def
        split: option.splits if_splits)
  have commit: "pr_git_commit_mode request = GIT_COMMIT_EXPLICIT \<Longrightarrow> commit = pr_git_commit request"
    "pr_git_commit_mode request = GIT_COMMIT_DISABLED \<Longrightarrow> commit = None"
    using c by (auto simp: chosen_def choose_commit_def)
  show ?thesis
    using row [of v] root commit
    by (auto simp: index_store_request_def coalesce_def row split: option.splits)
qed

text \<open>
  A run that reports the command as stored has recorded it: the command database maps the
  variant and the absolute path of the command's file to its directory and its packed arguments,
  and the symbols of the same run were committed before it.
\<close>

theorem pipeline_records_command:
  assumes "pipeline_run e request fe pw = (ret, res, pw')"
    and "rs_persisted res = STORE_SYMBOLS_AND_COMMAND" and "ss_txn (pw_commands pw) = None"
  shows "ret = 0 \<and> (\<exists>c dir. rs_command res = Some c \<and> cc_directory c = Some dir \<and>
    (let row = stored_row (pe_commands e) (or_empty (pr_variant request)) dir (cc_file c) (cc_argv c) in
     commands_map (ss_shared (pw_commands pw')) (or_empty (pr_variant request), cr_file row) =
       Some (cr_directory row, packed (cc_argv c)))) \<and>
    (\<exists>root commit w. chosen e request (pw_git pw) root commit \<and> shared w = shared (pw_index pw) \<and>
       fst (index_db_store (pe_index e) (index_store_request request fe root commit) w) = 0 \<and>
       shared (pw_index pw') = shared (snd (index_db_store (pe_index e) (index_store_request request fe root commit) w)))"
proof (intro conjI)
  show "ret = 0"
    using pipeline_run_effect [OF assms(1)] assms(2) by (cases rule: pipeline_effect.cases) auto
  obtain c s where c: "rs_command res = Some c" "0 \<le> s" and s: "command_db_store (pe_commands e)
      (pr_commands_database request) (pr_variant request) (cc_directory c) (Some (cc_file c)) (Some (cc_argv c))
      (pw_commands pw) = (s, pw_commands pw')"
    using assms(1,2) by (rule persisted_command)
  from command_store_outcome [OF assms(3) s] c(2) obtain S dir where
    "cc_directory c = Some dir"
    and u: "upsert_command (stored_row (pe_commands e) (or_empty (pr_variant request)) dir (cc_file c) (cc_argv c)) S =
      Some (ss_shared (pw_commands pw'))" by auto
  with c(1) upsert_command_put [OF u]
  show "\<exists>c dir. rs_command res = Some c \<and> cc_directory c = Some dir \<and>
    (let row = stored_row (pe_commands e) (or_empty (pr_variant request)) dir (cc_file c) (cc_argv c) in
     commands_map (ss_shared (pw_commands pw')) (or_empty (pr_variant request), cr_file row) =
       Some (cr_directory row, packed (cc_argv c)))"
    by (auto simp: commands_map_def commands.get_put command_key_def stored_row_def Let_def)
qed (use persisted_symbols [OF assms(1)] assms(2) in \<open>metis pipeline_storage.distinct(3)\<close>)

text \<open>
  Whatever happens, a run leaves the Git library as it found it, when the lookup of the
  provenance and its destruction are balanced (as they are for the backend and its loader).
\<close>

theorem pipeline_git_balanced:
  assumes "\<And>p s. snd (git_provenance_destroy (fst (snd (pe_provenance e p s))) (snd (snd (pe_provenance e p s)))) = s"
  shows "pw_git (snd (snd (pipeline_run e request fe pw))) = pw_git pw"
proof -
  have stages: "pw_git (snd (snd (store_stages e request fe root commit res w))) = pw_git w" for root commit res w
    by (simp add: store_stages_def Let_def split: prod.split)
  have none: "snd (git_provenance_destroy no_loaded s) = s" for s
    by (simp add: git_provenance_destroy_def no_loaded_def)
  have "pw_git (snd (snd (storage_stages e request fe res w))) = pw_git w" for res w
    unfolding storage_stages_def Let_def
    by (simp add: stages none assms case_prod_unfold)
  then show ?thesis
    by (simp add: pipeline_run_def Let_def split: option.split)
qed

end
