(* ===== verification/Pipeline_Witnesses.thy ===== *)
theory Pipeline_Witnesses
  imports Pipeline_Properties
begin

text \<open>
  A run of the pipeline that stores the index and the command of the earlier examples, with the
  repository found by its marker and the commit given.
\<close>

definition demo_pipeline_env :: pipeline_env where
  "demo_pipeline_env = \<lparr>pe_index = demo_env, pe_commands = quiet_env,
     pe_provenance = (\<lambda>p. git_provenance sample_loader demo_fs sample_git (or_empty p))\<rparr>"

definition demo_compile_command :: compile_command where
  "demo_compile_command = \<lparr>cc_directory = Some ''.'', cc_file = ''a.c'', cc_argv = [''cc'', ''a.c'']\<rparr>"

definition demo_pipeline_request :: pipeline_request where
  "demo_pipeline_request = \<lparr>pr_input = PIPELINE_COMMAND, pr_storage = STORE_SYMBOLS_AND_COMMAND,
     pr_partial = STORE_PARTIAL, pr_command = Some demo_compile_command, pr_compile_commands = None,
     pr_source_file = Some ''/r/a.c'', pr_symbol_database = Some ''/db'', pr_commands_database = Some ''c.db'',
     pr_variant = Some ''v'', pr_repository_root = None, pr_git_commit = Some ''c0ffee'', pr_scope = SCOPE_PROJECT,
     pr_git_commit_mode = GIT_COMMIT_EXPLICIT, pr_include_local = False, pr_details = False\<rparr>"

definition demo_frontend :: frontend where
  "demo_frontend = \<lparr>fe_created = True, fe_command_ret = 0, fe_file_ret = 0,
     fe_result = Some \<lparr>ir_status = INDEX_CLEAN, ir_warnings = 0, ir_errors = 0, ir_fatal = 0\<rparr>, fe_stats = None,
     fe_compile_command = None, fe_fingerprints_ret = 0, fe_index = demo_index\<rparr>"

definition demo_pipeline_world :: pipeline_world where
  "demo_pipeline_world = \<lparr>pw_index = demo_world, pw_commands = sample_session,
     pw_git = \<lparr>gs_inits = 0, gs_backends = 0\<rparr>\<rparr>"

abbreviation demo_ran :: "int \<times> pipeline_result \<times> pipeline_world" where
  "demo_ran \<equiv> pipeline_run demo_pipeline_env demo_pipeline_request demo_frontend demo_pipeline_world"

definition demo_store_request :: store_request where
  "demo_store_request = demo_req\<lparr>sr_provenance := \<lparr>pv_repository_root = Some ''/r'', pv_git_commit = Some ''c0ffee''\<rparr>\<rparr>"

lemma demo_store_request_eq:
  "index_store_request demo_pipeline_request demo_frontend (Some ''/r'') (Some ''c0ffee'') = demo_store_request"
  by (simp add: index_store_request_def demo_pipeline_request_def demo_frontend_def demo_store_request_def demo_req_def)

lemma demo_provenance: "pv_repository_root (sr_provenance demo_req) = Some ''/r''"
  by (simp add: demo_req_def)

lemma demo_pipeline_stores: "usable (shared w) \<Longrightarrow> fst (index_db_store demo_env demo_store_request w) = 0"
  by (rule store_live [OF demo_alone(3), where path = "''/db''" and ix = demo_index and v = "''v''" and paths = demo_paths])
    (use demo_paths demo_ok demo_provenance in \<open>simp_all add: demo_alone demo_store_request_def demo_request request_paths_def\<close>)

lemma demo_command_stored:
  "store_command quiet_env demo_pipeline_request (Some demo_compile_command) sample_session = sample_stored"
  by (simp add: store_command_def demo_compile_command_def demo_pipeline_request_def sample_stored_def)

lemma demo_choices:
  "choose_root demo_fs demo_pipeline_request None no_loaded = Some ''/r''"
  "choose_commit demo_pipeline_request git = Some ''c0ffee''"
  by (simp_all add: choose_root_def demo_pipeline_request_def demo_root root_string_def no_loaded_def no_provenance_def choose_commit_def)

lemma demo_store_stages:
  assumes "usable (shared (pw_index pw))" and "pw_commands pw = sample_session"
    and "rs_command res = Some demo_compile_command"
  shows "fst (store_stages demo_pipeline_env demo_pipeline_request demo_frontend (Some ''/r'') (Some ''c0ffee'') res pw) = 0 \<and>
    rs_persisted (fst (snd (store_stages demo_pipeline_env demo_pipeline_request demo_frontend (Some ''/r'') (Some ''c0ffee'') res pw))) =
      STORE_SYMBOLS_AND_COMMAND \<and>
    rs_command (fst (snd (store_stages demo_pipeline_env demo_pipeline_request demo_frontend (Some ''/r'') (Some ''c0ffee'') res pw))) =
      Some demo_compile_command"
proof -
  obtain w1 where w1: "index_db_store demo_env demo_store_request (pw_index pw) = (0, w1)"
    using demo_pipeline_stores [OF assms(1)] by (metis prod.collapse)
  have storage: "pr_storage demo_pipeline_request = STORE_SYMBOLS_AND_COMMAND"
    by (simp add: demo_pipeline_request_def)
  show ?thesis
    using assms(2,3) by (simp add: store_stages_def demo_store_request_eq demo_pipeline_env_def w1 storage
        demo_command_stored sample_stored_eq Let_def)
qed

lemma demo_ran:
  "fst demo_ran = 0 \<and> rs_persisted (fst (snd demo_ran)) = STORE_SYMBOLS_AND_COMMAND \<and>
    rs_command (fst (snd demo_ran)) = Some demo_compile_command"
proof -
  let ?pw1 = "pipeline_trace ''parse'' demo_pipeline_world"
  let ?pw2 = "?pw1\<lparr>pw_index := trace_points_to None (pw_index ?pw1)\<rparr>"
  let ?res = "empty_result\<lparr>rs_created := True, rs_frontend_ret := run_frontend demo_pipeline_request demo_frontend,
        rs_frontend := fe_result demo_frontend, rs_command := Some demo_compile_command\<rparr>"
  have run: "demo_ran = storage_stages demo_pipeline_env demo_pipeline_request demo_frontend ?res ?pw2"
    by (simp add: pipeline_run_def demo_frontend_def demo_pipeline_request_def returns_partial_def Let_def)
  let ?pw3 = "pipeline_trace ''provenance'' (pipeline_trace ''fingerprint'' ?pw2)"
  have pw3: "(pipeline_trace ''fingerprint'' ?pw2)\<lparr>pw_git := pw_git (pipeline_trace ''fingerprint'' ?pw2)\<rparr> =
      pipeline_trace ''fingerprint'' ?pw2" by simp
  have stages: "fst demo_ran = fst (store_stages demo_pipeline_env demo_pipeline_request demo_frontend (Some ''/r'') (Some ''c0ffee'') ?res ?pw3)"
    "fst (snd demo_ran) = fst (snd (store_stages demo_pipeline_env demo_pipeline_request demo_frontend (Some ''/r'') (Some ''c0ffee'') ?res ?pw3))"
  proof -
    have root: "pr_repository_root demo_pipeline_request = None" "pr_git_commit_mode demo_pipeline_request \<noteq> GIT_COMMIT_AUTO"
      "\<not> fe_fingerprints_ret demo_frontend < 0" "repository_root_explicit demo_fs None = None"
      by (simp_all add: demo_pipeline_request_def demo_frontend_def repository_root_explicit_def)
    have fs: "env_fs (pe_index demo_pipeline_env) = demo_fs" by (simp add: demo_pipeline_env_def demo_env_def)
    show "fst demo_ran = fst (store_stages demo_pipeline_env demo_pipeline_request demo_frontend (Some ''/r'') (Some ''c0ffee'') ?res ?pw3)"
      "fst (snd demo_ran) = fst (snd (store_stages demo_pipeline_env demo_pipeline_request demo_frontend (Some ''/r'') (Some ''c0ffee'') ?res ?pw3))"
      unfolding run storage_stages_def
      by (simp_all add: root fs demo_choices pw3 Let_def case_prod_unfold del: pipeline_trace_simps)
  qed
  show ?thesis
    unfolding stages by (rule demo_store_stages)
      (use demo_usable in \<open>simp_all add: demo_pipeline_world_def\<close>)
qed

lemma demo_ran_eq: "demo_ran = (fst demo_ran, fst (snd demo_ran), snd (snd demo_ran))"
  by simp

theorem pipeline_reports_truthfully_witness:
  "fst demo_ran = 0 \<and> rs_failed_stage (fst (snd demo_ran)) = STAGE_NONE"
  using pipeline_reports_truthfully [OF demo_ran_eq] demo_ran by (auto split: if_splits)

theorem pipeline_provenance_witness:
  "\<exists>row. variant_row_of (shared (pw_index (snd (snd demo_ran)))) ''v'' = Some row \<and> v_git_commit row = Some ''c0ffee''"
proof -
  have "\<And>n db. others (pe_index demo_pipeline_env) n db = db" "pr_variant demo_pipeline_request = Some ''v''"
    "pr_git_commit_mode demo_pipeline_request = GIT_COMMIT_EXPLICIT" "pr_git_commit demo_pipeline_request = Some ''c0ffee''"
    by (simp_all add: demo_pipeline_env_def demo_alone demo_pipeline_request_def)
  with pipeline_provenance [OF demo_ran_eq, where v = "''v''"] demo_ran show ?thesis by auto
qed

theorem pipeline_records_command_witness:
  "commands_map (ss_shared (pw_commands (snd (snd demo_ran)))) (''v'', ''/r/a.c'') =
    Some (''/r'', packed [''cc'', ''a.c''])"
proof -
  have txn: "ss_txn (pw_commands demo_pipeline_world) = None"
    by (simp add: demo_pipeline_world_def sample_session_def)
  have row: "stored_row quiet_env ''v'' ''.'' ''a.c'' [''cc'', ''a.c''] = \<lparr>cr_variant = ''v'', cr_file = ''/r/a.c'',
      cr_directory = ''/r'', cr_arguments = packed [''cc'', ''a.c'']\<rparr>"
    by (simp add: stored_row_def command_db_absolute_path_def quiet_env_def quiet_fs_def Let_def)
  have e: "pe_commands demo_pipeline_env = quiet_env" "pr_variant demo_pipeline_request = Some ''v''"
    by (simp_all add: demo_pipeline_env_def demo_pipeline_request_def)
  show ?thesis
    using pipeline_records_command [OF demo_ran_eq _ txn] demo_ran
    by (auto simp: e demo_compile_command_def row Let_def)
qed

theorem pipeline_git_balanced_witness:
  "pw_git (snd (snd demo_ran)) = \<lparr>gs_inits = 0, gs_backends = 0\<rparr>"
proof -
  have "snd (git_provenance_destroy (fst (snd (pe_provenance demo_pipeline_env p s))) (snd (snd (pe_provenance demo_pipeline_env p s)))) = s"
    for p s
    using backend_provenance_state [of demo_fs sample_git "or_empty p" "backend_open s"]
    by (simp add: demo_pipeline_env_def git_provenance_def sample_loader_def git_provenance_destroy_def case_prod_unfold Let_def)
  from pipeline_git_balanced [where e = demo_pipeline_env, OF this] show ?thesis
    by (simp add: demo_pipeline_world_def)
qed

end
