(* ===== verification/Names.thy ===== *)
theory Names
  imports Output Semindex_Types
begin

text \<open>
  \<open>lib/semindex_names\<close>: the names of symbol kinds, the letters of kinds and the access mode
  strings; and \<open>parse_mode\<close> of \<open>tools/search/cmd.c\<close>, which reads those strings. A kind from a
  database is any integer, as the C enumeration allows.
\<close>

section \<open>Tables of names\<close>

text \<open>A loop over a table that returns at the first match.\<close>

definition lookup_name :: "('k \<times> string) list \<Rightarrow> string \<Rightarrow> 'k option" where
  "lookup_name table name = map_option fst (find (\<lambda>kn. snd kn = name) table)"

definition symbol_kind_names :: "(symbol_kind \<times> string) list" where
  "symbol_kind_names =
     [(SYMBOL_VAR, ''variable''), (SYMBOL_FIELD, ''field''), (SYMBOL_STRUCT, ''struct''),
      (SYMBOL_UNION, ''union''), (SYMBOL_ENUM, ''enum''), (SYMBOL_ENUM_CONSTANT, ''enumerator''),
      (SYMBOL_TYPEDEF, ''typedef''), (SYMBOL_FUNCTION, ''function''), (SYMBOL_MACRO, ''macro''),
      (SYMBOL_FILE, ''file''), (SYMBOL_CLASS, ''class''), (SYMBOL_LAMBDA, ''lambda''),
      (SYMBOL_TEMPLATE, ''template'')]"

definition symbol_kind_name :: "int \<Rightarrow> string" where
  "symbol_kind_name kind =
     (case find (\<lambda>kn. kind = kind_code (fst kn)) symbol_kind_names of
        None \<Rightarrow> ''unknown'' | Some kn \<Rightarrow> snd kn)"

definition symbol_kind_parse :: "string \<Rightarrow> symbol_kind option" where
  "symbol_kind_parse name = lookup_name symbol_kind_names name"

lemma symbol_kind_parse_name: "symbol_kind_parse (symbol_kind_name (kind_code k)) = Some k"
  by (cases k) (simp_all add: symbol_kind_name_def symbol_kind_parse_def lookup_name_def symbol_kind_names_def)

lemma symbol_kind_name_parse:
  "symbol_kind_parse name = Some k \<Longrightarrow> symbol_kind_name (kind_code k) = name"
  by (auto simp: symbol_kind_parse_def lookup_name_def symbol_kind_names_def symbol_kind_name_def
      split: if_splits)

lemma symbol_kind_name_unknown:
  "symbol_kind_name kind = ''unknown'' \<longleftrightarrow> \<not> (kind_code SYMBOL_VAR \<le> kind \<and> kind \<le> kind_code SYMBOL_TEMPLATE)"
proof -
  have "symbol_kind_name (kind_code k) \<noteq> ''unknown''" for k
    by (cases k) (simp_all add: symbol_kind_name_def symbol_kind_names_def)
  moreover have "\<exists>k. kind = kind_code k" if "0 \<le> kind" "kind \<le> 12"
  proof -
    have "kind \<in> {0, 1, 2, 3, 4, 5, 6, 7, 8, 9, 10, 11, 12}" using that by simp presburger
    then have "kind \<in> kind_code ` set (map fst symbol_kind_names)" by (simp add: symbol_kind_names_def)
    then show ?thesis by blast
  qed
  moreover have "symbol_kind_name kind = ''unknown''" if "\<not> (0 \<le> kind \<and> kind \<le> 12)"
    using that by (auto simp: symbol_kind_name_def symbol_kind_names_def)
  ultimately show ?thesis by (metis kind_code.simps(1,13))
qed

section \<open>Letters and modes\<close>

definition output_symbol_kind_char :: "int \<Rightarrow> char" where
  "output_symbol_kind_char kind =
     (if kind = kind_code SYMBOL_FIELD then CHR ''m''
      else if kind = kind_code SYMBOL_STRUCT \<or> kind = kind_code SYMBOL_UNION then CHR ''s''
      else if kind = kind_code SYMBOL_ENUM then CHR ''E''
      else if kind = kind_code SYMBOL_ENUM_CONSTANT then CHR ''e''
      else if kind = kind_code SYMBOL_TYPEDEF then CHR ''t''
      else if kind = kind_code SYMBOL_FUNCTION then CHR ''f''
      else if kind = kind_code SYMBOL_MACRO then CHR ''d''
      else if kind = kind_code SYMBOL_FILE then CHR ''i''
      else if kind = kind_code SYMBOL_CLASS then CHR ''c''
      else if kind = kind_code SYMBOL_LAMBDA then CHR ''L''
      else if kind = kind_code SYMBOL_TEMPLATE then CHR ''T''
      else CHR ''v'')"

definition output_mode_string :: "u32 \<Rightarrow> string" where
  "output_mode_string mode =
     (let str0 = ''---'';
          str1 = (if and mode MODE_R_AOF \<noteq> 0 then str0[0 := CHR ''r''] else str0);
          str2 = (if and mode MODE_W_AOF \<noteq> 0
                  then str1[0 := if str1 ! 0 = CHR ''r'' then CHR ''m'' else CHR ''w''] else str1);
          str3 = (if and mode MODE_R_VAL \<noteq> 0 then str2[1 := CHR ''r''] else str2);
          str4 = (if and mode MODE_W_VAL \<noteq> 0
                  then str3[1 := if str3 ! 1 = CHR ''r'' then CHR ''m'' else CHR ''w''] else str3);
          str5 = (if and mode MODE_R_PTR \<noteq> 0 then str4[2 := CHR ''r''] else str4)
      in if and mode MODE_W_PTR \<noteq> 0
         then str5[2 := if str5 ! 2 = CHR ''r'' then CHR ''m'' else CHR ''w''] else str5)"

datatype record_filter = RECORD_FILTER_ALL | RECORD_FILTER_SYMBOL | RECORD_FILTER_USE

record search_options =
  so_pattern :: "string option"
  so_path :: "string option"
  so_format :: "string option"
  so_variant :: "string option"
  so_record :: record_filter
  so_mode :: u32
  so_kind :: int
  so_has_kind :: bool
  so_has_mode :: bool
  so_mode_definition :: bool

definition parse_modes :: "u32 list" where
  "parse_modes =
     [MODE_R_AOF, MODE_W_AOF, or MODE_R_AOF MODE_W_AOF,
      MODE_R_VAL, MODE_W_VAL, or MODE_R_VAL MODE_W_VAL,
      MODE_R_PTR, MODE_W_PTR, or MODE_R_PTR MODE_W_PTR]"

text \<open>The loop over the three positions.\<close>

fun mode_positions :: "nat \<Rightarrow> string \<Rightarrow> u32 \<Rightarrow> bool \<times> u32" where
  "mode_positions i [] mode = (True, mode)"
| "mode_positions i (c # cs) mode =
     (if c = CHR ''r'' then mode_positions (i + 1) cs (or mode (parse_modes ! (i * 3)))
      else if c = CHR ''w'' then mode_positions (i + 1) cs (or mode (parse_modes ! (i * 3 + 1)))
      else if c = CHR ''m'' then mode_positions (i + 1) cs (or mode (parse_modes ! (i * 3 + 2)))
      else if c = CHR ''-'' then mode_positions (i + 1) cs mode
      else (False, mode))"

definition expand_mode :: "string \<Rightarrow> string option" where
  "expand_mode value =
     (if length value = 1 then
        (if hd value = CHR ''r'' then Some ''rrr''
         else if hd value = CHR ''w'' then Some ''ww-''
         else if hd value = CHR ''m'' then Some ''mmm''
         else if hd value = CHR ''-'' then Some ''---''
         else None)
      else if length value \<noteq> 3 then None
      else Some value)"

definition parse_mode :: "string \<Rightarrow> search_options \<Rightarrow> int \<times> search_options" where
  "parse_mode value opts =
     (if value = ''def'' then (0, opts\<lparr>so_has_mode := True, so_mode_definition := True\<rparr>)
      else case expand_mode value of None \<Rightarrow> (- 1, opts)
      | Some expanded \<Rightarrow>
          (case mode_positions 0 expanded 0 of
             (False, mode) \<Rightarrow> (- 1, opts\<lparr>so_mode := mode\<rparr>)
           | (True, mode) \<Rightarrow> (0, opts\<lparr>so_mode := mode, so_has_mode := True\<rparr>)))"

text \<open>A position of the string, from the two bits of the access it describes.\<close>

definition mode_letter :: "bool \<Rightarrow> bool \<Rightarrow> char" where
  "mode_letter r w = (if r then (if w then CHR ''m'' else CHR ''r'') else if w then CHR ''w'' else CHR ''-'')"

lemmas mode_defs = MODE_R_AOF_def MODE_W_AOF_def MODE_R_VAL_def MODE_W_VAL_def MODE_R_PTR_def MODE_W_PTR_def

lemma mode_bits:
  fixes m :: u32
  shows "and m 1 \<noteq> 0 \<longleftrightarrow> bit m 0" "and m 2 \<noteq> 0 \<longleftrightarrow> bit m 1" "and m 4 \<noteq> 0 \<longleftrightarrow> bit m 2"
    "and m 8 \<noteq> 0 \<longleftrightarrow> bit m 3" "and m 16 \<noteq> 0 \<longleftrightarrow> bit m 4" "and m 32 \<noteq> 0 \<longleftrightarrow> bit m 5"
  using and_exp_eq_0_iff_not_bit [of m 0] and_exp_eq_0_iff_not_bit [of m 1]
    and_exp_eq_0_iff_not_bit [of m 2] and_exp_eq_0_iff_not_bit [of m 3]
    and_exp_eq_0_iff_not_bit [of m 4] and_exp_eq_0_iff_not_bit [of m 5]
  by simp_all

lemma output_mode_string_letters:
  "output_mode_string m =
     [mode_letter (bit m 0) (bit m 1), mode_letter (bit m 2) (bit m 3), mode_letter (bit m 4) (bit m 5)]"
  unfolding output_mode_string_def mode_defs mode_bits Let_def
  by (simp add: mode_letter_def)

definition access_bits :: "nat \<Rightarrow> bool \<Rightarrow> bool \<Rightarrow> u32" where
  "access_bits k r w = or (if r then 2 ^ k else 0) (if w then 2 ^ Suc k else 0)"

lemma mode_positions_letter:
  assumes "i < 3"
  shows "mode_positions i (mode_letter r w # cs) m =
    mode_positions (i + 1) cs (or m (access_bits (2 * i) r w))"
proof -
  have "i \<in> {0, 1, 2}" using assms by auto
  then show ?thesis
    by (auto simp: mode_letter_def access_bits_def parse_modes_def mode_defs)
qed

lemma bit_access_bits:
  "n < 32 \<Longrightarrow> k < 31 \<Longrightarrow> bit (access_bits k r w) n \<longleftrightarrow> (r \<and> n = k) \<or> (w \<and> n = Suc k)"
  by (auto simp: access_bits_def bit_or_iff bit_exp_iff simp del: power_Suc)

lemma access_bits_take:
  "or (or (or 0 (access_bits 0 (bit m 0) (bit m 1))) (access_bits 2 (bit m 2) (bit m 3)))
      (access_bits 4 (bit m 4) (bit m 5)) = take_bit 6 (m :: u32)"
proof (rule bit_word_eqI)
  fix n :: nat
  assume "n < LENGTH(32)"
  then have n: "n < 32" by simp
  have "bit (or (or (or 0 (access_bits 0 (bit m 0) (bit m 1))) (access_bits 2 (bit m 2) (bit m 3)))
      (access_bits 4 (bit m 4) (bit m 5))) n \<longleftrightarrow>
      (bit m 0 \<and> n = 0) \<or> (bit m 1 \<and> n = 1) \<or> (bit m 2 \<and> n = 2) \<or> (bit m 3 \<and> n = 3) \<or>
      (bit m 4 \<and> n = 4) \<or> (bit m 5 \<and> n = 5)"
    using n by (simp add: bit_or_iff bit_access_bits)
  also have "\<dots> \<longleftrightarrow> n < 6 \<and> bit m n"
  proof -
    consider "n = 0" | "n = 1" | "n = 2" | "n = 3" | "n = 4" | "n = 5" | "6 \<le> n" by linarith
    then show ?thesis by cases simp_all
  qed
  finally show "bit (or (or (or 0 (access_bits 0 (bit m 0) (bit m 1))) (access_bits 2 (bit m 2) (bit m 3)))
      (access_bits 4 (bit m 4) (bit m 5))) n = bit (take_bit 6 m) n"
    using n by (simp add: bit_take_bit_iff)
qed

lemma mode_positions_string:
  "mode_positions 0 (output_mode_string m) 0 = (True, take_bit 6 m)"
proof -
  have "mode_positions 0 (output_mode_string m) 0 =
      (True, or (or (or 0 (access_bits 0 (bit m 0) (bit m 1))) (access_bits 2 (bit m 2) (bit m 3)))
        (access_bits 4 (bit m 4) (bit m 5)))"
    using mode_positions_letter [of 0] mode_positions_letter [of 1] mode_positions_letter [of 2]
    by (simp add: numeral_2_eq_2 [symmetric] output_mode_string_letters del: mode_positions.simps(2))
  then show ?thesis by (simp only: access_bits_take)
qed

lemma output_mode_string_not_def: "output_mode_string m \<noteq> ''def''"
  by (simp add: output_mode_string_letters mode_letter_def)

section \<open>Round trips\<close>

text \<open>
  The access mode that is printed for a record is the mode option that selects it: parsing
  the printed string succeeds, gives the six mode bits of the record and leaves every other
  option as it was.
\<close>

theorem mode_roundtrip:
  "parse_mode (output_mode_string m) opts = (0, opts\<lparr>so_mode := take_bit 6 m, so_has_mode := True\<rparr>)"
proof -
  have "expand_mode (output_mode_string m) = Some (output_mode_string m)"
    by (simp add: expand_mode_def output_mode_string_letters)
  then show ?thesis
    by (simp add: parse_mode_def output_mode_string_not_def mode_positions_string)
qed

text \<open>
  The names of the symbol kinds and their parser are inverse to each other: a name is
  accepted for a kind exactly when it is the name printed for that kind.
\<close>

theorem kind_name_roundtrip:
  "symbol_kind_parse name = Some k \<longleftrightarrow> symbol_kind_name (kind_code k) = name"
  using symbol_kind_name_parse symbol_kind_parse_name by auto

end
