(* ===== verification/Index_Print.thy ===== *)
theory Index_Print
  imports Json Names Semindex_Types
begin

text \<open>
  The two printed forms of an index: \<open>lib/semindex_cmdline/output_json.c\<close> and
  \<open>output_dissect.c\<close>. A printing function is the list of chunks it writes, one per call of the
  C library; none of the calls is checked, the error indicator of the stream is tested at the
  end. A null pointer given to \<open>%s\<close> prints as \<open>(null)\<close>, as the C library of GNU has it.
\<close>

section \<open>JSON\<close>

definition use_kind_string :: "use_kind \<Rightarrow> string" where
  "use_kind_string kind =
     (case kind of USE_READ \<Rightarrow> ''read'' | USE_WRITE \<Rightarrow> ''write'' | USE_ADDR \<Rightarrow> ''address'' | USE_CALL \<Rightarrow> ''call'')"

definition print_optional_json_string :: "string option \<Rightarrow> string list" where
  "print_optional_json_string value = (if \<not> nonempty value then [''null''] else print_json_string value)"

definition print_json_id :: "u64 \<Rightarrow> string list" where
  "print_json_id i = (if i \<noteq> 0 then [[quote] @ hex16 i @ [quote]] else [''null''])"

text \<open>The literal \<open>,"key":\<close>.\<close>

definition next_key :: "string \<Rightarrow> string" where
  "next_key k = '','' @ json_string k @ '':''"

definition boolean :: "bool \<Rightarrow> string" where
  "boolean b = (if b then ''true'' else ''false'')"

definition print_properties :: "u64 \<Rightarrow> string list" where
  "print_properties properties =
     (let constructor = and properties PROPERTY_CONSTRUCTOR \<noteq> 0;
          separator = (if constructor then '','' else [])
      in [next_key ''properties'' @ ''[''] @
         (if constructor then [json_string ''constructor''] else []) @
         (if and properties PROPERTY_DESTRUCTOR \<noteq> 0 then [separator @ json_string ''destructor''] else []) @
         ['']''])"

definition print_json_symbol :: "symbol \<Rightarrow> string list" where
  "print_json_symbol symbol =
     [''    {'' @ json_string ''kind'' @ '':''] @ print_json_string (Some (symbol_kind_name (kind_code (sym_kind symbol)))) @
     [next_key ''name''] @ print_json_string (sym_name symbol) @
     [next_key ''owner''] @ print_optional_json_string (sym_owner symbol) @
     [next_key ''type''] @ print_optional_json_string (sym_type symbol) @
     [next_key ''usr''] @ print_optional_json_string (sym_usr symbol) @
     [next_key ''usr_id''] @ print_json_id (sym_usr_id symbol) @
     [next_key ''context''] @ print_optional_json_string (sym_context symbol) @
     [next_key ''file''] @ print_json_string (Some (sym_file symbol)) @
     [next_key ''line'' @ decimal (unat (sym_line symbol)) @ next_key ''column'' @ decimal (unat (sym_column symbol)) @
      next_key ''local'' @ boolean (sym_local symbol \<noteq> 0) @ next_key ''definition'' @ boolean (sym_definition symbol \<noteq> 0)] @
     (if sym_properties symbol \<noteq> 0 then print_properties (sym_properties symbol) else []) @
     [''}'']"

definition print_json_use :: "use \<Rightarrow> string list" where
  "print_json_use u =
     [''    {'' @ json_string ''kind'' @ '':''] @ print_json_string (Some (use_kind_string (use_kind_of u))) @
     [next_key ''symbol_kind''] @ print_json_string (Some (symbol_kind_name (kind_code (use_symbol_kind u)))) @
     [next_key ''mode''] @ print_json_string (Some (output_mode_string (use_mode u))) @
     [next_key ''mode_bits'' @ decimal (unat (use_mode u)) @ next_key ''name''] @ print_json_string (use_name u) @
     [next_key ''owner''] @ print_optional_json_string (use_owner u) @
     [next_key ''type''] @ print_optional_json_string (use_type u) @
     [next_key ''usr''] @ print_optional_json_string (use_usr u) @
     [next_key ''usr_id''] @ print_json_id (use_usr_id u) @
     [next_key ''context''] @ print_optional_json_string (use_context u) @
     [next_key ''context_usr''] @ print_optional_json_string (use_context_usr u) @
     [next_key ''context_usr_id''] @ print_json_id (use_context_usr_id u) @
     [next_key ''file''] @ print_json_string (Some (use_file u)) @
     [next_key ''line'' @ decimal (unat (use_line u)) @ next_key ''column'' @ decimal (unat (use_column u)) @
      next_key ''local'' @ boolean (use_local u \<noteq> 0) @ ''}'']"

text \<open>The loops: a record, then a comma unless it was the last.\<close>

fun print_json_list :: "('r \<Rightarrow> string list) \<Rightarrow> 'r list \<Rightarrow> string list" where
  "print_json_list pr [] = []"
| "print_json_list pr (r # rs) = pr r @ [if rs \<noteq> [] then '','' @ newline else newline] @ print_json_list pr rs"

definition output_json_chunks :: "index \<Rightarrow> string list" where
  "output_json_chunks ix =
     [''{'' @ newline @ ''  '' @ json_string ''version'' @ '': 1,'' @ newline @
      ''  '' @ json_string ''symbols'' @ '': ['' @ newline] @
     print_json_list print_json_symbol (ix_symbols ix) @
     [''  ],'' @ newline @ ''  '' @ json_string ''uses'' @ '': ['' @ newline] @
     print_json_list print_json_use (ix_uses ix) @
     [''  ]'' @ newline @ ''}'' @ newline]"

definition output_json :: "sink \<Rightarrow> index \<Rightarrow> stream \<Rightarrow> int \<times> stream" where
  "output_json sk ix out =
     (let out1 = puts sk (output_json_chunks ix) out in (if o_error out1 then - 1 else 0, out1))"

section \<open>Dissect\<close>

definition c_format_string :: "string option \<Rightarrow> string" where
  "c_format_string s = (case s of None \<Rightarrow> ''(null)'' | Some t \<Rightarrow> t)"

text \<open>\<open>snprintf\<close> into the buffer of 256 bytes keeps 255.\<close>

definition symbol_name_for_dissect :: "string option \<Rightarrow> string option \<Rightarrow> nat \<Rightarrow> string" where
  "symbol_name_for_dissect owner name len =
     (if nonempty owner then take (len - 1) (or_empty owner @ ''.'' @ or_empty name) else or_empty name)"

definition same_string :: "string option \<Rightarrow> string option \<Rightarrow> bool" where
  "same_string a b \<longleftrightarrow> or_empty a = or_empty b"

definition same_dissect_use :: "use \<Rightarrow> use \<Rightarrow> bool" where
  "same_dissect_use a b \<longleftrightarrow>
     use_line a = use_line b \<and> use_column a = use_column b \<and> use_local a = use_local b \<and>
     use_mode a = use_mode b \<and> use_symbol_kind a = use_symbol_kind b \<and>
     same_string (use_context a) (use_context b) \<and> same_string (use_owner a) (use_owner b) \<and>
     same_string (use_name a) (use_name b) \<and> same_string (use_type a) (use_type b)"

definition dissect_line ::
  "u32 \<Rightarrow> u32 \<Rightarrow> string option \<Rightarrow> string \<Rightarrow> int \<Rightarrow> symbol_kind \<Rightarrow> string \<Rightarrow> string option \<Rightarrow> string" where
  "dissect_line line column context action local kind name type =
     pad_left 4 (decimal (unat line)) @ '':'' @ pad_right 3 (decimal (unat column)) @ '' '' @
     pad_right 16 (c_format_string context) @ '' '' @ action @ '' '' @
     [if local \<noteq> 0 then CHR ''.'' else CHR '' ''] @ '' '' @ [output_symbol_kind_char (kind_code kind)] @ '' '' @
     (if nonempty type then pad_right 32 name @ '' '' @ or_empty type else name) @ newline"

definition print_dissect_symbol :: "symbol \<Rightarrow> string" where
  "print_dissect_symbol s =
     dissect_line (sym_line s) (sym_column s) (sym_context s) (if sym_definition s \<noteq> 0 then ''def'' else ''decl'')
       (sym_local s) (sym_kind s) (symbol_name_for_dissect (sym_owner s) (sym_name s) 256) (sym_type s)"

definition print_dissect_use :: "use \<Rightarrow> string" where
  "print_dissect_use u =
     dissect_line (use_line u) (use_column u) (use_context u) (output_mode_string (use_mode u))
       (use_local u) (use_symbol_kind u) (symbol_name_for_dissect (use_owner u) (use_name u) 256) (use_type u)"

definition file_heading :: "string option \<Rightarrow> string \<Rightarrow> string list" where
  "file_heading current_file file =
     (if current_file \<noteq> Some file then [newline @ ''FILE: '' @ file @ newline @ newline] else [])"

text \<open>
  The loop over what is left of both arrays. \<open>prev_use\<close> and \<open>prev_was_use\<close> are the last
  printed use and whether it was the last printed line.
\<close>

function dissect_loop :: "symbol list \<Rightarrow> use list \<Rightarrow> string option \<Rightarrow> use option \<Rightarrow> bool \<Rightarrow> string list" where
  "dissect_loop syms us current_file prev_use prev_was_use =
     (if syms = [] \<and> us = [] then []
      else if us = [] \<or> (syms \<noteq> [] \<and> sym_order (hd syms) \<le> use_order (hd us)) then
        (let s = hd syms in
         file_heading current_file (sym_file s) @ [print_dissect_symbol s] @
         dissect_loop (tl syms) us (Some (sym_file s)) prev_use False)
      else
        (let u = hd us in
         if prev_was_use \<and> (case prev_use of None \<Rightarrow> False
              | Some p \<Rightarrow> same_string current_file (Some (use_file u)) \<and> same_dissect_use u p)
         then dissect_loop syms (tl us) current_file prev_use prev_was_use
         else file_heading current_file (use_file u) @ [print_dissect_use u] @
           dissect_loop syms (tl us) (Some (use_file u)) (Some u) True))"
  by pat_completeness auto
termination
  by (relation "measure (\<lambda>(syms, us, c, p, w). length syms + length us)") (auto simp: neq_Nil_conv)

declare dissect_loop.simps [simp del]

definition output_dissect :: "sink \<Rightarrow> index \<Rightarrow> stream \<Rightarrow> int \<times> stream" where
  "output_dissect sk ix out =
     (let out1 = puts sk (dissect_loop (ix_symbols ix) (ix_uses ix) None None False) out
      in (if o_error out1 then - 1 else 0, out1))"

section \<open>The values behind the JSON document\<close>

definition optional_json :: "string option \<Rightarrow> json" where
  "optional_json value = (if nonempty value then JString (or_empty value) else JNull)"

definition name_json :: "string option \<Rightarrow> json" where
  "name_json value = (case value of None \<Rightarrow> JNull | Some s \<Rightarrow> JString s)"

definition id_json :: "u64 \<Rightarrow> json" where
  "id_json i = (if i = 0 then JNull else JString (hex16 i))"

definition properties_json :: "u64 \<Rightarrow> json" where
  "properties_json p = JArray (map JString
     ((if and p PROPERTY_CONSTRUCTOR \<noteq> 0 then [''constructor''] else []) @
      (if and p PROPERTY_DESTRUCTOR \<noteq> 0 then [''destructor''] else [])))"

definition symbol_json :: "symbol \<Rightarrow> json" where
  "symbol_json s = JObject
     ([(''kind'', JString (symbol_kind_name (kind_code (sym_kind s)))), (''name'', name_json (sym_name s)),
       (''owner'', optional_json (sym_owner s)), (''type'', optional_json (sym_type s)),
       (''usr'', optional_json (sym_usr s)), (''usr_id'', id_json (sym_usr_id s)),
       (''context'', optional_json (sym_context s)), (''file'', JString (sym_file s)),
       (''line'', JNumber (unat (sym_line s))), (''column'', JNumber (unat (sym_column s))),
       (''local'', JBool (sym_local s \<noteq> 0)), (''definition'', JBool (sym_definition s \<noteq> 0))] @
      (if sym_properties s \<noteq> 0 then [(''properties'', properties_json (sym_properties s))] else []))"

definition use_json :: "use \<Rightarrow> json" where
  "use_json u = JObject
     [(''kind'', JString (use_kind_string (use_kind_of u))),
      (''symbol_kind'', JString (symbol_kind_name (kind_code (use_symbol_kind u)))),
      (''mode'', JString (output_mode_string (use_mode u))), (''mode_bits'', JNumber (unat (use_mode u))),
      (''name'', name_json (use_name u)), (''owner'', optional_json (use_owner u)),
      (''type'', optional_json (use_type u)), (''usr'', optional_json (use_usr u)),
      (''usr_id'', id_json (use_usr_id u)), (''context'', optional_json (use_context u)),
      (''context_usr'', optional_json (use_context_usr u)), (''context_usr_id'', id_json (use_context_usr_id u)),
      (''file'', JString (use_file u)), (''line'', JNumber (unat (use_line u))),
      (''column'', JNumber (unat (use_column u))), (''local'', JBool (use_local u \<noteq> 0))]"

definition index_json :: "index \<Rightarrow> json" where
  "index_json ix = JObject
     [(''version'', JNumber 1), (''symbols'', JArray (map symbol_json (ix_symbols ix))),
      (''uses'', JArray (map use_json (ix_uses ix)))]"

end
