(* ===== verification/Print_Properties.thy ===== *)
theory Print_Properties
  imports Index_Print "HOL-Library.Sublist"
begin

text \<open>
  The JSON form of an index is a JSON document of its records, and the dissect form lists the
  records in their common order with repeated uses left out.
\<close>

section \<open>JSON\<close>

lemma concat_print_optional: "concat (print_optional_json_string v) = (if nonempty v then json_string (or_empty v) else ''null'')"
  by (cases v) (simp_all add: print_optional_json_string_def)

lemma json_optional: "json_text (optional_json v) (concat (print_optional_json_string v))"
  by (simp add: concat_print_optional optional_json_def null str)

lemma json_name: "json_text (name_json v) (concat (print_json_string v))"
proof (cases v)
  case None
  then show ?thesis by (simp add: name_json_def print_json_string_def null)
next
  case (Some s)
  then show ?thesis by (simp add: name_json_def str)
qed

lemma escape_printable: "printable c \<Longrightarrow> digit_value c \<noteq> None \<Longrightarrow> escape_char c = [c]"
proof -
  assume c: "printable c" "digit_value c \<noteq> None"
  have "digit_value quote = None" "digit_value backslash = None" by (simp_all add: digit_value_def)
  with c(2) have "c \<noteq> quote" "c \<noteq> backslash" by metis+
  with c(1) show ?thesis by (auto simp: escape_char_def printable_def)
qed

lemma digit_printable_hex: "n < 16 \<Longrightarrow> escape_char (digit n) = [digit n]"
  by (intro escape_printable digit_printable) simp_all

lemma escape_hex_padded: "concat (map escape_char (hex_padded k n)) = hex_padded k n"
  by (induction k arbitrary: n) (simp_all add: digit_printable_hex)

lemma json_id: "json_text (id_json i) (concat (print_json_id i))"
  using str [of "hex16 i"] by (simp add: id_json_def print_json_id_def json_string_def hex16_def escape_hex_padded null)

lemma json_boolean: "json_text (JBool b) (boolean b)"
  by (cases b) (simp_all add: boolean_def true false)

lemma json_properties:
  "\<exists>t. concat (print_properties p) = next_key ''properties'' @ t \<and> json_text (properties_json p) t"
proof -
  let ?names = "(if and p PROPERTY_CONSTRUCTOR \<noteq> 0 then [''constructor''] else []) @
      (if and p PROPERTY_DESTRUCTOR \<noteq> 0 then [''destructor''] else [])"
  have "list_all2 json_text (map JString ?names) (map json_string ?names)"
    by (simp add: list_all2_map1 list_all2_map2 list_all2_same str)
  from json_array_join [OF this, of "[]" "[]" "[]"]
  have "json_text (properties_json p) (''['' @ join_with '','' (map json_string ?names) @ '']'')"
    by (simp add: properties_json_def)
  moreover have "concat (print_properties p) = next_key ''properties'' @ ''['' @ join_with '','' (map json_string ?names) @ '']''"
    by (simp add: print_properties_def Let_def)
  ultimately show ?thesis by blast
qed

text \<open>The members after the first, as the code writes them: a comma, the key, the value.\<close>

fun tail_text :: "(string \<times> string) list \<Rightarrow> string" where
  "tail_text [] = []"
| "tail_text ((k, t) # ms) = next_key k @ t @ tail_text ms"

lemma join_tail_text: "join_with '','' (member_texts ((k, t) # ms)) = json_string k @ '':'' @ t @ tail_text ms"
  by (induction ms arbitrary: k t rule: tail_text.induct) (auto simp: next_key_def)

lemma object_text_Cons: "object_text ((k, t) # ms) = ''{'' @ json_string k @ '':'' @ t @ tail_text ms @ ''}''"
  unfolding object_text_def join_tail_text by simp

lemma tail_text_append: "tail_text (a @ b) = tail_text a @ tail_text b"
  by (induction a rule: tail_text.induct) simp_all

definition symbol_texts :: "symbol \<Rightarrow> (string \<times> string) list" where
  "symbol_texts s =
     [(''kind'', json_string (symbol_kind_name (kind_code (sym_kind s)))), (''name'', concat (print_json_string (sym_name s))),
      (''owner'', concat (print_optional_json_string (sym_owner s))), (''type'', concat (print_optional_json_string (sym_type s))),
      (''usr'', concat (print_optional_json_string (sym_usr s))), (''usr_id'', concat (print_json_id (sym_usr_id s))),
      (''context'', concat (print_optional_json_string (sym_context s))), (''file'', json_string (sym_file s)),
      (''line'', decimal (unat (sym_line s))), (''column'', decimal (unat (sym_column s))),
      (''local'', boolean (sym_local s \<noteq> 0)), (''definition'', boolean (sym_definition s \<noteq> 0))]"

lemma json_symbol: "\<exists>t. concat (print_json_symbol s) = ''    '' @ t \<and> json_text (symbol_json s) t"
proof -
  obtain p where p: "concat (print_properties (sym_properties s)) = next_key ''properties'' @ p"
    "json_text (properties_json (sym_properties s)) p" using json_properties by blast
  let ?props = "if sym_properties s \<noteq> 0 then [(''properties'', p)] else []"
  have "json_text (symbol_json s) (object_text (symbol_texts s @ ?props))"
    unfolding symbol_json_def
    by (rule json_object_text)
      (simp add: symbol_texts_def json_name json_optional json_id json_boolean str number p(2))
  moreover have "concat (print_json_symbol s) = ''    '' @ object_text (symbol_texts s @ ?props)"
    by (simp add: print_json_symbol_def symbol_texts_def object_text_Cons p(1))
  ultimately show ?thesis by blast
qed

definition use_texts :: "use \<Rightarrow> (string \<times> string) list" where
  "use_texts u =
     [(''kind'', json_string (use_kind_string (use_kind_of u))),
      (''symbol_kind'', json_string (symbol_kind_name (kind_code (use_symbol_kind u)))),
      (''mode'', json_string (output_mode_string (use_mode u))), (''mode_bits'', decimal (unat (use_mode u))),
      (''name'', concat (print_json_string (use_name u))),
      (''owner'', concat (print_optional_json_string (use_owner u))), (''type'', concat (print_optional_json_string (use_type u))),
      (''usr'', concat (print_optional_json_string (use_usr u))), (''usr_id'', concat (print_json_id (use_usr_id u))),
      (''context'', concat (print_optional_json_string (use_context u))),
      (''context_usr'', concat (print_optional_json_string (use_context_usr u))),
      (''context_usr_id'', concat (print_json_id (use_context_usr_id u))), (''file'', json_string (use_file u)),
      (''line'', decimal (unat (use_line u))), (''column'', decimal (unat (use_column u))),
      (''local'', boolean (use_local u \<noteq> 0))]"

lemma json_use: "\<exists>t. concat (print_json_use u) = ''    '' @ t \<and> json_text (use_json u) t"
proof (intro exI conjI)
  show "json_text (use_json u) (object_text (use_texts u))"
    unfolding use_json_def
    by (rule json_object_text) (simp add: use_texts_def json_name json_optional json_id json_boolean str number)
  show "concat (print_json_use u) = ''    '' @ object_text (use_texts u)"
    by (simp add: print_json_use_def use_texts_def object_text_Cons)
qed

lemma print_json_list_text:
  assumes "\<And>r. concat (pr r) = ''    '' @ f r"
  shows "rs \<noteq> [] \<Longrightarrow> concat (print_json_list pr rs) =
    ''    '' @ join_with ('','' @ newline @ ''    '') (map f rs) @ newline"
proof (induction rs)
  case Nil
  then show ?case by simp
next
  case (Cons r rs)
  then show ?case by (cases rs) (simp_all add: assms)
qed

lemma json_list:
  assumes "\<And>r. \<exists>t. concat (pr r) = ''    '' @ t \<and> json_text (val r) t"
  shows "json_text (JArray (map val rs)) (''['' @ newline @ concat (print_json_list pr rs) @ ''  ]'')"
proof (cases "rs = []")
  case True
  then show ?thesis using empty_array [of "newline @ ''  ''"] by simp
next
  case False
  from assms obtain f where f: "\<And>r. concat (pr r) = ''    '' @ f r" "\<And>r. json_text (val r) (f r)" by metis
  have "list_all2 json_text (map val rs) (map f rs)"
    by (simp add: list_all2_map1 list_all2_map2 list_all2_same f(2))
  from json_array_join [OF this, of "newline @ ''    ''" "newline @ ''  ''" "newline @ ''    ''"]
  show ?thesis using print_json_list_text [of pr f, OF f(1) False] by simp
qed

text \<open>
  The JSON form of an index is a JSON document: when \<open>output_json\<close> returns 0 it has added,
  before a final newline, a text of the value \<open>index_json\<close> with every symbol and use of the index
  in order; it returns -1 exactly when the stream has an error.
\<close>

theorem output_json_document:
  assumes "output_json sk ix out = (r, out')"
  shows "r = (if o_error out' then - 1 else 0) \<and>
    (r = 0 \<longrightarrow> (\<exists>t. o_text out' = o_text out @ t @ newline \<and> json_text (index_json ix) t))"
proof (intro conjI impI)
  show "r = (if o_error out' then - 1 else 0)"
    using assms by (auto simp: output_json_def Let_def)
  assume "r = 0"
  with assms have ok: "\<not> o_error (puts sk (output_json_chunks ix) out)" "out' = puts sk (output_json_chunks ix) out"
    by (auto simp: output_json_def Let_def split: if_splits)
  let ?syms = "''['' @ newline @ concat (print_json_list print_json_symbol (ix_symbols ix)) @ ''  ]''"
  let ?uses = "''['' @ newline @ concat (print_json_list print_json_use (ix_uses ix)) @ ''  ]''"
  have "json_text (JArray (map use_json (ix_uses ix))) ?uses"
    by (rule json_list) (rule json_use)
  then have 1: "json_members [(''uses'', JArray (map use_json (ix_uses ix)))]
      ((newline @ ''  '') @ json_string ''uses'' @ [] @ '':'' @ '' '' @ ?uses @ newline)"
    by (rule member) simp_all
  have "json_text (JArray (map symbol_json (ix_symbols ix))) ?syms"
    by (rule json_list) (rule json_symbol)
  from members [OF this _ _ _ _ 1, of "newline @ ''  ''" "[]" "'' ''" "[]" "''symbols''"]
  have 2: "json_members [(''symbols'', JArray (map symbol_json (ix_symbols ix))), (''uses'', JArray (map use_json (ix_uses ix)))]
      ((newline @ ''  '') @ json_string ''symbols'' @ [] @ '':'' @ '' '' @ ?syms @ [] @ '','' @
       ((newline @ ''  '') @ json_string ''uses'' @ [] @ '':'' @ '' '' @ ?uses @ newline))" by simp
  have "decimal 1 = ''1''" by (simp add: decimal_def digits.simps digit_def char_of_def bit_simps)
  then have "json_text (JNumber 1) ''1''" using number [of 1] by simp
  from object [OF members [OF this _ _ _ _ 2, of "newline @ ''  ''" "[]" "'' ''" "[]" "''version''"]]
  have "json_text (index_json ix) (''{'' @ (newline @ ''  '') @ json_string ''version'' @ [] @ '':'' @ '' '' @ ''1'' @ [] @ '','' @
       ((newline @ ''  '') @ json_string ''symbols'' @ [] @ '':'' @ '' '' @ ?syms @ [] @ '','' @
       ((newline @ ''  '') @ json_string ''uses'' @ [] @ '':'' @ '' '' @ ?uses @ newline)) @ ''}'')"
    by (simp add: index_json_def)
  moreover have "o_text out' = o_text out @ concat (output_json_chunks ix)"
    unfolding ok(2) by (rule puts_text [OF ok(1)])
  ultimately show "\<exists>t. o_text out' = o_text out @ t @ newline \<and> json_text (index_json ix) t"
    by (intro exI conjI) (auto simp: output_json_chunks_def)
qed

section \<open>Dissect\<close>

text \<open>
  The reference: merge the two arrays by order, symbols before uses of the same order, then
  leave out a use that repeats the last one listed, then print the rest under file headings.
\<close>

type_synonym listed = "symbol + use"

fun merge_records :: "symbol list \<Rightarrow> use list \<Rightarrow> listed list" where
  "merge_records [] us = map Inr us"
| "merge_records syms [] = map Inl syms"
| "merge_records (s # syms) (u # us) =
     (if sym_order s \<le> use_order u then Inl s # merge_records syms (u # us)
      else Inr u # merge_records (s # syms) us)"

definition repeats :: "use \<Rightarrow> use \<Rightarrow> bool" where
  "repeats u p \<longleftrightarrow> use_file u = use_file p \<and> same_dissect_use u p"

fun drop_repeats :: "use option \<Rightarrow> listed list \<Rightarrow> listed list" where
  "drop_repeats prev [] = []"
| "drop_repeats prev (Inl s # rs) = Inl s # drop_repeats None rs"
| "drop_repeats prev (Inr u # rs) =
     (case prev of
        None \<Rightarrow> Inr u # drop_repeats (Some u) rs
      | Some p \<Rightarrow> if repeats u p then drop_repeats prev rs else Inr u # drop_repeats (Some u) rs)"

definition listed_file :: "listed \<Rightarrow> string" where
  "listed_file r = (case r of Inl s \<Rightarrow> sym_file s | Inr u \<Rightarrow> use_file u)"

definition listed_order :: "listed \<Rightarrow> u64" where
  "listed_order r = (case r of Inl s \<Rightarrow> sym_order s | Inr u \<Rightarrow> use_order u)"

definition listed_line :: "listed \<Rightarrow> string" where
  "listed_line r = (case r of Inl s \<Rightarrow> print_dissect_symbol s | Inr u \<Rightarrow> print_dissect_use u)"

fun print_listed :: "string option \<Rightarrow> listed list \<Rightarrow> string list" where
  "print_listed current [] = []"
| "print_listed current (r # rs) =
     file_heading current (listed_file r) @ [listed_line r] @ print_listed (Some (listed_file r)) rs"

lemma dissect_loop_listed:
  assumes "was \<Longrightarrow> prev \<noteq> None \<and> current = map_option use_file prev"
  shows "dissect_loop syms us current prev was =
    print_listed current (drop_repeats (if was then prev else None) (merge_records syms us))"
  using assms
proof (induction syms us current prev was rule: dissect_loop.induct)
  case (1 syms us current prev was)
  show ?case
  proof (cases "us = [] \<or> (syms \<noteq> [] \<and> sym_order (hd syms) \<le> use_order (hd us))")
    case first: True
    show ?thesis
    proof (cases syms)
      case Nil
      with first have "us = []" by simp
      with Nil show ?thesis by (simp add: dissect_loop.simps)
    next
      case (Cons s syms')
      have "merge_records syms us = Inl s # merge_records syms' us"
        using first Cons by (cases us; cases syms') auto
      moreover have "dissect_loop syms us current prev was = file_heading current (sym_file s) @ [print_dissect_symbol s] @
          dissect_loop syms' us (Some (sym_file s)) prev False"
        using first Cons by (subst dissect_loop.simps) (simp add: Let_def)
      ultimately show ?thesis
        using Cons 1(1) [OF _ first refl] by (simp add: listed_file_def listed_line_def)
    qed
  next
    case second: False
    then obtain u us' where us: "us = u # us'" by (cases us) auto
    have m: "merge_records syms us = Inr u # merge_records syms us'"
      using second us by (cases syms) auto
    have nonempty: "\<not> (syms = [] \<and> us = [])" using us by simp
    let ?rep = "was \<and> (case prev of None \<Rightarrow> False
              | Some p \<Rightarrow> same_string current (Some (use_file u)) \<and> same_dissect_use u p)"
    have rep: "?rep \<longleftrightarrow> (\<exists>p. was \<and> prev = Some p \<and> repeats u p)"
      using 1(4) by (auto simp: repeats_def same_string_def split: option.splits)
    show ?thesis
    proof (cases ?rep)
      case True
      with rep obtain p where "was" "prev = Some p" "repeats u p" by blast
      moreover have "dissect_loop syms us current prev was = dissect_loop syms us' current prev was"
        using True second us by (subst dissect_loop.simps) (auto simp: Let_def)
      moreover have "dissect_loop syms us' current prev was =
          print_listed current (drop_repeats (if was then prev else None) (merge_records syms us'))"
        using 1(2) [OF nonempty second, of u] 1(4) True us by simp
      ultimately show ?thesis using m by simp
    next
      case False
      have "dissect_loop syms us current prev was = file_heading current (use_file u) @ [print_dissect_use u] @
          dissect_loop syms us' (Some (use_file u)) (Some u) True"
        using False second us by (subst dissect_loop.simps) (auto simp: Let_def)
      also have "dissect_loop syms us' (Some (use_file u)) (Some u) True =
          print_listed (Some (use_file u)) (drop_repeats (Some u) (merge_records syms us'))"
        using 1(3) [OF nonempty second, of u] False us by simp
      finally show ?thesis
        using False rep m by (auto simp: listed_file_def listed_line_def split: option.split)
    qed
  qed
qed

text \<open>What the merge and the removal of repeats keep.\<close>

definition symbols_of :: "listed list \<Rightarrow> symbol list" where
  "symbols_of rs = [s. Inl s \<leftarrow> rs]"

definition uses_of :: "listed list \<Rightarrow> use list" where
  "uses_of rs = [u. Inr u \<leftarrow> rs]"

lemma listed_simps [simp]:
  "symbols_of [] = []" "symbols_of (Inl s # rs) = s # symbols_of rs" "symbols_of (Inr u # rs) = symbols_of rs"
  "uses_of [] = []" "uses_of (Inl s # rs) = uses_of rs" "uses_of (Inr u # rs) = u # uses_of rs"
  by (simp_all add: symbols_of_def uses_of_def)

lemma symbols_of_Inr [simp]: "symbols_of (map Inr us) = []" "uses_of (map Inr us) = us"
  by (induction us) simp_all

lemma symbols_of_Inl [simp]: "symbols_of (map Inl syms) = syms" "uses_of (map Inl syms) = []"
  by (induction syms) simp_all

lemma merge_records_parts: "symbols_of (merge_records syms us) = syms" "uses_of (merge_records syms us) = us"
  by (induction syms us rule: merge_records.induct) auto

lemma merge_records_set: "set (merge_records syms us) = Inl ` set syms \<union> Inr ` set us"
  by (induction syms us rule: merge_records.induct) auto

lemma listed_order_simps [simp]: "listed_order (Inl s) = sym_order s" "listed_order (Inr u) = use_order u"
  by (simp_all add: listed_order_def)

lemma merge_records_sorted:
  "sorted (map sym_order syms) \<Longrightarrow> sorted (map use_order us) \<Longrightarrow>
     sorted (map listed_order (merge_records syms us))"
proof (induction syms us rule: merge_records.induct)
  case (3 s syms u us)
  then show ?case
    by (auto simp: merge_records_set intro: order_trans)
qed (simp_all add: comp_def)

lemma drop_repeats_symbols: "symbols_of (drop_repeats prev rs) = symbols_of rs"
  by (induction prev rs rule: drop_repeats.induct) (auto split: option.split)

lemma drop_repeats_subseq: "subseq (drop_repeats prev rs) rs"
  by (induction prev rs rule: drop_repeats.induct) (auto split: option.split)

lemma drop_repeats_kept:
  "u \<in> set (uses_of rs) \<Longrightarrow> (\<exists>p. prev = Some p \<and> repeats u p) \<or> (\<exists>p \<in> set (uses_of (drop_repeats prev rs)). repeats u p)"
proof (induction prev rs rule: drop_repeats.induct)
  case (3 prev v rs)
  have refl: "repeats v v" by (simp add: repeats_def same_dissect_use_def same_string_def)
  from 3 refl show ?case by (auto split: option.splits)
qed auto

lemma drop_repeats_set: "set (drop_repeats prev rs) \<subseteq> set rs"
  by (induction prev rs rule: drop_repeats.induct) (auto split: option.splits if_splits)

lemma drop_repeats_sorted:
  "sorted (map f rs) \<Longrightarrow> sorted (map f (drop_repeats prev rs))"
proof (induction prev rs rule: drop_repeats.induct)
  case (2 prev s rs)
  then show ?case using drop_repeats_set [of None rs] by auto
next
  case (3 prev u rs)
  then show ?case using drop_repeats_set [of "Some u" rs] by (auto split: option.split)
qed simp

text \<open>
  The dissect form lists the records of an index in their common order: it is the merge of
  symbols and uses (a symbol before a use of the same order), with file headings, less the uses
  that repeat the last line in everything that is printed. Every symbol is listed, once; every
  use that is left out has a listed one that agrees with it; and the list is ordered when the
  symbols and the uses are.
\<close>

theorem dissect_lists_records:
  "\<exists>listed. dissect_loop (ix_symbols ix) (ix_uses ix) None None False = print_listed None listed \<and>
    symbols_of listed = ix_symbols ix \<and> subseq (uses_of listed) (ix_uses ix) \<and>
    (\<forall>u \<in> set (ix_uses ix). \<exists>p \<in> set (uses_of listed). repeats u p) \<and>
    (sorted (map sym_order (ix_symbols ix)) \<and> sorted (map use_order (ix_uses ix)) \<longrightarrow> sorted (map listed_order listed))"
proof -
  let ?merged = "merge_records (ix_symbols ix) (ix_uses ix)"
  let ?listed = "drop_repeats None ?merged"
  have sub: "subseq ?listed ?merged" by (rule drop_repeats_subseq)
  have "subseq (uses_of ?listed) (uses_of ?merged)"
    unfolding uses_of_def using sub by (induction rule: list_emb.induct) (auto split: sum.split)
  moreover have "sorted (map sym_order (ix_symbols ix)) \<and> sorted (map use_order (ix_uses ix)) \<Longrightarrow> sorted (map listed_order ?listed)"
    by (blast intro: drop_repeats_sorted merge_records_sorted)
  ultimately show ?thesis
    using dissect_loop_listed [of False None None "ix_symbols ix" "ix_uses ix"] drop_repeats_kept [of _ ?merged None]
    by (intro exI [of _ ?listed]) (auto simp: drop_repeats_symbols merge_records_parts)
qed

section \<open>An index with a repeated use\<close>

text \<open>The printed forms of an index with one function and a call of it that is recorded twice.\<close>

definition sample_printed_symbol :: symbol where
  "sample_printed_symbol =
     \<lparr>sym_kind = SYMBOL_FUNCTION, sym_name = Some ''f'', sym_owner = None, sym_type = Some ''int (void)'',
      sym_canonical_type = None, sym_type_kind = SYMBOL_VAR, sym_type_symbol = None, sym_type_usr = None,
      sym_type_usr_id = 0, sym_usr = Some ''c:@F@f'', sym_usr_id = 31, sym_context = Some [],
      sym_file = ''a.c'', sym_file_index = 0, sym_line = 1, sym_column = 5, sym_local = 0,
      sym_definition = 1, sym_properties = 1, sym_order = 0\<rparr>"

definition sample_printed_use :: "u64 \<Rightarrow> use" where
  "sample_printed_use order =
     \<lparr>use_kind_of = USE_CALL, use_symbol_kind = SYMBOL_FUNCTION, use_mode = 8, use_name = Some ''f'',
      use_owner = None, use_type = None, use_usr = Some ''c:@F@f'', use_context = Some ''f'',
      use_context_usr = None, use_usr_id = 31, use_context_usr_id = 0, use_file = ''a.c'',
      use_file_index = 0, use_line = 2, use_column = 9, use_local = 0, use_order = order\<rparr>"

definition sample_printed :: index where
  "sample_printed = \<lparr>ix_symbols = [sample_printed_symbol],
     ix_uses = [sample_printed_use 1, sample_printed_use 2], ix_signatures = [],
     ix_fingerprints_nonlocal = [], ix_fingerprints_all = []\<rparr>"

definition sample_stream :: stream where
  "sample_stream = \<lparr>o_text = [], o_error = False, o_calls = 0\<rparr>"

theorem output_json_document_witness:
  "fst (output_json (\<lambda>_. None) sample_printed sample_stream) = 0 \<and>
   (\<exists>t. o_text (snd (output_json (\<lambda>_. None) sample_printed sample_stream)) = t @ newline \<and>
     json_text (index_json sample_printed) t)"
proof -
  let ?r = "output_json (\<lambda>_. None) sample_printed sample_stream"
  have "fst ?r = 0"
    using puts_works [of "\<lambda>_. None" "output_json_chunks sample_printed" sample_stream]
    by (simp add: output_json_def sample_stream_def Let_def)
  with output_json_document [of "\<lambda>_. None" sample_printed sample_stream "fst ?r" "snd ?r"] show ?thesis
    by (simp add: sample_stream_def)
qed

theorem dissect_lists_records_witness:
  "\<exists>listed. dissect_loop [sample_printed_symbol] [sample_printed_use 1, sample_printed_use 2] None None False =
      print_listed None listed \<and>
    symbols_of listed = [sample_printed_symbol] \<and>
    subseq (uses_of listed) [sample_printed_use 1, sample_printed_use 2] \<and>
    (\<exists>p \<in> set (uses_of listed). repeats (sample_printed_use 2) p) \<and> sorted (map listed_order listed)"
  using dissect_lists_records [of sample_printed]
  by (auto simp: sample_printed_def sample_printed_symbol_def sample_printed_use_def)

end
