(* ===== verification/Search_Format.thy ===== *)
theory Search_Format
  imports Output Names Repository
begin

text \<open>
  \<open>lib/semindex_index_db/index_db_output.c\<close>: the output format of a search, its compilation into
  tokens, and the writing of a record, with the lines of source files read through a cursor that
  is kept between records.

  Files are a parameter: a name has the bytes that can be read from it, or cannot be opened.
  Only the failures of \<open>fwrite\<close> are looked at; the other calls of the C library leave their
  failure in the error indicator, which is tested after the record.
\<close>

section \<open>Formats\<close>

datatype search_field = FIELD_FILE | FIELD_VARIANT | FIELD_VARIANT_FILE | FIELD_LINE | FIELD_COLUMN
  | FIELD_CONTEXT | FIELD_SYMBOL | FIELD_RECORD | FIELD_MODE | FIELD_KIND | FIELD_KIND_CHAR | FIELD_SOURCE

datatype search_token = TOKEN_TEXT string | TOKEN_CHARACTER char | TOKEN_FIELD search_field

definition search_fields :: "(search_field \<times> string) list" where
  "search_fields =
     [(FIELD_FILE, ''file''), (FIELD_VARIANT, ''variant''), (FIELD_VARIANT_FILE, ''variant_file''),
      (FIELD_LINE, ''line''), (FIELD_COLUMN, ''column''), (FIELD_CONTEXT, ''context''),
      (FIELD_SYMBOL, ''symbol''), (FIELD_RECORD, ''record''), (FIELD_MODE, ''mode''),
      (FIELD_KIND, ''kind''), (FIELD_KIND_CHAR, ''kind_char''), (FIELD_SOURCE, ''source'')]"

definition find_field :: "string \<Rightarrow> search_field option" where
  "find_field name = lookup_name search_fields name"

text \<open>The field and what follows its closing brace.\<close>

definition parse_field :: "string \<Rightarrow> (search_field \<times> string) option" where
  "parse_field format =
     (if \<not> starts_with ''%{'' format then None
      else case strchr (drop 2 format) CHR ''}'' of
        None \<Rightarrow> None
      | Some n \<Rightarrow>
          (case find_field (take n (drop 2 format)) of
             None \<Rightarrow> None
           | Some field \<Rightarrow> Some (field, drop (n + 1) (drop 2 format))))"

definition add_text_token :: "string \<Rightarrow> search_token list \<Rightarrow> search_token list" where
  "add_text_token text tokens = (if text = [] then tokens else tokens @ [TOKEN_TEXT text])"

definition escaped_character :: "char \<Rightarrow> char" where
  "escaped_character c =
     (if c = CHR ''t'' then CHR 0x09 else if c = CHR ''r'' then CHR 0x0D
      else if c = CHR ''n'' then CHR 0x0A else c)"

lemma parse_field_shorter: "parse_field format = Some (field, rest) \<Longrightarrow> length rest < length format"
  by (auto simp: parse_field_def starts_with_append split: if_splits option.splits)

text \<open>
  The loop of \<open>compile_format\<close>: \<open>text\<close> is what lies between the start of the pending text and
  the cursor, \<open>tokens\<close> the part of the array that is filled. The result says whether the format
  is valid.
\<close>

function compile_loop :: "string \<Rightarrow> string \<Rightarrow> search_token list \<Rightarrow> bool \<times> search_token list" where
  "compile_loop text p tokens =
     (case p of
        [] \<Rightarrow> (True, add_text_token text tokens)
      | c # cs \<Rightarrow>
          if c \<noteq> CHR 0x5C \<and> c \<noteq> CHR ''%'' then compile_loop (text @ [c]) cs tokens
          else
          let tokens1 = add_text_token text tokens in
          if c = CHR 0x5C then
            (case cs of
               [] \<Rightarrow> (True, tokens1)
             | d # ds \<Rightarrow> compile_loop [] ds (tokens1 @ [TOKEN_CHARACTER (escaped_character d)]))
          else if cs \<noteq> [] \<and> hd cs = CHR ''%'' then compile_loop [] (tl cs) (tokens1 @ [TOKEN_CHARACTER CHR ''%''])
          else
            (case parse_field p of
               None \<Rightarrow> (False, tokens1)
             | Some (field, rest) \<Rightarrow> compile_loop [] rest (tokens1 @ [TOKEN_FIELD field])))"
  by pat_completeness auto
termination
  by (relation "measure (\<lambda>(text, p, tokens). length p)")
    (auto dest: parse_field_shorter simp: neq_Nil_conv)

declare compile_loop.simps [simp del]

definition compile_format :: "string \<Rightarrow> bool \<times> search_token list" where
  "compile_format format = compile_loop [] format []"

definition default_format :: string where
  "default_format = ''(%{mode}) %{variant_file}'' @ [CHR 0x5C] @ ''t%{line}'' @ [CHR 0x5C] @ ''t%{column}'' @ [CHR 0x5C] @
     ''t%{context}'' @ [CHR 0x5C] @ ''t%{source}''"

section \<open>Records\<close>

record output_record =
  or_file :: string
  or_variant :: string
  or_root :: "string option"
  or_line :: int
  or_column :: int
  or_symbol_record :: bool
  or_definition :: bool
  or_kind :: int
  or_mode :: u32
  or_symbol :: string
  or_context :: "string option"

definition print_mode :: "output_record \<Rightarrow> string" where
  "print_mode r =
     (if or_symbol_record r then (if or_definition r then ''def'' else ''decl'') else output_mode_string (or_mode r))"

definition record_name :: "output_record \<Rightarrow> string" where
  "record_name r =
     (if \<not> or_symbol_record r then ''reference''
      else if or_definition r then ''definition'' else ''declaration'')"

text \<open>The fields that are printed from the record alone.\<close>

definition field_text :: "search_field \<Rightarrow> output_record \<Rightarrow> string" where
  "field_text field r =
     (case field of
        FIELD_FILE \<Rightarrow> or_file r
      | FIELD_VARIANT \<Rightarrow> or_variant r
      | FIELD_VARIANT_FILE \<Rightarrow> or_variant r @ '':'' @ or_file r
      | FIELD_LINE \<Rightarrow> decimal_int (or_line r)
      | FIELD_COLUMN \<Rightarrow> decimal_int (or_column r)
      | FIELD_CONTEXT \<Rightarrow> or_empty (or_context r)
      | FIELD_SYMBOL \<Rightarrow> or_symbol r
      | FIELD_RECORD \<Rightarrow> record_name r
      | FIELD_MODE \<Rightarrow> print_mode r
      | FIELD_KIND \<Rightarrow> symbol_kind_name (or_kind r)
      | FIELD_KIND_CHAR \<Rightarrow> [output_symbol_kind_char (or_kind r)]
      | FIELD_SOURCE \<Rightarrow> [])"

section \<open>Source lines\<close>

type_synonym files = "string \<Rightarrow> string option"

text \<open>An open source file: its bytes and those that are still to be read.\<close>

record source_file =
  sf_content :: string
  sf_rest :: string

record formatter =
  fo_tokens :: "search_token list"
  fo_root :: "string option"
  fo_path :: "string option"
  fo_source :: "source_file option"
  fo_text :: string
  fo_length :: int
  fo_line :: int

fun get_line :: "string \<Rightarrow> string \<times> string" where
  "get_line [] = ([], [])"
| "get_line (c # cs) =
     (if c = CHR 0x0A then ([c], cs) else case get_line cs of (l, rest) \<Rightarrow> (c # l, rest))"

definition source_path :: "formatter \<Rightarrow> string option \<Rightarrow> string \<Rightarrow> string" where
  "source_path fo root path =
     (if (path \<noteq> [] \<and> hd path = slash) \<or> (root = None \<and> fo_root fo = None) then path
      else or_empty (if root \<noteq> None then root else fo_root fo) @ ''/'' @ path)"

definition open_source :: "files \<Rightarrow> string option \<Rightarrow> string \<Rightarrow> formatter \<Rightarrow> bool \<times> formatter" where
  "open_source files root path fo =
     (let p = source_path fo root path in
      if fo_source fo \<noteq> None \<and> fo_path fo = Some p then (True, fo)
      else
      let fo1 = fo\<lparr>fo_path := Some p, fo_source := None, fo_line := 0, fo_length := 0\<rparr>
      in (case files p of
            None \<Rightarrow> (False, fo1)
          | Some content \<Rightarrow> (True, fo1\<lparr>fo_source := Some \<lparr>sf_content = content, sf_rest = content\<rparr>\<rparr>)))"

text \<open>The loop that reads until the cursor is at the line.\<close>

function read_lines :: "int \<Rightarrow> source_file \<Rightarrow> formatter \<Rightarrow> bool \<times> formatter" where
  "read_lines line src fo =
     (if \<not> fo_line fo < line then (True, fo\<lparr>fo_source := Some src\<rparr>)
      else if sf_rest src = [] then (False, fo\<lparr>fo_source := Some src, fo_length := - 1\<rparr>)
      else case get_line (sf_rest src) of (l, rest) \<Rightarrow>
        read_lines line (src\<lparr>sf_rest := rest\<rparr>)
          (fo\<lparr>fo_text := l, fo_length := int (length l), fo_line := fo_line fo + 1\<rparr>))"
  by pat_completeness auto
termination
  by (relation "measure (\<lambda>(line, src, fo). nat (line - fo_line fo))") auto

declare read_lines.simps [simp del]

definition rewind_before :: "int \<Rightarrow> source_file \<Rightarrow> formatter \<Rightarrow> source_file \<times> formatter" where
  "rewind_before line src fo =
     (if line < fo_line fo then (src\<lparr>sf_rest := sf_content src\<rparr>, fo\<lparr>fo_line := 0\<rparr>) else (src, fo))"

text \<open>
  \<open>print_source_line\<close>. A negative length would make \<open>fwrite\<close> read far behind the buffer; this is
  reported as a failure here and does not occur as long as the caller stops at the first
  failure.
\<close>

definition print_source_line ::
  "sink \<Rightarrow> files \<Rightarrow> string option \<Rightarrow> string \<Rightarrow> int \<Rightarrow> formatter \<Rightarrow> stream \<Rightarrow> bool \<times> formatter \<times> stream" where
  "print_source_line sk files root path line fo out =
     (case open_source files root path fo of
        (False, fo1) \<Rightarrow> (False, fo1, out)
      | (True, fo1) \<Rightarrow>
     (case fo_source fo1 of
        None \<Rightarrow> (False, fo1, out)
      | Some src \<Rightarrow>
     (case rewind_before line src fo1 of (src1, fo2) \<Rightarrow>
     (case read_lines line src1 fo2 of
        (False, fo3) \<Rightarrow> (False, fo3, out)
      | (True, fo3) \<Rightarrow>
          let n = (if fo_length fo3 > 0 \<and> fo_text fo3 ! nat (fo_length fo3 - 1) = CHR 0x0A
                   then fo_length fo3 - 1 else fo_length fo3);
              fo4 = fo3\<lparr>fo_length := n\<rparr>
          in if n < 0 then (False, fo4, out)
             else (case fput sk (take (nat n) (fo_text fo4)) out of (ok, out1) \<Rightarrow> (ok, fo4, out1))))))"

section \<open>Creating a formatter and writing a record\<close>

definition output_create :: "fs \<Rightarrow> string option \<Rightarrow> string option \<Rightarrow> formatter option" where
  "output_create fs format root_hint =
     (case compile_format (case format of None \<Rightarrow> default_format | Some f \<Rightarrow> f) of
        (False, _) \<Rightarrow> None
      | (True, tokens) \<Rightarrow>
          Some \<lparr>fo_tokens = tokens,
            fo_root = (case root_string (repository_root fs root_hint) of
               Some r \<Rightarrow> Some r | None \<Rightarrow> root_string (repository_root fs (Some ''.''))),
            fo_path = None, fo_source = None, fo_text = [], fo_length = 0, fo_line = 0\<rparr>)"

fun write_tokens ::
  "sink \<Rightarrow> files \<Rightarrow> output_record \<Rightarrow> search_token list \<Rightarrow> formatter \<Rightarrow> stream \<Rightarrow> bool \<times> formatter \<times> stream" where
  "write_tokens sk files r [] fo out = (True, fo, out)"
| "write_tokens sk files r (TOKEN_TEXT text # tokens) fo out =
     (case fput sk text out of
        (False, out1) \<Rightarrow> (False, fo, out1)
      | (True, out1) \<Rightarrow> write_tokens sk files r tokens fo out1)"
| "write_tokens sk files r (TOKEN_CHARACTER c # tokens) fo out =
     write_tokens sk files r tokens fo (snd (fput sk [c] out))"
| "write_tokens sk files r (TOKEN_FIELD field # tokens) fo out =
     (if field = FIELD_SOURCE then
        (case print_source_line sk files (or_root r) (or_file r) (or_line r) fo out of
           (False, fo1, out1) \<Rightarrow> (False, fo1, out1)
         | (True, fo1, out1) \<Rightarrow> write_tokens sk files r tokens fo1 out1)
      else write_tokens sk files r tokens fo (snd (fput sk (field_text field r) out)))"

definition output_write ::
  "sink \<Rightarrow> files \<Rightarrow> output_record \<Rightarrow> formatter \<Rightarrow> stream \<Rightarrow> int \<times> formatter \<times> stream" where
  "output_write sk files r fo out =
     (case write_tokens sk files r (fo_tokens fo) fo out of
        (False, fo1, out1) \<Rightarrow> (- 1, fo1, out1)
      | (True, fo1, out1) \<Rightarrow>
          let out2 = snd (fput sk newline out1) in (if o_error out2 then - 1 else 0, fo1, out2))"

end
