(* ===== verification/Search.thy ===== *)
theory Search
  imports Index_Reader Search_Format
begin

text \<open>
  \<open>lib/semindex_index_db/index_db_search.c\<close> and \<open>index_db_callgraph.c\<close>: the two searches of the
  command line, on the contents of the database. Whether the database can be opened is a
  parameter, and so is the run of each statement; the messages on the error stream are left
  out.
\<close>

section \<open>Search\<close>

text \<open>
  The state of a search: the formatter, the list of variants with their roots, the variant
  found last with its root, and the output stream.
\<close>

record search_output =
  se_formatter :: "formatter option"
  se_roots :: "(string \<times> string option) list"
  se_last_variant :: "string option"
  se_last_root :: "string option"
  se_stream :: stream

definition collect_variant_root :: "search_output \<Rightarrow> variant_row \<Rightarrow> int \<times> search_output" where
  "collect_variant_root s v = (0, s\<lparr>se_roots := (v_name v, v_repository_root v) # se_roots s\<rparr>)"

definition find_variant_root :: "string \<Rightarrow> search_output \<Rightarrow> string option \<times> search_output" where
  "find_variant_root variant s =
     (if se_last_variant s = Some variant then (se_last_root s, s)
      else case find (\<lambda>r. fst r = variant) (se_roots s) of
        Some r \<Rightarrow> (snd r, s\<lparr>se_last_variant := Some (fst r), se_last_root := snd r\<rparr>)
      | None \<Rightarrow> (None, s))"

definition search_record :: "string option \<Rightarrow> db_record \<Rightarrow> output_record" where
  "search_record root r =
     \<lparr>or_file = dr_path r, or_variant = dr_variant r, or_root = root, or_line = sint (dr_line r),
      or_column = sint (dr_column r), or_symbol_record = (dr_record r \<noteq> DB_REFERENCE),
      or_definition = (dr_record r = DB_DEFINITION), or_kind = dr_kind r, or_mode = dr_mode r,
      or_symbol = dr_symbol r, or_context = Some (dr_context r)\<rparr>"

definition print_search_result ::
  "sink \<Rightarrow> files \<Rightarrow> search_output \<Rightarrow> db_record \<Rightarrow> int \<times> search_output" where
  "print_search_result sk files s r =
     (case se_formatter s of
        None \<Rightarrow> (- 1, s)
      | Some fo \<Rightarrow>
          (case find_variant_root (dr_variant r) s of (root, s1) \<Rightarrow>
          (case output_write sk files (search_record root r) fo (se_stream s1) of (ret, fo1, out1) \<Rightarrow>
            (ret, s1\<lparr>se_formatter := Some fo1, se_stream := out1\<rparr>))))"

text \<open>The query that the options stand for.\<close>

definition search_query :: "search_options \<Rightarrow> query_options" where
  "search_query opts = default_options\<lparr>
     q_symbol := so_pattern opts, q_path := so_path opts, q_variant := so_variant opts,
     q_mode := so_mode opts, q_kind := so_kind opts,
     q_has_mode := (so_has_mode opts \<and> \<not> so_mode_definition opts), q_has_kind := so_has_kind opts,
     q_record := (if so_mode_definition opts then DB_RECORD_DEFINITION
       else if so_record opts = RECORD_FILTER_SYMBOL then DB_RECORD_SYMBOL
       else if so_record opts = RECORD_FILTER_USE then DB_RECORD_REFERENCE
       else DB_RECORD_ALL)\<rparr>"

definition no_search_options :: search_options where
  "no_search_options = \<lparr>so_pattern = None, so_path = None, so_format = None, so_variant = None,
     so_record = RECORD_FILTER_ALL, so_mode = 0, so_kind = 0, so_has_kind = False,
     so_has_mode = False, so_mode_definition = False\<rparr>"

record search_env =
  sn_glob :: "string \<Rightarrow> string \<Rightarrow> bool"
  sn_open :: "string \<Rightarrow> database option"
  sn_variants_run :: run
  sn_query_run :: run
  sn_fs :: fs
  sn_files :: files
  sn_sink :: sink

definition index_db_search ::
  "search_env \<Rightarrow> string option \<Rightarrow> search_options option \<Rightarrow> stream \<Rightarrow> int \<times> stream" where
  "index_db_search e path options out =
     (case path of None \<Rightarrow> (- 1, out)
      | Some p \<Rightarrow>
     (let opts = (case options of None \<Rightarrow> no_search_options | Some opts \<Rightarrow> opts) in
      case sn_open e p of None \<Rightarrow> (- 1, out)
      | Some db \<Rightarrow>
     (case db_list_variants (sn_variants_run e) db collect_variant_root
         \<lparr>se_formatter = None, se_roots = [], se_last_variant = None, se_last_root = None, se_stream = out\<rparr> of
        (listed, s1) \<Rightarrow>
      if listed < 0 then (- 1, se_stream s1)
      else
     (case output_create (sn_fs e) (Some (case so_format opts of None \<Rightarrow> default_format | Some f \<Rightarrow> f)) path of
        None \<Rightarrow> (- 1, se_stream s1)
      | Some fo \<Rightarrow>
     (case db_query (sn_glob e) (sn_query_run e) db (Some (search_query opts))
         (print_search_result (sn_sink e) (sn_files e)) (s1\<lparr>se_formatter := Some fo\<rparr>) of
        (ret, s2) \<Rightarrow> (if ret = 0 \<and> o_error (se_stream s2) then - 1 else ret, se_stream s2))))))"

section \<open>Call graph\<close>

datatype callgraph_direction = CALLGRAPH_CALLERS | CALLGRAPH_CALLEES

record callgraph_options =
  cg_function :: "string option"
  cg_path :: "string option"
  cg_variant :: "string option"
  cg_id :: u64
  cg_direction :: callgraph_direction
  cg_has_id :: bool
  cg_show_id :: bool

definition callgraph_where ::
  "(string \<Rightarrow> string \<Rightarrow> bool) \<Rightarrow> callgraph_options \<Rightarrow> file_row \<times> rec_data \<Rightarrow> bool" where
  "callgraph_where glob opts row \<longleftrightarrow>
     (let f = fst row; d = snd row in
      call_row d \<and>
      (case cg_direction opts of
         CALLGRAPH_CALLERS \<Rightarrow> r_symbol d = or_empty (cg_function opts) \<and>
           (cg_has_id opts \<longrightarrow> r_usr_id d = Some (sint (cg_id opts)))
       | CALLGRAPH_CALLEES \<Rightarrow> r_context d = or_empty (cg_function opts) \<and>
           (cg_has_id opts \<longrightarrow> r_context_usr_id d = Some (sint (cg_id opts)))) \<and>
      text_matches glob (cg_path opts) (f_path f) \<and> text_matches glob (cg_variant opts) (f_variant f))"

definition callgraph_rows ::
  "(string \<Rightarrow> string \<Rightarrow> bool) \<Rightarrow> database \<Rightarrow> callgraph_options \<Rightarrow> (file_row \<times> rec_data) list" where
  "callgraph_rows glob db opts =
     sort_key (\<lambda>(f, d). (f_variant f, r_context d, r_symbol d, f_path f, r_line d, r_column d))
       (filter (callgraph_where glob opts) (joined (db_files db) (db_records db)))"

text \<open>The two formats of \<open>print_callgraph_results\<close>.\<close>

definition callgraph_line :: "bool \<Rightarrow> file_row \<times> rec_data \<Rightarrow> string" where
  "callgraph_line show_id row =
     (let f = fst row; d = snd row; tab = [CHR 0x09];
          caller_id = word_of_int (column_int64 (r_context_usr_id d));
          callee_id = word_of_int (column_int64 (r_usr_id d));
          place = f_variant f @ '':'' @ f_path f @ '':'' @ decimal_int (column_int (r_line d)) @ '':'' @
            decimal_int (column_int (r_column d)) @ newline
      in if show_id
         then r_context d @ tab @ hex16 caller_id @ tab @ r_symbol d @ tab @ hex16 callee_id @ tab @ place
         else r_context d @ '' -> '' @ r_symbol d @ tab @ place)"

definition print_callgraph_results ::
  "sink \<Rightarrow> run \<Rightarrow> (file_row \<times> rec_data) list \<Rightarrow> bool \<Rightarrow> stream \<Rightarrow> int \<times> stream" where
  "print_callgraph_results sk run rows show_id out =
     (case execute run rows of
        Not_Prepared \<Rightarrow> (- 1, out)
      | Steps delivered finished \<Rightarrow>
          (case for_each (fput sk) (map (callgraph_line show_id) delivered) out of
             (False, out1) \<Rightarrow> (- 1, out1)
           | (True, out1) \<Rightarrow>
               if \<not> finished then (- 1, out1) else (if o_error out1 then - 1 else 0, out1)))"

definition index_db_callgraph ::
  "search_env \<Rightarrow> string option \<Rightarrow> callgraph_options option \<Rightarrow> stream \<Rightarrow> int \<times> stream" where
  "index_db_callgraph e path options out =
     (case (path, options) of
        (Some p, Some opts) \<Rightarrow>
          if \<not> nonempty (cg_function opts) then (- 1, out)
          else (case sn_open e p of
             None \<Rightarrow> (- 1, out)
           | Some db \<Rightarrow>
               print_callgraph_results (sn_sink e) (sn_query_run e) (callgraph_rows (sn_glob e) db opts)
                 (cg_show_id opts) out)
      | _ \<Rightarrow> (- 1, out))"

end
