(* ===== verification/Source_Properties.thy ===== *)
theory Source_Properties
  imports Search_Format
begin

text \<open>
  Writing a record: the text that a successful write adds is a function of the format, the record
  and the files; the open source file, the position in it and the last line read are a cache
  that does not show.
\<close>

section \<open>Lines of a file\<close>

lemma get_line_split:
  "get_line s = (l, rest) \<Longrightarrow> s = l @ rest \<and> (s \<noteq> [] \<longrightarrow> l \<noteq> []) \<and> CHR 0x0A \<notin> set (butlast l)"
proof (induction s arbitrary: l rest)
  case Nil
  then show ?case by simp
next
  case (Cons c cs)
  then show ?case by (cases "get_line cs") (auto split: if_splits)
qed

lemma get_line_shorter: "(l, rest) = get_line s \<Longrightarrow> s \<noteq> [] \<Longrightarrow> length rest < length s"
  using get_line_split [of s l rest] by (metis append_eq_Cons_conv length_append length_greater_0_conv less_add_same_cancel2)

function file_lines :: "string \<Rightarrow> string list" where
  "file_lines s = (if s = [] then [] else case get_line s of (l, rest) \<Rightarrow> l # file_lines rest)"
  by pat_completeness auto
termination
  by (relation "measure length") (auto dest: get_line_shorter)

declare file_lines.simps [simp del]

lemma file_lines_Nil [simp]: "file_lines [] = []" "file_lines s = [] \<longleftrightarrow> s = []"
  by (subst file_lines.simps, simp split: prod.split)+

lemma file_lines_step: "s \<noteq> [] \<Longrightarrow> get_line s = (l, rest) \<Longrightarrow> file_lines s = l # file_lines rest"
  by (subst file_lines.simps) simp

lemma file_lines_newline: "l \<in> set (file_lines s) \<Longrightarrow> CHR 0x0A \<notin> set (butlast l)"
proof (induction s rule: file_lines.induct)
  case (1 s)
  show ?case
  proof (cases "s = []")
    case False
    obtain k rest where g: "get_line s = (k, rest)" by (rule prod.exhaust)
    have "CHR 0x0A \<notin> set (butlast k)" using get_line_split [OF g] by simp
    moreover from 1(2) have "l = k \<or> l \<in> set (file_lines rest)" unfolding file_lines_step [OF False g] by simp
    ultimately show ?thesis using 1(1) [OF False g [symmetric]] by auto
  qed (use 1(2) in \<open>simp\<close>)
qed

definition chomp :: "string \<Rightarrow> string" where
  "chomp l = (if l \<noteq> [] \<and> List.last l = CHR 0x0A then butlast l else l)"

text \<open>A line by its number, without its newline, and the line of a source file of a record.\<close>

definition source_text :: "files \<Rightarrow> string \<Rightarrow> int \<Rightarrow> string option" where
  "source_text files p line =
     (case files p of None \<Rightarrow> None
      | Some content \<Rightarrow>
          if 0 < line \<and> line \<le> int (length (file_lines content))
          then Some (chomp (file_lines content ! nat (line - 1))) else None)"

section \<open>The cursor\<close>

definition cursor_ok :: "string \<Rightarrow> source_file \<Rightarrow> formatter \<Rightarrow> bool" where
  "cursor_ok content src fo \<longleftrightarrow> sf_content src = content \<and>
     (\<exists>k. fo_line fo = int k \<and> k \<le> length (file_lines content) \<and>
        file_lines (sf_rest src) = drop k (file_lines content) \<and>
        (0 < k \<longrightarrow> fo_text fo = file_lines content ! (k - 1) \<and>
           (fo_length fo = int (length (fo_text fo)) \<or> fo_length fo = int (length (chomp (fo_text fo))))))"

definition source_ok :: "files \<Rightarrow> formatter \<Rightarrow> bool" where
  "source_ok files fo \<longleftrightarrow>
     (\<forall>src. fo_source fo = Some src \<longrightarrow>
        (\<exists>p. fo_path fo = Some p \<and> files p = Some (sf_content src) \<and> cursor_ok (sf_content src) src fo))"

lemma cursor_ok_start: "cursor_ok content \<lparr>sf_content = content, sf_rest = content\<rparr> (fo\<lparr>fo_line := 0\<rparr>)"
  by (auto simp: cursor_ok_def)

lemma cursor_ok_cong:
  "fo_line fo' = fo_line fo \<Longrightarrow> fo_text fo' = fo_text fo \<Longrightarrow> fo_length fo' = fo_length fo \<Longrightarrow>
     cursor_ok content src fo' = cursor_ok content src fo"
  by (simp add: cursor_ok_def)

lemma read_lines_ok:
  assumes "cursor_ok content src fo" and "read_lines line src fo = (ok, fo')"
  shows "fo_tokens fo' = fo_tokens fo \<and> fo_root fo' = fo_root fo \<and> fo_path fo' = fo_path fo \<and>
    (ok \<longleftrightarrow> line \<le> fo_line fo \<or> line \<le> int (length (file_lines content))) \<and>
    (ok \<longrightarrow> (\<exists>src'. fo_source fo' = Some src' \<and> cursor_ok content src' fo') \<and>
      fo_line fo' = max line (fo_line fo))"
  using assms
proof (induction line src fo rule: read_lines.induct)
  case (1 line src fo)
  from 1(2) obtain k where k: "fo_line fo = int k" "k \<le> length (file_lines content)"
    "file_lines (sf_rest src) = drop k (file_lines content)" and content: "sf_content src = content"
    by (auto simp: cursor_ok_def)
  show ?case
  proof (cases "fo_line fo < line")
    case False
    with 1(2,3) show ?thesis
      by (auto simp: read_lines.simps cursor_ok_cong [of "fo\<lparr>fo_source := Some src\<rparr>" fo])
  next
    case lt: True
    show ?thesis
    proof (cases "sf_rest src = []")
      case True
      with k have "k = length (file_lines content)" by simp
      with lt True 1(3) k(1) show ?thesis by (auto simp: read_lines.simps)
    next
      case False
      obtain l rest where g: "get_line (sf_rest src) = (l, rest)" by (rule prod.exhaust)
      let ?src = "src\<lparr>sf_rest := rest\<rparr>"
      let ?fo = "fo\<lparr>fo_text := l, fo_length := int (length l), fo_line := fo_line fo + 1\<rparr>"
      have d: "drop k (file_lines content) = l # file_lines rest"
        using file_lines_step [OF False g] k(3) by simp
      then have "k < length (file_lines content)" by (metis drop_eq_Nil linorder_not_less list.distinct(1))
      moreover from this d have "l = file_lines content ! k" "file_lines rest = drop (Suc k) (file_lines content)"
        by (metis Cons_nth_drop_Suc list.inject)+
      ultimately have "cursor_ok content ?src ?fo"
        unfolding cursor_ok_def using content k(1) by (auto intro!: exI [of _ "Suc k"])
      moreover have "read_lines line ?src ?fo = (ok, fo')"
        using 1(3) lt False g by (subst (asm) read_lines.simps) simp
      ultimately have *: "fo_tokens fo' = fo_tokens ?fo \<and> fo_root fo' = fo_root ?fo \<and> fo_path fo' = fo_path ?fo \<and>
          (ok \<longleftrightarrow> line \<le> fo_line ?fo \<or> line \<le> int (length (file_lines content))) \<and>
          (ok \<longrightarrow> (\<exists>src'. fo_source fo' = Some src' \<and> cursor_ok content src' fo') \<and> fo_line fo' = max line (fo_line ?fo))"
        using 1(1) [of l rest] lt False g by simp
      have "line \<le> fo_line fo + 1 \<Longrightarrow> line \<le> int (length (file_lines content))"
        using \<open>k < length (file_lines content)\<close> k(1) by simp
      with * lt show ?thesis by auto
    qed
  qed
qed

lemma open_source_ok:
  assumes "source_ok files fo" and "open_source files root path fo = (ok, fo')"
  shows "fo_tokens fo' = fo_tokens fo \<and> fo_root fo' = fo_root fo \<and>
    (ok \<longrightarrow> (\<exists>src content. fo_source fo' = Some src \<and> fo_path fo' = Some (source_path fo root path) \<and>
       files (source_path fo root path) = Some content \<and> cursor_ok content src fo')) \<and>
    (\<not> ok \<longrightarrow> files (source_path fo root path) = None)"
proof (cases "fo_source fo \<noteq> None \<and> fo_path fo = Some (source_path fo root path)")
  case True
  with assms show ?thesis by (auto simp: open_source_def source_ok_def Let_def)
next
  case False
  let ?fo = "\<lambda>src. fo\<lparr>fo_path := Some (source_path fo root path), fo_source := src, fo_line := 0, fo_length := 0\<rparr>"
  show ?thesis
  proof (cases "files (source_path fo root path)")
    case None
    with False assms(2) show ?thesis by (auto simp: open_source_def Let_def)
  next
    case (Some content)
    let ?src = "\<lparr>sf_content = content, sf_rest = content\<rparr>"
    have "cursor_ok content ?src (?fo (Some ?src))" by (auto simp: cursor_ok_def)
    moreover have "ok" "fo' = ?fo (Some ?src)" using Some False assms(2) by (auto simp: open_source_def Let_def)
    ultimately show ?thesis using Some by simp
  qed
qed

lemma chomp_take:
  assumes "CHR 0x0A \<notin> set (butlast l)" and "n = length l \<or> n = length (chomp l)"
  shows "take (if 0 < n \<and> l ! (n - 1) = CHR 0x0A then n - 1 else n) l = chomp l"
proof (cases l rule: rev_cases)
  case Nil
  with assms show ?thesis by (auto simp: chomp_def)
next
  case (snoc xs c)
  show ?thesis
  proof (cases "c = CHR 0x0A")
    case False
    with snoc assms(2) show ?thesis by (auto simp: chomp_def nth_append)
  next
    case True
    with snoc assms(2) have "n = Suc (length xs) \<or> n = length xs" by (auto simp: chomp_def)
    moreover have "xs \<noteq> [] \<Longrightarrow> xs ! (length xs - 1) \<noteq> CHR 0x0A"
      using assms(1) snoc by (metis butlast_snoc last_conv_nth last_in_set)
    ultimately show ?thesis using snoc True by (auto simp: chomp_def nth_append)
  qed
qed

lemma source_line_ok:
  assumes ok: "source_ok files fo" and line: "0 < line"
    and p: "print_source_line sk files root path line fo out = (r, fo', out')"
  shows "fo_tokens fo' = fo_tokens fo \<and> fo_root fo' = fo_root fo \<and>
    (r \<longrightarrow> source_ok files fo' \<and> o_error out' = o_error out \<and>
      (\<exists>t. source_text files (source_path fo root path) line = Some t \<and> o_text out' = o_text out @ t))"
proof -
  obtain b1 fo1 where 1: "open_source files root path fo = (b1, fo1)" by (rule prod.exhaust)
  note o1 = open_source_ok [OF ok 1]
  show ?thesis
  proof (cases b1)
    case False
    with p 1 o1 show ?thesis by (auto simp: print_source_line_def)
  next
    case True
    with o1 obtain src content where src: "fo_source fo1 = Some src" "fo_path fo1 = Some (source_path fo root path)"
      "files (source_path fo root path) = Some content" "cursor_ok content src fo1" by blast
    obtain src1 fo2 where 2: "rewind_before line src fo1 = (src1, fo2)" by (rule prod.exhaust)
    have c2: "cursor_ok content src1 fo2" "fo_line fo2 \<le> line" "fo_path fo2 = fo_path fo1" "fo_tokens fo2 = fo_tokens fo1"
      "fo_root fo2 = fo_root fo1"
      using 2 src(4) line by (auto simp: rewind_before_def cursor_ok_def split: if_splits)
    obtain b3 fo3 where 3: "read_lines line src1 fo2 = (b3, fo3)" by (rule prod.exhaust)
    note o3 = read_lines_ok [OF c2(1) 3]
    show ?thesis
    proof (cases b3)
      case False
      with p 1 2 3 True src(1) o1 o3 c2 show ?thesis by (auto simp: print_source_line_def)
    next
      case b3: True
      with o3 obtain src' where src': "fo_source fo3 = Some src'" "cursor_ok content src' fo3" by blast
      have ln: "fo_line fo3 = line" using o3 b3 c2(2) by simp
      from src'(2) obtain k where k: "line = int k" "k \<le> length (file_lines content)" "sf_content src' = content"
        "fo_text fo3 = file_lines content ! (k - 1)"
        "fo_length fo3 = int (length (fo_text fo3)) \<or> fo_length fo3 = int (length (chomp (fo_text fo3)))"
        using ln line by (auto simp: cursor_ok_def)
      then have "0 < k" using line by simp
      have nl: "CHR 0x0A \<notin> set (butlast (fo_text fo3))"
        using k(2,4) \<open>0 < k\<close> by (intro file_lines_newline [of _ content]) simp
      let ?n = "if fo_length fo3 > 0 \<and> fo_text fo3 ! nat (fo_length fo3 - 1) = CHR 0x0A
                   then fo_length fo3 - 1 else fo_length fo3"
      have n: "0 \<le> ?n" "take (nat ?n) (fo_text fo3) = chomp (fo_text fo3)"
      proof -
        obtain m where m: "fo_length fo3 = int m" "m = length (fo_text fo3) \<or> m = length (chomp (fo_text fo3))"
          using k(5) by blast
        have "nat ?n = (if 0 < m \<and> fo_text fo3 ! (m - 1) = CHR 0x0A then m - 1 else m)"
          using m(1) by (auto simp: nat_diff_distrib')
        then show "take (nat ?n) (fo_text fo3) = chomp (fo_text fo3)" using chomp_take [OF nl m(2)] by simp
        show "0 \<le> ?n" using m(1) by simp
      qed
      have len: "length (take (nat ?n) (fo_text fo3)) = nat ?n"
        using k(5) by (auto simp: chomp_def)
      obtain b4 out4 where 4: "fput sk (take (nat ?n) (fo_text fo3)) out = (b4, out4)" by (rule prod.exhaust)
      have res: "r = b4" "fo' = fo3\<lparr>fo_length := ?n\<rparr>" "out' = out4"
        using p 1 2 3 4 True b3 src(1) n(1) by (auto simp: print_source_line_def Let_def split: if_splits)
      have "cursor_ok content src' fo'"
        unfolding cursor_ok_def res(2) using src'(2) k ln n len
        by (auto simp: cursor_ok_def)
      moreover have "source_text files (source_path fo root path) line = Some (chomp (fo_text fo3))"
        using src(3) k \<open>0 < k\<close> line by (simp add: source_text_def nat_diff_distrib')
      ultimately show ?thesis
        using res src(2,3) src' o1 o3 c2 k(3) n(2) fput_ok [of sk _ out out4] 4
        by (auto simp: source_ok_def)
    qed
  qed
qed

section \<open>Records\<close>

text \<open>The text of a token: all but the source line depend on the record alone.\<close>

definition token_text :: "files \<Rightarrow> formatter \<Rightarrow> output_record \<Rightarrow> search_token \<Rightarrow> string option" where
  "token_text files fo r t =
     (case t of
        TOKEN_TEXT s \<Rightarrow> Some s
      | TOKEN_CHARACTER c \<Rightarrow> Some [c]
      | TOKEN_FIELD f \<Rightarrow>
          if f = FIELD_SOURCE then source_text files (source_path fo (or_root r) (or_file r)) (or_line r)
          else Some (field_text f r))"

definition rendered :: "files \<Rightarrow> formatter \<Rightarrow> output_record \<Rightarrow> string option" where
  "rendered files fo r =
     (if list_all (\<lambda>t. token_text files fo r t \<noteq> None) (fo_tokens fo)
      then Some (concat (map (\<lambda>t. the (token_text files fo r t)) (fo_tokens fo)) @ newline) else None)"

lemma source_path_cong: "fo_root fo' = fo_root fo \<Longrightarrow> source_path fo' = source_path fo"
  by (simp add: source_path_def fun_eq_iff)

lemma token_text_cong: "fo_root fo' = fo_root fo \<Longrightarrow> token_text files fo' = token_text files fo"
  using source_path_cong [of fo' fo] by (simp add: token_text_def fun_eq_iff split: search_token.split)

lemma fput_unchecked: "\<not> o_error (snd (fput sk s out)) \<Longrightarrow> o_text (snd (fput sk s out)) = o_text out @ s \<and> \<not> o_error out"
  by (auto simp: fput_def split: option.splits)

lemma print_source_line_stream:
  assumes "print_source_line sk files root path line fo out = (b, fo', out')"
  shows "out' = out \<or> (\<exists>s. out' = snd (fput sk s out))"
proof -
  obtain b1 fo1 where 1: "open_source files root path fo = (b1, fo1)" by (rule prod.exhaust)
  show ?thesis
  proof (cases "b1 \<and> fo_source fo1 \<noteq> None")
    case False
    with assms 1 show ?thesis by (cases b1) (simp_all add: print_source_line_def)
  next
    case True
    then obtain src where src: "fo_source fo1 = Some src" by blast
    obtain src1 fo2 where 2: "rewind_before line src fo1 = (src1, fo2)" by (rule prod.exhaust)
    obtain b3 fo3 where 3: "read_lines line src1 fo2 = (b3, fo3)" by (rule prod.exhaust)
    let ?n = "if fo_length fo3 > 0 \<and> fo_text fo3 ! nat (fo_length fo3 - 1) = CHR 0x0A
                   then fo_length fo3 - 1 else fo_length fo3"
    have "out' = snd (snd (print_source_line sk files root path line fo out))" using assms by simp
    also have "\<dots> = (if \<not> b3 \<or> ?n < 0 then out else snd (fput sk (take (nat ?n) (fo_text fo3)) out))"
      by (cases b3) (simp_all add: print_source_line_def 1 2 3 src True Let_def case_prod_unfold del: split_paired_Ex)
    finally show ?thesis by (metis (full_types))
  qed
qed

lemma write_tokens_error_kept:
  "write_tokens sk files r tokens fo out = (b, fo', out') \<Longrightarrow> o_error out \<Longrightarrow> o_error out'"
proof (induction tokens arbitrary: fo out)
  case Nil
  then show ?case by simp
next
  case (Cons t tokens)
  have step: "write_tokens sk files r tokens fo1 (snd (fput sk s out)) = (b, fo', out') \<Longrightarrow> o_error out'" for fo1 s
    using Cons.IH Cons.prems(2) by (auto simp: fput_error_kept)
  show ?case
  proof (cases t)
    case (TOKEN_TEXT s)
    with Cons.prems step [of fo s] fput_error_kept [of out sk s] show ?thesis
      by (cases "fput sk s out") (auto split: bool.splits)
  next
    case (TOKEN_CHARACTER c)
    with Cons.prems step show ?thesis by simp
  next
    case (TOKEN_FIELD f)
    show ?thesis
    proof (cases "f = FIELD_SOURCE")
      case False
      with TOKEN_FIELD Cons.prems step show ?thesis by simp
    next
      case True
      obtain b1 fo1 out1 where p: "print_source_line sk files (or_root r) (or_file r) (or_line r) fo out = (b1, fo1, out1)"
        by (rule prod_cases3)
      from print_source_line_stream [OF p] Cons.prems(2) have "o_error out1" by (auto simp: fput_error_kept)
      with p True TOKEN_FIELD Cons.prems Cons.IH [of fo1 out1] show ?thesis by (cases b1) simp_all
    qed
  qed
qed

lemma write_tokens_text:
  assumes "source_ok files fo" and "FIELD_SOURCE \<in> {f. TOKEN_FIELD f \<in> set tokens} \<Longrightarrow> 0 < or_line r"
    and "write_tokens sk files r tokens fo out = (True, fo', out')" and "\<not> o_error out'"
  shows "list_all (\<lambda>t. token_text files fo r t \<noteq> None) tokens \<and>
    o_text out' = o_text out @ concat (map (\<lambda>t. the (token_text files fo r t)) tokens) \<and>
    source_ok files fo' \<and> fo_tokens fo' = fo_tokens fo \<and> fo_root fo' = fo_root fo"
  using assms
proof (induction sk files r tokens fo out rule: write_tokens.induct)
  case (2 sk files r s tokens fo out)
  obtain b out1 where p: "fput sk s out = (b, out1)" by (rule prod.exhaust)
  with 2(4) have "b" by (cases b) simp_all
  with p 2 fput_ok [of sk s out out1] show ?case by (simp add: token_text_def)
next
  case (3 sk files r c tokens fo out)
  have "\<not> o_error (snd (fput sk [c] out))"
    using 3(4,5) write_tokens_error_kept by fastforce
  with 3 fput_unchecked [of sk "[c]" out] show ?case by (simp add: token_text_def)
next
  case (4 sk files r field tokens fo out)
  show ?case
  proof (cases "field = FIELD_SOURCE")
    case True
    obtain b fo1 out1 where p: "print_source_line sk files (or_root r) (or_file r) (or_line r) fo out = (b, fo1, out1)"
      by (rule prod_cases3)
    from p True 4(5) have "b" by (cases b) simp_all
    have "0 < or_line r" using 4(4) True by simp
    from source_line_ok [OF 4(3) this p] \<open>b\<close> obtain t where
      s: "fo_tokens fo1 = fo_tokens fo" "fo_root fo1 = fo_root fo" "source_ok files fo1" "o_error out1 = o_error out"
      "source_text files (source_path fo (or_root r) (or_file r)) (or_line r) = Some t" "o_text out1 = o_text out @ t"
      by auto
    have "write_tokens sk files r tokens fo1 out1 = (True, fo', out')"
      using 4(5) True p \<open>b\<close> by simp
    from 4(1) [OF True p [symmetric] _ _ s(3) _ this 4(6)] \<open>b\<close> 4(4) s True
    show ?thesis by (simp add: token_text_cong [OF s(2)]) (simp add: token_text_def)
  next
    case False
    have w: "write_tokens sk files r tokens fo (snd (fput sk (field_text field r) out)) = (True, fo', out')"
      using 4(5) False by simp
    then have "\<not> o_error (snd (fput sk (field_text field r) out))"
      using 4(6) write_tokens_error_kept by fastforce
    with 4(2) [OF False 4(3) _ w 4(6)] 4(4) False fput_unchecked [of sk "field_text field r" out]
    show ?thesis by (simp add: token_text_def)
  qed
qed simp

lemma output_write_text:
  assumes "source_ok files fo" and "TOKEN_FIELD FIELD_SOURCE \<in> set (fo_tokens fo) \<Longrightarrow> 0 < or_line r"
    and "output_write sk files r fo out = (0, fo', out')"
  shows "\<exists>t. rendered files fo r = Some t \<and> o_text out' = o_text out @ t \<and> \<not> o_error out' \<and>
    source_ok files fo' \<and> fo_tokens fo' = fo_tokens fo \<and> fo_root fo' = fo_root fo"
proof -
  obtain b fo1 out1 where p: "write_tokens sk files r (fo_tokens fo) fo out = (b, fo1, out1)" by (rule prod_cases3)
  with assms(3) have b: "b" "fo' = fo1" "out' = snd (fput sk newline out1)" "\<not> o_error out'"
    by (auto simp: output_write_def Let_def split: bool.splits if_splits)
  with fput_unchecked [of sk newline out1] have "\<not> o_error out1" "o_text out' = o_text out1 @ newline" by simp_all
  with write_tokens_text [OF assms(1) _ p [unfolded eqTrueI [OF b(1)]]] assms(2) b show ?thesis
    by (simp add: rendered_def)
qed

text \<open>
  C26. Writing a record is a function of the format, the record and the source files: when
  \<open>output_write\<close> returns 0 it has added the text of every token, where a source field is the line
  with that number, without its newline, of the file under the root of the variant or else of
  the repository, and a newline. Which file was open, how far it was read and which line was
  read last has no influence, and the invariant of that cache is kept.
\<close>

theorem output_write_renders:
  assumes "source_ok files fo" and "TOKEN_FIELD FIELD_SOURCE \<in> set (fo_tokens fo) \<Longrightarrow> 0 < or_line r"
    and "output_write sk files r fo out = (0, fo', out')"
  shows "\<exists>t. rendered files fo r = Some t \<and> o_text out' = o_text out @ t \<and> \<not> o_error out' \<and>
    source_ok files fo' \<and> fo_tokens fo' = fo_tokens fo \<and> fo_root fo' = fo_root fo"
  by (rule output_write_text [OF assms])

end
