(* ===== verification/Search_Properties.thy ===== *)
theory Search_Properties
  imports Search Source_Properties
begin

text \<open>
  A search prints one rendered record per matching row, in the order of the query, with the root
  that the database holds for the variant of the row; the call graph prints one line per call.
\<close>

section \<open>Delivering to a printer\<close>

lemma deliver_prints:
  assumes "\<And>x s s'. x \<in> set xs \<Longrightarrow> I s \<Longrightarrow> cb s x = (0, s') \<Longrightarrow> I s' \<and> P s s' x"
    and "deliver cb xs s = (0, s')" and "I s"
    and "\<And>s. Q s s []" and "\<And>s s' s'' x ys. P s s' x \<Longrightarrow> Q s' s'' ys \<Longrightarrow> Q s s'' (x # ys)"
  shows "I s' \<and> Q s s' xs"
  using assms(1,2,3)
proof (induction xs arbitrary: s)
  case Nil
  then show ?case by (simp add: assms(4))
next
  case (Cons x xs)
  obtain r s1 where 1: "cb s x = (r, s1)" by (rule prod.exhaust)
  with Cons.prems(2) have r: "r = 0" "deliver cb xs s1 = (0, s')" by (auto split: if_splits)
  with Cons.prems(1,3) 1 have "I s1" "P s s1 x" by auto
  with Cons.IH [OF _ r(2)] Cons.prems(1) show ?case by (auto intro: assms(5))
qed

section \<open>Roots of variants\<close>

definition variant_root :: "database \<Rightarrow> string \<Rightarrow> string option" where
  "variant_root db v = Option.bind (find (\<lambda>r. v_name r = v) (db_variants db)) v_repository_root"

lemma collect_roots:
  "deliver collect_variant_root vs s = (0, s\<lparr>se_roots := rev (map (\<lambda>v. (v_name v, v_repository_root v)) vs) @ se_roots s\<rparr>)"
  by (induction vs arbitrary: s) (simp_all add: collect_variant_root_def)

lemma list_variants_roots:
  assumes "db_list_variants run db collect_variant_root s = (r, s')" and "0 \<le> r"
  shows "s' = s\<lparr>se_roots := rev (map (\<lambda>v. (v_name v, v_repository_root v)) (sort_key v_name (db_variants db))) @ se_roots s\<rparr>"
  using assms by (cases run) (auto simp: db_list_variants_def collect_roots split: if_splits)

lemma find_by_name:
  assumes "distinct (map v_name vs)" and "set ws = set vs" and "distinct (map v_name ws)"
  shows "find (\<lambda>r. fst r = v) (map (\<lambda>v. (v_name v, v_repository_root v)) ws) =
    map_option (\<lambda>r. (v_name r, v_repository_root r)) (find (\<lambda>r. v_name r = v) vs)"
proof (cases "find (\<lambda>r. v_name r = v) vs")
  case None
  then have "find (\<lambda>r. fst r = v) (map (\<lambda>v. (v_name v, v_repository_root v)) ws) = None"
    using assms(2) by (auto simp: find_None_iff)
  with None show ?thesis by simp
next
  case (Some r)
  then have r: "r \<in> set vs" "v_name r = v" by (auto simp: find_Some_iff)
  have "find (\<lambda>r. fst r = v) (map (\<lambda>v. (v_name v, v_repository_root v)) ws) \<noteq> None"
    using r assms(2) by (auto simp: find_None_iff)
  then obtain y where y: "find (\<lambda>r. fst r = v) (map (\<lambda>v. (v_name v, v_repository_root v)) ws) = Some y" by blast
  then obtain w where "w \<in> set ws" "y = (v_name w, v_repository_root w)" "v_name w = v"
    by (auto simp: find_Some_iff) (metis nth_mem)
  with r assms have "w = r" by (metis distinct_map_unique)
  with y Some \<open>y = _\<close> show ?thesis by simp
qed

definition roots_of :: "database \<Rightarrow> (string \<times> string option) list" where
  "roots_of db = rev (map (\<lambda>v. (v_name v, v_repository_root v)) (sort_key v_name (db_variants db)))"

lemma find_roots:
  assumes "distinct (map v_name (db_variants db))"
  shows "find (\<lambda>r. fst r = v) (roots_of db) =
    map_option (\<lambda>r. (v_name r, v_repository_root r)) (find (\<lambda>r. v_name r = v) (db_variants db))"
proof -
  have "distinct (map v_name (rev (sort_key v_name (db_variants db))))"
    using assms by (simp add: distinct_map rev_map [symmetric])
  from find_by_name [OF assms _ this] show ?thesis by (simp add: roots_of_def rev_map)
qed

text \<open>The cache of the last variant never changes the answer.\<close>

definition roots_ok :: "database \<Rightarrow> search_output \<Rightarrow> bool" where
  "roots_ok db s \<longleftrightarrow> se_roots s = roots_of db \<and>
     (\<forall>v. se_last_variant s = Some v \<longrightarrow> se_last_root s = variant_root db v)"

lemma find_variant_root_ok:
  assumes "roots_ok db s" and "distinct (map v_name (db_variants db))"
    and "find_variant_root v s = (root, s')"
  shows "root = variant_root db v \<and> roots_ok db s' \<and> se_formatter s' = se_formatter s \<and> se_stream s' = se_stream s"
proof (cases "se_last_variant s = Some v")
  case True
  with assms show ?thesis by (auto simp: find_variant_root_def roots_ok_def)
next
  case False
  show ?thesis
  proof (cases "find (\<lambda>r. v_name r = v) (db_variants db)")
    case None
    with False assms find_roots [OF assms(2), of v] show ?thesis
      by (auto simp: find_variant_root_def roots_ok_def variant_root_def)
  next
    case (Some r)
    then have "v_name r = v" by (auto simp: find_Some_iff)
    with Some False assms find_roots [OF assms(2), of v] show ?thesis
      by (auto simp: find_variant_root_def roots_ok_def variant_root_def)
  qed
qed

section \<open>Printing the matches\<close>

lemma rendered_cong:
  "fo_tokens fo' = fo_tokens fo \<Longrightarrow> fo_root fo' = fo_root fo \<Longrightarrow> rendered files fo' = rendered files fo"
  using token_text_cong [of fo' fo] by (simp add: rendered_def fun_eq_iff)

definition printing :: "files \<Rightarrow> database \<Rightarrow> formatter \<Rightarrow> search_output \<Rightarrow> bool" where
  "printing files db fo0 s \<longleftrightarrow> roots_ok db s \<and>
     (\<exists>fo. se_formatter s = Some fo \<and> fo_tokens fo = fo_tokens fo0 \<and> fo_root fo = fo_root fo0 \<and> source_ok files fo)"

text \<open>What a search prints for a record of the database.\<close>

definition match_text :: "files \<Rightarrow> database \<Rightarrow> formatter \<Rightarrow> db_record \<Rightarrow> string option" where
  "match_text files db fo r = rendered files fo (search_record (variant_root db (dr_variant r)) r)"

lemma print_search_result_ok:
  assumes "printing files db fo0 s" and names: "distinct (map v_name (db_variants db))"
    and line: "TOKEN_FIELD FIELD_SOURCE \<in> set (fo_tokens fo0) \<Longrightarrow> 0 < sint (dr_line r)"
    and p: "print_search_result sk files s r = (0, s')"
  shows "printing files db fo0 s' \<and>
    (\<exists>t. match_text files db fo0 r = Some t \<and> o_text (se_stream s') = o_text (se_stream s) @ t)"
proof -
  from assms(1) obtain fo where fo: "se_formatter s = Some fo" "fo_tokens fo = fo_tokens fo0" "fo_root fo = fo_root fo0"
    "source_ok files fo" and roots: "roots_ok db s" by (auto simp: printing_def)
  obtain root s1 where 1: "find_variant_root (dr_variant r) s = (root, s1)" by (rule prod.exhaust)
  note v = find_variant_root_ok [OF roots names 1]
  obtain ret fo1 out1 where 2: "output_write sk files (search_record root r) fo (se_stream s1) = (ret, fo1, out1)"
    by (rule prod_cases3)
  from p fo(1) 1 2 have r: "ret = 0" "s' = s1\<lparr>se_formatter := Some fo1, se_stream := out1\<rparr>"
    by (auto simp: print_search_result_def)
  have "TOKEN_FIELD FIELD_SOURCE \<in> set (fo_tokens fo) \<Longrightarrow> 0 < or_line (search_record root r)"
    using line fo(2) by (simp add: search_record_def)
  from output_write_text [OF fo(4) this 2 [unfolded r(1)]] obtain t where
    t: "rendered files fo (search_record root r) = Some t" "o_text out1 = o_text (se_stream s1) @ t"
    "source_ok files fo1" "fo_tokens fo1 = fo_tokens fo" "fo_root fo1 = fo_root fo" by auto
  have "roots_ok db s'" using v r(2) by (simp add: roots_ok_def)
  with t v r(2) fo rendered_cong [OF fo(2,3)] show ?thesis
    by (auto simp: printing_def match_text_def)
qed

lemma list_all_Cons_concat: "concat (map f (x # xs)) = f x @ concat (map f xs)"
  by simp

lemma deliver_matches:
  assumes "deliver (print_search_result sk files) rs s = (0, s')" and "printing files db fo0 s"
    and "distinct (map v_name (db_variants db))"
    and "TOKEN_FIELD FIELD_SOURCE \<in> set (fo_tokens fo0) \<Longrightarrow> \<forall>r \<in> set rs. 0 < sint (dr_line r)"
  shows "list_all (\<lambda>r. match_text files db fo0 r \<noteq> None) rs \<and>
    o_text (se_stream s') = o_text (se_stream s) @ concat (map (\<lambda>r. the (match_text files db fo0 r)) rs)"
proof -
  let ?P = "\<lambda>s s' r. match_text files db fo0 r \<noteq> None \<and>
    o_text (se_stream s') = o_text (se_stream s) @ the (match_text files db fo0 r)"
  let ?Q = "\<lambda>s s' rs. list_all (\<lambda>r. match_text files db fo0 r \<noteq> None) rs \<and>
    o_text (se_stream s') = o_text (se_stream s) @ concat (map (\<lambda>r. the (match_text files db fo0 r)) rs)"
  have "printing files db fo0 s' \<and> ?Q s s' rs"
  proof (rule deliver_prints [where I = "printing files db fo0" and P = ?P and Q = ?Q, OF _ assms(1,2)])
    fix r s1 s2
    assume "r \<in> set rs" "printing files db fo0 s1" "print_search_result sk files s1 r = (0, s2)"
    with print_search_result_ok [OF _ assms(3)] assms(4)
    show "printing files db fo0 s2 \<and> ?P s1 s2 r" by fastforce
  qed auto
  then show ?thesis by blast
qed

lemma emit_records_completed:
  assumes "emit_records (execute run rows) cb 0 s = (0, s')"
  shows "deliver cb (map emitted rows) s = (0, s')"
  using assms by (cases run) (auto simp: emit_records_def at_position_def split: prod.splits if_splits)

text \<open>
  A search that returns 0 has printed, in the order of the query, one rendered record per row
  that the options select, with the repository root of the row's variant: neither the list of
  variants built for it, the variant remembered from the row before, nor the open source file
  shows in the output.
\<close>

theorem search_prints_matches:
  assumes "index_db_search e (Some p) (Some opts) out = (0, out')"
    and "sn_open e p = Some db" and "distinct (map v_name (db_variants db))"
    and "\<And>row. row \<in> set (query_rows (sn_glob e) db (search_query opts)) \<Longrightarrow> 0 < sint (dr_line (emitted row))"
  shows "\<exists>fo. output_create (sn_fs e) (Some (case so_format opts of None \<Rightarrow> default_format | Some f \<Rightarrow> f)) (Some p) = Some fo \<and>
    (let matches = map emitted (query_rows (sn_glob e) db (search_query opts)) in
     list_all (\<lambda>r. match_text (sn_files e) db fo r \<noteq> None) matches \<and>
     o_text out' = o_text out @ concat (map (\<lambda>r. the (match_text (sn_files e) db fo r)) matches) \<and> \<not> o_error out')"
proof -
  let ?s = "\<lparr>se_formatter = None, se_roots = [], se_last_variant = None, se_last_root = None, se_stream = out\<rparr>"
  obtain listed s1 where 1: "db_list_variants (sn_variants_run e) db collect_variant_root ?s = (listed, s1)"
    by (rule prod.exhaust)
  from assms(1,2) 1 have ok: "0 \<le> listed" by (auto simp: index_db_search_def Let_def split: if_splits)
  from list_variants_roots [OF 1 ok] have s1: "s1 = ?s\<lparr>se_roots := roots_of db\<rparr>" by (simp add: roots_of_def)
  obtain fo where 2: "output_create (sn_fs e) (Some (case so_format opts of None \<Rightarrow> default_format | Some f \<Rightarrow> f)) (Some p) = Some fo"
    using assms(1,2) 1 ok by (auto simp: index_db_search_def Let_def split: option.splits if_splits)
  let ?cb = "print_search_result (sn_sink e) (sn_files e)"
  obtain ret s2 where 3: "db_query (sn_glob e) (sn_query_run e) db (Some (search_query opts)) ?cb (s1\<lparr>se_formatter := Some fo\<rparr>) = (ret, s2)"
    by (rule prod.exhaust)
  from assms(1,2) 1 2 3 ok have r: "ret = 0" "out' = se_stream s2" "\<not> o_error out'"
    by (auto simp: index_db_search_def Let_def split: if_splits)
  have "q_after (search_query opts) = None" "q_limit (search_query opts) = 0"
    by (simp_all add: search_query_def default_options_def)
  with 3 r(1) have "emit_records (execute (sn_query_run e) (query_rows (sn_glob e) db (search_query opts))) ?cb 0
      (s1\<lparr>se_formatter := Some fo\<rparr>) = (0, s2)"
    by (auto simp: db_query_def Let_def split: if_splits)
  from emit_records_completed [OF this]
  have d: "deliver ?cb (map emitted (query_rows (sn_glob e) db (search_query opts))) (s1\<lparr>se_formatter := Some fo\<rparr>) = (0, s2)" .
  have "fo_source fo = None" using 2 by (auto simp: output_create_def split: prod.splits bool.splits)
  then have "printing (sn_files e) db fo (s1\<lparr>se_formatter := Some fo\<rparr>)"
    by (simp add: printing_def roots_ok_def s1 source_ok_def)
  from deliver_matches [OF d this assms(3)] assms(4) r 2 show ?thesis
    by (auto simp: s1 Let_def)
qed

section \<open>Call graph\<close>

text \<open>
  A call graph query that returns 0 has printed one line per call: exactly the calls of
  functions whose callee (or caller) is the function, with the given ID if there is one, in the
  selected files and variants, ordered by variant, caller, callee and place.
\<close>

theorem callgraph_lists_calls:
  assumes "index_db_callgraph e (Some p) (Some opts) out = (0, out')" and "sn_open e p = Some db"
  shows "o_text out' = o_text out @ concat (map (callgraph_line (cg_show_id opts)) (callgraph_rows (sn_glob e) db opts)) \<and>
    set (callgraph_rows (sn_glob e) db opts) =
      {row \<in> set (joined (db_files db) (db_records db)). callgraph_where (sn_glob e) opts row} \<and>
    sorted (map (\<lambda>(f, d). (f_variant f, r_context d, r_symbol d, f_path f, r_line d, r_column d))
      (callgraph_rows (sn_glob e) db opts))"
proof (intro conjI)
  let ?rows = "callgraph_rows (sn_glob e) db opts"
  have "print_callgraph_results (sn_sink e) (sn_query_run e) ?rows (cg_show_id opts) out = (0, out')"
    using assms by (auto simp: index_db_callgraph_def split: if_splits)
  then have "for_each (fput (sn_sink e)) (map (callgraph_line (cg_show_id opts)) ?rows) out = (True, out')"
    by (cases "sn_query_run e") (auto simp: print_callgraph_results_def split: prod.splits bool.splits if_splits)
  from for_each_fput [OF this]
  show "o_text out' = o_text out @ concat (map (callgraph_line (cg_show_id opts)) ?rows)" by simp
qed (auto simp: callgraph_rows_def)

end
