(* ===== verification/Format_Properties.thy ===== *)
theory Format_Properties
  imports Search_Format
begin

text \<open>
  The compilation of search formats stays within its array and is inverse to writing the tokens
  as a format; writing a record gives the text of its tokens, with the wanted lines of the
  source files whatever was read before.
\<close>

section \<open>Compiling formats\<close>

lemma compile_loop_steps:
  "compile_loop text [] tokens = (True, add_text_token text tokens)"
  "c \<noteq> CHR 0x5C \<Longrightarrow> c \<noteq> CHR ''%'' \<Longrightarrow> compile_loop text (c # cs) tokens = compile_loop (text @ [c]) cs tokens"
  "compile_loop text [CHR 0x5C] tokens = (True, add_text_token text tokens)"
  "compile_loop text (CHR 0x5C # d # ds) tokens =
     compile_loop [] ds (add_text_token text tokens @ [TOKEN_CHARACTER (escaped_character d)])"
  "compile_loop text (CHR ''%'' # CHR ''%'' # ds) tokens =
     compile_loop [] ds (add_text_token text tokens @ [TOKEN_CHARACTER CHR ''%''])"
  by (subst compile_loop.simps, simp add: Let_def)+

lemma compile_loop_field:
  assumes "cs = [] \<or> hd cs \<noteq> CHR ''%''"
  shows "compile_loop text (CHR ''%'' # cs) tokens =
    (case parse_field (CHR ''%'' # cs) of
       None \<Rightarrow> (False, add_text_token text tokens)
     | Some (field, rest) \<Rightarrow> compile_loop [] rest (add_text_token text tokens @ [TOKEN_FIELD field]))"
  using assms by (subst compile_loop.simps) (auto simp: Let_def)

text \<open>One case per way through the body of the loop.\<close>

lemma compile_loop_cases:
  obtains (finished) "p = []"
  | (plain) c cs where "p = c # cs" "c \<noteq> CHR 0x5C" "c \<noteq> CHR ''%''"
  | (dangling) "p = [CHR 0x5C]"
  | (escape) d ds where "p = CHR 0x5C # d # ds"
  | (percent) ds where "p = CHR ''%'' # CHR ''%'' # ds"
  | (bad) cs where "p = CHR ''%'' # cs" "cs = [] \<or> hd cs \<noteq> CHR ''%''" "parse_field p = None"
  | (field) cs f rest where "p = CHR ''%'' # cs" "cs = [] \<or> hd cs \<noteq> CHR ''%''" "parse_field p = Some (f, rest)"
proof -
  consider "p = []" | c cs where "p = c # cs" "c \<noteq> CHR 0x5C" "c \<noteq> CHR ''%''"
    | cs where "p = CHR 0x5C # cs" | cs where "p = CHR ''%'' # cs" by (cases p) auto
  then show thesis
  proof cases
    case 3
    with that(3,4) show ?thesis by (cases cs) auto
  next
    case (4 cs)
    show ?thesis
    proof (cases "cs = [] \<or> hd cs \<noteq> CHR ''%''")
      case True
      with 4 that(6,7) show ?thesis by (cases "parse_field p") auto
    next
      case False
      with 4 that(5) show ?thesis by (cases cs) auto
    qed
  qed (auto intro: that(1,2))
qed

lemma length_add_text: "length (add_text_token text tokens) \<le> length tokens + min 1 (length text)"
  by (cases "text") (simp_all add: add_text_token_def)

lemma compile_loop_bound:
  "length (snd (compile_loop text p tokens)) \<le> length tokens + length text + length p"
proof (induction "length p" arbitrary: "text" p tokens rule: less_induct)
  case less
  have add: "length (add_text_token text tokens) \<le> length tokens + length text"
    using length_add_text [of "text" tokens] by simp
  show ?case
  proof (cases p rule: compile_loop_cases)
    case (plain c cs)
    then show ?thesis using less [of cs "text @ [c]" tokens] by (simp add: compile_loop_steps)
  next
    case (escape d ds)
    then show ?thesis using less [of ds "[]"] add
      by (fastforce simp: compile_loop_steps intro: order_trans)
  next
    case (percent ds)
    then show ?thesis using less [of ds "[]"] add
      by (fastforce simp: compile_loop_steps intro: order_trans)
  next
    case (field cs f rest)
    then have "length rest < length p" by (auto dest: parse_field_shorter)
    with field less [of rest "[]" "add_text_token text tokens @ [TOKEN_FIELD f]"] add show ?thesis
      by (simp add: compile_loop_field)
  qed (use add in \<open>simp_all add: compile_loop_steps compile_loop_field\<close>)
qed

text \<open>
  The token array, allocated for \<open>strlen (format) + 1\<close> tokens, is never overrun: compiling
  a format fills at most \<open>strlen (format)\<close> entries, also when the format is refused.
\<close>

theorem compile_format_fits: "length (snd (compile_format format)) \<le> length format"
  using compile_loop_bound [of "[]" format "[]"] by (simp add: compile_format_def)

section \<open>Tokens as formats\<close>

definition field_name :: "search_field \<Rightarrow> string" where
  "field_name f = the (map_of search_fields f)"

definition token_format :: "search_token \<Rightarrow> string" where
  "token_format t =
     (case t of
        TOKEN_TEXT s \<Rightarrow> s
      | TOKEN_CHARACTER c \<Rightarrow> [CHR 0x5C, (if c = CHR 0x09 then CHR ''t'' else if c = CHR 0x0D then CHR ''r''
          else if c = CHR 0x0A then CHR ''n'' else c)]
      | TOKEN_FIELD f \<Rightarrow> ''%{'' @ field_name f @ ''}'')"

definition format_of :: "search_token list \<Rightarrow> string" where
  "format_of ts = concat (map token_format ts)"

definition is_text :: "search_token \<Rightarrow> bool" where
  "is_text t = (case t of TOKEN_TEXT _ \<Rightarrow> True | _ \<Rightarrow> False)"

definition writable :: "search_token \<Rightarrow> bool" where
  "writable t =
     (case t of
        TOKEN_TEXT s \<Rightarrow> s \<noteq> [] \<and> CHR 0x5C \<notin> set s \<and> CHR ''%'' \<notin> set s
      | TOKEN_CHARACTER c \<Rightarrow> c \<notin> {CHR ''t'', CHR ''r'', CHR ''n''}
      | TOKEN_FIELD f \<Rightarrow> True)"

fun normal :: "search_token list \<Rightarrow> bool" where
  "normal [] \<longleftrightarrow> True"
| "normal [t] \<longleftrightarrow> writable t"
| "normal (t # u # ts) \<longleftrightarrow> writable t \<and> \<not> (is_text t \<and> is_text u) \<and> normal (u # ts)"

lemma find_field_name: "find_field (field_name f) = Some f"
  by (cases f) (simp_all add: find_field_def lookup_name_def field_name_def search_fields_def)

lemma field_name_plain: "CHR ''}'' \<notin> set (field_name f)"
  by (cases f) (simp_all add: field_name_def search_fields_def)

lemma strchr_at: "c \<notin> set a \<Longrightarrow> strchr (a @ c # r) c = Some (length a)"
  by (induction a) auto

lemma parse_field_name: "parse_field (''%{'' @ field_name f @ ''}'' @ r) = Some (f, r)"
  using strchr_at [OF field_name_plain, of f r] by (simp add: parse_field_def find_field_name)

lemma escaped_written:
  "writable (TOKEN_CHARACTER c) \<Longrightarrow> escaped_character (token_format (TOKEN_CHARACTER c) ! 1) = c"
  by (auto simp: writable_def token_format_def escaped_character_def)

lemma compile_loop_text:
  "CHR 0x5C \<notin> set s \<Longrightarrow> CHR ''%'' \<notin> set s \<Longrightarrow>
     compile_loop text (s @ r) tokens = compile_loop (text @ s) r tokens"
  by (induction s arbitrary: "text") (auto simp: compile_loop_steps)

text \<open>A pending text is the token that the next special character makes of it.\<close>

lemma compile_loop_pending:
  assumes "r = [] \<or> hd r = CHR 0x5C \<or> hd r = CHR ''%''"
  shows "compile_loop text r tokens = compile_loop [] r (add_text_token text tokens)"
  using assms by (cases r rule: compile_loop_cases) (auto simp: compile_loop_steps compile_loop_field add_text_token_def)

lemma compile_loop_normal:
  "normal ts \<Longrightarrow> compile_loop [] (format_of ts) tokens = (True, tokens @ ts)"
proof (induction ts arbitrary: tokens)
  case Nil
  then show ?case by (simp add: format_of_def compile_loop_steps add_text_token_def)
next
  case (Cons t ts)
  then have w: "writable t" and n: "normal ts" and adj: "ts \<noteq> [] \<Longrightarrow> \<not> (is_text t \<and> is_text (hd ts))"
    by (cases ts; simp)+
  have f: "format_of (t # ts) = token_format t @ format_of ts" by (simp add: format_of_def)
  show ?case
  proof (cases t)
    case (TOKEN_TEXT s)
    with w have s: "s \<noteq> []" "CHR 0x5C \<notin> set s" "CHR ''%'' \<notin> set s" by (simp_all add: writable_def)
    have "format_of ts = [] \<or> hd (format_of ts) = CHR 0x5C \<or> hd (format_of ts) = CHR ''%''"
      using adj TOKEN_TEXT by (cases ts) (auto simp: format_of_def is_text_def token_format_def split: search_token.splits)
    from compile_loop_pending [OF this, of s tokens] s Cons.IH [OF n] show ?thesis
      unfolding f by (simp add: TOKEN_TEXT token_format_def compile_loop_text add_text_token_def)
  next
    case (TOKEN_CHARACTER c)
    with w escaped_written [of c] Cons.IH [OF n] show ?thesis
      unfolding f by (simp add: token_format_def compile_loop_steps add_text_token_def)
  next
    case (TOKEN_FIELD g)
    have "compile_loop [] (''%{'' @ field_name g @ ''}'' @ format_of ts) tokens = compile_loop [] (format_of ts) (tokens @ [TOKEN_FIELD g])"
      using compile_loop_field [of "''{'' @ field_name g @ ''}'' @ format_of ts"] parse_field_name [of g "format_of ts"]
      by (simp add: add_text_token_def)
    with Cons.IH [OF n] TOKEN_FIELD show ?thesis unfolding f by (simp add: token_format_def)
  qed
qed

text \<open>Tokens that are compiled are normal; a text token is last only when nothing is pending.\<close>

lemma normal_append:
  "normal (ts @ [t]) \<longleftrightarrow> normal ts \<and> writable t \<and> (ts \<noteq> [] \<longrightarrow> \<not> (is_text (List.last ts) \<and> is_text t))"
  by (induction ts rule: normal.induct) auto

lemma writable_escaped: "writable (TOKEN_CHARACTER (escaped_character d))"
  by (auto simp: writable_def escaped_character_def)

definition pending_ok :: "string \<Rightarrow> search_token list \<Rightarrow> bool" where
  "pending_ok text tokens \<longleftrightarrow> normal tokens \<and> CHR 0x5C \<notin> set text \<and> CHR ''%'' \<notin> set text \<and>
     (tokens \<noteq> [] \<longrightarrow> \<not> is_text (List.last tokens))"

lemma pending_flush: "pending_ok text tokens \<Longrightarrow> normal (add_text_token text tokens)"
  by (auto simp: pending_ok_def add_text_token_def normal_append writable_def)

lemma pending_next:
  "pending_ok text tokens \<Longrightarrow> writable t \<Longrightarrow> \<not> is_text t \<Longrightarrow> pending_ok [] (add_text_token text tokens @ [t])"
  using pending_flush by (auto simp: pending_ok_def normal_append)

lemma compile_loop_is_normal:
  "pending_ok text tokens \<Longrightarrow> normal (snd (compile_loop text p tokens))"
proof (induction "length p" arbitrary: "text" p tokens rule: less_induct)
  case less
  show ?case
  proof (cases p rule: compile_loop_cases)
    case (plain c cs)
    with less.prems have "pending_ok (text @ [c]) tokens" by (auto simp: pending_ok_def)
    with plain less.hyps [of cs] show ?thesis by (simp add: compile_loop_steps)
  next
    case (escape d ds)
    with less.prems have "pending_ok [] (add_text_token text tokens @ [TOKEN_CHARACTER (escaped_character d)])"
      by (intro pending_next writable_escaped) (simp_all add: is_text_def)
    with escape less.hyps [of ds] show ?thesis by (simp add: compile_loop_steps)
  next
    case (percent ds)
    with less.prems have "pending_ok [] (add_text_token text tokens @ [TOKEN_CHARACTER CHR ''%''])"
      by (intro pending_next) (simp_all add: is_text_def writable_def)
    with percent less.hyps [of ds] show ?thesis by (simp add: compile_loop_steps)
  next
    case (field cs f rest)
    with less.prems have "pending_ok [] (add_text_token text tokens @ [TOKEN_FIELD f])"
      by (intro pending_next) (simp_all add: is_text_def writable_def)
    moreover have "length rest < length p" using field by (auto dest: parse_field_shorter)
    ultimately show ?thesis using field less.hyps [of rest] by (simp add: compile_loop_field)
  qed (use less.prems pending_flush in \<open>simp_all add: compile_loop_steps compile_loop_field\<close>)
qed

text \<open>
  Formats and tokens correspond: the token lists that formats compile to are exactly the
  normal ones, and a normal list, written as a format, compiles to itself.
\<close>

theorem format_roundtrip:
  "(\<exists>format. compile_format format = (True, tokens)) \<longleftrightarrow> compile_format (format_of tokens) = (True, tokens)"
proof
  assume "\<exists>format. compile_format format = (True, tokens)"
  then obtain format where "compile_format format = (True, tokens)" by blast
  then have "normal tokens"
    using compile_loop_is_normal [of "[]" "[]" format] by (simp add: compile_format_def pending_ok_def)
  from compile_loop_normal [OF this, of "[]"] show "compile_format (format_of tokens) = (True, tokens)"
    by (simp add: compile_format_def)
qed blast

end
