(* ===== verification/Search_Witnesses.thy ===== *)
theory Search_Witnesses
  imports Search_Properties Format_Properties Reader_Witnesses
begin

text \<open>A search on a small database, whose one match has its source line printed.\<close>

definition sample_tokens :: "search_token list" where
  "sample_tokens = [TOKEN_FIELD FIELD_SYMBOL, TOKEN_CHARACTER CHR 0x09, TOKEN_FIELD FIELD_SOURCE]"

definition sample_files :: files where
  "sample_files p = (if p = ''/r/a.c'' then Some (''a'' @ newline @ newline @ ''c'' @ newline @ ''d();'' @ newline) else None)"

definition sample_searched :: database where
  "sample_searched = sample_db\<lparr>db_variants := [\<lparr>v_name = ''v'', v_git_commit = None, v_repository_root = Some ''/r''\<rparr>]\<rparr>"

definition sample_search_env :: search_env where
  "sample_search_env = \<lparr>sn_glob = (\<lambda>_ _. False), sn_open = (\<lambda>_. Some sample_searched), sn_variants_run = Completes,
     sn_query_run = Completes, sn_fs = \<lparr>fs_realpath = (\<lambda>_. None), fs_stat = (\<lambda>_. None), fs_lstat = (\<lambda>_. False)\<rparr>,
     sn_files = sample_files, sn_sink = (\<lambda>_. None)\<rparr>"

definition sample_search :: search_options where
  "sample_search = no_search_options\<lparr>so_pattern := Some ''f'', so_format := Some (format_of sample_tokens)\<rparr>"

definition empty_output :: stream where
  "empty_output = \<lparr>o_text = [], o_error = False, o_calls = 0\<rparr>"

definition sample_formatter :: formatter where
  "sample_formatter = \<lparr>fo_tokens = sample_tokens, fo_root = None, fo_path = None, fo_source = None,
     fo_text = [], fo_length = 0, fo_line = 0\<rparr>"

lemma sample_tokens_compile: "compile_format (format_of sample_tokens) = (True, sample_tokens)"
  using compile_loop_normal [of sample_tokens "[]"]
  by (simp add: compile_format_def sample_tokens_def writable_def is_text_def)

lemma sample_created:
  "output_create (sn_fs sample_search_env) (Some (format_of sample_tokens)) (Some ''db'') = Some sample_formatter"
  by (simp add: output_create_def sample_tokens_compile sample_search_env_def sample_formatter_def
      repository_root_def root_string_def)

definition sample_match :: db_record where
  "sample_match = emitted (sample_file, sample_call)"

lemma sample_match_eq:
  "sample_match = \<lparr>dr_variant = ''v'', dr_path = ''a.c'', dr_symbol = ''f'', dr_context = ''main'',
     dr_record = DB_REFERENCE, dr_kind = 7, dr_action = 3, dr_mode = 4, dr_line = 4, dr_column = 2,
     dr_usr_id = 12, dr_context_usr_id = 13, dr_local = 0\<rparr>"
  by (simp add: sample_match_def emitted_def sample_file_def sample_call_def record_type_def column_int_def
      column_unsigned_def column_int64_def stored_defs Let_def)

lemma sample_rows:
  "query_rows (sn_glob sample_search_env) sample_searched (search_query sample_search) = [(sample_file, sample_call)]"
proof -
  have "joined (db_files sample_searched) (db_records sample_searched) =
     [(sample_file, sample_member), (sample_file, sample_call)]"
    using sample_joined by (simp add: sample_searched_def)
  then show ?thesis
    by (simp add: query_rows_def search_query_def sample_search_def no_search_options_def default_options_def
        query_where_def text_matches_def pattern_uses_glob_def record_matches_def mode_matches_def limited_def
        sample_call_def sample_member_def filter_defs stored_defs Let_def)
qed

definition sample_written :: "int \<times> formatter \<times> stream" where
  "sample_written = output_write (\<lambda>_. None) sample_files (search_record (Some ''/r'') sample_match) sample_formatter empty_output"

lemma sample_written_ok: "fst sample_written = 0" "o_error (snd (snd sample_written)) = False"
  by (simp_all add: sample_written_def output_write_def sample_formatter_def sample_tokens_def search_record_def
      sample_match_eq print_source_line_def open_source_def source_path_def sample_files_def rewind_before_def
      read_lines.simps newline_def fput_def field_text_def empty_output_def Let_def)

theorem output_write_renders_witness:
  "\<exists>t. rendered sample_files sample_formatter (search_record (Some ''/r'') sample_match) = Some t \<and>
    o_text (snd (snd sample_written)) = o_text empty_output @ t \<and> \<not> o_error (snd (snd sample_written)) \<and>
    source_ok sample_files (fst (snd sample_written)) \<and> fo_tokens (fst (snd sample_written)) = fo_tokens sample_formatter \<and>
    fo_root (fst (snd sample_written)) = fo_root sample_formatter"
proof (rule output_write_renders)
  show "source_ok sample_files sample_formatter" by (simp add: source_ok_def sample_formatter_def)
  show "0 < or_line (search_record (Some ''/r'') sample_match)" by (simp add: search_record_def sample_match_eq)
  show "output_write (\<lambda>_. None) sample_files (search_record (Some ''/r'') sample_match) sample_formatter empty_output =
      (0, fst (snd sample_written), snd (snd sample_written))"
    using sample_written_ok(1) by (simp add: sample_written_def prod_eq_iff)
qed

definition sample_searched_run :: "int \<times> stream" where
  "sample_searched_run = index_db_search sample_search_env (Some ''db'') (Some sample_search) empty_output"

lemma sample_searched_ok: "fst sample_searched_run = 0"
proof -
  have w: "output_write (\<lambda>_. None) sample_files (search_record (Some ''/r'') sample_match) sample_formatter empty_output =
      (0, fst (snd sample_written), snd (snd sample_written))"
    using sample_written_ok(1) by (simp add: sample_written_def prod_eq_iff)
  have q: "emit_records (Steps (query_rows (sn_glob sample_search_env) sample_searched (search_query sample_search)) True)
      cb 0 s = cb s sample_match" for cb s
    unfolding sample_rows by (auto simp: emit_records_def at_position_def sample_match_def split: prod.split)
  have "q_record (search_query sample_search) = 0" "q_limit (search_query sample_search) = 0"
    "q_after (search_query sample_search) = None"
    by (simp_all add: search_query_def sample_search_def no_search_options_def default_options_def filter_defs)
  then have d: "db_query (sn_glob sample_search_env) Completes sample_searched (Some (search_query sample_search)) cb s =
      cb s sample_match" for cb s
    by (simp add: db_query_def q filter_defs Let_def)
  have l: "db_list_variants Completes sample_searched collect_variant_root s =
      (0, s\<lparr>se_roots := (''v'', Some ''/r'') # se_roots s\<rparr>)" for s
    by (simp add: db_list_variants_def collect_variant_root_def sample_searched_def)
  have e: "sn_open sample_search_env ''db'' = Some sample_searched" "sn_variants_run sample_search_env = Completes"
    "sn_query_run sample_search_env = Completes" "sn_files sample_search_env = sample_files"
    "sn_sink sample_search_env = (\<lambda>_. None)" "so_format sample_search = Some (format_of sample_tokens)"
    by (simp_all add: sample_search_env_def sample_search_def)
  show ?thesis
    using sample_written_ok(2)
    by (simp add: sample_searched_run_def index_db_search_def e l d sample_created print_search_result_def
        find_variant_root_def sample_match_eq [THEN arg_cong [of _ _ dr_variant]] w case_prod_unfold Let_def)
qed

theorem search_prints_matches_witness:
  "\<exists>t. match_text sample_files sample_searched sample_formatter sample_match = Some t \<and>
    o_text (snd sample_searched_run) = t"
proof -
  have run: "index_db_search sample_search_env (Some ''db'') (Some sample_search) empty_output = (0, snd sample_searched_run)"
    using sample_searched_ok by (simp add: sample_searched_run_def prod_eq_iff)
  have e: "sn_open sample_search_env ''db'' = Some sample_searched" "sn_files sample_search_env = sample_files"
    "so_format sample_search = Some (format_of sample_tokens)"
    by (simp_all add: sample_search_env_def sample_search_def)
  have "distinct (map v_name (db_variants sample_searched))" by (simp add: sample_searched_def)
  from search_prints_matches [OF run e(1) this] show ?thesis
    by (auto simp: sample_rows sample_match_def [symmetric] sample_match_eq [THEN arg_cong [of _ _ dr_line]] e sample_created
        empty_output_def Let_def)
qed

definition sample_calls :: callgraph_options where
  "sample_calls = \<lparr>cg_function = Some ''f'', cg_path = None, cg_variant = None, cg_id = 12,
     cg_direction = CALLGRAPH_CALLERS, cg_has_id = True, cg_show_id = True\<rparr>"

definition sample_callgraph :: "int \<times> stream" where
  "sample_callgraph = index_db_callgraph sample_search_env (Some ''db'') (Some sample_calls) empty_output"

theorem callgraph_lists_calls_witness:
  "o_text (snd sample_callgraph) = o_text empty_output @
      concat (map (callgraph_line True) (callgraph_rows (sn_glob sample_search_env) sample_searched sample_calls)) \<and>
    (sample_file, sample_call) \<in> set (callgraph_rows (sn_glob sample_search_env) sample_searched sample_calls)"
proof -
  have e: "sn_open sample_search_env ''db'' = Some sample_searched" "sn_query_run sample_search_env = Completes"
    "sn_sink sample_search_env = (\<lambda>_. None)"
    by (simp_all add: sample_search_env_def)
  have works: "for_each (fput (\<lambda>_. None)) cs s = (True, s\<lparr>o_text := o_text s @ concat cs, o_calls := o_calls s + length cs\<rparr>)"
    for cs s by (induction cs arbitrary: s) (simp_all add: fput_def)
  have "fst sample_callgraph = 0"
    by (simp add: sample_callgraph_def index_db_callgraph_def sample_calls_def e print_callgraph_results_def works
        empty_output_def)
  then have run: "index_db_callgraph sample_search_env (Some ''db'') (Some sample_calls) empty_output = (0, snd sample_callgraph)"
    by (simp add: sample_callgraph_def prod_eq_iff)
  have "joined (db_files sample_searched) (db_records sample_searched) =
     [(sample_file, sample_member), (sample_file, sample_call)]"
    using sample_joined by (simp add: sample_searched_def)
  with callgraph_lists_calls [OF run e(1)] show ?thesis
    by (simp add: callgraph_where_def sample_calls_def call_row_def sample_call_def text_matches_def Let_def)
qed

end
