(* ===== verification/Cmdline.thy ===== *)
theory Cmdline
  imports Pipeline Index_Print
begin

text \<open>
  \<open>lib/semindex_cmdline\<close>: the values of command line options (\<open>cmdline.c\<close>) and the options that
  the indexing commands share (\<open>index_command.c\<close>). The option codes are those that
  \<open>getopt_long\<close> returns; a command sees the list of its options with their arguments, and the
  operands that are left.
\<close>

section \<open>Values of options\<close>

datatype output_format = FORMAT_DISSECT | FORMAT_JSON

definition parse_format :: "string \<Rightarrow> output_format option" where
  "parse_format value =
     (if value = ''dissect'' then Some FORMAT_DISSECT
      else if value = ''json'' then Some FORMAT_JSON else None)"

definition parse_scope :: "string \<Rightarrow> scope option" where
  "parse_scope value =
     (if value = ''file'' then Some SCOPE_FILE
      else if value = ''project'' then Some SCOPE_PROJECT
      else if value = ''all'' then Some SCOPE_ALL else None)"

definition parse_git_commit :: "string \<Rightarrow> git_commit_mode option" where
  "parse_git_commit value =
     (if value = ''auto'' then Some GIT_COMMIT_AUTO
      else if length value \<noteq> 40 \<and> length value \<noteq> 64 then None
      else if \<not> list_all isxdigit value then None
      else Some GIT_COMMIT_EXPLICIT)"

definition output_index :: "sink \<Rightarrow> output_format \<Rightarrow> index \<Rightarrow> stream \<Rightarrow> int \<times> stream" where
  "output_index sk format ix out =
     (if format = FORMAT_JSON then output_json sk ix out else output_dissect sk ix out)"

definition index_db_record_names :: "(record_filter \<times> string) list" where
  "index_db_record_names =
     [(RECORD_FILTER_ALL, ''all''), (RECORD_FILTER_SYMBOL, ''symbol''), (RECORD_FILTER_USE, ''use'')]"

definition parse_index_db_record :: "string \<Rightarrow> record_filter option" where
  "parse_index_db_record value = lookup_name index_db_record_names value"

definition cli_kind_names :: "(symbol_kind \<times> string) list" where
  "cli_kind_names =
     [(SYMBOL_VAR, ''var''), (SYMBOL_FIELD, ''field''), (SYMBOL_STRUCT, ''struct''),
      (SYMBOL_UNION, ''union''), (SYMBOL_ENUM, ''enum''), (SYMBOL_ENUM_CONSTANT, ''enumerator''),
      (SYMBOL_TYPEDEF, ''typedef''), (SYMBOL_FUNCTION, ''function''), (SYMBOL_MACRO, ''macro''),
      (SYMBOL_FILE, ''file''), (SYMBOL_CLASS, ''class''), (SYMBOL_LAMBDA, ''lambda''),
      (SYMBOL_TEMPLATE, ''template'')]"

definition parse_symbol_kind :: "string \<Rightarrow> int option" where
  "parse_symbol_kind value = map_option kind_code (lookup_name cli_kind_names value)"

section \<open>Options of the indexing commands\<close>

datatype option_code =
    OPT_NO_INCLUDE_LOCAL | OPT_VARIANT | OPT_COMMANDS_DATABASE | OPT_NO_STORE_COMMAND
  | OPT_TRACE | OPT_GIT_COMMIT | OPT_NO_GIT_COMMIT | OPT_ROOT | OPT_INDEX_ERRORS
  | OPT_CALLERS | OPT_CALLEES | OPT_ID | OPT_SHOW_ID
  | OPT_CHAR char

text \<open>An option as \<open>getopt_long\<close> delivers it; the argument is empty where there is none.\<close>

type_synonym parsed_option = "option_code \<times> string"

record command_options =
  oc_database :: "string option"
  oc_commands_database :: "string option"
  oc_variant :: string
  oc_repository_root :: "string option"
  oc_trace_path :: "string option"
  oc_git_commit :: "string option"
  oc_scope :: scope
  oc_git_commit_mode :: git_commit_mode
  oc_trace :: bool
  oc_include_local :: bool
  oc_store_command :: bool

definition options_init :: command_options where
  "options_init = \<lparr>oc_database = None, oc_commands_database = None, oc_variant = ''general'',
     oc_repository_root = None, oc_trace_path = None, oc_git_commit = None, oc_scope = SCOPE_PROJECT,
     oc_git_commit_mode = GIT_COMMIT_DISABLED, oc_trace = False, oc_include_local = True,
     oc_store_command = True\<rparr>"

text \<open>1 when the option was taken, 0 when it is another one, -1 for a bad argument.\<close>

definition command_parse_option :: "option_code \<Rightarrow> string \<Rightarrow> command_options \<Rightarrow> int \<times> command_options" where
  "command_parse_option opt argument options =
     (case opt of
        OPT_NO_INCLUDE_LOCAL \<Rightarrow> (1, options\<lparr>oc_include_local := False\<rparr>)
      | OPT_VARIANT \<Rightarrow> (1, options\<lparr>oc_variant := argument\<rparr>)
      | OPT_COMMANDS_DATABASE \<Rightarrow> (1, options\<lparr>oc_commands_database := Some argument\<rparr>)
      | OPT_NO_STORE_COMMAND \<Rightarrow> (1, options\<lparr>oc_store_command := False\<rparr>)
      | OPT_TRACE \<Rightarrow> (1, options\<lparr>oc_trace_path := Some argument\<rparr>)
      | OPT_GIT_COMMIT \<Rightarrow>
          (case parse_git_commit argument of
             None \<Rightarrow> (- 1, options)
           | Some mode \<Rightarrow> (1, options\<lparr>oc_git_commit_mode := mode,
               oc_git_commit := (if mode = GIT_COMMIT_EXPLICIT then Some argument else None)\<rparr>))
      | OPT_NO_GIT_COMMIT \<Rightarrow> (1, options\<lparr>oc_git_commit_mode := GIT_COMMIT_DISABLED, oc_git_commit := None\<rparr>)
      | OPT_ROOT \<Rightarrow> (1, options\<lparr>oc_repository_root := Some argument\<rparr>)
      | OPT_CHAR c \<Rightarrow>
          if c = CHR ''d'' then (1, options\<lparr>oc_database := Some argument\<rparr>)
          else if c = CHR ''s'' then
            (case parse_scope argument of
               None \<Rightarrow> (- 1, options)
             | Some s \<Rightarrow> (1, options\<lparr>oc_scope := s\<rparr>))
          else (0, options)
      | _ \<Rightarrow> (0, options))"

text \<open>
  \<open>index_command_prepare\<close>: paths that were not given get their default. Whether the trace file
  can be opened is the parameter \<open>trace_opens\<close>.
\<close>

definition command_prepare ::
  "fs \<Rightarrow> (string \<Rightarrow> bool) \<Rightarrow> string \<Rightarrow> bool \<Rightarrow> command_options \<Rightarrow> int \<times> command_options" where
  "command_prepare fs trace_opens source_file output_only options =
     (case (if oc_database options \<noteq> None then oc_database options
            else default_database_path fs (Some source_file) (Some SYMBOL_DATABASE)) of
        None \<Rightarrow> (- 1, options)
      | Some database \<Rightarrow>
          let options1 = options\<lparr>oc_database := Some database\<rparr> in
          if oc_variant options1 = [] then (- 1, options1)
          else
          let options2 = (if \<not> output_only \<and> oc_store_command options1 \<and> oc_commands_database options1 = None
                then options1\<lparr>oc_commands_database := Some (command_db_default_path database)\<rparr> else options1)
          in (case oc_trace_path options2 of
                None \<Rightarrow> (0, options2)
              | Some path \<Rightarrow> if \<not> trace_opens path then (- 1, options2) else (0, options2\<lparr>oc_trace := True\<rparr>)))"

definition command_fill_request :: "command_options \<Rightarrow> pipeline_request \<Rightarrow> pipeline_request" where
  "command_fill_request options request = request\<lparr>
     pr_symbol_database := oc_database options,
     pr_commands_database := oc_commands_database options,
     pr_variant := Some (oc_variant options),
     pr_repository_root := oc_repository_root options,
     pr_git_commit := oc_git_commit options,
     pr_scope := oc_scope options,
     pr_git_commit_mode := oc_git_commit_mode options,
     pr_include_local := oc_include_local options\<rparr>"

definition command_storage :: "command_options \<Rightarrow> bool \<Rightarrow> pipeline_storage" where
  "command_storage options output_only =
     (if output_only then OUTPUT_ONLY
      else if oc_store_command options then STORE_SYMBOLS_AND_COMMAND else STORE_SYMBOLS)"

text \<open>\<open>index_command_finish\<close>; \<open>trace_fails\<close> says whether writing these events to the trace failed.\<close>

definition command_finish ::
  "(trace_event list \<Rightarrow> bool) \<Rightarrow> command_options \<Rightarrow> pipeline_world \<Rightarrow> int \<times> pipeline_world" where
  "command_finish trace_fails options pw =
     (let pw1 = pipeline_trace ''total'' pw
      in (if oc_trace options \<and> trace_fails (events (pw_index pw1)) then - 1 else 0, pw1))"

end
