(* ===== verification/Compiler_Command.thy ===== *)
theory Compiler_Command
  imports Prelude
begin

text \<open>
  \<open>tools/common/compiler_command.c\<close>: which argument vectors are compilations of one source file.
\<close>

definition has_suffix :: "string option \<Rightarrow> string option \<Rightarrow> bool" where
  "has_suffix str suffix =
     (case (str, suffix) of
        (Some s, Some t) \<Rightarrow>
          if length s < length t then False else drop (length s - length t) s = t
      | _ \<Rightarrow> False)"

definition is_source :: "string \<Rightarrow> bool" where
  "is_source arg \<longleftrightarrow>
     has_suffix (Some arg) (Some ''.c'') \<or> has_suffix (Some arg) (Some ''.S'') \<or>
     has_suffix (Some arg) (Some ''.cpp'') \<or> has_suffix (Some arg) (Some ''.cc'') \<or>
     has_suffix (Some arg) (Some ''.cxx'') \<or> has_suffix (Some arg) (Some ''.c++'')"

definition driver_is_omitted :: "string \<Rightarrow> bool" where
  "driver_is_omitted arg \<longleftrightarrow> arg = [] \<or> hd arg = CHR ''-'' \<or> hd arg = CHR ''@'' \<or> is_source arg"

definition argument_options :: "string list" where
  "argument_options =
     [''-D'', ''-I'', ''-U'', ''-include'', ''-imacros'', ''-isystem'', ''-iquote'', ''-idirafter'',
      ''-iprefix'', ''-iwithprefix'', ''-iwithprefixbefore'', ''-isysroot'', ''-target'', ''-x'',
      ''-std'', ''-MF'', ''-MT'', ''-MQ'', ''-o'']"

text \<open>The loop over the options: an exact match takes the next argument, a prefix has it joined.\<close>

fun takes_argument :: "string list \<Rightarrow> string \<Rightarrow> bool" where
  "takes_argument [] arg = False"
| "takes_argument (opt # opts) arg =
     (if arg = opt then True
      else if take (length opt) arg = opt \<and> length opt < length arg then False
      else takes_argument opts arg)"

definition option_takes_joined_or_next_arg :: "string \<Rightarrow> bool" where
  "option_takes_joined_or_next_arg arg = takes_argument argument_options arg"

text \<open>
  The loop of \<open>compiler_command_find_source\<close> on the arguments after the driver, with what it
  has found so far: an unsupported mode, the number of sources, the last of them.
\<close>

fun find_source_loop :: "string list \<Rightarrow> bool \<times> nat \<times> string option \<Rightarrow> bool \<times> nat \<times> string option" where
  "find_source_loop [] st = st"
| "find_source_loop (arg # args) (unsupported, sources, source_file) =
     (if arg = ''-c'' then find_source_loop args (unsupported, sources, source_file)
      else if arg \<in> {''-E'', ''-S'', ''-M'', ''-MM''} then find_source_loop args (True, sources, source_file)
      else if arg = ''--'' then find_source_loop args (unsupported, sources, source_file)
      else if arg \<noteq> [] \<and> hd arg = CHR ''-'' then
        (if option_takes_joined_or_next_arg arg \<and> length arg = 2
         then find_source_loop (tl args) (unsupported, sources, source_file)
         else find_source_loop args (unsupported, sources, source_file))
      else if \<not> is_source arg then find_source_loop args (unsupported, sources, source_file)
      else find_source_loop args (unsupported, Suc sources, Some arg))"

definition find_source :: "string list \<Rightarrow> int \<times> string option" where
  "find_source argv =
     (case find_source_loop (drop 1 argv) (False, 0, None) of
        (unsupported, sources, source_file) \<Rightarrow> (if unsupported \<or> sources \<noteq> 1 then - 1 else 0, source_file))"

section \<open>What is found\<close>

text \<open>The options whose next argument is skipped, and those that ask for another mode.\<close>

definition skips_next :: "string \<Rightarrow> bool" where
  "skips_next arg \<longleftrightarrow> arg \<in> {''-D'', ''-I'', ''-U'', ''-x'', ''-o''}"

definition other_mode :: "string \<Rightarrow> bool" where
  "other_mode arg \<longleftrightarrow> arg \<in> {''-E'', ''-S'', ''-M'', ''-MM''}"

text \<open>The arguments that the loop looks at as operands: not options and not their arguments.\<close>

fun operands :: "string list \<Rightarrow> string list" where
  "operands [] = []"
| "operands (arg # args) =
     (if arg \<noteq> [] \<and> hd arg = CHR ''-'' then
        (if skips_next arg then operands (tl args) else operands args)
      else arg # operands args)"

text \<open>The options among the arguments, again without arguments of options.\<close>

fun options_of :: "string list \<Rightarrow> string list" where
  "options_of [] = []"
| "options_of (arg # args) =
     (if arg \<noteq> [] \<and> hd arg = CHR ''-'' then
        arg # (if skips_next arg then options_of (tl args) else options_of args)
      else options_of args)"

lemma two_char_option: "option_takes_joined_or_next_arg arg \<and> length arg = 2 \<longleftrightarrow> skips_next arg"
proof (cases "length arg = 2")
  case True
  then obtain a b where "arg = [a, b]" by (auto simp: numeral_2_eq_2 length_Suc_conv)
  then show ?thesis by (simp add: option_takes_joined_or_next_arg_def argument_options_def skips_next_def)
next
  case False
  then show ?thesis by (auto simp: skips_next_def)
qed

lemma mode_is_option: "arg = ''-c'' \<or> other_mode arg \<or> arg = ''--'' \<Longrightarrow> arg \<noteq> [] \<and> hd arg = CHR ''-'' \<and> \<not> skips_next arg"
  by (auto simp: other_mode_def skips_next_def)

lemma find_source_loop_step:
  "find_source_loop (arg # args) (u, n, f) =
     (if arg \<noteq> [] \<and> hd arg = CHR ''-'' then
        find_source_loop (if skips_next arg then tl args else args)
          (u \<or> other_mode arg, n, f)
      else if is_source arg then find_source_loop args (u, Suc n, Some arg)
      else find_source_loop args (u, n, f))"
proof (cases "arg = ''-c'' \<or> other_mode arg \<or> arg = ''--''")
  case True
  with mode_is_option [OF True] show ?thesis
    by (auto simp: other_mode_def simp del: two_char_option)
next
  case False
  then show ?thesis
    by (simp add: other_mode_def two_char_option)
qed

lemma find_source_loop_result:
  "find_source_loop args (u, n, f) =
     (u \<or> (\<exists>a \<in> set (options_of args). other_mode a),
      n + length (filter is_source (operands args)),
      (if filter is_source (operands args) = [] then f else Some (List.last (filter is_source (operands args)))))"
proof (induction args arbitrary: u n f rule: operands.induct)
  case 1
  then show ?case by simp
next
  case (2 arg args)
  show ?case
  proof (cases "arg \<noteq> [] \<and> hd arg = CHR ''-''")
    case True
    show ?thesis
    proof (cases "skips_next arg")
      case skip: True
      show ?thesis unfolding find_source_loop_step using True skip 2(1) [OF True skip] by (simp add: disj_assoc)
    next
      case skip: False
      show ?thesis unfolding find_source_loop_step using True skip 2(2) [OF True skip] by (simp add: disj_assoc)
    qed
  next
    case False
    with 2(3) have "find_source_loop (arg # args) (u, n, f) = (if is_source arg then find_source_loop args (u, Suc n, Some arg)
        else find_source_loop args (u, n, f))" "operands (arg # args) = arg # operands args"
      "options_of (arg # args) = options_of args"
      unfolding find_source_loop_step by auto
    with 2(3) [OF False] show ?thesis by simp
  qed
qed

lemma accept_shape:
  "(if b \<or> length s \<noteq> 1 then - 1 else (0 :: int)) = 0 \<longleftrightarrow>
     \<not> b \<and> (\<exists>f. s = [f] \<and> (if s = [] then None else Some (List.last s)) = Some f)"
  by (cases s; cases "tl s") auto

text \<open>
  A command is accepted exactly when none of its options asks for another mode than
  compilation and exactly one of its operands is a source file, which is then the file found.
\<close>

theorem find_source_accepts:
  "fst (find_source (driver # args)) = 0 \<longleftrightarrow>
     \<not> (\<exists>a \<in> set (options_of args). other_mode a) \<and>
     (\<exists>f. filter is_source (operands args) = [f] \<and> snd (find_source (driver # args)) = Some f)"
proof -
  let ?s = "filter is_source (operands args)"
  have "find_source (driver # args) =
      (if (\<exists>a \<in> set (options_of args). other_mode a) \<or> length ?s \<noteq> 1 then - 1 else 0,
       if ?s = [] then None else Some (List.last ?s))"
    by (simp add: find_source_def find_source_loop_result)
  then show ?thesis by (simp only: fst_conv snd_conv accept_shape)
qed

text \<open>
  An option of more than two characters does not take its argument out of the scan: the file of
  \<open>-include\<close> counts as a source file, so that such a command is not indexed.
\<close>

lemma is_source_dot_c: "is_source (s @ ''.c'')"
  by (simp add: is_source_def has_suffix_def)

theorem include_counts_as_source:
  "fst (find_source [''cc'', ''-include'', ''config.c'', ''-c'', ''a.c'']) = - 1"
  using is_source_dot_c [of "''config''"] is_source_dot_c [of "''a''"]
  by (simp add: find_source_def find_source_loop_result skips_next_def other_mode_def)

end
