(* ===== verification/Commands.thy ===== *)
theory Commands
  imports Cmdline Compiler_Command Search
begin

text \<open>
  The indexing commands under \<open>src/tools\<close>: \<open>index\<close>, \<open>compiler\<close> and the wrapper \<open>cc\<close>. \<open>getopt_long\<close> is
  a parameter: a command is given the options it delivers and the operands behind them. So are
  the frontend, the opening of files, the environment and the \<open>exec\<close> functions; the help text of
  a command is one string, printed unchecked.
\<close>

section \<open>What the commands share\<close>

record command_env =
  ce_pipeline :: pipeline_env
  ce_frontend :: "pipeline_request \<Rightarrow> frontend"
  ce_trace_opens :: "string \<Rightarrow> bool"
  ce_trace_fails :: "trace_event list \<Rightarrow> bool"
  ce_sink :: sink
  ce_help :: string

definition ce_fs :: "command_env \<Rightarrow> fs" where
  "ce_fs e = env_fs (pe_index (ce_pipeline e))"

datatype parse_stop = Help | Bad_Option

definition print_help :: "command_env \<Rightarrow> stream \<Rightarrow> stream" where
  "print_help e out = puts (ce_sink e) [ce_help e] out"

definition empty_request :: pipeline_request where
  "empty_request = \<lparr>pr_input = PIPELINE_COMMAND, pr_storage = OUTPUT_ONLY, pr_partial = STORE_PARTIAL,
     pr_command = None, pr_compile_commands = None, pr_source_file = None, pr_symbol_database = None,
     pr_commands_database = None, pr_variant = None, pr_repository_root = None, pr_git_commit = None,
     pr_scope = SCOPE_FILE, pr_git_commit_mode = GIT_COMMIT_DISABLED, pr_include_local = False,
     pr_details = False\<rparr>"

text \<open>The end of a command, at the label \<open>out\<close>.\<close>

definition command_out :: "command_env \<Rightarrow> command_options \<Rightarrow> int \<Rightarrow> pipeline_world \<Rightarrow> int \<times> pipeline_world" where
  "command_out e options ret pw =
     (case command_finish (ce_trace_fails e) options (snd (pipeline_result_destroy pw)) of
        (finished, pw1) \<Rightarrow> (if finished < 0 then 1 else ret, pw1))"

section \<open>semindex index\<close>

record index_cli =
  ic_options :: command_options
  ic_format :: output_format
  ic_output_only :: bool
  ic_compile_commands :: string

definition index_cli_init :: index_cli where
  "index_cli_init = \<lparr>ic_options = options_init, ic_format = FORMAT_DISSECT, ic_output_only = False,
     ic_compile_commands = ''.''\<rparr>"

fun index_parse :: "parsed_option list \<Rightarrow> index_cli \<Rightarrow> parse_stop + index_cli" where
  "index_parse [] st = Inr st"
| "index_parse ((opt, arg) # rest) st =
     (if opt = OPT_CHAR CHR ''f'' then
        (case parse_format arg of None \<Rightarrow> Inl Bad_Option
         | Some f \<Rightarrow> index_parse rest (st\<lparr>ic_format := f, ic_output_only := True\<rparr>))
      else if opt = OPT_CHAR CHR ''c'' then index_parse rest (st\<lparr>ic_compile_commands := arg\<rparr>)
      else if opt = OPT_CHAR CHR ''h'' then Inl Help
      else (case command_parse_option opt arg (ic_options st) of
              (parsed, options) \<Rightarrow>
                if parsed > 0 then index_parse rest (st\<lparr>ic_options := options\<rparr>) else Inl Bad_Option))"

definition index_request :: "command_options \<Rightarrow> bool \<Rightarrow> string \<Rightarrow> string \<Rightarrow> pipeline_request" where
  "index_request options output_only compile_commands source_file =
     command_fill_request options (empty_request\<lparr>pr_input := PIPELINE_COMPILE_COMMANDS,
       pr_storage := command_storage options output_only, pr_partial := STORE_PARTIAL,
       pr_compile_commands := Some compile_commands, pr_source_file := Some source_file, pr_details := True\<rparr>)"

definition cmd_index ::
  "command_env \<Rightarrow> parsed_option list \<Rightarrow> string list \<Rightarrow> pipeline_world \<Rightarrow> stream
     \<Rightarrow> int \<times> pipeline_world \<times> stream" where
  "cmd_index e opts args pw out =
     (case index_parse opts index_cli_init of
        Inl Help \<Rightarrow> (0, pw, print_help e out)
      | Inl Bad_Option \<Rightarrow> (1, pw, out)
      | Inr st \<Rightarrow>
     (case args of
        [source_file] \<Rightarrow>
          (case command_prepare (ce_fs e) (ce_trace_opens e) source_file (ic_output_only st) (ic_options st) of
             (prepared, options) \<Rightarrow>
           if prepared < 0 then (case command_out e options 1 pw of (ret, pw1) \<Rightarrow> (ret, pw1, out))
           else
           let request = index_request options (ic_output_only st) (ic_compile_commands st) source_file;
               fe = ce_frontend e request
           in (case pipeline_run (ce_pipeline e) request fe pw of (ret, res, pw1) \<Rightarrow>
               if ret < 0 then (case command_out e options 1 pw1 of (ret1, pw2) \<Rightarrow> (ret1, pw2, out))
               else (case output_index (ce_sink e) (ic_format st) (fe_index fe) out of (written, out1) \<Rightarrow>
                 (case command_out e options (if written \<noteq> 0 then 1 else 0) (pipeline_trace ''output'' pw1) of
                    (ret1, pw2) \<Rightarrow> (ret1, pw2, out1)))))
      | _ \<Rightarrow> (1, pw, out)))"

section \<open>semindex compiler\<close>

record compiler_cli =
  kc_options :: command_options
  kc_format :: output_format
  kc_print :: bool

definition compiler_cli_init :: compiler_cli where
  "compiler_cli_init = \<lparr>kc_options = options_init, kc_format = FORMAT_DISSECT, kc_print = False\<rparr>"

fun compiler_parse :: "parsed_option list \<Rightarrow> compiler_cli \<Rightarrow> parse_stop + compiler_cli" where
  "compiler_parse [] st = Inr st"
| "compiler_parse ((opt, arg) # rest) st =
     (if opt = OPT_CHAR CHR ''f'' then
        (case parse_format arg of None \<Rightarrow> Inl Bad_Option
         | Some f \<Rightarrow> compiler_parse rest (st\<lparr>kc_format := f, kc_print := True\<rparr>))
      else if opt = OPT_CHAR CHR ''h'' then Inl Help
      else (case command_parse_option opt arg (kc_options st) of
              (parsed, options) \<Rightarrow>
                if parsed > 0 then compiler_parse rest (st\<lparr>kc_options := options\<rparr>) else Inl Bad_Option))"

definition compiler_argv :: "string \<Rightarrow> string list \<Rightarrow> string list" where
  "compiler_argv driver argv = (if driver_is_omitted (hd argv) then driver # argv else argv)"

definition compiler_request :: "command_options \<Rightarrow> bool \<Rightarrow> bool \<Rightarrow> string list \<Rightarrow> string \<Rightarrow> pipeline_request" where
  "compiler_request options output_only details argv source_file =
     command_fill_request options (empty_request\<lparr>pr_input := PIPELINE_COMMAND,
       pr_storage := command_storage options output_only, pr_partial := STORE_PARTIAL,
       pr_command := Some \<lparr>cc_directory = Some ''.'', cc_file = source_file, cc_argv = argv\<rparr>,
       pr_source_file := Some source_file, pr_details := details\<rparr>)"

definition cmd_compiler ::
  "command_env \<Rightarrow> parsed_option list \<Rightarrow> string list \<Rightarrow> pipeline_world \<Rightarrow> stream
     \<Rightarrow> int \<times> pipeline_world \<times> stream" where
  "cmd_compiler e opts args pw out =
     (case compiler_parse opts compiler_cli_init of
        Inl Help \<Rightarrow> (0, pw, print_help e out)
      | Inl Bad_Option \<Rightarrow> (1, pw, out)
      | Inr st \<Rightarrow>
     (let args1 = (if args \<noteq> [] \<and> hd args = ''--'' then tl args else args) in
      if args1 = [] then (1, pw, out)
      else
      let argv = compiler_argv ''cc'' args1 in
     (case find_source argv of
        (found, Some source_file) \<Rightarrow>
          if found < 0 then (1, pw, out)
          else
          (case command_prepare (ce_fs e) (ce_trace_opens e) source_file (kc_print st) (kc_options st) of
             (prepared, options) \<Rightarrow>
           if prepared < 0 then (case command_out e options 1 pw of (ret, pw1) \<Rightarrow> (ret, pw1, out))
           else
           let request = compiler_request options (kc_print st) (kc_print st) argv source_file;
               fe = ce_frontend e request
           in (case pipeline_run (ce_pipeline e) request fe pw of (ret, res, pw1) \<Rightarrow>
               if ret < 0 then (case command_out e options 1 pw1 of (ret1, pw2) \<Rightarrow> (ret1, pw2, out))
               else (case (if kc_print st then output_index (ce_sink e) (kc_format st) (fe_index fe) out else (0, out)) of
                 (written, out1) \<Rightarrow>
                 (case command_out e options (if written \<noteq> 0 then 1 else 0) (pipeline_trace ''output'' pw1) of
                    (ret1, pw2) \<Rightarrow> (ret1, pw2, out1)))))
      | (found, None) \<Rightarrow> (1, pw, out))))"

section \<open>semindex cc\<close>

datatype error_policy = ERRORS_WARN | ERRORS_FAIL | ERRORS_IGNORE

definition parse_error_policy :: "string \<Rightarrow> error_policy option" where
  "parse_error_policy value =
     (if value = ''warn'' then Some ERRORS_WARN
      else if value = ''fail'' then Some ERRORS_FAIL
      else if value = ''ignore'' then Some ERRORS_IGNORE else None)"

record cc_options =
  co_index :: command_options
  co_policy :: error_policy

datatype exec_error = ENOENT | ENOTDIR | EXEC_ERROR

text \<open>A process ends with a code, or is replaced by a program with its arguments.\<close>

datatype outcome = Exited int | Replaced string "string list"

record cc_env =
  cv_command :: command_env
  cv_getenv :: "string \<Rightarrow> string option"
  cv_getopt :: "string list \<Rightarrow> parsed_option list \<times> nat"
  cv_dup :: bool
  cv_redirect :: bool
  cv_restore :: bool
  cv_setenv :: bool
  cv_exec :: "string list \<Rightarrow> exec_error option"

fun cc_parse :: "parsed_option list \<Rightarrow> cc_options \<Rightarrow> parse_stop + cc_options" where
  "cc_parse [] st = Inr st"
| "cc_parse ((opt, arg) # rest) st =
     (if opt = OPT_INDEX_ERRORS then
        (case parse_error_policy arg of None \<Rightarrow> Inl Bad_Option | Some p \<Rightarrow> cc_parse rest (st\<lparr>co_policy := p\<rparr>))
      else if opt = OPT_CHAR CHR ''h'' then Inl Help
      else (case command_parse_option opt arg (co_index st) of
              (parsed, options) \<Rightarrow>
                if parsed > 0 then cc_parse rest (st\<lparr>co_index := options\<rparr>) else Inl Bad_Option))"

text \<open>The options and the index of the compiler in \<open>argv\<close>, whose first element is the program.\<close>

definition parse_options :: "cc_env \<Rightarrow> string list \<Rightarrow> cc_options \<Rightarrow> parse_stop + cc_options \<times> nat" where
  "parse_options e argv options =
     (if length argv = 2 \<and> argv ! 1 = ''--help'' then Inl Help
      else if ''--'' \<notin> set (drop 1 argv) then Inr (options, 1)
      else
      (case cv_getopt e argv of (opts, next_index) \<Rightarrow>
        (case cc_parse opts options of
           Inl s \<Rightarrow> Inl s
         | Inr options1 \<Rightarrow> if next_index \<ge> length argv then Inl Bad_Option else Inr (options1, next_index))))"

definition run_index ::
  "cc_env \<Rightarrow> cc_options \<Rightarrow> string list \<Rightarrow> string \<Rightarrow> pipeline_world \<Rightarrow> int \<times> pipeline_world" where
  "run_index v options argv source_file pw =
     (let e = cv_command v;
          ignoring = co_policy options = ERRORS_IGNORE;
          copied = ignoring \<and> cv_dup v;
          run = (if ignoring \<and> \<not> (cv_dup v \<and> cv_redirect v) then (- 1, co_index options, pw)
            else (case command_prepare (ce_fs e) (ce_trace_opens e) source_file False (co_index options) of
              (prepared, index) \<Rightarrow>
               if prepared < 0 then (- 1, index, pw)
               else
               let request = compiler_request index False False argv source_file
               in (case pipeline_run (ce_pipeline e) request (ce_frontend e request) pw of
                     (ret, res, pw1) \<Rightarrow> (ret, index, pw1))))
      in (case run of (ret, index, pw1) \<Rightarrow>
           (case command_finish (ce_trace_fails e) index (snd (pipeline_result_destroy pw1)) of
              (finished, pw2) \<Rightarrow>
                (if finished < 0 \<or> (copied \<and> \<not> cv_restore v) then - 1 else ret, pw2))))"

definition exec_compiler :: "cc_env \<Rightarrow> string list \<Rightarrow> outcome" where
  "exec_compiler v argv =
     (if \<not> cv_setenv v then Exited 1
      else case cv_exec v argv of
        None \<Rightarrow> Replaced (hd argv) argv
      | Some err \<Rightarrow> Exited (if err = ENOENT then 127 else 1))"

text \<open>The settings of the environment, before the options.\<close>

definition cc_environment :: "cc_env \<Rightarrow> cc_options option" where
  "cc_environment v =
     (let o1 = options_init;
          o2 = (if nonempty (cv_getenv v ''SEMINDEX_DATABASE'')
                then o1\<lparr>oc_database := cv_getenv v ''SEMINDEX_DATABASE''\<rparr> else o1);
          o3 = (if nonempty (cv_getenv v ''SEMINDEX_COMMANDS_DATABASE'')
                then o2\<lparr>oc_commands_database := cv_getenv v ''SEMINDEX_COMMANDS_DATABASE''\<rparr> else o2);
          o4 = (case cv_getenv v ''SEMINDEX_VARIANT'' of None \<Rightarrow> o3 | Some s \<Rightarrow> o3\<lparr>oc_variant := s\<rparr>)
      in (case cv_getenv v ''SEMINDEX_INDEX_ERRORS'' of
            None \<Rightarrow> Some \<lparr>co_index = o4, co_policy = ERRORS_WARN\<rparr>
          | Some s \<Rightarrow> map_option (\<lambda>p. \<lparr>co_index = o4, co_policy = p\<rparr>) (parse_error_policy s)))"

definition real_compiler :: "cc_env \<Rightarrow> string" where
  "real_compiler v = (if nonempty (cv_getenv v ''REAL_CC'') then or_empty (cv_getenv v ''REAL_CC'') else ''cc'')"

definition wrapped_argv :: "cc_env \<Rightarrow> string list \<Rightarrow> string list" where
  "wrapped_argv v args = (if args = [] \<or> driver_is_omitted (hd args) then real_compiler v # args else args)"

definition cmd_cc :: "cc_env \<Rightarrow> string list \<Rightarrow> pipeline_world \<Rightarrow> outcome \<times> pipeline_world" where
  "cmd_cc v argv pw =
     (if cv_getenv v ''SEMINDEX_CC_ACTIVE'' \<noteq> None then (Exited 127, pw)
      else
      (case cc_environment v of None \<Rightarrow> (Exited 1, pw)
       | Some options0 \<Rightarrow>
      (case parse_options v argv options0 of
         Inl Help \<Rightarrow> (Exited 0, pw)
       | Inl Bad_Option \<Rightarrow> (Exited 1, pw)
       | Inr (options, compiler_index) \<Rightarrow>
           if oc_variant (co_index options) = [] then (Exited 1, pw)
           else
           let command = wrapped_argv v (drop compiler_index argv) in
           (case find_source command of
              (found, Some source_file) \<Rightarrow>
                if found \<noteq> 0 then (exec_compiler v command, pw)
                else (case run_index v options command source_file pw of
                        (ret, pw1) \<Rightarrow>
                          if ret < 0 \<and> co_policy options = ERRORS_FAIL then (Exited 1, pw1)
                          else (exec_compiler v command, pw1))
            | (found, None) \<Rightarrow> (exec_compiler v command, pw)))))"

end
