(* ===== verification/Tools.thy ===== *)
theory Tools
  imports Commands
begin

text \<open>
  The commands under \<open>src/tools\<close> that only read: \<open>search\<close>, \<open>callgraph\<close> and \<open>compile-commands\<close>, and
  the launcher \<open>semindex\<close>, which runs the program \<open>semindex-COMMAND\<close>. As in Commands, a command is
  given the options that \<open>getopt_long\<close> delivers and the operands behind them.
\<close>

section \<open>semindex search\<close>

record search_cli =
  sc_options :: search_options
  sc_database :: "string option"

definition search_cli_init :: search_cli where
  "search_cli_init = \<lparr>sc_options = no_search_options, sc_database = None\<rparr>"

fun search_parse :: "parsed_option list \<Rightarrow> search_cli \<Rightarrow> parse_stop + search_cli" where
  "search_parse [] st = Inr st"
| "search_parse ((opt, arg) # rest) st =
     (if opt = OPT_VARIANT then search_parse rest (st\<lparr>sc_options := (sc_options st)\<lparr>so_variant := Some arg\<rparr>\<rparr>)
      else if opt = OPT_CHAR CHR ''d'' then search_parse rest (st\<lparr>sc_database := Some arg\<rparr>)
      else if opt = OPT_CHAR CHR ''p'' then search_parse rest (st\<lparr>sc_options := (sc_options st)\<lparr>so_path := Some arg\<rparr>\<rparr>)
      else if opt = OPT_CHAR CHR ''f'' then search_parse rest (st\<lparr>sc_options := (sc_options st)\<lparr>so_format := Some arg\<rparr>\<rparr>)
      else if opt = OPT_CHAR CHR ''m'' then
        (case parse_mode arg (sc_options st) of (parsed, options) \<Rightarrow>
           if parsed < 0 then Inl Bad_Option else search_parse rest (st\<lparr>sc_options := options\<rparr>))
      else if opt = OPT_CHAR CHR ''r'' then
        (case parse_index_db_record arg of None \<Rightarrow> Inl Bad_Option
         | Some r \<Rightarrow> search_parse rest (st\<lparr>sc_options := (sc_options st)\<lparr>so_record := r\<rparr>\<rparr>))
      else if opt = OPT_CHAR CHR ''k'' then
        (case parse_symbol_kind arg of None \<Rightarrow> Inl Bad_Option
         | Some k \<Rightarrow> search_parse rest (st\<lparr>sc_options := (sc_options st)\<lparr>so_kind := k, so_has_kind := True\<rparr>\<rparr>))
      else if opt = OPT_CHAR CHR ''h'' then Inl Help
      else Inl Bad_Option)"

text \<open>The database that was given, or the default one of the current repository.\<close>

definition command_database :: "fs \<Rightarrow> string option \<Rightarrow> string \<Rightarrow> string option" where
  "command_database fs given name =
     (case given of None \<Rightarrow> default_database_path fs (Some ''.'') (Some name) | Some p \<Rightarrow> Some p)"

definition cmd_search ::
  "search_env \<Rightarrow> string \<Rightarrow> parsed_option list \<Rightarrow> string list \<Rightarrow> stream \<Rightarrow> int \<times> stream" where
  "cmd_search e help opts args out =
     (case search_parse opts search_cli_init of
        Inl Help \<Rightarrow> (0, puts (sn_sink e) [help] out)
      | Inl Bad_Option \<Rightarrow> (1, out)
      | Inr st \<Rightarrow>
          if length args > 1 then (1, out)
          else
          let options = (case args of [] \<Rightarrow> sc_options st | p # ps \<Rightarrow> (sc_options st)\<lparr>so_pattern := Some p\<rparr>) in
          (case command_database (sn_fs e) (sc_database st) SYMBOL_DATABASE of
             None \<Rightarrow> (1, out)
           | Some database \<Rightarrow>
               (case index_db_search e (Some database) (Some options) out of
                  (ret, out1) \<Rightarrow> (if ret < 0 then 1 else 0, out1))))"

section \<open>semindex callgraph\<close>

text \<open>
  A function ID: one to sixteen hexadecimal digits, so \<open>strtoull\<close> reads all of it and cannot
  leave its range.
\<close>

definition parse_function_id :: "string \<Rightarrow> u64 option" where
  "parse_function_id arg =
     (if arg = [] \<or> length arg > 16 then None
      else if \<not> list_all isxdigit arg then None
      else Some (word_of_nat (hex_value 0 arg)))"

record callgraph_cli =
  gc_options :: callgraph_options
  gc_database :: "string option"
  gc_have_direction :: bool

definition callgraph_cli_init :: callgraph_cli where
  "callgraph_cli_init = \<lparr>gc_options = \<lparr>cg_function = None, cg_path = None, cg_variant = None, cg_id = 0,
       cg_direction = CALLGRAPH_CALLERS, cg_has_id = False, cg_show_id = False\<rparr>,
     gc_database = None, gc_have_direction = False\<rparr>"

definition set_direction :: "callgraph_direction \<Rightarrow> string \<Rightarrow> callgraph_cli \<Rightarrow> callgraph_cli option" where
  "set_direction direction arg st =
     (if gc_have_direction st then None
      else Some (st\<lparr>gc_options := (gc_options st)\<lparr>cg_direction := direction, cg_function := Some arg\<rparr>,
        gc_have_direction := True\<rparr>))"

fun callgraph_parse :: "parsed_option list \<Rightarrow> callgraph_cli \<Rightarrow> parse_stop + callgraph_cli" where
  "callgraph_parse [] st = Inr st"
| "callgraph_parse ((opt, arg) # rest) st =
     (case opt of
        OPT_CALLERS \<Rightarrow>
          (case set_direction CALLGRAPH_CALLERS arg st of None \<Rightarrow> Inl Bad_Option | Some st1 \<Rightarrow> callgraph_parse rest st1)
      | OPT_CALLEES \<Rightarrow>
          (case set_direction CALLGRAPH_CALLEES arg st of None \<Rightarrow> Inl Bad_Option | Some st1 \<Rightarrow> callgraph_parse rest st1)
      | OPT_VARIANT \<Rightarrow> callgraph_parse rest (st\<lparr>gc_options := (gc_options st)\<lparr>cg_variant := Some arg\<rparr>\<rparr>)
      | OPT_ID \<Rightarrow>
          (case parse_function_id arg of None \<Rightarrow> Inl Bad_Option
           | Some w \<Rightarrow> callgraph_parse rest (st\<lparr>gc_options := (gc_options st)\<lparr>cg_id := w, cg_has_id := True\<rparr>\<rparr>))
      | OPT_SHOW_ID \<Rightarrow> callgraph_parse rest (st\<lparr>gc_options := (gc_options st)\<lparr>cg_show_id := True\<rparr>\<rparr>)
      | OPT_CHAR c \<Rightarrow>
          if c = CHR ''p'' then callgraph_parse rest (st\<lparr>gc_options := (gc_options st)\<lparr>cg_path := Some arg\<rparr>\<rparr>)
          else if c = CHR ''d'' then callgraph_parse rest (st\<lparr>gc_database := Some arg\<rparr>)
          else if c = CHR ''h'' then Inl Help
          else Inl Bad_Option
      | _ \<Rightarrow> Inl Bad_Option)"

definition cmd_callgraph ::
  "search_env \<Rightarrow> string \<Rightarrow> parsed_option list \<Rightarrow> string list \<Rightarrow> stream \<Rightarrow> int \<times> stream" where
  "cmd_callgraph e help opts args out =
     (case callgraph_parse opts callgraph_cli_init of
        Inl Help \<Rightarrow> (0, puts (sn_sink e) [help] out)
      | Inl Bad_Option \<Rightarrow> (1, out)
      | Inr st \<Rightarrow>
          if args \<noteq> [] then (1, out)
          else if \<not> gc_have_direction st \<or> \<not> nonempty (cg_function (gc_options st)) then (1, out)
          else
          (case command_database (sn_fs e) (gc_database st) SYMBOL_DATABASE of
             None \<Rightarrow> (1, out)
           | Some database \<Rightarrow>
               (case index_db_callgraph e (Some database) (Some (gc_options st)) out of
                  (ret, out1) \<Rightarrow> (if ret < 0 then 1 else 0, out1))))"

section \<open>semindex compile-commands\<close>

record export_cli =
  xc_database :: "string option"
  xc_variant :: string
  xc_output :: "string option"

definition export_cli_init :: export_cli where
  "export_cli_init = \<lparr>xc_database = None, xc_variant = ''general'', xc_output = None\<rparr>"

fun export_parse :: "parsed_option list \<Rightarrow> export_cli \<Rightarrow> parse_stop + export_cli" where
  "export_parse [] st = Inr st"
| "export_parse ((opt, arg) # rest) st =
     (if opt = OPT_VARIANT then export_parse rest (st\<lparr>xc_variant := arg\<rparr>)
      else if opt = OPT_CHAR CHR ''d'' then export_parse rest (st\<lparr>xc_database := Some arg\<rparr>)
      else if opt = OPT_CHAR CHR ''o'' then export_parse rest (st\<lparr>xc_output := Some arg\<rparr>)
      else if opt = OPT_CHAR CHR ''h'' then Inl Help
      else Inl Bad_Option)"

text \<open>
  The file that \<open>fopen\<close> gives for a path, if it can be opened for writing, how many bytes it
  takes, and whether \<open>fclose\<close> succeeds, are parameters. The command leaves the standard output
  and the file it wrote.
\<close>

record export_env =
  xe_db :: db_env
  xe_fs :: fs
  xe_stdout :: sink
  xe_file :: sink
  xe_fopen :: "string \<Rightarrow> stream option"
  xe_fclose :: "stream \<Rightarrow> bool"
  xe_steps :: "nat option"
  xe_help :: string

definition cmd_compile_commands ::
  "export_env \<Rightarrow> parsed_option list \<Rightarrow> string list \<Rightarrow> session \<Rightarrow> stream
     \<Rightarrow> int \<times> session \<times> stream \<times> stream option" where
  "cmd_compile_commands e opts args s out =
     (case export_parse opts export_cli_init of
        Inl Help \<Rightarrow> (0, s, puts (xe_stdout e) [xe_help e] out, None)
      | Inl Bad_Option \<Rightarrow> (1, s, out, None)
      | Inr st \<Rightarrow>
          if args \<noteq> [] then (1, s, out, None)
          else if xc_variant st = [] then (1, s, out, None)
          else
          (case command_database (xe_fs e) (xc_database st) COMMAND_DATABASE of
             None \<Rightarrow> (1, s, out, None)
           | Some database \<Rightarrow>
          (case xc_output st of
             None \<Rightarrow>
               (case command_db_export (xe_db e) (xe_stdout e) (xe_steps e) (Some database) (Some (xc_variant st)) s out of
                  (ret, s1, out1) \<Rightarrow> (if ret \<noteq> 0 then 1 else 0, s1, out1, None))
           | Some path \<Rightarrow>
               (case xe_fopen e path of
                  None \<Rightarrow> (1, s, out, None)
                | Some file \<Rightarrow>
                    (case command_db_export (xe_db e) (xe_file e) (xe_steps e) (Some database) (Some (xc_variant st)) s file of
                       (ret, s1, file1) \<Rightarrow>
                         (if (if xe_fclose e file1 then ret else - 1) \<noteq> 0 then 1 else 0, s1, out, Some file1))))))"

section \<open>The launcher\<close>

definition valid_command_char :: "char \<Rightarrow> bool" where
  "valid_command_char c =
     (let value = (of_char c :: nat) in
      if 97 \<le> value \<and> value \<le> 122 then True
      else if 65 \<le> value \<and> value \<le> 90 then True
      else if 48 \<le> value \<and> value \<le> 57 then True
      else c = CHR ''_'' \<or> c = CHR ''-'')"

definition valid_command :: "string \<Rightarrow> bool" where
  "valid_command command = (if command = [] then False else list_all valid_command_char command)"

definition helper_name :: "string \<Rightarrow> string" where
  "helper_name command = ''semindex-'' @ command"

text \<open>The program of that name in the directory of the launcher, when its path has one.\<close>

definition launcher_directory :: "string \<Rightarrow> string" where
  "launcher_directory path = rev (dropWhile (\<lambda>c. c \<noteq> CHR ''/'') (rev path))"

definition sibling_path :: "string \<Rightarrow> string \<Rightarrow> string option" where
  "sibling_path path helper =
     (if CHR ''/'' \<in> set path then Some (launcher_directory path @ helper) else None)"

record launcher_env =
  le_execv :: "string \<Rightarrow> string list \<Rightarrow> exec_error option"
  le_execvp :: "string \<Rightarrow> string list \<Rightarrow> exec_error option"
  le_sink :: sink
  le_help :: string

text \<open>\<open>exec\<close> returns an error, or replaces the process.\<close>

definition exec_helper :: "launcher_env \<Rightarrow> string \<Rightarrow> string list \<Rightarrow> outcome" where
  "exec_helper e helper args =
     (case le_execvp e helper args of
        None \<Rightarrow> Replaced helper args
      | Some err \<Rightarrow> Exited (if err = ENOENT then 127 else 1))"

definition launcher_main :: "launcher_env \<Rightarrow> string list \<Rightarrow> stream \<Rightarrow> outcome \<times> stream" where
  "launcher_main e argv out =
     (if length argv = 2 \<and> (argv ! 1 = ''-h'' \<or> argv ! 1 = ''--help'')
      then (Exited 0, puts (le_sink e) [le_help e] out)
      else if length argv < 2 then (Exited 1, out)
      else
      let command = argv ! 1; helper = helper_name command in
      if \<not> valid_command command then (Exited 1, out)
      else
      (case sibling_path (argv ! 0) helper of
         None \<Rightarrow> (exec_helper e helper (tl argv), out)
       | Some sibling \<Rightarrow>
           (case le_execv e sibling (tl argv) of
              None \<Rightarrow> (Replaced sibling (tl argv), out)
            | Some err \<Rightarrow>
                if err \<noteq> ENOENT \<and> err \<noteq> ENOTDIR then (Exited 1, out)
                else (exec_helper e helper (tl argv), out))))"

end
