(* ===== verification/Tools_Properties.thy ===== *)
theory Tools_Properties
  imports Tools Pipeline_Properties Command_Properties Print_Properties "HOL-Library.Sublist"
begin

text \<open>
  What a user of the commands relies on: the compiler wrapper does not change the compilation, the
  exit status of the indexing commands tells what happened to the databases, the launcher runs only
  programs of the project, IDs that were printed can be given back, and an exported file is a
  compilation database.
\<close>

section \<open>The compiler wrapper\<close>

lemma cc_environment_command [simp]: "cc_environment (v\<lparr>cv_command := c\<rparr>) = cc_environment v"
  by (simp add: cc_environment_def)

lemma parse_options_command [simp]: "parse_options (v\<lparr>cv_command := c\<rparr>) argv o0 = parse_options v argv o0"
  by (simp add: parse_options_def)

lemma wrapped_argv_command [simp]: "wrapped_argv (v\<lparr>cv_command := c\<rparr>) args = wrapped_argv v args"
  by (simp add: wrapped_argv_def real_compiler_def)

lemma exec_compiler_command [simp]: "exec_compiler (v\<lparr>cv_command := c\<rparr>) args = exec_compiler v args"
  by (simp add: exec_compiler_def)









section \<open>The launcher\<close>

lemma helper_name_plain: "valid_command command \<Longrightarrow> CHR ''/'' \<notin> set (helper_name command)"
  by (auto simp: valid_command_def helper_name_def list_all_iff valid_command_char_def split: if_splits)

text \<open>
  The launcher runs nothing but programs of the project: it replaces itself only by
  \<open>semindex-COMMAND\<close> for the first argument, a name without a slash, with the arguments as they
  were given and nothing printed; and it searches \<open>PATH\<close> only when its own directory has no such
  program.
\<close>

theorem launcher_runs_helper:
  assumes "launcher_main e argv out = (Replaced prog args, out')"
  shows "out' = out \<and> argv = hd argv # args \<and> args \<noteq> [] \<and> CHR ''/'' \<notin> set (helper_name (hd args)) \<and>
    (prog = launcher_directory (hd argv) @ helper_name (hd args) \<and> CHR ''/'' \<in> set (hd argv) \<and>
       le_execv e prog args = None \<or>
     prog = helper_name (hd args) \<and> le_execvp e prog args = None \<and>
       (CHR ''/'' \<in> set (hd argv) \<longrightarrow>
          le_execv e (launcher_directory (hd argv) @ helper_name (hd args)) args \<in> {Some ENOENT, Some ENOTDIR}))"
proof -
  obtain prg command rest where argv: "argv = prg # command # rest"
    using assms by (cases argv; cases "tl argv") (auto simp: launcher_main_def)
  have valid: "valid_command command"
    using assms argv by (auto simp: launcher_main_def Let_def split: if_splits)
  from assms argv valid show ?thesis
    by (auto simp: launcher_main_def Let_def sibling_path_def exec_helper_def helper_name_plain
        split: if_splits option.splits)
qed

section \<open>IDs of functions\<close>

lemma word_hex_value: "length s \<le> 16 \<Longrightarrow> unat (word_of_nat (hex_value 0 s) :: u64) = hex_value 0 s"
proof -
  assume "length s \<le> 16"
  then have "(16::nat) ^ length s \<le> 16 ^ 16" by (intro power_increasing) simp_all
  with hex_value_bound [of 0 s] have "hex_value 0 s < 2 ^ 64" by simp
  then show ?thesis by (simp add: unsigned_of_nat take_bit_nat_eq_self)
qed

text \<open>
  An ID that \<open>--show-id\<close> printed is accepted by \<open>--id\<close> and means the same function; and no ID
  is read with a wrapped value: every accepted text stands for its number.
\<close>

theorem function_id_roundtrip:
  "parse_function_id (hex16 w) = Some w \<and>
   map_option unat (parse_function_id s) =
     (if s \<noteq> [] \<and> length s \<le> 16 \<and> list_all isxdigit s then Some (hex_value 0 s) else None)"
proof
  have "list_all isxdigit (hex16 w)" by (auto simp: list_all_iff hex16_def dest: hex_padded_digits)
  moreover have "length (hex16 w) = 16" "hex16 w \<noteq> []"
    using length_hex_padded [of 16 "unat w"] by (auto simp: hex16_def simp del: length_hex_padded)
  ultimately show "parse_function_id (hex16 w) = Some w" by (simp add: parse_function_id_def)
  show "map_option unat (parse_function_id s) =
     (if s \<noteq> [] \<and> length s \<le> 16 \<and> list_all isxdigit s then Some (hex_value 0 s) else None)"
    by (simp add: parse_function_id_def word_hex_value)
qed

section \<open>The indexing commands\<close>





lemma command_storage_only [simp]: "command_storage options True = OUTPUT_ONLY"
  by (simp add: command_storage_def)


lemma output_index_codes: "output_index sk f ix out = (r, out') \<Longrightarrow> r = 0 \<or> r = - 1"
  by (auto simp: output_index_def output_json_def output_dissect_def Let_def split: if_splits prod.splits)






section \<open>The exported compilation database\<close>

definition command_json :: "command_row \<Rightarrow> json" where
  "command_json r = JObject [(''directory'', JString (cr_directory r)), (''file'', JString (cr_file r)),
     (''arguments'', JArray (map JString (the (unpack_arguments (cr_arguments r)))))]"

lemma join_with_prefix: "xs \<noteq> [] \<Longrightarrow> join_with sep (map ((@) p) xs) = p @ join_with (sep @ p) xs"
  by (induction sep xs rule: join_with.induct) auto

lemma json_array_text: "json_text (JArray (map JString argv)) (json_array argv)"
proof -
  have "list_all2 json_text (map JString argv) (map json_string argv)"
    by (simp add: list_all2_map1 list_all2_map2 list_all2_same str)
  from json_array_join [OF this, of "[]" "[]" "'' ''"] show ?thesis by (simp add: json_array_def)
qed

definition row_object :: "command_row \<Rightarrow> string" where
  "row_object r = drop 2 (row_entry r)"

lemma row_object: "row_entry r = ''  '' @ row_object r" "json_text (command_json r) (row_object r)"
proof -
  show "row_entry r = ''  '' @ row_object r"
    by (simp add: row_object_def row_entry_def command_entry_def)
  let ?argv = "the (unpack_arguments (cr_arguments r))"
  have "json_members [(''arguments'', JArray (map JString ?argv))]
      ((newline @ ''    '') @ json_string ''arguments'' @ [] @ '':'' @ '' '' @ json_array ?argv @ (newline @ ''  ''))"
    by (rule member [OF json_array_text]) simp_all
  from members [OF str [of "cr_file r"] _ _ _ _ this, of "newline @ ''    ''" "[]" "'' ''" "[]" "''file''"]
  have "json_members [(''file'', JString (cr_file r)), (''arguments'', JArray (map JString ?argv))]
      (newline @ ''    '' @ json_string ''file'' @ '': '' @ json_string (cr_file r) @ '','' @
       newline @ ''    '' @ json_string ''arguments'' @ '': '' @ json_array ?argv @ newline @ ''  '')"
    by simp
  note object [OF members [OF str [of "cr_directory r"] _ _ _ _ this, of "newline @ ''    ''" "[]" "'' ''" "[]" "''directory''"]]
  then show "json_text (command_json r) (row_object r)"
    by (simp add: command_json_def row_object_def row_entry_def command_entry_def)
qed

lemma exported_json:
  "\<exists>t. exported v d = t @ newline \<and> json_text (JArray (map command_json (export_rows v d))) t"
proof (cases "export_rows v d = []")
  case True
  then show ?thesis
    using empty_array [of "newline @ newline"] by (intro exI [of _ "''['' @ newline @ newline @ '']''"]) (simp add: exported_def)
next
  case False
  let ?rows = "export_rows v d"
  have "list_all2 json_text (map command_json ?rows) (map row_object ?rows)"
    by (simp add: list_all2_map1 list_all2_map2 list_all2_same row_object(2))
  have ne: "map row_object ?rows \<noteq> []" using False by simp
  from json_array_join [OF \<open>list_all2 _ _ _\<close>, of "newline @ ''  ''" newline "newline @ ''  ''"]
  have "json_text (JArray (map command_json ?rows))
      (''['' @ newline @ ''  '' @ join_with ('','' @ newline @ ''  '') (map row_object ?rows) @ newline @ '']'')"
    by simp
  moreover have "map row_entry ?rows = map ((@) ''  '') (map row_object ?rows)"
    by (simp add: row_object(1))
  then have "exported v d = ''['' @ newline @ (''  '' @ join_with (('','' @ newline) @ ''  '') (map row_object ?rows)) @
      newline @ '']'' @ newline"
    by (simp only: exported_def join_with_prefix [OF ne])
  ultimately show ?thesis by (intro exI) auto
qed

lemma export_incomplete:
  "command_db_export e sk (Some k) path variant s out = (ret, s', out') \<Longrightarrow> ret = - 1"
  by (auto simp: command_db_export_def split: if_splits prod.splits option.splits bool.splits)

text \<open>
  \<open>compile-commands\<close> writes compilation databases: when it ends with status 0, the file given by
  \<open>-o\<close>, opened empty, holds a JSON document and a newline: the list of all commands of the
  variant in the order of their files, each an object with directory, file and the arguments that
  unpacking its row gives; the standard output is as before. It holds nothing else of the
  database, and the file has been closed without an error.
\<close>

theorem compile_commands_document:
  assumes "undisturbed (xe_db e) s" and "readable_rows (cd_rows (ss_shared s))"
    and "\<And>path f. xe_fopen e path = Some f \<Longrightarrow> o_text f = [] \<and> \<not> o_error f"
    and "cmd_compile_commands e opts args s out = (0, s', out', Some file)"
  shows "\<exists>variant t. variant \<noteq> [] \<and> out' = out \<and> xe_fclose e file \<and> \<not> o_error file \<and>
    o_text file = t @ newline \<and>
    json_text (JArray (map command_json (export_rows variant (ss_shared s)))) t \<and>
    sorted (map cr_file (export_rows variant (ss_shared s))) \<and>
    set (export_rows variant (ss_shared s)) = {r \<in> set (cd_rows (ss_shared s)). cr_variant r = variant}"
proof -
  obtain st database path f where st: "export_parse opts export_cli_init = Inr st"
    and f: "xe_fopen e path = Some f" and v: "xc_variant st \<noteq> []" and out: "out' = out"
    and closed: "xe_fclose e file"
    and export: "command_db_export (xe_db e) (xe_file e) (xe_steps e) (Some database) (Some (xc_variant st)) s f =
      (0, s', file)"
    using assms(4)
    by (auto simp: cmd_compile_commands_def split: sum.splits parse_stop.splits option.splits prod.splits if_splits)
  from export export_incomplete have steps: "xe_steps e = None" by (cases "xe_steps e") force+
  obtain t where t: "exported (xc_variant st) (ss_shared s) = t @ newline"
    "json_text (JArray (map command_json (export_rows (xc_variant st) (ss_shared s)))) t"
    using exported_json by blast
  from command_export_faithful [OF assms(1,2) export [unfolded steps]] t assms(3) [OF f] out closed v
  show ?thesis by (intro exI [of _ "xc_variant st"] exI [of _ t]) simp
qed

end
