(* ===== verification/Tools_Witnesses.thy ===== *)
theory Tools_Witnesses
  imports Tools_Properties Pipeline_Witnesses Command_Witnesses
begin

text \<open>Runs of the commands on the databases and the repository of the earlier examples.\<close>

definition demo_command_env :: command_env where
  "demo_command_env = \<lparr>ce_pipeline = demo_pipeline_env, ce_frontend = (\<lambda>_. demo_frontend), ce_trace_opens = (\<lambda>_. False),
     ce_trace_fails = (\<lambda>_. False), ce_sink = open_sink, ce_help = []\<rparr>"

definition demo_cc_env :: cc_env where
  "demo_cc_env = \<lparr>cv_command = demo_command_env, cv_getenv = (\<lambda>_. None), cv_getopt = (\<lambda>_. ([], 1)), cv_dup = True,
     cv_redirect = True, cv_restore = True, cv_setenv = True, cv_exec = (\<lambda>_. None)\<rparr>"

lemma demo_cc_options:
  "cc_environment demo_cc_env = Some \<lparr>co_index = options_init, co_policy = ERRORS_WARN\<rparr>"
  "length argv \<noteq> 2 \<Longrightarrow> ''--'' \<notin> set (drop 1 argv) \<Longrightarrow> parse_options demo_cc_env argv o0 = Inr (o0, 1)"
  by (auto simp: cc_environment_def demo_cc_env_def parse_options_def Let_def)

text \<open>Compiling \<open>a.c\<close> does not depend on the index; linking \<open>a.o\<close> does not touch it.\<close>

lemma demo_link:
  "cmd_cc demo_cc_env [''semindex-cc'', ''gcc'', ''a.o''] pw = (Replaced ''gcc'' [''gcc'', ''a.o''], pw)"
proof -
  have "wrapped_argv demo_cc_env [''gcc'', ''a.o''] = [''gcc'', ''a.o'']"
    by (simp add: wrapped_argv_def driver_is_omitted_def is_source_def has_suffix_def)
  moreover have "find_source [''gcc'', ''a.o''] = (- 1, None)"
    by (simp add: find_source_def find_source_loop_step is_source_def has_suffix_def del: find_source_loop.simps)
      (simp add: find_source_loop.simps)
  moreover have "exec_compiler demo_cc_env [''gcc'', ''a.o''] = Replaced ''gcc'' [''gcc'', ''a.o'']"
    "cv_getenv demo_cc_env ''SEMINDEX_CC_ACTIVE'' = None"
    by (simp_all add: exec_compiler_def demo_cc_env_def)
  moreover have "oc_variant options_init \<noteq> []" by (simp add: options_init_def)
  ultimately show ?thesis by (simp add: cmd_cc_def demo_cc_options)
qed



definition demo_launcher :: launcher_env where
  "demo_launcher = \<lparr>le_execv = (\<lambda>p _. if p = ''/opt/bin/semindex-search'' then None else Some ENOENT),
     le_execvp = (\<lambda>_ _. Some ENOENT), le_sink = open_sink, le_help = []\<rparr>"

theorem launcher_runs_helper_witness:
  "launcher_main demo_launcher [''/opt/bin/semindex'', ''search'', ''x''] empty_stream =
     (Replaced ''/opt/bin/semindex-search'' [''search'', ''x''], empty_stream) \<and>
   CHR ''/'' \<notin> set (helper_name ''search'')"
proof
  show r: "launcher_main demo_launcher [''/opt/bin/semindex'', ''search'', ''x''] empty_stream =
     (Replaced ''/opt/bin/semindex-search'' [''search'', ''x''], empty_stream)"
    by (simp add: launcher_main_def demo_launcher_def Let_def valid_command_def valid_command_char_def
        sibling_path_def launcher_directory_def helper_name_def)
  show "CHR ''/'' \<notin> set (helper_name ''search'')" using launcher_runs_helper [OF r] by simp
qed

section \<open>Printing an index\<close>









section \<open>An exported file\<close>

definition demo_export_env :: export_env where
  "demo_export_env = \<lparr>xe_db = quiet_env, xe_fs = quiet_fs, xe_stdout = open_sink, xe_file = open_sink,
     xe_fopen = (\<lambda>_. Some empty_stream), xe_fclose = (\<lambda>_. True), xe_steps = None, xe_help = []\<rparr>"

lemma demo_export:
  "cmd_compile_commands demo_export_env [(OPT_CHAR CHR ''d'', ''c.db''), (OPT_CHAR CHR ''o'', ''cc.json''), (OPT_VARIANT, ''v'')] []
     sample_session empty_stream = (0, fst (snd sample_exported), empty_stream, Some (snd (snd sample_exported)))"
proof -
  have "export_parse [(OPT_CHAR CHR ''d'', ''c.db''), (OPT_CHAR CHR ''o'', ''cc.json''), (OPT_VARIANT, ''v'')] export_cli_init =
      Inr \<lparr>xc_database = Some ''c.db'', xc_variant = ''v'', xc_output = Some ''cc.json''\<rparr>"
    by (simp add: export_cli_init_def)
  moreover have "command_db_export quiet_env open_sink None (Some ''c.db'') (Some ''v'') sample_session empty_stream =
      (0, fst (snd sample_exported), snd (snd sample_exported))"
    using sample_exported_ok by (simp add: sample_exported_def prod_eq_iff)
  ultimately show ?thesis
    by (simp add: cmd_compile_commands_def demo_export_env_def command_database_def case_prod_unfold)
qed

theorem compile_commands_document_witness:
  "\<exists>variant t. variant \<noteq> [] \<and> o_text (snd (snd sample_exported)) = t @ newline \<and>
    json_text (JArray (map command_json (export_rows variant (ss_shared sample_session)))) t"
proof -
  have "undisturbed (xe_db demo_export_env) sample_session"
    by (simp add: undisturbed_def demo_export_env_def quiet_env_def sample_session_def)
  moreover have "readable_rows (cd_rows (ss_shared sample_session))"
    by (simp add: readable_rows_def sample_session_def sample_commands_def unpack_arguments_def NUL_def)
  moreover have "\<And>path f. xe_fopen demo_export_env path = Some f \<Longrightarrow> o_text f = [] \<and> \<not> o_error f"
    by (auto simp: demo_export_env_def empty_stream_def)
  ultimately show ?thesis
    using compile_commands_document [OF _ _ _ demo_export] by blast
qed

end
