(* ===== verification/Paths.thy ===== *)
theory Paths
  imports Output "HOL-Library.Sublist"
begin

text \<open>
  The lexical operations of \<open>std::filesystem::path\<close> on POSIX that the C++ parts of the program use:
  \<open>is_absolute\<close>, \<open>operator/\<close>, \<open>parent_path\<close>, \<open>lexically_normal\<close> and \<open>lexically_relative\<close>. A path is
  its string; two paths with the same normal form name the same elements.
\<close>

section \<open>Elements of a path\<close>

abbreviation slash_char :: char where
  "slash_char \<equiv> CHR ''/''"

text \<open>The pieces between slashes; there is one more piece than slashes.\<close>

fun pieces :: "string \<Rightarrow> string list" where
  "pieces [] = [[]]"
| "pieces (c # cs) =
     (if c = slash_char then [] # pieces cs
      else case pieces cs of [] \<Rightarrow> [[c]] | p # ps \<Rightarrow> (c # p) # ps)"

definition names :: "string \<Rightarrow> string list" where
  "names p = filter (\<lambda>s. s \<noteq> []) (pieces p)"

definition is_absolute :: "string \<Rightarrow> bool" where
  "is_absolute p \<longleftrightarrow> p \<noteq> [] \<and> hd p = slash_char"

definition ends_slash :: "string \<Rightarrow> bool" where
  "ends_slash p \<longleftrightarrow> p \<noteq> [] \<and> List.last p = slash_char"

definition elements :: "string \<Rightarrow> string list" where
  "elements p = (if is_absolute p then [''/''] else []) @ names p @
     (if ends_slash p \<and> names p \<noteq> [] then [[]] else [])"

definition path_join :: "string \<Rightarrow> string \<Rightarrow> string" where
  "path_join a b = (if is_absolute b then b else if a = [] \<or> ends_slash a then a @ b else a @ ''/'' @ b)"

text \<open>\<open>parent_path\<close>: without the last element and the separators before it.\<close>

definition parent_path :: "string \<Rightarrow> string" where
  "parent_path p =
     (let d = rev (dropWhile (\<lambda>c. c = slash_char) (dropWhile (\<lambda>c. c \<noteq> slash_char) (rev p)))
      in if d = [] \<and> is_absolute p then ''/'' else d)"

section \<open>Normal forms\<close>

text \<open>
  One element of \<open>lexically_normal\<close>: the elements kept so far, the last first, and whether what was
  read last has left a separator behind.
\<close>

definition normal_step :: "bool \<Rightarrow> string \<Rightarrow> string list \<times> bool \<Rightarrow> string list \<times> bool" where
  "normal_step absolute name st =
     (case st of (kept, dir) \<Rightarrow>
        if name = ''.'' then (kept, True)
        else if name \<noteq> ''..'' then (name # kept, False)
        else case kept of
          [] \<Rightarrow> if absolute then ([], True) else ([''..''], False)
        | k # ks \<Rightarrow> if k = ''..'' then (''..'' # kept, False) else (ks, True))"

definition normal_names :: "bool \<Rightarrow> string list \<Rightarrow> string list \<times> bool" where
  "normal_names absolute ns = fold (normal_step absolute) ns ([], False)"

definition lexically_normal :: "string \<Rightarrow> string" where
  "lexically_normal p =
     (if p = [] then []
      else
      case normal_names (is_absolute p) (names p) of (kept, dir) \<Rightarrow>
        let text = (if is_absolute p then ''/'' else []) @ join_with ''/'' (rev kept) @
              (if kept \<noteq> [] \<and> hd kept \<noteq> ''..'' \<and> (dir \<or> ends_slash p) then ''/'' else [])
        in if text = [] then ''.'' else text)"

section \<open>Relative paths\<close>

fun mismatch :: "'a list \<Rightarrow> 'a list \<Rightarrow> 'a list \<times> 'a list" where
  "mismatch (a # as) (b # bs) = (if a = b then mismatch as bs else (a # as, b # bs))"
| "mismatch as bs = (as, bs)"

definition levels :: "string list \<Rightarrow> int" where
  "levels bs = sum_list (map (\<lambda>b. if b = ''..'' then - 1 else if b \<noteq> [] \<and> b \<noteq> ''.'' then 1 else 0) bs)"

text \<open>The empty path means that there is none.\<close>

definition lexically_relative :: "string \<Rightarrow> string \<Rightarrow> string" where
  "lexically_relative p base =
     (if is_absolute p \<noteq> is_absolute base then []
      else
      case mismatch (elements p) (elements base) of (as, bs) \<Rightarrow>
        if as = [] \<and> bs = [] then ''.''
        else if levels bs = 0 \<and> (as = [] \<or> hd as = []) then ''.''
        else if levels bs \<ge> 0
        then fold (\<lambda>e r. path_join r e) (replicate (nat (levels bs)) ''..'' @ as) []
        else [])"

section \<open>Facts about pieces\<close>

lemma pieces_nonempty [simp]: "pieces p \<noteq> []"
  by (induction p) (auto split: list.split)

lemma pieces_append_slash: "pieces (a @ slash_char # b) = pieces a @ pieces b"
  by (induction a) (auto split: list.split)

lemma pieces_plain: "slash_char \<notin> set s \<Longrightarrow> pieces s = [s]"
  by (induction s) auto

lemma pieces_no_slash: "s \<in> set (pieces p) \<Longrightarrow> slash_char \<notin> set s"
proof (induction p arbitrary: s)
  case Nil
  then show ?case by simp
next
  case (Cons c cs)
  show ?case
  proof (cases "c = slash_char")
    case True
    with Cons show ?thesis by auto
  next
    case False
    obtain q qs where q: "pieces cs = q # qs" by (cases "pieces cs") auto
    with Cons.prems False have "s = c # q \<or> s \<in> set qs" by auto
    with Cons.IH q False show ?thesis by auto
  qed
qed

text \<open>Names that can stand between separators.\<close>

definition plain_name :: "string \<Rightarrow> bool" where
  "plain_name s \<longleftrightarrow> s \<noteq> [] \<and> slash_char \<notin> set s"

lemma plain_names: "list_all plain_name (names p)"
  by (auto simp: names_def plain_name_def list_all_iff dest: pieces_no_slash)

lemma names_simps [simp]:
  "names [] = []" "names (slash_char # p) = names p" "names (a @ slash_char # b) = names a @ names b"
  by (simp_all add: names_def pieces_append_slash)

lemma names_plain: "plain_name s \<Longrightarrow> names s = [s]"
  by (simp add: names_def plain_name_def pieces_plain)

lemma names_join: "list_all plain_name ns \<Longrightarrow> names (join_with ''/'' ns) = ns"
  by (induction "''/''" ns rule: join_with.induct) (auto simp: names_plain)

lemma plain_ends: "plain_name s \<Longrightarrow> hd s \<noteq> slash_char \<and> List.last s \<noteq> slash_char"
  by (metis hd_in_set last_in_set plain_name_def)

lemma join_plain_shape:
  assumes "list_all plain_name ns" and "ns \<noteq> []"
  shows "join_with ''/'' ns \<noteq> []" "hd (join_with ''/'' ns) \<noteq> slash_char" "List.last (join_with ''/'' ns) \<noteq> slash_char"
proof -
  have "join_with ''/'' ns \<noteq> [] \<and> hd (join_with ''/'' ns) \<noteq> slash_char \<and> List.last (join_with ''/'' ns) \<noteq> slash_char"
    using assms
  proof (induction "''/''" ns rule: join_with.induct)
    case 1
    then show ?case by simp
  next
    case (2 s)
    then show ?case using plain_ends by (auto simp: plain_name_def)
  next
    case (3 s t rest)
    then show ?case using plain_ends by (auto simp: plain_name_def)
  qed
  then show "join_with ''/'' ns \<noteq> []" "hd (join_with ''/'' ns) \<noteq> slash_char" "List.last (join_with ''/'' ns) \<noteq> slash_char"
    by simp_all
qed

section \<open>Facts about normal forms\<close>

text \<open>What is kept: plain names after, in a relative path, some parents.\<close>

definition proper :: "string \<Rightarrow> bool" where
  "proper s \<longleftrightarrow> plain_name s \<and> s \<noteq> ''.'' \<and> s \<noteq> ''..''"

definition kept_ok :: "bool \<Rightarrow> string list \<Rightarrow> bool" where
  "kept_ok absolute kept \<longleftrightarrow>
     (\<exists>ps n. kept = ps @ replicate n ''..'' \<and> list_all proper ps \<and> (absolute \<longrightarrow> n = 0))"

lemma normal_step_ok:
  assumes "kept_ok absolute (fst st)" and "plain_name name"
  shows "kept_ok absolute (fst (normal_step absolute name st))"
proof -
  from assms(1) obtain ps n where k: "fst st = ps @ replicate n ''..''" "list_all proper ps" "absolute \<longrightarrow> n = 0"
    by (auto simp: kept_ok_def)
  show ?thesis
  proof (cases "name = ''.'' \<or> name \<noteq> ''..''")
    case True
    show ?thesis
    proof (cases "name = ''.''")
      case dot: True
      with assms(1) show ?thesis by (cases st) (simp add: normal_step_def)
    next
      case False
      with True assms k have "fst (normal_step absolute name st) = (name # ps) @ replicate n ''..''"
        "list_all proper (name # ps)"
        by (cases st; simp add: normal_step_def proper_def)+
      with k(3) show ?thesis unfolding kept_ok_def by blast
    qed
  next
    case parent: False
    show ?thesis
    proof (cases ps)
      case Nil
      with parent k have "fst (normal_step absolute name st) = (if absolute then [] else [] @ replicate (Suc n) ''..'')"
        by (cases st; cases n) (auto simp: normal_step_def)
      with k(3) show ?thesis
        unfolding kept_ok_def by (intro exI [of _ "[]"] exI [of _ "if absolute then 0 else Suc n"]) simp
    next
      case (Cons q qs)
      with parent k show ?thesis
        by (cases st) (auto simp: normal_step_def kept_ok_def proper_def)
    qed
  qed
qed

lemma fold_normal_ok:
  "list_all plain_name ns \<Longrightarrow> kept_ok absolute (fst st) \<Longrightarrow> kept_ok absolute (fst (fold (normal_step absolute) ns st))"
  by (induction ns arbitrary: st) (auto simp: normal_step_ok)

lemma normal_names_ok: "list_all plain_name ns \<Longrightarrow> kept_ok absolute (fst (normal_names absolute ns))"
  unfolding normal_names_def by (rule fold_normal_ok) (auto simp: kept_ok_def)

lemma proper_dotdot [simp]: "\<not> proper ''..''" "\<not> proper ''.''" "\<not> proper []"
  by (simp_all add: proper_def plain_name_def)

lemma fold_normal_proper:
  "list_all proper ns \<Longrightarrow>
     fst (fold (normal_step absolute) ns st) = rev ns @ fst st \<and>
     (ns \<noteq> [] \<longrightarrow> \<not> snd (fold (normal_step absolute) ns st))"
proof (induction ns arbitrary: st)
  case Nil
  then show ?case by simp
next
  case (Cons n ns)
  then have "normal_step absolute n st = (n # fst st, False)"
    by (cases st) (auto simp: normal_step_def proper_def)
  with Cons show ?case by (cases ns) auto
qed

text \<open>An absolute path in normal form, without the slash that may end it.\<close>

definition absolute_path :: "string list \<Rightarrow> string" where
  "absolute_path ns = ''/'' @ join_with ''/'' ns"

lemma names_normal_absolute:
  assumes "is_absolute p"
  obtains ns where "list_all proper ns" "names (lexically_normal p) = ns" "is_absolute (lexically_normal p)"
    "lexically_normal p = absolute_path ns \<or> ns \<noteq> [] \<and> lexically_normal p = absolute_path ns @ ''/''"
proof -
  obtain kept dir where k: "normal_names True (names p) = (kept, dir)" by (rule prod.exhaust)
  have ok: "list_all proper kept"
    using normal_names_ok [OF plain_names, of True p] k by (auto simp: kept_ok_def)
  have p: "p \<noteq> []" using assms by (auto simp: is_absolute_def)
  define ns where "ns = rev kept"
  have ns: "list_all proper ns" "list_all plain_name ns" using ok by (auto simp: ns_def list_all_iff proper_def)
  let ?n = "lexically_normal p"
  have n: "?n = absolute_path ns @ (if kept \<noteq> [] \<and> hd kept \<noteq> ''..'' \<and> (dir \<or> ends_slash p) then ''/'' else [])"
    using p assms k by (simp add: lexically_normal_def absolute_path_def ns_def Let_def)
  have nm: "names (absolute_path ns) = ns"
    using names_join [OF ns(2)] by (simp add: absolute_path_def)
  have "names (absolute_path ns @ ''/'') = ns"
    using names_simps(3) [of "absolute_path ns" "[]"] nm by simp
  with nm n have "names ?n = ns" by auto
  moreover have "is_absolute ?n" using n by (simp add: is_absolute_def absolute_path_def)
  ultimately show thesis
    using ns(1) n by (intro that [of ns]) (auto simp: ns_def split: if_splits)
qed

lemma lexically_normal_absolute_path:
  assumes "list_all proper ns"
  shows "lexically_normal (absolute_path ns) = absolute_path ns"
proof -
  have plain: "list_all plain_name ns" using assms by (auto simp: list_all_iff proper_def)
  have nm: "names (absolute_path ns) = ns" using names_join [OF plain] by (simp add: absolute_path_def)
  have k: "normal_names True ns = (rev ns, snd (normal_names True ns))" "ns \<noteq> [] \<longrightarrow> \<not> snd (normal_names True ns)"
    using fold_normal_proper [OF assms, of True "([], False)"] by (simp_all add: normal_names_def prod_eq_iff)
  have "ns \<noteq> [] \<Longrightarrow> \<not> ends_slash (absolute_path ns)"
    using join_plain_shape [OF plain] by (simp add: ends_slash_def absolute_path_def)
  with k nm show ?thesis
    by (simp add: lexically_normal_def is_absolute_def Let_def absolute_path_def [symmetric] split: prod.split)
      (auto simp: absolute_path_def)
qed

text \<open>An absolute path lies below a root exactly when the relative path is not empty and does not start with a parent.\<close>

lemma mismatch_prefix: "mismatch as bs = (xs, ys) \<Longrightarrow> \<exists>cs. as = cs @ xs \<and> bs = cs @ ys"
proof (induction as bs rule: mismatch.induct)
  case (1 a as b bs)
  then show ?case by (cases "a = b") (auto intro: exI [of _ "a # _"])
qed auto

lemma mismatch_Nil [simp]: "mismatch as [] = (as, [])"
  by (cases as) auto

lemma mismatch_common [simp]: "mismatch (cs @ as) (cs @ bs) = mismatch as bs"
  by (induction cs) auto

text \<open>The element at which two lists part.\<close>

lemma not_prefix_parts:
  assumes "\<not> prefix bs as"
  obtains cs xs y ys where "as = cs @ xs" "bs = cs @ y # ys" "xs = [] \<or> hd xs \<noteq> y"
  using assms
proof (induction bs arbitrary: as thesis)
  case Nil
  then show ?case by simp
next
  case (Cons b bs)
  show ?case
  proof (cases as)
    case Nil
    show ?thesis by (rule Cons.prems(1) [of "[]" as b bs]) (simp_all add: Nil)
  next
    case as: (Cons a rest)
    show ?thesis
    proof (cases "a = b")
      case True
      with Cons.prems(2) as have "\<not> prefix bs rest" by simp
      from Cons.IH [OF _ this] obtain cs xs y ys where
        "rest = cs @ xs" "bs = cs @ y # ys" "xs = [] \<or> hd xs \<noteq> y" by blast
      with True as show ?thesis by (intro Cons.prems(1) [of "b # cs" xs y ys]) simp_all
    next
      case False
      show ?thesis by (rule Cons.prems(1) [of "[]" as b bs]) (simp_all add: as False)
    qed
  qed
qed

lemma join_with_snoc: "join_with sep (xs @ [x]) = (if xs = [] then x else join_with sep xs @ sep @ x)"
  by (induction sep xs rule: join_with.induct) auto

lemma fold_path_join:
  "list_all plain_name es \<Longrightarrow> fold (\<lambda>e r. path_join r e) es [] = join_with ''/'' es"
proof (induction es rule: rev_induct)
  case Nil
  then show ?case by simp
next
  case (snoc e es)
  have "\<not> is_absolute e" "plain_name e" using snoc.prems plain_ends [of e] by (auto simp: is_absolute_def)
  moreover have "es \<noteq> [] \<Longrightarrow> join_with ''/'' es \<noteq> [] \<and> \<not> ends_slash (join_with ''/'' es)"
    using join_plain_shape [of es] snoc.prems by (simp add: ends_slash_def)
  ultimately show ?case using snoc by (simp add: path_join_def join_with_snoc)
qed

lemma elements_join:
  assumes "list_all plain_name es" and "es \<noteq> []"
  shows "elements (join_with ''/'' es) = es"
  using join_plain_shape [OF assms] names_join [OF assms(1)]
  by (simp add: elements_def is_absolute_def ends_slash_def)

lemma elements_join_slash:
  assumes "list_all plain_name es" and "es \<noteq> []"
  shows "elements (join_with ''/'' es @ ''/'') = es @ [[]]"
  using join_plain_shape [OF assms] names_join [OF assms(1)] names_simps(3) [of "join_with ''/'' es" "[]"] assms(2)
  by (simp add: elements_def is_absolute_def ends_slash_def)

lemma levels_proper: "list_all proper bs \<Longrightarrow> levels (bs @ tb) = int (length bs) + levels tb"
proof (induction bs)
  case (Cons b bs)
  then have "b \<noteq> ''..''" "b \<noteq> ''.''" "b \<noteq> []" by auto
  with Cons show ?case by (simp add: levels_def)
qed simp

text \<open>The test of the program for a path below a root.\<close>

definition below :: "string \<Rightarrow> string \<Rightarrow> bool" where
  "below p root \<longleftrightarrow> lexically_relative p root \<noteq> [] \<and> hd (elements (lexically_relative p root)) \<noteq> ''..''"

text \<open>Names followed, perhaps, by the empty element of a final separator.\<close>

definition tail_ok :: "string list \<Rightarrow> bool" where
  "tail_ok t \<longleftrightarrow> t = [] \<or> t = [[]]"

lemma tail_cases: "tail_ok t \<Longrightarrow> (t = [] \<Longrightarrow> P) \<Longrightarrow> (t = [[]] \<Longrightarrow> P) \<Longrightarrow> P"
  by (auto simp: tail_ok_def)

lemma fold_path_join_tail:
  assumes "list_all plain_name es" and "es \<noteq> []" and "tail_ok t"
  shows "elements (fold (\<lambda>e r. path_join r e) (es @ t) []) = es @ t \<and> fold (\<lambda>e r. path_join r e) (es @ t) [] \<noteq> []"
  using assms(3)
proof (rule tail_cases)
  assume "t = []"
  with fold_path_join [OF assms(1)] elements_join [OF assms(1,2)] join_plain_shape [OF assms(1,2)]
  show ?thesis by simp
next
  assume t: "t = [[]]"
  have "\<not> ends_slash (join_with ''/'' es)" "join_with ''/'' es \<noteq> []"
    using join_plain_shape [OF assms(1,2)] by (simp_all add: ends_slash_def)
  with t fold_path_join [OF assms(1)] elements_join_slash [OF assms(1,2)]
  show ?thesis by (simp add: path_join_def is_absolute_def)
qed

lemma below_elements:
  assumes p: "elements p = ''/'' # ns @ tp" "is_absolute p" and b: "elements root = ''/'' # rs @ tb" "is_absolute root"
    and ok: "list_all proper ns" "list_all proper rs" "tail_ok tp" "tail_ok tb"
  shows "below p root \<longleftrightarrow> prefix rs ns"
proof
  assume "prefix rs ns"
  then obtain zs where ns: "ns = rs @ zs" by (auto elim: prefixE)
  obtain as bs where m: "mismatch (zs @ tp) tb = (as, bs)" by (rule prod.exhaust)
  have rel: "lexically_relative p root = (if as = [] \<and> bs = [] then ''.''
        else if levels bs = 0 \<and> (as = [] \<or> hd as = []) then ''.''
        else if levels bs \<ge> 0 then fold (\<lambda>e r. path_join r e) (replicate (nat (levels bs)) ''..'' @ as) [] else [])"
    using p b ns m by (simp add: lexically_relative_def)
  have dot: "hd (elements ''.'') \<noteq> ''..''"
    by (simp add: elements_def is_absolute_def ends_slash_def names_def)
  have bs: "levels bs = 0" using ok(4) m
    by (auto simp: tail_ok_def levels_def split: if_splits elim!: mismatch.elims)
  show "below p root"
  proof (cases "zs = []")
    case True
    have "as = [] \<or> hd as = []" using m True ok(3,4) by (auto simp: tail_ok_def split: if_splits)
    with rel bs dot show ?thesis by (auto simp: below_def)
  next
    case False
    have z: "list_all proper zs" using ok(1) ns by simp
    then have plain: "list_all plain_name zs" by (auto simp: list_all_iff proper_def)
    obtain z1 z2 where zs: "zs = z1 # z2" using False by (cases zs) auto
    from z zs have z1: "z1 \<noteq> []" "z1 \<noteq> ''..''" by auto
    have as: "as = zs @ tp" using ok(4) m zs z1(1) by (auto simp: tail_ok_def)
    with rel bs zs z1 have "lexically_relative p root = fold (\<lambda>e r. path_join r e) (zs @ tp) []" by simp
    with fold_path_join_tail [OF plain False ok(3)] zs z1 show ?thesis by (simp add: below_def)
  qed
next
  assume below: "below p root"
  show "prefix rs ns"
  proof (rule ccontr)
    assume "\<not> prefix rs ns"
    then obtain cs xs y ys where parts: "ns = cs @ xs" "rs = cs @ y # ys" "xs = [] \<or> hd xs \<noteq> y"
      by (rule not_prefix_parts)
    have y: "y \<noteq> []" "list_all proper (y # ys)" using ok(2) parts(2) by auto
    have m: "mismatch (xs @ tp) (y # ys @ tb) = (xs @ tp, y # ys @ tb)"
      using parts(3) y(1) ok(3) by (cases xs) (auto simp: tail_ok_def)
    have lv: "levels (y # ys @ tb) = 1 + int (length ys)"
      using levels_proper [OF y(2), of tb] ok(4) by (auto simp: tail_ok_def levels_def)
    have dots: "plain_name ''..''" by (simp add: plain_name_def)
    have "list_all plain_name xs" using ok(1) parts(1) by (auto simp: list_all_iff proper_def)
    with dots have plain: "list_all plain_name (replicate (Suc (length ys)) ''..'' @ xs)"
      by (simp add: list_all_iff ball_Un)
    have mm: "mismatch (elements p) (elements root) = (xs @ tp, y # ys @ tb)"
      using m by (simp add: p(1) b(1) parts(1,2))
    define es where "es = replicate (Suc (length ys)) ''..'' @ xs"
    have "lexically_relative p root = fold (\<lambda>e r. path_join r e) (replicate (nat (levels (y # ys @ tb))) ''..'' @ xs @ tp) []"
      using lv by (simp add: lexically_relative_def p(2) b(2) mm)
    moreover have "nat (levels (y # ys @ tb)) = Suc (length ys)" using lv by simp
    ultimately have rel: "lexically_relative p root = fold (\<lambda>e r. path_join r e) (es @ tp) []"
      by (simp only: es_def append_assoc)
    have "es \<noteq> []" "hd es = ''..''" by (simp_all add: es_def)
    moreover have "list_all plain_name es" using plain by (simp only: es_def)
    ultimately have "hd (elements (lexically_relative p root)) = ''..''"
      using fold_path_join_tail [of es tp] ok(3) by (simp add: rel)
    with below show False by (simp add: below_def)
  qed
qed

end
