(* ===== verification/Streams.thy ===== *)
theory Streams
  imports Output
begin

text \<open>
  The streams of the C++ library that the servers use: \<open>std::getline\<close> and \<open>read\<close> on an input that
  ends, or breaks, somewhere; output that stops at the first failure; and \<open>std::from_chars\<close> on
  decimal and hexadecimal numbers.
\<close>

section \<open>Input\<close>

text \<open>\<open>in_broken\<close> says that the device fails where the input ends; the flags are those of \<open>ios_base\<close>.\<close>

record istream =
  in_rest :: string
  in_broken :: bool
  in_eof :: bool
  in_fail :: bool
  in_bad :: bool

definition in_good :: "istream \<Rightarrow> bool" where
  "in_good s \<longleftrightarrow> \<not> in_eof s \<and> \<not> in_fail s \<and> \<not> in_bad s"

definition in_failed :: "istream \<Rightarrow> bool" where
  "in_failed s \<longleftrightarrow> in_fail s \<or> in_bad s"

definition open_input :: "string \<Rightarrow> istream" where
  "open_input text = \<lparr>in_rest = text, in_broken = False, in_eof = False, in_fail = False, in_bad = False\<rparr>"

text \<open>The line up to a newline, and what is behind it.\<close>

fun split_line :: "string \<Rightarrow> string \<times> string option" where
  "split_line [] = ([], None)"
| "split_line (c # cs) =
     (if c = CHR 0x0A then ([], Some cs)
      else case split_line cs of (line, rest) \<Rightarrow> (c # line, rest))"

text \<open>
  \<open>std::getline\<close> with the old value of the line, which stays when the stream is not good, and the
  truth value of the stream afterwards.
\<close>

definition getline :: "istream \<Rightarrow> string \<Rightarrow> bool \<times> string \<times> istream" where
  "getline s old =
     (if \<not> in_good s then (False, old, s\<lparr>in_fail := True\<rparr>)
      else case split_line (in_rest s) of
        (line, Some rest) \<Rightarrow> (True, line, s\<lparr>in_rest := rest\<rparr>)
      | (line, None) \<Rightarrow>
          if in_broken s then (False, line, s\<lparr>in_rest := [], in_bad := True, in_fail := (line = [])\<rparr>)
          else (line \<noteq> [], line, s\<lparr>in_rest := [], in_eof := True, in_fail := (line = [])\<rparr>))"

text \<open>\<open>read\<close>: what was read; \<open>gcount\<close> is its length.\<close>

definition read_bytes :: "istream \<Rightarrow> nat \<Rightarrow> string \<times> istream" where
  "read_bytes s n =
     (if \<not> in_good s then ([], s\<lparr>in_fail := True\<rparr>)
      else if n \<le> length (in_rest s) then (take n (in_rest s), s\<lparr>in_rest := drop n (in_rest s)\<rparr>)
      else if in_broken s then (in_rest s, s\<lparr>in_rest := [], in_bad := True\<rparr>)
      else (in_rest s, s\<lparr>in_rest := [], in_eof := True, in_fail := True\<rparr>))"

definition strip_cr :: "string \<Rightarrow> string" where
  "strip_cr line = (if line \<noteq> [] \<and> List.last line = CHR 0x0D then butlast line else line)"

section \<open>Output\<close>

text \<open>A C++ stream drops everything behind a failure.\<close>

definition cput :: "sink \<Rightarrow> string \<Rightarrow> stream \<Rightarrow> stream" where
  "cput sk s out = (if o_error out then out else snd (fput sk s out))"

definition cputs :: "sink \<Rightarrow> string list \<Rightarrow> stream \<Rightarrow> stream" where
  "cputs sk chunks out = fold (cput sk) chunks out"

section \<open>Numbers\<close>

definition isdigit :: "char \<Rightarrow> bool" where
  "isdigit c \<longleftrightarrow> (48::nat) \<le> of_char c \<and> of_char c \<le> (57::nat)"

fun dec_value :: "nat \<Rightarrow> string \<Rightarrow> nat" where
  "dec_value acc [] = acc"
| "dec_value acc (c # cs) = dec_value (acc * 10 + (of_char c - 48)) cs"

text \<open>\<open>from_chars\<close> into a \<open>size_t\<close>, followed by the test that all of the text was taken.\<close>

definition from_chars10 :: "string \<Rightarrow> nat option" where
  "from_chars10 s =
     (if s = [] \<or> \<not> list_all isdigit s then None
      else if dec_value 0 s < 2 ^ 64 then Some (dec_value 0 s) else None)"

text \<open>The same to base 16, into 64 bits.\<close>

definition from_chars16 :: "string \<Rightarrow> u64 option" where
  "from_chars16 s =
     (if s = [] \<or> \<not> list_all isxdigit s then None
      else if hex_value 0 s < 2 ^ 64 then Some (word_of_nat (hex_value 0 s)) else None)"

section \<open>Facts\<close>

lemma split_line_Some: "split_line s = (line, Some rest) \<Longrightarrow> s = line @ CHR 0x0A # rest \<and> CHR 0x0A \<notin> set line"
  by (induction s arbitrary: line) (auto split: if_splits prod.splits)

lemma split_line_None: "split_line s = (line, None) \<Longrightarrow> s = line \<and> CHR 0x0A \<notin> set line"
  by (induction s arbitrary: line) (auto split: if_splits prod.splits)

lemma split_line_append [simp]: "CHR 0x0A \<notin> set line \<Longrightarrow> split_line (line @ CHR 0x0A # rest) = (line, Some rest)"
  by (induction line) auto

lemma split_line_end [simp]: "CHR 0x0A \<notin> set line \<Longrightarrow> split_line line = (line, None)"
  by (induction line) auto

lemma getline_shrinks: "getline s old = (True, line, s') \<Longrightarrow> length (in_rest s') < length (in_rest s)"
  by (auto simp: getline_def dest: split_line_Some split_line_None split: if_splits prod.splits option.splits)

lemma cput_text: "\<not> o_error (cput sk s out) \<Longrightarrow> \<not> o_error out \<and> o_text (cput sk s out) = o_text out @ s"
  by (auto simp: cput_def fput_def split: if_splits option.splits)

lemma cputs_simps [simp]: "cputs sk [] out = out" "cputs sk (s # ss) out = cputs sk ss (cput sk s out)"
  by (simp_all add: cputs_def)

lemma cputs_error: "o_error out \<Longrightarrow> cputs sk ss out = out"
  by (induction ss) (auto simp: cput_def)

lemma cputs_text: "\<not> o_error (cputs sk ss out) \<Longrightarrow> \<not> o_error out \<and> o_text (cputs sk ss out) = o_text out @ concat ss"
proof (induction ss arbitrary: out)
  case Nil
  then show ?case by simp
next
  case (Cons s ss)
  from Cons.IH [of "cput sk s out"] Cons.prems cput_text [of sk s out] show ?case by auto
qed

lemma cputs_works: "(\<And>n. sk n = None) \<Longrightarrow> o_error (cputs sk ss out) = o_error out"
  by (induction ss arbitrary: out) (auto simp: cput_def fput_def)

lemma dec_value_append: "dec_value acc (xs @ ys) = dec_value (dec_value acc xs) ys"
  by (induction xs arbitrary: acc) auto

lemma digit_decimal: "n < 10 \<Longrightarrow> isdigit (digit n) \<and> of_char (digit n) - 48 = n"
  by (simp add: digit_def isdigit_def)

lemma digits_decimal: "list_all isdigit (digits 10 n) \<and> digits 10 n \<noteq> [] \<and> dec_value 0 (digits 10 n) = n"
proof (induction n rule: less_induct)
  case (less n)
  show ?case
  proof (cases "n < 10")
    case True
    then show ?thesis using digit_decimal [of n] by (simp add: digits.simps)
  next
    case False
    with less.IH [of "n div 10"] digit_decimal [of "n mod 10"] show ?thesis
      by (subst (1 2 3) digits.simps) (simp add: dec_value_append)
  qed
qed

lemma from_chars10_decimal: "n < 2 ^ 64 \<Longrightarrow> from_chars10 (decimal n) = Some n"
  using digits_decimal [of n] by (simp add: from_chars10_def decimal_def)

lemma hex_value_fits: "length s \<le> 16 \<Longrightarrow> hex_value 0 s < 2 ^ 64"
proof -
  assume "length s \<le> 16"
  then have "(16::nat) ^ length s \<le> 16 ^ 16" by (intro power_increasing) simp_all
  with hex_value_bound [of 0 s] show ?thesis by simp
qed

lemma from_chars16_hex16: "from_chars16 (hex16 w) = Some w"
proof -
  have "list_all isxdigit (hex16 w)" by (auto simp: list_all_iff hex16_def dest: hex_padded_digits)
  moreover have "length (hex16 w) = 16" "hex16 w \<noteq> []"
    using length_hex_padded [of 16 "unat w"] by (auto simp: hex16_def simp del: length_hex_padded)
  ultimately show ?thesis using hex_value_fits [of "hex16 w"] by (simp add: from_chars16_def)
qed

end
