(* ===== verification/Source_Resolver.thy ===== *)
theory Source_Resolver
  imports Index_Reader Git Paths Streams
begin

text \<open>
  \<open>lib/semindex_source/source_resolver.cpp\<close>: the text of an indexed file, from the working tree when
  the file is still what was indexed, else from the commit that was recorded for its variant.

  The file system between two calls is a parameter: what \<open>stat\<close> says before and after the file is
  read, what opening it yields, and the working directory; so are the outcomes of the two queries.
\<close>

section \<open>Requests and results\<close>

datatype source_status = Current | NotIndexed | Missing | Drifted

datatype source_origin = Origin_None | WorkingTree | GitCommit

record source_request =
  sq_database :: "database option"
  sq_variant :: string
  sq_path :: string
  sq_first_line :: u32
  sq_line_count :: u32
  sq_byte_limit :: nat

record source_result =
  sr_status :: source_status
  sr_origin :: source_origin
  sr_physical_path :: string
  sr_lines :: "string list"
  sr_first_line :: u32
  sr_drifted :: bool
  sr_byte_limit_hit :: bool

definition new_result :: source_result where
  "new_result = \<lparr>sr_status = NotIndexed, sr_origin = Origin_None, sr_physical_path = [], sr_lines = [],
     sr_first_line = 0, sr_drifted = False, sr_byte_limit_hit = False\<rparr>"

datatype stat_outcome = Stat file_stat | No_Entry | Stat_Error

record source_env =
  se_before :: "string \<Rightarrow> stat_outcome"
  se_after :: "string \<Rightarrow> stat_outcome"
  se_open :: "string \<Rightarrow> istream option"
  se_cwd :: string
  se_find_run :: run
  se_list_run :: run

record file_metadata =
  fm_mtime_ns :: int
  fm_size :: int
  fm_found :: bool

definition stat_mtime :: "file_stat \<Rightarrow> int" where
  "stat_mtime st = stat_mtime_sec st * 1000000000 + stat_mtime_nsec st"

definition metadata_matches :: "file_metadata \<Rightarrow> file_stat \<Rightarrow> bool" where
  "metadata_matches m st \<longleftrightarrow> fm_mtime_ns m = stat_mtime st \<and> fm_size m = stat_size st"

definition valid_request :: "source_request \<Rightarrow> bool" where
  "valid_request q \<longleftrightarrow>
     \<not> (sq_database q = None \<or> sq_variant q = [] \<or> sq_path q = []) \<and>
     sq_first_line q \<noteq> 0 \<and> sq_line_count q \<noteq> 0 \<and> sq_byte_limit q \<noteq> 0"

definition collect_file_metadata :: "file_metadata \<Rightarrow> file_row \<Rightarrow> int \<times> file_metadata" where
  "collect_file_metadata m f = (0, \<lparr>fm_mtime_ns = f_mtime f, fm_size = f_size f, fm_found = True\<rparr>)"

record variant_provenance =
  vp_variant :: string
  vp_root :: string
  vp_commit :: string

definition collect_variant_provenance :: "variant_provenance \<Rightarrow> variant_row \<Rightarrow> int \<times> variant_provenance" where
  "collect_variant_provenance p v =
     (if vp_variant p \<noteq> v_name v then (0, p)
      else
      let p1 = (case v_repository_root v of None \<Rightarrow> p | Some r \<Rightarrow> p\<lparr>vp_root := r\<rparr>);
          p2 = (case v_git_commit v of None \<Rightarrow> p1 | Some c \<Rightarrow> p1\<lparr>vp_commit := c\<rparr>)
      in (0, p2))"

section \<open>Ranges of lines\<close>

fun skip_lines :: "nat \<Rightarrow> istream \<Rightarrow> istream" where
  "skip_lines 0 s = s"
| "skip_lines (Suc n) s = (case getline s [] of (ok, line, s1) \<Rightarrow> if ok then skip_lines n s1 else s1)"

text \<open>At most \<open>n\<close> more lines of at most \<open>b\<close> more bytes, and whether the next line had too many.\<close>

fun take_lines :: "nat \<Rightarrow> nat \<Rightarrow> istream \<Rightarrow> string list \<times> bool" where
  "take_lines 0 b s = ([], False)"
| "take_lines (Suc n) b s =
     (case getline s [] of (ok, line, s1) \<Rightarrow>
        if \<not> ok then ([], False)
        else let l = strip_cr line in
          if length l + 1 > b then ([], True)
          else (case take_lines n (b - (length l + 1)) s1 of (ls, hit) \<Rightarrow> (l # ls, hit)))"

definition read_range :: "source_env \<Rightarrow> string \<Rightarrow> source_request \<Rightarrow> source_result \<Rightarrow> bool \<times> source_result" where
  "read_range e path q res =
     (case se_open e path of
        None \<Rightarrow> (False, res)
      | Some input \<Rightarrow>
          let input1 = skip_lines (unat (sq_first_line q) - 1) input in
          (case take_lines (unat (sq_line_count q) - length (sr_lines res)) (sq_byte_limit q) input1 of
             (ls, hit) \<Rightarrow>
               (True, res\<lparr>sr_lines := sr_lines res @ ls, sr_byte_limit_hit := hit \<or> sr_byte_limit_hit res\<rparr>)))"

text \<open>The same on a blob; the offset into it is what is left of it.\<close>

definition skip_blob_line :: "string \<Rightarrow> string" where
  "skip_blob_line rest = (case split_line rest of (line, Some r) \<Rightarrow> r | (line, None) \<Rightarrow> [])"

fun skip_blob_lines :: "nat \<Rightarrow> string \<Rightarrow> string" where
  "skip_blob_lines 0 rest = rest"
| "skip_blob_lines (Suc n) rest = (if rest = [] then rest else skip_blob_lines n (skip_blob_line rest))"

fun take_blob_lines :: "nat \<Rightarrow> nat \<Rightarrow> string \<Rightarrow> string list \<times> bool" where
  "take_blob_lines 0 b rest = ([], False)"
| "take_blob_lines (Suc n) b rest =
     (if rest = [] then ([], False)
      else let l = strip_cr (fst (split_line rest)) in
        if length l + 1 > b then ([], True)
        else (case take_blob_lines n (b - (length l + 1)) (skip_blob_line rest) of (ls, hit) \<Rightarrow> (l # ls, hit)))"

definition read_blob_range :: "string \<Rightarrow> source_request \<Rightarrow> source_result \<Rightarrow> source_result" where
  "read_blob_range content q res =
     (let rest = skip_blob_lines (unat (sq_first_line q) - 1) content in
      case take_blob_lines (unat (sq_line_count q) - length (sr_lines res)) (sq_byte_limit q) rest of
        (ls, hit) \<Rightarrow> res\<lparr>sr_lines := sr_lines res @ ls, sr_byte_limit_hit := hit \<or> sr_byte_limit_hit res\<rparr>)"

section \<open>Paths\<close>

definition relative_path :: "string \<Rightarrow> string \<Rightarrow> string option" where
  "relative_path path root =
     (let source = path;
          relative = lexically_normal (if is_absolute source then lexically_relative source root else source)
      in if relative = [] \<or> is_absolute relative \<or> hd (elements relative) = ''..'' then None else Some relative)"

definition resolve_against :: "string \<Rightarrow> string \<Rightarrow> string" where
  "resolve_against directory path =
     (if is_absolute path then lexically_normal path else lexically_normal (path_join directory path))"

text \<open>The only state of a resolver is its root.\<close>

definition set_workspace_root :: "string \<Rightarrow> string \<Rightarrow> bool \<times> string" where
  "set_workspace_root root path =
     (if \<not> is_absolute path then (False, root) else (True, lexically_normal path))"

definition resolve :: "string \<Rightarrow> string \<Rightarrow> string" where
  "resolve root path = resolve_against root path"

definition database_paths :: "source_env \<Rightarrow> string \<Rightarrow> string \<Rightarrow> string list" where
  "database_paths e root path =
     (let normalized = lexically_normal path in
      if \<not> is_absolute normalized then []
      else
      let relative = lexically_relative normalized root;
          result = [normalized] @ (if below normalized root then [relative] else []);
          cwd_relative = lexically_relative normalized (se_cwd e);
          different = elements cwd_relative \<noteq> elements relative \<or> length result = 1
      in if below normalized (se_cwd e) \<and> different then result @ [cwd_relative] else result)"

section \<open>Single lines\<close>

text \<open>The counter is an unsigned int: for the largest line number the loop ends with the file.\<close>

function read_line_loop :: "u32 \<Rightarrow> u32 \<Rightarrow> istream \<Rightarrow> string \<Rightarrow> bool \<times> string" where
  "read_line_loop current line s text0 =
     (if \<not> current \<le> line then (True, text0)
      else case getline s text0 of (ok, text1, s1) \<Rightarrow>
        if \<not> ok then (False, text1) else read_line_loop (current + 1) line s1 text1)"
  by pat_completeness auto
termination
  by (relation "measure (\<lambda>(current, line, s, text0). length (in_rest s))") (auto dest: getline_shrinks [OF sym])

declare read_line_loop.simps [simp del]

definition read_line :: "source_env \<Rightarrow> string \<Rightarrow> string \<Rightarrow> u32 \<Rightarrow> string \<Rightarrow> bool \<times> string" where
  "read_line e root path line text0 =
     (case se_open e (resolve root path) of
        None \<Rightarrow> (False, text0)
      | Some input \<Rightarrow>
          (case read_line_loop 0 line input text0 of (ok, text1) \<Rightarrow>
             if ok then (True, strip_cr text1) else (False, text1)))"

function all_lines :: "istream \<Rightarrow> string list" where
  "all_lines s = (case getline s [] of (ok, line, s1) \<Rightarrow> if ok then strip_cr line # all_lines s1 else [])"
  by pat_completeness auto
termination by (relation "measure (\<lambda>s. length (in_rest s))") (auto dest: getline_shrinks [OF sym])

declare all_lines.simps [simp del]

definition mapper_lines :: "source_env \<Rightarrow> string \<Rightarrow> string \<Rightarrow> string list" where
  "mapper_lines e root path = (case se_open e (resolve root path) of None \<Rightarrow> [] | Some input \<Rightarrow> all_lines input)"

section \<open>Reading sources\<close>

definition read_git_commit ::
  "source_env \<Rightarrow> loader \<Rightarrow> 'h git_lib \<Rightarrow> source_request \<Rightarrow> source_result \<Rightarrow> git_state \<Rightarrow> int \<times> source_result \<times> git_state" where
  "read_git_commit e ld lib q res g =
     (let provenance = \<lparr>vp_variant = sq_variant q, vp_root = [], vp_commit = []\<rparr> in
      case db_list_variants (se_list_run e) (the (sq_database q)) collect_variant_provenance provenance of
        (ret, p) \<Rightarrow>
          if ret < 0 then (- 1, res, g)
          else if vp_root p = [] \<or> vp_commit p = [] then (0, res, g)
          else (case relative_path (sq_path q) (vp_root p) of
             None \<Rightarrow> (0, res, g)
           | Some path \<Rightarrow>
               (case git_blob ld lib (vp_root p) (vp_commit p) path g of (r, blob, g1) \<Rightarrow>
                  if r < 0 then (- 1, res, g1)
                  else
                  let res1 = (if r = 0 then (read_blob_range (or_empty (bd_content (lb_data blob))) q res)\<lparr>sr_origin := GitCommit\<rparr>
                              else res)
                  in (0, res1, snd (git_blob_destroy blob g1)))))"

definition drifted_result :: "string \<Rightarrow> u32 \<Rightarrow> source_result" where
  "drifted_result path line =
     new_result\<lparr>sr_status := Drifted, sr_physical_path := path, sr_first_line := line, sr_drifted := True\<rparr>"

definition read_working_tree :: "source_env \<Rightarrow> string \<Rightarrow> source_request \<Rightarrow> int \<times> source_result" where
  "read_working_tree e root q =
     (let res = new_result in
      if \<not> valid_request q then (- 1, res)
      else
      let m0 = \<lparr>fm_mtime_ns = 0, fm_size = 0, fm_found = False\<rparr> in
      case db_find_file (se_find_run e) (the (sq_database q)) (Some (sq_variant q)) (Some (sq_path q))
             collect_file_metadata m0 of
        (ret, m) \<Rightarrow>
          if ret < 0 then (- 1, res)
          else if \<not> fm_found m then (0, res)
          else
          let path = resolve root (sq_path q);
              res1 = res\<lparr>sr_physical_path := path, sr_first_line := sq_first_line q\<rparr>
          in (case se_before e path of
             Stat_Error \<Rightarrow> (- 1, res1)
           | No_Entry \<Rightarrow> (0, res1\<lparr>sr_status := Missing, sr_drifted := True\<rparr>)
           | Stat before \<Rightarrow>
               if \<not> metadata_matches m before then (0, res1\<lparr>sr_status := Drifted, sr_drifted := True\<rparr>)
               else (case read_range e path q res1 of
                  (False, res2) \<Rightarrow> (- 1, res2)
                | (True, res2) \<Rightarrow>
                    (case se_after e path of
                       Stat after \<Rightarrow>
                         if \<not> metadata_matches m after then (0, drifted_result path (sq_first_line q))
                         else (0, res2\<lparr>sr_status := Current, sr_origin := WorkingTree\<rparr>)
                     | _ \<Rightarrow> (- 1, res2)))))"

definition read_source ::
  "source_env \<Rightarrow> loader \<Rightarrow> 'h git_lib \<Rightarrow> string \<Rightarrow> source_request \<Rightarrow> git_state \<Rightarrow> int \<times> source_result \<times> git_state" where
  "read_source e ld lib root q g =
     (case read_working_tree e root q of (ret, res) \<Rightarrow>
        if ret < 0 then (- 1, res, g)
        else if sr_status res = Current \<or> sr_status res = NotIndexed then (0, res, g)
        else read_git_commit e ld lib q res g)"

end
