(* ===== verification/Semantic_Query.thy ===== *)
theory Semantic_Query
  imports Source_Resolver Semindex_Types
begin

text \<open>
  The unsaved documents of the language server (\<open>tools/lsp/lsp_overlay.cpp\<close>) and the query for the
  records at a position (\<open>lib/semindex_semantic\<close>), which asks the overlay before the database.
\<close>

section \<open>The overlay\<close>

record overlay_record =
  ov_symbol :: string
  ov_context :: string
  ov_record :: record_type
  ov_kind :: symbol_kind
  ov_action :: u32
  ov_mode :: u32
  ov_line :: u32
  ov_column :: u32
  ov_usr_id :: u64
  ov_context_usr_id :: u64
  ov_local :: int

type_synonym overlay = "string \<rightharpoonup> overlay_record list"

definition overlay_name :: "string option \<Rightarrow> string option \<Rightarrow> string" where
  "overlay_name owner name =
     (if nonempty owner
      then or_empty owner @ (if contains_sub ''::'' (or_empty owner) then ''::'' else ''.'') @ or_empty name
      else or_empty name)"

text \<open>The leaf of a name is that of the reader, \<open>qualified_leaf\<close>: the code has its own copy.\<close>

definition leaf_name :: "string \<Rightarrow> string" where
  "leaf_name symbol = qualified_leaf symbol"

definition matches_filter :: "record_type \<Rightarrow> query_options \<Rightarrow> bool" where
  "matches_filter rec opts \<longleftrightarrow>
     (if q_record opts = DB_RECORD_ALL then True
      else if q_record opts = DB_RECORD_SYMBOL then rec \<noteq> DB_REFERENCE
      else if q_record opts = DB_RECORD_DECLARATION then rec = DB_DECLARATION
      else if q_record opts = DB_RECORD_DEFINITION then rec = DB_DEFINITION
      else if q_record opts = DB_RECORD_REFERENCE then rec = DB_REFERENCE
      else False)"

text \<open>Two paths are equal when their elements are.\<close>

definition matches_options :: "db_record \<Rightarrow> query_options \<Rightarrow> bool" where
  "matches_options rec opts \<longleftrightarrow>
     (case q_symbol opts of None \<Rightarrow> True | Some s \<Rightarrow> dr_symbol rec = s) \<and>
     (case q_path opts of None \<Rightarrow> True
      | Some p \<Rightarrow> elements (lexically_normal (dr_path rec)) = elements (lexically_normal p)) \<and>
     (case q_context opts of None \<Rightarrow> True | Some c \<Rightarrow> dr_context rec = c) \<and>
     (q_has_mode opts \<longrightarrow> dr_mode rec = q_mode opts) \<and>
     (q_has_usr_id opts \<longrightarrow> dr_usr_id rec = q_usr_id opts) \<and>
     (q_has_kind opts \<longrightarrow> dr_kind rec = q_kind opts) \<and>
     (q_has_local opts \<longrightarrow> dr_local rec = q_local opts) \<and>
     matches_filter (dr_record rec) opts"

definition overlay_symbol :: "symbol \<Rightarrow> overlay_record option" where
  "overlay_symbol s =
     map_option (\<lambda>context.
       \<lparr>ov_symbol = overlay_name (sym_owner s) (sym_name s), ov_context = context,
        ov_record = (if sym_definition s \<noteq> 0 then DB_DEFINITION else DB_DECLARATION), ov_kind = sym_kind s,
        ov_action = word_of_int (sym_definition s), ov_mode = 0, ov_line = sym_line s, ov_column = sym_column s,
        ov_usr_id = sym_usr_id s, ov_context_usr_id = 0, ov_local = sym_local s\<rparr>) (sym_context s)"

definition overlay_use :: "use \<Rightarrow> overlay_record option" where
  "overlay_use u =
     map_option (\<lambda>context.
       \<lparr>ov_symbol = overlay_name (use_owner u) (use_name u), ov_context = context,
        ov_record = DB_REFERENCE, ov_kind = use_symbol_kind u,
        ov_action = word_of_int (use_code (use_kind_of u)), ov_mode = use_mode u, ov_line = use_line u,
        ov_column = use_column u, ov_usr_id = use_usr_id u, ov_context_usr_id = use_context_usr_id u,
        ov_local = use_local u\<rparr>) (use_context u)"

definition in_main :: "string \<Rightarrow> string \<Rightarrow> string \<Rightarrow> bool" where
  "in_main directory main_path file \<longleftrightarrow> elements (resolve_against directory file) = elements main_path"

text \<open>A record without a context is a string made of a null pointer: the value \<open>None\<close>.\<close>

definition collect_records :: "('a \<Rightarrow> overlay_record option) \<Rightarrow> 'a list \<Rightarrow> overlay_record list option" where
  "collect_records f xs = (if list_all (\<lambda>x. f x \<noteq> None) xs then Some (map (the \<circ> f) xs) else None)"

definition overlay_replace :: "string \<Rightarrow> string \<Rightarrow> index \<Rightarrow> overlay \<Rightarrow> overlay option" where
  "overlay_replace path directory ix ov =
     (let main_path = lexically_normal path;
          symbols = filter (\<lambda>s. in_main directory main_path (sym_file s)) (ix_symbols ix);
          uses = filter (\<lambda>u. in_main directory main_path (use_file u)) (ix_uses ix)
      in case collect_records overlay_symbol symbols of
           None \<Rightarrow> None
         | Some rs \<Rightarrow> (case collect_records overlay_use uses of
             None \<Rightarrow> None
           | Some us \<Rightarrow> Some (ov(main_path \<mapsto> rs @ us))))"

definition overlay_erase :: "string \<Rightarrow> overlay \<Rightarrow> overlay" where
  "overlay_erase path ov = ov(lexically_normal path := None)"

definition overlay_contains :: "overlay \<Rightarrow> string \<Rightarrow> bool" where
  "overlay_contains ov path \<longleftrightarrow> ov (lexically_normal path) \<noteq> None"

definition overlay_view :: "string \<Rightarrow> string \<Rightarrow> overlay_record \<Rightarrow> db_record" where
  "overlay_view path variant r =
     \<lparr>dr_variant = variant, dr_path = path, dr_symbol = ov_symbol r, dr_context = ov_context r,
      dr_record = ov_record r, dr_kind = kind_code (ov_kind r), dr_action = ov_action r, dr_mode = ov_mode r,
      dr_line = ov_line r, dr_column = ov_column r, dr_usr_id = ov_usr_id r,
      dr_context_usr_id = ov_context_usr_id r, dr_local = ov_local r\<rparr>"

definition emit_overlay_record ::
  "string \<Rightarrow> string \<Rightarrow> query_options option \<Rightarrow> u32 \<Rightarrow> u32 \<Rightarrow> ('s \<Rightarrow> db_record \<Rightarrow> int \<times> 's)
     \<Rightarrow> overlay_record \<Rightarrow> 's \<Rightarrow> int \<times> 's" where
  "emit_overlay_record path variant opts line column cb stored s =
     (let rec = overlay_view path variant stored in
      if (case opts of None \<Rightarrow> False | Some q \<Rightarrow> \<not> matches_options rec q) then (0, s)
      else if line \<noteq> 0 \<and> (dr_line rec \<noteq> line \<or> dr_column rec > column \<or>
                unat (column - dr_column rec) \<ge> length (leaf_name (ov_symbol stored))) then (0, s)
      else cb s rec)"

fun emit_overlay_records :: "(overlay_record \<Rightarrow> 's \<Rightarrow> int \<times> 's) \<Rightarrow> overlay_record list \<Rightarrow> 's \<Rightarrow> int \<times> 's" where
  "emit_overlay_records emit [] s = (0, s)"
| "emit_overlay_records emit (r # rs) s =
     (case emit r s of (ret, s1) \<Rightarrow> if ret \<noteq> 0 then (ret, s1) else emit_overlay_records emit rs s1)"

definition overlay_find_at ::
  "overlay \<Rightarrow> string \<Rightarrow> string option \<Rightarrow> u32 \<Rightarrow> u32 \<Rightarrow> ('s \<Rightarrow> db_record \<Rightarrow> int \<times> 's) \<Rightarrow> 's \<Rightarrow> int \<times> 's" where
  "overlay_find_at ov path variant line column cb s =
     (case ov (lexically_normal path) of
        None \<Rightarrow> (0, s)
      | Some records \<Rightarrow>
          if line = 0 \<or> column = 0 then (- 1, s)
          else emit_overlay_records
            (emit_overlay_record (lexically_normal path) (or_empty variant) None line column cb) records s)"

definition overlay_query ::
  "overlay \<Rightarrow> string \<Rightarrow> string option \<Rightarrow> query_options \<Rightarrow> ('s \<Rightarrow> db_record \<Rightarrow> int \<times> 's) \<Rightarrow> 's \<Rightarrow> int \<times> 's" where
  "overlay_query ov path variant opts cb s =
     (case ov (lexically_normal path) of
        None \<Rightarrow> (0, s)
      | Some records \<Rightarrow>
          emit_overlay_records
            (emit_overlay_record (lexically_normal path) (or_empty variant) (Some opts) 0 0 cb) records s)"

section \<open>Records at a position\<close>

text \<open>The key by which two records are one: their identity or, without one, also where they are.\<close>

type_synonym symbol_identity = "string \<times> string \<times> int \<times> u64"

type_synonym collector_key = "symbol_identity \<times> string \<times> string \<times> int"

definition identity_of :: "db_record \<Rightarrow> symbol_identity" where
  "identity_of r = (dr_variant r, dr_symbol r, dr_kind r, dr_usr_id r)"

definition identity_view :: "symbol_identity \<Rightarrow> identity" where
  "identity_view i = (case i of (variant, symbol, kind, usr) \<Rightarrow>
     \<lparr>id_variant = Some variant, id_symbol = Some symbol, id_usr_id = usr, id_kind = kind\<rparr>)"

definition collector_key :: "db_record \<Rightarrow> collector_key" where
  "collector_key r =
     (identity_of r, if dr_usr_id r = 0 then (dr_path r, dr_context r, dr_local r) else ([], [], 0))"

record collector =
  co_records :: "db_record list"
  co_keys :: "collector_key list"

definition collect_record :: "collector \<Rightarrow> db_record \<Rightarrow> int \<times> collector" where
  "collect_record c r =
     (let key = collector_key r in
      (0, if key \<in> set (co_keys c) then c
          else c\<lparr>co_keys := key # co_keys c, co_records := co_records c @ [r]\<rparr>))"

record position_query =
  pq_path :: string
  pq_variant :: string
  pq_line :: u32
  pq_column :: u32
  pq_overlay :: "overlay option"

text \<open>\<open>runs\<close> are the outcomes of the queries for the paths.\<close>

definition query_path :: "(string \<Rightarrow> run) \<Rightarrow> database \<Rightarrow> position_query \<Rightarrow> string \<Rightarrow> collector \<Rightarrow> int \<times> collector" where
  "query_path runs db q path c =
     (let variant = (if pq_variant q = [] then None else Some (pq_variant q));
          shadow = (case pq_overlay q of None \<Rightarrow> None | Some ov \<Rightarrow> if overlay_contains ov path then Some ov else None)
      in case (case shadow of None \<Rightarrow> (0, c)
               | Some ov \<Rightarrow> overlay_find_at ov path variant (pq_line q) (pq_column q) collect_record c) of
           (ret, c1) \<Rightarrow>
             if ret < 0 then (- 1, c1)
             else if shadow \<noteq> None \<and> co_records c1 \<noteq> [] then (0, c1)
             else (case db_find_at (runs path) db (Some path) variant (pq_line q) (pq_column q) collect_record c1 of
               (ret2, c2) \<Rightarrow> (if ret2 < 0 then - 1 else 0, c2)))"

fun query_paths :: "(string \<Rightarrow> run) \<Rightarrow> database \<Rightarrow> position_query \<Rightarrow> string list \<Rightarrow> collector \<Rightarrow> int \<times> collector" where
  "query_paths runs db q [] c = (0, c)"
| "query_paths runs db q (path # paths) c =
     (case query_path runs db q path c of (ret, c1) \<Rightarrow>
        if ret < 0 then (- 1, c1)
        else if co_records c1 \<noteq> [] then (0, c1)
        else query_paths runs db q paths c1)"

definition records_at ::
  "(string \<Rightarrow> run) \<Rightarrow> database option \<Rightarrow> source_env \<Rightarrow> string \<Rightarrow> position_query \<Rightarrow> int \<times> db_record list" where
  "records_at runs db e root q =
     (case db of
        None \<Rightarrow> (- 1, [])
      | Some d \<Rightarrow>
          if pq_path q = [] \<or> pq_line q = 0 \<or> pq_column q = 0 then (- 1, [])
          else (case query_paths runs d q (database_paths e root (pq_path q)) \<lparr>co_records = [], co_keys = []\<rparr> of
            (ret, c) \<Rightarrow> if ret < 0 then (- 1, []) else (0, co_records c)))"

section \<open>Properties\<close>

fun dedupe :: "collector_key list \<Rightarrow> db_record list \<Rightarrow> db_record list" where
  "dedupe seen [] = []"
| "dedupe seen (r # rs) =
     (if collector_key r \<in> set seen then dedupe seen rs
      else r # dedupe (collector_key r # seen) rs)"

definition spans :: "u32 \<Rightarrow> u32 \<Rightarrow> db_record \<Rightarrow> bool" where
  "spans line column r \<longleftrightarrow> dr_line r = line \<and> dr_column r \<le> column \<and>
     unat (column - dr_column r) < length (qualified_leaf (dr_symbol r))"

lemma collect_overlay:
  assumes "line \<noteq> 0"
  shows "emit_overlay_records (emit_overlay_record path variant None line column collect_record) rs c =
    (0, fold (\<lambda>r c. snd (collect_record c r)) (filter (spans line column) (map (overlay_view path variant) rs)) c)"
  using assms
proof (induction rs arbitrary: c)
  case (Cons r rs)
  then show ?case
    by (auto simp: emit_overlay_record_def Let_def spans_def leaf_name_def collect_record_def overlay_view_def not_less not_le)
qed simp

lemma deliver_records: "deliver collect_record rs c = (0, fold (\<lambda>r c. snd (collect_record c r)) rs c)"
  by (induction rs arbitrary: c) (auto simp: collect_record_def Let_def)

lemma fold_collect:
  "co_records (fold (\<lambda>r c. snd (collect_record c r)) rs c) = co_records c @ dedupe (co_keys c) rs"
  by (induction rs arbitrary: c) (auto simp: collect_record_def Let_def)

lemma dedupe_keys: "distinct (map collector_key (dedupe seen rs)) \<and>
    set (map collector_key (dedupe seen rs)) = collector_key ` set rs - set seen"
  by (induction seen rs rule: dedupe.induct) auto

lemma dedupe_sub: "set (dedupe seen rs) \<subseteq> set rs"
  by (induction seen rs rule: dedupe.induct) auto

lemma dedupe_Nil [simp]: "dedupe [] rs = [] \<longleftrightarrow> rs = []"
  by (cases rs) auto

text \<open>What one path has at the position: the overlay, if it has anything, else the database.\<close>

definition variant_arg :: "position_query \<Rightarrow> string option" where
  "variant_arg q = (if pq_variant q = [] then None else Some (pq_variant q))"

definition overlay_hits :: "position_query \<Rightarrow> string \<Rightarrow> db_record list" where
  "overlay_hits q path =
     (case pq_overlay q of None \<Rightarrow> [] | Some ov \<Rightarrow> (case ov (lexically_normal path) of None \<Rightarrow> []
      | Some rs \<Rightarrow> filter (spans (pq_line q) (pq_column q))
          (map (overlay_view (lexically_normal path) (or_empty (variant_arg q))) rs)))"

definition database_hits :: "database \<Rightarrow> position_query \<Rightarrow> string \<Rightarrow> db_record list" where
  "database_hits db q path =
     filter (at_position (pq_column q)) (map emitted (find_at_rows db path (variant_arg q) (pq_line q) (pq_column q)))"

definition path_hits :: "database \<Rightarrow> position_query \<Rightarrow> string \<Rightarrow> db_record list" where
  "path_hits db q path = (if overlay_hits q path \<noteq> [] then overlay_hits q path else database_hits db q path)"

lemma find_at_collect:
  assumes "path \<noteq> []" and "line \<noteq> 0" and "column \<noteq> 0"
    and "db_find_at run db (Some path) variant line column collect_record c = (ret, c')" and "\<not> ret < 0"
  shows "c' = fold (\<lambda>r c. snd (collect_record c r))
    (filter (at_position column) (map emitted (find_at_rows db path variant line column))) c"
  using assms by (cases run) (auto simp: db_find_at_def emit_records_def deliver_records)

lemma query_path_hits:
  assumes "query_path runs db q path \<lparr>co_records = [], co_keys = []\<rparr> = (ret, c)" and "\<not> ret < 0"
    and "path \<noteq> []" and "pq_line q \<noteq> 0" and "pq_column q \<noteq> 0"
  shows "co_records c = dedupe [] (path_hits db q path)" and "path_hits db q path = [] \<Longrightarrow> c = \<lparr>co_records = [], co_keys = []\<rparr>"
proof -
  let ?c0 = "\<lparr>co_records = [], co_keys = []\<rparr>"
  have "c = fold (\<lambda>r c. snd (collect_record c r)) (path_hits db q path) ?c0"
  proof (cases "overlay_hits q path = []")
    case True
    then have first: "(case (case pq_overlay q of None \<Rightarrow> None | Some ov \<Rightarrow> if overlay_contains ov path then Some ov else None) of
        None \<Rightarrow> (0, ?c0) | Some ov \<Rightarrow> overlay_find_at ov path (variant_arg q) (pq_line q) (pq_column q) collect_record ?c0) = (0, ?c0)"
      using assms(4,5)
      by (auto simp: overlay_hits_def overlay_find_at_def overlay_contains_def collect_overlay split: option.splits)
    obtain r2 c2 where f: "db_find_at (runs path) db (Some path) (variant_arg q) (pq_line q) (pq_column q) collect_record ?c0 = (r2, c2)"
      by (rule prod.exhaust)
    have "c = c2" "\<not> r2 < 0"
      using assms(1,2) by (auto simp: query_path_def Let_def variant_arg_def [symmetric] first f split: if_splits)
    with find_at_collect [OF assms(3-5) f] True show ?thesis by (simp add: path_hits_def database_hits_def)
  next
    case False
    then obtain ov rs where ov: "pq_overlay q = Some ov" "ov (lexically_normal path) = Some rs"
      by (auto simp: overlay_hits_def split: option.splits)
    let ?c1 = "fold (\<lambda>r c. snd (collect_record c r)) (overlay_hits q path) ?c0"
    have "overlay_find_at ov path (variant_arg q) (pq_line q) (pq_column q) collect_record ?c0 = (0, ?c1)"
      using ov assms(4,5) by (simp add: overlay_find_at_def collect_overlay overlay_hits_def)
    moreover have "co_records ?c1 \<noteq> []" using False by (simp add: fold_collect)
    ultimately show ?thesis
      using assms(1,2) ov False
      by (auto simp: query_path_def Let_def variant_arg_def [symmetric] overlay_contains_def path_hits_def)
  qed
  then show "co_records c = dedupe [] (path_hits db q path)" "path_hits db q path = [] \<Longrightarrow> c = ?c0"
    by (simp_all add: fold_collect)
qed

text \<open>The hits of the first path that has any.\<close>

fun first_hits :: "database \<Rightarrow> position_query \<Rightarrow> string list \<Rightarrow> db_record list" where
  "first_hits db q [] = []"
| "first_hits db q (p # ps) = (if path_hits db q p \<noteq> [] then path_hits db q p else first_hits db q ps)"

lemma query_paths_hits:
  assumes "pq_line q \<noteq> 0" and "pq_column q \<noteq> 0"
  shows "[] \<notin> set paths \<Longrightarrow> query_paths runs db q paths \<lparr>co_records = [], co_keys = []\<rparr> = (ret, c) \<Longrightarrow> \<not> ret < 0 \<Longrightarrow>
    co_records c = dedupe [] (first_hits db q paths)"
proof (induction paths)
  case (Cons p ps)
  let ?c0 = "\<lparr>co_records = [], co_keys = []\<rparr>"
  obtain r c1 where s: "query_path runs db q p ?c0 = (r, c1)" by (rule prod.exhaust)
  have r: "\<not> r < 0" using Cons.prems s by auto
  have "p \<noteq> []" using Cons.prems(1) by auto
  note hits = query_path_hits [OF s r this assms]
  show ?case
  proof (cases "path_hits db q p = []")
    case True
    with Cons s r hits show ?thesis by simp
  next
    case False
    with Cons.prems s r hits show ?thesis by (auto split: if_splits)
  qed
qed auto

lemma database_paths_head:
  "is_absolute (lexically_normal path) \<Longrightarrow> \<exists>ps. database_paths e root path = lexically_normal path # ps"
  by (simp add: database_paths_def Let_def)

lemma database_paths_nonempty: "[] \<notin> set (database_paths e root path)"
  by (auto simp: database_paths_def Let_def below_def is_absolute_def)

lemma column_unsigned_uint [simp]: "column_unsigned (uint w) = w"
  by (simp add: column_unsigned_def column_int_def)

lemma database_hits_span: "pq_column q \<noteq> 0 \<Longrightarrow> r \<in> set (database_hits db q path) \<Longrightarrow> spans (pq_line q) (pq_column q) r"
  by (auto simp: database_hits_def find_at_rows_def spans_def at_position_def emitted_def Let_def)

lemma first_hits_span:
  "pq_column q \<noteq> 0 \<Longrightarrow> r \<in> set (first_hits db q paths) \<Longrightarrow> spans (pq_line q) (pq_column q) r"
proof (induction paths)
  case (Cons p ps)
  have "r \<in> set (overlay_hits q p) \<Longrightarrow> spans (pq_line q) (pq_column q) r"
    by (auto simp: overlay_hits_def split: option.splits)
  with Cons database_hits_span show ?case by (auto simp: path_hits_def split: if_splits)
qed simp

text \<open>
  The records at a position are those of the first form of the path under which there are any,
  and for one form those of the unsaved document, if it has any there, hide those of the database.
  Each record spans the position, no two have the same identity, and none is lost: every record
  found has a representative with its key.
\<close>

theorem records_at_position:
  assumes "records_at runs (Some db) e root q = (0, records)"
  shows "let hits = first_hits db q (database_paths e root (pq_path q)) in
    records = dedupe [] hits \<and> set records \<subseteq> set hits \<and> distinct (map collector_key records) \<and>
    collector_key ` set records = collector_key ` set hits \<and>
    list_all (spans (pq_line q) (pq_column q)) records"
proof -
  obtain ret c where c: "query_paths runs db q (database_paths e root (pq_path q)) \<lparr>co_records = [], co_keys = []\<rparr> = (ret, c)"
    by (rule prod.exhaust)
  have q: "pq_line q \<noteq> 0" "pq_column q \<noteq> 0" and "\<not> ret < 0" "records = co_records c"
    using assms by (auto simp: records_at_def c split: if_splits)
  with query_paths_hits [OF _ _ database_paths_nonempty c] have "records = dedupe [] (first_hits db q (database_paths e root (pq_path q)))"
    by simp
  moreover have "list_all (spans (pq_line q) (pq_column q)) (dedupe [] (first_hits db q ps))" for ps
    unfolding list_all_iff using dedupe_sub [of "[]" "first_hits db q ps"] first_hits_span [OF q(2)] by blast
  ultimately show ?thesis using dedupe_keys [of "[]"] dedupe_sub by (simp add: Let_def)
qed

section \<open>Witness\<close>

definition sample_overlay_record :: overlay_record where
  "sample_overlay_record =
     \<lparr>ov_symbol = ''S.count'', ov_context = [], ov_record = DB_DEFINITION, ov_kind = SYMBOL_FIELD, ov_action = 1, ov_mode = 0,
      ov_line = 3, ov_column = 7, ov_usr_id = 5, ov_context_usr_id = 0, ov_local = 0\<rparr>"

definition sample_position :: position_query where
  "sample_position =
     \<lparr>pq_path = ''/w/a.c'', pq_variant = [], pq_line = 3, pq_column = 9,
      pq_overlay = Some [''/w/a.c'' \<mapsto> [sample_overlay_record]]\<rparr>"

definition silent_source_env :: source_env where
  "silent_source_env = \<lparr>se_before = (\<lambda>p. No_Entry), se_after = (\<lambda>p. No_Entry), se_open = (\<lambda>p. None), se_cwd = ''/'',
     se_find_run = Completes, se_list_run = Completes\<rparr>"

lemma sample_normal: "lexically_normal ''/w/a.c'' = ''/w/a.c''"
  by (simp add: lexically_normal_def normal_names_def normal_step_def names_def is_absolute_def ends_slash_def)

lemma sample_leaf: "qualified_leaf ''S.count'' = ''count''"
  by (simp add: qualified_leaf_def)

lemma sample_hit:
  "overlay_hits sample_position ''/w/a.c'' = [overlay_view ''/w/a.c'' [] sample_overlay_record]"
  by (simp add: overlay_hits_def sample_position_def sample_normal spans_def overlay_view_def sample_overlay_record_def
      sample_leaf variant_arg_def)

lemma sample_query:
  "query_path (\<lambda>p. Completes) db sample_position ''/w/a.c'' \<lparr>co_records = [], co_keys = []\<rparr> =
     (0, snd (collect_record \<lparr>co_records = [], co_keys = []\<rparr> (overlay_view ''/w/a.c'' [] sample_overlay_record)))"
proof -
  define hit where "hit = overlay_view ''/w/a.c'' [] sample_overlay_record"
  have "spans 3 9 hit"
    by (simp add: hit_def spans_def overlay_view_def sample_overlay_record_def sample_leaf)
  then have "overlay_find_at [''/w/a.c'' \<mapsto> [sample_overlay_record]] ''/w/a.c'' None 3 9 collect_record c0 =
      (0, snd (collect_record c0 hit))" for c0
    by (simp add: overlay_find_at_def sample_normal collect_overlay hit_def [symmetric] del: emit_overlay_records.simps)
  moreover have "co_records (snd (collect_record \<lparr>co_records = [], co_keys = []\<rparr> hit)) \<noteq> []"
    by (simp add: collect_record_def)
  moreover have "overlay_contains [''/w/a.c'' \<mapsto> [sample_overlay_record]] ''/w/a.c''"
    by (simp add: overlay_contains_def sample_normal)
  ultimately show ?thesis
    unfolding hit_def [symmetric] query_path_def sample_position_def by simp
qed

lemma sample_found:
  "records_at (\<lambda>p. Completes) (Some empty_database) e ''/w'' sample_position =
     (0, [overlay_view ''/w/a.c'' [] sample_overlay_record])"
proof -
  obtain ps where ps: "database_paths e ''/w'' (pq_path sample_position) = ''/w/a.c'' # ps"
    using database_paths_head [of "''/w/a.c''" e "''/w''"]
    by (auto simp: sample_position_def sample_normal is_absolute_def)
  have q: "pq_path sample_position \<noteq> []" "pq_line sample_position \<noteq> 0" "pq_column sample_position \<noteq> 0"
    by (simp_all add: sample_position_def)
  show ?thesis
    using q by (simp add: records_at_def ps sample_query collect_record_def)
qed

theorem records_at_position_witness:
  "let hits = first_hits empty_database sample_position (database_paths silent_source_env ''/w'' ''/w/a.c'') in
     [overlay_view ''/w/a.c'' [] sample_overlay_record] = dedupe [] hits"
  using records_at_position [OF sample_found, of silent_source_env] by (simp add: Let_def sample_position_def)

end
