(* ===== verification/Transport.thy ===== *)
theory Transport
  imports Streams
begin

text \<open>
  JSON messages and how the servers exchange them: \<open>tools/lsp/lsp_transport.cpp\<close> (a header and a
  body), \<open>tools/mcp/mcp_transport.cpp\<close> (one message per line) and the log of both,
  \<open>lib/semindex_protocol/protocol_logger.cpp\<close>. The JSON library is not part of the repository: its
  values are a datatype here, and its parser and printer are parameters.
\<close>

section \<open>JSON values\<close>

text \<open>\<open>VInt\<close> is a number that fits into 64 bits, \<open>VReal\<close> any other one.\<close>

datatype jvalue =
    VNull
  | VBool bool
  | VInt int
  | VReal string
  | VString string
  | VArray "jvalue list"
  | VObject "(string \<times> jvalue) list"

type_synonym object = "(string \<times> jvalue) list"

text \<open>The accessors of an object: nothing where the key is missing or its value has another type.\<close>

definition get :: "object \<Rightarrow> string \<Rightarrow> jvalue option" where
  "get ob key = map_of ob key"

definition as_string :: "jvalue \<Rightarrow> string option" where
  "as_string v = (case v of VString s \<Rightarrow> Some s | _ \<Rightarrow> None)"

definition as_integer :: "jvalue \<Rightarrow> int option" where
  "as_integer v = (case v of VInt i \<Rightarrow> Some i | _ \<Rightarrow> None)"

definition as_object :: "jvalue \<Rightarrow> object option" where
  "as_object v = (case v of VObject ob \<Rightarrow> Some ob | _ \<Rightarrow> None)"

definition get_string :: "object \<Rightarrow> string \<Rightarrow> string option" where
  "get_string ob key = Option.bind (get ob key) as_string"

definition get_integer :: "object \<Rightarrow> string \<Rightarrow> int option" where
  "get_integer ob key = Option.bind (get ob key) as_integer"

definition get_object :: "object \<Rightarrow> string \<Rightarrow> object option" where
  "get_object ob key = Option.bind (get ob key) as_object"

definition get_array :: "object \<Rightarrow> string \<Rightarrow> jvalue list option" where
  "get_array ob key = Option.bind (get ob key) (\<lambda>v. case v of VArray vs \<Rightarrow> Some vs | _ \<Rightarrow> None)"

definition get_boolean :: "object \<Rightarrow> string \<Rightarrow> bool option" where
  "get_boolean ob key = Option.bind (get ob key) (\<lambda>v. case v of VBool b \<Rightarrow> Some b | _ \<Rightarrow> None)"

section \<open>The log\<close>

record transport_env =
  te_out :: sink
  te_log :: sink
  te_stamp :: "stream \<Rightarrow> string"
  te_print :: "jvalue \<Rightarrow> string"
  te_parse :: "string \<Rightarrow> jvalue option"

text \<open>\<open>te_stamp\<close> is the time with its microseconds.\<close>

definition logger_write :: "transport_env \<Rightarrow> string \<Rightarrow> string \<Rightarrow> stream option \<Rightarrow> bool \<times> stream option" where
  "logger_write e direction payload log =
     (case log of
        None \<Rightarrow> (True, None)
      | Some out \<Rightarrow>
          let out1 = cputs (te_log e) [te_stamp e out, ''Z '', direction, newline, payload, newline @ newline, []] out
          in (\<not> o_error out1, Some out1))"

section \<open>The transport of the language server\<close>

definition MAX_LSP_MESSAGE :: nat where
  "MAX_LSP_MESSAGE = 64 * 1024 * 1024"

datatype read_result = Message | EndOfFile | ReadError

record transport =
  tr_in :: istream
  tr_out :: stream
  tr_log :: "stream option"

definition content_length_key :: string where
  "content_length_key = ''Content-Length:''"

definition is_blank :: "char \<Rightarrow> bool" where
  "is_blank c \<longleftrightarrow> c = CHR '' '' \<or> c = CHR 0x09"

text \<open>The value of a header line behind its key.\<close>

definition content_length :: "string \<Rightarrow> nat option" where
  "content_length text =
     (case from_chars10 (dropWhile is_blank text) of
        None \<Rightarrow> None
      | Some n \<Rightarrow> if n = 0 \<or> n > MAX_LSP_MESSAGE then None else Some n)"

text \<open>
  The loop over the header lines, with the last line and the length that was found. It ends with
  the line and the length, or with an invalid header.
\<close>

function lsp_headers :: "istream \<Rightarrow> string \<Rightarrow> nat option \<Rightarrow> (string \<times> nat option) option \<times> istream" where
  "lsp_headers s line len =
     (case getline s line of
        (False, line1, s1) \<Rightarrow> (Some (line1, len), s1)
      | (True, line1, s1) \<Rightarrow>
          let text = strip_cr line1 in
          if text = [] then (Some (text, len), s1)
          else if take (length content_length_key) text \<noteq> content_length_key then lsp_headers s1 text len
          else if len \<noteq> None then (None, s1)
          else case content_length (drop (length content_length_key) text) of
            None \<Rightarrow> (None, s1)
          | Some n \<Rightarrow> lsp_headers s1 text (Some n))"
  by pat_completeness auto
termination
  by (relation "measure (\<lambda>(s, line, len). length (in_rest s))") (auto dest: getline_shrinks [OF sym])

declare lsp_headers.simps [simp del]

definition lsp_read :: "transport_env \<Rightarrow> transport \<Rightarrow> read_result \<times> string \<times> transport" where
  "lsp_read e t =
     (case lsp_headers (tr_in t) [] None of
        (None, s1) \<Rightarrow> (ReadError, [], t\<lparr>tr_in := s1\<rparr>)
      | (Some (line, len), s1) \<Rightarrow>
          if in_failed s1 \<and> line = [] \<and> len = None
          then (if in_eof s1 then EndOfFile else ReadError, [], t\<lparr>tr_in := s1\<rparr>)
          else case len of
            None \<Rightarrow> (ReadError, [], t\<lparr>tr_in := s1\<rparr>)
          | Some n \<Rightarrow>
              (case read_bytes s1 n of (payload, s2) \<Rightarrow>
                 if length payload \<noteq> n then (ReadError, payload, t\<lparr>tr_in := s2\<rparr>)
                 else case logger_write e ''CLIENT --> SERVER'' payload (tr_log t) of
                   (logged, log1) \<Rightarrow>
                     (if logged then Message else ReadError, payload, t\<lparr>tr_in := s2, tr_log := log1\<rparr>)))"

definition crlf :: string where
  "crlf = [CHR 0x0D, CHR 0x0A]"

definition lsp_write :: "transport_env \<Rightarrow> jvalue \<Rightarrow> transport \<Rightarrow> bool \<times> transport" where
  "lsp_write e message t =
     (let payload = te_print e message;
          out1 = cputs (te_out e) [content_length_key @ '' '', decimal (length payload), crlf @ crlf, payload, []] (tr_out t)
      in if o_error out1 then (False, t\<lparr>tr_out := out1\<rparr>)
         else case logger_write e ''SERVER --> CLIENT'' payload (tr_log t) of
           (logged, log1) \<Rightarrow> (logged, t\<lparr>tr_out := out1, tr_log := log1\<rparr>))"

section \<open>The transport of the model context server\<close>

definition MAX_MCP_MESSAGE :: nat where
  "MAX_MCP_MESSAGE = 4 * 1024 * 1024"

definition mcp_read :: "transport_env \<Rightarrow> transport \<Rightarrow> read_result \<times> string \<times> transport" where
  "mcp_read e t =
     (case getline (tr_in t) [] of
        (False, line, s1) \<Rightarrow> (if in_eof s1 then EndOfFile else ReadError, line, t\<lparr>tr_in := s1\<rparr>)
      | (True, line, s1) \<Rightarrow>
          let payload = strip_cr line in
          if payload = [] \<or> length payload > MAX_MCP_MESSAGE then (ReadError, payload, t\<lparr>tr_in := s1\<rparr>)
          else case logger_write e ''CLIENT --> SERVER'' payload (tr_log t) of
            (logged, log1) \<Rightarrow> (if logged then Message else ReadError, payload, t\<lparr>tr_in := s1, tr_log := log1\<rparr>))"

definition mcp_write :: "transport_env \<Rightarrow> jvalue \<Rightarrow> transport \<Rightarrow> bool \<times> transport" where
  "mcp_write e message t =
     (let payload = te_print e message;
          out1 = cputs (te_out e) [payload, newline, []] (tr_out t)
      in if o_error out1 then (False, t\<lparr>tr_out := out1\<rparr>)
         else case logger_write e ''SERVER --> CLIENT'' payload (tr_log t) of
           (logged, log1) \<Rightarrow> (logged, t\<lparr>tr_out := out1, tr_log := log1\<rparr>))"

end
