(* ===== verification/Lsp_Source.thy ===== *)
theory Lsp_Source
  imports Semantic_Query Transport
begin

text \<open>
  Documents and positions of the language server, \<open>tools/lsp/lsp_source.cpp\<close> and
  \<open>lsp_text_position.cpp\<close>: file URIs, the UTF-16 columns of the protocol against the byte columns of
  the index, and the ranges of records. A byte is a character; the code points are numbers.
\<close>

section \<open>URIs\<close>

definition byte_of :: "char \<Rightarrow> nat" where
  "byte_of c = of_char c"

definition hex_digit :: "char \<Rightarrow> nat option" where
  "hex_digit c =
     (let v = byte_of c in
      if 48 \<le> v \<and> v \<le> 57 then Some (v - 48)
      else if 97 \<le> v \<and> v \<le> 102 then Some (v - 97 + 10)
      else if 65 \<le> v \<and> v \<le> 70 then Some (v - 65 + 10)
      else None)"

fun uri_decode :: "string \<Rightarrow> string option" where
  "uri_decode [] = Some []"
| "uri_decode (c # cs) =
     (if c \<noteq> CHR ''%'' then map_option (\<lambda>r. c # r) (uri_decode cs)
      else case cs of
        h # l # rest \<Rightarrow>
          (case (hex_digit h, hex_digit l) of
             (Some high, Some low) \<Rightarrow>
               if high = 0 \<and> low = 0 then None
               else map_option (\<lambda>r. char_of (high * 16 + low) # r) (uri_decode rest)
           | _ \<Rightarrow> None)
      | _ \<Rightarrow> None)"

definition file_scheme :: string where
  "file_scheme = ''file://''"

definition uri_path_part :: "string \<Rightarrow> string option" where
  "uri_path_part rest =
     (if is_absolute rest then Some rest
      else
      let authority = takeWhile (\<lambda>c. c \<noteq> slash_char) rest; path = dropWhile (\<lambda>c. c \<noteq> slash_char) rest in
      if path = [] \<or> authority \<noteq> ''localhost'' then None else Some path)"

definition path_from_uri :: "string \<Rightarrow> string option" where
  "path_from_uri uri =
     (if \<not> starts_with file_scheme uri then None
      else Option.bind (uri_path_part (drop (length file_scheme) uri))
        (\<lambda>path. map_option lexically_normal (uri_decode path)))"

definition hex_upper :: "nat \<Rightarrow> char" where
  "hex_upper n = ''0123456789ABCDEF'' ! n"

definition unreserved :: "char \<Rightarrow> bool" where
  "unreserved c \<longleftrightarrow>
     (let v = byte_of c in
      97 \<le> v \<and> v \<le> 122 \<or> 65 \<le> v \<and> v \<le> 90 \<or> 48 \<le> v \<and> v \<le> 57) \<or>
     c = CHR ''/'' \<or> c = CHR ''-'' \<or> c = CHR ''_'' \<or> c = CHR ''.'' \<or> c = CHR ''~''"

definition uri_byte :: "char \<Rightarrow> string" where
  "uri_byte c =
     (if unreserved c then [c] else [CHR ''%'', hex_upper (byte_of c div 16), hex_upper (byte_of c mod 16)])"

definition uri_from_path :: "string \<Rightarrow> string" where
  "uri_from_path path = file_scheme @ concat (map uri_byte path)"

section \<open>Columns\<close>

text \<open>The continuation bytes of a code point; \<open>n\<close> are left to read.\<close>

fun continuation :: "nat \<Rightarrow> nat \<Rightarrow> string \<Rightarrow> (nat \<times> string) option" where
  "continuation 0 codepoint rest = Some (codepoint, rest)"
| "continuation (Suc n) codepoint [] = None"
| "continuation (Suc n) codepoint (c # rest) =
     (if byte_of c div 64 \<noteq> 2 then None else continuation n (codepoint * 64 + byte_of c mod 64) rest)"

definition lead_byte :: "nat \<Rightarrow> (nat \<times> nat) option" where
  "lead_byte first =
     (if first < 128 then Some (first, 0)
      else if first div 32 = 6 then Some (first mod 32, 1)
      else if first div 16 = 14 then Some (first mod 16, 2)
      else if first div 8 = 30 then Some (first mod 8, 3)
      else None)"

definition next_code_point :: "string \<Rightarrow> (nat \<times> string) option" where
  "next_code_point rest =
     (case rest of
        [] \<Rightarrow> None
      | c # cs \<Rightarrow>
          (case lead_byte (byte_of c) of
             None \<Rightarrow> None
           | Some (start, 0) \<Rightarrow> Some (start, cs)
           | Some (start, n) \<Rightarrow>
               (case continuation n start cs of
                  None \<Rightarrow> None
                | Some (codepoint, cs') \<Rightarrow>
                    if codepoint \<le> 0x10ffff \<and> \<not> (0xd800 \<le> codepoint \<and> codepoint \<le> 0xdfff)
                    then Some (codepoint, cs') else None)))"

definition utf16_width :: "nat \<Rightarrow> u32" where
  "utf16_width codepoint = (if codepoint > 0xffff then 2 else 1)"

lemma continuation_shrinks: "continuation n k s = Some (c, r) \<Longrightarrow> length r \<le> length s"
  by (induction n k s rule: continuation.induct) (auto split: if_splits)

lemma next_code_point_shrinks: "next_code_point s = Some (c, r) \<Longrightarrow> length r < length s"
  by (cases s) (auto simp: next_code_point_def split: option.splits nat.splits prod.splits if_splits dest: continuation_shrinks)

text \<open>\<open>byteOffset\<close>: the offset is that of \<open>rest\<close> in the text.\<close>

function byte_offset_loop :: "string \<Rightarrow> nat \<Rightarrow> u32 \<Rightarrow> u32 \<Rightarrow> nat option" where
  "byte_offset_loop rest offset units column =
     (if \<not> units < column then Some offset
      else case next_code_point rest of
        None \<Rightarrow> None
      | Some (codepoint, rest1) \<Rightarrow>
          if units + utf16_width codepoint > column then None
          else byte_offset_loop rest1 (offset + (length rest - length rest1)) (units + utf16_width codepoint) column)"
  by pat_completeness auto
termination
  by (relation "measure (\<lambda>(rest, offset, units, column). length rest)") (auto dest: next_code_point_shrinks)

declare byte_offset_loop.simps [simp del]

definition byte_offset :: "string \<Rightarrow> u32 \<Rightarrow> nat option" where
  "byte_offset text column = byte_offset_loop text 0 0 column"

function utf16_length_loop :: "string \<Rightarrow> u32 \<Rightarrow> u32 option" where
  "utf16_length_loop rest units =
     (if rest = [] then Some units
      else case next_code_point rest of
        None \<Rightarrow> None
      | Some (codepoint, rest1) \<Rightarrow> utf16_length_loop rest1 (units + utf16_width codepoint))"
  by pat_completeness auto
termination
  by (relation "measure (\<lambda>(rest, units). length rest)") (auto dest: next_code_point_shrinks)

declare utf16_length_loop.simps [simp del]

text \<open>Of a text that is not UTF-8 it is the number of bytes.\<close>

definition utf16_length :: "string \<Rightarrow> u32" where
  "utf16_length text = (case utf16_length_loop text 0 of None \<Rightarrow> of_nat (length text) | Some units \<Rightarrow> units)"

section \<open>The source mapper\<close>

text \<open>Its state is the root of its resolver.\<close>

definition set_root_uri :: "fs \<Rightarrow> string \<Rightarrow> string \<Rightarrow> bool \<times> string" where
  "set_root_uri fs uri root =
     (case path_from_uri uri of
        None \<Rightarrow> (False, root)
      | Some path \<Rightarrow>
          if \<not> is_absolute path then (False, root)
          else (case root_string (repository_root fs (Some path)) of
             None \<Rightarrow> set_workspace_root root path
           | Some repository \<Rightarrow> set_workspace_root root repository))"

definition file_path :: "string \<Rightarrow> string option" where
  "file_path uri =
     (case path_from_uri uri of
        None \<Rightarrow> None
      | Some path \<Rightarrow> if \<not> is_absolute path then None else Some path)"

definition uri_database_paths :: "source_env \<Rightarrow> string \<Rightarrow> string \<Rightarrow> string list" where
  "uri_database_paths e root uri =
     (case path_from_uri uri of
        None \<Rightarrow> []
      | Some path \<Rightarrow> if \<not> is_absolute path then [] else database_paths e root path)"

definition byte_column :: "source_env \<Rightarrow> string \<Rightarrow> string \<Rightarrow> u32 \<Rightarrow> u32 \<Rightarrow> u32 option" where
  "byte_column e root uri line character =
     (case path_from_uri uri of
        None \<Rightarrow> None
      | Some path \<Rightarrow>
          (case read_line e root path line [] of
             (False, text1) \<Rightarrow> None
           | (True, text1) \<Rightarrow> map_option (\<lambda>offset. of_nat offset + 1) (byte_offset text1 character)))"

definition mapper_uri :: "string \<Rightarrow> string \<Rightarrow> string" where
  "mapper_uri root path = uri_from_path (resolve root path)"

definition display_path :: "string \<Rightarrow> string \<Rightarrow> string" where
  "display_path root path = resolve root path"

text \<open>The lines of the file that was looked at last.\<close>

record line_cache =
  lc_path :: string
  lc_lines :: "string list"

definition record_range :: "source_env \<Rightarrow> string \<Rightarrow> db_record \<Rightarrow> line_cache \<Rightarrow> jvalue \<times> line_cache" where
  "record_range e root r cache =
     (let path = resolve root (dr_path r);
          start0 = (if dr_column r \<noteq> 0 then dr_column r - 1 else 0);
          line_number = (if dr_line r \<noteq> 0 then dr_line r - 1 else 0);
          leaf = qualified_leaf (dr_symbol r);
          cache1 = (if lc_path cache \<noteq> path then \<lparr>lc_path = path, lc_lines = mapper_lines e root path\<rparr> else cache);
          start = (if dr_line r \<noteq> 0 \<and> unat (dr_line r) \<le> length (lc_lines cache1)
             then let line = lc_lines cache1 ! (unat (dr_line r) - 1)
                  in utf16_length (take (min (unat start0) (length line)) line)
             else start0);
          stop = start + utf16_length leaf
      in (VObject
           [(''start'', VObject [(''line'', VInt (uint line_number)), (''character'', VInt (uint start))]),
            (''end'', VObject [(''line'', VInt (uint line_number)), (''character'', VInt (uint stop))])],
          cache1))"

definition record_location :: "source_env \<Rightarrow> string \<Rightarrow> db_record \<Rightarrow> line_cache \<Rightarrow> jvalue \<times> line_cache" where
  "record_location e root r cache =
     (case record_range e root r cache of (rng, cache1) \<Rightarrow>
        (VObject [(''uri'', VString (mapper_uri root (dr_path r))), (''range'', rng)], cache1))"

section \<open>Positions in requests\<close>

record text_position =
  tp_uri :: string
  tp_line :: u32
  tp_character :: u32

definition parse_text_position :: "object option \<Rightarrow> text_position option" where
  "parse_text_position params =
     (case params of
        None \<Rightarrow> None
      | Some ob \<Rightarrow>
          (case (get_object ob ''textDocument'', get_object ob ''position'') of
             (Some document, Some position) \<Rightarrow>
               (case (get_string document ''uri'', get_integer position ''line'', get_integer position ''character'') of
                  (Some uri, Some line, Some character) \<Rightarrow>
                    if line < 0 \<or> character < 0 \<or> line \<ge> 2 ^ 32 - 1 \<or> character > 2 ^ 32 - 1 then None
                    else Some \<lparr>tp_uri = uri, tp_line = word_of_int line, tp_character = word_of_int character\<rparr>
                | _ \<Rightarrow> None)
           | _ \<Rightarrow> None))"

end
