(* ===== verification/Call_Hierarchy.thy ===== *)
theory Call_Hierarchy
  imports Lsp_Source
begin

text \<open>
  The call hierarchy of the language server, \<open>tools/lsp/lsp_call_hierarchy.cpp\<close>. Its sets and maps
  are ordered by the identity of a function, as lists here; the outcomes of the queries are those
  of an environment.
\<close>

section \<open>Ordered maps\<close>

fun map_put :: "'k::linorder \<Rightarrow> ('v option \<Rightarrow> 'v) \<Rightarrow> ('k \<times> 'v) list \<Rightarrow> ('k \<times> 'v) list" where
  "map_put k f [] = [(k, f None)]"
| "map_put k f ((k1, v) # rest) =
     (if k < k1 then (k, f None) # (k1, v) # rest
      else if k = k1 then (k1, f (Some v)) # rest
      else (k1, v) # map_put k f rest)"

declare map_put.simps [simp del]
lemma map_put_simps [simp]:
  "map_put k f [] = [(k, f None)]"
  "k < k1 \<Longrightarrow> map_put k f ((k1, v) # rest) = (k, f None) # (k1, v) # rest"
  "map_put k f ((k, v) # rest) = (k, f (Some v)) # rest"
  "k1 < k \<Longrightarrow> map_put k f ((k1, v) # rest) = (k1, v) # map_put k f rest"
  by (auto simp: map_put.simps)

lemma map_put_keys: "fst ` set (map_put k f m) = insert k (fst ` set m)"
proof (induction m)
  case (Cons p m)
  obtain k1 v where p: "p = (k1, v)" by (rule prod.exhaust)
  consider "k < k1" | "k = k1" | "k1 < k" by (rule linorder_cases)
  then show ?case
  proof cases
    case 3
    then show ?thesis unfolding p map_put_simps(4)[OF 3] by (simp only: list.set image_insert Cons.IH fst_conv insert_commute)
  qed (simp_all add: p)
qed simp

lemma map_put_sorted:
  "sorted_wrt (<) (map fst m) \<Longrightarrow> sorted_wrt (<) (map fst (map_put k f m))"
proof (induction m)
  case (Cons p m)
  obtain k1 v where p: "p = (k1, v)" by (rule prod.exhaust)
  consider "k < k1" | "k = k1" | "k1 < k" by (rule linorder_cases)
  then show ?case
  proof cases
    case 1
    with Cons.prems show ?thesis by (auto simp: p intro: less_trans)
  next
    case 2
    with Cons.prems show ?thesis by (simp add: p)
  next
    case 3
    have "\<forall>x \<in> fst ` set (map_put k f m). k1 < x"
      unfolding map_put_keys using Cons.prems 3 by (auto simp: p)
    with 3 Cons show ?thesis by (simp add: p)
  qed
qed simp

lemma map_put_of:
  "sorted_wrt (<) (map fst m) \<Longrightarrow> map_of (map_put k f m) x = (if x = k then Some (f (map_of m k)) else map_of m x)"
proof (induction m)
  case (Cons p m)
  obtain k1 v where p: "p = (k1, v)" by (rule prod.exhaust)
  consider "k < k1" | "k = k1" | "k1 < k" by (rule linorder_cases)
  then show ?case
  proof cases
    case 1
    with Cons.prems have "k \<notin> fst ` set m" by (auto simp: p dest: less_trans)
    then have "map_of m k = None" by (simp add: map_of_eq_None_iff)
    with 1 show ?thesis by (auto simp: p)
  next
    case 2
    then show ?thesis by (simp add: p)
  next
    case 3
    with Cons show ?thesis by (auto simp: p)
  qed
qed simp

section \<open>Identities\<close>

definition FUNCTION_SYMBOL_KIND :: int where
  "FUNCTION_SYMBOL_KIND = 12"

definition format_id :: "u64 \<Rightarrow> string" where
  "format_id i = hex16 i"

definition parse_identity :: "object option \<Rightarrow> string \<Rightarrow> symbol_identity option" where
  "parse_identity params variant =
     (case Option.bind (Option.bind params (\<lambda>p. get_object p ''item'')) (\<lambda>item. get_object item ''data'') of
        None \<Rightarrow> None
      | Some d \<Rightarrow>
          (case (get_string d ''variant'', get_string d ''symbol'', get_string d ''id'') of
             (Some parsed_variant, Some symbol, Some i) \<Rightarrow>
               if parsed_variant = [] \<or> symbol = [] \<or> i = [] \<or> length i > 16 \<or>
                  (variant \<noteq> [] \<and> parsed_variant \<noteq> variant) then None
               else map_option (\<lambda>usr. (parsed_variant, symbol, kind_code SYMBOL_FUNCTION, usr)) (from_chars16 i)
           | _ \<Rightarrow> None))"

type_synonym identity_set = "symbol_identity list"

definition collect_function_identity :: "identity_set \<Rightarrow> db_record \<Rightarrow> int \<times> identity_set" where
  "collect_function_identity ids r =
     (0, if dr_kind r = kind_code SYMBOL_FUNCTION \<and> dr_usr_id r \<noteq> 0 then insort_insert (identity_of r) ids else ids)"

type_synonym function_records = "(symbol_identity \<times> db_record) list"

definition collect_function_record :: "function_records \<Rightarrow> db_record \<Rightarrow> int \<times> function_records" where
  "collect_function_record m r =
     (let identity = identity_of r in
      (0, case map_of m identity of
            None \<Rightarrow> map_put identity (\<lambda>_. r) m
          | Some found \<Rightarrow> if dr_action found = 0 \<and> dr_action r \<noteq> 0 then map_put identity (\<lambda>_. r) m else m))"

text \<open>The environment of a message: the files, and what happens to each query.\<close>

record query_env =
  qe_sources :: source_env
  qe_glob :: "string \<Rightarrow> string \<Rightarrow> bool"
  qe_query_run :: "query_options \<Rightarrow> run"
  qe_find_run :: "string \<Rightarrow> run"
  qe_call_run :: run
  qe_batch_run :: "nat \<Rightarrow> run"
  qe_var_limit :: nat

definition load_function_records ::
  "query_env \<Rightarrow> database \<Rightarrow> symbol_identity list \<Rightarrow> function_records \<Rightarrow> int \<times> function_records" where
  "load_function_records e db ids m =
     db_query_functions (qe_var_limit e) (qe_batch_run e) db
       (map (\<lambda>(variant, symbol, kind, usr). \<lparr>fn_variant = Some variant, fn_symbol = Some symbol, fn_usr_id = usr\<rparr>) ids)
       collect_function_record m"

section \<open>Items and calls\<close>

definition empty_cache :: line_cache where
  "empty_cache = \<lparr>lc_path = [], lc_lines = []\<rparr>"

definition hierarchy_item :: "query_env \<Rightarrow> string \<Rightarrow> symbol_identity \<Rightarrow> db_record \<Rightarrow> jvalue" where
  "hierarchy_item e root identity r =
     (case identity of (variant, symbol, kind, usr) \<Rightarrow>
      case record_range (qe_sources e) root r empty_cache of (rng, cache) \<Rightarrow>
      case record_range (qe_sources e) root r cache of (selection, cache1) \<Rightarrow>
        VObject
          [(''name'', VString symbol), (''kind'', VInt FUNCTION_SYMBOL_KIND),
           (''detail'', VString (display_path root (dr_path r))), (''uri'', VString (mapper_uri root (dr_path r))),
           (''range'', rng), (''selectionRange'', selection),
           (''data'', VObject [(''variant'', VString variant), (''symbol'', VString symbol),
             (''id'', VString (format_id usr))])])"

type_synonym call_groups = "(symbol_identity \<times> db_record list) list"

definition collect_call :: "call_direction \<Rightarrow> call_groups \<Rightarrow> db_record \<Rightarrow> int \<times> call_groups" where
  "collect_call dir groups r =
     (let symbol = (case dir of DB_CALLERS \<Rightarrow> dr_context r | DB_CALLEES \<Rightarrow> dr_symbol r);
          usr = (case dir of DB_CALLERS \<Rightarrow> dr_context_usr_id r | DB_CALLEES \<Rightarrow> dr_usr_id r)
      in if symbol = [] \<or> usr = 0 then (0, groups)
         else (0, map_put (dr_variant r, symbol, kind_code SYMBOL_FUNCTION, usr)
             (\<lambda>old. (case old of None \<Rightarrow> [] | Some rs \<Rightarrow> rs) @ [r]) groups))"

datatype hierarchy_status = Hierarchy_Success | Hierarchy_InvalidParams | Hierarchy_DatabaseError

definition prepare_hierarchy ::
  "query_env \<Rightarrow> database \<Rightarrow> string \<Rightarrow> string \<Rightarrow> object option \<Rightarrow> hierarchy_status \<times> jvalue" where
  "prepare_hierarchy e db root variant params =
     (case parse_text_position params of
        None \<Rightarrow> (Hierarchy_InvalidParams, VNull)
      | Some position \<Rightarrow>
          (case (byte_column (qe_sources e) root (tp_uri position) (tp_line position) (tp_character position),
                 file_path (tp_uri position)) of
             (Some column, Some path) \<Rightarrow>
               (case records_at (qe_find_run e) (Some db) (qe_sources e) root
                   \<lparr>pq_path = path, pq_variant = variant, pq_line = tp_line position + 1, pq_column = column,
                    pq_overlay = None\<rparr> of
                  (ret, records) \<Rightarrow>
                    if ret < 0 then (Hierarchy_DatabaseError, VNull)
                    else
                    let ids = fold (\<lambda>r ids. snd (collect_function_identity ids r)) records [] in
                    if ids = [] then (Hierarchy_Success, VNull)
                    else (case load_function_records e db ids [] of (ret2, functions) \<Rightarrow>
                      if ret2 < 0 then (Hierarchy_DatabaseError, VNull)
                      else
                      let items = map (\<lambda>i. hierarchy_item e root i (the (map_of functions i)))
                            (filter (\<lambda>i. map_of functions i \<noteq> None) ids)
                      in (Hierarchy_Success, if items = [] then VNull else VArray items)))
           | _ \<Rightarrow> (Hierarchy_Success, VNull)))"

text \<open>The ranges of the calls of one group share a cache.\<close>

fun call_ranges :: "query_env \<Rightarrow> string \<Rightarrow> db_record list \<Rightarrow> line_cache \<Rightarrow> jvalue list" where
  "call_ranges e root [] cache = []"
| "call_ranges e root (r # rs) cache =
     (case record_range (qe_sources e) root r cache of (rng, cache1) \<Rightarrow> rng # call_ranges e root rs cache1)"

definition call_entry ::
  "query_env \<Rightarrow> string \<Rightarrow> call_direction \<Rightarrow> function_records \<Rightarrow> symbol_identity \<times> db_record list \<Rightarrow> jvalue" where
  "call_entry e root dir functions entry =
     (case entry of (identity, records) \<Rightarrow>
        let location = (case map_of functions identity of Some r \<Rightarrow> r | None \<Rightarrow> hd records)
        in VObject
          [(if dir = DB_CALLERS then ''from'' else ''to'', hierarchy_item e root identity location),
           (''fromRanges'', VArray (call_ranges e root records empty_cache))])"

definition hierarchy_calls ::
  "query_env \<Rightarrow> database \<Rightarrow> string \<Rightarrow> string \<Rightarrow> object option \<Rightarrow> call_direction \<Rightarrow> hierarchy_status \<times> jvalue" where
  "hierarchy_calls e db root variant params dir =
     (case parse_identity params variant of
        None \<Rightarrow> (Hierarchy_InvalidParams, VNull)
      | Some (requested_variant, symbol, kind, usr) \<Rightarrow>
          (case db_query_calls (qe_call_run e) db (Some symbol) usr (Some requested_variant) dir (collect_call dir) [] of
             (ret, groups) \<Rightarrow>
               if ret < 0 then (Hierarchy_DatabaseError, VNull)
               else (case load_function_records e db (map fst groups) [] of (ret2, functions) \<Rightarrow>
                 if ret2 < 0 then (Hierarchy_DatabaseError, VNull)
                 else (Hierarchy_Success, VArray (map (call_entry e root dir functions) groups)))))"

definition incoming_calls ::
  "query_env \<Rightarrow> database \<Rightarrow> string \<Rightarrow> string \<Rightarrow> object option \<Rightarrow> hierarchy_status \<times> jvalue" where
  "incoming_calls e db root variant params = hierarchy_calls e db root variant params DB_CALLERS"

definition outgoing_calls ::
  "query_env \<Rightarrow> database \<Rightarrow> string \<Rightarrow> string \<Rightarrow> object option \<Rightarrow> hierarchy_status \<times> jvalue" where
  "outgoing_calls e db root variant params = hierarchy_calls e db root variant params DB_CALLEES"

end
