(* ===== verification/Index_Update.thy ===== *)
theory Index_Update
  imports Pipeline Semantic_Query
begin

text \<open>
  Keeping an index up to date from a server: where the compiler command of a file is from
  (\<open>index_command_resolver.cpp\<close>), one update of the databases or of a transient index
  (\<open>index_updater.cpp\<close>), the indexer of the language server with its overlay
  (\<open>tools/lsp/lsp_indexer.cpp\<close>), and the paths and handles that a server starts with
  (\<open>server_environment.cpp\<close>).
\<close>

section \<open>Resolving a command\<close>

definition quoted :: "string \<Rightarrow> string" where
  "quoted s = [CHR 0x27] @ s @ [CHR 0x27]"

datatype path_check = Path_Exists | Path_Missing | Path_Error

datatype command_source = Source_Saved | Source_Compilation_Database | Source_Document

record resolver_options =
  ro_commands_database :: string
  ro_compile_commands :: string
  ro_repository_root :: string
  ro_allow_document :: bool

definition set_compile_commands :: "string \<Rightarrow> resolver_options \<Rightarrow> resolver_options" where
  "set_compile_commands path opts = opts\<lparr>ro_compile_commands := path\<rparr>"

definition set_resolver_root :: "string \<Rightarrow> resolver_options \<Rightarrow> resolver_options" where
  "set_resolver_root path opts = opts\<lparr>ro_repository_root := path\<rparr>"

record resolved_command =
  rc_source :: command_source
  rc_saved :: "loaded_command option"
  rc_compile_commands :: string
  rc_commands_database :: string
  rc_directory :: string
  rc_document :: "compile_command option"
  rc_available :: bool

definition new_resolved :: resolved_command where
  "new_resolved = \<lparr>rc_source = Source_Saved, rc_saved = None, rc_compile_commands = [], rc_commands_database = [],
     rc_directory = [], rc_document = None, rc_available = False\<rparr>"

definition saved_command :: "loaded_command \<Rightarrow> compile_command" where
  "saved_command c = \<lparr>cc_directory = Some (lc_directory c), cc_file = lc_file c, cc_argv = lc_argv c\<rparr>"

definition resolved_compile_command :: "resolved_command \<Rightarrow> compile_command option" where
  "resolved_compile_command r =
     (case rc_saved r of
        Some c \<Rightarrow> Some (saved_command c)
      | None \<Rightarrow> if rc_source r = Source_Document then rc_document r else None)"

text \<open>The load that both operations start with; \<open>exists_db\<close> is the test for the file of the database.\<close>

definition load_saved ::
  "db_env \<Rightarrow> (string \<Rightarrow> path_check) \<Rightarrow> resolver_options \<Rightarrow> string \<Rightarrow> string \<Rightarrow> session
     \<Rightarrow> int \<times> loaded_command option \<times> session" where
  "load_saved e exists_db opts file variant s =
     (case exists_db (ro_commands_database opts) of
        Path_Exists \<Rightarrow> command_db_load e (Some (ro_commands_database opts)) (Some variant) (Some file) s
      | Path_Missing \<Rightarrow> (1, None, s)
      | Path_Error \<Rightarrow> (- 1, None, s))"

definition command_available ::
  "db_env \<Rightarrow> (string \<Rightarrow> path_check) \<Rightarrow> resolver_options \<Rightarrow> string \<Rightarrow> string \<Rightarrow> session \<Rightarrow> int \<times> session" where
  "command_available e exists_db opts file variant s =
     (case load_saved e exists_db opts file variant s of (ret, command, s1) \<Rightarrow> (ret, s1))"

definition resolve_command ::
  "db_env \<Rightarrow> (string \<Rightarrow> path_check) \<Rightarrow> resolver_options \<Rightarrow> string \<Rightarrow> string \<Rightarrow> session
     \<Rightarrow> (string + resolved_command) \<times> session" where
  "resolve_command e exists_db opts file variant s =
     (case load_saved e exists_db opts file variant s of (loaded, saved, s1) \<Rightarrow>
        (if loaded < 0 then Inl (''failed to load compiler command for '' @ quoted file)
         else if loaded = 0
         then Inr (new_resolved\<lparr>rc_source := Source_Saved, rc_saved := saved, rc_available := True,
                rc_directory := (case saved of None \<Rightarrow> [] | Some c \<Rightarrow> lc_directory c)\<rparr>)
         else if ro_compile_commands opts \<noteq> []
         then Inr (new_resolved\<lparr>rc_source := Source_Compilation_Database,
                rc_compile_commands := ro_compile_commands opts, rc_commands_database := ro_commands_database opts,
                rc_directory := ro_repository_root opts\<rparr>)
         else if ro_allow_document opts
         then Inr (new_resolved\<lparr>rc_source := Source_Document, rc_directory := parent_path file,
                rc_document := Some \<lparr>cc_directory = Some (parent_path file), cc_file = file,
                  cc_argv = [''cc'', ''--no-default-config'', file]\<rparr>\<rparr>)
         else Inl (''no compiler command for '' @ quoted file @ '' in variant '' @ quoted variant), s1))"

section \<open>One update\<close>

datatype severity = DIAGNOSTIC_NOTE | DIAGNOSTIC_WARNING | DIAGNOSTIC_ERROR

record diagnostic =
  dg_severity :: severity
  dg_message :: string
  dg_file :: string
  dg_line :: u32
  dg_column :: u32

datatype update_status = Update_Clean | Update_Partial | Update_Failed

record update_result =
  up_status :: update_status
  up_diagnostics :: "diagnostic list"
  up_error :: string
  up_directory :: string
  up_transient :: "index option"
  up_command_available :: bool
  up_truncated :: bool

definition new_update :: update_result where
  "new_update = \<lparr>up_status = Update_Failed, up_diagnostics = [], up_error = [], up_directory = [],
     up_transient = None, up_command_available = False, up_truncated = False\<rparr>"

definition placed_diagnostic :: "string \<Rightarrow> diagnostic \<Rightarrow> diagnostic" where
  "placed_diagnostic directory d =
     (let path = (if is_absolute (dg_file d) then dg_file d else path_join directory (dg_file d))
      in d\<lparr>dg_file := lexically_normal path\<rparr>)"

fun copy_diagnostics :: "string \<Rightarrow> nat \<Rightarrow> diagnostic list \<Rightarrow> update_result \<Rightarrow> update_result" where
  "copy_diagnostics directory limit [] res = res"
| "copy_diagnostics directory limit (d # ds) res =
     (if limit \<noteq> 0 \<and> length (up_diagnostics res) \<ge> limit then res\<lparr>up_truncated := True\<rparr>
      else copy_diagnostics directory limit ds
        (res\<lparr>up_diagnostics := up_diagnostics res @ [placed_diagnostic directory d]\<rparr>))"

record updater =
  ud_database :: string
  ud_repository_root :: string
  ud_resolver :: resolver_options
  ud_include_local :: bool

definition new_updater :: "string \<Rightarrow> string \<Rightarrow> resolver_options \<Rightarrow> bool \<Rightarrow> updater" where
  "new_updater database root opts include_local =
     \<lparr>ud_database = database, ud_repository_root = root, ud_resolver = set_resolver_root root opts,
      ud_include_local = include_local\<rparr>"

definition updater_set_root :: "string \<Rightarrow> updater \<Rightarrow> updater" where
  "updater_set_root path u =
     u\<lparr>ud_repository_root := path, ud_resolver := set_resolver_root path (ud_resolver u)\<rparr>"

definition updater_set_commands :: "string \<Rightarrow> updater \<Rightarrow> updater" where
  "updater_set_commands path u = u\<lparr>ud_resolver := set_compile_commands path (ud_resolver u)\<rparr>"

record update_request =
  ur_file :: string
  ur_variant :: string
  ur_diagnostic_limit :: nat
  ur_store_partial :: bool
  ur_stopped :: bool

text \<open>What the pipeline is asked for; the fields it does not set are zero.\<close>

definition pipeline_request_for :: "updater \<Rightarrow> update_request \<Rightarrow> resolved_command \<Rightarrow> pipeline_request" where
  "pipeline_request_for u q r =
     (let command = resolved_compile_command r;
          p = \<lparr>pr_input = PIPELINE_COMMAND, pr_storage = OUTPUT_ONLY,
            pr_partial = (if ur_store_partial q then STORE_PARTIAL else RETURN_PARTIAL),
            pr_command = None, pr_compile_commands = None, pr_source_file = None,
            pr_symbol_database = Some (ud_database u), pr_commands_database = None,
            pr_variant = Some (ur_variant q),
            pr_repository_root = (if ud_repository_root u = [] then None else Some (ud_repository_root u)),
            pr_git_commit = None, pr_scope = SCOPE_PROJECT, pr_git_commit_mode = GIT_COMMIT_DISABLED,
            pr_include_local = ud_include_local u, pr_details = True\<rparr>
      in case rc_source r of
           Source_Saved \<Rightarrow> p\<lparr>pr_input := PIPELINE_COMMAND, pr_storage := STORE_SYMBOLS, pr_command := command,
             pr_source_file := map_option cc_file command\<rparr>
         | Source_Compilation_Database \<Rightarrow> p\<lparr>pr_input := PIPELINE_COMPILE_COMMANDS,
             pr_storage := STORE_SYMBOLS_AND_COMMAND, pr_compile_commands := Some (rc_compile_commands r),
             pr_source_file := Some (ur_file q), pr_commands_database := Some (rc_commands_database r)\<rparr>
         | Source_Document \<Rightarrow> p\<lparr>pr_input := PIPELINE_COMMAND, pr_storage := OUTPUT_ONLY, pr_command := command,
             pr_source_file := Some (ur_file q)\<rparr>)"

definition update_error :: "pipeline_stage \<Rightarrow> string \<Rightarrow> string" where
  "update_error stage file =
     (if stage = STAGE_CREATE then ''failed to create indexer''
      else if stage = STAGE_FINGERPRINT then ''failed to fingerprint '' @ quoted file
      else if stage = STAGE_SYMBOL_DATABASE then ''failed to store index for '' @ quoted file
      else ''failed to index '' @ quoted file)"

definition is_partial :: "pipeline_result \<Rightarrow> bool" where
  "is_partial res \<longleftrightarrow>
     rs_frontend_ret res \<noteq> 0 \<or> (case rs_frontend res of None \<Rightarrow> False | Some fr \<Rightarrow> ir_status fr = INDEX_PARTIAL)"

text \<open>
  What \<open>update\<close> makes of the result of the pipeline. \<open>ds\<close> are the diagnostics of the index; there
  are none when it was not created.
\<close>

definition update_outcome ::
  "update_request \<Rightarrow> resolved_command \<Rightarrow> pipeline_request \<Rightarrow> int \<Rightarrow> pipeline_result \<Rightarrow> index \<Rightarrow> diagnostic list
     \<Rightarrow> update_result \<Rightarrow> update_result" where
  "update_outcome q r request ret pres ix ds res =
     (if ret < 0
      then (copy_diagnostics (up_directory res) (ur_diagnostic_limit q) (if rs_created pres then ds else []) res)
        \<lparr>up_error := update_error (rs_failed_stage pres) (ur_file q)\<rparr>
      else
      let res1 = (case rs_command pres of None \<Rightarrow> res
            | Some c \<Rightarrow> res\<lparr>up_command_available := True, up_directory := or_empty (cc_directory c)\<rparr>);
          res2 = copy_diagnostics (up_directory res1) (ur_diagnostic_limit q) ds res1
      in if rc_source r = Source_Document
         then res2\<lparr>up_status := (if is_partial pres then Update_Partial else Update_Clean), up_transient := Some ix\<rparr>
         else if is_partial pres
         then (if ur_store_partial q then res2\<lparr>up_status := Update_Partial\<rparr>
               else res2\<lparr>up_status := Update_Partial, up_transient := Some ix\<rparr>)
         else if rs_persisted pres \<noteq> pr_storage request
         then res2\<lparr>up_error := ''index for '' @ quoted (ur_file q) @ '' was not stored''\<rparr>
         else res2\<lparr>up_status := Update_Clean\<rparr>)"

text \<open>\<open>fe\<close> is what the frontend makes of a request, and the diagnostics of its index.\<close>

definition index_update ::
  "pipeline_env \<Rightarrow> (string \<Rightarrow> path_check) \<Rightarrow> (pipeline_request \<Rightarrow> frontend \<times> diagnostic list) \<Rightarrow> updater
     \<Rightarrow> update_request \<Rightarrow> pipeline_world \<Rightarrow> update_result \<times> pipeline_world" where
  "index_update e exists_db fe u q pw =
     (if ur_stopped q then (new_update\<lparr>up_error := ''index update cancelled''\<rparr>, pw)
      else
      case resolve_command (pe_commands e) exists_db (ud_resolver u) (ur_file q) (ur_variant q) (pw_commands pw) of
        (Inl error, s1) \<Rightarrow> (new_update\<lparr>up_error := error\<rparr>, pw\<lparr>pw_commands := s1\<rparr>)
      | (Inr r, s1) \<Rightarrow>
          let res = new_update\<lparr>up_command_available := rc_available r, up_directory := rc_directory r\<rparr>;
              request = pipeline_request_for u q r
          in (case pipeline_run e request (fst (fe request)) (pw\<lparr>pw_commands := s1\<rparr>) of (ret, pres, pw1) \<Rightarrow>
               (update_outcome q r request ret pres (fe_index (fst (fe request))) (snd (fe request)) res,
                snd (pipeline_result_destroy pw1))))"

section \<open>The indexer of the language server\<close>

record lsp_indexer =
  li_variant :: string
  li_explicit :: bool
  li_updater :: updater
  li_overlay :: overlay

definition new_lsp_indexer :: "string \<Rightarrow> string \<Rightarrow> string \<Rightarrow> string \<Rightarrow> bool \<Rightarrow> lsp_indexer" where
  "new_lsp_indexer database commands_database compile_commands variant include_local =
     \<lparr>li_variant = variant, li_explicit = (compile_commands \<noteq> []),
      li_updater = new_updater database [] \<lparr>ro_commands_database = commands_database,
        ro_compile_commands = compile_commands, ro_repository_root = [], ro_allow_document = True\<rparr> include_local,
      li_overlay = Map.empty\<rparr>"

definition indexer_set_root :: "fs \<Rightarrow> (string \<Rightarrow> bool) \<Rightarrow> string \<Rightarrow> lsp_indexer \<Rightarrow> lsp_indexer" where
  "indexer_set_root fs is_regular root li =
     (let project_root = (case root_string (repository_root fs (Some root)) of None \<Rightarrow> root | Some d \<Rightarrow> d);
          li1 = li\<lparr>li_updater := updater_set_root project_root (li_updater li)\<rparr>;
          path = path_join project_root ''compile_commands.json''
      in if li_explicit li then li1
         else if is_regular path then li1\<lparr>li_updater := updater_set_commands path (li_updater li1)\<rparr>
         else li1)"

text \<open>An overlay is lost (\<open>None\<close>) when a record of the index has no context.\<close>

definition indexer_update ::
  "pipeline_env \<Rightarrow> (string \<Rightarrow> path_check) \<Rightarrow> (pipeline_request \<Rightarrow> frontend \<times> diagnostic list) \<Rightarrow> string
     \<Rightarrow> lsp_indexer \<Rightarrow> pipeline_world \<Rightarrow> (update_result \<times> lsp_indexer) option \<times> pipeline_world" where
  "indexer_update e exists_db fe file li pw =
     (case index_update e exists_db fe (li_updater li)
         \<lparr>ur_file = file, ur_variant = li_variant li, ur_diagnostic_limit = 0, ur_store_partial = True,
          ur_stopped = False\<rparr> pw of (res, pw1) \<Rightarrow>
        ((case up_transient res of
            None \<Rightarrow> Some (res, li\<lparr>li_overlay := overlay_erase file (li_overlay li)\<rparr>)
          | Some ix \<Rightarrow>
              (case overlay_replace file (up_directory res) ix (li_overlay li) of
                 None \<Rightarrow> None
               | Some ov \<Rightarrow> Some (res, li\<lparr>li_overlay := ov\<rparr>))), pw1))"

section \<open>The environment of a server\<close>

record server_options =
  so_root :: string
  so_database :: string
  so_commands_database :: string
  so_logfile :: string
  so_database_explicit :: bool
  so_create_database :: bool
  so_open_database :: bool

text \<open>What the system says: opening the log, looking at the database, opening it for reading.\<close>

record server_os =
  os_fs :: fs
  os_cwd :: string
  os_open_log :: "string \<Rightarrow> bool"
  os_exists :: "string \<Rightarrow> path_check"
  os_open_readonly :: "string \<Rightarrow> bool"

record server_environment =
  sv_database_path :: string
  sv_commands_path :: string
  sv_log :: bool
  sv_open :: bool

definition absolute_normal :: "server_os \<Rightarrow> string \<Rightarrow> string" where
  "absolute_normal os path = lexically_normal (path_join (os_cwd os) path)"

definition open_database :: "server_os \<Rightarrow> server_environment \<Rightarrow> bool \<times> server_environment" where
  "open_database os v =
     (if sv_open v then (False, v)
      else if \<not> os_open_readonly os (sv_database_path v) then (False, v)
      else (True, v\<lparr>sv_open := True\<rparr>))"

definition initialize_environment ::
  "env \<Rightarrow> server_os \<Rightarrow> server_options \<Rightarrow> server_environment \<Rightarrow> world \<Rightarrow> string option \<times> server_environment \<times> world" where
  "initialize_environment e os opts v w =
     (let v1 = v\<lparr>sv_database_path := so_database opts, sv_commands_path := so_commands_database opts\<rparr> in
      if so_database_explicit opts \<and> sv_database_path v1 = [] then (Some ''database path must not be empty'', v1, w)
      else
      case (if sv_database_path v1 \<noteq> [] then Some (sv_database_path v1)
            else default_database_path (os_fs os) (Some (so_root opts)) (Some SYMBOL_DATABASE)) of
        None \<Rightarrow> (Some ''failed to allocate database path'', v1, w)
      | Some database \<Rightarrow>
          let commands = (if sv_commands_path v1 = [] then command_db_default_path database else sv_commands_path v1);
              v2 = v1\<lparr>sv_database_path := absolute_normal os database, sv_commands_path := absolute_normal os commands\<rparr>
          in if so_logfile opts \<noteq> [] \<and> \<not> os_open_log os (so_logfile opts)
             then (Some (''failed to open log file: '' @ so_logfile opts), v2, w)
             else
             let v3 = v2\<lparr>sv_log := so_logfile opts \<noteq> []\<rparr>;
                 created = (if \<not> so_create_database opts then (None, w)
                   else case os_exists os (sv_database_path v3) of
                     Path_Exists \<Rightarrow> (None, w)
                   | Path_Error \<Rightarrow> (Some ''failed to inspect database'', w)
                   | Path_Missing \<Rightarrow>
                       (case index_db_create e (Some (sv_database_path v3)) w of
                          (ret, w1) \<Rightarrow> (if ret < 0 then Some ''failed to create database'' else None, w1)))
             in (case created of
                  (Some error, w1) \<Rightarrow> (Some error, v3, w1)
                | (None, w1) \<Rightarrow>
                    if \<not> so_open_database opts then (None, v3, w1)
                    else (case open_database os v3 of
                      (False, v4) \<Rightarrow> (Some ''failed to open database'', v4, w1)
                    | (True, v4) \<Rightarrow> (None, v4, w1))))"

end
