(* ===== verification/Lsp_Server.thy ===== *)
theory Lsp_Server
  imports Call_Hierarchy Index_Update Names
begin

text \<open>
  The language server, \<open>tools/lsp/lsp_server.cpp\<close>: the answers to each request, the state machine of
  its life, and the loop over messages. The environment, that is the files, the other processes and
  the outcomes of calls, may be another one for each message.
\<close>

section \<open>The server and its environment\<close>

record lsp_env =
  le_queries :: query_env
  le_fs :: fs
  le_is_regular :: "string \<Rightarrow> bool"
  le_exists :: "string \<Rightarrow> path_check"
  le_frontend :: "pipeline_request \<Rightarrow> frontend \<times> diagnostic list"
  le_pipeline :: pipeline_env
  le_transport :: transport_env
  le_others :: "database \<Rightarrow> database"

datatype lsp_state = Lsp_Uninitialized | Lsp_Running | Lsp_Shutdown

record lsp_server =
  ls_state :: lsp_state
  ls_exiting :: bool
  ls_exit_status :: int
  ls_variant :: string
  ls_root :: string
  ls_indexer :: lsp_indexer
  ls_transport :: transport
  ls_world :: pipeline_world

definition server_database :: "lsp_server \<Rightarrow> database" where
  "server_database s = shared (pw_index (ls_world s))"

section \<open>Answers\<close>

definition PARSE_ERROR :: int where "PARSE_ERROR = - 32700"
definition INVALID_REQUEST :: int where "INVALID_REQUEST = - 32600"
definition METHOD_NOT_FOUND :: int where "METHOD_NOT_FOUND = - 32601"
definition INVALID_PARAMS :: int where "INVALID_PARAMS = - 32602"
definition INTERNAL_ERROR :: int where "INTERNAL_ERROR = - 32603"
definition SERVER_NOT_INITIALIZED :: int where "SERVER_NOT_INITIALIZED = - 32002"

definition reply_message :: "jvalue \<Rightarrow> jvalue \<Rightarrow> jvalue" where
  "reply_message i result = VObject [(''jsonrpc'', VString ''2.0''), (''id'', i), (''result'', result)]"

definition error_message :: "jvalue option \<Rightarrow> int \<Rightarrow> string \<Rightarrow> jvalue" where
  "error_message i code message =
     VObject [(''jsonrpc'', VString ''2.0''), (''id'', case i of None \<Rightarrow> VNull | Some v \<Rightarrow> v),
       (''error'', VObject [(''code'', VInt code), (''message'', VString message)])]"

definition lsp_send :: "lsp_env \<Rightarrow> jvalue \<Rightarrow> lsp_server \<Rightarrow> bool \<times> lsp_server" where
  "lsp_send e message s =
     (case lsp_write (le_transport e) message (ls_transport s) of (ok, t1) \<Rightarrow> (ok, s\<lparr>ls_transport := t1\<rparr>))"

definition lsp_reply :: "lsp_env \<Rightarrow> jvalue \<Rightarrow> jvalue \<Rightarrow> lsp_server \<Rightarrow> bool \<times> lsp_server" where
  "lsp_reply e i result s = lsp_send e (reply_message i result) s"

definition lsp_error :: "lsp_env \<Rightarrow> jvalue option \<Rightarrow> int \<Rightarrow> string \<Rightarrow> lsp_server \<Rightarrow> bool \<times> lsp_server" where
  "lsp_error e i code message s = lsp_send e (error_message i code message) s"

text \<open>What a request is answered with: the code and text of an error, or a result.\<close>

type_synonym answer = "int \<times> string + jvalue"

definition answer_message :: "jvalue \<Rightarrow> answer \<Rightarrow> jvalue" where
  "answer_message i a = (case a of Inl (code, message) \<Rightarrow> error_message (Some i) code message | Inr v \<Rightarrow> reply_message i v)"

definition lsp_answer :: "lsp_env \<Rightarrow> jvalue \<Rightarrow> answer \<Rightarrow> lsp_server \<Rightarrow> bool \<times> lsp_server" where
  "lsp_answer e i a s =
     (case a of Inl (code, message) \<Rightarrow> lsp_error e (Some i) code message s | Inr v \<Rightarrow> lsp_reply e i v s)"

abbreviation query_failed :: answer where
  "query_failed \<equiv> Inl (INTERNAL_ERROR, ''Database query failed'')"

abbreviation invalid_params :: answer where
  "invalid_params \<equiv> Inl (INVALID_PARAMS, ''Invalid params'')"

section \<open>Locations\<close>

record location_collector =
  cl_locations :: "jvalue list"
  cl_keys :: "string list"
  cl_cache :: line_cache
  cl_excluded :: string
  cl_records :: u32

definition new_locations :: location_collector where
  "new_locations = \<lparr>cl_locations = [], cl_keys = [], cl_cache = empty_cache, cl_excluded = [], cl_records = 0\<rparr>"

definition place_key :: "db_record \<Rightarrow> string" where
  "place_key r = dr_path r @ '':'' @ decimal (unat (dr_line r)) @ '':'' @ decimal (unat (dr_column r))"

definition collect_location :: "query_env \<Rightarrow> string \<Rightarrow> location_collector \<Rightarrow> db_record \<Rightarrow> int \<times> location_collector" where
  "collect_location e root c r =
     (if cl_excluded c \<noteq> [] \<and> mapper_uri root (dr_path r) = cl_excluded c then (0, c)
      else
      let key = place_key r; c1 = c\<lparr>cl_records := cl_records c + 1\<rparr>
      in if key \<in> set (cl_keys c1) then (0, c1)
         else (case record_location (qe_sources e) root r (cl_cache c1) of (loc, cache) \<Rightarrow>
           (0, c1\<lparr>cl_keys := key # cl_keys c1, cl_locations := cl_locations c1 @ [loc], cl_cache := cache\<rparr>)))"

fun query_local_paths ::
  "query_env \<Rightarrow> string \<Rightarrow> database \<Rightarrow> query_options \<Rightarrow> ('s \<Rightarrow> db_record \<Rightarrow> int \<times> 's) \<Rightarrow> string list \<Rightarrow> 's \<Rightarrow> int \<times> 's" where
  "query_local_paths e root db opts cb [] c = (0, c)"
| "query_local_paths e root db opts cb (p # ps) c =
     (let o1 = opts\<lparr>q_path := Some p\<rparr> in
      case db_query (qe_glob e) (qe_query_run e o1) db (Some o1) cb c of (ret, c1) \<Rightarrow>
        if ret < 0 then (- 1, c1) else query_local_paths e root db opts cb ps c1)"

definition symbol_options :: "db_record \<Rightarrow> int \<Rightarrow> query_options" where
  "symbol_options cursor flt =
     default_options\<lparr>q_symbol := Some (dr_symbol cursor), q_variant := Some (dr_variant cursor),
       q_context := (if dr_local cursor \<noteq> 0 then Some (dr_context cursor) else None), q_record := flt,
       q_kind := dr_kind cursor, q_has_kind := True, q_has_local := True, q_local := dr_local cursor\<rparr>"

definition query_symbol ::
  "query_env \<Rightarrow> string \<Rightarrow> database \<Rightarrow> overlay \<Rightarrow> db_record \<Rightarrow> int \<Rightarrow> location_collector \<Rightarrow> int \<times> location_collector" where
  "query_symbol e root db ov cursor flt c =
     (let opts = symbol_options cursor flt; cb = collect_location e root; c0 = c\<lparr>cl_excluded := []\<rparr> in
      case (if overlay_contains ov (dr_path cursor)
            then overlay_query ov (dr_path cursor) (Some (dr_variant cursor)) opts cb c0 else (0, c0)) of
        (ret, c1) \<Rightarrow>
          if ret < 0 then (- 1, c1)
          else
          let c2 = (if cl_records c1 \<noteq> cl_records c0 then c1\<lparr>cl_excluded := mapper_uri root (dr_path cursor)\<rparr> else c1)
          in if dr_local cursor = 0
             then (case db_query (qe_glob e) (qe_query_run e opts) db (Some opts) cb c2 of
                     (ret2, c3) \<Rightarrow> (ret2, c3\<lparr>cl_excluded := []\<rparr>))
             else (case query_local_paths e root db opts cb
                       (uri_database_paths (qe_sources e) root (mapper_uri root (dr_path cursor))) c2 of
                     (ret2, c3) \<Rightarrow> (ret2, c3\<lparr>cl_excluded := []\<rparr>)))"

definition symbols_at ::
  "query_env \<Rightarrow> string \<Rightarrow> database \<Rightarrow> overlay \<Rightarrow> string \<Rightarrow> text_position \<Rightarrow> int \<times> db_record list" where
  "symbols_at e root db ov variant p =
     (case (byte_column (qe_sources e) root (tp_uri p) (tp_line p) (tp_character p), file_path (tp_uri p)) of
        (Some column, Some path) \<Rightarrow>
          records_at (qe_find_run e) (Some db) (qe_sources e) root
            \<lparr>pq_path = path, pq_variant = variant, pq_line = tp_line p + 1, pq_column = column, pq_overlay = Some ov\<rparr>
      | _ \<Rightarrow> (0, []))"

fun definition_cursors ::
  "query_env \<Rightarrow> string \<Rightarrow> database \<Rightarrow> overlay \<Rightarrow> db_record list \<Rightarrow> location_collector \<Rightarrow> int \<times> location_collector" where
  "definition_cursors e root db ov [] c = (0, c)"
| "definition_cursors e root db ov (cursor # cs) c =
     (case query_symbol e root db ov cursor DB_RECORD_DEFINITION c of (ret, c1) \<Rightarrow>
        if ret < 0 then (- 1, c1)
        else (case (if cl_records c1 = cl_records c
                    then query_symbol e root db ov cursor DB_RECORD_DECLARATION c1 else (0, c1)) of (ret2, c2) \<Rightarrow>
          if ret2 < 0 then (- 1, c2) else definition_cursors e root db ov cs c2))"

definition lsp_definition ::
  "query_env \<Rightarrow> string \<Rightarrow> database \<Rightarrow> overlay \<Rightarrow> string \<Rightarrow> object option \<Rightarrow> answer" where
  "lsp_definition e root db ov variant params =
     (case parse_text_position params of
        None \<Rightarrow> invalid_params
      | Some position \<Rightarrow>
          (case symbols_at e root db ov variant position of (ret, cursors) \<Rightarrow>
             if ret < 0 then query_failed
             else if cursors = [] then Inr VNull
             else (case definition_cursors e root db ov cursors new_locations of (ret2, c) \<Rightarrow>
               if ret2 < 0 then query_failed
               else Inr (if cl_locations c = [] then VNull else VArray (cl_locations c)))))"

fun query_cursors ::
  "query_env \<Rightarrow> string \<Rightarrow> database \<Rightarrow> overlay \<Rightarrow> int \<Rightarrow> db_record list \<Rightarrow> location_collector \<Rightarrow> int \<times> location_collector" where
  "query_cursors e root db ov flt [] c = (0, c)"
| "query_cursors e root db ov flt (cursor # cs) c =
     (case query_symbol e root db ov cursor flt c of (ret, c1) \<Rightarrow>
        if ret < 0 then (- 1, c1) else query_cursors e root db ov flt cs c1)"

definition include_declaration :: "object option \<Rightarrow> bool" where
  "include_declaration params =
     (case Option.bind (Option.bind params (\<lambda>p. get_object p ''context'')) (\<lambda>c. get_boolean c ''includeDeclaration'') of
        None \<Rightarrow> False | Some b \<Rightarrow> b)"

definition lsp_references ::
  "query_env \<Rightarrow> string \<Rightarrow> database \<Rightarrow> overlay \<Rightarrow> string \<Rightarrow> object option \<Rightarrow> answer" where
  "lsp_references e root db ov variant params =
     (case parse_text_position params of
        None \<Rightarrow> invalid_params
      | Some position \<Rightarrow>
          (case symbols_at e root db ov variant position of (ret, cursors) \<Rightarrow>
             if ret < 0 then query_failed
             else (case query_cursors e root db ov DB_RECORD_REFERENCE cursors new_locations of (ret2, c) \<Rightarrow>
               if ret2 < 0 then query_failed
               else (case (if include_declaration params then query_cursors e root db ov DB_RECORD_SYMBOL cursors c else (0, c)) of
                 (ret3, c2) \<Rightarrow> if ret3 < 0 then query_failed else Inr (VArray (cl_locations c2))))))"

section \<open>Highlights and hovers\<close>

definition DOCUMENT_HIGHLIGHT_TEXT :: int where "DOCUMENT_HIGHLIGHT_TEXT = 1"
definition DOCUMENT_HIGHLIGHT_READ :: int where "DOCUMENT_HIGHLIGHT_READ = 2"
definition DOCUMENT_HIGHLIGHT_WRITE :: int where "DOCUMENT_HIGHLIGHT_WRITE = 3"

text \<open>The highlights in order, each with its key, its range and its kind.\<close>

record highlight_collector =
  hl_highlights :: "(string \<times> jvalue \<times> int) list"
  hl_cache :: line_cache
  hl_excluded :: string

definition new_highlights :: highlight_collector where
  "new_highlights = \<lparr>hl_highlights = [], hl_cache = empty_cache, hl_excluded = []\<rparr>"

definition highlight_kind :: "db_record \<Rightarrow> int" where
  "highlight_kind r =
     (if dr_record r \<noteq> DB_REFERENCE then DOCUMENT_HIGHLIGHT_TEXT
      else if uint (dr_action r) = use_code USE_READ then DOCUMENT_HIGHLIGHT_READ
      else if uint (dr_action r) = use_code USE_WRITE then DOCUMENT_HIGHLIGHT_WRITE
      else DOCUMENT_HIGHLIGHT_TEXT)"

definition raise_kind :: "string \<Rightarrow> int \<Rightarrow> string \<times> jvalue \<times> int \<Rightarrow> string \<times> jvalue \<times> int" where
  "raise_kind key kind h = (case h of (k, rng, old) \<Rightarrow> if k = key \<and> kind > old then (k, rng, kind) else (k, rng, old))"

definition collect_highlight :: "query_env \<Rightarrow> string \<Rightarrow> highlight_collector \<Rightarrow> db_record \<Rightarrow> int \<times> highlight_collector" where
  "collect_highlight e root c r =
     (if hl_excluded c \<noteq> [] \<and> mapper_uri root (dr_path r) = hl_excluded c then (0, c)
      else
      let key = place_key r; kind = highlight_kind r
      in if key \<in> fst ` set (hl_highlights c)
         then (0, c\<lparr>hl_highlights := map (raise_kind key kind) (hl_highlights c)\<rparr>)
         else (case record_range (qe_sources e) root r (hl_cache c) of (rng, cache) \<Rightarrow>
           (0, c\<lparr>hl_highlights := hl_highlights c @ [(key, rng, kind)], hl_cache := cache\<rparr>)))"

definition highlight_options :: "db_record \<Rightarrow> query_options" where
  "highlight_options cursor =
     default_options\<lparr>q_symbol := Some (dr_symbol cursor), q_path := Some (dr_path cursor),
       q_variant := Some (dr_variant cursor),
       q_context := (if dr_local cursor \<noteq> 0 then Some (dr_context cursor) else None), q_record := DB_RECORD_ALL,
       q_has_local := True, q_local := dr_local cursor\<rparr>"

fun highlight_cursors ::
  "query_env \<Rightarrow> string \<Rightarrow> database \<Rightarrow> overlay \<Rightarrow> string \<Rightarrow> db_record list \<Rightarrow> highlight_collector \<Rightarrow> int \<times> highlight_collector" where
  "highlight_cursors e root db ov uri [] c = (0, c)"
| "highlight_cursors e root db ov uri (cursor # cs) c =
     (let opts = highlight_options cursor; cb = collect_highlight e root; c0 = c\<lparr>hl_excluded := []\<rparr> in
      case (if overlay_contains ov (dr_path cursor)
            then overlay_query ov (dr_path cursor) (Some (dr_variant cursor)) opts cb c0 else (0, c0)) of
        (ret, c1) \<Rightarrow>
          if ret < 0 then (- 1, c1)
          else
          let c2 = (if length (hl_highlights c1) \<noteq> length (hl_highlights c0)
                then c1\<lparr>hl_excluded := mapper_uri root (dr_path cursor)\<rparr> else c1)
          in (case query_local_paths e root db opts cb (uri_database_paths (qe_sources e) root uri) c2 of
               (ret2, c3) \<Rightarrow>
                 if ret2 < 0 then (- 1, c3\<lparr>hl_excluded := []\<rparr>)
                 else highlight_cursors e root db ov uri cs (c3\<lparr>hl_excluded := []\<rparr>)))"

definition lsp_document_highlight ::
  "query_env \<Rightarrow> string \<Rightarrow> database \<Rightarrow> overlay \<Rightarrow> string \<Rightarrow> object option \<Rightarrow> answer" where
  "lsp_document_highlight e root db ov variant params =
     (case parse_text_position params of
        None \<Rightarrow> invalid_params
      | Some position \<Rightarrow>
          (case symbols_at e root db ov variant position of (ret, cursors) \<Rightarrow>
             if ret < 0 then query_failed
             else (case highlight_cursors e root db ov (tp_uri position) cursors new_highlights of (ret2, c) \<Rightarrow>
               if ret2 < 0 then query_failed
               else Inr (VArray (map (\<lambda>(key, rng, kind). VObject [(''range'', rng), (''kind'', VInt kind)])
                 (hl_highlights c))))))"

definition hover_kind_name :: "int \<Rightarrow> string \<Rightarrow> string" where
  "hover_kind_name kind symbol =
     (if kind = kind_code SYMBOL_FUNCTION \<and> (CHR ''.'' \<in> set symbol \<or> contains_sub ''::'' symbol) then ''method''
      else symbol_kind_name kind)"

definition lsp_hover ::
  "query_env \<Rightarrow> string \<Rightarrow> database \<Rightarrow> overlay \<Rightarrow> string \<Rightarrow> object option \<Rightarrow> answer" where
  "lsp_hover e root db ov variant params =
     (case parse_text_position params of
        None \<Rightarrow> invalid_params
      | Some position \<Rightarrow>
          (case symbols_at e root db ov variant position of (ret, cursors) \<Rightarrow>
             if ret < 0 then query_failed
             else (case cursors of
               [] \<Rightarrow> Inr VNull
             | cursor # _ \<Rightarrow> Inr (VObject [(''contents'', VObject
                 [(''kind'', VString ''markdown''),
                  (''value'', VString (''**'' @ hover_kind_name (dr_kind cursor) (dr_symbol cursor) @ ''** `'' @
                     dr_symbol cursor @ ''`''))])]))))"

definition hierarchy_answer :: "hierarchy_status \<times> jvalue \<Rightarrow> answer" where
  "hierarchy_answer r =
     (case r of
        (Hierarchy_InvalidParams, _) \<Rightarrow> invalid_params
      | (Hierarchy_DatabaseError, _) \<Rightarrow> query_failed
      | (Hierarchy_Success, v) \<Rightarrow> Inr v)"

section \<open>Workspaces and saved documents\<close>

definition server_set_root_uri :: "lsp_env \<Rightarrow> string \<Rightarrow> lsp_server \<Rightarrow> bool \<times> lsp_server" where
  "server_set_root_uri e uri s =
     (case set_root_uri (le_fs e) uri (ls_root s) of
        (False, root) \<Rightarrow> (False, s\<lparr>ls_root := root\<rparr>)
      | (True, root) \<Rightarrow>
          (True, (case file_path uri of
             None \<Rightarrow> s\<lparr>ls_root := root\<rparr>
           | Some path \<Rightarrow> s\<lparr>ls_root := root, ls_indexer := indexer_set_root (le_fs e) (le_is_regular e) path (ls_indexer s)\<rparr>)))"

fun try_folders :: "lsp_env \<Rightarrow> jvalue list \<Rightarrow> lsp_server \<Rightarrow> lsp_server" where
  "try_folders e [] s = s"
| "try_folders e (folder # folders) s =
     (case Option.bind (as_object folder) (\<lambda>ob. get_string ob ''uri'') of
        None \<Rightarrow> try_folders e folders s
      | Some uri \<Rightarrow> (case server_set_root_uri e uri s of (ok, s1) \<Rightarrow> if ok then s1 else try_folders e folders s1))"

definition server_set_workspace :: "lsp_env \<Rightarrow> object option \<Rightarrow> lsp_server \<Rightarrow> lsp_server" where
  "server_set_workspace e params s =
     (case params of
        None \<Rightarrow> s
      | Some p \<Rightarrow>
          (case (case get_string p ''rootUri'' of None \<Rightarrow> (False, s) | Some uri \<Rightarrow> server_set_root_uri e uri s) of
             (ok, s1) \<Rightarrow>
               if ok then s1
               else (case get_array p ''workspaceFolders'' of None \<Rightarrow> s1 | Some folders \<Rightarrow> try_folders e folders s1)))"

definition severity_code :: "severity \<Rightarrow> int" where
  "severity_code v = (case v of DIAGNOSTIC_ERROR \<Rightarrow> 1 | DIAGNOSTIC_WARNING \<Rightarrow> 2 | DIAGNOSTIC_NOTE \<Rightarrow> 3)"

definition diagnostic_record :: "diagnostic \<Rightarrow> db_record" where
  "diagnostic_record d =
     \<lparr>dr_variant = [], dr_path = dg_file d, dr_symbol = '' '', dr_context = [], dr_record = DB_DECLARATION,
      dr_kind = 0, dr_action = 0, dr_mode = 0, dr_line = dg_line d, dr_column = dg_column d, dr_usr_id = 0,
      dr_context_usr_id = 0, dr_local = 0\<rparr>"

fun published :: "query_env \<Rightarrow> string \<Rightarrow> string \<Rightarrow> diagnostic list \<Rightarrow> line_cache \<Rightarrow> jvalue list" where
  "published e root uri [] cache = []"
| "published e root uri (d # ds) cache =
     (if dg_file d = [] \<or> mapper_uri root (dg_file d) \<noteq> uri then published e root uri ds cache
      else (case record_range (qe_sources e) root (diagnostic_record d) cache of (rng, cache1) \<Rightarrow>
        VObject [(''range'', rng), (''severity'', VInt (severity_code (dg_severity d))),
          (''source'', VString ''semindex''), (''message'', VString (dg_message d))] # published e root uri ds cache1))"

definition publish_message :: "string \<Rightarrow> jvalue list \<Rightarrow> jvalue" where
  "publish_message uri ds =
     VObject [(''jsonrpc'', VString ''2.0''), (''method'', VString ''textDocument/publishDiagnostics''),
       (''params'', VObject [(''uri'', VString uri), (''diagnostics'', VArray ds)])]"

definition saved_file :: "object option \<Rightarrow> (string \<times> string) option" where
  "saved_file params =
     (case Option.bind (Option.bind params (\<lambda>p. get_object p ''textDocument'')) (\<lambda>d. get_string d ''uri'') of
        None \<Rightarrow> None
      | Some uri \<Rightarrow> map_option (\<lambda>file. (uri, file)) (file_path uri))"

text \<open>\<open>None\<close> stands for the exception that ends the process, see the overlay.\<close>

definition lsp_did_save :: "lsp_env \<Rightarrow> object option \<Rightarrow> lsp_server \<Rightarrow> (bool \<times> lsp_server) option" where
  "lsp_did_save e params s =
     (case saved_file params of
        None \<Rightarrow> Some (True, s)
      | Some (uri, file) \<Rightarrow>
          (case indexer_update (le_pipeline e) (le_exists e) (le_frontend e) file (ls_indexer s) (ls_world s) of
             (None, pw1) \<Rightarrow> None
           | (Some (res, li), pw1) \<Rightarrow>
               let s1 = s\<lparr>ls_indexer := li, ls_world := pw1\<rparr>
               in Some (lsp_send e (publish_message uri
                    (published (le_queries e) (ls_root s1) uri (up_diagnostics res) empty_cache)) s1)))"

section \<open>Dispatch\<close>

definition server_capabilities :: jvalue where
  "server_capabilities =
     VObject
       [(''capabilities'', VObject
           [(''callHierarchyProvider'', VBool True), (''definitionProvider'', VBool True),
            (''documentHighlightProvider'', VBool True), (''hoverProvider'', VBool True),
            (''positionEncoding'', VString ''utf-16''), (''referencesProvider'', VBool True),
            (''textDocumentSync'', VObject
               [(''change'', VInt 0), (''openClose'', VBool True), (''save'', VBool True)])]),
        (''serverInfo'', VObject [(''name'', VString ''semindex'')])]"

text \<open>The requests that only look at the index; \<open>None\<close> for any other method.\<close>

definition lsp_query :: "lsp_env \<Rightarrow> string \<Rightarrow> object option \<Rightarrow> lsp_server \<Rightarrow> answer option" where
  "lsp_query e method params s =
     (let q = le_queries e; root = ls_root s; db = server_database s; ov = li_overlay (ls_indexer s); variant = ls_variant s in
      if method = ''textDocument/definition'' then Some (lsp_definition q root db ov variant params)
      else if method = ''textDocument/documentHighlight'' then Some (lsp_document_highlight q root db ov variant params)
      else if method = ''textDocument/references'' then Some (lsp_references q root db ov variant params)
      else if method = ''textDocument/hover'' then Some (lsp_hover q root db ov variant params)
      else if method = ''textDocument/prepareCallHierarchy''
        then Some (hierarchy_answer (prepare_hierarchy q db root variant params))
      else if method = ''callHierarchy/incomingCalls'' then Some (hierarchy_answer (incoming_calls q db root variant params))
      else if method = ''callHierarchy/outgoingCalls'' then Some (hierarchy_answer (outgoing_calls q db root variant params))
      else None)"

abbreviation invalid_request :: "lsp_env \<Rightarrow> jvalue option \<Rightarrow> lsp_server \<Rightarrow> (bool \<times> lsp_server) option" where
  "invalid_request e i s \<equiv> Some (lsp_error e i INVALID_REQUEST ''Invalid Request'' s)"

definition lsp_dispatch_running ::
  "lsp_env \<Rightarrow> string \<Rightarrow> jvalue option \<Rightarrow> object option \<Rightarrow> lsp_server \<Rightarrow> (bool \<times> lsp_server) option" where
  "lsp_dispatch_running e method i params s =
     (if method = ''initialized'' then (if i \<noteq> None then invalid_request e i s else Some (True, s))
      else if method = ''textDocument/didOpen'' \<or> method = ''textDocument/didSave''
      then (if i \<noteq> None then invalid_request e i s else lsp_did_save e params s)
      else case i of
        None \<Rightarrow> Some (True, s)
      | Some v \<Rightarrow>
          (case lsp_query e method params s of
             Some a \<Rightarrow> Some (lsp_answer e v a s)
           | None \<Rightarrow>
               if method = ''shutdown'' then Some (lsp_reply e v VNull (s\<lparr>ls_state := Lsp_Shutdown\<rparr>))
               else Some (lsp_error e i METHOD_NOT_FOUND ''Method not found'' s)))"

definition lsp_dispatch :: "lsp_env \<Rightarrow> object \<Rightarrow> lsp_server \<Rightarrow> (bool \<times> lsp_server) option" where
  "lsp_dispatch e message s =
     (let i = get message ''id''; params = get_object message ''params'' in
      case get_string message ''method'' of
        None \<Rightarrow> invalid_request e i s
      | Some method \<Rightarrow>
          if get_string message ''jsonrpc'' \<noteq> Some ''2.0'' then invalid_request e i s
          else if method = ''exit''
          then (if i \<noteq> None then invalid_request e i s
                else Some (True, s\<lparr>ls_exit_status := (if ls_state s = Lsp_Shutdown then 0 else 1), ls_exiting := True\<rparr>))
          else if method = ''initialize''
          then (case i of
             None \<Rightarrow> invalid_request e i s
           | Some v \<Rightarrow>
               if ls_state s \<noteq> Lsp_Uninitialized then invalid_request e i s
               else Some (lsp_reply e v server_capabilities
                 ((server_set_workspace e params s)\<lparr>ls_state := Lsp_Running\<rparr>)))
          else if ls_state s = Lsp_Uninitialized
          then (if i \<noteq> None then Some (lsp_error e i SERVER_NOT_INITIALIZED ''Server not initialized'' s) else Some (True, s))
          else if ls_state s = Lsp_Shutdown
          then (if i \<noteq> None then invalid_request e i s else Some (True, s))
          else lsp_dispatch_running e method i params s)"

text \<open>One turn of the loop: a message that was read.\<close>

definition lsp_handle :: "lsp_env \<Rightarrow> string \<Rightarrow> lsp_server \<Rightarrow> (bool \<times> lsp_server) option" where
  "lsp_handle e payload s =
     (case te_parse (le_transport e) payload of
        None \<Rightarrow> Some (lsp_error e None PARSE_ERROR ''Parse error'' s)
      | Some parsed \<Rightarrow>
          (case as_object parsed of
             None \<Rightarrow> invalid_request e None s
           | Some message \<Rightarrow> lsp_dispatch e message s))"

text \<open>The other processes have committed what they want when a message is handled.\<close>

definition others_commit :: "lsp_env \<Rightarrow> lsp_server \<Rightarrow> lsp_server" where
  "others_commit e s =
     s\<lparr>ls_world := (ls_world s)\<lparr>pw_index := (pw_index (ls_world s))
       \<lparr>shared := le_others e (shared (pw_index (ls_world s)))\<rparr>\<rparr>\<rparr>"

end
