(* ===== verification/Transport_Properties.thy ===== *)
theory Transport_Properties
  imports Transport "HOL-Library.Sublist"
begin

text \<open>
  Framing is invertible: the messages that one end writes are the messages that the other end
  reads, in order and with nothing left over; and a message is never longer than its bound.
\<close>

section \<open>Lines and headers\<close>

definition ready_input :: "istream \<Rightarrow> string \<Rightarrow> bool" where
  "ready_input s text \<longleftrightarrow> in_good s \<and> \<not> in_broken s \<and> in_rest s = text"

lemma ready_line:
  assumes "ready_input s (line @ CHR 0x0A # rest)" and "CHR 0x0A \<notin> set line"
  shows "getline s old = (True, line, s\<lparr>in_rest := rest\<rparr>)" "ready_input (s\<lparr>in_rest := rest\<rparr>) rest"
  using assms by (simp_all add: getline_def ready_input_def in_good_def)

lemma ready_end: "ready_input s [] \<Longrightarrow> getline s old = (False, [], s\<lparr>in_eof := True, in_fail := True\<rparr>)"
  by (cases s) (simp add: getline_def ready_input_def in_good_def)

definition frame :: "string \<Rightarrow> string" where
  "frame payload = content_length_key @ '' '' @ decimal (length payload) @ crlf @ crlf @ payload"

lemma isdigit_plain: "isdigit c \<Longrightarrow> c \<noteq> CHR 0x0A \<and> c \<noteq> CHR 0x0D \<and> \<not> is_blank c"
  by (auto simp: isdigit_def is_blank_def)

lemma decimal_digits: "list_all isdigit (decimal n)" "decimal n \<noteq> []"
  using digits_decimal [of n] by (simp_all add: decimal_def)

lemma decimal_plain: "CHR 0x0A \<notin> set (decimal n)" "CHR 0x0D \<notin> set (decimal n)"
  using decimal_digits(1) [of n] isdigit_plain by (auto simp: list_all_iff)

lemma content_length_decimal:
  assumes "0 < n" and "n \<le> MAX_LSP_MESSAGE"
  shows "content_length ('' '' @ decimal n) = Some n"
proof -
  obtain c cs where d: "decimal n = c # cs" "isdigit c"
    using decimal_digits [of n] by (cases "decimal n") auto
  with isdigit_plain have "dropWhile is_blank ('' '' @ decimal n) = decimal n"
    by (simp add: is_blank_def)
  moreover have "n < 2 ^ 64" using assms(2) by (simp add: MAX_LSP_MESSAGE_def)
  ultimately show ?thesis using assms by (simp add: content_length_def from_chars10_decimal)
qed

lemma strip_cr_snoc [simp]: "strip_cr (line @ [CHR 0x0D]) = line"
  by (simp add: strip_cr_def)

lemma lsp_headers_frame:
  assumes "ready_input s (frame payload @ rst)" and "0 < length payload" and "length payload \<le> MAX_LSP_MESSAGE"
  shows "lsp_headers s old None = (Some ([], Some (length payload)), s\<lparr>in_rest := payload @ rst\<rparr>)"
    "ready_input (s\<lparr>in_rest := payload @ rst\<rparr>) (payload @ rst)"
proof -
  let ?line = "content_length_key @ '' '' @ decimal (length payload)"
  let ?rest = "[CHR 0x0D, CHR 0x0A] @ payload @ rst"
  have plain: "CHR 0x0A \<notin> set (?line @ [CHR 0x0D])"
    using decimal_plain by (simp add: content_length_key_def)
  have shown: "frame payload @ rst = (?line @ [CHR 0x0D]) @ CHR 0x0A # ?rest"
    by (simp add: frame_def crlf_def)
  have 1: "getline s l = (True, ?line @ [CHR 0x0D], s\<lparr>in_rest := ?rest\<rparr>)" for l
    using ready_line(1) [OF assms(1) [unfolded shown] plain] .
  have r1: "ready_input (s\<lparr>in_rest := ?rest\<rparr>) ([CHR 0x0D] @ CHR 0x0A # (payload @ rst))"
    using ready_line(2) [OF assms(1) [unfolded shown] plain] by simp
  have 2: "getline (s\<lparr>in_rest := ?rest\<rparr>) l = (True, [CHR 0x0D], s\<lparr>in_rest := payload @ rst\<rparr>)" for l
    using ready_line(1) [OF r1] by simp
  have strip: "strip_cr (?line @ [CHR 0x0D]) = ?line" "strip_cr [CHR 0x0D] = []"
    using strip_cr_snoc [of ?line] strip_cr_snoc [of "[]"] by (simp_all only: append_Nil)
  have len: "content_length ('' '' @ decimal (length payload)) = Some (length payload)"
    using content_length_decimal [OF assms(2,3)] .
  have "take (length content_length_key) ?line = content_length_key"
    "drop (length content_length_key) ?line = '' '' @ decimal (length payload)" "?line \<noteq> []"
    by (simp_all add: content_length_key_def)
  with 1 strip len have "lsp_headers s old None =
      lsp_headers (s\<lparr>in_rest := ?rest\<rparr>) ?line (Some (length payload))"
    by (subst lsp_headers.simps) (simp add: Let_def)
  also have "\<dots> = (Some ([], Some (length payload)), s\<lparr>in_rest := payload @ rst\<rparr>)"
    by (subst lsp_headers.simps) (simp only: 2 strip Let_def prod.case bool.case simp_thms if_True)
  finally show "lsp_headers s old None = (Some ([], Some (length payload)), s\<lparr>in_rest := payload @ rst\<rparr>)" .
  show "ready_input (s\<lparr>in_rest := payload @ rst\<rparr>) (payload @ rst)"
    using assms(1) by (simp add: ready_input_def in_good_def)
qed

lemma lsp_read_frame:
  assumes "ready_input (tr_in t) (frame payload @ rst)" and "0 < length payload" and "length payload \<le> MAX_LSP_MESSAGE"
    and "tr_log t = None"
  shows "lsp_read e t = (Message, payload, t\<lparr>tr_in := (tr_in t)\<lparr>in_rest := rst\<rparr>, tr_log := None\<rparr>)"
  using lsp_headers_frame(1) [OF assms(1-3), of "[]"] lsp_headers_frame(2) [OF assms(1-3)] assms(4)
  by (simp add: lsp_read_def read_bytes_def ready_input_def logger_write_def)

lemma lsp_read_end: "ready_input (tr_in t) [] \<Longrightarrow> fst (lsp_read e t) = EndOfFile"
  by (simp add: lsp_read_def lsp_headers.simps ready_end in_failed_def)

text \<open>Reading messages until the end of the input, or until one cannot be read.\<close>

function read_all :: "(transport \<Rightarrow> read_result \<times> string \<times> transport) \<Rightarrow> nat \<Rightarrow> transport \<Rightarrow> string list \<times> read_result" where
  "read_all rd n t =
     (case rd t of (res, payload, t1) \<Rightarrow>
        if res = Message \<and> 0 < n then (case read_all rd (n - 1) t1 of (ps, r) \<Rightarrow> (payload # ps, r))
        else ([], res))"
  by pat_completeness auto
termination by (relation "measure (\<lambda>(rd, n, t). n)") auto

declare read_all.simps [simp del]

lemma read_all_frames:
  assumes "list_all (\<lambda>p. 0 < length p \<and> length p \<le> MAX_LSP_MESSAGE) ps"
    and "ready_input (tr_in t) (concat (map frame ps))" and "tr_log t = None" and "length ps \<le> n"
  shows "read_all (lsp_read e) n t = (ps, EndOfFile)"
  using assms
proof (induction ps arbitrary: t n)
  case Nil
  then show ?case using lsp_read_end [of t e] by (auto simp: read_all.simps split: prod.split)
next
  case (Cons p ps)
  let ?t1 = "t\<lparr>tr_in := (tr_in t)\<lparr>in_rest := concat (map frame ps)\<rparr>, tr_log := None\<rparr>"
  have "lsp_read e t = (Message, p, ?t1)"
    using lsp_read_frame [of t p "concat (map frame ps)" e] Cons.prems by simp
  moreover have "ready_input (tr_in ?t1) (concat (map frame ps))"
    using Cons.prems(2) by (simp add: ready_input_def in_good_def)
  with Cons.IH [of ?t1 "n - 1"] Cons.prems have "read_all (lsp_read e) (n - 1) ?t1 = (ps, EndOfFile)" by simp
  ultimately show ?case using Cons.prems(4) by (subst read_all.simps) auto
qed

section \<open>Writing\<close>

lemma logger_None [simp]: "logger_write e d p None = (True, None)"
  by (simp add: logger_write_def)

fun write_all :: "(jvalue \<Rightarrow> transport \<Rightarrow> bool \<times> transport) \<Rightarrow> jvalue list \<Rightarrow> transport \<Rightarrow> bool \<times> transport" where
  "write_all wr [] t = (True, t)"
| "write_all wr (m # ms) t =
     (case wr m t of (False, t1) \<Rightarrow> (False, t1) | (True, t1) \<Rightarrow> write_all wr ms t1)"

lemma lsp_write_text:
  "lsp_write e m t = (True, t') \<Longrightarrow>
     o_text (tr_out t') = o_text (tr_out t) @ frame (te_print e m)"
  using cputs_text [of "te_out e"
      "[content_length_key @ '' '', decimal (length (te_print e m)), crlf @ crlf, te_print e m, []]" "tr_out t"]
  by (auto simp: lsp_write_def Let_def frame_def split: if_splits prod.splits)

lemma mcp_write_text:
  "mcp_write e m t = (True, t') \<Longrightarrow>
     o_text (tr_out t') = o_text (tr_out t) @ te_print e m @ newline"
  using cputs_text [of "te_out e" "[te_print e m, newline, []]" "tr_out t"]
  by (auto simp: mcp_write_def Let_def split: if_splits prod.splits)

lemma write_all_text:
  assumes "\<And>m t t'. wr m t = (True, t') \<Longrightarrow> o_text (tr_out t') = o_text (tr_out t) @ fr m"
    and "write_all wr ms t = (True, t')"
  shows "o_text (tr_out t') = o_text (tr_out t) @ concat (map fr ms)"
  using assms(2)
proof (induction ms arbitrary: t)
  case Nil
  then show ?case by simp
next
  case (Cons m ms)
  obtain b t1 where w: "wr m t = (b, t1)" by (rule prod.exhaust)
  with Cons.prems have "b" "write_all wr ms t1 = (True, t')" by (auto split: bool.splits)
  with Cons.IH [of t1] assms(1) [of m t t1] w show ?case by simp
qed

section \<open>Lines\<close>

definition one_line :: "string \<Rightarrow> bool" where
  "one_line p \<longleftrightarrow> p \<noteq> [] \<and> CHR 0x0A \<notin> set p \<and> List.last p \<noteq> CHR 0x0D \<and> length p \<le> MAX_MCP_MESSAGE"

lemma mcp_read_line:
  assumes "ready_input (tr_in t) (p @ newline @ rst)" and "one_line p" and "tr_log t = None"
  shows "mcp_read e t = (Message, p, t\<lparr>tr_in := (tr_in t)\<lparr>in_rest := rst\<rparr>, tr_log := None\<rparr>)"
proof -
  have "getline (tr_in t) [] = (True, p, (tr_in t)\<lparr>in_rest := rst\<rparr>)"
    using ready_line(1) [of "tr_in t" p rst] assms(1,2) by (simp add: newline_def one_line_def)
  with assms(2,3) show ?thesis by (simp add: mcp_read_def strip_cr_def one_line_def)
qed

lemma read_all_lines:
  assumes "list_all one_line ps" and "ready_input (tr_in t) (concat (map (\<lambda>p. p @ newline) ps))"
    and "tr_log t = None" and "length ps \<le> n"
  shows "read_all (mcp_read e) n t = (ps, EndOfFile)"
  using assms
proof (induction ps arbitrary: t n)
  case Nil
  then have "fst (mcp_read e t) = EndOfFile" by (simp add: mcp_read_def ready_end)
  then show ?case by (auto simp: read_all.simps split: prod.split)
next
  case (Cons p ps)
  let ?rst = "concat (map (\<lambda>p. p @ newline) ps)"
  let ?t1 = "t\<lparr>tr_in := (tr_in t)\<lparr>in_rest := ?rst\<rparr>, tr_log := None\<rparr>"
  have "mcp_read e t = (Message, p, ?t1)"
    using mcp_read_line [of t p ?rst e] Cons.prems by simp
  moreover have "ready_input (tr_in ?t1) ?rst"
    using Cons.prems(2) by (simp add: ready_input_def in_good_def)
  with Cons.IH [of ?t1 "n - 1"] Cons.prems have "read_all (mcp_read e) (n - 1) ?t1 = (ps, EndOfFile)" by simp
  ultimately show ?case using Cons.prems(4) by (subst read_all.simps) auto
qed

section \<open>Properties\<close>

text \<open>
  C33. Both transports are reversible. If the messages \<open>ms\<close> have been written, and their texts keep
  to the bounds of the transport (not empty, of at most 64 or 4 MiB, and on one line for the model
  context protocol), then the other end reads exactly their texts, in order, and then the end of
  the input.
\<close>

theorem messages_roundtrip:
  assumes "list_all (\<lambda>m. 0 < length (te_print e m) \<and> length (te_print e m) \<le> MAX_LSP_MESSAGE) ms"
    and "write_all (lsp_write e) ms t = (True, t')" and "o_text (tr_out t) = []"
    and "list_all (\<lambda>m. one_line (te_print e m)) ns"
    and "write_all (mcp_write e) ns u = (True, u')" and "o_text (tr_out u) = []"
    and "tr_log r = None"
  shows "read_all (lsp_read e) (length ms) (r\<lparr>tr_in := open_input (o_text (tr_out t'))\<rparr>) = (map (te_print e) ms, EndOfFile) \<and>
    read_all (mcp_read e) (length ns) (r\<lparr>tr_in := open_input (o_text (tr_out u'))\<rparr>) = (map (te_print e) ns, EndOfFile)"
proof
  have "o_text (tr_out t') = concat (map (\<lambda>m. frame (te_print e m)) ms)"
    using write_all_text [OF lsp_write_text assms(2)] assms(3) by simp
  then have shown: "o_text (tr_out t') = concat (map frame (map (te_print e) ms))"
    by (simp add: comp_def)
  show "read_all (lsp_read e) (length ms) (r\<lparr>tr_in := open_input (o_text (tr_out t'))\<rparr>) = (map (te_print e) ms, EndOfFile)"
    using assms(1,7)
    by (intro read_all_frames) (simp_all add: shown ready_input_def in_good_def open_input_def list_all_iff)
  have "o_text (tr_out u') = concat (map (\<lambda>m. te_print e m @ newline) ns)"
    using write_all_text [OF mcp_write_text assms(5)] assms(6) by simp
  then have shown: "o_text (tr_out u') = concat (map (\<lambda>p. p @ newline) (map (te_print e) ns))"
    by (simp add: comp_def)
  show "read_all (mcp_read e) (length ns) (r\<lparr>tr_in := open_input (o_text (tr_out u'))\<rparr>) = (map (te_print e) ns, EndOfFile)"
    using assms(4,7)
    by (intro read_all_lines) (simp_all add: shown ready_input_def in_good_def open_input_def list_all_iff)
qed

lemma strip_cr_prefix: obtains cr where "line = strip_cr line @ cr"
proof (cases "line \<noteq> [] \<and> List.last line = CHR 0x0D")
  case True
  then have "line = strip_cr line @ [CHR 0x0D]" using append_butlast_last_id [of line] by (simp add: strip_cr_def)
  then show thesis by (rule that)
next
  case False
  then have "line = strip_cr line @ []" by (auto simp: strip_cr_def)
  then show thesis by (rule that)
qed

lemma getline_effect:
  assumes "getline s old = (True, line, s')"
  shows "CHR 0x0A \<notin> set line" "\<exists>tail. in_rest s = line @ tail @ in_rest s'"
proof -
  obtain l r where sp: "split_line (in_rest s) = (l, r)" by (rule prod.exhaust)
  have "CHR 0x0A \<notin> set line \<and> (\<exists>tail. in_rest s = line @ tail @ in_rest s')"
  proof (cases r)
    case None
    from split_line_None [OF sp [unfolded None]] have l: "in_rest s = l" "CHR 0x0A \<notin> set l" by simp_all
    with assms have "line = l" "in_rest s' = []"
      by (auto simp: getline_def sp None split: if_splits)
    with l show ?thesis by simp
  next
    case (Some rest)
    from split_line_Some [OF sp [unfolded Some]] have l: "in_rest s = l @ CHR 0x0A # rest" "CHR 0x0A \<notin> set l" by simp_all
    from assms have "line = l" "in_rest s' = rest"
      by (auto simp: getline_def sp Some split: if_splits)
    with l show ?thesis by (intro conjI exI [of _ "[CHR 0x0A]"]) simp_all
  qed
  then show "CHR 0x0A \<notin> set line" "\<exists>tail. in_rest s = line @ tail @ in_rest s'" by simp_all
qed

lemma getline_suffix: "getline s old = (ok, line, s') \<Longrightarrow> suffix (in_rest s') (in_rest s)"
proof (cases ok)
  case True
  assume "getline s old = (ok, line, s')"
  with True getline_effect(2) [of s old line s'] obtain tail where "in_rest s = line @ tail @ in_rest s'" by auto
  then show ?thesis by (intro suffixI [of _ "line @ tail"]) (simp only: append_assoc)
next
  case False
  assume "getline s old = (ok, line, s')"
  with False have "in_rest s' = in_rest s \<or> in_rest s' = []"
    by (auto simp: getline_def split: if_splits prod.splits option.splits)
  then show ?thesis by auto
qed

definition length_ok :: "nat option \<Rightarrow> bool" where
  "length_ok len = pred_option (\<lambda>n. 0 < n \<and> n \<le> MAX_LSP_MESSAGE) len"

lemma content_length_ok: "content_length text = Some n \<Longrightarrow> length_ok (Some n)"
  by (auto simp: length_ok_def content_length_def split: option.splits if_splits)

lemma lsp_headers_effect:
  "lsp_headers s old len = (Some (line, len'), s') \<Longrightarrow> length_ok len \<Longrightarrow>
     length_ok len' \<and> suffix (in_rest s') (in_rest s)"
proof (induction s old len rule: lsp_headers.induct)
  case (1 s old len)
  obtain ok line1 s1 where g: "getline s old = (ok, line1, s1)" by (rule prod_cases3)
  note rest = getline_suffix [OF g]
  note step = "1.prems"(1) [unfolded lsp_headers.simps [of s] g prod.case]
  show ?case
  proof (cases "ok \<and> strip_cr line1 \<noteq> []")
    case False
    with step have "len' = len" "s' = s1" by (cases ok; simp add: Let_def)+
    with "1.prems"(2) rest show ?thesis by simp
  next
    case True
    show ?thesis
    proof (cases "take (length content_length_key) (strip_cr line1) = content_length_key")
      case other: False
      with step True have "lsp_headers s1 (strip_cr line1) len = (Some (line, len'), s')" by (simp add: Let_def)
      from "1.IH"(1) [OF g [symmetric] _ refl refl _ _ this "1.prems"(2)] True other
      have "length_ok len' \<and> suffix (in_rest s') (in_rest s1)" by simp
      with rest show ?thesis using suffix_order.trans by blast
    next
      case key: True
      with step True obtain n where n: "len = None" "content_length (drop (length content_length_key) (strip_cr line1)) = Some n"
        and hd: "lsp_headers s1 (strip_cr line1) (Some n) = (Some (line, len'), s')"
        by (auto simp: Let_def split: if_splits option.splits)
      from "1.IH"(2) [OF g [symmetric] _ refl refl _ _ _ n(2) hd content_length_ok [OF n(2)]] True key n(1)
      have "length_ok len' \<and> suffix (in_rest s') (in_rest s1)" by simp
      with rest show ?thesis using suffix_order.trans by blast
    qed
  qed
qed

lemma lsp_read_consumes:
  assumes "lsp_read e t = (Message, p, t')"
  shows "0 < length p \<and> length p \<le> MAX_LSP_MESSAGE \<and> (\<exists>header. in_rest (tr_in t) = header @ p @ in_rest (tr_in t'))"
proof -
  obtain line n s1 where h: "lsp_headers (tr_in t) [] None = (Some (line, Some n), s1)"
    and r: "length (fst (read_bytes s1 n)) = n" "p = fst (read_bytes s1 n)" "tr_in t' = snd (read_bytes s1 n)"
    using assms by (auto simp: lsp_read_def split: prod.splits option.splits if_splits)
  from lsp_headers_effect [OF h] have n: "0 < n" "n \<le> MAX_LSP_MESSAGE" and "suffix (in_rest s1) (in_rest (tr_in t))"
    by (simp_all add: length_ok_def)
  then obtain header where "in_rest (tr_in t) = header @ in_rest s1" by (auto elim: suffixE)
  moreover have "in_rest s1 = p @ in_rest (tr_in t')"
    using r(1) n(1) unfolding r(2,3) by (simp add: read_bytes_def split: if_splits)
  ultimately have "in_rest (tr_in t) = header @ p @ in_rest (tr_in t')" by simp
  moreover have "length p = n" using r(1,2) by simp
  ultimately show "0 < length p \<and> length p \<le> MAX_LSP_MESSAGE \<and> (\<exists>header. in_rest (tr_in t) = header @ p @ in_rest (tr_in t'))"
    using n by blast
qed

lemma mcp_read_consumes:
  assumes "mcp_read e u = (Message, q, u')"
  shows "0 < length q \<and> length q \<le> MAX_MCP_MESSAGE \<and> CHR 0x0A \<notin> set q \<and> (\<exists>tail. in_rest (tr_in u) = q @ tail @ in_rest (tr_in u'))"
proof -
  obtain ok line s2 where g0: "getline (tr_in u) [] = (ok, line, s2)" by (rule prod_cases3)
  have ok: "ok" using assms by (cases ok) (simp_all add: mcp_read_def g0 split: if_splits)
  note g = g0 [unfolded eqTrueI [OF ok]]
  obtain lg log1 where lg: "logger_write e ''CLIENT --> SERVER'' (strip_cr line) (tr_log u) = (lg, log1)"
    by (rule prod.exhaust)
  have q: "q = strip_cr line" "q \<noteq> []" "length q \<le> MAX_MCP_MESSAGE" "tr_in u' = s2"
    using assms by (auto simp: mcp_read_def g Let_def lg split: if_splits)
  obtain cr where cr: "line = q @ cr" unfolding q(1) by (rule strip_cr_prefix)
  from getline_effect(2) [OF g] obtain tail where "in_rest (tr_in u) = line @ tail @ in_rest s2" ..
  then have "in_rest (tr_in u) = q @ (cr @ tail) @ in_rest (tr_in u')" by (simp add: cr q(4))
  moreover have "CHR 0x0A \<notin> set q" using getline_effect(1) [OF g] by (simp add: cr)
  ultimately show "0 < length q \<and> length q \<le> MAX_MCP_MESSAGE \<and> CHR 0x0A \<notin> set q \<and>
      (\<exists>tail. in_rest (tr_in u) = q @ tail @ in_rest (tr_in u'))"
    using q(2,3) by blast
qed


text \<open>
  C34. Whatever arrives, a message that is delivered has between one byte and the bound of its
  transport, and is taken from the input as it is: what was before it and what follows it make
  up the rest of the input.
\<close>

theorem reads_bounded:
  assumes "lsp_read e t = (Message, p, t')" and "mcp_read e u = (Message, q, u')"
  shows "(0 < length p \<and> length p \<le> MAX_LSP_MESSAGE \<and> (\<exists>header. in_rest (tr_in t) = header @ p @ in_rest (tr_in t'))) \<and>
    (0 < length q \<and> length q \<le> MAX_MCP_MESSAGE \<and> CHR 0x0A \<notin> set q \<and> (\<exists>tail. in_rest (tr_in u) = q @ tail @ in_rest (tr_in u')))"
  using lsp_read_consumes [OF assms(1)] mcp_read_consumes [OF assms(2)] by (rule conjI)

section \<open>Witnesses\<close>

definition plain_transport_env :: transport_env where
  "plain_transport_env =
     \<lparr>te_out = (\<lambda>n. None), te_log = (\<lambda>n. None), te_stamp = (\<lambda>out. ''10:00:00.000000''),
       te_print = (\<lambda>v. case v of VString s \<Rightarrow> s | _ \<Rightarrow> ''null''), te_parse = (\<lambda>s. Some (VString s))\<rparr>"

definition fresh_transport :: "string \<Rightarrow> transport" where
  "fresh_transport text =
     \<lparr>tr_in = open_input text, tr_out = \<lparr>o_text = [], o_error = False, o_calls = 0\<rparr>, tr_log = None\<rparr>"

lemma plain_print [simp]: "te_print plain_transport_env (VString s) = s"
  by (simp add: plain_transport_env_def)

lemma plain_cputs [simp]: "o_error (cputs (te_out plain_transport_env) ss out) = o_error out"
  by (rule cputs_works) (simp add: plain_transport_env_def)

lemma plain_lsp_write:
  "\<not> o_error (tr_out t) \<Longrightarrow> tr_log t = None \<Longrightarrow>
     fst (lsp_write plain_transport_env m t) \<and> \<not> o_error (tr_out (snd (lsp_write plain_transport_env m t))) \<and>
     tr_log (snd (lsp_write plain_transport_env m t)) = None"
  by (simp add: lsp_write_def Let_def del: cputs_simps)

lemma plain_mcp_write:
  "\<not> o_error (tr_out t) \<Longrightarrow> tr_log t = None \<Longrightarrow>
     fst (mcp_write plain_transport_env m t) \<and> \<not> o_error (tr_out (snd (mcp_write plain_transport_env m t))) \<and>
     tr_log (snd (mcp_write plain_transport_env m t)) = None"
  by (simp add: mcp_write_def Let_def del: cputs_simps)

lemma plain_write_all:
  assumes "\<And>m t. \<not> o_error (tr_out t) \<Longrightarrow> tr_log t = None \<Longrightarrow>
      fst (wr m t) \<and> \<not> o_error (tr_out (snd (wr m t))) \<and> tr_log (snd (wr m t)) = None"
  shows "\<not> o_error (tr_out t) \<Longrightarrow> tr_log t = None \<Longrightarrow> write_all wr ms t = (True, snd (write_all wr ms t))"
proof (induction ms arbitrary: t)
  case Nil
  then show ?case by simp
next
  case (Cons m ms)
  obtain b t1 where w: "wr m t = (b, t1)" by (rule prod.exhaust)
  with assms [OF Cons.prems, of m] Cons.IH [of t1] show ?case by simp
qed

theorem messages_roundtrip_witness:
  "read_all (lsp_read plain_transport_env) 2 (fresh_transport []\<lparr>tr_in := open_input (o_text (tr_out (snd
       (write_all (lsp_write plain_transport_env) [VString ''ab'', VString ''cde''] (fresh_transport [])))))\<rparr>) =
     ([''ab'', ''cde''], EndOfFile) \<and>
   read_all (mcp_read plain_transport_env) 1 (fresh_transport []\<lparr>tr_in := open_input (o_text (tr_out (snd
       (write_all (mcp_write plain_transport_env) [VString ''xyz''] (fresh_transport [])))))\<rparr>) =
     ([''xyz''], EndOfFile)"
proof -
  have start: "\<not> o_error (tr_out (fresh_transport []))" "tr_log (fresh_transport []) = None" "o_text (tr_out (fresh_transport [])) = []"
    by (simp_all add: fresh_transport_def)
  have "list_all (\<lambda>m. 0 < length (te_print plain_transport_env m) \<and> length (te_print plain_transport_env m) \<le> MAX_LSP_MESSAGE)
      [VString ''ab'', VString ''cde'']"
    by (simp add: MAX_LSP_MESSAGE_def)
  note l = this
  have m: "list_all (\<lambda>m. one_line (te_print plain_transport_env m)) [VString ''xyz'']"
    by (simp add: one_line_def MAX_MCP_MESSAGE_def)
  have wl: "write_all (lsp_write plain_transport_env) ms (fresh_transport []) =
      (True, snd (write_all (lsp_write plain_transport_env) ms (fresh_transport [])))" for ms
    by (rule plain_write_all) (rule plain_lsp_write start | assumption)+
  have wm: "write_all (mcp_write plain_transport_env) ms (fresh_transport []) =
      (True, snd (write_all (mcp_write plain_transport_env) ms (fresh_transport [])))" for ms
    by (rule plain_write_all) (rule plain_mcp_write start | assumption)+
  note result = messages_roundtrip [OF l wl start(3) m wm start(3,2)]
  show ?thesis
    using result by (simp only: list.map plain_print list.size numeral_2_eq_2 One_nat_def add_0 add_Suc_right Nat.add_0_right)
qed


lemma sample_ready: "ready_input (tr_in (fresh_transport p)) p"
  by (simp add: fresh_transport_def ready_input_def in_good_def open_input_def)

theorem reads_bounded_witness:
  "fst (lsp_read plain_transport_env (fresh_transport (frame ''ab'' @ frame ''c''))) = Message \<and>
   (\<exists>header. frame ''ab'' @ frame ''c'' = header @ ''ab'' @ frame ''c'') \<and>
   fst (mcp_read plain_transport_env (fresh_transport (''xyz'' @ newline @ ''a''))) = Message \<and>
   (\<exists>tail. ''xyz'' @ newline @ ''a'' = ''xyz'' @ tail @ ''a'')"
proof -
  let ?t = "fresh_transport (frame ''ab'' @ frame ''c'')" and ?u = "fresh_transport (''xyz'' @ newline @ ''a'')"
  have log: "tr_log (fresh_transport p) = None" "in_rest (tr_in (fresh_transport p)) = p" for p
    by (simp_all add: fresh_transport_def open_input_def)
  have l: "lsp_read plain_transport_env ?t = (Message, ''ab'', ?t\<lparr>tr_in := (tr_in ?t)\<lparr>in_rest := frame ''c''\<rparr>, tr_log := None\<rparr>)"
    using lsp_read_frame [OF sample_ready, of "''ab''" "frame ''c''"] log by (simp add: MAX_LSP_MESSAGE_def)
  have m: "mcp_read plain_transport_env ?u = (Message, ''xyz'', ?u\<lparr>tr_in := (tr_in ?u)\<lparr>in_rest := ''a''\<rparr>, tr_log := None\<rparr>)"
    using mcp_read_line [OF sample_ready, of "''xyz''" "''a''"] log by (simp add: one_line_def MAX_MCP_MESSAGE_def)
  note bounded = reads_bounded [OF l m]
  from bounded have "\<exists>header. frame ''ab'' @ frame ''c'' = header @ ''ab'' @ frame ''c''" by (simp add: log(2))
  moreover from bounded have "\<exists>tail. ''xyz'' @ newline @ ''a'' = ''xyz'' @ tail @ ''a''" by (simp add: log(2))
  ultimately show ?thesis using l m by simp
qed

end
