(* ===== verification/Lsp_Session.thy ===== *)
theory Lsp_Session
  imports Lsp_Server Transport_Properties
begin

text \<open>
  A session of the language server: the relation \<open>lsp_turn\<close> has one rule per kind of message and says
  what is answered and how the server goes on; the code takes one of the rules, and the properties
  follow by cases. The loop over messages ends because every message takes bytes from the input.
\<close>

section \<open>Turns\<close>

datatype incoming =
    Malformed "jvalue option"
  | Request jvalue string "object option"
  | Notification string "object option"

definition classify :: "jvalue option \<Rightarrow> incoming" where
  "classify parsed =
     (case Option.bind parsed as_object of
        None \<Rightarrow> Malformed None
      | Some message \<Rightarrow>
          (case get_string message ''method'' of
             None \<Rightarrow> Malformed (get message ''id'')
           | Some mth \<Rightarrow>
               if get_string message ''jsonrpc'' \<noteq> Some ''2.0'' then Malformed (get message ''id'')
               else (case get message ''id'' of
                  None \<Rightarrow> Notification mth (get_object message ''params'')
                | Some i \<Rightarrow> Request i mth (get_object message ''params''))))"

definition is_save :: "string \<Rightarrow> bool" where
  "is_save mth \<longleftrightarrow> mth = ''textDocument/didOpen'' \<or> mth = ''textDocument/didSave''"

inductive lsp_turn :: "lsp_env \<Rightarrow> lsp_server \<Rightarrow> incoming \<Rightarrow> jvalue option \<Rightarrow> lsp_server \<Rightarrow> bool" for e s where
  malformed: "lsp_turn e s (Malformed i) (Some (error_message i code text1)) s"
| exit: "lsp_turn e s (Notification ''exit'' params) None
    (s\<lparr>ls_exit_status := (if ls_state s = Lsp_Shutdown then 0 else 1), ls_exiting := True\<rparr>)"
| initialize: "ls_state s = Lsp_Uninitialized \<Longrightarrow>
    lsp_turn e s (Request i ''initialize'' params) (Some (answer_message i (Inr server_capabilities)))
      ((server_set_workspace e params s)\<lparr>ls_state := Lsp_Running\<rparr>)"
| initialize_notified: "lsp_turn e s (Notification ''initialize'' params)
    (Some (error_message None INVALID_REQUEST ''Invalid Request'')) s"
| refused: "(mth = ''initialize'' \<longrightarrow> ls_state s \<noteq> Lsp_Uninitialized) \<Longrightarrow>
    (mth = ''shutdown'' \<longrightarrow> ls_state s \<noteq> Lsp_Running) \<Longrightarrow>
    lsp_turn e s (Request i mth params) (Some (answer_message i (Inl (code, text1)))) s"
| ignored: "mth \<noteq> ''exit'' \<Longrightarrow> lsp_turn e s (Notification mth params) None s"
| saved: "ls_state s = Lsp_Running \<Longrightarrow> is_save mth \<Longrightarrow> saved_file params = Some (uri, path1) \<Longrightarrow>
    indexer_update (le_pipeline e) (le_exists e) (le_frontend e) path1 (ls_indexer s) (ls_world s) = (Some (res, li), pw1) \<Longrightarrow>
    lsp_turn e s (Notification mth params) (Some (publish_message uri ds)) (s\<lparr>ls_indexer := li, ls_world := pw1\<rparr>)"
| queried: "ls_state s = Lsp_Running \<Longrightarrow> lsp_query e mth params s = Some a \<Longrightarrow>
    mth \<noteq> ''initialize'' \<Longrightarrow> mth \<noteq> ''shutdown'' \<Longrightarrow>
    lsp_turn e s (Request i mth params) (Some (answer_message i a)) s"
| shutdown: "ls_state s = Lsp_Running \<Longrightarrow>
    lsp_turn e s (Request i ''shutdown'' params) (Some (answer_message i (Inr VNull))) (s\<lparr>ls_state := Lsp_Shutdown\<rparr>)"

definition sends :: "lsp_env \<Rightarrow> jvalue option \<Rightarrow> lsp_server \<Rightarrow> bool \<times> lsp_server \<Rightarrow> bool" where
  "sends e m s1 r \<longleftrightarrow> (case m of None \<Rightarrow> r = (True, s1) | Some v \<Rightarrow> r = lsp_send e v s1)"

lemma lsp_send_answer: "lsp_answer e i a s = lsp_send e (answer_message i a) s"
  by (auto simp: lsp_answer_def answer_message_def lsp_error_def lsp_reply_def split: sum.split prod.split)

lemma error_answer: "error_message (Some i) code text1 = answer_message i (Inl (code, text1))"
  by (simp add: answer_message_def)

lemma reply_answer: "reply_message i v = answer_message i (Inr v)"
  by (simp add: answer_message_def)

definition turns :: "lsp_env \<Rightarrow> incoming \<Rightarrow> lsp_server \<Rightarrow> bool \<times> lsp_server \<Rightarrow> bool" where
  "turns e inc s r \<longleftrightarrow> (\<exists>m s1. lsp_turn e s inc m s1 \<and> sends e m s1 r)"

lemma turns_send: "lsp_turn e s inc (Some v) s1 \<Longrightarrow> turns e inc s (lsp_send e v s1)"
  unfolding turns_def sends_def by (intro exI [of _ "Some v"] exI [of _ s1]) simp

lemma turns_silent: "lsp_turn e s inc None s1 \<Longrightarrow> turns e inc s (True, s1)"
  unfolding turns_def sends_def by (intro exI [of _ None] exI [of _ s1]) simp

lemma turns_refused:
  "(mth = ''initialize'' \<longrightarrow> ls_state s \<noteq> Lsp_Uninitialized) \<Longrightarrow> (mth = ''shutdown'' \<longrightarrow> ls_state s \<noteq> Lsp_Running) \<Longrightarrow>
     turns e (Request i mth params) s (lsp_error e (Some i) code text1 s)"
  unfolding lsp_error_def error_answer by (rule turns_send) (rule refused)

lemma turns_saved:
  assumes "ls_state s = Lsp_Running" and "is_save mth" and "lsp_did_save e params s = Some r"
  shows "turns e (Notification mth params) s r"
proof (cases "saved_file params")
  case None
  with assms(3) have "r = (True, s)" by (simp add: lsp_did_save_def)
  moreover have "mth \<noteq> ''exit''" using assms(2) by (auto simp: is_save_def)
  ultimately show ?thesis using turns_silent [OF ignored] by simp
next
  case (Some uf)
  obtain uri path1 where uf: "uf = (uri, path1)" by (rule prod.exhaust)
  with Some assms(3) obtain res li pw1 where
    u: "indexer_update (le_pipeline e) (le_exists e) (le_frontend e) path1 (ls_indexer s) (ls_world s) = (Some (res, li), pw1)"
    by (auto simp: lsp_did_save_def split: prod.splits option.splits)
  with Some uf assms show ?thesis
    using turns_send [OF saved [OF assms(1,2) Some [unfolded uf] u]] by (auto simp: lsp_did_save_def Let_def)
qed

lemma turns_running:
  assumes "ls_state s = Lsp_Running" and "lsp_dispatch_running e mth i params s = Some r"
    and "mth \<noteq> ''exit''" and "mth \<noteq> ''initialize''"
  shows "turns e (case i of None \<Rightarrow> Notification mth params | Some v \<Rightarrow> Request v mth params) s r"
proof (cases i)
  case None
  with assms show ?thesis
    using turns_silent [OF ignored [OF assms(3)]] turns_saved [OF assms(1)]
    by (auto simp: lsp_dispatch_running_def is_save_def split: if_splits)
next
  case (Some v)
  have refuse: "turns e (Request v mth params) s (lsp_error e (Some v) code text1 s)" if "mth \<noteq> ''shutdown''" for code text1
    using assms(4) that by (intro turns_refused) simp_all
  have query: "turns e (Request v mth params) s (lsp_answer e v a s)" if "lsp_query e mth params s = Some a" for a
  proof -
    have "mth \<noteq> ''shutdown''" using that by (auto simp: lsp_query_def)
    then show ?thesis unfolding lsp_send_answer using assms(1,4) that by (intro turns_send queried)
  qed
  show ?thesis
  proof (cases "mth = ''shutdown''")
    case True
    then have "lsp_query e mth params s = None" by (simp add: lsp_query_def)
    with True Some assms(2) show ?thesis
      using turns_send [OF shutdown [OF assms(1)]]
      by (auto simp: lsp_dispatch_running_def lsp_reply_def reply_answer)
  next
    case False
    have "(\<exists>code text1. r = lsp_error e (Some v) code text1 s) \<or> (\<exists>a. lsp_query e mth params s = Some a \<and> r = lsp_answer e v a s)"
    proof (cases "mth = ''initialized'' \<or> is_save mth")
      case True
      with assms(2) Some have "r = lsp_error e (Some v) INVALID_REQUEST ''Invalid Request'' s"
        unfolding lsp_dispatch_running_def is_save_def by (simp split: if_splits)
      then show ?thesis by blast
    next
      case plain: False
      with assms(2) Some False show ?thesis
        unfolding lsp_dispatch_running_def is_save_def by (cases "lsp_query e mth params s") auto
    qed
    with Some refuse [OF False] query show ?thesis by auto
  qed
qed

lemma lsp_handle_turns:
  assumes "lsp_handle e payload s = Some r"
  shows "turns e (classify (te_parse (le_transport e) payload)) s r"
proof (cases "Option.bind (te_parse (le_transport e) payload) as_object")
  case None
  with assms show ?thesis
    by (auto simp: lsp_handle_def classify_def lsp_error_def bind_eq_None_conv intro: turns_send malformed split: option.splits)
next
  case (Some message)
  then have handle: "lsp_dispatch e message s = Some r"
    using assms by (auto simp: lsp_handle_def bind_eq_Some_conv)
  let ?i = "get message ''id''" and ?params = "get_object message ''params''"
  show ?thesis
  proof (cases "get_string message ''jsonrpc'' = Some ''2.0'' \<and> get_string message ''method'' \<noteq> None")
    case False
    with handle have "r = lsp_error e ?i INVALID_REQUEST ''Invalid Request'' s"
      by (auto simp: lsp_dispatch_def Let_def split: option.splits)
    with False Some show ?thesis
      by (auto simp: classify_def lsp_error_def intro: turns_send malformed split: option.split)
  next
    case True
    then obtain mth where m: "get_string message ''jsonrpc'' = Some ''2.0''" "get_string message ''method'' = Some mth" by auto
    have c: "classify (te_parse (le_transport e) payload) =
        (case ?i of None \<Rightarrow> Notification mth ?params | Some v \<Rightarrow> Request v mth ?params)"
      using Some m by (simp add: classify_def)
    show ?thesis
    proof (cases "mth = ''exit'' \<or> mth = ''initialize'' \<or> ls_state s \<noteq> Lsp_Running")
      case False
      with handle m have "lsp_dispatch_running e mth ?i ?params s = Some r"
        by (cases "ls_state s") (auto simp: lsp_dispatch_def Let_def)
      with turns_running [of s e mth ?i ?params r] False c show ?thesis by simp
    next
      case early: True
      show ?thesis
      proof (cases ?i)
        case None
        have ini: "turns e (Notification ''initialize'' ?params) s (lsp_error e None INVALID_REQUEST ''Invalid Request'' s)"
          unfolding lsp_error_def by (rule turns_send) (rule initialize_notified)
        have ex: "turns e (Notification ''exit'' ?params) s
            (True, s\<lparr>ls_exit_status := (if ls_state s = Lsp_Shutdown then 0 else 1), ls_exiting := True\<rparr>)"
          by (rule turns_silent) (rule exit)
        from None early handle m c show ?thesis
          using ex ini turns_silent [OF ignored [where mth = mth and s = s and e = e and params = ?params]]
          by (cases "ls_state s") (auto simp: lsp_dispatch_def Let_def split: if_splits)
      next
        case i: (Some v)
        have refuse: "turns e (Request v mth ?params) s (lsp_error e (Some v) code text1 s)"
          if "mth = ''initialize'' \<longrightarrow> ls_state s \<noteq> Lsp_Uninitialized" "mth = ''shutdown'' \<longrightarrow> ls_state s \<noteq> Lsp_Running"
          for code text1
          using that by (rule turns_refused)
        have init: "ls_state s = Lsp_Uninitialized \<Longrightarrow> turns e (Request v ''initialize'' ?params) s
            (lsp_reply e v server_capabilities ((server_set_workspace e ?params s)\<lparr>ls_state := Lsp_Running\<rparr>))"
          unfolding lsp_reply_def reply_answer by (rule turns_send) (rule initialize)
        show ?thesis
        proof (cases "mth = ''initialize'' \<and> ls_state s = Lsp_Uninitialized")
          case True
          with i handle m c init show ?thesis by (auto simp: lsp_dispatch_def Let_def)
        next
          case False
          with early have "mth = ''shutdown'' \<longrightarrow> ls_state s \<noteq> Lsp_Running" by auto
          with refuse False have ref: "turns e (Request v mth ?params) s (lsp_error e (Some v) code text1 s)" for code text1 by simp
          from i handle m False early have "\<exists>code text1. r = lsp_error e (Some v) code text1 s"
            by (cases "ls_state s") (auto simp: lsp_dispatch_def Let_def split: if_splits)
          with ref i c show ?thesis by auto
        qed
      qed
    qed
  qed
qed

section \<open>The input is only read\<close>

lemma lsp_write_input [simp]: "tr_in (snd (lsp_write e m t)) = tr_in t"
  by (simp add: lsp_write_def Let_def split: prod.split)

lemma lsp_send_fields [simp]:
  "tr_in (ls_transport (snd (lsp_send e m s))) = tr_in (ls_transport s)"
  "ls_state (snd (lsp_send e m s)) = ls_state s" "ls_exiting (snd (lsp_send e m s)) = ls_exiting s"
  "ls_exit_status (snd (lsp_send e m s)) = ls_exit_status s" "ls_world (snd (lsp_send e m s)) = ls_world s"
  "ls_indexer (snd (lsp_send e m s)) = ls_indexer s"
  by (simp_all add: lsp_send_def split: prod.split) (metis lsp_write_input snd_conv)

lemma server_set_root_fields:
  "ls_transport (snd (server_set_root_uri e uri s)) = ls_transport s \<and> ls_state (snd (server_set_root_uri e uri s)) = ls_state s \<and>
   ls_exiting (snd (server_set_root_uri e uri s)) = ls_exiting s \<and> ls_exit_status (snd (server_set_root_uri e uri s)) = ls_exit_status s \<and>
   ls_world (snd (server_set_root_uri e uri s)) = ls_world s"
  by (auto simp: server_set_root_uri_def split: prod.split bool.split option.split)

definition same_session :: "lsp_server \<Rightarrow> lsp_server \<Rightarrow> bool" where
  "same_session s s' \<longleftrightarrow> ls_transport s' = ls_transport s \<and> ls_state s' = ls_state s \<and> ls_exiting s' = ls_exiting s \<and>
     ls_exit_status s' = ls_exit_status s \<and> ls_world s' = ls_world s"

lemma same_session_refl [simp]: "same_session s s"
  by (simp add: same_session_def)

lemma same_session_trans: "same_session a b \<Longrightarrow> same_session b c \<Longrightarrow> same_session a c"
  by (simp add: same_session_def)

lemma server_set_root_session: "server_set_root_uri e uri s = (ok, s') \<Longrightarrow> same_session s s'"
  using server_set_root_fields [of e uri s] by (simp add: same_session_def)

lemma try_folders_session: "same_session s (try_folders e folders s)"
proof (induction folders arbitrary: s)
  case (Cons folder folders)
  show ?case
  proof (cases "Option.bind (as_object folder) (\<lambda>ob. get_string ob ''uri'')")
    case None
    with Cons show ?thesis by simp
  next
    case (Some uri)
    obtain ok s1 where s1: "server_set_root_uri e uri s = (ok, s1)" by (rule prod.exhaust)
    with Some Cons server_set_root_session [OF s1] show ?thesis by (auto intro: same_session_trans)
  qed
qed simp

lemma set_workspace_session: "same_session s (server_set_workspace e params s)"
proof (cases params)
  case None
  then show ?thesis by (simp add: server_set_workspace_def)
next
  case (Some p)
  obtain ok s1 where s1: "(case get_string p ''rootUri'' of None \<Rightarrow> (False, s) | Some uri \<Rightarrow> server_set_root_uri e uri s) = (ok, s1)"
    by (rule prod.exhaust)
  then have "same_session s s1" using server_set_root_session by (auto split: option.splits)
  with Some s1 show ?thesis
    by (auto simp: server_set_workspace_def intro: same_session_trans try_folders_session split: option.split)
qed

lemma lsp_turn_input: "lsp_turn e s inc m s' \<Longrightarrow> ls_transport s' = ls_transport s"
  using set_workspace_session [of s e] by (auto elim!: lsp_turn.cases simp: same_session_def)

lemma sends_input: "sends e m s1 (ok, s') \<Longrightarrow> tr_in (ls_transport s') = tr_in (ls_transport s1)"
  by (auto simp: sends_def split: option.splits) (metis lsp_send_fields(1) snd_conv)

lemma lsp_handle_input: "lsp_handle e payload s = Some (ok, s') \<Longrightarrow> tr_in (ls_transport s') = tr_in (ls_transport s)"
proof -
  assume "lsp_handle e payload s = Some (ok, s')"
  from lsp_handle_turns [OF this] obtain m s1 where "lsp_turn e s (classify (te_parse (le_transport e) payload)) m s1"
    "sends e m s1 (ok, s')" by (auto simp: turns_def)
  then show ?thesis using sends_input lsp_turn_input by metis
qed

lemma lsp_read_shrinks:
  assumes "lsp_read e t = (Message, p, t')"
  shows "length (in_rest (tr_in t')) < length (in_rest (tr_in t))"
proof -
  from lsp_read_consumes [OF assms] obtain header where "in_rest (tr_in t) = header @ p @ in_rest (tr_in t')" "0 < length p"
    by blast
  then show ?thesis by simp
qed

section \<open>The loop\<close>

text \<open>
  \<open>envs n\<close> is the environment while the \<open>n\<close>-th message is handled. The result is the exit code with
  the last state, or \<open>None\<close> when the process ends by an exception.
\<close>

function lsp_run :: "(nat \<Rightarrow> lsp_env) \<Rightarrow> nat \<Rightarrow> lsp_server \<Rightarrow> (int \<times> lsp_server) option" where
  "lsp_run envs n s =
     (if ls_exiting s then Some (ls_exit_status s, s)
      else case lsp_read (le_transport (envs n)) (ls_transport s) of
        (res, payload, t1) \<Rightarrow>
          if res = EndOfFile then Some (0, s\<lparr>ls_transport := t1\<rparr>)
          else if res = ReadError then Some (1, s\<lparr>ls_transport := t1\<rparr>)
          else (case lsp_handle (envs n) payload (others_commit (envs n) (s\<lparr>ls_transport := t1\<rparr>)) of
            None \<Rightarrow> None
          | Some (ok, s1) \<Rightarrow> if ok then lsp_run envs (Suc n) s1 else Some (1, s1)))"
  by pat_completeness auto
termination
proof (relation "measure (\<lambda>(envs, n, s). length (in_rest (tr_in (ls_transport s))))", goal_cases)
  case 1
  then show ?case by simp
next
  case (2 envs n s res rest payload t1 r ok s1)
  then have m: "lsp_read (le_transport (envs n)) (ls_transport s) = (Message, payload, t1)"
    by (cases res) auto
  from 2 have "lsp_handle (envs n) payload (others_commit (envs n) (s\<lparr>ls_transport := t1\<rparr>)) = Some (ok, s1)" by simp
  from lsp_handle_input [OF this] have "tr_in (ls_transport s1) = tr_in t1" by (simp add: others_commit_def)
  with lsp_read_shrinks [OF m] show ?case by simp
qed

declare lsp_run.simps [simp del]

section \<open>Properties\<close>

definition answered :: "incoming \<Rightarrow> lsp_state \<Rightarrow> jvalue list \<Rightarrow> bool" where
  "answered inc st ms \<longleftrightarrow>
     (case inc of
        Malformed i \<Rightarrow> \<exists>code text1. ms = [error_message i code text1]
      | Request i mth params \<Rightarrow> \<exists>a. ms = [answer_message i a]
      | Notification mth params \<Rightarrow>
          ms = [] \<or> mth = ''initialize'' \<and> ms = [error_message None INVALID_REQUEST ''Invalid Request''] \<or>
          st = Lsp_Running \<and> is_save mth \<and> (\<exists>uri ds. ms = [publish_message uri ds]))"

lemma lsp_turn_answered:
  assumes "lsp_turn e s inc m s1"
  shows "answered inc (ls_state s) (case m of None \<Rightarrow> [] | Some v \<Rightarrow> [v])"
  using assms by (cases rule: lsp_turn.cases) (auto simp: answered_def)

text \<open>
  C27. Every message is answered as JSON-RPC demands: after a message has been handled the output has
  grown by exactly one response with the identifier of a request, by exactly one error for something
  that is no request, and for a notification by nothing, except that a saved or opened document is
  answered with its diagnostics while the server runs.
\<close>

theorem lsp_answers_once:
  assumes "lsp_handle e payload s = Some (True, s')"
  shows "\<exists>ms. answered (classify (te_parse (le_transport e) payload)) (ls_state s) ms \<and>
    o_text (tr_out (ls_transport s')) =
      o_text (tr_out (ls_transport s)) @ concat (map (\<lambda>m. frame (te_print (le_transport e) m)) ms)"
proof -
  from lsp_handle_turns [OF assms] obtain m s1 where t: "lsp_turn e s (classify (te_parse (le_transport e) payload)) m s1"
    and m: "sends e m s1 (True, s')" by (auto simp: turns_def)
  have "o_text (tr_out (ls_transport s')) = o_text (tr_out (ls_transport s1)) @
      concat (map (\<lambda>m. frame (te_print (le_transport e) m)) (case m of None \<Rightarrow> [] | Some v \<Rightarrow> [v]))"
    using m lsp_write_text by (auto simp: sends_def lsp_send_def split: option.splits prod.splits)
  with lsp_turn_answered [OF t] lsp_turn_input [OF t] show ?thesis by metis
qed

definition next_state :: "incoming \<Rightarrow> lsp_state \<Rightarrow> lsp_state" where
  "next_state inc st =
     (case inc of
        Request i mth params \<Rightarrow>
          if mth = ''initialize'' \<and> st = Lsp_Uninitialized then Lsp_Running
          else if mth = ''shutdown'' \<and> st = Lsp_Running then Lsp_Shutdown
          else st
      | _ \<Rightarrow> st)"

definition is_exit :: "incoming \<Rightarrow> bool" where
  "is_exit inc \<longleftrightarrow> (case inc of Notification mth params \<Rightarrow> mth = ''exit'' | _ \<Rightarrow> False)"

definition saves :: "incoming \<Rightarrow> bool" where
  "saves inc \<longleftrightarrow> (case inc of Notification mth params \<Rightarrow> is_save mth | _ \<Rightarrow> False)"

lemma lsp_turn_state:
  assumes "lsp_turn e s inc m s1"
  shows "ls_state s1 = next_state inc (ls_state s)"
    "ls_exiting s1 \<longleftrightarrow> ls_exiting s \<or> is_exit inc"
    "is_exit inc \<longrightarrow> m = None \<and> ls_exit_status s1 = (if ls_state s = Lsp_Shutdown then 0 else 1)"
    "ls_world s1 = ls_world s \<or> ls_state s = Lsp_Running \<and> saves inc"
  using assms set_workspace_session [of s e]
  by (cases rule: lsp_turn.cases; auto simp: next_state_def is_exit_def saves_def is_save_def same_session_def)+

lemma lsp_handle_state:
  assumes "lsp_handle e payload s = Some (ok, s')"
  shows "ls_state s' = next_state (classify (te_parse (le_transport e) payload)) (ls_state s)"
    "ls_exiting s' \<longleftrightarrow> ls_exiting s \<or> is_exit (classify (te_parse (le_transport e) payload))"
    "is_exit (classify (te_parse (le_transport e) payload)) \<longrightarrow>
       ok \<and> ls_exit_status s' = (if ls_state s = Lsp_Shutdown then 0 else 1)"
    "ls_world s' = ls_world s \<or> ls_state s = Lsp_Running \<and> saves (classify (te_parse (le_transport e) payload))"
proof -
  from lsp_handle_turns [OF assms] obtain m s1 where t: "lsp_turn e s (classify (te_parse (le_transport e) payload)) m s1"
    and m: "sends e m s1 (ok, s')" by (auto simp: turns_def)
  have same: "ls_state s' = ls_state s1" "ls_exiting s' = ls_exiting s1" "ls_exit_status s' = ls_exit_status s1"
    "ls_world s' = ls_world s1" "m = None \<longrightarrow> ok"
    using m by (auto simp: sends_def split: option.splits) (metis lsp_send_fields snd_conv)+
  show "ls_state s' = next_state (classify (te_parse (le_transport e) payload)) (ls_state s)"
    "ls_exiting s' \<longleftrightarrow> ls_exiting s \<or> is_exit (classify (te_parse (le_transport e) payload))"
    "is_exit (classify (te_parse (le_transport e) payload)) \<longrightarrow>
       ok \<and> ls_exit_status s' = (if ls_state s = Lsp_Shutdown then 0 else 1)"
    "ls_world s' = ls_world s \<or> ls_state s = Lsp_Running \<and> saves (classify (te_parse (le_transport e) payload))"
    using lsp_turn_state [OF t] same by auto
qed

text \<open>
  C28. The server follows its life cycle: only an initialisation request starts it and only a
  shutdown request while it runs stops it; it touches the databases only for a saved or opened
  document while it runs.
\<close>

theorem lsp_lifecycle:
  assumes "lsp_handle e payload s = Some (ok, s')"
  shows "ls_state s' = next_state (classify (te_parse (le_transport e) payload)) (ls_state s) \<and>
    (ls_world s' \<noteq> ls_world s \<longrightarrow> ls_state s = Lsp_Running \<and> saves (classify (te_parse (le_transport e) payload)))"
  using lsp_handle_state(1,4) [OF assms] by auto

lemma lsp_read_end_of_file: "lsp_read e t = (EndOfFile, p, t') \<Longrightarrow> in_eof (tr_in t')"
  by (auto simp: lsp_read_def split: prod.splits option.splits if_splits)

text \<open>
  The session message by message: one step reads a message and handles it. The result of the loop is
  what is due where no further step is possible.
\<close>

inductive lsp_step :: "(nat \<Rightarrow> lsp_env) \<Rightarrow> nat \<times> lsp_server \<Rightarrow> nat \<times> lsp_server \<Rightarrow> bool" for envs where
  handled: "\<not> ls_exiting s \<Longrightarrow> lsp_read (le_transport (envs n)) (ls_transport s) = (Message, payload, t1) \<Longrightarrow>
    lsp_handle (envs n) payload (others_commit (envs n) (s\<lparr>ls_transport := t1\<rparr>)) = Some (True, s1) \<Longrightarrow>
    lsp_step envs (n, s) (Suc n, s1)"

definition session_result :: "(nat \<Rightarrow> lsp_env) \<Rightarrow> nat \<Rightarrow> lsp_server \<Rightarrow> (int \<times> lsp_server) option \<Rightarrow> bool" where
  "session_result envs n s r \<longleftrightarrow>
     (if ls_exiting s then r = Some (if ls_state s = Lsp_Shutdown then 0 else 1, s)
      else (case lsp_read (le_transport (envs n)) (ls_transport s) of
          (EndOfFile, payload, t1) \<Rightarrow> r = Some (0, s\<lparr>ls_transport := t1\<rparr>) \<and> in_eof (tr_in t1)
        | (ReadError, payload, t1) \<Rightarrow> r = Some (1, s\<lparr>ls_transport := t1\<rparr>)
        | (Message, payload, t1) \<Rightarrow>
            (case lsp_handle (envs n) payload (others_commit (envs n) (s\<lparr>ls_transport := t1\<rparr>)) of
               None \<Rightarrow> r = None
             | Some (ok, s1) \<Rightarrow> \<not> ok \<and> r = Some (1, s1))))"

definition exit_status_ok :: "lsp_server \<Rightarrow> bool" where
  "exit_status_ok s \<longleftrightarrow> (ls_exiting s \<longrightarrow> ls_exit_status s = (if ls_state s = Lsp_Shutdown then 0 else 1))"

lemma lsp_handle_exit_status:
  assumes "\<not> ls_exiting s" "lsp_handle e payload (others_commit e (s\<lparr>ls_transport := t\<rparr>)) = Some (ok, s1)"
  shows "exit_status_ok s1"
  using lsp_handle_state(1-3) [OF assms(2)] assms(1)
  by (auto simp: exit_status_ok_def others_commit_def is_exit_def next_state_def split: incoming.splits)

lemma lsp_run_session:
  assumes "exit_status_ok s"
  shows "\<exists>k s1. (lsp_step envs)\<^sup>*\<^sup>* (n, s) (k, s1) \<and> k \<le> n + length (in_rest (tr_in (ls_transport s))) \<and>
    session_result envs k s1 (lsp_run envs n s)"
  using assms
proof (induction envs n s rule: lsp_run.induct)
  case (1 envs n s)
  have stop: ?case if "session_result envs n s (lsp_run envs n s)"
    using that by (intro exI [of _ n] exI [of _ s]) simp
  show ?case
  proof (cases "ls_exiting s")
    case True
    with "1.prems" show ?thesis by (intro stop) (simp add: session_result_def lsp_run.simps [of envs n s] exit_status_ok_def)
  next
    case False
    obtain res payload t1 where r: "lsp_read (le_transport (envs n)) (ls_transport s) = (res, payload, t1)"
      by (rule prod_cases3)
    note run = lsp_run.simps [of envs n s, unfolded r prod.case]
    show ?thesis
    proof (cases "res = Message")
      case no: False
      then have "lsp_run envs n s = Some (if res = EndOfFile then 0 else 1, s\<lparr>ls_transport := t1\<rparr>)"
        using False by (cases res) (simp_all only: run if_False if_True read_result.distinct simp_thms)
      moreover have "res = EndOfFile \<longrightarrow> in_eof (tr_in t1)" using lsp_read_end_of_file r by blast
      ultimately have "session_result envs n s (lsp_run envs n s)"
        unfolding session_result_def r if_not_P [OF False] prod.case using no by (cases res) simp_all
      then show ?thesis by (rule stop)
    next
      case True
      let ?s0 = "others_commit (envs n) (s\<lparr>ls_transport := t1\<rparr>)"
      show ?thesis
      proof (cases "\<exists>s1. lsp_handle (envs n) payload ?s0 = Some (True, s1)")
        case no: False
        have "lsp_run envs n s = map_option (\<lambda>h. (1, snd h)) (lsp_handle (envs n) payload ?s0)"
          using False True no by (cases "lsp_handle (envs n) payload ?s0") (auto simp: run)
        then have "session_result envs n s (lsp_run envs n s)"
          unfolding session_result_def r if_not_P [OF False] prod.case True read_result.case using no
          by (auto split: option.split)
        then show ?thesis by (rule stop)
      next
        case yes: True
        then obtain s1 where h: "lsp_handle (envs n) payload ?s0 = Some (True, s1)" by blast
        from r True have m: "lsp_read (le_transport (envs n)) (ls_transport s) = (Message, payload, t1)" by simp
        have step: "lsp_step envs (n, s) (Suc n, s1)" 
          using False m h by (rule handled [where envs = envs and n = n])
        have "tr_in (ls_transport s1) = tr_in t1" using lsp_handle_input [OF h] by (simp add: others_commit_def)
        then have less: "length (in_rest (tr_in (ls_transport s1))) < length (in_rest (tr_in (ls_transport s)))"
          using lsp_read_shrinks [OF m] by simp
        have "lsp_run envs n s = lsp_run envs (Suc n) s1" using False True h by (simp add: run)
        moreover obtain k s2 where "(lsp_step envs)\<^sup>*\<^sup>* (Suc n, s1) (k, s2)"
          "k \<le> Suc n + length (in_rest (tr_in (ls_transport s1)))" "session_result envs k s2 (lsp_run envs (Suc n) s1)"
          using "1.IH" [OF False r [symmetric] refl _ _ h refl TrueI lsp_handle_exit_status [OF False h]] True by auto
        ultimately show ?thesis
          using step less by (intro exI [of _ k] exI [of _ s2]) (auto intro: converse_rtranclp_into_rtranclp)
      qed
    qed
  qed
qed

text \<open>
  C29. Whatever the input is, the loop ends: it handles at most one message for each byte, and then
  stops where no message can be handled any more. Its exit status says why: after an
  \<open>exit\<close> notification it is 0 when a shutdown came before it and 1 otherwise; at the end of the input it is 0;
  after a malformed or truncated message, or when an answer could not be written, it is 1. It has no status only
  when handling a message raised an exception.
\<close>

theorem lsp_exit_code:
  assumes "\<not> ls_exiting s"
  shows "\<exists>k s1. (lsp_step envs)\<^sup>*\<^sup>* (n, s) (k, s1) \<and> k \<le> n + length (in_rest (tr_in (ls_transport s))) \<and>
    (if ls_exiting s1 then lsp_run envs n s = Some (if ls_state s1 = Lsp_Shutdown then 0 else 1, s1)
     else (case lsp_read (le_transport (envs k)) (ls_transport s1) of
         (EndOfFile, payload, t1) \<Rightarrow> lsp_run envs n s = Some (0, s1\<lparr>ls_transport := t1\<rparr>) \<and> in_eof (tr_in t1)
       | (ReadError, payload, t1) \<Rightarrow> lsp_run envs n s = Some (1, s1\<lparr>ls_transport := t1\<rparr>)
       | (Message, payload, t1) \<Rightarrow>
           (case lsp_handle (envs k) payload (others_commit (envs k) (s1\<lparr>ls_transport := t1\<rparr>)) of
              None \<Rightarrow> lsp_run envs n s = None
            | Some (ok, s2) \<Rightarrow> \<not> ok \<and> lsp_run envs n s = Some (1, s2))))"
  using lsp_run_session [of s envs n] assms by (simp add: exit_status_ok_def session_result_def)

text \<open>
  The name of a symbol is used as a pattern: with SQLite's \<open>GLOB\<close>, the references to one operator
  also match another whose name it is a pattern for.
\<close>

theorem operator_names_are_patterns:
  assumes "glob ''C::operator*'' ''C::operator*=''" and "dr_symbol cursor = ''C::operator*''"
  shows "text_matches glob (q_symbol (symbol_options cursor flt)) ''C::operator*=''"
  using assms by (simp add: symbol_options_def default_options_def text_matches_def pattern_uses_glob_def)

end
