(* ===== verification/Update_Properties.thy ===== *)
theory Update_Properties
  imports Index_Update Pipeline_Witnesses
begin

text \<open>
  The result of an update of an index is truthful about the databases, whatever calls fail: each
  status and each error corresponds to what has been stored.
\<close>

lemma copy_diagnostics_fields [simp]:
  "up_status (copy_diagnostics dir limit ds res) = up_status res"
  "up_error (copy_diagnostics dir limit ds res) = up_error res"
  "up_transient (copy_diagnostics dir limit ds res) = up_transient res"
  "up_directory (copy_diagnostics dir limit ds res) = up_directory res"
  by (induction dir limit ds res rule: copy_diagnostics.induct) simp_all

lemma copy_diagnostics_bound:
  assumes "limit \<noteq> 0" and "length (up_diagnostics res) \<le> limit"
  shows "length (up_diagnostics (copy_diagnostics dir limit ds res)) \<le> limit"
  using assms by (induction dir limit ds res rule: copy_diagnostics.induct) (simp_all add: Let_def)

lemma update_error_nonempty [simp]: "update_error stage file \<noteq> []"
  by (simp add: update_error_def)

lemma resolve_command_error: "resolve_command e x opts f v s = (Inl err, s1) \<Longrightarrow> err \<noteq> []"
  by (auto simp: resolve_command_def split: prod.splits if_splits)

lemma resolve_command_document:
  "resolve_command e x opts f v s = (Inr r, s1) \<Longrightarrow> rc_source r = Source_Document \<Longrightarrow> ro_allow_document opts"
  by (auto simp: resolve_command_def new_resolved_def split: prod.splits if_splits)

lemma request_for_simps [simp]:
  "pr_storage (pipeline_request_for u q r) =
     (case rc_source r of Source_Saved \<Rightarrow> STORE_SYMBOLS | Source_Compilation_Database \<Rightarrow> STORE_SYMBOLS_AND_COMMAND
      | Source_Document \<Rightarrow> OUTPUT_ONLY)"
  "pr_partial (pipeline_request_for u q r) = (if ur_store_partial q then STORE_PARTIAL else RETURN_PARTIAL)"
  "pr_variant (pipeline_request_for u q r) = Some (ur_variant q)"
  "pr_symbol_database (pipeline_request_for u q r) = Some (ud_database u)"
  by (simp_all add: pipeline_request_for_def Let_def split: command_source.split)

lemma pipeline_run_codes: "pipeline_run e request fe pw = (ret, res, pw') \<Longrightarrow> ret = 0 \<or> ret = - 1"
  using pipeline_run_effect [of e request fe pw ret res pw'] by (auto elim: pipeline_effect.cases)

text \<open>The frontend's part of a successful run.\<close>

lemma pipeline_run_frontend:
  assumes "pipeline_run e request fe pw = (0, res, pw')"
  obtains fr where "fe_created fe" "fe_result fe = Some fr" "ir_status fr \<noteq> INDEX_FAILED"
    "rs_frontend res = Some fr" "rs_frontend_ret res = run_frontend request fe"
proof -
  have keeps: "store_stages e request fe root commit res1 pw1 = (ret, res2, pw2) \<Longrightarrow>
      rs_frontend res2 = rs_frontend res1 \<and> rs_frontend_ret res2 = rs_frontend_ret res1" for root commit res1 pw1 ret res2 pw2
    by (auto simp: store_stages_def Let_def split: prod.splits if_splits)
  have keeps': "storage_stages e request fe res1 pw1 = (ret, res2, pw2) \<Longrightarrow>
      rs_frontend res2 = rs_frontend res1 \<and> rs_frontend_ret res2 = rs_frontend_ret res1" for res1 pw1 ret res2 pw2
    by (auto simp: storage_stages_def Let_def dest!: keeps split: prod.splits if_splits)
  from assms obtain fr where fr: "fe_created fe" "fe_result fe = Some fr" "ir_status fr \<noteq> INDEX_FAILED"
    by (auto simp: pipeline_run_def Let_def split: if_splits option.splits)
  with assms have "rs_frontend res = Some fr \<and> rs_frontend_ret res = run_frontend request fe"
    by (auto simp: pipeline_run_def Let_def dest!: keeps' split: if_splits)
  with fr that show thesis by blast
qed

lemma pipeline_run_returns_partial:
  assumes "pipeline_run e request fe pw = (ret, res, pw')" and "fe_result fe = Some fr"
    and "returns_partial request (run_frontend request fe) fr"
  shows "rs_persisted res = OUTPUT_ONLY"
  using assms by (auto simp: pipeline_run_def empty_result_def Let_def split: if_splits)

text \<open>What an update has stored: the index of the frontend, under the variant of the request.\<close>

definition update_stored ::
  "pipeline_env \<Rightarrow> frontend \<Rightarrow> pipeline_request \<Rightarrow> updater \<Rightarrow> update_request \<Rightarrow> pipeline_world \<Rightarrow> pipeline_world \<Rightarrow> bool"
  where
  "update_stored e fe request u q pw pw' \<longleftrightarrow>
     (\<exists>root commit w. pr_variant request = Some (ur_variant q) \<and> pr_symbol_database request = Some (ud_database u) \<and>
        shared w = shared (pw_index pw) \<and>
        fst (index_db_store (pe_index e) (index_store_request request fe root commit) w) = 0 \<and>
        shared (pw_index pw') = shared (snd (index_db_store (pe_index e)
          (index_store_request request fe root commit) w)))"

definition clean_frontend :: "pipeline_request \<Rightarrow> frontend \<Rightarrow> bool" where
  "clean_frontend request fe \<longleftrightarrow>
     run_frontend request fe = 0 \<and> (case fe_result fe of None \<Rightarrow> False | Some fr \<Rightarrow> ir_status fr = INDEX_CLEAN)"

lemma update_outcome_failed:
  "up_status (update_outcome q r request (- 1) pres ix ds res) = up_status res \<and>
   up_transient (update_outcome q r request (- 1) pres ix ds res) = up_transient res \<and>
   up_error (update_outcome q r request (- 1) pres ix ds res) \<noteq> []"
  by (simp add: update_outcome_def)

lemma update_outcome_done:
  assumes "up_status res = Update_Failed" and "up_transient res = None" and "up_error res = []"
    and "rc_source r = Source_Document \<or> is_partial pres \<or> rs_persisted pres = pr_storage request"
  shows "up_error (update_outcome q r request 0 pres ix ds res) = []"
    "up_status (update_outcome q r request 0 pres ix ds res) = (if is_partial pres then Update_Partial else Update_Clean)"
    "up_transient (update_outcome q r request 0 pres ix ds res) =
       (if rc_source r = Source_Document \<or> is_partial pres \<and> \<not> ur_store_partial q then Some ix else None)"
  using assms by (auto simp: update_outcome_def Let_def split: option.splits)

lemma index_update_cases:
  assumes "index_update e exists_db fe u q pw = (res, pw')"
  obtains
    (failed) "up_status res = Update_Failed" "up_error res \<noteq> []" "up_transient res = None"
  | (kept) request where "up_status res = (if up_status res = Update_Partial then Update_Partial else Update_Clean)"
      "up_error res = []" "up_transient res = Some (fe_index (fst (fe request)))" "shared (pw_index pw') = shared (pw_index pw)"
      "up_status res = Update_Clean \<longrightarrow> clean_frontend request (fst (fe request))"
      "ro_allow_document (ud_resolver u) \<or> \<not> ur_store_partial q"
  | (stored) request where "up_status res \<noteq> Update_Failed" "up_error res = []" "up_transient res = None" "update_stored e (fst (fe request)) request u q pw pw'"
      "up_status res = Update_Clean \<longrightarrow> clean_frontend request (fst (fe request))"
      "up_status res = Update_Partial \<longrightarrow> ur_store_partial q"
proof (cases "ur_stopped q")
  case True
  with assms failed show thesis by (auto simp: index_update_def new_update_def)
next
  case False
  obtain rr s1 where rr: "resolve_command (pe_commands e) exists_db (ud_resolver u) (ur_file q) (ur_variant q) (pw_commands pw) = (rr, s1)"
    by (rule prod.exhaust)
  show thesis
  proof (cases rr)
    case (Inl err)
    with assms False rr resolve_command_error [of _ _ _ _ _ _ err s1] failed show thesis
      by (auto simp: index_update_def new_update_def)
  next
    case (Inr r)
    let ?request = "pipeline_request_for u q r" and ?pw1 = "pw\<lparr>pw_commands := s1\<rparr>"
    let ?res = "new_update\<lparr>up_command_available := rc_available r, up_directory := rc_directory r\<rparr>"
    let ?fe = "fst (fe ?request)" and ?ds = "snd (fe ?request)"
    obtain ret pres pw1 where run: "pipeline_run e ?request ?fe ?pw1 = (ret, pres, pw1)" by (rule prod_cases3)
    have res: "res = update_outcome q r ?request ret pres (fe_index ?fe) ?ds ?res"
      and pw': "shared (pw_index pw') = shared (pw_index pw1)"
      using assms False rr Inr run by (auto simp: index_update_def Let_def pipeline_result_destroy_def)
    have res0: "up_status ?res = Update_Failed" "up_transient ?res = None" "up_error ?res = []"
      by (simp_all add: new_update_def)
    show thesis
    proof (cases "ret = 0")
      case False
      with pipeline_run_codes [OF run] have "ret = - 1" by simp
      with res update_outcome_failed res0 failed show thesis by metis
    next
      case True
      note run0 = run [unfolded True]
      from run0 obtain fr where fr: "fe_result ?fe = Some fr" "rs_frontend pres = Some fr"
        "rs_frontend_ret pres = run_frontend ?request ?fe" "ir_status fr \<noteq> INDEX_FAILED" by (rule pipeline_run_frontend)
      have partial: "is_partial pres \<longleftrightarrow> run_frontend ?request ?fe \<noteq> 0 \<or> ir_status fr = INDEX_PARTIAL"
        using fr by (simp add: is_partial_def)
      have clean: "\<not> is_partial pres \<Longrightarrow> clean_frontend ?request ?fe"
        using partial fr by (cases "ir_status fr") (simp_all add: clean_frontend_def)
      have "(\<exists>root commit w. shared w = shared (pw_index ?pw1) \<and>
          fst (index_db_store (pe_index e) (index_store_request ?request ?fe root commit) w) = 0 \<and>
          shared (pw_index pw1) = shared (snd (index_db_store (pe_index e) (index_store_request ?request ?fe root commit) w)))"
        if "rs_persisted pres \<noteq> OUTPUT_ONLY"
        using persisted_symbols [OF run that] by metis
      then have st: "update_stored e ?fe ?request u q pw pw'" if "rs_persisted pres \<noteq> OUTPUT_ONLY"
        using that pw' unfolding update_stored_def by simp
      have outcome: "up_error res = []"
          "up_status res = (if is_partial pres then Update_Partial else Update_Clean)"
          "up_transient res = (if rc_source r = Source_Document \<or> is_partial pres \<and> \<not> ur_store_partial q
             then Some (fe_index ?fe) else None)"
        if "rc_source r = Source_Document \<or> is_partial pres \<or> rs_persisted pres = pr_storage ?request"
        using update_outcome_done [OF res0 that, of q "fe_index ?fe" ?ds] unfolding res True .
      have whole: "\<not> (is_partial pres \<and> \<not> ur_store_partial q)" if "rs_persisted pres \<noteq> OUTPUT_ONLY"
        using pipeline_run_returns_partial [OF run fr(1)] that partial by (auto simp: returns_partial_def)
      from pipeline_run_effect [OF run] show thesis
      proof (cases rule: pipeline_effect.cases)
        case kept': kept
        have cond: "rc_source r = Source_Document \<or> is_partial pres \<and> \<not> ur_store_partial q"
          using kept'(5) partial fr by (auto simp: returns_partial_def split: command_source.splits if_splits)
        then have "rc_source r = Source_Document \<or> is_partial pres \<or> rs_persisted pres = pr_storage ?request" by blast
        note outs = outcome [OF this]
        have "shared (pw_index pw') = shared (pw_index pw)" using kept'(2) pw' by (simp add: same_databases_def)
        with outs cond clean resolve_command_document [OF rr [unfolded Inr]] show thesis
          by (intro kept [of ?request]) auto
      next
        case symbols
        then have src: "rc_source r \<noteq> Source_Document" and complete: "rs_persisted pres = pr_storage ?request"
          by (auto split: command_source.splits)
        from symbols have "rs_persisted pres \<noteq> OUTPUT_ONLY" by simp
        with src complete whole st outcome clean show thesis
          by (intro stored [of ?request]) (auto split: if_splits)
      next
        case both
        then have src: "rc_source r \<noteq> Source_Document" and complete: "rs_persisted pres = pr_storage ?request"
          by (auto split: command_source.splits)
        from both have "rs_persisted pres \<noteq> OUTPUT_ONLY" by simp
        with src complete whole st outcome clean show thesis
          by (intro stored [of ?request]) (auto split: if_splits)
      qed (use True in auto)
    qed
  qed
qed

lemma update_outcome_bound:
  assumes "ur_diagnostic_limit q \<noteq> 0" and "up_diagnostics res = []"
  shows "length (up_diagnostics (update_outcome q r request ret pres ix ds res)) \<le> ur_diagnostic_limit q"
  using assms copy_diagnostics_bound by (auto simp: update_outcome_def Let_def split: option.split)

lemma index_update_bound:
  assumes "index_update e exists_db fe u q pw = (res, pw')" and "ur_diagnostic_limit q \<noteq> 0"
  shows "length (up_diagnostics res) \<le> ur_diagnostic_limit q"
  using assms update_outcome_bound [OF assms(2)]
  by (auto simp: index_update_def Let_def new_update_def split: if_splits prod.splits sum.splits)

text \<open>
  C30. The result of an update is truthful. It has an error exactly when its status is \<open>Failed\<close>.
  Otherwise either it brings a transient index, the one that the frontend made, and the symbol
  database is as it was, or it brings none and that index has been stored under the variant of
  the request. A clean status means that the frontend
  returned 0 without errors, and there are never more
  diagnostics than the limit.
\<close>

theorem update_truthful:
  assumes "index_update e exists_db fe u q pw = (res, pw')"
  shows "(up_status res = Update_Failed \<longleftrightarrow> up_error res \<noteq> []) \<and>
    (up_status res \<noteq> Update_Failed \<longrightarrow>
       (\<exists>request.
          (case up_transient res of
             None \<Rightarrow> update_stored e (fst (fe request)) request u q pw pw'
           | Some ix \<Rightarrow> shared (pw_index pw') = shared (pw_index pw) \<and> ix = fe_index (fst (fe request))) \<and>
          (up_status res = Update_Clean \<longrightarrow> clean_frontend request (fst (fe request))))) \<and>
    (ur_diagnostic_limit q \<noteq> 0 \<longrightarrow> length (up_diagnostics res) \<le> ur_diagnostic_limit q)"
  using assms index_update_bound [OF assms]
  by (cases rule: index_update_cases) auto

section \<open>Witness\<close>

definition document_updater :: updater where
  "document_updater = new_updater ''/db'' [] \<lparr>ro_commands_database = ''/c.db'', ro_compile_commands = [],
     ro_repository_root = [], ro_allow_document = True\<rparr> False"

definition document_request :: update_request where
  "document_request = \<lparr>ur_file = ''/w/a.c'', ur_variant = ''v'', ur_diagnostic_limit = 3, ur_store_partial = True, ur_stopped = False\<rparr>"

lemma document_updated:
  "\<exists>res. index_update demo_pipeline_env (\<lambda>p. Path_Missing) (\<lambda>r. (demo_frontend, [])) document_updater document_request demo_pipeline_world =
     (res, pipeline_trace ''cleanup'' (pipeline_trace ''parse'' demo_pipeline_world)) \<and>
   up_status res = Update_Clean \<and> up_transient res = Some demo_index"
  by (simp add: index_update_def document_request_def document_updater_def new_updater_def set_resolver_root_def
      resolve_command_def load_saved_def new_resolved_def pipeline_request_for_def resolved_compile_command_def
      pipeline_run_def demo_frontend_def run_frontend_def returns_partial_def empty_result_def trace_points_to_def
      update_outcome_def is_partial_def new_update_def pipeline_result_destroy_def Let_def)

theorem update_truthful_witness:
  "\<exists>res. index_update demo_pipeline_env (\<lambda>p. Path_Missing) (\<lambda>r. (demo_frontend, [])) document_updater document_request demo_pipeline_world =
     (res, pipeline_trace ''cleanup'' (pipeline_trace ''parse'' demo_pipeline_world)) \<and>
   up_error res = [] \<and> up_transient res = Some demo_index \<and> length (up_diagnostics res) \<le> 3"
proof -
  obtain res where r: "index_update demo_pipeline_env (\<lambda>p. Path_Missing) (\<lambda>r. (demo_frontend, [])) document_updater document_request demo_pipeline_world =
     (res, pipeline_trace ''cleanup'' (pipeline_trace ''parse'' demo_pipeline_world))" "up_status res = Update_Clean" "up_transient res = Some demo_index"
    using document_updated by blast
  have "ur_diagnostic_limit document_request = 3" by (simp add: document_request_def)
  with update_truthful [OF r(1)] r show ?thesis by auto
qed

end
