(* ===== verification/Lsp_Witnesses.thy ===== *)
theory Lsp_Witnesses
  imports Lsp_Session Update_Properties
begin

text \<open>
  A session in which the text of a message is its method: every message but \<open>exit\<close> is a request.
\<close>

definition method_transport_env :: transport_env where
  "method_transport_env = plain_transport_env\<lparr>te_parse := (\<lambda>s. Some (VObject
     ([(''jsonrpc'', VString ''2.0''), (''method'', VString s)] @ (if s = ''exit'' then [] else [(''id'', VInt 1)]))))\<rparr>"

definition sample_query_env :: query_env where
  "sample_query_env = \<lparr>qe_sources = silent_source_env, qe_glob = (\<lambda>p s. p = s), qe_query_run = (\<lambda>q. Completes),
     qe_find_run = (\<lambda>p. Completes), qe_call_run = Completes, qe_batch_run = (\<lambda>n. Completes), qe_var_limit = 999\<rparr>"

definition sample_lsp_env :: lsp_env where
  "sample_lsp_env = \<lparr>le_queries = sample_query_env, le_fs = demo_fs, le_is_regular = (\<lambda>p. False),
     le_exists = (\<lambda>p. Path_Missing), le_frontend = (\<lambda>r. (demo_frontend, [])), le_pipeline = demo_pipeline_env,
     le_transport = method_transport_env, le_others = (\<lambda>db. db)\<rparr>"

definition sample_server :: "lsp_state \<Rightarrow> string \<Rightarrow> lsp_server" where
  "sample_server st input = \<lparr>ls_state = st, ls_exiting = False, ls_exit_status = 0, ls_variant = ''v'', ls_root = ''/w'',
     ls_indexer = new_lsp_indexer ''/db'' ''/c.db'' [] ''v'' False, ls_transport = fresh_transport input,
     ls_world = demo_pipeline_world\<rparr>"

lemma method_transport_simps [simp]:
  "te_print method_transport_env = te_print plain_transport_env" "te_out method_transport_env = te_out plain_transport_env"
  by (simp_all add: method_transport_env_def)

lemma method_parse:
  "te_parse method_transport_env s = Some (VObject
     ([(''jsonrpc'', VString ''2.0''), (''method'', VString s)] @ (if s = ''exit'' then [] else [(''id'', VInt 1)])))"
  by (simp add: method_transport_env_def)

lemma sample_lsp_env_simps [simp]: "le_transport sample_lsp_env = method_transport_env" "le_others sample_lsp_env db = db"
  by (simp_all add: sample_lsp_env_def)

lemma method_write:
  "\<not> o_error (tr_out t) \<Longrightarrow> tr_log t = None \<Longrightarrow> lsp_write method_transport_env m t = (True, snd (lsp_write method_transport_env m t))"
  by (simp add: lsp_write_def Let_def del: cputs_simps)

lemma sample_send: "fst (lsp_send sample_lsp_env m (s\<lparr>ls_transport := fresh_transport input\<rparr>))"
proof -
  have "\<not> o_error (tr_out (fresh_transport input))" "tr_log (fresh_transport input) = None" by (simp_all add: fresh_transport_def)
  from method_write [OF this, of m] show ?thesis
    by (cases "lsp_write method_transport_env m (fresh_transport input)") (simp add: lsp_send_def)
qed

lemma classify_method:
  "s \<noteq> ''exit'' \<Longrightarrow> classify (te_parse method_transport_env s) = Request (VInt 1) s None"
  "classify (te_parse method_transport_env ''exit'') = Notification ''exit'' None"
  by (simp_all add: method_parse classify_def get_string_def get_object_def get_def as_object_def as_string_def)

lemma sample_shutdown:
  "\<exists>s'. lsp_handle sample_lsp_env ''shutdown'' (sample_server Lsp_Running []) = Some (True, s')"
proof -
  have "lsp_handle sample_lsp_env ''shutdown'' (sample_server Lsp_Running []) =
      Some (lsp_reply sample_lsp_env (VInt 1) VNull ((sample_server Lsp_Running [])\<lparr>ls_state := Lsp_Shutdown\<rparr>))"
    by (simp add: method_parse lsp_handle_def lsp_dispatch_def lsp_dispatch_running_def lsp_query_def as_object_def get_string_def get_def
        as_string_def sample_server_def)
  moreover have "fst (lsp_reply sample_lsp_env (VInt 1) VNull ((sample_server Lsp_Running [])\<lparr>ls_state := Lsp_Shutdown\<rparr>))"
    using sample_send [where m = "reply_message (VInt 1) VNull" and s = "(sample_server Lsp_Running [])\<lparr>ls_state := Lsp_Shutdown\<rparr>"
        and input = "[]"]
    by (simp add: lsp_reply_def sample_server_def)
  ultimately show ?thesis by (metis prod.collapse)
qed

theorem lsp_answers_once_witness:
  "\<exists>s' a. lsp_handle sample_lsp_env ''shutdown'' (sample_server Lsp_Running []) = Some (True, s') \<and>
     o_text (tr_out (ls_transport s')) = frame (te_print plain_transport_env (answer_message (VInt 1) a))"
proof -
  obtain s' where h: "lsp_handle sample_lsp_env ''shutdown'' (sample_server Lsp_Running []) = Some (True, s')"
    using sample_shutdown by blast
  have "o_text (tr_out (ls_transport (sample_server Lsp_Running []))) = []" by (simp add: sample_server_def fresh_transport_def)
  with lsp_answers_once [OF h] obtain a where
    "o_text (tr_out (ls_transport s')) = frame (te_print plain_transport_env (answer_message (VInt 1) a))"
    by (auto simp: classify_method answered_def)
  with h show ?thesis by blast
qed

theorem lsp_lifecycle_witness:
  "\<exists>s'. lsp_handle sample_lsp_env ''shutdown'' (sample_server Lsp_Running []) = Some (True, s') \<and>
     ls_state s' = Lsp_Shutdown \<and> ls_world s' = demo_pipeline_world"
proof -
  obtain s' where h: "lsp_handle sample_lsp_env ''shutdown'' (sample_server Lsp_Running []) = Some (True, s')"
    using sample_shutdown by blast
  have st: "ls_state (sample_server Lsp_Running []) = Lsp_Running" "ls_world (sample_server Lsp_Running []) = demo_pipeline_world"
    by (simp_all add: sample_server_def)
  from lsp_lifecycle [OF h] have "ls_state s' = Lsp_Shutdown" "ls_world s' = demo_pipeline_world"
    by (simp_all add: classify_method next_state_def saves_def st)
  with h show ?thesis by blast
qed

text \<open>Two sessions: one without input, and one that ends by an \<open>exit\<close> notification after a shutdown.\<close>

lemma sample_no_steps: "(lsp_step envs)\<^sup>*\<^sup>* (n, sample_server st []) (k, s1) \<Longrightarrow> k = n \<and> s1 = sample_server st []"
proof (erule converse_rtranclpE)
  fix y assume "lsp_step envs (n, sample_server st []) y"
  then obtain payload t1 where "lsp_read (le_transport (envs n)) (ls_transport (sample_server st [])) = (Message, payload, t1)"
    by (cases rule: lsp_step.cases) auto
  from lsp_read_shrinks [OF this] have False by (simp add: sample_server_def fresh_transport_def open_input_def)
  then show ?thesis ..
qed simp

lemma sample_ends: "\<exists>p t. lsp_read (le_transport sample_lsp_env) (ls_transport (sample_server st [])) = (EndOfFile, p, t)"
  using lsp_read_end [of "ls_transport (sample_server st [])" "le_transport sample_lsp_env"]
  by (cases "lsp_read (le_transport sample_lsp_env) (ls_transport (sample_server st []))")
    (simp add: sample_server_def fresh_transport_def ready_input_def open_input_def in_good_def)

theorem lsp_exit_code_witness:
  "\<exists>s'. lsp_run (\<lambda>n. sample_lsp_env) 0 (sample_server Lsp_Running []) = Some (0, s') \<and> in_eof (tr_in (ls_transport s'))"
proof -
  let ?s = "sample_server Lsp_Running []"
  have s: "\<not> ls_exiting ?s" by (simp add: sample_server_def)
  obtain p t where r: "lsp_read (le_transport sample_lsp_env) (ls_transport ?s) = (EndOfFile, p, t)"
    using sample_ends by blast
  from lsp_exit_code [OF s, of "\<lambda>n. sample_lsp_env" 0] obtain k s1
    where k: "(lsp_step (\<lambda>n. sample_lsp_env))\<^sup>*\<^sup>* (0, ?s) (k, s1)" and
      res: "if ls_exiting s1 then lsp_run (\<lambda>n. sample_lsp_env) 0 ?s = Some (if ls_state s1 = Lsp_Shutdown then 0 else 1, s1)
        else (case lsp_read (le_transport sample_lsp_env) (ls_transport s1) of
            (EndOfFile, payload, t1) \<Rightarrow> lsp_run (\<lambda>n. sample_lsp_env) 0 ?s = Some (0, s1\<lparr>ls_transport := t1\<rparr>) \<and> in_eof (tr_in t1)
          | (ReadError, payload, t1) \<Rightarrow> lsp_run (\<lambda>n. sample_lsp_env) 0 ?s = Some (1, s1\<lparr>ls_transport := t1\<rparr>)
          | (Message, payload, t1) \<Rightarrow> (case lsp_handle sample_lsp_env payload (others_commit sample_lsp_env (s1\<lparr>ls_transport := t1\<rparr>)) of
              None \<Rightarrow> lsp_run (\<lambda>n. sample_lsp_env) 0 ?s = None
            | Some (ok, s2) \<Rightarrow> \<not> ok \<and> lsp_run (\<lambda>n. sample_lsp_env) 0 ?s = Some (1, s2)))"
    by blast
  from sample_no_steps [OF k] have "s1 = ?s" by simp
  with res s r show ?thesis by simp
qed

end
