(* ===== verification/Resolver_Properties.thy ===== *)
theory Resolver_Properties
  imports Source_Resolver
begin

text \<open>
  The text that the source resolver delivers is the requested range of lines of the file as it was
  indexed, or of the blob of the recorded commit; both readers of a range agree with one reference.
\<close>

section \<open>A reference for ranges\<close>

function text_lines :: "string \<Rightarrow> string list" where
  "text_lines content =
     (if content = [] then []
      else case split_line content of
        (line, None) \<Rightarrow> [strip_cr line]
      | (line, Some rest) \<Rightarrow> strip_cr line # text_lines rest)"
  by pat_completeness auto
termination by (relation "measure length") (auto dest: split_line_Some [OF sym])

declare text_lines.simps [simp del]

fun within :: "nat \<Rightarrow> string list \<Rightarrow> string list \<times> bool" where
  "within b [] = ([], False)"
| "within b (l # ls) =
     (if length l + 1 > b then ([], True) else case within (b - (length l + 1)) ls of (ks, hit) \<Rightarrow> (l # ks, hit))"

definition line_range :: "string \<Rightarrow> nat \<Rightarrow> nat \<Rightarrow> nat \<Rightarrow> string list \<times> bool" where
  "line_range content first count limit = within limit (take count (drop (first - 1) (text_lines content)))"

lemma text_lines_Nil [simp]: "text_lines [] = []"
  by (simp add: text_lines.simps)

lemma text_lines_step:
  "content \<noteq> [] \<Longrightarrow> text_lines content = strip_cr (fst (split_line content)) # text_lines (skip_blob_line content)"
  by (subst text_lines.simps) (simp add: skip_blob_line_def split: prod.split option.split)

lemma skip_blob_lines_drop: "text_lines (skip_blob_lines n rest) = drop n (text_lines rest)"
  by (induction n arbitrary: rest) (simp_all add: text_lines_step)

lemma take_blob_lines_within: "take_blob_lines n b rest = within b (take n (text_lines rest))"
proof (induction n arbitrary: b rest)
  case (Suc n)
  then show ?case by (simp add: text_lines_step Let_def)
qed simp

text \<open>An input at the position \<open>rest\<close> of a sound file; behind its last line it may have failed.\<close>

definition sound_at :: "istream \<Rightarrow> string \<Rightarrow> bool" where
  "sound_at s rest \<longleftrightarrow> \<not> in_broken s \<and> in_rest s = rest \<and> (in_good s \<or> rest = [])"

lemma getline_sound:
  assumes "sound_at s rest" and "rest \<noteq> []"
  obtains s1 where "getline s old = (True, fst (split_line rest), s1)" "sound_at s1 (skip_blob_line rest)"
proof -
  obtain line r where sp: "split_line rest = (line, r)" by (rule prod.exhaust)
  have good: "in_good s" "\<not> in_broken s" "in_rest s = rest" using assms by (auto simp: sound_at_def)
  show thesis
  proof (cases r)
    case None
    from split_line_None [OF sp [unfolded None]] assms(2) have "line \<noteq> []" by auto
    with None sp good show thesis
      by (intro that [of "s\<lparr>in_rest := [], in_eof := True, in_fail := False\<rparr>"])
        (simp_all add: getline_def sound_at_def skip_blob_line_def)
  next
    case (Some q)
    with sp good show thesis
      by (intro that [of "s\<lparr>in_rest := q\<rparr>"])
        (simp_all add: getline_def sound_at_def skip_blob_line_def in_good_def)
  qed
qed

lemma getline_sound_end: "sound_at s [] \<Longrightarrow> fst (getline s old) = False \<and> sound_at (snd (snd (getline s old))) []"
  by (auto simp: sound_at_def getline_def in_good_def)

lemma skip_lines_sound: "sound_at s rest \<Longrightarrow> sound_at (skip_lines n s) (skip_blob_lines n rest)"
proof (induction n arbitrary: s rest)
  case (Suc n)
  show ?case
  proof (cases "rest = []")
    case True
    with Suc.prems getline_sound_end [of s "[]"] show ?thesis by (auto split: prod.split)
  next
    case False
    obtain s1 where "getline s [] = (True, fst (split_line rest), s1)" "sound_at s1 (skip_blob_line rest)"
      using Suc.prems False by (rule getline_sound)
    with False Suc.IH show ?thesis by simp
  qed
qed simp

lemma take_lines_sound: "sound_at s rest \<Longrightarrow> take_lines n b s = take_blob_lines n b rest"
proof (induction n arbitrary: s rest b)
  case (Suc n)
  show ?case
  proof (cases "rest = []")
    case True
    with Suc.prems getline_sound_end [of s "[]"] show ?thesis by (auto split: prod.split)
  next
    case False
    obtain s1 where g: "getline s [] = (True, fst (split_line rest), s1)" "sound_at s1 (skip_blob_line rest)"
      using Suc.prems False by (rule getline_sound)
    then show ?thesis using False Suc.IH [OF g(2)] by (simp add: Let_def)
  qed
qed simp

lemma take_lines_range:
  "sound_at s content \<Longrightarrow> take_lines n b (skip_lines m s) = within b (take n (drop m (text_lines content)))"
  using take_lines_sound [OF skip_lines_sound] by (simp add: take_blob_lines_within skip_blob_lines_drop)

lemma within_bounds: "within b ls = (ks, hit) \<Longrightarrow> prefix ks ls \<and> sum_list (map (\<lambda>l. length l + 1) ks) \<le> b"
proof (induction b ls arbitrary: ks rule: within.induct)
  case (2 b l ls)
  then show ?case by (auto split: if_splits prod.splits)
qed simp

lemma within_hit: "within b ls = (ks, hit) \<Longrightarrow> hit \<or> ks = ls"
  by (induction b ls arbitrary: ks rule: within.induct) (auto split: if_splits prod.splits)

section \<open>Properties\<close>

lemma open_sound [simp]: "sound_at (open_input content) content"
  by (simp add: sound_at_def open_input_def in_good_def)

lemma range_readers_agree_aux:
  assumes "se_open e path = Some (open_input content)" and "sr_lines res = []"
  shows "read_range e path q res = (True, read_blob_range content q res)"
  using assms take_lines_range [OF open_sound]
  by (simp add: read_range_def read_blob_range_def take_blob_lines_within skip_blob_lines_drop Let_def split: prod.split)

text \<open>
  C32. A range of lines is the same whether it is read from a file or from a blob: both readers
  return what the reference does, the lines from the first requested one on, without their
  carriage returns, at most as many as were asked for and as fit into the byte limit.
\<close>

theorem range_readers_agree:
  assumes "se_open e path = Some (open_input content)" and "sr_lines res = []"
  shows "read_range e path q res = (True, read_blob_range content q res) \<and>
    sr_lines (read_blob_range content q res) =
      fst (line_range content (unat (sq_first_line q)) (unat (sq_line_count q)) (sq_byte_limit q)) \<and>
    length (sr_lines (read_blob_range content q res)) \<le> unat (sq_line_count q) \<and>
    sum_list (map (\<lambda>l. length l + 1) (sr_lines (read_blob_range content q res))) \<le> sq_byte_limit q"
proof -
  let ?n = "unat (sq_line_count q)" and ?m = "unat (sq_first_line q) - 1"
  obtain ks hit where r: "within (sq_byte_limit q) (take ?n (drop ?m (text_lines content))) = (ks, hit)"
    by (rule prod.exhaust)
  have blob: "read_blob_range content q res = res\<lparr>sr_lines := ks, sr_byte_limit_hit := hit \<or> sr_byte_limit_hit res\<rparr>"
    using assms(2) r by (simp add: read_blob_range_def take_blob_lines_within skip_blob_lines_drop Let_def)
  moreover note range_readers_agree_aux [OF assms]
  moreover have "length ks \<le> ?n"
    using within_bounds [OF r] prefix_length_le [of ks "take ?n (drop ?m (text_lines content))"] by simp
  ultimately show ?thesis using within_bounds [OF r] r by (simp add: line_range_def)
qed

text \<open>What the metadata query finds.\<close>

lemma execute_rows: "execute run rows = Steps xs fin \<Longrightarrow> set xs \<subseteq> set rows"
  by (cases run) (auto dest: in_set_takeD)

lemma deliver_find_file:
  assumes "db_find_file run db (Some v) (Some p) collect_file_metadata m0 = (ret, m)" and "\<not> ret < 0"
    and "\<not> fm_found m0"
  shows "fm_found m \<longrightarrow> (\<exists>f \<in> set (db_files db). f_variant f = v \<and> f_path f = p \<and> fm_mtime_ns m = f_mtime f \<and> fm_size m = f_size f)"
proof -
  let ?rows = "filter (\<lambda>f. f_variant f = v \<and> f_path f = p) (db_files db)"
  have some: "f \<in> set (db_files db) \<and> f_variant f = v \<and> f_path f = p"
    if "execute run ?rows = Steps (f # rest) fin" for f rest fin
    using execute_rows [OF that] by auto
  from assms show ?thesis
    by (auto simp: db_find_file_def collect_file_metadata_def split: statement.splits list.splits if_splits dest!: some)
qed

definition recorded_in :: "database \<Rightarrow> string \<Rightarrow> string \<Rightarrow> file_stat \<Rightarrow> bool" where
  "recorded_in db v p st \<longleftrightarrow>
     (\<exists>f \<in> set (db_files db). f_variant f = v \<and> f_path f = p \<and> f_mtime f = stat_mtime st \<and> f_size f = stat_size st)"

lemma read_working_tree_result:
  assumes "read_working_tree e root q = (ret, res)" and "\<not> ret < 0"
  obtains
    (none) "res = new_result"
  | (gone) "sr_lines res = []" "sr_origin res = Origin_None" "sr_drifted res" "sr_status res = Missing"
      "se_before e (resolve root (sq_path q)) = No_Entry" "valid_request q" "\<not> sr_byte_limit_hit res"
  | (drifted) "sr_lines res = []" "sr_origin res = Origin_None" "sr_drifted res" "sr_status res = Drifted"
      "valid_request q" "\<not> sr_byte_limit_hit res"
  | (current) st st' r where "sr_status res = Current" "sr_origin res = WorkingTree" "\<not> sr_drifted res"
      "sr_physical_path res = resolve root (sq_path q)"
      "se_before e (resolve root (sq_path q)) = Stat st" "se_after e (resolve root (sq_path q)) = Stat st'"
      "recorded_in (the (sq_database q)) (sq_variant q) (sq_path q) st"
      "recorded_in (the (sq_database q)) (sq_variant q) (sq_path q) st'"
      "read_range e (resolve root (sq_path q)) q r = (True, res\<lparr>sr_status := NotIndexed, sr_origin := Origin_None\<rparr>)"
      "sr_lines r = []" "valid_request q"
proof -
  have v: "valid_request q" using assms by (auto simp: read_working_tree_def Let_def split: if_splits)
  let ?m0 = "\<lparr>fm_mtime_ns = 0, fm_size = 0, fm_found = False\<rparr>" and ?p = "resolve root (sq_path q)"
  obtain r0 m where f: "db_find_file (se_find_run e) (the (sq_database q)) (Some (sq_variant q)) (Some (sq_path q))
      collect_file_metadata ?m0 = (r0, m)" by (rule prod.exhaust)
  note step = assms(1) [unfolded read_working_tree_def Let_def]
  have r0: "\<not> r0 < 0" using step assms(2) v f by (auto split: if_splits)
  let ?res1 = "new_result\<lparr>sr_physical_path := ?p, sr_first_line := sq_first_line q\<rparr>"
  show thesis
  proof (cases "fm_found m")
    case False
    with step v f r0 none show thesis by simp
  next
    case found: True
    with deliver_find_file [OF f r0] have rec: "metadata_matches m st \<Longrightarrow> recorded_in (the (sq_database q)) (sq_variant q) (sq_path q) st" for st
      by (auto simp: metadata_matches_def recorded_in_def)
    show thesis
    proof (cases "se_before e ?p")
      case No_Entry
      with step v f r0 found gone show thesis by (auto simp: new_result_def)
    next
      case Stat_Error
      with step assms(2) v f r0 found show thesis by auto
    next
      case (Stat st)
      show thesis
      proof (cases "metadata_matches m st")
        case False
        with Stat step v f r0 found drifted show thesis by (auto simp: new_result_def)
      next
        case match: True
        obtain ok res2 where rr: "read_range e ?p q ?res1 = (ok, res2)" by (rule prod.exhaust)
        have ok: "ok" using Stat match step assms(2) v f r0 found rr by (cases ok) auto
        show thesis
        proof (cases "se_after e ?p")
          case after: (Stat st')
          show thesis
          proof (cases "metadata_matches m st'")
            case False
            with after ok rr match Stat step v f r0 found drifted show thesis
              by (auto simp: new_result_def drifted_result_def)
          next
            case True
            with after ok rr match Stat step v f r0 found
            have res: "res = res2\<lparr>sr_status := Current, sr_origin := WorkingTree\<rparr>" by auto
            have "res2\<lparr>sr_status := NotIndexed, sr_origin := Origin_None\<rparr> = res2 \<and> \<not> sr_drifted res2 \<and> sr_physical_path res2 = ?p"
              using rr ok by (auto simp: read_range_def new_result_def Let_def split: option.splits prod.splits)
            with res rr ok True match Stat after rec v show thesis
              by (intro current [of st st' ?res1]) (auto simp: new_result_def)
          qed
        qed (use ok rr match Stat step assms(2) v f r0 found in auto)
      qed
    qed
  qed
qed

text \<open>What the query for the variant leaves: fields of rows of that variant.\<close>

definition provenance_from :: "variant_row set \<Rightarrow> variant_provenance \<Rightarrow> bool" where
  "provenance_from rows p \<longleftrightarrow>
     (vp_root p \<noteq> [] \<longrightarrow> (\<exists>v \<in> rows. v_name v = vp_variant p \<and> v_repository_root v = Some (vp_root p))) \<and>
     (vp_commit p \<noteq> [] \<longrightarrow> (\<exists>v \<in> rows. v_name v = vp_variant p \<and> v_git_commit v = Some (vp_commit p)))"

lemma deliver_provenance:
  "deliver collect_variant_provenance rows p = (r, p') \<Longrightarrow> provenance_from all p \<Longrightarrow> set rows \<subseteq> all \<Longrightarrow>
     provenance_from all p' \<and> vp_variant p' = vp_variant p"
proof (induction rows arbitrary: p)
  case (Cons v rows)
  have "provenance_from all (snd (collect_variant_provenance p v)) \<and>
      vp_variant (snd (collect_variant_provenance p v)) = vp_variant p"
    using Cons.prems(2,3)
    by (cases "vp_variant p = v_name v"; cases "v_repository_root v"; cases "v_git_commit v")
      (auto simp: provenance_from_def collect_variant_provenance_def Let_def)
  moreover have "fst (collect_variant_provenance p v) = 0"
    by (simp add: collect_variant_provenance_def Let_def)
  ultimately show ?case using Cons.prems(1,3) Cons.IH [of "snd (collect_variant_provenance p v)"]
    by (cases "collect_variant_provenance p v") auto
qed simp

lemma list_variants_provenance:
  assumes "db_list_variants run db collect_variant_provenance \<lparr>vp_variant = n, vp_root = [], vp_commit = []\<rparr> = (ret, p)"
  shows "provenance_from (set (db_variants db)) p \<and> vp_variant p = n"
proof -
  let ?p0 = "\<lparr>vp_variant = n, vp_root = [], vp_commit = []\<rparr>"
  have p0: "provenance_from (set (db_variants db)) ?p0" by (simp add: provenance_from_def)
  show ?thesis
  proof (cases "execute run (sort_key v_name (db_variants db))")
    case Not_Prepared
    with assms p0 show ?thesis by (auto simp: db_list_variants_def)
  next
    case (Steps rows fin)
    obtain r p1 where d: "deliver collect_variant_provenance rows ?p0 = (r, p1)" by (rule prod.exhaust)
    have "p1 = p" using assms Steps d by (auto simp: db_list_variants_def split: if_splits)
    with deliver_provenance [OF d p0] execute_rows [OF Steps] show ?thesis by simp
  qed
qed

definition blob_of :: "'h git_lib \<Rightarrow> database \<Rightarrow> source_request \<Rightarrow> string \<Rightarrow> bool" where
  "blob_of lib db q content \<longleftrightarrow>
     (\<exists>root commit path blob.
        (\<exists>v \<in> set (db_variants db). v_name v = sq_variant q \<and> v_repository_root v = Some root) \<and>
        (\<exists>v \<in> set (db_variants db). v_name v = sq_variant q \<and> v_git_commit v = Some commit) \<and>
        relative_path (sq_path q) root = Some path \<and>
        backend_blob_result lib root commit path = (0, blob) \<and> content = or_empty (bd_content blob))"

lemma read_git_commit_result:
  assumes "read_git_commit e ld lib q res g = (0, res', g')"
  shows "res' = res \<or>
    (\<exists>content. blob_of lib (the (sq_database q)) q content \<and>
       res' = (read_blob_range content q res)\<lparr>sr_origin := GitCommit\<rparr>)"
proof -
  obtain ret p where l: "db_list_variants (se_list_run e) (the (sq_database q)) collect_variant_provenance
      \<lparr>vp_variant = sq_variant q, vp_root = [], vp_commit = []\<rparr> = (ret, p)" by (rule prod.exhaust)
  note from_rows = list_variants_provenance [OF l]
  note step = assms [unfolded read_git_commit_def Let_def l prod.case]
  show ?thesis
  proof (cases "vp_root p = [] \<or> vp_commit p = [] \<or> relative_path (sq_path q) (vp_root p) = None")
    case True
    with step show ?thesis by (auto split: if_splits option.splits)
  next
    case False
    then obtain path where path: "relative_path (sq_path q) (vp_root p) = Some path" "vp_root p \<noteq> []" "vp_commit p \<noteq> []" by auto
    obtain r blob g1 where b: "git_blob ld lib (vp_root p) (vp_commit p) path g = (r, blob, g1)" by (rule prod_cases3)
    show ?thesis
    proof (cases "r = 0")
      case False
      with step path b show ?thesis by (auto split: if_splits)
    next
      case True
      with b have "backend_blob_result lib (vp_root p) (vp_commit p) path = (0, lb_data blob)"
        by (auto simp: git_blob_def backend_blob_def Let_def split: if_splits prod.splits)
      with from_rows path have "blob_of lib (the (sq_database q)) q (or_empty (bd_content (lb_data blob)))"
        unfolding blob_of_def provenance_from_def
        by (intro exI [of _ "vp_root p"] exI [of _ "vp_commit p"] exI [of _ path] exI [of _ "lb_data blob"]) auto
      moreover have "res' = (read_blob_range (or_empty (bd_content (lb_data blob))) q res)\<lparr>sr_origin := GitCommit\<rparr>"
        using step path b True by (auto split: if_splits)
      ultimately show ?thesis by blast
    qed
  qed
qed

lemma read_blob_range_fields:
  "sr_status (read_blob_range c q res) = sr_status res" "sr_drifted (read_blob_range c q res) = sr_drifted res"
  by (simp_all add: read_blob_range_def Let_def split: prod.split)

text \<open>The requested range of a text.\<close>

definition requested :: "source_request \<Rightarrow> string \<Rightarrow> string list" where
  "requested q content = fst (line_range content (unat (sq_first_line q)) (unat (sq_line_count q)) (sq_byte_limit q))"

lemma read_blob_range_requested: "sr_lines res = [] \<Longrightarrow> sr_lines (read_blob_range c q res) = requested q c"
  by (simp add: requested_def line_range_def read_blob_range_def take_blob_lines_within skip_blob_lines_drop Let_def
      split: prod.split)

text \<open>
  C31. A source says truthfully where its text is from. When \<open>readSource\<close> succeeds, then its text is
  the requested range of the file in the working tree, and the database has recorded the size and
  modification time that the file had before it was read and still had afterwards; or it is the
  range of a blob, at a path in the repository, of the commit recorded for the variant, and the
  result says that the file has drifted or is missing; or there is no text at all.
\<close>

theorem source_truthful:
  assumes "read_source e ld lib root q g = (0, res, g')"
    and "se_open e (resolve root (sq_path q)) = Some (open_input content)"
  shows "case sr_origin res of
      WorkingTree \<Rightarrow> sr_status res = Current \<and> \<not> sr_drifted res \<and> sr_lines res = requested q content \<and>
        (\<exists>st st'. se_before e (resolve root (sq_path q)) = Stat st \<and> se_after e (resolve root (sq_path q)) = Stat st' \<and>
           recorded_in (the (sq_database q)) (sq_variant q) (sq_path q) st \<and>
           recorded_in (the (sq_database q)) (sq_variant q) (sq_path q) st')
    | GitCommit \<Rightarrow> (sr_status res = Missing \<or> sr_status res = Drifted) \<and> sr_drifted res \<and>
        (\<exists>blob. blob_of lib (the (sq_database q)) q blob \<and> sr_lines res = requested q blob)
    | Origin_None \<Rightarrow> sr_status res \<noteq> Current \<and> sr_lines res = []"
proof -
  obtain ret r where w: "read_working_tree e root q = (ret, r)" by (rule prod.exhaust)
  note step = assms(1) [unfolded read_source_def w prod.case]
  have ret: "\<not> ret < 0" using step by (auto split: if_splits)
  have git: ?thesis if "sr_status r = Missing \<or> sr_status r = Drifted" "sr_drifted r" "sr_lines r = []" "sr_origin r = Origin_None"
  proof -
    have "read_git_commit e ld lib q r g = (0, res, g')" using step ret that(1) by (auto split: if_splits)
    from read_git_commit_result [OF this] that show ?thesis
      by (auto simp: read_blob_range_fields read_blob_range_requested)
  qed
  from w ret show ?thesis
  proof (cases rule: read_working_tree_result)
    case none
    have "sr_status r = NotIndexed" by (simp add: none new_result_def)
    with step ret have "res = r" by simp
    then show ?thesis by (simp add: none new_result_def)
  next
    case gone
    with git show ?thesis by simp
  next
    case drifted
    with git show ?thesis by simp
  next
    case (current st st' r1)
    have "read_range e (resolve root (sq_path q)) q r1 = (True, read_blob_range content q r1)"
      using range_readers_agree_aux assms(2) current(10) by blast
    with current(9) have "sr_lines r = sr_lines (read_blob_range content q r1)"
      by (metis (no_types, lifting) prod.inject source_result.select_convs(4) source_result.surjective
          source_result.update_convs(1,2))
    with read_blob_range_requested [OF current(10)] have "sr_lines r = requested q content" by simp
    with current step ret show ?thesis by auto
  qed
qed

section \<open>Witnesses\<close>

definition sample_stat :: file_stat where
  "sample_stat = \<lparr>stat_is_dir = False, stat_dev = 1, stat_ino = 7, stat_mtime_sec = 5, stat_mtime_nsec = 6, stat_size = 9\<rparr>"

definition sample_source :: string where
  "sample_source = ''ab'' @ [CHR 0x0A] @ ''cd'' @ [CHR 0x0D, CHR 0x0A] @ ''ef''"

definition sample_source_env :: source_env where
  "sample_source_env =
     \<lparr>se_before = (\<lambda>p. Stat sample_stat), se_after = (\<lambda>p. Stat sample_stat),
      se_open = (\<lambda>p. Some (open_input sample_source)), se_cwd = ''/w'', se_find_run = Completes, se_list_run = Completes\<rparr>"

definition sample_request :: source_request where
  "sample_request =
     \<lparr>sq_database = Some (empty_database\<lparr>db_files := [\<lparr>f_id = 1, f_variant = ''v'', f_path = ''a.c'', f_mtime = 5000000006, f_size = 9\<rparr>]\<rparr>),
      sq_variant = ''v'', sq_path = ''a.c'', sq_first_line = 2, sq_line_count = 5, sq_byte_limit = 4\<rparr>"

lemmas sample_source_defs = sample_stat_def sample_source_env_def sample_request_def

lemma sample_requested: "requested sample_request sample_source = [''cd'']"
  by (simp add: requested_def line_range_def sample_request_def sample_source_def text_lines.simps strip_cr_def)

theorem range_readers_agree_witness:
  "read_range sample_source_env ''/w/a.c'' sample_request new_result =
     (True, read_blob_range sample_source sample_request new_result) \<and>
   sr_lines (read_blob_range sample_source sample_request new_result) = [''cd'']"
  using range_readers_agree [of sample_source_env "''/w/a.c''" sample_source new_result sample_request] sample_requested
  by (simp add: sample_source_env_def new_result_def requested_def)

lemma sample_env_simps [simp]:
  "se_before sample_source_env p = Stat sample_stat" "se_after sample_source_env p = Stat sample_stat"
  "se_open sample_source_env p = Some (open_input sample_source)"
  "se_find_run sample_source_env = Completes"
  by (simp_all add: sample_source_env_def)

lemma sample_read:
  "\<exists>res. read_source sample_source_env ld lib ''/w'' sample_request g = (0, res, g) \<and> sr_origin res = WorkingTree"
proof -
  let ?res1 = "new_result\<lparr>sr_physical_path := resolve ''/w'' (sq_path sample_request), sr_first_line := sq_first_line sample_request\<rparr>"
  have "valid_request sample_request" by (simp add: valid_request_def sample_request_def)
  moreover have "db_find_file Completes (the (sq_database sample_request)) (Some (sq_variant sample_request))
      (Some (sq_path sample_request)) collect_file_metadata m = (0, \<lparr>fm_mtime_ns = 5000000006, fm_size = 9, fm_found = True\<rparr>)" for m
    by (simp add: db_find_file_def collect_file_metadata_def sample_request_def)
  moreover have "metadata_matches \<lparr>fm_mtime_ns = 5000000006, fm_size = 9, fm_found = True\<rparr> sample_stat"
    by (simp add: metadata_matches_def stat_mtime_def sample_stat_def)
  moreover have "read_range sample_source_env p sample_request ?res1 = (True, read_blob_range sample_source sample_request ?res1)" for p
    by (rule range_readers_agree_aux) (simp_all add: new_result_def)
  ultimately have "read_working_tree sample_source_env ''/w'' sample_request =
      (0, (read_blob_range sample_source sample_request ?res1)\<lparr>sr_status := Current, sr_origin := WorkingTree\<rparr>)"
    by (simp add: read_working_tree_def Let_def)
  then show ?thesis by (simp add: read_source_def)
qed

theorem source_truthful_witness:
  "\<exists>res. read_source sample_source_env sample_loader sample_git ''/w'' sample_request \<lparr>gs_inits = 0, gs_backends = 0\<rparr> =
       (0, res, \<lparr>gs_inits = 0, gs_backends = 0\<rparr>) \<and> sr_lines res = [''cd''] \<and> sr_status res = Current"
proof -
  obtain res where r: "read_source sample_source_env sample_loader sample_git ''/w'' sample_request \<lparr>gs_inits = 0, gs_backends = 0\<rparr> =
       (0, res, \<lparr>gs_inits = 0, gs_backends = 0\<rparr>)" "sr_origin res = WorkingTree"
    using sample_read by blast
  from source_truthful [OF r(1) sample_env_simps(3)] r sample_requested show ?thesis by auto
qed

end
