(* ===== verification/Lsp_Source_Properties.thy ===== *)
theory Lsp_Source_Properties
  imports Lsp_Source
begin

text \<open>
  The two conversions of the language server are inverse to each other: paths and URIs, and the
  UTF-16 columns of the protocol and the offsets of bytes in a line.
\<close>

section \<open>URIs\<close>

lemma byte_of_less [simp]: "byte_of c < 256"
  by (simp add: byte_of_def)

lemma hex_upper_digit: "n < 16 \<Longrightarrow> hex_digit (hex_upper n) = Some n"
proof -
  assume "n < 16"
  moreover have "list_all (\<lambda>n. hex_digit (hex_upper n) = Some n) [0..<16]"
    by (simp add: upt_rec hex_upper_def hex_digit_def byte_of_def)
  ultimately show ?thesis by (simp add: list_all_iff)
qed

lemma percent_reserved: "\<not> unreserved (CHR ''%'')"
  by (simp add: unreserved_def byte_of_def)

lemma uri_decode_byte:
  assumes "c \<noteq> NUL"
  shows "uri_decode (uri_byte c @ s) = map_option (\<lambda>r. c # r) (uri_decode s)"
proof (cases "unreserved c")
  case True
  with percent_reserved have "c \<noteq> CHR ''%''" by auto
  with True show ?thesis by (simp add: uri_byte_def)
next
  case False
  have "byte_of c \<noteq> 0"
    using assms of_char_eq_iff [of c NUL] by (auto simp: byte_of_def NUL_def)
  moreover have "hex_digit (hex_upper (byte_of c div 16)) = Some (byte_of c div 16)"
    by (rule hex_upper_digit) (simp add: less_mult_imp_div_less)
  moreover have "hex_digit (hex_upper (byte_of c mod 16)) = Some (byte_of c mod 16)"
    by (rule hex_upper_digit) simp
  moreover have "char_of (byte_of c div 16 * 16 + byte_of c mod 16) = c"
    by (simp add: byte_of_def)
  moreover have "\<not> (byte_of c div 16 = 0 \<and> byte_of c mod 16 = 0)"
    using calculation(1) by (metis div_mult_mod_eq add.right_neutral mult_0)
  ultimately show ?thesis using False by (auto simp: uri_byte_def)
qed

lemma uri_decode_encode: "c_string p \<Longrightarrow> uri_decode (concat (map uri_byte p)) = Some p"
  by (induction p) (auto simp: uri_decode_byte c_string_def)

lemma unreserved_slash: "uri_byte slash_char = ''/''"
  by (simp add: uri_byte_def unreserved_def)

text \<open>
  C35. A path survives the way through its URI: the URI of an absolute path without NUL bytes stands
  for its normal form, whatever other bytes it has, and is accepted as the path of a document.
\<close>

theorem uri_roundtrip:
  assumes "is_absolute p" and "c_string p"
  shows "path_from_uri (uri_from_path p) = Some (lexically_normal p) \<and>
    file_path (uri_from_path p) = Some (lexically_normal p)"
proof -
  obtain q where p: "p = slash_char # q" using assms(1) by (cases p) (auto simp: is_absolute_def)
  then have "is_absolute (concat (map uri_byte p))" by (simp add: unreserved_slash is_absolute_def)
  moreover have "starts_with file_scheme (file_scheme @ s)" for s by (auto simp: starts_with_append)
  ultimately have "path_from_uri (uri_from_path p) = Some (lexically_normal p)"
    using uri_decode_encode [OF assms(2)] by (simp add: path_from_uri_def uri_from_path_def uri_path_part_def)
  moreover have "is_absolute (lexically_normal p)" using assms(1) by (rule names_normal_absolute)
  ultimately show ?thesis by (simp add: file_path_def)
qed

text \<open>
  The URI of a client need not be the one that the server makes of the same path: a plus sign is a
  legal character of a path in a URI, and the server escapes it.
\<close>

lemma plus_escaped: "CHR ''+'' \<notin> set (uri_from_path p)"
proof -
  have u: "CHR ''+'' \<notin> set (uri_byte c)" for c
  proof -
    have "hex_upper n \<noteq> CHR ''+''" if "n < 16" for n
      using hex_upper_digit [OF that] by (auto simp: hex_digit_def byte_of_def)
    moreover have "byte_of c div 16 < 16" by (simp add: byte_of_def less_mult_imp_div_less)
    ultimately have "CHR ''+'' \<noteq> hex_upper (byte_of c div 16)" "CHR ''+'' \<noteq> hex_upper (byte_of c mod 16)"
      by (metis, metis mod_less_divisor zero_less_numeral)
    moreover have "\<not> unreserved (CHR ''+'')" by (simp add: unreserved_def byte_of_def)
    ultimately show ?thesis by (auto simp: uri_byte_def)
  qed
  then show ?thesis by (auto simp: uri_from_path_def file_scheme_def)
qed

theorem client_uri_not_recognised:
  "file_path ''file:///w/a+b.c'' = Some ''/w/a+b.c'' \<and> mapper_uri root p \<noteq> ''file:///w/a+b.c''"
proof -
  have "lexically_normal ''/w/a+b.c'' = ''/w/a+b.c''"
    by (simp add: lexically_normal_def normal_names_def normal_step_def names_def is_absolute_def ends_slash_def)
  then have "file_path ''file:///w/a+b.c'' = Some ''/w/a+b.c''"
    by (simp add: file_path_def path_from_uri_def file_scheme_def uri_path_part_def is_absolute_def)
  moreover have "CHR ''+'' \<in> set ''file:///w/a+b.c''" by simp
  with plus_escaped have "mapper_uri root p \<noteq> ''file:///w/a+b.c''" unfolding mapper_uri_def by metis
  ultimately show ?thesis by simp
qed

section \<open>Columns\<close>

lemma continuation_append:
  assumes "continuation n k s = Some (c, r)"
  shows "\<exists>p. s = p @ r \<and> length p = n \<and> c < (k + 1) * 64 ^ n \<and> (\<forall>t. continuation n k (p @ t) = Some (c, t))"
  using assms
proof (induction n k s rule: continuation.induct)
  case (3 n k b rest)
  let ?k = "k * 64 + byte_of b mod 64"
  from "3.prems" have b: "byte_of b div 64 = 2" "continuation n ?k rest = Some (c, r)" by (auto split: if_splits)
  with "3.IH" obtain p where p: "rest = p @ r" "length p = n" "c < (?k + 1) * 64 ^ n"
    "\<forall>t. continuation n ?k (p @ t) = Some (c, t)" by auto
  have "?k + 1 \<le> (k + 1) * 64" by (simp add: Suc_leI)
  then have "(?k + 1) * 64 ^ n \<le> (k + 1) * 64 * 64 ^ n" by (rule mult_le_mono1)
  also have "(k + 1) * 64 * 64 ^ n = (k + 1) * 64 ^ Suc n" by (simp add: algebra_simps)
  finally have "c < (k + 1) * 64 ^ Suc n" using p(3) by (rule less_le_trans [rotated])
  with b p show ?case by (intro exI [of _ "b # p"]) auto
qed auto

lemma width_simps [simp]: "unat (utf16_width c) = (if c > 0xffff then 2 else 1)"
  by (simp add: utf16_width_def)

text \<open>A code point takes the bytes of a chunk, at least as many as its units.\<close>

lemma next_code_point_chunk:
  assumes "next_code_point s = Some (c, r)"
  obtains p where "s = p @ r" "p \<noteq> []" "unat (utf16_width c) \<le> length p" "\<forall>t. next_code_point (p @ t) = Some (c, t)"
proof -
  obtain b cs where s: "s = b # cs" using assms by (cases s) (simp_all add: next_code_point_def)
  obtain start n where l: "lead_byte (byte_of b) = Some (start, n)"
    using assms s by (auto simp: next_code_point_def split: option.splits)
  show thesis
  proof (cases n)
    case 0
    with l have "c < 128" "c = start" "cs = r"
      using assms s by (auto simp: next_code_point_def lead_byte_def split: if_splits)
    with 0 l s show thesis by (intro that [of "[b]"]) (simp_all add: next_code_point_def)
  next
    case (Suc m)
    with assms s l have cont: "continuation n start cs = Some (c, r)"
      and range: "c \<le> 0x10ffff" "\<not> (0xd800 \<le> c \<and> c \<le> 0xdfff)"
      by (auto simp: next_code_point_def split: option.splits prod.splits if_splits)
    from continuation_append [OF cont] obtain p where
      p: "cs = p @ r" "length p = n" "c < (start + 1) * 64 ^ n" "\<And>t. continuation n start (p @ t) = Some (c, t)" by auto
    have "unat (utf16_width c) \<le> length (b # p)" using p(2) Suc by simp
    moreover have "next_code_point ((b # p) @ t) = Some (c, t)" for t
      using l Suc p(4) range by (simp add: next_code_point_def)
    ultimately show thesis using s p(1) by (intro that [of "b # p"]) simp_all
  qed
qed

lemma units_add:
  fixes u :: u32
  assumes "unat u + length s < 2 ^ 32" and "unat (utf16_width c) \<le> length s"
  shows "unat (u + utf16_width c) = unat u + unat (utf16_width c)"
  using assms unat_add_lem [of u "utf16_width c"] by (simp del: width_simps)

lemma utf16_length_bounds:
  "utf16_length_loop s u = Some v \<Longrightarrow> unat u + length s < 2 ^ 32 \<Longrightarrow>
     unat u \<le> unat v \<and> unat v \<le> unat u + length s \<and> (s \<noteq> [] \<longrightarrow> unat u < unat v)"
proof (induction s u rule: utf16_length_loop.induct)
  case (1 s u)
  show ?case
  proof (cases "s = []")
    case True
    with "1.prems" show ?thesis by (simp add: utf16_length_loop.simps)
  next
    case False
    with "1.prems"(1) obtain c r where n: "next_code_point s = Some (c, r)" "utf16_length_loop r (u + utf16_width c) = Some v"
      by (subst (asm) utf16_length_loop.simps) (auto split: option.splits)
    from n(1) obtain p where p: "s = p @ r" "unat (utf16_width c) \<le> length p" by (rule next_code_point_chunk)
    have add: "unat (u + utf16_width c) = unat u + unat (utf16_width c)"
      using "1.prems"(2) p by (intro units_add [of _ s]) simp_all
    from "1.prems"(2) p(2) have fit: "unat (u + utf16_width c) + length r < 2 ^ 32"
      unfolding add p(1) length_append by linarith
    from "1.IH" [OF False n(1) refl n(2) fit] have
      "unat (u + utf16_width c) \<le> unat v" "unat v \<le> unat (u + utf16_width c) + length r" by simp_all
    moreover have "0 < unat (utf16_width c)" by simp
    ultimately show ?thesis using p(2) unfolding add p(1) length_append by linarith
  qed
qed

lemma byte_offset_sound:
  "byte_offset_loop rest off u col = Some k \<Longrightarrow> unat u + length rest < 2 ^ 32 \<Longrightarrow> u \<le> col \<Longrightarrow>
     \<exists>p t. rest = p @ t \<and> k = off + length p \<and> utf16_length_loop p u = Some col"
proof (induction rest off u col rule: byte_offset_loop.induct)
  case (1 rest off u col)
  show ?case
  proof (cases "u < col")
    case False
    with "1.prems" have "k = off" "u = col" by (simp_all add: byte_offset_loop.simps)
    then show ?thesis by (intro exI [of _ "[]"] exI [of _ rest]) (simp add: utf16_length_loop.simps)
  next
    case True
    with "1.prems"(1) obtain c r where n: "next_code_point rest = Some (c, r)" "\<not> u + utf16_width c > col"
      "byte_offset_loop r (off + (length rest - length r)) (u + utf16_width c) col = Some k"
      by (subst (asm) byte_offset_loop.simps) (auto split: option.splits if_splits)
    from n(1) obtain p where p: "rest = p @ r" "p \<noteq> []" "unat (utf16_width c) \<le> length p" "\<forall>t. next_code_point (p @ t) = Some (c, t)"
      by (rule next_code_point_chunk)
    have add: "unat (u + utf16_width c) = unat u + unat (utf16_width c)"
      using "1.prems"(2) p by (intro units_add [of _ rest]) simp_all
    from "1.prems"(2) p(3) have fit: "unat (u + utf16_width c) + length r < 2 ^ 32"
      unfolding add p(1) length_append by linarith
    have le: "u + utf16_width c \<le> col" using n(2) by simp
    from True have nt: "\<not> \<not> u < col" by simp
    from "1.IH" [OF nt n(1) refl n(2,3) fit le] obtain p' t where
      p': "r = p' @ t" "k = off + (length rest - length r) + length p'" "utf16_length_loop p' (u + utf16_width c) = Some col"
      by auto
    have "utf16_length_loop (p @ p') u = Some col"
      using p(2,4) p'(3) by (subst utf16_length_loop.simps) simp
    with p p' show ?thesis by (intro exI [of _ "p @ p'"] exI [of _ t]) simp
  qed
qed

lemma byte_offset_complete:
  "utf16_length_loop p u = Some col \<Longrightarrow> unat u + length p < 2 ^ 32 \<Longrightarrow>
     byte_offset_loop (p @ t) off u col = Some (off + length p)"
proof (induction p u arbitrary: off rule: utf16_length_loop.induct)
  case (1 p u)
  show ?case
  proof (cases "p = []")
    case True
    with "1.prems" show ?thesis by (simp add: byte_offset_loop.simps utf16_length_loop.simps)
  next
    case False
    with "1.prems"(1) obtain c r where n: "next_code_point p = Some (c, r)" "utf16_length_loop r (u + utf16_width c) = Some col"
      by (subst (asm) utf16_length_loop.simps) (auto split: option.splits)
    from n(1) obtain q where q: "p = q @ r" "unat (utf16_width c) \<le> length q" "\<forall>t. next_code_point (q @ t) = Some (c, t)"
      by (rule next_code_point_chunk)
    have add: "unat (u + utf16_width c) = unat u + unat (utf16_width c)"
      using "1.prems"(2) q by (intro units_add [of _ p]) simp_all
    from "1.prems"(2) q(2) have fit: "unat (u + utf16_width c) + length r < 2 ^ 32"
      unfolding add q(1) length_append by linarith
    from utf16_length_bounds [OF n(2) fit] have le: "u + utf16_width c \<le> col" by (simp add: word_le_nat_alt)
    have less: "u < col" using utf16_length_bounds [OF "1.prems"] False by (simp add: word_less_nat_alt)
    have "byte_offset_loop (p @ t) off u col =
        byte_offset_loop (r @ t) (off + (length (p @ t) - length (r @ t))) (u + utf16_width c) col"
      using less le q(3) [rule_format, of "r @ t"] by (subst byte_offset_loop.simps) (auto simp: q(1) not_less dest: leD)
    also have "\<dots> = Some (off + (length (p @ t) - length (r @ t)) + length r)"
      using "1.IH" [OF False n(1) refl n(2) fit] by simp
    finally show ?thesis by (simp add: q(1))
  qed
qed

definition utf8 :: "string \<Rightarrow> bool" where
  "utf8 s \<longleftrightarrow> utf16_length_loop s 0 \<noteq> None"

text \<open>
  C36. Byte offsets and UTF-16 columns are inverse: \<open>byteOffset\<close> finds the offset \<open>k\<close> for a column
  exactly when the bytes before \<open>k\<close> are whole code points that \<open>utf16Length\<close> counts as that column.
  So every column that a range reports is found again, and one inside a surrogate pair, behind the
  end of the line or behind bytes that are not UTF-8 has no offset.
\<close>

theorem columns_inverse:
  assumes "length line < 2 ^ 32"
  shows "byte_offset line column = Some k \<longleftrightarrow>
    k \<le> length line \<and> utf8 (take k line) \<and> utf16_length (take k line) = column"
proof
  assume "byte_offset line column = Some k"
  with byte_offset_sound [of line 0 0 column k] assms obtain p t where
    "line = p @ t" "k = length p" "utf16_length_loop p 0 = Some column" by (auto simp: byte_offset_def)
  then show "k \<le> length line \<and> utf8 (take k line) \<and> utf16_length (take k line) = column"
    by (simp add: utf8_def utf16_length_def)
next
  assume k: "k \<le> length line \<and> utf8 (take k line) \<and> utf16_length (take k line) = column"
  then have "utf16_length_loop (take k line) 0 = Some column" by (auto simp: utf8_def utf16_length_def)
  from byte_offset_complete [OF this, of "drop k line" 0] assms k show "byte_offset line column = Some k"
    by (simp add: byte_offset_def)
qed

section \<open>Witnesses\<close>

theorem uri_roundtrip_witness:
  "file_path (uri_from_path ''/w/a b%.c'') = Some (lexically_normal ''/w/a b%.c'')"
  using uri_roundtrip [of "''/w/a b%.c''"] by (simp add: is_absolute_def c_string_def NUL_def)

text \<open>A line with a character of two bytes and one of four: the column 4 is behind both.\<close>

definition sample_line :: string where
  "sample_line = [CHR ''a'', CHR 0xC3, CHR 0xA9, CHR 0xF0, CHR 0x9F, CHR 0x98, CHR 0x80, CHR '';'']"

lemma utf16_length_Nil [simp]: "utf16_length_loop [] u = Some u"
  by (simp add: utf16_length_loop.simps)

lemma utf16_length_step:
  "next_code_point s = Some (c, r) \<Longrightarrow> utf16_length_loop s u = utf16_length_loop r (u + utf16_width c)"
  by (subst utf16_length_loop.simps) (auto simp: next_code_point_def)

lemma sample_leads:
  "lead_byte (byte_of (CHR 0xC3)) = Some (3, 1)"
  "lead_byte (byte_of (CHR 0xF0)) = Some (0, Suc (Suc (Suc 0)))"
  by (simp_all add: lead_byte_def byte_of_def)

lemma sample_continuation:
  "continuation (Suc (Suc (Suc 0))) 0 (CHR 0x9F # CHR 0x98 # CHR 0x80 # r) = Some (128512, r)"
  by (simp add: byte_of_def)

lemma sample_chars:
  "next_code_point (CHR ''a'' # r) = Some (97, r)"
  "next_code_point (CHR 0xC3 # CHR 0xA9 # r) = Some (233, r)"
  "next_code_point (CHR 0xF0 # CHR 0x9F # CHR 0x98 # CHR 0x80 # r) = Some (128512, r)"
  subgoal by (simp add: next_code_point_def lead_byte_def byte_of_def)
  subgoal by (simp add: next_code_point_def sample_leads) (simp add: byte_of_def)
  subgoal by (simp add: next_code_point_def sample_leads sample_continuation del: continuation.simps)
  done

lemma sample_columns: "utf8 (take 7 sample_line) \<and> utf16_length (take 7 sample_line) = 4"
proof -
  have "take 7 sample_line = [CHR ''a'', CHR 0xC3, CHR 0xA9, CHR 0xF0, CHR 0x9F, CHR 0x98, CHR 0x80]"
    by (simp add: sample_line_def)
  moreover have "utf16_length_loop [CHR ''a'', CHR 0xC3, CHR 0xA9, CHR 0xF0, CHR 0x9F, CHR 0x98, CHR 0x80] 0 = Some 4"
    using sample_chars by (simp add: utf16_length_step utf16_width_def)
  ultimately show ?thesis by (simp add: utf8_def utf16_length_def)
qed

theorem columns_inverse_witness: "byte_offset sample_line 4 = Some 7"
  using columns_inverse [of sample_line 4 7] sample_columns by (simp add: sample_line_def)

end
