(* ===== verification/Mcp_Values.thy ===== *)
theory Mcp_Values
  imports Semantic_Query Transport Names
begin

text \<open>
  The values of the model context server, \<open>tools/mcp/mcp_tools.cpp\<close>: limits, identifiers, cursors,
  records as JSON, and the paths that a request may name. The JSON printer and parser, and
  \<open>weakly_canonical\<close>, are parameters.
\<close>

section \<open>Results\<close>

datatype mcp_status =
  Mcp_Success | Mcp_InvalidParams | Mcp_UnknownTool | Mcp_DatabaseError | Mcp_Cancelled | Mcp_DeadlineExceeded

record tool_result =
  tl_status :: mcp_status
  tl_data :: object
  tl_message :: string

definition tool_success :: "object \<Rightarrow> tool_result" where
  "tool_success ob = \<lparr>tl_status = Mcp_Success, tl_data = ob, tl_message = []\<rparr>"

definition tool_failure :: "mcp_status \<Rightarrow> string \<Rightarrow> tool_result" where
  "tool_failure st message = \<lparr>tl_status = st, tl_data = [], tl_message = message\<rparr>"

abbreviation invalid_arguments :: "string \<Rightarrow> tool_result" where
  "invalid_arguments \<equiv> tool_failure Mcp_InvalidParams"

abbreviation tool_query_failed :: tool_result where
  "tool_query_failed \<equiv> tool_failure Mcp_DatabaseError ''Database query failed''"

section \<open>Records\<close>

definition mcp_record_name :: "record_type \<Rightarrow> string" where
  "mcp_record_name t =
     (case t of DB_DECLARATION \<Rightarrow> ''declaration'' | DB_DEFINITION \<Rightarrow> ''definition'' | DB_REFERENCE \<Rightarrow> ''reference'')"

definition action_name :: "db_record \<Rightarrow> string" where
  "action_name r =
     (if dr_record r \<noteq> DB_REFERENCE then ''none''
      else if uint (dr_action r) = use_code USE_READ then ''read''
      else if uint (dr_action r) = use_code USE_WRITE then ''write''
      else if uint (dr_action r) = use_code USE_ADDR then ''address''
      else if uint (dr_action r) = use_code USE_CALL then ''call''
      else ''unknown'')"

definition mode_letter_at :: "u32 \<Rightarrow> u32 \<times> u32 \<Rightarrow> char" where
  "mode_letter_at mode rw =
     (if and mode (fst rw) \<noteq> 0 \<and> and mode (snd rw) \<noteq> 0 then CHR ''m''
      else if and mode (fst rw) \<noteq> 0 then CHR ''r''
      else if and mode (snd rw) \<noteq> 0 then CHR ''w''
      else CHR ''-'')"

definition mode_name :: "u32 \<Rightarrow> string" where
  "mode_name mode =
     map (mode_letter_at mode) [(MODE_R_AOF, MODE_W_AOF), (MODE_R_VAL, MODE_W_VAL), (MODE_R_PTR, MODE_W_PTR)]"

definition id_string :: "u64 \<Rightarrow> string" where
  "id_string i = hex16 i"

definition record_object :: "db_record \<Rightarrow> object" where
  "record_object r =
     [(''variant'', VString (dr_variant r)), (''path'', VString (dr_path r)),
      (''line'', VInt (uint (dr_line r))), (''column'', VInt (uint (dr_column r))),
      (''symbol'', VString (dr_symbol r)), (''kind'', VString (symbol_kind_name (dr_kind r))),
      (''record'', VString (mcp_record_name (dr_record r))), (''action'', VString (action_name r)),
      (''mode'', VString (mode_name (dr_mode r))), (''context'', VString (dr_context r)),
      (''local'', VBool (dr_local r \<noteq> 0))] @
     (if dr_usr_id r \<noteq> 0 then [(''usrId'', VString (id_string (dr_usr_id r)))] else []) @
     (if dr_context_usr_id r \<noteq> 0 then [(''contextUsrId'', VString (id_string (dr_context_usr_id r)))] else [])"

section \<open>Numbers\<close>

definition DEFAULT_LIMIT :: nat where "DEFAULT_LIMIT = 50"
definition MAX_LIMIT :: nat where "MAX_LIMIT = 200"
definition MAX_GRAPH_DEPTH :: nat where "MAX_GRAPH_DEPTH = 16"
definition DEFAULT_GRAPH_NODES :: nat where "DEFAULT_GRAPH_NODES = 50"
definition MAX_GRAPH_NODES :: nat where "MAX_GRAPH_NODES = 200"

text \<open>A bounded number: a default without the key, nothing for a value that is none or out of bounds.\<close>

definition bounded_integer :: "object \<Rightarrow> string \<Rightarrow> nat \<Rightarrow> nat \<Rightarrow> nat option" where
  "bounded_integer ob key standard bound =
     (case get_integer ob key of
        None \<Rightarrow> if get ob key = None then Some standard else None
      | Some v \<Rightarrow> if v < 1 \<or> v > int bound then None else Some (nat v))"

definition parse_limit :: "object option \<Rightarrow> nat option" where
  "parse_limit arguments =
     (case arguments of None \<Rightarrow> Some DEFAULT_LIMIT | Some ob \<Rightarrow> bounded_integer ob ''limit'' DEFAULT_LIMIT MAX_LIMIT)"

definition parse_graph_bounds :: "object option \<Rightarrow> (nat \<times> nat) option" where
  "parse_graph_bounds arguments =
     (case arguments of
        None \<Rightarrow> Some (1, DEFAULT_GRAPH_NODES)
      | Some ob \<Rightarrow>
          (case bounded_integer ob ''depth'' 1 MAX_GRAPH_DEPTH of
             None \<Rightarrow> None
           | Some depth \<Rightarrow>
               map_option (\<lambda>nodes. (depth, nodes)) (bounded_integer ob ''nodeLimit'' DEFAULT_GRAPH_NODES MAX_GRAPH_NODES)))"

definition parse_id :: "string \<Rightarrow> u64 option" where
  "parse_id s = (if s = [] \<or> length s > 16 then None else from_chars16 s)"

section \<open>Cursors\<close>

definition hex_nibble :: "nat \<Rightarrow> char" where
  "hex_nibble n = ''0123456789abcdef'' ! n"

definition encode_hex :: "string \<Rightarrow> string" where
  "encode_hex s = concat (map (\<lambda>c. [hex_nibble (of_char c div 16), hex_nibble (of_char c mod 16)]) s)"

text \<open>Two digits at a time; an odd length is refused before.\<close>

fun decode_pairs :: "string \<Rightarrow> string option" where
  "decode_pairs [] = Some []"
| "decode_pairs [c] = None"
| "decode_pairs (c # d # rest) =
     (case from_chars16 [c, d] of
        None \<Rightarrow> None
      | Some v \<Rightarrow> map_option ((#) (char_of (unat v))) (decode_pairs rest))"

definition decode_hex :: "string \<Rightarrow> string option" where
  "decode_hex s = (if odd (length s) then None else decode_pairs s)"

definition encode_cursor :: "(jvalue \<Rightarrow> string) \<Rightarrow> object \<Rightarrow> string" where
  "encode_cursor print cursor = encode_hex (print (VObject cursor))"

definition decode_cursor :: "(string \<Rightarrow> jvalue option) \<Rightarrow> string \<Rightarrow> object option" where
  "decode_cursor parse encoded = Option.bind (Option.bind (decode_hex encoded) parse) as_object"

definition record_cursor :: "(jvalue \<Rightarrow> string) \<Rightarrow> db_record \<Rightarrow> string" where
  "record_cursor print r =
     encode_cursor print
       [(''variant'', VString (dr_variant r)), (''path'', VString (dr_path r)),
        (''line'', VInt (uint (dr_line r))), (''column'', VInt (uint (dr_column r))),
        (''symbol'', VString (dr_symbol r)), (''record'', VInt (record_type_code (dr_record r))),
        (''action'', VInt (uint (dr_action r))), (''kind'', VInt (dr_kind r)), (''mode'', VInt (uint (dr_mode r)))]"

text \<open>At most \<open>limit\<close> items, whether there were more, and then the cursor of the last one.\<close>

definition page_object ::
  "string \<Rightarrow> ('r \<Rightarrow> jvalue) \<Rightarrow> ('r \<Rightarrow> string) \<Rightarrow> 'r list \<Rightarrow> nat \<Rightarrow> object" where
  "page_object key item cursor records limit =
     (let more = length records > limit; shown = (if more then take limit records else records) in
      [(key, VArray (map item shown)), (''truncated'', VBool more)] @
      (if more \<and> shown \<noteq> [] then [(''nextCursor'', VString (cursor (List.last shown)))] else []))"

definition records_result :: "(jvalue \<Rightarrow> string) \<Rightarrow> db_record list \<Rightarrow> nat \<Rightarrow> object" where
  "records_result print records limit =
     page_object ''records'' (\<lambda>r. VObject (record_object r)) (record_cursor print) records limit"

section \<open>Variants and paths\<close>

definition selected_variant :: "object option \<Rightarrow> string \<Rightarrow> string option" where
  "selected_variant arguments configured =
     (case arguments of
        None \<Rightarrow> Some configured
      | Some ob \<Rightarrow>
          (case get_string ob ''variant'' of
             Some v \<Rightarrow> if configured \<noteq> [] \<and> v \<noteq> configured then None else Some v
           | None \<Rightarrow> if get ob ''variant'' \<noteq> None then None else Some configured))"

definition is_within :: "string \<Rightarrow> string \<Rightarrow> bool" where
  "is_within path root \<longleftrightarrow>
     (let relative = lexically_relative path root
      in relative \<noteq> [] \<and> \<not> is_absolute relative \<and> hd (elements relative) \<noteq> ''..'')"

definition allowed_path :: "(string \<Rightarrow> string option) \<Rightarrow> object option \<Rightarrow> string \<Rightarrow> string option" where
  "allowed_path canonical_path arguments workspace =
     (case Option.bind arguments (\<lambda>ob. get_string ob ''path'') of
        None \<Rightarrow> None
      | Some v \<Rightarrow>
          if v = [] then None
          else (case canonical_path (if is_absolute v then v else path_join workspace v) of
             None \<Rightarrow> None
           | Some resolved \<Rightarrow> if is_within resolved workspace then Some resolved else None))"

end
