(* ===== verification/Mcp_Symbols.thy ===== *)
theory Mcp_Symbols
  imports Mcp_Values Source_Resolver
begin

text \<open>
  The tools of the model context server that look up symbols, \<open>tools/mcp/mcp_symbol_tools.cpp\<close>.

  A call polls whether its request was stopped: the environment answers the polls in their order. It
  also says, for each number of polls so far, what the committed database is and what happens to a
  query that is started then; interrupted queries are among the failed ones.
\<close>

section \<open>The environment of a call\<close>

record mcp_env =
  me_print :: "jvalue \<Rightarrow> string"
  me_parse :: "string \<Rightarrow> jvalue option"
  me_canonical :: "string \<Rightarrow> string option"
  me_sources :: source_env
  me_glob :: "string \<Rightarrow> string \<Rightarrow> bool"
  me_stopped :: "nat \<Rightarrow> bool"
  me_cancelled :: "nat \<Rightarrow> bool"
  me_database :: "nat \<Rightarrow> database"
  me_run :: "nat \<Rightarrow> run"
  me_find_run :: "string \<Rightarrow> run"

definition stopped_result :: "mcp_env \<Rightarrow> nat \<Rightarrow> tool_result" where
  "stopped_result e n =
     (if me_cancelled e n then tool_failure Mcp_Cancelled ''Request cancelled''
      else tool_failure Mcp_DeadlineExceeded ''Request deadline exceeded'')"

section \<open>Collecting rows\<close>

record 'r collection =
  cn_records :: "'r list"
  cn_polls :: nat
  cn_stopped :: bool

definition start_collection :: "nat \<Rightarrow> 'r collection" where
  "start_collection n = \<lparr>cn_records = [], cn_polls = n, cn_stopped = False\<rparr>"

text \<open>The pattern of the callbacks: poll, then store the row and say whether there are enough.\<close>

definition collect_polled :: "mcp_env \<Rightarrow> (nat \<Rightarrow> bool) \<Rightarrow> 'r collection \<Rightarrow> 'r \<Rightarrow> int \<times> 'r collection" where
  "collect_polled e enough c r =
     (if me_stopped e (cn_polls c) then (1, c\<lparr>cn_polls := cn_polls c + 1, cn_stopped := True\<rparr>)
      else (if enough (length (cn_records c) + 1) then 1 else 0,
            c\<lparr>cn_polls := cn_polls c + 1, cn_records := cn_records c @ [r]\<rparr>))"

definition collect_mcp_record :: "mcp_env \<Rightarrow> nat \<Rightarrow> db_record collection \<Rightarrow> db_record \<Rightarrow> int \<times> db_record collection" where
  "collect_mcp_record e limit = collect_polled e (\<lambda>n. n > limit)"

definition collect_symbol_type ::
  "mcp_env \<Rightarrow> db_symbol_type collection \<Rightarrow> db_symbol_type \<Rightarrow> int \<times> db_symbol_type collection" where
  "collect_symbol_type e = collect_polled e (\<lambda>n. False)"

definition collect_function_type ::
  "mcp_env \<Rightarrow> db_function_type collection \<Rightarrow> db_function_type \<Rightarrow> int \<times> db_function_type collection" where
  "collect_function_type e = collect_polled e (\<lambda>n. False)"

text \<open>What every tool does after its query; the poll is skipped when a callback has seen the stop.\<close>

definition after_query :: "mcp_env \<Rightarrow> int \<Rightarrow> 'r collection \<Rightarrow> tool_result \<Rightarrow> tool_result" where
  "after_query e ret c result =
     (if cn_stopped c then stopped_result e (cn_polls c)
      else if me_stopped e (cn_polls c) then stopped_result e (cn_polls c + 1)
      else if ret < 0 then tool_query_failed
      else result)"

section \<open>Cursors\<close>

definition parse_kind :: "string \<Rightarrow> symbol_kind option" where
  "parse_kind s = symbol_kind_parse (c_text s)"

definition UINT_MAX :: int where "UINT_MAX = 2 ^ 32 - 1"
definition INT_MAX :: int where "INT_MAX = 2 ^ 31 - 1"

definition parse_cursor :: "(string \<Rightarrow> jvalue option) \<Rightarrow> string \<Rightarrow> db_cursor option" where
  "parse_cursor parse encoded =
     (case decode_cursor parse encoded of
        None \<Rightarrow> None
      | Some ob \<Rightarrow>
          (case (get_string ob ''variant'', get_string ob ''path'', get_string ob ''symbol'') of
             (Some variant, Some path, Some symbol) \<Rightarrow>
               (case (get_integer ob ''line'', get_integer ob ''column'', get_integer ob ''record'',
                      get_integer ob ''action'', get_integer ob ''kind'', get_integer ob ''mode'') of
                  (Some line, Some column, Some rec, Some action, Some kind, Some mode) \<Rightarrow>
                    if line < 1 \<or> line > UINT_MAX \<or> column < 1 \<or> column > UINT_MAX \<or>
                       rec < record_type_code DB_DECLARATION \<or> rec > record_type_code DB_REFERENCE \<or>
                       action < 0 \<or> action > UINT_MAX \<or>
                       kind < kind_code SYMBOL_VAR \<or> kind > kind_code SYMBOL_TEMPLATE \<or>
                       mode < 0 \<or> mode > UINT_MAX then None
                    else Some \<lparr>cu_variant = Some (c_text variant), cu_path = Some (c_text path),
                        cu_symbol = Some (c_text symbol), cu_record = rec, cu_kind = kind,
                        cu_action = word_of_int action, cu_mode = word_of_int mode,
                        cu_line = word_of_int line, cu_column = word_of_int column\<rparr>
                | _ \<Rightarrow> None)
           | _ \<Rightarrow> None))"

definition type_cursor :: "(jvalue \<Rightarrow> string) \<Rightarrow> db_symbol_type \<Rightarrow> string" where
  "type_cursor print r =
     encode_cursor print
       [(''declaredType'', VString (dt_declared_type r)), (''canonicalType'', VString (dt_canonical_type r)),
        (''typeSymbol'', VString (dt_type_symbol r)), (''typeKind'', VInt (dt_type_kind r)),
        (''typeUsrId'', VString (id_string (dt_type_usr_id r))), (''path'', VString (dt_path r))]"

definition function_type_cursor_text :: "(jvalue \<Rightarrow> string) \<Rightarrow> db_function_type \<Rightarrow> string" where
  "function_type_cursor_text print r =
     encode_cursor print
       [(''position'', VInt (df_position r)),
        (''declaredType'', VString (df_declared_type r)), (''canonicalType'', VString (df_canonical_type r)),
        (''typeSymbol'', VString (df_type_symbol r)), (''typeKind'', VInt (df_type_kind r)),
        (''typeUsrId'', VString (id_string (df_type_usr_id r))), (''path'', VString (df_path r))]"

definition type_kind_ok :: "int \<Rightarrow> bool" where
  "type_kind_ok k \<longleftrightarrow> \<not> (k < - 1 \<or> k > kind_code SYMBOL_TEMPLATE)"

definition parse_type_cursor :: "(string \<Rightarrow> jvalue option) \<Rightarrow> string \<Rightarrow> symbol_type_cursor option" where
  "parse_type_cursor parse encoded =
     (case decode_cursor parse encoded of
        None \<Rightarrow> None
      | Some ob \<Rightarrow>
          (case (get_string ob ''declaredType'', get_string ob ''canonicalType'', get_string ob ''typeSymbol'',
                 get_integer ob ''typeKind'', get_string ob ''typeUsrId'', get_string ob ''path'') of
             (Some declared, Some canon, Some symbol, Some kind, Some usr, Some path) \<Rightarrow>
               (case parse_id usr of
                  None \<Rightarrow> None
                | Some i \<Rightarrow>
                    if \<not> type_kind_ok kind then None
                    else Some \<lparr>tc_declared_type = Some (c_text declared), tc_canonical_type = Some (c_text canon),
                      tc_type_symbol = Some (c_text symbol), tc_type_kind = kind, tc_type_usr_id = i,
                      tc_path = Some (c_text path)\<rparr>)
           | _ \<Rightarrow> None))"

definition parse_function_type_cursor :: "(string \<Rightarrow> jvalue option) \<Rightarrow> string \<Rightarrow> function_type_cursor option" where
  "parse_function_type_cursor parse encoded =
     (case decode_cursor parse encoded of
        None \<Rightarrow> None
      | Some ob \<Rightarrow>
          (case (get_integer ob ''position'', get_string ob ''declaredType'', get_string ob ''canonicalType'',
                 get_string ob ''typeSymbol'', get_integer ob ''typeKind'', get_string ob ''typeUsrId'',
                 get_string ob ''path'') of
             (Some position, Some declared, Some canon, Some symbol, Some kind, Some usr, Some path) \<Rightarrow>
               (case parse_id usr of
                  None \<Rightarrow> None
                | Some i \<Rightarrow>
                    if position < - 1 \<or> position > INT_MAX \<or> \<not> type_kind_ok kind then None
                    else Some \<lparr>fc_position = position, fc_declared_type = Some (c_text declared),
                      fc_canonical_type = Some (c_text canon), fc_type_symbol = Some (c_text symbol),
                      fc_type_kind = kind, fc_type_usr_id = i, fc_path = Some (c_text path)\<rparr>)
           | _ \<Rightarrow> None))"

text \<open>The optional argument \<open>cursor\<close>: \<open>Some None\<close> without one, \<open>None\<close> for one that is not valid.\<close>

definition cursor_argument :: "(string \<Rightarrow> 'c option) \<Rightarrow> object \<Rightarrow> 'c option option" where
  "cursor_argument parse ob =
     (case get_string ob ''cursor'' of
        Some v \<Rightarrow> map_option Some (parse v)
      | None \<Rightarrow> if get ob ''cursor'' \<noteq> None then None else Some None)"

section \<open>Results\<close>

definition type_identity :: "bool \<Rightarrow> string \<Rightarrow> string \<Rightarrow> int \<Rightarrow> u64 \<Rightarrow> object" where
  "type_identity has variant symbol kind usr =
     (if has then [(''typeIdentity'', VObject [(''variant'', VString variant), (''symbol'', VString symbol),
        (''kind'', VString (symbol_kind_name kind)), (''usrId'', VString (id_string usr))])] else [])"

definition symbol_type_object :: "db_symbol_type \<Rightarrow> object" where
  "symbol_type_object r =
     [(''variant'', VString (dt_variant r)), (''path'', VString (dt_path r)), (''symbol'', VString (dt_symbol r)),
      (''kind'', VString (symbol_kind_name (dt_kind r))), (''usrId'', VString (id_string (dt_usr_id r))),
      (''declaredType'', VString (dt_declared_type r)), (''canonicalType'', VString (dt_canonical_type r))] @
     type_identity (dt_has_type_identity r) (dt_variant r) (dt_type_symbol r) (dt_type_kind r) (dt_type_usr_id r)"

definition symbol_types_result :: "(jvalue \<Rightarrow> string) \<Rightarrow> db_symbol_type list \<Rightarrow> nat \<Rightarrow> object" where
  "symbol_types_result print records limit =
     page_object ''types'' (\<lambda>r. VObject (symbol_type_object r)) (type_cursor print) records limit"

definition function_type_object :: "db_function_type \<Rightarrow> object" where
  "function_type_object r =
     [(''variant'', VString (df_variant r)), (''path'', VString (df_path r)), (''symbol'', VString (df_symbol r)),
      (''usrId'', VString (id_string (df_usr_id r))), (''position'', VInt (df_position r)),
      (''name'', VString (df_name r)), (''declaredType'', VString (df_declared_type r)),
      (''canonicalType'', VString (df_canonical_type r)), (''variadic'', VBool (df_variadic r \<noteq> 0))] @
     type_identity (df_has_type_identity r) (df_variant r) (df_type_symbol r) (df_type_kind r) (df_type_usr_id r)"

definition function_types_result :: "(jvalue \<Rightarrow> string) \<Rightarrow> db_function_type list \<Rightarrow> nat \<Rightarrow> object" where
  "function_types_result print records limit =
     page_object ''types'' (\<lambda>r. VObject (function_type_object r)) (function_type_cursor_text print) records limit"

section \<open>The tools\<close>

text \<open>The optional argument \<open>kind\<close> of a search, as the cursor above.\<close>

definition kind_argument :: "object \<Rightarrow> symbol_kind option option" where
  "kind_argument ob =
     (case get_string ob ''kind'' of
        Some v \<Rightarrow> map_option Some (parse_kind v)
      | None \<Rightarrow> if get ob ''kind'' \<noteq> None then None else Some None)"

definition mcp_search_options :: "string \<Rightarrow> string \<Rightarrow> db_cursor option \<Rightarrow> symbol_kind option \<Rightarrow> nat \<Rightarrow> query_options" where
  "mcp_search_options pattern selected after kind limit =
     default_options\<lparr>q_symbol := Some (c_text pattern),
       q_variant := (if selected = [] then None else Some (c_text selected)), q_after := after, q_limit := limit + 1,
       q_kind := (case kind of None \<Rightarrow> 0 | Some k \<Rightarrow> kind_code k), q_has_kind := (kind \<noteq> None)\<rparr>"

definition run_query :: "mcp_env \<Rightarrow> query_options \<Rightarrow> nat \<Rightarrow> nat \<Rightarrow> int \<times> db_record collection" where
  "run_query e opts limit n =
     db_query (me_glob e) (me_run e n) (me_database e n) (Some opts) (collect_mcp_record e limit) (start_collection n)"

definition search_symbols :: "mcp_env \<Rightarrow> object option \<Rightarrow> string \<Rightarrow> nat \<Rightarrow> tool_result" where
  "search_symbols e arguments configured n =
     (case arguments of
        None \<Rightarrow> invalid_arguments ''Arguments are required''
      | Some ob \<Rightarrow>
          (case (get_string ob ''pattern'', selected_variant arguments configured, parse_limit arguments) of
             (Some pattern, Some selected, Some limit) \<Rightarrow>
               if pattern = [] then invalid_arguments ''Invalid search arguments''
               else (case cursor_argument (parse_cursor (me_parse e)) ob of
                  None \<Rightarrow> invalid_arguments ''Invalid cursor''
                | Some after \<Rightarrow>
                    (case kind_argument ob of
                       None \<Rightarrow> invalid_arguments ''Invalid symbol kind''
                     | Some kind \<Rightarrow>
                         (case run_query e (mcp_search_options pattern selected after kind limit) limit n of (ret, c) \<Rightarrow>
                            after_query e ret c (tool_success (records_result (me_print e) (cn_records c) limit)))))
           | _ \<Rightarrow> invalid_arguments ''Invalid search arguments''))"

text \<open>The one tool without pages: the records at a position, at most \<open>MAX_LIMIT\<close>.\<close>

definition symbol_at :: "mcp_env \<Rightarrow> object option \<Rightarrow> string \<Rightarrow> string \<Rightarrow> nat \<Rightarrow> tool_result" where
  "symbol_at e arguments workspace configured n =
     (case (allowed_path (me_canonical e) arguments workspace, selected_variant arguments configured, arguments) of
        (Some path, Some selected, Some ob) \<Rightarrow>
          (case (get_integer ob ''line'', get_integer ob ''column'') of
             (Some line, Some column) \<Rightarrow>
               if line < 1 \<or> column < 1 \<or> line > UINT_MAX \<or> column > UINT_MAX
               then invalid_arguments ''Invalid source position''
               else (case set_workspace_root [] workspace of
                  (False, root) \<Rightarrow> invalid_arguments ''Invalid workspace''
                | (True, root) \<Rightarrow>
                    if me_stopped e n then stopped_result e (n + 1)
                    else (case records_at (me_find_run e) (Some (me_database e (n + 1))) (me_sources e) root
                        \<lparr>pq_path = path, pq_variant = selected, pq_line = word_of_int line,
                         pq_column = word_of_int column, pq_overlay = None\<rparr> of
                      (ret, records) \<Rightarrow>
                        if ret < 0
                        then (if me_stopped e (n + 1) then stopped_result e (n + 2) else tool_query_failed)
                        else tool_success (records_result (me_print e) records MAX_LIMIT)))
           | _ \<Rightarrow> invalid_arguments ''Invalid source position'')
      | _ \<Rightarrow> invalid_arguments ''Invalid source path or variant'')"

definition related_options ::
  "object \<Rightarrow> string \<Rightarrow> string \<Rightarrow> db_cursor option \<Rightarrow> nat \<Rightarrow> int \<Rightarrow> query_options" where
  "related_options ob symbol selected after limit flt =
     default_options\<lparr>q_symbol := Some (c_text symbol), q_variant := Some (c_text selected), q_after := after,
       q_limit := limit + 1, q_record := flt,
       q_context := map_option c_text (get_string ob ''context''),
       q_local := (case get_boolean ob ''local'' of Some b \<Rightarrow> (if b then 1 else 0) | None \<Rightarrow> 0),
       q_has_local := (get_boolean ob ''local'' \<noteq> None)\<rparr>"

definition stable_identity :: "string \<Rightarrow> string \<Rightarrow> symbol_kind \<Rightarrow> u64 \<Rightarrow> identity" where
  "stable_identity selected symbol kind usr = identity_view (c_text selected, c_text symbol, kind_code kind, usr)"

text \<open>With a stable identity the query is for that, else for the name in its variant.\<close>

definition related_records :: "mcp_env \<Rightarrow> object option \<Rightarrow> string \<Rightarrow> int \<Rightarrow> nat \<Rightarrow> tool_result" where
  "related_records e arguments configured flt n =
     (case arguments of
        None \<Rightarrow> invalid_arguments ''Arguments are required''
      | Some ob \<Rightarrow>
          (case (get_string ob ''symbol'', selected_variant arguments configured, parse_limit arguments) of
             (Some symbol, Some selected, Some limit) \<Rightarrow>
               if symbol = [] \<or> selected = [] then invalid_arguments ''Invalid symbol identity''
               else (case cursor_argument (parse_cursor (me_parse e)) ob of
                  None \<Rightarrow> invalid_arguments ''Invalid cursor''
                | Some after \<Rightarrow>
                    (case get_string ob ''usrId'' of
                       Some usr \<Rightarrow>
                         (case (parse_id usr, Option.bind (get_string ob ''kind'') parse_kind) of
                            (Some i, Some kind) \<Rightarrow>
                              if i = 0 then invalid_arguments ''Invalid stable identity''
                              else (case db_query_identity (me_glob e) (me_run e n) (me_database e n)
                                  (Some (stable_identity selected symbol kind i)) after (limit + 1) flt
                                  (collect_mcp_record e limit) (start_collection n) of (ret, c) \<Rightarrow>
                                after_query e ret c (tool_success (records_result (me_print e) (cn_records c) limit)))
                          | _ \<Rightarrow> invalid_arguments ''Invalid stable identity'')
                     | None \<Rightarrow>
                         (case run_query e (related_options ob symbol selected after limit flt) limit n of (ret, c) \<Rightarrow>
                            after_query e ret c (tool_success (records_result (me_print e) (cn_records c) limit)))))
           | _ \<Rightarrow> invalid_arguments ''Invalid symbol identity''))"

definition declared_types :: "mcp_env \<Rightarrow> object option \<Rightarrow> string \<Rightarrow> nat \<Rightarrow> tool_result" where
  "declared_types e arguments configured n =
     (case arguments of
        None \<Rightarrow> invalid_arguments ''Arguments are required''
      | Some ob \<Rightarrow>
          (case (get_string ob ''symbol'', get_string ob ''usrId'', get_string ob ''kind'',
                 selected_variant arguments configured) of
             (Some symbol, Some usr, Some kind_text, Some selected) \<Rightarrow>
               if symbol = [] \<or> selected = [] then invalid_arguments ''Invalid symbol identity''
               else (case parse_limit arguments of
                  None \<Rightarrow> invalid_arguments ''Invalid limit''
                | Some limit \<Rightarrow>
                    (case (parse_id usr, parse_kind kind_text) of
                       (Some i, Some kind) \<Rightarrow>
                         if i = 0 then invalid_arguments ''Invalid symbol identity''
                         else (case cursor_argument (parse_type_cursor (me_parse e)) ob of
                            None \<Rightarrow> invalid_arguments ''Invalid cursor''
                          | Some after \<Rightarrow>
                              (case db_query_symbol_types (me_run e n) (me_database e n)
                                  (Some (stable_identity selected symbol kind i)) after (limit + 1)
                                  (collect_symbol_type e) (start_collection n) of (ret, c) \<Rightarrow>
                                after_query e ret c (tool_success (symbol_types_result (me_print e) (cn_records c) limit))))
                     | _ \<Rightarrow> invalid_arguments ''Invalid symbol identity''))
           | _ \<Rightarrow> invalid_arguments ''Invalid symbol identity''))"

definition function_signature :: "mcp_env \<Rightarrow> object option \<Rightarrow> string \<Rightarrow> nat \<Rightarrow> tool_result" where
  "function_signature e arguments configured n =
     (case arguments of
        None \<Rightarrow> invalid_arguments ''Arguments are required''
      | Some ob \<Rightarrow>
          (case (get_string ob ''symbol'', get_string ob ''usrId'', selected_variant arguments configured) of
             (Some symbol, Some usr, Some selected) \<Rightarrow>
               if symbol = [] \<or> selected = [] then invalid_arguments ''Invalid function identity''
               else (case parse_limit arguments of
                  None \<Rightarrow> invalid_arguments ''Invalid limit''
                | Some limit \<Rightarrow>
                    (case parse_id usr of
                       None \<Rightarrow> invalid_arguments ''Invalid function identity''
                     | Some i \<Rightarrow>
                         if i = 0 then invalid_arguments ''Invalid function identity''
                         else (case cursor_argument (parse_function_type_cursor (me_parse e)) ob of
                            None \<Rightarrow> invalid_arguments ''Invalid cursor''
                          | Some after \<Rightarrow>
                              (case db_query_function_types (me_run e n) (me_database e n)
                                  (Some (stable_identity selected symbol SYMBOL_FUNCTION i)) after (limit + 1)
                                  (collect_function_type e) (start_collection n) of (ret, c) \<Rightarrow>
                                after_query e ret c (tool_success (function_types_result (me_print e) (cn_records c) limit))))))
           | _ \<Rightarrow> invalid_arguments ''Invalid function identity''))"

end
