(* ===== verification/Mcp_Graph.thy ===== *)
theory Mcp_Graph
  imports Mcp_Symbols
begin

text \<open>
  The call graph tools of the model context server, \<open>tools/mcp/mcp_callgraph_tools.cpp\<close>: one level of
  calls in pages, and a bounded search in breadth for more levels.
\<close>

section \<open>One level\<close>

record call_collection =
  cc_calls :: "db_record collection"
  cc_after_seen :: bool

text \<open>The rows up to the one with the cursor are skipped.\<close>

definition collect_call_record ::
  "mcp_env \<Rightarrow> nat \<Rightarrow> string \<Rightarrow> call_collection \<Rightarrow> db_record \<Rightarrow> int \<times> call_collection" where
  "collect_call_record e limit after c r =
     (let cs = cc_calls c in
      if me_stopped e (cn_polls cs)
      then (1, c\<lparr>cc_calls := cs\<lparr>cn_polls := cn_polls cs + 1, cn_stopped := True\<rparr>\<rparr>)
      else if \<not> cc_after_seen c
      then (0, c\<lparr>cc_calls := cs\<lparr>cn_polls := cn_polls cs + 1\<rparr>, cc_after_seen := (record_cursor (me_print e) r = after)\<rparr>)
      else case collect_polled e (\<lambda>n. n > limit) cs r of (ret, cs1) \<Rightarrow> (ret, c\<lparr>cc_calls := cs1\<rparr>))"

definition one_level ::
  "mcp_env \<Rightarrow> string \<Rightarrow> string \<Rightarrow> u64 \<Rightarrow> call_direction \<Rightarrow> nat \<Rightarrow> string \<Rightarrow> nat \<Rightarrow> tool_result" where
  "one_level e selected symbol usr dir limit after n =
     (case db_query_calls (me_run e n) (me_database e n) (Some (c_text symbol)) usr (Some (c_text selected)) dir
          (collect_call_record e limit after) \<lparr>cc_calls = start_collection n, cc_after_seen = (after = [])\<rparr> of
        (ret, c) \<Rightarrow>
          after_query e ret (cc_calls c)
            (if \<not> cc_after_seen c then invalid_arguments ''Cursor does not match this query''
             else tool_success (records_result (me_print e) (cn_records (cc_calls c)) limit)))"

section \<open>The search\<close>

record graph_function =
  gf_identity :: symbol_identity
  gf_depth :: nat
  gf_ancestors :: "symbol_identity list"

record call_graph =
  gr_pending :: "graph_function list"
  gr_visited :: "symbol_identity list"
  gr_records :: "(db_record \<times> nat) list"
  gr_node_limit_hit :: bool
  gr_cycles :: bool

definition collect_graph_record ::
  "mcp_env \<Rightarrow> nat \<Rightarrow> db_record collection \<Rightarrow> db_record \<Rightarrow> int \<times> db_record collection" where
  "collect_graph_record e limit = collect_polled e (\<lambda>n. n \<ge> limit)"

text \<open>The function at the other end of a call.\<close>

definition call_neighbour :: "call_direction \<Rightarrow> db_record \<Rightarrow> symbol_identity" where
  "call_neighbour dir r =
     (case dir of
        DB_CALLERS \<Rightarrow> (dr_variant r, dr_context r, kind_code SYMBOL_FUNCTION, dr_context_usr_id r)
      | DB_CALLEES \<Rightarrow> (dr_variant r, dr_symbol r, kind_code SYMBOL_FUNCTION, dr_usr_id r))"

definition visit_function :: "graph_function \<Rightarrow> symbol_identity \<Rightarrow> call_graph \<Rightarrow> call_graph" where
  "visit_function f next g =
     g\<lparr>gr_visited := gr_visited g @ [next],
       gr_pending := gr_pending g @
         [\<lparr>gf_identity = next, gf_depth = gf_depth f + 1, gf_ancestors = next # gf_ancestors f\<rparr>]\<rparr>"

text \<open>One call: what it makes of the graph, or nothing where the limit on functions forbids it.\<close>

definition graph_call :: "call_direction \<Rightarrow> nat \<Rightarrow> graph_function \<Rightarrow> db_record \<Rightarrow> call_graph \<Rightarrow> call_graph option" where
  "graph_call dir node_limit f r g =
     (let next = call_neighbour dir r in
      if next \<in> set (gf_ancestors f) then Some (g\<lparr>gr_cycles := True\<rparr>)
      else if next \<in> set (gr_visited g) then Some g
      else if length (gr_visited g) \<ge> node_limit then None
      else Some (visit_function f next g))"

fun graph_calls ::
  "call_direction \<Rightarrow> nat \<Rightarrow> nat \<Rightarrow> graph_function \<Rightarrow> db_record list \<Rightarrow> call_graph \<Rightarrow> call_graph" where
  "graph_calls dir limit node_limit f [] g = g"
| "graph_calls dir limit node_limit f (r # rs) g =
     (case graph_call dir node_limit f r g of
        None \<Rightarrow> graph_calls dir limit node_limit f rs (g\<lparr>gr_node_limit_hit := True\<rparr>)
      | Some g1 \<Rightarrow>
          let g2 = g1\<lparr>gr_records := gr_records g1 @ [(r, gf_depth f + 1)]\<rparr>
          in if length (gr_records g2) > limit then g2 else graph_calls dir limit node_limit f rs g2)"

text \<open>The calls of one function, as many as there is room for, and the number of polls.\<close>

definition graph_query ::
  "mcp_env \<Rightarrow> call_direction \<Rightarrow> symbol_identity \<Rightarrow> nat \<Rightarrow> nat \<Rightarrow> tool_result + (db_record list \<times> nat)" where
  "graph_query e dir i remaining n =
     (case i of (variant, symbol, kind, usr) \<Rightarrow>
      case db_query_calls (me_run e n) (me_database e n) (Some (c_text symbol)) usr (Some (c_text variant)) dir
          (collect_graph_record e remaining) (start_collection n) of
        (ret, c) \<Rightarrow>
          if cn_stopped c then Inl (stopped_result e (cn_polls c))
          else if me_stopped e (cn_polls c) then Inl (stopped_result e (cn_polls c + 1))
          else if ret < 0 then Inl tool_query_failed
          else Inr (cn_records c, cn_polls c + 1))"

text \<open>Every call that is taken up makes room for one function less: the measure of the loop.\<close>

definition graph_measure :: "nat \<Rightarrow> call_graph \<Rightarrow> nat" where
  "graph_measure node_limit g = 2 * (node_limit - length (gr_visited g)) + length (gr_pending g)"

lemma graph_call_measure:
  "graph_call dir node_limit f r g = Some g1 \<Longrightarrow> graph_measure node_limit g1 \<le> graph_measure node_limit g"
  by (auto simp: graph_call_def visit_function_def graph_measure_def Let_def split: if_splits)

lemma graph_measure_cong [simp]:
  "graph_measure node_limit (g\<lparr>gr_records := rs\<rparr>) = graph_measure node_limit g"
  "graph_measure node_limit (g\<lparr>gr_node_limit_hit := b\<rparr>) = graph_measure node_limit g"
  by (simp_all add: graph_measure_def)

lemma graph_calls_measure:
  "graph_measure node_limit (graph_calls dir limit node_limit f rs g) \<le> graph_measure node_limit g"
proof (induction rs arbitrary: g)
  case (Cons r rs)
  show ?case
  proof (cases "graph_call dir node_limit f r g")
    case None
    with Cons.IH [of "g\<lparr>gr_node_limit_hit := True\<rparr>"] show ?thesis by simp
  next
    case (Some g1)
    with Cons.IH [of "g1\<lparr>gr_records := gr_records g1 @ [(r, gf_depth f + 1)]\<rparr>"] graph_call_measure [OF Some]
    show ?thesis by (auto simp: Let_def)
  qed
qed simp

lemma graph_pop_measure:
  "gr_pending g = f # pending \<Longrightarrow> graph_measure node_limit (g\<lparr>gr_pending := pending\<rparr>) < graph_measure node_limit g"
  by (simp add: graph_measure_def)

function graph_loop ::
  "mcp_env \<Rightarrow> call_direction \<Rightarrow> nat \<Rightarrow> nat \<Rightarrow> nat \<Rightarrow> nat \<Rightarrow> call_graph \<Rightarrow> tool_result + call_graph" where
  "graph_loop e dir depth limit node_limit n g =
     (case gr_pending g of
        [] \<Rightarrow> Inr g
      | f # pending \<Rightarrow>
          if length (gr_records g) > limit then Inr g
          else let g1 = g\<lparr>gr_pending := pending\<rparr> in
            if gf_depth f \<ge> depth then graph_loop e dir depth limit node_limit n g1
            else (case graph_query e dir (gf_identity f) (limit + 1 - length (gr_records g)) n of
              Inl failure \<Rightarrow> Inl failure
            | Inr (rs, n1) \<Rightarrow>
                graph_loop e dir depth limit node_limit n1 (graph_calls dir limit node_limit f rs g1)))"
  by pat_completeness auto
termination
  by (relation "measure (\<lambda>(e, dir, depth, limit, node_limit, n, g). graph_measure node_limit g)")
    (auto dest: graph_pop_measure intro: le_less_trans [OF graph_calls_measure])

declare graph_loop.simps [simp del]

definition graph_record_object :: "db_record \<times> nat \<Rightarrow> object" where
  "graph_record_object rd = record_object (fst rd) @ [(''depth'', VInt (int (snd rd)))]"

definition graph_result :: "call_graph \<Rightarrow> nat \<Rightarrow> object" where
  "graph_result g limit =
     (let more = length (gr_records g) > limit; shown = (if more then take limit (gr_records g) else gr_records g) in
      [(''records'', VArray (map (\<lambda>rd. VObject (graph_record_object rd)) shown)),
       (''truncated'', VBool (more \<or> gr_node_limit_hit g)), (''nodeLimitHit'', VBool (gr_node_limit_hit g)),
       (''cyclesDetected'', VBool (gr_cycles g))])"

definition start_graph :: "symbol_identity \<Rightarrow> call_graph" where
  "start_graph i =
     \<lparr>gr_pending = [\<lparr>gf_identity = i, gf_depth = 0, gf_ancestors = [i]\<rparr>], gr_visited = [i], gr_records = [],
      gr_node_limit_hit = False, gr_cycles = False\<rparr>"

definition many_levels ::
  "mcp_env \<Rightarrow> symbol_identity \<Rightarrow> call_direction \<Rightarrow> nat \<Rightarrow> nat \<Rightarrow> nat \<Rightarrow> nat \<Rightarrow> tool_result" where
  "many_levels e i dir depth limit node_limit n =
     (case graph_loop e dir depth limit node_limit n (start_graph i) of
        Inl failure \<Rightarrow> failure
      | Inr g \<Rightarrow> tool_success (graph_result g limit))"

section \<open>The tool\<close>

definition call_records ::
  "mcp_env \<Rightarrow> object option \<Rightarrow> string \<Rightarrow> call_direction \<Rightarrow> nat \<Rightarrow> tool_result" where
  "call_records e arguments configured dir n =
     (case arguments of
        None \<Rightarrow> invalid_arguments ''Arguments are required''
      | Some ob \<Rightarrow>
          (case (get_string ob ''symbol'', get_string ob ''usrId'', selected_variant arguments configured) of
             (Some symbol, Some usr, Some selected) \<Rightarrow>
               if symbol = [] \<or> selected = [] then invalid_arguments ''Invalid function identity''
               else (case (parse_limit arguments, parse_graph_bounds arguments, parse_id usr) of
                  (Some limit, Some (depth, node_limit), Some i) \<Rightarrow>
                    if i = 0 then invalid_arguments ''Invalid function identity''
                    else if depth > 1
                    then (if get ob ''cursor'' \<noteq> None
                          then invalid_arguments ''Recursive call queries do not accept a cursor''
                          else many_levels e (selected, symbol, kind_code SYMBOL_FUNCTION, i) dir depth limit node_limit n)
                    else (case cursor_argument Some ob of
                       None \<Rightarrow> invalid_arguments ''Invalid cursor''
                     | Some after \<Rightarrow> one_level e selected symbol i dir limit (or_empty after) n)
                | _ \<Rightarrow> invalid_arguments ''Invalid function identity'')
           | _ \<Rightarrow> invalid_arguments ''Invalid function identity''))"

end
