(* ===== verification/Mcp_Tools.thy ===== *)
theory Mcp_Tools
  imports Mcp_Graph Index_Update
begin

text \<open>
  The tools of the model context server that read sources and update the index,
  \<open>tools/mcp/mcp_source_tools.cpp\<close>, and the service that selects the tool of a call, \<open>McpToolService\<close>
  of \<open>tools/mcp/mcp_tools.cpp\<close>.
\<close>

section \<open>Variants\<close>

definition DEFAULT_CONTEXT_LINES :: nat where "DEFAULT_CONTEXT_LINES = 20"
definition MAX_CONTEXT_LINES :: nat where "MAX_CONTEXT_LINES = 200"
definition DEFAULT_CONTEXT_BYTES :: nat where "DEFAULT_CONTEXT_BYTES = 16 * 1024"
definition MAX_CONTEXT_BYTES :: nat where "MAX_CONTEXT_BYTES = 64 * 1024"

definition collect_variant ::
  "mcp_env \<Rightarrow> string \<Rightarrow> string \<Rightarrow> nat \<Rightarrow> variant_row collection \<Rightarrow> variant_row \<Rightarrow> int \<times> variant_row collection" where
  "collect_variant e selected after limit c v =
     (if me_stopped e (cn_polls c) then (1, c\<lparr>cn_polls := cn_polls c + 1, cn_stopped := True\<rparr>)
      else if after \<noteq> [] \<and> v_name v \<le> after then (0, c\<lparr>cn_polls := cn_polls c + 1\<rparr>)
      else if selected \<noteq> [] \<and> selected \<noteq> v_name v then (0, c\<lparr>cn_polls := cn_polls c + 1\<rparr>)
      else collect_polled e (\<lambda>n. n > limit) c v)"

definition optional_text :: "string \<Rightarrow> string option \<Rightarrow> object" where
  "optional_text key text1 = (if or_empty text1 = [] then [] else [(key, VString (or_empty text1))])"

definition variant_object :: "variant_row \<Rightarrow> object" where
  "variant_object v =
     (''name'', VString (v_name v)) # optional_text ''repositoryRoot'' (v_repository_root v) @
     optional_text ''gitCommit'' (v_git_commit v)"

definition list_variants :: "mcp_env \<Rightarrow> object option \<Rightarrow> string \<Rightarrow> nat \<Rightarrow> tool_result" where
  "list_variants e arguments configured n =
     (case parse_limit arguments of
        None \<Rightarrow> invalid_arguments ''Invalid limit''
      | Some limit \<Rightarrow>
          (case (case arguments of None \<Rightarrow> Some None | Some ob \<Rightarrow> cursor_argument Some ob) of
             None \<Rightarrow> invalid_arguments ''Invalid cursor''
           | Some after \<Rightarrow>
               (case db_list_variants (me_run e n) (me_database e n)
                   (collect_variant e configured (or_empty after) limit) (start_collection n) of (ret, c) \<Rightarrow>
                 after_query e ret c
                   (tool_success (page_object ''variants'' (\<lambda>v. VObject (variant_object v)) v_name (cn_records c) limit)))))"

section \<open>Sources\<close>

definition source_status_name :: "source_status \<Rightarrow> string" where
  "source_status_name st =
     (case st of Current \<Rightarrow> ''current'' | NotIndexed \<Rightarrow> ''not-indexed'' | Missing \<Rightarrow> ''missing'' | Drifted \<Rightarrow> ''drifted'')"

definition source_origin_name :: "source_origin \<Rightarrow> string" where
  "source_origin_name origin =
     (case origin of Origin_None \<Rightarrow> ''none'' | WorkingTree \<Rightarrow> ''working-tree'' | GitCommit \<Rightarrow> ''git-commit'')"

definition diagnostic_severity_name :: "severity \<Rightarrow> string" where
  "diagnostic_severity_name s =
     (case s of DIAGNOSTIC_NOTE \<Rightarrow> ''note'' | DIAGNOSTIC_WARNING \<Rightarrow> ''warning'' | DIAGNOSTIC_ERROR \<Rightarrow> ''error'')"

definition update_status_name :: "update_status \<Rightarrow> string" where
  "update_status_name st = (case st of Update_Clean \<Rightarrow> ''clean'' | Update_Partial \<Rightarrow> ''partial'' | Update_Failed \<Rightarrow> ''failed'')"

text \<open>A number of the request; one that is no integer counts as absent.\<close>

definition optional_integer :: "object \<Rightarrow> string \<Rightarrow> int \<Rightarrow> int \<Rightarrow> int option" where
  "optional_integer ob key standard bound =
     (case get_integer ob key of None \<Rightarrow> Some standard | Some v \<Rightarrow> if v < 1 \<or> v > bound then None else Some v)"

text \<open>What the tools need of the rest of the system.\<close>

record 'h mcp_system =
  my_loader :: loader
  my_git :: "'h git_lib"
  my_pipeline :: pipeline_env
  my_exists :: "string \<Rightarrow> path_check"
  my_frontend :: "pipeline_request \<Rightarrow> frontend \<times> diagnostic list"

record mcp_world =
  mw_git :: git_state
  mw_pipeline :: pipeline_world

text \<open>The candidates for the path in the database, up to the first that is indexed or fails.\<close>

fun read_candidates ::
  "'h mcp_system \<Rightarrow> source_env \<Rightarrow> string \<Rightarrow> source_request \<Rightarrow> string list \<Rightarrow> int \<Rightarrow> source_result \<Rightarrow> git_state
     \<Rightarrow> int \<times> source_result \<times> string \<times> git_state" where
  "read_candidates y e root q [] ret res g = (ret, res, [], g)"
| "read_candidates y e root q (c # cs) ret res g =
     (case read_source e (my_loader y) (my_git y) root (q\<lparr>sq_path := c\<rparr>) g of (ret1, res1, g1) \<Rightarrow>
        if ret1 < 0 \<or> sr_status res1 \<noteq> NotIndexed then (ret1, res1, c, g1)
        else read_candidates y e root q cs ret1 res1 g1)"

definition source_bounds :: "object \<Rightarrow> bool \<Rightarrow> string + int \<times> int \<times> int" where
  "source_bounds ob include_source =
     (case optional_integer ob ''firstLine'' 1 UINT_MAX of
        None \<Rightarrow> Inl ''Invalid first line''
      | Some first_line \<Rightarrow>
          if \<not> include_source then Inr (first_line, 1, 1)
          else (case optional_integer ob ''lineCount'' (int DEFAULT_CONTEXT_LINES) (int MAX_CONTEXT_LINES) of
             None \<Rightarrow> Inl ''Invalid line count''
           | Some line_count \<Rightarrow>
               (case optional_integer ob ''byteLimit'' (int DEFAULT_CONTEXT_BYTES) (int MAX_CONTEXT_BYTES) of
                  None \<Rightarrow> Inl ''Invalid byte limit''
                | Some byte_limit \<Rightarrow> Inr (first_line, line_count, byte_limit))))"

definition source_object :: "string \<Rightarrow> string \<Rightarrow> source_result \<Rightarrow> bool \<Rightarrow> object" where
  "source_object variant path res include_source =
     [(''variant'', VString variant), (''path'', VString path),
      (''status'', VString (source_status_name (sr_status res))),
      (''origin'', VString (source_origin_name (sr_origin res))), (''drifted'', VBool (sr_drifted res))] @
     (if include_source
      then [(''firstLine'', VInt (uint (sr_first_line res))), (''lines'', VArray (map VString (sr_lines res))),
        (''byteLimitHit'', VBool (sr_byte_limit_hit res))]
      else [])"

text \<open>\<open>sourceRequest\<close>; the number of polls goes on behind the result.\<close>

definition read_source_context ::
  "'h mcp_system \<Rightarrow> mcp_env \<Rightarrow> object option \<Rightarrow> string \<Rightarrow> string \<Rightarrow> bool \<Rightarrow> nat \<Rightarrow> git_state \<Rightarrow> tool_result \<times> git_state" where
  "read_source_context y e arguments workspace configured include_source n g =
     (case (allowed_path (me_canonical e) arguments workspace, selected_variant arguments configured, arguments) of
        (Some path, Some selected, Some ob) \<Rightarrow>
          if selected = [] then (invalid_arguments ''Invalid source path or variant'', g)
          else (case source_bounds ob include_source of
             Inl message \<Rightarrow> (invalid_arguments message, g)
           | Inr (first_line, line_count, byte_limit) \<Rightarrow>
               if me_stopped e n then (stopped_result e (n + 1), g)
               else (case set_workspace_root [] workspace of
                  (False, root) \<Rightarrow> (invalid_arguments ''Invalid workspace'', g)
                | (True, root) \<Rightarrow>
                    (case read_candidates y (me_sources e) root
                        \<lparr>sq_database = Some (me_database e (n + 1)), sq_variant = selected, sq_path = [],
                         sq_first_line = word_of_int first_line, sq_line_count = word_of_int line_count,
                         sq_byte_limit = nat byte_limit\<rparr>
                        (database_paths (me_sources e) root path) (- 1) new_result g of
                      (ret, res, indexed_path, g1) \<Rightarrow>
                        if me_stopped e (n + 1) then (stopped_result e (n + 2), g1)
                        else if ret < 0 then (tool_failure Mcp_DatabaseError ''Source lookup failed'', g1)
                        else (tool_success (source_object selected (if indexed_path = [] then path else indexed_path)
                                res include_source), g1))))
      | _ \<Rightarrow> (invalid_arguments ''Invalid source path or variant'', g))"

definition mcp_index_status ::
  "'h mcp_system \<Rightarrow> mcp_env \<Rightarrow> updater \<Rightarrow> object option \<Rightarrow> string \<Rightarrow> string \<Rightarrow> nat \<Rightarrow> mcp_world \<Rightarrow> tool_result \<times> mcp_world" where
  "mcp_index_status y e u arguments workspace configured n w =
     (case (allowed_path (me_canonical e) arguments workspace, selected_variant arguments configured) of
        (Some path, Some selected) \<Rightarrow>
          if selected = [] then (invalid_arguments ''Invalid source path or variant'', w)
          else (case read_source_context y e arguments workspace configured False n (mw_git w) of (result, g) \<Rightarrow>
            let w1 = w\<lparr>mw_git := g\<rparr> in
            if tl_status result \<noteq> Mcp_Success then (result, w1)
            else (case command_available (pe_commands (my_pipeline y)) (my_exists y) (ud_resolver u) path selected
                (pw_commands (mw_pipeline w1)) of (available, s) \<Rightarrow>
              let w2 = w1\<lparr>mw_pipeline := (mw_pipeline w1)\<lparr>pw_commands := s\<rparr>\<rparr> in
              if available < 0 then (tool_failure Mcp_DatabaseError ''Compiler command lookup failed'', w2)
              else (result\<lparr>tl_data := tl_data result @ [(''compilerCommandAvailable'', VBool (available = 0))]\<rparr>, w2)))
      | _ \<Rightarrow> (invalid_arguments ''Invalid source path or variant'', w))"

definition diagnostic_object :: "diagnostic \<Rightarrow> object" where
  "diagnostic_object d =
     [(''severity'', VString (diagnostic_severity_name (dg_severity d))), (''message'', VString (dg_message d)),
      (''path'', VString (dg_file d)), (''line'', VInt (uint (dg_line d))), (''column'', VInt (uint (dg_column d)))]"

definition update_object :: "string \<Rightarrow> string \<Rightarrow> update_result \<Rightarrow> object" where
  "update_object variant path res =
     [(''variant'', VString variant), (''path'', VString path),
      (''status'', VString (update_status_name (up_status res))),
      (''compilerCommandAvailable'', VBool (up_command_available res)),
      (''diagnostics'', VArray (map (\<lambda>d. VObject (diagnostic_object d)) (up_diagnostics res))),
      (''diagnosticsTruncated'', VBool (up_truncated res))] @
     (if up_error res \<noteq> [] then [(''error'', VString (up_error res))] else [])"

text \<open>The update polls once, when it starts.\<close>

definition reindex_file ::
  "'h mcp_system \<Rightarrow> mcp_env \<Rightarrow> updater \<Rightarrow> object option \<Rightarrow> string \<Rightarrow> string \<Rightarrow> nat \<Rightarrow> mcp_world \<Rightarrow> tool_result \<times> mcp_world" where
  "reindex_file y e u arguments workspace configured n w =
     (case (allowed_path (me_canonical e) arguments workspace, selected_variant arguments configured) of
        (Some path, Some selected) \<Rightarrow>
          if selected = [] then (invalid_arguments ''Invalid source path or variant'', w)
          else if me_stopped e n then (stopped_result e (n + 1), w)
          else (case index_update (my_pipeline y) (my_exists y) (my_frontend y) u
              \<lparr>ur_file = path, ur_variant = selected, ur_diagnostic_limit = 100, ur_store_partial = True,
               ur_stopped = me_stopped e (n + 1)\<rparr> (mw_pipeline w) of (res, pw) \<Rightarrow>
            let w1 = w\<lparr>mw_pipeline := pw\<rparr> in
            if me_stopped e (n + 2) then (stopped_result e (n + 3), w1)
            else (tool_success (update_object selected path res), w1))
      | _ \<Rightarrow> (invalid_arguments ''Invalid source path or variant'', w))"

section \<open>The service\<close>

record mcp_options =
  mo_database :: string
  mo_commands_database :: string
  mo_workspace :: string
  mo_variant :: string
  mo_allow_reindex :: bool
  mo_include_local :: bool

definition service_updater :: "mcp_options \<Rightarrow> updater" where
  "service_updater opts =
     new_updater (mo_database opts) (mo_workspace opts)
       \<lparr>ro_commands_database = mo_commands_database opts, ro_compile_commands = [], ro_repository_root = [],
        ro_allow_document = False\<rparr> (mo_include_local opts)"

text \<open>The tools that only read the database, by their names.\<close>

definition database_tool :: "mcp_env \<Rightarrow> mcp_options \<Rightarrow> string \<Rightarrow> object option \<Rightarrow> nat \<Rightarrow> tool_result option" where
  "database_tool e opts name arguments n =
     (let variant = mo_variant opts in
      if name = ''search_symbols'' then Some (search_symbols e arguments variant n)
      else if name = ''symbol_at'' then Some (symbol_at e arguments (mo_workspace opts) variant n)
      else if name = ''find_definitions'' then Some (related_records e arguments variant DB_RECORD_DEFINITION n)
      else if name = ''find_references'' then Some (related_records e arguments variant DB_RECORD_REFERENCE n)
      else if name = ''find_declared_types'' then Some (declared_types e arguments variant n)
      else if name = ''find_function_signature'' then Some (function_signature e arguments variant n)
      else if name = ''find_callers'' then Some (call_records e arguments variant DB_CALLERS n)
      else if name = ''find_callees'' then Some (call_records e arguments variant DB_CALLEES n)
      else if name = ''list_variants'' then Some (list_variants e arguments variant n)
      else None)"

text \<open>Opening the database is the parameter \<open>opened\<close>; binding it to the request polls once.\<close>

definition tool_call ::
  "'h mcp_system \<Rightarrow> mcp_env \<Rightarrow> mcp_options \<Rightarrow> bool \<Rightarrow> string \<Rightarrow> object option \<Rightarrow> mcp_world \<Rightarrow> tool_result \<times> mcp_world" where
  "tool_call y e opts opened name arguments w =
     (if me_stopped e 0 then (stopped_result e 1, w)
      else if name = ''reindex_file''
      then (if \<not> mo_allow_reindex opts then (tool_failure Mcp_UnknownTool ''Unknown tool'', w)
            else reindex_file y e (service_updater opts) arguments (mo_workspace opts) (mo_variant opts) 1 w)
      else if \<not> opened then (tool_failure Mcp_DatabaseError ''Failed to open database'', w)
      else if me_stopped e 2 then (stopped_result e 3, w)
      else (case database_tool e opts name arguments 3 of
         Some result \<Rightarrow> (result, w)
       | None \<Rightarrow>
           if name = ''read_source_context''
           then (case read_source_context y e arguments (mo_workspace opts) (mo_variant opts) True 3 (mw_git w) of
             (result, g) \<Rightarrow> (result, w\<lparr>mw_git := g\<rparr>))
           else if name = ''index_status''
           then mcp_index_status y e (service_updater opts) arguments (mo_workspace opts) (mo_variant opts) 3 w
           else (tool_failure Mcp_UnknownTool ''Unknown tool'', w)))"

end
