(* ===== verification/Mcp_Server.thy ===== *)
theory Mcp_Server
  imports Mcp_Tools Lsp_Server
begin

text \<open>
  The model context server, \<open>tools/mcp/mcp_server.cpp\<close>. The main thread reads messages and answers
  them, or starts a thread for the call of a tool; the threads share the transport, the requests
  under way and a flag. Their steps interleave: each step below is one access to what they share.
\<close>

section \<open>Identifiers and messages\<close>

definition PROTOCOL_VERSION :: string where "PROTOCOL_VERSION = ''2025-11-25''"
definition MAX_RESPONSE_SIZE :: nat where "MAX_RESPONSE_SIZE = 1024 * 1024"
definition REQUEST_CANCELLED :: int where "REQUEST_CANCELLED = - 32800"
definition DEADLINE_EXCEEDED :: int where "DEADLINE_EXCEEDED = - 32001"

datatype rpc_id = Numeric int | Textual string

definition id_key :: "rpc_id \<Rightarrow> string" where
  "id_key i = (case i of Numeric k \<Rightarrow> ''n:'' @ decimal_int k | Textual s \<Rightarrow> ''s:'' @ s)"

definition id_value :: "rpc_id \<Rightarrow> jvalue" where
  "id_value i = (case i of Numeric k \<Rightarrow> VInt k | Textual s \<Rightarrow> VString s)"

definition request_id :: "jvalue option \<Rightarrow> rpc_id option" where
  "request_id v =
     (case v of
        Some (VInt k) \<Rightarrow> Some (Numeric k)
      | Some (VString s) \<Rightarrow> Some (Textual s)
      | _ \<Rightarrow> None)"

definition mcp_reply :: "rpc_id \<Rightarrow> jvalue \<Rightarrow> jvalue" where
  "mcp_reply i result = reply_message (id_value i) result"

definition mcp_error :: "rpc_id option \<Rightarrow> int \<Rightarrow> string \<Rightarrow> jvalue" where
  "mcp_error i code message = error_message (map_option id_value i) code message"

section \<open>The list of tools\<close>

definition string_property :: "string \<Rightarrow> jvalue" where
  "string_property description = VObject [(''type'', VString ''string''), (''description'', VString description)]"

definition integer_property :: "string \<Rightarrow> int \<Rightarrow> int \<Rightarrow> jvalue" where
  "integer_property description low high =
     VObject [(''type'', VString ''integer''), (''description'', VString description),
       (''minimum'', VInt low), (''maximum'', VInt high)]"

definition object_schema :: "object \<Rightarrow> string list \<Rightarrow> jvalue" where
  "object_schema properties required =
     VObject ([(''type'', VString ''object''), (''properties'', VObject properties),
       (''additionalProperties'', VBool False)] @
       (if required = [] then [] else [(''required'', VArray (map VString required))]))"

definition tool_entry :: "string \<Rightarrow> string \<Rightarrow> jvalue \<Rightarrow> bool \<Rightarrow> jvalue" where
  "tool_entry name description input_schema read_only =
     VObject [(''name'', VString name), (''description'', VString description), (''inputSchema'', input_schema),
       (''annotations'', VObject [(''readOnlyHint'', VBool read_only), (''destructiveHint'', VBool (\<not> read_only)),
         (''idempotentHint'', VBool True)])]"

definition paging_properties :: object where
  "paging_properties =
     [(''limit'', integer_property ''Maximum number of results'' 1 200),
      (''cursor'', string_property ''Opaque cursor returned by the previous call'')]"

definition identity_properties :: object where
  "identity_properties = paging_properties @
     [(''symbol'', string_property ''Qualified symbol name''), (''variant'', string_property ''Index variant''),
      (''usrId'', string_property ''Stable hexadecimal symbol identity''),
      (''kind'', string_property ''Symbol kind returned by symbol_at''),
      (''context'', string_property ''Containing function for a local symbol''),
      (''local'', VObject [(''type'', VString ''boolean'')])]"

definition tool_definitions :: "bool \<Rightarrow> jvalue list" where
  "tool_definitions allow_reindex =
     (let calls = paging_properties @
        [(''symbol'', string_property ''Qualified function name''), (''variant'', string_property ''Index variant''),
         (''usrId'', string_property ''Stable hexadecimal function identity''),
         (''depth'', integer_property ''Maximum traversal depth'' 1 16),
         (''nodeLimit'', integer_property ''Maximum unique functions'' 1 200)] in
      [tool_entry ''search_symbols'' ''Search bounded semantic index records'' (object_schema (paging_properties @
         [(''pattern'', string_property ''Exact symbol name or SQLite GLOB pattern''),
          (''variant'', string_property ''Index variant or GLOB pattern''),
          (''kind'', string_property ''Optional symbol kind'')]) [''pattern'']) True,
       tool_entry ''symbol_at'' ''Resolve semantic identities at a source position'' (object_schema
         [(''path'', string_property ''Source path below the configured workspace''),
          (''line'', integer_property ''One-based source line'' 1 INT_MAX),
          (''column'', integer_property ''One-based UTF-8 byte column'' 1 INT_MAX),
          (''variant'', string_property ''Optional index variant'')] [''path'', ''line'', ''column'']) True,
       tool_entry ''find_definitions'' ''Find bounded definitions for a semantic identity''
         (object_schema identity_properties [''symbol'']) True,
       tool_entry ''find_references'' ''Find bounded references for a semantic identity''
         (object_schema identity_properties [''symbol'']) True,
       tool_entry ''find_declared_types'' ''Find declared and canonical C types for a semantic identity''
         (object_schema (paging_properties @
         [(''symbol'', string_property ''Qualified symbol name''), (''variant'', string_property ''Index variant''),
          (''usrId'', string_property ''Stable hexadecimal symbol identity''),
          (''kind'', string_property ''Symbol kind returned by symbol_at'')]) [''symbol'', ''usrId'', ''kind'']) True,
       tool_entry ''find_function_signature'' ''Find a structured C function signature'' (object_schema (paging_properties @
         [(''symbol'', string_property ''Qualified function name''), (''variant'', string_property ''Index variant''),
          (''usrId'', string_property ''Stable hexadecimal function identity'')]) [''symbol'', ''usrId'']) True,
       tool_entry ''find_callers'' ''Find bounded callers of a function'' (object_schema calls [''symbol'', ''usrId'']) True,
       tool_entry ''find_callees'' ''Find bounded callees of a function'' (object_schema calls [''symbol'', ''usrId'']) True,
       tool_entry ''read_source_context'' ''Read bounded source matching indexed locations'' (object_schema
         [(''path'', string_property ''Indexed source path below the configured workspace''),
          (''variant'', string_property ''Index variant''),
          (''firstLine'', integer_property ''First one-based line'' 1 INT_MAX),
          (''lineCount'', integer_property ''Maximum number of complete lines'' 1 200),
          (''byteLimit'', integer_property ''Maximum returned source bytes'' 1 65536)] [''path'']) True,
       tool_entry ''list_variants'' ''List index variants and source provenance'' (object_schema paging_properties []) True,
       tool_entry ''index_status'' ''Report whether indexed source matches the working tree'' (object_schema
         [(''path'', string_property ''Indexed source path below the configured workspace''),
          (''variant'', string_property ''Index variant'')] [''path'']) True] @
      (if allow_reindex
       then [tool_entry ''reindex_file'' ''Reindex one file using its saved compiler command'' (object_schema
         [(''path'', string_property ''Source path below the configured workspace''),
          (''variant'', string_property ''Index variant'')] [''path'']) False]
       else []))"

section \<open>Answers of tools\<close>

definition text_content :: "string \<Rightarrow> jvalue" where
  "text_content s = VArray [VObject [(''type'', VString ''text''), (''text'', VString s)]]"

text \<open>\<open>toolResult\<close>: the data as text and as a value, unless the text is too long.\<close>

definition tool_answer :: "(jvalue \<Rightarrow> string) \<Rightarrow> tool_result \<Rightarrow> jvalue" where
  "tool_answer print r =
     (if tl_status r \<noteq> Mcp_Success
      then VObject [(''content'', text_content (tl_message r)), (''isError'', VBool True)]
      else
      let structured = VObject (tl_data r); s = print structured
      in if length s > MAX_RESPONSE_SIZE
         then VObject [(''content'', text_content ''Response size limit exceeded''), (''isError'', VBool True)]
         else VObject [(''content'', text_content s), (''structuredContent'', structured), (''isError'', VBool False)])"

definition call_response :: "(jvalue \<Rightarrow> string) \<Rightarrow> rpc_id \<Rightarrow> tool_result \<Rightarrow> jvalue" where
  "call_response print i r =
     (case tl_status r of
        Mcp_UnknownTool \<Rightarrow> mcp_error (Some i) INVALID_PARAMS ''Unknown tool''
      | Mcp_Cancelled \<Rightarrow> mcp_error (Some i) REQUEST_CANCELLED (tl_message r)
      | Mcp_DeadlineExceeded \<Rightarrow> mcp_error (Some i) DEADLINE_EXCEEDED (tl_message r)
      | Mcp_DatabaseError \<Rightarrow> mcp_error (Some i) INTERNAL_ERROR (tl_message r)
      | _ \<Rightarrow> mcp_reply i (tool_answer print r))"

section \<open>The state\<close>

datatype mcp_state = Mcp_Uninitialized | Mcp_AwaitingInitialized | Mcp_Running

text \<open>\<open>McpRequestControl\<close>, shared by a worker, its deadline and the table of requests.\<close>

record request_control =
  ct_cancelled :: bool
  ct_timed_out :: bool
  ct_completed :: bool

definition new_control :: request_control where
  "new_control = \<lparr>ct_cancelled = False, ct_timed_out = False, ct_completed = False\<rparr>"

text \<open>How far a thread of a call is: the call has not returned, has returned, is completed, and so on.\<close>

datatype worker_pc =
  Started | Returned tool_result | Completed tool_result | Answering jvalue | Written bool | Finishing

record worker =
  wk_id :: rpc_id
  wk_payload :: string
  wk_control :: nat
  wk_pc :: worker_pc

datatype main_pc = At_Loop | Reading | Handling string | Draining | Waiting | Exited_With int

text \<open>The controls are a heap: the table of requests and the workers refer to them.\<close>

record mcp_server =
  ms_state :: mcp_state
  ms_main :: main_pc
  ms_failed :: bool
  ms_transport :: transport
  ms_requests :: "string \<rightharpoonup> nat"
  ms_controls :: "nat \<Rightarrow> request_control"
  ms_next :: nat
  ms_workers :: "worker list"

definition start_server :: "transport \<Rightarrow> mcp_server" where
  "start_server t =
     \<lparr>ms_state = Mcp_Uninitialized, ms_main = At_Loop, ms_failed = False, ms_transport = t, ms_requests = Map.empty,
      ms_controls = (\<lambda>_. new_control), ms_next = 0, ms_workers = []\<rparr>"

definition mcp_send :: "transport_env \<Rightarrow> jvalue \<Rightarrow> mcp_server \<Rightarrow> bool \<times> mcp_server" where
  "mcp_send te m s = (case mcp_write te m (ms_transport s) of (ok, t) \<Rightarrow> (ok, s\<lparr>ms_transport := t\<rparr>))"

section \<open>Handling a message\<close>

text \<open>The handlers give the message to be written, if any, and what they change in the state.\<close>

definition initialize_answer :: "string \<Rightarrow> bool \<Rightarrow> jvalue" where
  "initialize_answer negotiated can_reindex =
     VObject [(''protocolVersion'', VString negotiated),
       (''capabilities'', VObject [(''tools'', VObject [(''listChanged'', VBool False)])]),
       (''serverInfo'', VObject [(''name'', VString ''semindex''), (''title'', VString ''semindex semantic index''),
         (''version'', VString ''0'')]),
       (''instructions'', VString
         (if can_reindex then ''Use bounded tools to inspect the index and reindex individual workspace files.''
          else ''Use bounded read-only tools to inspect the configured semantic index.''))]"

definition mcp_initialize :: "mcp_options \<Rightarrow> rpc_id \<Rightarrow> object option \<Rightarrow> mcp_server \<Rightarrow> jvalue \<times> mcp_server" where
  "mcp_initialize opts i params s =
     (case params of
        None \<Rightarrow> (mcp_error (Some i) INVALID_REQUEST ''Invalid initialize request'', s)
      | Some p \<Rightarrow>
          if ms_state s \<noteq> Mcp_Uninitialized
          then (mcp_error (Some i) INVALID_REQUEST ''Invalid initialize request'', s)
          else (case get_string p ''protocolVersion'' of
             None \<Rightarrow> (mcp_error (Some i) INVALID_PARAMS ''Missing protocol version'', s)
           | Some version \<Rightarrow>
               if get_object p ''capabilities'' = None \<or> get_object p ''clientInfo'' = None
               then (mcp_error (Some i) INVALID_PARAMS ''Missing protocol version'', s)
               else (mcp_reply i (initialize_answer (if version = PROTOCOL_VERSION then version else PROTOCOL_VERSION)
                       (mo_allow_reindex opts)), s\<lparr>ms_state := Mcp_AwaitingInitialized\<rparr>)))"

definition list_tools :: "mcp_options \<Rightarrow> rpc_id \<Rightarrow> object option \<Rightarrow> jvalue" where
  "list_tools opts i params =
     (if Option.bind params (\<lambda>p. get p ''cursor'') \<noteq> None
      then mcp_error (Some i) INVALID_PARAMS ''Tool list cursor is not supported''
      else mcp_reply i (VObject [(''tools'', VArray (tool_definitions (mo_allow_reindex opts)))]))"

text \<open>A call that is taken up gets a control and a thread of its own.\<close>

definition add_worker :: "rpc_id \<Rightarrow> string \<Rightarrow> mcp_server \<Rightarrow> mcp_server" where
  "add_worker i payload s =
     s\<lparr>ms_requests := (ms_requests s)(id_key i \<mapsto> ms_next s), ms_controls := (ms_controls s)(ms_next s := new_control),
       ms_next := ms_next s + 1,
       ms_workers := ms_workers s @ [\<lparr>wk_id = i, wk_payload = payload, wk_control = ms_next s, wk_pc = Started\<rparr>]\<rparr>"

definition call_tool :: "rpc_id \<Rightarrow> object option \<Rightarrow> string \<Rightarrow> mcp_server \<Rightarrow> jvalue option \<times> mcp_server" where
  "call_tool i params payload s =
     (if Option.bind params (\<lambda>p. get_string p ''name'') = None
      then (Some (mcp_error (Some i) INVALID_PARAMS ''Invalid tool call''), s)
      else if ms_requests s (id_key i) \<noteq> None
      then (Some (mcp_error (Some i) INVALID_REQUEST ''Duplicate request ID''), s)
      else (None, add_worker i payload s))"

definition cancel_control :: "nat \<Rightarrow> mcp_server \<Rightarrow> mcp_server" where
  "cancel_control a s = s\<lparr>ms_controls := (ms_controls s)(a := (ms_controls s a)\<lparr>ct_cancelled := True\<rparr>)\<rparr>"

definition mcp_cancel :: "object option \<Rightarrow> mcp_server \<Rightarrow> mcp_server" where
  "mcp_cancel params s =
     (case Option.bind params (\<lambda>p. request_id (get p ''requestId'')) of
        None \<Rightarrow> s
      | Some i \<Rightarrow> (case ms_requests s (id_key i) of None \<Rightarrow> s | Some a \<Rightarrow> cancel_control a s))"

abbreviation mcp_invalid :: "rpc_id option \<Rightarrow> jvalue option" where
  "mcp_invalid i \<equiv> Some (mcp_error i INVALID_REQUEST ''Invalid Request'')"

abbreviation not_initialized :: "rpc_id \<Rightarrow> jvalue" where
  "not_initialized i \<equiv> mcp_error (Some i) SERVER_NOT_INITIALIZED ''Server not initialized''"

definition mcp_dispatch :: "mcp_options \<Rightarrow> object \<Rightarrow> string \<Rightarrow> mcp_server \<Rightarrow> jvalue option \<times> mcp_server" where
  "mcp_dispatch opts message payload s =
     (let raw_id = get message ''id''; i = request_id raw_id; params = get_object message ''params'' in
      case get_string message ''method'' of
        None \<Rightarrow> (mcp_invalid None, s)
      | Some name \<Rightarrow>
          if get_string message ''jsonrpc'' \<noteq> Some ''2.0'' \<or> (raw_id \<noteq> None \<and> i = None) then (mcp_invalid None, s)
          else if name = ''notifications/cancelled''
          then (if i \<noteq> None then (mcp_invalid i, s) else (None, mcp_cancel params s))
          else if name = ''initialize''
          then (case i of
             None \<Rightarrow> (mcp_invalid None, s)
           | Some v \<Rightarrow> (case mcp_initialize opts v params s of (m, s1) \<Rightarrow> (Some m, s1)))
          else if name = ''ping'' then (map_option (\<lambda>v. mcp_reply v (VObject [])) i, s)
          else if ms_state s = Mcp_Uninitialized then (map_option not_initialized i, s)
          else if name = ''notifications/initialized''
          then (if i \<noteq> None then (mcp_invalid i, s)
                else if ms_state s \<noteq> Mcp_AwaitingInitialized then (None, s)
                else (None, s\<lparr>ms_state := Mcp_Running\<rparr>))
          else if ms_state s \<noteq> Mcp_Running then (map_option not_initialized i, s)
          else if name = ''tools/list'' then (map_option (\<lambda>v. list_tools opts v params) i, s)
          else if name = ''tools/call'' then (case i of None \<Rightarrow> (None, s) | Some v \<Rightarrow> call_tool v params payload s)
          else (map_option (\<lambda>v. mcp_error (Some v) METHOD_NOT_FOUND ''Method not found'') i, s))"

text \<open>The body of the loop behind a message that was read.\<close>

definition mcp_handle :: "transport_env \<Rightarrow> mcp_options \<Rightarrow> string \<Rightarrow> mcp_server \<Rightarrow> jvalue option \<times> mcp_server" where
  "mcp_handle te opts payload s =
     (case te_parse te payload of
        None \<Rightarrow> (Some (mcp_error None PARSE_ERROR ''Parse error''), s)
      | Some v \<Rightarrow>
          (case as_object v of
             None \<Rightarrow> (mcp_invalid None, s)
           | Some message \<Rightarrow> mcp_dispatch opts message payload s))"

section \<open>The thread of a call\<close>

text \<open>The thread parses its payload again: a refusal, or the tool and its arguments.\<close>

definition worker_request :: "transport_env \<Rightarrow> string \<Rightarrow> (int \<times> string) + (string \<times> object option)" where
  "worker_request te payload =
     (case te_parse te payload of
        None \<Rightarrow> Inl (INTERNAL_ERROR, ''Failed to parse queued request'')
      | Some v \<Rightarrow>
          (case Option.bind (as_object v) (\<lambda>message. get_object message ''params'') of
             None \<Rightarrow> Inl (INVALID_PARAMS, ''Invalid tool call'')
           | Some p \<Rightarrow>
               (case get_string p ''name'' of
                  None \<Rightarrow> Inl (INVALID_PARAMS, ''Invalid tool call'')
                | Some name \<Rightarrow>
                    if get p ''arguments'' \<noteq> None \<and> get_object p ''arguments'' = None
                    then Inl (INVALID_PARAMS, ''Invalid tool call'')
                    else Inr (name, get_object p ''arguments''))))"

definition final_result :: "request_control \<Rightarrow> tool_result \<Rightarrow> tool_result" where
  "final_result c r =
     (if ct_cancelled c then tool_failure Mcp_Cancelled ''Request cancelled''
      else if ct_timed_out c then tool_failure Mcp_DeadlineExceeded ''Request deadline exceeded''
      else r)"

definition set_pc :: "nat \<Rightarrow> worker_pc \<Rightarrow> mcp_server \<Rightarrow> mcp_server" where
  "set_pc a pc s = s\<lparr>ms_workers := map (\<lambda>w. if wk_control w = a then w\<lparr>wk_pc := pc\<rparr> else w) (ms_workers s)\<rparr>"

definition complete_control :: "nat \<Rightarrow> mcp_server \<Rightarrow> mcp_server" where
  "complete_control a s = s\<lparr>ms_controls := (ms_controls s)(a := (ms_controls s a)\<lparr>ct_completed := True\<rparr>)\<rparr>"

definition expire_control :: "nat \<Rightarrow> mcp_server \<Rightarrow> mcp_server" where
  "expire_control a s = s\<lparr>ms_controls := (ms_controls s)(a := (ms_controls s a)\<lparr>ct_timed_out := True\<rparr>)\<rparr>"

definition finish_worker :: "worker \<Rightarrow> mcp_server \<Rightarrow> mcp_server" where
  "finish_worker w s =
     s\<lparr>ms_requests := (ms_requests s)(id_key (wk_id w) := None),
       ms_workers := filter (\<lambda>v. wk_control v \<noteq> wk_control w) (ms_workers s)\<rparr>"

definition cancel_all :: "mcp_server \<Rightarrow> mcp_server" where
  "cancel_all s =
     s\<lparr>ms_controls := (\<lambda>a. if a \<in> ran (ms_requests s) then (ms_controls s a)\<lparr>ct_cancelled := True\<rparr> else ms_controls s a)\<rparr>"

section \<open>Steps\<close>

datatype event = Received string | Sent jvalue bool | Internal

inductive mcp_step ::
  "transport_env \<Rightarrow> 'h mcp_system \<Rightarrow> mcp_options \<Rightarrow> mcp_server \<Rightarrow> event \<Rightarrow> mcp_server \<Rightarrow> bool" for te y opts where
  loop_on: "ms_main s = At_Loop \<Longrightarrow>
    mcp_step te y opts s Internal (s\<lparr>ms_main := (if ms_failed s then Draining else Reading)\<rparr>)"
| read_message: "ms_main s = Reading \<Longrightarrow> mcp_read te (ms_transport s) = (Message, payload, t) \<Longrightarrow>
    mcp_step te y opts s (Received payload) (s\<lparr>ms_main := Handling payload, ms_transport := t\<rparr>)"
| read_end: "ms_main s = Reading \<Longrightarrow> mcp_read te (ms_transport s) = (EndOfFile, payload, t) \<Longrightarrow>
    mcp_step te y opts s Internal (s\<lparr>ms_main := Draining, ms_transport := t\<rparr>)"
| read_error: "ms_main s = Reading \<Longrightarrow> mcp_read te (ms_transport s) = (ReadError, payload, t) \<Longrightarrow>
    mcp_step te y opts s Internal (s\<lparr>ms_main := Draining, ms_failed := True, ms_transport := t\<rparr>)"
| handle_silent: "ms_main s = Handling payload \<Longrightarrow> mcp_handle te opts payload s = (None, s1) \<Longrightarrow>
    mcp_step te y opts s Internal (s1\<lparr>ms_main := At_Loop\<rparr>)"
| handle_answer: "ms_main s = Handling payload \<Longrightarrow> mcp_handle te opts payload s = (Some m, s1) \<Longrightarrow>
    mcp_send te m s1 = (ok, s2) \<Longrightarrow>
    mcp_step te y opts s (Sent m ok) (s2\<lparr>ms_main := At_Loop, ms_failed := ms_failed s2 \<or> \<not> ok\<rparr>)"
| drain: "ms_main s = Draining \<Longrightarrow>
    mcp_step te y opts s Internal ((if ms_failed s then cancel_all s else s)\<lparr>ms_main := Waiting\<rparr>)"
| return: "ms_main s = Waiting \<Longrightarrow> ms_requests s = Map.empty \<Longrightarrow>
    mcp_step te y opts s Internal (s\<lparr>ms_main := Exited_With (if ms_failed s then 1 else 0)\<rparr>)"
| refuse: "w \<in> set (ms_workers s) \<Longrightarrow> wk_pc w = Started \<Longrightarrow> worker_request te (wk_payload w) = Inl (code, message) \<Longrightarrow>
    mcp_step te y opts s Internal (set_pc (wk_control w) (Answering (mcp_error (Some (wk_id w)) code message)) s)"
| call: "w \<in> set (ms_workers s) \<Longrightarrow> wk_pc w = Started \<Longrightarrow> worker_request te (wk_payload w) = Inr (name, arguments) \<Longrightarrow>
    tool_call y e opts opened name arguments mw = (r, mw') \<Longrightarrow>
    mcp_step te y opts s Internal (set_pc (wk_control w) (Returned r) s)"
| expire: "w \<in> set (ms_workers s) \<Longrightarrow> \<not> ct_completed (ms_controls s (wk_control w)) \<Longrightarrow>
    \<not> ct_timed_out (ms_controls s (wk_control w)) \<Longrightarrow>
    mcp_step te y opts s Internal (expire_control (wk_control w) s)"
| complete: "w \<in> set (ms_workers s) \<Longrightarrow> wk_pc w = Returned r \<Longrightarrow>
    mcp_step te y opts s Internal (set_pc (wk_control w) (Completed r) (complete_control (wk_control w) s))"
| decide: "w \<in> set (ms_workers s) \<Longrightarrow> wk_pc w = Completed r \<Longrightarrow>
    mcp_step te y opts s Internal (set_pc (wk_control w)
      (Answering (call_response (te_print te) (wk_id w) (final_result (ms_controls s (wk_control w)) r))) s)"
| answer: "w \<in> set (ms_workers s) \<Longrightarrow> wk_pc w = Answering m \<Longrightarrow> mcp_send te m s = (ok, s1) \<Longrightarrow>
    mcp_step te y opts s (Sent m ok) (set_pc (wk_control w) (Written ok) s1)"
| report: "w \<in> set (ms_workers s) \<Longrightarrow> wk_pc w = Written ok \<Longrightarrow>
    mcp_step te y opts s Internal
      ((set_pc (wk_control w) Finishing (complete_control (wk_control w) s))\<lparr>ms_failed := ms_failed s \<or> \<not> ok\<rparr>)"
| finish: "w \<in> set (ms_workers s) \<Longrightarrow> wk_pc w = Finishing \<Longrightarrow> mcp_step te y opts s Internal (finish_worker w s)"

inductive mcp_run ::
  "transport_env \<Rightarrow> 'h mcp_system \<Rightarrow> mcp_options \<Rightarrow> mcp_server \<Rightarrow> event list \<Rightarrow> mcp_server \<Rightarrow> bool" for te y opts where
  run_start: "mcp_run te y opts s [] s"
| run_step: "mcp_run te y opts s evs s1 \<Longrightarrow> mcp_step te y opts s1 ev s2 \<Longrightarrow> mcp_run te y opts s (evs @ [ev]) s2"

inductive_cases mcp_stepE: "mcp_step te y opts s ev s'"

end
