(* ===== verification/Mcp_Session.thy ===== *)
theory Mcp_Session
  imports Mcp_Server Transport_Properties "HOL-Library.Multiset" "HOL-Library.Sublist"
begin

text \<open>
  Sessions of the model context server: what holds in every state that the interleaved steps of the
  main thread and the threads of the calls can reach.
\<close>

section \<open>What a message is owed\<close>

text \<open>The identifier that a response to a message carries, or none when the message wants none.\<close>

definition owed :: "transport_env \<Rightarrow> string \<Rightarrow> jvalue option" where
  "owed te payload =
     (case Option.bind (te_parse te payload) as_object of
        None \<Rightarrow> Some VNull
      | Some message \<Rightarrow>
          let raw_id = get message ''id''; i = request_id raw_id in
          (case get_string message ''method'' of
             None \<Rightarrow> Some VNull
           | Some name \<Rightarrow>
               if get_string message ''jsonrpc'' \<noteq> Some ''2.0'' \<or> (raw_id \<noteq> None \<and> i = None) then Some VNull
               else (case i of Some v \<Rightarrow> Some (id_value v) | None \<Rightarrow> if name = ''initialize'' then Some VNull else None)))"

definition response_id :: "jvalue \<Rightarrow> jvalue" where
  "response_id m = (case as_object m of Some ob \<Rightarrow> (case get ob ''id'' of Some v \<Rightarrow> v | None \<Rightarrow> VNull) | None \<Rightarrow> VNull)"

definition received :: "event list \<Rightarrow> string list" where
  "received evs = concat (map (\<lambda>ev. case ev of Received p \<Rightarrow> [p] | _ \<Rightarrow> []) evs)"

definition sent :: "event list \<Rightarrow> jvalue list" where
  "sent evs = concat (map (\<lambda>ev. case ev of Sent m ok \<Rightarrow> [m] | _ \<Rightarrow> []) evs)"

definition owed_ids :: "transport_env \<Rightarrow> string list \<Rightarrow> jvalue list" where
  "owed_ids te ps = concat (map (\<lambda>p. case owed te p of None \<Rightarrow> [] | Some v \<Rightarrow> [v]) ps)"

lemma event_lists [simp]:
  "received [] = []" "received (evs @ [Received p]) = received evs @ [p]"
  "received (evs @ [Sent m ok]) = received evs" "received (evs @ [Internal]) = received evs"
  "sent [] = []" "sent (evs @ [Received p]) = sent evs"
  "sent (evs @ [Sent m ok]) = sent evs @ [m]" "sent (evs @ [Internal]) = sent evs"
  by (simp_all add: received_def sent_def)

lemma owed_ids_simps [simp]:
  "owed_ids te [] = []" "owed_ids te [p] = (case owed te p of None \<Rightarrow> [] | Some v \<Rightarrow> [v])"
  "owed_ids te (ps @ [p]) = owed_ids te ps @ (case owed te p of None \<Rightarrow> [] | Some v \<Rightarrow> [v])"
  by (simp_all add: owed_ids_def)

lemma response_ids [simp]:
  "response_id (mcp_reply i v) = id_value i" "response_id (mcp_error (Some i) code message) = id_value i"
  "response_id (mcp_error None code message) = VNull"
  by (simp_all add: response_id_def mcp_reply_def mcp_error_def reply_message_def error_message_def as_object_def get_def)

lemma response_id_call [simp]: "response_id (call_response print i r) = id_value i"
  by (simp add: call_response_def split: mcp_status.split)

lemma response_id_list [simp]: "response_id (list_tools opts i params) = id_value i"
  by (simp add: list_tools_def)

lemma decimal_inject: "decimal a = decimal b \<Longrightarrow> a = b"
  using digits_decimal by (metis decimal_def)

lemma decimal_int_inject: "decimal_int a = decimal_int b \<Longrightarrow> a = b"
proof -
  have "CHR ''-'' \<notin> set (decimal n)" for n
    using decimal_digits [of n] by (auto simp: list_all_iff isdigit_def)
  then have "''-'' @ s \<noteq> decimal n" for s n by (metis append_Cons list.set_intros(1))
  moreover assume "decimal_int a = decimal_int b"
  ultimately show "a = b"
    using decimal_inject [of "nat a" "nat b"] decimal_inject [of "nat (- a)" "nat (- b)"]
    by (auto simp: decimal_int_def split: if_splits) (metis append_Cons append_Nil)+
qed

lemma id_key_inject: "id_key i = id_key j \<Longrightarrow> i = j"
  by (auto simp: id_key_def dest: decimal_int_inject split: rpc_id.splits)

section \<open>Handling\<close>

definition same_table :: "mcp_server \<Rightarrow> mcp_server \<Rightarrow> bool" where
  "same_table s s' \<longleftrightarrow> ms_requests s' = ms_requests s \<and> ms_workers s' = ms_workers s \<and> ms_next s' = ms_next s \<and>
     ms_main s' = ms_main s \<and> ms_failed s' = ms_failed s \<and> ms_transport s' = ms_transport s \<and>
     (\<forall>a. ct_timed_out (ms_controls s' a) = ct_timed_out (ms_controls s a) \<and>
        ct_completed (ms_controls s' a) = ct_completed (ms_controls s a) \<and>
        (ct_cancelled (ms_controls s a) \<longrightarrow> ct_cancelled (ms_controls s' a)))"

lemma same_table_refl [simp]: "same_table s s" "same_table s (s\<lparr>ms_state := st\<rparr>)"
  by (simp_all add: same_table_def)

lemma same_table_cancel: "same_table s (mcp_cancel params s)"
  by (auto simp: mcp_cancel_def cancel_control_def same_table_def fun_eq_iff split: option.split)

lemma mcp_initialize_answer:
  "mcp_initialize opts i params s = (m, s1) \<Longrightarrow> response_id m = id_value i \<and> same_table s s1"
  by (auto simp: mcp_initialize_def split: option.splits if_splits)

inductive mcp_turn :: "transport_env \<Rightarrow> string \<Rightarrow> mcp_server \<Rightarrow> jvalue option \<Rightarrow> mcp_server \<Rightarrow> bool" for te payload s where
  turn_answer: "owed te payload = Some (response_id m) \<Longrightarrow> same_table s s1 \<Longrightarrow> mcp_turn te payload s (Some m) s1"
| turn_silent: "owed te payload = None \<Longrightarrow> same_table s s1 \<Longrightarrow> mcp_turn te payload s None s1"
| turn_call: "owed te payload = Some (id_value i) \<Longrightarrow> ms_requests s (id_key i) = None \<Longrightarrow> ms_state s = Mcp_Running \<Longrightarrow>
    mcp_turn te payload s None (add_worker i payload s)"

lemma call_tool_turn:
  assumes "owed te payload = Some (id_value i)" and "ms_state s = Mcp_Running" and "call_tool i params payload s = (m, s1)"
  shows "mcp_turn te payload s m s1"
  using assms by (auto simp: call_tool_def split: if_splits intro: turn_answer turn_call)

lemma mcp_dispatch_turn:
  assumes "te_parse te payload = Some v" and "as_object v = Some message"
    and d: "mcp_dispatch opts message payload s = (m, s1)"
  shows "mcp_turn te payload s m s1"
proof (cases "get_string message ''method''")
  case None
  with assms show ?thesis by (auto simp: mcp_dispatch_def Let_def owed_def intro!: turn_answer)
next
  case (Some name)
  let ?raw = "get message ''id''"
  show ?thesis
  proof (cases "get_string message ''jsonrpc'' \<noteq> Some ''2.0'' \<or> (?raw \<noteq> None \<and> request_id ?raw = None)")
    case True
    with assms Some show ?thesis by (auto simp: mcp_dispatch_def Let_def owed_def intro!: turn_answer)
  next
    case False
    show ?thesis
    proof (cases "request_id ?raw")
      case None
      then have "owed te payload = (if name = ''initialize'' then Some VNull else None)"
        using assms(1,2) Some False by (simp add: owed_def Let_def)
      with d Some False None same_table_cancel [of s] show ?thesis
        by (auto simp: mcp_dispatch_def Let_def split: if_splits intro!: turn_answer turn_silent)
    next
      case i: (Some i)
      then have o: "owed te payload = Some (id_value i)" using assms(1,2) Some False by (simp add: owed_def Let_def)
      show ?thesis
      proof (cases "name = ''tools/call'' \<and> ms_state s = Mcp_Running")
        case True
        with d Some False i have "call_tool i (get_object message ''params'') payload s = (m, s1)"
          by (simp add: mcp_dispatch_def Let_def)
        with call_tool_turn [OF o] True show ?thesis by blast
      next
        case other: False
        have "\<exists>a. m = Some a \<and> response_id a = id_value i \<and> same_table s s1"
          using d Some False i other mcp_initialize_answer [of opts i "get_object message ''params''" s]
          by (auto simp: mcp_dispatch_def Let_def split: if_splits prod.splits)
        with o show ?thesis by (auto intro: turn_answer)
      qed
    qed
  qed
qed

lemma mcp_handle_turn:
  assumes "mcp_handle te opts payload s = (m, s1)"
  shows "mcp_turn te payload s m s1"
proof (cases "Option.bind (te_parse te payload) as_object")
  case None
  then have "owed te payload = Some VNull" by (simp add: owed_def)
  moreover have "\<exists>code text1. m = Some (mcp_error None code text1) \<and> s1 = s"
    using assms None by (auto simp: mcp_handle_def split: option.splits)
  ultimately show ?thesis by (auto intro: turn_answer)
next
  case (Some message)
  then obtain v where "te_parse te payload = Some v" "as_object v = Some message" by (auto simp: bind_eq_Some_conv)
  with assms mcp_dispatch_turn [of te payload v message] show ?thesis by (simp add: mcp_handle_def)
qed

section \<open>The table of requests\<close>

text \<open>Each request in the table has one thread, and each thread its control and its request.\<close>

definition entry :: "worker \<Rightarrow> string \<times> nat" where
  "entry w = (id_key (wk_id w), wk_control w)"

definition table_ok :: "mcp_server \<Rightarrow> bool" where
  "table_ok s \<longleftrightarrow>
     distinct (map wk_control (ms_workers s)) \<and> distinct (map fst (map entry (ms_workers s))) \<and>
     ms_requests s = map_of (map entry (ms_workers s)) \<and>
     (\<forall>w\<in>set (ms_workers s). wk_control w < ms_next s) \<and>
     (\<forall>w\<in>set (ms_workers s). \<forall>m. wk_pc w = Answering m \<longrightarrow> response_id m = id_value (wk_id w)) \<and>
     (ms_workers s \<noteq> [] \<longrightarrow> ms_state s = Mcp_Running)"

lemma table_ok_controls: "table_ok s \<Longrightarrow> distinct (map wk_control (ms_workers s))"
  by (simp add: table_ok_def)

lemma worker_split:
  assumes "distinct (map wk_control ws)" and "w \<in> set ws"
  obtains us vs where "ws = us @ w # vs"
    and "\<forall>pc. map (\<lambda>v. if wk_control v = wk_control w then v\<lparr>wk_pc := pc\<rparr> else v) ws = us @ w\<lparr>wk_pc := pc\<rparr> # vs"
    and "filter (\<lambda>v. wk_control v \<noteq> wk_control w) ws = us @ vs"
proof -
  obtain us vs where ws: "ws = us @ w # vs" using assms(2) by (auto simp: in_set_conv_decomp)
  with assms(1) have "wk_control w \<notin> wk_control ` set us" "wk_control w \<notin> wk_control ` set vs" by auto
  then have out: "\<forall>v\<in>set us. wk_control v \<noteq> wk_control w" "\<forall>v\<in>set vs. wk_control v \<noteq> wk_control w"
    by (metis image_eqI)+
  then have "map (\<lambda>v. if wk_control v = wk_control w then v\<lparr>wk_pc := pc\<rparr> else v) us = us"
    "map (\<lambda>v. if wk_control v = wk_control w then v\<lparr>wk_pc := pc\<rparr> else v) vs = vs" for pc
    by (simp_all add: map_idI)
  moreover from out have "filter (\<lambda>v. wk_control v \<noteq> wk_control w) us = us" "filter (\<lambda>v. wk_control v \<noteq> wk_control w) vs = vs"
    by (simp_all add: filter_True)
  ultimately show ?thesis using ws that [of us vs] by simp
qed

lemma set_pc_fields [simp]:
  "ms_requests (set_pc a pc s) = ms_requests s" "ms_state (set_pc a pc s) = ms_state s"
  "ms_main (set_pc a pc s) = ms_main s" "ms_failed (set_pc a pc s) = ms_failed s"
  "ms_transport (set_pc a pc s) = ms_transport s" "ms_next (set_pc a pc s) = ms_next s"
  "ms_controls (set_pc a pc s) = ms_controls s"
  by (simp_all add: set_pc_def)

lemma control_fields [simp]:
  "ms_requests (complete_control a s) = ms_requests s" "ms_state (complete_control a s) = ms_state s"
  "ms_main (complete_control a s) = ms_main s" "ms_failed (complete_control a s) = ms_failed s"
  "ms_transport (complete_control a s) = ms_transport s" "ms_next (complete_control a s) = ms_next s"
  "ms_workers (complete_control a s) = ms_workers s"
  "ms_requests (expire_control a s) = ms_requests s" "ms_state (expire_control a s) = ms_state s"
  "ms_main (expire_control a s) = ms_main s" "ms_failed (expire_control a s) = ms_failed s"
  "ms_transport (expire_control a s) = ms_transport s" "ms_next (expire_control a s) = ms_next s"
  "ms_workers (expire_control a s) = ms_workers s"
  "ms_requests (cancel_all s) = ms_requests s" "ms_state (cancel_all s) = ms_state s"
  "ms_main (cancel_all s) = ms_main s" "ms_failed (cancel_all s) = ms_failed s"
  "ms_transport (cancel_all s) = ms_transport s" "ms_next (cancel_all s) = ms_next s"
  "ms_workers (cancel_all s) = ms_workers s"
  by (simp_all add: complete_control_def expire_control_def cancel_all_def)

lemma mcp_send_fields:
  "mcp_send te m s = (ok, s1) \<Longrightarrow> ms_requests s1 = ms_requests s \<and> ms_state s1 = ms_state s \<and> ms_main s1 = ms_main s \<and>
     ms_failed s1 = ms_failed s \<and> ms_next s1 = ms_next s \<and> ms_workers s1 = ms_workers s \<and> ms_controls s1 = ms_controls s \<and>
     mcp_write te m (ms_transport s) = (ok, ms_transport s1)"
  by (auto simp: mcp_send_def split: prod.splits)

lemma set_pc_split:
  assumes "table_ok s" and "w \<in> set (ms_workers s)"
  obtains us vs where "ms_workers s = us @ w # vs"
    and "\<forall>pc. ms_workers (set_pc (wk_control w) pc s) = us @ w\<lparr>wk_pc := pc\<rparr> # vs"
    and "ms_workers (finish_worker w s) = us @ vs"
proof -
  obtain us vs where "ms_workers s = us @ w # vs"
    "\<forall>pc. map (\<lambda>v. if wk_control v = wk_control w then v\<lparr>wk_pc := pc\<rparr> else v) (ms_workers s) = us @ w\<lparr>wk_pc := pc\<rparr> # vs"
    "filter (\<lambda>v. wk_control v \<noteq> wk_control w) (ms_workers s) = us @ vs"
    using worker_split [OF table_ok_controls [OF assms(1)] assms(2)] .
  then show ?thesis using that [of us vs] by (simp add: set_pc_def finish_worker_def)
qed

lemma map_of_snoc: "k \<notin> fst ` set xs \<Longrightarrow> map_of (xs @ [(k, a)]) = (map_of xs)(k \<mapsto> a)"
  by (induction xs) auto

lemma map_of_remove:
  "k \<notin> fst ` set (xs @ ys) \<Longrightarrow> (map_of (xs @ (k, a) # ys))(k := None) = map_of (xs @ ys)"
proof (induction xs)
  case Nil
  then have "map_of ys k = None" by (simp add: map_of_eq_None_iff)
  then show ?case by (simp add: fun_eq_iff)
qed (auto simp: fun_upd_twist)

lemma table_ok_cong:
  assumes "ms_requests s1 = ms_requests s" "ms_workers s1 = ms_workers s" "ms_next s1 = ms_next s"
    "ms_state s1 = ms_state s \<or> ms_workers s = [] \<or> ms_state s1 = Mcp_Running"
  shows "table_ok s \<Longrightarrow> table_ok s1"
  using assms by (auto simp: table_ok_def)

lemma table_ok_set_pc:
  assumes ok: "table_ok s" and w: "w \<in> set (ms_workers s)" and m: "\<And>m. pc = Answering m \<Longrightarrow> response_id m = id_value (wk_id w)"
  shows "table_ok (set_pc (wk_control w) pc s)"
proof -
  obtain us vs where p: "ms_workers s = us @ w # vs" "ms_workers (set_pc (wk_control w) pc s) = us @ w\<lparr>wk_pc := pc\<rparr> # vs"
    using set_pc_split [OF ok w] by metis
  have "entry (w\<lparr>wk_pc := pc\<rparr>) = entry w" by (simp add: entry_def)
  then show ?thesis using ok m unfolding table_ok_def p by (simp add: ball_Un)
qed

lemma table_ok_add:
  assumes ok: "table_ok s" and n: "ms_requests s (id_key i) = None" and "ms_state s = Mcp_Running"
  shows "table_ok (add_worker i payload s)"
proof -
  let ?ws = "ms_workers s"
  from ok have o: "distinct (map wk_control ?ws)" "distinct (map fst (map entry ?ws))" "ms_requests s = map_of (map entry ?ws)"
    "\<forall>w\<in>set ?ws. wk_control w < ms_next s" "\<forall>w\<in>set ?ws. \<forall>m. wk_pc w = Answering m \<longrightarrow> response_id m = id_value (wk_id w)"
    by (simp_all add: table_ok_def)
  from n have k: "id_key i \<notin> fst ` set (map entry ?ws)" using o(3) by (metis map_of_eq_None_iff)
  have "ms_next s \<notin> wk_control ` set ?ws" using o(4) by auto
  moreover have "map_of (map entry ?ws @ [(id_key i, ms_next s)]) = (map_of (map entry ?ws))(id_key i \<mapsto> ms_next s)"
    using map_of_snoc [OF k] .
  ultimately show ?thesis using o k assms(3) unfolding table_ok_def add_worker_def
    by (simp add: entry_def ball_Un less_Suc_eq image_image)
qed

lemma table_ok_finish:
  assumes ok: "table_ok s" and w: "w \<in> set (ms_workers s)"
  shows "table_ok (finish_worker w s)"
proof -
  obtain us vs where p: "ms_workers s = us @ w # vs" "ms_workers (finish_worker w s) = us @ vs"
    using set_pc_split [OF ok w] by metis
  from ok have o: "distinct (map fst (map entry (us @ w # vs)))" "ms_requests s = map_of (map entry (us @ w # vs))"
    unfolding table_ok_def p by auto
  from o(1) have "id_key (wk_id w) \<notin> fst ` set (map entry us @ map entry vs)" by (auto simp: entry_def)
  from map_of_remove [OF this, of "wk_control w"]
  have "(map_of (map entry (us @ w # vs)))(id_key (wk_id w) := None) = map_of (map entry (us @ vs))"
    by (simp add: entry_def)
  with o(2) have "ms_requests (finish_worker w s) = map_of (map entry (us @ vs))" by (simp add: finish_worker_def)
  moreover have "ms_next (finish_worker w s) = ms_next s" "ms_state (finish_worker w s) = ms_state s"
    by (simp_all add: finish_worker_def)
  ultimately show ?thesis using ok unfolding table_ok_def p by auto
qed

lemma same_table_ok:
  assumes "same_table s s1" and "ms_state s1 = ms_state s \<or> ms_state s \<noteq> Mcp_Running"
  shows "table_ok s \<Longrightarrow> table_ok s1"
  using assms by (auto simp: table_ok_def same_table_def)

lemma mcp_dispatch_state:
  "mcp_dispatch opts message payload s = (m, s1) \<Longrightarrow> ms_state s1 = ms_state s \<or> ms_state s \<noteq> Mcp_Running"
  by (auto simp: mcp_dispatch_def Let_def mcp_initialize_def mcp_cancel_def cancel_control_def call_tool_def add_worker_def
      split: option.splits if_splits prod.splits)

lemma mcp_handle_state: "mcp_handle te opts payload s = (m, s1) \<Longrightarrow> ms_state s1 = ms_state s \<or> ms_state s \<noteq> Mcp_Running"
  by (auto simp: mcp_handle_def dest: mcp_dispatch_state split: option.splits)

lemma handle_table_ok:
  assumes "mcp_handle te opts payload s = (m, s1)" and "table_ok s"
  shows "table_ok s1"
  using mcp_handle_turn [OF assms(1)]
  by (cases rule: mcp_turn.cases) (auto intro: same_table_ok [OF _ mcp_handle_state [OF assms(1)] assms(2)] table_ok_add [OF assms(2)])

text \<open>Any step keeps the table; the cases that change it are the lemmas above.\<close>

lemma mcp_step_table:
  assumes "mcp_step te y opts s ev s'" and ok: "table_ok s"
  shows "table_ok s'"
  using assms(1)
proof (cases rule: mcp_step.cases)
  case (handle_silent payload s1)
  with handle_table_ok [OF handle_silent(4) ok] show ?thesis by (auto intro: table_ok_cong)
next
  case (handle_answer payload m s1 ok' s2)
  with handle_table_ok [OF _ ok] show ?thesis by (auto dest!: mcp_send_fields intro: table_ok_cong [of _ s1])
next
  case (complete w r)
  then show ?thesis by (auto intro!: table_ok_set_pc [of "complete_control (wk_control w) s" w] intro: table_ok_cong [OF _ _ _ _ ok])
next
  case (answer w m ok' s1)
  then show ?thesis by (auto dest!: mcp_send_fields intro!: table_ok_set_pc [of s1 w] intro: table_ok_cong [OF _ _ _ _ ok])
next
  case (report w ok')
  have "table_ok (set_pc (wk_control w) Finishing (complete_control (wk_control w) s))"
    using report by (auto intro!: table_ok_set_pc [of "complete_control (wk_control w) s" w] intro: table_ok_cong [OF _ _ _ _ ok])
  with report show ?thesis by (simp add: table_ok_def)
qed (auto intro: table_ok_cong [OF _ _ _ _ ok] table_ok_set_pc [OF ok] table_ok_finish [OF ok])

lemma start_table: "table_ok (start_server t)"
  by (simp add: table_ok_def start_server_def)

lemma mcp_run_table: "mcp_run te y opts s evs s' \<Longrightarrow> table_ok s \<Longrightarrow> table_ok s'"
  by (induction rule: mcp_run.induct) (auto dest: mcp_step_table)

section \<open>Accounts\<close>

text \<open>Each response that is owed was sent, or a thread will send it, or its message is being handled.\<close>

definition outstanding :: "worker \<Rightarrow> bool" where
  "outstanding w \<longleftrightarrow> (case wk_pc w of Written ok \<Rightarrow> False | Finishing \<Rightarrow> False | _ \<Rightarrow> True)"

definition waiting_ids :: "mcp_server \<Rightarrow> jvalue multiset" where
  "waiting_ids s = mset (map (\<lambda>w. id_value (wk_id w)) (filter outstanding (ms_workers s)))"

definition handled_ids :: "transport_env \<Rightarrow> mcp_server \<Rightarrow> jvalue multiset" where
  "handled_ids te s = (case ms_main s of Handling p \<Rightarrow> mset (owed_ids te [p]) | _ \<Rightarrow> {#})"

definition accounted :: "transport_env \<Rightarrow> event list \<Rightarrow> mcp_server \<Rightarrow> bool" where
  "accounted te evs s \<longleftrightarrow>
     mset (owed_ids te (received evs)) = mset (map response_id (sent evs)) + waiting_ids s + handled_ids te s"

lemma outstanding_simps [simp]:
  "outstanding (w\<lparr>wk_pc := Returned r\<rparr>)" "outstanding (w\<lparr>wk_pc := Completed r\<rparr>)" "outstanding (w\<lparr>wk_pc := Answering m\<rparr>)"
  "\<not> outstanding (w\<lparr>wk_pc := Written ok\<rparr>)" "\<not> outstanding (w\<lparr>wk_pc := Finishing\<rparr>)"
  "outstanding \<lparr>wk_id = i, wk_payload = p, wk_control = a, wk_pc = Started\<rparr>"
  by (simp_all add: outstanding_def)

lemma outstanding_pc:
  "wk_pc w = Started \<Longrightarrow> outstanding w" "wk_pc w = Returned r \<Longrightarrow> outstanding w" "wk_pc w = Completed r \<Longrightarrow> outstanding w"
  "wk_pc w = Answering m \<Longrightarrow> outstanding w" "wk_pc w = Written ok \<Longrightarrow> \<not> outstanding w" "wk_pc w = Finishing \<Longrightarrow> \<not> outstanding w"
  by (simp_all add: outstanding_def)

lemma waiting_set_pc:
  assumes "table_ok s" and "w \<in> set (ms_workers s)" and "outstanding (w\<lparr>wk_pc := pc\<rparr>) = outstanding w"
  shows "waiting_ids (set_pc (wk_control w) pc s) = waiting_ids s"
proof -
  obtain us vs where "ms_workers s = us @ w # vs" "ms_workers (set_pc (wk_control w) pc s) = us @ w\<lparr>wk_pc := pc\<rparr> # vs"
    using set_pc_split [OF assms(1,2)] by metis
  with assms(3) show ?thesis by (simp add: waiting_ids_def)
qed

lemma waiting_written:
  assumes "table_ok s" and "w \<in> set (ms_workers s)" and "outstanding w"
  shows "waiting_ids s = add_mset (id_value (wk_id w)) (waiting_ids (set_pc (wk_control w) (Written ok) s))"
proof -
  obtain us vs where "ms_workers s = us @ w # vs" "ms_workers (set_pc (wk_control w) (Written ok) s) = us @ w\<lparr>wk_pc := Written ok\<rparr> # vs"
    using set_pc_split [OF assms(1,2)] by metis
  with assms(3) show ?thesis by (simp add: waiting_ids_def)
qed

lemma waiting_finish:
  assumes "table_ok s" and "w \<in> set (ms_workers s)" and "\<not> outstanding w"
  shows "waiting_ids (finish_worker w s) = waiting_ids s"
proof -
  obtain us vs where "ms_workers s = us @ w # vs" "ms_workers (finish_worker w s) = us @ vs"
    using set_pc_split [OF assms(1,2)] by metis
  with assms(3) show ?thesis by (simp add: waiting_ids_def)
qed

lemma waiting_cong: "ms_workers s1 = ms_workers s \<Longrightarrow> waiting_ids s1 = waiting_ids s"
  by (simp add: waiting_ids_def)

lemma waiting_update [simp]:
  "waiting_ids (s\<lparr>ms_main := pc\<rparr>) = waiting_ids s" "waiting_ids (s\<lparr>ms_failed := b\<rparr>) = waiting_ids s"
  "waiting_ids (s\<lparr>ms_transport := t\<rparr>) = waiting_ids s" "waiting_ids (cancel_all s) = waiting_ids s"
  by (simp_all add: waiting_ids_def)

lemma handled_cong: "ms_main s1 = ms_main s \<Longrightarrow> handled_ids te s1 = handled_ids te s"
  by (simp add: handled_ids_def)

lemma handled_simps [simp]:
  "ms_main s = At_Loop \<Longrightarrow> handled_ids te s = {#}" "ms_main s = Reading \<Longrightarrow> handled_ids te s = {#}"
  "ms_main s = Draining \<Longrightarrow> handled_ids te s = {#}" "ms_main s = Waiting \<Longrightarrow> handled_ids te s = {#}"
  "ms_main s = Exited_With ret \<Longrightarrow> handled_ids te s = {#}" "ms_main s = Handling p \<Longrightarrow> handled_ids te s = mset (owed_ids te [p])"
  by (simp_all add: handled_ids_def)

lemma finish_worker_fields [simp]:
  "ms_main (finish_worker w s) = ms_main s" "ms_failed (finish_worker w s) = ms_failed s"
  "ms_transport (finish_worker w s) = ms_transport s" "ms_controls (finish_worker w s) = ms_controls s"
  "ms_state (finish_worker w s) = ms_state s"
  by (simp_all add: finish_worker_def)

lemma handle_accounted:
  assumes "ms_main s = Handling payload" and "mcp_handle te opts payload s = (m, s1)" and "accounted te evs s"
  shows "mset (owed_ids te (received evs)) =
    mset (map response_id (sent evs)) + waiting_ids s1 + (case m of None \<Rightarrow> {#} | Some a \<Rightarrow> {#response_id a#})"
  using mcp_handle_turn [OF assms(2)] assms(1,3)
  by (cases rule: mcp_turn.cases)
    (auto simp: accounted_def handled_ids_def owed_ids_def same_table_def add_worker_def waiting_ids_def)

lemma mcp_step_accounted:
  assumes "mcp_step te y opts s ev s'" and ok: "table_ok s" and a: "accounted te evs s"
  shows "accounted te (evs @ [ev]) s'"
  using assms(1)
proof (cases rule: mcp_step.cases)
  case (handle_silent payload s1)
  with handle_accounted [OF handle_silent(3,4) a] show ?thesis
    by (simp add: accounted_def waiting_cong [of "s1\<lparr>ms_main := At_Loop\<rparr>" s1])
next
  case (handle_answer payload m s1 ok' s2)
  with handle_accounted [OF handle_answer(3,4) a] show ?thesis
    by (auto simp: accounted_def waiting_ids_def dest!: mcp_send_fields)
next
  case (answer w m ok' s1)
  have id: "response_id m = id_value (wk_id w)" using ok answer by (simp add: table_ok_def)
  have f: "ms_workers s1 = ms_workers s" "ms_main s1 = ms_main s" "table_ok s1"
    using answer(5) table_ok_cong [OF _ _ _ _ ok, of s1] by (auto dest!: mcp_send_fields)
  with waiting_written [OF f(3), of w ok'] answer id a show ?thesis
    by (simp add: accounted_def waiting_cong [of s1 s] handled_cong [of s1 s] handled_cong [of "set_pc a pc s1" s1 for a pc] outstanding_pc(4))
next
  case (finish w)
  with waiting_finish [OF ok, of w] a show ?thesis
    by (simp add: accounted_def outstanding_pc handled_cong [of "finish_worker w s" s])
next
  case (complete w r)
  let ?c = "complete_control (wk_control w) s"
  have "table_ok ?c" using table_ok_cong [OF _ _ _ _ ok, of ?c] by simp
  with waiting_set_pc [of ?c w "Completed r"] complete a show ?thesis
    by (simp add: accounted_def outstanding_pc waiting_cong [of ?c s] handled_cong [of "set_pc a pc ?c" s for a pc])
next
  case (report w ok')
  let ?c = "complete_control (wk_control w) s"
  have "table_ok ?c" using table_ok_cong [OF _ _ _ _ ok, of ?c] by simp
  with waiting_set_pc [of ?c w Finishing] report a show ?thesis
    by (simp add: accounted_def outstanding_pc waiting_cong [of ?c s] handled_cong [of "(set_pc a pc ?c)\<lparr>ms_failed := b\<rparr>" s for a pc b]
        waiting_cong [of "(set_pc a pc ?c)\<lparr>ms_failed := b\<rparr>" "set_pc a pc ?c" for a pc b])
qed (use a in \<open>simp_all add: accounted_def waiting_set_pc [OF ok] outstanding_pc waiting_cong [of "expire_control k s" s for k]
      handled_cong [of "set_pc k pc s" s for k pc] handled_cong [of "expire_control k s" s for k]\<close>)

section \<open>Failures and the output\<close>

definition line_of_message :: "transport_env \<Rightarrow> jvalue \<Rightarrow> string" where
  "line_of_message te m = te_print te m @ newline"

definition reported :: "transport_env \<Rightarrow> string \<Rightarrow> event list \<Rightarrow> mcp_server \<Rightarrow> bool" where
  "reported te base evs s \<longleftrightarrow>
     (\<forall>ret. ms_main s = Exited_With ret \<longrightarrow> ms_workers s = [] \<and> ret = (if ms_failed s then 1 else 0)) \<and>
     ((\<exists>m. Sent m False \<in> set evs) \<longrightarrow> ms_failed s \<or> (\<exists>w\<in>set (ms_workers s). wk_pc w = Written False)) \<and>
     ((\<forall>m. Sent m False \<notin> set evs) \<longrightarrow>
        o_text (tr_out (ms_transport s)) = base @ concat (map (line_of_message te) (sent evs)))"

lemma mcp_read_out: "mcp_read te t = (res, p, t') \<Longrightarrow> tr_out t' = tr_out t"
  by (auto simp: mcp_read_def Let_def split: prod.splits bool.splits if_splits)

lemma handle_keeps:
  assumes "mcp_handle te opts payload s = (m, s1)"
  shows "ms_failed s1 = ms_failed s \<and> ms_transport s1 = ms_transport s \<and> ms_main s1 = ms_main s \<and>
    (\<forall>w\<in>set (ms_workers s). w \<in> set (ms_workers s1))"
  using mcp_handle_turn [OF assms] by (cases rule: mcp_turn.cases) (auto simp: same_table_def add_worker_def)

lemma set_pc_worker:
  assumes "table_ok s" and "w \<in> set (ms_workers s)"
  shows "w\<lparr>wk_pc := pc\<rparr> \<in> set (ms_workers (set_pc (wk_control w) pc s))"
    and "v \<in> set (ms_workers s) \<Longrightarrow> wk_pc v \<noteq> wk_pc w \<Longrightarrow> v \<in> set (ms_workers (set_pc (wk_control w) pc s))"
    and "v \<in> set (ms_workers s) \<Longrightarrow> wk_pc v \<noteq> wk_pc w \<Longrightarrow> v \<in> set (ms_workers (finish_worker w s))"
proof -
  obtain us vs where p: "ms_workers s = us @ w # vs" "ms_workers (set_pc (wk_control w) pc s) = us @ w\<lparr>wk_pc := pc\<rparr> # vs"
    "ms_workers (finish_worker w s) = us @ vs"
    using set_pc_split [OF assms] by metis
  then show "w\<lparr>wk_pc := pc\<rparr> \<in> set (ms_workers (set_pc (wk_control w) pc s))" by simp
  show "v \<in> set (ms_workers s) \<Longrightarrow> wk_pc v \<noteq> wk_pc w \<Longrightarrow> v \<in> set (ms_workers (set_pc (wk_control w) pc s))"
    "v \<in> set (ms_workers s) \<Longrightarrow> wk_pc v \<noteq> wk_pc w \<Longrightarrow> v \<in> set (ms_workers (finish_worker w s))"
    using p by auto
qed

text \<open>A failure that was not reported yet stays with its thread; nothing happens after the exit.\<close>

definition failure_kept :: "mcp_server \<Rightarrow> mcp_server \<Rightarrow> bool" where
  "failure_kept s s' \<longleftrightarrow>
     (ms_failed s \<or> (\<exists>w\<in>set (ms_workers s). wk_pc w = Written False) \<longrightarrow>
      ms_failed s' \<or> (\<exists>w\<in>set (ms_workers s'). wk_pc w = Written False))"

lemma mcp_step_failure:
  assumes "mcp_step te y opts s ev s'" and ok: "table_ok s"
  shows "failure_kept s s'"
  using assms(1)
proof (cases rule: mcp_step.cases)
  case (handle_silent payload s1)
  with handle_keeps [OF handle_silent(4)] show ?thesis by (auto simp: failure_kept_def)
next
  case (handle_answer payload m s1 ok' s2)
  with handle_keeps [OF handle_answer(4)] show ?thesis by (auto simp: failure_kept_def dest!: mcp_send_fields)
next
  case (complete w r)
  have "table_ok (complete_control (wk_control w) s)" by (rule table_ok_cong [OF _ _ _ _ ok]) simp_all
  from set_pc_worker(2) [OF this] complete show ?thesis by (fastforce simp: failure_kept_def)
next
  case (answer w m ok' s1)
  have "ms_workers s1 = ms_workers s" "ms_failed s1 = ms_failed s" "table_ok s1"
    using answer(5) table_ok_cong [OF _ _ _ _ ok, of s1] by (auto dest!: mcp_send_fields)
  with set_pc_worker(2) [of s1 w] answer show ?thesis by (fastforce simp: failure_kept_def)
next
  case (report w ok')
  have "table_ok (complete_control (wk_control w) s)" by (rule table_ok_cong [OF _ _ _ _ ok]) simp_all
  from set_pc_worker(2) [OF this, of w] report show ?thesis by (cases ok') (fastforce simp: failure_kept_def)+
next
  case (finish w)
  with set_pc_worker(3) [OF ok, of w] show ?thesis by (fastforce simp: failure_kept_def)
qed (use set_pc_worker(2) [OF ok] in \<open>fastforce simp: failure_kept_def\<close>)+

lemma mcp_step_exited: "mcp_step te y opts s ev s' \<Longrightarrow> ms_main s = Exited_With ret \<Longrightarrow> ms_workers s \<noteq> []"
  by (cases rule: mcp_step.cases) auto

lemma mcp_step_exit:
  assumes "mcp_step te y opts s ev s'" and "table_ok s" and "ms_main s' = Exited_With ret" and "\<forall>r. ms_main s \<noteq> Exited_With r"
  shows "ms_workers s' = [] \<and> ret = (if ms_failed s' then 1 else 0)"
  using assms
  by (cases rule: mcp_step.cases) (auto simp: table_ok_def dest!: mcp_send_fields dest: handle_keeps split: if_splits)

lemma mcp_step_output:
  assumes "mcp_step te y opts s ev s'" and "\<forall>m. ev \<noteq> Sent m False"
  shows "o_text (tr_out (ms_transport s')) =
    o_text (tr_out (ms_transport s)) @ (case ev of Sent m ok \<Rightarrow> line_of_message te m | _ \<Rightarrow> [])"
  using assms mcp_write_text
  by (cases rule: mcp_step.cases)
    (auto simp: line_of_message_def mcp_read_out dest!: mcp_send_fields dest: handle_keeps split: if_splits)

lemma mcp_step_reported:
  assumes step: "mcp_step te y opts s ev s'" and ok: "table_ok s" and r: "reported te base evs s"
  shows "reported te base (evs @ [ev]) s'"
proof -
  have "ms_workers s' = [] \<and> ret = (if ms_failed s' then 1 else 0)" if "ms_main s' = Exited_With ret" for ret
    using mcp_step_exit [OF step ok that] mcp_step_exited [OF step] r by (auto simp: reported_def)
  moreover have "ms_failed s' \<or> (\<exists>w\<in>set (ms_workers s'). wk_pc w = Written False)"
    if "Sent m False \<in> set (evs @ [ev])" for m
  proof (cases "Sent m False \<in> set evs")
    case True
    with r mcp_step_failure [OF step ok] show ?thesis unfolding reported_def failure_kept_def by blast
  next
    case False
    with that have ev: "ev = Sent m False" by simp
    from step show ?thesis
    proof (cases rule: mcp_step.cases)
      case (answer w m ok' s1)
      have "ms_workers s1 = ms_workers s" "table_ok s1"
        using answer(5) table_ok_cong [OF _ _ _ _ ok, of s1] by (auto dest!: mcp_send_fields)
      with set_pc_worker(1) [of s1 w "Written False"] answer ev show ?thesis by force
    qed (use ev in auto)
  qed
  moreover have "o_text (tr_out (ms_transport s')) = base @ concat (map (line_of_message te) (sent (evs @ [ev])))"
    if "\<forall>m. Sent m False \<notin> set (evs @ [ev])"
  proof -
    from that have "\<forall>m. ev \<noteq> Sent m False" by auto
    with mcp_step_output [OF step] r that show ?thesis
      by (auto simp: reported_def sent_def split: event.splits)
  qed
  ultimately show ?thesis unfolding reported_def by blast
qed

lemma mcp_run_invariants:
  assumes "mcp_run te y opts (start_server t) evs s"
  shows "table_ok s \<and> accounted te evs s \<and> reported te (o_text (tr_out t)) evs s"
  using assms
proof (induction "start_server t" evs s rule: mcp_run.induct)
  case run_start
  show ?case
    using start_table [of t]
    by (simp add: accounted_def reported_def waiting_ids_def start_server_def handled_ids_def)
next
  case (run_step evs s1 ev s2)
  then show ?case using mcp_step_table mcp_step_accounted mcp_step_reported by metis
qed

text \<open>
  C37. However the threads interleave, no message is answered twice and nothing is answered that does
  not ask for it: the identifiers of the responses written so far are among those owed. When the
  server has returned every request has had its response, and if it returned 0 the output consists
  of the responses, one whole line each.
\<close>

theorem mcp_answers_once:
  assumes "mcp_run te y opts (start_server t) evs s"
  shows "mset (map response_id (sent evs)) \<subseteq># mset (owed_ids te (received evs)) \<and>
    (\<forall>ret. ms_main s = Exited_With ret \<longrightarrow>
       mset (map response_id (sent evs)) = mset (owed_ids te (received evs)) \<and>
       (ret = 0 \<longrightarrow> o_text (tr_out (ms_transport s)) = o_text (tr_out t) @ concat (map (line_of_message te) (sent evs))))"
proof -
  from mcp_run_invariants [OF assms] have a: "accounted te evs s" and r: "reported te (o_text (tr_out t)) evs s" by auto
  have "mset (map response_id (sent evs)) = mset (owed_ids te (received evs))" if "ms_main s = Exited_With ret" for ret
    using a r that by (simp add: accounted_def reported_def waiting_ids_def)
  moreover have "o_text (tr_out (ms_transport s)) = o_text (tr_out t) @ concat (map (line_of_message te) (sent evs))"
    if "ms_main s = Exited_With 0"
    using r that unfolding reported_def by (metis empty_iff empty_set zero_neq_one)
  ultimately show ?thesis using a by (auto simp: accounted_def)
qed

section \<open>Progress\<close>

text \<open>How many steps a thread and the main thread can still take, up to the messages that are not read yet.\<close>

definition pc_weight :: "worker_pc \<Rightarrow> nat" where
  "pc_weight pc =
     (case pc of Started \<Rightarrow> 6 | Returned r \<Rightarrow> 5 | Completed r \<Rightarrow> 4 | Answering m \<Rightarrow> 3 | Written ok \<Rightarrow> 2 | Finishing \<Rightarrow> 1)"

definition worker_weight :: "mcp_server \<Rightarrow> worker \<Rightarrow> nat" where
  "worker_weight s w = pc_weight (wk_pc w) + (if ct_timed_out (ms_controls s (wk_control w)) then 0 else 1)"

definition main_weight :: "mcp_server \<Rightarrow> nat" where
  "main_weight s =
     (case ms_main s of Exited_With r \<Rightarrow> 0 | Waiting \<Rightarrow> 1 | Draining \<Rightarrow> 2 | Reading \<Rightarrow> 3 | At_Loop \<Rightarrow> 4 | Handling p \<Rightarrow> 12)"

definition mcp_weight :: "mcp_server \<Rightarrow> nat" where
  "mcp_weight s =
     20 * length (in_rest (tr_in (ms_transport s))) + main_weight s + sum_list (map (worker_weight s) (ms_workers s))"

lemma mcp_read_shrinks:
  "mcp_read te t = (Message, p, t') \<Longrightarrow> length (in_rest (tr_in t')) < length (in_rest (tr_in t))"
  by (auto simp: mcp_read_def Let_def dest: getline_shrinks split: prod.splits bool.splits if_splits)

lemma mcp_read_rest:
  "mcp_read te t = (res, p, t') \<Longrightarrow> length (in_rest (tr_in t')) \<le> length (in_rest (tr_in t))"
  by (auto simp: mcp_read_def getline_def Let_def dest: split_line_Some split_line_None
      split: prod.splits bool.splits if_splits option.splits)

lemma mcp_write_in: "mcp_write te m t = (ok, t') \<Longrightarrow> tr_in t' = tr_in t"
  by (auto simp: mcp_write_def Let_def split: prod.splits if_splits)

definition same_deadlines :: "mcp_server \<Rightarrow> mcp_server \<Rightarrow> bool" where
  "same_deadlines s s' \<longleftrightarrow> (\<forall>a. ct_timed_out (ms_controls s' a) = ct_timed_out (ms_controls s a))"

lemma worker_weight_cong: "same_deadlines s s' \<Longrightarrow> worker_weight s' = worker_weight s"
  by (auto simp: same_deadlines_def worker_weight_def fun_eq_iff)

lemma same_deadlines_simps [simp]:
  "same_deadlines s s" "same_deadlines s (set_pc a pc s)" "same_deadlines s (complete_control a s)"
  "same_deadlines s (set_pc a pc (complete_control b s))" "same_deadlines s (cancel_all s)" "same_deadlines s (finish_worker w s)"
  by (auto simp: same_deadlines_def set_pc_def complete_control_def cancel_all_def finish_worker_def)

lemma weights_set_pc:
  assumes "table_ok s" and "w \<in> set (ms_workers s)" and "pc_weight pc < pc_weight (wk_pc w)"
  shows "sum_list (map (worker_weight s) (ms_workers (set_pc (wk_control w) pc s))) <
    sum_list (map (worker_weight s) (ms_workers s))"
proof -
  obtain us vs where "ms_workers s = us @ w # vs" "ms_workers (set_pc (wk_control w) pc s) = us @ w\<lparr>wk_pc := pc\<rparr> # vs"
    using set_pc_split [OF assms(1,2)] by metis
  with assms(3) show ?thesis by (simp add: worker_weight_def)
qed

lemma weights_finish:
  assumes "table_ok s" and "w \<in> set (ms_workers s)" and "wk_pc w = Finishing"
  shows "sum_list (map (worker_weight s) (ms_workers (finish_worker w s))) < sum_list (map (worker_weight s) (ms_workers s))"
proof -
  obtain us vs where "ms_workers s = us @ w # vs" "ms_workers (finish_worker w s) = us @ vs"
    using set_pc_split [OF assms(1,2)] by metis
  with assms(3) show ?thesis by (simp add: worker_weight_def pc_weight_def)
qed

lemma weights_expire:
  assumes "table_ok s" and "w \<in> set (ms_workers s)" and "\<not> ct_timed_out (ms_controls s (wk_control w))"
  shows "sum_list (map (worker_weight (expire_control (wk_control w) s)) (ms_workers s)) <
    sum_list (map (worker_weight s) (ms_workers s))"
proof -
  let ?s = "expire_control (wk_control w) s"
  obtain us vs where p: "ms_workers s = us @ w # vs" using assms(2) by (auto simp: in_set_conv_decomp)
  with table_ok_controls [OF assms(1)] have "wk_control w \<notin> wk_control ` set us" "wk_control w \<notin> wk_control ` set vs" by auto
  then have "\<forall>v\<in>set us. wk_control v \<noteq> wk_control w" "\<forall>v\<in>set vs. wk_control v \<noteq> wk_control w" by (metis image_eqI)+
  then have "map (worker_weight ?s) us = map (worker_weight s) us" "map (worker_weight ?s) vs = map (worker_weight s) vs"
    by (auto simp: worker_weight_def expire_control_def)
  moreover have "worker_weight ?s w < worker_weight s w" using assms(3) by (simp add: worker_weight_def expire_control_def)
  ultimately show ?thesis by (simp only: p map_append sum_list_append list.map sum_list.Cons)
qed

lemma mcp_weight_main:
  assumes "ms_workers s' = ms_workers s" and "same_deadlines s s'" and "main_weight s' < main_weight s"
    and "length (in_rest (tr_in (ms_transport s'))) \<le> length (in_rest (tr_in (ms_transport s)))"
  shows "mcp_weight s' < mcp_weight s"
  using assms worker_weight_cong [OF assms(2)] by (simp add: mcp_weight_def)

lemma mcp_weight_worker:
  assumes "sum_list (map (worker_weight s') (ms_workers s')) < sum_list (map (worker_weight s) (ms_workers s))"
    and "ms_main s' = ms_main s" and "tr_in (ms_transport s') = tr_in (ms_transport s)"
  shows "mcp_weight s' < mcp_weight s"
  using assms by (simp add: mcp_weight_def main_weight_def)

lemma handle_weight:
  assumes "mcp_handle te opts payload s = (m, s1)" and "ms_main s = Handling payload" and "table_ok s"
    and s': "ms_workers s' = ms_workers s1" "ms_controls s' = ms_controls s1" "ms_main s' = At_Loop"
      "tr_in (ms_transport s') = tr_in (ms_transport s1)"
  shows "mcp_weight s' < mcp_weight s"
  using mcp_handle_turn [OF assms(1)]
proof (cases rule: mcp_turn.cases)
  case (turn_call i)
  have "map (worker_weight s') (ms_workers s) = map (worker_weight s) (ms_workers s)"
    using assms(3) s'(2) turn_call by (auto simp: table_ok_def worker_weight_def add_worker_def)
  then have "sum_list (map (worker_weight s') (ms_workers s)) = sum_list (map (worker_weight s) (ms_workers s))" by (rule arg_cong)
  then show ?thesis
    using turn_call assms(2) s' by (simp add: mcp_weight_def main_weight_def add_worker_def worker_weight_def pc_weight_def new_control_def)
next
  case (turn_answer a)
  have "ms_workers s' = ms_workers s" "same_deadlines s s'"
    using turn_answer s' by (simp_all add: same_table_def same_deadlines_def)
  then show ?thesis using turn_answer s' assms(2) by (intro mcp_weight_main) (simp_all add: main_weight_def same_table_def)
next
  case turn_silent
  have "ms_workers s' = ms_workers s" "same_deadlines s s'"
    using turn_silent s' by (simp_all add: same_table_def same_deadlines_def)
  then show ?thesis using turn_silent s' assms(2) by (intro mcp_weight_main) (simp_all add: main_weight_def same_table_def)
qed

lemma mcp_step_weight:
  assumes "mcp_step te y opts s ev s'" and ok: "table_ok s"
  shows "mcp_weight s' < mcp_weight s"
  using assms(1)
proof (cases rule: mcp_step.cases)
  case (read_message payload t)
  then have "worker_weight s' = worker_weight s" by (intro worker_weight_cong) (simp add: same_deadlines_def)
  with mcp_read_shrinks [OF read_message(4)] read_message show ?thesis by (simp add: mcp_weight_def main_weight_def)
next
  case (handle_silent payload s1)
  then show ?thesis by (intro handle_weight [OF handle_silent(4,3) ok]) simp_all
next
  case (handle_answer payload m s1 ok' s2)
  then show ?thesis by (intro handle_weight [OF handle_answer(4,3) ok]) (auto dest!: mcp_send_fields mcp_write_in)
next
  case (expire w)
  with weights_expire [OF ok, of w] show ?thesis by (intro mcp_weight_worker) simp_all
next
  case (complete w r)
  let ?c = "complete_control (wk_control w) s"
  have "table_ok ?c" by (rule table_ok_cong [OF _ _ _ _ ok]) simp_all
  moreover have "worker_weight s' = worker_weight s" "worker_weight ?c = worker_weight s"
    using complete by (simp_all add: worker_weight_cong)
  ultimately show ?thesis using weights_set_pc [of ?c w "Completed r"] complete
    by (intro mcp_weight_worker) (simp_all add: pc_weight_def)
next
  case (report w ok')
  let ?c = "complete_control (wk_control w) s"
  have "table_ok ?c" by (rule table_ok_cong [OF _ _ _ _ ok]) simp_all
  moreover have "same_deadlines s s'" using report by (simp add: same_deadlines_def complete_control_def)
  then have "worker_weight s' = worker_weight s" "worker_weight ?c = worker_weight s" by (simp_all add: worker_weight_cong)
  ultimately show ?thesis using weights_set_pc [of ?c w Finishing] report
    by (intro mcp_weight_worker) (simp_all add: pc_weight_def)
next
  case (answer w m ok' s1)
  have f: "ms_workers s1 = ms_workers s" "table_ok s1" "same_deadlines s s1" "same_deadlines s s'"
    using answer table_ok_cong [OF _ _ _ _ ok, of s1] by (auto dest!: mcp_send_fields simp: same_deadlines_def)
  then have "worker_weight s' = worker_weight s" "worker_weight s1 = worker_weight s" by (simp_all add: worker_weight_cong)
  with f weights_set_pc [OF f(2), of w "Written ok'"] answer show ?thesis
    by (intro mcp_weight_worker) (auto simp: pc_weight_def dest!: mcp_send_fields mcp_write_in)
next
  case (finish w)
  then have "worker_weight s' = worker_weight s" by (simp add: worker_weight_cong)
  with weights_finish [OF ok, of w] finish show ?thesis by (intro mcp_weight_worker) simp_all
next
  case (refuse w code message)
  then have "worker_weight s' = worker_weight s" by (simp add: worker_weight_cong)
  with weights_set_pc [OF ok, of w] refuse show ?thesis by (intro mcp_weight_worker) (simp_all add: pc_weight_def)
next
  case (call w name arguments e opened mw r mw')
  then have "worker_weight s' = worker_weight s" by (simp add: worker_weight_cong)
  with weights_set_pc [OF ok, of w] call show ?thesis by (intro mcp_weight_worker) (simp_all add: pc_weight_def)
next
  case (decide w r)
  then have "worker_weight s' = worker_weight s" by (simp add: worker_weight_cong)
  with weights_set_pc [OF ok, of w] decide show ?thesis by (intro mcp_weight_worker) (simp_all add: pc_weight_def)
qed (auto intro!: mcp_weight_main simp: main_weight_def same_deadlines_def cancel_all_def dest: mcp_read_rest)

lemma worker_can_step:
  assumes w: "w \<in> set (ms_workers s)"
  shows "\<exists>ev s'. mcp_step te y opts s ev s'"
proof (cases "wk_pc w")
  case Started
  show ?thesis
  proof (cases "worker_request te (wk_payload w)")
    case (Inl a)
    with w Started show ?thesis by (cases a) (auto intro: mcp_step.refuse)
  next
    case (Inr b)
    obtain r mw' where "tool_call y undefined opts True (fst b) (snd b) undefined = (r, mw')" by (rule prod.exhaust)
    with w Started Inr show ?thesis by (cases b) (auto intro: mcp_step.call)
  qed
next
  case (Answering m)
  obtain ok s1 where "mcp_send te m s = (ok, s1)" by (rule prod.exhaust)
  with w Answering show ?thesis by (auto intro: mcp_step.answer)
qed (use w in \<open>auto intro: mcp_step.complete mcp_step.decide mcp_step.report mcp_step.finish\<close>)

lemma main_can_step:
  assumes "table_ok s" and "ms_workers s = []" and "\<forall>ret. ms_main s \<noteq> Exited_With ret"
  shows "\<exists>ev s'. mcp_step te y opts s ev s'"
proof (cases "ms_main s")
  case Reading
  obtain res p t where r: "mcp_read te (ms_transport s) = (res, p, t)" by (rule prod_cases3)
  with Reading show ?thesis by (cases res) (auto intro: mcp_step.read_message mcp_step.read_end mcp_step.read_error)
next
  case (Handling payload)
  obtain m s1 where h: "mcp_handle te opts payload s = (m, s1)" by (rule prod.exhaust)
  show ?thesis
  proof (cases m)
    case (Some a)
    obtain ok s2 where "mcp_send te a s1 = (ok, s2)" by (rule prod.exhaust)
    with h Some Handling show ?thesis by (auto intro: mcp_step.handle_answer)
  qed (use h Handling in \<open>auto intro: mcp_step.handle_silent\<close>)
next
  case Waiting
  have "ms_requests s = Map.empty" using assms(1,2) by (simp add: table_ok_def)
  with Waiting show ?thesis by (auto intro: mcp_step.return)
qed (use assms(3) in \<open>auto intro: mcp_step.loop_on mcp_step.drain\<close>)

lemma mcp_run_length:
  assumes "mcp_run te y opts s evs s'" and "table_ok s"
  shows "length evs + mcp_weight s' \<le> mcp_weight s"
  using assms
proof (induction rule: mcp_run.induct)
  case (run_step s evs s1 ev s2)
  with mcp_step_weight [OF run_step.hyps(2)] mcp_run_table [OF run_step.hyps(1)] show ?case by fastforce
qed simp

lemma mcp_run_append:
  assumes "mcp_run te y opts s evs s1" and "mcp_run te y opts s1 evs' s2"
  shows "mcp_run te y opts s (evs @ evs') s2"
  using assms(2,1)
  by (induction rule: mcp_run.induct) (simp, metis append_assoc mcp_run.run_step)

lemma mcp_run_single: "mcp_step te y opts s ev s' \<Longrightarrow> mcp_run te y opts s [ev] s'"
  using mcp_run.run_step [OF mcp_run.run_start] by fastforce

lemma mcp_run_completes:
  "table_ok s \<Longrightarrow> \<exists>evs s' ret. mcp_run te y opts s evs s' \<and> ms_main s' = Exited_With ret"
proof (induction "mcp_weight s" arbitrary: s rule: less_induct)
  case less
  show ?case
  proof (cases "\<exists>ev s1. mcp_step te y opts s ev s1")
    case True
    then obtain ev s1 where st: "mcp_step te y opts s ev s1" by blast
    from less.hyps [OF mcp_step_weight [OF st less.prems] mcp_step_table [OF st less.prems]]
    obtain evs s' ret where "mcp_run te y opts s1 evs s'" "ms_main s' = Exited_With ret" by blast
    with mcp_run_append [OF mcp_run_single [OF st]] show ?thesis by blast
  next
    case False
    then have "ms_workers s = []" using worker_can_step [of "hd (ms_workers s)" s] by (metis hd_in_set)
    with main_can_step [OF less.prems] False obtain ret where "ms_main s = Exited_With ret" by blast
    with mcp_run.run_start show ?thesis by blast
  qed
qed

text \<open>
  C38. The server ends: a session has at most 20 steps for each byte of the input and 4 more, and a
  state in which nothing more can happen is one where the server has returned and no thread is left,
  so it never waits for a thread that does not come.
\<close>

theorem mcp_terminates:
  assumes "mcp_run te y opts (start_server t) evs s"
  shows "length evs \<le> 20 * length (in_rest (tr_in t)) + 4 \<and>
    ((\<forall>ev s'. \<not> mcp_step te y opts s ev s') \<longrightarrow> (\<exists>ret. ms_main s = Exited_With ret) \<and> ms_workers s = [])"
proof -
  have "mcp_weight (start_server t) = 20 * length (in_rest (tr_in t)) + 4"
    by (simp add: mcp_weight_def main_weight_def start_server_def)
  moreover have "table_ok s" using mcp_run_table [OF assms start_table] .
  moreover have "ms_workers s = [] \<or> (\<exists>ev s'. mcp_step te y opts s ev s')"
    using worker_can_step [of "hd (ms_workers s)" s] by (metis hd_in_set)
  ultimately show ?thesis using mcp_run_length [OF assms start_table] main_can_step [of s] by fastforce
qed

section \<open>The life cycle\<close>

definition names_method :: "transport_env \<Rightarrow> string \<Rightarrow> bool \<Rightarrow> string \<Rightarrow> bool" where
  "names_method te name has_id payload \<longleftrightarrow>
     (\<exists>message. Option.bind (te_parse te payload) as_object = Some message \<and>
        get_string message ''method'' = Some name \<and> (get message ''id'' \<noteq> None) = has_id)"

abbreviation is_initialize :: "transport_env \<Rightarrow> string \<Rightarrow> bool" where
  "is_initialize te \<equiv> names_method te ''initialize'' True"

abbreviation is_initialized :: "transport_env \<Rightarrow> string \<Rightarrow> bool" where
  "is_initialized te \<equiv> names_method te ''notifications/initialized'' False"

definition state_moves :: "transport_env \<Rightarrow> string \<Rightarrow> mcp_server \<Rightarrow> mcp_server \<Rightarrow> bool" where
  "state_moves te payload s s1 \<longleftrightarrow>
     ms_state s1 = ms_state s \<or>
     ms_state s = Mcp_Uninitialized \<and> ms_state s1 = Mcp_AwaitingInitialized \<and> is_initialize te payload \<or>
     ms_state s = Mcp_AwaitingInitialized \<and> ms_state s1 = Mcp_Running \<and> is_initialized te payload"

lemma mcp_initialize_state:
  "mcp_initialize opts i params s = (m, s1) \<Longrightarrow>
     ms_state s1 = ms_state s \<or> ms_state s = Mcp_Uninitialized \<and> ms_state s1 = Mcp_AwaitingInitialized"
  by (auto simp: mcp_initialize_def split: option.splits if_splits)

lemma mcp_cancel_state: "ms_state (mcp_cancel params s) = ms_state s"
  by (auto simp: mcp_cancel_def cancel_control_def split: option.split)

lemma call_tool_state: "call_tool i params payload s = (m, s1) \<Longrightarrow> ms_state s1 = ms_state s"
  by (auto simp: call_tool_def add_worker_def split: if_splits)

lemma mcp_handle_moves:
  assumes "mcp_handle te opts payload s = (m, s1)"
  shows "state_moves te payload s s1"
proof (cases "Option.bind (te_parse te payload) as_object")
  case None
  with assms show ?thesis by (auto simp: state_moves_def mcp_handle_def split: option.splits)
next
  case (Some message)
  then have "mcp_dispatch opts message payload s = (m, s1)" using assms by (auto simp: mcp_handle_def bind_eq_Some_conv)
  with Some show ?thesis
    by (auto simp: mcp_dispatch_def Let_def state_moves_def names_method_def mcp_cancel_state request_id_def
        dest: mcp_initialize_state call_tool_state split: option.splits if_splits prod.splits)
qed

definition under_way :: "mcp_server \<Rightarrow> string list" where
  "under_way s = (case ms_main s of Handling p \<Rightarrow> [p] | _ \<Rightarrow> [])"

definition cycle_ok :: "transport_env \<Rightarrow> event list \<Rightarrow> mcp_server \<Rightarrow> bool" where
  "cycle_ok te evs s \<longleftrightarrow>
     (\<exists>past. received evs = past @ under_way s \<and>
        (ms_state s \<noteq> Mcp_Uninitialized \<longrightarrow> (\<exists>p\<in>set past. is_initialize te p)) \<and>
        (ms_state s = Mcp_Running \<longrightarrow>
           (\<exists>p1 p2. subseq [p1, p2] past \<and> is_initialize te p1 \<and> is_initialized te p2)))"

text \<open>All steps but the handling of a message leave the state and move no message.\<close>

lemma mcp_step_cycle:
  assumes step: "mcp_step te y opts s ev s'" and c: "cycle_ok te evs s"
  shows "cycle_ok te (evs @ [ev]) s'"
proof -
  have handled: "cycle_ok te (evs @ [ev]) s'" if h: "ms_main s = Handling payload" "mcp_handle te opts payload s = (m, s1)"
    and e: "received (evs @ [ev]) = received evs" "ms_state s' = ms_state s1" "under_way s' = []" for payload m s1
  proof -
    from c h(1) obtain past where p: "received evs = past @ [payload]"
      "ms_state s \<noteq> Mcp_Uninitialized \<longrightarrow> (\<exists>p\<in>set past. is_initialize te p)"
      "ms_state s = Mcp_Running \<longrightarrow> (\<exists>p1 p2. subseq [p1, p2] past \<and> is_initialize te p1 \<and> is_initialized te p2)"
      by (auto simp: cycle_ok_def under_way_def)
    have "ms_state s' = Mcp_Running \<longrightarrow>
        (\<exists>p1 p2. subseq [p1, p2] (past @ [payload]) \<and> is_initialize te p1 \<and> is_initialized te p2)"
    proof
      assume run: "ms_state s' = Mcp_Running"
      from mcp_handle_moves [OF h(2)] run e(2)
      consider "ms_state s = Mcp_Running" | "ms_state s = Mcp_AwaitingInitialized" "is_initialized te payload"
        by (auto simp: state_moves_def)
      then show "\<exists>p1 p2. subseq [p1, p2] (past @ [payload]) \<and> is_initialize te p1 \<and> is_initialized te p2"
      proof cases
        case 1
        with p(3) show ?thesis by (meson subseq_rev_drop_many)
      next
        case 2
        with p(2) obtain p1 where "p1 \<in> set past" "is_initialize te p1" by auto
        then have "subseq ([p1] @ [payload]) (past @ [payload])" by (intro list_emb_append_mono) (simp_all add: subseq_singleton_left)
        with 2 \<open>is_initialize te p1\<close> show ?thesis by auto
      qed
    qed
    moreover have "ms_state s' \<noteq> Mcp_Uninitialized \<longrightarrow> (\<exists>p\<in>set (past @ [payload]). is_initialize te p)"
      using mcp_handle_moves [OF h(2)] p(2) e(2) by (auto simp: state_moves_def)
    ultimately show ?thesis unfolding cycle_ok_def using e(1,3) p(1) by auto
  qed
  have still: "cycle_ok te (evs @ [ev]) s'"
    if "received (evs @ [ev]) = received evs" "ms_state s' = ms_state s" "under_way s' = under_way s"
    using c that by (simp add: cycle_ok_def)
  from step show ?thesis
  proof (cases rule: mcp_step.cases)
    case (read_message payload t)
    with c show ?thesis by (simp add: cycle_ok_def under_way_def)
  next
    case (handle_silent payload s1)
    then show ?thesis by (intro handled [OF handle_silent(3,4)]) (simp_all add: under_way_def)
  next
    case (handle_answer payload m s1 ok s2)
    then show ?thesis by (intro handled [OF handle_answer(3,4)]) (auto simp: under_way_def dest!: mcp_send_fields)
  next
    case (answer w m ok s1)
    then show ?thesis by (intro still) (auto simp: under_way_def dest!: mcp_send_fields)
  qed (intro still; simp add: under_way_def)+
qed

text \<open>
  C39. Tools run only after the handshake: while a call is under way the server has read a request
  to initialise and after it the notification that the client is initialised.
\<close>

theorem mcp_lifecycle:
  assumes "mcp_run te y opts (start_server t) evs s" and "ms_workers s \<noteq> []"
  shows "\<exists>p1 p2. subseq [p1, p2] (received evs) \<and> is_initialize te p1 \<and> is_initialized te p2"
proof -
  have "cycle_ok te evs s"
    using assms(1)
  proof (induction "start_server t" evs s rule: mcp_run.induct)
    case run_start
    show ?case by (simp add: cycle_ok_def start_server_def under_way_def)
  qed (auto dest: mcp_step_cycle)
  moreover have "ms_state s = Mcp_Running" using mcp_run_table [OF assms(1) start_table] assms(2) by (simp add: table_ok_def)
  ultimately obtain past p1 p2 where "received evs = past @ under_way s" "subseq [p1, p2] past" "is_initialize te p1" "is_initialized te p2"
    by (auto simp: cycle_ok_def)
  then show ?thesis by (metis subseq_rev_drop_many)
qed

section \<open>Cancelled requests\<close>

definition undecided :: "worker \<Rightarrow> bool" where
  "undecided w \<longleftrightarrow> (case wk_pc w of Started \<Rightarrow> True | Returned r \<Rightarrow> True | Completed r \<Rightarrow> True | _ \<Rightarrow> False)"

definition cancelled_answer :: "transport_env \<Rightarrow> worker \<Rightarrow> jvalue \<Rightarrow> bool" where
  "cancelled_answer te w m \<longleftrightarrow>
     m = mcp_error (Some (wk_id w)) REQUEST_CANCELLED ''Request cancelled'' \<or>
     (\<exists>code text1. worker_request te (wk_payload w) = Inl (code, text1) \<and> m = mcp_error (Some (wk_id w)) code text1)"

text \<open>The thread \<open>w\<close>, as it is now, will give such an answer.\<close>

definition answers_cancelled :: "transport_env \<Rightarrow> worker \<Rightarrow> mcp_server \<Rightarrow> worker \<Rightarrow> bool" where
  "answers_cancelled te w s v \<longleftrightarrow>
     v \<in> set (ms_workers s) \<and> wk_control v = wk_control w \<and> wk_id v = wk_id w \<and> wk_payload v = wk_payload w \<and>
     (undecided v \<and> ct_cancelled (ms_controls s (wk_control w)) \<or> (\<exists>m. wk_pc v = Answering m \<and> cancelled_answer te w m))"

definition gave_cancelled :: "transport_env \<Rightarrow> worker \<Rightarrow> event \<Rightarrow> bool" where
  "gave_cancelled te w ev \<longleftrightarrow> (case ev of Sent m ok \<Rightarrow> cancelled_answer te w m | _ \<Rightarrow> False)"

lemma undecided_simps [simp]: "undecided (w\<lparr>wk_pc := Returned r\<rparr>)" "undecided (w\<lparr>wk_pc := Completed r\<rparr>)"
  by (simp_all add: undecided_def)

lemma other_worker_kept:
  assumes "v \<in> set (ms_workers s)" and "wk_control v \<noteq> a"
  shows "v \<in> set (ms_workers (set_pc a pc s))" and "wk_control u = a \<Longrightarrow> v \<in> set (ms_workers (finish_worker u s))"
proof -
  show "v \<in> set (ms_workers (set_pc a pc s))"
    using assms by (auto simp: set_pc_def intro!: image_eqI [of _ _ v])
qed (use assms in \<open>auto simp: finish_worker_def\<close>)

text \<open>A step by another thread, or by the main thread, leaves the thread and what it will do.\<close>

lemma answers_cancelled_kept:
  assumes "answers_cancelled te w s v" and "v \<in> set (ms_workers s')"
    and "ct_cancelled (ms_controls s (wk_control w)) \<longrightarrow> ct_cancelled (ms_controls s' (wk_control w))"
  shows "answers_cancelled te w s' v"
  using assms by (auto simp: answers_cancelled_def)

lemma cancelled_kept:
  assumes "mcp_step te y opts s ev s'" and "a < ms_next s"
  shows "ct_cancelled (ms_controls s a) \<longrightarrow> ct_cancelled (ms_controls s' a)"
proof -
  have handled: "ct_cancelled (ms_controls s a) \<longrightarrow> ct_cancelled (ms_controls s1 a)" if "mcp_handle te opts payload s = (m, s1)" for payload m s1
    using mcp_handle_turn [OF that] assms(2) by (cases rule: mcp_turn.cases) (auto simp: same_table_def add_worker_def)
  from assms(1) show ?thesis
    by (cases rule: mcp_step.cases)
      (auto simp: cancel_all_def complete_control_def expire_control_def dest: handled dest!: mcp_send_fields)
qed

lemma same_worker: "table_ok s \<Longrightarrow> u \<in> set (ms_workers s) \<Longrightarrow> v \<in> set (ms_workers s) \<Longrightarrow> wk_control u = wk_control v \<Longrightarrow> u = v"
  by (auto simp: table_ok_def distinct_map inj_on_def)

text \<open>A step of a thread either is one of the thread in question or leaves it.\<close>

lemma set_pc_cancelled:
  assumes ok: "table_ok s" and a: "answers_cancelled te w s v" and u: "u \<in> set (ms_workers s)"
    and own: "u = v \<Longrightarrow> undecided (v\<lparr>wk_pc := pc\<rparr>) \<and> undecided v \<or> (\<exists>m. pc = Answering m \<and> cancelled_answer te w m)"
    and c: "ms_controls s' = ms_controls s \<or> (\<forall>a. ct_cancelled (ms_controls s' a) = ct_cancelled (ms_controls s a))"
    and s': "ms_workers s' = ms_workers (set_pc (wk_control u) pc s)"
  shows "\<exists>v'. answers_cancelled te w s' v'"
proof (cases "u = v")
  case True
  have "v\<lparr>wk_pc := pc\<rparr> \<in> set (ms_workers s')" using set_pc_worker(1) [OF ok u] True s' by simp
  with own [OF True] a c have "answers_cancelled te w s' (v\<lparr>wk_pc := pc\<rparr>)"
    by (auto simp: answers_cancelled_def undecided_def)
  then show ?thesis by blast
next
  case False
  with same_worker [OF ok u] a have "wk_control v \<noteq> wk_control u" by (auto simp: answers_cancelled_def)
  with a have "v \<in> set (ms_workers s')" unfolding s' by (intro other_worker_kept) (auto simp: answers_cancelled_def)
  with answers_cancelled_kept [OF a] c show ?thesis by metis
qed

lemma mcp_step_cancelled:
  assumes step: "mcp_step te y opts s ev s'" and ok: "table_ok s" and a: "answers_cancelled te w s v"
  shows "gave_cancelled te w ev \<or> (\<exists>v'. answers_cancelled te w s' v')"
proof -
  have v: "v \<in> set (ms_workers s)" "wk_control v = wk_control w" "wk_id v = wk_id w" "wk_payload v = wk_payload w"
    using a by (auto simp: answers_cancelled_def)
  then have "wk_control w < ms_next s" using ok by (auto simp: table_ok_def)
  from cancelled_kept [OF step this] have kept: "answers_cancelled te w s' v" if "v \<in> set (ms_workers s')"
    using answers_cancelled_kept [OF a that] by blast
  have pc: "undecided v \<or> (\<exists>m. wk_pc v = Answering m \<and> cancelled_answer te w m)" using a by (auto simp: answers_cancelled_def)
  have other: "v \<in> set (ms_workers s1)" if "mcp_handle te opts payload s = (m, s1)" for payload m s1
    using handle_keeps [OF that] v(1) by blast
  from step show ?thesis
  proof (cases rule: mcp_step.cases)
    case (refuse u code message)
    let ?m = "mcp_error (Some (wk_id u)) code message"
    have "cancelled_answer te w ?m" if "u = v" using refuse that v unfolding cancelled_answer_def by metis
    with set_pc_cancelled [OF ok a, of u "Answering ?m" s'] refuse show ?thesis by auto
  next
    case (call u name arguments e opened mw r mw')
    then have "undecided u" by (simp add: undecided_def)
    with set_pc_cancelled [OF ok a, of u "Returned r" s'] call show ?thesis by auto
  next
    case (complete u r)
    have "table_ok (complete_control (wk_control u) s)" by (rule table_ok_cong [OF _ _ _ _ ok]) simp_all
    moreover have "answers_cancelled te w (complete_control (wk_control u) s) v"
      by (rule answers_cancelled_kept [OF a]) (simp_all add: v complete_control_def)
    moreover have "undecided u" using complete by (simp add: undecided_def)
    ultimately show ?thesis
      using set_pc_cancelled [of "complete_control (wk_control u) s" te w v u "Completed r" s'] complete by auto
  next
    case (decide u r)
    let ?m = "call_response (te_print te) (wk_id u) (final_result (ms_controls s (wk_control u)) r)"
    have "cancelled_answer te w ?m" if "u = v"
    proof -
      have "ct_cancelled (ms_controls s (wk_control w))" using a decide that by (auto simp: answers_cancelled_def)
      then show ?thesis using that v by (simp add: cancelled_answer_def call_response_def final_result_def tool_failure_def)
    qed
    with set_pc_cancelled [OF ok a, of u "Answering ?m" s'] decide show ?thesis by auto
  next
    case (answer u m ok' s1)
    show ?thesis
    proof (cases "u = v")
      case True
      with answer pc show ?thesis by (auto simp: gave_cancelled_def undecided_def)
    next
      case False
      with same_worker [OF ok, of u v] answer v have "wk_control v \<noteq> wk_control u" by auto
      moreover have "v \<in> set (ms_workers s1)" using answer v by (auto dest!: mcp_send_fields)
      ultimately show ?thesis using kept other_worker_kept(1) [of v s1] answer by blast
    qed
  next
    case (report u ok')
    with pc have "u \<noteq> v" by (auto simp: undecided_def)
    with same_worker [OF ok, of u v] report v have "wk_control v \<noteq> wk_control u" by auto
    with other_worker_kept(1) [of v "complete_control (wk_control u) s"] kept report v show ?thesis by auto
  next
    case (finish u)
    with pc have "u \<noteq> v" by (auto simp: undecided_def)
    with same_worker [OF ok, of u v] finish v have "wk_control v \<noteq> wk_control u" by auto
    with other_worker_kept(2) [of v s _ u] kept finish v show ?thesis by auto
  qed (use kept v other in \<open>auto dest!: mcp_send_fields\<close>)
qed

text \<open>
  C40. A request that is cancelled before its answer is decided is answered with the error for
  cancelled requests, whatever its tool returns, or with the refusal of a call that is not valid.
\<close>

theorem mcp_cancelled:
  assumes "mcp_run te y opts (start_server t) evs s" and "w \<in> set (ms_workers s)" and "undecided w"
    and "ct_cancelled (ms_controls s (wk_control w))"
    and "mcp_run te y opts s evs' s'" and "ms_main s' = Exited_With ret"
  shows "\<exists>ev\<in>set evs'. gave_cancelled te w ev"
proof -
  have ok: "table_ok s" using mcp_run_table [OF assms(1) start_table] .
  have "answers_cancelled te w s w" using assms(2-4) by (simp add: answers_cancelled_def)
  with assms(5) ok have "(\<exists>ev\<in>set evs'. gave_cancelled te w ev) \<or> (\<exists>v. answers_cancelled te w s' v)"
  proof (induction rule: mcp_run.induct)
    case (run_step s evs' s1 ev s2)
    with mcp_step_cancelled [OF run_step.hyps(2) mcp_run_table [OF run_step.hyps(1)]] show ?case by fastforce
  qed auto
  moreover have "ms_workers s' = []"
    using mcp_run_invariants [OF mcp_run_append [OF assms(1,5)]] assms(6) by (simp add: reported_def)
  ultimately show ?thesis by (auto simp: answers_cancelled_def)
qed

end
