(* ===== verification/Mcp_Witnesses.thy ===== *)
theory Mcp_Witnesses
  imports Mcp_Session Resolver_Properties Update_Properties
begin

text \<open>
  A session of the model context server: the handshake, a call of a tool and its cancellation. The
  text of a message is a letter.
\<close>

definition session_message :: "string \<Rightarrow> jvalue" where
  "session_message p =
     (if p = ''i'' then VObject [(''jsonrpc'', VString ''2.0''), (''id'', VInt 1), (''method'', VString ''initialize''),
        (''params'', VObject [(''protocolVersion'', VString ''1''), (''capabilities'', VObject []), (''clientInfo'', VObject [])])]
      else if p = ''n'' then VObject [(''jsonrpc'', VString ''2.0''), (''method'', VString ''notifications/initialized'')]
      else if p = ''c'' then VObject [(''jsonrpc'', VString ''2.0''), (''id'', VInt 7), (''method'', VString ''tools/call''),
        (''params'', VObject [(''name'', VString ''list_variants'')])]
      else VObject [(''jsonrpc'', VString ''2.0''), (''method'', VString ''notifications/cancelled''),
        (''params'', VObject [(''requestId'', VInt 7)])])"

definition session_env :: transport_env where
  "session_env = plain_transport_env\<lparr>te_parse := (\<lambda>p. Some (session_message p))\<rparr>"

definition session_system :: "nat mcp_system" where
  "session_system = \<lparr>my_loader = sample_loader, my_git = sample_git, my_pipeline = demo_pipeline_env,
     my_exists = (\<lambda>p. Path_Missing), my_frontend = (\<lambda>r. (demo_frontend, []))\<rparr>"

definition session_options :: mcp_options where
  "session_options = \<lparr>mo_database = ''/db'', mo_commands_database = ''/c.db'', mo_workspace = ''/w'', mo_variant = ''v'',
     mo_allow_reindex = False, mo_include_local = True\<rparr>"

definition session_input :: string where
  "session_input = ''i'' @ newline @ ''n'' @ newline @ ''c'' @ newline @ ''x'' @ newline"

definition working_transport :: "transport \<Rightarrow> string \<Rightarrow> bool" where
  "working_transport t rst \<longleftrightarrow> ready_input (tr_in t) rst \<and> \<not> o_error (tr_out t) \<and> tr_log t = None"

lemma session_env_simps [simp]:
  "te_print session_env = te_print plain_transport_env" "te_out session_env = te_out plain_transport_env"
  "te_parse session_env p = Some (session_message p)"
  by (simp_all add: session_env_def)

lemma session_logger [simp]: "logger_write session_env d p log = logger_write plain_transport_env d p log"
  by (simp add: logger_write_def session_env_def split: option.split)

text \<open>One message: it is read, handled, and answered if the handler says so.\<close>

lemma session_serve:
  assumes t: "working_transport t (p @ newline @ rst)" and "one_line p" and main: "ms_main s = At_Loop" "\<not> ms_failed s"
    and tr: "ms_transport s = t"
    and h: "\<And>t'. mcp_handle session_env session_options p (s\<lparr>ms_main := Handling p, ms_transport := t'\<rparr>) =
      (m, s'\<lparr>ms_main := Handling p, ms_transport := t'\<rparr>)"
    and f: "ms_failed s' = ms_failed s"
  shows "\<exists>evs t'. mcp_run session_env y session_options s evs (s'\<lparr>ms_main := At_Loop, ms_transport := t'\<rparr>) \<and>
    working_transport t' rst \<and> received evs = [p]"
proof -
  let ?s1 = "s\<lparr>ms_main := Reading\<rparr>" and ?t = "t\<lparr>tr_in := (tr_in t)\<lparr>in_rest := rst\<rparr>, tr_log := None\<rparr>"
  let ?s2 = "s\<lparr>ms_main := Handling p, ms_transport := ?t\<rparr>"
  have "mcp_step session_env y session_options s Internal ?s1" using mcp_step.loop_on [of s] main by simp
  moreover have "mcp_read session_env (ms_transport ?s1) = (Message, p, ?t)"
    using mcp_read_line [of t p rst session_env] t assms(2) tr by (simp add: working_transport_def)
  then have "mcp_step session_env y session_options ?s1 (Received p) ?s2"
    using mcp_step.read_message [of ?s1 session_env p ?t y session_options] by simp
  ultimately have two: "mcp_run session_env y session_options s [Internal, Received p] ?s2"
    using mcp_run_append [OF mcp_run_single mcp_run_single] by fastforce
  have w: "working_transport ?t rst" using t by (simp add: working_transport_def ready_input_def in_good_def)
  have comm: "v\<lparr>ms_transport := a, ms_main := b\<rparr> = v\<lparr>ms_main := b, ms_transport := a\<rparr>" for v :: mcp_server and a b
    by (cases v) simp
  show ?thesis
  proof (cases m)
    case None
    then have "mcp_step session_env y session_options ?s2 Internal (s'\<lparr>ms_main := At_Loop, ms_transport := ?t\<rparr>)"
      using mcp_step.handle_silent [of ?s2 p session_env session_options _ y] h [of ?t] by (simp add: comm)
    with mcp_run.run_step [OF two] have "mcp_run session_env y session_options s ([Internal, Received p] @ [Internal])
        (s'\<lparr>ms_main := At_Loop, ms_transport := ?t\<rparr>)" by blast
    with w show ?thesis by (intro exI conjI) (auto simp: received_def)
  next
    case (Some a)
    obtain t' where wr: "mcp_write session_env a ?t = (True, t')" "\<not> o_error (tr_out t')" "tr_log t' = None"
    proof -
      have "mcp_write session_env a ?t = mcp_write plain_transport_env a ?t" by (simp add: mcp_write_def Let_def)
      with plain_mcp_write [of ?t a] w show ?thesis using that
        by (cases "mcp_write plain_transport_env a ?t") (auto simp: working_transport_def)
    qed
    then have "mcp_send session_env a (s'\<lparr>ms_main := Handling p, ms_transport := ?t\<rparr>) =
        (True, s'\<lparr>ms_main := Handling p, ms_transport := t'\<rparr>)" by (simp add: mcp_send_def)
    from mcp_step.handle_answer [OF _ h [of ?t, unfolded Some] this, of y] f main
    have "mcp_step session_env y session_options ?s2 (Sent a True)
        ((s'\<lparr>ms_main := Handling p, ms_transport := t'\<rparr>)\<lparr>ms_main := At_Loop, ms_failed := ms_failed s'\<rparr>)" by simp
    also have "(s'\<lparr>ms_main := Handling p, ms_transport := t'\<rparr>)\<lparr>ms_main := At_Loop, ms_failed := ms_failed s'\<rparr> =
        s'\<lparr>ms_main := At_Loop, ms_transport := t'\<rparr>" by (cases s') simp
    finally have "mcp_step session_env y session_options ?s2 (Sent a True) (s'\<lparr>ms_main := At_Loop, ms_transport := t'\<rparr>)" .
    with mcp_run.run_step [OF two] have "mcp_run session_env y session_options s ([Internal, Received p] @ [Sent a True])
        (s'\<lparr>ms_main := At_Loop, ms_transport := t'\<rparr>)" by blast
    moreover have "working_transport t' rst" using w wr mcp_write_in [OF wr(1)] by (simp add: working_transport_def)
    ultimately show ?thesis by (intro exI conjI) (auto simp: received_def)
  qed
qed

lemmas message_simps = session_message_def as_object_def get_object_def get_string_def get_def as_string_def request_id_def

lemma handle_initialized:
  "ms_state s = Mcp_AwaitingInitialized \<Longrightarrow>
     mcp_handle session_env session_options ''n'' s = (None, s\<lparr>ms_state := Mcp_Running\<rparr>)"
  by (simp add: mcp_handle_def mcp_dispatch_def message_simps)

lemma handle_call:
  "ms_state s = Mcp_Running \<Longrightarrow> ms_requests s (id_key (Numeric 7)) = None \<Longrightarrow>
     mcp_handle session_env session_options ''c'' s = (None, add_worker (Numeric 7) ''c'' s)"
  by (simp add: mcp_handle_def mcp_dispatch_def call_tool_def message_simps)

lemma handle_cancel:
  "ms_requests s (id_key (Numeric 7)) = Some a \<Longrightarrow>
     mcp_handle session_env session_options ''x'' s = (None, cancel_control a s)"
  by (simp add: mcp_handle_def mcp_dispatch_def mcp_cancel_def message_simps)

definition session_worker :: worker where
  "session_worker = \<lparr>wk_id = Numeric 7, wk_payload = ''c'', wk_control = 0, wk_pc = Started\<rparr>"

abbreviation session_start :: mcp_server where
  "session_start \<equiv> start_server (fresh_transport session_input)"

text \<open>The four messages have been read: the call runs, and it is cancelled.\<close>

lemma session_cancelled:
  "\<exists>evs s. mcp_run session_env session_system session_options session_start evs s \<and>
     received evs = [''i'', ''n'', ''c'', ''x''] \<and> ms_workers s = [session_worker] \<and> ct_cancelled (ms_controls s 0)"
proof -
  let ?run = "mcp_run session_env session_system session_options"
  let ?nl = "newline" let ?x = "''x'' @ newline" let ?c = "''c'' @ newline @ ?x" let ?n = "''n'' @ newline @ ?c"
  have s0: "ms_main session_start = At_Loop" "\<not> ms_failed session_start" "ms_transport session_start = fresh_transport session_input"
    "ms_state session_start = Mcp_Uninitialized" by (simp_all add: start_server_def)
  have t0: "working_transport (fresh_transport session_input) (''i'' @ newline @ ?n)"
    using sample_ready [of session_input] by (simp add: working_transport_def session_input_def fresh_transport_def)
  have line: "one_line ''i''" "one_line ''n''" "one_line ''c''" "one_line ''x''"
    by (simp_all add: one_line_def MAX_MCP_MESSAGE_def)
  obtain m where m: "\<And>t. mcp_handle session_env session_options ''i'' (session_start\<lparr>ms_main := Handling ''i'', ms_transport := t\<rparr>) =
      (m, (session_start\<lparr>ms_state := Mcp_AwaitingInitialized\<rparr>)\<lparr>ms_main := Handling ''i'', ms_transport := t\<rparr>)"
    using s0(4) by (simp add: mcp_handle_def mcp_dispatch_def mcp_initialize_def message_simps)
  obtain e1 t1 where r1: "?run session_start e1 (session_start\<lparr>ms_state := Mcp_AwaitingInitialized, ms_main := At_Loop, ms_transport := t1\<rparr>)"
    "working_transport t1 ?n" "received e1 = [''i'']"
    using session_serve [where s = session_start and s' = "session_start\<lparr>ms_state := Mcp_AwaitingInitialized\<rparr>" and m = m
        and y = session_system, OF t0 line(1) s0(1-3) m] by auto
  let ?s1 = "session_start\<lparr>ms_state := Mcp_AwaitingInitialized, ms_main := At_Loop, ms_transport := t1\<rparr>"
  have h: "mcp_handle session_env session_options ''n'' (?s1\<lparr>ms_main := Handling ''n'', ms_transport := t\<rparr>) =
      (None, (?s1\<lparr>ms_state := Mcp_Running\<rparr>)\<lparr>ms_main := Handling ''n'', ms_transport := t\<rparr>)" for t
    by (simp add: handle_initialized)
  obtain e2 t2 where r2: "?run ?s1 e2 ((?s1\<lparr>ms_state := Mcp_Running\<rparr>)\<lparr>ms_main := At_Loop, ms_transport := t2\<rparr>)"
    "working_transport t2 ?c" "received e2 = [''n'']"
    using session_serve [where s = ?s1 and s' = "?s1\<lparr>ms_state := Mcp_Running\<rparr>" and m = None and y = session_system,
        OF r1(2) line(2) _ _ _ h] by (auto simp: start_server_def)
  let ?s2 = "(?s1\<lparr>ms_state := Mcp_Running\<rparr>)\<lparr>ms_main := At_Loop, ms_transport := t2\<rparr>"
  have h: "mcp_handle session_env session_options ''c'' (?s2\<lparr>ms_main := Handling ''c'', ms_transport := t\<rparr>) =
      (None, (add_worker (Numeric 7) ''c'' ?s2)\<lparr>ms_main := Handling ''c'', ms_transport := t\<rparr>)" for t
    by (simp add: handle_call start_server_def add_worker_def)
  obtain e3 t3 where r3: "?run ?s2 e3 ((add_worker (Numeric 7) ''c'' ?s2)\<lparr>ms_main := At_Loop, ms_transport := t3\<rparr>)"
    "working_transport t3 ?x" "received e3 = [''c'']"
    using session_serve [where s = ?s2 and s' = "add_worker (Numeric 7) ''c'' ?s2" and m = None and y = session_system,
        OF r2(2) line(3) _ _ _ h] by (auto simp: start_server_def add_worker_def)
  let ?s3 = "(add_worker (Numeric 7) ''c'' ?s2)\<lparr>ms_main := At_Loop, ms_transport := t3\<rparr>"
  have x: "working_transport t3 (''x'' @ newline @ [])" using r3(2) by simp
  have h: "mcp_handle session_env session_options ''x'' (?s3\<lparr>ms_main := Handling ''x'', ms_transport := t\<rparr>) =
      (None, (cancel_control 0 ?s3)\<lparr>ms_main := Handling ''x'', ms_transport := t\<rparr>)" for t
    by (simp add: handle_cancel start_server_def add_worker_def cancel_control_def)
  obtain e4 t4 where r4: "?run ?s3 e4 ((cancel_control 0 ?s3)\<lparr>ms_main := At_Loop, ms_transport := t4\<rparr>)" "received e4 = [''x'']"
    using session_serve [where s = ?s3 and s' = "cancel_control 0 ?s3" and m = None and y = session_system,
        OF x line(4) _ _ _ h] by (auto simp: start_server_def add_worker_def cancel_control_def)
  have "?run session_start (((e1 @ e2) @ e3) @ e4) ((cancel_control 0 ?s3)\<lparr>ms_main := At_Loop, ms_transport := t4\<rparr>)"
    using mcp_run_append [OF mcp_run_append [OF mcp_run_append [OF r1(1) r2(1)] r3(1)] r4(1)] .
  moreover have "received (((e1 @ e2) @ e3) @ e4) = [''i'', ''n'', ''c'', ''x'']"
    using r1(3) r2(3) r3(3) r4(2) by (simp add: received_def)
  moreover have "ms_workers ((cancel_control 0 ?s3)\<lparr>ms_main := At_Loop, ms_transport := t4\<rparr>) = [session_worker]"
    by (simp add: cancel_control_def add_worker_def session_worker_def start_server_def)
  moreover have "ct_cancelled (ms_controls ((cancel_control 0 ?s3)\<lparr>ms_main := At_Loop, ms_transport := t4\<rparr>) 0)"
    by (simp add: cancel_control_def)
  ultimately show ?thesis by blast
qed

section \<open>Witnesses\<close>

theorem mcp_lifecycle_witness:
  "\<exists>p1 p2. subseq [p1, p2] [''i'', ''n'', ''c'', ''x''] \<and> is_initialize session_env p1 \<and> is_initialized session_env p2"
proof -
  obtain evs s where r: "mcp_run session_env session_system session_options session_start evs s"
    "received evs = [''i'', ''n'', ''c'', ''x'']" "ms_workers s = [session_worker]"
    using session_cancelled by blast
  from r(3) have "ms_workers s \<noteq> []" by simp
  from mcp_lifecycle [OF r(1) this] r(2) show ?thesis by simp
qed

theorem mcp_cancelled_witness:
  "\<exists>evs s evs' s' ret. mcp_run session_env session_system session_options session_start evs s \<and>
     mcp_run session_env session_system session_options s evs' s' \<and> ms_main s' = Exited_With ret \<and>
     (\<exists>ok. Sent (mcp_error (Some (Numeric 7)) REQUEST_CANCELLED ''Request cancelled'') ok \<in> set evs')"
proof -
  obtain evs s where r: "mcp_run session_env session_system session_options session_start evs s"
    "ms_workers s = [session_worker]" "ct_cancelled (ms_controls s 0)"
    using session_cancelled by blast
  obtain evs' s' ret where e: "mcp_run session_env session_system session_options s evs' s'" "ms_main s' = Exited_With ret"
    using mcp_run_completes [OF mcp_run_table [OF r(1) start_table]] by blast
  have "session_worker \<in> set (ms_workers s)" "undecided session_worker" "ct_cancelled (ms_controls s (wk_control session_worker))"
    using r by (simp_all add: undecided_def session_worker_def)
  from mcp_cancelled [OF r(1) this e] obtain ev where ev: "ev \<in> set evs'" "gave_cancelled session_env session_worker ev" by blast
  have "worker_request session_env ''c'' = Inr (''list_variants'', None)"
    by (simp add: worker_request_def message_simps)
  with ev obtain ok where "ev = Sent (mcp_error (Some (Numeric 7)) REQUEST_CANCELLED ''Request cancelled'') ok"
    by (auto simp: gave_cancelled_def cancelled_answer_def session_worker_def split: event.splits)
  with r e ev show ?thesis by blast
qed

theorem mcp_answers_once_witness:
  "\<exists>evs s ret. mcp_run session_env session_system session_options session_start evs s \<and> ms_main s = Exited_With ret \<and>
     mset (map response_id (sent evs)) = mset (owed_ids session_env (received evs))"
proof -
  obtain evs s ret where "mcp_run session_env session_system session_options session_start evs s" "ms_main s = Exited_With ret"
    using mcp_run_completes [OF start_table] by blast
  with mcp_answers_once [OF this(1)] show ?thesis by blast
qed

theorem mcp_terminates_witness:
  "\<exists>evs s. mcp_run session_env session_system session_options session_start evs s \<and>
     received evs = [''i'', ''n'', ''c'', ''x''] \<and> length evs \<le> 20 * length session_input + 4"
proof -
  obtain evs s where r: "mcp_run session_env session_system session_options session_start evs s"
    "received evs = [''i'', ''n'', ''c'', ''x'']"
    using session_cancelled by blast
  have "in_rest (tr_in (fresh_transport session_input)) = session_input" by (simp add: fresh_transport_def open_input_def)
  with mcp_terminates [OF r(1)] r show ?thesis by auto
qed

end
