(* ===== verification/Parser_State.thy ===== *)
theory Parser_State
  imports Index_Update
begin

text \<open>
  The index in memory while the parser fills it, \<open>lib/semindex_parser/semindex_internal.h\<close> and
  \<open>index_context.cpp\<close>: locations, the scope that is indexed, the symbols, uses and signatures that the
  visitors add, and the records that the C interface exposes. Clang's source manager is a
  parameter. A location is its raw encoding, 0 the invalid one. The fingerprints are in the
  theory Fingerprints.
\<close>

section \<open>Locations\<close>

type_synonym location = nat

text \<open>
  What the source manager says of a location: where it is spelled, the file, line and column it is
  presumed to be at, whether it is in the main file, a predefined file or a system header, and the
  buffer it is in with its offset.
\<close>

record source_manager =
  sm_spelling :: "location \<Rightarrow> location"
  sm_presumed :: "location \<Rightarrow> (string \<times> u32 \<times> u32) option"
  sm_main_file :: "location \<Rightarrow> bool"
  sm_predefined :: "location \<Rightarrow> bool"
  sm_system_header :: "location \<Rightarrow> bool"
  sm_character :: "location \<Rightarrow> (string \<times> nat) option"
  sm_presumed_column :: "location \<Rightarrow> u32"

text \<open>\<open>SemindexSourceLocation\<close>; the pointer is to a file of the index, here its name.\<close>

record source_location =
  lc_file :: "string option"
  lc_line :: u32
  lc_column :: u32

definition loc_to_file :: "source_manager \<Rightarrow> location \<Rightarrow> string \<times> u32 \<times> u32" where
  "loc_to_file sm loc = (case sm_presumed sm loc of None \<Rightarrow> (''<invalid>'', 0, 0) | Some p \<Rightarrow> p)"

text \<open>The text between the start of the line and the location.\<close>

definition line_prefix :: "string \<Rightarrow> nat \<Rightarrow> string" where
  "line_prefix buffer offset = rev (takeWhile (\<lambda>c. c \<noteq> CHR 0x0A) (rev (take offset buffer)))"

definition next_display_column :: "char \<Rightarrow> u32 \<Rightarrow> u32" where
  "next_display_column c col = (if c = CHR 0x09 then ((col - 1) div 8 + 1) * 8 + 1 else col + 1)"

definition display_column_for_loc :: "source_manager \<Rightarrow> location \<Rightarrow> u32" where
  "display_column_for_loc sm loc =
     (case sm_character sm (sm_spelling sm loc) of
        None \<Rightarrow> sm_presumed_column sm loc
      | Some (buffer, offset) \<Rightarrow> fold next_display_column (line_prefix buffer offset) 1)"

definition loc_in_scope :: "source_manager \<Rightarrow> scope \<Rightarrow> location \<Rightarrow> bool" where
  "loc_in_scope sm scope loc \<longleftrightarrow>
     scope = SCOPE_ALL \<or>
     loc \<noteq> 0 \<and>
     (let spelling = sm_spelling sm loc in
      if scope = SCOPE_FILE then sm_main_file sm spelling
      else \<not> sm_predefined sm spelling \<and> \<not> sm_system_header sm spelling)"

section \<open>The state\<close>

record parsed_symbol =
  ps_kind :: symbol_kind
  ps_name :: string
  ps_owner :: string
  ps_type :: string
  ps_canonical_type :: string
  ps_type_kind :: symbol_kind
  ps_type_symbol :: string
  ps_type_usr :: string
  ps_usr :: string
  ps_context :: string
  ps_loc :: source_location
  ps_local :: bool
  ps_definition :: bool
  ps_properties :: u64
  ps_order :: u64

record parsed_use =
  pu_kind :: use_kind
  pu_symbol_kind :: symbol_kind
  pu_mode :: u32
  pu_name :: string
  pu_owner :: string
  pu_type :: string
  pu_usr :: string
  pu_context :: string
  pu_context_usr :: string
  pu_usr_id :: u64
  pu_context_usr_id :: u64
  pu_loc :: source_location
  pu_local :: bool
  pu_order :: u64

record parsed_parameter =
  pp_name :: string
  pp_type :: string
  pp_canonical_type :: string
  pp_type_kind :: symbol_kind
  pp_type_symbol :: string
  pp_type_usr :: string

record parsed_signature =
  pg_name :: string
  pg_owner :: string
  pg_usr :: string
  pg_return_type :: string
  pg_canonical_return_type :: string
  pg_parameters :: "parsed_parameter list"
  pg_loc :: source_location
  pg_variadic :: bool

text \<open>
  \<open>struct semindex\<close>. The set of files is the list of its elements in order; the records, which the C
  interface reads by position, are kept as the index of the public header.
\<close>

record parser =
  px_scope :: scope
  px_details :: bool
  px_include_local :: bool
  px_points_to :: bool
  px_next_order :: u64
  px_files :: "string list"
  px_symbols :: "parsed_symbol list"
  px_uses :: "parsed_use list"
  px_signatures :: "parsed_signature list"
  px_index :: index
  px_command :: "compile_command option"
  px_directory :: string
  px_stats :: points_to_stats
  px_result :: index_result
  px_has_data :: bool
  px_diagnostics :: "diagnostic list"
  px_diagnostic_records :: "diagnostic list"

definition empty_index :: index where
  "empty_index = \<lparr>ix_symbols = [], ix_uses = [], ix_signatures = [], ix_fingerprints_nonlocal = [],
     ix_fingerprints_all = []\<rparr>"

section \<open>\<open>SemindexContext\<close>\<close>

definition in_scope :: "source_manager \<Rightarrow> parser \<Rightarrow> location \<Rightarrow> bool" where
  "in_scope sm p loc = loc_in_scope sm (px_scope p) loc"

definition intern_file :: "string \<Rightarrow> parser \<Rightarrow> parser" where
  "intern_file file p = p\<lparr>px_files := List.insort_insert file (px_files p)\<rparr>"

definition index_location :: "source_manager \<Rightarrow> location \<Rightarrow> parser \<Rightarrow> source_location \<times> parser" where
  "index_location sm loc p =
     (case loc_to_file sm loc of (file, line, column) \<Rightarrow>
        (\<lparr>lc_file = Some file, lc_line = line, lc_column = column\<rparr>, intern_file file p))"

definition display_location :: "source_manager \<Rightarrow> location \<Rightarrow> parser \<Rightarrow> source_location \<times> parser" where
  "display_location sm loc p =
     (case loc_to_file sm loc of (file, line, column) \<Rightarrow>
        (\<lparr>lc_file = Some file, lc_line = line, lc_column = display_column_for_loc sm loc\<rparr>, intern_file file p))"

definition command_path :: "parser \<Rightarrow> string \<Rightarrow> string" where
  "command_path p path =
     (if px_directory p = [] then lexically_normal path
      else
      let resolved = lexically_normal (if is_absolute path then path else path_join (px_directory p) path);
          relative = lexically_relative resolved (lexically_normal (px_directory p))
      in if relative \<noteq> [] then relative else resolved)"

definition location_key :: "source_location \<Rightarrow> string" where
  "location_key l =
     or_empty (lc_file l) @ ''|'' @ decimal (unat (lc_line l)) @ ''|'' @ decimal (unat (lc_column l))"

definition add_symbol :: "parsed_symbol \<Rightarrow> parser \<Rightarrow> parser" where
  "add_symbol s p =
     p\<lparr>px_next_order := px_next_order p + 1, px_symbols := px_symbols p @ [s\<lparr>ps_order := px_next_order p\<rparr>]\<rparr>"

definition add_use :: "parsed_use \<Rightarrow> parser \<Rightarrow> parser" where
  "add_use u p =
     p\<lparr>px_next_order := px_next_order p + 1, px_uses := px_uses p @ [u\<lparr>pu_order := px_next_order p\<rparr>]\<rparr>"

definition add_symbol_in_scope :: "source_manager \<Rightarrow> parsed_symbol \<Rightarrow> location \<Rightarrow> parser \<Rightarrow> parser" where
  "add_symbol_in_scope sm s loc p = (if in_scope sm p loc then add_symbol s p else p)"

definition add_use_in_scope :: "source_manager \<Rightarrow> parsed_use \<Rightarrow> location \<Rightarrow> parser \<Rightarrow> parser" where
  "add_use_in_scope sm u loc p = (if in_scope sm p loc then add_use u p else p)"

definition add_function_signature_in_scope ::
  "source_manager \<Rightarrow> parsed_signature \<Rightarrow> location \<Rightarrow> parser \<Rightarrow> parser" where
  "add_function_signature_in_scope sm g loc p =
     (if in_scope sm p loc then p\<lparr>px_signatures := px_signatures p @ [g]\<rparr> else p)"

definition set_points_to_stats :: "points_to_stats \<Rightarrow> parser \<Rightarrow> parser" where
  "set_points_to_stats st p = p\<lparr>px_stats := st\<rparr>"

definition no_location :: source_location where
  "no_location = \<lparr>lc_file = None, lc_line = 0, lc_column = 0\<rparr>"

text \<open>A use whose location is recorded and then, in scope, added.\<close>

definition locate_use :: "source_manager \<Rightarrow> parsed_use \<Rightarrow> location \<Rightarrow> location \<Rightarrow> parser \<Rightarrow> parser" where
  "locate_use sm u at scope p =
     (case index_location sm at p of (l, p1) \<Rightarrow> add_use_in_scope sm (u\<lparr>pu_loc := l\<rparr>) scope p1)"

definition locate_symbol :: "source_manager \<Rightarrow> parsed_symbol \<Rightarrow> bool \<Rightarrow> location \<Rightarrow> location \<Rightarrow> parser \<Rightarrow> parser" where
  "locate_symbol sm s displayed at scope p =
     (case (if displayed then display_location sm at p else index_location sm at p) of (l, p1) \<Rightarrow>
        add_symbol_in_scope sm (s\<lparr>ps_loc := l\<rparr>) scope p1)"

definition locate_signature :: "source_manager \<Rightarrow> parsed_signature \<Rightarrow> location \<Rightarrow> location \<Rightarrow> parser \<Rightarrow> parser" where
  "locate_signature sm g at scope p =
     (case index_location sm at p of (l, p1) \<Rightarrow> add_function_signature_in_scope sm (g\<lparr>pg_loc := l\<rparr>) scope p1)"

section \<open>The records\<close>

text \<open>\<open>xxh3_64bits\<close> of a nonempty identity, with the hash as a parameter.\<close>

definition usr_hash :: "(string \<Rightarrow> u64) \<Rightarrow> string \<Rightarrow> u64" where
  "usr_hash xxh3 usr = (if usr = [] then 0 else xxh3 usr)"

definition c_str :: "string \<Rightarrow> string option" where
  "c_str s = Some (c_text s)"

fun position_of :: "string \<Rightarrow> string list \<Rightarrow> nat" where
  "position_of x [] = 0"
| "position_of x (y # ys) = (if x = y then 0 else Suc (position_of x ys))"

definition loc_file :: "source_location \<Rightarrow> string" where
  "loc_file l = (case lc_file l of None \<Rightarrow> [] | Some file \<Rightarrow> c_text file)"

definition loc_file_index :: "string list \<Rightarrow> source_location \<Rightarrow> nat" where
  "loc_file_index files l = (case lc_file l of None \<Rightarrow> length files | Some file \<Rightarrow> position_of file files)"

definition symbol_record :: "(string \<Rightarrow> u64) \<Rightarrow> string list \<Rightarrow> parsed_symbol \<Rightarrow> symbol" where
  "symbol_record xxh3 files s =
     \<lparr>sym_kind = ps_kind s, sym_name = c_str (ps_name s), sym_owner = c_str (ps_owner s),
      sym_type = c_str (ps_type s), sym_canonical_type = c_str (ps_canonical_type s),
      sym_type_kind = ps_type_kind s, sym_type_symbol = c_str (ps_type_symbol s), sym_type_usr = c_str (ps_type_usr s),
      sym_type_usr_id = usr_hash xxh3 (ps_type_usr s), sym_usr = c_str (ps_usr s),
      sym_usr_id = usr_hash xxh3 (ps_usr s), sym_context = c_str (ps_context s), sym_file = loc_file (ps_loc s),
      sym_file_index = loc_file_index files (ps_loc s), sym_line = lc_line (ps_loc s), sym_column = lc_column (ps_loc s),
      sym_local = (if ps_local s then 1 else 0), sym_definition = (if ps_definition s then 1 else 0),
      sym_properties = ps_properties s, sym_order = ps_order s\<rparr>"

definition use_record :: "(string \<Rightarrow> u64) \<Rightarrow> string list \<Rightarrow> parsed_use \<Rightarrow> use" where
  "use_record xxh3 files u =
     \<lparr>use_kind_of = pu_kind u, use_symbol_kind = pu_symbol_kind u, use_mode = pu_mode u, use_name = c_str (pu_name u),
      use_owner = c_str (pu_owner u), use_type = c_str (pu_type u), use_usr = c_str (pu_usr u),
      use_context = c_str (pu_context u), use_context_usr = c_str (pu_context_usr u),
      use_usr_id = usr_hash xxh3 (pu_usr u), use_context_usr_id = usr_hash xxh3 (pu_context_usr u),
      use_file = loc_file (pu_loc u), use_file_index = loc_file_index files (pu_loc u), use_line = lc_line (pu_loc u),
      use_column = lc_column (pu_loc u), use_local = (if pu_local u then 1 else 0), use_order = pu_order u\<rparr>"

definition parameter_record :: "(string \<Rightarrow> u64) \<Rightarrow> parsed_parameter \<Rightarrow> parameter" where
  "parameter_record xxh3 q =
     \<lparr>par_name = c_str (pp_name q), par_type = c_str (pp_type q), par_canonical_type = c_str (pp_canonical_type q),
      par_type_kind = pp_type_kind q, par_type_symbol = c_str (pp_type_symbol q), par_type_usr = c_str (pp_type_usr q),
      par_type_usr_id = usr_hash xxh3 (pp_type_usr q)\<rparr>"

definition signature_record :: "(string \<Rightarrow> u64) \<Rightarrow> string list \<Rightarrow> parsed_signature \<Rightarrow> signature" where
  "signature_record xxh3 files g =
     \<lparr>sig_name = c_str (pg_name g), sig_owner = c_str (pg_owner g), sig_usr = c_str (pg_usr g),
      sig_usr_id = usr_hash xxh3 (pg_usr g), sig_return_type = c_str (pg_return_type g),
      sig_canonical_return_type = c_str (pg_canonical_return_type g),
      sig_parameters = map (parameter_record xxh3) (pg_parameters g), sig_file = loc_file (pg_loc g),
      sig_file_index = loc_file_index files (pg_loc g), sig_variadic = (if pg_variadic g then 1 else 0)\<rparr>"

definition rebuild_records :: "(string \<Rightarrow> u64) \<Rightarrow> parser \<Rightarrow> parser" where
  "rebuild_records xxh3 p =
     p\<lparr>px_index := (px_index p)
       \<lparr>ix_symbols := map (symbol_record xxh3 (px_files p)) (px_symbols p),
        ix_uses := map (use_record xxh3 (px_files p)) (px_uses p),
        ix_signatures := map (signature_record xxh3 (px_files p)) (px_signatures p)\<rparr>\<rparr>"

end
