(* ===== verification/Asm_Index.thy ===== *)
theory Asm_Index
  imports Parser_State
begin

text \<open>
  The indexer of preprocessed assembly, \<open>lib/semindex_parser/index_asm.cpp\<close>: a state machine on the
  tokens that finds the functions, which are labels that a directive declares as functions, and the
  direct calls, which are attributed to functions at the end.
\<close>

datatype token_kind = Tok_Identifier | Tok_Raw_Identifier | Tok_Period | Tok_Colon | Tok_Comma | Tok_Other

text \<open>A token with its spelling.\<close>

record token =
  tk_kind :: token_kind
  tk_text :: string
  tk_loc :: location

section \<open>The state\<close>

record marker =
  mk_location :: location
  mk_order :: nat

record asm_function =
  af_name :: string
  af_begin :: nat
  af_end :: nat

record asm_call =
  ac_target :: string
  ac_location :: location
  ac_order :: nat

datatype type_state =
  Type_None | Type_Dot | Type_Directive | Type_EntName | Type_EndName | Type_Name | Type_Comma | Type_Marker

datatype call_state = Call_None | Call_Direct | Call_JalFirst | Call_JalAfterFirst | Call_SkipToComma

record asm_indexer =
  as_type_state :: type_state
  as_type_name :: string
  as_type_location :: location
  as_previous :: string
  as_previous_location :: location
  as_previous_order :: nat
  as_order :: nat
  as_call_state :: call_state
  as_jal_target :: string
  as_jal_location :: location
  as_jal_order :: nat
  as_types :: "string \<rightharpoonup> marker"
  as_labels :: "string \<rightharpoonup> marker"
  as_emitted :: "string set"
  as_functions :: "asm_function list"
  as_calls :: "asm_call list"

definition new_indexer :: asm_indexer where
  "new_indexer =
     \<lparr>as_type_state = Type_None, as_type_name = [], as_type_location = 0, as_previous = [], as_previous_location = 0,
      as_previous_order = 0, as_order = 0, as_call_state = Call_None, as_jal_target = [], as_jal_location = 0,
      as_jal_order = 0, as_types = Map.empty, as_labels = Map.empty, as_emitted = {}, as_functions = [], as_calls = []\<rparr>"

section \<open>Tokens\<close>

definition is_identifier :: "token \<Rightarrow> bool" where
  "is_identifier t \<longleftrightarrow> tk_kind t = Tok_Identifier \<or> tk_kind t = Tok_Raw_Identifier"

definition is_function_marker :: "token \<Rightarrow> bool" where
  "is_function_marker t \<longleftrightarrow>
     tk_text t \<in> set [''function'', ''@function'', ''%function'', ''#function'', ''STT_FUNC'']"

definition is_marker_prefix :: "token \<Rightarrow> bool" where
  "is_marker_prefix t \<longleftrightarrow> tk_text t \<in> set [''@'', ''%'', ''#'']"

definition is_direct_call_mnemonic :: "string \<Rightarrow> bool" where
  "is_direct_call_mnemonic s \<longleftrightarrow> s \<in> set [''call'', ''callq'', ''bl'', ''jbsr'', ''bsr'']"

section \<open>Calls\<close>

definition add_pending_call :: "string \<Rightarrow> location \<Rightarrow> nat \<Rightarrow> asm_indexer \<Rightarrow> asm_indexer" where
  "add_pending_call target loc order a =
     a\<lparr>as_calls := as_calls a @ [\<lparr>ac_target = target, ac_location = loc, ac_order = order\<rparr>]\<rparr>"

definition observe_call :: "token \<Rightarrow> asm_indexer \<Rightarrow> asm_indexer" where
  "observe_call t a =
     (case as_call_state a of
        Call_Direct \<Rightarrow>
          (if is_identifier t then add_pending_call (tk_text t) (tk_loc t) (as_order a) a else a)\<lparr>as_call_state := Call_None\<rparr>
      | Call_SkipToComma \<Rightarrow> if tk_kind t = Tok_Comma then a\<lparr>as_call_state := Call_Direct\<rparr> else a
      | Call_JalFirst \<Rightarrow>
          if is_identifier t
          then a\<lparr>as_jal_target := tk_text t, as_jal_location := tk_loc t, as_jal_order := as_order a,
              as_call_state := Call_JalAfterFirst\<rparr>
          else a\<lparr>as_call_state := Call_None\<rparr>
      | Call_JalAfterFirst \<Rightarrow>
          if tk_kind t = Tok_Comma then a\<lparr>as_call_state := Call_Direct\<rparr>
          else (add_pending_call (as_jal_target a) (as_jal_location a) (as_jal_order a) a)\<lparr>as_call_state := Call_None\<rparr>
      | Call_None \<Rightarrow>
          if \<not> is_identifier t then a
          else if is_direct_call_mnemonic (tk_text t) then a\<lparr>as_call_state := Call_Direct\<rparr>
          else if tk_text t = ''jal'' then a\<lparr>as_call_state := Call_JalFirst\<rparr>
          else if tk_text t = ''brasl'' then a\<lparr>as_call_state := Call_SkipToComma\<rparr>
          else a)"

section \<open>Functions\<close>

definition function_symbol :: "string \<Rightarrow> parsed_symbol" where
  "function_symbol name =
     \<lparr>ps_kind = SYMBOL_FUNCTION, ps_name = name, ps_owner = [], ps_type = [], ps_canonical_type = [],
      ps_type_kind = SYMBOL_VAR, ps_type_symbol = [], ps_type_usr = [], ps_usr = [], ps_context = [],
      ps_loc = \<lparr>lc_file = None, lc_line = 0, lc_column = 0\<rparr>, ps_local = False, ps_definition = True,
      ps_properties = 0, ps_order = 0\<rparr>"

definition emit_function :: "source_manager \<Rightarrow> string \<Rightarrow> location \<Rightarrow> parser \<Rightarrow> parser" where
  "emit_function sm name loc p =
     (case index_location sm (sm_spelling sm loc) p of (l, p1) \<Rightarrow>
        add_symbol_in_scope sm ((function_symbol name)\<lparr>ps_loc := l\<rparr>) (sm_spelling sm loc) p1)"

text \<open>The type order counts as the end of a function only when it is behind the label.\<close>

definition try_add_function :: "source_manager \<Rightarrow> string \<Rightarrow> asm_indexer \<times> parser \<Rightarrow> asm_indexer \<times> parser" where
  "try_add_function sm name ap =
     (case ap of (a, p) \<Rightarrow>
      case (as_types a name, as_labels a name) of
        (Some type, Some label) \<Rightarrow>
          if name \<in> as_emitted a then (a, p)
          else (a\<lparr>as_emitted := insert name (as_emitted a),
                  as_functions := as_functions a @
                    [\<lparr>af_name = name, af_begin = mk_order label,
                      af_end = (if mk_order type > mk_order label then mk_order type else 0)\<rparr>]\<rparr>,
                emit_function sm name (mk_location label) p)
      | _ \<Rightarrow> (a, p))"

definition emplace :: "'k \<Rightarrow> 'v \<Rightarrow> ('k \<rightharpoonup> 'v) \<Rightarrow> ('k \<rightharpoonup> 'v)" where
  "emplace k v m = (case m k of None \<Rightarrow> m(k \<mapsto> v) | Some _ \<Rightarrow> m)"

definition add_function_type ::
  "source_manager \<Rightarrow> string \<Rightarrow> location \<Rightarrow> nat \<Rightarrow> asm_indexer \<times> parser \<Rightarrow> asm_indexer \<times> parser" where
  "add_function_type sm name loc order ap =
     try_add_function sm name
       ((fst ap)\<lparr>as_types := emplace name \<lparr>mk_location = loc, mk_order = order\<rparr> (as_types (fst ap))\<rparr>, snd ap)"

definition add_label ::
  "source_manager \<Rightarrow> string \<Rightarrow> location \<Rightarrow> nat \<Rightarrow> asm_indexer \<times> parser \<Rightarrow> asm_indexer \<times> parser" where
  "add_label sm name loc order ap =
     try_add_function sm name
       ((fst ap)\<lparr>as_labels := emplace name \<lparr>mk_location = loc, mk_order = order\<rparr> (as_labels (fst ap))\<rparr>, snd ap)"

definition end_function :: "string \<Rightarrow> nat \<Rightarrow> asm_indexer \<Rightarrow> asm_indexer" where
  "end_function name order a =
     a\<lparr>as_functions := map (\<lambda>f. if af_name f = name then f\<lparr>af_end := order\<rparr> else f) (as_functions a)\<rparr>"

definition reset_type :: "token \<Rightarrow> asm_indexer \<Rightarrow> asm_indexer" where
  "reset_type t a =
     a\<lparr>as_type_state := (if tk_kind t = Tok_Period then Type_Dot else Type_None), as_type_name := [], as_type_location := 0\<rparr>"

abbreviation set_type :: "type_state \<Rightarrow> asm_indexer \<times> parser \<Rightarrow> asm_indexer \<times> parser" where
  "set_type st ap \<equiv> ((fst ap)\<lparr>as_type_state := st\<rparr>, snd ap)"

definition observe_type :: "source_manager \<Rightarrow> token \<Rightarrow> asm_indexer \<times> parser \<Rightarrow> asm_indexer \<times> parser" where
  "observe_type sm t ap =
     (let a = fst ap; reset = (reset_type t a, snd ap) in
      case as_type_state a of
        Type_None \<Rightarrow> ap
      | Type_Dot \<Rightarrow>
          if \<not> is_identifier t then reset
          else if tk_text t = ''type'' then set_type Type_Directive ap
          else if tk_text t = ''ent'' then set_type Type_EntName ap
          else if tk_text t = ''end'' then set_type Type_EndName ap
          else reset
      | Type_EntName \<Rightarrow>
          set_type Type_None (if is_identifier t then add_function_type sm (tk_text t) (tk_loc t) (as_order a) ap else ap)
      | Type_EndName \<Rightarrow>
          set_type Type_None (if is_identifier t then (end_function (tk_text t) (as_order a) a, snd ap) else ap)
      | Type_Directive \<Rightarrow>
          if is_identifier t
          then (a\<lparr>as_type_name := tk_text t, as_type_location := tk_loc t, as_type_state := Type_Name\<rparr>, snd ap)
          else reset
      | Type_Name \<Rightarrow> if tk_kind t = Tok_Comma then set_type Type_Comma ap else reset
      | Type_Comma \<Rightarrow>
          if is_function_marker t
          then set_type Type_None (add_function_type sm (as_type_name a) (as_type_location a) (as_order a) ap)
          else if is_marker_prefix t then set_type Type_Marker ap
          else reset
      | Type_Marker \<Rightarrow>
          set_type Type_None
            (if is_function_marker t \<and> tk_text t = ''function''
             then add_function_type sm (as_type_name a) (as_type_location a) (as_order a) ap else ap))"

section \<open>One token\<close>

definition observe_label :: "source_manager \<Rightarrow> token \<Rightarrow> asm_indexer \<times> parser \<Rightarrow> asm_indexer \<times> parser" where
  "observe_label sm t ap =
     (let a = fst ap in
      if tk_kind t = Tok_Colon \<and> as_previous a \<noteq> []
      then add_label sm (as_previous a) (as_previous_location a) (as_previous_order a) ap else ap)"

definition remember_token :: "token \<Rightarrow> asm_indexer \<Rightarrow> asm_indexer" where
  "remember_token t a =
     (if is_identifier t
      then a\<lparr>as_previous := tk_text t, as_previous_location := tk_loc t, as_previous_order := as_order a\<rparr>
      else a\<lparr>as_previous := [], as_previous_location := 0\<rparr>)\<lparr>as_order := as_order a + 1\<rparr>"

definition observe_directive :: "source_manager \<Rightarrow> token \<Rightarrow> asm_indexer \<times> parser \<Rightarrow> asm_indexer \<times> parser" where
  "observe_directive sm t ap =
     (if as_type_state (fst ap) \<noteq> Type_None then observe_type sm t ap
      else if tk_kind t = Tok_Period then set_type Type_Dot ap else ap)"

definition observe :: "source_manager \<Rightarrow> token \<Rightarrow> asm_indexer \<times> parser \<Rightarrow> asm_indexer \<times> parser" where
  "observe sm t ap =
     (case observe_label sm t (observe_directive sm t (observe_call t (fst ap), snd ap)) of
        (a, p) \<Rightarrow> (remember_token t a, p))"

section \<open>The end of the file\<close>

text \<open>A function without an end goes up to the next one.\<close>

fun close_functions :: "asm_function list \<Rightarrow> asm_function list" where
  "close_functions [] = []"
| "close_functions [f] = [if af_end f < af_begin f then f\<lparr>af_end := SIZE_MAX\<rparr> else f]"
| "close_functions (f # g # fs) =
     (if af_end f < af_begin f then f\<lparr>af_end := af_begin g\<rparr> else f) # close_functions (g # fs)"

fun containing_function :: "nat \<Rightarrow> asm_function list \<Rightarrow> asm_function option \<Rightarrow> asm_function option" where
  "containing_function order [] found = found"
| "containing_function order (f # fs) found =
     (if af_begin f > order then found
      else containing_function order fs (if order \<le> af_end f then Some f else found))"

definition call_use :: "string \<Rightarrow> string \<Rightarrow> parsed_use" where
  "call_use target context1 =
     \<lparr>pu_kind = USE_CALL, pu_symbol_kind = SYMBOL_FUNCTION, pu_mode = MODE_R_PTR, pu_name = target, pu_owner = [],
      pu_type = [], pu_usr = [], pu_context = context1, pu_context_usr = [], pu_usr_id = 0,
      pu_context_usr_id = 0,
      pu_loc = \<lparr>lc_file = None, lc_line = 0, lc_column = 0\<rparr>, pu_local = False, pu_order = 0\<rparr>"

definition add_call :: "source_manager \<Rightarrow> asm_call \<Rightarrow> asm_function \<Rightarrow> parser \<Rightarrow> parser" where
  "add_call sm c f p =
     (case index_location sm (sm_spelling sm (ac_location c)) p of (l, p1) \<Rightarrow>
        add_use_in_scope sm ((call_use (ac_target c) (af_name f))\<lparr>pu_loc := l\<rparr>) (sm_spelling sm (ac_location c)) p1)"

definition finished_functions :: "asm_indexer \<Rightarrow> asm_function list" where
  "finished_functions a = close_functions (sort_key af_begin (as_functions a))"

definition asm_finish :: "source_manager \<Rightarrow> asm_indexer \<Rightarrow> parser \<Rightarrow> parser" where
  "asm_finish sm a p =
     fold (\<lambda>c p. case containing_function (ac_order c) (finished_functions a) None of
         None \<Rightarrow> p
       | Some f \<Rightarrow> add_call sm c f p) (as_calls a) p"

end
