(* ===== verification/Fingerprints.thy ===== *)
theory Fingerprints
  imports Parser_State
begin

text \<open>
  The fingerprints of the files of an index, \<open>rebuildFingerprints\<close> in
  \<open>lib/semindex_parser/index_context.cpp\<close>. A hasher is the list of bytes it has been given; the digest
  of such a list, BLAKE3, is a parameter.
\<close>

type_synonym bytes = "8 word list"

section \<open>Hashing values\<close>

definition word_bytes :: "u64 \<Rightarrow> bytes" where
  "word_bytes v = map (\<lambda>i. ucast (drop_bit (8 * i) v)) [0..<8]"

definition hash_integer :: "bytes \<Rightarrow> u64 \<Rightarrow> bytes" where
  "hash_integer h v = h @ word_bytes v"

definition text_bytes :: "string \<Rightarrow> bytes" where
  "text_bytes s = map (\<lambda>c. word_of_nat (of_char c)) s"

definition hash_string :: "bytes \<Rightarrow> string option \<Rightarrow> bytes" where
  "hash_string h v = hash_integer h (word_of_nat (length (or_empty v))) @ text_bytes (or_empty v)"

text \<open>A sequence of calls of the two functions above.\<close>

datatype hashed = Hash_Int u64 | Hash_Str "string option"

fun hash_value :: "hashed \<Rightarrow> bytes \<Rightarrow> bytes" where
  "hash_value (Hash_Int v) h = hash_integer h v"
| "hash_value (Hash_Str v) h = hash_string h v"

definition hash_values :: "bytes \<Rightarrow> hashed list \<Rightarrow> bytes" where
  "hash_values h vs = fold hash_value vs h"

section \<open>Records\<close>

record fingerprint_record =
  fr_record :: int
  fr_action :: int
  fr_kind :: int
  fr_mode :: u64
  fr_owner :: "string option"
  fr_name :: "string option"
  fr_line :: u32
  fr_column :: u32
  fr_context :: "string option"
  fr_usr_id :: u64
  fr_context_usr_id :: u64
  fr_local :: int
  fr_type :: "string option"
  fr_canonical_type :: "string option"
  fr_type_symbol :: "string option"
  fr_type_kind :: int
  fr_type_usr_id :: u64
  fr_properties :: u64

definition record_values :: "fingerprint_record \<Rightarrow> hashed list" where
  "record_values r =
     [Hash_Int (word_of_int (fr_record r)), Hash_Int (word_of_int (fr_action r)), Hash_Int (word_of_int (fr_kind r)),
      Hash_Int (fr_mode r), Hash_Str (fr_owner r), Hash_Str (fr_name r), Hash_Int (ucast (fr_line r)),
      Hash_Int (ucast (fr_column r)), Hash_Str (fr_context r), Hash_Int (fr_usr_id r), Hash_Int (fr_context_usr_id r),
      Hash_Int (word_of_int (fr_local r)), Hash_Str (fr_type r), Hash_Str (fr_canonical_type r),
      Hash_Str (fr_type_symbol r), Hash_Int (word_of_int (fr_type_kind r)), Hash_Int (fr_type_usr_id r),
      Hash_Int (fr_properties r)]"

definition hash_record :: "bytes \<Rightarrow> fingerprint_record \<Rightarrow> bytes" where
  "hash_record h r = hash_values h (record_values r)"

definition parameter_values :: "nat \<Rightarrow> parameter \<Rightarrow> hashed list" where
  "parameter_values i q =
     [Hash_Int (word_of_nat i), Hash_Str (par_name q), Hash_Str (par_type q), Hash_Str (par_canonical_type q),
      Hash_Str (par_type_symbol q),
      Hash_Int (if par_type_usr_id q \<noteq> 0 then word_of_int (kind_code (par_type_kind q)) else - 1),
      Hash_Int (par_type_usr_id q)]"

definition signature_values :: "signature \<Rightarrow> hashed list" where
  "signature_values g =
     [Hash_Int 2, Hash_Str (sig_name g), Hash_Int (sig_usr_id g), Hash_Str (sig_return_type g),
      Hash_Str (sig_canonical_return_type g), Hash_Int (word_of_int (sig_variadic g)),
      Hash_Int (word_of_nat (length (sig_parameters g)))] @
     concat (map (\<lambda>(i, q). parameter_values i q) (enumerate 0 (sig_parameters g)))"

definition hash_function_signature :: "bytes \<Rightarrow> signature \<Rightarrow> bytes" where
  "hash_function_signature h g = hash_values h (signature_values g)"

section \<open>The two fingerprints of a file\<close>

text \<open>The second hasher starts only with the first local record, from a copy of the first one.\<close>

record fingerprint_state =
  fq_hash_nonlocal :: bytes
  fq_hash_all :: bytes
  fq_records_nonlocal :: nat
  fq_records_all :: nat
  fq_has_local :: bool

definition new_fingerprint :: fingerprint_state where
  "new_fingerprint = \<lparr>fq_hash_nonlocal = [], fq_hash_all = [], fq_records_nonlocal = 0, fq_records_all = 0,
     fq_has_local = False\<rparr>"

definition split_fingerprint :: "fingerprint_state \<Rightarrow> fingerprint_state" where
  "split_fingerprint s =
     (if fq_has_local s then s
      else s\<lparr>fq_hash_all := fq_hash_nonlocal s, fq_records_all := fq_records_nonlocal s, fq_has_local := True\<rparr>)"

definition update_fingerprints :: "fingerprint_state \<Rightarrow> fingerprint_record \<Rightarrow> fingerprint_state" where
  "update_fingerprints s r =
     (if fr_local r \<noteq> 0
      then let s1 = split_fingerprint s in
        s1\<lparr>fq_hash_all := hash_record (fq_hash_all s1) r, fq_records_all := fq_records_all s1 + 1\<rparr>
      else
      let s1 = s\<lparr>fq_hash_nonlocal := hash_record (fq_hash_nonlocal s) r,
          fq_records_nonlocal := fq_records_nonlocal s + 1\<rparr>
      in if fq_has_local s1
         then s1\<lparr>fq_hash_all := hash_record (fq_hash_all s1) r, fq_records_all := fq_records_all s1 + 1\<rparr>
         else s1)"

definition update_function_signature_fingerprint :: "fingerprint_state \<Rightarrow> signature \<Rightarrow> fingerprint_state" where
  "update_function_signature_fingerprint s g =
     (let s1 = s\<lparr>fq_hash_nonlocal := hash_function_signature (fq_hash_nonlocal s) g,
          fq_records_nonlocal := fq_records_nonlocal s + 1\<rparr>
      in if fq_has_local s1
         then s1\<lparr>fq_hash_all := hash_function_signature (fq_hash_all s1) g, fq_records_all := fq_records_all s1 + 1\<rparr>
         else s1)"

section \<open>All files\<close>

definition symbol_fingerprint :: "symbol \<Rightarrow> fingerprint_record" where
  "symbol_fingerprint s =
     \<lparr>fr_record = 0, fr_action = sym_definition s, fr_kind = kind_code (sym_kind s), fr_mode = 0,
      fr_owner = sym_owner s, fr_name = sym_name s, fr_line = sym_line s, fr_column = sym_column s,
      fr_context = sym_context s, fr_usr_id = sym_usr_id s, fr_context_usr_id = 0, fr_local = sym_local s,
      fr_type = sym_type s, fr_canonical_type = sym_canonical_type s, fr_type_symbol = sym_type_symbol s,
      fr_type_kind = (if sym_type_usr_id s \<noteq> 0 then kind_code (sym_type_kind s) else - 1),
      fr_type_usr_id = sym_type_usr_id s, fr_properties = sym_properties s\<rparr>"

definition use_fingerprint :: "use \<Rightarrow> fingerprint_record" where
  "use_fingerprint u =
     \<lparr>fr_record = 1, fr_action = use_code (use_kind_of u), fr_kind = kind_code (use_symbol_kind u),
      fr_mode = ucast (use_mode u), fr_owner = use_owner u, fr_name = use_name u, fr_line = use_line u,
      fr_column = use_column u, fr_context = use_context u, fr_usr_id = use_usr_id u,
      fr_context_usr_id = use_context_usr_id u, fr_local = use_local u, fr_type = Some [],
      fr_canonical_type = Some [], fr_type_symbol = Some [], fr_type_kind = - 1, fr_type_usr_id = 0,
      fr_properties = 0\<rparr>"

definition at_file :: "(fingerprint_state \<Rightarrow> fingerprint_state) \<Rightarrow> nat \<Rightarrow> fingerprint_state list \<Rightarrow> fingerprint_state list" where
  "at_file f i fps = (if i \<ge> length fps then fps else fps[i := f (fps ! i)])"

definition collect_fingerprints :: "nat \<Rightarrow> index \<Rightarrow> fingerprint_state list" where
  "collect_fingerprints n ix =
     fold (\<lambda>g. at_file (\<lambda>s. update_function_signature_fingerprint s g) (sig_file_index g)) (ix_signatures ix)
       (fold (\<lambda>u. at_file (\<lambda>s. update_fingerprints s (use_fingerprint u)) (use_file_index u)) (ix_uses ix)
         (fold (\<lambda>y. at_file (\<lambda>s. update_fingerprints s (symbol_fingerprint y)) (sym_file_index y)) (ix_symbols ix)
           (replicate n new_fingerprint)))"

definition nonlocal_fingerprint :: "(bytes \<Rightarrow> digest) \<Rightarrow> string \<Rightarrow> fingerprint_state \<Rightarrow> file_fingerprint" where
  "nonlocal_fingerprint blake3 file s =
     \<lparr>fp_file = c_text file, fp_data = blake3 (fq_hash_nonlocal s), fp_record_count = fq_records_nonlocal s\<rparr>"

definition all_fingerprint :: "(bytes \<Rightarrow> digest) \<Rightarrow> string \<Rightarrow> fingerprint_state \<Rightarrow> file_fingerprint" where
  "all_fingerprint blake3 file s =
     \<lparr>fp_file = c_text file,
      fp_data = (if fq_has_local s then blake3 (fq_hash_all s) else blake3 (fq_hash_nonlocal s)),
      fp_record_count = (if fq_has_local s then fq_records_all s else fq_records_nonlocal s)\<rparr>"

definition rebuild_fingerprints :: "(bytes \<Rightarrow> digest) \<Rightarrow> parser \<Rightarrow> parser" where
  "rebuild_fingerprints blake3 p =
     (let fps = collect_fingerprints (length (px_files p)) (px_index p) in
      p\<lparr>px_index := (px_index p)
        \<lparr>ix_fingerprints_nonlocal := map2 (nonlocal_fingerprint blake3) (px_files p) fps,
         ix_fingerprints_all := map2 (all_fingerprint blake3) (px_files p) fps\<rparr>\<rparr>)"

end
