(* ===== verification/Ast.thy ===== *)
theory Ast
  imports Parser_State
begin

text \<open>
  What \<open>lib/semindex_parser/index_ast.cpp\<close> asks of Clang's syntax tree, as records of what Clang's
  accessors return, and the functions of the file that only look at the tree: names, types,
  owners, and how an expression is used. A declaration and a type are given by their addresses, the
  null type by 0.
\<close>

section \<open>The tree\<close>

type_synonym decl = nat
type_synonym qtype = nat

datatype decl_class =
  Class_Var | Class_Parm_Var | Class_Field | Class_Indirect_Field | Class_Enum_Constant | Class_Function | Class_Method
| Class_Constructor | Class_Destructor | Class_Value | Class_Record | Class_CXX_Record | Class_Enum
| Class_Typedef_Name | Class_Namespace | Class_Named | Class_Other

text \<open>
  An expression as the analysis of pointers walks it: each operand is given without its parentheses,
  which Clang removes. The flag says whether it is a null pointer constant.
\<close>

datatype points_expr =
  Cast_Of points_expr
| Address_Of points_expr
| Deref_Of points_expr
| Conditional_Of points_expr points_expr
| Reference_To decl bool
| Member_Of decl bool
| Value_Of bool

text \<open>A field with the fields of the record that is its type, if it is one.\<close>

datatype field_tree = Field_Tree (tree_field: decl) (tree_fields: "field_tree list")

text \<open>The type as it is written: its parts from the outside in, and whether it is a typedef but for parentheses.\<close>

datatype type_loc = Loc_Typedef decl | Loc_Record decl | Loc_Enum decl | Loc_Other

record type_source =
  ty_locs :: "type_loc list"
  ty_typedef :: bool

record cleanup_attr =
  cu_function :: "decl option"
  cu_argument :: location
  cu_location :: location

record alias_attr =
  la_aliasee :: string
  la_location :: location
  la_begin :: location
  la_text :: string

text \<open>The contexts of a declaration are the enclosing ones, the innermost first.\<close>

record decl_node =
  dn_class :: decl_class
  dn_name :: string
  dn_usr :: "string option"
  dn_location :: location
  dn_contexts :: "decl list"
  dn_in_function :: bool
  dn_canonical :: decl
  dn_parent :: "decl option"
  dn_is_definition :: bool
  dn_definition :: "decl option"

record value_node =
  vn_type :: qtype
  vn_original_type :: qtype
  vn_type_source :: "type_source option"
  vn_init :: "points_expr option"
  vn_cleanup :: "cleanup_attr option"
  vn_alias :: "alias_attr option"
  vn_begin :: location
  vn_end :: location
  vn_external :: bool
  vn_anon_field :: decl
  vn_chain :: "decl list"

record function_node =
  fn_has_body :: bool
  fn_has_prototype :: bool
  fn_parameters :: "decl list"
  fn_return :: qtype
  fn_variadic :: bool
  fn_redecls :: "decl list"
  fn_constructor_attr :: bool
  fn_destructor_attr :: bool

record record_node =
  rd_union :: bool
  rd_template :: "decl option"
  rd_lambda :: bool
  rd_specialized :: bool
  rd_pattern :: "decl option"
  rd_members :: "decl list"
  rd_fields :: "field_tree list"
  rd_brace :: location
  rd_typedef_name :: bool

record type_node =
  tn_canonical :: qtype
  tn_string :: string
  tn_typedef :: bool
  tn_written :: bool
  tn_record :: "decl option"
  tn_enum :: "decl option"
  tn_function_pointer :: bool
  tn_pointer :: bool
  tn_pointee :: qtype

text \<open>
  The tree with its source manager. The underlying type of a typedef is the type of its node. The
  order in which a hash table gives the entries of one key is a function on their list.
\<close>

record ast =
  at_sources :: source_manager
  at_decl :: "decl \<Rightarrow> decl_node"
  at_value :: "decl \<Rightarrow> value_node"
  at_function :: "decl \<Rightarrow> function_node"
  at_record :: "decl \<Rightarrow> record_node"
  at_type :: "qtype \<Rightarrow> type_node"
  at_lookup :: "string \<Rightarrow> decl list"
  at_expansion :: "location \<Rightarrow> location"
  at_within :: "location \<Rightarrow> location \<Rightarrow> location \<Rightarrow> bool"
  at_macro :: "location \<Rightarrow> bool"
  at_offset :: "location \<Rightarrow> nat \<Rightarrow> location"
  at_bucket :: "decl list \<Rightarrow> decl list"

text \<open>What \<open>isa\<close> and \<open>dyn_cast\<close> say.\<close>

definition is_value :: "ast \<Rightarrow> decl \<Rightarrow> bool" where
  "is_value a d \<longleftrightarrow> dn_class (at_decl a d) \<in> set [Class_Var, Class_Parm_Var, Class_Field, Class_Indirect_Field,
     Class_Enum_Constant, Class_Function, Class_Method, Class_Constructor, Class_Destructor, Class_Value]"

definition is_var :: "ast \<Rightarrow> decl \<Rightarrow> bool" where
  "is_var a d \<longleftrightarrow> dn_class (at_decl a d) \<in> set [Class_Var, Class_Parm_Var]"

definition is_function :: "ast \<Rightarrow> decl \<Rightarrow> bool" where
  "is_function a d \<longleftrightarrow> dn_class (at_decl a d) \<in> set [Class_Function, Class_Method, Class_Constructor, Class_Destructor]"

definition is_method :: "ast \<Rightarrow> decl \<Rightarrow> bool" where
  "is_method a d \<longleftrightarrow> dn_class (at_decl a d) \<in> set [Class_Method, Class_Constructor, Class_Destructor]"

definition is_field :: "ast \<Rightarrow> decl \<Rightarrow> bool" where
  "is_field a d \<longleftrightarrow> dn_class (at_decl a d) = Class_Field"

definition is_indirect_field :: "ast \<Rightarrow> decl \<Rightarrow> bool" where
  "is_indirect_field a d \<longleftrightarrow> dn_class (at_decl a d) = Class_Indirect_Field"

definition is_record :: "ast \<Rightarrow> decl \<Rightarrow> bool" where
  "is_record a d \<longleftrightarrow> dn_class (at_decl a d) \<in> set [Class_Record, Class_CXX_Record]"

definition is_cxx_record :: "ast \<Rightarrow> decl \<Rightarrow> bool" where
  "is_cxx_record a d \<longleftrightarrow> dn_class (at_decl a d) = Class_CXX_Record"

section \<open>Names\<close>

definition decl_name :: "ast \<Rightarrow> decl \<Rightarrow> string" where
  "decl_name a d = (if dn_class (at_decl a d) = Class_Other then [] else dn_name (at_decl a d))"

definition decl_usr :: "ast \<Rightarrow> decl \<Rightarrow> string" where
  "decl_usr a d = or_empty (dn_usr (at_decl a d))"

definition symbol_kind_for_decl :: "ast \<Rightarrow> decl \<Rightarrow> symbol_kind" where
  "symbol_kind_for_decl a d =
     (if is_field a d \<or> is_indirect_field a d then SYMBOL_FIELD
      else if dn_class (at_decl a d) = Class_Enum_Constant then SYMBOL_ENUM_CONSTANT
      else if is_function a d then SYMBOL_FUNCTION
      else SYMBOL_VAR)"

definition has_record_owner :: "ast \<Rightarrow> decl \<Rightarrow> bool" where
  "has_record_owner a d \<longleftrightarrow> is_field a d \<or> is_indirect_field a d \<or> is_method a d"

fun namespaces_prefix :: "ast \<Rightarrow> decl list \<Rightarrow> string \<Rightarrow> string" where
  "namespaces_prefix a [] prefix1 = prefix1"
| "namespaces_prefix a (c # cs) prefix1 =
     (if dn_class (at_decl a c) \<noteq> Class_Namespace then prefix1
      else namespaces_prefix a cs (dn_name (at_decl a c) @ ''::'' @ prefix1))"

definition namespace_prefix :: "ast \<Rightarrow> decl \<Rightarrow> string" where
  "namespace_prefix a d = namespaces_prefix a (dn_contexts (at_decl a d)) []"

definition qualified_record_name :: "ast \<Rightarrow> decl \<Rightarrow> string" where
  "qualified_record_name a d =
     (let prefix1 = namespace_prefix a d;
          whole = (if prefix1 \<noteq> [] then prefix1 @ dn_name (at_decl a d) else prefix1)
      in if whole = [] then dn_name (at_decl a d) else whole)"

definition qualified_enum_name :: "ast \<Rightarrow> decl \<Rightarrow> string" where
  "qualified_enum_name a d =
     (let prefix1 = namespace_prefix a d;
          whole = (if prefix1 \<noteq> [] then prefix1 @ dn_name (at_decl a d) else prefix1)
      in if whole = [] then dn_name (at_decl a d) else whole)"

definition decl_context :: "ast \<Rightarrow> decl \<Rightarrow> decl option" where
  "decl_context a d = (case dn_contexts (at_decl a d) of [] \<Rightarrow> None | c # _ \<Rightarrow> Some c)"

definition record_context :: "ast \<Rightarrow> decl \<Rightarrow> decl option" where
  "record_context a d = (case decl_context a d of None \<Rightarrow> None | Some c \<Rightarrow> if is_record a c then Some c else None)"

definition owner_name :: "ast \<Rightarrow> decl \<Rightarrow> string" where
  "owner_name a d =
     (if \<not> has_record_owner a d then []
      else case record_context a d of None \<Rightarrow> [] | Some r \<Rightarrow> qualified_record_name a r)"

definition record_kind_for_decl :: "ast \<Rightarrow> decl \<Rightarrow> symbol_kind" where
  "record_kind_for_decl a d =
     (if rd_union (at_record a d) then SYMBOL_UNION
      else if is_cxx_record a d \<and> rd_template (at_record a d) \<noteq> None then SYMBOL_TEMPLATE
      else if is_cxx_record a d then SYMBOL_CLASS
      else SYMBOL_STRUCT)"

definition is_lambda_closure :: "ast \<Rightarrow> decl \<Rightarrow> bool" where
  "is_lambda_closure a d \<longleftrightarrow> is_cxx_record a d \<and> rd_lambda (at_record a d)"

definition lambda_closure_for :: "ast \<Rightarrow> decl \<Rightarrow> decl option" where
  "lambda_closure_for a d =
     (case dn_parent (at_decl a d) of
        None \<Rightarrow> None
      | Some r \<Rightarrow> if rd_lambda (at_record a r) then Some r else None)"

section \<open>Types\<close>

definition record_decl_for_type :: "ast \<Rightarrow> qtype \<Rightarrow> decl option" where
  "record_decl_for_type a t = tn_record (at_type a (tn_canonical (at_type a t)))"

definition is_typedef_type :: "ast \<Rightarrow> qtype \<Rightarrow> bool" where
  "is_typedef_type a t = tn_typedef (at_type a t)"

definition is_written_as_typedef :: "type_source option \<Rightarrow> bool" where
  "is_written_as_typedef info = (case info of None \<Rightarrow> False | Some i \<Rightarrow> ty_typedef i)"

definition is_anonymous_record :: "ast \<Rightarrow> decl option \<Rightarrow> bool" where
  "is_anonymous_record a d = (case d of None \<Rightarrow> False | Some r \<Rightarrow> decl_name a r = [])"

definition anonymous_record_name_for_var :: "ast \<Rightarrow> decl \<Rightarrow> string" where
  "anonymous_record_name_for_var a d = '':'' @ decl_name a d"

definition anonymous_record_name_for_typedef :: "ast \<Rightarrow> decl \<Rightarrow> string" where
  "anonymous_record_name_for_typedef a d = '':'' @ decl_name a d"

definition type_name_for_record :: "ast \<Rightarrow> decl \<Rightarrow> string \<Rightarrow> string" where
  "type_name_for_record a d name = (if rd_union (at_record a d) then ''union '' else ''struct '') @ name"

definition stable_type_name :: "ast \<Rightarrow> qtype \<Rightarrow> string" where
  "stable_type_name a t =
     (if tn_written (at_type a t) then tn_string (at_type a t)
      else case tn_enum (at_type a t) of
        None \<Rightarrow> tn_string (at_type a t)
      | Some d \<Rightarrow>
          if decl_name a d \<noteq> [] \<or> rd_typedef_name (at_record a d) then tn_string (at_type a t)
          else (case sm_presumed (at_sources a) (dn_location (at_decl a d)) of
             None \<Rightarrow> ''enum (unnamed)''
           | Some (file, line, column) \<Rightarrow>
               ''enum (unnamed at '' @ file @ '':'' @ decimal (unat line) @ '':'' @ decimal (unat column) @ '')''))"

definition canonical_type_name :: "ast \<Rightarrow> qtype \<Rightarrow> string" where
  "canonical_type_name a t = stable_type_name a (tn_canonical (at_type a t))"

fun identity_of_locs :: "ast \<Rightarrow> type_loc list \<Rightarrow> (symbol_kind \<times> decl) option" where
  "identity_of_locs a [] = None"
| "identity_of_locs a (l # ls) =
     (case l of
        Loc_Typedef d \<Rightarrow> Some (SYMBOL_TYPEDEF, d)
      | Loc_Record d \<Rightarrow> Some (record_kind_for_decl a d, d)
      | Loc_Enum d \<Rightarrow> Some (SYMBOL_ENUM, d)
      | Loc_Other \<Rightarrow> identity_of_locs a ls)"

definition declared_type_identity :: "ast \<Rightarrow> type_source option \<Rightarrow> (symbol_kind \<times> decl) option" where
  "declared_type_identity a info = (case info of None \<Rightarrow> None | Some i \<Rightarrow> identity_of_locs a (ty_locs i))"

definition type_identity_name :: "ast \<Rightarrow> decl \<Rightarrow> string" where
  "type_identity_name a d =
     (if is_record a d then qualified_record_name a d
      else if dn_class (at_decl a d) = Class_Enum then qualified_enum_name a d
      else decl_name a d)"

definition set_symbol_type_identity :: "ast \<Rightarrow> type_source option \<Rightarrow> parsed_symbol \<Rightarrow> parsed_symbol" where
  "set_symbol_type_identity a info s =
     (case declared_type_identity a info of
        None \<Rightarrow> s
      | Some (kind, d) \<Rightarrow>
          if decl_name a d = [] then s
          else s\<lparr>ps_type_kind := kind, ps_type_symbol := type_identity_name a d, ps_type_usr := decl_usr a d\<rparr>)"

definition set_parameter_type_identity :: "ast \<Rightarrow> type_source option \<Rightarrow> parsed_parameter \<Rightarrow> parsed_parameter" where
  "set_parameter_type_identity a info q =
     (case declared_type_identity a info of
        None \<Rightarrow> q
      | Some (kind, d) \<Rightarrow>
          if decl_name a d = [] then q
          else q\<lparr>pp_type_kind := kind, pp_type_symbol := type_identity_name a d, pp_type_usr := decl_usr a d\<rparr>)"

definition type_name_for_typedef :: "ast \<Rightarrow> decl \<Rightarrow> string" where
  "type_name_for_typedef a d =
     (case record_decl_for_type a (vn_type (at_value a d)) of
        None \<Rightarrow> stable_type_name a (vn_type (at_value a d))
      | Some r \<Rightarrow>
          if decl_name a r = [] then type_name_for_record a r (anonymous_record_name_for_typedef a d)
          else stable_type_name a (vn_type (at_value a d)))"

section \<open>How an expression is used\<close>

text \<open>
  An expression has an address, and an address without parentheses and implicit casts. Its parents are
  given up to the root, the nearest first, each as far as it is looked at.
\<close>

record expr_address =
  ea_self :: nat
  ea_bare :: nat

datatype unary_op = Op_Deref | Op_Address | Op_Step | Op_Other

datatype parent_node =
  Parent_Unary unary_op expr_address
| Parent_Binary bool nat
| Parent_Call nat
| Parent_Member bool nat
| Parent_Paren expr_address
| Parent_Implicit_Cast expr_address
| Parent_Stmt
| Parent_Var decl
| Parent_Other

record visited_expr =
  ve_address :: expr_address
  ve_parents :: "parent_node list"
  ve_bare_parents :: "parent_node list"
  ve_loc :: location
  ve_function_type :: bool

definition call_wrapper :: "parent_node \<Rightarrow> expr_address option" where
  "call_wrapper p =
     (case p of
        Parent_Paren e \<Rightarrow> Some e
      | Parent_Implicit_Cast e \<Rightarrow> Some e
      | Parent_Unary op1 e \<Rightarrow> if op1 = Op_Deref \<or> op1 = Op_Address then Some e else None
      | _ \<Rightarrow> None)"

fun is_direct_call_callee :: "expr_address \<Rightarrow> parent_node list \<Rightarrow> bool" where
  "is_direct_call_callee current1 [] = False"
| "is_direct_call_callee current1 (p # ps) =
     (case p of
        Parent_Call callee \<Rightarrow> callee = ea_bare current1
      | _ \<Rightarrow> (case call_wrapper p of None \<Rightarrow> False | Some e \<Rightarrow> is_direct_call_callee e ps))"

fun is_call_callee :: "expr_address \<Rightarrow> parent_node list \<Rightarrow> bool" where
  "is_call_callee current1 [] = False"
| "is_call_callee current1 (p # ps) =
     (case p of
        Parent_Call callee \<Rightarrow> callee = ea_bare current1
      | _ \<Rightarrow> (case call_wrapper p of None \<Rightarrow> False | Some e \<Rightarrow> is_call_callee e ps))"

fun is_pointer_read_operand :: "expr_address \<Rightarrow> parent_node list \<Rightarrow> bool" where
  "is_pointer_read_operand e [] = False"
| "is_pointer_read_operand e (p # ps) =
     (case p of
        Parent_Unary op1 _ \<Rightarrow> op1 = Op_Deref
      | Parent_Member arrow base \<Rightarrow> arrow \<and> base = ea_bare e
      | Parent_Paren _ \<Rightarrow> is_pointer_read_operand e ps
      | Parent_Implicit_Cast _ \<Rightarrow> is_pointer_read_operand e ps
      | _ \<Rightarrow> False)"

fun classify_parents :: "nat \<Rightarrow> parent_node list \<Rightarrow> use_kind" where
  "classify_parents current1 [] = USE_READ"
| "classify_parents current1 (p # ps) =
     (case p of
        Parent_Unary op1 _ \<Rightarrow> if op1 = Op_Address then USE_ADDR else if op1 = Op_Step then USE_WRITE else USE_READ
      | Parent_Binary assignment lhs \<Rightarrow> if assignment \<and> lhs = current1 then USE_WRITE else USE_READ
      | Parent_Paren e \<Rightarrow> classify_parents (ea_self e) ps
      | Parent_Implicit_Cast e \<Rightarrow> classify_parents (ea_self e) ps
      | _ \<Rightarrow> USE_READ)"

definition classify_use :: "visited_expr \<Rightarrow> use_kind" where
  "classify_use e = classify_parents (ea_bare (ve_address e)) (ve_bare_parents e)"

definition access_mode_for_use :: "use_kind \<Rightarrow> visited_expr \<Rightarrow> u32" where
  "access_mode_for_use kind e =
     (case kind of
        USE_ADDR \<Rightarrow> or MODE_R_AOF MODE_W_AOF
      | USE_WRITE \<Rightarrow> MODE_W_VAL
      | USE_CALL \<Rightarrow> MODE_R_PTR
      | USE_READ \<Rightarrow>
          if ve_function_type e \<or> is_call_callee (ve_address e) (ve_parents e) \<or>
             is_pointer_read_operand (ve_address e) (ve_parents e)
          then MODE_R_PTR else MODE_R_VAL)"

end
