(* ===== verification/Ast_Visitor.thy ===== *)
theory Ast_Visitor
  imports Ast
begin

text \<open>
  The visitor of the syntax tree, \<open>SemindexVisitor\<close> of \<open>lib/semindex_parser/index_ast.cpp\<close>: its state,
  what it does at each kind of node, and a traversal, which is the tree of the nodes in the order in
  which Clang visits them.
\<close>

section \<open>The state\<close>

record value_info =
  vi_kind :: symbol_kind
  vi_name :: string
  vi_owner :: string
  vi_type :: string
  vi_canonical_type :: string
  vi_usr :: string

text \<open>The list \<open>vs_indirect_fields\<close> is the multimap from an anonymous field to the fields promoted through it.\<close>

record visitor =
  vs_parser :: parser
  vs_details :: bool
  vs_function :: string
  vs_function_usr :: string
  vs_function_usr_id :: u64
  vs_type_uses :: "(decl \<times> location \<times> string) set"
  vs_function_symbols :: "decl set"
  vs_indirect_fields :: "(decl \<times> decl) list"
  vs_value_infos :: "decl \<rightharpoonup> value_info"
  vs_function_usrs :: "decl \<rightharpoonup> string"
  vs_stats :: points_to_stats
  vs_direct_constraints :: "(string \<times> string) set"
  vs_copy_constraints :: "(string \<times> string) set"
  vs_init_lists :: "nat set"
  vs_pointer_identities :: "string set"
  vs_function_identities :: "string set"

definition no_stats :: points_to_stats where
  "no_stats = \<lparr>indirect_callsites = 0, identified_callsites = 0, direct_constraints = 0, unique_direct_constraints = 0,
     copy_constraints = 0, unique_copy_constraints = 0, rejected_constraints = 0, unsupported_constraints = 0,
     pointer_identities = 0, function_identities = 0\<rparr>"

definition new_visitor :: "parser \<Rightarrow> visitor" where
  "new_visitor p =
     \<lparr>vs_parser = p, vs_details = px_details p, vs_function = [], vs_function_usr = [], vs_function_usr_id = 0,
      vs_type_uses = {}, vs_function_symbols = {}, vs_indirect_fields = [], vs_value_infos = Map.empty,
      vs_function_usrs = Map.empty, vs_stats = no_stats, vs_direct_constraints = {}, vs_copy_constraints = {},
      vs_init_lists = {}, vs_pointer_identities = {}, vs_function_identities = {}\<rparr>"

definition on_parser :: "(parser \<Rightarrow> parser) \<Rightarrow> visitor \<Rightarrow> visitor" where
  "on_parser f v = v\<lparr>vs_parser := f (vs_parser v)\<rparr>"

definition on_stats :: "(points_to_stats \<Rightarrow> points_to_stats) \<Rightarrow> visitor \<Rightarrow> visitor" where
  "on_stats f v = v\<lparr>vs_stats := f (vs_stats v)\<rparr>"

text \<open>Whether symbols of functions are left out at this point.\<close>

definition skips_local :: "visitor \<Rightarrow> bool" where
  "skips_local v \<longleftrightarrow> \<not> px_include_local (vs_parser v) \<and> vs_function v \<noteq> []"

section \<open>Values\<close>

definition detailed_decl_usr :: "ast \<Rightarrow> visitor \<Rightarrow> decl \<Rightarrow> string" where
  "detailed_decl_usr a v d = (if vs_details v then decl_usr a d else [])"

definition primary_record :: "ast \<Rightarrow> decl \<Rightarrow> decl" where
  "primary_record a r =
     (if \<not> rd_specialized (at_record a r) then r
      else case rd_pattern (at_record a r) of
        Some pattern \<Rightarrow> pattern
      | None \<Rightarrow> (case rd_template (at_record a r) of Some templated \<Rightarrow> templated | None \<Rightarrow> r))"

text \<open>The member of the primary template that a member of a specialization comes from, found by \<open>same\<close>.\<close>

definition primary_member :: "ast \<Rightarrow> (decl \<Rightarrow> bool) \<Rightarrow> decl \<Rightarrow> decl option \<Rightarrow> decl" where
  "primary_member a same d r =
     (case r of
        None \<Rightarrow> d
      | Some r1 \<Rightarrow>
          if rd_specialized (at_record a r1) \<and> primary_record a r1 \<noteq> r1
          then (case find same (rd_members (at_record a (primary_record a r1))) of None \<Rightarrow> d | Some m \<Rightarrow> m)
          else d)"

definition primary_value_decl :: "ast \<Rightarrow> decl \<Rightarrow> decl" where
  "primary_value_decl a d =
     (if is_method a d
      then primary_member a (\<lambda>m. is_method a m \<and> dn_name (at_decl a m) = dn_name (at_decl a d) \<and>
          length (fn_parameters (at_function a m)) = length (fn_parameters (at_function a d))) d (dn_parent (at_decl a d))
      else if is_field a d
      then primary_member a (\<lambda>m. is_field a m \<and> dn_name (at_decl a m) = dn_name (at_decl a d)) d
          (case dn_parent (at_decl a d) of None \<Rightarrow> None | Some r \<Rightarrow> if is_cxx_record a r then Some r else None)
      else d)"

definition value_info_of :: "ast \<Rightarrow> bool \<Rightarrow> decl \<Rightarrow> value_info" where
  "value_info_of a details d =
     \<lparr>vi_kind = symbol_kind_for_decl a d, vi_name = decl_name a d, vi_owner = owner_name a d,
      vi_type = (if details then stable_type_name a (vn_type (at_value a d)) else []),
      vi_canonical_type = (if details then canonical_type_name a (vn_type (at_value a d)) else []),
      vi_usr = (if details then decl_usr a d else [])\<rparr>"

definition get_value_info :: "ast \<Rightarrow> decl \<Rightarrow> visitor \<Rightarrow> value_info \<times> visitor" where
  "get_value_info a d v =
     (let d1 = primary_value_decl a d in
      case vs_value_infos v d1 of
        Some info \<Rightarrow> (info, v)
      | None \<Rightarrow>
          let info = value_info_of a (vs_details v) d1
          in (info, v\<lparr>vs_value_infos := (vs_value_infos v)(d1 \<mapsto> info)\<rparr>))"

definition canonical_function :: "ast \<Rightarrow> decl \<Rightarrow> decl" where
  "canonical_function a d = dn_canonical (at_decl a (primary_value_decl a d))"

definition function_usr :: "ast \<Rightarrow> decl \<Rightarrow> visitor \<Rightarrow> string \<times> visitor" where
  "function_usr a d v =
     (let d1 = canonical_function a d in
      case vs_function_usrs v d1 of
        Some usr \<Rightarrow> (usr, v)
      | None \<Rightarrow> (decl_usr a d1, v\<lparr>vs_function_usrs := (vs_function_usrs v)(d1 \<mapsto> decl_usr a d1)\<rparr>))"

definition value_use :: "value_info \<Rightarrow> use_kind \<Rightarrow> u32 \<Rightarrow> string \<Rightarrow> bool \<Rightarrow> parsed_use" where
  "value_use info kind mode context1 local1 =
     \<lparr>pu_kind = kind, pu_symbol_kind = vi_kind info, pu_mode = mode, pu_name = vi_name info, pu_owner = vi_owner info,
      pu_type = vi_type info, pu_usr = vi_usr info, pu_context = context1, pu_context_usr = [], pu_usr_id = 0,
      pu_context_usr_id = 0, pu_loc = no_location, pu_local = local1, pu_order = 0\<rparr>"

definition add_value_use ::
  "ast \<Rightarrow> decl \<Rightarrow> use_kind \<Rightarrow> u32 \<Rightarrow> string \<Rightarrow> location \<Rightarrow> bool \<Rightarrow> visitor \<Rightarrow> visitor" where
  "add_value_use a d kind mode context1 loc local1 v =
     (let spelling = sm_spelling (at_sources a) loc in
      case get_value_info a d v of (info, v1) \<Rightarrow>
        on_parser (locate_use (at_sources a) (value_use info kind mode context1 local1) spelling spelling) v1)"

section \<open>Types\<close>

definition type_use :: "ast \<Rightarrow> decl \<Rightarrow> symbol_kind \<Rightarrow> string \<Rightarrow> visitor \<Rightarrow> parsed_use" where
  "type_use a d kind type1 v =
     \<lparr>pu_kind = USE_READ, pu_symbol_kind = kind, pu_mode = MODE_R_VAL, pu_name = type_identity_name a d, pu_owner = [],
      pu_type = type1, pu_usr = detailed_decl_usr a v d, pu_context = vs_function v, pu_context_usr = [], pu_usr_id = 0,
      pu_context_usr_id = 0, pu_loc = no_location, pu_local = dn_in_function (at_decl a d), pu_order = 0\<rparr>"

definition add_type_use :: "ast \<Rightarrow> decl \<Rightarrow> symbol_kind \<Rightarrow> location \<Rightarrow> string \<Rightarrow> visitor \<Rightarrow> visitor" where
  "add_type_use a d kind loc type1 v =
     (let local1 = dn_in_function (at_decl a d);
          spelling = sm_spelling (at_sources a) loc;
          key = (dn_canonical (at_decl a d), spelling, vs_function v)
      in if loc = 0 then v
         else if \<not> px_include_local (vs_parser v) \<and> local1 then v
         else if \<not> in_scope (at_sources a) (vs_parser v) spelling then v
         else if key \<in> vs_type_uses v then v
         else on_parser (locate_use (at_sources a) (type_use a d kind type1 v) spelling spelling)
           (v\<lparr>vs_type_uses := insert key (vs_type_uses v)\<rparr>))"

section \<open>Calls\<close>

definition function_call_use :: "(string \<Rightarrow> u64) \<Rightarrow> symbol_kind \<Rightarrow> string \<Rightarrow> string \<Rightarrow> string \<Rightarrow> string \<Rightarrow> visitor \<Rightarrow> parsed_use" where
  "function_call_use xxh3 kind name owner1 type1 usr v =
     \<lparr>pu_kind = USE_CALL, pu_symbol_kind = kind, pu_mode = MODE_R_PTR, pu_name = name, pu_owner = owner1, pu_type = type1,
      pu_usr = usr, pu_context = vs_function v, pu_context_usr = vs_function_usr v, pu_usr_id = usr_hash xxh3 usr,
      pu_context_usr_id = vs_function_usr_id v, pu_loc = no_location, pu_local = False, pu_order = 0\<rparr>"

definition add_function_call :: "(string \<Rightarrow> u64) \<Rightarrow> ast \<Rightarrow> decl option \<Rightarrow> location \<Rightarrow> visitor \<Rightarrow> visitor" where
  "add_function_call xxh3 a callee loc v =
     (case callee of
        None \<Rightarrow> v
      | Some d \<Rightarrow>
          if loc = 0 then v
          else (case (if is_method a d then lambda_closure_for a d else None) of
            Some closure \<Rightarrow>
              on_parser (locate_use (at_sources a)
                (function_call_use xxh3 SYMBOL_LAMBDA ''__lambda'' [] [] (decl_usr a closure) v) loc loc) v
          | None \<Rightarrow>
              (case get_value_info a d v of (info, v1) \<Rightarrow>
               case function_usr a d v1 of (usr, v2) \<Rightarrow>
                 on_parser (locate_use (at_sources a)
                   (function_call_use xxh3 SYMBOL_FUNCTION (vi_name info) (vi_owner info) (vi_type info) usr v2) loc loc) v2)))"

section \<open>Aliases and cleanups\<close>

definition cleanup_location :: "ast \<Rightarrow> decl \<Rightarrow> cleanup_attr \<Rightarrow> location" where
  "cleanup_location a d cleanup =
     (let argument = (if cu_argument cleanup = 0 then cu_location cleanup else cu_argument cleanup);
          spelling = sm_spelling (at_sources a) argument;
          first1 = at_expansion a (vn_begin (at_value a d));
          last1 = at_expansion a (vn_end (at_value a d))
      in if spelling \<noteq> 0 \<and> first1 \<noteq> 0 \<and> last1 \<noteq> 0 \<and> at_within a spelling first1 last1 then spelling
         else at_expansion a argument)"

definition alias_target :: "ast \<Rightarrow> decl \<Rightarrow> alias_attr \<Rightarrow> decl option" where
  "alias_target a alias1 attribute =
     find (\<lambda>d. is_value a d \<and> dn_canonical (at_decl a d) \<noteq> dn_canonical (at_decl a alias1) \<and>
         (is_function a alias1 \<and> is_function a d \<or> is_var a alias1 \<and> is_var a d))
       (at_lookup a (la_aliasee attribute))"

fun find_text :: "string \<Rightarrow> string \<Rightarrow> nat option" where
  "find_text sub [] = (if sub = [] then Some 0 else None)"
| "find_text sub (c # cs) = (if starts_with sub (c # cs) then Some 0 else map_option Suc (find_text sub cs))"

definition alias_location :: "ast \<Rightarrow> alias_attr \<Rightarrow> location" where
  "alias_location a attribute =
     (if at_macro a (la_location attribute) then at_expansion a (la_location attribute)
      else case find_text (la_aliasee attribute) (la_text attribute) of
        Some offset \<Rightarrow> at_offset a (la_begin attribute) offset
      | None \<Rightarrow> la_location attribute)"

definition add_alias_use :: "ast \<Rightarrow> decl \<Rightarrow> visitor \<Rightarrow> visitor" where
  "add_alias_use a alias1 v =
     (case vn_alias (at_value a alias1) of
        None \<Rightarrow> v
      | Some attribute \<Rightarrow>
          (case alias_target a alias1 attribute of
             None \<Rightarrow> v
           | Some target \<Rightarrow>
               add_value_use a target USE_ADDR (or MODE_R_AOF MODE_W_AOF) [] (alias_location a attribute) False v))"

definition is_non_definition_parameter :: "ast \<Rightarrow> decl \<Rightarrow> bool" where
  "is_non_definition_parameter a d \<longleftrightarrow>
     dn_class (at_decl a d) = Class_Parm_Var \<and>
     (case decl_context a d of None \<Rightarrow> True | Some f \<Rightarrow> \<not> is_function a f \<or> \<not> fn_has_body (at_function a f))"

section \<open>Pointers to functions\<close>

definition is_function_pointer :: "ast \<Rightarrow> qtype \<Rightarrow> bool" where
  "is_function_pointer a t \<longleftrightarrow> t \<noteq> 0 \<and> tn_function_pointer (at_type a t)"

fun strip_points_to_wrappers :: "points_expr \<Rightarrow> points_expr" where
  "strip_points_to_wrappers (Cast_Of e) = strip_points_to_wrappers e"
| "strip_points_to_wrappers (Address_Of e) = strip_points_to_wrappers e"
| "strip_points_to_wrappers (Deref_Of e) = strip_points_to_wrappers e"
| "strip_points_to_wrappers e = e"

definition pointer_decl :: "ast \<Rightarrow> points_expr \<Rightarrow> decl option" where
  "pointer_decl a e =
     (let checked = (\<lambda>d. if is_value a d \<and> is_function_pointer a (vn_type (at_value a d)) then Some d else None) in
      case strip_points_to_wrappers e of
        Reference_To d _ \<Rightarrow> checked d
      | Member_Of d _ \<Rightarrow> checked d
      | _ \<Rightarrow> None)"

definition null_constant :: "points_expr \<Rightarrow> bool" where
  "null_constant e = (case e of Reference_To _ null1 \<Rightarrow> null1 | Member_Of _ null1 \<Rightarrow> null1 | Value_Of null1 \<Rightarrow> null1 | _ \<Rightarrow> False)"

definition add_direct_constraint :: "ast \<Rightarrow> string \<Rightarrow> decl \<Rightarrow> visitor \<Rightarrow> visitor" where
  "add_direct_constraint a target f v =
     (case function_usr a f (on_stats (\<lambda>st. st\<lparr>direct_constraints := direct_constraints st + 1\<rparr>) v) of (usr, v1) \<Rightarrow>
        if target = [] \<or> usr = []
        then on_stats (\<lambda>st. st\<lparr>rejected_constraints := rejected_constraints st + 1\<rparr>) v1
        else v1\<lparr>vs_pointer_identities := insert target (vs_pointer_identities v1),
          vs_function_identities := insert usr (vs_function_identities v1),
          vs_direct_constraints := insert (target, usr) (vs_direct_constraints v1)\<rparr>)"

definition add_copy_constraint :: "ast \<Rightarrow> string \<Rightarrow> decl \<Rightarrow> visitor \<Rightarrow> visitor" where
  "add_copy_constraint a target source1 v =
     (let v1 = on_stats (\<lambda>st. st\<lparr>copy_constraints := copy_constraints st + 1\<rparr>) v; usr = decl_usr a source1 in
      if target = [] \<or> usr = []
      then on_stats (\<lambda>st. st\<lparr>rejected_constraints := rejected_constraints st + 1\<rparr>) v1
      else v1\<lparr>vs_pointer_identities := insert usr (insert target (vs_pointer_identities v1)),
        vs_copy_constraints := insert (target, usr) (vs_copy_constraints v1)\<rparr>)"

text \<open>A conditional is stripped and split; everything else is decided at once.\<close>

fun collect_points_to_constraints :: "ast \<Rightarrow> string \<Rightarrow> points_expr \<Rightarrow> visitor \<Rightarrow> bool \<times> visitor" where
  "collect_points_to_constraints a target (Cast_Of e) v = collect_points_to_constraints a target e v"
| "collect_points_to_constraints a target (Address_Of e) v = collect_points_to_constraints a target e v"
| "collect_points_to_constraints a target (Deref_Of e) v = collect_points_to_constraints a target e v"
| "collect_points_to_constraints a target (Conditional_Of e f) v =
     (case collect_points_to_constraints a target e v of (left, v1) \<Rightarrow>
      case collect_points_to_constraints a target f v1 of (right, v2) \<Rightarrow> (left \<or> right, v2))"
| "collect_points_to_constraints a target e v =
     (if null_constant e then (True, v)
      else case e of
        Reference_To d _ \<Rightarrow>
          if is_function a d then (True, add_direct_constraint a target d v)
          else (case pointer_decl a e of None \<Rightarrow> (False, v) | Some s \<Rightarrow> (True, add_copy_constraint a target s v))
      | _ \<Rightarrow> (case pointer_decl a e of None \<Rightarrow> (False, v) | Some s \<Rightarrow> (True, add_copy_constraint a target s v)))"

definition add_points_to_constraints :: "ast \<Rightarrow> decl \<Rightarrow> points_expr \<Rightarrow> visitor \<Rightarrow> visitor" where
  "add_points_to_constraints a target e v =
     (case collect_points_to_constraints a (decl_usr a target) e v of (supported, v1) \<Rightarrow>
        if supported then v1
        else on_stats (\<lambda>st. st\<lparr>unsupported_constraints := unsupported_constraints st + 1\<rparr>) v1)"

definition finish_points_to_stats :: "visitor \<Rightarrow> visitor" where
  "finish_points_to_stats v =
     (if \<not> px_points_to (vs_parser v) then v
      else
      let v1 = on_stats (\<lambda>st. st
           \<lparr>unique_direct_constraints := card (vs_direct_constraints v), unique_copy_constraints := card (vs_copy_constraints v),
            pointer_identities := card (vs_pointer_identities v), function_identities := card (vs_function_identities v)\<rparr>) v
      in on_parser (set_points_to_stats (vs_stats v1)) v1)"

end
