(* ===== verification/Ast_Traversal.thy ===== *)
theory Ast_Traversal
  imports Ast_Visitor
begin

text \<open>
  The nodes that the visitor handles, \<open>SemindexVisitor::Visit...\<close> of
  \<open>lib/semindex_parser/index_ast.cpp\<close>, and the traversal of a translation unit.
\<close>

section \<open>Anonymous records and promoted fields\<close>

definition plain_symbol_of :: "symbol_kind \<Rightarrow> string \<Rightarrow> parsed_symbol" where
  "plain_symbol_of kind name =
     \<lparr>ps_kind = kind, ps_name = name, ps_owner = [], ps_type = [], ps_canonical_type = [], ps_type_kind = SYMBOL_VAR,
      ps_type_symbol = [], ps_type_usr = [], ps_usr = [], ps_context = [], ps_loc = no_location, ps_local = False,
      ps_definition = True, ps_properties = 0, ps_order = 0\<rparr>"

definition add_located_symbol :: "ast \<Rightarrow> parsed_symbol \<Rightarrow> bool \<Rightarrow> location \<Rightarrow> location \<Rightarrow> visitor \<Rightarrow> visitor" where
  "add_located_symbol a s displayed at scope v = on_parser (locate_symbol (at_sources a) s displayed at scope) v"

definition typed_symbol :: "ast \<Rightarrow> symbol_kind \<Rightarrow> string \<Rightarrow> string \<Rightarrow> string \<Rightarrow> qtype \<Rightarrow> parsed_symbol" where
  "typed_symbol a kind name usr type1 t =
     (plain_symbol_of kind name)\<lparr>ps_type := type1, ps_canonical_type := canonical_type_name a t, ps_usr := usr\<rparr>"

definition anonymous_field_symbol :: "ast \<Rightarrow> decl \<Rightarrow> string \<Rightarrow> parsed_symbol" where
  "anonymous_field_symbol a d owner1 =
     (let t = vn_type (at_value a d) in
      set_symbol_type_identity a (vn_type_source (at_value a d))
        ((typed_symbol a SYMBOL_FIELD (decl_name a d) (decl_usr a d) (stable_type_name a t) t)\<lparr>ps_owner := owner1\<rparr>))"

fun add_anonymous_field :: "ast \<Rightarrow> string \<Rightarrow> field_tree \<Rightarrow> visitor \<Rightarrow> visitor" where
  "add_anonymous_field a owner1 (Field_Tree d nested) v =
     (if is_anonymous_record a (record_decl_for_type a (vn_type (at_value a d))) \<and> decl_name a d = []
      then fold (add_anonymous_field a owner1) nested v
      else if decl_name a d = [] then v
      else add_located_symbol a (anonymous_field_symbol a d owner1) True
        (dn_location (at_decl a d)) (dn_location (at_decl a d)) v)"

definition add_anonymous_record_fields :: "ast \<Rightarrow> decl \<Rightarrow> string \<Rightarrow> visitor \<Rightarrow> visitor" where
  "add_anonymous_record_fields a r owner1 v = fold (add_anonymous_field a owner1) (rd_fields (at_record a r)) v"

definition add_anonymous_record_symbols :: "ast \<Rightarrow> decl \<Rightarrow> string \<Rightarrow> visitor \<Rightarrow> visitor" where
  "add_anonymous_record_symbols a r name v =
     (let lambda1 = is_lambda_closure a r;
          s = (if lambda1 then (plain_symbol_of SYMBOL_LAMBDA ''__lambda'')\<lparr>ps_local := vs_function v \<noteq> []\<rparr>
               else plain_symbol_of (record_kind_for_decl a r) name);
          brace = rd_brace (at_record a r);
          at = (if brace \<noteq> 0 then brace else dn_location (at_decl a r));
          v1 = add_located_symbol a (s\<lparr>ps_usr := decl_usr a r\<rparr>) True at (dn_location (at_decl a r)) v
      in if lambda1 then v1 else add_anonymous_record_fields a r name v1)"

definition indirect_fields_of :: "ast \<Rightarrow> decl \<Rightarrow> visitor \<Rightarrow> decl list" where
  "indirect_fields_of a field v = at_bucket a (map snd (filter (\<lambda>(k, d). k = field) (vs_indirect_fields v)))"

definition promoted_field_for :: "ast \<Rightarrow> decl \<Rightarrow> decl option \<Rightarrow> visitor \<Rightarrow> decl option" where
  "promoted_field_for a field owner1 v = find (\<lambda>d. decl_context a d = owner1) (indirect_fields_of a field v)"

definition add_indirect_field :: "ast \<Rightarrow> decl \<Rightarrow> visitor \<Rightarrow> visitor" where
  "add_indirect_field a d v =
     (case get_value_info a d v of (info, v1) \<Rightarrow>
        add_located_symbol a
          ((plain_symbol_of (vi_kind info) (vi_name info))
            \<lparr>ps_owner := vi_owner info, ps_type := vi_type info, ps_canonical_type := vi_canonical_type info, ps_usr := vi_usr info\<rparr>)
          False (dn_location (at_decl a d)) (dn_location (at_decl a d))
          (v1\<lparr>vs_indirect_fields := vs_indirect_fields v1 @ [(vn_anon_field (at_value a d), d)]\<rparr>))"

definition indirect_chain_is_suffix :: "ast \<Rightarrow> decl \<Rightarrow> decl \<Rightarrow> bool" where
  "indirect_chain_is_suffix a inner outer =
     (let inner1 = vn_chain (at_value a inner); outer1 = vn_chain (at_value a outer) in
      length inner1 \<le> length outer1 \<and> inner1 = drop (length outer1 - length inner1) outer1)"

definition promoted_field_is_visible :: "ast \<Rightarrow> decl \<Rightarrow> decl \<Rightarrow> visitor \<Rightarrow> bool" where
  "promoted_field_is_visible a field initialized v \<longleftrightarrow>
     record_context a field = Some initialized \<or>
     (\<exists>outer\<in>set (indirect_fields_of a (vn_anon_field (at_value a field)) v).
        decl_context a outer = Some initialized \<and> indirect_chain_is_suffix a field outer)"

definition add_promoted_field_uses :: "ast \<Rightarrow> decl \<Rightarrow> decl \<Rightarrow> location \<Rightarrow> visitor \<Rightarrow> visitor" where
  "add_promoted_field_uses a field initialized loc v =
     fold (\<lambda>d v. if promoted_field_is_visible a d initialized v
         then add_value_use a d USE_WRITE MODE_W_VAL (vs_function v) loc False v else v)
       (indirect_fields_of a field v) v"

section \<open>Nodes\<close>

text \<open>
  The base of a member expression without its parentheses and implicit casts: another member
  expression, or an expression of some type.
\<close>

datatype member_base = Base_Member member_base | Base_Of qtype

datatype designator = Field_Designator "decl option" location | Other_Designator

record init_list =
  il_address :: nat
  il_type :: qtype
  il_union_field :: "decl option"
  il_inits :: "points_expr list"

text \<open>
  A node that is visited. The traversal of a function contains what is visited in it, the function
  itself first; of an initializer list the semantic form is given if there is one, of a binary
  operator whether it is an assignment, of a type whether it is a definition.
\<close>

datatype visit =
  Traverse_Function "decl option" "visit list"
| Visit_Var decl
| Visit_Binary bool points_expr points_expr
| Visit_Init_List init_list "init_list option"
| Visit_Field decl
| Visit_Typedef decl
| Visit_Typedef_Loc decl location
| Visit_Record_Loc bool decl location
| Visit_Enum_Loc bool "decl option" location
| Visit_Decl_Ref visited_expr "decl option"
| Visit_Member visited_expr "decl option" member_base
| Visit_Designated "designator list" "parent_node list"
| Visit_Record decl
| Visit_Enum decl
| Visit_Enum_Constant decl
| Visit_Function decl
| Visit_Call "decl option" points_expr location
| Visit_Construct "decl option" location
| Visit_New qtype location
| Visit_Delete qtype location

definition var_references :: "(string \<Rightarrow> u64) \<Rightarrow> ast \<Rightarrow> decl \<Rightarrow> visitor \<Rightarrow> visitor" where
  "var_references xxh3 a d v =
     (let value = at_value a d;
          v1 = add_alias_use a d v;
          v2 = (case vn_init value of
              Some e \<Rightarrow> if px_points_to (vs_parser v1) \<and> is_function_pointer a (vn_type value)
                then add_points_to_constraints a d e v1 else v1
            | None \<Rightarrow> v1)
      in case vn_cleanup value of
           Some cleanup \<Rightarrow> add_function_call xxh3 a (cu_function cleanup) (cleanup_location a d cleanup) v2
         | None \<Rightarrow> v2)"

definition init_use :: "ast \<Rightarrow> decl \<Rightarrow> string \<Rightarrow> visitor \<Rightarrow> parsed_use" where
  "init_use a d type1 v =
     \<lparr>pu_kind = USE_WRITE, pu_symbol_kind = SYMBOL_VAR, pu_mode = MODE_W_VAL, pu_name = decl_name a d, pu_owner = [],
      pu_type = type1, pu_usr = detailed_decl_usr a v d, pu_context = vs_function v, pu_context_usr = [], pu_usr_id = 0,
      pu_context_usr_id = 0, pu_loc = no_location, pu_local = (vs_function v \<noteq> []), pu_order = 0\<rparr>"

definition add_var_symbol :: "ast \<Rightarrow> decl \<Rightarrow> visitor \<Rightarrow> visitor" where
  "add_var_symbol a d v =
     (let value = at_value a d; at = dn_location (at_decl a d); t = vn_type value;
          anonymous = (if \<not> is_typedef_type a t \<and> \<not> is_written_as_typedef (vn_type_source value) \<and>
                is_anonymous_record a (record_decl_for_type a t) then record_decl_for_type a t else None);
          name = anonymous_record_name_for_var a d;
          type1 = (case anonymous of Some r \<Rightarrow> type_name_for_record a r name | None \<Rightarrow> stable_type_name a t);
          v1 = (case anonymous of Some r \<Rightarrow> add_anonymous_record_symbols a r name v | None \<Rightarrow> v);
          v2 = add_located_symbol a
            ((typed_symbol a SYMBOL_VAR (decl_name a d) (decl_usr a d) type1 t)
              \<lparr>ps_context := vs_function v1, ps_local := vs_function v1 \<noteq> []\<rparr>) False at at v1
      in if vn_init value = None then v2
         else on_parser (locate_use (at_sources a) (init_use a d type1 v2) at at) v2)"

definition visit_var :: "(string \<Rightarrow> u64) \<Rightarrow> ast \<Rightarrow> decl \<Rightarrow> visitor \<Rightarrow> visitor" where
  "visit_var xxh3 a d v =
     (let v1 = var_references xxh3 a d v in
      if decl_name a d = [] \<or> is_non_definition_parameter a d then v1
      else if skips_local v1 then v1
      else add_var_symbol a d v1)"

definition visit_binary :: "ast \<Rightarrow> bool \<Rightarrow> points_expr \<Rightarrow> points_expr \<Rightarrow> visitor \<Rightarrow> visitor" where
  "visit_binary a assign lhs rhs v =
     (if \<not> px_points_to (vs_parser v) \<or> \<not> assign then v
      else case pointer_decl a lhs of None \<Rightarrow> v | Some target \<Rightarrow> add_points_to_constraints a target rhs v)"

definition add_field_constraint :: "ast \<Rightarrow> decl \<times> points_expr \<Rightarrow> visitor \<Rightarrow> visitor" where
  "add_field_constraint a fe v =
     (if is_function_pointer a (vn_type (at_value a (fst fe))) then add_points_to_constraints a (fst fe) (snd fe) v else v)"

definition visit_init_list :: "ast \<Rightarrow> init_list \<Rightarrow> init_list option \<Rightarrow> visitor \<Rightarrow> visitor" where
  "visit_init_list a e semantic v =
     (if \<not> px_points_to (vs_parser v) then v
      else
      let e1 = (case semantic of Some s \<Rightarrow> s | None \<Rightarrow> e) in
      if il_address e1 \<in> vs_init_lists v then v
      else
      let v1 = v\<lparr>vs_init_lists := insert (il_address e1) (vs_init_lists v)\<rparr> in
      case record_decl_for_type a (il_type e1) of
        None \<Rightarrow> v1
      | Some r \<Rightarrow>
          let r1 = (case dn_definition (at_decl a r) of Some definition1 \<Rightarrow> definition1 | None \<Rightarrow> r) in
          if rd_union (at_record a r1)
          then (case (il_union_field e1, il_inits e1) of
              (Some field, x # _) \<Rightarrow> add_field_constraint a (field, x) v1
            | _ \<Rightarrow> v1)
          else fold (add_field_constraint a) (zip (map tree_field (rd_fields (at_record a r1))) (il_inits e1)) v1)"

definition visit_field :: "ast \<Rightarrow> decl \<Rightarrow> visitor \<Rightarrow> visitor" where
  "visit_field a d v =
     (let parent = dn_parent (at_decl a d); t = vn_type (at_value a d) in
      if is_anonymous_record a parent then v
      else if (case parent of Some r \<Rightarrow> is_cxx_record a r \<and> rd_specialized (at_record a r) | None \<Rightarrow> False) then v
      else add_located_symbol a
        (set_symbol_type_identity a (vn_type_source (at_value a d))
          ((typed_symbol a (symbol_kind_for_decl a d) (decl_name a d) (decl_usr a d) (stable_type_name a t) t)
            \<lparr>ps_owner := owner_name a d\<rparr>))
        False (dn_location (at_decl a d)) (dn_location (at_decl a d)) v)"

definition visit_typedef :: "ast \<Rightarrow> decl \<Rightarrow> visitor \<Rightarrow> visitor" where
  "visit_typedef a d v =
     (let t = vn_type (at_value a d); at = dn_location (at_decl a d) in
      if skips_local v then v
      else
      let v1 = (case record_decl_for_type a t of
          Some r \<Rightarrow> if decl_name a r = [] then add_anonymous_record_symbols a r (anonymous_record_name_for_typedef a d) v else v
        | None \<Rightarrow> v)
      in add_located_symbol a
        ((typed_symbol a SYMBOL_TYPEDEF (decl_name a d) (decl_usr a d) (type_name_for_typedef a d) t)
          \<lparr>ps_context := vs_function v1, ps_local := vs_function v1 \<noteq> []\<rparr>)
        False at at v1)"

definition visit_typedef_loc :: "ast \<Rightarrow> decl \<Rightarrow> location \<Rightarrow> visitor \<Rightarrow> visitor" where
  "visit_typedef_loc a d loc v =
     add_type_use a d SYMBOL_TYPEDEF loc (if vs_details v then type_name_for_typedef a d else []) v"

definition visit_record_loc :: "ast \<Rightarrow> bool \<Rightarrow> decl \<Rightarrow> location \<Rightarrow> visitor \<Rightarrow> visitor" where
  "visit_record_loc a defines d loc v =
     (if defines then v
      else if is_anonymous_record a (Some d) then v
      else add_type_use a d (record_kind_for_decl a d) loc [] v)"

definition visit_enum_loc :: "ast \<Rightarrow> bool \<Rightarrow> decl option \<Rightarrow> location \<Rightarrow> visitor \<Rightarrow> visitor" where
  "visit_enum_loc a defines enum loc v =
     (if defines then v
      else case enum of
        None \<Rightarrow> v
      | Some d \<Rightarrow> if decl_name a d = [] then v else add_type_use a d SYMBOL_ENUM loc [] v)"

definition visit_decl_ref :: "ast \<Rightarrow> visited_expr \<Rightarrow> decl option \<Rightarrow> visitor \<Rightarrow> visitor" where
  "visit_decl_ref a e referred v =
     (case referred of
        None \<Rightarrow> v
      | Some d \<Rightarrow>
          let local1 = (vs_function v \<noteq> [] \<and> \<not> vn_external (at_value a d)) in
          if local1 \<and> \<not> px_include_local (vs_parser v) then v
          else if is_function a d \<and> is_direct_call_callee (ve_address e) (ve_parents e) then v
          else
          let kind = classify_use e;
              v1 = add_value_use a d kind (access_mode_for_use kind e) (vs_function v) (ve_loc e) local1 v
          in if \<not> is_function a d \<and> is_call_callee (ve_address e) (ve_parents e)
             then add_value_use a d USE_CALL MODE_R_PTR (vs_function v1) (ve_loc e) local1 v1
             else v1)"

fun base_type :: "member_base \<Rightarrow> qtype" where
  "base_type (Base_Member b) = base_type b"
| "base_type (Base_Of t) = t"

definition member_base_record :: "ast \<Rightarrow> member_base \<Rightarrow> decl option" where
  "member_base_record a b =
     (let t = base_type b in record_decl_for_type a (if tn_pointer (at_type a t) then tn_pointee (at_type a t) else t))"

definition visit_member :: "ast \<Rightarrow> visited_expr \<Rightarrow> decl option \<Rightarrow> member_base \<Rightarrow> visitor \<Rightarrow> visitor" where
  "visit_member a e member1 base v =
     (case member1 of
        None \<Rightarrow> v
      | Some d \<Rightarrow>
          let kind = classify_use e;
              add = (\<lambda>d. add_value_use a d kind (access_mode_for_use kind e) (vs_function v) (ve_loc e) False v)
          in if is_field a d
             then if decl_name a d = [] then v
                  else if is_anonymous_record a (dn_parent (at_decl a d))
                  then (case promoted_field_for a d (member_base_record a base) v of Some indirect \<Rightarrow> add indirect | None \<Rightarrow> add d)
                  else add d
             else add d)"

fun initialized_record_for :: "ast \<Rightarrow> parent_node list \<Rightarrow> decl option" where
  "initialized_record_for a [] = None"
| "initialized_record_for a (p # ps) =
     (case p of
        Parent_Var d \<Rightarrow> record_decl_for_type a (vn_type (at_value a d))
      | _ \<Rightarrow> initialized_record_for a ps)"

definition add_designator_uses :: "ast \<Rightarrow> decl option \<Rightarrow> designator \<Rightarrow> visitor \<Rightarrow> visitor" where
  "add_designator_uses a initialized designator1 v =
     (case designator1 of
        Field_Designator (Some d) loc \<Rightarrow>
          let v1 = (if is_anonymous_record a (dn_parent (at_decl a d)) then v
                    else add_value_use a d USE_WRITE MODE_W_VAL (vs_function v) loc False v)
          in (case initialized of None \<Rightarrow> v1 | Some r \<Rightarrow> add_promoted_field_uses a d r loc v1)
      | _ \<Rightarrow> v)"

definition visit_designated :: "ast \<Rightarrow> designator list \<Rightarrow> parent_node list \<Rightarrow> visitor \<Rightarrow> visitor" where
  "visit_designated a designators parents v =
     fold (add_designator_uses a (initialized_record_for a parents)) designators v"

definition visit_record :: "ast \<Rightarrow> decl \<Rightarrow> visitor \<Rightarrow> visitor" where
  "visit_record a d v =
     (if \<not> dn_is_definition (at_decl a d) then v
      else if is_anonymous_record a (Some d) then v
      else if is_cxx_record a d \<and> rd_specialized (at_record a d) then v
      else
      let v1 = add_located_symbol a
          ((plain_symbol_of (record_kind_for_decl a d) (qualified_record_name a d))\<lparr>ps_usr := decl_usr a d\<rparr>)
          False (dn_location (at_decl a d)) (dn_location (at_decl a d)) v
      in fold (\<lambda>m v. if is_indirect_field a m then add_indirect_field a m v else v) (rd_members (at_record a d)) v1)"

definition visit_enum :: "ast \<Rightarrow> decl \<Rightarrow> visitor \<Rightarrow> visitor" where
  "visit_enum a d v =
     (if \<not> dn_is_definition (at_decl a d) then v
      else if decl_name a d = [] then v
      else add_located_symbol a ((plain_symbol_of SYMBOL_ENUM (qualified_enum_name a d))\<lparr>ps_usr := decl_usr a d\<rparr>)
        False (dn_location (at_decl a d)) (dn_location (at_decl a d)) v)"

definition visit_enum_constant :: "ast \<Rightarrow> decl \<Rightarrow> visitor \<Rightarrow> visitor" where
  "visit_enum_constant a d v =
     (let t = vn_type (at_value a d) in
      add_located_symbol a (typed_symbol a SYMBOL_ENUM_CONSTANT (decl_name a d) (decl_usr a d) (stable_type_name a t) t)
        False (dn_location (at_decl a d)) (dn_location (at_decl a d)) v)"

section \<open>Functions\<close>

definition function_properties :: "ast \<Rightarrow> decl \<Rightarrow> u64" where
  "function_properties a d =
     fold (\<lambda>r properties.
       let p1 = (if fn_constructor_attr (at_function a r) then or properties PROPERTY_CONSTRUCTOR else properties);
           p2 = (if fn_destructor_attr (at_function a r) then or p1 PROPERTY_DESTRUCTOR else p1);
           p3 = (if dn_class (at_decl a r) = Class_Constructor then or p2 PROPERTY_CONSTRUCTOR else p2)
       in if dn_class (at_decl a r) = Class_Destructor then or p3 PROPERTY_DESTRUCTOR else p3)
     (fn_redecls (at_function a d)) 0"

definition parameter_of :: "ast \<Rightarrow> decl \<Rightarrow> parsed_parameter" where
  "parameter_of a d =
     (let t = vn_original_type (at_value a d) in
      set_parameter_type_identity a (vn_type_source (at_value a d))
        \<lparr>pp_name = decl_name a d, pp_type = stable_type_name a t, pp_canonical_type = canonical_type_name a t,
         pp_type_kind = SYMBOL_VAR, pp_type_symbol = [], pp_type_usr = []\<rparr>)"

definition signature_of :: "ast \<Rightarrow> decl \<Rightarrow> string \<Rightarrow> parsed_signature" where
  "signature_of a d usr =
     (let t = fn_return (at_function a d) in
      \<lparr>pg_name = decl_name a d, pg_owner = owner_name a d, pg_usr = usr, pg_return_type = stable_type_name a t,
       pg_canonical_return_type = canonical_type_name a t,
       pg_parameters = map (parameter_of a) (fn_parameters (at_function a d)), pg_loc = no_location,
       pg_variadic = fn_variadic (at_function a d)\<rparr>)"

definition visit_function_decl :: "ast \<Rightarrow> decl \<Rightarrow> visitor \<Rightarrow> visitor" where
  "visit_function_decl a d v =
     (let node = at_decl a d; at = dn_location node; t = vn_type (at_value a d); v1 = add_alias_use a d v in
      if is_method a d \<and> (case dn_parent node of Some r \<Rightarrow> rd_specialized (at_record a r) | None \<Rightarrow> False) then v1
      else if \<not> dn_is_definition node \<and> \<not> fn_has_prototype (at_function a d) then v1
      else if \<not> dn_is_definition node \<and> dn_definition node \<noteq> None then v1
      else if dn_canonical node \<in> vs_function_symbols v1 then v1
      else
      case function_usr a d (v1\<lparr>vs_function_symbols := insert (dn_canonical node) (vs_function_symbols v1)\<rparr>) of (usr, v2) \<Rightarrow>
        on_parser (locate_signature (at_sources a) (signature_of a d usr) at at)
          (add_located_symbol a
            ((typed_symbol a SYMBOL_FUNCTION (decl_name a d) usr (stable_type_name a t) t)
              \<lparr>ps_owner := owner_name a d, ps_definition := dn_is_definition node, ps_properties := function_properties a d\<rparr>)
            False at at v2))"

definition visit_call :: "(string \<Rightarrow> u64) \<Rightarrow> ast \<Rightarrow> decl option \<Rightarrow> points_expr \<Rightarrow> location \<Rightarrow> visitor \<Rightarrow> visitor" where
  "visit_call xxh3 a direct callee loc v =
     (case direct of
        Some f \<Rightarrow> add_function_call xxh3 a (Some f) (sm_spelling (at_sources a) loc) v
      | None \<Rightarrow>
          if \<not> px_points_to (vs_parser v) then v
          else
          let v1 = on_stats (\<lambda>st. st\<lparr>indirect_callsites := indirect_callsites st + 1\<rparr>) v in
          case pointer_decl a callee of
            None \<Rightarrow> v1
          | Some d \<Rightarrow>
              let usr = decl_usr a d in
              if usr = [] then v1
              else (on_stats (\<lambda>st. st\<lparr>identified_callsites := identified_callsites st + 1\<rparr>) v1)
                \<lparr>vs_pointer_identities := insert usr (vs_pointer_identities v1)\<rparr>)"

definition visit_construct :: "(string \<Rightarrow> u64) \<Rightarrow> ast \<Rightarrow> decl option \<Rightarrow> location \<Rightarrow> visitor \<Rightarrow> visitor" where
  "visit_construct xxh3 a constructor loc v =
     (case constructor of
        None \<Rightarrow> v
      | Some f \<Rightarrow> add_function_call xxh3 a (Some f) (sm_spelling (at_sources a) loc) v)"

definition visit_new :: "ast \<Rightarrow> qtype \<Rightarrow> location \<Rightarrow> visitor \<Rightarrow> visitor" where
  "visit_new a t loc v =
     (case record_decl_for_type a t of None \<Rightarrow> v | Some r \<Rightarrow> add_type_use a r (record_kind_for_decl a r) loc [] v)"

definition visit_delete :: "ast \<Rightarrow> qtype \<Rightarrow> location \<Rightarrow> visitor \<Rightarrow> visitor" where
  "visit_delete a t loc v =
     (case record_decl_for_type a t of None \<Rightarrow> v | Some r \<Rightarrow> add_type_use a r (record_kind_for_decl a r) loc [] v)"

section \<open>Traversal\<close>

definition enter_function :: "(string \<Rightarrow> u64) \<Rightarrow> ast \<Rightarrow> decl \<Rightarrow> visitor \<Rightarrow> visitor" where
  "enter_function xxh3 a d v =
     (case (if fn_has_body (at_function a d) then function_usr a d v else ([], v)) of (usr, v1) \<Rightarrow>
        v1\<lparr>vs_function := decl_name a d, vs_function_usr := usr, vs_function_usr_id := usr_hash xxh3 usr\<rparr>)"

definition leave_function :: "visitor \<Rightarrow> visitor \<Rightarrow> visitor" where
  "leave_function old v =
     v\<lparr>vs_function := vs_function old, vs_function_usr := vs_function_usr old, vs_function_usr_id := vs_function_usr_id old\<rparr>"

fun run_visit :: "(string \<Rightarrow> u64) \<Rightarrow> ast \<Rightarrow> visit \<Rightarrow> visitor \<Rightarrow> visitor" where
  "run_visit xxh3 a (Traverse_Function None vs) v = v"
| "run_visit xxh3 a (Traverse_Function (Some d) vs) v =
     leave_function v (fold (run_visit xxh3 a) vs (enter_function xxh3 a d v))"
| "run_visit xxh3 a (Visit_Var d) v = visit_var xxh3 a d v"
| "run_visit xxh3 a (Visit_Binary assign lhs rhs) v = visit_binary a assign lhs rhs v"
| "run_visit xxh3 a (Visit_Init_List e semantic) v = visit_init_list a e semantic v"
| "run_visit xxh3 a (Visit_Field d) v = visit_field a d v"
| "run_visit xxh3 a (Visit_Typedef d) v = visit_typedef a d v"
| "run_visit xxh3 a (Visit_Typedef_Loc d loc) v = visit_typedef_loc a d loc v"
| "run_visit xxh3 a (Visit_Record_Loc defines d loc) v = visit_record_loc a defines d loc v"
| "run_visit xxh3 a (Visit_Enum_Loc defines d loc) v = visit_enum_loc a defines d loc v"
| "run_visit xxh3 a (Visit_Decl_Ref e d) v = visit_decl_ref a e d v"
| "run_visit xxh3 a (Visit_Member e d base) v = visit_member a e d base v"
| "run_visit xxh3 a (Visit_Designated ds parents) v = visit_designated a ds parents v"
| "run_visit xxh3 a (Visit_Record d) v = visit_record a d v"
| "run_visit xxh3 a (Visit_Enum d) v = visit_enum a d v"
| "run_visit xxh3 a (Visit_Enum_Constant d) v = visit_enum_constant a d v"
| "run_visit xxh3 a (Visit_Function d) v = visit_function_decl a d v"
| "run_visit xxh3 a (Visit_Call direct callee loc) v = visit_call xxh3 a direct callee loc v"
| "run_visit xxh3 a (Visit_Construct constructor loc) v = visit_construct xxh3 a constructor loc v"
| "run_visit xxh3 a (Visit_New t loc) v = visit_new a t loc v"
| "run_visit xxh3 a (Visit_Delete t loc) v = visit_delete a t loc v"

text \<open>What the consumer does with a translation unit.\<close>

definition handle_translation_unit :: "(string \<Rightarrow> u64) \<Rightarrow> ast \<Rightarrow> visit list \<Rightarrow> parser \<Rightarrow> parser" where
  "handle_translation_unit xxh3 a vs p =
     vs_parser (finish_points_to_stats (fold (run_visit xxh3 a) vs (new_visitor (p\<lparr>px_has_data := True\<rparr>))))"

end
