(* ===== verification/Parser.thy ===== *)
theory Parser
  imports Asm_Index Fingerprints Ast_Traversal
begin

text \<open>
  Indexing one command: the callbacks of the preprocessor, \<open>lib/semindex_parser/index_pp.cpp\<close>, and
  \<open>semindex_index_command\<close> of \<open>semindex.cpp\<close>. Clang is a parameter: it is given by the events it
  reports for a command line, in their order, and by the syntax tree and its traversal.
\<close>

section \<open>Events\<close>

datatype level = Level_Ignored | Level_Note | Level_Remark | Level_Warning | Level_Error | Level_Fatal

text \<open>A token of the preprocessor: the identifier it has, if any.\<close>

record pp_token =
  pt_name :: "string option"
  pt_loc :: location

record macro_info =
  mi_function_like :: bool
  mi_parameters :: "string list"
  mi_tokens :: "pp_token list"

text \<open>
  A macro definition comes with the names that are macros then. An inclusion has the name, whether it
  is in angle brackets, the file if there is one, its location, and the level at which an error that
  is reported there reaches the consumer, if it does.
\<close>

datatype pp_event =
  Macro_Defined pp_token macro_info "string list"
| Macro_Expands pp_token
| Macro_Tested pp_token
| Inclusion string bool "string option" location "level option"
| Lexed token
| Diagnosed level string "location option"

record run_state =
  rn_parser :: parser
  rn_macro_uses :: "(location \<times> string) set"
  rn_asm :: "asm_indexer option"
  rn_warnings :: u32
  rn_errors :: u32
  rn_fatal :: bool

section \<open>Diagnostics\<close>

fun level_rank :: "level \<Rightarrow> nat" where
  "level_rank Level_Ignored = 0"
| "level_rank Level_Note = 1"
| "level_rank Level_Remark = 2"
| "level_rank Level_Warning = 3"
| "level_rank Level_Error = 4"
| "level_rank Level_Fatal = 5"

definition diagnostic_place :: "source_manager \<Rightarrow> location option \<Rightarrow> string \<times> u32 \<times> u32" where
  "diagnostic_place sm loc =
     (case loc of
        None \<Rightarrow> ([], 0, 0)
      | Some l \<Rightarrow> if l = 0 then ([], 0, 0) else (case sm_presumed sm l of None \<Rightarrow> ([], 0, 0) | Some at \<Rightarrow> at))"

definition parsed_diagnostic :: "source_manager \<Rightarrow> level \<Rightarrow> string \<Rightarrow> location option \<Rightarrow> diagnostic" where
  "parsed_diagnostic sm level message loc =
     (case diagnostic_place sm loc of (file, line, column) \<Rightarrow>
        \<lparr>dg_severity = (if level_rank level \<ge> level_rank Level_Error then DIAGNOSTIC_ERROR
           else if level = Level_Warning then DIAGNOSTIC_WARNING else DIAGNOSTIC_NOTE),
         dg_message = message, dg_file = file, dg_line = line, dg_column = column\<rparr>)"

text \<open>The base class counts the warnings and errors.\<close>

definition handle_diagnostic :: "source_manager \<Rightarrow> level \<Rightarrow> string \<Rightarrow> location option \<Rightarrow> run_state \<Rightarrow> run_state" where
  "handle_diagnostic sm level message loc r =
     (let r1 = r\<lparr>rn_warnings := (if level = Level_Warning then rn_warnings r + 1 else rn_warnings r),
          rn_errors := (if level_rank level \<ge> level_rank Level_Error then rn_errors r + 1 else rn_errors r),
          rn_fatal := rn_fatal r \<or> level = Level_Fatal\<rparr>
      in if level_rank level < level_rank Level_Note then r1
         else r1\<lparr>rn_parser := (rn_parser r1)
           \<lparr>px_diagnostics := px_diagnostics (rn_parser r1) @ [parsed_diagnostic sm level message loc]\<rparr>\<rparr>)"

section \<open>Macros and inclusions\<close>

definition detailed_usr :: "parser \<Rightarrow> string \<Rightarrow> string \<Rightarrow> string" where
  "detailed_usr p tag name = (if px_details p then tag @ name else [])"

definition macro_symbol :: "parser \<Rightarrow> string \<Rightarrow> parsed_symbol" where
  "macro_symbol p name =
     \<lparr>ps_kind = SYMBOL_MACRO, ps_name = name, ps_owner = [], ps_type = [], ps_canonical_type = [],
      ps_type_kind = SYMBOL_VAR, ps_type_symbol = [], ps_type_usr = [], ps_usr = detailed_usr p ''macro:'' name,
      ps_context = [], ps_loc = no_location, ps_local = False, ps_definition = True, ps_properties = 0, ps_order = 0\<rparr>"

definition read_use :: "symbol_kind \<Rightarrow> string \<Rightarrow> string \<Rightarrow> parsed_use" where
  "read_use kind name usr =
     \<lparr>pu_kind = USE_READ, pu_symbol_kind = kind, pu_mode = MODE_R_VAL, pu_name = name, pu_owner = [], pu_type = [],
      pu_usr = usr, pu_context = [], pu_context_usr = [], pu_usr_id = 0, pu_context_usr_id = 0, pu_loc = no_location, pu_local = False, pu_order = 0\<rparr>"

definition add_macro_use :: "source_manager \<Rightarrow> pp_token \<Rightarrow> location \<Rightarrow> run_state \<Rightarrow> run_state" where
  "add_macro_use sm t loc r =
     (case pt_name t of
        None \<Rightarrow> r
      | Some name \<Rightarrow>
          let spelling = sm_spelling sm loc in
          if (spelling, name) \<in> rn_macro_uses r then r
          else r\<lparr>rn_macro_uses := insert (spelling, name) (rn_macro_uses r),
            rn_parser := locate_use sm (read_use SYMBOL_MACRO name (detailed_usr (rn_parser r) ''macro:'' name))
              spelling spelling (rn_parser r)\<rparr>)"

text \<open>The macros that a definition refers to, its own parameters excepted.\<close>

definition replacement_use :: "macro_info \<Rightarrow> string list \<Rightarrow> pp_token \<Rightarrow> bool" where
  "replacement_use m macros t =
     (case pt_name t of
        None \<Rightarrow> False
      | Some name \<Rightarrow> \<not> (mi_function_like m \<and> name \<in> set (mi_parameters m)) \<and> name \<in> set macros)"

definition add_replacement_uses :: "source_manager \<Rightarrow> macro_info \<Rightarrow> string list \<Rightarrow> run_state \<Rightarrow> run_state" where
  "add_replacement_uses sm m macros r =
     fold (\<lambda>t r. if replacement_use m macros t then add_macro_use sm t (pt_loc t) r else r) (mi_tokens m) r"

definition macro_defined :: "source_manager \<Rightarrow> pp_token \<Rightarrow> macro_info \<Rightarrow> string list \<Rightarrow> run_state \<Rightarrow> run_state" where
  "macro_defined sm t m macros r =
     (case pt_name t of
        None \<Rightarrow> r
      | Some name \<Rightarrow>
          add_replacement_uses sm m macros
            (r\<lparr>rn_parser := locate_symbol sm (macro_symbol (rn_parser r) name) False (pt_loc t) (pt_loc t) (rn_parser r)\<rparr>))"

definition include_target :: "parser \<Rightarrow> string \<Rightarrow> bool \<Rightarrow> string option \<Rightarrow> string" where
  "include_target p name angled file =
     (if angled then ''<'' @ name @ ''>''
      else case file of None \<Rightarrow> name | Some path \<Rightarrow> command_path p path)"

definition add_include_use :: "source_manager \<Rightarrow> string \<Rightarrow> bool \<Rightarrow> string option \<Rightarrow> location \<Rightarrow> run_state \<Rightarrow> run_state" where
  "add_include_use sm name angled file loc r =
     (let spelling = sm_spelling sm loc; p = rn_parser r; target = include_target p name angled file in
      r\<lparr>rn_parser := locate_use sm (read_use SYMBOL_FILE target (detailed_usr p ''file:'' target)) spelling spelling p\<rparr>)"

definition inclusion_directive ::
  "source_manager \<Rightarrow> string \<Rightarrow> bool \<Rightarrow> string option \<Rightarrow> location \<Rightarrow> level option \<Rightarrow> run_state \<Rightarrow> run_state" where
  "inclusion_directive sm name angled file loc delivered r =
     (let quote = [CHR 0x27] in
      add_include_use sm name angled file loc
        (case (file, delivered) of
           (None, Some level) \<Rightarrow> handle_diagnostic sm level (quote @ name @ quote @ '' file not found'') (Some loc) r
         | _ \<Rightarrow> r))"

section \<open>A run\<close>

definition run_event :: "source_manager \<Rightarrow> pp_event \<Rightarrow> run_state \<Rightarrow> run_state" where
  "run_event sm ev r =
     (case ev of
        Macro_Defined t m macros \<Rightarrow> macro_defined sm t m macros r
      | Macro_Expands t \<Rightarrow> add_macro_use sm t (sm_spelling sm (pt_loc t)) r
      | Macro_Tested t \<Rightarrow> add_macro_use sm t (pt_loc t) r
      | Inclusion name angled file loc delivered \<Rightarrow> inclusion_directive sm name angled file loc delivered r
      | Lexed t \<Rightarrow>
          (case rn_asm r of
             None \<Rightarrow> r
           | Some a \<Rightarrow> (case observe sm t (a, rn_parser r) of (a1, p1) \<Rightarrow> r\<lparr>rn_asm := Some a1, rn_parser := p1\<rparr>))
      | Diagnosed level message loc \<Rightarrow> handle_diagnostic sm level message loc r)"

text \<open>
  What a run of Clang on one file reports: the events, whether the action was carried out to its end,
  the syntax tree with the source manager, its traversal, and the value returned.
\<close>

record clang_run =
  gl_events :: "pp_event list"
  gl_finished :: bool
  gl_ast :: ast
  gl_traversal :: "visit list"
  gl_ret :: int

definition run_sources :: "clang_run \<Rightarrow> source_manager" where
  "run_sources run = at_sources (gl_ast run)"

definition finish_run :: "(string \<Rightarrow> u64) \<Rightarrow> clang_run \<Rightarrow> run_state \<Rightarrow> parser" where
  "finish_run xxh3 run r =
     (if \<not> gl_finished run then rn_parser r
      else case rn_asm r of
        Some a \<Rightarrow> (asm_finish (run_sources run) a (rn_parser r))\<lparr>px_has_data := True\<rparr>
      | None \<Rightarrow> handle_translation_unit xxh3 (gl_ast run) (gl_traversal run) (rn_parser r))"

section \<open>Command lines\<close>

definition is_unsupported_joined_arg :: "string \<Rightarrow> bool" where
  "is_unsupported_joined_arg arg \<longleftrightarrow>
     (\<exists>joined\<in>set [''--arch='', ''-mpreferred-stack-boundary='', ''-mindirect-branch='', ''-fzero-init-padding-bits='',
        ''-fdiagnostics-show-context='', ''-fmin-function-alignment='', ''-falign-jumps='']. starts_with joined arg) \<or>
     arg \<in> set [''-mindirect-branch-register'', ''-fno-allow-store-data-races'', ''-fconserve-stack'']"

definition unsupported_arg_takes_value :: "string \<Rightarrow> bool" where
  "unsupported_arg_takes_value arg \<longleftrightarrow> arg = ''--arch''"

definition is_warning_error_arg :: "string \<Rightarrow> bool" where
  "is_warning_error_arg arg \<longleftrightarrow> arg = ''-Werror'' \<or> starts_with ''-Werror='' arg"

definition is_preprocessed_assembly :: "string \<Rightarrow> bool" where
  "is_preprocessed_assembly file \<longleftrightarrow> length file \<ge> 2 \<and> drop (length file - 2) file = ''.S''"

definition is_x86_64_builtin_definition :: "string \<Rightarrow> bool" where
  "is_x86_64_builtin_definition value1 \<longleftrightarrow>
     takeWhile (\<lambda>c. c \<noteq> CHR ''='') value1 \<in> set [''__x86_64__'', ''__x86_64'', ''__amd64__'', ''__amd64'']"

fun sanitize_args :: "string list \<Rightarrow> string list" where
  "sanitize_args [] = []"
| "sanitize_args (arg # rest) =
     (if arg = ''--'' then sanitize_args rest
      else if is_unsupported_joined_arg arg then sanitize_args rest
      else if is_warning_error_arg arg then sanitize_args rest
      else if arg = ''-D'' \<and> rest \<noteq> [] \<and> is_x86_64_builtin_definition (hd rest) then sanitize_args (tl rest)
      else if starts_with ''-D'' arg \<and> is_x86_64_builtin_definition (drop 2 arg) then sanitize_args rest
      else if unsupported_arg_takes_value arg then sanitize_args (tl rest)
      else arg # sanitize_args rest)"

definition quiet_args :: "string list" where
  "quiet_args = [''-w'', ''-Wno-error'', ''-Wno-unknown-warning-option'', ''-Wno-error=ignored-optimization-argument'',
     ''-Wno-builtin-macro-redefined'']"

definition sanitize_command_line :: "string list \<Rightarrow> string list" where
  "sanitize_command_line input = sanitize_args input @ quiet_args"

section \<open>The interface\<close>

definition failed_result :: index_result where
  "failed_result = \<lparr>ir_status = INDEX_FAILED, ir_warnings = 0, ir_errors = 0, ir_fatal = 0\<rparr>"

definition create_parser :: parser where
  "create_parser =
     \<lparr>px_scope = SCOPE_PROJECT, px_details = True, px_include_local = True, px_points_to = False, px_next_order = 0,
      px_files = [], px_symbols = [], px_uses = [], px_signatures = [], px_index = empty_index, px_command = None,
      px_directory = [], px_stats = no_stats, px_result = failed_result, px_has_data = False, px_diagnostics = [],
      px_diagnostic_records = []\<rparr>"

definition clear_index :: "parser \<Rightarrow> parser" where
  "clear_index p =
     create_parser\<lparr>px_scope := px_scope p, px_details := px_details p, px_include_local := px_include_local p,
       px_points_to := px_points_to p\<rparr>"

definition save_compile_command :: "compile_command \<Rightarrow> parser \<Rightarrow> parser" where
  "save_compile_command cmd p =
     (let dir = (case cc_directory cmd of None \<Rightarrow> ''.'' | Some d \<Rightarrow> d) in
      p\<lparr>px_directory := dir, px_command := Some \<lparr>cc_directory = Some dir, cc_file = cc_file cmd, cc_argv = cc_argv cmd\<rparr>\<rparr>)"

definition rebuild_diagnostics :: "parser \<Rightarrow> parser" where
  "rebuild_diagnostics p =
     p\<lparr>px_diagnostic_records :=
       map (\<lambda>d. d\<lparr>dg_message := c_text (dg_message d), dg_file := c_text (dg_file d)\<rparr>) (px_diagnostics p)\<rparr>"

text \<open>
  Clang: the adjustments of the command line before the program's own, and the run on a directory, a
  file and a command line, for the preprocessor alone or with the syntax tree.
\<close>

record clang =
  cl_adjust :: "string list \<Rightarrow> string list"
  cl_run :: "string \<Rightarrow> string \<Rightarrow> string list \<Rightarrow> bool \<Rightarrow> clang_run"
  cl_xxh3 :: "string \<Rightarrow> u64"
  cl_blake3 :: "bytes \<Rightarrow> digest"

definition start_run :: "bool \<Rightarrow> parser \<Rightarrow> run_state" where
  "start_run assembly p =
     \<lparr>rn_parser = p, rn_macro_uses = {}, rn_asm = (if assembly then Some new_indexer else None), rn_warnings = 0,
      rn_errors = 0, rn_fatal = False\<rparr>"

definition index_status_of :: "int \<Rightarrow> bool \<Rightarrow> u32 \<Rightarrow> index_status" where
  "index_status_of ret has_data errors =
     (if ret = 0 \<and> has_data \<and> errors = 0 then INDEX_CLEAN else if has_data then INDEX_PARTIAL else INDEX_FAILED)"

definition index_command :: "clang \<Rightarrow> compile_command option \<Rightarrow> parser \<Rightarrow> int \<times> parser" where
  "index_command c command p =
     (case command of
        None \<Rightarrow> (- 1, p)
      | Some cmd \<Rightarrow>
          if cc_argv cmd = [] then (- 1, p)
          else
          let p1 = save_compile_command cmd (clear_index p);
              assembly = is_preprocessed_assembly (cc_file cmd);
              run = cl_run c (px_directory p1) (cc_file cmd)
                (sanitize_command_line (cl_adjust c (cc_argv cmd))) assembly;
              r = fold (run_event (run_sources run)) (gl_events run) (start_run assembly p1);
              p2 = finish_run (cl_xxh3 c) run r;
              p3 = p2\<lparr>px_result := \<lparr>ir_status = index_status_of (gl_ret run) (px_has_data p2) (rn_errors r),
                  ir_warnings = rn_warnings r, ir_errors = rn_errors r, ir_fatal = (if rn_fatal r then 1 else 0)\<rparr>\<rparr>;
              p4 = (if px_has_data p3 then rebuild_records (cl_xxh3 c) p3 else p3)
          in (gl_ret run, rebuild_diagnostics p4))"

text \<open>The path of a compilation database names its directory; \<open>filename\<close> and \<open>parent_path\<close> are LLVM's.\<close>

definition compile_commands_directory :: "(string \<Rightarrow> string) \<Rightarrow> (string \<Rightarrow> string) \<Rightarrow> string \<Rightarrow> string" where
  "compile_commands_directory llvm_filename llvm_parent path =
     (let dir = (if llvm_filename path = ''compile_commands.json'' then llvm_parent path else path)
      in if dir = [] then ''.'' else dir)"

definition index_file ::
  "clang \<Rightarrow> (string \<Rightarrow> string) \<Rightarrow> (string \<Rightarrow> string) \<Rightarrow> (string \<Rightarrow> (string \<Rightarrow> (string \<times> string list) list) option)
     \<Rightarrow> string option \<Rightarrow> string option \<Rightarrow> parser \<Rightarrow> int \<times> parser" where
  "index_file c llvm_filename llvm_parent load_directory json source p =
     (case source of
        None \<Rightarrow> (- 1, p)
      | Some file \<Rightarrow>
          if \<not> nonempty json then (- 1, p)
          else (case load_directory (compile_commands_directory llvm_filename llvm_parent (or_empty json)) of
             None \<Rightarrow> (- 1, p)
           | Some commands_of \<Rightarrow>
               (case commands_of file of
                  [] \<Rightarrow> (- 1, p)
                | (dir, argv) # _ \<Rightarrow>
                    index_command c (Some \<lparr>cc_directory = Some dir, cc_file = file, cc_argv = argv\<rparr>) p)))"

definition get_compile_command :: "parser \<Rightarrow> compile_command option" where
  "get_compile_command p = (case px_command p of None \<Rightarrow> None | Some cmd \<Rightarrow> if cc_argv cmd = [] then None else Some cmd)"

text \<open>The settings, which a command keeps, and the access to the records; a null handle is not modelled.\<close>

definition set_scope :: "parser \<Rightarrow> scope \<Rightarrow> parser" where
  "set_scope p scope = p\<lparr>px_scope := scope\<rparr>"

definition set_details :: "parser \<Rightarrow> int \<Rightarrow> parser" where
  "set_details p enabled = p\<lparr>px_details := enabled \<noteq> 0\<rparr>"

definition set_include_local :: "parser \<Rightarrow> int \<Rightarrow> parser" where
  "set_include_local p enabled = p\<lparr>px_include_local := enabled \<noteq> 0\<rparr>"

definition set_points_to_analysis :: "parser \<Rightarrow> int \<Rightarrow> parser" where
  "set_points_to_analysis p enabled = p\<lparr>px_points_to := enabled \<noteq> 0\<rparr>"

definition build_file_fingerprints :: "clang \<Rightarrow> parser \<Rightarrow> int \<times> parser" where
  "build_file_fingerprints c p = (0, rebuild_fingerprints (cl_blake3 c) p)"

definition nth_record :: "'a list \<Rightarrow> nat \<Rightarrow> 'a option" where
  "nth_record xs i = (if i \<ge> length xs then None else Some (xs ! i))"

definition get_diagnostic :: "parser \<Rightarrow> nat \<Rightarrow> diagnostic option" where
  "get_diagnostic p i = nth_record (px_diagnostic_records p) i"

definition get_symbol :: "parser \<Rightarrow> nat \<Rightarrow> symbol option" where
  "get_symbol p i = nth_record (ix_symbols (px_index p)) i"

definition get_use :: "parser \<Rightarrow> nat \<Rightarrow> use option" where
  "get_use p i = nth_record (ix_uses (px_index p)) i"

definition get_function_signature :: "parser \<Rightarrow> nat \<Rightarrow> signature option" where
  "get_function_signature p i = nth_record (ix_signatures (px_index p)) i"

text \<open>What the pipeline sees of a parser once it has run with these returned values.\<close>

definition parser_frontend :: "clang \<Rightarrow> int \<Rightarrow> parser \<Rightarrow> frontend" where
  "parser_frontend c ret p =
     \<lparr>fe_created = True, fe_command_ret = ret, fe_file_ret = ret, fe_result = Some (px_result p), fe_stats = Some (px_stats p),
      fe_compile_command = get_compile_command p, fe_fingerprints_ret = fst (build_file_fingerprints c p),
      fe_index = px_index (snd (build_file_fingerprints c p))\<rparr>"

end
