(* ===== verification/Ast_Properties.thy ===== *)
theory Ast_Properties
  imports Ast_Traversal
begin

text \<open>
  What the visitor does to the parser. The locale \<open>visitor_client\<close> says which invariants of the
  parser the visitor keeps: those of the additions it makes. It is interpreted for the locality of
  records, for the functions that are called, and in the theory Parser_Properties for the
  well-formedness of an index.
\<close>

section \<open>What every node leaves as it is\<close>

text \<open>An entry of a cache is what would be computed again.\<close>

definition caches_ok :: "ast \<Rightarrow> visitor \<Rightarrow> bool" where
  "caches_ok a v \<longleftrightarrow>
     (\<forall>d. vs_value_infos v d = None \<or> vs_value_infos v d = Some (value_info_of a (vs_details v) d)) \<and>
     (\<forall>d. vs_function_usrs v d = None \<or> vs_function_usrs v d = Some (decl_usr a d))"

lemma caches_ok_frame [simp]:
  "caches_ok a (w\<lparr>vs_parser := x0\<rparr>) = caches_ok a w"
  "caches_ok a (w\<lparr>vs_function := x1\<rparr>) = caches_ok a w"
  "caches_ok a (w\<lparr>vs_function_usr := x2\<rparr>) = caches_ok a w"
  "caches_ok a (w\<lparr>vs_function_usr_id := x3\<rparr>) = caches_ok a w"
  "caches_ok a (w\<lparr>vs_type_uses := x4\<rparr>) = caches_ok a w"
  "caches_ok a (w\<lparr>vs_function_symbols := x5\<rparr>) = caches_ok a w"
  "caches_ok a (w\<lparr>vs_indirect_fields := x6\<rparr>) = caches_ok a w"
  "caches_ok a (w\<lparr>vs_stats := x7\<rparr>) = caches_ok a w"
  "caches_ok a (w\<lparr>vs_direct_constraints := x8\<rparr>) = caches_ok a w"
  "caches_ok a (w\<lparr>vs_copy_constraints := x9\<rparr>) = caches_ok a w"
  "caches_ok a (w\<lparr>vs_init_lists := x10\<rparr>) = caches_ok a w"
  "caches_ok a (w\<lparr>vs_pointer_identities := x11\<rparr>) = caches_ok a w"
  "caches_ok a (w\<lparr>vs_function_identities := x12\<rparr>) = caches_ok a w"
  by (simp_all add: caches_ok_def)

lemma caches_ok_insert:
  assumes "caches_ok a w"
  shows "caches_ok a (w\<lparr>vs_value_infos := (vs_value_infos w)(d \<mapsto> value_info_of a (vs_details w) d)\<rparr>)"
    and "caches_ok a (w\<lparr>vs_function_usrs := (vs_function_usrs w)(d \<mapsto> decl_usr a d)\<rparr>)"
  using assms by (simp_all add: caches_ok_def)

text \<open>The totals of the analysis of pointers bound its sets; the function identities are those of the direct constraints.\<close>

definition constrained :: "visitor \<Rightarrow> string set" where
  "constrained v = fst ` vs_direct_constraints v \<union> fst ` vs_copy_constraints v \<union> snd ` vs_copy_constraints v"

definition stats_ok :: "visitor \<Rightarrow> bool" where
  "stats_ok v \<longleftrightarrow> finite (vs_direct_constraints v) \<and> finite (vs_copy_constraints v) \<and> finite (vs_pointer_identities v) \<and>
     vs_function_identities v = snd ` vs_direct_constraints v \<and> constrained v \<subseteq> vs_pointer_identities v \<and>
     card (vs_pointer_identities v - constrained v) \<le> identified_callsites (vs_stats v) \<and>
     identified_callsites (vs_stats v) \<le> indirect_callsites (vs_stats v) \<and>
     card (vs_direct_constraints v) \<le> direct_constraints (vs_stats v) \<and>
     card (vs_copy_constraints v) \<le> copy_constraints (vs_stats v) \<and>
     card (vs_direct_constraints v) + card (vs_copy_constraints v) + rejected_constraints (vs_stats v) \<le>
       direct_constraints (vs_stats v) + copy_constraints (vs_stats v)"

lemma stats_ok_frame [simp]:
  "stats_ok (w\<lparr>vs_parser := x0\<rparr>) = stats_ok w"
  "stats_ok (w\<lparr>vs_details := x1\<rparr>) = stats_ok w"
  "stats_ok (w\<lparr>vs_function := x2\<rparr>) = stats_ok w"
  "stats_ok (w\<lparr>vs_function_usr := x3\<rparr>) = stats_ok w"
  "stats_ok (w\<lparr>vs_function_usr_id := x4\<rparr>) = stats_ok w"
  "stats_ok (w\<lparr>vs_type_uses := x5\<rparr>) = stats_ok w"
  "stats_ok (w\<lparr>vs_function_symbols := x6\<rparr>) = stats_ok w"
  "stats_ok (w\<lparr>vs_indirect_fields := x7\<rparr>) = stats_ok w"
  "stats_ok (w\<lparr>vs_value_infos := x8\<rparr>) = stats_ok w"
  "stats_ok (w\<lparr>vs_function_usrs := x9\<rparr>) = stats_ok w"
  "stats_ok (w\<lparr>vs_init_lists := x10\<rparr>) = stats_ok w"
  by (simp_all add: stats_ok_def constrained_def)

definition same_settings :: "parser \<Rightarrow> parser \<Rightarrow> bool" where
  "same_settings p q \<longleftrightarrow> px_scope q = px_scope p \<and> px_details q = px_details p \<and>
     px_include_local q = px_include_local p \<and> px_points_to q = px_points_to p"

definition steady :: "ast \<Rightarrow> visitor \<Rightarrow> visitor \<Rightarrow> bool" where
  "steady a v w \<longleftrightarrow> vs_details w = vs_details v \<and> vs_function w = vs_function v \<and>
     vs_function_usr w = vs_function_usr v \<and> vs_function_usr_id w = vs_function_usr_id v \<and>
     same_settings (vs_parser v) (vs_parser w) \<and> (caches_ok a v \<longrightarrow> caches_ok a w) \<and> (stats_ok v \<longrightarrow> stats_ok w)"

named_theorems steady_intros

lemma same_settings_refl [simp]: "same_settings p p"
  by (simp add: same_settings_def)

lemma steady_refl [steady_intros]: "steady a v v"
  by (simp add: steady_def)

lemma steady_trans: "steady a u v \<Longrightarrow> steady a v w \<Longrightarrow> steady a u w"
  by (simp add: steady_def same_settings_def)

lemma steadyD:
  assumes "steady a v w"
  shows "vs_details w = vs_details v" "vs_function w = vs_function v" "vs_function_usr w = vs_function_usr v"
    "vs_function_usr_id w = vs_function_usr_id v" "px_scope (vs_parser w) = px_scope (vs_parser v)"
    "px_include_local (vs_parser w) = px_include_local (vs_parser v)" "px_points_to (vs_parser w) = px_points_to (vs_parser v)"
    "caches_ok a v \<Longrightarrow> caches_ok a w" "stats_ok v \<Longrightarrow> stats_ok w"
  using assms by (simp_all add: steady_def same_settings_def)

lemma settings_location:
  "same_settings p (snd (index_location sm loc p))" "same_settings p (snd (display_location sm loc p))"
  by (simp_all add: same_settings_def index_location_def display_location_def intern_file_def split_beta)

lemma settings_add:
  assumes "same_settings p q"
  shows "same_settings p (add_use_in_scope sm u scope q)" "same_settings p (add_symbol_in_scope sm s scope q)"
    "same_settings p (add_function_signature_in_scope sm g scope q)"
  using assms
  by (simp_all add: same_settings_def add_use_in_scope_def add_use_def add_symbol_in_scope_def add_symbol_def
      add_function_signature_in_scope_def)

lemma settings_locate [simp]:
  "same_settings p (locate_use sm u at scope p)" "same_settings p (locate_symbol sm s displayed at scope p)"
  "same_settings p (locate_signature sm g at scope p)" "same_settings p (set_points_to_stats st p)"
  by (simp_all add: locate_use_def locate_symbol_def locate_signature_def split_beta settings_add settings_location
      set_points_to_stats_def) (simp add: same_settings_def)

lemma steady_on_parser:
  "(\<And>p. same_settings p (f p)) \<Longrightarrow> steady a v w \<Longrightarrow> steady a v (on_parser f w)"
  by (simp add: steady_def on_parser_def same_settings_def)

lemma steady_locate [steady_intros]:
  assumes "steady a v w"
  shows "steady a v (on_parser (locate_use sm u at scope) w)"
    "steady a v (on_parser (locate_signature sm g at scope) w)"
    "steady a v (add_located_symbol b s displayed at scope w)"
  using assms by (simp_all add: steady_on_parser add_located_symbol_def)

lemma steady_updates [steady_intros]:
  assumes "steady a v w"
  shows "steady a v (w\<lparr>vs_type_uses := x2\<rparr>)" "steady a v (w\<lparr>vs_function_symbols := x3\<rparr>)"
    "steady a v (w\<lparr>vs_indirect_fields := x4\<rparr>)" "steady a v (w\<lparr>vs_init_lists := x6\<rparr>)"
  using assms by (simp_all add: steady_def)

lemma steady_stats:
  "steady a v w \<Longrightarrow> (stats_ok w \<Longrightarrow> stats_ok (w\<lparr>vs_stats := st\<rparr>)) \<Longrightarrow> steady a v (w\<lparr>vs_stats := st\<rparr>)"
  by (simp add: steady_def)

lemma steady_caches:
  assumes "steady a v w"
  shows "info = value_info_of a (vs_details w) d \<Longrightarrow> steady a v (w\<lparr>vs_value_infos := (vs_value_infos w)(d \<mapsto> info)\<rparr>)"
    and "usr = decl_usr a d \<Longrightarrow> steady a v (w\<lparr>vs_function_usrs := (vs_function_usrs w)(d \<mapsto> usr)\<rparr>)"
  using assms caches_ok_insert [of a w d] by (simp_all add: steady_def)

lemma steady_value_info [steady_intros]: "steady a v w \<Longrightarrow> steady a v (snd (get_value_info a d w))"
  by (cases "vs_value_infos w (primary_value_decl a d)") (simp_all add: get_value_info_def Let_def steady_caches)

lemma steady_function_usr [steady_intros]: "steady a v w \<Longrightarrow> steady a v (snd (function_usr a d w))"
  by (cases "vs_function_usrs w (canonical_function a d)") (simp_all add: function_usr_def Let_def steady_caches)

lemma steady_fold:
  "(\<And>x w. steady a v w \<Longrightarrow> steady a v (f x w)) \<Longrightarrow> steady a v w \<Longrightarrow> steady a v (fold f xs w)"
  by (induction xs arbitrary: w) simp_all

lemma steady_add_value_use [steady_intros]: "steady a v w \<Longrightarrow> steady a v (add_value_use a d kind mode c loc l w)"
  by (simp add: add_value_use_def Let_def split_beta steady_intros)

lemma steady_add_type_use [steady_intros]: "steady a v w \<Longrightarrow> steady a v (add_type_use a d kind loc t w)"
  by (simp add: add_type_use_def Let_def steady_intros)

lemma steady_add_function_call [steady_intros]: "steady a v w \<Longrightarrow> steady a v (add_function_call xxh3 a f loc w)"
  by (auto simp: add_function_call_def split_beta steady_intros split: option.split)

lemma steady_add_alias_use [steady_intros]: "steady a v w \<Longrightarrow> steady a v (add_alias_use a d w)"
  by (auto simp: add_alias_use_def steady_intros split: option.split)

text \<open>A constraint counts once, as rejected or as an element of its set.\<close>

lemma function_usr_fields [simp]:
  "vs_parser (snd (function_usr a d w)) = vs_parser w"
  "vs_details (snd (function_usr a d w)) = vs_details w"
  "vs_function (snd (function_usr a d w)) = vs_function w"
  "vs_function_usr (snd (function_usr a d w)) = vs_function_usr w"
  "vs_function_usr_id (snd (function_usr a d w)) = vs_function_usr_id w"
  "vs_stats (snd (function_usr a d w)) = vs_stats w"
  "vs_direct_constraints (snd (function_usr a d w)) = vs_direct_constraints w"
  "vs_copy_constraints (snd (function_usr a d w)) = vs_copy_constraints w"
  "vs_pointer_identities (snd (function_usr a d w)) = vs_pointer_identities w"
  "vs_function_identities (snd (function_usr a d w)) = vs_function_identities w"
  by (simp_all add: function_usr_def Let_def split: option.split)

lemma caches_function_usr: "caches_ok a w \<Longrightarrow> caches_ok a (snd (function_usr a d w))"
  by (cases "vs_function_usrs w (canonical_function a d)") (simp_all add: function_usr_def Let_def caches_ok_insert)

lemma card_insert_le_Suc: "finite A \<Longrightarrow> card (insert x A) \<le> Suc (card A)"
  by (simp add: card_insert_if)

lemma stats_ok_direct:
  assumes "stats_ok w" "stats_ok v1" and "vs_stats v1 = (vs_stats w)\<lparr>direct_constraints := direct_constraints (vs_stats w) + 1\<rparr>"
    and same: "vs_direct_constraints v1 = vs_direct_constraints w" "vs_copy_constraints v1 = vs_copy_constraints w"
    "vs_pointer_identities v1 = vs_pointer_identities w" "vs_function_identities v1 = vs_function_identities w"
  shows "stats_ok (v1\<lparr>vs_pointer_identities := insert t (vs_pointer_identities v1),
      vs_function_identities := insert u (vs_function_identities v1),
      vs_direct_constraints := insert (t, u) (vs_direct_constraints v1)\<rparr>)"
proof -
  have "card (insert t (vs_pointer_identities w) - insert t (constrained w)) \<le> card (vs_pointer_identities w - constrained w)"
    using assms(1) by (intro card_mono) (auto simp: stats_ok_def)
  moreover have "constrained (v1\<lparr>vs_pointer_identities := P, vs_function_identities := F,
      vs_direct_constraints := insert (t, u) (vs_direct_constraints v1)\<rparr>) = insert t (constrained w)" for P F
    by (simp add: constrained_def same Un_insert_left)
  ultimately show ?thesis
    using assms(1) card_insert_le_Suc [of "vs_direct_constraints w" "(t, u)"]
    by (auto simp: stats_ok_def assms(3) same)
qed

lemma stats_ok_copy:
  assumes "stats_ok w"
  shows "stats_ok (w\<lparr>vs_stats := (vs_stats w)\<lparr>copy_constraints := copy_constraints (vs_stats w) + 1\<rparr>,
      vs_pointer_identities := insert u (insert t (vs_pointer_identities w)),
      vs_copy_constraints := insert (t, u) (vs_copy_constraints w)\<rparr>)"
proof -
  have "card (insert u (insert t (vs_pointer_identities w)) - insert u (insert t (constrained w))) \<le>
      card (vs_pointer_identities w - constrained w)"
    using assms by (intro card_mono) (auto simp: stats_ok_def)
  moreover have "constrained (w\<lparr>vs_stats := st, vs_pointer_identities := P,
      vs_copy_constraints := insert (t, u) (vs_copy_constraints w)\<rparr>) = insert u (insert t (constrained w))" for P st
    by (auto simp: constrained_def)
  ultimately show ?thesis
    using assms card_insert_le_Suc [of "vs_copy_constraints w" "(t, u)"]
    by (auto simp: stats_ok_def)
qed

lemma stats_ok_counts:
  assumes "stats_ok w"
  shows "stats_ok (w\<lparr>vs_stats := (vs_stats w)\<lparr>direct_constraints := n + direct_constraints (vs_stats w)\<rparr>\<rparr>)"
    "stats_ok (w\<lparr>vs_stats := (vs_stats w)\<lparr>direct_constraints := Suc (direct_constraints (vs_stats w)),
      rejected_constraints := Suc (rejected_constraints (vs_stats w))\<rparr>\<rparr>)"
    "stats_ok (w\<lparr>vs_stats := (vs_stats w)\<lparr>copy_constraints := Suc (copy_constraints (vs_stats w)),
      rejected_constraints := Suc (rejected_constraints (vs_stats w))\<rparr>\<rparr>)"
    "stats_ok (w\<lparr>vs_stats := (vs_stats w)\<lparr>unsupported_constraints := m\<rparr>\<rparr>)"
    "stats_ok (w\<lparr>vs_stats := (vs_stats w)\<lparr>indirect_callsites := Suc (indirect_callsites (vs_stats w))\<rparr>\<rparr>)"
  using assms by (simp_all add: stats_ok_def constrained_def)

lemma stats_ok_callsite:
  assumes "stats_ok w"
  shows "stats_ok (w\<lparr>vs_stats := (vs_stats w)\<lparr>indirect_callsites := Suc (indirect_callsites (vs_stats w)),
      identified_callsites := Suc (identified_callsites (vs_stats w))\<rparr>,
      vs_pointer_identities := insert u (vs_pointer_identities w)\<rparr>)"
proof -
  have fin: "finite (vs_pointer_identities w)" using assms by (simp add: stats_ok_def)
  have "card (insert u (vs_pointer_identities w) - constrained w) \<le> card (insert u (vs_pointer_identities w - constrained w))"
    using fin by (intro card_mono) auto
  also have "\<dots> \<le> Suc (card (vs_pointer_identities w - constrained w))" using fin by (intro card_insert_le_Suc) simp
  finally have "card (insert u (vs_pointer_identities w) - constrained w) \<le> Suc (card (vs_pointer_identities w - constrained w))" .
  with assms show ?thesis by (auto simp: stats_ok_def constrained_def)
qed

lemma steady_direct [steady_intros]:
  assumes "steady a v w"
  shows "steady a v (add_direct_constraint a t f w)"
proof -
  let ?c = "w\<lparr>vs_stats := (vs_stats w)\<lparr>direct_constraints := direct_constraints (vs_stats w) + 1\<rparr>\<rparr>"
  let ?v1 = "snd (function_usr a f ?c)"
  have ok: "stats_ok ?v1" if "stats_ok w"
  proof -
    have "stats_ok ?c" using stats_ok_counts(1) [OF that, of 1] by simp
    then show ?thesis by (simp add: stats_ok_def constrained_def)
  qed
  have rejected: "stats_ok (?v1\<lparr>vs_stats := (vs_stats ?v1)\<lparr>rejected_constraints := rejected_constraints (vs_stats ?v1) + 1\<rparr>\<rparr>)"
    if "stats_ok w"
    using stats_ok_counts(2) [OF that] by (simp add: stats_ok_def constrained_def)
  show ?thesis
    using assms ok rejected stats_ok_direct [of w ?v1 t "fst (function_usr a f ?c)"] caches_function_usr [of a ?c f]
    by (simp add: steady_def add_direct_constraint_def split_beta on_stats_def)
qed

lemma steady_copy [steady_intros]:
  assumes "steady a v w"
  shows "steady a v (add_copy_constraint a t s w)"
  using assms stats_ok_copy [where w = w and t = t and u = "decl_usr a s"] stats_ok_counts(3) [of w]
  by (simp add: steady_def add_copy_constraint_def on_stats_def Let_def)

lemma steady_collect [steady_intros]: "steady a v w \<Longrightarrow> steady a v (snd (collect_points_to_constraints a t e w))"
proof (induction e arbitrary: w)
  case (Conditional_Of e f)
  from Conditional_Of.IH(2) [OF Conditional_Of.IH(1) [OF Conditional_Of.prems]] show ?case by (simp add: split_beta)
qed (simp_all add: steady_intros split: option.split)

lemma steady_add_points_to [steady_intros]: "steady a v w \<Longrightarrow> steady a v (add_points_to_constraints a t e w)"
  using steady_collect [of a v w "decl_usr a t" e]
  by (simp add: add_points_to_constraints_def split_beta on_stats_def steady_stats stats_ok_counts)

lemma steady_visit_call [steady_intros]: "steady a v w \<Longrightarrow> steady a v (visit_call xxh3 a f pe loc w)"
proof (cases f)
  case None
  assume s: "steady a v w"
  have "steady a v (w\<lparr>vs_stats := (vs_stats w)\<lparr>indirect_callsites := Suc (indirect_callsites (vs_stats w))\<rparr>\<rparr>)"
    using s by (rule steady_stats) (rule stats_ok_counts(5))
  moreover have "steady a v (w\<lparr>vs_stats := (vs_stats w)\<lparr>indirect_callsites := Suc (indirect_callsites (vs_stats w)),
      identified_callsites := Suc (identified_callsites (vs_stats w))\<rparr>,
      vs_pointer_identities := insert u (vs_pointer_identities w)\<rparr>)" for u
    using s stats_ok_callsite [of w u] by (simp add: steady_def)
  ultimately show ?thesis
    using s None by (auto simp: visit_call_def Let_def on_stats_def split: option.split)
qed (simp add: visit_call_def steady_add_function_call)

lemma steady_anonymous_field: "steady a v w \<Longrightarrow> steady a v (add_anonymous_field a owner1 t w)"
proof (induction t arbitrary: w)
  case (Field_Tree d nested)
  have "steady a v w \<Longrightarrow> steady a v (fold (add_anonymous_field a owner1) ts w)" if "set ts \<subseteq> set nested" for ts w
    using that by (induction ts arbitrary: w) (auto intro: Field_Tree.IH)
  with Field_Tree.prems show ?case by (simp add: steady_intros)
qed

lemma steady_anonymous [steady_intros]: "steady a v w \<Longrightarrow> steady a v (add_anonymous_record_symbols a r name w)"
  by (auto simp: add_anonymous_record_symbols_def add_anonymous_record_fields_def Let_def steady_intros
      intro!: steady_fold steady_anonymous_field)

lemma steady_indirect [steady_intros]: "steady a v w \<Longrightarrow> steady a v (add_indirect_field a d w)"
  by (simp add: add_indirect_field_def split_beta steady_intros)

lemma steady_promoted [steady_intros]: "steady a v w \<Longrightarrow> steady a v (add_promoted_field_uses a f r loc w)"
  unfolding add_promoted_field_uses_def by (rule steady_fold) (simp_all add: steady_intros)

lemma steady_field_constraint: "steady a v w \<Longrightarrow> steady a v (add_field_constraint a fe w)"
  by (simp add: add_field_constraint_def steady_intros)

lemma steady_designator: "steady a v w \<Longrightarrow> steady a v (add_designator_uses a r x w)"
  by (auto simp: add_designator_uses_def Let_def steady_intros split: designator.split option.split)

lemma steady_var_references [steady_intros]: "steady a v w \<Longrightarrow> steady a v (var_references xxh3 a d w)"
  by (auto simp: var_references_def Let_def steady_intros split: option.split)

lemma steady_var_symbol [steady_intros]: "steady a v w \<Longrightarrow> steady a v (add_var_symbol a d w)"
  by (auto simp: add_var_symbol_def Let_def steady_intros split: option.split)

lemma steady_visit_var: "steady a v w \<Longrightarrow> steady a v (visit_var xxh3 a d w)"
  by (simp add: visit_var_def Let_def steady_intros)

lemma steady_visit_init_list: "steady a v w \<Longrightarrow> steady a v (visit_init_list a e s w)"
  by (auto simp: visit_init_list_def Let_def steady_intros intro!: steady_fold steady_field_constraint
      split: option.split list.split)

lemma steady_visit_function_decl: "steady a v w \<Longrightarrow> steady a v (visit_function_decl a d w)"
  by (simp add: visit_function_decl_def Let_def split_beta steady_intros)

lemma steady_visit_member: "steady a v w \<Longrightarrow> steady a v (visit_member a e d b w)"
  by (auto simp: visit_member_def Let_def steady_intros split: option.split)

lemma steady_visit_decl_ref: "steady a v w \<Longrightarrow> steady a v (visit_decl_ref a e d w)"
  by (auto simp: visit_decl_ref_def Let_def steady_intros split: option.split)

lemma steady_visits [steady_intros]:
  assumes "steady a v w"
  shows "steady a v (visit_binary a b l r w)" "steady a v (visit_field a d w)" "steady a v (visit_typedef a d w)"
    "steady a v (visit_typedef_loc a d loc w)" "steady a v (visit_record_loc a b d loc w)"
    "steady a v (visit_enum_loc a b e loc w)" "steady a v (visit_enum a d w)"
    "steady a v (visit_enum_constant a d w)"
    "steady a v (visit_construct xxh3 a f loc w)" "steady a v (visit_new a t loc w)" "steady a v (visit_delete a t loc w)"
    "steady a v (visit_designated a ds ps w)" "steady a v (visit_record a d w)"
  using assms
  by (auto simp: visit_binary_def visit_field_def visit_typedef_def visit_typedef_loc_def visit_record_loc_def
      visit_enum_loc_def visit_enum_def visit_enum_constant_def visit_construct_def visit_new_def
      visit_delete_def visit_designated_def visit_record_def Let_def steady_intros
      intro!: steady_fold steady_designator split: option.split)

text \<open>Leaving a function restores what entering it has changed.\<close>

lemma steady_run_visit: "steady a v w \<Longrightarrow> steady a v (run_visit xxh3 a t w)"
proof (induction t arbitrary: v w)
  case (Traverse_Function d vs)
  show ?case
  proof (cases d)
    case (Some f)
    let ?w1 = "enter_function xxh3 a f w"
    have "steady a u w' \<Longrightarrow> steady a u (fold (run_visit xxh3 a) ts w')" if "set ts \<subseteq> set vs" for ts u w'
      using that by (induction ts arbitrary: w') (auto intro: Traverse_Function.IH)
    then have "steady a ?w1 (fold (run_visit xxh3 a) vs ?w1)" by (simp add: steady_refl)
    moreover have "same_settings (vs_parser w) (vs_parser ?w1) \<and> vs_details ?w1 = vs_details w \<and>
        (caches_ok a w \<longrightarrow> caches_ok a ?w1) \<and> (stats_ok w \<longrightarrow> stats_ok ?w1)"
      using steady_function_usr [OF steady_refl, of a w f]
      by (simp add: enter_function_def split_beta steady_def)
    ultimately show ?thesis
      using Traverse_Function.prems Some
      by (simp add: steady_def leave_function_def same_settings_def)
  qed (use Traverse_Function.prems in simp)
qed (simp_all add: steady_intros steady_visit_var steady_visit_init_list steady_visit_function_decl steady_visit_member
    steady_visit_decl_ref)

section \<open>Invariants of the parser\<close>

definition is_function_call :: "parsed_use \<Rightarrow> bool" where
  "is_function_call u \<longleftrightarrow> pu_kind u = USE_CALL \<and> (pu_symbol_kind u = SYMBOL_FUNCTION \<or> pu_symbol_kind u = SYMBOL_LAMBDA)"

text \<open>
  A property of the parser that survives the additions of the visitor but those of calls: what is local is
  only added when the parser is to include it.
\<close>

locale visitor_client =
  fixes Q :: "parser \<Rightarrow> bool"
  assumes use: "Q p \<Longrightarrow> (pu_local u \<longrightarrow> px_include_local p) \<Longrightarrow> \<not> is_function_call u \<Longrightarrow> Q (locate_use sm u at scope p)"
    and symbol: "Q p \<Longrightarrow> (ps_local s \<longrightarrow> px_include_local p) \<Longrightarrow> Q (locate_symbol sm s displayed at scope p)"
    and signature: "Q p \<Longrightarrow> Q (locate_signature sm g at scope p)"

lemma vs_parser_simps [simp]:
  "vs_parser (on_parser f v) = f (vs_parser v)" "vs_parser (on_stats g v) = vs_parser v"
  "vs_parser (snd (get_value_info a d v)) = vs_parser v" "vs_parser (snd (function_usr a d v)) = vs_parser v"
  by (auto simp: on_parser_def on_stats_def get_value_info_def function_usr_def Let_def split: option.split)

lemma vs_parser_constraints [simp]:
  "vs_parser (add_direct_constraint a t f v) = vs_parser v" "vs_parser (add_copy_constraint a t s v) = vs_parser v"
  by (simp_all add: add_direct_constraint_def add_copy_constraint_def Let_def split_beta)

lemma vs_parser_collect [simp]: "vs_parser (snd (collect_points_to_constraints a t e v)) = vs_parser v"
  by (induction e arbitrary: v) (simp_all add: split_beta split: option.split)

lemma vs_parser_points_to [simp]: "vs_parser (add_points_to_constraints a t e v) = vs_parser v"
  by (simp add: add_points_to_constraints_def split_beta)

lemma value_infos_are_computed: "caches_ok a v \<Longrightarrow> fst (get_value_info a d v) = value_info_of a (vs_details v) (primary_value_decl a d)"
  unfolding caches_ok_def
  by (drule conjunct1, drule spec [of _ "primary_value_decl a d"]) (auto simp: get_value_info_def Let_def)

lemma function_usrs_are_computed: "caches_ok a v \<Longrightarrow> fst (function_usr a d v) = decl_usr a (canonical_function a d)"
  unfolding caches_ok_def
  by (drule conjunct2, drule spec [of _ "canonical_function a d"]) (auto simp: function_usr_def Let_def)

lemma primary_field: "is_field a d \<Longrightarrow> is_field a (primary_value_decl a d)"
  by (auto simp: primary_value_decl_def primary_member_def is_field_def is_method_def find_Some_iff
      split: option.split)

lemma value_kind:
  assumes "\<not> is_function a d"
  shows "symbol_kind_for_decl a (primary_value_decl a d) \<noteq> SYMBOL_FUNCTION"
    "symbol_kind_for_decl a (primary_value_decl a d) \<noteq> SYMBOL_LAMBDA"
proof -
  have "primary_value_decl a d = d" if "\<not> is_field a d"
    using assms that by (simp add: primary_value_decl_def is_method_def is_function_def)
  then show "symbol_kind_for_decl a (primary_value_decl a d) \<noteq> SYMBOL_FUNCTION"
    "symbol_kind_for_decl a (primary_value_decl a d) \<noteq> SYMBOL_LAMBDA"
    using primary_field [of a d] assms by (cases "is_field a d"; simp add: symbol_kind_for_decl_def)+
qed

lemma classify_parents_call: "classify_parents n ps \<noteq> USE_CALL"
  by (induction n ps rule: classify_parents.induct) (auto split: parent_node.split)

lemma classify_use_call [simp]: "classify_use e \<noteq> USE_CALL"
  by (simp add: classify_use_def classify_parents_call)

text \<open>A symbol of the current function is included.\<close>

definition local_allowed :: "visitor \<Rightarrow> bool" where
  "local_allowed v \<longleftrightarrow> (vs_function v \<noteq> [] \<longrightarrow> px_include_local (vs_parser v))"

lemma local_allowed_steady: "local_allowed v \<Longrightarrow> steady a v w \<Longrightarrow> local_allowed w"
  by (simp add: local_allowed_def steadyD)

context visitor_client
begin

definition good :: "ast \<Rightarrow> visitor \<Rightarrow> bool" where
  "good a v \<longleftrightarrow> Q (vs_parser v) \<and> caches_ok a v"

lemma goodI: "Q (vs_parser w) \<Longrightarrow> good a v \<Longrightarrow> steady a v w \<Longrightarrow> good a w"
  by (simp add: good_def steady_def)

lemma good_same: "good a v \<Longrightarrow> steady a v w \<Longrightarrow> vs_parser w = vs_parser v \<Longrightarrow> good a w"
  by (simp add: good_def steady_def)

lemma good_fold: "(\<And>x w. good a w \<Longrightarrow> good a (f x w)) \<Longrightarrow> good a w \<Longrightarrow> good a (fold f xs w)"
  by (induction xs arbitrary: w) simp_all

lemma good_value_use:
  assumes "good a v" "kind \<noteq> USE_CALL \<or> \<not> is_function a d" "l \<longrightarrow> px_include_local (vs_parser v)"
  shows "good a (add_value_use a d kind mode c loc l v)"
proof (rule goodI [OF _ assms(1)])
  have "\<not> is_function_call (value_use (fst (get_value_info a d v)) kind mode c l)"
    using assms(1,2) value_kind [of a d]
    by (auto simp: good_def is_function_call_def value_use_def value_infos_are_computed value_info_of_def)
  then show "Q (vs_parser (add_value_use a d kind mode c loc l v))"
    using assms(1,3) by (simp add: add_value_use_def Let_def split_beta good_def use value_use_def)
qed (simp add: steady_intros)

lemma good_located_use:
  assumes "good a v" "\<not> is_function_call u" "pu_local u \<longrightarrow> px_include_local (vs_parser v)"
  shows "good a (on_parser (locate_use sm u at scope) v)"
  using assms by (intro goodI [OF _ assms(1)]) (simp_all add: good_def use steady_intros)

lemma good_located_symbol:
  assumes "good a v" "ps_local s \<longrightarrow> px_include_local (vs_parser v)"
  shows "good a (add_located_symbol b s displayed at scope v)"
  using assms by (intro goodI [OF _ assms(1)]) (simp_all add: good_def symbol steady_intros, simp add: add_located_symbol_def symbol)

lemma good_type_use:
  assumes "good a v"
  shows "good a (add_type_use a d kind loc t v)"
proof -
  have "good a (v\<lparr>vs_type_uses := x\<rparr>)" for x using assms by (rule good_same) (simp_all add: steady_intros)
  then show ?thesis
    using assms by (auto simp: add_type_use_def Let_def type_use_def is_function_call_def intro!: good_located_use)
qed

lemma good_alias_use: "good a v \<Longrightarrow> good a (add_alias_use a d v)"
  by (auto simp: add_alias_use_def intro: good_value_use split: option.split)

lemma good_points_to: "good a v \<Longrightarrow> good a (add_points_to_constraints a t e v)"
  by (rule good_same [of a v]) (simp_all add: steady_intros)

lemma good_anonymous_field: "good a v \<Longrightarrow> good a (add_anonymous_field a owner1 t v)"
proof (induction t arbitrary: v)
  case (Field_Tree d nested)
  have fold: "good a v \<Longrightarrow> good a (fold (add_anonymous_field a owner1) ts v)" if "set ts \<subseteq> set nested" for ts v
    using that by (induction ts arbitrary: v) (auto intro: Field_Tree.IH)
  have "\<not> ps_local (anonymous_field_symbol a d owner1)"
    by (auto simp: anonymous_field_symbol_def set_symbol_type_identity_def typed_symbol_def plain_symbol_of_def Let_def
        split: option.split prod.split)
  with Field_Tree.prems fold show ?case by (auto intro!: good_located_symbol)
qed

lemma good_anonymous:
  assumes "good a v" "local_allowed v"
  shows "good a (add_anonymous_record_symbols a r name v)"
  using assms
  by (auto simp: add_anonymous_record_symbols_def add_anonymous_record_fields_def Let_def local_allowed_def
      plain_symbol_of_def intro!: good_fold good_anonymous_field good_located_symbol)

lemma good_indirect: "good a v \<Longrightarrow> good a (add_indirect_field a d v)"
  unfolding add_indirect_field_def split_beta
  by (rule good_located_symbol, rule good_same) (auto simp: plain_symbol_of_def steady_intros)

lemma good_promoted: "good a v \<Longrightarrow> good a (add_promoted_field_uses a f r loc v)"
  unfolding add_promoted_field_uses_def by (rule good_fold) (auto intro: good_value_use)

lemma good_designator: "good a v \<Longrightarrow> good a (add_designator_uses a r x v)"
  by (auto simp: add_designator_uses_def Let_def intro!: good_promoted good_value_use split: designator.split option.split)

lemma good_var_symbol:
  assumes "good a v" "local_allowed v"
  shows "good a (add_var_symbol a d v)"
proof -
  let ?v1 = "\<lambda>anonymous. case anonymous of Some r \<Rightarrow> add_anonymous_record_symbols a r (anonymous_record_name_for_var a d) v | None \<Rightarrow> v"
  have one: "good a (?v1 x) \<and> local_allowed (?v1 x)" for x
    using assms by (auto intro: good_anonymous local_allowed_steady [OF assms(2)] steady_intros split: option.split)
  let ?s = "\<lambda>type1 w. (typed_symbol a SYMBOL_VAR (decl_name a d) (decl_usr a d) type1 (vn_type (at_value a d)))
      \<lparr>ps_context := vs_function w, ps_local := vs_function w \<noteq> []\<rparr>"
  have two: "good a (add_located_symbol a (?s type1 w) False at at w) \<and> local_allowed (add_located_symbol a (?s type1 w) False at at w)"
    if "good a w \<and> local_allowed w" for w type1 at
    using that local_allowed_steady [OF _ steady_locate(3) [OF steady_refl], of w]
    by (auto intro!: good_located_symbol) (simp_all add: local_allowed_def)
  have three: "good a (on_parser (locate_use sm (init_use a d type1 w) at at) w)" if "good a w \<and> local_allowed w" for w type1 at sm
    using that by (intro good_located_use) (auto simp: init_use_def is_function_call_def local_allowed_def)
  show ?thesis unfolding add_var_symbol_def Let_def using two [OF one] three [OF two [OF one]] by simp
qed

lemma good_field_constraint: "good a v \<Longrightarrow> good a (add_field_constraint a fe v)"
  by (simp add: add_field_constraint_def good_points_to)

lemma good_init_list: "good a v \<Longrightarrow> good a (visit_init_list a e s v)"
proof -
  assume good: "good a v"
  then have "good a (v\<lparr>vs_init_lists := x\<rparr>)" for x by (rule good_same) (simp_all add: steady_intros)
  with good show ?thesis
    by (auto simp: visit_init_list_def Let_def intro!: good_fold good_field_constraint split: option.split list.split)
qed

lemma good_function: "good a v \<Longrightarrow> good a (visit_function_decl a d v)"
proof -
  assume "good a v"
  then have aliased: "good a (add_alias_use a d v)" by (rule good_alias_use)
  have usr: "good a (snd (function_usr a d (w\<lparr>vs_function_symbols := x\<rparr>)))" if "good a w" for w x
    using that by (rule good_same) (simp_all add: steady_intros)
  have added: "good a (on_parser (locate_signature sm g at scope) w)" if "good a w" for w sm g at scope
    using that by (intro goodI [OF _ that]) (simp_all add: good_def signature steady_intros)
  have "\<not> ps_local ((typed_symbol a k n u t1 t)\<lparr>ps_owner := owner1, ps_definition := b, ps_properties := ps\<rparr>)"
    for k n u t1 t owner1 b ps
    by (simp add: typed_symbol_def plain_symbol_of_def)
  then show ?thesis
    using aliased by (simp add: visit_function_decl_def Let_def split_beta added usr good_located_symbol)
qed

lemma good_typedef: "good a v \<Longrightarrow> good a (visit_typedef a d v)"
proof -
  assume good: "good a v"
  let ?v1 = "\<lambda>r. add_anonymous_record_symbols a r (anonymous_record_name_for_typedef a d) v"
  have one: "good a (?v1 r) \<and> local_allowed (?v1 r)" if "local_allowed v" for r
    using good that by (auto intro: good_anonymous local_allowed_steady [OF that] steady_intros)
  show ?thesis
  proof (cases "skips_local v")
    case False
    then have "local_allowed v" by (auto simp: skips_local_def local_allowed_def)
    then show ?thesis
      using good one by (auto simp: visit_typedef_def Let_def local_allowed_def intro!: good_located_symbol split: option.split)
  qed (use good in \<open>simp add: visit_typedef_def Let_def\<close>)
qed

lemma good_member: "good a v \<Longrightarrow> good a (visit_member a e d b v)"
  by (auto simp: visit_member_def Let_def intro!: good_value_use split: option.split)

lemma good_decl_ref:
  assumes "good a v"
  shows "good a (visit_decl_ref a e d v)"
proof (cases d)
  case (Some f)
  let ?l = "vs_function v \<noteq> [] \<and> \<not> vn_external (at_value a f)"
  let ?v1 = "add_value_use a f (classify_use e) (access_mode_for_use (classify_use e) e) (vs_function v) (ve_loc e) ?l v"
  have s: "steady a v ?v1" by (simp add: steady_intros)
  have "good a ?v1" if "?l \<longrightarrow> px_include_local (vs_parser v)" using assms that by (auto intro: good_value_use)
  then show ?thesis
    using assms s by (auto simp: visit_decl_ref_def Let_def Some steadyD(6) intro!: good_value_use)
qed (use assms in \<open>simp add: visit_decl_ref_def\<close>)

lemma good_visits:
  assumes "good a v"
  shows "good a (visit_binary a b l r v)" "good a (visit_field a d v)"
    "good a (visit_typedef_loc a d loc v)" "good a (visit_record_loc a b d loc v)"
    "good a (visit_enum_loc a b e loc v)" "good a (visit_enum a d v)"
    "good a (visit_enum_constant a d v)" "good a (visit_new a t loc v)" "good a (visit_delete a t loc v)"
    "good a (visit_designated a ds ps v)" "good a (visit_record a d v)"
  using assms
  by (auto simp: visit_binary_def visit_field_def visit_typedef_loc_def visit_record_loc_def
      visit_enum_loc_def visit_enum_def visit_enum_constant_def visit_new_def
      visit_delete_def visit_designated_def visit_record_def Let_def typed_symbol_def plain_symbol_of_def
      set_symbol_type_identity_def
      intro!: good_fold good_designator good_points_to good_located_symbol good_type_use good_indirect split: option.split prod.split)

end

locale caller_client = visitor_client Q for Q :: "parser \<Rightarrow> bool" +
  assumes call: "Q p \<Longrightarrow> is_function_call u \<Longrightarrow> \<not> pu_local u \<Longrightarrow> Q (locate_use sm u at scope p)"
    and stats: "Q p \<Longrightarrow> Q (set_points_to_stats st p)"
    and data: "Q p \<Longrightarrow> Q (p\<lparr>px_has_data := True\<rparr>)"
begin

lemma good_function_call: "good a v \<Longrightarrow> good a (add_function_call xxh3 a f loc v)"
proof -
  assume good: "good a v"
  have added: "good a (on_parser (locate_use sm (function_call_use xxh3 k n ow t u x) at scope) w)"
    if "good a w" "k = SYMBOL_FUNCTION \<or> k = SYMBOL_LAMBDA" for w sm k n ow t u x at scope
    using that by (intro goodI [OF _ that(1)]) (auto simp: good_def call is_function_call_def function_call_use_def steady_intros)
  have "good a (snd (function_usr a d (snd (get_value_info a d v))))" for d
    using good by (rule good_same) (simp_all add: steady_intros)
  with good show ?thesis by (auto simp: add_function_call_def split_beta intro!: added split: option.split)
qed

lemma good_var: "good a v \<Longrightarrow> good a (visit_var xxh3 a d v)"
proof -
  assume "good a v"
  then have "good a (var_references xxh3 a d v)"
    by (auto simp: var_references_def Let_def intro!: good_function_call good_points_to good_alias_use split: option.split)
  then show ?thesis by (auto simp: visit_var_def Let_def skips_local_def local_allowed_def intro!: good_var_symbol)
qed

lemma good_call_visits:
  assumes "good a v"
  shows "good a (visit_call xxh3 a f e loc v)" "good a (visit_construct xxh3 a f loc v)"
proof -
  have "good a (v\<lparr>vs_stats := x\<rparr>)" "good a (v\<lparr>vs_stats := x, vs_pointer_identities := y\<rparr>)" for x y
    using assms by (auto simp: good_def)
  with assms show "good a (visit_call xxh3 a f e loc v)" "good a (visit_construct xxh3 a f loc v)"
    by (auto simp: visit_call_def visit_construct_def Let_def on_stats_def intro!: good_function_call split: option.split)
qed

lemma good_run_visit: "good a v \<Longrightarrow> good a (run_visit xxh3 a t v)"
proof (induction t arbitrary: v)
  case (Traverse_Function d vs)
  have fold: "good a v \<Longrightarrow> good a (fold (run_visit xxh3 a) ts v)" if "set ts \<subseteq> set vs" for ts v
    using that by (induction ts arbitrary: v) (auto intro: Traverse_Function.IH)
  show ?case
  proof (cases d)
    case (Some f)
    have "good a (snd (function_usr a f v))" using Traverse_Function.prems by (rule good_same) (simp_all add: steady_intros)
    then have "good a (enter_function xxh3 a f v)"
      using Traverse_Function.prems by (simp add: enter_function_def good_def split_beta)
    from fold [OF order_refl this] show ?thesis by (simp add: Some leave_function_def good_def)
  qed (use Traverse_Function.prems in simp)
qed (simp_all add: good_var good_init_list good_typedef good_member good_decl_ref good_function good_visits good_call_visits)

lemma kept: "Q p \<Longrightarrow> Q (handle_translation_unit xxh3 a vs p)"
proof -
  assume "Q p"
  then have "good a (new_visitor (p\<lparr>px_has_data := True\<rparr>))" by (simp add: good_def new_visitor_def caches_ok_def data)
  then have "good a (fold (run_visit xxh3 a) vs (new_visitor (p\<lparr>px_has_data := True\<rparr>)))"
    by (rule good_fold [rotated]) (rule good_run_visit)
  then show ?thesis
    by (simp add: handle_translation_unit_def finish_points_to_stats_def good_def stats Let_def)
qed

end

section \<open>Locality\<close>

text \<open>Local declarations are not to be included, and nothing that is recorded is local.\<close>

definition no_locals :: "parser \<Rightarrow> bool" where
  "no_locals p \<longleftrightarrow> \<not> px_include_local p \<and> list_all (\<lambda>s. \<not> ps_local s) (px_symbols p) \<and> list_all (\<lambda>u. \<not> pu_local u) (px_uses p)"

lemma no_locals_locate:
  assumes "no_locals p"
  shows "(pu_local u \<longrightarrow> px_include_local p) \<Longrightarrow> no_locals (locate_use sm u at scope p)"
    and "(ps_local s \<longrightarrow> px_include_local p) \<Longrightarrow> no_locals (locate_symbol sm s displayed at scope p)"
    and "no_locals (locate_signature sm g at scope p)"
  using assms
  by (auto simp: no_locals_def locate_use_def locate_symbol_def locate_signature_def index_location_def
      display_location_def intern_file_def add_use_in_scope_def add_use_def add_symbol_in_scope_def add_symbol_def
      add_function_signature_in_scope_def split: prod.split)

lemma no_locals_other: "no_locals (set_points_to_stats st p) = no_locals p" "no_locals (p\<lparr>px_has_data := True\<rparr>) = no_locals p"
  by (simp_all add: no_locals_def set_points_to_stats_def)

interpretation locality: caller_client no_locals
  by unfold_locales (simp_all add: no_locals_locate no_locals_other)

section \<open>Calls\<close>

text \<open>A call has the name and identity of the callee and of the function that it is in.\<close>

type_synonym call_site = "(string \<times> string) \<times> (string \<times> string)"

definition call_site :: "parsed_use \<Rightarrow> call_site" where
  "call_site u = ((pu_name u, pu_usr u), (pu_context u, pu_context_usr u))"

definition function_calls :: "parser \<Rightarrow> call_site list" where
  "function_calls p = map call_site (filter is_function_call (px_uses p))"

definition calls_are :: "call_site list \<Rightarrow> parser \<Rightarrow> bool" where
  "calls_are cs p \<longleftrightarrow> function_calls p = cs"

lemma function_calls_locate:
  "function_calls (locate_use sm u at scope p) =
     function_calls p @ (if is_function_call u \<and> in_scope sm p scope then [call_site u] else [])"
  "function_calls (locate_symbol sm s displayed at scope p) = function_calls p"
  "function_calls (locate_signature sm g at scope p) = function_calls p"
  by (auto simp: function_calls_def locate_use_def locate_symbol_def locate_signature_def index_location_def
      display_location_def intern_file_def add_use_in_scope_def add_use_def add_symbol_in_scope_def add_symbol_def
      add_function_signature_in_scope_def in_scope_def is_function_call_def call_site_def split: prod.split)

interpretation calls: visitor_client "calls_are cs" for cs
  by unfold_locales (simp_all add: calls_are_def function_calls_locate)

definition call_target :: "ast \<Rightarrow> decl \<Rightarrow> string \<times> string" where
  "call_target a d =
     (case (if is_method a d then lambda_closure_for a d else None) of
        Some closure \<Rightarrow> (''__lambda'', decl_usr a closure)
      | None \<Rightarrow> (decl_name a (primary_value_decl a d), decl_usr a (canonical_function a d)))"

definition call_at :: "ast \<Rightarrow> scope \<Rightarrow> string \<times> string \<Rightarrow> decl option \<Rightarrow> location \<Rightarrow> call_site list" where
  "call_at a scope inside f loc =
     (case f of
        None \<Rightarrow> []
      | Some d \<Rightarrow> if loc = 0 \<or> \<not> loc_in_scope (at_sources a) scope loc then [] else [(call_target a d, inside)])"

text \<open>The calls of a traversal, read off it: each with the innermost function around it.\<close>

fun calls_in :: "ast \<Rightarrow> scope \<Rightarrow> string \<times> string \<Rightarrow> visit \<Rightarrow> call_site list" where
  "calls_in a scope inside (Traverse_Function (Some d) vs) =
     concat (map (calls_in a scope
       (decl_name a d, if fn_has_body (at_function a d) then decl_usr a (canonical_function a d) else [])) vs)"
| "calls_in a scope inside (Visit_Var d) =
     (case vn_cleanup (at_value a d) of
        None \<Rightarrow> []
      | Some cleanup \<Rightarrow> call_at a scope inside (cu_function cleanup) (cleanup_location a d cleanup))"
| "calls_in a scope inside (Visit_Call f e loc) = call_at a scope inside f (sm_spelling (at_sources a) loc)"
| "calls_in a scope inside (Visit_Construct f loc) = call_at a scope inside f (sm_spelling (at_sources a) loc)"
| "calls_in a scope inside _ = []"

definition around :: "visitor \<Rightarrow> string \<times> string" where
  "around v = (vs_function v, vs_function_usr v)"

lemma add_function_call_calls:
  assumes "caches_ok a v"
  shows "function_calls (vs_parser (add_function_call xxh3 a f loc v)) =
    function_calls (vs_parser v) @ call_at a (px_scope (vs_parser v)) (around v) f loc"
proof (cases f)
  case (Some d)
  let ?v1 = "snd (get_value_info a d v)"
  let ?v2 = "snd (function_usr a d ?v1)"
  have s1: "steady a v ?v1" and s2: "steady a v ?v2" by (simp_all add: steady_intros)
  have usr: "fst (function_usr a d ?v1) = decl_usr a (canonical_function a d)"
    using function_usrs_are_computed steadyD(8) [OF s1 assms] by blast
  have name: "vi_name (fst (get_value_info a d v)) = decl_name a (primary_value_decl a d)"
    using value_infos_are_computed [OF assms, of d] by (simp add: value_info_of_def)
  show ?thesis
    using steadyD [OF s2]
    by (cases "if is_method a d then lambda_closure_for a d else None")
      (auto simp: Some add_function_call_def split_beta function_calls_locate call_at_def call_target_def in_scope_def
        is_function_call_def function_call_use_def call_site_def around_def usr name)
qed (simp add: add_function_call_def call_at_def)

text \<open>Every node but those of calls adds no call.\<close>

lemma good_calls_iff: "calls.good cs a v \<longleftrightarrow> function_calls (vs_parser v) = cs \<and> caches_ok a v"
  by (simp add: calls.good_def calls_are_def)

lemmas no_calls = calls.good_visits calls.good_init_list calls.good_typedef calls.good_member calls.good_decl_ref
  calls.good_function calls.good_points_to calls.good_alias_use calls.good_var_symbol

lemmas no_calls_added = no_calls [unfolded good_calls_iff, OF conjI [OF refl], THEN conjunct1]

lemma visit_var_calls:
  assumes "caches_ok a v"
  shows "function_calls (vs_parser (visit_var xxh3 a d v)) =
    function_calls (vs_parser v) @ calls_in a (px_scope (vs_parser v)) (around v) (Visit_Var d)"
proof -
  let ?v1 = "add_alias_use a d v"
  let ?v2 = "case vn_init (at_value a d) of
      Some e \<Rightarrow> if px_points_to (vs_parser ?v1) \<and> is_function_pointer a (vn_type (at_value a d))
        then add_points_to_constraints a d e ?v1 else ?v1
    | None \<Rightarrow> ?v1"
  have s: "steady a v ?v1" "steady a v ?v2" by (auto simp: steady_intros split: option.split)
  have two: "function_calls (vs_parser ?v2) = function_calls (vs_parser v)"
    using no_calls_added assms steadyD(8) [OF s(1) assms] by (auto split: option.split)
  have "around ?v2 = around v" "px_scope (vs_parser ?v2) = px_scope (vs_parser v)"
    using steadyD [OF s(2)] by (simp_all add: around_def)
  then have three: "function_calls (vs_parser (var_references xxh3 a d v)) =
      function_calls (vs_parser v) @ calls_in a (px_scope (vs_parser v)) (around v) (Visit_Var d)"
    using two add_function_call_calls [OF steadyD(8) [OF s(2) assms]]
    by (cases "vn_cleanup (at_value a d)") (simp_all add: var_references_def Let_def)
  have "caches_ok a (var_references xxh3 a d v)"
    by (rule steadyD(8) [OF _ assms]) (simp add: steady_intros)
  then have "function_calls (vs_parser (add_var_symbol a d (var_references xxh3 a d v))) =
      function_calls (vs_parser (var_references xxh3 a d v))" if "\<not> skips_local (var_references xxh3 a d v)"
    using that by (intro no_calls_added) (auto simp: skips_local_def local_allowed_def)
  then show ?thesis using three by (simp add: visit_var_def Let_def)
qed

lemma run_visit_calls:
  "caches_ok a v \<Longrightarrow> function_calls (vs_parser (run_visit xxh3 a t v)) =
     function_calls (vs_parser v) @ calls_in a (px_scope (vs_parser v)) (around v) t"
proof (induction t arbitrary: v)
  case (Traverse_Function d vs)
  have fold: "function_calls (vs_parser (fold (run_visit xxh3 a) ts v)) =
      function_calls (vs_parser v) @ concat (map (calls_in a (px_scope (vs_parser v)) (around v)) ts)"
    if "set ts \<subseteq> set vs" "caches_ok a v" for ts v
    using that
  proof (induction ts arbitrary: v)
    case (Cons t ts)
    have s: "steady a v (run_visit xxh3 a t v)" by (rule steady_run_visit) (rule steady_refl)
    from Cons.prems Cons.IH [of "run_visit xxh3 a t v"] Traverse_Function.IH [of t v] steadyD [OF s]
    show ?case by (simp add: around_def)
  qed simp
  show ?case
  proof (cases d)
    case (Some f)
    let ?w = "enter_function xxh3 a f v"
    have s: "steady a v (snd (function_usr a f v))" by (simp add: steady_intros)
    have "caches_ok a ?w" "px_scope (vs_parser ?w) = px_scope (vs_parser v)" "function_calls (vs_parser ?w) = function_calls (vs_parser v)"
      using Traverse_Function.prems steadyD [OF s] by (simp_all add: enter_function_def split_beta)
    moreover have "around ?w = (decl_name a f, if fn_has_body (at_function a f) then decl_usr a (canonical_function a f) else [])"
      using function_usrs_are_computed [OF Traverse_Function.prems, of f] by (simp add: around_def enter_function_def split_beta)
    ultimately show ?thesis using fold [OF order_refl, of ?w] by (simp add: Some leave_function_def)
  qed simp
next
  case (Visit_Call f e loc)
  show ?case
  proof (cases f)
    case (Some d)
    with add_function_call_calls [OF Visit_Call] show ?thesis by (simp add: visit_call_def)
  qed (simp add: visit_call_def call_at_def Let_def split: option.split)
next
  case (Visit_Construct f loc)
  with add_function_call_calls [OF Visit_Construct] show ?case
    by (cases f) (simp_all add: visit_construct_def call_at_def)
next
  case (Visit_Var d)
  then show ?case using visit_var_calls by simp
qed (simp_all add: no_calls_added)

lemma traversal_calls:
  "caches_ok a v \<Longrightarrow> function_calls (vs_parser (fold (run_visit xxh3 a) ts v)) =
     function_calls (vs_parser v) @ concat (map (calls_in a (px_scope (vs_parser v)) (around v)) ts)"
proof (induction ts arbitrary: v)
  case (Cons t ts)
  have s: "steady a v (run_visit xxh3 a t v)" by (rule steady_run_visit) (rule steady_refl)
  from Cons.prems Cons.IH [of "run_visit xxh3 a t v"] run_visit_calls [of a v] steadyD [OF s]
  show ?case by (simp add: around_def)
qed simp

text \<open>
  C7. The calls recorded for a translation unit are those of its traversal that are in scope, in their
  order: each names the function called, a lambda by its closure and a member of a template by that of
  the primary template, and the innermost function around it, with its identity if it has a body.
  The caches of names and identities do not show.
\<close>

theorem calls_recorded:
  "function_calls (handle_translation_unit xxh3 a vs p) =
     function_calls p @ concat (map (calls_in a (px_scope p) ([], [])) vs)"
  using traversal_calls [of a "new_visitor (p\<lparr>px_has_data := True\<rparr>)" xxh3 vs]
  by (simp add: handle_translation_unit_def finish_points_to_stats_def Let_def new_visitor_def caches_ok_def around_def
      function_calls_def set_points_to_stats_def)

section \<open>The statistics of the analysis of pointers\<close>

lemma card_split: "finite P \<Longrightarrow> C \<subseteq> P \<Longrightarrow> card P = card C + card (P - C)"
  using card_Un_disjoint [of C "P - C"] by (simp add: finite_subset Un_absorb1)

lemma traversal_stats: "stats_ok v \<Longrightarrow> stats_ok (fold (run_visit xxh3 a) ts v)"
proof (induction ts arbitrary: v)
  case (Cons t ts)
  have "steady a v (run_visit xxh3 a t v)" by (rule steady_run_visit) (rule steady_refl)
  with Cons show ?case by (simp add: steadyD(9))
qed simp

text \<open>
  C9. With the analysis of pointers the statistics are consistent: every constraint is rejected or one of
  the distinct ones or repeats one, at most the indirect calls are identified, functions are only those
  of direct constraints, and pointers only those of constraints and identified calls.
\<close>

theorem points_to_stats_consistent:
  assumes "px_points_to p" and "st = px_stats (handle_translation_unit xxh3 a vs p)"
  shows "unique_direct_constraints st \<le> direct_constraints st \<and> unique_copy_constraints st \<le> copy_constraints st \<and>
    unique_direct_constraints st + unique_copy_constraints st + rejected_constraints st \<le>
      direct_constraints st + copy_constraints st \<and>
    identified_callsites st \<le> indirect_callsites st \<and> function_identities st \<le> unique_direct_constraints st \<and>
    pointer_identities st \<le> unique_direct_constraints st + 2 * unique_copy_constraints st + identified_callsites st"
proof -
  let ?start = "new_visitor (p\<lparr>px_has_data := True\<rparr>)"
  let ?v = "fold (run_visit xxh3 a) vs ?start"
  have "stats_ok ?start" by (simp add: new_visitor_def stats_ok_def constrained_def no_stats_def)
  then have ok: "stats_ok ?v" by (rule traversal_stats)
  have "steady a ?start ?v" by (rule steady_fold) (auto intro: steady_run_visit steady_refl)
  then have "px_points_to (vs_parser ?v)" using assms(1) by (simp add: steadyD(7) new_visitor_def)
  then have st: "st = (vs_stats ?v)\<lparr>unique_direct_constraints := card (vs_direct_constraints ?v),
      unique_copy_constraints := card (vs_copy_constraints ?v), pointer_identities := card (vs_pointer_identities ?v),
      function_identities := card (vs_function_identities ?v)\<rparr>"
    by (simp add: assms(2) handle_translation_unit_def finish_points_to_stats_def Let_def on_parser_def on_stats_def
        set_points_to_stats_def)
  let ?D = "vs_direct_constraints ?v" and ?K = "vs_copy_constraints ?v" and ?P = "vs_pointer_identities ?v"
  have fin: "finite ?D" "finite ?K" "finite ?P" using ok by (simp_all add: stats_ok_def)
  have "card (vs_function_identities ?v) \<le> card ?D" using ok fin by (simp add: stats_ok_def card_image_le)
  moreover have "card ?P \<le> card ?D + 2 * card ?K + identified_callsites (vs_stats ?v)"
  proof -
    have "card (constrained ?v) \<le> card (fst ` ?D) + card (fst ` ?K) + card (snd ` ?K)"
      unfolding constrained_def by (rule order_trans [OF card_Un_le]) (simp add: card_Un_le)
    also have "\<dots> \<le> card ?D + card ?K + card ?K" by (intro add_mono card_image_le fin)
    finally have "card (constrained ?v) \<le> card ?D + 2 * card ?K" by simp
    moreover have "card ?P = card (constrained ?v) + card (?P - constrained ?v)"
      by (rule card_split) (use ok in \<open>simp_all add: stats_ok_def\<close>)
    ultimately show ?thesis using ok by (simp add: stats_ok_def)
  qed
  ultimately show ?thesis using ok by (simp add: st stats_ok_def)
qed

end
