(* ===== verification/Fingerprint_Meaning.thy ===== *)
theory Fingerprint_Meaning
  imports Fingerprints Index_Spec
begin

text \<open>
  What a fingerprint stands for: the values hashed for a file determine the facts that a store
  records of it. This is the assumption on the parser under which the store may skip a file.
\<close>

section \<open>The bytes determine the values\<close>

fun value_bytes :: "hashed \<Rightarrow> bytes" where
  "value_bytes (Hash_Int v) = word_bytes v"
| "value_bytes (Hash_Str v) = word_bytes (word_of_nat (length (or_empty v))) @ text_bytes (or_empty v)"

definition values_bytes :: "hashed list \<Rightarrow> bytes" where
  "values_bytes vs = concat (map value_bytes vs)"

lemma values_bytes_simps [simp]:
  "values_bytes [] = []" "values_bytes (v # vs) = value_bytes v @ values_bytes vs"
  "values_bytes (vs @ ws) = values_bytes vs @ values_bytes ws"
  by (simp_all add: values_bytes_def)

lemma hash_value_bytes: "hash_value v h = h @ value_bytes v"
  by (cases v) (simp_all add: hash_integer_def hash_string_def)

lemma hash_values_bytes: "hash_values h vs = h @ values_bytes vs"
  by (induction vs arbitrary: h) (simp_all add: hash_values_def hash_value_bytes)

lemma length_word_bytes [simp]: "length (word_bytes v) = 8"
  by (simp add: word_bytes_def)

lemma word_bytes_inject: "word_bytes v = word_bytes w \<longleftrightarrow> v = w"
proof
  assume eq: "word_bytes v = word_bytes w"
  show "v = w"
  proof (rule bit_word_eqI)
    fix n assume "n < LENGTH(64)"
    then have n: "n div 8 < 8" by auto
    from arg_cong [OF eq, of "\<lambda>xs. xs ! (n div 8)"] n
    have "(ucast (drop_bit (8 * (n div 8)) v) :: 8 word) = ucast (drop_bit (8 * (n div 8)) w)"
      by (simp add: word_bytes_def)
    from arg_cong [OF this, of "\<lambda>x. bit x (n mod 8)"]
    have "bit v (8 * (n div 8) + n mod 8) = bit w (8 * (n div 8) + n mod 8)"
      by (simp add: bit_simps)
    then show "bit v n = bit w n" by simp
  qed
qed simp

lemma text_bytes_inject: "text_bytes s = text_bytes t \<longleftrightarrow> s = t"
proof -
  have "inj (\<lambda>c. word_of_nat (of_char c) :: 8 word)"
  proof (rule injI)
    fix c d :: char
    assume "(word_of_nat (of_char c) :: 8 word) = word_of_nat (of_char d)"
    then have "(of_char c :: nat) mod 256 = of_char d mod 256"
      by (simp add: word_of_nat_eq_iff take_bit_eq_mod)
    then show "c = d" by simp
  qed
  then show ?thesis by (simp add: text_bytes_def inj_map_eq_map)
qed

text \<open>Strings in memory are shorter than the address space.\<close>

fun fits :: "hashed \<Rightarrow> bool" where
  "fits (Hash_Int v) = True"
| "fits (Hash_Str v) = (length (or_empty v) < 2 ^ 64)"

fun same_value :: "hashed \<Rightarrow> hashed \<Rightarrow> bool" where
  "same_value (Hash_Int v) (Hash_Int w) = (v = w)"
| "same_value (Hash_Str v) (Hash_Str w) = (or_empty v = or_empty w)"
| "same_value _ _ = False"

fun is_int :: "hashed \<Rightarrow> bool" where
  "is_int (Hash_Int v) = True"
| "is_int (Hash_Str v) = False"

lemma value_bytes_cancel:
  assumes "value_bytes v @ r = value_bytes w @ s" and "is_int v = is_int w" and "fits v" "fits w"
  shows "same_value v w \<and> r = s"
proof (cases v)
  case (Hash_Int a)
  then obtain b where w: "w = Hash_Int b" using assms(2) by (cases w) auto
  with Hash_Int assms(1) show ?thesis by (simp add: word_bytes_inject)
next
  case (Hash_Str a)
  then obtain b where w: "w = Hash_Str b" using assms(2) by (cases w) auto
  from assms(1) Hash_Str w have head: "word_bytes (word_of_nat (length (or_empty a))) = word_bytes (word_of_nat (length (or_empty b)))"
    and tail: "text_bytes (or_empty a) @ r = text_bytes (or_empty b) @ s" by auto
  from head have "length (or_empty a) = length (or_empty b)"
    using assms(3,4) Hash_Str w by (simp add: word_bytes_inject word_of_nat_eq_iff take_bit_eq_mod)
  with tail have "text_bytes (or_empty a) = text_bytes (or_empty b)" "r = s" by (auto simp: text_bytes_def)
  with Hash_Str w show ?thesis by (simp add: text_bytes_inject)
qed

lemma values_bytes_cancel:
  assumes "values_bytes vs @ r = values_bytes ws @ s" and "map is_int vs = map is_int ws"
    and "list_all fits vs" "list_all fits ws"
  shows "list_all2 same_value vs ws \<and> r = s"
  using assms
proof (induction vs arbitrary: ws)
  case (Cons v vs)
  then obtain w ws' where ws: "ws = w # ws'" by (cases ws) auto
  with Cons.prems have "value_bytes v @ (values_bytes vs @ r) = value_bytes w @ (values_bytes ws' @ s)" by simp
  from value_bytes_cancel [OF this] Cons.prems ws have "same_value v w" "values_bytes vs @ r = values_bytes ws' @ s" by auto
  with Cons.IH [of ws'] Cons.prems ws show ?case by simp
qed simp

section \<open>What is hashed of a file\<close>

datatype item = Item_Symbol symbol | Item_Use use | Item_Signature signature

fun item_values :: "item \<Rightarrow> hashed list" where
  "item_values (Item_Symbol s) = record_values (symbol_fingerprint s)"
| "item_values (Item_Use u) = record_values (use_fingerprint u)"
| "item_values (Item_Signature g) = signature_values g"

fun item_local :: "item \<Rightarrow> bool" where
  "item_local (Item_Symbol s) = (sym_local s \<noteq> 0)"
| "item_local (Item_Use u) = (use_local u \<noteq> 0)"
| "item_local (Item_Signature g) = False"

fun item_file :: "item \<Rightarrow> nat" where
  "item_file (Item_Symbol s) = sym_file_index s"
| "item_file (Item_Use u) = use_file_index u"
| "item_file (Item_Signature g) = sig_file_index g"

definition index_items :: "index \<Rightarrow> item list" where
  "index_items ix = map Item_Symbol (ix_symbols ix) @ map Item_Use (ix_uses ix) @ map Item_Signature (ix_signatures ix)"

definition file_items :: "bool \<Rightarrow> index \<Rightarrow> nat \<Rightarrow> item list" where
  "file_items il ix i = filter (\<lambda>x. item_file x = i \<and> (item_local x \<longrightarrow> il)) (index_items ix)"

definition file_stream :: "bool \<Rightarrow> index \<Rightarrow> nat \<Rightarrow> bytes" where
  "file_stream il ix i = values_bytes (concat (map item_values (file_items il ix i)))"

text \<open>The incremental hashers compute the hashes of these streams.\<close>

definition update_item :: "item \<Rightarrow> fingerprint_state \<Rightarrow> fingerprint_state" where
  "update_item x s =
     (case x of
        Item_Symbol y \<Rightarrow> update_fingerprints s (symbol_fingerprint y)
      | Item_Use u \<Rightarrow> update_fingerprints s (use_fingerprint u)
      | Item_Signature g \<Rightarrow> update_function_signature_fingerprint s g)"

definition hashes :: "item list \<Rightarrow> fingerprint_state \<Rightarrow> bool" where
  "hashes xs s \<longleftrightarrow>
     (let plain = filter (\<lambda>x. \<not> item_local x) xs in
      fq_hash_nonlocal s = values_bytes (concat (map item_values plain)) \<and> fq_records_nonlocal s = length plain \<and>
      (fq_has_local s \<longleftrightarrow> (\<exists>x\<in>set xs. item_local x)) \<and>
      (fq_has_local s \<longrightarrow> fq_hash_all s = values_bytes (concat (map item_values xs)) \<and> fq_records_all s = length xs))"

lemma hashes_update: "hashes xs s \<Longrightarrow> hashes (xs @ [x]) (update_item x s)"
proof (cases x)
  case (Item_Signature g)
  then show "hashes xs s \<Longrightarrow> ?thesis"
    by (auto simp: hashes_def update_item_def update_function_signature_fingerprint_def Let_def hash_values_bytes
        hash_function_signature_def)
next
  case (Item_Symbol y)
  have l: "fr_local (symbol_fingerprint y) = sym_local y" by (simp add: symbol_fingerprint_def)
  assume "hashes xs s"
  with Item_Symbol l show ?thesis
    by (cases "sym_local y = 0"; cases "\<exists>x\<in>set xs. item_local x")
      (auto simp: hashes_def update_item_def update_fingerprints_def split_fingerprint_def Let_def hash_values_bytes
        hash_record_def cong: filter_cong)
next
  case (Item_Use u)
  have l: "fr_local (use_fingerprint u) = use_local u" by (simp add: use_fingerprint_def)
  assume "hashes xs s"
  with Item_Use l show ?thesis
    by (cases "use_local u = 0"; cases "\<exists>x\<in>set xs. item_local x")
      (auto simp: hashes_def update_item_def update_fingerprints_def split_fingerprint_def Let_def hash_values_bytes
        hash_record_def cong: filter_cong)
qed

lemma hashes_fold: "hashes ys s \<Longrightarrow> hashes (ys @ xs) (fold update_item xs s)"
proof (induction xs arbitrary: ys s)
  case (Cons x xs)
  from Cons.IH [OF hashes_update [OF Cons.prems]] show ?case by simp
qed simp

lemma length_at_file [simp]: "length (at_file f i fps) = length fps"
  by (simp add: at_file_def)

lemma at_file_nth: "i < length fps \<Longrightarrow> at_file f k fps ! i = (if k = i then f (fps ! i) else fps ! i)"
  by (simp add: at_file_def)

lemma fold_at_file:
  "i < length fps \<Longrightarrow>
     fold (\<lambda>x. at_file (f x) (idx x)) xs fps ! i = fold f (filter (\<lambda>x. idx x = i) xs) (fps ! i) \<and>
     length (fold (\<lambda>x. at_file (f x) (idx x)) xs fps) = length fps"
  by (induction xs arbitrary: fps) (simp_all add: at_file_nth)

lemma update_item_simps:
  "update_item (Item_Symbol y) = (\<lambda>s. update_fingerprints s (symbol_fingerprint y))"
  "update_item (Item_Use u) = (\<lambda>s. update_fingerprints s (use_fingerprint u))"
  "update_item (Item_Signature g) = (\<lambda>s. update_function_signature_fingerprint s g)"
  by (simp_all add: update_item_def fun_eq_iff)

lemma collect_fingerprints_fold:
  "collect_fingerprints n ix =
     fold (\<lambda>x. at_file (update_item x) (item_file x)) (index_items ix) (replicate n new_fingerprint)"
  by (simp add: collect_fingerprints_def index_items_def update_item_simps fold_map comp_def)

lemma collect_fingerprints_hashes:
  assumes "i < n"
  shows "length (collect_fingerprints n ix) = n" "hashes (file_items True ix i) (collect_fingerprints n ix ! i)"
proof -
  have "hashes [] new_fingerprint" by (simp add: hashes_def new_fingerprint_def)
  from hashes_fold [OF this] fold_at_file [of i "replicate n new_fingerprint" update_item item_file "index_items ix"] assms
  show "length (collect_fingerprints n ix) = n" "hashes (file_items True ix i) (collect_fingerprints n ix ! i)"
    by (simp_all add: collect_fingerprints_fold file_items_def)
qed

text \<open>
  The two fingerprints of a file are the digests of the values hashed for its records that are not
  local and for all of its records, with their numbers, although the second hasher is only
  started, as a copy of the first, by the first local record.
\<close>

lemma fingerprints_hash_streams:
  assumes "i < length (px_files p)"
  shows "ix_fingerprints_nonlocal (px_index (rebuild_fingerprints blake3 p)) ! i =
      \<lparr>fp_file = c_text (px_files p ! i), fp_data = blake3 (file_stream False (px_index p) i),
       fp_record_count = length (file_items False (px_index p) i)\<rparr> \<and>
    ix_fingerprints_all (px_index (rebuild_fingerprints blake3 p)) ! i =
      \<lparr>fp_file = c_text (px_files p ! i), fp_data = blake3 (file_stream True (px_index p) i),
       fp_record_count = length (file_items True (px_index p) i)\<rparr>"
proof -
  let ?s = "collect_fingerprints (length (px_files p)) (px_index p) ! i"
  note h = collect_fingerprints_hashes [OF assms, of "px_index p"]
  have plain: "file_items False (px_index p) i = filter (\<lambda>x. \<not> item_local x) (file_items True (px_index p) i)"
    by (simp add: file_items_def)
  have same: "file_items True (px_index p) i = file_items False (px_index p) i" if "\<not> fq_has_local ?s"
    using that h(2) by (auto simp: hashes_def plain Let_def intro!: filter_True [symmetric])
  show ?thesis
    using h assms same
    by (auto simp: rebuild_fingerprints_def Let_def nonlocal_fingerprint_def all_fingerprint_def hashes_def file_stream_def plain)
qed

section \<open>The stream determines the items\<close>

definition fitting :: "hashed list \<Rightarrow> bool" where
  "fitting vs \<longleftrightarrow> list_all fits vs"

fun item_shape :: "item \<Rightarrow> bool" where
  "item_shape (Item_Signature g) = (length (sig_parameters g) < 2 ^ 64)"
| "item_shape x = True"

definition item_fits :: "item \<Rightarrow> bool" where
  "item_fits x \<longleftrightarrow> list_all fits (item_values x) \<and> item_shape x"

lemma parameter_ints: "map is_int (parameter_values i q) = [True, False, False, False, False, True, True]"
  by (simp add: parameter_values_def)

lemma record_ints: "map is_int (record_values r) = map is_int (record_values r')"
  by (simp add: record_values_def)

lemma parameters_ints:
  "length qs = length rs \<Longrightarrow>
     map is_int (concat (map (\<lambda>(i, q). parameter_values i q) (enumerate n qs))) =
     map is_int (concat (map (\<lambda>(i, q). parameter_values i q) (enumerate n rs)))"
  by (induction qs rs arbitrary: n rule: list_induct2) (simp_all add: parameter_ints)

lemma item_head:
  "\<exists>vs. item_values x = Hash_Int (case x of Item_Symbol s \<Rightarrow> 0 | Item_Use u \<Rightarrow> 1 | Item_Signature g \<Rightarrow> 2) # vs"
  by (cases x) (simp_all add: record_values_def signature_values_def symbol_fingerprint_def use_fingerprint_def)

lemma item_cancel:
  assumes eq: "values_bytes (item_values x) @ r = values_bytes (item_values y) @ s" and "item_fits x" "item_fits y"
  shows "list_all2 same_value (item_values x) (item_values y) \<and> r = s"
proof -
  let ?tag = "\<lambda>x. case x of Item_Symbol s \<Rightarrow> 0 | Item_Use u \<Rightarrow> 1 | Item_Signature g \<Rightarrow> (2 :: u64)"
  obtain vs ws where v: "item_values x = Hash_Int (?tag x) # vs" and w: "item_values y = Hash_Int (?tag y) # ws"
    using item_head [of x] item_head [of y] by blast
  with eq have "word_bytes (?tag x) @ (values_bytes vs @ r) = word_bytes (?tag y) @ (values_bytes ws @ s)" by simp
  then have "word_bytes (?tag x) = word_bytes (?tag y)" by simp
  then have tag: "?tag x = ?tag y" by (simp add: word_bytes_inject)
  have "map is_int (item_values x) = map is_int (item_values y)"
  proof (cases x)
    case (Item_Signature g)
    with tag obtain h where y: "y = Item_Signature h" by (cases y) auto
    let ?head = "\<lambda>g. take 7 (signature_values g)"
    have split: "values_bytes (signature_values g) = values_bytes (?head g) @ values_bytes (drop 7 (signature_values g))" for g
      by (metis append_take_drop_id values_bytes_simps(3))
    have "values_bytes (?head g) @ (values_bytes (drop 7 (signature_values g)) @ r) =
        values_bytes (?head h) @ (values_bytes (drop 7 (signature_values h)) @ s)"
      using eq Item_Signature y split [of g] split [of h] by simp
    moreover have "map is_int (?head g) = map is_int (?head h)" by (simp add: signature_values_def)
    moreover have "list_all fits (?head g)" "list_all fits (?head h)"
      using assms(2,3) Item_Signature y by (auto simp: item_fits_def list_all_iff dest: in_set_takeD)
    ultimately have "list_all2 same_value (?head g) (?head h)" using values_bytes_cancel by blast
    then have "(word_of_nat (length (sig_parameters g)) :: u64) = word_of_nat (length (sig_parameters h))"
      by (simp add: signature_values_def)
    then have "length (sig_parameters g) = length (sig_parameters h)"
      using assms(2,3) Item_Signature y by (simp add: item_fits_def word_of_nat_eq_iff take_bit_eq_mod)
    from parameters_ints [OF this] show ?thesis using Item_Signature y by (simp add: signature_values_def)
  qed (use tag record_ints in \<open>cases y; auto\<close>)+
  from values_bytes_cancel [OF eq this] assms(2,3) show ?thesis by (simp add: item_fits_def)
qed

lemma item_bytes_nonempty [simp]: "values_bytes (item_values x) \<noteq> []"
  using item_head [of x] length_word_bytes by (auto simp del: length_word_bytes) (metis length_0_conv zero_neq_numeral)

lemma stream_items:
  assumes "values_bytes (concat (map item_values xs)) = values_bytes (concat (map item_values ys))"
    and "list_all item_fits xs" "list_all item_fits ys"
  shows "list_all2 (\<lambda>x y. list_all2 same_value (item_values x) (item_values y)) xs ys"
  using assms
proof (induction xs arbitrary: ys)
  case Nil
  then show ?case by (cases ys) simp_all
next
  case (Cons x xs)
  show ?case
  proof (cases ys)
    case Nil
    with Cons.prems show ?thesis by simp
  next
    case ys: (Cons y ys')
    with Cons.prems have "values_bytes (item_values x) @ values_bytes (concat (map item_values xs)) =
        values_bytes (item_values y) @ values_bytes (concat (map item_values ys'))" by simp
    from item_cancel [OF this] Cons.prems ys Cons.IH [of ys'] show ?thesis by simp
  qed
qed

section \<open>The items determine the facts\<close>

definition no_facts_of :: file_facts where
  "no_facts_of = \<lparr>ff_records = {}, ff_types = {}, ff_ftypes = {}, ff_props = {}\<rparr>"

fun item_facts :: "item \<Rightarrow> file_facts" where
  "item_facts (Item_Symbol s) =
     \<lparr>ff_records = rec_atoms (symbol_row s),
      ff_types = (if nonempty (sym_type s) \<and> nonempty (sym_usr s) then type_atoms (symbol_type_row s) else {}),
      ff_ftypes = {},
      ff_props = (if sym_properties s \<noteq> 0 \<and> nonempty (sym_usr s) then prop_atoms (symbol_properties_row s) else {})\<rparr>"
| "item_facts (Item_Use u) = \<lparr>ff_records = rec_atoms (use_row u), ff_types = {}, ff_ftypes = {}, ff_props = {}\<rparr>"
| "item_facts (Item_Signature g) =
     \<lparr>ff_records = {}, ff_types = {},
      ff_ftypes = (if nonempty (sig_usr g) then \<Union> (ftype_atoms ` set (signature_rows g)) else {}), ff_props = {}\<rparr>"

definition items_facts :: "item list \<Rightarrow> file_facts" where
  "items_facts xs =
     \<lparr>ff_records = \<Union> (ff_records ` item_facts ` set xs), ff_types = \<Union> (ff_types ` item_facts ` set xs),
      ff_ftypes = \<Union> (ff_ftypes ` item_facts ` set xs), ff_props = \<Union> (ff_props ` item_facts ` set xs)\<rparr>"

lemma in_file_items:
  "Item_Symbol s \<in> set (file_items il ix i) \<longleftrightarrow> s \<in> set (ix_symbols ix) \<and> sym_file_index s = i \<and> shown il (sym_local s)"
  "Item_Use u \<in> set (file_items il ix i) \<longleftrightarrow> u \<in> set (ix_uses ix) \<and> use_file_index u = i \<and> shown il (use_local u)"
  "Item_Signature g \<in> set (file_items il ix i) \<longleftrightarrow> g \<in> set (ix_signatures ix) \<and> sig_file_index g = i"
  by (auto simp: file_items_def index_items_def shown_def)

lemma Union_items:
  "(\<Union>x\<in>set (file_items il ix i). F (item_facts x)) =
     (\<Union>s\<in>{s\<in>set (ix_symbols ix). sym_file_index s = i \<and> shown il (sym_local s)}. F (item_facts (Item_Symbol s))) \<union>
     (\<Union>u\<in>{u\<in>set (ix_uses ix). use_file_index u = i \<and> shown il (use_local u)}. F (item_facts (Item_Use u))) \<union>
     (\<Union>g\<in>{g\<in>set (ix_signatures ix). sig_file_index g = i}. F (item_facts (Item_Signature g)))"
proof -
  have "set (file_items il ix i) =
      Item_Symbol ` {s\<in>set (ix_symbols ix). sym_file_index s = i \<and> shown il (sym_local s)} \<union>
      Item_Use ` {u\<in>set (ix_uses ix). use_file_index u = i \<and> shown il (use_local u)} \<union>
      Item_Signature ` {g\<in>set (ix_signatures ix). sig_file_index g = i}"
  proof (rule set_eqI)
    fix x show "x \<in> set (file_items il ix i) \<longleftrightarrow> x \<in> Item_Symbol ` {s\<in>set (ix_symbols ix). sym_file_index s = i \<and> shown il (sym_local s)} \<union>
      Item_Use ` {u\<in>set (ix_uses ix). use_file_index u = i \<and> shown il (use_local u)} \<union>
      Item_Signature ` {g\<in>set (ix_signatures ix). sig_file_index g = i}"
      by (cases x) (auto simp: in_file_items)
  qed
  then show ?thesis by (simp add: Un_assoc)
qed

lemma file_facts: "facts_of (index_rows paths il ((=) i) ix) = items_facts (file_items il ix i)"
  unfolding facts_of_def items_facts_def index_rows_sets image_image Union_items
  by (auto simp: symbol_rows_def use_rows_def sig_rows_def no_rows_def Let_def split: if_splits) blast

text \<open>
  What is not hashed is determined by what is: whether there is an identity by its hash, and the owner
  of a function by the hash of its identity.
\<close>

fun item_ok :: "(u64 \<Rightarrow> string) \<Rightarrow> item \<Rightarrow> bool" where
  "item_ok own (Item_Symbol s) =
     (sym_local s \<in> {0, 1} \<and> sym_definition s \<in> {0, 1} \<and> (nonempty (sym_usr s) \<longleftrightarrow> sym_usr_id s \<noteq> 0))"
| "item_ok own (Item_Use u) =
     (use_local u \<in> {0, 1} \<and> (nonempty (use_usr u) \<longleftrightarrow> use_usr_id u \<noteq> 0) \<and>
      (nonempty (use_context_usr u) \<longleftrightarrow> use_context_usr_id u \<noteq> 0))"
| "item_ok own (Item_Signature g) =
     (sig_variadic g \<in> {0, 1} \<and> (nonempty (sig_usr g) \<longleftrightarrow> sig_usr_id g \<noteq> 0) \<and>
      or_empty (sig_owner g) = own (sig_usr_id g))"

lemma small_word_inject:
  assumes "- 1 \<le> a" "a \<le> 100" "- 1 \<le> b" "b \<le> 100"
  shows "(word_of_int a :: u64) = word_of_int b \<longleftrightarrow> a = b"
proof
  assume "(word_of_int a :: u64) = word_of_int b"
  then have "a mod 2 ^ 64 = b mod 2 ^ 64" by (simp add: word_of_int_eq_iff take_bit_eq_mod)
  then have "(2 ^ 64 :: int) dvd a - b" by (simp add: mod_eq_dvd_iff)
  then have "a - b = 0 \<or> \<bar>2 ^ 64 :: int\<bar> \<le> \<bar>a - b\<bar>" using dvd_imp_le_int [of "a - b" "2 ^ 64"] by blast
  then show "a = b" using assms by auto
qed simp

lemma use_code_range: "0 \<le> use_code k \<and> use_code k \<le> 3"
  by (cases k) simp_all

lemma code_words [simp]:
  "(word_of_int (kind_code k) :: u64) = word_of_int (kind_code l) \<longleftrightarrow> k = l"
  "(word_of_int (use_code a) :: u64) = word_of_int (use_code b) \<longleftrightarrow> a = b"
  using kind_code_range [of k] kind_code_range [of l] use_code_range [of a] use_code_range [of b]
  by (simp_all add: small_word_inject)

lemma flag_words: "a \<in> {0, 1} \<Longrightarrow> b \<in> {0, 1} \<Longrightarrow> (word_of_int a :: u64) = word_of_int b \<Longrightarrow> a = b"
  by auto

lemma ucast_u32_inject [simp]: "(ucast (a :: u32) :: u64) = ucast b \<longleftrightarrow> a = b"
proof
  assume eq: "(ucast a :: u64) = ucast b"
  show "a = b"
  proof (rule bit_word_eqI)
    fix n assume "n < LENGTH(32)"
    with arg_cong [OF eq, of "\<lambda>w. bit w n"] show "bit a n = bit b n" by (simp add: bit_simps)
  qed
qed simp

lemma nonempty_or_empty: "nonempty v \<longleftrightarrow> or_empty v \<noteq> []"
  by (cases v) simp_all

lemma qualified_name_cong: "or_empty o1 = or_empty o2 \<Longrightarrow> or_empty n1 = or_empty n2 \<Longrightarrow> qualified_name o1 n1 = qualified_name o2 n2"
  by (simp add: qualified_name_def nonempty_or_empty)

lemma symbol_facts_cong:
  assumes "list_all2 same_value (item_values (Item_Symbol s)) (item_values (Item_Symbol t))"
    and "item_ok own (Item_Symbol s)" "item_ok own (Item_Symbol t)"
  shows "symbol_row s = symbol_row t" "symbol_type_row s = symbol_type_row t"
    "symbol_properties_row s = symbol_properties_row t" "or_empty (sym_type s) = or_empty (sym_type t)"
    "nonempty (sym_usr s) = nonempty (sym_usr t)" "sym_properties s = sym_properties t" "sym_local s = sym_local t"
proof -
  have v: "sym_kind s = sym_kind t" "or_empty (sym_owner s) = or_empty (sym_owner t)"
    "or_empty (sym_name s) = or_empty (sym_name t)" "sym_line s = sym_line t" "sym_column s = sym_column t"
    "or_empty (sym_context s) = or_empty (sym_context t)" "sym_usr_id s = sym_usr_id t"
    "or_empty (sym_type s) = or_empty (sym_type t)" "or_empty (sym_canonical_type s) = or_empty (sym_canonical_type t)"
    "or_empty (sym_type_symbol s) = or_empty (sym_type_symbol t)" "sym_type_usr_id s = sym_type_usr_id t"
    "sym_type_usr_id t \<noteq> 0 \<Longrightarrow> sym_type_kind s = sym_type_kind t"
    "sym_properties s = sym_properties t" "(word_of_int (sym_definition s) :: u64) = word_of_int (sym_definition t)"
    "(word_of_int (sym_local s) :: u64) = word_of_int (sym_local t)"
    using assms(1) by (simp_all add: record_values_def symbol_fingerprint_def split: if_splits)
  have f: "sym_definition s = sym_definition t" "sym_local s = sym_local t" "nonempty (sym_usr s) = nonempty (sym_usr t)"
    using assms(2,3) v(7) flag_words [OF _ _ v(14)] flag_words [OF _ _ v(15)] by auto
  note q = qualified_name_cong [OF v(2,3)]
  show "symbol_row s = symbol_row t" using v f q by (simp add: symbol_row_def optional_record_id_def)
  show "symbol_type_row s = symbol_type_row t" using v q by (simp add: symbol_type_row_def)
  show "symbol_properties_row s = symbol_properties_row t" using v q by (simp add: symbol_properties_row_def)
  show "or_empty (sym_type s) = or_empty (sym_type t)" "nonempty (sym_usr s) = nonempty (sym_usr t)"
    "sym_properties s = sym_properties t" "sym_local s = sym_local t" by (fact v f)+
qed

lemma use_facts_cong:
  assumes "list_all2 same_value (item_values (Item_Use s)) (item_values (Item_Use t))"
    and "item_ok own (Item_Use s)" "item_ok own (Item_Use t)"
  shows "use_row s = use_row t" "use_local s = use_local t"
proof -
  have v: "use_kind_of s = use_kind_of t" "use_symbol_kind s = use_symbol_kind t" "use_mode s = use_mode t"
    "or_empty (use_owner s) = or_empty (use_owner t)" "or_empty (use_name s) = or_empty (use_name t)"
    "use_line s = use_line t" "use_column s = use_column t" "or_empty (use_context s) = or_empty (use_context t)"
    "use_usr_id s = use_usr_id t" "use_context_usr_id s = use_context_usr_id t"
    "(word_of_int (use_local s) :: u64) = word_of_int (use_local t)"
    using assms(1) by (simp_all add: record_values_def use_fingerprint_def)
  have f: "use_local s = use_local t" "nonempty (use_usr s) = nonempty (use_usr t)"
    "nonempty (use_context_usr s) = nonempty (use_context_usr t)"
    using assms(2,3) v(9,10) flag_words [OF _ _ v(11)] by auto
  show "use_row s = use_row t" "use_local s = use_local t"
    using v f qualified_name_cong [OF v(4,5)] by (simp_all add: use_row_def optional_record_id_def)
qed

lemma concat_eq_lengths:
  "list_all2 P (concat (map f xs)) (concat (map g ys)) \<Longrightarrow> length xs = length ys \<Longrightarrow>
     (\<And>x. length (f x) = n) \<Longrightarrow> (\<And>y. length (g y) = n) \<Longrightarrow> list_all2 (\<lambda>x y. list_all2 P (f x) (g y)) xs ys"
proof (induction xs arbitrary: ys)
  case (Cons x xs)
  then obtain y ys' where ys: "ys = y # ys'" by (cases ys) auto
  with Cons.prems have "list_all2 P (f x) (g y)" "list_all2 P (concat (map f xs)) (concat (map g ys'))"
    by (simp_all add: list_all2_append)
  with Cons.IH [of ys'] Cons.prems ys show ?case by simp
qed simp

lemma parameter_rows_cong:
  assumes "list_all2 same_value (parameter_values i q) (parameter_values i r)"
    and "sig_usr_id g = sig_usr_id h" "qualified_name (sig_owner g) (sig_name g) = qualified_name (sig_owner h) (sig_name h)"
  shows "parameter_row g i q = parameter_row h i r"
  using assms by (simp add: parameter_values_def parameter_row_def split: if_splits)

lemma signature_facts_cong:
  assumes v: "list_all2 same_value (item_values (Item_Signature g)) (item_values (Item_Signature h))"
    and ok: "item_ok own (Item_Signature g)" "item_ok own (Item_Signature h)"
    and fit: "item_fits (Item_Signature g)" "item_fits (Item_Signature h)"
  shows "signature_rows g = signature_rows h" "nonempty (sig_usr g) = nonempty (sig_usr h)"
proof -
  let ?ps = "\<lambda>g. enumerate 0 (sig_parameters g)"
  have h: "or_empty (sig_name g) = or_empty (sig_name h)" "sig_usr_id g = sig_usr_id h"
    "or_empty (sig_return_type g) = or_empty (sig_return_type h)"
    "or_empty (sig_canonical_return_type g) = or_empty (sig_canonical_return_type h)"
    "(word_of_int (sig_variadic g) :: u64) = word_of_int (sig_variadic h)"
    "(word_of_nat (length (sig_parameters g)) :: u64) = word_of_nat (length (sig_parameters h))"
    "list_all2 same_value (concat (map (\<lambda>(i, q). parameter_values i q) (?ps g)))
       (concat (map (\<lambda>(i, q). parameter_values i q) (?ps h)))"
    using v by (simp_all add: signature_values_def)
  have len: "length (sig_parameters g) = length (sig_parameters h)"
    using h(6) fit by (simp add: item_fits_def word_of_nat_eq_iff take_bit_eq_mod)
  have own: "or_empty (sig_owner g) = or_empty (sig_owner h)" using ok h(2) by simp
  note q = qualified_name_cong [OF own h(1)]
  have "list_all2 (\<lambda>x y. list_all2 same_value (case x of (i, q) \<Rightarrow> parameter_values i q) (case y of (i, q) \<Rightarrow> parameter_values i q)) (?ps g) (?ps h)"
    by (rule concat_eq_lengths [OF h(7), of 7]) (auto simp: len parameter_values_def split: prod.split)
  then have "map (\<lambda>(i, q). parameter_row g i q) (?ps g) = map (\<lambda>(i, q). parameter_row h i q) (?ps h)"
    by (intro nth_equalityI)
      (auto simp: len list_all2_conv_all_nth nth_enumerate_eq intro!: parameter_rows_cong [OF _ h(2) q])
  moreover have "sig_variadic g = sig_variadic h" using flag_words [OF _ _ h(5)] ok by auto
  then have "return_row g = return_row h" using h q by (simp add: return_row_def)
  ultimately show "signature_rows g = signature_rows h" by (simp add: signature_rows_def)
  show "nonempty (sig_usr g) = nonempty (sig_usr h)" using ok h(2) by simp
qed

lemma item_facts_cong:
  assumes "list_all2 same_value (item_values x) (item_values y)" and "item_ok own x" "item_ok own y"
    and "item_fits x" "item_fits y"
  shows "item_facts x = item_facts y"
proof -
  let ?tag = "\<lambda>x. case x of Item_Symbol s \<Rightarrow> 0 | Item_Use u \<Rightarrow> 1 | Item_Signature g \<Rightarrow> (2 :: u64)"
  have tag: "?tag x = ?tag y" using assms(1) item_head [of x] item_head [of y] by auto
  show ?thesis
  proof (cases x)
    case (Item_Symbol s)
    with tag obtain t where y: "y = Item_Symbol t" by (cases y) auto
    from symbol_facts_cong [of s t own] assms Item_Symbol y show ?thesis by (simp add: nonempty_or_empty)
  next
    case (Item_Use s)
    with tag obtain t where y: "y = Item_Use t" by (cases y) auto
    from use_facts_cong [of s t own] assms Item_Use y show ?thesis by simp
  next
    case (Item_Signature g)
    with tag obtain h where y: "y = Item_Signature h" by (cases y) auto
    from signature_facts_cong [of g h own] assms Item_Signature y show ?thesis by simp
  qed
qed

definition item_good :: "(u64 \<Rightarrow> string) \<Rightarrow> item \<Rightarrow> bool" where
  "item_good own x \<longleftrightarrow> item_ok own x \<and> item_fits x"

lemma items_facts_cong:
  assumes "list_all2 (\<lambda>x y. list_all2 same_value (item_values x) (item_values y)) xs ys"
    and "list_all (item_good own) xs" "list_all (item_good own) ys"
  shows "items_facts xs = items_facts ys"
proof -
  have "map item_facts xs = map item_facts ys"
    using assms by (induction rule: list_all2_induct) (auto simp: item_good_def intro: item_facts_cong)
  then have "item_facts ` set xs = item_facts ` set ys" by (metis set_map)
  then show ?thesis by (simp add: items_facts_def)
qed

section \<open>The fingerprints of the parser\<close>

text \<open>Hashed identities: identities are C strings whose hash is not zero, and strings fit into memory.\<close>

definition plain_identity :: "(string \<Rightarrow> u64) \<Rightarrow> string \<Rightarrow> bool" where
  "plain_identity xxh3 usr \<longleftrightarrow> c_string usr \<and> (usr \<noteq> [] \<longrightarrow> xxh3 usr \<noteq> 0)"

definition short :: "string \<Rightarrow> bool" where
  "short s \<longleftrightarrow> length s < 2 ^ 64"

definition plain_symbol :: "(string \<Rightarrow> u64) \<Rightarrow> parsed_symbol \<Rightarrow> bool" where
  "plain_symbol xxh3 s \<longleftrightarrow> plain_identity xxh3 (ps_usr s) \<and>
     list_all short [ps_name s, ps_owner s, ps_type s, ps_canonical_type s, ps_type_symbol s, ps_context s]"

definition plain_use :: "(string \<Rightarrow> u64) \<Rightarrow> parsed_use \<Rightarrow> bool" where
  "plain_use xxh3 u \<longleftrightarrow> plain_identity xxh3 (pu_usr u) \<and> plain_identity xxh3 (pu_context_usr u) \<and>
     list_all short [pu_name u, pu_owner u, pu_context u]"

definition plain_signature :: "(string \<Rightarrow> u64) \<Rightarrow> (u64 \<Rightarrow> string) \<Rightarrow> parsed_signature \<Rightarrow> bool" where
  "plain_signature xxh3 own g \<longleftrightarrow> plain_identity xxh3 (pg_usr g) \<and> c_text (pg_owner g) = own (usr_hash xxh3 (pg_usr g)) \<and>
     length (pg_parameters g) < 2 ^ 64 \<and> list_all short [pg_name g, pg_return_type g, pg_canonical_return_type g] \<and>
     list_all (\<lambda>q. list_all short [pp_name q, pp_type q, pp_canonical_type q, pp_type_symbol q]) (pg_parameters g)"

definition plain_parser :: "(string \<Rightarrow> u64) \<Rightarrow> (u64 \<Rightarrow> string) \<Rightarrow> parser \<Rightarrow> bool" where
  "plain_parser xxh3 own p \<longleftrightarrow> list_all (plain_symbol xxh3) (px_symbols p) \<and> list_all (plain_use xxh3) (px_uses p) \<and>
     list_all (plain_signature xxh3 own) (px_signatures p)"

lemma short_c_text [simp]: "short s \<Longrightarrow> length (c_text s) < 18446744073709551616"
  using length_takeWhile_le [of "\<lambda>c. c \<noteq> NUL" s] by (simp add: short_def c_text_def)

lemma nonempty_c_str: "plain_identity xxh3 usr \<Longrightarrow> nonempty (c_str usr) \<longleftrightarrow> usr_hash xxh3 usr \<noteq> 0"
proof -
  assume p: "plain_identity xxh3 usr"
  then have "c_text usr = usr" unfolding c_text_def by (subst takeWhile_eq_all_conv) (auto simp: plain_identity_def c_string_def)
  with p show ?thesis by (auto simp: c_str_def usr_hash_def plain_identity_def)
qed

lemma or_empty_c_str [simp]: "or_empty (c_str s) = c_text s"
  by (simp add: c_str_def)

lemma plain_symbol_item:
  assumes "plain_symbol xxh3 s"
  shows "item_good own (Item_Symbol (symbol_record xxh3 fs s))"
  using assms
  by (simp add: plain_symbol_def symbol_record_def item_good_def item_fits_def record_values_def symbol_fingerprint_def nonempty_c_str)

lemma plain_use_item:
  assumes "plain_use xxh3 u"
  shows "item_good own (Item_Use (use_record xxh3 fs u))"
  using assms
  by (simp add: plain_use_def use_record_def item_good_def item_fits_def record_values_def use_fingerprint_def nonempty_c_str)

lemma plain_parameter_fits:
  "list_all short [pp_name q, pp_type q, pp_canonical_type q, pp_type_symbol q] \<Longrightarrow>
     list_all fits (parameter_values i (parameter_record xxh3 q))"
  by (simp add: parameter_values_def parameter_record_def)

lemma plain_signature_item:
  assumes "plain_signature xxh3 own g"
  shows "item_good own (Item_Signature (signature_record xxh3 fs g))"
proof -
  let ?ps = "enumerate 0 (map (parameter_record xxh3) (pg_parameters g))"
  have "list_all fits (parameter_values i q)" if "(i, q) \<in> set ?ps" for i q
  proof -
    from that have "i < length (pg_parameters g)" "map (parameter_record xxh3) (pg_parameters g) ! i = q"
      by (simp_all add: in_set_enumerate_eq)
    then obtain r where r: "r \<in> set (pg_parameters g)" "q = parameter_record xxh3 r"
      by (metis length_map nth_map nth_mem)
    have "list_all short [pp_name r, pp_type r, pp_canonical_type r, pp_type_symbol r]"
      using assms r(1) unfolding plain_signature_def by (metis (mono_tags, lifting) list_all_iff)
    from plain_parameter_fits [OF this] show ?thesis unfolding r(2) .
  qed
  then have "list_all fits (concat (map (\<lambda>(i, q). parameter_values i q) ?ps))" by (auto simp: list_all_iff)
  with assms show ?thesis
    by (simp add: plain_signature_def signature_record_def item_good_def item_fits_def signature_values_def nonempty_c_str)
qed

lemma plain_items:
  assumes "plain_parser xxh3 own p"
  shows "list_all (item_good own) (index_items (px_index (rebuild_records xxh3 p)))"
proof -
  let ?Q = "item_good own"
  have "list_all (\<lambda>s. ?Q (Item_Symbol (symbol_record xxh3 (px_files p) s))) (px_symbols p)"
    using assms by (auto simp: plain_parser_def intro: list.pred_mono_strong plain_symbol_item)
  moreover have "list_all (\<lambda>u. ?Q (Item_Use (use_record xxh3 (px_files p) u))) (px_uses p)"
    using assms by (auto simp: plain_parser_def intro: list.pred_mono_strong plain_use_item)
  moreover have "list_all (\<lambda>g. ?Q (Item_Signature (signature_record xxh3 (px_files p) g))) (px_signatures p)"
    using assms by (auto simp: plain_parser_def intro: list.pred_mono_strong plain_signature_item)
  ultimately show ?thesis
    by (simp add: index_items_def rebuild_records_def list.pred_map comp_def)
qed

definition parser_streams :: "(string \<Rightarrow> u64) \<Rightarrow> parser set \<Rightarrow> bytes set" where
  "parser_streams xxh3 P = {file_stream il (px_index (rebuild_records xxh3 p)) i | il p i. p \<in> P}"

lemma length_fold_at_file: "length (fold (\<lambda>x. at_file (f x) (idx x)) xs fps) = length fps"
  by (induction xs arbitrary: fps) simp_all

lemma index_files_length:
  "length (ix_fingerprints_nonlocal (px_index (rebuild_fingerprints blake3 p))) = length (px_files p)"
  "length (ix_fingerprints_all (px_index (rebuild_fingerprints blake3 p))) = length (px_files p)"
  by (simp_all add: rebuild_fingerprints_def Let_def collect_fingerprints_def length_fold_at_file)

lemma one_meaning:
  assumes "\<forall>p\<in>P. plain_parser xxh3 own p" and "inj_on blake3 (parser_streams xxh3 P)"
  shows "\<exists>C. \<forall>p\<in>P. \<forall>paths il.
    faithful C (px_index (rebuild_fingerprints blake3 (rebuild_records xxh3 p))) paths il"
proof -
  let ?ix = "\<lambda>p. px_index (rebuild_records xxh3 p)"
  define C where "C d = items_facts (SOME xs. \<exists>il i p. p \<in> P \<and> xs = file_items il (?ix p) i \<and> d = blake3 (file_stream il (?ix p) i))" for d
  have C: "C (blake3 (file_stream il (?ix p) i)) = items_facts (file_items il (?ix p) i)" if "p \<in> P" for il i p
  proof -
    let ?Q = "\<lambda>xs. \<exists>il' i' q. q \<in> P \<and> xs = file_items il' (?ix q) i' \<and>
        blake3 (file_stream il (?ix p) i) = blake3 (file_stream il' (?ix q) i')"
    have "?Q (file_items il (?ix p) i)" using that by blast
    then have "?Q (SOME xs. ?Q xs)" by (rule someI)
    then obtain il' i' q where q: "q \<in> P" "(SOME xs. ?Q xs) = file_items il' (?ix q) i'"
      "blake3 (file_stream il (?ix p) i) = blake3 (file_stream il' (?ix q) i')" by blast
    have "file_stream il (?ix p) i = file_stream il' (?ix q) i'"
      using inj_onD [OF assms(2) q(3)] that q(1) by (auto simp: parser_streams_def)
    moreover have items: "list_all (item_good own) (file_items k (?ix r) j)" if "r \<in> P" for r k j
      using plain_items [of xxh3 own r] assms(1) that by (auto simp: file_items_def list_all_iff)
    ultimately have "items_facts (file_items il (?ix p) i) = items_facts (file_items il' (?ix q) i')"
      using stream_items [of "file_items il (?ix p) i" "file_items il' (?ix q) i'"] items [OF that] items [OF q(1)]
      by (intro items_facts_cong [where own = own]) (auto simp: file_stream_def list_all_iff item_good_def)
    then show ?thesis using q(2) by (simp add: C_def)
  qed
  have "faithful C (px_index (rebuild_fingerprints blake3 (rebuild_records xxh3 p))) paths il" if "p \<in> P" for p paths il
  proof -
    let ?p = "rebuild_records xxh3 p"
    have same: "ix_symbols (px_index (rebuild_fingerprints blake3 ?p)) = ix_symbols (?ix p)"
      "ix_uses (px_index (rebuild_fingerprints blake3 ?p)) = ix_uses (?ix p)"
      "ix_signatures (px_index (rebuild_fingerprints blake3 ?p)) = ix_signatures (?ix p)"
      by (simp_all add: rebuild_fingerprints_def Let_def)
    then have items: "file_items il (px_index (rebuild_fingerprints blake3 ?p)) = file_items il (?ix p)"
      by (simp add: file_items_def index_items_def fun_eq_iff)
    have "C (fp_data fp) = items_facts (file_items il (?ix p) i)"
      if "get_file_fingerprint (px_index (rebuild_fingerprints blake3 ?p)) i il = Some fp" for i fp
    proof -
      from that have i: "i < length (px_files ?p)"
        using index_files_length [of blake3 ?p] by (cases il) (simp_all add: get_file_fingerprint_def Let_def split: if_splits)
      have "fp_data fp = blake3 (file_stream il (?ix p) i)"
      proof -
        have "fp = (if il then ix_fingerprints_all (px_index (rebuild_fingerprints blake3 ?p)) ! i
            else ix_fingerprints_nonlocal (px_index (rebuild_fingerprints blake3 ?p)) ! i)"
          using that by (cases il) (simp_all add: get_file_fingerprint_def Let_def split: if_splits)
        with fingerprints_hash_streams [OF i, of blake3] show ?thesis by (cases il) simp_all
      qed
      with C [OF \<open>p \<in> P\<close>] show ?thesis by simp
    qed
    then show ?thesis by (simp add: faithful_def file_facts items)
  qed
  then show ?thesis by blast
qed

text \<open>
  A digest stands for facts: for indices that the parser has built there is one meaning of the
  digests under which all their fingerprints, with and without local records, are faithful, as
  long as BLAKE3 has no collision among the streams hashed, the hash of an identity is not zero and
  identities determine the owner of a function. This is the hypothesis of the store's contract.
\<close>

theorem fingerprints_faithful:
  assumes "\<forall>p\<in>P. plain_parser xxh3 own p" and "inj_on blake3 (parser_streams xxh3 P)"
  shows "\<exists>C. \<forall>p\<in>P. \<forall>paths il.
    faithful C (px_index (rebuild_fingerprints blake3 (rebuild_records xxh3 p))) paths il"
  using assms by (rule one_meaning)

end
