(* ===== verification/Asm_Properties.thy ===== *)
theory Asm_Properties
  imports Asm_Index "HOL-Library.Multiset"
begin

text \<open>
  What the indexer of assembly finds, stated on the tokens alone: which labels are functions, how far
  they reach, which symbols are recorded for them, and which calls are recorded in which of them.
\<close>

section \<open>What the tokens say\<close>

text \<open>Words, and the positions of the labels: a label is a word before a colon.\<close>

definition is_word :: "token \<Rightarrow> bool" where
  "is_word t \<longleftrightarrow> tk_kind t \<in> {Tok_Identifier, Tok_Raw_Identifier}"

definition reads :: "string \<Rightarrow> token \<Rightarrow> bool" where
  "reads s t \<longleftrightarrow> is_word t \<and> tk_text t = s"

definition labelled :: "token list \<Rightarrow> nat \<Rightarrow> string \<Rightarrow> bool" where
  "labelled ts i n \<longleftrightarrow> i + 1 < length ts \<and> reads n (ts ! i) \<and> n \<noteq> [] \<and> tk_kind (ts ! (i + 1)) = Tok_Colon"

definition function_marks :: "string list" where
  "function_marks = [''function'', ''@function'', ''%function'', ''#function'', ''STT_FUNC'']"

definition mark_prefixes :: "string list" where
  "mark_prefixes = [''@'', ''%'', ''#'']"

text \<open>
  A period at \<open>i\<close> opens a directive, unless it stands where the operand of \<open>.ent\<close>, of \<open>.end\<close> or of a
  prefix of \<open>.type\<close> is expected.
\<close>

function opens :: "token list \<Rightarrow> nat \<Rightarrow> bool" where
  "opens ts i \<longleftrightarrow> i < length ts \<and> tk_kind (ts ! i) = Tok_Period \<and>
     (if 2 \<le> i then \<not> (opens ts (i - 2) \<and> (reads ''ent'' (ts ! (i - 1)) \<or> reads ''end'' (ts ! (i - 1)))) else True) \<and>
     (if 5 \<le> i then \<not> (opens ts (i - 5) \<and> reads ''type'' (ts ! (i - 4)) \<and> is_word (ts ! (i - 3)) \<and>
        tk_kind (ts ! (i - 2)) = Tok_Comma \<and> tk_text (ts ! (i - 1)) \<in> set mark_prefixes) else True)"
  by pat_completeness auto
termination by (relation "measure snd") auto

declare opens.simps [simp del]

text \<open>\<open>.type n,\<close> begins at \<open>i\<close>.\<close>

definition type_head :: "token list \<Rightarrow> nat \<Rightarrow> bool" where
  "type_head ts i \<longleftrightarrow> opens ts i \<and> i + 3 < length ts \<and> reads ''type'' (ts ! (i + 1)) \<and> is_word (ts ! (i + 2)) \<and>
     tk_kind (ts ! (i + 3)) = Tok_Comma"

text \<open>
  The token at \<open>k\<close> completes a declaration of \<open>n\<close> as a function: \<open>.type n, @function\<close> with the sign
  and the word in one token or in two, or \<open>.ent n\<close>. It completes the end of \<open>n\<close>: \<open>.end n\<close>.
\<close>

definition declares :: "token list \<Rightarrow> nat \<Rightarrow> string \<Rightarrow> bool" where
  "declares ts k n \<longleftrightarrow> k < length ts \<and>
     (4 \<le> k \<and> type_head ts (k - 4) \<and> tk_text (ts ! (k - 2)) = n \<and> tk_text (ts ! k) \<in> set function_marks \<or>
      5 \<le> k \<and> type_head ts (k - 5) \<and> tk_text (ts ! (k - 3)) = n \<and> tk_text (ts ! (k - 1)) \<in> set mark_prefixes \<and>
        tk_text (ts ! k) = ''function'' \<or>
      2 \<le> k \<and> opens ts (k - 2) \<and> reads ''ent'' (ts ! (k - 1)) \<and> reads n (ts ! k))"

definition finishes :: "token list \<Rightarrow> nat \<Rightarrow> string \<Rightarrow> bool" where
  "finishes ts k n \<longleftrightarrow> k < length ts \<and> 2 \<le> k \<and> opens ts (k - 2) \<and> reads ''end'' (ts ! (k - 1)) \<and> reads n (ts ! k)"

text \<open>A period is spelled as one; the kind and the text of a token come from the same lexer.\<close>

definition well_spelled :: "token list \<Rightarrow> bool" where
  "well_spelled ts \<longleftrightarrow> (\<forall>t\<in>set ts. tk_kind t = Tok_Period \<longrightarrow> tk_text t = ''.'')"

text \<open>A function begins at the first label of a name that is declared as a function.\<close>

definition function_at :: "token list \<Rightarrow> nat \<Rightarrow> bool" where
  "function_at ts i \<longleftrightarrow> (let n = tk_text (ts ! i) in
     labelled ts i n \<and> (\<forall>j<i. \<not> labelled ts j n) \<and> (\<exists>k<length ts. declares ts k n))"

definition starts :: "token list \<Rightarrow> nat list" where
  "starts ts = filter (function_at ts) [0..<length ts]"

text \<open>
  Its end: the last \<open>.end\<close> of its name behind the label and the first declaration, or else the
  declaration if that is behind the label, or else (as 0) none of its own.
\<close>

definition own_end :: "token list \<Rightarrow> nat \<Rightarrow> nat" where
  "own_end ts i =
     (let n = tk_text (ts ! i);
          d = hd (filter (\<lambda>k. declares ts k n) [0..<length ts]);
          ks = filter (\<lambda>k. finishes ts k n \<and> max d (i + 1) < k) [0..<length ts]
      in if ks \<noteq> [] then List.last ks else if i < d then d else 0)"

text \<open>A function without an end of its own reaches to the next one, the last one to the end of the file.\<close>

definition extents :: "token list \<Rightarrow> (string \<times> nat \<times> nat) list" where
  "extents ts = map (\<lambda>(i, next). (tk_text (ts ! i), i, if own_end ts i < i then next else own_end ts i))
     (zip (starts ts) (tl (starts ts) @ [SIZE_MAX]))"




text \<open>The place that is recorded for a token.\<close>

definition place :: "source_manager \<Rightarrow> token \<Rightarrow> source_location" where
  "place sm t = (case loc_to_file sm (sm_spelling sm (tk_loc t)) of (file, line, column) \<Rightarrow>
     \<lparr>lc_file = Some file, lc_line = line, lc_column = column\<rparr>)"

definition recorded :: "source_manager \<Rightarrow> parser \<Rightarrow> token \<Rightarrow> bool" where
  "recorded sm p t \<longleftrightarrow> loc_in_scope sm (px_scope p) (sm_spelling sm (tk_loc t))"

definition symbol_facts where
  "symbol_facts s = (ps_kind s, ps_name s, ps_definition s, ps_local s, ps_loc s)"


section \<open>One token more\<close>

lemma is_identifier_word: "is_identifier t = is_word t"
  by (auto simp: is_identifier_def is_word_def)

lemma opens_append: "i < length ts \<Longrightarrow> opens (ts @ us) i = opens ts i"
proof (induction i rule: less_induct)
  case (less i)
  have nth: "(ts @ us) ! i = ts ! i" "(ts @ us) ! (i - c) = ts ! (i - c)" for c
    using less.prems by (simp_all add: nth_append less_imp_diff_less)
  have "opens (ts @ us) (i - 2) = opens ts (i - 2)" if "2 \<le> i" using that less by simp
  moreover have "opens (ts @ us) (i - 5) = opens ts (i - 5)" if "5 \<le> i" using that less by simp
  ultimately show ?case
    using less.prems unfolding opens.simps [of "ts @ us" i] opens.simps [of ts i] nth by simp
qed

lemma type_head_append: "i + 3 < length ts \<Longrightarrow> type_head (ts @ us) i = type_head ts i"
  by (simp add: type_head_def opens_append nth_append)

lemma type_head_length: "type_head ts i \<Longrightarrow> i + 3 < length ts"
  by (simp add: type_head_def)

lemma opens_less: "opens ts i \<Longrightarrow> i < length ts"
  by (subst (asm) opens.simps) simp

text \<open>What the tokens end with.\<close>

definition ends_open :: "token list \<Rightarrow> bool" where
  "ends_open ts \<longleftrightarrow> ts \<noteq> [] \<and> opens ts (length ts - 1)"

definition ends_keyword :: "string \<Rightarrow> token list \<Rightarrow> bool" where
  "ends_keyword s ts \<longleftrightarrow> 2 \<le> length ts \<and> opens ts (length ts - 2) \<and> reads s (ts ! (length ts - 1))"

definition ends_name :: "token list \<Rightarrow> bool" where
  "ends_name ts \<longleftrightarrow> 3 \<le> length ts \<and> opens ts (length ts - 3) \<and> reads ''type'' (ts ! (length ts - 2)) \<and>
     is_word (ts ! (length ts - 1))"

definition ends_comma :: "token list \<Rightarrow> bool" where
  "ends_comma ts \<longleftrightarrow> 4 \<le> length ts \<and> type_head ts (length ts - 4)"

definition ends_prefix :: "token list \<Rightarrow> bool" where
  "ends_prefix ts \<longleftrightarrow> 5 \<le> length ts \<and> type_head ts (length ts - 5) \<and> tk_text (ts ! (length ts - 1)) \<in> set mark_prefixes"

lemma snoc_nth: "0 < c \<Longrightarrow> c \<le> length ts \<Longrightarrow> (ts @ [t]) ! (length ts - c) = ts ! (length ts - c)"
  by (simp add: nth_append_left)

lemma snoc_opens: "0 < c \<Longrightarrow> c \<le> length ts \<Longrightarrow> opens (ts @ [t]) (length ts - c) = opens ts (length ts - c)"
  by (simp add: opens_append)

lemma snoc_head: "4 \<le> c \<Longrightarrow> c \<le> length ts \<Longrightarrow> type_head (ts @ [t]) (length ts - c) = type_head ts (length ts - c)"
  by (simp add: type_head_append)

lemmas snoc_simps = snoc_nth snoc_opens snoc_head

lemma head_positions:
  "5 \<le> m \<Longrightarrow> m - 5 + 1 = m - (4 :: nat)" "5 \<le> m \<Longrightarrow> m - 5 + 2 = m - (3 :: nat)" "5 \<le> m \<Longrightarrow> m - 5 + 3 = m - (2 :: nat)"
  "3 \<le> m \<Longrightarrow> m - 3 + 1 = m - (2 :: nat)" "3 \<le> m \<Longrightarrow> m - 3 + 2 = m - (1 :: nat)" "3 \<le> m \<Longrightarrow> m - 3 + 3 = (m :: nat)"
  by simp_all

lemma snoc_lengths:
  "length (ts @ [t]) - 1 = length ts" "length (ts @ [t]) - 2 = length ts - 1" "length (ts @ [t]) - 3 = length ts - 2"
  "length (ts @ [t]) - 4 = length ts - 3" "length (ts @ [t]) - 5 = length ts - 4"
  by simp_all

lemma ends_open_snoc:
  "ends_open (ts @ [t]) \<longleftrightarrow> tk_kind t = Tok_Period \<and> \<not> ends_keyword ''ent'' ts \<and> \<not> ends_keyword ''end'' ts \<and> \<not> ends_prefix ts"
proof -
  have "ends_open (ts @ [t]) = opens (ts @ [t]) (length ts)" by (simp add: ends_open_def)
  also have "\<dots> \<longleftrightarrow> tk_kind t = Tok_Period \<and> \<not> ends_keyword ''ent'' ts \<and> \<not> ends_keyword ''end'' ts \<and> \<not> ends_prefix ts"
  proof (cases "5 \<le> length ts")
    case True
    have "ends_prefix ts \<longleftrightarrow> opens ts (length ts - 5) \<and> reads ''type'' (ts ! (length ts - 4)) \<and> is_word (ts ! (length ts - 3)) \<and>
        tk_kind (ts ! (length ts - 2)) = Tok_Comma \<and> tk_text (ts ! (length ts - 1)) \<in> set mark_prefixes"
      using True unfolding ends_prefix_def type_head_def head_positions(1-3) [OF True] by auto
    with True show ?thesis
      unfolding opens.simps [of "ts @ [t]" "length ts"] ends_keyword_def by (simp add: snoc_simps) blast
  next
    case False
    then show ?thesis
      unfolding opens.simps [of "ts @ [t]" "length ts"] ends_keyword_def ends_prefix_def
      by (cases "2 \<le> length ts") (simp_all add: snoc_simps, blast)
  qed
  finally show ?thesis .
qed

lemma ends_snoc:
  "ends_open (ts @ [t]) \<longleftrightarrow> tk_kind t = Tok_Period \<and> \<not> ends_keyword ''ent'' ts \<and> \<not> ends_keyword ''end'' ts \<and> \<not> ends_prefix ts"
  "ends_keyword s (ts @ [t]) \<longleftrightarrow> ends_open ts \<and> reads s t"
  "ends_name (ts @ [t]) \<longleftrightarrow> ends_keyword ''type'' ts \<and> is_word t"
  "ends_comma (ts @ [t]) \<longleftrightarrow> ends_name ts \<and> tk_kind t = Tok_Comma"
  "ends_prefix (ts @ [t]) \<longleftrightarrow> ends_comma ts \<and> tk_text t \<in> set mark_prefixes"
proof -
  show "ends_open (ts @ [t]) \<longleftrightarrow> tk_kind t = Tok_Period \<and> \<not> ends_keyword ''ent'' ts \<and> \<not> ends_keyword ''end'' ts \<and> \<not> ends_prefix ts"
    by (rule ends_open_snoc)
  show "ends_keyword s (ts @ [t]) \<longleftrightarrow> ends_open ts \<and> reads s t"
    unfolding ends_open_def ends_keyword_def snoc_lengths by (cases "ts = []") (simp_all add: snoc_simps Suc_le_eq)
  show "ends_name (ts @ [t]) \<longleftrightarrow> ends_keyword ''type'' ts \<and> is_word t"
    unfolding ends_name_def ends_keyword_def snoc_lengths by (cases "2 \<le> length ts") (simp_all add: snoc_simps)
  show "ends_comma (ts @ [t]) \<longleftrightarrow> ends_name ts \<and> tk_kind t = Tok_Comma"
  proof (cases "3 \<le> length ts")
    case True
    then show ?thesis
      unfolding ends_comma_def ends_name_def snoc_lengths type_head_def head_positions(4-6) [OF True]
      by (simp add: snoc_simps)
  qed (simp add: ends_comma_def ends_name_def)
  show "ends_prefix (ts @ [t]) \<longleftrightarrow> ends_comma ts \<and> tk_text t \<in> set mark_prefixes"
    unfolding ends_prefix_def ends_comma_def snoc_lengths by (cases "4 \<le> length ts") (simp_all add: snoc_simps)
qed

text \<open>A token more declares or ends at most at its own position.\<close>

lemma declares_snoc:
  "declares (ts @ [t]) k n \<longleftrightarrow> declares ts k n \<or>
     k = length ts \<and>
       (ends_comma ts \<and> tk_text (ts ! (length ts - 2)) = n \<and> tk_text t \<in> set function_marks \<or>
        ends_prefix ts \<and> tk_text (ts ! (length ts - 3)) = n \<and> tk_text t = ''function'' \<or>
        ends_keyword ''ent'' ts \<and> reads n t)"
proof (cases "k < length ts")
  case True
  have nth: "(ts @ [t]) ! k = ts ! k" "(ts @ [t]) ! (k - c) = ts ! (k - c)" "opens (ts @ [t]) (k - c) = opens ts (k - c)" for c
    using True by (simp_all add: nth_append opens_append less_imp_diff_less)
  have "type_head (ts @ [t]) (k - 4) = type_head ts (k - 4)" if "4 \<le> k" using that True by (intro type_head_append) simp
  moreover have "type_head (ts @ [t]) (k - 5) = type_head ts (k - 5)" if "5 \<le> k" using that True by (intro type_head_append) simp
  ultimately show ?thesis
    using True unfolding declares_def nth by (cases "4 \<le> k"; cases "5 \<le> k") simp_all
next
  case False
  then show ?thesis
  proof (cases "k = length ts")
    case True
    then show ?thesis
      unfolding declares_def ends_comma_def ends_prefix_def ends_keyword_def
      by (cases "5 \<le> length ts"; cases "4 \<le> length ts"; cases "2 \<le> length ts") (simp_all add: snoc_simps type_head_append, blast+)
  qed (simp add: declares_def)
qed

lemma finishes_snoc:
  "finishes (ts @ [t]) k n \<longleftrightarrow> finishes ts k n \<or> k = length ts \<and> ends_keyword ''end'' ts \<and> reads n t"
  by (cases "k < length ts"; cases "k = length ts"; cases "2 \<le> length ts")
    (simp_all add: finishes_def ends_keyword_def snoc_simps opens_append nth_append_left)

lemma labelled_snoc:
  "labelled (ts @ [t]) i n \<longleftrightarrow> labelled ts i n \<or>
     tk_kind t = Tok_Colon \<and> ts \<noteq> [] \<and> i = length ts - 1 \<and> reads n (List.last ts) \<and> n \<noteq> []"
  by (cases ts rule: rev_cases) (auto simp: labelled_def nth_append less_Suc_eq)

lemma labelled_less: "labelled ts i n \<Longrightarrow> i + 1 < length ts"
  by (simp add: labelled_def)

lemma labelled_name: "labelled ts i n \<Longrightarrow> n = tk_text (ts ! i)"
  by (simp add: labelled_def reads_def)

lemma declares_less: "declares ts k n \<Longrightarrow> k < length ts"
  by (simp add: declares_def)

lemma finishes_less: "finishes ts k n \<Longrightarrow> k < length ts"
  by (simp add: finishes_def)

section \<open>Directives\<close>

definition previous_ok :: "token list \<Rightarrow> asm_indexer \<Rightarrow> bool" where
  "previous_ok ts a \<longleftrightarrow> as_order a = length ts \<and>
     as_previous a = (if ts \<noteq> [] \<and> is_word (List.last ts) then tk_text (List.last ts) else []) \<and>
     (as_previous a \<noteq> [] \<longrightarrow> as_previous_order a = length ts - 1 \<and> as_previous_location a = tk_loc (List.last ts))"

definition directive_ok :: "token list \<Rightarrow> asm_indexer \<Rightarrow> bool" where
  "directive_ok ts a \<longleftrightarrow>
     (as_type_state a = Type_Dot \<longleftrightarrow> ends_open ts) \<and> (as_type_state a = Type_Directive \<longleftrightarrow> ends_keyword ''type'' ts) \<and>
     (as_type_state a = Type_EntName \<longleftrightarrow> ends_keyword ''ent'' ts) \<and> (as_type_state a = Type_EndName \<longleftrightarrow> ends_keyword ''end'' ts) \<and>
     (as_type_state a = Type_Name \<longleftrightarrow> ends_name ts) \<and> (as_type_state a = Type_Comma \<longleftrightarrow> ends_comma ts) \<and>
     (as_type_state a = Type_Marker \<longleftrightarrow> ends_prefix ts) \<and>
     (ends_name ts \<longrightarrow> as_type_name a = tk_text (ts ! (length ts - 1))) \<and>
     (ends_comma ts \<longrightarrow> as_type_name a = tk_text (ts ! (length ts - 2))) \<and>
     (ends_prefix ts \<longrightarrow> as_type_name a = tk_text (ts ! (length ts - 3)))"

lemma try_add_fields [simp]:
  "as_order (fst (try_add_function sm name ap)) = as_order (fst ap)"
  "as_previous (fst (try_add_function sm name ap)) = as_previous (fst ap)"
  "as_previous_order (fst (try_add_function sm name ap)) = as_previous_order (fst ap)"
  "as_previous_location (fst (try_add_function sm name ap)) = as_previous_location (fst ap)"
  "as_type_state (fst (try_add_function sm name ap)) = as_type_state (fst ap)"
  "as_type_name (fst (try_add_function sm name ap)) = as_type_name (fst ap)"
  "as_calls (fst (try_add_function sm name ap)) = as_calls (fst ap)"
  "as_call_state (fst (try_add_function sm name ap)) = as_call_state (fst ap)"
  "as_jal_target (fst (try_add_function sm name ap)) = as_jal_target (fst ap)"
  "as_jal_location (fst (try_add_function sm name ap)) = as_jal_location (fst ap)"
  "as_jal_order (fst (try_add_function sm name ap)) = as_jal_order (fst ap)"
  "as_types (fst (try_add_function sm name ap)) = as_types (fst ap)"
  "as_labels (fst (try_add_function sm name ap)) = as_labels (fst ap)"
  by (auto simp: try_add_function_def split: option.split prod.split)

lemma add_function_type_fields [simp]:
  "as_order (fst (add_function_type sm name loc k ap)) = as_order (fst ap)"
  "as_previous (fst (add_function_type sm name loc k ap)) = as_previous (fst ap)"
  "as_previous_order (fst (add_function_type sm name loc k ap)) = as_previous_order (fst ap)"
  "as_previous_location (fst (add_function_type sm name loc k ap)) = as_previous_location (fst ap)"
  "as_type_name (fst (add_function_type sm name loc k ap)) = as_type_name (fst ap)"
  "as_calls (fst (add_function_type sm name loc k ap)) = as_calls (fst ap)"
  "as_call_state (fst (add_function_type sm name loc k ap)) = as_call_state (fst ap)"
  "as_jal_target (fst (add_function_type sm name loc k ap)) = as_jal_target (fst ap)"
  "as_jal_location (fst (add_function_type sm name loc k ap)) = as_jal_location (fst ap)"
  "as_jal_order (fst (add_function_type sm name loc k ap)) = as_jal_order (fst ap)"
  "as_labels (fst (add_function_type sm name loc k ap)) = as_labels (fst ap)"
  by (simp_all add: add_function_type_def)

lemma end_function_fields [simp]:
  "as_order (end_function n k a) = as_order a" "as_previous (end_function n k a) = as_previous a"
  "as_previous_order (end_function n k a) = as_previous_order a"
  "as_previous_location (end_function n k a) = as_previous_location a" "as_type_name (end_function n k a) = as_type_name a"
  "as_calls (end_function n k a) = as_calls a" "as_call_state (end_function n k a) = as_call_state a"
  "as_jal_target (end_function n k a) = as_jal_target a" "as_jal_location (end_function n k a) = as_jal_location a"
  "as_jal_order (end_function n k a) = as_jal_order a" "as_types (end_function n k a) = as_types a"
  "as_labels (end_function n k a) = as_labels a"
  by (simp_all add: end_function_def)

lemma observe_directive_fields [simp]:
  "as_order (fst (observe_directive sm t ap)) = as_order (fst ap)"
  "as_previous (fst (observe_directive sm t ap)) = as_previous (fst ap)"
  "as_previous_order (fst (observe_directive sm t ap)) = as_previous_order (fst ap)"
  "as_previous_location (fst (observe_directive sm t ap)) = as_previous_location (fst ap)"
  "as_calls (fst (observe_directive sm t ap)) = as_calls (fst ap)"
  "as_call_state (fst (observe_directive sm t ap)) = as_call_state (fst ap)"
  "as_jal_target (fst (observe_directive sm t ap)) = as_jal_target (fst ap)"
  "as_jal_location (fst (observe_directive sm t ap)) = as_jal_location (fst ap)"
  "as_jal_order (fst (observe_directive sm t ap)) = as_jal_order (fst ap)"
  "as_labels (fst (observe_directive sm t ap)) = as_labels (fst ap)"
  by (cases "as_type_state (fst ap)"; simp add: observe_directive_def observe_type_def Let_def reset_type_def)+

lemma observe_call_fields [simp]:
  "as_types (observe_call t a) = as_types a" "as_labels (observe_call t a) = as_labels a"
  "as_emitted (observe_call t a) = as_emitted a" "as_functions (observe_call t a) = as_functions a"
  "as_order (observe_call t a) = as_order a" "as_previous (observe_call t a) = as_previous a"
  "as_previous_order (observe_call t a) = as_previous_order a"
  "as_previous_location (observe_call t a) = as_previous_location a"
  "as_type_state (observe_call t a) = as_type_state a" "as_type_name (observe_call t a) = as_type_name a"
  by (simp_all add: observe_call_def add_pending_call_def split: call_state.split)

lemma observe_label_fields [simp]:
  "as_order (fst (observe_label sm t ap)) = as_order (fst ap)"
  "as_type_state (fst (observe_label sm t ap)) = as_type_state (fst ap)"
  "as_type_name (fst (observe_label sm t ap)) = as_type_name (fst ap)"
  "as_calls (fst (observe_label sm t ap)) = as_calls (fst ap)"
  "as_call_state (fst (observe_label sm t ap)) = as_call_state (fst ap)"
  "as_jal_target (fst (observe_label sm t ap)) = as_jal_target (fst ap)"
  "as_jal_location (fst (observe_label sm t ap)) = as_jal_location (fst ap)"
  "as_jal_order (fst (observe_label sm t ap)) = as_jal_order (fst ap)"
  by (simp_all add: observe_label_def add_label_def Let_def)

lemma marks_disjoint:
  "s \<in> set function_marks \<Longrightarrow> s \<notin> set mark_prefixes" "''.'' \<notin> set function_marks" "''.'' \<notin> set mark_prefixes"
  by (auto simp: function_marks_def mark_prefixes_def)

lemma markers: "is_function_marker t \<longleftrightarrow> tk_text t \<in> set function_marks" "is_marker_prefix t \<longleftrightarrow> tk_text t \<in> set mark_prefixes"
  by (auto simp: is_function_marker_def is_marker_prefix_def function_marks_def mark_prefixes_def)

lemma word_kinds: "is_word t \<Longrightarrow> tk_kind t \<noteq> Tok_Period \<and> tk_kind t \<noteq> Tok_Comma \<and> tk_kind t \<noteq> Tok_Colon"
  by (auto simp: is_word_def)

lemma ends_lengths: "ends_name ts \<Longrightarrow> 3 \<le> length ts" "ends_comma ts \<Longrightarrow> 4 \<le> length ts"
  by (simp_all add: ends_name_def ends_comma_def)

text \<open>The state of the automaton says what the tokens end with.\<close>

lemma observe_directive_state:
  assumes "directive_ok ts (fst ap)" and "tk_kind t = Tok_Period \<longrightarrow> tk_text t = ''.''"
  shows "directive_ok (ts @ [t]) (fst (observe_directive sm t ap))"
proof (cases "as_type_state (fst ap)")
  case Type_None
  with assms show ?thesis by (auto simp: directive_ok_def observe_directive_def ends_snoc)
next
  case Type_Dot
  with assms show ?thesis
    by (auto simp: directive_ok_def observe_directive_def observe_type_def Let_def ends_snoc is_identifier_word reset_type_def
        reads_def word_kinds)
next
  case Type_Directive
  with assms show ?thesis
    by (auto simp: directive_ok_def observe_directive_def observe_type_def Let_def ends_snoc is_identifier_word reset_type_def
        word_kinds)
next
  case Type_EntName
  with assms show ?thesis
    by (auto simp: directive_ok_def observe_directive_def observe_type_def Let_def ends_snoc)
next
  case Type_EndName
  with assms show ?thesis
    by (auto simp: directive_ok_def observe_directive_def observe_type_def Let_def ends_snoc)
next
  case Type_Name
  then have "3 \<le> length ts" using assms(1) by (simp add: directive_ok_def ends_lengths)
  with Type_Name assms show ?thesis
    by (auto simp: directive_ok_def observe_directive_def observe_type_def Let_def ends_snoc reset_type_def snoc_simps)
next
  case Type_Comma
  then have "4 \<le> length ts" using assms(1) by (simp add: directive_ok_def ends_lengths)
  with Type_Comma assms show ?thesis
    by (auto simp: directive_ok_def observe_directive_def observe_type_def Let_def ends_snoc reset_type_def snoc_simps markers
        marks_disjoint(2,3) dest: marks_disjoint(1))
next
  case Type_Marker
  with assms show ?thesis
    by (auto simp: directive_ok_def observe_directive_def observe_type_def Let_def ends_snoc)
qed

section \<open>Functions\<close>

text \<open>A table of first positions.\<close>

definition label_ok :: "(nat \<Rightarrow> string \<Rightarrow> bool) \<Rightarrow> string \<Rightarrow> marker option \<Rightarrow> bool" where
  "label_ok lab n m =
     (case m of None \<Rightarrow> \<forall>i. \<not> lab i n | Some l \<Rightarrow> lab (mk_order l) n \<and> (\<forall>i<mk_order l. \<not> lab i n))"

definition complete :: "asm_indexer \<Rightarrow> string set" where
  "complete a = {n. as_types a n \<noteq> None \<and> as_labels a n \<noteq> None}"

text \<open>The last position that finishes \<open>n\<close> behind \<open>m\<close>, or else \<open>z\<close>.\<close>

definition end_ok :: "(nat \<Rightarrow> string \<Rightarrow> bool) \<Rightarrow> string \<Rightarrow> nat \<Rightarrow> nat \<Rightarrow> nat \<Rightarrow> bool" where
  "end_ok fin n m z e \<longleftrightarrow>
     (if \<exists>k>m. fin k n then fin e n \<and> m < e \<and> (\<forall>k. fin k n \<longrightarrow> k \<le> e) else e = z)"

definition function_ok :: "(nat \<Rightarrow> string \<Rightarrow> bool) \<Rightarrow> asm_indexer \<Rightarrow> asm_function \<Rightarrow> bool" where
  "function_ok fin a f \<longleftrightarrow>
     (\<exists>d l. as_types a (af_name f) = Some d \<and> as_labels a (af_name f) = Some l \<and> af_begin f = mk_order l \<and>
        end_ok fin (af_name f) (max (mk_order d) (mk_order l + 1)) (if mk_order l < mk_order d then mk_order d else 0) (af_end f))"

text \<open>The invariant, except for the names in a set, which are still to be tried.\<close>

definition functions_ok ::
  "(nat \<Rightarrow> string \<Rightarrow> bool) \<Rightarrow> (nat \<Rightarrow> string \<Rightarrow> bool) \<Rightarrow> (nat \<Rightarrow> string \<Rightarrow> bool) \<Rightarrow> string set \<Rightarrow> asm_indexer \<Rightarrow> bool" where
  "functions_ok lab dec fin X a \<longleftrightarrow>
     (\<forall>n. label_ok lab n (as_labels a n)) \<and> (\<forall>n. label_ok dec n (as_types a n)) \<and>
     complete a - X \<subseteq> as_emitted a \<and> as_emitted a \<subseteq> complete a \<and>
     af_name ` set (as_functions a) = as_emitted a \<and> distinct (map af_name (as_functions a)) \<and>
     (\<forall>f\<in>set (as_functions a). function_ok fin a f)"

lemma try_add_ok:
  assumes "functions_ok lab dec fin {name} a"
    and "\<And>d l k. name \<notin> as_emitted a \<Longrightarrow> as_types a name = Some d \<Longrightarrow> as_labels a name = Some l \<Longrightarrow> fin k name \<Longrightarrow>
      k \<le> max (mk_order d) (mk_order l + 1)"
  shows "functions_ok lab dec fin {} (fst (try_add_function sm name (a, p)))"
proof (cases "name \<in> complete a \<and> name \<notin> as_emitted a")
  case True
  then obtain d l where dl: "as_types a name = Some d" "as_labels a name = Some l" by (auto simp: complete_def)
  let ?f = "\<lparr>af_name = name, af_begin = mk_order l, af_end = (if mk_order d > mk_order l then mk_order d else 0)\<rparr>"
  let ?a = "a\<lparr>as_emitted := insert name (as_emitted a), as_functions := as_functions a @ [?f]\<rparr>"
  have r: "fst (try_add_function sm name (a, p)) = ?a" using True dl by (simp add: try_add_function_def)
  have same: "function_ok fin ?a f = function_ok fin a f" for f by (simp add: function_ok_def)
  have "\<not> (\<exists>k>max (mk_order d) (mk_order l + 1). fin k name)"
    using assms(2) [of d l] True dl by (meson leD)
  then have "function_ok fin a ?f" using dl by (simp add: function_ok_def end_ok_def)
  then show ?thesis
    using assms(1) True unfolding r functions_ok_def by (auto simp: same complete_def)
next
  case False
  then have "fst (try_add_function sm name (a, p)) = a"
    by (auto simp: try_add_function_def complete_def split: option.split)
  with assms(1) False show ?thesis by (auto simp: functions_ok_def)
qed

lemma emplace_label_ok:
  assumes "\<forall>n. label_ok lab n (m n)" and "\<And>n i. lab' i n \<longleftrightarrow> lab i n \<or> (i = k \<and> n = name)"
    and "\<And>i n. lab i n \<Longrightarrow> i < k"
  shows "label_ok lab' n (emplace name \<lparr>mk_location = loc, mk_order = k\<rparr> m n)"
proof (cases "n = name")
  case True
  show ?thesis
  proof (cases "m name")
    case None
    with spec [OF assms(1), of name] have "\<forall>i. \<not> lab i name" by (simp add: label_ok_def)
    with True None assms(2) show ?thesis by (simp add: label_ok_def emplace_def)
  next
    case (Some l)
    with spec [OF assms(1), of name] have "lab (mk_order l) name" "\<forall>i<mk_order l. \<not> lab i name"
      by (simp_all add: label_ok_def)
    moreover from this(1) have "mk_order l < k" by (rule assms(3))
    ultimately show ?thesis using True Some assms(2) by (auto simp: label_ok_def emplace_def)
  qed
next
  case False
  with spec [OF assms(1), of n] assms(2) show ?thesis by (auto simp: label_ok_def emplace_def split: option.splits)
qed

lemma function_ok_mono:
  assumes "function_ok fin a f" "as_types a (af_name f) \<noteq> None \<Longrightarrow> as_types b (af_name f) = as_types a (af_name f)"
    "as_labels a (af_name f) \<noteq> None \<Longrightarrow> as_labels b (af_name f) = as_labels a (af_name f)"
  shows "function_ok fin b f"
  using assms unfolding function_ok_def by (elim exE conjE, intro exI conjI) simp_all

lemma emplace_some [simp]: "m k \<noteq> None \<Longrightarrow> emplace n v m k = m k" "emplace n v m n \<noteq> None"
  by (auto simp: emplace_def split: option.split)

lemma emplace_new: "m n = None \<Longrightarrow> emplace n v m = m(n \<mapsto> v)" "m n \<noteq> None \<Longrightarrow> emplace n v m = m"
  by (auto simp: emplace_def)

lemma add_type_ok:
  assumes ok: "functions_ok lab dec fin {} (fst ap)" and dec': "\<And>n i. dec' i n \<longleftrightarrow> dec i n \<or> (i = k \<and> n = name)"
    and less: "\<And>i n. dec i n \<Longrightarrow> i < k" "\<And>i n. fin i n \<Longrightarrow> i \<le> k"
  shows "functions_ok lab dec' fin {} (fst (add_function_type sm name loc k ap))"
proof -
  let ?m = "\<lparr>mk_location = loc, mk_order = k\<rparr>"
  let ?a = "(fst ap)\<lparr>as_types := emplace name ?m (as_types (fst ap))\<rparr>"
  have "label_ok dec' n (as_types ?a n)" for n
    using emplace_label_ok [of dec "as_types (fst ap)" dec' k name n loc] ok dec' less by (simp add: functions_ok_def)
  moreover have "function_ok fin ?a f" if "f \<in> set (as_functions (fst ap))" for f
    using ok that by (auto simp: functions_ok_def intro: function_ok_mono)
  moreover have "complete (fst ap) \<subseteq> complete ?a" "complete ?a - {name} \<subseteq> complete (fst ap)"
    by (auto simp: complete_def emplace_def split: option.splits if_splits)
  ultimately have "functions_ok lab dec' fin {name} ?a" using ok by (auto simp: functions_ok_def)
  then show ?thesis
    unfolding add_function_type_def
  proof (rule try_add_ok)
    fix d l i assume new: "name \<notin> as_emitted ?a" "as_types ?a name = Some d" "as_labels ?a name = Some l" "fin i name"
    then have "as_types (fst ap) name = None" using ok by (auto simp: functions_ok_def complete_def)
    with new(2) have "d = ?m" by (simp add: emplace_new)
    with less(2) [OF new(4)] show "i \<le> max (mk_order d) (mk_order l + 1)" by simp
  qed
qed

lemma add_label_ok:
  assumes ok: "functions_ok lab dec fin {} (fst ap)" and lab': "\<And>n i. lab' i n \<longleftrightarrow> lab i n \<or> (i = k \<and> n = name)"
    and less: "\<And>i n. lab i n \<Longrightarrow> i < k" "\<And>i n. fin i n \<Longrightarrow> i \<le> k + 1"
  shows "functions_ok lab' dec fin {} (fst (add_label sm name loc k ap))"
proof -
  let ?m = "\<lparr>mk_location = loc, mk_order = k\<rparr>"
  let ?a = "(fst ap)\<lparr>as_labels := emplace name ?m (as_labels (fst ap))\<rparr>"
  have "label_ok lab' n (as_labels ?a n)" for n
    using emplace_label_ok [of lab "as_labels (fst ap)" lab' k name n loc] ok lab' less by (simp add: functions_ok_def)
  moreover have "function_ok fin ?a f" if "f \<in> set (as_functions (fst ap))" for f
    using ok that by (auto simp: functions_ok_def intro: function_ok_mono)
  moreover have "complete (fst ap) \<subseteq> complete ?a" "complete ?a - {name} \<subseteq> complete (fst ap)"
    by (auto simp: complete_def emplace_def split: option.splits if_splits)
  ultimately have "functions_ok lab' dec fin {name} ?a" using ok by (auto simp: functions_ok_def)
  then show ?thesis
    unfolding add_label_def
  proof (rule try_add_ok)
    fix d l i assume new: "name \<notin> as_emitted ?a" "as_types ?a name = Some d" "as_labels ?a name = Some l" "fin i name"
    then have "as_labels (fst ap) name = None" using ok by (auto simp: functions_ok_def complete_def)
    with new(3) have "l = ?m" by (simp add: emplace_new)
    with less(2) [OF new(4)] show "i \<le> max (mk_order d) (mk_order l + 1)" by simp
  qed
qed

lemma end_ok_extend:
  assumes "end_ok fin n m z e" "\<And>i. fin i n \<Longrightarrow> i < k" "m < k"
  shows "end_ok (\<lambda>i n'. fin i n' \<or> i = k \<and> n' = name) n m z (if n = name then k else e)"
  using assms by (auto simp: end_ok_def intro: less_imp_le)

lemma end_function_ok:
  assumes ok: "functions_ok lab dec fin {} a" and fin': "\<And>n i. fin' i n \<longleftrightarrow> fin i n \<or> (i = k \<and> n = name)"
    and less: "\<And>i n. fin i n \<Longrightarrow> i < k" "\<And>i n. lab i n \<Longrightarrow> i + 1 < k" "\<And>i n. dec i n \<Longrightarrow> i < k"
  shows "functions_ok lab dec fin' {} (end_function name k a)"
proof -
  let ?g = "\<lambda>f. if af_name f = name then f\<lparr>af_end := k\<rparr> else f"
  have f': "fin' = (\<lambda>i n'. fin i n' \<or> i = k \<and> n' = name)" using fin' by (auto simp: fun_eq_iff)
  have names: "map af_name (map ?g fs) = map af_name fs" for fs by simp
  have each: "function_ok fin' a (?g f)" if "f \<in> set (as_functions a)" for f
  proof -
    from ok that have "function_ok fin a f" by (simp add: functions_ok_def)
    then obtain d l where dl: "as_types a (af_name f) = Some d" "as_labels a (af_name f) = Some l" "af_begin f = mk_order l"
      "end_ok fin (af_name f) (max (mk_order d) (mk_order l + 1)) (if mk_order l < mk_order d then mk_order d else 0) (af_end f)"
      by (auto simp: function_ok_def)
    from ok have "label_ok lab (af_name f) (as_labels a (af_name f))" "label_ok dec (af_name f) (as_types a (af_name f))"
      by (simp_all add: functions_ok_def)
    then have "lab (mk_order l) (af_name f)" "dec (mk_order d) (af_name f)" using dl by (simp_all add: label_ok_def)
    from less(2) [OF this(1)] less(3) [OF this(2)] have "max (mk_order d) (mk_order l + 1) < k" by simp
    with end_ok_extend [where name = name and k = k, OF dl(4)] less(1)
    have "end_ok fin' (af_name f) (max (mk_order d) (mk_order l + 1)) (if mk_order l < mk_order d then mk_order d else 0)
        (if af_name f = name then k else af_end f)" unfolding f' by blast
    with dl(1-3) show ?thesis
      unfolding function_ok_def by (rule_tac x = d in exI, rule_tac x = l in exI, cases "af_name f = name"; cases "mk_order l < mk_order d"; simp)
  qed
  have "\<forall>f\<in>set (map ?g (as_functions a)). function_ok fin' a f" using each by (metis (no_types, lifting) imageE set_map)
  moreover have "as_functions (end_function name k a) = map ?g (as_functions a)"
    "as_emitted (end_function name k a) = as_emitted a" "complete (end_function name k a) = complete a"
    by (simp_all add: end_function_def complete_def)
  moreover have "function_ok fin' (end_function name k a) f = function_ok fin' a f" for f by (simp add: function_ok_def)
  moreover have "af_name ` set (map ?g (as_functions a)) = af_name ` set (as_functions a)"
    using arg_cong [OF names [of "as_functions a"], of set] by (simp only: set_map)
  ultimately show ?thesis
    using ok unfolding functions_ok_def by (simp only: names end_function_fields) simp
qed

lemma functions_ok_cong:
  "functions_ok lab dec fin X a \<Longrightarrow> as_types b = as_types a \<Longrightarrow> as_labels b = as_labels a \<Longrightarrow> as_emitted b = as_emitted a \<Longrightarrow>
     as_functions b = as_functions a \<Longrightarrow> functions_ok lab dec fin X b"
  by (simp add: functions_ok_def complete_def function_ok_def)

lemma functions_ok_simps [simp]:
  "functions_ok lab dec fin X (a\<lparr>as_type_state := st\<rparr>) = functions_ok lab dec fin X a"
  "functions_ok lab dec fin X (a\<lparr>as_type_name := n\<rparr>) = functions_ok lab dec fin X a"
  "functions_ok lab dec fin X (a\<lparr>as_type_location := l\<rparr>) = functions_ok lab dec fin X a"
  by (simp_all add: functions_ok_def complete_def function_ok_def)

section \<open>Symbols\<close>

definition label_symbol :: "source_manager \<Rightarrow> parser \<Rightarrow> string \<Rightarrow> token \<Rightarrow> (symbol_kind \<times> string \<times> bool \<times> bool \<times> source_location) list" where
  "label_symbol sm p n t = (if recorded sm p t then [(SYMBOL_FUNCTION, n, True, False, place sm t)] else [])"

definition symbols_ok :: "source_manager \<Rightarrow> parser \<Rightarrow> token list \<Rightarrow> asm_function list \<Rightarrow> parser \<Rightarrow> bool" where
  "symbols_ok sm p0 ts fs p \<longleftrightarrow> px_scope p = px_scope p0 \<and>
     map symbol_facts (px_symbols p) = map symbol_facts (px_symbols p0) @
       concat (map (\<lambda>f. label_symbol sm p0 (af_name f) (ts ! af_begin f)) fs)"

definition labels_located :: "token list \<Rightarrow> asm_indexer \<Rightarrow> bool" where
  "labels_located ts a \<longleftrightarrow> (\<forall>n l. as_labels a n = Some l \<longrightarrow> mk_location l = tk_loc (ts ! mk_order l))"

lemma emit_function_symbols:
  assumes "symbols_ok sm p0 ts fs p" "loc = tk_loc (ts ! i)"
  shows "symbols_ok sm p0 ts (fs @ [\<lparr>af_name = n, af_begin = i, af_end = e\<rparr>]) (emit_function sm n loc p)"
proof -
  obtain fname line column where l: "loc_to_file sm (sm_spelling sm (tk_loc (ts ! i))) = (fname, line, column)" by (rule prod_cases3)
  show ?thesis
    using assms
    by (auto simp: symbols_ok_def emit_function_def index_location_def intern_file_def l add_symbol_in_scope_def add_symbol_def
        in_scope_def label_symbol_def recorded_def place_def symbol_facts_def function_symbol_def)
qed

lemma try_add_symbols:
  assumes "symbols_ok sm p0 ts (as_functions a) p" "labels_located ts a"
  shows "symbols_ok sm p0 ts (as_functions (fst (try_add_function sm name (a, p)))) (snd (try_add_function sm name (a, p)))"
  using assms emit_function_symbols [OF assms(1)]
  by (auto simp: try_add_function_def labels_located_def split: option.split)

lemma add_type_symbols:
  assumes "symbols_ok sm p0 ts (as_functions (fst ap)) (snd ap)" "labels_located ts (fst ap)"
  shows "symbols_ok sm p0 ts (as_functions (fst (add_function_type sm name loc k ap))) (snd (add_function_type sm name loc k ap))"
  unfolding add_function_type_def using assms by (intro try_add_symbols) (simp_all add: labels_located_def)

lemma end_function_symbols:
  "symbols_ok sm p0 ts (as_functions (end_function name k a)) p = symbols_ok sm p0 ts (as_functions a) p"
proof -
  have same: "map (\<lambda>f. label_symbol sm p0 (af_name f) (ts ! af_begin f)) (map (\<lambda>f. if af_name f = name then f\<lparr>af_end := k\<rparr> else f) fs) =
      map (\<lambda>f. label_symbol sm p0 (af_name f) (ts ! af_begin f)) fs" for fs
    by simp
  show ?thesis unfolding symbols_ok_def end_function_def by (simp add: same del: map_map)
qed

lemma add_label_symbols:
  assumes "symbols_ok sm p0 ts (as_functions (fst ap)) (snd ap)" "labels_located ts (fst ap)" "loc = tk_loc (ts ! k)"
  shows "symbols_ok sm p0 ts (as_functions (fst (add_label sm name loc k ap))) (snd (add_label sm name loc k ap)) \<and>
    labels_located ts (fst (add_label sm name loc k ap))"
proof -
  have "labels_located ts ((fst ap)\<lparr>as_labels := emplace name \<lparr>mk_location = loc, mk_order = k\<rparr> (as_labels (fst ap))\<rparr>)"
    using assms(2,3) by (auto simp: labels_located_def emplace_def split: option.splits if_splits)
  moreover from this have "symbols_ok sm p0 ts (as_functions (fst (add_label sm name loc k ap))) (snd (add_label sm name loc k ap))"
    unfolding add_label_def using assms(1) by (intro try_add_symbols) simp_all
  ultimately show ?thesis by (simp add: add_label_def labels_located_def)
qed

lemma symbols_ok_append:
  assumes "symbols_ok sm p0 ts fs p" "\<And>f. f \<in> set fs \<Longrightarrow> af_begin f < length ts"
  shows "symbols_ok sm p0 (ts @ us) fs p"
proof -
  have "map (\<lambda>f. label_symbol sm p0 (af_name f) ((ts @ us) ! af_begin f)) fs = map (\<lambda>f. label_symbol sm p0 (af_name f) (ts ! af_begin f)) fs"
    using assms(2) by (simp add: nth_append_left)
  with assms(1) show ?thesis unfolding symbols_ok_def by (simp only:)
qed

section \<open>All tokens\<close>

definition asm_inv :: "source_manager \<Rightarrow> parser \<Rightarrow> token list \<Rightarrow> asm_indexer \<times> parser \<Rightarrow> bool" where
  "asm_inv sm p0 ts ap \<longleftrightarrow> previous_ok ts (fst ap) \<and> directive_ok ts (fst ap) \<and>
     functions_ok (labelled ts) (declares ts) (finishes ts) {} (fst ap) \<and> labels_located ts (fst ap) \<and>
     symbols_ok sm p0 ts (as_functions (fst ap)) (snd ap)"

lemma labels_less:
  assumes "functions_ok (labelled ts) dec fin X a" "as_labels a n = Some l"
  shows "mk_order l + 1 < length ts"
proof -
  have "label_ok (labelled ts) n (as_labels a n)" using assms(1) by (simp add: functions_ok_def)
  with assms(2) show ?thesis by (auto simp: label_ok_def dest: labelled_less)
qed

lemma functions_less:
  assumes "functions_ok (labelled ts) dec fin X a" "f \<in> set (as_functions a)"
  shows "af_begin f < length ts"
proof -
  have "function_ok fin a f" using assms by (simp add: functions_ok_def)
  then obtain l where "as_labels a (af_name f) = Some l" "af_begin f = mk_order l" by (auto simp: function_ok_def)
  with labels_less [OF assms(1) this(1)] show ?thesis by simp
qed

text \<open>The step of the directives, at the token \<open>t\<close> behind \<open>ts\<close>: it declares, ends or does neither.\<close>

lemma state_declares:
  assumes "directive_ok ts a"
  shows "declares (ts @ [t]) i n \<longleftrightarrow> declares ts i n \<or>
      i = length ts \<and>
        (as_type_state a = Type_Comma \<and> as_type_name a = n \<and> is_function_marker t \<or>
         as_type_state a = Type_Marker \<and> as_type_name a = n \<and> is_function_marker t \<and> tk_text t = ''function'' \<or>
         as_type_state a = Type_EntName \<and> is_identifier t \<and> tk_text t = n)"
    and "finishes (ts @ [t]) i n \<longleftrightarrow> finishes ts i n \<or>
      i = length ts \<and> as_type_state a = Type_EndName \<and> is_identifier t \<and> tk_text t = n"
proof -
  have "tk_text t = ''function'' \<longleftrightarrow> is_function_marker t \<and> tk_text t = ''function''"
    by (auto simp: is_function_marker_def)
  then show "declares (ts @ [t]) i n \<longleftrightarrow> declares ts i n \<or>
      i = length ts \<and>
        (as_type_state a = Type_Comma \<and> as_type_name a = n \<and> is_function_marker t \<or>
         as_type_state a = Type_Marker \<and> as_type_name a = n \<and> is_function_marker t \<and> tk_text t = ''function'' \<or>
         as_type_state a = Type_EntName \<and> is_identifier t \<and> tk_text t = n)"
    using assms unfolding declares_snoc directive_ok_def markers(1) is_identifier_word reads_def by metis
  show "finishes (ts @ [t]) i n \<longleftrightarrow> finishes ts i n \<or>
      i = length ts \<and> as_type_state a = Type_EndName \<and> is_identifier t \<and> tk_text t = n"
    using assms unfolding finishes_snoc directive_ok_def is_identifier_word reads_def by metis
qed

lemma observe_directive_cases:
  assumes "directive_ok ts (fst ap)" "as_order (fst ap) = length ts"
  obtains (declared) name loc st where "\<And>n i. declares (ts @ [t]) i n \<longleftrightarrow> declares ts i n \<or> (i = length ts \<and> n = name)"
      "finishes (ts @ [t]) = finishes ts"
      "observe_directive sm t ap = set_type st (add_function_type sm name loc (length ts) ap)"
    | (ended) name st where "declares (ts @ [t]) = declares ts"
      "\<And>n i. finishes (ts @ [t]) i n \<longleftrightarrow> finishes ts i n \<or> (i = length ts \<and> n = name)"
      "observe_directive sm t ap = ((end_function name (length ts) (fst ap))\<lparr>as_type_state := st\<rparr>, snd ap)"
    | (other) "declares (ts @ [t]) = declares ts" "finishes (ts @ [t]) = finishes ts"
      "snd (observe_directive sm t ap) = snd ap" "as_types (fst (observe_directive sm t ap)) = as_types (fst ap)"
      "as_emitted (fst (observe_directive sm t ap)) = as_emitted (fst ap)"
      "as_functions (fst (observe_directive sm t ap)) = as_functions (fst ap)"
proof -
  let ?st = "as_type_state (fst ap)"
  note dec = state_declares [OF assms(1), of t]
  consider "?st = Type_Comma" "is_function_marker t" | "?st = Type_Marker" "is_function_marker t" "tk_text t = ''function''"
    | "?st = Type_EntName" "is_identifier t" | "?st = Type_EndName" "is_identifier t"
    | "\<not> (?st = Type_Comma \<and> is_function_marker t)" "\<not> (?st = Type_Marker \<and> is_function_marker t \<and> tk_text t = ''function'')"
      "\<not> (?st = Type_EntName \<and> is_identifier t)" "\<not> (?st = Type_EndName \<and> is_identifier t)"
    by blast
  then show thesis
  proof cases
    case 1
    then show ?thesis
      by (intro declared [of "as_type_name (fst ap)" Type_None "as_type_location (fst ap)"])
        (auto simp: dec fun_eq_iff observe_directive_def observe_type_def Let_def assms(2))
  next
    case 2
    then show ?thesis
      by (intro declared [of "as_type_name (fst ap)" Type_None "as_type_location (fst ap)"])
        (auto simp: dec fun_eq_iff observe_directive_def observe_type_def Let_def assms(2))
  next
    case 3
    then show ?thesis
      by (intro declared [of "tk_text t" Type_None "tk_loc t"])
        (auto simp: dec fun_eq_iff observe_directive_def observe_type_def Let_def assms(2))
  next
    case 4
    then show ?thesis
      by (intro ended [of "tk_text t" Type_None])
        (auto simp: dec fun_eq_iff observe_directive_def observe_type_def Let_def assms(2))
  next
    case 5
    then show ?thesis
      by (intro other; cases ?st)
        (auto simp: dec fun_eq_iff observe_directive_def observe_type_def Let_def reset_type_def)
  qed
qed

lemma observe_directive_ok:
  assumes ok: "functions_ok (labelled ts) (declares ts) (finishes ts) {} (fst ap)"
    and st: "directive_ok ts (fst ap)" and order: "as_order (fst ap) = length ts"
    and located: "labels_located ts (fst ap)" and symbols: "symbols_ok sm p0 ts (as_functions (fst ap)) (snd ap)"
  shows "functions_ok (labelled ts) (declares (ts @ [t])) (finishes (ts @ [t])) {} (fst (observe_directive sm t ap)) \<and>
    symbols_ok sm p0 ts (as_functions (fst (observe_directive sm t ap))) (snd (observe_directive sm t ap))"
proof (cases rule: observe_directive_cases [OF st order, of t sm, case_names declared ended other])
  case (declared name loc st)
  have "functions_ok (labelled ts) (declares (ts @ [t])) (finishes ts) {} (fst (add_function_type sm name loc (length ts) ap))"
    using add_type_ok [OF ok declared(1) declares_less] finishes_less [of ts] by (simp add: less_imp_le)
  with declared add_type_symbols [OF symbols located] show ?thesis by simp
next
  case (ended name st)
  have "functions_ok (labelled ts) (declares ts) (finishes (ts @ [t])) {} (end_function name (length ts) (fst ap))"
    by (rule end_function_ok [OF ok ended(2) finishes_less labelled_less declares_less])
  with ended symbols show ?thesis by (simp add: end_function_symbols)
next
  case other
  with ok symbols show ?thesis by (auto intro: functions_ok_cong)
qed

lemma observe_label_ok:
  assumes one: "functions_ok (labelled ts) dec (finishes (ts @ [t])) {} (fst ap)"
    and loc1: "labels_located (ts @ [t]) (fst ap)" and sym1': "symbols_ok sm p0 (ts @ [t]) (as_functions (fst ap)) (snd ap)"
    and p1: "as_order (fst ap) = length ts"
      "as_previous (fst ap) = (if ts \<noteq> [] \<and> is_word (List.last ts) then tk_text (List.last ts) else [])"
      "as_previous (fst ap) \<noteq> [] \<Longrightarrow> as_previous_order (fst ap) = length ts - 1 \<and> as_previous_location (fst ap) = tk_loc (List.last ts)"
  shows "functions_ok (labelled (ts @ [t])) dec (finishes (ts @ [t])) {} (fst (observe_label sm t ap)) \<and>
    labels_located (ts @ [t]) (fst (observe_label sm t ap)) \<and>
    symbols_ok sm p0 (ts @ [t]) (as_functions (fst (observe_label sm t ap))) (snd (observe_label sm t ap))"
proof (cases "tk_kind t = Tok_Colon \<and> as_previous (fst ap) \<noteq> []")
  case True
  then have nonempty: "ts \<noteq> []" "is_word (List.last ts)" "tk_text (List.last ts) = as_previous (fst ap)"
    using p1(2) by (auto split: if_splits)
  have lab: "labelled (ts @ [t]) i n \<longleftrightarrow> labelled ts i n \<or> (i = as_previous_order (fst ap) \<and> n = as_previous (fst ap))" for n i
    using True nonempty p1(3) by (auto simp: labelled_snoc reads_def)
  have less: "i < as_previous_order (fst ap)" if "labelled ts i n" for i n
    using labelled_less [OF that] p1(3) True by auto
  have fin: "i \<le> as_previous_order (fst ap) + 1" if "finishes (ts @ [t]) i n" for i n
    using finishes_less [OF that] p1(3) True nonempty(1) by auto
  have at: "as_previous_location (fst ap) = tk_loc ((ts @ [t]) ! as_previous_order (fst ap))"
    using p1(3) True nonempty(1) by (simp add: last_conv_nth nth_append)
  from add_label_ok [OF one lab less fin] add_label_symbols [OF sym1' loc1 at] True show ?thesis
    by (simp add: observe_label_def Let_def)
next
  case False
  then have "labelled (ts @ [t]) = labelled ts" using p1(2) by (auto simp: fun_eq_iff labelled_snoc reads_def split: if_splits)
  with False one loc1 sym1' show ?thesis by (auto simp: observe_label_def Let_def)
qed

lemma observe_inv:
  assumes inv: "asm_inv sm p0 ts ap" and spelled: "tk_kind t = Tok_Period \<longrightarrow> tk_text t = ''.''"
  shows "asm_inv sm p0 (ts @ [t]) (observe sm t ap)"
proof -
  let ?ap0 = "(observe_call t (fst ap), snd ap)"
  let ?ap1 = "observe_directive sm t ?ap0"
  let ?ap2 = "observe_label sm t ?ap1"
  have prev: "previous_ok ts (fst ap)" and "directive_ok ts (fst ap)"
    and fs0: "functions_ok (labelled ts) (declares ts) (finishes ts) {} (fst ap)"
    and "labels_located ts (fst ap)" and "symbols_ok sm p0 ts (as_functions (fst ap)) (snd ap)"
    using inv by (simp_all add: asm_inv_def)
  then have dir: "directive_ok ts (fst ?ap0)" and loc: "labels_located ts (fst ?ap0)"
    and sym: "symbols_ok sm p0 ts (as_functions (fst ?ap0)) (snd ?ap0)"
    by (simp_all add: directive_ok_def labels_located_def)
  have fs: "functions_ok (labelled ts) (declares ts) (finishes ts) {} (fst ?ap0)"
    by (rule functions_ok_cong [OF fs0]) simp_all
  have order: "as_order (fst ?ap0) = length ts" using prev by (simp add: previous_ok_def)
  have one: "functions_ok (labelled ts) (declares (ts @ [t])) (finishes (ts @ [t])) {} (fst ?ap1)"
    and sym1: "symbols_ok sm p0 ts (as_functions (fst ?ap1)) (snd ?ap1)"
    using observe_directive_ok [OF fs dir order loc sym, of t] by simp_all
  have dir1: "directive_ok (ts @ [t]) (fst ?ap1)" by (rule observe_directive_state [OF dir spelled])
  have loc1: "labels_located (ts @ [t]) (fst ?ap1)"
    using loc Suc_lessD [OF labels_less [OF fs, unfolded Suc_eq_plus1 [symmetric]]] by (auto simp: labels_located_def nth_append_left)
  have sym1': "symbols_ok sm p0 (ts @ [t]) (as_functions (fst ?ap1)) (snd ?ap1)"
    using sym1 functions_less [OF one] by (rule symbols_ok_append)
  have p1: "as_order (fst ?ap1) = length ts"
    "as_previous (fst ?ap1) = (if ts \<noteq> [] \<and> is_word (List.last ts) then tk_text (List.last ts) else [])"
    "as_previous (fst ?ap1) \<noteq> [] \<Longrightarrow> as_previous_order (fst ?ap1) = length ts - 1 \<and> as_previous_location (fst ?ap1) = tk_loc (List.last ts)"
    using prev by (simp_all add: previous_ok_def)
  have two: "functions_ok (labelled (ts @ [t])) (declares (ts @ [t])) (finishes (ts @ [t])) {} (fst ?ap2) \<and>
      labels_located (ts @ [t]) (fst ?ap2) \<and> symbols_ok sm p0 (ts @ [t]) (as_functions (fst ?ap2)) (snd ?ap2)"
    using one loc1 sym1' p1 by (rule observe_label_ok)
  have o: "as_order (fst ?ap2) = length ts" using p1(1) by simp
  have dir2: "directive_ok (ts @ [t]) (fst ?ap2)" using dir1 by (simp add: directive_ok_def)
  have r: "observe sm t ap = (remember_token t (fst ?ap2), snd ?ap2)" by (simp add: observe_def split: prod.split)
  have "previous_ok (ts @ [t]) (remember_token t (fst ?ap2))"
    using o by (simp add: previous_ok_def remember_token_def is_identifier_word)
  moreover have "directive_ok (ts @ [t]) (remember_token t (fst ?ap2))"
    using dir2 by (simp add: directive_ok_def remember_token_def)
  moreover have "functions_ok (labelled (ts @ [t])) (declares (ts @ [t])) (finishes (ts @ [t])) {} (remember_token t (fst ?ap2))"
    by (rule functions_ok_cong [OF two [THEN conjunct1]]) (simp_all add: remember_token_def)
  moreover have "labels_located (ts @ [t]) (remember_token t (fst ?ap2))" "as_functions (remember_token t (fst ?ap2)) = as_functions (fst ?ap2)"
    using two by (simp_all add: labels_located_def remember_token_def)
  ultimately show ?thesis using two unfolding asm_inv_def r by simp
qed

definition observe_all :: "source_manager \<Rightarrow> token list \<Rightarrow> parser \<Rightarrow> asm_indexer \<times> parser" where
  "observe_all sm ts p = fold (observe sm) ts (new_indexer, p)"

lemma observe_all_inv: "well_spelled ts \<Longrightarrow> asm_inv sm p ts (observe_all sm ts p)"
proof (induction ts rule: rev_induct)
  case Nil
  show ?case
    by (simp add: observe_all_def asm_inv_def previous_ok_def functions_ok_def new_indexer_def label_ok_def labelled_def
        complete_def directive_ok_def ends_open_def ends_keyword_def ends_name_def ends_comma_def ends_prefix_def declares_def
        labels_located_def symbols_ok_def)
next
  case (snoc t ts)
  then have "asm_inv sm p (ts @ [t]) (observe sm t (observe_all sm ts p))"
    by (intro observe_inv) (simp_all add: well_spelled_def)
  then show ?case by (simp add: observe_all_def)
qed

section \<open>The functions that were found\<close>

lemma hd_filter_first:
  assumes "P k" "k < m" "\<And>i. i < k \<Longrightarrow> \<not> P i"
  shows "hd (filter P [0..<m]) = k"
proof -
  have "[0..<m] = [0..<k] @ [k..<m]" using assms(2) upt_add_eq_append [of 0 k "m - k"] by simp
  moreover have "filter P [0..<k] = []" using assms(3) by (simp add: filter_empty_conv)
  ultimately show ?thesis using assms(1,2) by (simp add: upt_conv_Cons)
qed

lemma last_filter_greatest:
  assumes "P k" "k < m" "\<And>i. i < m \<Longrightarrow> P i \<Longrightarrow> i \<le> k"
  shows "filter P [0..<m] \<noteq> [] \<and> List.last (filter P [0..<m]) = k"
proof -
  have m: "[0..<m] = [0..<Suc k] @ [Suc k..<m]" using assms(2) upt_add_eq_append [of 0 "Suc k" "m - Suc k"] by simp
  have "filter P [Suc k..<m] = []" using assms(3) by (fastforce simp: filter_empty_conv)
  with assms(1) show ?thesis unfolding m by simp
qed

lemma function_at_less: "function_at ts i \<Longrightarrow> i < length ts"
  using labelled_less [of ts i "tk_text (ts ! i)"] by (simp add: function_at_def Let_def)

lemma function_known:
  assumes ok: "functions_ok (labelled ts) (declares ts) (finishes ts) {} a" and f: "f \<in> set (as_functions a)"
  shows "function_at ts (af_begin f) \<and> af_name f = tk_text (ts ! af_begin f) \<and> af_end f = own_end ts (af_begin f)"
proof -
  have lab: "label_ok (labelled ts) n (as_labels a n)" and dec: "label_ok (declares ts) n (as_types a n)" for n
    using ok by (simp_all add: functions_ok_def)
  let ?n = "af_name f"
  from ok f have "function_ok (finishes ts) a f" by (simp add: functions_ok_def)
  then obtain d l where dl: "as_types a ?n = Some d" "as_labels a ?n = Some l" "af_begin f = mk_order l" and
    e: "end_ok (finishes ts) ?n (max (mk_order d) (mk_order l + 1)) (if mk_order l < mk_order d then mk_order d else 0) (af_end f)"
    by (auto simp: function_ok_def)
  have l: "labelled ts (mk_order l) ?n" "\<And>i. i < mk_order l \<Longrightarrow> \<not> labelled ts i ?n" using lab [of ?n] dl(2) by (simp_all add: label_ok_def)
  have d: "declares ts (mk_order d) ?n" "\<And>i. i < mk_order d \<Longrightarrow> \<not> declares ts i ?n" using dec [of ?n] dl(1) by (simp_all add: label_ok_def)
  have n: "?n = tk_text (ts ! mk_order l)" by (rule labelled_name [OF l(1)])
  have first: "hd (filter (\<lambda>k. declares ts k ?n) [0..<length ts]) = mk_order d"
    using d declares_less [OF d(1)] by (intro hd_filter_first)
  let ?P = "\<lambda>k. finishes ts k ?n \<and> max (mk_order d) (mk_order l + 1) < k"
  have "af_end f = (if filter ?P [0..<length ts] \<noteq> [] then List.last (filter ?P [0..<length ts])
      else if mk_order l < mk_order d then mk_order d else 0)"
  proof (cases "\<exists>k>max (mk_order d) (mk_order l + 1). finishes ts k ?n")
    case True
    with e have "?P (af_end f)" "\<And>k. finishes ts k ?n \<Longrightarrow> k \<le> af_end f" by (simp_all add: end_ok_def)
    with last_filter_greatest [of ?P "af_end f" "length ts"] finishes_less [of ts "af_end f" ?n] show ?thesis by simp
  next
    case False
    then have "filter ?P [0..<length ts] = []" by (auto simp: filter_empty_conv)
    with False e show ?thesis by (simp add: end_ok_def)
  qed
  then have "af_end f = own_end ts (mk_order l)" by (simp add: own_end_def Let_def n [symmetric] first)
  moreover have "function_at ts (mk_order l)"
    using l d(1) declares_less [OF d(1)] by (auto simp: function_at_def n [symmetric] Let_def)
  ultimately show ?thesis using n dl(3) by simp
qed

lemma function_found:
  assumes ok: "functions_ok (labelled ts) (declares ts) (finishes ts) {} a" and at: "function_at ts i"
  shows "\<exists>f\<in>set (as_functions a). af_begin f = i"
proof -
  have lab: "label_ok (labelled ts) n (as_labels a n)" and dec: "label_ok (declares ts) n (as_types a n)" for n
    using ok by (simp_all add: functions_ok_def)
  let ?n = "tk_text (ts ! i)"
  from at obtain k where i: "labelled ts i ?n" "\<And>j. j < i \<Longrightarrow> \<not> labelled ts j ?n" "declares ts k ?n"
    by (auto simp: function_at_def Let_def)
  have "as_labels a ?n \<noteq> None" using lab [of ?n] i(1) by (auto simp: label_ok_def split: option.splits)
  moreover have "as_types a ?n \<noteq> None" using dec [of ?n] i(3) by (auto simp: label_ok_def split: option.splits)
  ultimately have "?n \<in> as_emitted a" using ok by (auto simp: functions_ok_def complete_def)
  then have "?n \<in> af_name ` set (as_functions a)" using ok by (simp add: functions_ok_def)
  then obtain f where f: "f \<in> set (as_functions a)" "af_name f = ?n" by (metis imageE)
  then have "labelled ts (af_begin f) ?n" "\<And>j. j < af_begin f \<Longrightarrow> \<not> labelled ts j ?n"
    using function_known [OF ok f(1)] by (simp_all add: function_at_def Let_def)
  with i(1,2) have "af_begin f = i" by (metis linorder_neqE_nat)
  with f(1) show ?thesis by blast
qed

lemma functions_found:
  assumes ok: "functions_ok (labelled ts) (declares ts) (finishes ts) {} a"
  shows "distinct (map af_begin (as_functions a)) \<and> set (map af_begin (as_functions a)) = set (starts ts) \<and>
    (\<forall>f\<in>set (as_functions a). af_name f = tk_text (ts ! af_begin f) \<and> af_end f = own_end ts (af_begin f))"
proof -
  note known = function_known [OF ok] and found = function_found [OF ok]
  have "set (map af_begin (as_functions a)) = set (starts ts)"
  proof (intro equalityI subsetI)
    fix i assume "i \<in> set (map af_begin (as_functions a))"
    with known function_at_less [of ts] show "i \<in> set (starts ts)" by (auto simp: starts_def)
  next
    fix i assume "i \<in> set (starts ts)"
    then have "function_at ts i" by (simp add: starts_def)
    from found [OF this] show "i \<in> set (map af_begin (as_functions a))" by auto
  qed
  moreover have "distinct (map af_begin (as_functions a))"
  proof -
    have "distinct (map (\<lambda>i. tk_text (ts ! i)) (map af_begin (as_functions a)))"
    proof -
      have "map (\<lambda>i. tk_text (ts ! i)) (map af_begin (as_functions a)) = map af_name (as_functions a)" using known by simp
      then show ?thesis using ok by (simp only: functions_ok_def)
    qed
    then show ?thesis by (rule distinct_map [THEN iffD1, THEN conjunct1])
  qed
  ultimately show ?thesis using known by blast
qed

lemma starts_iff:
  "i \<in> set (starts ts) \<longleftrightarrow> (\<exists>n. labelled ts i n \<and> (\<forall>j<i. \<not> labelled ts j n) \<and> (\<exists>k. declares ts k n))"
  by (auto simp: starts_def function_at_def Let_def dest: labelled_less labelled_name declares_less)

lemma close_functions_zip:
  "(\<forall>i. af_begin (F i) = i) \<Longrightarrow>
   map (\<lambda>f. (af_name f, af_begin f, af_end f)) (close_functions (map F js)) =
     map (\<lambda>(i, next). (af_name (F i), i, if af_end (F i) < i then next else af_end (F i))) (zip js (tl js @ [SIZE_MAX]))"
  by (induction js rule: induct_list012) auto

lemma finished_extents:
  assumes "functions_ok (labelled ts) (declares ts) (finishes ts) {} a"
  shows "map (\<lambda>f. (af_name f, af_begin f, af_end f)) (finished_functions a) = extents ts"
proof -
  let ?F = "\<lambda>i. \<lparr>af_name = tk_text (ts ! i), af_begin = i, af_end = own_end ts i\<rparr>"
  have known: "f = ?F (af_begin f)" if "f \<in> set (as_functions a)" for f
    using functions_found [OF assms] that by (cases f) auto
  have "map af_begin (sort_key af_begin (as_functions a)) = sort (map af_begin (as_functions a))"
    by (rule properties_for_sort [symmetric]) simp_all
  also have "\<dots> = starts ts"
    by (rule sorted_distinct_set_unique) (use functions_found [OF assms] in \<open>simp_all add: starts_def sorted_wrt_filter\<close>)
  finally have begins: "map af_begin (sort_key af_begin (as_functions a)) = starts ts" .
  have "sort_key af_begin (as_functions a) = map (\<lambda>f. ?F (af_begin f)) (sort_key af_begin (as_functions a))"
    using known by (intro map_idI [symmetric]) simp
  also have "\<dots> = map ?F (map af_begin (sort_key af_begin (as_functions a)))" by simp
  finally have "sort_key af_begin (as_functions a) = map ?F (starts ts)" by (simp only: begins)
  then show ?thesis using close_functions_zip [of ?F "starts ts"] by (simp add: finished_functions_def extents_def cong: if_cong)
qed

text \<open>
  C12. The functions of preprocessed assembly, read off its tokens: a function is the first label of
  a name that some \<open>.type\<close> or \<open>.ent\<close> directive declares as a function. Each of them is known once and
  recorded once, as the definition of a function with its name, at the place of its label, if that
  is in scope; no other symbol is recorded. A function reaches from its label to its last \<open>.end\<close>, to its
  declaration, to the next function or to the end of the file.
\<close>

theorem asm_functions_exact:
  assumes "observe_all sm ts p = (a, p')" and "well_spelled ts"
  shows "\<exists>js. distinct js \<and> set js = {i. \<exists>n. labelled ts i n \<and> (\<forall>j<i. \<not> labelled ts j n) \<and> (\<exists>k. declares ts k n)} \<and>
    map symbol_facts (px_symbols p') = map symbol_facts (px_symbols p) @
      concat (map (\<lambda>i. if recorded sm p (ts ! i)
        then [(SYMBOL_FUNCTION, tk_text (ts ! i), True, False, place sm (ts ! i))] else []) js) \<and>
    map (\<lambda>f. (af_name f, af_begin f)) (as_functions a) = map (\<lambda>i. (tk_text (ts ! i), i)) js \<and>
    map (\<lambda>f. (af_name f, af_begin f, af_end f)) (finished_functions a) = extents ts"
proof -
  have inv: "functions_ok (labelled ts) (declares ts) (finishes ts) {} a" "symbols_ok sm p ts (as_functions a) p'"
    using observe_all_inv [OF assms(2), of sm p] assms(1) by (simp_all add: asm_inv_def)
  note found = functions_found [OF inv(1)]
  have "set (starts ts) = {i. \<exists>n. labelled ts i n \<and> (\<forall>j<i. \<not> labelled ts j n) \<and> (\<exists>k. declares ts k n)}"
    using starts_iff by blast
  moreover have "concat (map (\<lambda>f. label_symbol sm p (af_name f) (ts ! af_begin f)) (as_functions a)) =
      concat (map (\<lambda>i. if recorded sm p (ts ! i)
        then [(SYMBOL_FUNCTION, tk_text (ts ! i), True, False, place sm (ts ! i))] else []) (map af_begin (as_functions a)))"
    using found by (intro arg_cong [where f = concat]) (simp add: label_symbol_def)
  moreover have "map (\<lambda>f. (af_name f, af_begin f)) (as_functions a) =
      map (\<lambda>i. (tk_text (ts ! i), i)) (map af_begin (as_functions a))"
    using found by simp
  ultimately show ?thesis
    using found inv(2) finished_extents [OF inv(1)]
    by (intro exI [of _ "map af_begin (as_functions a)"]) (simp only: symbols_ok_def simp_thms)
qed

section \<open>Calls\<close>

lemma observe_calls [simp]:
  "as_calls (fst (observe sm t ap)) = as_calls (observe_call t (fst ap))"
  "as_call_state (fst (observe sm t ap)) = as_call_state (observe_call t (fst ap))"
  "as_jal_target (fst (observe sm t ap)) = as_jal_target (observe_call t (fst ap))"
  "as_jal_location (fst (observe sm t ap)) = as_jal_location (observe_call t (fst ap))"
  "as_jal_order (fst (observe sm t ap)) = as_jal_order (observe_call t (fst ap))"
  "as_order (fst (observe sm t ap)) = as_order (fst ap) + 1"
  by (simp_all add: observe_def remember_token_def split_beta)














section \<open>Calls that are missed\<close>

definition word_token :: "string \<Rightarrow> token" where
  "word_token s = \<lparr>tk_kind = Tok_Identifier, tk_text = s, tk_loc = 1\<rparr>"

definition sign_token :: "token_kind \<Rightarrow> string \<Rightarrow> token" where
  "sign_token k s = \<lparr>tk_kind = k, tk_text = s, tk_loc = 1\<rparr>"

lemmas token_defs = word_token_def sign_token_def is_word_def reads_def

lemmas asm_steps = observe_all_def observe_def observe_call_def observe_directive_def observe_type_def observe_label_def
  remember_token_def add_function_type_def add_label_def try_add_function_def emplace_def add_pending_call_def
  is_identifier_def is_direct_call_mnemonic_def is_function_marker_def is_marker_prefix_def reset_type_def
  new_indexer_def word_token_def sign_token_def

text \<open>The token behind \<open>jal f\<close> is consumed, so a \<open>jal\<close> in the next line is not seen.\<close>

lemma consecutive_jal_missed:
  "map ac_target (as_calls (fst (observe_all sm
     [word_token ''jal'', word_token ''f'', word_token ''jal'', word_token ''g''] p))) = [''f'']"
  by (simp add: asm_steps)

text \<open>A function whose type directive follows its label ends there for the indexer.\<close>

definition late_type :: "token list" where
  "late_type =
     [word_token ''f'', sign_token Tok_Colon '':'', sign_token Tok_Period ''.'', word_token ''type'', word_token ''f'',
      sign_token Tok_Comma '','', sign_token Tok_Other ''@'', word_token ''function'', word_token ''call'',
      word_token ''g'']"

lemma late_type_ends_function:
  assumes "a = fst (observe_all sm late_type p)"
  shows "map (\<lambda>f. (af_name f, af_begin f, af_end f)) (finished_functions a) = [(''f'', 0, 7)] \<and>
    map ac_order (as_calls a) = [9]"
  unfolding assms
  by (simp add: late_type_def asm_steps finished_functions_def emit_function_def split_beta)

end
