(* ===== verification/Parser_Properties.thy ===== *)
theory Parser_Properties
  imports Parser Ast_Properties Fingerprint_Meaning Index_Liveness Asm_Properties
begin

text \<open>
  What the rest of the program relies on when it reads an index: the files of its records are among
  the files it lists, at the positions the records give, whatever Clang reports; and nothing of an
  earlier command is left.
\<close>

section \<open>Locations name files of the index\<close>

definition located :: "string list \<Rightarrow> source_location \<Rightarrow> bool" where
  "located files l \<longleftrightarrow> (\<exists>file\<in>set files. lc_file l = Some file)"

definition parser_ok :: "diagnostic list \<Rightarrow> parser \<Rightarrow> bool" where
  "parser_ok D p \<longleftrightarrow> px_index p = empty_index \<and> px_diagnostics p = D \<and> sorted (px_files p) \<and> distinct (px_files p) \<and>
     (\<forall>s\<in>set (px_symbols p). located (px_files p) (ps_loc s)) \<and>
     (\<forall>u\<in>set (px_uses p). located (px_files p) (pu_loc u)) \<and>
     (\<forall>g\<in>set (px_signatures p). located (px_files p) (pg_loc g))"

lemma located_mono: "located files l \<Longrightarrow> set files \<subseteq> set files' \<Longrightarrow> located files' l"
  by (auto simp: located_def)

lemma intern_file_ok: "parser_ok D p \<Longrightarrow> parser_ok D (intern_file file p)"
  by (auto simp: parser_ok_def intern_file_def sorted_insort_insert distinct_insort_insert set_insort_insert
      intro: located_mono)

lemma index_location_ok:
  "index_location sm loc p = (l, p1) \<Longrightarrow> parser_ok D p \<Longrightarrow> parser_ok D p1 \<and> located (px_files p1) l"
  by (auto simp: index_location_def intern_file_ok split: prod.splits)
    (simp add: located_def intern_file_def set_insort_insert)

lemma display_location_ok:
  "display_location sm loc p = (l, p1) \<Longrightarrow> parser_ok D p \<Longrightarrow> parser_ok D p1 \<and> located (px_files p1) l"
  by (auto simp: display_location_def intern_file_ok split: prod.splits)
    (simp add: located_def intern_file_def set_insort_insert)

lemma add_in_scope_ok:
  "parser_ok D p \<Longrightarrow> located (px_files p) (ps_loc s) \<Longrightarrow> parser_ok D (add_symbol_in_scope sm s loc p)"
  "parser_ok D p \<Longrightarrow> located (px_files p) (pu_loc u) \<Longrightarrow> parser_ok D (add_use_in_scope sm u loc p)"
  "parser_ok D p \<Longrightarrow> located (px_files p) (pg_loc g) \<Longrightarrow> parser_ok D (add_function_signature_in_scope sm g loc p)"
  by (auto simp: parser_ok_def add_symbol_in_scope_def add_use_in_scope_def add_function_signature_in_scope_def
      add_symbol_def add_use_def)

lemma locate_ok [intro]:
  assumes "parser_ok D p"
  shows "parser_ok D (locate_use sm u at scope p)" "parser_ok D (locate_symbol sm s displayed at scope p)"
    "parser_ok D (locate_signature sm g at scope p)"
  using assms
  by (auto simp: locate_use_def locate_symbol_def locate_signature_def intro!: add_in_scope_ok
      dest: index_location_ok display_location_ok split: prod.split)

lemma emit_function_ok: "parser_ok D p \<Longrightarrow> parser_ok D (emit_function sm name loc p)"
  by (auto simp: emit_function_def intro!: add_in_scope_ok dest: index_location_ok split: prod.split)

lemma add_call_ok: "parser_ok D p \<Longrightarrow> parser_ok D (add_call sm c f p)"
  by (auto simp: add_call_def intro!: add_in_scope_ok dest: index_location_ok split: prod.split)

section \<open>Every event keeps them\<close>

lemma try_add_function_ok: "parser_ok D (snd ap) \<Longrightarrow> parser_ok D (snd (try_add_function sm name ap))"
  by (auto simp: try_add_function_def emit_function_ok split: option.split prod.split)

lemma observe_ok: "parser_ok D (snd ap) \<Longrightarrow> parser_ok D (snd (observe sm t ap))"
proof -
  assume ok: "parser_ok D (snd ap)"
  have d: "parser_ok D (snd (observe_directive sm t (a, snd ap)))" for a
    using ok by (auto simp: observe_directive_def observe_type_def Let_def add_function_type_def try_add_function_ok
        split: type_state.split)
  have "parser_ok D (snd (observe_label sm t (observe_directive sm t (observe_call t (fst ap), snd ap))))"
    using d by (simp add: observe_label_def Let_def add_label_def try_add_function_ok)
  then show ?thesis by (simp add: observe_def split_beta)
qed

lemma fold_ok: "(\<And>x p. Q p \<Longrightarrow> Q (f x p)) \<Longrightarrow> Q p \<Longrightarrow> Q (fold f xs p)"
  by (induction xs arbitrary: p) simp_all

lemma asm_finish_ok: "parser_ok D p \<Longrightarrow> parser_ok D (asm_finish sm a p)"
  unfolding asm_finish_def by (rule fold_ok) (auto simp: add_call_ok split: option.split)

text \<open>The counters agree with the diagnostics that are kept.\<close>

definition errors_of :: "diagnostic list \<Rightarrow> diagnostic list" where
  "errors_of D = filter (\<lambda>d. dg_severity d = DIAGNOSTIC_ERROR) D"

definition warnings_of :: "diagnostic list \<Rightarrow> diagnostic list" where
  "warnings_of D = filter (\<lambda>d. dg_severity d = DIAGNOSTIC_WARNING) D"

definition run_ok :: "run_state \<Rightarrow> bool" where
  "run_ok r \<longleftrightarrow> (\<exists>D. parser_ok D (rn_parser r) \<and> rn_errors r = word_of_nat (length (errors_of D)) \<and>
     rn_warnings r = word_of_nat (length (warnings_of D)))"

lemma run_okI:
  "run_ok r \<Longrightarrow> rn_errors r1 = rn_errors r \<Longrightarrow> rn_warnings r1 = rn_warnings r \<Longrightarrow>
     (\<And>D. parser_ok D (rn_parser r) \<Longrightarrow> parser_ok D (rn_parser r1)) \<Longrightarrow> run_ok r1"
  unfolding run_ok_def by metis

lemma handle_diagnostic_ok:
  assumes "run_ok r"
  shows "run_ok (handle_diagnostic sm level message loc r)"
proof -
  obtain D where D: "parser_ok D (rn_parser r)" "rn_errors r = word_of_nat (length (errors_of D))"
    "rn_warnings r = word_of_nat (length (warnings_of D))" using assms by (auto simp: run_ok_def)
  let ?d = "parsed_diagnostic sm level message loc"
  have severity: "dg_severity ?d = (if level_rank level \<ge> 4 then DIAGNOSTIC_ERROR
      else if level = Level_Warning then DIAGNOSTIC_WARNING else DIAGNOSTIC_NOTE)"
    by (simp add: parsed_diagnostic_def split: prod.split)
  show ?thesis
  proof (cases "level = Level_Ignored")
    case True
    with D show ?thesis by (auto simp: run_ok_def handle_diagnostic_def Let_def)
  next
    case False
    have "parser_ok (D @ [?d]) ((rn_parser r)\<lparr>px_diagnostics := px_diagnostics (rn_parser r) @ [?d]\<rparr>)"
      using D(1) by (simp add: parser_ok_def)
    with D(2,3) False severity show ?thesis
      unfolding run_ok_def
      by (intro exI [of _ "D @ [?d]"])
        (cases level; simp add: handle_diagnostic_def Let_def errors_of_def warnings_of_def)
  qed
qed

lemma add_macro_use_ok: "run_ok r \<Longrightarrow> run_ok (add_macro_use sm t loc r)"
  by (erule run_okI) (auto simp: add_macro_use_def Let_def split: option.split)

lemma macro_defined_ok:
  assumes "run_ok r"
  shows "run_ok (macro_defined sm t m macros r)"
proof (cases "pt_name t")
  case (Some name)
  let ?r = "r\<lparr>rn_parser := locate_symbol sm (macro_symbol (rn_parser r) name) False (pt_loc t) (pt_loc t) (rn_parser r)\<rparr>"
  have "run_ok ?r" by (rule run_okI [OF assms]) auto
  then show ?thesis
    by (auto simp: macro_defined_def add_replacement_uses_def Some intro!: fold_ok [where Q = run_ok] add_macro_use_ok)
qed (simp add: macro_defined_def assms)

lemma add_include_use_ok: "run_ok r \<Longrightarrow> run_ok (add_include_use sm name angled file loc r)"
  by (erule run_okI) (auto simp: add_include_use_def Let_def)

lemma run_event_ok: "run_ok r \<Longrightarrow> run_ok (run_event sm ev r)"
proof (cases ev)
  case (Lexed t)
  assume r: "run_ok r"
  show ?thesis
  proof (rule run_okI [OF r])
    fix D assume "parser_ok D (rn_parser r)"
    with observe_ok [of D "(the (rn_asm r), rn_parser r)" sm t] Lexed show "parser_ok D (rn_parser (run_event sm ev r))"
      by (auto simp: run_event_def split: option.split prod.split)
  qed (simp_all add: run_event_def Lexed split: option.split prod.split)
qed (auto simp: run_event_def inclusion_directive_def Let_def macro_defined_ok add_macro_use_ok handle_diagnostic_ok
    add_include_use_ok split: option.split)

lemma stats_ok [simp]: "parser_ok D (p\<lparr>px_stats := st\<rparr>) = parser_ok D p"
  by (simp add: parser_ok_def)

lemma data_ok [simp]: "parser_ok D (p\<lparr>px_has_data := b\<rparr>) = parser_ok D p"
  by (simp add: parser_ok_def)

interpretation well_formed: caller_client "parser_ok D" for D
  by unfold_locales (auto simp: set_points_to_stats_def)

lemma finish_run_ok: "parser_ok D (rn_parser r) \<Longrightarrow> parser_ok D (finish_run xxh3 run r)"
proof -
  assume ok: "parser_ok D (rn_parser r)"
  show ?thesis using ok by (auto simp: finish_run_def asm_finish_ok intro!: well_formed.kept split: option.split)
qed

lemma clear_index_ok: "parser_ok [] (save_compile_command cmd (clear_index p))"
  by (simp add: save_compile_command_def clear_index_def create_parser_def parser_ok_def Let_def)

section \<open>Locality\<close>

lemma emit_function_locate:
  "emit_function sm name loc p =
     locate_symbol sm (function_symbol name) False (sm_spelling sm loc) (sm_spelling sm loc) p"
  by (simp add: emit_function_def locate_symbol_def)

lemma add_call_locate:
  "add_call sm c f p = locate_use sm (call_use (ac_target c) (af_name f))
     (sm_spelling sm (ac_location c)) (sm_spelling sm (ac_location c)) p"
  by (simp add: add_call_def locate_use_def)

lemma no_locals_asm:
  "no_locals p \<Longrightarrow> no_locals (emit_function sm name loc p)" "no_locals p \<Longrightarrow> no_locals (add_call sm c f p)"
  by (auto simp: emit_function_locate add_call_locate function_symbol_def call_use_def intro!: no_locals_locate)

lemma no_locals_try_add: "no_locals (snd ap) \<Longrightarrow> no_locals (snd (try_add_function sm name ap))"
  by (auto simp: try_add_function_def no_locals_asm split: option.split prod.split)

lemma no_locals_observe: "no_locals (snd ap) \<Longrightarrow> no_locals (snd (observe sm t ap))"
proof -
  assume ok: "no_locals (snd ap)"
  have d: "no_locals (snd (observe_directive sm t (a, snd ap)))" for a
    using ok by (auto simp: observe_directive_def observe_type_def Let_def add_function_type_def no_locals_try_add
        split: type_state.split)
  have "no_locals (snd (observe_label sm t (observe_directive sm t (observe_call t (fst ap), snd ap))))"
    using d by (simp add: observe_label_def Let_def add_label_def no_locals_try_add)
  then show ?thesis by (simp add: observe_def split_beta)
qed

lemma no_locals_diagnostic:
  "no_locals (rn_parser r) \<Longrightarrow> no_locals (rn_parser (handle_diagnostic sm level message loc r))"
  by (simp add: handle_diagnostic_def Let_def no_locals_def)

lemma no_locals_macro_use: "no_locals (rn_parser r) \<Longrightarrow> no_locals (rn_parser (add_macro_use sm t loc r))"
  by (auto simp: add_macro_use_def Let_def read_use_def intro!: no_locals_locate split: option.split)

lemma no_locals_replacements:
  "no_locals (rn_parser r) \<Longrightarrow> no_locals (rn_parser (add_replacement_uses sm m macros r))"
  unfolding add_replacement_uses_def by (rule fold_ok [where Q = "\<lambda>r. no_locals (rn_parser r)"]) (simp_all add: no_locals_macro_use)

lemma no_locals_event: "no_locals (rn_parser r) \<Longrightarrow> no_locals (rn_parser (run_event sm ev r))"
proof (cases ev)
  case (Lexed t)
  assume "no_locals (rn_parser r)"
  with no_locals_observe [of "(the (rn_asm r), rn_parser r)" sm t] Lexed show ?thesis
    by (auto simp: run_event_def split: option.split prod.split)
qed (auto simp: run_event_def inclusion_directive_def Let_def macro_defined_def macro_symbol_def add_include_use_def
    read_use_def intro!: no_locals_replacements no_locals_macro_use no_locals_diagnostic no_locals_locate split: option.split)

lemma no_locals_finish: "no_locals (rn_parser r) \<Longrightarrow> no_locals (finish_run xxh3 run r)"
proof -
  assume ok: "no_locals (rn_parser r)"
  have "no_locals (asm_finish sm a (rn_parser r))" for sm a
    unfolding asm_finish_def using ok by (rule fold_ok [rotated]) (auto simp: no_locals_asm split: option.split)
  then show ?thesis using ok by (auto simp: finish_run_def no_locals_other intro!: locality.kept split: option.split)
qed

section \<open>The records of an index\<close>

lemma position_of_nth: "x \<in> set xs \<Longrightarrow> position_of x xs < length xs \<and> xs ! position_of x xs = x"
  by (induction xs) auto

lemma located_index:
  "located files l \<Longrightarrow> loc_file_index files l < length files \<and> loc_file l = c_text (files ! loc_file_index files l)"
  by (auto simp: located_def loc_file_index_def loc_file_def position_of_nth)

text \<open>A parser between two commands: its index is empty or was built from what was added.\<close>

lemma index_command_shape:
  assumes "index_command c (Some cmd) p = (ret, p')" and "cc_argv cmd \<noteq> []"
  obtains q where "parser_ok (px_diagnostics p') q" "\<not> px_include_local p \<Longrightarrow> no_locals q" "px_files p' = px_files q"
    "px_symbols p' = px_symbols q" "px_uses p' = px_uses q" "px_signatures p' = px_signatures q"
    "px_index p' = (if px_has_data p' then px_index (rebuild_records (cl_xxh3 c) q) else empty_index)"
    "px_diagnostic_records p' = map (\<lambda>d. d\<lparr>dg_message := c_text (dg_message d), dg_file := c_text (dg_file d)\<rparr>) (px_diagnostics p')"
    "ir_errors (px_result p') = word_of_nat (length (errors_of (px_diagnostics p')))"
    "ir_warnings (px_result p') = word_of_nat (length (warnings_of (px_diagnostics p')))"
    "ir_status (px_result p') = index_status_of ret (px_has_data p') (ir_errors (px_result p'))"
proof -
  let ?p1 = "save_compile_command cmd (clear_index p)" and ?asm = "is_preprocessed_assembly (cc_file cmd)"
  let ?run = "cl_run c (px_directory ?p1) (cc_file cmd) (sanitize_command_line (cl_adjust c (cc_argv cmd))) ?asm"
  define r where "r = fold (run_event (run_sources ?run)) (gl_events ?run) (start_run ?asm ?p1)"
  define q where "q = finish_run (cl_xxh3 c) ?run r"
  have "run_ok (start_run ?asm ?p1)"
    unfolding run_ok_def using clear_index_ok [of cmd p]
    by (intro exI [of _ "[]"]) (simp add: start_run_def errors_of_def warnings_of_def)
  then have "run_ok r" unfolding r_def by (intro fold_ok [where Q = run_ok] run_event_ok)
  then obtain D where D: "parser_ok D (rn_parser r)" "rn_errors r = word_of_nat (length (errors_of D))"
    "rn_warnings r = word_of_nat (length (warnings_of D))" by (auto simp: run_ok_def)
  have local: "no_locals q" if "\<not> px_include_local p"
  proof -
    have "no_locals (rn_parser (start_run ?asm ?p1))"
      using that by (simp add: start_run_def save_compile_command_def clear_index_def create_parser_def no_locals_def Let_def)
    then have "no_locals (rn_parser r)"
      unfolding r_def by (rule fold_ok [where Q = "\<lambda>r. no_locals (rn_parser r)", rotated]) (rule no_locals_event)
    then show ?thesis by (simp add: q_def no_locals_finish)
  qed
  from finish_run_ok [OF D(1)] have q: "parser_ok D q" by (simp add: q_def)
  let ?res = "\<lparr>ir_status = index_status_of (gl_ret ?run) (px_has_data q) (rn_errors r), ir_warnings = rn_warnings r,
      ir_errors = rn_errors r, ir_fatal = (if rn_fatal r then 1 else 0)\<rparr>"
  let ?p3 = "q\<lparr>px_result := ?res\<rparr>"
  have p': "p' = rebuild_diagnostics (if px_has_data ?p3 then rebuild_records (cl_xxh3 c) ?p3 else ?p3)" "ret = gl_ret ?run"
    using assms unfolding index_command_def option.case Let_def r_def q_def by (auto split: if_splits)
  have fields: "px_diagnostics p' = D" "px_files p' = px_files q" "px_symbols p' = px_symbols q" "px_uses p' = px_uses q"
    "px_signatures p' = px_signatures q" "px_result p' = ?res" "px_has_data p' = px_has_data q"
    using q by (simp_all add: p'(1) rebuild_diagnostics_def rebuild_records_def parser_ok_def)
  show ?thesis
  proof (rule that [of q])
    show "px_index p' = (if px_has_data p' then px_index (rebuild_records (cl_xxh3 c) q) else empty_index)"
      using q fields(7) by (simp add: p'(1) rebuild_diagnostics_def rebuild_records_def parser_ok_def)
    show "px_diagnostic_records p' = map (\<lambda>d. d\<lparr>dg_message := c_text (dg_message d), dg_file := c_text (dg_file d)\<rparr>) (px_diagnostics p')"
      using q by (simp add: p'(1) rebuild_diagnostics_def rebuild_records_def)
  qed (simp_all add: fields q local D(2,3) p'(2))
qed

lemma index_command_fingerprints:
  assumes "index_command c (Some cmd) p = (ret, p')" and "cc_argv cmd \<noteq> []" and "px_has_data p'"
  shows "px_index (rebuild_fingerprints blake3 p') =
    px_index (rebuild_fingerprints blake3 (rebuild_records (cl_xxh3 c) p'))"
proof -
  obtain q where q: "px_files p' = px_files q" "px_symbols p' = px_symbols q" "px_uses p' = px_uses q"
    "px_signatures p' = px_signatures q"
    "px_index p' = (if px_has_data p' then px_index (rebuild_records (cl_xxh3 c) q) else empty_index)"
    by (rule index_command_shape [OF assms(1,2)])
  then show ?thesis
    using assms(3) by (simp add: rebuild_fingerprints_def rebuild_records_def collect_fingerprints_def Let_def)
qed

text \<open>
  C11. The index that a command leaves is well formed whatever Clang reports: both lists of fingerprints
  have an entry for every file, and every symbol, use and signature gives the position of the
  fingerprint of its own file. This is what the store assumes of an index.
\<close>

theorem index_files_match:
  assumes "index_command c (Some cmd) p = (ret, p')" and "cc_argv cmd \<noteq> []"
    and "ix = px_index (rebuild_fingerprints blake3 p')"
  shows "fingerprints_ok ix il \<and>
    (\<forall>s\<in>set (ix_symbols ix). \<exists>fp. get_file_fingerprint ix (sym_file_index s) il = Some fp \<and> fp_file fp = sym_file s) \<and>
    (\<forall>u\<in>set (ix_uses ix). \<exists>fp. get_file_fingerprint ix (use_file_index u) il = Some fp \<and> fp_file fp = use_file u) \<and>
    (\<forall>g\<in>set (ix_signatures ix). \<exists>fp. get_file_fingerprint ix (sig_file_index g) il = Some fp \<and> fp_file fp = sig_file g)"
proof -
  obtain q where q: "parser_ok (px_diagnostics p') q" "px_files p' = px_files q"
    "px_index p' = (if px_has_data p' then px_index (rebuild_records (cl_xxh3 c) q) else empty_index)"
    by (rule index_command_shape [OF assms(1,2)])
  have entry: "\<exists>fp. get_file_fingerprint ix i il = Some fp \<and> fp_file fp = c_text (px_files q ! i)" if "i < length (px_files q)" for i
    using that fingerprints_hash_streams [of i p' blake3] index_files_length [of blake3 p'] q(2) assms(3)
    by (auto simp: get_file_fingerprint_def Let_def)
  have lists: "ix_symbols ix = ix_symbols (px_index p')" "ix_uses ix = ix_uses (px_index p')"
    "ix_signatures ix = ix_signatures (px_index p')"
    by (simp_all add: assms(3) rebuild_fingerprints_def Let_def)
  have at: "\<exists>fp. get_file_fingerprint ix (loc_file_index (px_files q) l) il = Some fp \<and> fp_file fp = loc_file l"
    if "located (px_files q) l" for l
    using located_index [OF that] entry [of "loc_file_index (px_files q) l"] by auto
  have "fingerprints_ok ix il"
    using entry index_files_length [of blake3 p'] q(2) assms(3)
    by (fastforce simp: fingerprints_ok_def file_fingerprint_count_def)
  moreover have "\<exists>fp. get_file_fingerprint ix (sym_file_index s) il = Some fp \<and> fp_file fp = sym_file s" if "s \<in> set (ix_symbols ix)" for s
    using that q(1,3) at
    by (auto simp: lists rebuild_records_def empty_index_def symbol_record_def parser_ok_def split: if_splits)
  moreover have "\<exists>fp. get_file_fingerprint ix (use_file_index s) il = Some fp \<and> fp_file fp = use_file s" if "s \<in> set (ix_uses ix)" for s
    using that q(1,3) at
    by (auto simp: lists rebuild_records_def empty_index_def use_record_def parser_ok_def split: if_splits)
  moreover have "\<exists>fp. get_file_fingerprint ix (sig_file_index s) il = Some fp \<and> fp_file fp = sig_file s" if "s \<in> set (ix_signatures ix)" for s
    using that q(1,3) at
    by (auto simp: lists rebuild_records_def empty_index_def signature_record_def parser_ok_def split: if_splits)
  ultimately show ?thesis by blast
qed

lemma clear_index_cong:
  assumes "px_scope q = px_scope p" "px_details q = px_details p" "px_include_local q = px_include_local p"
    "px_points_to q = px_points_to p"
  shows "index_command c (Some cmd) q = index_command c (Some cmd) p \<or> cc_argv cmd = []"
proof -
  have "clear_index q = clear_index p" using assms by (simp add: clear_index_def)
  then show ?thesis by (simp add: index_command_def)
qed

text \<open>
  C10. The report on a command is truthful: it is clean exactly when Clang returned 0, the index was built
  and no error was reported, and failed exactly when no index was built, which is then empty; the
  numbers of errors and warnings are those among the diagnostics kept; and apart from its settings
  nothing of what the parser did before matters.
\<close>

theorem index_command_truthful:
  assumes "index_command c (Some cmd) p = (ret, p')" and "cc_argv cmd \<noteq> []"
  shows "(ir_status (px_result p') = INDEX_CLEAN \<longleftrightarrow> ret = 0 \<and> px_has_data p' \<and> ir_errors (px_result p') = 0) \<and>
    (ir_status (px_result p') = INDEX_FAILED \<longleftrightarrow> \<not> px_has_data p') \<and>
    (ir_status (px_result p') = INDEX_FAILED \<longrightarrow> px_index p' = empty_index) \<and>
    ir_errors (px_result p') = word_of_nat (length (errors_of (px_diagnostic_records p'))) \<and>
    ir_warnings (px_result p') = word_of_nat (length (warnings_of (px_diagnostic_records p'))) \<and>
    (\<forall>q. px_scope q = px_scope p \<longrightarrow> px_details q = px_details p \<longrightarrow> px_include_local q = px_include_local p \<longrightarrow>
       px_points_to q = px_points_to p \<longrightarrow> index_command c (Some cmd) q = (ret, p'))"
proof -
  obtain q where q: "px_index p' = (if px_has_data p' then px_index (rebuild_records (cl_xxh3 c) q) else empty_index)"
    "px_diagnostic_records p' = map (\<lambda>d. d\<lparr>dg_message := c_text (dg_message d), dg_file := c_text (dg_file d)\<rparr>) (px_diagnostics p')"
    "ir_errors (px_result p') = word_of_nat (length (errors_of (px_diagnostics p')))"
    "ir_warnings (px_result p') = word_of_nat (length (warnings_of (px_diagnostics p')))"
    "ir_status (px_result p') = index_status_of ret (px_has_data p') (ir_errors (px_result p'))"
    by (rule index_command_shape [OF assms])
  have "length (errors_of (px_diagnostic_records p')) = length (errors_of (px_diagnostics p'))"
    "length (warnings_of (px_diagnostic_records p')) = length (warnings_of (px_diagnostics p'))"
    by (simp_all add: q(2) errors_of_def warnings_of_def filter_map comp_def)
  moreover have "index_command c (Some cmd) r = (ret, p')" if "px_scope r = px_scope p" "px_details r = px_details p"
    "px_include_local r = px_include_local p" "px_points_to r = px_points_to p" for r
    using clear_index_cong [OF that, of c cmd] assms by simp
  ultimately show ?thesis
    using q(1,3,4,5) by (auto simp: index_status_of_def)
qed

lemma local_items:
  assumes "no_locals p" "ix = px_index (rebuild_records xxh3 p)"
  shows "file_items True ix = file_items False ix"
proof -
  have "\<not> item_local x" if "x \<in> set (index_items ix)" for x
    using that assms by (auto simp: index_items_def rebuild_records_def symbol_record_def use_record_def no_locals_def list_all_iff)
  then show ?thesis by (auto simp: file_items_def fun_eq_iff intro: filter_cong)
qed

text \<open>
  C8. When local declarations are not to be included, a command leaves an index in which nothing is local,
  so the two fingerprints of every file are the same.
\<close>

theorem locals_left_out:
  assumes "index_command c (Some cmd) p = (ret, p')" and "cc_argv cmd \<noteq> []" and "\<not> px_include_local p"
  shows "(\<forall>s\<in>set (ix_symbols (px_index p')). sym_local s = 0) \<and> (\<forall>u\<in>set (ix_uses (px_index p')). use_local u = 0) \<and>
    ix_fingerprints_all (px_index (rebuild_fingerprints blake3 p')) =
      ix_fingerprints_nonlocal (px_index (rebuild_fingerprints blake3 p'))"
proof -
  obtain q where q: "no_locals q" "px_index p' = (if px_has_data p' then px_index (rebuild_records (cl_xxh3 c) q) else empty_index)"
    using index_command_shape [OF assms(1,2)] assms(3) by metis
  have "\<forall>s\<in>set (ix_symbols (px_index p')). sym_local s = 0" "\<forall>u\<in>set (ix_uses (px_index p')). use_local u = 0"
    using q by (auto simp: rebuild_records_def symbol_record_def use_record_def no_locals_def list_all_iff empty_index_def
        split: if_splits)
  moreover have "file_items True (px_index p') = file_items False (px_index p')"
    using local_items [OF q(1)] q(2) by (auto simp: file_items_def index_items_def empty_index_def)
  then have "ix_fingerprints_all (px_index (rebuild_fingerprints blake3 p')) ! i =
      ix_fingerprints_nonlocal (px_index (rebuild_fingerprints blake3 p')) ! i" if "i < length (px_files p')" for i
    using fingerprints_hash_streams [OF that, of blake3] by (simp add: file_stream_def)
  then have "ix_fingerprints_all (px_index (rebuild_fingerprints blake3 p')) =
      ix_fingerprints_nonlocal (px_index (rebuild_fingerprints blake3 p'))"
    by (intro nth_equalityI) (simp_all add: index_files_length)
  ultimately show ?thesis by blast
qed

end
