(* ===== verification/Builds.thy ===== *)
theory Builds
  imports Parser_Properties
begin

text \<open>
  A history of builds: commands are indexed and their indices stored, one after the other. The
  fingerprints of the parser have one meaning for the whole history, so the store, which
  leaves out the files it holds already, meets its contract each time.
\<close>

definition run_builds :: "(env \<times> store_request) list \<Rightarrow> world \<Rightarrow> world" where
  "run_builds rs w = fold (\<lambda>(e, req) w. snd (index_db_store e req w)) rs w"

text \<open>The index of a request is one that the parser has made of a command; Clang may see other files each time.\<close>

definition parsed_request :: "(string \<Rightarrow> u64) \<Rightarrow> (bytes \<Rightarrow> digest) \<Rightarrow> parser \<Rightarrow> store_request \<Rightarrow> bool" where
  "parsed_request xxh3 blake3 p req \<longleftrightarrow> px_has_data p \<and>
     (\<exists>c cmd p0 ret. cl_xxh3 c = xxh3 \<and> cl_blake3 c = blake3 \<and> cc_argv cmd \<noteq> [] \<and>
        index_command c (Some cmd) p0 = (ret, p) \<and> sr_index req = Some (fe_index (parser_frontend c ret p)))"

lemma parsed_request_faithful:
  assumes "\<forall>p\<in>P. \<forall>paths il. faithful C (px_index (rebuild_fingerprints blake3 (rebuild_records xxh3 p))) paths il"
    and "p \<in> P" "parsed_request xxh3 blake3 p req" "sr_index req = Some ix"
  shows "faithful C ix paths il"
proof -
  obtain c cmd p0 ret where c: "cl_xxh3 c = xxh3" "cl_blake3 c = blake3" "cc_argv cmd \<noteq> []" "px_has_data p"
    "index_command c (Some cmd) p0 = (ret, p)" "sr_index req = Some (fe_index (parser_frontend c ret p))"
    using assms(3) by (auto simp: parsed_request_def)
  then have "ix = px_index (rebuild_fingerprints blake3 (rebuild_records xxh3 p))"
    using index_command_fingerprints [OF c(5,3,4)] assms(4) by (simp add: parser_frontend_def build_file_fingerprints_def)
  with assms(1,2) show ?thesis by blast
qed

lemma run_builds_inv:
  assumes "\<forall>(e, req)\<in>set rs. (\<forall>n db. others e n db = db) \<and> (\<forall>ix paths il. sr_index req = Some ix \<longrightarrow> faithful C ix paths il)"
    and "db_inv C (shared w)"
  shows "db_inv C (shared (run_builds rs w))"
  using assms
proof (induction rs arbitrary: w)
  case (Cons r rs)
  obtain e req where r: "r = (e, req)" by fastforce
  have "db_inv C (shared (snd (index_db_store e req w)))"
    using Cons.prems by (intro store_inv) (auto simp: r)
  then show ?case using Cons.IH [of "snd (index_db_store e req w)"] Cons.prems by (simp add: run_builds_def r)
qed (simp add: run_builds_def)

text \<open>
  C6. Over any history of builds the database says what the commands said: starting from the empty
  database, each store that succeeds, of an index that the parser made, changes the recorded facts
  exactly as its contract says, although it skips the files whose fingerprints it knows. Nothing is
  assumed of the fingerprints but that BLAKE3 has no collision among the streams that were hashed.
\<close>

theorem builds_recorded:
  assumes "\<forall>(e, req)\<in>set (rs @ [(e', req')]). (\<forall>n db. others e n db = db) \<and> (\<exists>p\<in>P. parsed_request xxh3 blake3 p req)"
    and "\<forall>p\<in>P. plain_parser xxh3 own p" and "inj_on blake3 (parser_streams xxh3 P)"
    and "shared w = empty_database"
    and "fst (index_db_store e' req' (run_builds rs w)) = 0"
    and "sr_index req' = Some ix" and "sr_variant req' = Some v" and "request_paths e' req' ix = Some paths"
  shows "abs_db (shared (run_builds (rs @ [(e', req')]) w)) =
    stored_spec v (planned_files (env_fs e') ix paths (sr_main_file req') (sr_include_local req'))
      (index_facts paths (sr_include_local req') ix) (shared (run_builds rs w))"
proof -
  obtain C where C: "\<forall>p\<in>P. \<forall>paths il. faithful C (px_index (rebuild_fingerprints blake3 (rebuild_records xxh3 p))) paths il"
    using one_meaning [OF assms(2,3)] by blast
  have ok: "(\<forall>n db. others e n db = db) \<and> (\<forall>ix paths il. sr_index req = Some ix \<longrightarrow> faithful C ix paths il)"
    if "(e, req) \<in> set (rs @ [(e', req')])" for e req
    using that assms(1) parsed_request_faithful [OF C] by fastforce
  have "db_inv C (shared (run_builds rs w))"
  proof (rule run_builds_inv)
    show "\<forall>(e, req)\<in>set rs. (\<forall>n db. others e n db = db) \<and>
        (\<forall>ix paths il. sr_index req = Some ix \<longrightarrow> faithful C ix paths il)"
      using ok by fastforce
  qed (simp add: assms(4) db_inv_empty)
  then show ?thesis
    using store_alone [of C "run_builds rs w" e' req' ix v paths] assms(5-8) ok [of e' req']
    by (simp add: run_builds_def)
qed

end
