(* ===== verification/Parser_Witnesses.thy ===== *)
theory Parser_Witnesses
  imports Builds Index_Witnesses
begin

text \<open>
  Concrete inputs on which the properties of the parser apply: a file with a macro and a warning,
  indexed and stored twice, and a few lines of assembly.
\<close>

section \<open>One command\<close>

definition sample_sources :: source_manager where
  "sample_sources = \<lparr>sm_spelling = (\<lambda>l. l), sm_presumed = (\<lambda>l. if l = 0 then None else Some (''/r/a.c'', 3, 5)),
     sm_main_file = (\<lambda>_. True), sm_predefined = (\<lambda>_. False), sm_system_header = (\<lambda>_. False),
     sm_character = (\<lambda>_. None), sm_presumed_column = (\<lambda>_. 5)\<rparr>"

text \<open>A function \<open>f\<close> with a local variable \<open>x\<close>, which is a pointer to a function.\<close>

definition sample_decl :: "decl \<Rightarrow> decl_node" where
  "sample_decl d =
     (let name = (if d = 1 then ''f'' else if d = 2 then ''g'' else ''x'') in
      \<lparr>dn_class = (if d \<le> 2 then Class_Function else Class_Var), dn_name = name, dn_usr = Some (''c:'' @ name),
       dn_location = d, dn_contexts = [], dn_in_function = (d > 2), dn_canonical = d, dn_parent = None,
       dn_is_definition = (d \<noteq> 2), dn_definition = None\<rparr>)"

definition sample_ast :: ast where
  "sample_ast = \<lparr>at_sources = sample_sources, at_decl = sample_decl,
     at_value = (\<lambda>d. \<lparr>vn_type = 1, vn_original_type = 1, vn_type_source = None, vn_init = None, vn_cleanup = None,
       vn_alias = None, vn_begin = 1, vn_end = 1, vn_external = False, vn_anon_field = 0, vn_chain = []\<rparr>),
     at_function = (\<lambda>d. \<lparr>fn_has_body = (d = 1), fn_has_prototype = True, fn_parameters = [], fn_return = 1,
       fn_variadic = False, fn_redecls = [d], fn_constructor_attr = False, fn_destructor_attr = False\<rparr>),
     at_record = (\<lambda>d. \<lparr>rd_union = False, rd_template = None, rd_lambda = False, rd_specialized = False,
       rd_pattern = None, rd_members = [], rd_fields = [], rd_brace = 0, rd_typedef_name = False\<rparr>),
     at_type = (\<lambda>t. \<lparr>tn_canonical = t, tn_string = ''int (*)(void)'', tn_typedef = False, tn_written = False,
       tn_record = None, tn_enum = None, tn_function_pointer = True, tn_pointer = True, tn_pointee = 0\<rparr>),
     at_lookup = (\<lambda>_. []), at_expansion = (\<lambda>l. l), at_within = (\<lambda>_ _ _. True), at_macro = (\<lambda>_. False),
     at_offset = (\<lambda>l n. l + n), at_bucket = (\<lambda>ds. ds)\<rparr>"

lemma sample_ast_sources: "at_sources sample_ast = sample_sources"
  by (simp add: sample_ast_def)

definition sample_traversal :: "visit list" where
  "sample_traversal = [Traverse_Function (Some 1) [Visit_Var 3]]"

definition clang_with :: "visit list \<Rightarrow> clang" where
  "clang_with vs = \<lparr>cl_adjust = (\<lambda>argv. argv),
     cl_run = (\<lambda>dir file argv assembly.
       \<lparr>gl_events = [Diagnosed Level_Warning ''unused'' (Some 1),
          Macro_Defined \<lparr>pt_name = Some ''M'', pt_loc = 1\<rparr>
            \<lparr>mi_function_like = False, mi_parameters = [], mi_tokens = [\<lparr>pt_name = Some ''N'', pt_loc = 2\<rparr>]\<rparr> [''N'']],
        gl_finished = True, gl_ast = sample_ast, gl_traversal = vs, gl_ret = 0\<rparr>),
     cl_xxh3 = (\<lambda>_. 17), cl_blake3 = (\<lambda>h. h)\<rparr>"

abbreviation sample_clang :: clang where
  "sample_clang \<equiv> clang_with []"

definition sample_command :: compile_command where
  "sample_command = \<lparr>cc_directory = Some ''/r'', cc_file = ''a.c'', cc_argv = [''cc'', ''a.c'']\<rparr>"

definition sample_parser :: parser where
  "sample_parser = snd (index_command sample_clang (Some sample_command) create_parser)"

lemmas sample_steps = index_command_def clang_with_def sample_command_def save_compile_command_def clear_index_def
  create_parser_def is_preprocessed_assembly_def start_run_def run_event_def handle_diagnostic_def parsed_diagnostic_def
  diagnostic_place_def sample_sources_def macro_defined_def locate_symbol_def locate_use_def index_location_def
  intern_file_def loc_to_file_def add_symbol_in_scope_def add_use_in_scope_def in_scope_def loc_in_scope_def
  add_symbol_def add_use_def macro_symbol_def read_use_def add_replacement_uses_def replacement_use_def add_macro_use_def
  finish_run_def run_sources_def sample_ast_sources rebuild_records_def rebuild_diagnostics_def detailed_usr_def index_status_of_def insort_insert_key_def Let_def

lemmas sample_visits = handle_translation_unit_def finish_points_to_stats_def new_visitor_def on_parser_def on_stats_def
  no_stats_def set_points_to_stats_def

lemma sample_returns: "index_command sample_clang (Some sample_command) create_parser = (0, sample_parser)"
  by (rule prod_eqI) (simp_all add: sample_parser_def, simp add: index_command_def clang_with_def sample_command_def Let_def)

lemma sample_argv: "cc_argv sample_command \<noteq> []"
  by (simp add: sample_command_def)

lemma sample_fields:
  "px_has_data sample_parser" "px_files sample_parser = [''/r/a.c'']"
  "map ps_name (px_symbols sample_parser) = [''M'']" "map pu_name (px_uses sample_parser) = [''N'']" "px_signatures sample_parser = []"
  "px_result sample_parser = \<lparr>ir_status = INDEX_CLEAN, ir_warnings = 1, ir_errors = 0, ir_fatal = 0\<rparr>"
  by (simp_all add: sample_parser_def sample_steps sample_visits)

lemma sample_plain: "plain_parser (\<lambda>_. 17) (\<lambda>_. []) sample_parser"
  by (simp add: sample_parser_def sample_steps sample_visits plain_parser_def plain_symbol_def plain_use_def plain_signature_def plain_identity_def
      c_string_def short_def NUL_def)

theorem fingerprints_faithful_witness:
  "\<exists>C. \<forall>paths il. faithful C (px_index (rebuild_fingerprints id (rebuild_records (\<lambda>_. 17) sample_parser))) paths il"
  using fingerprints_faithful [of "{sample_parser}" "\<lambda>_. 17" "\<lambda>_. []" id] sample_plain by simp

theorem index_files_match_witness:
  "fingerprints_ok (px_index (rebuild_fingerprints id sample_parser)) True \<and> ix_symbols (px_index sample_parser) \<noteq> []"
  using index_files_match [OF sample_returns sample_argv refl, of id True] sample_fields(3)
  by (auto simp: sample_parser_def sample_steps sample_visits)

theorem index_command_truthful_witness:
  "ir_status (px_result sample_parser) = INDEX_CLEAN \<and> length (warnings_of (px_diagnostic_records sample_parser)) = 1"
proof -
  have "ir_warnings (px_result sample_parser) = word_of_nat (length (warnings_of (px_diagnostic_records sample_parser)))"
    using index_command_truthful [OF sample_returns sample_argv] by blast
  then show ?thesis by (simp add: sample_fields) (simp add: sample_parser_def sample_steps sample_visits warnings_of_def)
qed

section \<open>Visits\<close>

lemmas sample_nodes = sample_ast_def sample_decl_def enter_function_def leave_function_def visit_var_def var_references_def
  add_alias_use_def function_usr_def canonical_function_def primary_value_decl_def is_method_def is_field_def decl_name_def
  decl_usr_def is_non_definition_parameter_def skips_local_def

text \<open>The local variable is left out.\<close>

definition local_parser :: parser where
  "local_parser = snd (index_command (clang_with sample_traversal) (Some sample_command) (create_parser\<lparr>px_include_local := False\<rparr>))"

lemma local_returns:
  "index_command (clang_with sample_traversal) (Some sample_command) (create_parser\<lparr>px_include_local := False\<rparr>) = (0, local_parser)"
  by (rule prod_eqI) (simp_all add: local_parser_def, simp add: index_command_def clang_with_def sample_command_def Let_def)

lemma local_symbols: "map sym_name (ix_symbols (px_index local_parser)) = [Some ''M'']"
  by (simp add: local_parser_def sample_traversal_def sample_steps sample_visits sample_nodes symbol_record_def c_str_def
      c_text_def NUL_def)

theorem locals_left_out_witness:
  "map (\<lambda>s. (sym_name s, sym_local s)) (ix_symbols (px_index local_parser)) = [(Some ''M'', 0)]"
proof -
  have "\<forall>s\<in>set (ix_symbols (px_index local_parser)). sym_local s = 0"
    using locals_left_out [OF local_returns sample_argv] by (simp add: create_parser_def)
  with local_symbols show ?thesis by auto
qed

text \<open>A pointer is set to a function.\<close>

theorem points_to_stats_consistent_witness:
  "direct_constraints (px_stats (handle_translation_unit (\<lambda>_. 17) sample_ast
     [Visit_Binary True (Reference_To 3 False) (Address_Of (Reference_To 1 False))] (create_parser\<lparr>px_points_to := True\<rparr>))) = 1 \<and>
   unique_direct_constraints (px_stats (handle_translation_unit (\<lambda>_. 17) sample_ast
     [Visit_Binary True (Reference_To 3 False) (Address_Of (Reference_To 1 False))] (create_parser\<lparr>px_points_to := True\<rparr>))) \<le> 1"
  (is "?direct ?vs = 1 \<and> ?unique ?vs \<le> 1")
proof -
  have "?direct ?vs = 1"
    by (simp add: sample_visits sample_nodes create_parser_def visit_binary_def pointer_decl_def is_value_def
        is_function_pointer_def is_function_def add_points_to_constraints_def null_constant_def add_direct_constraint_def Let_def)
  moreover have "?unique ?vs \<le> ?direct ?vs"
    using points_to_stats_consistent [OF _ refl, of "create_parser\<lparr>px_points_to := True\<rparr>" "\<lambda>_. 17" sample_ast] by simp
  ultimately show ?thesis by simp
qed

section \<open>Two builds\<close>

definition sample_index :: index where
  "sample_index = fe_index (parser_frontend sample_clang 0 sample_parser)"

definition sample_request :: store_request where
  "sample_request = demo_req\<lparr>sr_index := Some sample_index\<rparr>"

definition sample_paths :: stored_paths where
  "sample_paths = \<lparr>sp_root = Some ''/r'', sp_main_file = Some ''a.c'', sp_files = [''a.c'']\<rparr>"

lemma sample_fingerprints:
  "length (ix_fingerprints_nonlocal sample_index) = 1" "fp_file (ix_fingerprints_nonlocal sample_index ! 0) = ''/r/a.c''"
  using fingerprints_hash_streams [of 0 sample_parser id] index_files_length [of id sample_parser]
  by (simp_all add: sample_index_def parser_frontend_def build_file_fingerprints_def sample_fields c_text_def clang_with_def id_def NUL_def)

lemma sample_request_paths: "request_paths demo_env sample_request sample_index = Some sample_paths"
  using sample_fingerprints
  by (simp add: request_paths_def init_stored_paths_def demo_env_def sample_request_def demo_req_def
      file_paths_def file_fingerprint_count_def get_file_fingerprint_def repository_path_def demo_fs_def
      sample_paths_def Let_def upt_rec)

lemma sample_request_fields:
  "sr_index sample_request = Some sample_index" "sr_variant sample_request = Some ''v''"
  "sr_path sample_request = Some ''/db''" "sr_include_local sample_request = False"
  by (simp_all add: sample_request_def demo_req_def)

lemma sample_parsed: "parsed_request (\<lambda>_. 17) (\<lambda>h. h) sample_parser sample_request"
  unfolding parsed_request_def
  using sample_returns sample_argv sample_fields(1) sample_request_fields(1)
  by (intro conjI exI [of _ sample_clang] exI [of _ sample_command] exI [of _ create_parser] exI [of _ 0])
    (simp_all add: sample_index_def, simp_all add: clang_with_def)

lemma sample_stored: "usable (shared w) \<Longrightarrow> fst (index_db_store demo_env sample_request w) = 0"
proof (rule store_live [OF demo_alone(3) _ _ sample_request_fields(3) demo_alone(2) sample_request_fields(1) _
        sample_request_fields(2) _ sample_request_paths])
  show "fingerprints_ok sample_index (sr_include_local sample_request)"
    using sample_fingerprints(1)
    by (simp add: fingerprints_ok_def file_fingerprint_count_def get_file_fingerprint_def sample_request_fields Let_def
        flip: length_greater_0_conv)
qed (simp_all add: demo_alone(1))

theorem builds_recorded_witness:
  "abs_db (shared (run_builds [(demo_env, sample_request), (demo_env, sample_request)] demo_world)) =
    stored_spec ''v'' (planned_files demo_fs sample_index sample_paths (Some ''/r/a.c'') False)
      (index_facts sample_paths False sample_index) (shared (run_builds [(demo_env, sample_request)] demo_world))"
proof -
  have "usable (shared (run_builds [(demo_env, sample_request)] demo_world))"
    using usable_store [OF demo_usable, of demo_env sample_request] by (simp add: run_builds_def demo_alone(1))
  then have "fst (index_db_store demo_env sample_request (run_builds [(demo_env, sample_request)] demo_world)) = 0"
    by (rule sample_stored)
  from builds_recorded [where P = "{sample_parser}" and ?xxh3.0 = "\<lambda>_. 17" and ?blake3.0 = "\<lambda>h. h" and own = "\<lambda>_. []",
      OF _ _ _ _ this sample_request_fields(1,2) sample_request_paths]
  show ?thesis
    using sample_parsed sample_plain
    by (simp add: demo_alone(1) demo_world_def sample_request_fields) (simp add: demo_env_def sample_request_def demo_req_def)
qed

section \<open>Assembly\<close>

definition sample_assembly :: "token list" where
  "sample_assembly =
     [sign_token Tok_Period ''.'', word_token ''type'', word_token ''f'', sign_token Tok_Comma '','',
      sign_token Tok_Other ''@'', word_token ''function'', word_token ''f'', sign_token Tok_Colon '':'',
      word_token ''call'', word_token ''g'']"

lemma sample_label: "labelled sample_assembly i n \<longleftrightarrow> i = 6 \<and> n = ''f''"
proof
  assume l: "labelled sample_assembly i n"
  then have "i < 9" by (simp add: labelled_def sample_assembly_def)
  then have "i = 0 \<or> i = 1 \<or> i = 2 \<or> i = 3 \<or> i = 4 \<or> i = 5 \<or> i = 6 \<or> i = 7 \<or> i = 8" by arith
  with l show "i = 6 \<and> n = ''f''" by (auto simp: labelled_def sample_assembly_def token_defs)
qed (simp add: labelled_def sample_assembly_def token_defs)

lemma sample_spelled: "well_spelled sample_assembly"
  by (simp add: well_spelled_def sample_assembly_def token_defs)

lemma sample_declared: "declares sample_assembly 5 ''f''"
  by (simp add: declares_def type_head_def opens.simps sample_assembly_def token_defs mark_prefixes_def)

lemma sample_functions:
  "{i. \<exists>n. labelled sample_assembly i n \<and> (\<forall>j<i. \<not> labelled sample_assembly j n) \<and> (\<exists>k. declares sample_assembly k n)} = {6}"
  using sample_declared by (auto simp: sample_label)

lemma sample_recorded: "recorded sample_sources create_parser (word_token n)"
  by (simp add: recorded_def create_parser_def loc_in_scope_def sample_sources_def word_token_def)

lemma sample_nothing: "px_symbols create_parser = []" "px_uses create_parser = []"
  by (simp_all add: create_parser_def)

lemma sample_at: "sample_assembly ! 6 = word_token ''f''" "tk_text (word_token n) = n"
  by (simp_all add: sample_assembly_def word_token_def)


theorem asm_functions_exact_witness:
  "map ps_name (px_symbols (snd (observe_all sample_sources sample_assembly create_parser))) = [''f'']"
proof -
  let ?r = "observe_all sample_sources sample_assembly create_parser"
  obtain js where js: "distinct js" "set js = {6}" and
    symbols: "map symbol_facts (px_symbols (snd ?r)) = map symbol_facts (px_symbols create_parser) @
      concat (map (\<lambda>i. if recorded sample_sources create_parser (sample_assembly ! i)
        then [(SYMBOL_FUNCTION, tk_text (sample_assembly ! i), True, False, place sample_sources (sample_assembly ! i))] else []) js)"
    using asm_functions_exact [OF prod.collapse [symmetric] sample_spelled, of sample_sources create_parser]
    unfolding sample_functions by blast
  from js have "js = [6]" by (cases js rule: remdups_adj.cases) auto
  with symbols have "map symbol_facts (px_symbols (snd ?r)) =
      [(SYMBOL_FUNCTION, ''f'', True, False, place sample_sources (sample_assembly ! 6))]"
    by (simp add: sample_recorded sample_nothing sample_at)
  then show ?thesis by (auto simp: symbol_facts_def map_eq_Cons_conv)
qed



end
