(* ===== verification/Spec2Isabelle.thy ===== *)
theory Spec2Isabelle
  imports
    Index_Witnesses
    Reader_Witnesses
    Perf_Trace
    Pipeline_Witnesses
    Print_Properties
    Search_Witnesses
    Tools_Witnesses
    Lsp_Witnesses
    Resolver_Properties
    Update_Properties
    Lsp_Source_Properties
    Mcp_Witnesses
    Parser_Witnesses
begin

text \<open>
  A verification development for semindex, a semantic index of C code kept in SQLite databases.

  \<^bold>\<open>The program.\<close> A command under \<open>src/tools\<close> parses its options and builds a request. The pipeline
  (\<open>lib/semindex_pipeline\<close>) hands it to the parser (\<open>lib/semindex_parser\<close>), which runs Clang on the file
  and yields an index: symbols, uses, signatures of functions and a fingerprint per file. The pipeline finds the repository and its commit
  (\<open>lib/semindex_support\<close>, \<open>lib/semindex_git\<close>) and stores the index in the symbol database
  (\<open>lib/semindex_index_db\<close>) and the compiler command in the command database
  (\<open>lib/semindex_command_db\<close>), or prints the index (\<open>lib/semindex_cmdline\<close>). The reader
  (\<open>lib/semindex_database\<close>) answers the queries of the search commands, whose records the formatter
  of \<open>index_db_output.c\<close> prints. A trace of the phases is kept by \<open>perf_trace.c\<close>. The language
  server (\<open>tools/lsp\<close>) reads JSON-RPC messages (\<open>lib/semindex_protocol\<close> logs them), answers queries
  from the database and from an overlay of files that were indexed but not stored
  (\<open>lib/semindex_semantic\<close>), shows source lines of the working tree or of the recorded commit
  (\<open>lib/semindex_source\<close>), and updates the index when a document is opened or saved
  (\<open>lib/semindex_index_update\<close>, which runs the pipeline). The model context server (\<open>tools/mcp\<close>)
  offers the same queries, bounded searches of the call graph, source lines and reindexing as tools
  to a client; every call of a tool has a thread of its own, a deadline, and can be cancelled.

  \<^bold>\<open>The theories.\<close> In the order of their imports:

  \<^item> Prelude, Output: machine integers, C strings, iteration with early exit; streams of the C
    library that may fail at any write, and the conversions of \<open>printf\<close>.
  \<^item> Tables: the SQL statements on tables as lists of rows, with their laws in locales that each
    database interprets on its own keys.
  \<^item> Semindex_Types: \<open>include/semindex.h\<close>. Names: \<open>lib/semindex_names\<close> and the mode option.
  \<^item> Repository: file system, \<open>repository.c\<close>, \<open>filesystem.c\<close>. Git: \<open>lib/semindex_git\<close>.
  \<^item> Index_Db (rows and statements), Index_Connection (transactions, retries, failures, other
    writers, schema), Index_Staging and Index_Merge (the two halves of \<open>index_db_store\<close>):
    \<open>index_db_writer.c\<close>, function by function.
  \<^item> Index_Contents, Index_Merging, Index_Rows, Index_Store, Index_Spec: the abstract database (the
    facts per variant and path) and the lemmas by which the store implements its contract.
    Index_Properties, Index_Liveness: the properties of the store; Index_Witnesses: a run.
  \<^item> Index_Reader: \<open>index_db_reader.c\<close>; Reader_Properties, Reader_Witnesses.
  \<^item> Json: the three string escapers, and the grammar of JSON documents.
  \<^item> Perf_Trace: \<open>perf_trace.c\<close> with its property.
  \<^item> Command_Db: the command database; Command_Properties, Command_Witnesses.
  \<^item> Pipeline: \<open>index_pipeline.c\<close>; Pipeline_Properties gives its effect as an inductive relation
    with one rule per outcome; Pipeline_Witnesses.
  \<^item> Index_Print: \<open>output_json.c\<close>, \<open>output_dissect.c\<close>; Print_Properties.
  \<^item> Search_Format: \<open>index_db_output.c\<close>; Format_Properties (compiling formats) and
    Source_Properties (the cache of source lines does not show).
  \<^item> Search: \<open>index_db_search.c\<close>, \<open>index_db_callgraph.c\<close>; Search_Properties, Search_Witnesses.
  \<^item> Cmdline: \<open>cmdline.c\<close>, \<open>index_command.c\<close>. Compiler_Command: \<open>compiler_command.c\<close>. Commands:
    \<open>index\<close>, \<open>compiler\<close> and \<open>cc\<close>. Tools: \<open>search\<close>, \<open>callgraph\<close>, \<open>compile-commands\<close> and the launcher.
    Tools_Properties, Tools_Witnesses: what a user of the commands relies on.
  \<^item> Paths, Streams: \<open>std::filesystem::path\<close> and input streams, as far as the C++ code uses them.
    Transport: \<open>lsp_transport.cpp\<close>, \<open>mcp_transport.cpp\<close>, \<open>protocol_logger.cpp\<close>; Transport_Properties.
  \<^item> Source_Resolver: \<open>source_resolver.cpp\<close>; Resolver_Properties. Semantic_Query:
    \<open>semantic_query.cpp\<close> and \<open>lsp_overlay.cpp\<close>. Lsp_Source: \<open>lsp_source.cpp\<close> and
    \<open>lsp_text_position.cpp\<close>; Lsp_Source_Properties.
  \<^item> Index_Update: \<open>lib/semindex_index_update\<close>, \<open>lsp_indexer.cpp\<close> and \<open>server_environment.cpp\<close>;
    Update_Properties gives an update as an inductive relation with one rule per outcome.
  \<^item> Call_Hierarchy: \<open>lsp_call_hierarchy.cpp\<close>. Lsp_Server: the handlers and the dispatcher of
    \<open>lsp_server.cpp\<close>. Lsp_Session: its message loop, with the turns of a session as an inductive
    relation; Lsp_Witnesses: a session.
  \<^item> Mcp_Values: limits, identifiers, cursors, results and paths of \<open>mcp_tools.cpp\<close>. Mcp_Symbols:
    \<open>mcp_symbol_tools.cpp\<close>. Mcp_Graph: \<open>mcp_callgraph_tools.cpp\<close>. Mcp_Tools:
    \<open>mcp_source_tools.cpp\<close> and \<open>McpToolService\<close>. Mcp_Server: \<open>mcp_server.cpp\<close>, with the steps of the main
    thread and of the threads of the calls as an inductive relation. Mcp_Session: the invariants
    of its runs; Mcp_Witnesses: a session.
  \<^item> Parser_State: \<open>semindex_internal.h\<close> and the state of \<open>index_context.cpp\<close>. Fingerprints: its
    fingerprints; Fingerprint_Meaning: what they determine. Asm_Index: \<open>index_asm.cpp\<close>;
    Asm_Properties: the functions and calls of a text of tokens, read off the directives and the
    instructions, and that the automaton finds just these. Ast: what \<open>index_ast.cpp\<close> asks of Clang's tree, with the names, types and uses it
    reads off it; Ast_Visitor and Ast_Traversal: its visitor; Ast_Properties: the invariants that
    the visitor keeps, as a locale, and the calls it records. Parser:
    \<open>index_pp.cpp\<close> and \<open>semindex.cpp\<close>; Parser_Properties. Builds: histories of commands that are
    indexed and stored; Parser_Witnesses.

  \<^bold>\<open>Conventions.\<close> A pointer that may be NULL is an option, a C string a list of bytes, integers
  have their width where it matters. Functions return the code that the C function returns
  together with the new state. A SQLite connection is a state with the committed database, an open
  transaction and a clock; the environment says which call fails and what other processes commit
  between the calls, and properties hold for all of them unless they say otherwise. Failures of
  allocation or binding count as a failure of the call that follows.

  \<^bold>\<open>The properties.\<close> Storing: refinement of the abstract contract, atomicity, invariants, liveness
  without failures, idempotence, and that over any history of builds the fingerprints of the parser
  never make the store skip a file whose records it lacks. The parser: well-formed indices, a truthful
  report, the calls of the syntax tree, the functions and calls of assembly, nothing local unless it is
  asked for. Reading: paging, positions, symmetry of calls, batches, reported (and hidden) failures. Commands: stores are updates of a map, round trips of
  the argument packing. The pipeline reports truthfully. Printing: JSON documents, the merge of the
  dissect form, the renderings of a search. Tools: exit status, transparency of the compiler
  wrapper, programs that the launcher runs. Servers: messages are read as they were written and
  within bounds, every request is answered once, the life cycle, the exit status, source lines that are the ones
  the index speaks of, updates that report what they did, inverse conversions of URIs and columns.

  \<^bold>\<open>Loops.\<close> The busy loop and the loops over \<open>write\<close> may run forever: they are partial functions,
  and None is divergence. The batches, the merge of the dissect form, the scanners of lines,
  characters and headers, the message loop of the language server and the search of the call graph
  terminate by measures. That every run of the model context server is finite is a property. No
  definition uses fuel.

  \<^bold>\<open>Parameters.\<close> Clang is given by the events it reports for a command line, by its syntax tree, that is
  what the accessors of declarations, types and expressions return, and by the order in which it visits
  the nodes; the pipeline's frontend by the index it produces; BLAKE3 and xxh3 are
  functions. GLOB, the runs of statements, libgit2, the dynamic loader, \<open>getopt_long\<close>, the
  environment, \<open>exec\<close>, \<open>realpath\<close>, \<open>stat\<close>, the clock and \<open>write\<close> are arguments of the definitions
  that use them. LLVM's JSON printer and parser and Clang's compilation databases are parameters of
  the servers, and \<open>weakly_canonical\<close>. Whether the request of a tool was stopped is polled by the code
  and may change at every poll: the environment of a call answers the polls in their order, and
  says for each of them what is in the database, which other processes may write meanwhile. Paths
  contain no NUL byte.

  \<^bold>\<open>Not modelled.\<close> Messages on the error stream and help texts; the \<open>main\<close>
  functions of the two servers, which only parse options. The threads of the model context server
  share the transport, the table of requests and their controls; each access to these is one step,
  and the databases that a call sees are given by its environment.
\<close>

end
